(* ===== verification/Prelude.thy ===== *)
theory Prelude
  imports Main
begin

text \<open>
  Shared vocabulary of the development: the types of token types and rule indices, the
  theorem collections, and generic facts on lists that several components use.
\<close>

text \<open>
  The generated C++ code names token types by the enumerators of an unnamed \<open>enum\<close>
  (\<open>port/cpp/TSqlLexer.h\<close>, repeated in \<open>TSqlParser.h\<close>) and passes them as integers;
  end of input is the runtime's \<open>Token::EOF\<close>, which is \<open>-1\<close>.  Rule indices are the
  enumerators of the second \<open>enum\<close> of \<open>TSqlParser.h\<close>.
\<close>

type_synonym token = int
type_synonym rule_id = nat
type_synonym label_id = nat \<comment> \<open>the label of an alternative, numbered in \<open>Label_Ids\<close>\<close>

named_theorems grammar_rules \<open>the defining equations of the rules of TSqlParser.g4\<close>
named_theorems context_classes \<open>the defining equations of the classes of TSqlParser.h\<close>
named_theorems grammar_eval \<open>equations that evaluate the analyses of the grammar\<close>

section \<open>Lists\<close>

lemma list_all_append_iff [simp]:
  "list_all P (xs @ ys) \<longleftrightarrow> list_all P xs \<and> list_all P ys"
  by (induction xs) auto

lemma find_unique:
  assumes "x \<in> set xs" and "distinct (map f xs)"
  shows "find (\<lambda>y. f y = f x) xs = Some x"
  using assms by (induction xs) (auto simp: image_iff)

lemma filter_unique:
  assumes "x \<in> set xs" and "distinct (map f xs)"
  shows "filter (\<lambda>y. f y = f x) xs = [x]"
  using assms
proof (induction xs)
  case (Cons a xs)
  show ?case
  proof (cases "x = a")
    case True
    with Cons.prems have "filter (\<lambda>y. f y = f x) xs = []"
      by (auto simp: filter_empty_conv image_iff)
    with True show ?thesis by simp
  next
    case False
    with Cons.prems have "f a \<noteq> f x" by force
    with Cons False show ?thesis by simp
  qed
qed simp

lemma count_list_pos_iff: "0 < count_list xs x \<longleftrightarrow> x \<in> set xs"
  by (metis count_list_0_iff gr0I less_numeral_extra(3))

end
