(* ===== verification/Grammar.thy ===== *)
theory Grammar
  imports Prelude
begin

text \<open>
  The notation of an ANTLR parser grammar and its meaning: the right-hand side of a rule
  as an EBNF expression, the sequences of children a node of the rule may have (with the
  label each child was bound to), and the parse trees of a grammar.  Sequence, choice,
  the three suffixes and the two kinds of labels are the constructs
  \<open>src/TSqlParser.g4\<close> uses.
\<close>

section \<open>Syntax of a rule\<close>

datatype sym = Tm token | Nt rule_id

datatype label = Assign string | Append string
  \<comment> \<open>\<open>x=\<dots>\<close> and \<open>x+=\<dots>\<close>\<close>

datatype ebnf =
    Sym sym
  | Lab label ebnf
  | Seq "ebnf list"
  | Alt "ebnf list"
  | Opt ebnf
  | Star ebnf
  | Plus ebnf

abbreviation Tok :: "token \<Rightarrow> ebnf" where "Tok t \<equiv> Sym (Tm t)"
abbreviation Ref :: "rule_id \<Rightarrow> ebnf" where "Ref r \<equiv> Sym (Nt r)"

text \<open>
  A rule: its index and its alternatives in the order of the file, each with its
  \<open># label\<close> if it has one.
\<close>

record rule =
  rule_index :: rule_id
  rule_alts :: "(label_id option \<times> ebnf) list"

type_synonym grammar = "rule list"

text \<open>Symbols are ordered, terminals first, so that sets of them are sorted lists.\<close>

instantiation sym :: linorder
begin

definition less_eq_sym :: "sym \<Rightarrow> sym \<Rightarrow> bool" where
  "less_eq_sym a b = (case (a, b) of
     (Tm s, Tm t) \<Rightarrow> s \<le> t | (Tm _, Nt _) \<Rightarrow> True
   | (Nt _, Tm _) \<Rightarrow> False | (Nt q, Nt r) \<Rightarrow> q \<le> r)"

definition less_sym :: "sym \<Rightarrow> sym \<Rightarrow> bool" where
  "less_sym a b = (case (a, b) of
     (Tm s, Tm t) \<Rightarrow> s < t | (Tm _, Nt _) \<Rightarrow> True
   | (Nt _, Tm _) \<Rightarrow> False | (Nt q, Nt r) \<Rightarrow> q < r)"

instance
  by standard (auto simp: less_eq_sym_def less_sym_def split: sym.splits)

end

lemma less_sym_simps [simp]:
  "Tm s < Tm t \<longleftrightarrow> s < t" "Tm s < Nt r" "\<not> Nt r < Tm s" "Nt q < Nt r \<longleftrightarrow> q < r"
  by (simp_all add: less_sym_def)

section \<open>Children of a node\<close>

text \<open>
  A child of a node is a token or the node of a rule, with the label that was bound to it.
  The relation \<open>gen e cs\<close> holds when the expression \<open>e\<close> can produce the children \<open>cs\<close>
  in this order.
\<close>

type_synonym child = "sym \<times> label option"

definition bind_label :: "label \<Rightarrow> child \<Rightarrow> child" where
  "bind_label l c = (fst c, Some l)"

inductive gen :: "ebnf \<Rightarrow> child list \<Rightarrow> bool" and gens :: "ebnf list \<Rightarrow> child list \<Rightarrow> bool" where
  gen_Sym: "gen (Sym s) [(s, None)]"
| gen_Lab: "gen e w \<Longrightarrow> gen (Lab l e) (map (bind_label l) w)"
| gen_Seq: "gens es w \<Longrightarrow> gen (Seq es) w"
| gen_Alt: "e \<in> set es \<Longrightarrow> gen e w \<Longrightarrow> gen (Alt es) w"
| gen_Opt_none: "gen (Opt e) []"
| gen_Opt_some: "gen e w \<Longrightarrow> gen (Opt e) w"
| gen_Star_none: "gen (Star e) []"
| gen_Star_more: "gen e u \<Longrightarrow> gen (Star e) v \<Longrightarrow> gen (Star e) (u @ v)"
| gen_Plus: "gen e u \<Longrightarrow> gen (Star e) v \<Longrightarrow> gen (Plus e) (u @ v)"
| gens_Nil: "gens [] []"
| gens_Cons: "gen e u \<Longrightarrow> gens es v \<Longrightarrow> gens (e # es) (u @ v)"

inductive_simps gen_simps:
  "gen (Sym s) w" "gen (Lab l e) w" "gen (Seq es) w" "gen (Alt es) w"
  "gen (Opt e) w" "gen (Plus e) w" "gens [] w" "gens (e # es) w"

text \<open>The children without their labels.\<close>

definition lang :: "ebnf \<Rightarrow> sym list \<Rightarrow> bool" where
  "lang e w \<longleftrightarrow> (\<exists>cs. gen e cs \<and> map fst cs = w)"

lemma fst_bind_label [simp]: "fst (bind_label l c) = fst c" "fst \<circ> bind_label l = fst"
  by (auto simp: bind_label_def)

lemma lang_Sym [simp]: "lang (Sym s) w \<longleftrightarrow> w = [s]"
  by (auto simp: lang_def gen_simps)

lemma lang_Lab [simp]: "lang (Lab l e) w \<longleftrightarrow> lang e w"
  by (auto simp: lang_def gen_simps)

lemma lang_Alt [simp]: "lang (Alt es) w \<longleftrightarrow> (\<exists>e \<in> set es. lang e w)"
  by (auto simp: lang_def gen_simps)

lemma lang_Opt [simp]: "lang (Opt e) w \<longleftrightarrow> w = [] \<or> lang e w"
  by (auto simp: lang_def gen_simps)

lemma lang_Seq_Nil [simp]: "lang (Seq []) w \<longleftrightarrow> w = []"
  by (auto simp: lang_def gen_simps)

lemma lang_Seq_Cons [simp]:
  "lang (Seq (e # es)) w \<longleftrightarrow> (\<exists>u v. w = u @ v \<and> lang e u \<and> lang (Seq es) v)"
  by (auto simp: lang_def gen_simps) (metis map_append)+

lemma gen_Star_unfold:
  "gen (Star e) w \<longleftrightarrow> w = [] \<or> (\<exists>u v. w = u @ v \<and> gen e u \<and> gen (Star e) v)"
  by (subst gen.simps) auto

lemma lang_Plus [simp]:
  "lang (Plus e) w \<longleftrightarrow> (\<exists>u v. w = u @ v \<and> lang e u \<and> lang (Star e) v)"
  by (auto simp: lang_def gen_simps) (metis map_append)+

lemma lang_Star_Nil [simp]: "lang (Star e) []"
  by (auto simp: lang_def intro: gen_Star_none)

lemma lang_Star_append: "lang e u \<Longrightarrow> lang (Star e) v \<Longrightarrow> lang (Star e) (u @ v)"
  by (auto simp: lang_def) (metis gen_Star_more map_append)

lemma gen_Star_Cons_split:
  assumes "gen f w" and "f = Star e" and "map fst w = s # x"
  shows "\<exists>u v. x = u @ v \<and> lang e (s # u) \<and> lang (Star e) v"
  using assms
proof (induction arbitrary: x rule: gen_gens.inducts(1) [where ?P2.0 = "\<lambda>_ _. True"])
  case (gen_Star_more e' u v)
  show ?case
  proof (cases u)
    case Nil
    with gen_Star_more show ?thesis by simp
  next
    case (Cons c u')
    with gen_Star_more have "x = map fst u' @ map fst v" and "lang e (s # map fst u')"
      and "lang (Star e) (map fst v)"
      by (auto simp: lang_def)
    then show ?thesis by blast
  qed
qed auto

lemma lang_Star_Cons:
  "lang (Star e) (s # x) \<longleftrightarrow> (\<exists>u v. x = u @ v \<and> lang e (s # u) \<and> lang (Star e) v)"
  (is "?l \<longleftrightarrow> ?r")
proof
  assume ?l
  then have "\<exists>cs. gen (Star e) cs \<and> map fst cs = s # x" by (simp only: lang_def)
  then show ?r by (elim exE conjE) (rule gen_Star_Cons_split [OF _ refl])
next
  assume ?r
  then obtain u v where "s # x = (s # u) @ v" and "lang e (s # u)" and "lang (Star e) v" by auto
  then show ?l using lang_Star_append by metis
qed

section \<open>Deciding the children by derivatives\<close>

fun nullb :: "ebnf \<Rightarrow> bool" where
  "nullb (Sym s) = False"
| "nullb (Lab l e) = nullb e"
| "nullb (Seq es) = list_all nullb es"
| "nullb (Alt es) = list_ex nullb es"
| "nullb (Opt e) = True"
| "nullb (Star e) = True"
| "nullb (Plus e) = nullb e"

lemma lang_Seq_empty: "lang (Seq es) [] \<longleftrightarrow> (\<forall>e \<in> set es. lang e [])"
  by (induction es) auto

lemma nullb_iff: "nullb e \<longleftrightarrow> lang e []"
  by (induction e) (auto simp: lang_Seq_empty list_all_iff list_ex_iff)

fun der :: "sym \<Rightarrow> ebnf \<Rightarrow> ebnf" where
  "der s (Sym t) = (if s = t then Seq [] else Alt [])"
| "der s (Lab l e) = Lab l (der s e)"
| "der s (Seq []) = Alt []"
| "der s (Seq (e # es)) =
     (if nullb e then Alt [Seq (der s e # es), der s (Seq es)] else Seq (der s e # es))"
| "der s (Alt es) = Alt (map (der s) es)"
| "der s (Opt e) = der s e"
| "der s (Star e) = Seq [der s e, Star e]"
| "der s (Plus e) = Seq [der s e, Star e]"

lemma Cons_eq_append: "s # w = u @ v \<longleftrightarrow> (u = [] \<and> v = s # w) \<or> (\<exists>u'. u = s # u' \<and> w = u' @ v)"
  by (cases u) auto

lemma lang_der: "lang (der s e) w \<longleftrightarrow> lang e (s # w)"
proof (induction s e arbitrary: w rule: der.induct)
  case (4 s e es)
  then show ?case by (auto simp: nullb_iff Cons_eq_append)
next
  case (8 s e)
  then show ?case by (auto simp: Cons_eq_append lang_Star_Cons)
qed (auto simp: Cons_eq_append lang_Star_Cons)

fun accepts :: "ebnf \<Rightarrow> sym list \<Rightarrow> bool" where
  "accepts e [] = nullb e"
| "accepts e (s # w) = accepts (der s e) w"

theorem accepts_iff: "accepts e w \<longleftrightarrow> lang e w"
  by (induction w arbitrary: e) (auto simp: nullb_iff lang_der)

section \<open>Parse trees\<close>

text \<open>
  A node carries its rule and the \<open>#\<close> label of the alternative it was built from (none
  where the rule has no labels), because ANTLR makes one context class for each of these.
\<close>

datatype tree = Leaf token | Node rule_id "label_id option" "tree list"

fun root :: "tree \<Rightarrow> sym" where
  "root (Leaf t) = Tm t"
| "root (Node r l ts) = Nt r"

fun yield :: "tree \<Rightarrow> token list" where
  "yield (Leaf t) = [t]"
| "yield (Node r l ts) = concat (map yield ts)"

definition alts_of :: "grammar \<Rightarrow> rule_id \<Rightarrow> (label_id option \<times> ebnf) list" where
  "alts_of G r = concat (map rule_alts (filter (\<lambda>g. rule_index g = r) G))"

text \<open>The alternatives that share a label, as one expression.\<close>

fun select_label :: "label_id option \<Rightarrow> (label_id option \<times> ebnf) list \<Rightarrow> ebnf list" where
  "select_label l [] = []"
| "select_label l ((k, e) # as) = (if k = l then e # select_label l as else select_label l as)"

definition labelled :: "label_id option \<Rightarrow> (label_id option \<times> ebnf) list \<Rightarrow> ebnf" where
  "labelled l as = Alt (select_label l as)"

definition body_of :: "grammar \<Rightarrow> rule_id \<Rightarrow> label_id option \<Rightarrow> ebnf" where
  "body_of G r l = labelled l (alts_of G r)"

fun valid :: "grammar \<Rightarrow> tree \<Rightarrow> bool" where
  "valid G (Leaf t) = True"
| "valid G (Node r l ts) = (lang (body_of G r l) (map root ts) \<and> (\<forall>t \<in> set ts. valid G t))"

fun check_tree :: "grammar \<Rightarrow> tree \<Rightarrow> bool" where
  "check_tree G (Leaf t) = True"
| "check_tree G (Node r l ts) = (accepts (body_of G r l) (map root ts) \<and> list_all (check_tree G) ts)"

lemma check_tree_iff: "check_tree G t \<longleftrightarrow> valid G t"
  by (induction t) (auto simp: accepts_iff list_all_iff)

lemma set_select_label: "e \<in> set (select_label l as) \<longleftrightarrow> (l, e) \<in> set as"
  by (induction l as rule: select_label.induct) auto

lemma lang_labelled: "lang (labelled l as) w \<longleftrightarrow> (\<exists>e. (l, e) \<in> set as \<and> lang e w)"
  by (auto simp: labelled_def set_select_label)

lemma alts_of_rule:
  assumes "g \<in> set G" and "distinct (map rule_index G)"
  shows "alts_of G (rule_index g) = rule_alts g"
  using filter_unique [OF assms] by (simp add: alts_of_def)

lemma alts_of_in: "a \<in> set (alts_of G r) \<longleftrightarrow> (\<exists>g \<in> set G. rule_index g = r \<and> a \<in> set (rule_alts g))"
  by (auto simp: alts_of_def)

end
