(* ===== verification/Contexts.thy ===== *)
theory Contexts
  imports Grammar
begin

text \<open>
  The declaration of a context class in \<open>src/port/cpp/TSqlParser.h\<close>: its name, its base
  class and its members in the order of the file.
\<close>

text \<open>
  A class is named after a rule (\<open>Tsql_fileContext\<close> is \<open>RuleContext RuleTsql_file\<close>) or after
  the label of an alternative (\<open>COL_NAMEContext\<close> is \<open>LabelContext L_COL_NAME\<close>).
\<close>

datatype class_id = RuleContext rule_id | LabelContext label_id

datatype class_base =
    ParserRuleContext          \<comment> \<open>\<open>antlr4::ParserRuleContext\<close>\<close>
  | ContextClass rule_id       \<comment> \<open>the class of a rule with labelled alternatives\<close>

datatype cpp_member =
    Constructor                   \<comment> \<open>\<open>X(antlr4::ParserRuleContext *parent, size_t invokingState)\<close>\<close>
  | DefaultConstructor            \<comment> \<open>\<open>X() = default\<close>\<close>
  | ConstructorFrom rule_id       \<comment> \<open>\<open>X(BaseContext *ctx)\<close>\<close>
  | CopyFrom rule_id              \<comment> \<open>\<open>void copyFrom(XContext *context)\<close>\<close>
  | UsingCopyFrom                 \<comment> \<open>\<open>using antlr4::ParserRuleContext::copyFrom\<close>\<close>
  | TokenField string             \<comment> \<open>\<open>antlr4::Token *f = nullptr\<close>\<close>
  | ContextField string rule_id   \<comment> \<open>\<open>TSqlParser::XContext *f = nullptr\<close>\<close>
  | ContextListField string rule_id \<comment> \<open>\<open>std::vector<XContext *> f\<close>\<close>
  | GetRuleIndex                  \<comment> \<open>\<open>virtual size_t getRuleIndex() const override\<close>\<close>
  | TerminalGet token             \<comment> \<open>\<open>antlr4::tree::TerminalNode *T()\<close>\<close>
  | TerminalAll token             \<comment> \<open>\<open>std::vector<antlr4::tree::TerminalNode *> T()\<close>\<close>
  | TerminalNth token             \<comment> \<open>\<open>antlr4::tree::TerminalNode* T(size_t i)\<close>\<close>
  | ContextGet rule_id            \<comment> \<open>\<open>XContext *x()\<close>\<close>
  | ContextAll rule_id            \<comment> \<open>\<open>std::vector<XContext *> x()\<close>\<close>
  | ContextNth rule_id            \<comment> \<open>\<open>XContext* x(size_t i)\<close>\<close>
  | EnterRule                     \<comment> \<open>\<open>virtual void enterRule(\<dots>) override\<close>\<close>
  | ExitRule                      \<comment> \<open>\<open>virtual void exitRule(\<dots>) override\<close>\<close>
  | Accept                        \<comment> \<open>\<open>virtual std::any accept(\<dots>) override\<close>\<close>

record context_class =
  class_id :: class_id
  class_base :: class_base
  members :: "cpp_member list"

end
