(* ===== verification/Profile.thy ===== *)
theory Profile
  imports Grammar
begin

text \<open>
  How often a symbol can occur among the children of a node.  ANTLR's generator declares
  one accessor per symbol of an alternative: a getter that returns one child where the
  symbol occurs at most once, a list getter where it can occur more often.  This theory
  computes that information for an expression, as a list sorted by symbol, and shows that
  it is exact for the language of the expression.
\<close>

datatype mult = One | Many

type_synonym profile = "(sym \<times> mult) list"

fun add_mult :: "mult \<Rightarrow> mult \<Rightarrow> mult" where
  "add_mult a b = Many"

fun max_mult :: "mult \<Rightarrow> mult \<Rightarrow> mult" where
  "max_mult One m = m"
| "max_mult Many m = Many"

fun merge :: "(mult \<Rightarrow> mult \<Rightarrow> mult) \<Rightarrow> profile \<Rightarrow> profile \<Rightarrow> profile" where
  "merge f [] ys = ys"
| "merge f (x # xs) [] = x # xs"
| "merge f ((a, m) # xs) ((b, n) # ys) =
     (if a = b then (a, f m n) # merge f xs ys
      else if a < b then (a, m) # merge f xs ((b, n) # ys)
      else (b, n) # merge f ((a, m) # xs) ys)"

fun many :: "profile \<Rightarrow> profile" where
  "many [] = []"
| "many ((s, m) # p) = (s, Many) # many p"

fun occs :: "ebnf \<Rightarrow> profile" and occs_seq :: "ebnf list \<Rightarrow> profile"
  and occs_alt :: "ebnf list \<Rightarrow> profile" where
  "occs (Sym s) = [(s, One)]"
| "occs (Lab l e) = occs e"
| "occs (Seq es) = occs_seq es"
| "occs (Alt es) = occs_alt es"
| "occs (Opt e) = occs e"
| "occs (Star e) = many (occs e)"
| "occs (Plus e) = many (occs e)"
| "occs_seq [] = []"
| "occs_seq (e # es) = merge add_mult (occs e) (occs_seq es)"
| "occs_alt [] = []"
| "occs_alt (e # es) = merge max_mult (occs e) (occs_alt es)"

section \<open>Profiles as maps\<close>

definition strict :: "profile \<Rightarrow> bool" where
  "strict p \<longleftrightarrow> sorted_wrt (<) (map fst p)"

lemma strict_Nil [simp]: "strict []"
  by (simp add: strict_def)

lemma strict_Cons [simp]: "strict (x # xs) \<longleftrightarrow> (\<forall>y \<in> set xs. fst x < fst y) \<and> strict xs"
  by (auto simp: strict_def)

lemma fst_set_merge: "fst ` set (merge f xs ys) = fst ` set xs \<union> fst ` set ys"
  by (induction f xs ys rule: merge.induct) auto

lemma merge_keys: "y \<in> set (merge f xs ys) \<Longrightarrow> fst y \<in> fst ` set xs \<union> fst ` set ys"
  using fst_set_merge by (metis imageI)

lemma strict_merge: "strict xs \<Longrightarrow> strict ys \<Longrightarrow> strict (merge f xs ys)"
  by (induction f xs ys rule: merge.induct)
     (auto dest!: merge_keys, (force | fastforce dest: order.strict_trans)+)

fun comb :: "(mult \<Rightarrow> mult \<Rightarrow> mult) \<Rightarrow> mult option \<Rightarrow> mult option \<Rightarrow> mult option" where
  "comb f None n = n"
| "comb f (Some m) None = Some m"
| "comb f (Some m) (Some n) = Some (f m n)"

lemma comb_None_right [simp]: "comb f m None = m"
  by (cases m) auto

lemma map_of_smaller: "\<forall>y \<in> set ys. (s :: sym) < fst y \<Longrightarrow> map_of ys s = None"
  by (induction ys) auto

lemma map_of_merge:
  "strict xs \<Longrightarrow> strict ys \<Longrightarrow> map_of (merge f xs ys) s = comb f (map_of xs s) (map_of ys s)"
proof (induction f xs ys rule: merge.induct)
  case (3 f a m xs b n ys)
  consider (eq) "a = b" | (less) "a < b" | (greater) "b < a" by fastforce
  then show ?case
  proof cases
    case eq
    with "3.prems" "3.IH"(1) show ?thesis by auto
  next
    case less
    with "3.prems" have "map_of ys a = None" by (intro map_of_smaller) (auto dest: order.strict_trans)
    with less "3.prems" "3.IH"(2) show ?thesis by auto
  next
    case greater
    with "3.prems" have "map_of xs b = None" by (intro map_of_smaller) (auto dest: order.strict_trans)
    with greater "3.prems" "3.IH"(3) show ?thesis by auto
  qed
qed auto

lemma many_eq: "many p = map (\<lambda>q. (fst q, Many)) p"
  by (induction p rule: many.induct) auto

lemma strict_many [simp]: "strict (many xs) \<longleftrightarrow> strict xs"
  by (induction xs rule: many.induct) (auto simp: many_eq)

lemma strict_occs: "strict (occs e)" and "strict (occs_seq es)" and "strict (occs_alt es)"
  by (induction e and es and es rule: occs_occs_seq_occs_alt.induct)
     (auto simp: strict_merge)

text \<open>The multiplicity of a symbol in an expression.\<close>

definition mult_of :: "ebnf \<Rightarrow> sym \<Rightarrow> mult option" where
  "mult_of e s = map_of (occs e) s"

lemma map_of_many: "map_of (many xs) s = map_option (\<lambda>_. Many) (map_of xs s)"
  by (induction xs rule: many.induct) auto

lemma mult_of_simps [simp]:
  "mult_of (Sym t) s = (if s = t then Some One else None)"
  "mult_of (Lab l e) s = mult_of e s"
  "mult_of (Seq []) s = None"
  "mult_of (Alt []) s = None"
  "mult_of (Opt e) s = mult_of e s"
  "mult_of (Star e) s = map_option (\<lambda>_. Many) (mult_of e s)"
  "mult_of (Plus e) s = map_option (\<lambda>_. Many) (mult_of e s)"
  by (auto simp: mult_of_def map_of_many)

lemma mult_of_Seq [simp]:
  "mult_of (Seq (e # es)) s = comb add_mult (mult_of e s) (mult_of (Seq es) s)"
  using strict_occs [of e] strict_occs [of "Seq es"] by (simp add: mult_of_def map_of_merge)

lemma mult_of_Alt [simp]:
  "mult_of (Alt (e # es)) s = comb max_mult (mult_of e s) (mult_of (Alt es) s)"
  using strict_occs [of e] strict_occs [of "Alt es"] by (simp add: mult_of_def map_of_merge)

section \<open>Soundness: no child escapes the profile\<close>

fun within :: "mult option \<Rightarrow> nat \<Rightarrow> bool" where
  "within None n = (n = 0)"
| "within (Some One) n = (n \<le> 1)"
| "within (Some Many) n = True"

lemma within_Some: "within (Some m) n \<longleftrightarrow> m = Many \<or> n \<le> 1"
  by (cases m) auto

lemma max_mult_Many: "max_mult a b = Many \<longleftrightarrow> a = Many \<or> b = Many"
  by (cases a) auto

lemma within_0 [simp]: "within m 0"
  by (cases m) (auto simp: within_Some)

lemma within_add: "within a m \<Longrightarrow> within b n \<Longrightarrow> within (comb add_mult a b) (m + n)"
  by (cases a; cases b) auto

lemma within_max1: "within a m \<Longrightarrow> within (comb max_mult a b) m"
  by (cases a; cases b) (auto simp: within_Some max_mult_Many)

lemma within_max2: "within b m \<Longrightarrow> within (comb max_mult a b) m"
  by (cases a; cases b) (auto simp: within_Some max_mult_Many)

lemma within_many: "within a m \<Longrightarrow> within (map_option (\<lambda>_. Many) a) n \<Longrightarrow>
    within (map_option (\<lambda>_. Many) a) (m + n)"
  by (cases a) auto

lemma within_Alt: "e \<in> set es \<Longrightarrow> within (mult_of e s) n \<Longrightarrow> within (mult_of (Alt es) s) n"
  by (induction es) (auto intro: within_max1 within_max2)

lemma gen_within:
  "gen e w \<Longrightarrow> within (mult_of e s) (count_list (map fst w) s)"
  "gens es w \<Longrightarrow> within (mult_of (Seq es) s) (count_list (map fst w) s)"
proof (induction rule: gen_gens.inducts)
  case (gen_Alt e es w)
  then show ?case by (blast intro: within_Alt)
next
  case (gens_Cons e u es v)
  then show ?case by (simp add: within_add)
next
  case (gen_Star_more e u v)
  then show ?case by (simp add: within_many)
next
  case (gen_Plus e u v)
  then show ?case by (simp add: within_many)
qed (auto simp: count_list_append)

theorem mult_of_sound: "lang e w \<Longrightarrow> within (mult_of e s) (count_list w s)"
  by (auto simp: lang_def dest: gen_within)

section \<open>Exactness: every multiplicity is reached\<close>

text \<open>An expression without an empty choice produces something.\<close>

fun inhabited :: "ebnf \<Rightarrow> bool" where
  "inhabited (Sym s) = True"
| "inhabited (Lab l e) = inhabited e"
| "inhabited (Seq es) = list_all inhabited es"
| "inhabited (Alt es) = (es \<noteq> [] \<and> list_all inhabited es)"
| "inhabited (Opt e) = inhabited e"
| "inhabited (Star e) = inhabited e"
| "inhabited (Plus e) = inhabited e"

lemma inhabited_Seq: "\<forall>e \<in> set es. \<exists>w. lang e w \<Longrightarrow> \<exists>w. lang (Seq es) w"
proof (induction es)
  case (Cons e es)
  then obtain u v where "lang e u" and "lang (Seq es) v" by auto
  then show ?case by auto
next
  case Nil
  show ?case by (rule exI [of _ "[]"]) simp
qed

lemma lang_Plus_one: "lang e w \<Longrightarrow> lang (Plus e) w"
  using lang_Star_Nil by force

lemma inhabited_lang: "inhabited e \<Longrightarrow> \<exists>w. lang e w"
proof (induction e)
  case (Seq es)
  then show ?case by (intro inhabited_Seq) (auto simp: list_all_iff)
next
  case (Alt es)
  then show ?case by (cases es) auto
next
  case (Star e)
  show ?case using lang_Star_Nil [of e] by (rule exI)
next
  case (Plus e)
  then show ?case by (simp del: lang_Plus) (blast intro: lang_Plus_one)
qed auto

text \<open>The least number of occurrences a multiplicity promises for some choice of children.\<close>

fun reached :: "mult option \<Rightarrow> nat" where
  "reached None = 0"
| "reached (Some One) = 1"
| "reached (Some Many) = 2"

lemma reached_add: "reached (comb add_mult a b) \<le> 2 \<and> (a = None \<longrightarrow> comb add_mult a b = b)
    \<and> (b = None \<longrightarrow> comb add_mult a b = a)"
  by (cases "comb add_mult a b" rule: reached.cases) auto

lemma reached_pos: "a \<noteq> None \<Longrightarrow> 1 \<le> reached a"
  by (cases a rule: reached.cases) auto

lemma reached_add_le: "reached (comb add_mult a b) \<le> reached a + reached b"
  using reached_add [of a b] reached_pos [of a] reached_pos [of b]
  by (cases "a = None"; cases "b = None"; simp)

lemma reached_max: "reached (comb max_mult a b) = max (reached a) (reached b)"
proof (cases a)
  case (Some m)
  then show ?thesis by (cases m; cases b rule: reached.cases) auto
qed simp

lemma reached_many: "reached (map_option (\<lambda>_. Many) a) \<le> 2 * reached a"
  by (cases a rule: reached.cases) auto

definition attains :: "ebnf \<Rightarrow> sym \<Rightarrow> bool" where
  "attains e s \<longleftrightarrow> (\<exists>w. lang e w \<and> reached (mult_of e s) \<le> count_list w s)"

lemma attains_Seq:
  "\<forall>e \<in> set es. attains e s \<Longrightarrow> attains (Seq es) s"
proof (induction es)
  case Nil
  then show ?case by (auto simp: attains_def)
next
  case (Cons e es)
  then obtain u v where "lang e u" "reached (mult_of e s) \<le> count_list u s"
    and "lang (Seq es) v" "reached (mult_of (Seq es) s) \<le> count_list v s"
    by (auto simp: attains_def)
  then have "lang (Seq (e # es)) (u @ v)"
    and "reached (mult_of (Seq (e # es)) s) \<le> count_list (u @ v) s"
    using reached_add_le [of "mult_of e s" "mult_of (Seq es) s"] by (auto simp: count_list_append)
  then show ?case unfolding attains_def by blast
qed

lemma attains_Alt:
  "es \<noteq> [] \<Longrightarrow> \<forall>e \<in> set es. attains e s \<Longrightarrow> attains (Alt es) s"
proof (induction es)
  case (Cons e es)
  from Cons.prems obtain u where u: "lang e u" "reached (mult_of e s) \<le> count_list u s"
    by (auto simp: attains_def)
  show ?case
  proof (cases "reached (mult_of (Alt es) s) \<le> reached (mult_of e s)")
    case True
    with u show ?thesis by (auto simp: attains_def reached_max max_def intro!: exI [of _ u])
  next
    case False
    then have "es \<noteq> []" by auto
    with Cons have "attains (Alt es) s" by simp
    with False show ?thesis unfolding attains_def by (force simp: reached_max max_def)
  qed
qed simp

lemma attains_twice:
  assumes "attains e s"
  shows "attains (Star e) s" and "attains (Plus e) s"
proof -
  from assms obtain u where u: "lang e u" "reached (mult_of e s) \<le> count_list u s"
    by (auto simp: attains_def)
  have "lang (Star e) (u @ u @ [])"
    using u(1) by (intro lang_Star_append lang_Star_Nil)
  moreover have "lang (Plus e) (u @ u)"
    using u(1) lang_Star_append [OF u(1) lang_Star_Nil] by auto
  moreover have "reached (map_option (\<lambda>_. Many) (mult_of e s)) \<le> count_list (u @ u) s"
    using u(2) reached_many [of "mult_of e s"] by (simp add: count_list_append)
  ultimately show "attains (Star e) s" and "attains (Plus e) s"
    unfolding attains_def mult_of_simps append_Nil2 by blast+
qed

theorem mult_of_exact: "inhabited e \<Longrightarrow> attains e s"
proof (induction e)
  case (Seq es)
  then show ?case by (intro attains_Seq) (auto simp: list_all_iff)
next
  case (Alt es)
  then show ?case by (intro attains_Alt) (auto simp: list_all_iff)
next
  case (Opt e)
  then show ?case by (auto simp: attains_def)
next
  case (Sym t)
  then show ?case by (auto simp: attains_def)
next
  case (Lab l e)
  then show ?case by (auto simp: attains_def)
qed (simp_all add: attains_twice)

end
