(* ===== verification/Accessors.thy ===== *)
theory Accessors
  imports Contexts Profile
begin

text \<open>
  What a context class promises about the children of its nodes, read off its member list,
  and what it takes for the class to fit the alternatives of a rule: the getters are those
  of the profile, each list getter has its indexed overload, and the label fields are those
  of the labels.
\<close>

section \<open>Getters\<close>

lemma less_eq_sym_simps [simp]:
  "Tm s \<le> Tm t \<longleftrightarrow> s \<le> t" "Tm s \<le> Nt r" "\<not> Nt r \<le> Tm s" "Nt q \<le> Nt r \<longleftrightarrow> q \<le> r"
  by (simp_all add: less_eq_sym_def)

fun getter :: "cpp_member \<Rightarrow> (sym \<times> mult) option" where
  "getter (TerminalGet t) = Some (Tm t, One)"
| "getter (TerminalAll t) = Some (Tm t, Many)"
| "getter (ContextGet r) = Some (Nt r, One)"
| "getter (ContextAll r) = Some (Nt r, Many)"
| "getter m = None"

fun getters :: "cpp_member list \<Rightarrow> profile" where
  "getters [] = []"
| "getters (m # ms) = (case getter m of None \<Rightarrow> getters ms | Some g \<Rightarrow> g # getters ms)"

text \<open>A list getter is directly followed by its indexed overload, which occurs nowhere else.\<close>

fun list_getter :: "cpp_member \<Rightarrow> sym option" where
  "list_getter (TerminalAll t) = Some (Tm t)"
| "list_getter (ContextAll r) = Some (Nt r)"
| "list_getter m = None"

fun nth_getter :: "cpp_member \<Rightarrow> sym option" where
  "nth_getter (TerminalNth t) = Some (Tm t)"
| "nth_getter (ContextNth r) = Some (Nt r)"
| "nth_getter m = None"

fun paired :: "cpp_member list \<Rightarrow> bool" where
  "paired [] = True"
| "paired [m] = (list_getter m = None \<and> nth_getter m = None)"
| "paired (m # n # ms) = (case list_getter m of
     Some s \<Rightarrow> nth_getter n = Some s \<and> paired ms
   | None \<Rightarrow> nth_getter m = None \<and> paired (n # ms))"

lemma getters_iff: "g \<in> set (getters ms) \<longleftrightarrow> (\<exists>m \<in> set ms. getter m = Some g)"
  by (induction ms) (auto split: option.splits)

section \<open>Label fields\<close>

fun bind_all :: "label \<Rightarrow> profile \<Rightarrow> (label \<times> sym) list" where
  "bind_all l [] = []"
| "bind_all l ((s, m) # p) = (l, s) # bind_all l p"

fun labels :: "ebnf \<Rightarrow> (label \<times> sym) list" and labels_list :: "ebnf list \<Rightarrow> (label \<times> sym) list" where
  "labels (Sym s) = []"
| "labels (Lab l e) = bind_all l (occs e)"
| "labels (Seq es) = labels_list es"
| "labels (Alt es) = labels_list es"
| "labels (Opt e) = labels e"
| "labels (Star e) = labels e"
| "labels (Plus e) = labels e"
| "labels_list [] = []"
| "labels_list (e # es) = labels e @ labels_list es"

text \<open>
  The field a label becomes.  A \<open>+=\<close> label on a token would become a vector of tokens; the
  grammar has none, and the header has no such field.
\<close>

fun field_of :: "label \<times> sym \<Rightarrow> cpp_member option" where
  "field_of (Assign x, Tm t) = Some (TokenField x)"
| "field_of (Assign x, Nt r) = Some (ContextField x r)"
| "field_of (Append x, Nt r) = Some (ContextListField x r)"
| "field_of (Append x, Tm t) = None"

fun is_field :: "cpp_member \<Rightarrow> bool" where
  "is_field (TokenField x) = True"
| "is_field (ContextField x r) = True"
| "is_field (ContextListField x r) = True"
| "is_field m = False"

text \<open>
  For a \<open>+=\<close> label the generator also declares the field it assigns before it appends to
  the vector; its name is the name of the rule followed by \<open>Context\<close>.
\<close>

fun scratch_name :: "string \<Rightarrow> bool" where
  "scratch_name [] = False"
| "scratch_name (c # x) = (if c # x = ''Context'' then True else scratch_name x)"

fun scratch_rule :: "cpp_member \<Rightarrow> rule_id option" where
  "scratch_rule (ContextField x r) = (if scratch_name x then Some r else None)"
| "scratch_rule m = None"

fun append_rule :: "cpp_member \<Rightarrow> rule_id option" where
  "append_rule (ContextListField x r) = Some r"
| "append_rule m = None"

definition scratch_fields :: "cpp_member list \<Rightarrow> bool" where
  "scratch_fields ms \<longleftrightarrow> list_all (\<lambda>r. r \<in> set (List.map_filter scratch_rule ms))
     (List.map_filter append_rule ms)"

definition dedup :: "'a list \<Rightarrow> 'a list" where
  "dedup xs = rev (remdups (rev xs))"

definition label_fields :: "ebnf \<Rightarrow> cpp_member option list" where
  "label_fields e = dedup (map field_of (labels e))"

definition declared_fields :: "cpp_member list \<Rightarrow> cpp_member option list" where
  "declared_fields ms = map Some (filter (\<lambda>m. is_field m \<and> scratch_rule m = None) ms)"

lemma set_dedup [simp]: "set (dedup xs) = set xs"
  by (simp add: dedup_def)

section \<open>A class that fits an expression\<close>

text \<open>
  The getters of a class are exact for an expression when they are its profile.  A class
  whose rule is a plain choice between symbols may list them in the order of the choice,
  which avoids sorting the longest list of the header.
\<close>

fun is_sym :: "ebnf \<Rightarrow> sym \<Rightarrow> bool" where
  "is_sym (Sym s) t = (s = t)"
| "is_sym _ t = False"

lemma is_sym_iff: "is_sym e t \<longleftrightarrow> e = Sym t"
  by (cases e) auto

fun aligned :: "ebnf list \<Rightarrow> profile \<Rightarrow> bool" where
  "aligned [] [] = True"
| "aligned (e # es) ((t, m) # gs) = (is_sym e t \<and> m = One \<and> aligned es gs)"
| "aligned _ _ = False"

fun plain_choice :: "ebnf \<Rightarrow> profile \<Rightarrow> bool" where
  "plain_choice (Alt es) gs = aligned es gs"
| "plain_choice _ gs = False"

definition exact_getters :: "profile \<Rightarrow> ebnf \<Rightarrow> bool" where
  "exact_getters gs e = (if plain_choice e gs then True else sort_key fst gs = occs e)"

definition fits :: "context_class \<Rightarrow> ebnf \<Rightarrow> bool" where
  "fits c e \<longleftrightarrow> inhabited e
     \<and> exact_getters (getters (members c)) e
     \<and> paired (members c)
     \<and> declared_fields (members c) = label_fields e
     \<and> scratch_fields (members c)"

lemma aligned_One: "aligned es gs \<Longrightarrow> (s, m) \<in> set gs \<Longrightarrow> m = One"
  by (induction es gs rule: aligned.induct) auto

lemma aligned_mult:
  "aligned es gs \<Longrightarrow> (s, m) \<in> set gs \<longleftrightarrow> mult_of (Alt es) s = Some m"
proof (induction es gs arbitrary: m rule: aligned.induct)
  case (2 e es u n gs)
  then have IH: "\<And>k. (s, k) \<in> set gs \<longleftrightarrow> mult_of (Alt es) s = Some k" by simp
  from 2 have "\<And>k. (s, k) \<in> set gs \<Longrightarrow> k = One" by (auto dest: aligned_One)
  with 2 IH show ?case by (cases "mult_of (Alt es) s") (auto simp: is_sym_iff)
qed auto

lemma exact_getters_iff:
  assumes "exact_getters gs e"
  shows "(s, m) \<in> set gs \<longleftrightarrow> mult_of e s = Some m"
proof (cases "plain_choice e gs")
  case True
  then show ?thesis by (cases e) (auto dest: aligned_mult)
next
  case False
  with assms have "set gs = set (occs e)"
    unfolding exact_getters_def by (metis set_sort)
  moreover have "distinct (map fst (occs e))"
    using strict_occs [of e] unfolding strict_def by (simp add: strict_sorted_iff)
  ultimately show ?thesis by (simp add: mult_of_def map_of_eq_Some_iff)
qed

section \<open>A rule and its classes\<close>

text \<open>The members every class of a rule, and every class of a label, has besides those.\<close>

definition structural :: "cpp_member \<Rightarrow> bool" where
  "structural m \<longleftrightarrow> getter m = None \<and> nth_getter m = None \<and> \<not> is_field m"

definition skeleton :: "context_class \<Rightarrow> cpp_member list" where
  "skeleton c = filter structural (members c)"

definition rule_skeleton :: "cpp_member list" where
  "rule_skeleton = [Constructor, GetRuleIndex, EnterRule, ExitRule, Accept]"

definition base_skeleton :: "rule_id \<Rightarrow> cpp_member list" where
  "base_skeleton r = [Constructor, DefaultConstructor, CopyFrom r, UsingCopyFrom, GetRuleIndex]"

definition label_skeleton :: "rule_id \<Rightarrow> cpp_member list" where
  "label_skeleton r = [ConstructorFrom r, EnterRule, ExitRule, Accept]"

definition label_conforms :: "rule \<Rightarrow> context_class \<Rightarrow> bool" where
  "label_conforms g c \<longleftrightarrow> class_base c = ContextClass (rule_index g)
     \<and> skeleton c = label_skeleton (rule_index g)
     \<and> (case class_id c of
          LabelContext l \<Rightarrow> fits c (labelled (Some l) (rule_alts g))
        | RuleContext r \<Rightarrow> False)"

definition has_class :: "context_class list \<Rightarrow> label_id option \<Rightarrow> bool" where
  "has_class cs l = (case l of None \<Rightarrow> False
     | Some x \<Rightarrow> list_ex (\<lambda>c. class_id c = LabelContext x) cs)"

fun conforms :: "rule \<Rightarrow> context_class list \<Rightarrow> bool" where
  "conforms g [] = False"
| "conforms g [c] = (class_id c = RuleContext (rule_index g)
     \<and> class_base c = ParserRuleContext
     \<and> skeleton c = rule_skeleton
     \<and> list_all (\<lambda>a. fst a = None) (rule_alts g)
     \<and> fits c (labelled None (rule_alts g)))"
| "conforms g (c # cs) = (class_id c = RuleContext (rule_index g)
     \<and> class_base c = ParserRuleContext
     \<and> members c = base_skeleton (rule_index g)
     \<and> list_all (\<lambda>a. has_class cs (fst a)) (rule_alts g)
     \<and> list_all (label_conforms g) cs)"

end
