(* ===== verification/Rule_Ids.thy ===== *)
theory Rule_Ids
  imports Prelude
begin

text \<open>
  The rule indices: the second \<open>enum\<close> of \<open>port/cpp/TSqlParser.h\<close>, by their own names (a
  trailing underscore is written as a prime).  Three rules of \<open>TSqlParser.g4\<close> have no
  enumerator there, because the C++ files were generated from an older grammar; they get
  the numbers that follow the last enumerator.
\<close>

abbreviation RuleTsql_file :: rule_id where "RuleTsql_file \<equiv> 0"
abbreviation RuleBatch :: rule_id where "RuleBatch \<equiv> 1"
abbreviation RuleBatch_level_statement :: rule_id where "RuleBatch_level_statement \<equiv> 2"
abbreviation RuleSql_clauses :: rule_id where "RuleSql_clauses \<equiv> 3"
abbreviation RuleDml_clause :: rule_id where "RuleDml_clause \<equiv> 4"
abbreviation RuleDdl_clause :: rule_id where "RuleDdl_clause \<equiv> 5"
abbreviation RuleBackup_statement :: rule_id where "RuleBackup_statement \<equiv> 6"
abbreviation RuleCfl_statement :: rule_id where "RuleCfl_statement \<equiv> 7"
abbreviation RuleBlock_statement :: rule_id where "RuleBlock_statement \<equiv> 8"
abbreviation RuleBreak_statement :: rule_id where "RuleBreak_statement \<equiv> 9"
abbreviation RuleContinue_statement :: rule_id where "RuleContinue_statement \<equiv> 10"
abbreviation RuleGoto_statement :: rule_id where "RuleGoto_statement \<equiv> 11"
abbreviation RuleReturn_statement :: rule_id where "RuleReturn_statement \<equiv> 12"
abbreviation RuleIf_statement :: rule_id where "RuleIf_statement \<equiv> 13"
abbreviation RuleThrow_statement :: rule_id where "RuleThrow_statement \<equiv> 14"
abbreviation RuleThrow_error_number :: rule_id where "RuleThrow_error_number \<equiv> 15"
abbreviation RuleThrow_message :: rule_id where "RuleThrow_message \<equiv> 16"
abbreviation RuleThrow_state :: rule_id where "RuleThrow_state \<equiv> 17"
abbreviation RuleTry_catch_statement :: rule_id where "RuleTry_catch_statement \<equiv> 18"
abbreviation RuleWaitfor_statement :: rule_id where "RuleWaitfor_statement \<equiv> 19"
abbreviation RuleWhile_statement :: rule_id where "RuleWhile_statement \<equiv> 20"
abbreviation RulePrint_statement :: rule_id where "RulePrint_statement \<equiv> 21"
abbreviation RuleRaiseerror_statement :: rule_id where "RuleRaiseerror_statement \<equiv> 22"
abbreviation RuleEmpty_statement :: rule_id where "RuleEmpty_statement \<equiv> 23"
abbreviation RuleAnother_statement :: rule_id where "RuleAnother_statement \<equiv> 24"
abbreviation RuleAlter_application_role :: rule_id where "RuleAlter_application_role \<equiv> 25"
abbreviation RuleAlter_xml_schema_collection :: rule_id where "RuleAlter_xml_schema_collection \<equiv> 26"
abbreviation RuleCreate_application_role :: rule_id where "RuleCreate_application_role \<equiv> 27"
abbreviation RuleDrop_aggregate :: rule_id where "RuleDrop_aggregate \<equiv> 28"
abbreviation RuleDrop_application_role :: rule_id where "RuleDrop_application_role \<equiv> 29"
abbreviation RuleAlter_assembly :: rule_id where "RuleAlter_assembly \<equiv> 30"
abbreviation RuleAlter_assembly_start :: rule_id where "RuleAlter_assembly_start \<equiv> 31"
abbreviation RuleAlter_assembly_clause :: rule_id where "RuleAlter_assembly_clause \<equiv> 32"
abbreviation RuleAlter_assembly_from_clause :: rule_id where "RuleAlter_assembly_from_clause \<equiv> 33"
abbreviation RuleAlter_assembly_from_clause_start :: rule_id where "RuleAlter_assembly_from_clause_start \<equiv> 34"
abbreviation RuleAlter_assembly_drop_clause :: rule_id where "RuleAlter_assembly_drop_clause \<equiv> 35"
abbreviation RuleAlter_assembly_drop_multiple_files :: rule_id where "RuleAlter_assembly_drop_multiple_files \<equiv> 36"
abbreviation RuleAlter_assembly_drop :: rule_id where "RuleAlter_assembly_drop \<equiv> 37"
abbreviation RuleAlter_assembly_add_clause :: rule_id where "RuleAlter_assembly_add_clause \<equiv> 38"
abbreviation RuleAlter_asssembly_add_clause_start :: rule_id where "RuleAlter_asssembly_add_clause_start \<equiv> 39"
abbreviation RuleAlter_assembly_client_file_clause :: rule_id where "RuleAlter_assembly_client_file_clause \<equiv> 40"
abbreviation RuleAlter_assembly_file_name :: rule_id where "RuleAlter_assembly_file_name \<equiv> 41"
abbreviation RuleAlter_assembly_file_bits :: rule_id where "RuleAlter_assembly_file_bits \<equiv> 42"
abbreviation RuleAlter_assembly_as :: rule_id where "RuleAlter_assembly_as \<equiv> 43"
abbreviation RuleAlter_assembly_with_clause :: rule_id where "RuleAlter_assembly_with_clause \<equiv> 44"
abbreviation RuleAlter_assembly_with :: rule_id where "RuleAlter_assembly_with \<equiv> 45"
abbreviation RuleClient_assembly_specifier :: rule_id where "RuleClient_assembly_specifier \<equiv> 46"
abbreviation RuleAssembly_option :: rule_id where "RuleAssembly_option \<equiv> 47"
abbreviation RuleNetwork_file_share :: rule_id where "RuleNetwork_file_share \<equiv> 48"
abbreviation RuleNetwork_computer :: rule_id where "RuleNetwork_computer \<equiv> 49"
abbreviation RuleNetwork_file_start :: rule_id where "RuleNetwork_file_start \<equiv> 50"
abbreviation RuleFile_path :: rule_id where "RuleFile_path \<equiv> 51"
abbreviation RuleFile_directory_path_separator :: rule_id where "RuleFile_directory_path_separator \<equiv> 52"
abbreviation RuleLocal_file :: rule_id where "RuleLocal_file \<equiv> 53"
abbreviation RuleLocal_drive :: rule_id where "RuleLocal_drive \<equiv> 54"
abbreviation RuleMultiple_local_files :: rule_id where "RuleMultiple_local_files \<equiv> 55"
abbreviation RuleMultiple_local_file_start :: rule_id where "RuleMultiple_local_file_start \<equiv> 56"
abbreviation RuleCreate_assembly :: rule_id where "RuleCreate_assembly \<equiv> 57"
abbreviation RuleDrop_assembly :: rule_id where "RuleDrop_assembly \<equiv> 58"
abbreviation RuleAlter_asymmetric_key :: rule_id where "RuleAlter_asymmetric_key \<equiv> 59"
abbreviation RuleAlter_asymmetric_key_start :: rule_id where "RuleAlter_asymmetric_key_start \<equiv> 60"
abbreviation RuleAsymmetric_key_option :: rule_id where "RuleAsymmetric_key_option \<equiv> 61"
abbreviation RuleAsymmetric_key_option_start :: rule_id where "RuleAsymmetric_key_option_start \<equiv> 62"
abbreviation RuleAsymmetric_key_password_change_option :: rule_id where "RuleAsymmetric_key_password_change_option \<equiv> 63"
abbreviation RuleCreate_asymmetric_key :: rule_id where "RuleCreate_asymmetric_key \<equiv> 64"
abbreviation RuleDrop_asymmetric_key :: rule_id where "RuleDrop_asymmetric_key \<equiv> 65"
abbreviation RuleAlter_authorization :: rule_id where "RuleAlter_authorization \<equiv> 66"
abbreviation RuleAuthorization_grantee :: rule_id where "RuleAuthorization_grantee \<equiv> 67"
abbreviation RuleEntity_to :: rule_id where "RuleEntity_to \<equiv> 68"
abbreviation RuleColon_colon :: rule_id where "RuleColon_colon \<equiv> 69"
abbreviation RuleAlter_authorization_start :: rule_id where "RuleAlter_authorization_start \<equiv> 70"
abbreviation RuleAlter_authorization_for_sql_database :: rule_id where "RuleAlter_authorization_for_sql_database \<equiv> 71"
abbreviation RuleAlter_authorization_for_azure_dw :: rule_id where "RuleAlter_authorization_for_azure_dw \<equiv> 72"
abbreviation RuleAlter_authorization_for_parallel_dw :: rule_id where "RuleAlter_authorization_for_parallel_dw \<equiv> 73"
abbreviation RuleClass_type :: rule_id where "RuleClass_type \<equiv> 74"
abbreviation RuleClass_type_for_sql_database :: rule_id where "RuleClass_type_for_sql_database \<equiv> 75"
abbreviation RuleClass_type_for_azure_dw :: rule_id where "RuleClass_type_for_azure_dw \<equiv> 76"
abbreviation RuleClass_type_for_parallel_dw :: rule_id where "RuleClass_type_for_parallel_dw \<equiv> 77"
abbreviation RuleClass_type_for_grant :: rule_id where "RuleClass_type_for_grant \<equiv> 78"
abbreviation RuleDrop_availability_group :: rule_id where "RuleDrop_availability_group \<equiv> 79"
abbreviation RuleAlter_availability_group :: rule_id where "RuleAlter_availability_group \<equiv> 80"
abbreviation RuleAlter_availability_group_start :: rule_id where "RuleAlter_availability_group_start \<equiv> 81"
abbreviation RuleAlter_availability_group_options :: rule_id where "RuleAlter_availability_group_options \<equiv> 82"
abbreviation RuleIp_v4_failover :: rule_id where "RuleIp_v4_failover \<equiv> 83"
abbreviation RuleIp_v6_failover :: rule_id where "RuleIp_v6_failover \<equiv> 84"
abbreviation RuleCreate_or_alter_broker_priority :: rule_id where "RuleCreate_or_alter_broker_priority \<equiv> 85"
abbreviation RuleDrop_broker_priority :: rule_id where "RuleDrop_broker_priority \<equiv> 86"
abbreviation RuleAlter_certificate :: rule_id where "RuleAlter_certificate \<equiv> 87"
abbreviation RuleAlter_column_encryption_key :: rule_id where "RuleAlter_column_encryption_key \<equiv> 88"
abbreviation RuleCreate_column_encryption_key :: rule_id where "RuleCreate_column_encryption_key \<equiv> 89"
abbreviation RuleDrop_certificate :: rule_id where "RuleDrop_certificate \<equiv> 90"
abbreviation RuleDrop_column_encryption_key :: rule_id where "RuleDrop_column_encryption_key \<equiv> 91"
abbreviation RuleDrop_column_master_key :: rule_id where "RuleDrop_column_master_key \<equiv> 92"
abbreviation RuleDrop_contract :: rule_id where "RuleDrop_contract \<equiv> 93"
abbreviation RuleDrop_credential :: rule_id where "RuleDrop_credential \<equiv> 94"
abbreviation RuleDrop_cryptograhic_provider :: rule_id where "RuleDrop_cryptograhic_provider \<equiv> 95"
abbreviation RuleDrop_database :: rule_id where "RuleDrop_database \<equiv> 96"
abbreviation RuleDrop_database_audit_specification :: rule_id where "RuleDrop_database_audit_specification \<equiv> 97"
abbreviation RuleDrop_database_encryption_key :: rule_id where "RuleDrop_database_encryption_key \<equiv> 98"
abbreviation RuleDrop_database_scoped_credential :: rule_id where "RuleDrop_database_scoped_credential \<equiv> 99"
abbreviation RuleDrop_default :: rule_id where "RuleDrop_default \<equiv> 100"
abbreviation RuleDrop_endpoint :: rule_id where "RuleDrop_endpoint \<equiv> 101"
abbreviation RuleDrop_external_data_source :: rule_id where "RuleDrop_external_data_source \<equiv> 102"
abbreviation RuleDrop_external_file_format :: rule_id where "RuleDrop_external_file_format \<equiv> 103"
abbreviation RuleDrop_external_library :: rule_id where "RuleDrop_external_library \<equiv> 104"
abbreviation RuleDrop_external_resource_pool :: rule_id where "RuleDrop_external_resource_pool \<equiv> 105"
abbreviation RuleDrop_external_table :: rule_id where "RuleDrop_external_table \<equiv> 106"
abbreviation RuleDrop_event_notifications :: rule_id where "RuleDrop_event_notifications \<equiv> 107"
abbreviation RuleDrop_event_session :: rule_id where "RuleDrop_event_session \<equiv> 108"
abbreviation RuleDrop_fulltext_catalog :: rule_id where "RuleDrop_fulltext_catalog \<equiv> 109"
abbreviation RuleDrop_fulltext_index :: rule_id where "RuleDrop_fulltext_index \<equiv> 110"
abbreviation RuleDrop_fulltext_stoplist :: rule_id where "RuleDrop_fulltext_stoplist \<equiv> 111"
abbreviation RuleDrop_login :: rule_id where "RuleDrop_login \<equiv> 112"
abbreviation RuleDrop_master_key :: rule_id where "RuleDrop_master_key \<equiv> 113"
abbreviation RuleDrop_message_type :: rule_id where "RuleDrop_message_type \<equiv> 114"
abbreviation RuleDrop_partition_function :: rule_id where "RuleDrop_partition_function \<equiv> 115"
abbreviation RuleDrop_partition_scheme :: rule_id where "RuleDrop_partition_scheme \<equiv> 116"
abbreviation RuleDrop_queue :: rule_id where "RuleDrop_queue \<equiv> 117"
abbreviation RuleDrop_remote_service_binding :: rule_id where "RuleDrop_remote_service_binding \<equiv> 118"
abbreviation RuleDrop_resource_pool :: rule_id where "RuleDrop_resource_pool \<equiv> 119"
abbreviation RuleDrop_db_role :: rule_id where "RuleDrop_db_role \<equiv> 120"
abbreviation RuleDrop_route :: rule_id where "RuleDrop_route \<equiv> 121"
abbreviation RuleDrop_rule :: rule_id where "RuleDrop_rule \<equiv> 122"
abbreviation RuleDrop_schema :: rule_id where "RuleDrop_schema \<equiv> 123"
abbreviation RuleDrop_search_property_list :: rule_id where "RuleDrop_search_property_list \<equiv> 124"
abbreviation RuleDrop_security_policy :: rule_id where "RuleDrop_security_policy \<equiv> 125"
abbreviation RuleDrop_sequence :: rule_id where "RuleDrop_sequence \<equiv> 126"
abbreviation RuleDrop_server_audit :: rule_id where "RuleDrop_server_audit \<equiv> 127"
abbreviation RuleDrop_server_audit_specification :: rule_id where "RuleDrop_server_audit_specification \<equiv> 128"
abbreviation RuleDrop_server_role :: rule_id where "RuleDrop_server_role \<equiv> 129"
abbreviation RuleDrop_service :: rule_id where "RuleDrop_service \<equiv> 130"
abbreviation RuleDrop_signature :: rule_id where "RuleDrop_signature \<equiv> 131"
abbreviation RuleDrop_statistics_name_azure_dw_and_pdw :: rule_id where "RuleDrop_statistics_name_azure_dw_and_pdw \<equiv> 132"
abbreviation RuleDrop_symmetric_key :: rule_id where "RuleDrop_symmetric_key \<equiv> 133"
abbreviation RuleDrop_synonym :: rule_id where "RuleDrop_synonym \<equiv> 134"
abbreviation RuleDrop_user :: rule_id where "RuleDrop_user \<equiv> 135"
abbreviation RuleDrop_workload_group :: rule_id where "RuleDrop_workload_group \<equiv> 136"
abbreviation RuleDrop_xml_schema_collection :: rule_id where "RuleDrop_xml_schema_collection \<equiv> 137"
abbreviation RuleDisable_trigger :: rule_id where "RuleDisable_trigger \<equiv> 138"
abbreviation RuleEnable_trigger :: rule_id where "RuleEnable_trigger \<equiv> 139"
abbreviation RuleLock_table :: rule_id where "RuleLock_table \<equiv> 140"
abbreviation RuleTruncate_table :: rule_id where "RuleTruncate_table \<equiv> 141"
abbreviation RuleCreate_column_master_key :: rule_id where "RuleCreate_column_master_key \<equiv> 142"
abbreviation RuleAlter_credential :: rule_id where "RuleAlter_credential \<equiv> 143"
abbreviation RuleCreate_credential :: rule_id where "RuleCreate_credential \<equiv> 144"
abbreviation RuleAlter_cryptographic_provider :: rule_id where "RuleAlter_cryptographic_provider \<equiv> 145"
abbreviation RuleCreate_cryptographic_provider :: rule_id where "RuleCreate_cryptographic_provider \<equiv> 146"
abbreviation RuleCreate_endpoint :: rule_id where "RuleCreate_endpoint \<equiv> 147"
abbreviation RuleEndpoint_encryption_alogorithm_clause :: rule_id where "RuleEndpoint_encryption_alogorithm_clause \<equiv> 148"
abbreviation RuleEndpoint_authentication_clause :: rule_id where "RuleEndpoint_authentication_clause \<equiv> 149"
abbreviation RuleEndpoint_listener_clause :: rule_id where "RuleEndpoint_listener_clause \<equiv> 150"
abbreviation RuleCreate_event_notification :: rule_id where "RuleCreate_event_notification \<equiv> 151"
abbreviation RuleCreate_or_alter_event_session :: rule_id where "RuleCreate_or_alter_event_session \<equiv> 152"
abbreviation RuleEvent_session_predicate_expression :: rule_id where "RuleEvent_session_predicate_expression \<equiv> 153"
abbreviation RuleEvent_session_predicate_factor :: rule_id where "RuleEvent_session_predicate_factor \<equiv> 154"
abbreviation RuleEvent_session_predicate_leaf :: rule_id where "RuleEvent_session_predicate_leaf \<equiv> 155"
abbreviation RuleAlter_external_data_source :: rule_id where "RuleAlter_external_data_source \<equiv> 156"
abbreviation RuleAlter_external_library :: rule_id where "RuleAlter_external_library \<equiv> 157"
abbreviation RuleCreate_external_library :: rule_id where "RuleCreate_external_library \<equiv> 158"
abbreviation RuleAlter_external_resource_pool :: rule_id where "RuleAlter_external_resource_pool \<equiv> 159"
abbreviation RuleCreate_external_resource_pool :: rule_id where "RuleCreate_external_resource_pool \<equiv> 160"
abbreviation RuleAlter_fulltext_catalog :: rule_id where "RuleAlter_fulltext_catalog \<equiv> 161"
abbreviation RuleCreate_fulltext_catalog :: rule_id where "RuleCreate_fulltext_catalog \<equiv> 162"
abbreviation RuleAlter_fulltext_stoplist :: rule_id where "RuleAlter_fulltext_stoplist \<equiv> 163"
abbreviation RuleCreate_fulltext_stoplist :: rule_id where "RuleCreate_fulltext_stoplist \<equiv> 164"
abbreviation RuleAlter_login_sql_server :: rule_id where "RuleAlter_login_sql_server \<equiv> 165"
abbreviation RuleCreate_login_sql_server :: rule_id where "RuleCreate_login_sql_server \<equiv> 166"
abbreviation RuleAlter_login_azure_sql :: rule_id where "RuleAlter_login_azure_sql \<equiv> 167"
abbreviation RuleCreate_login_azure_sql :: rule_id where "RuleCreate_login_azure_sql \<equiv> 168"
abbreviation RuleAlter_login_azure_sql_dw_and_pdw :: rule_id where "RuleAlter_login_azure_sql_dw_and_pdw \<equiv> 169"
abbreviation RuleCreate_login_pdw :: rule_id where "RuleCreate_login_pdw \<equiv> 170"
abbreviation RuleAlter_master_key_sql_server :: rule_id where "RuleAlter_master_key_sql_server \<equiv> 171"
abbreviation RuleCreate_master_key_sql_server :: rule_id where "RuleCreate_master_key_sql_server \<equiv> 172"
abbreviation RuleAlter_master_key_azure_sql :: rule_id where "RuleAlter_master_key_azure_sql \<equiv> 173"
abbreviation RuleCreate_master_key_azure_sql :: rule_id where "RuleCreate_master_key_azure_sql \<equiv> 174"
abbreviation RuleAlter_message_type :: rule_id where "RuleAlter_message_type \<equiv> 175"
abbreviation RuleAlter_partition_function :: rule_id where "RuleAlter_partition_function \<equiv> 176"
abbreviation RuleAlter_partition_scheme :: rule_id where "RuleAlter_partition_scheme \<equiv> 177"
abbreviation RuleAlter_remote_service_binding :: rule_id where "RuleAlter_remote_service_binding \<equiv> 178"
abbreviation RuleCreate_remote_service_binding :: rule_id where "RuleCreate_remote_service_binding \<equiv> 179"
abbreviation RuleCreate_resource_pool :: rule_id where "RuleCreate_resource_pool \<equiv> 180"
abbreviation RuleAlter_resource_governor :: rule_id where "RuleAlter_resource_governor \<equiv> 181"
abbreviation RuleAlter_database_audit_specification :: rule_id where "RuleAlter_database_audit_specification \<equiv> 182"
abbreviation RuleAudit_action_spec_group :: rule_id where "RuleAudit_action_spec_group \<equiv> 183"
abbreviation RuleAudit_action_specification :: rule_id where "RuleAudit_action_specification \<equiv> 184"
abbreviation RuleAction_specification :: rule_id where "RuleAction_specification \<equiv> 185"
abbreviation RuleAudit_class_name :: rule_id where "RuleAudit_class_name \<equiv> 186"
abbreviation RuleAudit_securable :: rule_id where "RuleAudit_securable \<equiv> 187"
abbreviation RuleAlter_db_role :: rule_id where "RuleAlter_db_role \<equiv> 188"
abbreviation RuleCreate_database_audit_specification :: rule_id where "RuleCreate_database_audit_specification \<equiv> 189"
abbreviation RuleCreate_db_role :: rule_id where "RuleCreate_db_role \<equiv> 190"
abbreviation RuleCreate_route :: rule_id where "RuleCreate_route \<equiv> 191"
abbreviation RuleCreate_rule :: rule_id where "RuleCreate_rule \<equiv> 192"
abbreviation RuleAlter_schema_sql :: rule_id where "RuleAlter_schema_sql \<equiv> 193"
abbreviation RuleCreate_schema :: rule_id where "RuleCreate_schema \<equiv> 194"
abbreviation RuleCreate_schema_azure_sql_dw_and_pdw :: rule_id where "RuleCreate_schema_azure_sql_dw_and_pdw \<equiv> 195"
abbreviation RuleAlter_schema_azure_sql_dw_and_pdw :: rule_id where "RuleAlter_schema_azure_sql_dw_and_pdw \<equiv> 196"
abbreviation RuleCreate_search_property_list :: rule_id where "RuleCreate_search_property_list \<equiv> 197"
abbreviation RuleCreate_security_policy :: rule_id where "RuleCreate_security_policy \<equiv> 198"
abbreviation RuleAlter_sequence :: rule_id where "RuleAlter_sequence \<equiv> 199"
abbreviation RuleCreate_sequence :: rule_id where "RuleCreate_sequence \<equiv> 200"
abbreviation RuleAlter_server_audit :: rule_id where "RuleAlter_server_audit \<equiv> 201"
abbreviation RuleCreate_server_audit :: rule_id where "RuleCreate_server_audit \<equiv> 202"
abbreviation RuleAlter_server_audit_specification :: rule_id where "RuleAlter_server_audit_specification \<equiv> 203"
abbreviation RuleCreate_server_audit_specification :: rule_id where "RuleCreate_server_audit_specification \<equiv> 204"
abbreviation RuleAlter_server_configuration :: rule_id where "RuleAlter_server_configuration \<equiv> 205"
abbreviation RuleAlter_server_role :: rule_id where "RuleAlter_server_role \<equiv> 206"
abbreviation RuleCreate_server_role :: rule_id where "RuleCreate_server_role \<equiv> 207"
abbreviation RuleAlter_server_role_pdw :: rule_id where "RuleAlter_server_role_pdw \<equiv> 208"
abbreviation RuleAlter_service :: rule_id where "RuleAlter_service \<equiv> 209"
abbreviation RuleOpt_arg_clause :: rule_id where "RuleOpt_arg_clause \<equiv> 210"
abbreviation RuleCreate_service :: rule_id where "RuleCreate_service \<equiv> 211"
abbreviation RuleAlter_service_master_key :: rule_id where "RuleAlter_service_master_key \<equiv> 212"
abbreviation RuleAlter_symmetric_key :: rule_id where "RuleAlter_symmetric_key \<equiv> 213"
abbreviation RuleCreate_synonym :: rule_id where "RuleCreate_synonym \<equiv> 214"
abbreviation RuleAlter_user :: rule_id where "RuleAlter_user \<equiv> 215"
abbreviation RuleCreate_user :: rule_id where "RuleCreate_user \<equiv> 216"
abbreviation RuleCreate_user_azure_sql_dw :: rule_id where "RuleCreate_user_azure_sql_dw \<equiv> 217"
abbreviation RuleAlter_user_azure_sql :: rule_id where "RuleAlter_user_azure_sql \<equiv> 218"
abbreviation RuleAlter_workload_group :: rule_id where "RuleAlter_workload_group \<equiv> 219"
abbreviation RuleCreate_workload_group :: rule_id where "RuleCreate_workload_group \<equiv> 220"
abbreviation RuleCreate_xml_schema_collection :: rule_id where "RuleCreate_xml_schema_collection \<equiv> 221"
abbreviation RuleCreate_partition_function :: rule_id where "RuleCreate_partition_function \<equiv> 222"
abbreviation RuleCreate_partition_scheme :: rule_id where "RuleCreate_partition_scheme \<equiv> 223"
abbreviation RuleCreate_queue :: rule_id where "RuleCreate_queue \<equiv> 224"
abbreviation RuleQueue_settings :: rule_id where "RuleQueue_settings \<equiv> 225"
abbreviation RuleAlter_queue :: rule_id where "RuleAlter_queue \<equiv> 226"
abbreviation RuleQueue_action :: rule_id where "RuleQueue_action \<equiv> 227"
abbreviation RuleQueue_rebuild_options :: rule_id where "RuleQueue_rebuild_options \<equiv> 228"
abbreviation RuleCreate_contract :: rule_id where "RuleCreate_contract \<equiv> 229"
abbreviation RuleConversation_statement :: rule_id where "RuleConversation_statement \<equiv> 230"
abbreviation RuleMessage_statement :: rule_id where "RuleMessage_statement \<equiv> 231"
abbreviation RuleMerge_statement :: rule_id where "RuleMerge_statement \<equiv> 232"
abbreviation RuleWhen_matches :: rule_id where "RuleWhen_matches \<equiv> 233"
abbreviation RuleMerge_matched :: rule_id where "RuleMerge_matched \<equiv> 234"
abbreviation RuleMerge_not_matched :: rule_id where "RuleMerge_not_matched \<equiv> 235"
abbreviation RuleDelete_statement :: rule_id where "RuleDelete_statement \<equiv> 236"
abbreviation RuleDelete_statement_from :: rule_id where "RuleDelete_statement_from \<equiv> 237"
abbreviation RuleInsert_statement :: rule_id where "RuleInsert_statement \<equiv> 238"
abbreviation RuleInsert_statement_value :: rule_id where "RuleInsert_statement_value \<equiv> 239"
abbreviation RuleReceive_statement :: rule_id where "RuleReceive_statement \<equiv> 240"
abbreviation RuleSelect_statement_standalone :: rule_id where "RuleSelect_statement_standalone \<equiv> 241"
abbreviation RuleSelect_statement :: rule_id where "RuleSelect_statement \<equiv> 242"
abbreviation RuleTime :: rule_id where "RuleTime \<equiv> 243"
abbreviation RuleUpdate_statement :: rule_id where "RuleUpdate_statement \<equiv> 244"
abbreviation RuleOutput_clause :: rule_id where "RuleOutput_clause \<equiv> 245"
abbreviation RuleOutput_dml_list_elem :: rule_id where "RuleOutput_dml_list_elem \<equiv> 246"
abbreviation RuleCreate_database :: rule_id where "RuleCreate_database \<equiv> 247"
abbreviation RuleCreate_index :: rule_id where "RuleCreate_index \<equiv> 248"
abbreviation RuleCreate_index_options :: rule_id where "RuleCreate_index_options \<equiv> 249"
abbreviation RuleRelational_index_option :: rule_id where "RuleRelational_index_option \<equiv> 250"
abbreviation RuleAlter_index :: rule_id where "RuleAlter_index \<equiv> 251"
abbreviation RuleResumable_index_options :: rule_id where "RuleResumable_index_options \<equiv> 252"
abbreviation RuleResumable_index_option :: rule_id where "RuleResumable_index_option \<equiv> 253"
abbreviation RuleReorganize_partition :: rule_id where "RuleReorganize_partition \<equiv> 254"
abbreviation RuleReorganize_options :: rule_id where "RuleReorganize_options \<equiv> 255"
abbreviation RuleReorganize_option :: rule_id where "RuleReorganize_option \<equiv> 256"
abbreviation RuleSet_index_options :: rule_id where "RuleSet_index_options \<equiv> 257"
abbreviation RuleSet_index_option :: rule_id where "RuleSet_index_option \<equiv> 258"
abbreviation RuleRebuild_partition :: rule_id where "RuleRebuild_partition \<equiv> 259"
abbreviation RuleRebuild_index_options :: rule_id where "RuleRebuild_index_options \<equiv> 260"
abbreviation RuleRebuild_index_option :: rule_id where "RuleRebuild_index_option \<equiv> 261"
abbreviation RuleSingle_partition_rebuild_index_options :: rule_id where "RuleSingle_partition_rebuild_index_options \<equiv> 262"
abbreviation RuleSingle_partition_rebuild_index_option :: rule_id where "RuleSingle_partition_rebuild_index_option \<equiv> 263"
abbreviation RuleOn_partitions :: rule_id where "RuleOn_partitions \<equiv> 264"
abbreviation RuleCreate_columnstore_index :: rule_id where "RuleCreate_columnstore_index \<equiv> 265"
abbreviation RuleCreate_columnstore_index_options :: rule_id where "RuleCreate_columnstore_index_options \<equiv> 266"
abbreviation RuleColumnstore_index_option :: rule_id where "RuleColumnstore_index_option \<equiv> 267"
abbreviation RuleCreate_nonclustered_columnstore_index :: rule_id where "RuleCreate_nonclustered_columnstore_index \<equiv> 268"
abbreviation RuleCreate_xml_index :: rule_id where "RuleCreate_xml_index \<equiv> 269"
abbreviation RuleXml_index_options :: rule_id where "RuleXml_index_options \<equiv> 270"
abbreviation RuleXml_index_option :: rule_id where "RuleXml_index_option \<equiv> 271"
abbreviation RuleCreate_or_alter_procedure :: rule_id where "RuleCreate_or_alter_procedure \<equiv> 272"
abbreviation RuleAs_external_name :: rule_id where "RuleAs_external_name \<equiv> 273"
abbreviation RuleCreate_or_alter_trigger :: rule_id where "RuleCreate_or_alter_trigger \<equiv> 274"
abbreviation RuleCreate_or_alter_dml_trigger :: rule_id where "RuleCreate_or_alter_dml_trigger \<equiv> 275"
abbreviation RuleDml_trigger_option :: rule_id where "RuleDml_trigger_option \<equiv> 276"
abbreviation RuleDml_trigger_operation :: rule_id where "RuleDml_trigger_operation \<equiv> 277"
abbreviation RuleCreate_or_alter_ddl_trigger :: rule_id where "RuleCreate_or_alter_ddl_trigger \<equiv> 278"
abbreviation RuleDdl_trigger_operation :: rule_id where "RuleDdl_trigger_operation \<equiv> 279"
abbreviation RuleCreate_or_alter_function :: rule_id where "RuleCreate_or_alter_function \<equiv> 280"
abbreviation RuleFunc_body_returns_select :: rule_id where "RuleFunc_body_returns_select \<equiv> 281"
abbreviation RuleFunc_body_returns_table :: rule_id where "RuleFunc_body_returns_table \<equiv> 282"
abbreviation RuleFunc_body_returns_scalar :: rule_id where "RuleFunc_body_returns_scalar \<equiv> 283"
abbreviation RuleProcedure_param_default_value :: rule_id where "RuleProcedure_param_default_value \<equiv> 284"
abbreviation RuleProcedure_param :: rule_id where "RuleProcedure_param \<equiv> 285"
abbreviation RuleProcedure_option :: rule_id where "RuleProcedure_option \<equiv> 286"
abbreviation RuleFunction_option :: rule_id where "RuleFunction_option \<equiv> 287"
abbreviation RuleCreate_statistics :: rule_id where "RuleCreate_statistics \<equiv> 288"
abbreviation RuleUpdate_statistics :: rule_id where "RuleUpdate_statistics \<equiv> 289"
abbreviation RuleUpdate_statistics_options :: rule_id where "RuleUpdate_statistics_options \<equiv> 290"
abbreviation RuleUpdate_statistics_option :: rule_id where "RuleUpdate_statistics_option \<equiv> 291"
abbreviation RuleCreate_table :: rule_id where "RuleCreate_table \<equiv> 292"
abbreviation RuleTable_indices :: rule_id where "RuleTable_indices \<equiv> 293"
abbreviation RuleTable_options :: rule_id where "RuleTable_options \<equiv> 294"
abbreviation RuleTable_option :: rule_id where "RuleTable_option \<equiv> 295"
abbreviation RuleCreate_table_index_options :: rule_id where "RuleCreate_table_index_options \<equiv> 296"
abbreviation RuleCreate_table_index_option :: rule_id where "RuleCreate_table_index_option \<equiv> 297"
abbreviation RuleCreate_view :: rule_id where "RuleCreate_view \<equiv> 298"
abbreviation RuleView_attribute :: rule_id where "RuleView_attribute \<equiv> 299"
abbreviation RuleAlter_table :: rule_id where "RuleAlter_table \<equiv> 300"
abbreviation RuleSwitch_partition :: rule_id where "RuleSwitch_partition \<equiv> 301"
abbreviation RuleLow_priority_lock_wait :: rule_id where "RuleLow_priority_lock_wait \<equiv> 302"
abbreviation RuleAlter_database :: rule_id where "RuleAlter_database \<equiv> 303"
abbreviation RuleAdd_or_modify_files :: rule_id where "RuleAdd_or_modify_files \<equiv> 304"
abbreviation RuleFilespec :: rule_id where "RuleFilespec \<equiv> 305"
abbreviation RuleAdd_or_modify_filegroups :: rule_id where "RuleAdd_or_modify_filegroups \<equiv> 306"
abbreviation RuleFilegroup_updatability_option :: rule_id where "RuleFilegroup_updatability_option \<equiv> 307"
abbreviation RuleDatabase_optionspec :: rule_id where "RuleDatabase_optionspec \<equiv> 308"
abbreviation RuleAuto_option :: rule_id where "RuleAuto_option \<equiv> 309"
abbreviation RuleChange_tracking_option :: rule_id where "RuleChange_tracking_option \<equiv> 310"
abbreviation RuleChange_tracking_option_list :: rule_id where "RuleChange_tracking_option_list \<equiv> 311"
abbreviation RuleContainment_option :: rule_id where "RuleContainment_option \<equiv> 312"
abbreviation RuleCursor_option :: rule_id where "RuleCursor_option \<equiv> 313"
abbreviation RuleAlter_endpoint :: rule_id where "RuleAlter_endpoint \<equiv> 314"
abbreviation RuleDatabase_mirroring_option :: rule_id where "RuleDatabase_mirroring_option \<equiv> 315"
abbreviation RuleMirroring_set_option :: rule_id where "RuleMirroring_set_option \<equiv> 316"
abbreviation RuleMirroring_partner :: rule_id where "RuleMirroring_partner \<equiv> 317"
abbreviation RuleMirroring_witness :: rule_id where "RuleMirroring_witness \<equiv> 318"
abbreviation RuleWitness_partner_equal :: rule_id where "RuleWitness_partner_equal \<equiv> 319"
abbreviation RulePartner_option :: rule_id where "RulePartner_option \<equiv> 320"
abbreviation RuleWitness_option :: rule_id where "RuleWitness_option \<equiv> 321"
abbreviation RuleWitness_server :: rule_id where "RuleWitness_server \<equiv> 322"
abbreviation RulePartner_server :: rule_id where "RulePartner_server \<equiv> 323"
abbreviation RuleMirroring_host_port_seperator :: rule_id where "RuleMirroring_host_port_seperator \<equiv> 324"
abbreviation RulePartner_server_tcp_prefix :: rule_id where "RulePartner_server_tcp_prefix \<equiv> 325"
abbreviation RulePort_number :: rule_id where "RulePort_number \<equiv> 326"
abbreviation RuleHost :: rule_id where "RuleHost \<equiv> 327"
abbreviation RuleDate_correlation_optimization_option :: rule_id where "RuleDate_correlation_optimization_option \<equiv> 328"
abbreviation RuleDb_encryption_option :: rule_id where "RuleDb_encryption_option \<equiv> 329"
abbreviation RuleDb_state_option :: rule_id where "RuleDb_state_option \<equiv> 330"
abbreviation RuleDb_update_option :: rule_id where "RuleDb_update_option \<equiv> 331"
abbreviation RuleDb_user_access_option :: rule_id where "RuleDb_user_access_option \<equiv> 332"
abbreviation RuleDelayed_durability_option :: rule_id where "RuleDelayed_durability_option \<equiv> 333"
abbreviation RuleExternal_access_option :: rule_id where "RuleExternal_access_option \<equiv> 334"
abbreviation RuleHadr_options :: rule_id where "RuleHadr_options \<equiv> 335"
abbreviation RuleMixed_page_allocation_option :: rule_id where "RuleMixed_page_allocation_option \<equiv> 336"
abbreviation RuleParameterization_option :: rule_id where "RuleParameterization_option \<equiv> 337"
abbreviation RuleRecovery_option :: rule_id where "RuleRecovery_option \<equiv> 338"
abbreviation RuleService_broker_option :: rule_id where "RuleService_broker_option \<equiv> 339"
abbreviation RuleSnapshot_option :: rule_id where "RuleSnapshot_option \<equiv> 340"
abbreviation RuleSql_option :: rule_id where "RuleSql_option \<equiv> 341"
abbreviation RuleTarget_recovery_time_option :: rule_id where "RuleTarget_recovery_time_option \<equiv> 342"
abbreviation RuleTermination :: rule_id where "RuleTermination \<equiv> 343"
abbreviation RuleDrop_index :: rule_id where "RuleDrop_index \<equiv> 344"
abbreviation RuleDrop_relational_or_xml_or_spatial_index :: rule_id where "RuleDrop_relational_or_xml_or_spatial_index \<equiv> 345"
abbreviation RuleDrop_backward_compatible_index :: rule_id where "RuleDrop_backward_compatible_index \<equiv> 346"
abbreviation RuleDrop_procedure :: rule_id where "RuleDrop_procedure \<equiv> 347"
abbreviation RuleDrop_trigger :: rule_id where "RuleDrop_trigger \<equiv> 348"
abbreviation RuleDrop_dml_trigger :: rule_id where "RuleDrop_dml_trigger \<equiv> 349"
abbreviation RuleDrop_ddl_trigger :: rule_id where "RuleDrop_ddl_trigger \<equiv> 350"
abbreviation RuleDrop_function :: rule_id where "RuleDrop_function \<equiv> 351"
abbreviation RuleDrop_statistics :: rule_id where "RuleDrop_statistics \<equiv> 352"
abbreviation RuleDrop_table :: rule_id where "RuleDrop_table \<equiv> 353"
abbreviation RuleDrop_view :: rule_id where "RuleDrop_view \<equiv> 354"
abbreviation RuleCreate_type :: rule_id where "RuleCreate_type \<equiv> 355"
abbreviation RuleDrop_type :: rule_id where "RuleDrop_type \<equiv> 356"
abbreviation RuleRowset_function_limited :: rule_id where "RuleRowset_function_limited \<equiv> 357"
abbreviation RuleOpenquery :: rule_id where "RuleOpenquery \<equiv> 358"
abbreviation RuleOpendatasource :: rule_id where "RuleOpendatasource \<equiv> 359"
abbreviation RuleDeclare_statement :: rule_id where "RuleDeclare_statement \<equiv> 360"
abbreviation RuleXml_declaration :: rule_id where "RuleXml_declaration \<equiv> 361"
abbreviation RuleCursor_statement :: rule_id where "RuleCursor_statement \<equiv> 362"
abbreviation RuleBackup_database :: rule_id where "RuleBackup_database \<equiv> 363"
abbreviation RuleBackup_log :: rule_id where "RuleBackup_log \<equiv> 364"
abbreviation RuleBackup_certificate :: rule_id where "RuleBackup_certificate \<equiv> 365"
abbreviation RuleBackup_master_key :: rule_id where "RuleBackup_master_key \<equiv> 366"
abbreviation RuleBackup_service_master_key :: rule_id where "RuleBackup_service_master_key \<equiv> 367"
abbreviation RuleKill_statement :: rule_id where "RuleKill_statement \<equiv> 368"
abbreviation RuleKill_process :: rule_id where "RuleKill_process \<equiv> 369"
abbreviation RuleKill_query_notification :: rule_id where "RuleKill_query_notification \<equiv> 370"
abbreviation RuleKill_stats_job :: rule_id where "RuleKill_stats_job \<equiv> 371"
abbreviation RuleExecute_statement :: rule_id where "RuleExecute_statement \<equiv> 372"
abbreviation RuleExecute_body_batch :: rule_id where "RuleExecute_body_batch \<equiv> 373"
abbreviation RuleExecute_body :: rule_id where "RuleExecute_body \<equiv> 374"
abbreviation RuleExecute_statement_arg :: rule_id where "RuleExecute_statement_arg \<equiv> 375"
abbreviation RuleExecute_statement_arg_named :: rule_id where "RuleExecute_statement_arg_named \<equiv> 376"
abbreviation RuleExecute_statement_arg_unnamed :: rule_id where "RuleExecute_statement_arg_unnamed \<equiv> 377"
abbreviation RuleExecute_parameter :: rule_id where "RuleExecute_parameter \<equiv> 378"
abbreviation RuleExecute_var_string :: rule_id where "RuleExecute_var_string \<equiv> 379"
abbreviation RuleSecurity_statement :: rule_id where "RuleSecurity_statement \<equiv> 380"
abbreviation RulePrincipal_id :: rule_id where "RulePrincipal_id \<equiv> 381"
abbreviation RuleCreate_certificate :: rule_id where "RuleCreate_certificate \<equiv> 382"
abbreviation RuleExisting_keys :: rule_id where "RuleExisting_keys \<equiv> 383"
abbreviation RulePrivate_key_options :: rule_id where "RulePrivate_key_options \<equiv> 384"
abbreviation RuleGenerate_new_keys :: rule_id where "RuleGenerate_new_keys \<equiv> 385"
abbreviation RuleDate_options :: rule_id where "RuleDate_options \<equiv> 386"
abbreviation RuleOpen_key :: rule_id where "RuleOpen_key \<equiv> 387"
abbreviation RuleClose_key :: rule_id where "RuleClose_key \<equiv> 388"
abbreviation RuleCreate_key :: rule_id where "RuleCreate_key \<equiv> 389"
abbreviation RuleKey_options :: rule_id where "RuleKey_options \<equiv> 390"
abbreviation RuleAlgorithm :: rule_id where "RuleAlgorithm \<equiv> 391"
abbreviation RuleEncryption_mechanism :: rule_id where "RuleEncryption_mechanism \<equiv> 392"
abbreviation RuleDecryption_mechanism :: rule_id where "RuleDecryption_mechanism \<equiv> 393"
abbreviation RuleGrant_permission :: rule_id where "RuleGrant_permission \<equiv> 394"
abbreviation RuleSet_statement :: rule_id where "RuleSet_statement \<equiv> 395"
abbreviation RuleTransaction_statement :: rule_id where "RuleTransaction_statement \<equiv> 396"
abbreviation RuleGo_statement :: rule_id where "RuleGo_statement \<equiv> 397"
abbreviation RuleUse_statement :: rule_id where "RuleUse_statement \<equiv> 398"
abbreviation RuleSetuser_statement :: rule_id where "RuleSetuser_statement \<equiv> 399"
abbreviation RuleReconfigure_statement :: rule_id where "RuleReconfigure_statement \<equiv> 400"
abbreviation RuleShutdown_statement :: rule_id where "RuleShutdown_statement \<equiv> 401"
abbreviation RuleCheckpoint_statement :: rule_id where "RuleCheckpoint_statement \<equiv> 402"
abbreviation RuleDbcc_checkalloc_option :: rule_id where "RuleDbcc_checkalloc_option \<equiv> 403"
abbreviation RuleDbcc_checkalloc :: rule_id where "RuleDbcc_checkalloc \<equiv> 404"
abbreviation RuleDbcc_checkcatalog :: rule_id where "RuleDbcc_checkcatalog \<equiv> 405"
abbreviation RuleDbcc_checkconstraints_option :: rule_id where "RuleDbcc_checkconstraints_option \<equiv> 406"
abbreviation RuleDbcc_checkconstraints :: rule_id where "RuleDbcc_checkconstraints \<equiv> 407"
abbreviation RuleDbcc_checkdb_table_option :: rule_id where "RuleDbcc_checkdb_table_option \<equiv> 408"
abbreviation RuleDbcc_checkdb :: rule_id where "RuleDbcc_checkdb \<equiv> 409"
abbreviation RuleDbcc_checkfilegroup_option :: rule_id where "RuleDbcc_checkfilegroup_option \<equiv> 410"
abbreviation RuleDbcc_checkfilegroup :: rule_id where "RuleDbcc_checkfilegroup \<equiv> 411"
abbreviation RuleDbcc_checktable :: rule_id where "RuleDbcc_checktable \<equiv> 412"
abbreviation RuleDbcc_cleantable :: rule_id where "RuleDbcc_cleantable \<equiv> 413"
abbreviation RuleDbcc_clonedatabase_option :: rule_id where "RuleDbcc_clonedatabase_option \<equiv> 414"
abbreviation RuleDbcc_clonedatabase :: rule_id where "RuleDbcc_clonedatabase \<equiv> 415"
abbreviation RuleDbcc_pdw_showspaceused :: rule_id where "RuleDbcc_pdw_showspaceused \<equiv> 416"
abbreviation RuleDbcc_proccache :: rule_id where "RuleDbcc_proccache \<equiv> 417"
abbreviation RuleDbcc_showcontig_option :: rule_id where "RuleDbcc_showcontig_option \<equiv> 418"
abbreviation RuleDbcc_showcontig :: rule_id where "RuleDbcc_showcontig \<equiv> 419"
abbreviation RuleDbcc_shrinklog :: rule_id where "RuleDbcc_shrinklog \<equiv> 420"
abbreviation RuleDbcc_dbreindex :: rule_id where "RuleDbcc_dbreindex \<equiv> 421"
abbreviation RuleDbcc_dll_free :: rule_id where "RuleDbcc_dll_free \<equiv> 422"
abbreviation RuleDbcc_dropcleanbuffers :: rule_id where "RuleDbcc_dropcleanbuffers \<equiv> 423"
abbreviation RuleDbcc_clause :: rule_id where "RuleDbcc_clause \<equiv> 424"
abbreviation RuleExecute_clause :: rule_id where "RuleExecute_clause \<equiv> 425"
abbreviation RuleDeclare_local :: rule_id where "RuleDeclare_local \<equiv> 426"
abbreviation RuleTable_type_definition :: rule_id where "RuleTable_type_definition \<equiv> 427"
abbreviation RuleTable_type_indices :: rule_id where "RuleTable_type_indices \<equiv> 428"
abbreviation RuleXml_type_definition :: rule_id where "RuleXml_type_definition \<equiv> 429"
abbreviation RuleXml_schema_collection :: rule_id where "RuleXml_schema_collection \<equiv> 430"
abbreviation RuleColumn_def_table_constraints :: rule_id where "RuleColumn_def_table_constraints \<equiv> 431"
abbreviation RuleColumn_def_table_constraint :: rule_id where "RuleColumn_def_table_constraint \<equiv> 432"
abbreviation RuleColumn_definition :: rule_id where "RuleColumn_definition \<equiv> 433"
abbreviation RuleColumn_definition_element :: rule_id where "RuleColumn_definition_element \<equiv> 434"
abbreviation RuleColumn_modifier :: rule_id where "RuleColumn_modifier \<equiv> 435"
abbreviation RuleMaterialized_column_definition :: rule_id where "RuleMaterialized_column_definition \<equiv> 436"
abbreviation RuleColumn_constraint :: rule_id where "RuleColumn_constraint \<equiv> 437"
abbreviation RuleColumn_index :: rule_id where "RuleColumn_index \<equiv> 438"
abbreviation RuleOn_partition_or_filegroup :: rule_id where "RuleOn_partition_or_filegroup \<equiv> 439"
abbreviation RuleTable_constraint :: rule_id where "RuleTable_constraint \<equiv> 440"
abbreviation RuleConnection_node :: rule_id where "RuleConnection_node \<equiv> 441"
abbreviation RulePrimary_key_options :: rule_id where "RulePrimary_key_options \<equiv> 442"
abbreviation RuleForeign_key_options :: rule_id where "RuleForeign_key_options \<equiv> 443"
abbreviation RuleCheck_constraint :: rule_id where "RuleCheck_constraint \<equiv> 444"
abbreviation RuleOn_delete :: rule_id where "RuleOn_delete \<equiv> 445"
abbreviation RuleOn_update :: rule_id where "RuleOn_update \<equiv> 446"
abbreviation RuleAlter_table_index_options :: rule_id where "RuleAlter_table_index_options \<equiv> 447"
abbreviation RuleAlter_table_index_option :: rule_id where "RuleAlter_table_index_option \<equiv> 448"
abbreviation RuleDeclare_cursor :: rule_id where "RuleDeclare_cursor \<equiv> 449"
abbreviation RuleDeclare_set_cursor_common :: rule_id where "RuleDeclare_set_cursor_common \<equiv> 450"
abbreviation RuleDeclare_set_cursor_common_partial :: rule_id where "RuleDeclare_set_cursor_common_partial \<equiv> 451"
abbreviation RuleFetch_cursor :: rule_id where "RuleFetch_cursor \<equiv> 452"
abbreviation RuleSet_special :: rule_id where "RuleSet_special \<equiv> 453"
abbreviation RuleSpecial_list :: rule_id where "RuleSpecial_list \<equiv> 454"
abbreviation RuleConstant_LOCAL_ID :: rule_id where "RuleConstant_LOCAL_ID \<equiv> 455"
abbreviation RuleExpression :: rule_id where "RuleExpression \<equiv> 456"
abbreviation RuleParameter :: rule_id where "RuleParameter \<equiv> 457"
abbreviation RuleTime_zone :: rule_id where "RuleTime_zone \<equiv> 458"
abbreviation RulePrimitive_expression :: rule_id where "RulePrimitive_expression \<equiv> 459"
abbreviation RuleCase_expression :: rule_id where "RuleCase_expression \<equiv> 460"
abbreviation RuleUnary_operator_expression :: rule_id where "RuleUnary_operator_expression \<equiv> 461"
abbreviation RuleBracket_expression :: rule_id where "RuleBracket_expression \<equiv> 462"
abbreviation RuleSubquery :: rule_id where "RuleSubquery \<equiv> 463"
abbreviation RuleWith_expression :: rule_id where "RuleWith_expression \<equiv> 464"
abbreviation RuleCommon_table_expression :: rule_id where "RuleCommon_table_expression \<equiv> 465"
abbreviation RuleUpdate_elem :: rule_id where "RuleUpdate_elem \<equiv> 466"
abbreviation RuleUpdate_elem_merge :: rule_id where "RuleUpdate_elem_merge \<equiv> 467"
abbreviation RuleSearch_condition :: rule_id where "RuleSearch_condition \<equiv> 468"
abbreviation RulePredicate :: rule_id where "RulePredicate \<equiv> 469"
abbreviation RuleQuery_expression :: rule_id where "RuleQuery_expression \<equiv> 470"
abbreviation RuleSql_union :: rule_id where "RuleSql_union \<equiv> 471"
abbreviation RuleQuery_specification :: rule_id where "RuleQuery_specification \<equiv> 472"
abbreviation RuleGroup_by_clause :: rule_id where "RuleGroup_by_clause \<equiv> 473"
abbreviation RuleHaving_clause :: rule_id where "RuleHaving_clause \<equiv> 474"
abbreviation RuleFrom_table_sources :: rule_id where "RuleFrom_table_sources \<equiv> 475"
abbreviation RuleTop_clause :: rule_id where "RuleTop_clause \<equiv> 476"
abbreviation RuleTop_percent :: rule_id where "RuleTop_percent \<equiv> 477"
abbreviation RuleTop_count :: rule_id where "RuleTop_count \<equiv> 478"
abbreviation RuleOrder_by_clause :: rule_id where "RuleOrder_by_clause \<equiv> 479"
abbreviation RuleSelect_order_by_clause :: rule_id where "RuleSelect_order_by_clause \<equiv> 480"
abbreviation RuleFor_clause :: rule_id where "RuleFor_clause \<equiv> 481"
abbreviation RuleXml_common_directives :: rule_id where "RuleXml_common_directives \<equiv> 482"
abbreviation RuleOrder_by_expression :: rule_id where "RuleOrder_by_expression \<equiv> 483"
abbreviation RuleGrouping_sets_item :: rule_id where "RuleGrouping_sets_item \<equiv> 484"
abbreviation RuleGroup_by_item :: rule_id where "RuleGroup_by_item \<equiv> 485"
abbreviation RuleOption_clause :: rule_id where "RuleOption_clause \<equiv> 486"
abbreviation RuleOption :: rule_id where "RuleOption \<equiv> 487"
abbreviation RuleOptimize_for_arg :: rule_id where "RuleOptimize_for_arg \<equiv> 488"
abbreviation RuleSelect_list :: rule_id where "RuleSelect_list \<equiv> 489"
abbreviation RuleUdt_method_arguments :: rule_id where "RuleUdt_method_arguments \<equiv> 490"
abbreviation RuleAsterisk :: rule_id where "RuleAsterisk \<equiv> 491"
abbreviation RuleUdt_elem :: rule_id where "RuleUdt_elem \<equiv> 492"
abbreviation RuleExpression_elem :: rule_id where "RuleExpression_elem \<equiv> 493"
abbreviation RuleSelect_list_elem :: rule_id where "RuleSelect_list_elem \<equiv> 494"
abbreviation RuleTable_sources :: rule_id where "RuleTable_sources \<equiv> 495"
abbreviation RuleNon_ansi_join :: rule_id where "RuleNon_ansi_join \<equiv> 496"
abbreviation RuleTable_source :: rule_id where "RuleTable_source \<equiv> 497"
abbreviation RuleTable_source_item :: rule_id where "RuleTable_source_item \<equiv> 498"
abbreviation RuleOpen_xml :: rule_id where "RuleOpen_xml \<equiv> 499"
abbreviation RuleOpen_json :: rule_id where "RuleOpen_json \<equiv> 500"
abbreviation RuleJson_declaration :: rule_id where "RuleJson_declaration \<equiv> 501"
abbreviation RuleJson_column_declaration :: rule_id where "RuleJson_column_declaration \<equiv> 502"
abbreviation RuleSchema_declaration :: rule_id where "RuleSchema_declaration \<equiv> 503"
abbreviation RuleColumn_declaration :: rule_id where "RuleColumn_declaration \<equiv> 504"
abbreviation RuleChange_table :: rule_id where "RuleChange_table \<equiv> 505"
abbreviation RuleChange_table_changes :: rule_id where "RuleChange_table_changes \<equiv> 506"
abbreviation RuleChange_table_version :: rule_id where "RuleChange_table_version \<equiv> 507"
abbreviation RuleJoin_part :: rule_id where "RuleJoin_part \<equiv> 508"
abbreviation RuleJoin_on :: rule_id where "RuleJoin_on \<equiv> 509"
abbreviation RuleCross_join :: rule_id where "RuleCross_join \<equiv> 510"
abbreviation RuleApply' :: rule_id where "RuleApply' \<equiv> 511"
abbreviation RulePivot :: rule_id where "RulePivot \<equiv> 512"
abbreviation RuleUnpivot :: rule_id where "RuleUnpivot \<equiv> 513"
abbreviation RulePivot_clause :: rule_id where "RulePivot_clause \<equiv> 514"
abbreviation RuleUnpivot_clause :: rule_id where "RuleUnpivot_clause \<equiv> 515"
abbreviation RuleFull_column_name_list :: rule_id where "RuleFull_column_name_list \<equiv> 516"
abbreviation RuleRowset_function :: rule_id where "RuleRowset_function \<equiv> 517"
abbreviation RuleBulk_option :: rule_id where "RuleBulk_option \<equiv> 518"
abbreviation RuleDerived_table :: rule_id where "RuleDerived_table \<equiv> 519"
abbreviation RuleFunction_call :: rule_id where "RuleFunction_call \<equiv> 520"
abbreviation RulePartition_function :: rule_id where "RulePartition_function \<equiv> 521"
abbreviation RuleFreetext_function :: rule_id where "RuleFreetext_function \<equiv> 522"
abbreviation RuleFreetext_predicate :: rule_id where "RuleFreetext_predicate \<equiv> 523"
abbreviation RuleJson_key_value :: rule_id where "RuleJson_key_value \<equiv> 524"
abbreviation RuleJson_null_clause :: rule_id where "RuleJson_null_clause \<equiv> 525"
abbreviation RuleBuilt_in_functions :: rule_id where "RuleBuilt_in_functions \<equiv> 526"
abbreviation RuleXml_data_type_methods :: rule_id where "RuleXml_data_type_methods \<equiv> 527"
abbreviation RuleDateparts_9 :: rule_id where "RuleDateparts_9 \<equiv> 528"
abbreviation RuleDateparts_12 :: rule_id where "RuleDateparts_12 \<equiv> 529"
abbreviation RuleDateparts_15 :: rule_id where "RuleDateparts_15 \<equiv> 530"
abbreviation RuleDateparts_datetrunc :: rule_id where "RuleDateparts_datetrunc \<equiv> 531"
abbreviation RuleValue_method :: rule_id where "RuleValue_method \<equiv> 532"
abbreviation RuleValue_call :: rule_id where "RuleValue_call \<equiv> 533"
abbreviation RuleQuery_method :: rule_id where "RuleQuery_method \<equiv> 534"
abbreviation RuleQuery_call :: rule_id where "RuleQuery_call \<equiv> 535"
abbreviation RuleExist_method :: rule_id where "RuleExist_method \<equiv> 536"
abbreviation RuleExist_call :: rule_id where "RuleExist_call \<equiv> 537"
abbreviation RuleModify_method :: rule_id where "RuleModify_method \<equiv> 538"
abbreviation RuleModify_call :: rule_id where "RuleModify_call \<equiv> 539"
abbreviation RuleHierarchyid_call :: rule_id where "RuleHierarchyid_call \<equiv> 540"
abbreviation RuleHierarchyid_static_method :: rule_id where "RuleHierarchyid_static_method \<equiv> 541"
abbreviation RuleNodes_method :: rule_id where "RuleNodes_method \<equiv> 542"
abbreviation RuleSwitch_section :: rule_id where "RuleSwitch_section \<equiv> 543"
abbreviation RuleSwitch_search_condition_section :: rule_id where "RuleSwitch_search_condition_section \<equiv> 544"
abbreviation RuleAs_column_alias :: rule_id where "RuleAs_column_alias \<equiv> 545"
abbreviation RuleAs_table_alias :: rule_id where "RuleAs_table_alias \<equiv> 546"
abbreviation RuleTable_alias :: rule_id where "RuleTable_alias \<equiv> 547"
abbreviation RuleWith_table_hints :: rule_id where "RuleWith_table_hints \<equiv> 548"
abbreviation RuleDeprecated_table_hint :: rule_id where "RuleDeprecated_table_hint \<equiv> 549"
abbreviation RuleSybase_legacy_hints :: rule_id where "RuleSybase_legacy_hints \<equiv> 550"
abbreviation RuleSybase_legacy_hint :: rule_id where "RuleSybase_legacy_hint \<equiv> 551"
abbreviation RuleTable_hint :: rule_id where "RuleTable_hint \<equiv> 552"
abbreviation RuleIndex_value :: rule_id where "RuleIndex_value \<equiv> 553"
abbreviation RuleColumn_alias_list :: rule_id where "RuleColumn_alias_list \<equiv> 554"
abbreviation RuleColumn_alias :: rule_id where "RuleColumn_alias \<equiv> 555"
abbreviation RuleTable_value_constructor :: rule_id where "RuleTable_value_constructor \<equiv> 556"
abbreviation RuleExpression_list' :: rule_id where "RuleExpression_list' \<equiv> 557"
abbreviation RuleRanking_windowed_function :: rule_id where "RuleRanking_windowed_function \<equiv> 558"
abbreviation RuleAggregate_windowed_function :: rule_id where "RuleAggregate_windowed_function \<equiv> 559"
abbreviation RuleAnalytic_windowed_function :: rule_id where "RuleAnalytic_windowed_function \<equiv> 560"
abbreviation RuleAll_distinct_expression :: rule_id where "RuleAll_distinct_expression \<equiv> 561"
abbreviation RuleOver_clause :: rule_id where "RuleOver_clause \<equiv> 562"
abbreviation RuleRow_or_range_clause :: rule_id where "RuleRow_or_range_clause \<equiv> 563"
abbreviation RuleWindow_frame_extent :: rule_id where "RuleWindow_frame_extent \<equiv> 564"
abbreviation RuleWindow_frame_bound :: rule_id where "RuleWindow_frame_bound \<equiv> 565"
abbreviation RuleWindow_frame_preceding :: rule_id where "RuleWindow_frame_preceding \<equiv> 566"
abbreviation RuleWindow_frame_following :: rule_id where "RuleWindow_frame_following \<equiv> 567"
abbreviation RuleCreate_database_option :: rule_id where "RuleCreate_database_option \<equiv> 568"
abbreviation RuleDatabase_filestream_option :: rule_id where "RuleDatabase_filestream_option \<equiv> 569"
abbreviation RuleDatabase_file_spec :: rule_id where "RuleDatabase_file_spec \<equiv> 570"
abbreviation RuleFile_group :: rule_id where "RuleFile_group \<equiv> 571"
abbreviation RuleFile_spec :: rule_id where "RuleFile_spec \<equiv> 572"
abbreviation RuleEntity_name :: rule_id where "RuleEntity_name \<equiv> 573"
abbreviation RuleEntity_name_for_azure_dw :: rule_id where "RuleEntity_name_for_azure_dw \<equiv> 574"
abbreviation RuleEntity_name_for_parallel_dw :: rule_id where "RuleEntity_name_for_parallel_dw \<equiv> 575"
abbreviation RuleFull_table_name :: rule_id where "RuleFull_table_name \<equiv> 576"
abbreviation RuleTable_name :: rule_id where "RuleTable_name \<equiv> 577"
abbreviation RuleSimple_name :: rule_id where "RuleSimple_name \<equiv> 578"
abbreviation RuleFunc_proc_name_schema :: rule_id where "RuleFunc_proc_name_schema \<equiv> 579"
abbreviation RuleFunc_proc_name_database_schema :: rule_id where "RuleFunc_proc_name_database_schema \<equiv> 580"
abbreviation RuleFunc_proc_name_server_database_schema :: rule_id where "RuleFunc_proc_name_server_database_schema \<equiv> 581"
abbreviation RuleDdl_object :: rule_id where "RuleDdl_object \<equiv> 582"
abbreviation RuleFull_column_name :: rule_id where "RuleFull_column_name \<equiv> 583"
abbreviation RuleColumn_name_list_with_order :: rule_id where "RuleColumn_name_list_with_order \<equiv> 584"
abbreviation RuleInsert_column_name_list :: rule_id where "RuleInsert_column_name_list \<equiv> 585"
abbreviation RuleInsert_column_id :: rule_id where "RuleInsert_column_id \<equiv> 586"
abbreviation RuleColumn_name_list :: rule_id where "RuleColumn_name_list \<equiv> 587"
abbreviation RuleCursor_name :: rule_id where "RuleCursor_name \<equiv> 588"
abbreviation RuleOn_off :: rule_id where "RuleOn_off \<equiv> 589"
abbreviation RuleClustered :: rule_id where "RuleClustered \<equiv> 590"
abbreviation RuleNull_notnull :: rule_id where "RuleNull_notnull \<equiv> 591"
abbreviation RuleScalar_function_name :: rule_id where "RuleScalar_function_name \<equiv> 592"
abbreviation RuleBegin_conversation_timer :: rule_id where "RuleBegin_conversation_timer \<equiv> 593"
abbreviation RuleBegin_conversation_dialog :: rule_id where "RuleBegin_conversation_dialog \<equiv> 594"
abbreviation RuleContract_name :: rule_id where "RuleContract_name \<equiv> 595"
abbreviation RuleService_name :: rule_id where "RuleService_name \<equiv> 596"
abbreviation RuleEnd_conversation :: rule_id where "RuleEnd_conversation \<equiv> 597"
abbreviation RuleWaitfor_conversation :: rule_id where "RuleWaitfor_conversation \<equiv> 598"
abbreviation RuleGet_conversation :: rule_id where "RuleGet_conversation \<equiv> 599"
abbreviation RuleQueue_id :: rule_id where "RuleQueue_id \<equiv> 600"
abbreviation RuleSend_conversation :: rule_id where "RuleSend_conversation \<equiv> 601"
abbreviation RuleData_type :: rule_id where "RuleData_type \<equiv> 602"
abbreviation RuleConstant :: rule_id where "RuleConstant \<equiv> 603"
abbreviation RulePrimitive_constant :: rule_id where "RulePrimitive_constant \<equiv> 604"
abbreviation RuleKeyword :: rule_id where "RuleKeyword \<equiv> 605"
abbreviation RuleId' :: rule_id where "RuleId' \<equiv> 606"
abbreviation RuleSimple_id :: rule_id where "RuleSimple_id \<equiv> 607"
abbreviation RuleId_or_string :: rule_id where "RuleId_or_string \<equiv> 608"
abbreviation RuleComparison_operator :: rule_id where "RuleComparison_operator \<equiv> 609"
abbreviation RuleAssignment_operator :: rule_id where "RuleAssignment_operator \<equiv> 610"
abbreviation RuleFile_size :: rule_id where "RuleFile_size \<equiv> 611"
abbreviation RuleBatch_without_go :: rule_id where "RuleBatch_without_go \<equiv> 612"
abbreviation RuleDotID :: rule_id where "RuleDotID \<equiv> 613"
abbreviation RuleDoubleDotID :: rule_id where "RuleDoubleDotID \<equiv> 614"

end
