(* ===== verification/Conforming.thy ===== *)
theory Conforming
  imports Accessors Rule_Ids
begin

text \<open>
  The check that a list of rules and the list of their context classes fit together, and
  the rewriting setup that evaluates it: the arguments of constructors are not rewritten
  before a function inspects them, so that long tables are not traversed at every step.
\<close>

text \<open>
  \<open>port/cpp/TSqlParser.h\<close> was generated from an older grammar than the checked-in
  \<open>TSqlParser.g4\<close>.  These rules of the grammar have no class, or one that does not fit:
\<close>

definition drifted :: "rule_id list" where
  "drifted = [RuleTsql_file, RuleBatch_without_go, RuleInsert_statement_value,
     RuleTable_sources, RuleFull_table_name, RuleDotID, RuleDoubleDotID]"

text \<open>\<dots> and these classes of the header have no rule:\<close>

definition header_only :: "rule_id list" where
  "header_only = [RuleBatch, RuleNon_ansi_join]"

fun pair_ok :: "rule option \<times> context_class list \<Rightarrow> bool" where
  "pair_ok (None, cs) = list_all (\<lambda>c. list_ex (\<lambda>r. class_id c = RuleContext r) header_only) cs"
| "pair_ok (Some g, cs) = (if list_ex (\<lambda>r. r = rule_index g) drifted
     then list_all (\<lambda>c. class_id c = RuleContext (rule_index g)) cs
     else conforms g cs)"

section \<open>Evaluation\<close>

lemma opaque:
  "Cons x xs = Cons x xs" "Pair a b = Pair a b" "numeral n = numeral n"
  "Tm t = Tm t" "Nt r = Nt r" "Sym s = Sym s" "Lab l e = Lab l e" "Seq es = Seq es"
  "Alt es = Alt es" "Opt e = Opt e" "Star e = Star e" "Plus e = Plus e"
  by (rule refl)+

lemmas case_opaque = option.case_cong_weak list.case_cong_weak class_id.case_cong_weak
  if_weak_cong

lemma sort_key_eval:
  "sort_key f [] = []" "sort_key f (x # xs) = insort_key f x (sort_key f xs)"
  by simp_all

lemma map_filter_eval:
  "List.map_filter f [] = []"
  "List.map_filter f (x # xs) =
     (case f x of None \<Rightarrow> List.map_filter f xs | Some y \<Rightarrow> y # List.map_filter f xs)"
  by (simp_all split: option.split)

lemma list_ex_simps_eval:
  "list_ex P [] \<longleftrightarrow> False" "list_ex P (x # xs) \<longleftrightarrow> P x \<or> list_ex P xs"
  by simp_all

text \<open>Selecting the alternatives of a label in one pass over the list.\<close>

fun select_acc :: "label_id option \<Rightarrow> (label_id option \<times> ebnf) list \<Rightarrow> ebnf list \<Rightarrow> ebnf list" where
  "select_acc l [] acc = acc"
| "select_acc l ((k, e) # as) acc = (if k = l then select_acc l as (e # acc) else select_acc l as acc)"

definition fits_list :: "context_class \<Rightarrow> ebnf list \<Rightarrow> bool" where
  "fits_list c es = fits c (Alt es)"

lemmas fits_list_eval = fits_list_def [unfolded fits_def]

fun reverse :: "ebnf list \<Rightarrow> ebnf list \<Rightarrow> ebnf list" where
  "reverse [] acc = acc"
| "reverse (e # es) acc = reverse es (e # acc)"

lemma reverse_eq: "reverse es acc = rev es @ acc"
  by (induction es acc rule: reverse.induct) auto

lemma select_acc_eq: "select_acc l as acc = rev (select_label l as) @ acc"
  by (induction l as acc rule: select_acc.induct) auto

lemma fits_labelled: "fits c (labelled l as) = fits_list c (reverse (select_acc l as []) [])"
  by (simp add: fits_list_def labelled_def select_acc_eq reverse_eq)

lemmas label_conforms_eval = label_conforms_def [unfolded fits_labelled]
lemmas conforms_eval = conforms.simps [unfolded fits_labelled]

lemma set_eval: "x \<in> set [] \<longleftrightarrow> False" "x \<in> set (y # ys) \<longleftrightarrow> x = y \<or> x \<in> set ys"
  by simp_all

lemmas number_eval = num.distinct num.inject numeral_eq_iff rel_simps

lemmas data_eval = list.inject list.distinct prod.inject option.inject option.distinct
  char.inject sym.inject sym.distinct mult.distinct label.inject label.distinct
  ebnf.inject ebnf.distinct class_id.inject class_id.distinct class_base.inject class_base.distinct
  cpp_member.inject cpp_member.distinct

lemmas logic_eval = if_True if_False simp_thms list.pred_inject list_ex_simps_eval
  option.case list.case class_id.case ebnf.case option.map option.sel option.pred_inject

lemmas list_eval = list.map List.filter.simps remdups.simps rev.simps append.simps
  prod.sel sort_key_eval insort_key.simps map_filter_eval set_eval

lemmas record_eval = rule.select_convs context_class.select_convs

lemmas profile_eval = merge.simps many.simps bind_all.simps add_mult.simps max_mult.simps occs.simps occs_seq.simps
  occs_alt.simps inhabited.simps less_sym_simps less_eq_sym_simps

lemmas accessor_eval = getters.simps getter.simps list_getter.simps nth_getter.simps paired.simps
  labels.simps labels_list.simps field_of.simps is_field.simps scratch_rule.simps
  append_rule.simps scratch_name.simps scratch_fields_def declared_fields_def label_fields_def
  dedup_def is_sym.simps aligned.simps plain_choice.simps exact_getters_def fits_list_eval structural_def
  skeleton_def rule_skeleton_def base_skeleton_def label_skeleton_def
  select_acc.simps reverse.simps label_conforms_eval has_class_def conforms_eval pair_ok.simps drifted_def header_only_def

lemmas conformance_eval = number_eval data_eval logic_eval list_eval record_eval profile_eval
  accessor_eval

end
