(* ===== verification/Tokens.thy ===== *)
theory Tokens
  imports Prelude
begin

text \<open>
  The token types: the first \<open>enum\<close> of \<open>port/cpp/TSqlLexer.h\<close> (and of \<open>TSqlParser.h\<close>).
  \<open>T_X\<close> is the enumerator \<open>X\<close>; a trailing underscore of the source is written as a
  prime.  \<open>T_EOF\<close> is \<open>antlr4::Token::EOF\<close>.
\<close>

abbreviation T_EOF :: token where "T_EOF \<equiv> - 1"
abbreviation T_ABORT :: token where "T_ABORT \<equiv> 1"
abbreviation T_ABORT_AFTER_WAIT :: token where "T_ABORT_AFTER_WAIT \<equiv> 2"
abbreviation T_ABSENT :: token where "T_ABSENT \<equiv> 3"
abbreviation T_ABSOLUTE :: token where "T_ABSOLUTE \<equiv> 4"
abbreviation T_ACCELERATED_DATABASE_RECOVERY :: token where "T_ACCELERATED_DATABASE_RECOVERY \<equiv> 5"
abbreviation T_ACCENT_SENSITIVITY :: token where "T_ACCENT_SENSITIVITY \<equiv> 6"
abbreviation T_ACCESS :: token where "T_ACCESS \<equiv> 7"
abbreviation T_ACTION :: token where "T_ACTION \<equiv> 8"
abbreviation T_ACTIVATION :: token where "T_ACTIVATION \<equiv> 9"
abbreviation T_ACTIVE :: token where "T_ACTIVE \<equiv> 10"
abbreviation T_ADD :: token where "T_ADD \<equiv> 11"
abbreviation T_ADDRESS :: token where "T_ADDRESS \<equiv> 12"
abbreviation T_ADMINISTER :: token where "T_ADMINISTER \<equiv> 13"
abbreviation T_AES :: token where "T_AES \<equiv> 14"
abbreviation T_AES_128 :: token where "T_AES_128 \<equiv> 15"
abbreviation T_AES_192 :: token where "T_AES_192 \<equiv> 16"
abbreviation T_AES_256 :: token where "T_AES_256 \<equiv> 17"
abbreviation T_AFFINITY :: token where "T_AFFINITY \<equiv> 18"
abbreviation T_AFTER :: token where "T_AFTER \<equiv> 19"
abbreviation T_AGGREGATE :: token where "T_AGGREGATE \<equiv> 20"
abbreviation T_ALGORITHM :: token where "T_ALGORITHM \<equiv> 21"
abbreviation T_ALL :: token where "T_ALL \<equiv> 22"
abbreviation T_ALLOWED :: token where "T_ALLOWED \<equiv> 23"
abbreviation T_ALLOW_CONNECTIONS :: token where "T_ALLOW_CONNECTIONS \<equiv> 24"
abbreviation T_ALLOW_ENCRYPTED_VALUE_MODIFICATIONS :: token where "T_ALLOW_ENCRYPTED_VALUE_MODIFICATIONS \<equiv> 25"
abbreviation T_ALLOW_MULTIPLE_EVENT_LOSS :: token where "T_ALLOW_MULTIPLE_EVENT_LOSS \<equiv> 26"
abbreviation T_ALLOW_PAGE_LOCKS :: token where "T_ALLOW_PAGE_LOCKS \<equiv> 27"
abbreviation T_ALLOW_ROW_LOCKS :: token where "T_ALLOW_ROW_LOCKS \<equiv> 28"
abbreviation T_ALLOW_SINGLE_EVENT_LOSS :: token where "T_ALLOW_SINGLE_EVENT_LOSS \<equiv> 29"
abbreviation T_ALLOW_SNAPSHOT_ISOLATION :: token where "T_ALLOW_SNAPSHOT_ISOLATION \<equiv> 30"
abbreviation T_ALL_CONSTRAINTS :: token where "T_ALL_CONSTRAINTS \<equiv> 31"
abbreviation T_ALL_ERRORMSGS :: token where "T_ALL_ERRORMSGS \<equiv> 32"
abbreviation T_ALL_INDEXES :: token where "T_ALL_INDEXES \<equiv> 33"
abbreviation T_ALL_LEVELS :: token where "T_ALL_LEVELS \<equiv> 34"
abbreviation T_ALTER :: token where "T_ALTER \<equiv> 35"
abbreviation T_ALWAYS :: token where "T_ALWAYS \<equiv> 36"
abbreviation T_AND :: token where "T_AND \<equiv> 37"
abbreviation T_ANONYMOUS :: token where "T_ANONYMOUS \<equiv> 38"
abbreviation T_ANSI_DEFAULTS :: token where "T_ANSI_DEFAULTS \<equiv> 39"
abbreviation T_ANSI_NULLS :: token where "T_ANSI_NULLS \<equiv> 40"
abbreviation T_ANSI_NULL_DEFAULT :: token where "T_ANSI_NULL_DEFAULT \<equiv> 41"
abbreviation T_ANSI_NULL_DFLT_OFF :: token where "T_ANSI_NULL_DFLT_OFF \<equiv> 42"
abbreviation T_ANSI_NULL_DFLT_ON :: token where "T_ANSI_NULL_DFLT_ON \<equiv> 43"
abbreviation T_ANSI_PADDING :: token where "T_ANSI_PADDING \<equiv> 44"
abbreviation T_ANSI_WARNINGS :: token where "T_ANSI_WARNINGS \<equiv> 45"
abbreviation T_ANY :: token where "T_ANY \<equiv> 46"
abbreviation T_APPEND :: token where "T_APPEND \<equiv> 47"
abbreviation T_APPLICATION :: token where "T_APPLICATION \<equiv> 48"
abbreviation T_APPLICATION_LOG :: token where "T_APPLICATION_LOG \<equiv> 49"
abbreviation T_APPLOCK_MODE :: token where "T_APPLOCK_MODE \<equiv> 50"
abbreviation T_APPLOCK_TEST :: token where "T_APPLOCK_TEST \<equiv> 51"
abbreviation T_APPLY :: token where "T_APPLY \<equiv> 52"
abbreviation T_APP_NAME :: token where "T_APP_NAME \<equiv> 53"
abbreviation T_ARITHABORT :: token where "T_ARITHABORT \<equiv> 54"
abbreviation T_ARITHIGNORE :: token where "T_ARITHIGNORE \<equiv> 55"
abbreviation T_AS :: token where "T_AS \<equiv> 56"
abbreviation T_ASC :: token where "T_ASC \<equiv> 57"
abbreviation T_ASCII :: token where "T_ASCII \<equiv> 58"
abbreviation T_ASSEMBLY :: token where "T_ASSEMBLY \<equiv> 59"
abbreviation T_ASSEMBLYPROPERTY :: token where "T_ASSEMBLYPROPERTY \<equiv> 60"
abbreviation T_ASYMMETRIC :: token where "T_ASYMMETRIC \<equiv> 61"
abbreviation T_ASYNCHRONOUS_COMMIT :: token where "T_ASYNCHRONOUS_COMMIT \<equiv> 62"
abbreviation T_AT_KEYWORD :: token where "T_AT_KEYWORD \<equiv> 63"
abbreviation T_AUDIT :: token where "T_AUDIT \<equiv> 64"
abbreviation T_AUDIT_GUID :: token where "T_AUDIT_GUID \<equiv> 65"
abbreviation T_AUTHENTICATE :: token where "T_AUTHENTICATE \<equiv> 66"
abbreviation T_AUTHENTICATION :: token where "T_AUTHENTICATION \<equiv> 67"
abbreviation T_AUTHORIZATION :: token where "T_AUTHORIZATION \<equiv> 68"
abbreviation T_AUTO :: token where "T_AUTO \<equiv> 69"
abbreviation T_AUTOGROW_ALL_FILES :: token where "T_AUTOGROW_ALL_FILES \<equiv> 70"
abbreviation T_AUTOGROW_SINGLE_FILE :: token where "T_AUTOGROW_SINGLE_FILE \<equiv> 71"
abbreviation T_AUTOMATED_BACKUP_PREFERENCE :: token where "T_AUTOMATED_BACKUP_PREFERENCE \<equiv> 72"
abbreviation T_AUTOMATIC :: token where "T_AUTOMATIC \<equiv> 73"
abbreviation T_AUTO_CLEANUP :: token where "T_AUTO_CLEANUP \<equiv> 74"
abbreviation T_AUTO_CLOSE :: token where "T_AUTO_CLOSE \<equiv> 75"
abbreviation T_AUTO_CREATE_STATISTICS :: token where "T_AUTO_CREATE_STATISTICS \<equiv> 76"
abbreviation T_AUTO_DROP :: token where "T_AUTO_DROP \<equiv> 77"
abbreviation T_AUTO_SHRINK :: token where "T_AUTO_SHRINK \<equiv> 78"
abbreviation T_AUTO_UPDATE_STATISTICS :: token where "T_AUTO_UPDATE_STATISTICS \<equiv> 79"
abbreviation T_AUTO_UPDATE_STATISTICS_ASYNC :: token where "T_AUTO_UPDATE_STATISTICS_ASYNC \<equiv> 80"
abbreviation T_AVAILABILITY :: token where "T_AVAILABILITY \<equiv> 81"
abbreviation T_AVAILABILITY_MODE :: token where "T_AVAILABILITY_MODE \<equiv> 82"
abbreviation T_AVG :: token where "T_AVG \<equiv> 83"
abbreviation T_BACKSLASH :: token where "T_BACKSLASH \<equiv> 84"
abbreviation T_BACKUP :: token where "T_BACKUP \<equiv> 85"
abbreviation T_BACKUP_CLONEDB :: token where "T_BACKUP_CLONEDB \<equiv> 86"
abbreviation T_BACKUP_PRIORITY :: token where "T_BACKUP_PRIORITY \<equiv> 87"
abbreviation T_BASE64 :: token where "T_BASE64 \<equiv> 88"
abbreviation T_BEFORE :: token where "T_BEFORE \<equiv> 89"
abbreviation T_BEGIN :: token where "T_BEGIN \<equiv> 90"
abbreviation T_BEGIN_DIALOG :: token where "T_BEGIN_DIALOG \<equiv> 91"
abbreviation T_BETWEEN :: token where "T_BETWEEN \<equiv> 92"
abbreviation T_BIGINT :: token where "T_BIGINT \<equiv> 93"
abbreviation T_BINARY_CHECKSUM :: token where "T_BINARY_CHECKSUM \<equiv> 94"
abbreviation T_BINARY_KEYWORD :: token where "T_BINARY_KEYWORD \<equiv> 95"
abbreviation T_BINDING :: token where "T_BINDING \<equiv> 96"
abbreviation T_BLOB_STORAGE :: token where "T_BLOB_STORAGE \<equiv> 97"
abbreviation T_BLOCK :: token where "T_BLOCK \<equiv> 98"
abbreviation T_BLOCKERS :: token where "T_BLOCKERS \<equiv> 99"
abbreviation T_BLOCKING_HIERARCHY :: token where "T_BLOCKING_HIERARCHY \<equiv> 100"
abbreviation T_BLOCKSIZE :: token where "T_BLOCKSIZE \<equiv> 101"
abbreviation T_BREAK :: token where "T_BREAK \<equiv> 102"
abbreviation T_BROKER :: token where "T_BROKER \<equiv> 103"
abbreviation T_BROKER_INSTANCE :: token where "T_BROKER_INSTANCE \<equiv> 104"
abbreviation T_BROWSE :: token where "T_BROWSE \<equiv> 105"
abbreviation T_BUFFER :: token where "T_BUFFER \<equiv> 106"
abbreviation T_BUFFERCOUNT :: token where "T_BUFFERCOUNT \<equiv> 107"
abbreviation T_BULK :: token where "T_BULK \<equiv> 108"
abbreviation T_BULK_LOGGED :: token where "T_BULK_LOGGED \<equiv> 109"
abbreviation T_BY :: token where "T_BY \<equiv> 110"
abbreviation T_CACHE :: token where "T_CACHE \<equiv> 111"
abbreviation T_CALLED :: token where "T_CALLED \<equiv> 112"
abbreviation T_CALLER :: token where "T_CALLER \<equiv> 113"
abbreviation T_CAP_CPU_PERCENT :: token where "T_CAP_CPU_PERCENT \<equiv> 114"
abbreviation T_CASCADE :: token where "T_CASCADE \<equiv> 115"
abbreviation T_CASE :: token where "T_CASE \<equiv> 116"
abbreviation T_CAST :: token where "T_CAST \<equiv> 117"
abbreviation T_CATALOG :: token where "T_CATALOG \<equiv> 118"
abbreviation T_CATCH :: token where "T_CATCH \<equiv> 119"
abbreviation T_CERTENCODED :: token where "T_CERTENCODED \<equiv> 120"
abbreviation T_CERTIFICATE :: token where "T_CERTIFICATE \<equiv> 121"
abbreviation T_CERTPRIVATEKEY :: token where "T_CERTPRIVATEKEY \<equiv> 122"
abbreviation T_CERT_ID :: token where "T_CERT_ID \<equiv> 123"
abbreviation T_CHANGE :: token where "T_CHANGE \<equiv> 124"
abbreviation T_CHANGES :: token where "T_CHANGES \<equiv> 125"
abbreviation T_CHANGETABLE :: token where "T_CHANGETABLE \<equiv> 126"
abbreviation T_CHANGE_RETENTION :: token where "T_CHANGE_RETENTION \<equiv> 127"
abbreviation T_CHANGE_TRACKING :: token where "T_CHANGE_TRACKING \<equiv> 128"
abbreviation T_CHAR :: token where "T_CHAR \<equiv> 129"
abbreviation T_CHARINDEX :: token where "T_CHARINDEX \<equiv> 130"
abbreviation T_CHECK :: token where "T_CHECK \<equiv> 131"
abbreviation T_CHECKALLOC :: token where "T_CHECKALLOC \<equiv> 132"
abbreviation T_CHECKCATALOG :: token where "T_CHECKCATALOG \<equiv> 133"
abbreviation T_CHECKCONSTRAINTS :: token where "T_CHECKCONSTRAINTS \<equiv> 134"
abbreviation T_CHECKDB :: token where "T_CHECKDB \<equiv> 135"
abbreviation T_CHECKFILEGROUP :: token where "T_CHECKFILEGROUP \<equiv> 136"
abbreviation T_CHECKPOINT :: token where "T_CHECKPOINT \<equiv> 137"
abbreviation T_CHECKSUM :: token where "T_CHECKSUM \<equiv> 138"
abbreviation T_CHECKSUM_AGG :: token where "T_CHECKSUM_AGG \<equiv> 139"
abbreviation T_CHECKTABLE :: token where "T_CHECKTABLE \<equiv> 140"
abbreviation T_CHECK_EXPIRATION :: token where "T_CHECK_EXPIRATION \<equiv> 141"
abbreviation T_CHECK_POLICY :: token where "T_CHECK_POLICY \<equiv> 142"
abbreviation T_CLASSIFIER_FUNCTION :: token where "T_CLASSIFIER_FUNCTION \<equiv> 143"
abbreviation T_CLEANTABLE :: token where "T_CLEANTABLE \<equiv> 144"
abbreviation T_CLEANUP :: token where "T_CLEANUP \<equiv> 145"
abbreviation T_CLONEDATABASE :: token where "T_CLONEDATABASE \<equiv> 146"
abbreviation T_CLOSE :: token where "T_CLOSE \<equiv> 147"
abbreviation T_CLUSTER :: token where "T_CLUSTER \<equiv> 148"
abbreviation T_CLUSTERED :: token where "T_CLUSTERED \<equiv> 149"
abbreviation T_COALESCE :: token where "T_COALESCE \<equiv> 150"
abbreviation T_COLLATE :: token where "T_COLLATE \<equiv> 151"
abbreviation T_COLLECTION :: token where "T_COLLECTION \<equiv> 152"
abbreviation T_COLUMN :: token where "T_COLUMN \<equiv> 153"
abbreviation T_COLUMNPROPERTY :: token where "T_COLUMNPROPERTY \<equiv> 154"
abbreviation T_COLUMNS :: token where "T_COLUMNS \<equiv> 155"
abbreviation T_COLUMNSTORE :: token where "T_COLUMNSTORE \<equiv> 156"
abbreviation T_COLUMNSTORE_ARCHIVE :: token where "T_COLUMNSTORE_ARCHIVE \<equiv> 157"
abbreviation T_COLUMN_ENCRYPTION_KEY :: token where "T_COLUMN_ENCRYPTION_KEY \<equiv> 158"
abbreviation T_COLUMN_MASTER_KEY :: token where "T_COLUMN_MASTER_KEY \<equiv> 159"
abbreviation T_COL_LENGTH :: token where "T_COL_LENGTH \<equiv> 160"
abbreviation T_COL_NAME :: token where "T_COL_NAME \<equiv> 161"
abbreviation T_COMMIT :: token where "T_COMMIT \<equiv> 162"
abbreviation T_COMMITTED :: token where "T_COMMITTED \<equiv> 163"
abbreviation T_COMPATIBILITY_LEVEL :: token where "T_COMPATIBILITY_LEVEL \<equiv> 164"
abbreviation T_COMPRESS :: token where "T_COMPRESS \<equiv> 165"
abbreviation T_COMPRESSION :: token where "T_COMPRESSION \<equiv> 166"
abbreviation T_COMPRESSION_DELAY :: token where "T_COMPRESSION_DELAY \<equiv> 167"
abbreviation T_COMPRESS_ALL_ROW_GROUPS :: token where "T_COMPRESS_ALL_ROW_GROUPS \<equiv> 168"
abbreviation T_COMPUTE :: token where "T_COMPUTE \<equiv> 169"
abbreviation T_CONCAT :: token where "T_CONCAT \<equiv> 170"
abbreviation T_CONCAT_NULL_YIELDS_NULL :: token where "T_CONCAT_NULL_YIELDS_NULL \<equiv> 171"
abbreviation T_CONCAT_WS :: token where "T_CONCAT_WS \<equiv> 172"
abbreviation T_CONFIGURATION :: token where "T_CONFIGURATION \<equiv> 173"
abbreviation T_CONNECT :: token where "T_CONNECT \<equiv> 174"
abbreviation T_CONNECTION :: token where "T_CONNECTION \<equiv> 175"
abbreviation T_CONNECTIONPROPERTY :: token where "T_CONNECTIONPROPERTY \<equiv> 176"
abbreviation T_CONSTRAINT :: token where "T_CONSTRAINT \<equiv> 177"
abbreviation T_CONTAINMENT :: token where "T_CONTAINMENT \<equiv> 178"
abbreviation T_CONTAINS :: token where "T_CONTAINS \<equiv> 179"
abbreviation T_CONTAINSTABLE :: token where "T_CONTAINSTABLE \<equiv> 180"
abbreviation T_CONTENT :: token where "T_CONTENT \<equiv> 181"
abbreviation T_CONTEXT :: token where "T_CONTEXT \<equiv> 182"
abbreviation T_CONTEXT_INFO :: token where "T_CONTEXT_INFO \<equiv> 183"
abbreviation T_CONTINUE :: token where "T_CONTINUE \<equiv> 184"
abbreviation T_CONTINUE_AFTER_ERROR :: token where "T_CONTINUE_AFTER_ERROR \<equiv> 185"
abbreviation T_CONTRACT :: token where "T_CONTRACT \<equiv> 186"
abbreviation T_CONTRACT_NAME :: token where "T_CONTRACT_NAME \<equiv> 187"
abbreviation T_CONTROL :: token where "T_CONTROL \<equiv> 188"
abbreviation T_CONVERSATION :: token where "T_CONVERSATION \<equiv> 189"
abbreviation T_CONVERT :: token where "T_CONVERT \<equiv> 190"
abbreviation T_COOKIE :: token where "T_COOKIE \<equiv> 191"
abbreviation T_COPY_ONLY :: token where "T_COPY_ONLY \<equiv> 192"
abbreviation T_COUNT :: token where "T_COUNT \<equiv> 193"
abbreviation T_COUNTER :: token where "T_COUNTER \<equiv> 194"
abbreviation T_COUNT_BIG :: token where "T_COUNT_BIG \<equiv> 195"
abbreviation T_CPU :: token where "T_CPU \<equiv> 196"
abbreviation T_CREATE :: token where "T_CREATE \<equiv> 197"
abbreviation T_CREATE_NEW :: token where "T_CREATE_NEW \<equiv> 198"
abbreviation T_CREATION_DISPOSITION :: token where "T_CREATION_DISPOSITION \<equiv> 199"
abbreviation T_CREDENTIAL :: token where "T_CREDENTIAL \<equiv> 200"
abbreviation T_CROSS :: token where "T_CROSS \<equiv> 201"
abbreviation T_CRYPTOGRAPHIC :: token where "T_CRYPTOGRAPHIC \<equiv> 202"
abbreviation T_CUME_DIST :: token where "T_CUME_DIST \<equiv> 203"
abbreviation T_CURRENT :: token where "T_CURRENT \<equiv> 204"
abbreviation T_CURRENT_DATE :: token where "T_CURRENT_DATE \<equiv> 205"
abbreviation T_CURRENT_REQUEST_ID :: token where "T_CURRENT_REQUEST_ID \<equiv> 206"
abbreviation T_CURRENT_TIME :: token where "T_CURRENT_TIME \<equiv> 207"
abbreviation T_CURRENT_TIMESTAMP :: token where "T_CURRENT_TIMESTAMP \<equiv> 208"
abbreviation T_CURRENT_TRANSACTION_ID :: token where "T_CURRENT_TRANSACTION_ID \<equiv> 209"
abbreviation T_CURRENT_USER :: token where "T_CURRENT_USER \<equiv> 210"
abbreviation T_CURSOR :: token where "T_CURSOR \<equiv> 211"
abbreviation T_CURSOR_CLOSE_ON_COMMIT :: token where "T_CURSOR_CLOSE_ON_COMMIT \<equiv> 212"
abbreviation T_CURSOR_DEFAULT :: token where "T_CURSOR_DEFAULT \<equiv> 213"
abbreviation T_CURSOR_STATUS :: token where "T_CURSOR_STATUS \<equiv> 214"
abbreviation T_CYCLE :: token where "T_CYCLE \<equiv> 215"
abbreviation T_DATA :: token where "T_DATA \<equiv> 216"
abbreviation T_DATABASE :: token where "T_DATABASE \<equiv> 217"
abbreviation T_DATABASEPROPERTYEX :: token where "T_DATABASEPROPERTYEX \<equiv> 218"
abbreviation T_DATABASE_MIRRORING :: token where "T_DATABASE_MIRRORING \<equiv> 219"
abbreviation T_DATABASE_PRINCIPAL_ID :: token where "T_DATABASE_PRINCIPAL_ID \<equiv> 220"
abbreviation T_DATALENGTH :: token where "T_DATALENGTH \<equiv> 221"
abbreviation T_DATASPACE :: token where "T_DATASPACE \<equiv> 222"
abbreviation T_DATA_COMPRESSION :: token where "T_DATA_COMPRESSION \<equiv> 223"
abbreviation T_DATA_PURITY :: token where "T_DATA_PURITY \<equiv> 224"
abbreviation T_DATA_SOURCE :: token where "T_DATA_SOURCE \<equiv> 225"
abbreviation T_DATEADD :: token where "T_DATEADD \<equiv> 226"
abbreviation T_DATEDIFF :: token where "T_DATEDIFF \<equiv> 227"
abbreviation T_DATENAME :: token where "T_DATENAME \<equiv> 228"
abbreviation T_DATEPART :: token where "T_DATEPART \<equiv> 229"
abbreviation T_DATE_CORRELATION_OPTIMIZATION :: token where "T_DATE_CORRELATION_OPTIMIZATION \<equiv> 230"
abbreviation T_DAYS :: token where "T_DAYS \<equiv> 231"
abbreviation T_DBCC :: token where "T_DBCC \<equiv> 232"
abbreviation T_DBREINDEX :: token where "T_DBREINDEX \<equiv> 233"
abbreviation T_DB_CHAINING :: token where "T_DB_CHAINING \<equiv> 234"
abbreviation T_DB_FAILOVER :: token where "T_DB_FAILOVER \<equiv> 235"
abbreviation T_DB_ID :: token where "T_DB_ID \<equiv> 236"
abbreviation T_DB_NAME :: token where "T_DB_NAME \<equiv> 237"
abbreviation T_DDL :: token where "T_DDL \<equiv> 238"
abbreviation T_DEALLOCATE :: token where "T_DEALLOCATE \<equiv> 239"
abbreviation T_DECLARE :: token where "T_DECLARE \<equiv> 240"
abbreviation T_DECOMPRESS :: token where "T_DECOMPRESS \<equiv> 241"
abbreviation T_DECRYPTION :: token where "T_DECRYPTION \<equiv> 242"
abbreviation T_DEFAULT :: token where "T_DEFAULT \<equiv> 243"
abbreviation T_DEFAULT_DATABASE :: token where "T_DEFAULT_DATABASE \<equiv> 244"
abbreviation T_DEFAULT_DOUBLE_QUOTE :: token where "T_DEFAULT_DOUBLE_QUOTE \<equiv> 245"
abbreviation T_DEFAULT_FULLTEXT_LANGUAGE :: token where "T_DEFAULT_FULLTEXT_LANGUAGE \<equiv> 246"
abbreviation T_DEFAULT_LANGUAGE :: token where "T_DEFAULT_LANGUAGE \<equiv> 247"
abbreviation T_DEFAULT_SCHEMA :: token where "T_DEFAULT_SCHEMA \<equiv> 248"
abbreviation T_DEFINITION :: token where "T_DEFINITION \<equiv> 249"
abbreviation T_DELAY :: token where "T_DELAY \<equiv> 250"
abbreviation T_DELAYED_DURABILITY :: token where "T_DELAYED_DURABILITY \<equiv> 251"
abbreviation T_DELETE :: token where "T_DELETE \<equiv> 252"
abbreviation T_DELETED :: token where "T_DELETED \<equiv> 253"
abbreviation T_DENSE_RANK :: token where "T_DENSE_RANK \<equiv> 254"
abbreviation T_DENY :: token where "T_DENY \<equiv> 255"
abbreviation T_DEPENDENTS :: token where "T_DEPENDENTS \<equiv> 256"
abbreviation T_DES :: token where "T_DES \<equiv> 257"
abbreviation T_DESC :: token where "T_DESC \<equiv> 258"
abbreviation T_DESCRIPTION :: token where "T_DESCRIPTION \<equiv> 259"
abbreviation T_DESX :: token where "T_DESX \<equiv> 260"
abbreviation T_DETERMINISTIC :: token where "T_DETERMINISTIC \<equiv> 261"
abbreviation T_DHCP :: token where "T_DHCP \<equiv> 262"
abbreviation T_DIAGNOSTICS :: token where "T_DIAGNOSTICS \<equiv> 263"
abbreviation T_DIALOG :: token where "T_DIALOG \<equiv> 264"
abbreviation T_DIFFERENCE :: token where "T_DIFFERENCE \<equiv> 265"
abbreviation T_DIFFERENTIAL :: token where "T_DIFFERENTIAL \<equiv> 266"
abbreviation T_DIRECTORY_NAME :: token where "T_DIRECTORY_NAME \<equiv> 267"
abbreviation T_DISABLE :: token where "T_DISABLE \<equiv> 268"
abbreviation T_DISABLED :: token where "T_DISABLED \<equiv> 269"
abbreviation T_DISABLE_BROKER :: token where "T_DISABLE_BROKER \<equiv> 270"
abbreviation T_DISK :: token where "T_DISK \<equiv> 271"
abbreviation T_DISTINCT :: token where "T_DISTINCT \<equiv> 272"
abbreviation T_DISTRIBUTED :: token where "T_DISTRIBUTED \<equiv> 273"
abbreviation T_DISTRIBUTION :: token where "T_DISTRIBUTION \<equiv> 274"
abbreviation T_DOCUMENT :: token where "T_DOCUMENT \<equiv> 275"
abbreviation T_DOLLAR_PARTITION :: token where "T_DOLLAR_PARTITION \<equiv> 276"
abbreviation T_DOUBLE :: token where "T_DOUBLE \<equiv> 277"
abbreviation T_DOUBLE_BACK_SLASH :: token where "T_DOUBLE_BACK_SLASH \<equiv> 278"
abbreviation T_DOUBLE_FORWARD_SLASH :: token where "T_DOUBLE_FORWARD_SLASH \<equiv> 279"
abbreviation T_DROP :: token where "T_DROP \<equiv> 280"
abbreviation T_DROPCLEANBUFFERS :: token where "T_DROPCLEANBUFFERS \<equiv> 281"
abbreviation T_DROP_EXISTING :: token where "T_DROP_EXISTING \<equiv> 282"
abbreviation T_DTC_SUPPORT :: token where "T_DTC_SUPPORT \<equiv> 283"
abbreviation T_DUMP :: token where "T_DUMP \<equiv> 284"
abbreviation T_DYNAMIC :: token where "T_DYNAMIC \<equiv> 285"
abbreviation T_ELEMENTS :: token where "T_ELEMENTS \<equiv> 286"
abbreviation T_ELSE :: token where "T_ELSE \<equiv> 287"
abbreviation T_EMERGENCY :: token where "T_EMERGENCY \<equiv> 288"
abbreviation T_EMPTY :: token where "T_EMPTY \<equiv> 289"
abbreviation T_ENABLE :: token where "T_ENABLE \<equiv> 290"
abbreviation T_ENABLED :: token where "T_ENABLED \<equiv> 291"
abbreviation T_ENABLE_BROKER :: token where "T_ENABLE_BROKER \<equiv> 292"
abbreviation T_ENCRYPTED :: token where "T_ENCRYPTED \<equiv> 293"
abbreviation T_ENCRYPTED_VALUE :: token where "T_ENCRYPTED_VALUE \<equiv> 294"
abbreviation T_ENCRYPTION :: token where "T_ENCRYPTION \<equiv> 295"
abbreviation T_ENCRYPTION_TYPE :: token where "T_ENCRYPTION_TYPE \<equiv> 296"
abbreviation T_END :: token where "T_END \<equiv> 297"
abbreviation T_ENDPOINT :: token where "T_ENDPOINT \<equiv> 298"
abbreviation T_ENDPOINT_URL :: token where "T_ENDPOINT_URL \<equiv> 299"
abbreviation T_ERRLVL :: token where "T_ERRLVL \<equiv> 300"
abbreviation T_ERROR :: token where "T_ERROR \<equiv> 301"
abbreviation T_ERROR_BROKER_CONVERSATIONS :: token where "T_ERROR_BROKER_CONVERSATIONS \<equiv> 302"
abbreviation T_ERROR_LINE :: token where "T_ERROR_LINE \<equiv> 303"
abbreviation T_ERROR_MESSAGE :: token where "T_ERROR_MESSAGE \<equiv> 304"
abbreviation T_ERROR_NUMBER :: token where "T_ERROR_NUMBER \<equiv> 305"
abbreviation T_ERROR_PROCEDURE :: token where "T_ERROR_PROCEDURE \<equiv> 306"
abbreviation T_ERROR_SEVERITY :: token where "T_ERROR_SEVERITY \<equiv> 307"
abbreviation T_ERROR_STATE :: token where "T_ERROR_STATE \<equiv> 308"
abbreviation T_ESCAPE :: token where "T_ESCAPE \<equiv> 309"
abbreviation T_ESTIMATEONLY :: token where "T_ESTIMATEONLY \<equiv> 310"
abbreviation T_EVENT :: token where "T_EVENT \<equiv> 311"
abbreviation T_EVENTDATA :: token where "T_EVENTDATA \<equiv> 312"
abbreviation T_EVENT_RETENTION_MODE :: token where "T_EVENT_RETENTION_MODE \<equiv> 313"
abbreviation T_EXCEPT :: token where "T_EXCEPT \<equiv> 314"
abbreviation T_EXCLUSIVE :: token where "T_EXCLUSIVE \<equiv> 315"
abbreviation T_EXECUTABLE :: token where "T_EXECUTABLE \<equiv> 316"
abbreviation T_EXECUTABLE_FILE :: token where "T_EXECUTABLE_FILE \<equiv> 317"
abbreviation T_EXECUTE :: token where "T_EXECUTE \<equiv> 318"
abbreviation T_EXIST :: token where "T_EXIST \<equiv> 319"
abbreviation T_EXISTS :: token where "T_EXISTS \<equiv> 320"
abbreviation T_EXIST_SQUARE_BRACKET :: token where "T_EXIST_SQUARE_BRACKET \<equiv> 321"
abbreviation T_EXIT :: token where "T_EXIT \<equiv> 322"
abbreviation T_EXPAND :: token where "T_EXPAND \<equiv> 323"
abbreviation T_EXPIREDATE :: token where "T_EXPIREDATE \<equiv> 324"
abbreviation T_EXPIRY_DATE :: token where "T_EXPIRY_DATE \<equiv> 325"
abbreviation T_EXPLICIT :: token where "T_EXPLICIT \<equiv> 326"
abbreviation T_EXTENDED_LOGICAL_CHECKS :: token where "T_EXTENDED_LOGICAL_CHECKS \<equiv> 327"
abbreviation T_EXTENSION :: token where "T_EXTENSION \<equiv> 328"
abbreviation T_EXTERNAL :: token where "T_EXTERNAL \<equiv> 329"
abbreviation T_EXTERNAL_ACCESS :: token where "T_EXTERNAL_ACCESS \<equiv> 330"
abbreviation T_FAILOVER :: token where "T_FAILOVER \<equiv> 331"
abbreviation T_FAILOVER_MODE :: token where "T_FAILOVER_MODE \<equiv> 332"
abbreviation T_FAILURE :: token where "T_FAILURE \<equiv> 333"
abbreviation T_FAILURECONDITIONLEVEL :: token where "T_FAILURECONDITIONLEVEL \<equiv> 334"
abbreviation T_FAILURE_CONDITION_LEVEL :: token where "T_FAILURE_CONDITION_LEVEL \<equiv> 335"
abbreviation T_FAIL_OPERATION :: token where "T_FAIL_OPERATION \<equiv> 336"
abbreviation T_FAN_IN :: token where "T_FAN_IN \<equiv> 337"
abbreviation T_FAST :: token where "T_FAST \<equiv> 338"
abbreviation T_FAST_FORWARD :: token where "T_FAST_FORWARD \<equiv> 339"
abbreviation T_FETCH :: token where "T_FETCH \<equiv> 340"
abbreviation T_FILE :: token where "T_FILE \<equiv> 341"
abbreviation T_FILEGROUP :: token where "T_FILEGROUP \<equiv> 342"
abbreviation T_FILEGROUPPROPERTY :: token where "T_FILEGROUPPROPERTY \<equiv> 343"
abbreviation T_FILEGROUP_ID :: token where "T_FILEGROUP_ID \<equiv> 344"
abbreviation T_FILEGROUP_NAME :: token where "T_FILEGROUP_NAME \<equiv> 345"
abbreviation T_FILEGROWTH :: token where "T_FILEGROWTH \<equiv> 346"
abbreviation T_FILENAME :: token where "T_FILENAME \<equiv> 347"
abbreviation T_FILEPATH :: token where "T_FILEPATH \<equiv> 348"
abbreviation T_FILEPROPERTY :: token where "T_FILEPROPERTY \<equiv> 349"
abbreviation T_FILEPROPERTYEX :: token where "T_FILEPROPERTYEX \<equiv> 350"
abbreviation T_FILESTREAM :: token where "T_FILESTREAM \<equiv> 351"
abbreviation T_FILESTREAM_ON :: token where "T_FILESTREAM_ON \<equiv> 352"
abbreviation T_FILE_ID :: token where "T_FILE_ID \<equiv> 353"
abbreviation T_FILE_IDEX :: token where "T_FILE_IDEX \<equiv> 354"
abbreviation T_FILE_NAME :: token where "T_FILE_NAME \<equiv> 355"
abbreviation T_FILE_SNAPSHOT :: token where "T_FILE_SNAPSHOT \<equiv> 356"
abbreviation T_FILLFACTOR :: token where "T_FILLFACTOR \<equiv> 357"
abbreviation T_FILTER :: token where "T_FILTER \<equiv> 358"
abbreviation T_FIRST :: token where "T_FIRST \<equiv> 359"
abbreviation T_FIRST_VALUE :: token where "T_FIRST_VALUE \<equiv> 360"
abbreviation T_FMTONLY :: token where "T_FMTONLY \<equiv> 361"
abbreviation T_FOLLOWING :: token where "T_FOLLOWING \<equiv> 362"
abbreviation T_FOR :: token where "T_FOR \<equiv> 363"
abbreviation T_FORCE :: token where "T_FORCE \<equiv> 364"
abbreviation T_FORCED :: token where "T_FORCED \<equiv> 365"
abbreviation T_FORCEPLAN :: token where "T_FORCEPLAN \<equiv> 366"
abbreviation T_FORCESCAN :: token where "T_FORCESCAN \<equiv> 367"
abbreviation T_FORCESEEK :: token where "T_FORCESEEK \<equiv> 368"
abbreviation T_FORCE_FAILOVER_ALLOW_DATA_LOSS :: token where "T_FORCE_FAILOVER_ALLOW_DATA_LOSS \<equiv> 369"
abbreviation T_FORCE_SERVICE_ALLOW_DATA_LOSS :: token where "T_FORCE_SERVICE_ALLOW_DATA_LOSS \<equiv> 370"
abbreviation T_FOREIGN :: token where "T_FOREIGN \<equiv> 371"
abbreviation T_FORMAT :: token where "T_FORMAT \<equiv> 372"
abbreviation T_FORMATMESSAGE :: token where "T_FORMATMESSAGE \<equiv> 373"
abbreviation T_FORWARD_ONLY :: token where "T_FORWARD_ONLY \<equiv> 374"
abbreviation T_FREE :: token where "T_FREE \<equiv> 375"
abbreviation T_FREETEXT :: token where "T_FREETEXT \<equiv> 376"
abbreviation T_FREETEXTTABLE :: token where "T_FREETEXTTABLE \<equiv> 377"
abbreviation T_FROM :: token where "T_FROM \<equiv> 378"
abbreviation T_FULL :: token where "T_FULL \<equiv> 379"
abbreviation T_FULLSCAN :: token where "T_FULLSCAN \<equiv> 380"
abbreviation T_FULLTEXT :: token where "T_FULLTEXT \<equiv> 381"
abbreviation T_FULLTEXTCATALOGPROPERTY :: token where "T_FULLTEXTCATALOGPROPERTY \<equiv> 382"
abbreviation T_FULLTEXTSERVICEPROPERTY :: token where "T_FULLTEXTSERVICEPROPERTY \<equiv> 383"
abbreviation T_FUNCTION :: token where "T_FUNCTION \<equiv> 384"
abbreviation T_GB :: token where "T_GB \<equiv> 385"
abbreviation T_GENERATED :: token where "T_GENERATED \<equiv> 386"
abbreviation T_GET :: token where "T_GET \<equiv> 387"
abbreviation T_GETANCESTOR :: token where "T_GETANCESTOR \<equiv> 388"
abbreviation T_GETANSINULL :: token where "T_GETANSINULL \<equiv> 389"
abbreviation T_GETDATE :: token where "T_GETDATE \<equiv> 390"
abbreviation T_GETDESCENDANT :: token where "T_GETDESCENDANT \<equiv> 391"
abbreviation T_GETLEVEL :: token where "T_GETLEVEL \<equiv> 392"
abbreviation T_GETREPARENTEDVALUE :: token where "T_GETREPARENTEDVALUE \<equiv> 393"
abbreviation T_GETROOT :: token where "T_GETROOT \<equiv> 394"
abbreviation T_GETUTCDATE :: token where "T_GETUTCDATE \<equiv> 395"
abbreviation T_GET_FILESTREAM_TRANSACTION_CONTEXT :: token where "T_GET_FILESTREAM_TRANSACTION_CONTEXT \<equiv> 396"
abbreviation T_GLOBAL :: token where "T_GLOBAL \<equiv> 397"
abbreviation T_GO :: token where "T_GO \<equiv> 398"
abbreviation T_GOTO :: token where "T_GOTO \<equiv> 399"
abbreviation T_GOVERNOR :: token where "T_GOVERNOR \<equiv> 400"
abbreviation T_GRANT :: token where "T_GRANT \<equiv> 401"
abbreviation T_GREATEST :: token where "T_GREATEST \<equiv> 402"
abbreviation T_GROUP :: token where "T_GROUP \<equiv> 403"
abbreviation T_GROUPING :: token where "T_GROUPING \<equiv> 404"
abbreviation T_GROUPING_ID :: token where "T_GROUPING_ID \<equiv> 405"
abbreviation T_GROUP_MAX_REQUESTS :: token where "T_GROUP_MAX_REQUESTS \<equiv> 406"
abbreviation T_HADR :: token where "T_HADR \<equiv> 407"
abbreviation T_HASH :: token where "T_HASH \<equiv> 408"
abbreviation T_HASHED :: token where "T_HASHED \<equiv> 409"
abbreviation T_HAS_DBACCESS :: token where "T_HAS_DBACCESS \<equiv> 410"
abbreviation T_HAS_PERMS_BY_NAME :: token where "T_HAS_PERMS_BY_NAME \<equiv> 411"
abbreviation T_HAVING :: token where "T_HAVING \<equiv> 412"
abbreviation T_HEALTHCHECKTIMEOUT :: token where "T_HEALTHCHECKTIMEOUT \<equiv> 413"
abbreviation T_HEALTH_CHECK_TIMEOUT :: token where "T_HEALTH_CHECK_TIMEOUT \<equiv> 414"
abbreviation T_HEAP :: token where "T_HEAP \<equiv> 415"
abbreviation T_HIDDEN_KEYWORD :: token where "T_HIDDEN_KEYWORD \<equiv> 416"
abbreviation T_HIERARCHYID :: token where "T_HIERARCHYID \<equiv> 417"
abbreviation T_HIGH :: token where "T_HIGH \<equiv> 418"
abbreviation T_HOLDLOCK :: token where "T_HOLDLOCK \<equiv> 419"
abbreviation T_HONOR_BROKER_PRIORITY :: token where "T_HONOR_BROKER_PRIORITY \<equiv> 420"
abbreviation T_HOST_ID :: token where "T_HOST_ID \<equiv> 421"
abbreviation T_HOST_NAME :: token where "T_HOST_NAME \<equiv> 422"
abbreviation T_HOURS :: token where "T_HOURS \<equiv> 423"
abbreviation T_IDENTITY :: token where "T_IDENTITY \<equiv> 424"
abbreviation T_IDENTITYCOL :: token where "T_IDENTITYCOL \<equiv> 425"
abbreviation T_IDENTITY_INSERT :: token where "T_IDENTITY_INSERT \<equiv> 426"
abbreviation T_IDENTITY_VALUE :: token where "T_IDENTITY_VALUE \<equiv> 427"
abbreviation T_IDENT_CURRENT :: token where "T_IDENT_CURRENT \<equiv> 428"
abbreviation T_IDENT_INCR :: token where "T_IDENT_INCR \<equiv> 429"
abbreviation T_IDENT_SEED :: token where "T_IDENT_SEED \<equiv> 430"
abbreviation T_IF :: token where "T_IF \<equiv> 431"
abbreviation T_IGNORE_CONSTRAINTS :: token where "T_IGNORE_CONSTRAINTS \<equiv> 432"
abbreviation T_IGNORE_DUP_KEY :: token where "T_IGNORE_DUP_KEY \<equiv> 433"
abbreviation T_IGNORE_NONCLUSTERED_COLUMNSTORE_INDEX :: token where "T_IGNORE_NONCLUSTERED_COLUMNSTORE_INDEX \<equiv> 434"
abbreviation T_IGNORE_REPLICATED_TABLE_CACHE :: token where "T_IGNORE_REPLICATED_TABLE_CACHE \<equiv> 435"
abbreviation T_IGNORE_TRIGGERS :: token where "T_IGNORE_TRIGGERS \<equiv> 436"
abbreviation T_IIF :: token where "T_IIF \<equiv> 437"
abbreviation T_IMMEDIATE :: token where "T_IMMEDIATE \<equiv> 438"
abbreviation T_IMPERSONATE :: token where "T_IMPERSONATE \<equiv> 439"
abbreviation T_IMPLICIT_TRANSACTIONS :: token where "T_IMPLICIT_TRANSACTIONS \<equiv> 440"
abbreviation T_IMPORTANCE :: token where "T_IMPORTANCE \<equiv> 441"
abbreviation T_IN :: token where "T_IN \<equiv> 442"
abbreviation T_INCLUDE :: token where "T_INCLUDE \<equiv> 443"
abbreviation T_INCLUDE_NULL_VALUES :: token where "T_INCLUDE_NULL_VALUES \<equiv> 444"
abbreviation T_INCREMENT :: token where "T_INCREMENT \<equiv> 445"
abbreviation T_INCREMENTAL :: token where "T_INCREMENTAL \<equiv> 446"
abbreviation T_INDEX :: token where "T_INDEX \<equiv> 447"
abbreviation T_INDEXKEY_PROPERTY :: token where "T_INDEXKEY_PROPERTY \<equiv> 448"
abbreviation T_INDEXPROPERTY :: token where "T_INDEXPROPERTY \<equiv> 449"
abbreviation T_INDEX_COL :: token where "T_INDEX_COL \<equiv> 450"
abbreviation T_INFINITE :: token where "T_INFINITE \<equiv> 451"
abbreviation T_INIT :: token where "T_INIT \<equiv> 452"
abbreviation T_INITIATOR :: token where "T_INITIATOR \<equiv> 453"
abbreviation T_INNER :: token where "T_INNER \<equiv> 454"
abbreviation T_INPUT :: token where "T_INPUT \<equiv> 455"
abbreviation T_INSENSITIVE :: token where "T_INSENSITIVE \<equiv> 456"
abbreviation T_INSERT :: token where "T_INSERT \<equiv> 457"
abbreviation T_INSERTED :: token where "T_INSERTED \<equiv> 458"
abbreviation T_INSTEAD :: token where "T_INSTEAD \<equiv> 459"
abbreviation T_INT :: token where "T_INT \<equiv> 460"
abbreviation T_INTERSECT :: token where "T_INTERSECT \<equiv> 461"
abbreviation T_INTO :: token where "T_INTO \<equiv> 462"
abbreviation T_IO :: token where "T_IO \<equiv> 463"
abbreviation T_IP :: token where "T_IP \<equiv> 464"
abbreviation T_IS :: token where "T_IS \<equiv> 465"
abbreviation T_ISDESCENDANTOF :: token where "T_ISDESCENDANTOF \<equiv> 466"
abbreviation T_ISJSON :: token where "T_ISJSON \<equiv> 467"
abbreviation T_ISNULL :: token where "T_ISNULL \<equiv> 468"
abbreviation T_ISNUMERIC :: token where "T_ISNUMERIC \<equiv> 469"
abbreviation T_ISOLATION :: token where "T_ISOLATION \<equiv> 470"
abbreviation T_IS_MEMBER :: token where "T_IS_MEMBER \<equiv> 471"
abbreviation T_IS_ROLEMEMBER :: token where "T_IS_ROLEMEMBER \<equiv> 472"
abbreviation T_IS_SRVROLEMEMBER :: token where "T_IS_SRVROLEMEMBER \<equiv> 473"
abbreviation T_JOB :: token where "T_JOB \<equiv> 474"
abbreviation T_JOIN :: token where "T_JOIN \<equiv> 475"
abbreviation T_JSON :: token where "T_JSON \<equiv> 476"
abbreviation T_JSON_ARRAY :: token where "T_JSON_ARRAY \<equiv> 477"
abbreviation T_JSON_MODIFY :: token where "T_JSON_MODIFY \<equiv> 478"
abbreviation T_JSON_OBJECT :: token where "T_JSON_OBJECT \<equiv> 479"
abbreviation T_JSON_PATH_EXISTS :: token where "T_JSON_PATH_EXISTS \<equiv> 480"
abbreviation T_JSON_QUERY :: token where "T_JSON_QUERY \<equiv> 481"
abbreviation T_JSON_VALUE :: token where "T_JSON_VALUE \<equiv> 482"
abbreviation T_KB :: token where "T_KB \<equiv> 483"
abbreviation T_KEEP :: token where "T_KEEP \<equiv> 484"
abbreviation T_KEEPDEFAULTS :: token where "T_KEEPDEFAULTS \<equiv> 485"
abbreviation T_KEEPFIXED :: token where "T_KEEPFIXED \<equiv> 486"
abbreviation T_KEEPIDENTITY :: token where "T_KEEPIDENTITY \<equiv> 487"
abbreviation T_KERBEROS :: token where "T_KERBEROS \<equiv> 488"
abbreviation T_KEY :: token where "T_KEY \<equiv> 489"
abbreviation T_KEYS :: token where "T_KEYS \<equiv> 490"
abbreviation T_KEYSET :: token where "T_KEYSET \<equiv> 491"
abbreviation T_KEY_PATH :: token where "T_KEY_PATH \<equiv> 492"
abbreviation T_KEY_SOURCE :: token where "T_KEY_SOURCE \<equiv> 493"
abbreviation T_KEY_STORE_PROVIDER_NAME :: token where "T_KEY_STORE_PROVIDER_NAME \<equiv> 494"
abbreviation T_KILL :: token where "T_KILL \<equiv> 495"
abbreviation T_LAG :: token where "T_LAG \<equiv> 496"
abbreviation T_LANGUAGE :: token where "T_LANGUAGE \<equiv> 497"
abbreviation T_LAST :: token where "T_LAST \<equiv> 498"
abbreviation T_LAST_VALUE :: token where "T_LAST_VALUE \<equiv> 499"
abbreviation T_LEAD :: token where "T_LEAD \<equiv> 500"
abbreviation T_LEAST :: token where "T_LEAST \<equiv> 501"
abbreviation T_LEFT :: token where "T_LEFT \<equiv> 502"
abbreviation T_LEN :: token where "T_LEN \<equiv> 503"
abbreviation T_LEVEL :: token where "T_LEVEL \<equiv> 504"
abbreviation T_LIBRARY :: token where "T_LIBRARY \<equiv> 505"
abbreviation T_LIFETIME :: token where "T_LIFETIME \<equiv> 506"
abbreviation T_LIKE :: token where "T_LIKE \<equiv> 507"
abbreviation T_LINENO :: token where "T_LINENO \<equiv> 508"
abbreviation T_LINKED :: token where "T_LINKED \<equiv> 509"
abbreviation T_LINUX :: token where "T_LINUX \<equiv> 510"
abbreviation T_LIST :: token where "T_LIST \<equiv> 511"
abbreviation T_LISTENER :: token where "T_LISTENER \<equiv> 512"
abbreviation T_LISTENER_IP :: token where "T_LISTENER_IP \<equiv> 513"
abbreviation T_LISTENER_PORT :: token where "T_LISTENER_PORT \<equiv> 514"
abbreviation T_LISTENER_URL :: token where "T_LISTENER_URL \<equiv> 515"
abbreviation T_LOAD :: token where "T_LOAD \<equiv> 516"
abbreviation T_LOB_COMPACTION :: token where "T_LOB_COMPACTION \<equiv> 517"
abbreviation T_LOCAL :: token where "T_LOCAL \<equiv> 518"
abbreviation T_LOCAL_SERVICE_NAME :: token where "T_LOCAL_SERVICE_NAME \<equiv> 519"
abbreviation T_LOCATION :: token where "T_LOCATION \<equiv> 520"
abbreviation T_LOCK :: token where "T_LOCK \<equiv> 521"
abbreviation T_LOCK_ESCALATION :: token where "T_LOCK_ESCALATION \<equiv> 522"
abbreviation T_LOG :: token where "T_LOG \<equiv> 523"
abbreviation T_LOGIN :: token where "T_LOGIN \<equiv> 524"
abbreviation T_LOGINPROPERTY :: token where "T_LOGINPROPERTY \<equiv> 525"
abbreviation T_LOOP :: token where "T_LOOP \<equiv> 526"
abbreviation T_LOW :: token where "T_LOW \<equiv> 527"
abbreviation T_LOWER :: token where "T_LOWER \<equiv> 528"
abbreviation T_LTRIM :: token where "T_LTRIM \<equiv> 529"
abbreviation T_MANUAL :: token where "T_MANUAL \<equiv> 530"
abbreviation T_MARK :: token where "T_MARK \<equiv> 531"
abbreviation T_MASK :: token where "T_MASK \<equiv> 532"
abbreviation T_MASKED :: token where "T_MASKED \<equiv> 533"
abbreviation T_MASTER :: token where "T_MASTER \<equiv> 534"
abbreviation T_MATCHED :: token where "T_MATCHED \<equiv> 535"
abbreviation T_MATERIALIZED :: token where "T_MATERIALIZED \<equiv> 536"
abbreviation T_MAX :: token where "T_MAX \<equiv> 537"
abbreviation T_MAXDOP :: token where "T_MAXDOP \<equiv> 538"
abbreviation T_MAXRECURSION :: token where "T_MAXRECURSION \<equiv> 539"
abbreviation T_MAXSIZE :: token where "T_MAXSIZE \<equiv> 540"
abbreviation T_MAXTRANSFER :: token where "T_MAXTRANSFER \<equiv> 541"
abbreviation T_MAXVALUE :: token where "T_MAXVALUE \<equiv> 542"
abbreviation T_MAX_CPU_PERCENT :: token where "T_MAX_CPU_PERCENT \<equiv> 543"
abbreviation T_MAX_DISPATCH_LATENCY :: token where "T_MAX_DISPATCH_LATENCY \<equiv> 544"
abbreviation T_MAX_DOP :: token where "T_MAX_DOP \<equiv> 545"
abbreviation T_MAX_DURATION :: token where "T_MAX_DURATION \<equiv> 546"
abbreviation T_MAX_EVENT_SIZE :: token where "T_MAX_EVENT_SIZE \<equiv> 547"
abbreviation T_MAX_FILES :: token where "T_MAX_FILES \<equiv> 548"
abbreviation T_MAX_IOPS_PER_VOLUME :: token where "T_MAX_IOPS_PER_VOLUME \<equiv> 549"
abbreviation T_MAX_MEMORY :: token where "T_MAX_MEMORY \<equiv> 550"
abbreviation T_MAX_MEMORY_PERCENT :: token where "T_MAX_MEMORY_PERCENT \<equiv> 551"
abbreviation T_MAX_OUTSTANDING_IO_PER_VOLUME :: token where "T_MAX_OUTSTANDING_IO_PER_VOLUME \<equiv> 552"
abbreviation T_MAX_PROCESSES :: token where "T_MAX_PROCESSES \<equiv> 553"
abbreviation T_MAX_QUEUE_READERS :: token where "T_MAX_QUEUE_READERS \<equiv> 554"
abbreviation T_MAX_ROLLOVER_FILES :: token where "T_MAX_ROLLOVER_FILES \<equiv> 555"
abbreviation T_MAX_SIZE :: token where "T_MAX_SIZE \<equiv> 556"
abbreviation T_MB :: token where "T_MB \<equiv> 557"
abbreviation T_MEDIADESCRIPTION :: token where "T_MEDIADESCRIPTION \<equiv> 558"
abbreviation T_MEDIANAME :: token where "T_MEDIANAME \<equiv> 559"
abbreviation T_MEDIUM :: token where "T_MEDIUM \<equiv> 560"
abbreviation T_MEMBER :: token where "T_MEMBER \<equiv> 561"
abbreviation T_MEMORY_OPTIMIZED_DATA :: token where "T_MEMORY_OPTIMIZED_DATA \<equiv> 562"
abbreviation T_MEMORY_PARTITION_MODE :: token where "T_MEMORY_PARTITION_MODE \<equiv> 563"
abbreviation T_MERGE :: token where "T_MERGE \<equiv> 564"
abbreviation T_MESSAGE :: token where "T_MESSAGE \<equiv> 565"
abbreviation T_MESSAGE_FORWARDING :: token where "T_MESSAGE_FORWARDING \<equiv> 566"
abbreviation T_MESSAGE_FORWARD_SIZE :: token where "T_MESSAGE_FORWARD_SIZE \<equiv> 567"
abbreviation T_MIN :: token where "T_MIN \<equiv> 568"
abbreviation T_MINUTES :: token where "T_MINUTES \<equiv> 569"
abbreviation T_MINVALUE :: token where "T_MINVALUE \<equiv> 570"
abbreviation T_MIN_ACTIVE_ROWVERSION :: token where "T_MIN_ACTIVE_ROWVERSION \<equiv> 571"
abbreviation T_MIN_CPU_PERCENT :: token where "T_MIN_CPU_PERCENT \<equiv> 572"
abbreviation T_MIN_IOPS_PER_VOLUME :: token where "T_MIN_IOPS_PER_VOLUME \<equiv> 573"
abbreviation T_MIN_MEMORY_PERCENT :: token where "T_MIN_MEMORY_PERCENT \<equiv> 574"
abbreviation T_MIRROR :: token where "T_MIRROR \<equiv> 575"
abbreviation T_MIRROR_ADDRESS :: token where "T_MIRROR_ADDRESS \<equiv> 576"
abbreviation T_MIXED_PAGE_ALLOCATION :: token where "T_MIXED_PAGE_ALLOCATION \<equiv> 577"
abbreviation T_MODE :: token where "T_MODE \<equiv> 578"
abbreviation T_MODIFY :: token where "T_MODIFY \<equiv> 579"
abbreviation T_MODIFY_SQUARE_BRACKET :: token where "T_MODIFY_SQUARE_BRACKET \<equiv> 580"
abbreviation T_MOVE :: token where "T_MOVE \<equiv> 581"
abbreviation T_MULTI_USER :: token where "T_MULTI_USER \<equiv> 582"
abbreviation T_MUST_CHANGE :: token where "T_MUST_CHANGE \<equiv> 583"
abbreviation T_NAME :: token where "T_NAME \<equiv> 584"
abbreviation T_NATIONAL :: token where "T_NATIONAL \<equiv> 585"
abbreviation T_NCHAR :: token where "T_NCHAR \<equiv> 586"
abbreviation T_NEGOTIATE :: token where "T_NEGOTIATE \<equiv> 587"
abbreviation T_NESTED_TRIGGERS :: token where "T_NESTED_TRIGGERS \<equiv> 588"
abbreviation T_NEWID :: token where "T_NEWID \<equiv> 589"
abbreviation T_NEWNAME :: token where "T_NEWNAME \<equiv> 590"
abbreviation T_NEWSEQUENTIALID :: token where "T_NEWSEQUENTIALID \<equiv> 591"
abbreviation T_NEW_ACCOUNT :: token where "T_NEW_ACCOUNT \<equiv> 592"
abbreviation T_NEW_BROKER :: token where "T_NEW_BROKER \<equiv> 593"
abbreviation T_NEW_PASSWORD :: token where "T_NEW_PASSWORD \<equiv> 594"
abbreviation T_NEXT :: token where "T_NEXT \<equiv> 595"
abbreviation T_NO :: token where "T_NO \<equiv> 596"
abbreviation T_NOCHECK :: token where "T_NOCHECK \<equiv> 597"
abbreviation T_NOCOUNT :: token where "T_NOCOUNT \<equiv> 598"
abbreviation T_NODES :: token where "T_NODES \<equiv> 599"
abbreviation T_NOEXEC :: token where "T_NOEXEC \<equiv> 600"
abbreviation T_NOEXPAND :: token where "T_NOEXPAND \<equiv> 601"
abbreviation T_NOFORMAT :: token where "T_NOFORMAT \<equiv> 602"
abbreviation T_NOHOLDLOCK :: token where "T_NOHOLDLOCK \<equiv> 603"
abbreviation T_NOINDEX :: token where "T_NOINDEX \<equiv> 604"
abbreviation T_NOINIT :: token where "T_NOINIT \<equiv> 605"
abbreviation T_NOLOCK :: token where "T_NOLOCK \<equiv> 606"
abbreviation T_NONCLUSTERED :: token where "T_NONCLUSTERED \<equiv> 607"
abbreviation T_NONE :: token where "T_NONE \<equiv> 608"
abbreviation T_NON_TRANSACTED_ACCESS :: token where "T_NON_TRANSACTED_ACCESS \<equiv> 609"
abbreviation T_NORECOMPUTE :: token where "T_NORECOMPUTE \<equiv> 610"
abbreviation T_NORECOVERY :: token where "T_NORECOVERY \<equiv> 611"
abbreviation T_NOREWIND :: token where "T_NOREWIND \<equiv> 612"
abbreviation T_NOSKIP :: token where "T_NOSKIP \<equiv> 613"
abbreviation T_NOT :: token where "T_NOT \<equiv> 614"
abbreviation T_NOTIFICATION :: token where "T_NOTIFICATION \<equiv> 615"
abbreviation T_NOTIFICATIONS :: token where "T_NOTIFICATIONS \<equiv> 616"
abbreviation T_NOUNLOAD :: token where "T_NOUNLOAD \<equiv> 617"
abbreviation T_NOWAIT :: token where "T_NOWAIT \<equiv> 618"
abbreviation T_NO_CHECKSUM :: token where "T_NO_CHECKSUM \<equiv> 619"
abbreviation T_NO_COMPRESSION :: token where "T_NO_COMPRESSION \<equiv> 620"
abbreviation T_NO_EVENT_LOSS :: token where "T_NO_EVENT_LOSS \<equiv> 621"
abbreviation T_NO_INFOMSGS :: token where "T_NO_INFOMSGS \<equiv> 622"
abbreviation T_NO_QUERYSTORE :: token where "T_NO_QUERYSTORE \<equiv> 623"
abbreviation T_NO_STATISTICS :: token where "T_NO_STATISTICS \<equiv> 624"
abbreviation T_NO_TRUNCATE :: token where "T_NO_TRUNCATE \<equiv> 625"
abbreviation T_NO_WAIT :: token where "T_NO_WAIT \<equiv> 626"
abbreviation T_NTILE :: token where "T_NTILE \<equiv> 627"
abbreviation T_NTLM :: token where "T_NTLM \<equiv> 628"
abbreviation T_NULLIF :: token where "T_NULLIF \<equiv> 629"
abbreviation T_NULL' :: token where "T_NULL' \<equiv> 630"
abbreviation T_NULL_DOUBLE_QUOTE :: token where "T_NULL_DOUBLE_QUOTE \<equiv> 631"
abbreviation T_NUMANODE :: token where "T_NUMANODE \<equiv> 632"
abbreviation T_NUMBER :: token where "T_NUMBER \<equiv> 633"
abbreviation T_NUMERIC_ROUNDABORT :: token where "T_NUMERIC_ROUNDABORT \<equiv> 634"
abbreviation T_OBJECT :: token where "T_OBJECT \<equiv> 635"
abbreviation T_OBJECTPROPERTY :: token where "T_OBJECTPROPERTY \<equiv> 636"
abbreviation T_OBJECTPROPERTYEX :: token where "T_OBJECTPROPERTYEX \<equiv> 637"
abbreviation T_OBJECT_DEFINITION :: token where "T_OBJECT_DEFINITION \<equiv> 638"
abbreviation T_OBJECT_ID :: token where "T_OBJECT_ID \<equiv> 639"
abbreviation T_OBJECT_NAME :: token where "T_OBJECT_NAME \<equiv> 640"
abbreviation T_OBJECT_SCHEMA_NAME :: token where "T_OBJECT_SCHEMA_NAME \<equiv> 641"
abbreviation T_OF :: token where "T_OF \<equiv> 642"
abbreviation T_OFF :: token where "T_OFF \<equiv> 643"
abbreviation T_OFFLINE :: token where "T_OFFLINE \<equiv> 644"
abbreviation T_OFFSET :: token where "T_OFFSET \<equiv> 645"
abbreviation T_OFFSETS :: token where "T_OFFSETS \<equiv> 646"
abbreviation T_OLD_ACCOUNT :: token where "T_OLD_ACCOUNT \<equiv> 647"
abbreviation T_OLD_PASSWORD :: token where "T_OLD_PASSWORD \<equiv> 648"
abbreviation T_ON :: token where "T_ON \<equiv> 649"
abbreviation T_ONLINE :: token where "T_ONLINE \<equiv> 650"
abbreviation T_ONLY :: token where "T_ONLY \<equiv> 651"
abbreviation T_ON_FAILURE :: token where "T_ON_FAILURE \<equiv> 652"
abbreviation T_OPEN :: token where "T_OPEN \<equiv> 653"
abbreviation T_OPENDATASOURCE :: token where "T_OPENDATASOURCE \<equiv> 654"
abbreviation T_OPENJSON :: token where "T_OPENJSON \<equiv> 655"
abbreviation T_OPENQUERY :: token where "T_OPENQUERY \<equiv> 656"
abbreviation T_OPENROWSET :: token where "T_OPENROWSET \<equiv> 657"
abbreviation T_OPENXML :: token where "T_OPENXML \<equiv> 658"
abbreviation T_OPEN_EXISTING :: token where "T_OPEN_EXISTING \<equiv> 659"
abbreviation T_OPERATIONS :: token where "T_OPERATIONS \<equiv> 660"
abbreviation T_OPTIMISTIC :: token where "T_OPTIMISTIC \<equiv> 661"
abbreviation T_OPTIMIZE :: token where "T_OPTIMIZE \<equiv> 662"
abbreviation T_OPTIMIZE_FOR_SEQUENTIAL_KEY :: token where "T_OPTIMIZE_FOR_SEQUENTIAL_KEY \<equiv> 663"
abbreviation T_OPTION :: token where "T_OPTION \<equiv> 664"
abbreviation T_OR :: token where "T_OR \<equiv> 665"
abbreviation T_ORDER :: token where "T_ORDER \<equiv> 666"
abbreviation T_ORIGINAL_DB_NAME :: token where "T_ORIGINAL_DB_NAME \<equiv> 667"
abbreviation T_ORIGINAL_LOGIN :: token where "T_ORIGINAL_LOGIN \<equiv> 668"
abbreviation T_OUT :: token where "T_OUT \<equiv> 669"
abbreviation T_OUTER :: token where "T_OUTER \<equiv> 670"
abbreviation T_OUTPUT :: token where "T_OUTPUT \<equiv> 671"
abbreviation T_OVER :: token where "T_OVER \<equiv> 672"
abbreviation T_OVERRIDE :: token where "T_OVERRIDE \<equiv> 673"
abbreviation T_OWNER :: token where "T_OWNER \<equiv> 674"
abbreviation T_OWNERSHIP :: token where "T_OWNERSHIP \<equiv> 675"
abbreviation T_PAD_INDEX :: token where "T_PAD_INDEX \<equiv> 676"
abbreviation T_PAGE :: token where "T_PAGE \<equiv> 677"
abbreviation T_PAGECOUNT :: token where "T_PAGECOUNT \<equiv> 678"
abbreviation T_PAGE_VERIFY :: token where "T_PAGE_VERIFY \<equiv> 679"
abbreviation T_PAGLOCK :: token where "T_PAGLOCK \<equiv> 680"
abbreviation T_PARAMETERIZATION :: token where "T_PARAMETERIZATION \<equiv> 681"
abbreviation T_PARAM_NODE :: token where "T_PARAM_NODE \<equiv> 682"
abbreviation T_PARSE :: token where "T_PARSE \<equiv> 683"
abbreviation T_PARSENAME :: token where "T_PARSENAME \<equiv> 684"
abbreviation T_PARSEONLY :: token where "T_PARSEONLY \<equiv> 685"
abbreviation T_PARTIAL :: token where "T_PARTIAL \<equiv> 686"
abbreviation T_PARTITION :: token where "T_PARTITION \<equiv> 687"
abbreviation T_PARTITIONS :: token where "T_PARTITIONS \<equiv> 688"
abbreviation T_PARTNER :: token where "T_PARTNER \<equiv> 689"
abbreviation T_PASSWORD :: token where "T_PASSWORD \<equiv> 690"
abbreviation T_PATH :: token where "T_PATH \<equiv> 691"
abbreviation T_PATINDEX :: token where "T_PATINDEX \<equiv> 692"
abbreviation T_PAUSE :: token where "T_PAUSE \<equiv> 693"
abbreviation T_PDW_SHOWSPACEUSED :: token where "T_PDW_SHOWSPACEUSED \<equiv> 694"
abbreviation T_PERCENT :: token where "T_PERCENT \<equiv> 695"
abbreviation T_PERCENTILE_CONT :: token where "T_PERCENTILE_CONT \<equiv> 696"
abbreviation T_PERCENTILE_DISC :: token where "T_PERCENTILE_DISC \<equiv> 697"
abbreviation T_PERCENT_RANK :: token where "T_PERCENT_RANK \<equiv> 698"
abbreviation T_PERMISSIONS :: token where "T_PERMISSIONS \<equiv> 699"
abbreviation T_PERMISSION_SET :: token where "T_PERMISSION_SET \<equiv> 700"
abbreviation T_PERSISTED :: token where "T_PERSISTED \<equiv> 701"
abbreviation T_PERSIST_SAMPLE_PERCENT :: token where "T_PERSIST_SAMPLE_PERCENT \<equiv> 702"
abbreviation T_PER_CPU :: token where "T_PER_CPU \<equiv> 703"
abbreviation T_PER_DB :: token where "T_PER_DB \<equiv> 704"
abbreviation T_PER_NODE :: token where "T_PER_NODE \<equiv> 705"
abbreviation T_PHYSICAL_ONLY :: token where "T_PHYSICAL_ONLY \<equiv> 706"
abbreviation T_PIVOT :: token where "T_PIVOT \<equiv> 707"
abbreviation T_PLAN :: token where "T_PLAN \<equiv> 708"
abbreviation T_PLATFORM :: token where "T_PLATFORM \<equiv> 709"
abbreviation T_POISON_MESSAGE_HANDLING :: token where "T_POISON_MESSAGE_HANDLING \<equiv> 710"
abbreviation T_POLICY :: token where "T_POLICY \<equiv> 711"
abbreviation T_POOL :: token where "T_POOL \<equiv> 712"
abbreviation T_PORT :: token where "T_PORT \<equiv> 713"
abbreviation T_PRECEDING :: token where "T_PRECEDING \<equiv> 714"
abbreviation T_PRECISION :: token where "T_PRECISION \<equiv> 715"
abbreviation T_PREDICATE :: token where "T_PREDICATE \<equiv> 716"
abbreviation T_PRIMARY :: token where "T_PRIMARY \<equiv> 717"
abbreviation T_PRIMARY_ROLE :: token where "T_PRIMARY_ROLE \<equiv> 718"
abbreviation T_PRINT :: token where "T_PRINT \<equiv> 719"
abbreviation T_PRIOR :: token where "T_PRIOR \<equiv> 720"
abbreviation T_PRIORITY :: token where "T_PRIORITY \<equiv> 721"
abbreviation T_PRIORITY_LEVEL :: token where "T_PRIORITY_LEVEL \<equiv> 722"
abbreviation T_PRIVATE :: token where "T_PRIVATE \<equiv> 723"
abbreviation T_PRIVATE_KEY :: token where "T_PRIVATE_KEY \<equiv> 724"
abbreviation T_PRIVILEGES :: token where "T_PRIVILEGES \<equiv> 725"
abbreviation T_PROC :: token where "T_PROC \<equiv> 726"
abbreviation T_PROCCACHE :: token where "T_PROCCACHE \<equiv> 727"
abbreviation T_PROCEDURE :: token where "T_PROCEDURE \<equiv> 728"
abbreviation T_PROCEDURE_NAME :: token where "T_PROCEDURE_NAME \<equiv> 729"
abbreviation T_PROCESS :: token where "T_PROCESS \<equiv> 730"
abbreviation T_PROFILE :: token where "T_PROFILE \<equiv> 731"
abbreviation T_PROPERTY :: token where "T_PROPERTY \<equiv> 732"
abbreviation T_PROVIDER :: token where "T_PROVIDER \<equiv> 733"
abbreviation T_PROVIDER_KEY_NAME :: token where "T_PROVIDER_KEY_NAME \<equiv> 734"
abbreviation T_PUBLIC :: token where "T_PUBLIC \<equiv> 735"
abbreviation T_PWDCOMPARE :: token where "T_PWDCOMPARE \<equiv> 736"
abbreviation T_PWDENCRYPT :: token where "T_PWDENCRYPT \<equiv> 737"
abbreviation T_PYTHON :: token where "T_PYTHON \<equiv> 738"
abbreviation T_QUERY :: token where "T_QUERY \<equiv> 739"
abbreviation T_QUERY_SQUARE_BRACKET :: token where "T_QUERY_SQUARE_BRACKET \<equiv> 740"
abbreviation T_QUEUE :: token where "T_QUEUE \<equiv> 741"
abbreviation T_QUEUE_DELAY :: token where "T_QUEUE_DELAY \<equiv> 742"
abbreviation T_QUOTED_IDENTIFIER :: token where "T_QUOTED_IDENTIFIER \<equiv> 743"
abbreviation T_QUOTENAME :: token where "T_QUOTENAME \<equiv> 744"
abbreviation T_R :: token where "T_R \<equiv> 745"
abbreviation T_RAISERROR :: token where "T_RAISERROR \<equiv> 746"
abbreviation T_RANDOMIZED :: token where "T_RANDOMIZED \<equiv> 747"
abbreviation T_RANGE :: token where "T_RANGE \<equiv> 748"
abbreviation T_RANK :: token where "T_RANK \<equiv> 749"
abbreviation T_RAW :: token where "T_RAW \<equiv> 750"
abbreviation T_RC2 :: token where "T_RC2 \<equiv> 751"
abbreviation T_RC4 :: token where "T_RC4 \<equiv> 752"
abbreviation T_RC4_128 :: token where "T_RC4_128 \<equiv> 753"
abbreviation T_READ :: token where "T_READ \<equiv> 754"
abbreviation T_READCOMMITTED :: token where "T_READCOMMITTED \<equiv> 755"
abbreviation T_READCOMMITTEDLOCK :: token where "T_READCOMMITTEDLOCK \<equiv> 756"
abbreviation T_READONLY :: token where "T_READONLY \<equiv> 757"
abbreviation T_READPAST :: token where "T_READPAST \<equiv> 758"
abbreviation T_READTEXT :: token where "T_READTEXT \<equiv> 759"
abbreviation T_READUNCOMMITTED :: token where "T_READUNCOMMITTED \<equiv> 760"
abbreviation T_READWRITE :: token where "T_READWRITE \<equiv> 761"
abbreviation T_READ_COMMITTED_SNAPSHOT :: token where "T_READ_COMMITTED_SNAPSHOT \<equiv> 762"
abbreviation T_READ_ONLY :: token where "T_READ_ONLY \<equiv> 763"
abbreviation T_READ_ONLY_ROUTING_LIST :: token where "T_READ_ONLY_ROUTING_LIST \<equiv> 764"
abbreviation T_READ_WRITE :: token where "T_READ_WRITE \<equiv> 765"
abbreviation T_READ_WRITE_FILEGROUPS :: token where "T_READ_WRITE_FILEGROUPS \<equiv> 766"
abbreviation T_REBUILD :: token where "T_REBUILD \<equiv> 767"
abbreviation T_RECEIVE :: token where "T_RECEIVE \<equiv> 768"
abbreviation T_RECOMPILE :: token where "T_RECOMPILE \<equiv> 769"
abbreviation T_RECONFIGURE :: token where "T_RECONFIGURE \<equiv> 770"
abbreviation T_RECOVERY :: token where "T_RECOVERY \<equiv> 771"
abbreviation T_RECURSIVE_TRIGGERS :: token where "T_RECURSIVE_TRIGGERS \<equiv> 772"
abbreviation T_REFERENCES :: token where "T_REFERENCES \<equiv> 773"
abbreviation T_REGENERATE :: token where "T_REGENERATE \<equiv> 774"
abbreviation T_RELATED_CONVERSATION :: token where "T_RELATED_CONVERSATION \<equiv> 775"
abbreviation T_RELATED_CONVERSATION_GROUP :: token where "T_RELATED_CONVERSATION_GROUP \<equiv> 776"
abbreviation T_RELATIVE :: token where "T_RELATIVE \<equiv> 777"
abbreviation T_REMOTE :: token where "T_REMOTE \<equiv> 778"
abbreviation T_REMOTE_PROC_TRANSACTIONS :: token where "T_REMOTE_PROC_TRANSACTIONS \<equiv> 779"
abbreviation T_REMOTE_SERVICE_NAME :: token where "T_REMOTE_SERVICE_NAME \<equiv> 780"
abbreviation T_REMOVE :: token where "T_REMOVE \<equiv> 781"
abbreviation T_REORGANIZE :: token where "T_REORGANIZE \<equiv> 782"
abbreviation T_REPAIR_ALLOW_DATA_LOSS :: token where "T_REPAIR_ALLOW_DATA_LOSS \<equiv> 783"
abbreviation T_REPAIR_FAST :: token where "T_REPAIR_FAST \<equiv> 784"
abbreviation T_REPAIR_REBUILD :: token where "T_REPAIR_REBUILD \<equiv> 785"
abbreviation T_REPEATABLE :: token where "T_REPEATABLE \<equiv> 786"
abbreviation T_REPEATABLEREAD :: token where "T_REPEATABLEREAD \<equiv> 787"
abbreviation T_REPLACE :: token where "T_REPLACE \<equiv> 788"
abbreviation T_REPLICA :: token where "T_REPLICA \<equiv> 789"
abbreviation T_REPLICATE :: token where "T_REPLICATE \<equiv> 790"
abbreviation T_REPLICATION :: token where "T_REPLICATION \<equiv> 791"
abbreviation T_REQUEST_MAX_CPU_TIME_SEC :: token where "T_REQUEST_MAX_CPU_TIME_SEC \<equiv> 792"
abbreviation T_REQUEST_MAX_MEMORY_GRANT_PERCENT :: token where "T_REQUEST_MAX_MEMORY_GRANT_PERCENT \<equiv> 793"
abbreviation T_REQUEST_MEMORY_GRANT_TIMEOUT_SEC :: token where "T_REQUEST_MEMORY_GRANT_TIMEOUT_SEC \<equiv> 794"
abbreviation T_REQUIRED :: token where "T_REQUIRED \<equiv> 795"
abbreviation T_REQUIRED_SYNCHRONIZED_SECONDARIES_TO_COMMIT :: token where "T_REQUIRED_SYNCHRONIZED_SECONDARIES_TO_COMMIT \<equiv> 796"
abbreviation T_RESAMPLE :: token where "T_RESAMPLE \<equiv> 797"
abbreviation T_RESERVE_DISK_SPACE :: token where "T_RESERVE_DISK_SPACE \<equiv> 798"
abbreviation T_RESET :: token where "T_RESET \<equiv> 799"
abbreviation T_RESOURCE :: token where "T_RESOURCE \<equiv> 800"
abbreviation T_RESOURCES :: token where "T_RESOURCES \<equiv> 801"
abbreviation T_RESOURCE_MANAGER_LOCATION :: token where "T_RESOURCE_MANAGER_LOCATION \<equiv> 802"
abbreviation T_RESTART :: token where "T_RESTART \<equiv> 803"
abbreviation T_RESTORE :: token where "T_RESTORE \<equiv> 804"
abbreviation T_RESTRICT :: token where "T_RESTRICT \<equiv> 805"
abbreviation T_RESTRICTED_USER :: token where "T_RESTRICTED_USER \<equiv> 806"
abbreviation T_RESUMABLE :: token where "T_RESUMABLE \<equiv> 807"
abbreviation T_RESUME :: token where "T_RESUME \<equiv> 808"
abbreviation T_RETAINDAYS :: token where "T_RETAINDAYS \<equiv> 809"
abbreviation T_RETENTION :: token where "T_RETENTION \<equiv> 810"
abbreviation T_RETURN :: token where "T_RETURN \<equiv> 811"
abbreviation T_RETURNS :: token where "T_RETURNS \<equiv> 812"
abbreviation T_REVERSE :: token where "T_REVERSE \<equiv> 813"
abbreviation T_REVERT :: token where "T_REVERT \<equiv> 814"
abbreviation T_REVOKE :: token where "T_REVOKE \<equiv> 815"
abbreviation T_REWIND :: token where "T_REWIND \<equiv> 816"
abbreviation T_RIGHT :: token where "T_RIGHT \<equiv> 817"
abbreviation T_ROBUST :: token where "T_ROBUST \<equiv> 818"
abbreviation T_ROLE :: token where "T_ROLE \<equiv> 819"
abbreviation T_ROLLBACK :: token where "T_ROLLBACK \<equiv> 820"
abbreviation T_ROOT :: token where "T_ROOT \<equiv> 821"
abbreviation T_ROUND_ROBIN :: token where "T_ROUND_ROBIN \<equiv> 822"
abbreviation T_ROUTE :: token where "T_ROUTE \<equiv> 823"
abbreviation T_ROW :: token where "T_ROW \<equiv> 824"
abbreviation T_ROWCOUNT :: token where "T_ROWCOUNT \<equiv> 825"
abbreviation T_ROWCOUNT_BIG :: token where "T_ROWCOUNT_BIG \<equiv> 826"
abbreviation T_ROWGUID :: token where "T_ROWGUID \<equiv> 827"
abbreviation T_ROWGUIDCOL :: token where "T_ROWGUIDCOL \<equiv> 828"
abbreviation T_ROWLOCK :: token where "T_ROWLOCK \<equiv> 829"
abbreviation T_ROWS :: token where "T_ROWS \<equiv> 830"
abbreviation T_ROW_NUMBER :: token where "T_ROW_NUMBER \<equiv> 831"
abbreviation T_RSA_1024 :: token where "T_RSA_1024 \<equiv> 832"
abbreviation T_RSA_2048 :: token where "T_RSA_2048 \<equiv> 833"
abbreviation T_RSA_3072 :: token where "T_RSA_3072 \<equiv> 834"
abbreviation T_RSA_4096 :: token where "T_RSA_4096 \<equiv> 835"
abbreviation T_RSA_512 :: token where "T_RSA_512 \<equiv> 836"
abbreviation T_RTRIM :: token where "T_RTRIM \<equiv> 837"
abbreviation T_RULE :: token where "T_RULE \<equiv> 838"
abbreviation T_SAFE :: token where "T_SAFE \<equiv> 839"
abbreviation T_SAFETY :: token where "T_SAFETY \<equiv> 840"
abbreviation T_SAMPLE :: token where "T_SAMPLE \<equiv> 841"
abbreviation T_SAVE :: token where "T_SAVE \<equiv> 842"
abbreviation T_SCHEDULER :: token where "T_SCHEDULER \<equiv> 843"
abbreviation T_SCHEMA :: token where "T_SCHEMA \<equiv> 844"
abbreviation T_SCHEMABINDING :: token where "T_SCHEMABINDING \<equiv> 845"
abbreviation T_SCHEMA_ID :: token where "T_SCHEMA_ID \<equiv> 846"
abbreviation T_SCHEMA_NAME :: token where "T_SCHEMA_NAME \<equiv> 847"
abbreviation T_SCHEME :: token where "T_SCHEME \<equiv> 848"
abbreviation T_SCOPED :: token where "T_SCOPED \<equiv> 849"
abbreviation T_SCOPE_IDENTITY :: token where "T_SCOPE_IDENTITY \<equiv> 850"
abbreviation T_SCRIPT :: token where "T_SCRIPT \<equiv> 851"
abbreviation T_SCROLL :: token where "T_SCROLL \<equiv> 852"
abbreviation T_SCROLL_LOCKS :: token where "T_SCROLL_LOCKS \<equiv> 853"
abbreviation T_SEARCH :: token where "T_SEARCH \<equiv> 854"
abbreviation T_SECONDARY :: token where "T_SECONDARY \<equiv> 855"
abbreviation T_SECONDARY_ONLY :: token where "T_SECONDARY_ONLY \<equiv> 856"
abbreviation T_SECONDARY_ROLE :: token where "T_SECONDARY_ROLE \<equiv> 857"
abbreviation T_SECONDS :: token where "T_SECONDS \<equiv> 858"
abbreviation T_SECRET :: token where "T_SECRET \<equiv> 859"
abbreviation T_SECURABLES :: token where "T_SECURABLES \<equiv> 860"
abbreviation T_SECURITY :: token where "T_SECURITY \<equiv> 861"
abbreviation T_SECURITYAUDIT :: token where "T_SECURITYAUDIT \<equiv> 862"
abbreviation T_SECURITY_LOG :: token where "T_SECURITY_LOG \<equiv> 863"
abbreviation T_SEEDING_MODE :: token where "T_SEEDING_MODE \<equiv> 864"
abbreviation T_SELECT :: token where "T_SELECT \<equiv> 865"
abbreviation T_SELF :: token where "T_SELF \<equiv> 866"
abbreviation T_SEMANTICKEYPHRASETABLE :: token where "T_SEMANTICKEYPHRASETABLE \<equiv> 867"
abbreviation T_SEMANTICSIMILARITYDETAILSTABLE :: token where "T_SEMANTICSIMILARITYDETAILSTABLE \<equiv> 868"
abbreviation T_SEMANTICSIMILARITYTABLE :: token where "T_SEMANTICSIMILARITYTABLE \<equiv> 869"
abbreviation T_SEMI_SENSITIVE :: token where "T_SEMI_SENSITIVE \<equiv> 870"
abbreviation T_SEND :: token where "T_SEND \<equiv> 871"
abbreviation T_SENT :: token where "T_SENT \<equiv> 872"
abbreviation T_SEQUENCE :: token where "T_SEQUENCE \<equiv> 873"
abbreviation T_SEQUENCE_NUMBER :: token where "T_SEQUENCE_NUMBER \<equiv> 874"
abbreviation T_SERIALIZABLE :: token where "T_SERIALIZABLE \<equiv> 875"
abbreviation T_SERVER :: token where "T_SERVER \<equiv> 876"
abbreviation T_SERVERPROPERTY :: token where "T_SERVERPROPERTY \<equiv> 877"
abbreviation T_SERVICE :: token where "T_SERVICE \<equiv> 878"
abbreviation T_SERVICEBROKER :: token where "T_SERVICEBROKER \<equiv> 879"
abbreviation T_SERVICE_BROKER :: token where "T_SERVICE_BROKER \<equiv> 880"
abbreviation T_SERVICE_NAME :: token where "T_SERVICE_NAME \<equiv> 881"
abbreviation T_SESSION :: token where "T_SESSION \<equiv> 882"
abbreviation T_SESSIONPROPERTY :: token where "T_SESSIONPROPERTY \<equiv> 883"
abbreviation T_SESSION_CONTEXT :: token where "T_SESSION_CONTEXT \<equiv> 884"
abbreviation T_SESSION_TIMEOUT :: token where "T_SESSION_TIMEOUT \<equiv> 885"
abbreviation T_SESSION_USER :: token where "T_SESSION_USER \<equiv> 886"
abbreviation T_SET :: token where "T_SET \<equiv> 887"
abbreviation T_SETERROR :: token where "T_SETERROR \<equiv> 888"
abbreviation T_SETS :: token where "T_SETS \<equiv> 889"
abbreviation T_SETTINGS :: token where "T_SETTINGS \<equiv> 890"
abbreviation T_SETUSER :: token where "T_SETUSER \<equiv> 891"
abbreviation T_SHARE :: token where "T_SHARE \<equiv> 892"
abbreviation T_SHARED :: token where "T_SHARED \<equiv> 893"
abbreviation T_SHOWCONTIG :: token where "T_SHOWCONTIG \<equiv> 894"
abbreviation T_SHOWPLAN :: token where "T_SHOWPLAN \<equiv> 895"
abbreviation T_SHOWPLAN_ALL :: token where "T_SHOWPLAN_ALL \<equiv> 896"
abbreviation T_SHOWPLAN_TEXT :: token where "T_SHOWPLAN_TEXT \<equiv> 897"
abbreviation T_SHOWPLAN_XML :: token where "T_SHOWPLAN_XML \<equiv> 898"
abbreviation T_SHRINKLOG :: token where "T_SHRINKLOG \<equiv> 899"
abbreviation T_SHUTDOWN :: token where "T_SHUTDOWN \<equiv> 900"
abbreviation T_SID :: token where "T_SID \<equiv> 901"
abbreviation T_SIGNATURE :: token where "T_SIGNATURE \<equiv> 902"
abbreviation T_SIMPLE :: token where "T_SIMPLE \<equiv> 903"
abbreviation T_SINGLE_USER :: token where "T_SINGLE_USER \<equiv> 904"
abbreviation T_SIZE :: token where "T_SIZE \<equiv> 905"
abbreviation T_SKIP_KEYWORD :: token where "T_SKIP_KEYWORD \<equiv> 906"
abbreviation T_SMALLINT :: token where "T_SMALLINT \<equiv> 907"
abbreviation T_SNAPSHOT :: token where "T_SNAPSHOT \<equiv> 908"
abbreviation T_SOFTNUMA :: token where "T_SOFTNUMA \<equiv> 909"
abbreviation T_SOME :: token where "T_SOME \<equiv> 910"
abbreviation T_SORT_IN_TEMPDB :: token where "T_SORT_IN_TEMPDB \<equiv> 911"
abbreviation T_SOUNDEX :: token where "T_SOUNDEX \<equiv> 912"
abbreviation T_SOURCE :: token where "T_SOURCE \<equiv> 913"
abbreviation T_SPACE_KEYWORD :: token where "T_SPACE_KEYWORD \<equiv> 914"
abbreviation T_SPARSE :: token where "T_SPARSE \<equiv> 915"
abbreviation T_SPATIAL_WINDOW_MAX_CELLS :: token where "T_SPATIAL_WINDOW_MAX_CELLS \<equiv> 916"
abbreviation T_SPECIFICATION :: token where "T_SPECIFICATION \<equiv> 917"
abbreviation T_SPLIT :: token where "T_SPLIT \<equiv> 918"
abbreviation T_SQL :: token where "T_SQL \<equiv> 919"
abbreviation T_SQLDUMPERFLAGS :: token where "T_SQLDUMPERFLAGS \<equiv> 920"
abbreviation T_SQLDUMPERPATH :: token where "T_SQLDUMPERPATH \<equiv> 921"
abbreviation T_SQLDUMPERTIMEOUT :: token where "T_SQLDUMPERTIMEOUT \<equiv> 922"
abbreviation T_SQL_VARIANT_PROPERTY :: token where "T_SQL_VARIANT_PROPERTY \<equiv> 923"
abbreviation T_STANDBY :: token where "T_STANDBY \<equiv> 924"
abbreviation T_START :: token where "T_START \<equiv> 925"
abbreviation T_STARTED :: token where "T_STARTED \<equiv> 926"
abbreviation T_STARTUP_STATE :: token where "T_STARTUP_STATE \<equiv> 927"
abbreviation T_START_DATE :: token where "T_START_DATE \<equiv> 928"
abbreviation T_STATE :: token where "T_STATE \<equiv> 929"
abbreviation T_STATIC :: token where "T_STATIC \<equiv> 930"
abbreviation T_STATISTICS :: token where "T_STATISTICS \<equiv> 931"
abbreviation T_STATISTICS_INCREMENTAL :: token where "T_STATISTICS_INCREMENTAL \<equiv> 932"
abbreviation T_STATISTICS_NORECOMPUTE :: token where "T_STATISTICS_NORECOMPUTE \<equiv> 933"
abbreviation T_STATS :: token where "T_STATS \<equiv> 934"
abbreviation T_STATS_DATE :: token where "T_STATS_DATE \<equiv> 935"
abbreviation T_STATS_STREAM :: token where "T_STATS_STREAM \<equiv> 936"
abbreviation T_STATUS :: token where "T_STATUS \<equiv> 937"
abbreviation T_STATUSONLY :: token where "T_STATUSONLY \<equiv> 938"
abbreviation T_STDEV :: token where "T_STDEV \<equiv> 939"
abbreviation T_STDEVP :: token where "T_STDEVP \<equiv> 940"
abbreviation T_STOP :: token where "T_STOP \<equiv> 941"
abbreviation T_STOPLIST :: token where "T_STOPLIST \<equiv> 942"
abbreviation T_STOPPED :: token where "T_STOPPED \<equiv> 943"
abbreviation T_STOP_ON_ERROR :: token where "T_STOP_ON_ERROR \<equiv> 944"
abbreviation T_STR :: token where "T_STR \<equiv> 945"
abbreviation T_STRING_AGG :: token where "T_STRING_AGG \<equiv> 946"
abbreviation T_STRING_ESCAPE :: token where "T_STRING_ESCAPE \<equiv> 947"
abbreviation T_STUFF :: token where "T_STUFF \<equiv> 948"
abbreviation T_SUBJECT :: token where "T_SUBJECT \<equiv> 949"
abbreviation T_SUBSCRIBE :: token where "T_SUBSCRIBE \<equiv> 950"
abbreviation T_SUBSCRIPTION :: token where "T_SUBSCRIPTION \<equiv> 951"
abbreviation T_SUBSTRING :: token where "T_SUBSTRING \<equiv> 952"
abbreviation T_SUM :: token where "T_SUM \<equiv> 953"
abbreviation T_SUPPORTED :: token where "T_SUPPORTED \<equiv> 954"
abbreviation T_SUSER_ID :: token where "T_SUSER_ID \<equiv> 955"
abbreviation T_SUSER_NAME :: token where "T_SUSER_NAME \<equiv> 956"
abbreviation T_SUSER_SID :: token where "T_SUSER_SID \<equiv> 957"
abbreviation T_SUSER_SNAME :: token where "T_SUSER_SNAME \<equiv> 958"
abbreviation T_SUSPEND :: token where "T_SUSPEND \<equiv> 959"
abbreviation T_SWITCH :: token where "T_SWITCH \<equiv> 960"
abbreviation T_SYMMETRIC :: token where "T_SYMMETRIC \<equiv> 961"
abbreviation T_SYNCHRONOUS_COMMIT :: token where "T_SYNCHRONOUS_COMMIT \<equiv> 962"
abbreviation T_SYNONYM :: token where "T_SYNONYM \<equiv> 963"
abbreviation T_SYSTEM :: token where "T_SYSTEM \<equiv> 964"
abbreviation T_SYSTEM_USER :: token where "T_SYSTEM_USER \<equiv> 965"
abbreviation T_TABLE :: token where "T_TABLE \<equiv> 966"
abbreviation T_TABLERESULTS :: token where "T_TABLERESULTS \<equiv> 967"
abbreviation T_TABLESAMPLE :: token where "T_TABLESAMPLE \<equiv> 968"
abbreviation T_TABLOCK :: token where "T_TABLOCK \<equiv> 969"
abbreviation T_TABLOCKX :: token where "T_TABLOCKX \<equiv> 970"
abbreviation T_TAKE :: token where "T_TAKE \<equiv> 971"
abbreviation T_TAPE :: token where "T_TAPE \<equiv> 972"
abbreviation T_TARGET :: token where "T_TARGET \<equiv> 973"
abbreviation T_TARGET_RECOVERY_TIME :: token where "T_TARGET_RECOVERY_TIME \<equiv> 974"
abbreviation T_TB :: token where "T_TB \<equiv> 975"
abbreviation T_TCP :: token where "T_TCP \<equiv> 976"
abbreviation T_TEXTIMAGE_ON :: token where "T_TEXTIMAGE_ON \<equiv> 977"
abbreviation T_TEXTSIZE :: token where "T_TEXTSIZE \<equiv> 978"
abbreviation T_THEN :: token where "T_THEN \<equiv> 979"
abbreviation T_THROW :: token where "T_THROW \<equiv> 980"
abbreviation T_TIES :: token where "T_TIES \<equiv> 981"
abbreviation T_TIME :: token where "T_TIME \<equiv> 982"
abbreviation T_TIMEOUT :: token where "T_TIMEOUT \<equiv> 983"
abbreviation T_TIMER :: token where "T_TIMER \<equiv> 984"
abbreviation T_TINYINT :: token where "T_TINYINT \<equiv> 985"
abbreviation T_TO :: token where "T_TO \<equiv> 986"
abbreviation T_TOP :: token where "T_TOP \<equiv> 987"
abbreviation T_TORN_PAGE_DETECTION :: token where "T_TORN_PAGE_DETECTION \<equiv> 988"
abbreviation T_TOSTRING :: token where "T_TOSTRING \<equiv> 989"
abbreviation T_TRACE :: token where "T_TRACE \<equiv> 990"
abbreviation T_TRACKING :: token where "T_TRACKING \<equiv> 991"
abbreviation T_TRACK_CAUSALITY :: token where "T_TRACK_CAUSALITY \<equiv> 992"
abbreviation T_TRAN :: token where "T_TRAN \<equiv> 993"
abbreviation T_TRANSACTION :: token where "T_TRANSACTION \<equiv> 994"
abbreviation T_TRANSACTION_ID :: token where "T_TRANSACTION_ID \<equiv> 995"
abbreviation T_TRANSFER :: token where "T_TRANSFER \<equiv> 996"
abbreviation T_TRANSFORM_NOISE_WORDS :: token where "T_TRANSFORM_NOISE_WORDS \<equiv> 997"
abbreviation T_TRANSLATE :: token where "T_TRANSLATE \<equiv> 998"
abbreviation T_TRIGGER :: token where "T_TRIGGER \<equiv> 999"
abbreviation T_TRIM :: token where "T_TRIM \<equiv> 1000"
abbreviation T_TRIPLE_DES :: token where "T_TRIPLE_DES \<equiv> 1001"
abbreviation T_TRIPLE_DES_3KEY :: token where "T_TRIPLE_DES_3KEY \<equiv> 1002"
abbreviation T_TRUNCATE :: token where "T_TRUNCATE \<equiv> 1003"
abbreviation T_TRUSTWORTHY :: token where "T_TRUSTWORTHY \<equiv> 1004"
abbreviation T_TRY :: token where "T_TRY \<equiv> 1005"
abbreviation T_TRY_CAST :: token where "T_TRY_CAST \<equiv> 1006"
abbreviation T_TSEQUAL :: token where "T_TSEQUAL \<equiv> 1007"
abbreviation T_TSQL :: token where "T_TSQL \<equiv> 1008"
abbreviation T_TWO_DIGIT_YEAR_CUTOFF :: token where "T_TWO_DIGIT_YEAR_CUTOFF \<equiv> 1009"
abbreviation T_TYPE :: token where "T_TYPE \<equiv> 1010"
abbreviation T_TYPEPROPERTY :: token where "T_TYPEPROPERTY \<equiv> 1011"
abbreviation T_TYPE_ID :: token where "T_TYPE_ID \<equiv> 1012"
abbreviation T_TYPE_NAME :: token where "T_TYPE_NAME \<equiv> 1013"
abbreviation T_TYPE_WARNING :: token where "T_TYPE_WARNING \<equiv> 1014"
abbreviation T_UNBOUNDED :: token where "T_UNBOUNDED \<equiv> 1015"
abbreviation T_UNCHECKED :: token where "T_UNCHECKED \<equiv> 1016"
abbreviation T_UNCOMMITTED :: token where "T_UNCOMMITTED \<equiv> 1017"
abbreviation T_UNICODE :: token where "T_UNICODE \<equiv> 1018"
abbreviation T_UNION :: token where "T_UNION \<equiv> 1019"
abbreviation T_UNIQUE :: token where "T_UNIQUE \<equiv> 1020"
abbreviation T_UNKNOWN :: token where "T_UNKNOWN \<equiv> 1021"
abbreviation T_UNLIMITED :: token where "T_UNLIMITED \<equiv> 1022"
abbreviation T_UNLOCK :: token where "T_UNLOCK \<equiv> 1023"
abbreviation T_UNMASK :: token where "T_UNMASK \<equiv> 1024"
abbreviation T_UNPIVOT :: token where "T_UNPIVOT \<equiv> 1025"
abbreviation T_UNSAFE :: token where "T_UNSAFE \<equiv> 1026"
abbreviation T_UOW :: token where "T_UOW \<equiv> 1027"
abbreviation T_UPDATE :: token where "T_UPDATE \<equiv> 1028"
abbreviation T_UPDATETEXT :: token where "T_UPDATETEXT \<equiv> 1029"
abbreviation T_UPDLOCK :: token where "T_UPDLOCK \<equiv> 1030"
abbreviation T_UPPER :: token where "T_UPPER \<equiv> 1031"
abbreviation T_URL :: token where "T_URL \<equiv> 1032"
abbreviation T_USE :: token where "T_USE \<equiv> 1033"
abbreviation T_USED :: token where "T_USED \<equiv> 1034"
abbreviation T_USER :: token where "T_USER \<equiv> 1035"
abbreviation T_USER_ID :: token where "T_USER_ID \<equiv> 1036"
abbreviation T_USER_NAME :: token where "T_USER_NAME \<equiv> 1037"
abbreviation T_USING :: token where "T_USING \<equiv> 1038"
abbreviation T_VALIDATION :: token where "T_VALIDATION \<equiv> 1039"
abbreviation T_VALID_XML :: token where "T_VALID_XML \<equiv> 1040"
abbreviation T_VALUE :: token where "T_VALUE \<equiv> 1041"
abbreviation T_VALUES :: token where "T_VALUES \<equiv> 1042"
abbreviation T_VALUE_SQUARE_BRACKET :: token where "T_VALUE_SQUARE_BRACKET \<equiv> 1043"
abbreviation T_VAR :: token where "T_VAR \<equiv> 1044"
abbreviation T_VARBINARY_KEYWORD :: token where "T_VARBINARY_KEYWORD \<equiv> 1045"
abbreviation T_VARP :: token where "T_VARP \<equiv> 1046"
abbreviation T_VARYING :: token where "T_VARYING \<equiv> 1047"
abbreviation T_VERBOSELOGGING :: token where "T_VERBOSELOGGING \<equiv> 1048"
abbreviation T_VERIFY_CLONEDB :: token where "T_VERIFY_CLONEDB \<equiv> 1049"
abbreviation T_VERSION :: token where "T_VERSION \<equiv> 1050"
abbreviation T_VIEW :: token where "T_VIEW \<equiv> 1051"
abbreviation T_VIEWS :: token where "T_VIEWS \<equiv> 1052"
abbreviation T_VIEW_METADATA :: token where "T_VIEW_METADATA \<equiv> 1053"
abbreviation T_VISIBILITY :: token where "T_VISIBILITY \<equiv> 1054"
abbreviation T_WAIT :: token where "T_WAIT \<equiv> 1055"
abbreviation T_WAITFOR :: token where "T_WAITFOR \<equiv> 1056"
abbreviation T_WAIT_AT_LOW_PRIORITY :: token where "T_WAIT_AT_LOW_PRIORITY \<equiv> 1057"
abbreviation T_WELL_FORMED_XML :: token where "T_WELL_FORMED_XML \<equiv> 1058"
abbreviation T_WHEN :: token where "T_WHEN \<equiv> 1059"
abbreviation T_WHERE :: token where "T_WHERE \<equiv> 1060"
abbreviation T_WHILE :: token where "T_WHILE \<equiv> 1061"
abbreviation T_WINDOWS :: token where "T_WINDOWS \<equiv> 1062"
abbreviation T_WITH :: token where "T_WITH \<equiv> 1063"
abbreviation T_WITHIN :: token where "T_WITHIN \<equiv> 1064"
abbreviation T_WITHOUT :: token where "T_WITHOUT \<equiv> 1065"
abbreviation T_WITHOUT_ARRAY_WRAPPER :: token where "T_WITHOUT_ARRAY_WRAPPER \<equiv> 1066"
abbreviation T_WITNESS :: token where "T_WITNESS \<equiv> 1067"
abbreviation T_WORK :: token where "T_WORK \<equiv> 1068"
abbreviation T_WORKLOAD :: token where "T_WORKLOAD \<equiv> 1069"
abbreviation T_WRITETEXT :: token where "T_WRITETEXT \<equiv> 1070"
abbreviation T_XACT_ABORT :: token where "T_XACT_ABORT \<equiv> 1071"
abbreviation T_XACT_STATE :: token where "T_XACT_STATE \<equiv> 1072"
abbreviation T_XLOCK :: token where "T_XLOCK \<equiv> 1073"
abbreviation T_XML :: token where "T_XML \<equiv> 1074"
abbreviation T_XMLDATA :: token where "T_XMLDATA \<equiv> 1075"
abbreviation T_XMLNAMESPACES :: token where "T_XMLNAMESPACES \<equiv> 1076"
abbreviation T_XMLSCHEMA :: token where "T_XMLSCHEMA \<equiv> 1077"
abbreviation T_XML_COMPRESSION :: token where "T_XML_COMPRESSION \<equiv> 1078"
abbreviation T_XSINIL :: token where "T_XSINIL \<equiv> 1079"
abbreviation T_ZONE :: token where "T_ZONE \<equiv> 1080"
abbreviation T_ABS :: token where "T_ABS \<equiv> 1081"
abbreviation T_ACOS :: token where "T_ACOS \<equiv> 1082"
abbreviation T_ASIN :: token where "T_ASIN \<equiv> 1083"
abbreviation T_ATAN :: token where "T_ATAN \<equiv> 1084"
abbreviation T_ATN2 :: token where "T_ATN2 \<equiv> 1085"
abbreviation T_CEILING :: token where "T_CEILING \<equiv> 1086"
abbreviation T_COS :: token where "T_COS \<equiv> 1087"
abbreviation T_COT :: token where "T_COT \<equiv> 1088"
abbreviation T_DEGREES :: token where "T_DEGREES \<equiv> 1089"
abbreviation T_EXP :: token where "T_EXP \<equiv> 1090"
abbreviation T_FLOOR :: token where "T_FLOOR \<equiv> 1091"
abbreviation T_LOG10 :: token where "T_LOG10 \<equiv> 1092"
abbreviation T_PI :: token where "T_PI \<equiv> 1093"
abbreviation T_POWER :: token where "T_POWER \<equiv> 1094"
abbreviation T_RADIANS :: token where "T_RADIANS \<equiv> 1095"
abbreviation T_RAND :: token where "T_RAND \<equiv> 1096"
abbreviation T_ROUND :: token where "T_ROUND \<equiv> 1097"
abbreviation T_SIGN :: token where "T_SIGN \<equiv> 1098"
abbreviation T_SIN :: token where "T_SIN \<equiv> 1099"
abbreviation T_SQRT :: token where "T_SQRT \<equiv> 1100"
abbreviation T_SQUARE :: token where "T_SQUARE \<equiv> 1101"
abbreviation T_TAN :: token where "T_TAN \<equiv> 1102"
abbreviation T_CURRENT_TIMEZONE :: token where "T_CURRENT_TIMEZONE \<equiv> 1103"
abbreviation T_CURRENT_TIMEZONE_ID :: token where "T_CURRENT_TIMEZONE_ID \<equiv> 1104"
abbreviation T_DATE_BUCKET :: token where "T_DATE_BUCKET \<equiv> 1105"
abbreviation T_DATEDIFF_BIG :: token where "T_DATEDIFF_BIG \<equiv> 1106"
abbreviation T_DATEFROMPARTS :: token where "T_DATEFROMPARTS \<equiv> 1107"
abbreviation T_DATETIME2FROMPARTS :: token where "T_DATETIME2FROMPARTS \<equiv> 1108"
abbreviation T_DATETIMEFROMPARTS :: token where "T_DATETIMEFROMPARTS \<equiv> 1109"
abbreviation T_DATETIMEOFFSETFROMPARTS :: token where "T_DATETIMEOFFSETFROMPARTS \<equiv> 1110"
abbreviation T_DATETRUNC :: token where "T_DATETRUNC \<equiv> 1111"
abbreviation T_DAY :: token where "T_DAY \<equiv> 1112"
abbreviation T_EOMONTH :: token where "T_EOMONTH \<equiv> 1113"
abbreviation T_ISDATE :: token where "T_ISDATE \<equiv> 1114"
abbreviation T_MONTH :: token where "T_MONTH \<equiv> 1115"
abbreviation T_SMALLDATETIMEFROMPARTS :: token where "T_SMALLDATETIMEFROMPARTS \<equiv> 1116"
abbreviation T_SWITCHOFFSET :: token where "T_SWITCHOFFSET \<equiv> 1117"
abbreviation T_SYSDATETIME :: token where "T_SYSDATETIME \<equiv> 1118"
abbreviation T_SYSDATETIMEOFFSET :: token where "T_SYSDATETIMEOFFSET \<equiv> 1119"
abbreviation T_SYSUTCDATETIME :: token where "T_SYSUTCDATETIME \<equiv> 1120"
abbreviation T_TIMEFROMPARTS :: token where "T_TIMEFROMPARTS \<equiv> 1121"
abbreviation T_TODATETIMEOFFSET :: token where "T_TODATETIMEOFFSET \<equiv> 1122"
abbreviation T_YEAR :: token where "T_YEAR \<equiv> 1123"
abbreviation T_QUARTER :: token where "T_QUARTER \<equiv> 1124"
abbreviation T_DAYOFYEAR :: token where "T_DAYOFYEAR \<equiv> 1125"
abbreviation T_WEEK :: token where "T_WEEK \<equiv> 1126"
abbreviation T_HOUR :: token where "T_HOUR \<equiv> 1127"
abbreviation T_MINUTE :: token where "T_MINUTE \<equiv> 1128"
abbreviation T_SECOND :: token where "T_SECOND \<equiv> 1129"
abbreviation T_MILLISECOND :: token where "T_MILLISECOND \<equiv> 1130"
abbreviation T_MICROSECOND :: token where "T_MICROSECOND \<equiv> 1131"
abbreviation T_NANOSECOND :: token where "T_NANOSECOND \<equiv> 1132"
abbreviation T_TZOFFSET :: token where "T_TZOFFSET \<equiv> 1133"
abbreviation T_ISO_WEEK :: token where "T_ISO_WEEK \<equiv> 1134"
abbreviation T_WEEKDAY :: token where "T_WEEKDAY \<equiv> 1135"
abbreviation T_YEAR_ABBR :: token where "T_YEAR_ABBR \<equiv> 1136"
abbreviation T_QUARTER_ABBR :: token where "T_QUARTER_ABBR \<equiv> 1137"
abbreviation T_MONTH_ABBR :: token where "T_MONTH_ABBR \<equiv> 1138"
abbreviation T_DAYOFYEAR_ABBR :: token where "T_DAYOFYEAR_ABBR \<equiv> 1139"
abbreviation T_DAY_ABBR :: token where "T_DAY_ABBR \<equiv> 1140"
abbreviation T_WEEK_ABBR :: token where "T_WEEK_ABBR \<equiv> 1141"
abbreviation T_HOUR_ABBR :: token where "T_HOUR_ABBR \<equiv> 1142"
abbreviation T_MINUTE_ABBR :: token where "T_MINUTE_ABBR \<equiv> 1143"
abbreviation T_SECOND_ABBR :: token where "T_SECOND_ABBR \<equiv> 1144"
abbreviation T_MILLISECOND_ABBR :: token where "T_MILLISECOND_ABBR \<equiv> 1145"
abbreviation T_MICROSECOND_ABBR :: token where "T_MICROSECOND_ABBR \<equiv> 1146"
abbreviation T_NANOSECOND_ABBR :: token where "T_NANOSECOND_ABBR \<equiv> 1147"
abbreviation T_TZOFFSET_ABBR :: token where "T_TZOFFSET_ABBR \<equiv> 1148"
abbreviation T_ISO_WEEK_ABBR :: token where "T_ISO_WEEK_ABBR \<equiv> 1149"
abbreviation T_WEEKDAY_ABBR :: token where "T_WEEKDAY_ABBR \<equiv> 1150"
abbreviation T_SP_EXECUTESQL :: token where "T_SP_EXECUTESQL \<equiv> 1151"
abbreviation T_VARCHAR :: token where "T_VARCHAR \<equiv> 1152"
abbreviation T_NVARCHAR :: token where "T_NVARCHAR \<equiv> 1153"
abbreviation T_DISK_DRIVE :: token where "T_DISK_DRIVE \<equiv> 1154"
abbreviation T_DOLLAR_ACTION :: token where "T_DOLLAR_ACTION \<equiv> 1155"
abbreviation T_CURSOR_ROWS :: token where "T_CURSOR_ROWS \<equiv> 1156"
abbreviation T_FETCH_STATUS :: token where "T_FETCH_STATUS \<equiv> 1157"
abbreviation T_IPV4_ADDR :: token where "T_IPV4_ADDR \<equiv> 1158"
abbreviation T_SPACE :: token where "T_SPACE \<equiv> 1159"
abbreviation T_COMMENT :: token where "T_COMMENT \<equiv> 1160"
abbreviation T_LINE_COMMENT :: token where "T_LINE_COMMENT \<equiv> 1161"
abbreviation T_DOUBLE_QUOTE_ID :: token where "T_DOUBLE_QUOTE_ID \<equiv> 1162"
abbreviation T_DOUBLE_QUOTE_BLANK :: token where "T_DOUBLE_QUOTE_BLANK \<equiv> 1163"
abbreviation T_SINGLE_QUOTE :: token where "T_SINGLE_QUOTE \<equiv> 1164"
abbreviation T_SQUARE_BRACKET_ID :: token where "T_SQUARE_BRACKET_ID \<equiv> 1165"
abbreviation T_LOCAL_ID :: token where "T_LOCAL_ID \<equiv> 1166"
abbreviation T_TEMP_ID :: token where "T_TEMP_ID \<equiv> 1167"
abbreviation T_DECIMAL :: token where "T_DECIMAL \<equiv> 1168"
abbreviation T_ID :: token where "T_ID \<equiv> 1169"
abbreviation T_STRING :: token where "T_STRING \<equiv> 1170"
abbreviation T_BINARY :: token where "T_BINARY \<equiv> 1171"
abbreviation T_FLOAT :: token where "T_FLOAT \<equiv> 1172"
abbreviation T_REAL :: token where "T_REAL \<equiv> 1173"
abbreviation T_EQUAL :: token where "T_EQUAL \<equiv> 1174"
abbreviation T_GREATER :: token where "T_GREATER \<equiv> 1175"
abbreviation T_LESS :: token where "T_LESS \<equiv> 1176"
abbreviation T_EXCLAMATION :: token where "T_EXCLAMATION \<equiv> 1177"
abbreviation T_PLUS_ASSIGN :: token where "T_PLUS_ASSIGN \<equiv> 1178"
abbreviation T_MINUS_ASSIGN :: token where "T_MINUS_ASSIGN \<equiv> 1179"
abbreviation T_MULT_ASSIGN :: token where "T_MULT_ASSIGN \<equiv> 1180"
abbreviation T_DIV_ASSIGN :: token where "T_DIV_ASSIGN \<equiv> 1181"
abbreviation T_MOD_ASSIGN :: token where "T_MOD_ASSIGN \<equiv> 1182"
abbreviation T_AND_ASSIGN :: token where "T_AND_ASSIGN \<equiv> 1183"
abbreviation T_XOR_ASSIGN :: token where "T_XOR_ASSIGN \<equiv> 1184"
abbreviation T_OR_ASSIGN :: token where "T_OR_ASSIGN \<equiv> 1185"
abbreviation T_DOUBLE_BAR :: token where "T_DOUBLE_BAR \<equiv> 1186"
abbreviation T_DOT :: token where "T_DOT \<equiv> 1187"
abbreviation T_UNDERLINE :: token where "T_UNDERLINE \<equiv> 1188"
abbreviation T_AT :: token where "T_AT \<equiv> 1189"
abbreviation T_SHARP :: token where "T_SHARP \<equiv> 1190"
abbreviation T_DOLLAR :: token where "T_DOLLAR \<equiv> 1191"
abbreviation T_LR_BRACKET :: token where "T_LR_BRACKET \<equiv> 1192"
abbreviation T_RR_BRACKET :: token where "T_RR_BRACKET \<equiv> 1193"
abbreviation T_COMMA :: token where "T_COMMA \<equiv> 1194"
abbreviation T_SEMI :: token where "T_SEMI \<equiv> 1195"
abbreviation T_COLON :: token where "T_COLON \<equiv> 1196"
abbreviation T_DOUBLE_COLON :: token where "T_DOUBLE_COLON \<equiv> 1197"
abbreviation T_STAR :: token where "T_STAR \<equiv> 1198"
abbreviation T_DIVIDE :: token where "T_DIVIDE \<equiv> 1199"
abbreviation T_MODULE :: token where "T_MODULE \<equiv> 1200"
abbreviation T_PLUS :: token where "T_PLUS \<equiv> 1201"
abbreviation T_MINUS :: token where "T_MINUS \<equiv> 1202"
abbreviation T_BIT_NOT :: token where "T_BIT_NOT \<equiv> 1203"
abbreviation T_BIT_OR :: token where "T_BIT_OR \<equiv> 1204"
abbreviation T_BIT_AND :: token where "T_BIT_AND \<equiv> 1205"
abbreviation T_BIT_XOR :: token where "T_BIT_XOR \<equiv> 1206"
abbreviation T_PLACEHOLDER :: token where "T_PLACEHOLDER \<equiv> 1207"

end
