(* ===== verification/Label_Ids.thy ===== *)
theory Label_Ids
  imports Prelude
begin

text \<open>
  The labels of alternatives (\<open># X\<close> in \<open>TSqlParser.g4\<close>, the class \<open>XContext\<close> in
  \<open>port/cpp/TSqlParser.h\<close>), numbered in the order in which the header declares their classes.
\<close>

abbreviation L_RANKING_WINDOWED_FUNC :: label_id where "L_RANKING_WINDOWED_FUNC \<equiv> 0"
abbreviation L_BUILT_IN_FUNC :: label_id where "L_BUILT_IN_FUNC \<equiv> 1"
abbreviation L_FREE_TEXT :: label_id where "L_FREE_TEXT \<equiv> 2"
abbreviation L_ANALYTIC_WINDOWED_FUNC :: label_id where "L_ANALYTIC_WINDOWED_FUNC \<equiv> 3"
abbreviation L_SCALAR_FUNCTION :: label_id where "L_SCALAR_FUNCTION \<equiv> 4"
abbreviation L_PARTITION_FUNC :: label_id where "L_PARTITION_FUNC \<equiv> 5"
abbreviation L_AGGREGATE_WINDOWED_FUNC :: label_id where "L_AGGREGATE_WINDOWED_FUNC \<equiv> 6"
abbreviation L_HIERARCHYID_METHOD :: label_id where "L_HIERARCHYID_METHOD \<equiv> 7"
abbreviation L_COL_NAME :: label_id where "L_COL_NAME \<equiv> 8"
abbreviation L_CHECKSUM :: label_id where "L_CHECKSUM \<equiv> 9"
abbreviation L_DECOMPRESS :: label_id where "L_DECOMPRESS \<equiv> 10"
abbreviation L_CURRENT_TIMEZONE_ID :: label_id where "L_CURRENT_TIMEZONE_ID \<equiv> 11"
abbreviation L_MONTH :: label_id where "L_MONTH \<equiv> 12"
abbreviation L_RAND :: label_id where "L_RAND \<equiv> 13"
abbreviation L_FORMAT :: label_id where "L_FORMAT \<equiv> 14"
abbreviation L_TRIM :: label_id where "L_TRIM \<equiv> 15"
abbreviation L_LEAST :: label_id where "L_LEAST \<equiv> 16"
abbreviation L_APP_NAME :: label_id where "L_APP_NAME \<equiv> 17"
abbreviation L_USER_ID :: label_id where "L_USER_ID \<equiv> 18"
abbreviation L_FILE_NAME :: label_id where "L_FILE_NAME \<equiv> 19"
abbreviation L_SESSION_CONTEXT :: label_id where "L_SESSION_CONTEXT \<equiv> 20"
abbreviation L_STR :: label_id where "L_STR \<equiv> 21"
abbreviation L_CONVERT :: label_id where "L_CONVERT \<equiv> 22"
abbreviation L_XML_DATA_TYPE_FUNC :: label_id where "L_XML_DATA_TYPE_FUNC \<equiv> 23"
abbreviation L_LOG10 :: label_id where "L_LOG10 \<equiv> 24"
abbreviation L_FLOOR :: label_id where "L_FLOOR \<equiv> 25"
abbreviation L_YEAR :: label_id where "L_YEAR \<equiv> 26"
abbreviation L_PARSE :: label_id where "L_PARSE \<equiv> 27"
abbreviation L_ORIGINAL_LOGIN :: label_id where "L_ORIGINAL_LOGIN \<equiv> 28"
abbreviation L_MATH_SIGN :: label_id where "L_MATH_SIGN \<equiv> 29"
abbreviation L_TIMEFROMPARTS :: label_id where "L_TIMEFROMPARTS \<equiv> 30"
abbreviation L_LEFT :: label_id where "L_LEFT \<equiv> 31"
abbreviation L_GET_FILESTREAM_TRANSACTION_CONTEXT :: label_id where "L_GET_FILESTREAM_TRANSACTION_CONTEXT \<equiv> 32"
abbreviation L_FILEPROPERTY :: label_id where "L_FILEPROPERTY \<equiv> 33"
abbreviation L_IDENT_SEED :: label_id where "L_IDENT_SEED \<equiv> 34"
abbreviation L_IDENTITY :: label_id where "L_IDENTITY \<equiv> 35"
abbreviation L_CURRENT_TRANSACTION_ID :: label_id where "L_CURRENT_TRANSACTION_ID \<equiv> 36"
abbreviation L_LTRIM :: label_id where "L_LTRIM \<equiv> 37"
abbreviation L_ROWCOUNT_BIG :: label_id where "L_ROWCOUNT_BIG \<equiv> 38"
abbreviation L_CERTENCODED :: label_id where "L_CERTENCODED \<equiv> 39"
abbreviation L_JSON_VALUE :: label_id where "L_JSON_VALUE \<equiv> 40"
abbreviation L_SYSDATETIME :: label_id where "L_SYSDATETIME \<equiv> 41"
abbreviation L_CERTPRIVATEKEY :: label_id where "L_CERTPRIVATEKEY \<equiv> 42"
abbreviation L_SPACE :: label_id where "L_SPACE \<equiv> 43"
abbreviation L_UPPER :: label_id where "L_UPPER \<equiv> 44"
abbreviation L_ABS :: label_id where "L_ABS \<equiv> 45"
abbreviation L_ISJSON :: label_id where "L_ISJSON \<equiv> 46"
abbreviation L_HAS_PERMS_BY_NAME :: label_id where "L_HAS_PERMS_BY_NAME \<equiv> 47"
abbreviation L_SUSER_ID :: label_id where "L_SUSER_ID \<equiv> 48"
abbreviation L_SCOPE_IDENTITY :: label_id where "L_SCOPE_IDENTITY \<equiv> 49"
abbreviation L_JSON_QUERY :: label_id where "L_JSON_QUERY \<equiv> 50"
abbreviation L_INDEX_COL :: label_id where "L_INDEX_COL \<equiv> 51"
abbreviation L_DATABASE_PRINCIPAL_ID :: label_id where "L_DATABASE_PRINCIPAL_ID \<equiv> 52"
abbreviation L_PATINDEX :: label_id where "L_PATINDEX \<equiv> 53"
abbreviation L_FULLTEXTSERVICEPROPERTY :: label_id where "L_FULLTEXTSERVICEPROPERTY \<equiv> 54"
abbreviation L_SMALLDATETIMEFROMPARTS :: label_id where "L_SMALLDATETIMEFROMPARTS \<equiv> 55"
abbreviation L_IDENT_CURRENT :: label_id where "L_IDENT_CURRENT \<equiv> 56"
abbreviation L_SESSIONPROPERTY :: label_id where "L_SESSIONPROPERTY \<equiv> 57"
abbreviation L_FETCH_STATUS :: label_id where "L_FETCH_STATUS \<equiv> 58"
abbreviation L_POWER :: label_id where "L_POWER \<equiv> 59"
abbreviation L_REPLICATE :: label_id where "L_REPLICATE \<equiv> 60"
abbreviation L_USER_NAME :: label_id where "L_USER_NAME \<equiv> 61"
abbreviation L_OBJECT_DEFINITION :: label_id where "L_OBJECT_DEFINITION \<equiv> 62"
abbreviation L_IS_SRVROLEMEMBER :: label_id where "L_IS_SRVROLEMEMBER \<equiv> 63"
abbreviation L_NEWSEQUENTIALID :: label_id where "L_NEWSEQUENTIALID \<equiv> 64"
abbreviation L_OBJECT_NAME :: label_id where "L_OBJECT_NAME \<equiv> 65"
abbreviation L_JSON_PATH_EXISTS :: label_id where "L_JSON_PATH_EXISTS \<equiv> 66"
abbreviation L_PWDCOMPARE :: label_id where "L_PWDCOMPARE \<equiv> 67"
abbreviation L_SCHEMA_ID :: label_id where "L_SCHEMA_ID \<equiv> 68"
abbreviation L_OBJECT_SCHEMA_NAME :: label_id where "L_OBJECT_SCHEMA_NAME \<equiv> 69"
abbreviation L_SUSER_SNAME :: label_id where "L_SUSER_SNAME \<equiv> 70"
abbreviation L_DB_NAME :: label_id where "L_DB_NAME \<equiv> 71"
abbreviation L_SUSER_SID :: label_id where "L_SUSER_SID \<equiv> 72"
abbreviation L_ASCII :: label_id where "L_ASCII \<equiv> 73"
abbreviation L_FILE_IDEX :: label_id where "L_FILE_IDEX \<equiv> 74"
abbreviation L_ERROR_SEVERITY :: label_id where "L_ERROR_SEVERITY \<equiv> 75"
abbreviation L_REVERSE :: label_id where "L_REVERSE \<equiv> 76"
abbreviation L_ISDATE :: label_id where "L_ISDATE \<equiv> 77"
abbreviation L_REPLACE :: label_id where "L_REPLACE \<equiv> 78"
abbreviation L_CURSOR_STATUS :: label_id where "L_CURSOR_STATUS \<equiv> 79"
abbreviation L_MIN_ACTIVE_ROWVERSION :: label_id where "L_MIN_ACTIVE_ROWVERSION \<equiv> 80"
abbreviation L_HAS_DBACCESS :: label_id where "L_HAS_DBACCESS \<equiv> 81"
abbreviation L_NEXT_VALUE_FOR :: label_id where "L_NEXT_VALUE_FOR \<equiv> 82"
abbreviation L_FILEGROUP_ID :: label_id where "L_FILEGROUP_ID \<equiv> 83"
abbreviation L_LOWER :: label_id where "L_LOWER \<equiv> 84"
abbreviation L_DATENAME :: label_id where "L_DATENAME \<equiv> 85"
abbreviation L_CEILING :: label_id where "L_CEILING \<equiv> 86"
abbreviation L_APPLOCK_TEST :: label_id where "L_APPLOCK_TEST \<equiv> 87"
abbreviation L_SIN :: label_id where "L_SIN \<equiv> 88"
abbreviation L_TYPE_NAME :: label_id where "L_TYPE_NAME \<equiv> 89"
abbreviation L_SYSUTCDATETIME :: label_id where "L_SYSUTCDATETIME \<equiv> 90"
abbreviation L_DATEADD :: label_id where "L_DATEADD \<equiv> 91"
abbreviation L_DATETIMEFROMPARTS :: label_id where "L_DATETIMEFROMPARTS \<equiv> 92"
abbreviation L_ERROR_MESSAGE :: label_id where "L_ERROR_MESSAGE \<equiv> 93"
abbreviation L_FILEGROUPPROPERTY :: label_id where "L_FILEGROUPPROPERTY \<equiv> 94"
abbreviation L_EOMONTH :: label_id where "L_EOMONTH \<equiv> 95"
abbreviation L_IDENT_INCR :: label_id where "L_IDENT_INCR \<equiv> 96"
abbreviation L_ASIN :: label_id where "L_ASIN \<equiv> 97"
abbreviation L_NCHAR :: label_id where "L_NCHAR \<equiv> 98"
abbreviation L_DIFFERENCE :: label_id where "L_DIFFERENCE \<equiv> 99"
abbreviation L_CHARINDEX :: label_id where "L_CHARINDEX \<equiv> 100"
abbreviation L_TODATETIMEOFFSET :: label_id where "L_TODATETIMEOFFSET \<equiv> 101"
abbreviation L_RADIANS :: label_id where "L_RADIANS \<equiv> 102"
abbreviation L_CURRENT_TIMEZONE :: label_id where "L_CURRENT_TIMEZONE \<equiv> 103"
abbreviation L_COL_LENGTH :: label_id where "L_COL_LENGTH \<equiv> 104"
abbreviation L_DATEFROMPARTS :: label_id where "L_DATEFROMPARTS \<equiv> 105"
abbreviation L_NEWID :: label_id where "L_NEWID \<equiv> 106"
abbreviation L_DATETRUNC :: label_id where "L_DATETRUNC \<equiv> 107"
abbreviation L_ISNULL :: label_id where "L_ISNULL \<equiv> 108"
abbreviation L_JSON_MODIFY :: label_id where "L_JSON_MODIFY \<equiv> 109"
abbreviation L_CURRENT_REQUEST_ID :: label_id where "L_CURRENT_REQUEST_ID \<equiv> 110"
abbreviation L_IS_MEMBER :: label_id where "L_IS_MEMBER \<equiv> 111"
abbreviation L_SERVERPROPERTY :: label_id where "L_SERVERPROPERTY \<equiv> 112"
abbreviation L_SQRT :: label_id where "L_SQRT \<equiv> 113"
abbreviation L_ATN2 :: label_id where "L_ATN2 \<equiv> 114"
abbreviation L_UNICODE :: label_id where "L_UNICODE \<equiv> 115"
abbreviation L_NULLIF :: label_id where "L_NULLIF \<equiv> 116"
abbreviation L_SESSION_USER :: label_id where "L_SESSION_USER \<equiv> 117"
abbreviation L_CAST :: label_id where "L_CAST \<equiv> 118"
abbreviation L_DATETIME2FROMPARTS :: label_id where "L_DATETIME2FROMPARTS \<equiv> 119"
abbreviation L_SQUARE :: label_id where "L_SQUARE \<equiv> 120"
abbreviation L_LOG :: label_id where "L_LOG \<equiv> 121"
abbreviation L_IIF :: label_id where "L_IIF \<equiv> 122"
abbreviation L_DATEPART :: label_id where "L_DATEPART \<equiv> 123"
abbreviation L_CONTEXT_INFO :: label_id where "L_CONTEXT_INFO \<equiv> 124"
abbreviation L_DATEDIFF :: label_id where "L_DATEDIFF \<equiv> 125"
abbreviation L_OBJECTPROPERTY :: label_id where "L_OBJECTPROPERTY \<equiv> 126"
abbreviation L_CHAR :: label_id where "L_CHAR \<equiv> 127"
abbreviation L_STRING_ESCAPE :: label_id where "L_STRING_ESCAPE \<equiv> 128"
abbreviation L_GETANSINULL :: label_id where "L_GETANSINULL \<equiv> 129"
abbreviation L_SYSTEM_USER :: label_id where "L_SYSTEM_USER \<equiv> 130"
abbreviation L_OBJECT_ID :: label_id where "L_OBJECT_ID \<equiv> 131"
abbreviation L_ERROR_PROCEDURE :: label_id where "L_ERROR_PROCEDURE \<equiv> 132"
abbreviation L_QUOTENAME :: label_id where "L_QUOTENAME \<equiv> 133"
abbreviation L_RIGHT :: label_id where "L_RIGHT \<equiv> 134"
abbreviation L_HOST_ID :: label_id where "L_HOST_ID \<equiv> 135"
abbreviation L_DATETIMEOFFSETFROMPARTS :: label_id where "L_DATETIMEOFFSETFROMPARTS \<equiv> 136"
abbreviation L_COS :: label_id where "L_COS \<equiv> 137"
abbreviation L_COT :: label_id where "L_COT \<equiv> 138"
abbreviation L_FILE_ID :: label_id where "L_FILE_ID \<equiv> 139"
abbreviation L_ASSEMBLYPROPERTY :: label_id where "L_ASSEMBLYPROPERTY \<equiv> 140"
abbreviation L_STUFF :: label_id where "L_STUFF \<equiv> 141"
abbreviation L_IS_ROLEMEMBER :: label_id where "L_IS_ROLEMEMBER \<equiv> 142"
abbreviation L_SQL_VARIANT_PROPERTY :: label_id where "L_SQL_VARIANT_PROPERTY \<equiv> 143"
abbreviation L_GREATEST :: label_id where "L_GREATEST \<equiv> 144"
abbreviation L_GETUTCDATE :: label_id where "L_GETUTCDATE \<equiv> 145"
abbreviation L_LOGINPROPERTY :: label_id where "L_LOGINPROPERTY \<equiv> 146"
abbreviation L_CONCAT_WS :: label_id where "L_CONCAT_WS \<equiv> 147"
abbreviation L_ERROR_STATE :: label_id where "L_ERROR_STATE \<equiv> 148"
abbreviation L_DAY :: label_id where "L_DAY \<equiv> 149"
abbreviation L_PARSENAME :: label_id where "L_PARSENAME \<equiv> 150"
abbreviation L_TAN :: label_id where "L_TAN \<equiv> 151"
abbreviation L_CURRENT_USER :: label_id where "L_CURRENT_USER \<equiv> 152"
abbreviation L_PERMISSIONS :: label_id where "L_PERMISSIONS \<equiv> 153"
abbreviation L_SYSDATETIMEOFFSET :: label_id where "L_SYSDATETIMEOFFSET \<equiv> 154"
abbreviation L_INDEXPROPERTY :: label_id where "L_INDEXPROPERTY \<equiv> 155"
abbreviation L_OBJECTPROPERTYEX :: label_id where "L_OBJECTPROPERTYEX \<equiv> 156"
abbreviation L_SUBSTRING :: label_id where "L_SUBSTRING \<equiv> 157"
abbreviation L_BINARY_CHECKSUM :: label_id where "L_BINARY_CHECKSUM \<equiv> 158"
abbreviation L_INDEXKEY_PROPERTY :: label_id where "L_INDEXKEY_PROPERTY \<equiv> 159"
abbreviation L_PWDENCRYPT :: label_id where "L_PWDENCRYPT \<equiv> 160"
abbreviation L_COMPRESS :: label_id where "L_COMPRESS \<equiv> 161"
abbreviation L_COALESCE :: label_id where "L_COALESCE \<equiv> 162"
abbreviation L_STATS_DATE :: label_id where "L_STATS_DATE \<equiv> 163"
abbreviation L_ISNUMERIC :: label_id where "L_ISNUMERIC \<equiv> 164"
abbreviation L_ACOS :: label_id where "L_ACOS \<equiv> 165"
abbreviation L_FILEGROUP_NAME :: label_id where "L_FILEGROUP_NAME \<equiv> 166"
abbreviation L_COLUMNPROPERTY :: label_id where "L_COLUMNPROPERTY \<equiv> 167"
abbreviation L_DB_ID :: label_id where "L_DB_ID \<equiv> 168"
abbreviation L_SOUNDEX :: label_id where "L_SOUNDEX \<equiv> 169"
abbreviation L_CURSOR_ROWS :: label_id where "L_CURSOR_ROWS \<equiv> 170"
abbreviation L_FULLTEXTCATALOGPROPERTY :: label_id where "L_FULLTEXTCATALOGPROPERTY \<equiv> 171"
abbreviation L_TYPEPROPERTY :: label_id where "L_TYPEPROPERTY \<equiv> 172"
abbreviation L_SCHEMA_NAME :: label_id where "L_SCHEMA_NAME \<equiv> 173"
abbreviation L_TYPE_ID :: label_id where "L_TYPE_ID \<equiv> 174"
abbreviation L_TRY_CAST :: label_id where "L_TRY_CAST \<equiv> 175"
abbreviation L_APPLOCK_MODE :: label_id where "L_APPLOCK_MODE \<equiv> 176"
abbreviation L_CURRENT_DATE :: label_id where "L_CURRENT_DATE \<equiv> 177"
abbreviation L_GETDATE :: label_id where "L_GETDATE \<equiv> 178"
abbreviation L_CERT_ID :: label_id where "L_CERT_ID \<equiv> 179"
abbreviation L_ATAN :: label_id where "L_ATAN \<equiv> 180"
abbreviation L_CONNECTIONPROPERTY :: label_id where "L_CONNECTIONPROPERTY \<equiv> 181"
abbreviation L_ERROR_NUMBER :: label_id where "L_ERROR_NUMBER \<equiv> 182"
abbreviation L_ERROR_LINE :: label_id where "L_ERROR_LINE \<equiv> 183"
abbreviation L_CURRENT_TIMESTAMP :: label_id where "L_CURRENT_TIMESTAMP \<equiv> 184"
abbreviation L_CONCAT :: label_id where "L_CONCAT \<equiv> 185"
abbreviation L_JSON_ARRAY :: label_id where "L_JSON_ARRAY \<equiv> 186"
abbreviation L_ROUND :: label_id where "L_ROUND \<equiv> 187"
abbreviation L_DATALENGTH :: label_id where "L_DATALENGTH \<equiv> 188"
abbreviation L_HOST_NAME :: label_id where "L_HOST_NAME \<equiv> 189"
abbreviation L_DATABASEPROPERTYEX :: label_id where "L_DATABASEPROPERTYEX \<equiv> 190"
abbreviation L_ORIGINAL_DB_NAME :: label_id where "L_ORIGINAL_DB_NAME \<equiv> 191"
abbreviation L_FILEPROPERTYEX :: label_id where "L_FILEPROPERTYEX \<equiv> 192"
abbreviation L_RTRIM :: label_id where "L_RTRIM \<equiv> 193"
abbreviation L_JSON_OBJECT :: label_id where "L_JSON_OBJECT \<equiv> 194"
abbreviation L_XACT_STATE :: label_id where "L_XACT_STATE \<equiv> 195"
abbreviation L_FORMATMESSAGE :: label_id where "L_FORMATMESSAGE \<equiv> 196"
abbreviation L_DATEDIFF_BIG :: label_id where "L_DATEDIFF_BIG \<equiv> 197"
abbreviation L_USER :: label_id where "L_USER \<equiv> 198"
abbreviation L_DEGREES :: label_id where "L_DEGREES \<equiv> 199"
abbreviation L_LEN :: label_id where "L_LEN \<equiv> 200"
abbreviation L_TRANSLATE :: label_id where "L_TRANSLATE \<equiv> 201"
abbreviation L_SWITCHOFFSET :: label_id where "L_SWITCHOFFSET \<equiv> 202"
abbreviation L_PI :: label_id where "L_PI \<equiv> 203"
abbreviation L_DATE_BUCKET :: label_id where "L_DATE_BUCKET \<equiv> 204"
abbreviation L_EXP :: label_id where "L_EXP \<equiv> 205"
abbreviation L_STRINGAGG :: label_id where "L_STRINGAGG \<equiv> 206"

end
