(* ===== verification/Rules_1.thy ===== *)
theory Rules_1
  imports Grammar Tokens Rule_Ids Label_Ids
begin

text \<open>
  Rules of \<open>src/TSqlParser.g4\<close>, from \<open>tsql_file\<close> to \<open>lock_table\<close>: one definition per
  rule, its alternatives in the order of the file.  A quoted literal of the grammar is the
  token whose lexer rule is that literal.
\<close>

definition g_tsql_file :: rule where [grammar_rules]:
  "g_tsql_file = \<lparr>rule_index = RuleTsql_file, rule_alts = [
       (None, Seq [Star (Ref RuleGo_statement), Tok T_EOF]),
       (None, Seq [Ref RuleBatch_without_go, Star (Seq [Ref RuleGo_statement,
         Opt (Ref RuleBatch_without_go)]), Opt (Ref RuleGo_statement), Tok T_EOF])]\<rparr>"

definition g_batch_without_go :: rule where [grammar_rules]:
  "g_batch_without_go = \<lparr>rule_index = RuleBatch_without_go, rule_alts = [
       (None, Plus (Ref RuleSql_clauses)),
       (None, Ref RuleBatch_level_statement),
       (None, Seq [Ref RuleExecute_body_batch, Star (Ref RuleSql_clauses)])]\<rparr>"

definition g_batch_level_statement :: rule where [grammar_rules]:
  "g_batch_level_statement = \<lparr>rule_index = RuleBatch_level_statement, rule_alts = [
       (None, Ref RuleCreate_or_alter_function),
       (None, Ref RuleCreate_or_alter_procedure),
       (None, Ref RuleCreate_or_alter_trigger),
       (None, Ref RuleCreate_view)]\<rparr>"

definition g_sql_clauses :: rule where [grammar_rules]:
  "g_sql_clauses = \<lparr>rule_index = RuleSql_clauses, rule_alts = [
       (None, Seq [Ref RuleDml_clause, Opt (Tok T_SEMI)]),
       (None, Seq [Ref RuleCfl_statement, Opt (Tok T_SEMI)]),
       (None, Seq [Ref RuleAnother_statement, Opt (Tok T_SEMI)]),
       (None, Seq [Ref RuleDdl_clause, Opt (Tok T_SEMI)]),
       (None, Seq [Ref RuleDbcc_clause, Opt (Tok T_SEMI)]),
       (None, Seq [Ref RuleBackup_statement, Opt (Tok T_SEMI)]),
       (None, Tok T_SEMI)]\<rparr>"

definition g_dml_clause :: rule where [grammar_rules]:
  "g_dml_clause = \<lparr>rule_index = RuleDml_clause, rule_alts = [
       (None, Ref RuleMerge_statement),
       (None, Ref RuleDelete_statement),
       (None, Ref RuleInsert_statement),
       (None, Ref RuleSelect_statement_standalone),
       (None, Ref RuleUpdate_statement)]\<rparr>"

definition g_ddl_clause :: rule where [grammar_rules]:
  "g_ddl_clause = \<lparr>rule_index = RuleDdl_clause, rule_alts = [
       (None, Ref RuleAlter_application_role),
       (None, Ref RuleAlter_assembly),
       (None, Ref RuleAlter_asymmetric_key),
       (None, Ref RuleAlter_authorization),
       (None, Ref RuleAlter_authorization_for_azure_dw),
       (None, Ref RuleAlter_authorization_for_parallel_dw),
       (None, Ref RuleAlter_authorization_for_sql_database),
       (None, Ref RuleAlter_availability_group),
       (None, Ref RuleAlter_certificate),
       (None, Ref RuleAlter_column_encryption_key),
       (None, Ref RuleAlter_credential),
       (None, Ref RuleAlter_cryptographic_provider),
       (None, Ref RuleAlter_database),
       (None, Ref RuleAlter_database_audit_specification),
       (None, Ref RuleAlter_db_role),
       (None, Ref RuleAlter_endpoint),
       (None, Ref RuleAlter_external_data_source),
       (None, Ref RuleAlter_external_library),
       (None, Ref RuleAlter_external_resource_pool),
       (None, Ref RuleAlter_fulltext_catalog),
       (None, Ref RuleAlter_fulltext_stoplist),
       (None, Ref RuleAlter_index),
       (None, Ref RuleAlter_login_azure_sql),
       (None, Ref RuleAlter_login_azure_sql_dw_and_pdw),
       (None, Ref RuleAlter_login_sql_server),
       (None, Ref RuleAlter_master_key_azure_sql),
       (None, Ref RuleAlter_master_key_sql_server),
       (None, Ref RuleAlter_message_type),
       (None, Ref RuleAlter_partition_function),
       (None, Ref RuleAlter_partition_scheme),
       (None, Ref RuleAlter_remote_service_binding),
       (None, Ref RuleAlter_resource_governor),
       (None, Ref RuleAlter_schema_azure_sql_dw_and_pdw),
       (None, Ref RuleAlter_schema_sql),
       (None, Ref RuleAlter_sequence),
       (None, Ref RuleAlter_server_audit),
       (None, Ref RuleAlter_server_audit_specification),
       (None, Ref RuleAlter_server_configuration),
       (None, Ref RuleAlter_server_role),
       (None, Ref RuleAlter_server_role_pdw),
       (None, Ref RuleAlter_service),
       (None, Ref RuleAlter_service_master_key),
       (None, Ref RuleAlter_symmetric_key),
       (None, Ref RuleAlter_table),
       (None, Ref RuleAlter_user),
       (None, Ref RuleAlter_user_azure_sql),
       (None, Ref RuleAlter_workload_group),
       (None, Ref RuleAlter_xml_schema_collection),
       (None, Ref RuleCreate_application_role),
       (None, Ref RuleCreate_assembly),
       (None, Ref RuleCreate_asymmetric_key),
       (None, Ref RuleCreate_column_encryption_key),
       (None, Ref RuleCreate_column_master_key),
       (None, Ref RuleCreate_columnstore_index),
       (None, Ref RuleCreate_credential),
       (None, Ref RuleCreate_cryptographic_provider),
       (None, Ref RuleCreate_database),
       (None, Ref RuleCreate_database_audit_specification),
       (None, Ref RuleCreate_db_role),
       (None, Ref RuleCreate_endpoint),
       (None, Ref RuleCreate_event_notification),
       (None, Ref RuleCreate_external_library),
       (None, Ref RuleCreate_external_resource_pool),
       (None, Ref RuleCreate_fulltext_catalog),
       (None, Ref RuleCreate_fulltext_stoplist),
       (None, Ref RuleCreate_index),
       (None, Ref RuleCreate_login_azure_sql),
       (None, Ref RuleCreate_login_pdw),
       (None, Ref RuleCreate_login_sql_server),
       (None, Ref RuleCreate_master_key_azure_sql),
       (None, Ref RuleCreate_master_key_sql_server),
       (None, Ref RuleCreate_nonclustered_columnstore_index),
       (None, Ref RuleCreate_or_alter_broker_priority),
       (None, Ref RuleCreate_or_alter_event_session),
       (None, Ref RuleCreate_partition_function),
       (None, Ref RuleCreate_partition_scheme),
       (None, Ref RuleCreate_remote_service_binding),
       (None, Ref RuleCreate_resource_pool),
       (None, Ref RuleCreate_route),
       (None, Ref RuleCreate_rule),
       (None, Ref RuleCreate_schema),
       (None, Ref RuleCreate_schema_azure_sql_dw_and_pdw),
       (None, Ref RuleCreate_search_property_list),
       (None, Ref RuleCreate_security_policy),
       (None, Ref RuleCreate_sequence),
       (None, Ref RuleCreate_server_audit),
       (None, Ref RuleCreate_server_audit_specification),
       (None, Ref RuleCreate_server_role),
       (None, Ref RuleCreate_service),
       (None, Ref RuleCreate_statistics),
       (None, Ref RuleCreate_synonym),
       (None, Ref RuleCreate_table),
       (None, Ref RuleCreate_type),
       (None, Ref RuleCreate_user),
       (None, Ref RuleCreate_user_azure_sql_dw),
       (None, Ref RuleCreate_workload_group),
       (None, Ref RuleCreate_xml_index),
       (None, Ref RuleCreate_xml_schema_collection),
       (None, Ref RuleDisable_trigger),
       (None, Ref RuleDrop_aggregate),
       (None, Ref RuleDrop_application_role),
       (None, Ref RuleDrop_assembly),
       (None, Ref RuleDrop_asymmetric_key),
       (None, Ref RuleDrop_availability_group),
       (None, Ref RuleDrop_broker_priority),
       (None, Ref RuleDrop_certificate),
       (None, Ref RuleDrop_column_encryption_key),
       (None, Ref RuleDrop_column_master_key),
       (None, Ref RuleDrop_contract),
       (None, Ref RuleDrop_credential),
       (None, Ref RuleDrop_cryptograhic_provider),
       (None, Ref RuleDrop_database),
       (None, Ref RuleDrop_database_audit_specification),
       (None, Ref RuleDrop_database_encryption_key),
       (None, Ref RuleDrop_database_scoped_credential),
       (None, Ref RuleDrop_db_role),
       (None, Ref RuleDrop_default),
       (None, Ref RuleDrop_endpoint),
       (None, Ref RuleDrop_event_notifications),
       (None, Ref RuleDrop_event_session),
       (None, Ref RuleDrop_external_data_source),
       (None, Ref RuleDrop_external_file_format),
       (None, Ref RuleDrop_external_library),
       (None, Ref RuleDrop_external_resource_pool),
       (None, Ref RuleDrop_external_table),
       (None, Ref RuleDrop_fulltext_catalog),
       (None, Ref RuleDrop_fulltext_index),
       (None, Ref RuleDrop_fulltext_stoplist),
       (None, Ref RuleDrop_function),
       (None, Ref RuleDrop_index),
       (None, Ref RuleDrop_login),
       (None, Ref RuleDrop_master_key),
       (None, Ref RuleDrop_message_type),
       (None, Ref RuleDrop_partition_function),
       (None, Ref RuleDrop_partition_scheme),
       (None, Ref RuleDrop_procedure),
       (None, Ref RuleDrop_queue),
       (None, Ref RuleDrop_remote_service_binding),
       (None, Ref RuleDrop_resource_pool),
       (None, Ref RuleDrop_route),
       (None, Ref RuleDrop_rule),
       (None, Ref RuleDrop_schema),
       (None, Ref RuleDrop_search_property_list),
       (None, Ref RuleDrop_security_policy),
       (None, Ref RuleDrop_sequence),
       (None, Ref RuleDrop_server_audit),
       (None, Ref RuleDrop_server_audit_specification),
       (None, Ref RuleDrop_server_role),
       (None, Ref RuleDrop_service),
       (None, Ref RuleDrop_signature),
       (None, Ref RuleDrop_statistics),
       (None, Ref RuleDrop_statistics_name_azure_dw_and_pdw),
       (None, Ref RuleDrop_symmetric_key),
       (None, Ref RuleDrop_synonym),
       (None, Ref RuleDrop_table),
       (None, Ref RuleDrop_trigger),
       (None, Ref RuleDrop_type),
       (None, Ref RuleDrop_user),
       (None, Ref RuleDrop_view),
       (None, Ref RuleDrop_workload_group),
       (None, Ref RuleDrop_xml_schema_collection),
       (None, Ref RuleEnable_trigger),
       (None, Ref RuleLock_table),
       (None, Ref RuleTruncate_table),
       (None, Ref RuleUpdate_statistics)]\<rparr>"

definition g_backup_statement :: rule where [grammar_rules]:
  "g_backup_statement = \<lparr>rule_index = RuleBackup_statement, rule_alts = [
       (None, Ref RuleBackup_database),
       (None, Ref RuleBackup_log),
       (None, Ref RuleBackup_certificate),
       (None, Ref RuleBackup_master_key),
       (None, Ref RuleBackup_service_master_key)]\<rparr>"

definition g_cfl_statement :: rule where [grammar_rules]:
  "g_cfl_statement = \<lparr>rule_index = RuleCfl_statement, rule_alts = [
       (None, Ref RuleBlock_statement),
       (None, Ref RuleBreak_statement),
       (None, Ref RuleContinue_statement),
       (None, Ref RuleGoto_statement),
       (None, Ref RuleIf_statement),
       (None, Ref RulePrint_statement),
       (None, Ref RuleRaiseerror_statement),
       (None, Ref RuleReturn_statement),
       (None, Ref RuleThrow_statement),
       (None, Ref RuleTry_catch_statement),
       (None, Ref RuleWaitfor_statement),
       (None, Ref RuleWhile_statement)]\<rparr>"

definition g_block_statement :: rule where [grammar_rules]:
  "g_block_statement = \<lparr>rule_index = RuleBlock_statement, rule_alts = [
       (None, Seq [Tok T_BEGIN, Opt (Tok T_SEMI), Star (Ref RuleSql_clauses), Tok T_END,
         Opt (Tok T_SEMI)])]\<rparr>"

definition g_break_statement :: rule where [grammar_rules]:
  "g_break_statement = \<lparr>rule_index = RuleBreak_statement, rule_alts = [
       (None, Seq [Tok T_BREAK, Opt (Tok T_SEMI)])]\<rparr>"

definition g_continue_statement :: rule where [grammar_rules]:
  "g_continue_statement = \<lparr>rule_index = RuleContinue_statement, rule_alts = [
       (None, Seq [Tok T_CONTINUE, Opt (Tok T_SEMI)])]\<rparr>"

definition g_goto_statement :: rule where [grammar_rules]:
  "g_goto_statement = \<lparr>rule_index = RuleGoto_statement, rule_alts = [
       (None, Seq [Tok T_GOTO, Ref RuleId', Opt (Tok T_SEMI)]),
       (None, Seq [Ref RuleId', Tok T_COLON, Opt (Tok T_SEMI)])]\<rparr>"

definition g_return_statement :: rule where [grammar_rules]:
  "g_return_statement = \<lparr>rule_index = RuleReturn_statement, rule_alts = [
       (None, Seq [Tok T_RETURN, Opt (Ref RuleExpression), Opt (Tok T_SEMI)])]\<rparr>"

definition g_if_statement :: rule where [grammar_rules]:
  "g_if_statement = \<lparr>rule_index = RuleIf_statement, rule_alts = [
       (None, Seq [Tok T_IF, Ref RuleSearch_condition, Ref RuleSql_clauses,
         Opt (Seq [Tok T_ELSE, Ref RuleSql_clauses]), Opt (Tok T_SEMI)])]\<rparr>"

definition g_throw_statement :: rule where [grammar_rules]:
  "g_throw_statement = \<lparr>rule_index = RuleThrow_statement, rule_alts = [
       (None, Seq [Tok T_THROW, Opt (Seq [Ref RuleThrow_error_number, Tok T_COMMA,
         Ref RuleThrow_message, Tok T_COMMA, Ref RuleThrow_state]), Opt (Tok T_SEMI)])]\<rparr>"

definition g_throw_error_number :: rule where [grammar_rules]:
  "g_throw_error_number = \<lparr>rule_index = RuleThrow_error_number, rule_alts = [
       (None, Tok T_DECIMAL),
       (None, Tok T_LOCAL_ID)]\<rparr>"

definition g_throw_message :: rule where [grammar_rules]:
  "g_throw_message = \<lparr>rule_index = RuleThrow_message, rule_alts = [
       (None, Tok T_STRING),
       (None, Tok T_LOCAL_ID)]\<rparr>"

definition g_throw_state :: rule where [grammar_rules]:
  "g_throw_state = \<lparr>rule_index = RuleThrow_state, rule_alts = [
       (None, Tok T_DECIMAL),
       (None, Tok T_LOCAL_ID)]\<rparr>"

definition g_try_catch_statement :: rule where [grammar_rules]:
  "g_try_catch_statement = \<lparr>rule_index = RuleTry_catch_statement, rule_alts = [
       (None, Seq [Tok T_BEGIN, Tok T_TRY, Opt (Tok T_SEMI),
         Plus (Lab (Assign ''try_clauses'') (Ref RuleSql_clauses)), Tok T_END, Tok T_TRY,
         Opt (Tok T_SEMI), Tok T_BEGIN, Tok T_CATCH, Opt (Tok T_SEMI),
         Star (Lab (Assign ''catch_clauses'') (Ref RuleSql_clauses)), Tok T_END, Tok T_CATCH,
         Opt (Tok T_SEMI)])]\<rparr>"

definition g_waitfor_statement :: rule where [grammar_rules]:
  "g_waitfor_statement = \<lparr>rule_index = RuleWaitfor_statement, rule_alts = [
       (None, Seq [Tok T_WAITFOR, Opt (Ref RuleReceive_statement), Opt (Tok T_COMMA),
         Opt (Seq [Alt [Tok T_DELAY, Tok T_TIME, Tok T_TIMEOUT], Ref RuleTime]),
         Opt (Ref RuleExpression), Opt (Tok T_SEMI)])]\<rparr>"

definition g_while_statement :: rule where [grammar_rules]:
  "g_while_statement = \<lparr>rule_index = RuleWhile_statement, rule_alts = [
       (None, Seq [Tok T_WHILE, Ref RuleSearch_condition, Alt [Ref RuleSql_clauses,
         Seq [Tok T_BREAK, Opt (Tok T_SEMI)], Seq [Tok T_CONTINUE, Opt (Tok T_SEMI)]]])]\<rparr>"

definition g_print_statement :: rule where [grammar_rules]:
  "g_print_statement = \<lparr>rule_index = RulePrint_statement, rule_alts = [
       (None, Seq [Tok T_PRINT, Alt [Ref RuleExpression, Tok T_DOUBLE_QUOTE_ID],
         Star (Seq [Tok T_COMMA, Tok T_LOCAL_ID]), Opt (Tok T_SEMI)])]\<rparr>"

definition g_raiseerror_statement :: rule where [grammar_rules]:
  "g_raiseerror_statement = \<lparr>rule_index = RuleRaiseerror_statement, rule_alts = [
       (None, Seq [Tok T_RAISERROR, Tok T_LR_BRACKET, Lab (Assign ''msg'') (Alt [Tok T_DECIMAL,
         Tok T_STRING, Tok T_LOCAL_ID]), Tok T_COMMA,
         Lab (Assign ''severity'') (Ref RuleConstant_LOCAL_ID), Tok T_COMMA,
         Lab (Assign ''state'') (Ref RuleConstant_LOCAL_ID), Star (Seq [Tok T_COMMA,
         Alt [Ref RuleConstant_LOCAL_ID, Tok T_NULL']]), Tok T_RR_BRACKET,
         Opt (Seq [Tok T_WITH, Alt [Tok T_LOG, Tok T_SETERROR, Tok T_NOWAIT]]),
         Opt (Tok T_SEMI)]),
       (None, Seq [Tok T_RAISERROR, Tok T_DECIMAL,
         Lab (Assign ''formatstring'') (Alt [Tok T_STRING, Tok T_LOCAL_ID,
         Tok T_DOUBLE_QUOTE_ID]), Star (Seq [Tok T_COMMA,
         Lab (Assign ''argument'') (Alt [Tok T_DECIMAL, Tok T_STRING, Tok T_LOCAL_ID])])])]\<rparr>"

definition g_empty_statement :: rule where [grammar_rules]:
  "g_empty_statement = \<lparr>rule_index = RuleEmpty_statement, rule_alts = [
       (None, Tok T_SEMI)]\<rparr>"

definition g_another_statement :: rule where [grammar_rules]:
  "g_another_statement = \<lparr>rule_index = RuleAnother_statement, rule_alts = [
       (None, Ref RuleAlter_queue),
       (None, Ref RuleCheckpoint_statement),
       (None, Ref RuleConversation_statement),
       (None, Ref RuleCreate_contract),
       (None, Ref RuleCreate_queue),
       (None, Ref RuleCursor_statement),
       (None, Ref RuleDeclare_statement),
       (None, Ref RuleExecute_statement),
       (None, Ref RuleKill_statement),
       (None, Ref RuleMessage_statement),
       (None, Ref RuleReconfigure_statement),
       (None, Ref RuleSecurity_statement),
       (None, Ref RuleSet_statement),
       (None, Ref RuleSetuser_statement),
       (None, Ref RuleShutdown_statement),
       (None, Ref RuleTransaction_statement),
       (None, Ref RuleUse_statement)]\<rparr>"

definition g_alter_application_role :: rule where [grammar_rules]:
  "g_alter_application_role = \<lparr>rule_index = RuleAlter_application_role, rule_alts = [
       (None, Seq [Tok T_ALTER, Tok T_APPLICATION, Tok T_ROLE,
         Lab (Assign ''appliction_role'') (Ref RuleId'), Tok T_WITH,
         Opt (Seq [Opt (Tok T_COMMA), Tok T_NAME, Tok T_EQUAL,
         Lab (Assign ''new_application_role_name'') (Ref RuleId')]),
         Opt (Seq [Opt (Tok T_COMMA), Tok T_PASSWORD, Tok T_EQUAL,
         Lab (Assign ''application_role_password'') (Tok T_STRING)]),
         Opt (Seq [Opt (Tok T_COMMA), Tok T_DEFAULT_SCHEMA, Tok T_EQUAL,
         Lab (Assign ''app_role_default_schema'') (Ref RuleId')])])]\<rparr>"

definition g_alter_xml_schema_collection :: rule where [grammar_rules]:
  "g_alter_xml_schema_collection = \<lparr>rule_index = RuleAlter_xml_schema_collection, rule_alts = [
       (None, Seq [Tok T_ALTER, Tok T_XML, Tok T_SCHEMA, Tok T_COLLECTION,
         Opt (Seq [Ref RuleId', Tok T_DOT]), Ref RuleId', Tok T_ADD, Tok T_STRING])]\<rparr>"

definition g_create_application_role :: rule where [grammar_rules]:
  "g_create_application_role = \<lparr>rule_index = RuleCreate_application_role, rule_alts = [
       (None, Seq [Tok T_CREATE, Tok T_APPLICATION, Tok T_ROLE,
         Lab (Assign ''appliction_role'') (Ref RuleId'), Tok T_WITH,
         Opt (Seq [Opt (Tok T_COMMA), Tok T_PASSWORD, Tok T_EQUAL,
         Lab (Assign ''application_role_password'') (Tok T_STRING)]),
         Opt (Seq [Opt (Tok T_COMMA), Tok T_DEFAULT_SCHEMA, Tok T_EQUAL,
         Lab (Assign ''app_role_default_schema'') (Ref RuleId')])])]\<rparr>"

definition g_drop_aggregate :: rule where [grammar_rules]:
  "g_drop_aggregate = \<lparr>rule_index = RuleDrop_aggregate, rule_alts = [
       (None, Seq [Tok T_DROP, Tok T_AGGREGATE, Opt (Seq [Tok T_IF, Tok T_EXISTS]),
         Opt (Seq [Lab (Assign ''schema_name'') (Ref RuleId'), Tok T_DOT]),
         Lab (Assign ''aggregate_name'') (Ref RuleId')])]\<rparr>"

definition g_drop_application_role :: rule where [grammar_rules]:
  "g_drop_application_role = \<lparr>rule_index = RuleDrop_application_role, rule_alts = [
       (None, Seq [Tok T_DROP, Tok T_APPLICATION, Tok T_ROLE,
         Lab (Assign ''rolename'') (Ref RuleId')])]\<rparr>"

definition g_alter_assembly :: rule where [grammar_rules]:
  "g_alter_assembly = \<lparr>rule_index = RuleAlter_assembly, rule_alts = [
       (None, Seq [Ref RuleAlter_assembly_start, Lab (Assign ''assembly_name'') (Ref RuleId'),
         Ref RuleAlter_assembly_clause])]\<rparr>"

definition g_alter_assembly_start :: rule where [grammar_rules]:
  "g_alter_assembly_start = \<lparr>rule_index = RuleAlter_assembly_start, rule_alts = [
       (None, Seq [Tok T_ALTER, Tok T_ASSEMBLY])]\<rparr>"

definition g_alter_assembly_clause :: rule where [grammar_rules]:
  "g_alter_assembly_clause = \<lparr>rule_index = RuleAlter_assembly_clause, rule_alts = [
       (None, Seq [Opt (Ref RuleAlter_assembly_from_clause),
         Opt (Ref RuleAlter_assembly_with_clause), Opt (Ref RuleAlter_assembly_drop_clause),
         Opt (Ref RuleAlter_assembly_add_clause)])]\<rparr>"

definition g_alter_assembly_from_clause :: rule where [grammar_rules]:
  "g_alter_assembly_from_clause = \<lparr>rule_index = RuleAlter_assembly_from_clause, rule_alts = [
       (None, Seq [Ref RuleAlter_assembly_from_clause_start,
         Alt [Ref RuleClient_assembly_specifier, Ref RuleAlter_assembly_file_bits]])]\<rparr>"

definition g_alter_assembly_from_clause_start :: rule where [grammar_rules]:
  "g_alter_assembly_from_clause_start = \<lparr>rule_index = RuleAlter_assembly_from_clause_start, rule_alts = [
       (None, Tok T_FROM)]\<rparr>"

definition g_alter_assembly_drop_clause :: rule where [grammar_rules]:
  "g_alter_assembly_drop_clause = \<lparr>rule_index = RuleAlter_assembly_drop_clause, rule_alts = [
       (None, Seq [Ref RuleAlter_assembly_drop, Ref RuleAlter_assembly_drop_multiple_files])]\<rparr>"

definition g_alter_assembly_drop_multiple_files :: rule where [grammar_rules]:
  "g_alter_assembly_drop_multiple_files = \<lparr>rule_index = RuleAlter_assembly_drop_multiple_files, rule_alts = [
       (None, Tok T_ALL),
       (None, Ref RuleMultiple_local_files)]\<rparr>"

definition g_alter_assembly_drop :: rule where [grammar_rules]:
  "g_alter_assembly_drop = \<lparr>rule_index = RuleAlter_assembly_drop, rule_alts = [
       (None, Tok T_DROP)]\<rparr>"

definition g_alter_assembly_add_clause :: rule where [grammar_rules]:
  "g_alter_assembly_add_clause = \<lparr>rule_index = RuleAlter_assembly_add_clause, rule_alts = [
       (None, Seq [Ref RuleAlter_asssembly_add_clause_start,
         Ref RuleAlter_assembly_client_file_clause])]\<rparr>"

definition g_alter_asssembly_add_clause_start :: rule where [grammar_rules]:
  "g_alter_asssembly_add_clause_start = \<lparr>rule_index = RuleAlter_asssembly_add_clause_start, rule_alts = [
       (None, Seq [Tok T_ADD, Tok T_FILE, Tok T_FROM])]\<rparr>"

definition g_alter_assembly_client_file_clause :: rule where [grammar_rules]:
  "g_alter_assembly_client_file_clause = \<lparr>rule_index = RuleAlter_assembly_client_file_clause, rule_alts = [
       (None, Seq [Ref RuleAlter_assembly_file_name, Opt (Seq [Ref RuleAlter_assembly_as,
         Ref RuleId'])])]\<rparr>"

definition g_alter_assembly_file_name :: rule where [grammar_rules]:
  "g_alter_assembly_file_name = \<lparr>rule_index = RuleAlter_assembly_file_name, rule_alts = [
       (None, Tok T_STRING)]\<rparr>"

definition g_alter_assembly_file_bits :: rule where [grammar_rules]:
  "g_alter_assembly_file_bits = \<lparr>rule_index = RuleAlter_assembly_file_bits, rule_alts = [
       (None, Seq [Ref RuleAlter_assembly_as, Ref RuleId'])]\<rparr>"

definition g_alter_assembly_as :: rule where [grammar_rules]:
  "g_alter_assembly_as = \<lparr>rule_index = RuleAlter_assembly_as, rule_alts = [
       (None, Tok T_AS)]\<rparr>"

definition g_alter_assembly_with_clause :: rule where [grammar_rules]:
  "g_alter_assembly_with_clause = \<lparr>rule_index = RuleAlter_assembly_with_clause, rule_alts = [
       (None, Seq [Ref RuleAlter_assembly_with, Ref RuleAssembly_option])]\<rparr>"

definition g_alter_assembly_with :: rule where [grammar_rules]:
  "g_alter_assembly_with = \<lparr>rule_index = RuleAlter_assembly_with, rule_alts = [
       (None, Tok T_WITH)]\<rparr>"

definition g_client_assembly_specifier :: rule where [grammar_rules]:
  "g_client_assembly_specifier = \<lparr>rule_index = RuleClient_assembly_specifier, rule_alts = [
       (None, Ref RuleNetwork_file_share),
       (None, Ref RuleLocal_file),
       (None, Tok T_STRING)]\<rparr>"

definition g_assembly_option :: rule where [grammar_rules]:
  "g_assembly_option = \<lparr>rule_index = RuleAssembly_option, rule_alts = [
       (None, Seq [Tok T_PERMISSION_SET, Tok T_EQUAL, Alt [Tok T_SAFE, Tok T_EXTERNAL_ACCESS,
         Tok T_UNSAFE]]),
       (None, Seq [Tok T_VISIBILITY, Tok T_EQUAL, Ref RuleOn_off]),
       (None, Seq [Tok T_UNCHECKED, Tok T_DATA]),
       (None, Seq [Ref RuleAssembly_option, Tok T_COMMA])]\<rparr>"

definition g_network_file_share :: rule where [grammar_rules]:
  "g_network_file_share = \<lparr>rule_index = RuleNetwork_file_share, rule_alts = [
       (None, Seq [Ref RuleNetwork_file_start, Ref RuleNetwork_computer, Ref RuleFile_path])]\<rparr>"

definition g_network_computer :: rule where [grammar_rules]:
  "g_network_computer = \<lparr>rule_index = RuleNetwork_computer, rule_alts = [
       (None, Lab (Assign ''computer_name'') (Ref RuleId'))]\<rparr>"

definition g_network_file_start :: rule where [grammar_rules]:
  "g_network_file_start = \<lparr>rule_index = RuleNetwork_file_start, rule_alts = [
       (None, Tok T_DOUBLE_BACK_SLASH)]\<rparr>"

definition g_file_path :: rule where [grammar_rules]:
  "g_file_path = \<lparr>rule_index = RuleFile_path, rule_alts = [
       (None, Seq [Ref RuleFile_directory_path_separator, Ref RuleFile_path]),
       (None, Ref RuleId')]\<rparr>"

definition g_file_directory_path_separator :: rule where [grammar_rules]:
  "g_file_directory_path_separator = \<lparr>rule_index = RuleFile_directory_path_separator, rule_alts = [
       (None, Tok T_BACKSLASH)]\<rparr>"

definition g_local_file :: rule where [grammar_rules]:
  "g_local_file = \<lparr>rule_index = RuleLocal_file, rule_alts = [
       (None, Seq [Ref RuleLocal_drive, Ref RuleFile_path])]\<rparr>"

definition g_local_drive :: rule where [grammar_rules]:
  "g_local_drive = \<lparr>rule_index = RuleLocal_drive, rule_alts = [
       (None, Tok T_DISK_DRIVE)]\<rparr>"

definition g_multiple_local_files :: rule where [grammar_rules]:
  "g_multiple_local_files = \<lparr>rule_index = RuleMultiple_local_files, rule_alts = [
       (None, Seq [Ref RuleMultiple_local_file_start, Ref RuleLocal_file, Tok T_SINGLE_QUOTE,
         Tok T_COMMA]),
       (None, Ref RuleLocal_file)]\<rparr>"

definition g_multiple_local_file_start :: rule where [grammar_rules]:
  "g_multiple_local_file_start = \<lparr>rule_index = RuleMultiple_local_file_start, rule_alts = [
       (None, Tok T_SINGLE_QUOTE)]\<rparr>"

definition g_create_assembly :: rule where [grammar_rules]:
  "g_create_assembly = \<lparr>rule_index = RuleCreate_assembly, rule_alts = [
       (None, Seq [Tok T_CREATE, Tok T_ASSEMBLY, Lab (Assign ''assembly_name'') (Ref RuleId'),
         Opt (Seq [Tok T_AUTHORIZATION, Lab (Assign ''owner_name'') (Ref RuleId')]),
         Tok T_FROM, Plus (Seq [Opt (Tok T_COMMA), Alt [Tok T_STRING, Tok T_BINARY]]),
         Opt (Seq [Tok T_WITH, Tok T_PERMISSION_SET, Tok T_EQUAL, Alt [Tok T_SAFE,
         Tok T_EXTERNAL_ACCESS, Tok T_UNSAFE]])])]\<rparr>"

definition g_drop_assembly :: rule where [grammar_rules]:
  "g_drop_assembly = \<lparr>rule_index = RuleDrop_assembly, rule_alts = [
       (None, Seq [Tok T_DROP, Tok T_ASSEMBLY, Opt (Seq [Tok T_IF, Tok T_EXISTS]),
         Plus (Seq [Opt (Tok T_COMMA), Lab (Assign ''assembly_name'') (Ref RuleId')]),
         Opt (Seq [Tok T_WITH, Tok T_NO, Tok T_DEPENDENTS])])]\<rparr>"

definition g_alter_asymmetric_key :: rule where [grammar_rules]:
  "g_alter_asymmetric_key = \<lparr>rule_index = RuleAlter_asymmetric_key, rule_alts = [
       (None, Seq [Ref RuleAlter_asymmetric_key_start,
         Lab (Assign ''Asym_Key_Name'') (Ref RuleId'), Alt [Ref RuleAsymmetric_key_option,
         Seq [Tok T_REMOVE, Tok T_PRIVATE, Tok T_KEY]]])]\<rparr>"

definition g_alter_asymmetric_key_start :: rule where [grammar_rules]:
  "g_alter_asymmetric_key_start = \<lparr>rule_index = RuleAlter_asymmetric_key_start, rule_alts = [
       (None, Seq [Tok T_ALTER, Tok T_ASYMMETRIC, Tok T_KEY])]\<rparr>"

definition g_asymmetric_key_option :: rule where [grammar_rules]:
  "g_asymmetric_key_option = \<lparr>rule_index = RuleAsymmetric_key_option, rule_alts = [
       (None, Seq [Ref RuleAsymmetric_key_option_start,
         Ref RuleAsymmetric_key_password_change_option, Opt (Seq [Tok T_COMMA,
         Ref RuleAsymmetric_key_password_change_option]), Tok T_RR_BRACKET])]\<rparr>"

definition g_asymmetric_key_option_start :: rule where [grammar_rules]:
  "g_asymmetric_key_option_start = \<lparr>rule_index = RuleAsymmetric_key_option_start, rule_alts = [
       (None, Seq [Tok T_WITH, Tok T_PRIVATE, Tok T_KEY, Tok T_LR_BRACKET])]\<rparr>"

definition g_asymmetric_key_password_change_option :: rule where [grammar_rules]:
  "g_asymmetric_key_password_change_option = \<lparr>rule_index = RuleAsymmetric_key_password_change_option, rule_alts = [
       (None, Seq [Tok T_DECRYPTION, Tok T_BY, Tok T_PASSWORD, Tok T_EQUAL, Tok T_STRING]),
       (None, Seq [Tok T_ENCRYPTION, Tok T_BY, Tok T_PASSWORD, Tok T_EQUAL, Tok T_STRING])]\<rparr>"

definition g_create_asymmetric_key :: rule where [grammar_rules]:
  "g_create_asymmetric_key = \<lparr>rule_index = RuleCreate_asymmetric_key, rule_alts = [
       (None, Seq [Tok T_CREATE, Tok T_ASYMMETRIC, Tok T_KEY,
         Lab (Assign ''Asym_Key_Nam'') (Ref RuleId'), Opt (Seq [Tok T_AUTHORIZATION,
         Lab (Assign ''database_principal_name'') (Ref RuleId')]), Opt (Seq [Tok T_FROM,
         Alt [Seq [Tok T_FILE, Tok T_EQUAL, Tok T_STRING], Seq [Tok T_EXECUTABLE_FILE,
         Tok T_EQUAL, Tok T_STRING], Seq [Tok T_ASSEMBLY,
         Lab (Assign ''Assembly_Name'') (Ref RuleId')], Seq [Tok T_PROVIDER,
         Lab (Assign ''Provider_Name'') (Ref RuleId')]]]), Opt (Seq [Tok T_WITH,
         Alt [Seq [Tok T_ALGORITHM, Tok T_EQUAL, Alt [Tok T_RSA_4096, Tok T_RSA_3072,
         Tok T_RSA_2048, Tok T_RSA_1024, Tok T_RSA_512]], Seq [Tok T_PROVIDER_KEY_NAME,
         Tok T_EQUAL, Lab (Assign ''provider_key_name'') (Tok T_STRING)],
         Seq [Tok T_CREATION_DISPOSITION, Tok T_EQUAL, Alt [Tok T_CREATE_NEW,
         Tok T_OPEN_EXISTING]]]]), Opt (Seq [Tok T_ENCRYPTION, Tok T_BY, Tok T_PASSWORD,
         Tok T_EQUAL, Lab (Assign ''asymmetric_key_password'') (Tok T_STRING)])])]\<rparr>"

definition g_drop_asymmetric_key :: rule where [grammar_rules]:
  "g_drop_asymmetric_key = \<lparr>rule_index = RuleDrop_asymmetric_key, rule_alts = [
       (None, Seq [Tok T_DROP, Tok T_ASYMMETRIC, Tok T_KEY,
         Lab (Assign ''key_name'') (Ref RuleId'), Opt (Seq [Tok T_REMOVE, Tok T_PROVIDER,
         Tok T_KEY])])]\<rparr>"

definition g_alter_authorization :: rule where [grammar_rules]:
  "g_alter_authorization = \<lparr>rule_index = RuleAlter_authorization, rule_alts = [
       (None, Seq [Ref RuleAlter_authorization_start, Opt (Seq [Ref RuleClass_type,
         Ref RuleColon_colon]), Lab (Assign ''entity'') (Ref RuleEntity_name),
         Ref RuleEntity_to, Ref RuleAuthorization_grantee])]\<rparr>"

definition g_authorization_grantee :: rule where [grammar_rules]:
  "g_authorization_grantee = \<lparr>rule_index = RuleAuthorization_grantee, rule_alts = [
       (None, Lab (Assign ''principal_name'') (Ref RuleId')),
       (None, Seq [Tok T_SCHEMA, Tok T_OWNER])]\<rparr>"

definition g_entity_to :: rule where [grammar_rules]:
  "g_entity_to = \<lparr>rule_index = RuleEntity_to, rule_alts = [
       (None, Tok T_TO)]\<rparr>"

definition g_colon_colon :: rule where [grammar_rules]:
  "g_colon_colon = \<lparr>rule_index = RuleColon_colon, rule_alts = [
       (None, Tok T_DOUBLE_COLON)]\<rparr>"

definition g_alter_authorization_start :: rule where [grammar_rules]:
  "g_alter_authorization_start = \<lparr>rule_index = RuleAlter_authorization_start, rule_alts = [
       (None, Seq [Tok T_ALTER, Tok T_AUTHORIZATION, Tok T_ON])]\<rparr>"

definition g_alter_authorization_for_sql_database :: rule where [grammar_rules]:
  "g_alter_authorization_for_sql_database = \<lparr>rule_index = RuleAlter_authorization_for_sql_database, rule_alts = [
       (None, Seq [Ref RuleAlter_authorization_start,
         Opt (Seq [Ref RuleClass_type_for_sql_database, Ref RuleColon_colon]),
         Lab (Assign ''entity'') (Ref RuleEntity_name), Ref RuleEntity_to,
         Ref RuleAuthorization_grantee])]\<rparr>"

definition g_alter_authorization_for_azure_dw :: rule where [grammar_rules]:
  "g_alter_authorization_for_azure_dw = \<lparr>rule_index = RuleAlter_authorization_for_azure_dw, rule_alts = [
       (None, Seq [Ref RuleAlter_authorization_start,
         Opt (Seq [Ref RuleClass_type_for_azure_dw, Ref RuleColon_colon]),
         Lab (Assign ''entity'') (Ref RuleEntity_name_for_azure_dw), Ref RuleEntity_to,
         Ref RuleAuthorization_grantee])]\<rparr>"

definition g_alter_authorization_for_parallel_dw :: rule where [grammar_rules]:
  "g_alter_authorization_for_parallel_dw = \<lparr>rule_index = RuleAlter_authorization_for_parallel_dw, rule_alts = [
       (None, Seq [Ref RuleAlter_authorization_start,
         Opt (Seq [Ref RuleClass_type_for_parallel_dw, Ref RuleColon_colon]),
         Lab (Assign ''entity'') (Ref RuleEntity_name_for_parallel_dw), Ref RuleEntity_to,
         Ref RuleAuthorization_grantee])]\<rparr>"

definition g_class_type :: rule where [grammar_rules]:
  "g_class_type = \<lparr>rule_index = RuleClass_type, rule_alts = [
       (None, Tok T_OBJECT),
       (None, Tok T_ASSEMBLY),
       (None, Seq [Tok T_ASYMMETRIC, Tok T_KEY]),
       (None, Seq [Tok T_AVAILABILITY, Tok T_GROUP]),
       (None, Tok T_CERTIFICATE),
       (None, Tok T_CONTRACT),
       (None, Tok T_TYPE),
       (None, Tok T_DATABASE),
       (None, Tok T_ENDPOINT),
       (None, Seq [Tok T_FULLTEXT, Tok T_CATALOG]),
       (None, Seq [Tok T_FULLTEXT, Tok T_STOPLIST]),
       (None, Seq [Tok T_MESSAGE, Tok T_TYPE]),
       (None, Seq [Tok T_REMOTE, Tok T_SERVICE, Tok T_BINDING]),
       (None, Tok T_ROLE),
       (None, Tok T_ROUTE),
       (None, Tok T_SCHEMA),
       (None, Seq [Tok T_SEARCH, Tok T_PROPERTY, Tok T_LIST]),
       (None, Seq [Tok T_SERVER, Tok T_ROLE]),
       (None, Tok T_SERVICE),
       (None, Seq [Tok T_SYMMETRIC, Tok T_KEY]),
       (None, Seq [Tok T_XML, Tok T_SCHEMA, Tok T_COLLECTION])]\<rparr>"

definition g_class_type_for_sql_database :: rule where [grammar_rules]:
  "g_class_type_for_sql_database = \<lparr>rule_index = RuleClass_type_for_sql_database, rule_alts = [
       (None, Tok T_OBJECT),
       (None, Tok T_ASSEMBLY),
       (None, Seq [Tok T_ASYMMETRIC, Tok T_KEY]),
       (None, Tok T_CERTIFICATE),
       (None, Tok T_TYPE),
       (None, Tok T_DATABASE),
       (None, Seq [Tok T_FULLTEXT, Tok T_CATALOG]),
       (None, Seq [Tok T_FULLTEXT, Tok T_STOPLIST]),
       (None, Tok T_ROLE),
       (None, Tok T_SCHEMA),
       (None, Seq [Tok T_SEARCH, Tok T_PROPERTY, Tok T_LIST]),
       (None, Seq [Tok T_SYMMETRIC, Tok T_KEY]),
       (None, Seq [Tok T_XML, Tok T_SCHEMA, Tok T_COLLECTION])]\<rparr>"

definition g_class_type_for_azure_dw :: rule where [grammar_rules]:
  "g_class_type_for_azure_dw = \<lparr>rule_index = RuleClass_type_for_azure_dw, rule_alts = [
       (None, Tok T_SCHEMA),
       (None, Tok T_OBJECT)]\<rparr>"

definition g_class_type_for_parallel_dw :: rule where [grammar_rules]:
  "g_class_type_for_parallel_dw = \<lparr>rule_index = RuleClass_type_for_parallel_dw, rule_alts = [
       (None, Tok T_DATABASE),
       (None, Tok T_SCHEMA),
       (None, Tok T_OBJECT)]\<rparr>"

definition g_class_type_for_grant :: rule where [grammar_rules]:
  "g_class_type_for_grant = \<lparr>rule_index = RuleClass_type_for_grant, rule_alts = [
       (None, Seq [Tok T_APPLICATION, Tok T_ROLE]),
       (None, Tok T_ASSEMBLY),
       (None, Seq [Tok T_ASYMMETRIC, Tok T_KEY]),
       (None, Tok T_AUDIT),
       (None, Seq [Tok T_AVAILABILITY, Tok T_GROUP]),
       (None, Seq [Tok T_BROKER, Tok T_PRIORITY]),
       (None, Tok T_CERTIFICATE),
       (None, Seq [Tok T_COLUMN, Alt [Tok T_ENCRYPTION, Tok T_MASTER], Tok T_KEY]),
       (None, Tok T_CONTRACT),
       (None, Tok T_CREDENTIAL),
       (None, Seq [Tok T_CRYPTOGRAPHIC, Tok T_PROVIDER]),
       (None, Seq [Tok T_DATABASE, Opt (Alt [Seq [Tok T_AUDIT, Tok T_SPECIFICATION],
         Seq [Tok T_ENCRYPTION, Tok T_KEY], Seq [Tok T_EVENT, Tok T_SESSION],
         Seq [Tok T_SCOPED, Alt [Tok T_CONFIGURATION, Tok T_CREDENTIAL, Seq [Tok T_RESOURCE,
         Tok T_GOVERNOR]]]])]),
       (None, Tok T_ENDPOINT),
       (None, Seq [Tok T_EVENT, Tok T_SESSION]),
       (None, Seq [Tok T_NOTIFICATION, Alt [Tok T_DATABASE, Tok T_OBJECT, Tok T_SERVER]]),
       (None, Seq [Tok T_EXTERNAL, Alt [Seq [Tok T_DATA, Tok T_SOURCE], Seq [Tok T_FILE,
         Tok T_FORMAT], Tok T_LIBRARY, Seq [Tok T_RESOURCE, Tok T_POOL], Tok T_TABLE,
         Tok T_CATALOG, Tok T_STOPLIST]]),
       (None, Tok T_LOGIN),
       (None, Seq [Tok T_MASTER, Tok T_KEY]),
       (None, Seq [Tok T_MESSAGE, Tok T_TYPE]),
       (None, Tok T_OBJECT),
       (None, Seq [Tok T_PARTITION, Alt [Tok T_FUNCTION, Tok T_SCHEME]]),
       (None, Seq [Tok T_REMOTE, Tok T_SERVICE, Tok T_BINDING]),
       (None, Seq [Tok T_RESOURCE, Tok T_GOVERNOR]),
       (None, Tok T_ROLE),
       (None, Tok T_ROUTE),
       (None, Tok T_SCHEMA),
       (None, Seq [Tok T_SEARCH, Tok T_PROPERTY, Tok T_LIST]),
       (None, Seq [Tok T_SERVER, Opt (Alt [Seq [Tok T_AUDIT, Opt (Tok T_SPECIFICATION)],
         Tok T_ROLE])]),
       (None, Tok T_SERVICE),
       (None, Seq [Tok T_SQL, Tok T_LOGIN]),
       (None, Seq [Tok T_SYMMETRIC, Tok T_KEY]),
       (None, Seq [Tok T_TRIGGER, Alt [Tok T_DATABASE, Tok T_SERVER]]),
       (None, Tok T_TYPE),
       (None, Tok T_USER),
       (None, Seq [Tok T_XML, Tok T_SCHEMA, Tok T_COLLECTION])]\<rparr>"

definition g_drop_availability_group :: rule where [grammar_rules]:
  "g_drop_availability_group = \<lparr>rule_index = RuleDrop_availability_group, rule_alts = [
       (None, Seq [Tok T_DROP, Tok T_AVAILABILITY, Tok T_GROUP,
         Lab (Assign ''group_name'') (Ref RuleId')])]\<rparr>"

definition g_alter_availability_group :: rule where [grammar_rules]:
  "g_alter_availability_group = \<lparr>rule_index = RuleAlter_availability_group, rule_alts = [
       (None, Seq [Ref RuleAlter_availability_group_start,
         Ref RuleAlter_availability_group_options])]\<rparr>"

definition g_alter_availability_group_start :: rule where [grammar_rules]:
  "g_alter_availability_group_start = \<lparr>rule_index = RuleAlter_availability_group_start, rule_alts = [
       (None, Seq [Tok T_ALTER, Tok T_AVAILABILITY, Tok T_GROUP,
         Lab (Assign ''group_name'') (Ref RuleId')])]\<rparr>"

definition g_alter_availability_group_options :: rule where [grammar_rules]:
  "g_alter_availability_group_options = \<lparr>rule_index = RuleAlter_availability_group_options, rule_alts = [
       (None, Seq [Tok T_SET, Tok T_LR_BRACKET,
         Seq [Alt [Seq [Tok T_AUTOMATED_BACKUP_PREFERENCE, Tok T_EQUAL, Alt [Tok T_PRIMARY,
         Tok T_SECONDARY_ONLY, Tok T_SECONDARY, Tok T_NONE]],
         Seq [Tok T_FAILURE_CONDITION_LEVEL, Tok T_EQUAL, Tok T_DECIMAL],
         Seq [Tok T_HEALTH_CHECK_TIMEOUT, Tok T_EQUAL,
         Lab (Assign ''milliseconds'') (Tok T_DECIMAL)], Seq [Tok T_DB_FAILOVER, Tok T_EQUAL,
         Alt [Tok T_ON, Tok T_OFF]], Seq [Tok T_REQUIRED_SYNCHRONIZED_SECONDARIES_TO_COMMIT,
         Tok T_EQUAL, Tok T_DECIMAL]], Tok T_RR_BRACKET]]),
       (None, Seq [Tok T_ADD, Tok T_DATABASE, Lab (Assign ''database_name'') (Ref RuleId')]),
       (None, Seq [Tok T_REMOVE, Tok T_DATABASE,
         Lab (Assign ''database_name'') (Ref RuleId')]),
       (None, Seq [Tok T_ADD, Tok T_REPLICA, Tok T_ON,
         Lab (Assign ''server_instance'') (Tok T_STRING), Seq [Tok T_WITH, Tok T_LR_BRACKET,
         Seq [Opt (Seq [Tok T_ENDPOINT_URL, Tok T_EQUAL, Tok T_STRING]),
         Opt (Seq [Opt (Tok T_COMMA), Tok T_AVAILABILITY_MODE, Tok T_EQUAL,
         Alt [Tok T_SYNCHRONOUS_COMMIT, Tok T_ASYNCHRONOUS_COMMIT]]),
         Opt (Seq [Opt (Tok T_COMMA), Tok T_FAILOVER_MODE, Tok T_EQUAL, Alt [Tok T_AUTOMATIC,
         Tok T_MANUAL]]), Opt (Seq [Opt (Tok T_COMMA), Tok T_SEEDING_MODE, Tok T_EQUAL,
         Alt [Tok T_AUTOMATIC, Tok T_MANUAL]]), Opt (Seq [Opt (Tok T_COMMA),
         Tok T_BACKUP_PRIORITY, Tok T_EQUAL, Tok T_DECIMAL]), Opt (Seq [Opt (Tok T_COMMA),
         Tok T_PRIMARY_ROLE, Tok T_LR_BRACKET, Tok T_ALLOW_CONNECTIONS, Tok T_EQUAL,
         Alt [Tok T_READ_WRITE, Tok T_ALL], Tok T_RR_BRACKET]), Opt (Seq [Opt (Tok T_COMMA),
         Tok T_SECONDARY_ROLE, Tok T_LR_BRACKET, Tok T_ALLOW_CONNECTIONS, Tok T_EQUAL,
         Tok T_READ_ONLY, Tok T_RR_BRACKET])]], Tok T_RR_BRACKET]),
       (None, Seq [Tok T_SECONDARY_ROLE, Tok T_LR_BRACKET, Alt [Seq [Tok T_ALLOW_CONNECTIONS,
         Tok T_EQUAL, Alt [Tok T_NO, Tok T_READ_ONLY, Tok T_ALL]],
         Seq [Tok T_READ_ONLY_ROUTING_LIST, Tok T_EQUAL, Seq [Tok T_LR_BRACKET, Tok T_STRING,
         Tok T_RR_BRACKET]]]]),
       (None, Seq [Tok T_PRIMARY_ROLE, Tok T_LR_BRACKET, Alt [Seq [Tok T_ALLOW_CONNECTIONS,
         Tok T_EQUAL, Alt [Tok T_NO, Tok T_READ_ONLY, Tok T_ALL]],
         Seq [Tok T_READ_ONLY_ROUTING_LIST, Tok T_EQUAL, Seq [Tok T_LR_BRACKET,
         Alt [Star (Seq [Opt (Tok T_COMMA), Tok T_STRING]), Tok T_NONE], Tok T_RR_BRACKET]],
         Seq [Tok T_SESSION_TIMEOUT, Tok T_EQUAL,
         Lab (Assign ''session_timeout'') (Tok T_DECIMAL)]]]),
       (None, Seq [Tok T_MODIFY, Tok T_REPLICA, Tok T_ON,
         Lab (Assign ''server_instance'') (Tok T_STRING), Alt [Seq [Tok T_WITH,
         Tok T_LR_BRACKET, Alt [Seq [Tok T_ENDPOINT_URL, Tok T_EQUAL, Tok T_STRING],
         Seq [Tok T_AVAILABILITY_MODE, Tok T_EQUAL, Alt [Tok T_SYNCHRONOUS_COMMIT,
         Tok T_ASYNCHRONOUS_COMMIT]], Seq [Tok T_FAILOVER_MODE, Tok T_EQUAL,
         Alt [Tok T_AUTOMATIC, Tok T_MANUAL]], Seq [Tok T_SEEDING_MODE, Tok T_EQUAL,
         Alt [Tok T_AUTOMATIC, Tok T_MANUAL]], Seq [Tok T_BACKUP_PRIORITY, Tok T_EQUAL,
         Tok T_DECIMAL]]], Seq [Tok T_SECONDARY_ROLE, Tok T_LR_BRACKET,
         Alt [Seq [Tok T_ALLOW_CONNECTIONS, Tok T_EQUAL, Alt [Tok T_NO, Tok T_READ_ONLY,
         Tok T_ALL]], Seq [Tok T_READ_ONLY_ROUTING_LIST, Tok T_EQUAL, Seq [Tok T_LR_BRACKET,
         Tok T_STRING, Tok T_RR_BRACKET]]]], Seq [Tok T_PRIMARY_ROLE, Tok T_LR_BRACKET,
         Alt [Seq [Tok T_ALLOW_CONNECTIONS, Tok T_EQUAL, Alt [Tok T_NO, Tok T_READ_ONLY,
         Tok T_ALL]], Seq [Tok T_READ_ONLY_ROUTING_LIST, Tok T_EQUAL, Seq [Tok T_LR_BRACKET,
         Alt [Star (Seq [Opt (Tok T_COMMA), Tok T_STRING]), Tok T_NONE], Tok T_RR_BRACKET]],
         Seq [Tok T_SESSION_TIMEOUT, Tok T_EQUAL,
         Lab (Assign ''session_timeout'') (Tok T_DECIMAL)]]]], Tok T_RR_BRACKET]),
       (None, Seq [Tok T_REMOVE, Tok T_REPLICA, Tok T_ON, Tok T_STRING]),
       (None, Tok T_JOIN),
       (None, Seq [Tok T_JOIN, Tok T_AVAILABILITY, Tok T_GROUP, Tok T_ON,
         Plus (Seq [Opt (Tok T_COMMA), Lab (Assign ''ag_name'') (Tok T_STRING), Tok T_WITH,
         Tok T_LR_BRACKET, Seq [Tok T_LISTENER_URL, Tok T_EQUAL, Tok T_STRING, Tok T_COMMA,
         Tok T_AVAILABILITY_MODE, Tok T_EQUAL, Alt [Tok T_SYNCHRONOUS_COMMIT,
         Tok T_ASYNCHRONOUS_COMMIT], Tok T_COMMA, Tok T_FAILOVER_MODE, Tok T_EQUAL,
         Tok T_MANUAL, Tok T_COMMA, Tok T_SEEDING_MODE, Tok T_EQUAL, Alt [Tok T_AUTOMATIC,
         Tok T_MANUAL], Tok T_RR_BRACKET]])]),
       (None, Seq [Tok T_MODIFY, Tok T_AVAILABILITY, Tok T_GROUP, Tok T_ON,
         Plus (Seq [Opt (Tok T_COMMA), Lab (Assign ''ag_name_modified'') (Tok T_STRING),
         Tok T_WITH, Tok T_LR_BRACKET, Seq [Tok T_LISTENER_URL, Tok T_EQUAL, Tok T_STRING,
         Opt (Seq [Opt (Tok T_COMMA), Tok T_AVAILABILITY_MODE, Tok T_EQUAL,
         Alt [Tok T_SYNCHRONOUS_COMMIT, Tok T_ASYNCHRONOUS_COMMIT]]),
         Opt (Seq [Opt (Tok T_COMMA), Tok T_FAILOVER_MODE, Tok T_EQUAL, Tok T_MANUAL]),
         Opt (Seq [Opt (Tok T_COMMA), Tok T_SEEDING_MODE, Tok T_EQUAL, Alt [Tok T_AUTOMATIC,
         Tok T_MANUAL]]), Tok T_RR_BRACKET]])]),
       (None, Seq [Tok T_GRANT, Tok T_CREATE, Tok T_ANY, Tok T_DATABASE]),
       (None, Seq [Tok T_DENY, Tok T_CREATE, Tok T_ANY, Tok T_DATABASE]),
       (None, Tok T_FAILOVER),
       (None, Tok T_FORCE_FAILOVER_ALLOW_DATA_LOSS),
       (None, Seq [Tok T_ADD, Tok T_LISTENER, Lab (Assign ''listener_name'') (Tok T_STRING),
         Tok T_LR_BRACKET, Alt [Seq [Tok T_WITH, Tok T_DHCP, Seq [Tok T_ON, Tok T_LR_BRACKET,
         Ref RuleIp_v4_failover, Ref RuleIp_v4_failover, Tok T_RR_BRACKET]], Seq [Tok T_WITH,
         Tok T_IP, Tok T_LR_BRACKET, Seq [Plus (Seq [Opt (Tok T_COMMA), Tok T_LR_BRACKET,
         Alt [Seq [Ref RuleIp_v4_failover, Tok T_COMMA, Ref RuleIp_v4_failover],
         Ref RuleIp_v6_failover], Tok T_RR_BRACKET]), Tok T_RR_BRACKET, Opt (Seq [Tok T_COMMA,
         Tok T_PORT, Tok T_EQUAL, Tok T_DECIMAL])]]], Tok T_RR_BRACKET]),
       (None, Seq [Tok T_MODIFY, Tok T_LISTENER, Alt [Seq [Tok T_ADD, Tok T_IP,
         Tok T_LR_BRACKET, Alt [Seq [Ref RuleIp_v4_failover, Ref RuleIp_v4_failover],
         Ref RuleIp_v6_failover], Tok T_RR_BRACKET], Seq [Tok T_PORT, Tok T_EQUAL,
         Tok T_DECIMAL]]]),
       (None, Seq [Tok T_RESTART, Tok T_LISTENER, Tok T_STRING]),
       (None, Seq [Tok T_REMOVE, Tok T_LISTENER, Tok T_STRING]),
       (None, Tok T_OFFLINE),
       (None, Seq [Tok T_WITH, Tok T_LR_BRACKET, Tok T_DTC_SUPPORT, Tok T_EQUAL, Tok T_PER_DB,
         Tok T_RR_BRACKET])]\<rparr>"

definition g_ip_v4_failover :: rule where [grammar_rules]:
  "g_ip_v4_failover = \<lparr>rule_index = RuleIp_v4_failover, rule_alts = [
       (None, Tok T_STRING)]\<rparr>"

definition g_ip_v6_failover :: rule where [grammar_rules]:
  "g_ip_v6_failover = \<lparr>rule_index = RuleIp_v6_failover, rule_alts = [
       (None, Tok T_STRING)]\<rparr>"

definition g_create_or_alter_broker_priority :: rule where [grammar_rules]:
  "g_create_or_alter_broker_priority = \<lparr>rule_index = RuleCreate_or_alter_broker_priority, rule_alts = [
       (None, Seq [Alt [Tok T_CREATE, Tok T_ALTER], Tok T_BROKER, Tok T_PRIORITY,
         Lab (Assign ''ConversationPriorityName'') (Ref RuleId'), Tok T_FOR,
         Tok T_CONVERSATION, Tok T_SET, Tok T_LR_BRACKET, Opt (Seq [Tok T_CONTRACT_NAME,
         Tok T_EQUAL, Alt [Ref RuleId', Tok T_ANY], Opt (Tok T_COMMA)]),
         Opt (Seq [Tok T_LOCAL_SERVICE_NAME, Tok T_EQUAL,
         Alt [Seq [Opt (Tok T_DOUBLE_FORWARD_SLASH), Ref RuleId'], Tok T_ANY],
         Opt (Tok T_COMMA)]), Opt (Seq [Tok T_REMOTE_SERVICE_NAME, Tok T_EQUAL,
         Alt [Lab (Assign ''RemoteServiceName'') (Tok T_STRING), Tok T_ANY],
         Opt (Tok T_COMMA)]), Opt (Seq [Tok T_PRIORITY_LEVEL, Tok T_EQUAL,
         Alt [Lab (Assign ''PriorityValue'') (Tok T_DECIMAL), Tok T_DEFAULT]]),
         Tok T_RR_BRACKET])]\<rparr>"

definition g_drop_broker_priority :: rule where [grammar_rules]:
  "g_drop_broker_priority = \<lparr>rule_index = RuleDrop_broker_priority, rule_alts = [
       (None, Seq [Tok T_DROP, Tok T_BROKER, Tok T_PRIORITY,
         Lab (Assign ''ConversationPriorityName'') (Ref RuleId')])]\<rparr>"

definition g_alter_certificate :: rule where [grammar_rules]:
  "g_alter_certificate = \<lparr>rule_index = RuleAlter_certificate, rule_alts = [
       (None, Seq [Tok T_ALTER, Tok T_CERTIFICATE,
         Lab (Assign ''certificate_name'') (Ref RuleId'), Alt [Seq [Tok T_REMOVE,
         Tok T_PRIVATE_KEY], Seq [Tok T_WITH, Tok T_PRIVATE, Tok T_KEY, Tok T_LR_BRACKET,
         Plus (Alt [Seq [Tok T_FILE, Tok T_EQUAL, Tok T_STRING, Opt (Tok T_COMMA)],
         Seq [Tok T_DECRYPTION, Tok T_BY, Tok T_PASSWORD, Tok T_EQUAL, Tok T_STRING,
         Opt (Tok T_COMMA)], Seq [Tok T_ENCRYPTION, Tok T_BY, Tok T_PASSWORD, Tok T_EQUAL,
         Tok T_STRING, Opt (Tok T_COMMA)]]), Tok T_RR_BRACKET], Seq [Tok T_WITH, Tok T_ACTIVE,
         Tok T_FOR, Tok T_BEGIN_DIALOG, Tok T_EQUAL, Alt [Tok T_ON, Tok T_OFF]]]])]\<rparr>"

definition g_alter_column_encryption_key :: rule where [grammar_rules]:
  "g_alter_column_encryption_key = \<lparr>rule_index = RuleAlter_column_encryption_key, rule_alts = [
       (None, Seq [Tok T_ALTER, Tok T_COLUMN, Tok T_ENCRYPTION, Tok T_KEY,
         Lab (Assign ''column_encryption_key'') (Ref RuleId'), Alt [Tok T_ADD, Tok T_DROP],
         Tok T_VALUE, Tok T_LR_BRACKET, Tok T_COLUMN_MASTER_KEY, Tok T_EQUAL,
         Lab (Assign ''column_master_key_name'') (Ref RuleId'), Opt (Seq [Tok T_COMMA,
         Tok T_ALGORITHM, Tok T_EQUAL, Lab (Assign ''algorithm_name'') (Tok T_STRING),
         Tok T_COMMA, Tok T_ENCRYPTED_VALUE, Tok T_EQUAL, Tok T_BINARY]), Tok T_RR_BRACKET])]\<rparr>"

definition g_create_column_encryption_key :: rule where [grammar_rules]:
  "g_create_column_encryption_key = \<lparr>rule_index = RuleCreate_column_encryption_key, rule_alts = [
       (None, Seq [Tok T_CREATE, Tok T_COLUMN, Tok T_ENCRYPTION, Tok T_KEY,
         Lab (Assign ''column_encryption_key'') (Ref RuleId'), Tok T_WITH, Tok T_VALUES,
         Plus (Seq [Tok T_LR_BRACKET, Opt (Tok T_COMMA), Tok T_COLUMN_MASTER_KEY, Tok T_EQUAL,
         Lab (Assign ''column_master_key_name'') (Ref RuleId'), Tok T_COMMA, Tok T_ALGORITHM,
         Tok T_EQUAL, Lab (Assign ''algorithm_name'') (Tok T_STRING), Tok T_COMMA,
         Tok T_ENCRYPTED_VALUE, Tok T_EQUAL, Lab (Assign ''encrypted_value'') (Tok T_BINARY),
         Tok T_RR_BRACKET, Opt (Tok T_COMMA)])])]\<rparr>"

definition g_drop_certificate :: rule where [grammar_rules]:
  "g_drop_certificate = \<lparr>rule_index = RuleDrop_certificate, rule_alts = [
       (None, Seq [Tok T_DROP, Tok T_CERTIFICATE,
         Lab (Assign ''certificate_name'') (Ref RuleId')])]\<rparr>"

definition g_drop_column_encryption_key :: rule where [grammar_rules]:
  "g_drop_column_encryption_key = \<lparr>rule_index = RuleDrop_column_encryption_key, rule_alts = [
       (None, Seq [Tok T_DROP, Tok T_COLUMN, Tok T_ENCRYPTION, Tok T_KEY,
         Lab (Assign ''key_name'') (Ref RuleId')])]\<rparr>"

definition g_drop_column_master_key :: rule where [grammar_rules]:
  "g_drop_column_master_key = \<lparr>rule_index = RuleDrop_column_master_key, rule_alts = [
       (None, Seq [Tok T_DROP, Tok T_COLUMN, Tok T_MASTER, Tok T_KEY,
         Lab (Assign ''key_name'') (Ref RuleId')])]\<rparr>"

definition g_drop_contract :: rule where [grammar_rules]:
  "g_drop_contract = \<lparr>rule_index = RuleDrop_contract, rule_alts = [
       (None, Seq [Tok T_DROP, Tok T_CONTRACT,
         Lab (Assign ''dropped_contract_name'') (Ref RuleId')])]\<rparr>"

definition g_drop_credential :: rule where [grammar_rules]:
  "g_drop_credential = \<lparr>rule_index = RuleDrop_credential, rule_alts = [
       (None, Seq [Tok T_DROP, Tok T_CREDENTIAL,
         Lab (Assign ''credential_name'') (Ref RuleId')])]\<rparr>"

definition g_drop_cryptograhic_provider :: rule where [grammar_rules]:
  "g_drop_cryptograhic_provider = \<lparr>rule_index = RuleDrop_cryptograhic_provider, rule_alts = [
       (None, Seq [Tok T_DROP, Tok T_CRYPTOGRAPHIC, Tok T_PROVIDER,
         Lab (Assign ''provider_name'') (Ref RuleId')])]\<rparr>"

definition g_drop_database :: rule where [grammar_rules]:
  "g_drop_database = \<lparr>rule_index = RuleDrop_database, rule_alts = [
       (None, Seq [Tok T_DROP, Tok T_DATABASE, Opt (Seq [Tok T_IF, Tok T_EXISTS]),
         Plus (Seq [Opt (Tok T_COMMA),
         Lab (Assign ''database_name_or_database_snapshot_name'') (Ref RuleId')])])]\<rparr>"

definition g_drop_database_audit_specification :: rule where [grammar_rules]:
  "g_drop_database_audit_specification = \<lparr>rule_index = RuleDrop_database_audit_specification, rule_alts = [
       (None, Seq [Tok T_DROP, Tok T_DATABASE, Tok T_AUDIT, Tok T_SPECIFICATION,
         Lab (Assign ''audit_specification_name'') (Ref RuleId')])]\<rparr>"

definition g_drop_database_encryption_key :: rule where [grammar_rules]:
  "g_drop_database_encryption_key = \<lparr>rule_index = RuleDrop_database_encryption_key, rule_alts = [
       (None, Seq [Tok T_DROP, Tok T_DATABASE, Tok T_ENCRYPTION, Tok T_KEY])]\<rparr>"

definition g_drop_database_scoped_credential :: rule where [grammar_rules]:
  "g_drop_database_scoped_credential = \<lparr>rule_index = RuleDrop_database_scoped_credential, rule_alts = [
       (None, Seq [Tok T_DROP, Tok T_DATABASE, Tok T_SCOPED, Tok T_CREDENTIAL,
         Lab (Assign ''credential_name'') (Ref RuleId')])]\<rparr>"

definition g_drop_default :: rule where [grammar_rules]:
  "g_drop_default = \<lparr>rule_index = RuleDrop_default, rule_alts = [
       (None, Seq [Tok T_DROP, Tok T_DEFAULT, Opt (Seq [Tok T_IF, Tok T_EXISTS]),
         Seq [Opt (Tok T_COMMA), Opt (Seq [Lab (Assign ''schema_name'') (Ref RuleId'),
         Tok T_DOT]), Lab (Assign ''default_name'') (Ref RuleId')]])]\<rparr>"

definition g_drop_endpoint :: rule where [grammar_rules]:
  "g_drop_endpoint = \<lparr>rule_index = RuleDrop_endpoint, rule_alts = [
       (None, Seq [Tok T_DROP, Tok T_ENDPOINT, Lab (Assign ''endPointName'') (Ref RuleId')])]\<rparr>"

definition g_drop_external_data_source :: rule where [grammar_rules]:
  "g_drop_external_data_source = \<lparr>rule_index = RuleDrop_external_data_source, rule_alts = [
       (None, Seq [Tok T_DROP, Tok T_EXTERNAL, Tok T_DATA, Tok T_SOURCE,
         Lab (Assign ''external_data_source_name'') (Ref RuleId')])]\<rparr>"

definition g_drop_external_file_format :: rule where [grammar_rules]:
  "g_drop_external_file_format = \<lparr>rule_index = RuleDrop_external_file_format, rule_alts = [
       (None, Seq [Tok T_DROP, Tok T_EXTERNAL, Tok T_FILE, Tok T_FORMAT,
         Lab (Assign ''external_file_format_name'') (Ref RuleId')])]\<rparr>"

definition g_drop_external_library :: rule where [grammar_rules]:
  "g_drop_external_library = \<lparr>rule_index = RuleDrop_external_library, rule_alts = [
       (None, Seq [Tok T_DROP, Tok T_EXTERNAL, Tok T_LIBRARY,
         Lab (Assign ''library_name'') (Ref RuleId'), Opt (Seq [Tok T_AUTHORIZATION,
         Lab (Assign ''owner_name'') (Ref RuleId')])])]\<rparr>"

definition g_drop_external_resource_pool :: rule where [grammar_rules]:
  "g_drop_external_resource_pool = \<lparr>rule_index = RuleDrop_external_resource_pool, rule_alts = [
       (None, Seq [Tok T_DROP, Tok T_EXTERNAL, Tok T_RESOURCE, Tok T_POOL,
         Lab (Assign ''pool_name'') (Ref RuleId')])]\<rparr>"

definition g_drop_external_table :: rule where [grammar_rules]:
  "g_drop_external_table = \<lparr>rule_index = RuleDrop_external_table, rule_alts = [
       (None, Seq [Tok T_DROP, Tok T_EXTERNAL, Tok T_TABLE,
         Opt (Seq [Lab (Assign ''database_name'') (Ref RuleId'), Tok T_DOT]),
         Opt (Seq [Lab (Assign ''schema_name'') (Ref RuleId'), Tok T_DOT]),
         Lab (Assign ''table'') (Ref RuleId')])]\<rparr>"

definition g_drop_event_notifications :: rule where [grammar_rules]:
  "g_drop_event_notifications = \<lparr>rule_index = RuleDrop_event_notifications, rule_alts = [
       (None, Seq [Tok T_DROP, Tok T_EVENT, Tok T_NOTIFICATION, Plus (Seq [Opt (Tok T_COMMA),
         Lab (Assign ''notification_name'') (Ref RuleId')]), Tok T_ON, Alt [Tok T_SERVER,
         Tok T_DATABASE, Seq [Tok T_QUEUE, Lab (Assign ''queue_name'') (Ref RuleId')]]])]\<rparr>"

definition g_drop_event_session :: rule where [grammar_rules]:
  "g_drop_event_session = \<lparr>rule_index = RuleDrop_event_session, rule_alts = [
       (None, Seq [Tok T_DROP, Tok T_EVENT, Tok T_SESSION,
         Lab (Assign ''event_session_name'') (Ref RuleId'), Tok T_ON, Tok T_SERVER])]\<rparr>"

definition g_drop_fulltext_catalog :: rule where [grammar_rules]:
  "g_drop_fulltext_catalog = \<lparr>rule_index = RuleDrop_fulltext_catalog, rule_alts = [
       (None, Seq [Tok T_DROP, Tok T_FULLTEXT, Tok T_CATALOG,
         Lab (Assign ''catalog_name'') (Ref RuleId')])]\<rparr>"

definition g_drop_fulltext_index :: rule where [grammar_rules]:
  "g_drop_fulltext_index = \<lparr>rule_index = RuleDrop_fulltext_index, rule_alts = [
       (None, Seq [Tok T_DROP, Tok T_FULLTEXT, Tok T_INDEX, Tok T_ON,
         Opt (Seq [Lab (Assign ''schema'') (Ref RuleId'), Tok T_DOT]),
         Lab (Assign ''table'') (Ref RuleId')])]\<rparr>"

definition g_drop_fulltext_stoplist :: rule where [grammar_rules]:
  "g_drop_fulltext_stoplist = \<lparr>rule_index = RuleDrop_fulltext_stoplist, rule_alts = [
       (None, Seq [Tok T_DROP, Tok T_FULLTEXT, Tok T_STOPLIST,
         Lab (Assign ''stoplist_name'') (Ref RuleId')])]\<rparr>"

definition g_drop_login :: rule where [grammar_rules]:
  "g_drop_login = \<lparr>rule_index = RuleDrop_login, rule_alts = [
       (None, Seq [Tok T_DROP, Tok T_LOGIN, Lab (Assign ''login_name'') (Ref RuleId')])]\<rparr>"

definition g_drop_master_key :: rule where [grammar_rules]:
  "g_drop_master_key = \<lparr>rule_index = RuleDrop_master_key, rule_alts = [
       (None, Seq [Tok T_DROP, Tok T_MASTER, Tok T_KEY])]\<rparr>"

definition g_drop_message_type :: rule where [grammar_rules]:
  "g_drop_message_type = \<lparr>rule_index = RuleDrop_message_type, rule_alts = [
       (None, Seq [Tok T_DROP, Tok T_MESSAGE, Tok T_TYPE,
         Lab (Assign ''message_type_name'') (Ref RuleId')])]\<rparr>"

definition g_drop_partition_function :: rule where [grammar_rules]:
  "g_drop_partition_function = \<lparr>rule_index = RuleDrop_partition_function, rule_alts = [
       (None, Seq [Tok T_DROP, Tok T_PARTITION, Tok T_FUNCTION,
         Lab (Assign ''partition_function_name'') (Ref RuleId')])]\<rparr>"

definition g_drop_partition_scheme :: rule where [grammar_rules]:
  "g_drop_partition_scheme = \<lparr>rule_index = RuleDrop_partition_scheme, rule_alts = [
       (None, Seq [Tok T_DROP, Tok T_PARTITION, Tok T_SCHEME,
         Lab (Assign ''partition_scheme_name'') (Ref RuleId')])]\<rparr>"

definition g_drop_queue :: rule where [grammar_rules]:
  "g_drop_queue = \<lparr>rule_index = RuleDrop_queue, rule_alts = [
       (None, Seq [Tok T_DROP, Tok T_QUEUE,
         Opt (Seq [Lab (Assign ''database_name'') (Ref RuleId'), Tok T_DOT]),
         Opt (Seq [Lab (Assign ''schema_name'') (Ref RuleId'), Tok T_DOT]),
         Lab (Assign ''queue_name'') (Ref RuleId')])]\<rparr>"

definition g_drop_remote_service_binding :: rule where [grammar_rules]:
  "g_drop_remote_service_binding = \<lparr>rule_index = RuleDrop_remote_service_binding, rule_alts = [
       (None, Seq [Tok T_DROP, Tok T_REMOTE, Tok T_SERVICE, Tok T_BINDING,
         Lab (Assign ''binding_name'') (Ref RuleId')])]\<rparr>"

definition g_drop_resource_pool :: rule where [grammar_rules]:
  "g_drop_resource_pool = \<lparr>rule_index = RuleDrop_resource_pool, rule_alts = [
       (None, Seq [Tok T_DROP, Tok T_RESOURCE, Tok T_POOL,
         Lab (Assign ''pool_name'') (Ref RuleId')])]\<rparr>"

definition g_drop_db_role :: rule where [grammar_rules]:
  "g_drop_db_role = \<lparr>rule_index = RuleDrop_db_role, rule_alts = [
       (None, Seq [Tok T_DROP, Tok T_ROLE, Opt (Seq [Tok T_IF, Tok T_EXISTS]),
         Lab (Assign ''role_name'') (Ref RuleId')])]\<rparr>"

definition g_drop_route :: rule where [grammar_rules]:
  "g_drop_route = \<lparr>rule_index = RuleDrop_route, rule_alts = [
       (None, Seq [Tok T_DROP, Tok T_ROUTE, Lab (Assign ''route_name'') (Ref RuleId')])]\<rparr>"

definition g_drop_rule :: rule where [grammar_rules]:
  "g_drop_rule = \<lparr>rule_index = RuleDrop_rule, rule_alts = [
       (None, Seq [Tok T_DROP, Tok T_RULE, Opt (Seq [Tok T_IF, Tok T_EXISTS]),
         Opt (Seq [Opt (Tok T_COMMA), Opt (Seq [Lab (Assign ''schema_name'') (Ref RuleId'),
         Tok T_DOT]), Lab (Assign ''rule_name'') (Ref RuleId')])])]\<rparr>"

definition g_drop_schema :: rule where [grammar_rules]:
  "g_drop_schema = \<lparr>rule_index = RuleDrop_schema, rule_alts = [
       (None, Seq [Tok T_DROP, Tok T_SCHEMA, Opt (Seq [Tok T_IF, Tok T_EXISTS]),
         Lab (Assign ''schema_name'') (Ref RuleId')])]\<rparr>"

definition g_drop_search_property_list :: rule where [grammar_rules]:
  "g_drop_search_property_list = \<lparr>rule_index = RuleDrop_search_property_list, rule_alts = [
       (None, Seq [Tok T_DROP, Tok T_SEARCH, Tok T_PROPERTY, Tok T_LIST,
         Lab (Assign ''property_list_name'') (Ref RuleId')])]\<rparr>"

definition g_drop_security_policy :: rule where [grammar_rules]:
  "g_drop_security_policy = \<lparr>rule_index = RuleDrop_security_policy, rule_alts = [
       (None, Seq [Tok T_DROP, Tok T_SECURITY, Tok T_POLICY, Opt (Seq [Tok T_IF,
         Tok T_EXISTS]), Opt (Seq [Lab (Assign ''schema_name'') (Ref RuleId'), Tok T_DOT]),
         Lab (Assign ''security_policy_name'') (Ref RuleId')])]\<rparr>"

definition g_drop_sequence :: rule where [grammar_rules]:
  "g_drop_sequence = \<lparr>rule_index = RuleDrop_sequence, rule_alts = [
       (None, Seq [Tok T_DROP, Tok T_SEQUENCE, Opt (Seq [Tok T_IF, Tok T_EXISTS]),
         Opt (Seq [Opt (Tok T_COMMA), Opt (Seq [Lab (Assign ''database_name'') (Ref RuleId'),
         Tok T_DOT]), Opt (Seq [Lab (Assign ''schema_name'') (Ref RuleId'), Tok T_DOT]),
         Lab (Assign ''sequence_name'') (Ref RuleId')])])]\<rparr>"

definition g_drop_server_audit :: rule where [grammar_rules]:
  "g_drop_server_audit = \<lparr>rule_index = RuleDrop_server_audit, rule_alts = [
       (None, Seq [Tok T_DROP, Tok T_SERVER, Tok T_AUDIT,
         Lab (Assign ''audit_name'') (Ref RuleId')])]\<rparr>"

definition g_drop_server_audit_specification :: rule where [grammar_rules]:
  "g_drop_server_audit_specification = \<lparr>rule_index = RuleDrop_server_audit_specification, rule_alts = [
       (None, Seq [Tok T_DROP, Tok T_SERVER, Tok T_AUDIT, Tok T_SPECIFICATION,
         Lab (Assign ''audit_specification_name'') (Ref RuleId')])]\<rparr>"

definition g_drop_server_role :: rule where [grammar_rules]:
  "g_drop_server_role = \<lparr>rule_index = RuleDrop_server_role, rule_alts = [
       (None, Seq [Tok T_DROP, Tok T_SERVER, Tok T_ROLE,
         Lab (Assign ''role_name'') (Ref RuleId')])]\<rparr>"

definition g_drop_service :: rule where [grammar_rules]:
  "g_drop_service = \<lparr>rule_index = RuleDrop_service, rule_alts = [
       (None, Seq [Tok T_DROP, Tok T_SERVICE,
         Lab (Assign ''dropped_service_name'') (Ref RuleId')])]\<rparr>"

definition g_drop_signature :: rule where [grammar_rules]:
  "g_drop_signature = \<lparr>rule_index = RuleDrop_signature, rule_alts = [
       (None, Seq [Tok T_DROP, Opt (Tok T_COUNTER), Tok T_SIGNATURE, Tok T_FROM,
         Opt (Seq [Lab (Assign ''schema_name'') (Ref RuleId'), Tok T_DOT]),
         Lab (Assign ''module_name'') (Ref RuleId'), Tok T_BY,
         Plus (Alt [Seq [Opt (Tok T_COMMA), Tok T_CERTIFICATE,
         Lab (Assign ''cert_name'') (Ref RuleId')], Seq [Opt (Tok T_COMMA), Tok T_ASYMMETRIC,
         Tok T_KEY, Lab (Assign ''Asym_key_name'') (Ref RuleId')]])])]\<rparr>"

definition g_drop_statistics_name_azure_dw_and_pdw :: rule where [grammar_rules]:
  "g_drop_statistics_name_azure_dw_and_pdw = \<lparr>rule_index = RuleDrop_statistics_name_azure_dw_and_pdw, rule_alts = [
       (None, Seq [Tok T_DROP, Tok T_STATISTICS,
         Opt (Seq [Lab (Assign ''schema_name'') (Ref RuleId'), Tok T_DOT]),
         Lab (Assign ''object_name'') (Ref RuleId'), Tok T_DOT,
         Lab (Assign ''statistics_name'') (Ref RuleId')])]\<rparr>"

definition g_drop_symmetric_key :: rule where [grammar_rules]:
  "g_drop_symmetric_key = \<lparr>rule_index = RuleDrop_symmetric_key, rule_alts = [
       (None, Seq [Tok T_DROP, Tok T_SYMMETRIC, Tok T_KEY,
         Lab (Assign ''symmetric_key_name'') (Ref RuleId'), Opt (Seq [Tok T_REMOVE,
         Tok T_PROVIDER, Tok T_KEY])])]\<rparr>"

definition g_drop_synonym :: rule where [grammar_rules]:
  "g_drop_synonym = \<lparr>rule_index = RuleDrop_synonym, rule_alts = [
       (None, Seq [Tok T_DROP, Tok T_SYNONYM, Opt (Seq [Tok T_IF, Tok T_EXISTS]),
         Opt (Seq [Lab (Assign ''schema'') (Ref RuleId'), Tok T_DOT]),
         Lab (Assign ''synonym_name'') (Ref RuleId')])]\<rparr>"

definition g_drop_user :: rule where [grammar_rules]:
  "g_drop_user = \<lparr>rule_index = RuleDrop_user, rule_alts = [
       (None, Seq [Tok T_DROP, Tok T_USER, Opt (Seq [Tok T_IF, Tok T_EXISTS]),
         Lab (Assign ''user_name'') (Ref RuleId')])]\<rparr>"

definition g_drop_workload_group :: rule where [grammar_rules]:
  "g_drop_workload_group = \<lparr>rule_index = RuleDrop_workload_group, rule_alts = [
       (None, Seq [Tok T_DROP, Tok T_WORKLOAD, Tok T_GROUP,
         Lab (Assign ''group_name'') (Ref RuleId')])]\<rparr>"

definition g_drop_xml_schema_collection :: rule where [grammar_rules]:
  "g_drop_xml_schema_collection = \<lparr>rule_index = RuleDrop_xml_schema_collection, rule_alts = [
       (None, Seq [Tok T_DROP, Tok T_XML, Tok T_SCHEMA, Tok T_COLLECTION,
         Opt (Seq [Lab (Assign ''relational_schema'') (Ref RuleId'), Tok T_DOT]),
         Lab (Assign ''sql_identifier'') (Ref RuleId')])]\<rparr>"

definition g_disable_trigger :: rule where [grammar_rules]:
  "g_disable_trigger = \<lparr>rule_index = RuleDisable_trigger, rule_alts = [
       (None, Seq [Tok T_DISABLE, Tok T_TRIGGER, Alt [Plus (Seq [Opt (Tok T_COMMA),
         Opt (Seq [Lab (Assign ''schema_name'') (Ref RuleId'), Tok T_DOT]),
         Lab (Assign ''trigger_name'') (Ref RuleId')]), Tok T_ALL], Tok T_ON,
         Alt [Seq [Opt (Seq [Lab (Assign ''schema_id'') (Ref RuleId'), Tok T_DOT]),
         Lab (Assign ''object_name'') (Ref RuleId')], Tok T_DATABASE, Seq [Tok T_ALL,
         Tok T_SERVER]]])]\<rparr>"

definition g_enable_trigger :: rule where [grammar_rules]:
  "g_enable_trigger = \<lparr>rule_index = RuleEnable_trigger, rule_alts = [
       (None, Seq [Tok T_ENABLE, Tok T_TRIGGER, Alt [Plus (Seq [Opt (Tok T_COMMA),
         Opt (Seq [Lab (Assign ''schema_name'') (Ref RuleId'), Tok T_DOT]),
         Lab (Assign ''trigger_name'') (Ref RuleId')]), Tok T_ALL], Tok T_ON,
         Alt [Seq [Opt (Seq [Lab (Assign ''schema_id'') (Ref RuleId'), Tok T_DOT]),
         Lab (Assign ''object_name'') (Ref RuleId')], Tok T_DATABASE, Seq [Tok T_ALL,
         Tok T_SERVER]]])]\<rparr>"

definition g_lock_table :: rule where [grammar_rules]:
  "g_lock_table = \<lparr>rule_index = RuleLock_table, rule_alts = [
       (None, Seq [Tok T_LOCK, Tok T_TABLE, Ref RuleTable_name, Tok T_IN, Alt [Tok T_SHARE,
         Tok T_EXCLUSIVE], Tok T_MODE, Opt (Alt [Seq [Tok T_WAIT,
         Lab (Assign ''seconds'') (Tok T_DECIMAL)], Tok T_NOWAIT]), Opt (Tok T_SEMI)])]\<rparr>"

definition rules_1 :: grammar where
  "rules_1 = [
     g_tsql_file, g_batch_without_go, g_batch_level_statement, g_sql_clauses, g_dml_clause,
     g_ddl_clause, g_backup_statement, g_cfl_statement, g_block_statement, g_break_statement,
     g_continue_statement, g_goto_statement, g_return_statement, g_if_statement,
     g_throw_statement, g_throw_error_number, g_throw_message, g_throw_state,
     g_try_catch_statement, g_waitfor_statement, g_while_statement, g_print_statement,
     g_raiseerror_statement, g_empty_statement, g_another_statement, g_alter_application_role,
     g_alter_xml_schema_collection, g_create_application_role, g_drop_aggregate,
     g_drop_application_role, g_alter_assembly, g_alter_assembly_start,
     g_alter_assembly_clause, g_alter_assembly_from_clause, g_alter_assembly_from_clause_start,
     g_alter_assembly_drop_clause, g_alter_assembly_drop_multiple_files, g_alter_assembly_drop,
     g_alter_assembly_add_clause, g_alter_asssembly_add_clause_start,
     g_alter_assembly_client_file_clause, g_alter_assembly_file_name,
     g_alter_assembly_file_bits, g_alter_assembly_as, g_alter_assembly_with_clause,
     g_alter_assembly_with, g_client_assembly_specifier, g_assembly_option,
     g_network_file_share, g_network_computer, g_network_file_start, g_file_path,
     g_file_directory_path_separator, g_local_file, g_local_drive, g_multiple_local_files,
     g_multiple_local_file_start, g_create_assembly, g_drop_assembly, g_alter_asymmetric_key,
     g_alter_asymmetric_key_start, g_asymmetric_key_option, g_asymmetric_key_option_start,
     g_asymmetric_key_password_change_option, g_create_asymmetric_key, g_drop_asymmetric_key,
     g_alter_authorization, g_authorization_grantee, g_entity_to, g_colon_colon,
     g_alter_authorization_start, g_alter_authorization_for_sql_database,
     g_alter_authorization_for_azure_dw, g_alter_authorization_for_parallel_dw, g_class_type,
     g_class_type_for_sql_database, g_class_type_for_azure_dw, g_class_type_for_parallel_dw,
     g_class_type_for_grant, g_drop_availability_group, g_alter_availability_group,
     g_alter_availability_group_start, g_alter_availability_group_options, g_ip_v4_failover,
     g_ip_v6_failover, g_create_or_alter_broker_priority, g_drop_broker_priority,
     g_alter_certificate, g_alter_column_encryption_key, g_create_column_encryption_key,
     g_drop_certificate, g_drop_column_encryption_key, g_drop_column_master_key,
     g_drop_contract, g_drop_credential, g_drop_cryptograhic_provider, g_drop_database,
     g_drop_database_audit_specification, g_drop_database_encryption_key,
     g_drop_database_scoped_credential, g_drop_default, g_drop_endpoint,
     g_drop_external_data_source, g_drop_external_file_format, g_drop_external_library,
     g_drop_external_resource_pool, g_drop_external_table, g_drop_event_notifications,
     g_drop_event_session, g_drop_fulltext_catalog, g_drop_fulltext_index,
     g_drop_fulltext_stoplist, g_drop_login, g_drop_master_key, g_drop_message_type,
     g_drop_partition_function, g_drop_partition_scheme, g_drop_queue,
     g_drop_remote_service_binding, g_drop_resource_pool, g_drop_db_role, g_drop_route,
     g_drop_rule, g_drop_schema, g_drop_search_property_list, g_drop_security_policy,
     g_drop_sequence, g_drop_server_audit, g_drop_server_audit_specification,
     g_drop_server_role, g_drop_service, g_drop_signature,
     g_drop_statistics_name_azure_dw_and_pdw, g_drop_symmetric_key, g_drop_synonym,
     g_drop_user, g_drop_workload_group, g_drop_xml_schema_collection, g_disable_trigger,
     g_enable_trigger, g_lock_table]"

end
