(* ===== verification/Contexts_1.thy ===== *)
theory Contexts_1
  imports Contexts Tokens Rule_Ids Label_Ids
begin

text \<open>
  Context classes of \<open>src/port/cpp/TSqlParser.h\<close>, from \<open>Tsql_fileContext\<close> to
  \<open>Lock_tableContext\<close>: one definition per class, its members in the order of their declarations.
\<close>

definition Tsql_fileContext :: context_class where [context_classes]:
  "Tsql_fileContext = \<lparr>class_id = RuleContext RuleTsql_file, class_base = ParserRuleContext, members = [
     Constructor, GetRuleIndex, TerminalGet T_EOF, ContextAll RuleBatch, ContextNth RuleBatch,
     ContextGet RuleExecute_body_batch, ContextAll RuleGo_statement,
     ContextNth RuleGo_statement, EnterRule, ExitRule, Accept]\<rparr>"

definition BatchContext :: context_class where [context_classes]:
  "BatchContext = \<lparr>class_id = RuleContext RuleBatch, class_base = ParserRuleContext, members = [
     Constructor, GetRuleIndex, ContextAll RuleGo_statement, ContextNth RuleGo_statement,
     ContextGet RuleExecute_body_batch, ContextAll RuleSql_clauses, ContextNth RuleSql_clauses,
     ContextGet RuleBatch_level_statement, EnterRule, ExitRule, Accept]\<rparr>"

definition Batch_level_statementContext :: context_class where [context_classes]:
  "Batch_level_statementContext = \<lparr>class_id = RuleContext RuleBatch_level_statement, class_base = ParserRuleContext, members = [
     Constructor, GetRuleIndex, ContextGet RuleCreate_or_alter_function,
     ContextGet RuleCreate_or_alter_procedure, ContextGet RuleCreate_or_alter_trigger,
     ContextGet RuleCreate_view, EnterRule, ExitRule, Accept]\<rparr>"

definition Sql_clausesContext :: context_class where [context_classes]:
  "Sql_clausesContext = \<lparr>class_id = RuleContext RuleSql_clauses, class_base = ParserRuleContext, members = [
     Constructor, GetRuleIndex, ContextGet RuleDml_clause, TerminalGet T_SEMI,
     ContextGet RuleCfl_statement, ContextGet RuleAnother_statement, ContextGet RuleDdl_clause,
     ContextGet RuleDbcc_clause, ContextGet RuleBackup_statement, EnterRule, ExitRule, Accept]\<rparr>"

definition Dml_clauseContext :: context_class where [context_classes]:
  "Dml_clauseContext = \<lparr>class_id = RuleContext RuleDml_clause, class_base = ParserRuleContext, members = [
     Constructor, GetRuleIndex, ContextGet RuleMerge_statement,
     ContextGet RuleDelete_statement, ContextGet RuleInsert_statement,
     ContextGet RuleSelect_statement_standalone, ContextGet RuleUpdate_statement, EnterRule,
     ExitRule, Accept]\<rparr>"

definition ddl_clause_members_1 :: "cpp_member list" where
  "ddl_clause_members_1 = [
     Constructor, GetRuleIndex, ContextGet RuleAlter_application_role, ContextGet
     RuleAlter_assembly, ContextGet RuleAlter_asymmetric_key, ContextGet RuleAlter_authorization,
     ContextGet RuleAlter_authorization_for_azure_dw, ContextGet
     RuleAlter_authorization_for_parallel_dw, ContextGet
     RuleAlter_authorization_for_sql_database, ContextGet RuleAlter_availability_group,
     ContextGet RuleAlter_certificate, ContextGet RuleAlter_column_encryption_key, ContextGet
     RuleAlter_credential, ContextGet RuleAlter_cryptographic_provider, ContextGet
     RuleAlter_database, ContextGet RuleAlter_database_audit_specification, ContextGet
     RuleAlter_db_role, ContextGet RuleAlter_endpoint, ContextGet RuleAlter_external_data_source,
     ContextGet RuleAlter_external_library, ContextGet RuleAlter_external_resource_pool,
     ContextGet RuleAlter_fulltext_catalog, ContextGet RuleAlter_fulltext_stoplist, ContextGet
     RuleAlter_index, ContextGet RuleAlter_login_azure_sql, ContextGet
     RuleAlter_login_azure_sql_dw_and_pdw, ContextGet RuleAlter_login_sql_server, ContextGet
     RuleAlter_master_key_azure_sql, ContextGet RuleAlter_master_key_sql_server, ContextGet
     RuleAlter_message_type, ContextGet RuleAlter_partition_function, ContextGet
     RuleAlter_partition_scheme, ContextGet RuleAlter_remote_service_binding, ContextGet
     RuleAlter_resource_governor, ContextGet RuleAlter_schema_azure_sql_dw_and_pdw, ContextGet
     RuleAlter_schema_sql, ContextGet RuleAlter_sequence, ContextGet RuleAlter_server_audit,
     ContextGet RuleAlter_server_audit_specification, ContextGet RuleAlter_server_configuration,
     ContextGet RuleAlter_server_role, ContextGet RuleAlter_server_role_pdw, ContextGet
     RuleAlter_service, ContextGet RuleAlter_service_master_key, ContextGet
     RuleAlter_symmetric_key, ContextGet RuleAlter_table, ContextGet RuleAlter_user, ContextGet
     RuleAlter_user_azure_sql, ContextGet RuleAlter_workload_group, ContextGet
     RuleAlter_xml_schema_collection, ContextGet RuleCreate_application_role, ContextGet
     RuleCreate_assembly, ContextGet RuleCreate_asymmetric_key, ContextGet
     RuleCreate_column_encryption_key, ContextGet RuleCreate_column_master_key, ContextGet
     RuleCreate_columnstore_index, ContextGet RuleCreate_credential, ContextGet
     RuleCreate_cryptographic_provider, ContextGet RuleCreate_database, ContextGet
     RuleCreate_database_audit_specification, ContextGet RuleCreate_db_role, ContextGet
     RuleCreate_endpoint, ContextGet RuleCreate_event_notification, ContextGet
     RuleCreate_external_library, ContextGet RuleCreate_external_resource_pool, ContextGet
     RuleCreate_fulltext_catalog, ContextGet RuleCreate_fulltext_stoplist, ContextGet
     RuleCreate_index, ContextGet RuleCreate_login_azure_sql, ContextGet RuleCreate_login_pdw,
     ContextGet RuleCreate_login_sql_server, ContextGet RuleCreate_master_key_azure_sql,
     ContextGet RuleCreate_master_key_sql_server, ContextGet
     RuleCreate_nonclustered_columnstore_index, ContextGet RuleCreate_or_alter_broker_priority,
     ContextGet RuleCreate_or_alter_event_session, ContextGet RuleCreate_partition_function,
     ContextGet RuleCreate_partition_scheme, ContextGet RuleCreate_remote_service_binding,
     ContextGet RuleCreate_resource_pool, ContextGet RuleCreate_route, ContextGet
     RuleCreate_rule, ContextGet RuleCreate_schema, ContextGet
     RuleCreate_schema_azure_sql_dw_and_pdw, ContextGet RuleCreate_search_property_list,
     ContextGet RuleCreate_security_policy, ContextGet RuleCreate_sequence, ContextGet
     RuleCreate_server_audit, ContextGet RuleCreate_server_audit_specification, ContextGet
     RuleCreate_server_role, ContextGet RuleCreate_service, ContextGet RuleCreate_statistics,
     ContextGet RuleCreate_synonym, ContextGet RuleCreate_table, ContextGet RuleCreate_type,
     ContextGet RuleCreate_user, ContextGet RuleCreate_user_azure_sql_dw, ContextGet
     RuleCreate_workload_group, ContextGet RuleCreate_xml_index, ContextGet
     RuleCreate_xml_schema_collection, ContextGet RuleDisable_trigger, ContextGet
     RuleDrop_aggregate, ContextGet RuleDrop_application_role, ContextGet RuleDrop_assembly,
     ContextGet RuleDrop_asymmetric_key, ContextGet RuleDrop_availability_group, ContextGet
     RuleDrop_broker_priority, ContextGet RuleDrop_certificate, ContextGet
     RuleDrop_column_encryption_key, ContextGet RuleDrop_column_master_key, ContextGet
     RuleDrop_contract, ContextGet RuleDrop_credential, ContextGet
     RuleDrop_cryptograhic_provider, ContextGet RuleDrop_database, ContextGet
     RuleDrop_database_audit_specification, ContextGet RuleDrop_database_encryption_key,
     ContextGet RuleDrop_database_scoped_credential, ContextGet RuleDrop_db_role, ContextGet
     RuleDrop_default, ContextGet RuleDrop_endpoint, ContextGet RuleDrop_event_notifications,
     ContextGet RuleDrop_event_session, ContextGet RuleDrop_external_data_source, ContextGet
     RuleDrop_external_file_format, ContextGet RuleDrop_external_library, ContextGet
     RuleDrop_external_resource_pool, ContextGet RuleDrop_external_table, ContextGet
     RuleDrop_fulltext_catalog, ContextGet RuleDrop_fulltext_index, ContextGet
     RuleDrop_fulltext_stoplist, ContextGet RuleDrop_function, ContextGet RuleDrop_index,
     ContextGet RuleDrop_login, ContextGet RuleDrop_master_key, ContextGet RuleDrop_message_type,
     ContextGet RuleDrop_partition_function, ContextGet RuleDrop_partition_scheme, ContextGet
     RuleDrop_procedure, ContextGet RuleDrop_queue, ContextGet RuleDrop_remote_service_binding]"

definition ddl_clause_members_2 :: "cpp_member list" where
  "ddl_clause_members_2 = [
     ContextGet RuleDrop_resource_pool, ContextGet RuleDrop_route, ContextGet RuleDrop_rule,
     ContextGet RuleDrop_schema, ContextGet RuleDrop_search_property_list, ContextGet
     RuleDrop_security_policy, ContextGet RuleDrop_sequence, ContextGet RuleDrop_server_audit,
     ContextGet RuleDrop_server_audit_specification, ContextGet RuleDrop_server_role, ContextGet
     RuleDrop_service, ContextGet RuleDrop_signature, ContextGet RuleDrop_statistics, ContextGet
     RuleDrop_statistics_name_azure_dw_and_pdw, ContextGet RuleDrop_symmetric_key, ContextGet
     RuleDrop_synonym, ContextGet RuleDrop_table, ContextGet RuleDrop_trigger, ContextGet
     RuleDrop_type, ContextGet RuleDrop_user, ContextGet RuleDrop_view, ContextGet
     RuleDrop_workload_group, ContextGet RuleDrop_xml_schema_collection, ContextGet
     RuleEnable_trigger, ContextGet RuleLock_table, ContextGet RuleTruncate_table, ContextGet
     RuleUpdate_statistics, EnterRule, ExitRule, Accept]"

definition Ddl_clauseContext :: context_class where
  "Ddl_clauseContext = \<lparr>class_id = RuleContext RuleDdl_clause, class_base = ParserRuleContext,
     members = ddl_clause_members_1 @ ddl_clause_members_2\<rparr>"

lemmas ddl_clause_class [context_classes] = Ddl_clauseContext_def [unfolded
  ddl_clause_members_1_def ddl_clause_members_2_def append.simps]

definition Backup_statementContext :: context_class where [context_classes]:
  "Backup_statementContext = \<lparr>class_id = RuleContext RuleBackup_statement, class_base = ParserRuleContext, members = [
     Constructor, GetRuleIndex, ContextGet RuleBackup_database, ContextGet RuleBackup_log,
     ContextGet RuleBackup_certificate, ContextGet RuleBackup_master_key,
     ContextGet RuleBackup_service_master_key, EnterRule, ExitRule, Accept]\<rparr>"

definition Cfl_statementContext :: context_class where [context_classes]:
  "Cfl_statementContext = \<lparr>class_id = RuleContext RuleCfl_statement, class_base = ParserRuleContext, members = [
     Constructor, GetRuleIndex, ContextGet RuleBlock_statement, ContextGet RuleBreak_statement,
     ContextGet RuleContinue_statement, ContextGet RuleGoto_statement,
     ContextGet RuleIf_statement, ContextGet RulePrint_statement,
     ContextGet RuleRaiseerror_statement, ContextGet RuleReturn_statement,
     ContextGet RuleThrow_statement, ContextGet RuleTry_catch_statement,
     ContextGet RuleWaitfor_statement, ContextGet RuleWhile_statement, EnterRule, ExitRule,
     Accept]\<rparr>"

definition Block_statementContext :: context_class where [context_classes]:
  "Block_statementContext = \<lparr>class_id = RuleContext RuleBlock_statement, class_base = ParserRuleContext, members = [
     Constructor, GetRuleIndex, TerminalGet T_BEGIN, TerminalGet T_END, TerminalAll T_SEMI,
     TerminalNth T_SEMI, ContextAll RuleSql_clauses, ContextNth RuleSql_clauses, EnterRule,
     ExitRule, Accept]\<rparr>"

definition Break_statementContext :: context_class where [context_classes]:
  "Break_statementContext = \<lparr>class_id = RuleContext RuleBreak_statement, class_base = ParserRuleContext, members = [
     Constructor, GetRuleIndex, TerminalGet T_BREAK, TerminalGet T_SEMI, EnterRule, ExitRule,
     Accept]\<rparr>"

definition Continue_statementContext :: context_class where [context_classes]:
  "Continue_statementContext = \<lparr>class_id = RuleContext RuleContinue_statement, class_base = ParserRuleContext, members = [
     Constructor, GetRuleIndex, TerminalGet T_CONTINUE, TerminalGet T_SEMI, EnterRule,
     ExitRule, Accept]\<rparr>"

definition Goto_statementContext :: context_class where [context_classes]:
  "Goto_statementContext = \<lparr>class_id = RuleContext RuleGoto_statement, class_base = ParserRuleContext, members = [
     Constructor, GetRuleIndex, TerminalGet T_GOTO, ContextGet RuleId', TerminalGet T_SEMI,
     TerminalGet T_COLON, EnterRule, ExitRule, Accept]\<rparr>"

definition Return_statementContext :: context_class where [context_classes]:
  "Return_statementContext = \<lparr>class_id = RuleContext RuleReturn_statement, class_base = ParserRuleContext, members = [
     Constructor, GetRuleIndex, TerminalGet T_RETURN, ContextGet RuleExpression,
     TerminalGet T_SEMI, EnterRule, ExitRule, Accept]\<rparr>"

definition If_statementContext :: context_class where [context_classes]:
  "If_statementContext = \<lparr>class_id = RuleContext RuleIf_statement, class_base = ParserRuleContext, members = [
     Constructor, GetRuleIndex, TerminalGet T_IF, ContextGet RuleSearch_condition,
     ContextAll RuleSql_clauses, ContextNth RuleSql_clauses, TerminalGet T_ELSE,
     TerminalGet T_SEMI, EnterRule, ExitRule, Accept]\<rparr>"

definition Throw_statementContext :: context_class where [context_classes]:
  "Throw_statementContext = \<lparr>class_id = RuleContext RuleThrow_statement, class_base = ParserRuleContext, members = [
     Constructor, GetRuleIndex, TerminalGet T_THROW, ContextGet RuleThrow_error_number,
     TerminalAll T_COMMA, TerminalNth T_COMMA, ContextGet RuleThrow_message,
     ContextGet RuleThrow_state, TerminalGet T_SEMI, EnterRule, ExitRule, Accept]\<rparr>"

definition Throw_error_numberContext :: context_class where [context_classes]:
  "Throw_error_numberContext = \<lparr>class_id = RuleContext RuleThrow_error_number, class_base = ParserRuleContext, members = [
     Constructor, GetRuleIndex, TerminalGet T_DECIMAL, TerminalGet T_LOCAL_ID, EnterRule,
     ExitRule, Accept]\<rparr>"

definition Throw_messageContext :: context_class where [context_classes]:
  "Throw_messageContext = \<lparr>class_id = RuleContext RuleThrow_message, class_base = ParserRuleContext, members = [
     Constructor, GetRuleIndex, TerminalGet T_STRING, TerminalGet T_LOCAL_ID, EnterRule,
     ExitRule, Accept]\<rparr>"

definition Throw_stateContext :: context_class where [context_classes]:
  "Throw_stateContext = \<lparr>class_id = RuleContext RuleThrow_state, class_base = ParserRuleContext, members = [
     Constructor, GetRuleIndex, TerminalGet T_DECIMAL, TerminalGet T_LOCAL_ID, EnterRule,
     ExitRule, Accept]\<rparr>"

definition Try_catch_statementContext :: context_class where [context_classes]:
  "Try_catch_statementContext = \<lparr>class_id = RuleContext RuleTry_catch_statement, class_base = ParserRuleContext, members = [
     ContextField ''try_clauses'' RuleSql_clauses,
     ContextField ''catch_clauses'' RuleSql_clauses, Constructor, GetRuleIndex,
     TerminalAll T_BEGIN, TerminalNth T_BEGIN, TerminalAll T_TRY, TerminalNth T_TRY,
     TerminalAll T_END, TerminalNth T_END, TerminalAll T_CATCH, TerminalNth T_CATCH,
     TerminalAll T_SEMI, TerminalNth T_SEMI, ContextAll RuleSql_clauses,
     ContextNth RuleSql_clauses, EnterRule, ExitRule, Accept]\<rparr>"

definition Waitfor_statementContext :: context_class where [context_classes]:
  "Waitfor_statementContext = \<lparr>class_id = RuleContext RuleWaitfor_statement, class_base = ParserRuleContext, members = [
     Constructor, GetRuleIndex, TerminalGet T_WAITFOR, ContextGet RuleReceive_statement,
     TerminalGet T_COMMA, ContextGet RuleTime, ContextGet RuleExpression, TerminalGet T_SEMI,
     TerminalGet T_DELAY, TerminalGet T_TIME, TerminalGet T_TIMEOUT, EnterRule, ExitRule,
     Accept]\<rparr>"

definition While_statementContext :: context_class where [context_classes]:
  "While_statementContext = \<lparr>class_id = RuleContext RuleWhile_statement, class_base = ParserRuleContext, members = [
     Constructor, GetRuleIndex, TerminalGet T_WHILE, ContextGet RuleSearch_condition,
     ContextGet RuleSql_clauses, TerminalGet T_BREAK, TerminalGet T_CONTINUE,
     TerminalGet T_SEMI, EnterRule, ExitRule, Accept]\<rparr>"

definition Print_statementContext :: context_class where [context_classes]:
  "Print_statementContext = \<lparr>class_id = RuleContext RulePrint_statement, class_base = ParserRuleContext, members = [
     Constructor, GetRuleIndex, TerminalGet T_PRINT, ContextGet RuleExpression,
     TerminalGet T_DOUBLE_QUOTE_ID, TerminalAll T_COMMA, TerminalNth T_COMMA,
     TerminalAll T_LOCAL_ID, TerminalNth T_LOCAL_ID, TerminalGet T_SEMI, EnterRule, ExitRule,
     Accept]\<rparr>"

definition Raiseerror_statementContext :: context_class where [context_classes]:
  "Raiseerror_statementContext = \<lparr>class_id = RuleContext RuleRaiseerror_statement, class_base = ParserRuleContext, members = [
     TokenField ''msg'', ContextField ''severity'' RuleConstant_LOCAL_ID,
     ContextField ''state'' RuleConstant_LOCAL_ID, TokenField ''formatstring'',
     TokenField ''argument'', Constructor, GetRuleIndex, TerminalGet T_RAISERROR,
     TerminalGet T_LR_BRACKET, TerminalAll T_COMMA, TerminalNth T_COMMA,
     TerminalGet T_RR_BRACKET, ContextAll RuleConstant_LOCAL_ID,
     ContextNth RuleConstant_LOCAL_ID, TerminalAll T_DECIMAL, TerminalNth T_DECIMAL,
     TerminalAll T_STRING, TerminalNth T_STRING, TerminalAll T_LOCAL_ID,
     TerminalNth T_LOCAL_ID, TerminalGet T_WITH, TerminalGet T_SEMI, TerminalGet T_LOG,
     TerminalGet T_SETERROR, TerminalGet T_NOWAIT, TerminalAll T_NULL', TerminalNth T_NULL',
     TerminalGet T_DOUBLE_QUOTE_ID, EnterRule, ExitRule, Accept]\<rparr>"

definition Empty_statementContext :: context_class where [context_classes]:
  "Empty_statementContext = \<lparr>class_id = RuleContext RuleEmpty_statement, class_base = ParserRuleContext, members = [
     Constructor, GetRuleIndex, TerminalGet T_SEMI, EnterRule, ExitRule, Accept]\<rparr>"

definition Another_statementContext :: context_class where [context_classes]:
  "Another_statementContext = \<lparr>class_id = RuleContext RuleAnother_statement, class_base = ParserRuleContext, members = [
     Constructor, GetRuleIndex, ContextGet RuleAlter_queue,
     ContextGet RuleCheckpoint_statement, ContextGet RuleConversation_statement,
     ContextGet RuleCreate_contract, ContextGet RuleCreate_queue,
     ContextGet RuleCursor_statement, ContextGet RuleDeclare_statement,
     ContextGet RuleExecute_statement, ContextGet RuleKill_statement,
     ContextGet RuleMessage_statement, ContextGet RuleReconfigure_statement,
     ContextGet RuleSecurity_statement, ContextGet RuleSet_statement,
     ContextGet RuleSetuser_statement, ContextGet RuleShutdown_statement,
     ContextGet RuleTransaction_statement, ContextGet RuleUse_statement, EnterRule, ExitRule,
     Accept]\<rparr>"

definition Alter_application_roleContext :: context_class where [context_classes]:
  "Alter_application_roleContext = \<lparr>class_id = RuleContext RuleAlter_application_role, class_base = ParserRuleContext, members = [
     ContextField ''appliction_role'' RuleId',
     ContextField ''new_application_role_name'' RuleId',
     TokenField ''application_role_password'',
     ContextField ''app_role_default_schema'' RuleId', Constructor, GetRuleIndex,
     TerminalGet T_ALTER, TerminalGet T_APPLICATION, TerminalGet T_ROLE, TerminalGet T_WITH,
     ContextAll RuleId', ContextNth RuleId', TerminalGet T_NAME, TerminalAll T_EQUAL,
     TerminalNth T_EQUAL, TerminalGet T_PASSWORD, TerminalGet T_DEFAULT_SCHEMA,
     TerminalGet T_STRING, TerminalAll T_COMMA, TerminalNth T_COMMA, EnterRule, ExitRule,
     Accept]\<rparr>"

definition Alter_xml_schema_collectionContext :: context_class where [context_classes]:
  "Alter_xml_schema_collectionContext = \<lparr>class_id = RuleContext RuleAlter_xml_schema_collection, class_base = ParserRuleContext, members = [
     Constructor, GetRuleIndex, TerminalGet T_ALTER, TerminalGet T_XML, TerminalGet T_SCHEMA,
     TerminalGet T_COLLECTION, ContextAll RuleId', ContextNth RuleId', TerminalGet T_ADD,
     TerminalGet T_STRING, TerminalGet T_DOT, EnterRule, ExitRule, Accept]\<rparr>"

definition Create_application_roleContext :: context_class where [context_classes]:
  "Create_application_roleContext = \<lparr>class_id = RuleContext RuleCreate_application_role, class_base = ParserRuleContext, members = [
     ContextField ''appliction_role'' RuleId', TokenField ''application_role_password'',
     ContextField ''app_role_default_schema'' RuleId', Constructor, GetRuleIndex,
     TerminalGet T_CREATE, TerminalGet T_APPLICATION, TerminalGet T_ROLE, TerminalGet T_WITH,
     ContextAll RuleId', ContextNth RuleId', TerminalGet T_PASSWORD, TerminalAll T_EQUAL,
     TerminalNth T_EQUAL, TerminalGet T_DEFAULT_SCHEMA, TerminalGet T_STRING,
     TerminalAll T_COMMA, TerminalNth T_COMMA, EnterRule, ExitRule, Accept]\<rparr>"

definition Drop_aggregateContext :: context_class where [context_classes]:
  "Drop_aggregateContext = \<lparr>class_id = RuleContext RuleDrop_aggregate, class_base = ParserRuleContext, members = [
     ContextField ''schema_name'' RuleId', ContextField ''aggregate_name'' RuleId',
     Constructor, GetRuleIndex, TerminalGet T_DROP, TerminalGet T_AGGREGATE,
     ContextAll RuleId', ContextNth RuleId', TerminalGet T_IF, TerminalGet T_EXISTS,
     TerminalGet T_DOT, EnterRule, ExitRule, Accept]\<rparr>"

definition Drop_application_roleContext :: context_class where [context_classes]:
  "Drop_application_roleContext = \<lparr>class_id = RuleContext RuleDrop_application_role, class_base = ParserRuleContext, members = [
     ContextField ''rolename'' RuleId', Constructor, GetRuleIndex, TerminalGet T_DROP,
     TerminalGet T_APPLICATION, TerminalGet T_ROLE, ContextGet RuleId', EnterRule, ExitRule,
     Accept]\<rparr>"

definition Alter_assemblyContext :: context_class where [context_classes]:
  "Alter_assemblyContext = \<lparr>class_id = RuleContext RuleAlter_assembly, class_base = ParserRuleContext, members = [
     ContextField ''assembly_name'' RuleId', Constructor, GetRuleIndex,
     ContextGet RuleAlter_assembly_start, ContextGet RuleAlter_assembly_clause,
     ContextGet RuleId', EnterRule, ExitRule, Accept]\<rparr>"

definition Alter_assembly_startContext :: context_class where [context_classes]:
  "Alter_assembly_startContext = \<lparr>class_id = RuleContext RuleAlter_assembly_start, class_base = ParserRuleContext, members = [
     Constructor, GetRuleIndex, TerminalGet T_ALTER, TerminalGet T_ASSEMBLY, EnterRule,
     ExitRule, Accept]\<rparr>"

definition Alter_assembly_clauseContext :: context_class where [context_classes]:
  "Alter_assembly_clauseContext = \<lparr>class_id = RuleContext RuleAlter_assembly_clause, class_base = ParserRuleContext, members = [
     Constructor, GetRuleIndex, ContextGet RuleAlter_assembly_from_clause,
     ContextGet RuleAlter_assembly_with_clause, ContextGet RuleAlter_assembly_drop_clause,
     ContextGet RuleAlter_assembly_add_clause, EnterRule, ExitRule, Accept]\<rparr>"

definition Alter_assembly_from_clauseContext :: context_class where [context_classes]:
  "Alter_assembly_from_clauseContext = \<lparr>class_id = RuleContext RuleAlter_assembly_from_clause, class_base = ParserRuleContext, members = [
     Constructor, GetRuleIndex, ContextGet RuleAlter_assembly_from_clause_start,
     ContextGet RuleClient_assembly_specifier, ContextGet RuleAlter_assembly_file_bits,
     EnterRule, ExitRule, Accept]\<rparr>"

definition Alter_assembly_from_clause_startContext :: context_class where [context_classes]:
  "Alter_assembly_from_clause_startContext = \<lparr>class_id = RuleContext RuleAlter_assembly_from_clause_start, class_base = ParserRuleContext, members = [
     Constructor, GetRuleIndex, TerminalGet T_FROM, EnterRule, ExitRule, Accept]\<rparr>"

definition Alter_assembly_drop_clauseContext :: context_class where [context_classes]:
  "Alter_assembly_drop_clauseContext = \<lparr>class_id = RuleContext RuleAlter_assembly_drop_clause, class_base = ParserRuleContext, members = [
     Constructor, GetRuleIndex, ContextGet RuleAlter_assembly_drop,
     ContextGet RuleAlter_assembly_drop_multiple_files, EnterRule, ExitRule, Accept]\<rparr>"

definition Alter_assembly_drop_multiple_filesContext :: context_class where [context_classes]:
  "Alter_assembly_drop_multiple_filesContext = \<lparr>class_id = RuleContext RuleAlter_assembly_drop_multiple_files, class_base = ParserRuleContext, members = [
     Constructor, GetRuleIndex, TerminalGet T_ALL, ContextGet RuleMultiple_local_files,
     EnterRule, ExitRule, Accept]\<rparr>"

definition Alter_assembly_dropContext :: context_class where [context_classes]:
  "Alter_assembly_dropContext = \<lparr>class_id = RuleContext RuleAlter_assembly_drop, class_base = ParserRuleContext, members = [
     Constructor, GetRuleIndex, TerminalGet T_DROP, EnterRule, ExitRule, Accept]\<rparr>"

definition Alter_assembly_add_clauseContext :: context_class where [context_classes]:
  "Alter_assembly_add_clauseContext = \<lparr>class_id = RuleContext RuleAlter_assembly_add_clause, class_base = ParserRuleContext, members = [
     Constructor, GetRuleIndex, ContextGet RuleAlter_asssembly_add_clause_start,
     ContextGet RuleAlter_assembly_client_file_clause, EnterRule, ExitRule, Accept]\<rparr>"

definition Alter_asssembly_add_clause_startContext :: context_class where [context_classes]:
  "Alter_asssembly_add_clause_startContext = \<lparr>class_id = RuleContext RuleAlter_asssembly_add_clause_start, class_base = ParserRuleContext, members = [
     Constructor, GetRuleIndex, TerminalGet T_ADD, TerminalGet T_FILE, TerminalGet T_FROM,
     EnterRule, ExitRule, Accept]\<rparr>"

definition Alter_assembly_client_file_clauseContext :: context_class where [context_classes]:
  "Alter_assembly_client_file_clauseContext = \<lparr>class_id = RuleContext RuleAlter_assembly_client_file_clause, class_base = ParserRuleContext, members = [
     Constructor, GetRuleIndex, ContextGet RuleAlter_assembly_file_name,
     ContextGet RuleAlter_assembly_as, ContextGet RuleId', EnterRule, ExitRule, Accept]\<rparr>"

definition Alter_assembly_file_nameContext :: context_class where [context_classes]:
  "Alter_assembly_file_nameContext = \<lparr>class_id = RuleContext RuleAlter_assembly_file_name, class_base = ParserRuleContext, members = [
     Constructor, GetRuleIndex, TerminalGet T_STRING, EnterRule, ExitRule, Accept]\<rparr>"

definition Alter_assembly_file_bitsContext :: context_class where [context_classes]:
  "Alter_assembly_file_bitsContext = \<lparr>class_id = RuleContext RuleAlter_assembly_file_bits, class_base = ParserRuleContext, members = [
     Constructor, GetRuleIndex, ContextGet RuleAlter_assembly_as, ContextGet RuleId',
     EnterRule, ExitRule, Accept]\<rparr>"

definition Alter_assembly_asContext :: context_class where [context_classes]:
  "Alter_assembly_asContext = \<lparr>class_id = RuleContext RuleAlter_assembly_as, class_base = ParserRuleContext, members = [
     Constructor, GetRuleIndex, TerminalGet T_AS, EnterRule, ExitRule, Accept]\<rparr>"

definition Alter_assembly_with_clauseContext :: context_class where [context_classes]:
  "Alter_assembly_with_clauseContext = \<lparr>class_id = RuleContext RuleAlter_assembly_with_clause, class_base = ParserRuleContext, members = [
     Constructor, GetRuleIndex, ContextGet RuleAlter_assembly_with,
     ContextGet RuleAssembly_option, EnterRule, ExitRule, Accept]\<rparr>"

definition Alter_assembly_withContext :: context_class where [context_classes]:
  "Alter_assembly_withContext = \<lparr>class_id = RuleContext RuleAlter_assembly_with, class_base = ParserRuleContext, members = [
     Constructor, GetRuleIndex, TerminalGet T_WITH, EnterRule, ExitRule, Accept]\<rparr>"

definition Client_assembly_specifierContext :: context_class where [context_classes]:
  "Client_assembly_specifierContext = \<lparr>class_id = RuleContext RuleClient_assembly_specifier, class_base = ParserRuleContext, members = [
     Constructor, GetRuleIndex, ContextGet RuleNetwork_file_share, ContextGet RuleLocal_file,
     TerminalGet T_STRING, EnterRule, ExitRule, Accept]\<rparr>"

definition Assembly_optionContext :: context_class where [context_classes]:
  "Assembly_optionContext = \<lparr>class_id = RuleContext RuleAssembly_option, class_base = ParserRuleContext, members = [
     Constructor, GetRuleIndex, TerminalGet T_PERMISSION_SET, TerminalGet T_EQUAL,
     TerminalGet T_SAFE, TerminalGet T_EXTERNAL_ACCESS, TerminalGet T_UNSAFE,
     TerminalGet T_VISIBILITY, ContextGet RuleOn_off, TerminalGet T_UNCHECKED,
     TerminalGet T_DATA, ContextGet RuleAssembly_option, TerminalGet T_COMMA, EnterRule,
     ExitRule, Accept]\<rparr>"

definition Network_file_shareContext :: context_class where [context_classes]:
  "Network_file_shareContext = \<lparr>class_id = RuleContext RuleNetwork_file_share, class_base = ParserRuleContext, members = [
     Constructor, GetRuleIndex, ContextGet RuleNetwork_file_start,
     ContextGet RuleNetwork_computer, ContextGet RuleFile_path, EnterRule, ExitRule, Accept]\<rparr>"

definition Network_computerContext :: context_class where [context_classes]:
  "Network_computerContext = \<lparr>class_id = RuleContext RuleNetwork_computer, class_base = ParserRuleContext, members = [
     ContextField ''computer_name'' RuleId', Constructor, GetRuleIndex, ContextGet RuleId',
     EnterRule, ExitRule, Accept]\<rparr>"

definition Network_file_startContext :: context_class where [context_classes]:
  "Network_file_startContext = \<lparr>class_id = RuleContext RuleNetwork_file_start, class_base = ParserRuleContext, members = [
     Constructor, GetRuleIndex, TerminalGet T_DOUBLE_BACK_SLASH, EnterRule, ExitRule, Accept]\<rparr>"

definition File_pathContext :: context_class where [context_classes]:
  "File_pathContext = \<lparr>class_id = RuleContext RuleFile_path, class_base = ParserRuleContext, members = [
     Constructor, GetRuleIndex, ContextGet RuleFile_directory_path_separator,
     ContextGet RuleFile_path, ContextGet RuleId', EnterRule, ExitRule, Accept]\<rparr>"

definition File_directory_path_separatorContext :: context_class where [context_classes]:
  "File_directory_path_separatorContext = \<lparr>class_id = RuleContext RuleFile_directory_path_separator, class_base = ParserRuleContext, members = [
     Constructor, GetRuleIndex, TerminalGet T_BACKSLASH, EnterRule, ExitRule, Accept]\<rparr>"

definition Local_fileContext :: context_class where [context_classes]:
  "Local_fileContext = \<lparr>class_id = RuleContext RuleLocal_file, class_base = ParserRuleContext, members = [
     Constructor, GetRuleIndex, ContextGet RuleLocal_drive, ContextGet RuleFile_path,
     EnterRule, ExitRule, Accept]\<rparr>"

definition Local_driveContext :: context_class where [context_classes]:
  "Local_driveContext = \<lparr>class_id = RuleContext RuleLocal_drive, class_base = ParserRuleContext, members = [
     Constructor, GetRuleIndex, TerminalGet T_DISK_DRIVE, EnterRule, ExitRule, Accept]\<rparr>"

definition Multiple_local_filesContext :: context_class where [context_classes]:
  "Multiple_local_filesContext = \<lparr>class_id = RuleContext RuleMultiple_local_files, class_base = ParserRuleContext, members = [
     Constructor, GetRuleIndex, ContextGet RuleMultiple_local_file_start,
     ContextGet RuleLocal_file, TerminalGet T_SINGLE_QUOTE, TerminalGet T_COMMA, EnterRule,
     ExitRule, Accept]\<rparr>"

definition Multiple_local_file_startContext :: context_class where [context_classes]:
  "Multiple_local_file_startContext = \<lparr>class_id = RuleContext RuleMultiple_local_file_start, class_base = ParserRuleContext, members = [
     Constructor, GetRuleIndex, TerminalGet T_SINGLE_QUOTE, EnterRule, ExitRule, Accept]\<rparr>"

definition Create_assemblyContext :: context_class where [context_classes]:
  "Create_assemblyContext = \<lparr>class_id = RuleContext RuleCreate_assembly, class_base = ParserRuleContext, members = [
     ContextField ''assembly_name'' RuleId', ContextField ''owner_name'' RuleId', Constructor,
     GetRuleIndex, TerminalGet T_CREATE, TerminalGet T_ASSEMBLY, TerminalGet T_FROM,
     ContextAll RuleId', ContextNth RuleId', TerminalGet T_AUTHORIZATION, TerminalGet T_WITH,
     TerminalGet T_PERMISSION_SET, TerminalGet T_EQUAL, TerminalAll T_STRING,
     TerminalNth T_STRING, TerminalAll T_BINARY, TerminalNth T_BINARY, TerminalGet T_SAFE,
     TerminalGet T_EXTERNAL_ACCESS, TerminalGet T_UNSAFE, TerminalAll T_COMMA,
     TerminalNth T_COMMA, EnterRule, ExitRule, Accept]\<rparr>"

definition Drop_assemblyContext :: context_class where [context_classes]:
  "Drop_assemblyContext = \<lparr>class_id = RuleContext RuleDrop_assembly, class_base = ParserRuleContext, members = [
     ContextField ''assembly_name'' RuleId', Constructor, GetRuleIndex, TerminalGet T_DROP,
     TerminalGet T_ASSEMBLY, TerminalGet T_IF, TerminalGet T_EXISTS, TerminalGet T_WITH,
     TerminalGet T_NO, TerminalGet T_DEPENDENTS, ContextAll RuleId', ContextNth RuleId',
     TerminalAll T_COMMA, TerminalNth T_COMMA, EnterRule, ExitRule, Accept]\<rparr>"

definition Alter_asymmetric_keyContext :: context_class where [context_classes]:
  "Alter_asymmetric_keyContext = \<lparr>class_id = RuleContext RuleAlter_asymmetric_key, class_base = ParserRuleContext, members = [
     ContextField ''Asym_Key_Name'' RuleId', Constructor, GetRuleIndex,
     ContextGet RuleAlter_asymmetric_key_start, ContextGet RuleId',
     ContextGet RuleAsymmetric_key_option, TerminalGet T_REMOVE, TerminalGet T_PRIVATE,
     TerminalGet T_KEY, EnterRule, ExitRule, Accept]\<rparr>"

definition Alter_asymmetric_key_startContext :: context_class where [context_classes]:
  "Alter_asymmetric_key_startContext = \<lparr>class_id = RuleContext RuleAlter_asymmetric_key_start, class_base = ParserRuleContext, members = [
     Constructor, GetRuleIndex, TerminalGet T_ALTER, TerminalGet T_ASYMMETRIC,
     TerminalGet T_KEY, EnterRule, ExitRule, Accept]\<rparr>"

definition Asymmetric_key_optionContext :: context_class where [context_classes]:
  "Asymmetric_key_optionContext = \<lparr>class_id = RuleContext RuleAsymmetric_key_option, class_base = ParserRuleContext, members = [
     Constructor, GetRuleIndex, ContextGet RuleAsymmetric_key_option_start,
     ContextAll RuleAsymmetric_key_password_change_option,
     ContextNth RuleAsymmetric_key_password_change_option, TerminalGet T_RR_BRACKET,
     TerminalGet T_COMMA, EnterRule, ExitRule, Accept]\<rparr>"

definition Asymmetric_key_option_startContext :: context_class where [context_classes]:
  "Asymmetric_key_option_startContext = \<lparr>class_id = RuleContext RuleAsymmetric_key_option_start, class_base = ParserRuleContext, members = [
     Constructor, GetRuleIndex, TerminalGet T_WITH, TerminalGet T_PRIVATE, TerminalGet T_KEY,
     TerminalGet T_LR_BRACKET, EnterRule, ExitRule, Accept]\<rparr>"

definition Asymmetric_key_password_change_optionContext :: context_class where [context_classes]:
  "Asymmetric_key_password_change_optionContext = \<lparr>class_id = RuleContext RuleAsymmetric_key_password_change_option, class_base = ParserRuleContext, members = [
     Constructor, GetRuleIndex, TerminalGet T_DECRYPTION, TerminalGet T_BY,
     TerminalGet T_PASSWORD, TerminalGet T_EQUAL, TerminalGet T_STRING,
     TerminalGet T_ENCRYPTION, EnterRule, ExitRule, Accept]\<rparr>"

definition Create_asymmetric_keyContext :: context_class where [context_classes]:
  "Create_asymmetric_keyContext = \<lparr>class_id = RuleContext RuleCreate_asymmetric_key, class_base = ParserRuleContext, members = [
     ContextField ''Asym_Key_Nam'' RuleId', ContextField ''database_principal_name'' RuleId',
     ContextField ''Assembly_Name'' RuleId', ContextField ''Provider_Name'' RuleId',
     TokenField ''provider_key_name'', TokenField ''asymmetric_key_password'', Constructor,
     GetRuleIndex, TerminalGet T_CREATE, TerminalGet T_ASYMMETRIC, TerminalGet T_KEY,
     ContextAll RuleId', ContextNth RuleId', TerminalGet T_AUTHORIZATION, TerminalGet T_FROM,
     TerminalGet T_WITH, TerminalGet T_ENCRYPTION, TerminalGet T_BY, TerminalGet T_PASSWORD,
     TerminalAll T_EQUAL, TerminalNth T_EQUAL, TerminalAll T_STRING, TerminalNth T_STRING,
     TerminalGet T_FILE, TerminalGet T_EXECUTABLE_FILE, TerminalGet T_ASSEMBLY,
     TerminalGet T_PROVIDER, TerminalGet T_ALGORITHM, TerminalGet T_PROVIDER_KEY_NAME,
     TerminalGet T_CREATION_DISPOSITION, TerminalGet T_RSA_4096, TerminalGet T_RSA_3072,
     TerminalGet T_RSA_2048, TerminalGet T_RSA_1024, TerminalGet T_RSA_512,
     TerminalGet T_CREATE_NEW, TerminalGet T_OPEN_EXISTING, EnterRule, ExitRule, Accept]\<rparr>"

definition Drop_asymmetric_keyContext :: context_class where [context_classes]:
  "Drop_asymmetric_keyContext = \<lparr>class_id = RuleContext RuleDrop_asymmetric_key, class_base = ParserRuleContext, members = [
     ContextField ''key_name'' RuleId', Constructor, GetRuleIndex, TerminalGet T_DROP,
     TerminalGet T_ASYMMETRIC, TerminalAll T_KEY, TerminalNth T_KEY, ContextGet RuleId',
     TerminalGet T_REMOVE, TerminalGet T_PROVIDER, EnterRule, ExitRule, Accept]\<rparr>"

definition Alter_authorizationContext :: context_class where [context_classes]:
  "Alter_authorizationContext = \<lparr>class_id = RuleContext RuleAlter_authorization, class_base = ParserRuleContext, members = [
     ContextField ''entity'' RuleEntity_name, Constructor, GetRuleIndex,
     ContextGet RuleAlter_authorization_start, ContextGet RuleEntity_to,
     ContextGet RuleAuthorization_grantee, ContextGet RuleEntity_name,
     ContextGet RuleClass_type, ContextGet RuleColon_colon, EnterRule, ExitRule, Accept]\<rparr>"

definition Authorization_granteeContext :: context_class where [context_classes]:
  "Authorization_granteeContext = \<lparr>class_id = RuleContext RuleAuthorization_grantee, class_base = ParserRuleContext, members = [
     ContextField ''principal_name'' RuleId', Constructor, GetRuleIndex, ContextGet RuleId',
     TerminalGet T_SCHEMA, TerminalGet T_OWNER, EnterRule, ExitRule, Accept]\<rparr>"

definition Entity_toContext :: context_class where [context_classes]:
  "Entity_toContext = \<lparr>class_id = RuleContext RuleEntity_to, class_base = ParserRuleContext, members = [
     Constructor, GetRuleIndex, TerminalGet T_TO, EnterRule, ExitRule, Accept]\<rparr>"

definition Colon_colonContext :: context_class where [context_classes]:
  "Colon_colonContext = \<lparr>class_id = RuleContext RuleColon_colon, class_base = ParserRuleContext, members = [
     Constructor, GetRuleIndex, TerminalGet T_DOUBLE_COLON, EnterRule, ExitRule, Accept]\<rparr>"

definition Alter_authorization_startContext :: context_class where [context_classes]:
  "Alter_authorization_startContext = \<lparr>class_id = RuleContext RuleAlter_authorization_start, class_base = ParserRuleContext, members = [
     Constructor, GetRuleIndex, TerminalGet T_ALTER, TerminalGet T_AUTHORIZATION,
     TerminalGet T_ON, EnterRule, ExitRule, Accept]\<rparr>"

definition Alter_authorization_for_sql_databaseContext :: context_class where [context_classes]:
  "Alter_authorization_for_sql_databaseContext = \<lparr>class_id = RuleContext RuleAlter_authorization_for_sql_database, class_base = ParserRuleContext, members = [
     ContextField ''entity'' RuleEntity_name, Constructor, GetRuleIndex,
     ContextGet RuleAlter_authorization_start, ContextGet RuleEntity_to,
     ContextGet RuleAuthorization_grantee, ContextGet RuleEntity_name,
     ContextGet RuleClass_type_for_sql_database, ContextGet RuleColon_colon, EnterRule,
     ExitRule, Accept]\<rparr>"

definition Alter_authorization_for_azure_dwContext :: context_class where [context_classes]:
  "Alter_authorization_for_azure_dwContext = \<lparr>class_id = RuleContext RuleAlter_authorization_for_azure_dw, class_base = ParserRuleContext, members = [
     ContextField ''entity'' RuleEntity_name_for_azure_dw, Constructor, GetRuleIndex,
     ContextGet RuleAlter_authorization_start, ContextGet RuleEntity_to,
     ContextGet RuleAuthorization_grantee, ContextGet RuleEntity_name_for_azure_dw,
     ContextGet RuleClass_type_for_azure_dw, ContextGet RuleColon_colon, EnterRule, ExitRule,
     Accept]\<rparr>"

definition Alter_authorization_for_parallel_dwContext :: context_class where [context_classes]:
  "Alter_authorization_for_parallel_dwContext = \<lparr>class_id = RuleContext RuleAlter_authorization_for_parallel_dw, class_base = ParserRuleContext, members = [
     ContextField ''entity'' RuleEntity_name_for_parallel_dw, Constructor, GetRuleIndex,
     ContextGet RuleAlter_authorization_start, ContextGet RuleEntity_to,
     ContextGet RuleAuthorization_grantee, ContextGet RuleEntity_name_for_parallel_dw,
     ContextGet RuleClass_type_for_parallel_dw, ContextGet RuleColon_colon, EnterRule,
     ExitRule, Accept]\<rparr>"

definition Class_typeContext :: context_class where [context_classes]:
  "Class_typeContext = \<lparr>class_id = RuleContext RuleClass_type, class_base = ParserRuleContext, members = [
     Constructor, GetRuleIndex, TerminalGet T_OBJECT, TerminalGet T_ASSEMBLY,
     TerminalGet T_ASYMMETRIC, TerminalGet T_KEY, TerminalGet T_AVAILABILITY,
     TerminalGet T_GROUP, TerminalGet T_CERTIFICATE, TerminalGet T_CONTRACT,
     TerminalGet T_TYPE, TerminalGet T_DATABASE, TerminalGet T_ENDPOINT,
     TerminalGet T_FULLTEXT, TerminalGet T_CATALOG, TerminalGet T_STOPLIST,
     TerminalGet T_MESSAGE, TerminalGet T_REMOTE, TerminalGet T_SERVICE, TerminalGet T_BINDING,
     TerminalGet T_ROLE, TerminalGet T_ROUTE, TerminalGet T_SCHEMA, TerminalGet T_SEARCH,
     TerminalGet T_PROPERTY, TerminalGet T_LIST, TerminalGet T_SERVER, TerminalGet T_SYMMETRIC,
     TerminalGet T_XML, TerminalGet T_COLLECTION, EnterRule, ExitRule, Accept]\<rparr>"

definition Class_type_for_sql_databaseContext :: context_class where [context_classes]:
  "Class_type_for_sql_databaseContext = \<lparr>class_id = RuleContext RuleClass_type_for_sql_database, class_base = ParserRuleContext, members = [
     Constructor, GetRuleIndex, TerminalGet T_OBJECT, TerminalGet T_ASSEMBLY,
     TerminalGet T_ASYMMETRIC, TerminalGet T_KEY, TerminalGet T_CERTIFICATE,
     TerminalGet T_TYPE, TerminalGet T_DATABASE, TerminalGet T_FULLTEXT, TerminalGet T_CATALOG,
     TerminalGet T_STOPLIST, TerminalGet T_ROLE, TerminalGet T_SCHEMA, TerminalGet T_SEARCH,
     TerminalGet T_PROPERTY, TerminalGet T_LIST, TerminalGet T_SYMMETRIC, TerminalGet T_XML,
     TerminalGet T_COLLECTION, EnterRule, ExitRule, Accept]\<rparr>"

definition Class_type_for_azure_dwContext :: context_class where [context_classes]:
  "Class_type_for_azure_dwContext = \<lparr>class_id = RuleContext RuleClass_type_for_azure_dw, class_base = ParserRuleContext, members = [
     Constructor, GetRuleIndex, TerminalGet T_SCHEMA, TerminalGet T_OBJECT, EnterRule,
     ExitRule, Accept]\<rparr>"

definition Class_type_for_parallel_dwContext :: context_class where [context_classes]:
  "Class_type_for_parallel_dwContext = \<lparr>class_id = RuleContext RuleClass_type_for_parallel_dw, class_base = ParserRuleContext, members = [
     Constructor, GetRuleIndex, TerminalGet T_DATABASE, TerminalGet T_SCHEMA,
     TerminalGet T_OBJECT, EnterRule, ExitRule, Accept]\<rparr>"

definition Class_type_for_grantContext :: context_class where [context_classes]:
  "Class_type_for_grantContext = \<lparr>class_id = RuleContext RuleClass_type_for_grant, class_base = ParserRuleContext, members = [
     Constructor, GetRuleIndex, TerminalGet T_APPLICATION, TerminalGet T_ROLE,
     TerminalGet T_ASSEMBLY, TerminalGet T_ASYMMETRIC, TerminalGet T_KEY, TerminalGet T_AUDIT,
     TerminalGet T_AVAILABILITY, TerminalGet T_GROUP, TerminalGet T_BROKER,
     TerminalGet T_PRIORITY, TerminalGet T_CERTIFICATE, TerminalGet T_COLUMN,
     TerminalGet T_ENCRYPTION, TerminalGet T_MASTER, TerminalGet T_CONTRACT,
     TerminalGet T_CREDENTIAL, TerminalGet T_CRYPTOGRAPHIC, TerminalGet T_PROVIDER,
     TerminalGet T_DATABASE, TerminalGet T_SPECIFICATION, TerminalGet T_EVENT,
     TerminalGet T_SESSION, TerminalGet T_SCOPED, TerminalGet T_CONFIGURATION,
     TerminalGet T_RESOURCE, TerminalGet T_GOVERNOR, TerminalGet T_ENDPOINT,
     TerminalGet T_NOTIFICATION, TerminalGet T_OBJECT, TerminalGet T_SERVER,
     TerminalGet T_EXTERNAL, TerminalGet T_DATA, TerminalGet T_SOURCE, TerminalGet T_FILE,
     TerminalGet T_FORMAT, TerminalGet T_LIBRARY, TerminalGet T_POOL, TerminalGet T_TABLE,
     TerminalGet T_CATALOG, TerminalGet T_STOPLIST, TerminalGet T_LOGIN, TerminalGet T_MESSAGE,
     TerminalGet T_TYPE, TerminalGet T_PARTITION, TerminalGet T_FUNCTION, TerminalGet T_SCHEME,
     TerminalGet T_REMOTE, TerminalGet T_SERVICE, TerminalGet T_BINDING, TerminalGet T_ROUTE,
     TerminalGet T_SCHEMA, TerminalGet T_SEARCH, TerminalGet T_PROPERTY, TerminalGet T_LIST,
     TerminalGet T_SQL, TerminalGet T_SYMMETRIC, TerminalGet T_TRIGGER, TerminalGet T_USER,
     TerminalGet T_XML, TerminalGet T_COLLECTION, EnterRule, ExitRule, Accept]\<rparr>"

definition Drop_availability_groupContext :: context_class where [context_classes]:
  "Drop_availability_groupContext = \<lparr>class_id = RuleContext RuleDrop_availability_group, class_base = ParserRuleContext, members = [
     ContextField ''group_name'' RuleId', Constructor, GetRuleIndex, TerminalGet T_DROP,
     TerminalGet T_AVAILABILITY, TerminalGet T_GROUP, ContextGet RuleId', EnterRule, ExitRule,
     Accept]\<rparr>"

definition Alter_availability_groupContext :: context_class where [context_classes]:
  "Alter_availability_groupContext = \<lparr>class_id = RuleContext RuleAlter_availability_group, class_base = ParserRuleContext, members = [
     Constructor, GetRuleIndex, ContextGet RuleAlter_availability_group_start,
     ContextGet RuleAlter_availability_group_options, EnterRule, ExitRule, Accept]\<rparr>"

definition Alter_availability_group_startContext :: context_class where [context_classes]:
  "Alter_availability_group_startContext = \<lparr>class_id = RuleContext RuleAlter_availability_group_start, class_base = ParserRuleContext, members = [
     ContextField ''group_name'' RuleId', Constructor, GetRuleIndex, TerminalGet T_ALTER,
     TerminalGet T_AVAILABILITY, TerminalGet T_GROUP, ContextGet RuleId', EnterRule, ExitRule,
     Accept]\<rparr>"

definition Alter_availability_group_optionsContext :: context_class where [context_classes]:
  "Alter_availability_group_optionsContext = \<lparr>class_id = RuleContext RuleAlter_availability_group_options, class_base = ParserRuleContext, members = [
     TokenField ''milliseconds'', ContextField ''database_name'' RuleId',
     TokenField ''server_instance'', TokenField ''session_timeout'', TokenField ''ag_name'',
     TokenField ''ag_name_modified'', TokenField ''listener_name'', Constructor, GetRuleIndex,
     TerminalGet T_SET, TerminalAll T_LR_BRACKET, TerminalNth T_LR_BRACKET,
     TerminalAll T_RR_BRACKET, TerminalNth T_RR_BRACKET,
     TerminalGet T_AUTOMATED_BACKUP_PREFERENCE, TerminalAll T_EQUAL, TerminalNth T_EQUAL,
     TerminalGet T_FAILURE_CONDITION_LEVEL, TerminalGet T_DECIMAL,
     TerminalGet T_HEALTH_CHECK_TIMEOUT, TerminalGet T_DB_FAILOVER,
     TerminalGet T_REQUIRED_SYNCHRONIZED_SECONDARIES_TO_COMMIT, TerminalGet T_PRIMARY,
     TerminalGet T_SECONDARY_ONLY, TerminalGet T_SECONDARY, TerminalGet T_NONE,
     TerminalGet T_ON, TerminalGet T_OFF, TerminalGet T_ADD, TerminalGet T_DATABASE,
     ContextGet RuleId', TerminalGet T_REMOVE, TerminalGet T_REPLICA, TerminalAll T_STRING,
     TerminalNth T_STRING, TerminalAll T_WITH, TerminalNth T_WITH, TerminalGet T_ENDPOINT_URL,
     TerminalAll T_AVAILABILITY_MODE, TerminalNth T_AVAILABILITY_MODE,
     TerminalAll T_FAILOVER_MODE, TerminalNth T_FAILOVER_MODE, TerminalAll T_SEEDING_MODE,
     TerminalNth T_SEEDING_MODE, TerminalGet T_BACKUP_PRIORITY, TerminalGet T_PRIMARY_ROLE,
     TerminalAll T_ALLOW_CONNECTIONS, TerminalNth T_ALLOW_CONNECTIONS,
     TerminalGet T_SECONDARY_ROLE, TerminalAll T_SYNCHRONOUS_COMMIT,
     TerminalNth T_SYNCHRONOUS_COMMIT, TerminalAll T_ASYNCHRONOUS_COMMIT,
     TerminalNth T_ASYNCHRONOUS_COMMIT, TerminalAll T_AUTOMATIC, TerminalNth T_AUTOMATIC,
     TerminalAll T_MANUAL, TerminalNth T_MANUAL, TerminalGet T_READ_WRITE, TerminalGet T_ALL,
     TerminalGet T_READ_ONLY, TerminalAll T_COMMA, TerminalNth T_COMMA,
     TerminalGet T_READ_ONLY_ROUTING_LIST, TerminalGet T_NO, TerminalGet T_SESSION_TIMEOUT,
     TerminalGet T_MODIFY, TerminalGet T_JOIN, TerminalGet T_AVAILABILITY, TerminalGet T_GROUP,
     TerminalAll T_LISTENER_URL, TerminalNth T_LISTENER_URL, TerminalGet T_GRANT,
     TerminalGet T_CREATE, TerminalGet T_ANY, TerminalGet T_DENY, TerminalGet T_FAILOVER,
     TerminalGet T_FORCE_FAILOVER_ALLOW_DATA_LOSS, TerminalGet T_LISTENER, TerminalGet T_DHCP,
     TerminalGet T_IP, ContextAll RuleIp_v4_failover, ContextNth RuleIp_v4_failover,
     TerminalGet T_PORT, ContextAll RuleIp_v6_failover, ContextNth RuleIp_v6_failover,
     TerminalGet T_RESTART, TerminalGet T_OFFLINE, TerminalGet T_DTC_SUPPORT,
     TerminalGet T_PER_DB, EnterRule, ExitRule, Accept]\<rparr>"

definition Ip_v4_failoverContext :: context_class where [context_classes]:
  "Ip_v4_failoverContext = \<lparr>class_id = RuleContext RuleIp_v4_failover, class_base = ParserRuleContext, members = [
     Constructor, GetRuleIndex, TerminalGet T_STRING, EnterRule, ExitRule, Accept]\<rparr>"

definition Ip_v6_failoverContext :: context_class where [context_classes]:
  "Ip_v6_failoverContext = \<lparr>class_id = RuleContext RuleIp_v6_failover, class_base = ParserRuleContext, members = [
     Constructor, GetRuleIndex, TerminalGet T_STRING, EnterRule, ExitRule, Accept]\<rparr>"

definition Create_or_alter_broker_priorityContext :: context_class where [context_classes]:
  "Create_or_alter_broker_priorityContext = \<lparr>class_id = RuleContext RuleCreate_or_alter_broker_priority, class_base = ParserRuleContext, members = [
     ContextField ''ConversationPriorityName'' RuleId', TokenField ''RemoteServiceName'',
     TokenField ''PriorityValue'', Constructor, GetRuleIndex, TerminalGet T_BROKER,
     TerminalGet T_PRIORITY, TerminalGet T_FOR, TerminalGet T_CONVERSATION, TerminalGet T_SET,
     TerminalGet T_LR_BRACKET, TerminalGet T_RR_BRACKET, TerminalGet T_CREATE,
     TerminalGet T_ALTER, ContextAll RuleId', ContextNth RuleId', TerminalGet T_CONTRACT_NAME,
     TerminalAll T_EQUAL, TerminalNth T_EQUAL, TerminalGet T_LOCAL_SERVICE_NAME,
     TerminalGet T_REMOTE_SERVICE_NAME, TerminalGet T_PRIORITY_LEVEL, TerminalAll T_ANY,
     TerminalNth T_ANY, TerminalGet T_DEFAULT, TerminalAll T_COMMA, TerminalNth T_COMMA,
     TerminalGet T_STRING, TerminalGet T_DECIMAL, TerminalGet T_DOUBLE_FORWARD_SLASH,
     EnterRule, ExitRule, Accept]\<rparr>"

definition Drop_broker_priorityContext :: context_class where [context_classes]:
  "Drop_broker_priorityContext = \<lparr>class_id = RuleContext RuleDrop_broker_priority, class_base = ParserRuleContext, members = [
     ContextField ''ConversationPriorityName'' RuleId', Constructor, GetRuleIndex,
     TerminalGet T_DROP, TerminalGet T_BROKER, TerminalGet T_PRIORITY, ContextGet RuleId',
     EnterRule, ExitRule, Accept]\<rparr>"

definition Alter_certificateContext :: context_class where [context_classes]:
  "Alter_certificateContext = \<lparr>class_id = RuleContext RuleAlter_certificate, class_base = ParserRuleContext, members = [
     ContextField ''certificate_name'' RuleId', Constructor, GetRuleIndex, TerminalGet T_ALTER,
     TerminalGet T_CERTIFICATE, ContextGet RuleId', TerminalGet T_REMOVE,
     TerminalGet T_PRIVATE_KEY, TerminalGet T_WITH, TerminalGet T_PRIVATE, TerminalGet T_KEY,
     TerminalGet T_LR_BRACKET, TerminalGet T_RR_BRACKET, TerminalGet T_ACTIVE,
     TerminalGet T_FOR, TerminalGet T_BEGIN_DIALOG, TerminalAll T_EQUAL, TerminalNth T_EQUAL,
     TerminalGet T_ON, TerminalGet T_OFF, TerminalAll T_FILE, TerminalNth T_FILE,
     TerminalAll T_STRING, TerminalNth T_STRING, TerminalAll T_DECRYPTION,
     TerminalNth T_DECRYPTION, TerminalAll T_BY, TerminalNth T_BY, TerminalAll T_PASSWORD,
     TerminalNth T_PASSWORD, TerminalAll T_ENCRYPTION, TerminalNth T_ENCRYPTION,
     TerminalAll T_COMMA, TerminalNth T_COMMA, EnterRule, ExitRule, Accept]\<rparr>"

definition Alter_column_encryption_keyContext :: context_class where [context_classes]:
  "Alter_column_encryption_keyContext = \<lparr>class_id = RuleContext RuleAlter_column_encryption_key, class_base = ParserRuleContext, members = [
     ContextField ''column_encryption_key'' RuleId',
     ContextField ''column_master_key_name'' RuleId', TokenField ''algorithm_name'',
     Constructor, GetRuleIndex, TerminalGet T_ALTER, TerminalGet T_COLUMN,
     TerminalGet T_ENCRYPTION, TerminalGet T_KEY, TerminalGet T_VALUE,
     TerminalGet T_LR_BRACKET, TerminalGet T_COLUMN_MASTER_KEY, TerminalAll T_EQUAL,
     TerminalNth T_EQUAL, TerminalGet T_RR_BRACKET, ContextAll RuleId', ContextNth RuleId',
     TerminalGet T_ADD, TerminalGet T_DROP, TerminalAll T_COMMA, TerminalNth T_COMMA,
     TerminalGet T_ALGORITHM, TerminalGet T_ENCRYPTED_VALUE, TerminalGet T_BINARY,
     TerminalGet T_STRING, EnterRule, ExitRule, Accept]\<rparr>"

definition Create_column_encryption_keyContext :: context_class where [context_classes]:
  "Create_column_encryption_keyContext = \<lparr>class_id = RuleContext RuleCreate_column_encryption_key, class_base = ParserRuleContext, members = [
     ContextField ''column_encryption_key'' RuleId',
     ContextField ''column_master_key_name'' RuleId', TokenField ''algorithm_name'',
     TokenField ''encrypted_value'', Constructor, GetRuleIndex, TerminalGet T_CREATE,
     TerminalGet T_COLUMN, TerminalGet T_ENCRYPTION, TerminalGet T_KEY, TerminalGet T_WITH,
     TerminalGet T_VALUES, ContextAll RuleId', ContextNth RuleId', TerminalAll T_LR_BRACKET,
     TerminalNth T_LR_BRACKET, TerminalAll T_COLUMN_MASTER_KEY,
     TerminalNth T_COLUMN_MASTER_KEY, TerminalAll T_EQUAL, TerminalNth T_EQUAL,
     TerminalAll T_COMMA, TerminalNth T_COMMA, TerminalAll T_ALGORITHM,
     TerminalNth T_ALGORITHM, TerminalAll T_ENCRYPTED_VALUE, TerminalNth T_ENCRYPTED_VALUE,
     TerminalAll T_RR_BRACKET, TerminalNth T_RR_BRACKET, TerminalAll T_STRING,
     TerminalNth T_STRING, TerminalAll T_BINARY, TerminalNth T_BINARY, EnterRule, ExitRule,
     Accept]\<rparr>"

definition Drop_certificateContext :: context_class where [context_classes]:
  "Drop_certificateContext = \<lparr>class_id = RuleContext RuleDrop_certificate, class_base = ParserRuleContext, members = [
     ContextField ''certificate_name'' RuleId', Constructor, GetRuleIndex, TerminalGet T_DROP,
     TerminalGet T_CERTIFICATE, ContextGet RuleId', EnterRule, ExitRule, Accept]\<rparr>"

definition Drop_column_encryption_keyContext :: context_class where [context_classes]:
  "Drop_column_encryption_keyContext = \<lparr>class_id = RuleContext RuleDrop_column_encryption_key, class_base = ParserRuleContext, members = [
     ContextField ''key_name'' RuleId', Constructor, GetRuleIndex, TerminalGet T_DROP,
     TerminalGet T_COLUMN, TerminalGet T_ENCRYPTION, TerminalGet T_KEY, ContextGet RuleId',
     EnterRule, ExitRule, Accept]\<rparr>"

definition Drop_column_master_keyContext :: context_class where [context_classes]:
  "Drop_column_master_keyContext = \<lparr>class_id = RuleContext RuleDrop_column_master_key, class_base = ParserRuleContext, members = [
     ContextField ''key_name'' RuleId', Constructor, GetRuleIndex, TerminalGet T_DROP,
     TerminalGet T_COLUMN, TerminalGet T_MASTER, TerminalGet T_KEY, ContextGet RuleId',
     EnterRule, ExitRule, Accept]\<rparr>"

definition Drop_contractContext :: context_class where [context_classes]:
  "Drop_contractContext = \<lparr>class_id = RuleContext RuleDrop_contract, class_base = ParserRuleContext, members = [
     ContextField ''dropped_contract_name'' RuleId', Constructor, GetRuleIndex,
     TerminalGet T_DROP, TerminalGet T_CONTRACT, ContextGet RuleId', EnterRule, ExitRule,
     Accept]\<rparr>"

definition Drop_credentialContext :: context_class where [context_classes]:
  "Drop_credentialContext = \<lparr>class_id = RuleContext RuleDrop_credential, class_base = ParserRuleContext, members = [
     ContextField ''credential_name'' RuleId', Constructor, GetRuleIndex, TerminalGet T_DROP,
     TerminalGet T_CREDENTIAL, ContextGet RuleId', EnterRule, ExitRule, Accept]\<rparr>"

definition Drop_cryptograhic_providerContext :: context_class where [context_classes]:
  "Drop_cryptograhic_providerContext = \<lparr>class_id = RuleContext RuleDrop_cryptograhic_provider, class_base = ParserRuleContext, members = [
     ContextField ''provider_name'' RuleId', Constructor, GetRuleIndex, TerminalGet T_DROP,
     TerminalGet T_CRYPTOGRAPHIC, TerminalGet T_PROVIDER, ContextGet RuleId', EnterRule,
     ExitRule, Accept]\<rparr>"

definition Drop_databaseContext :: context_class where [context_classes]:
  "Drop_databaseContext = \<lparr>class_id = RuleContext RuleDrop_database, class_base = ParserRuleContext, members = [
     ContextField ''database_name_or_database_snapshot_name'' RuleId', Constructor,
     GetRuleIndex, TerminalGet T_DROP, TerminalGet T_DATABASE, TerminalGet T_IF,
     TerminalGet T_EXISTS, ContextAll RuleId', ContextNth RuleId', TerminalAll T_COMMA,
     TerminalNth T_COMMA, EnterRule, ExitRule, Accept]\<rparr>"

definition Drop_database_audit_specificationContext :: context_class where [context_classes]:
  "Drop_database_audit_specificationContext = \<lparr>class_id = RuleContext RuleDrop_database_audit_specification, class_base = ParserRuleContext, members = [
     ContextField ''audit_specification_name'' RuleId', Constructor, GetRuleIndex,
     TerminalGet T_DROP, TerminalGet T_DATABASE, TerminalGet T_AUDIT,
     TerminalGet T_SPECIFICATION, ContextGet RuleId', EnterRule, ExitRule, Accept]\<rparr>"

definition Drop_database_encryption_keyContext :: context_class where [context_classes]:
  "Drop_database_encryption_keyContext = \<lparr>class_id = RuleContext RuleDrop_database_encryption_key, class_base = ParserRuleContext, members = [
     Constructor, GetRuleIndex, TerminalGet T_DROP, TerminalGet T_DATABASE,
     TerminalGet T_ENCRYPTION, TerminalGet T_KEY, EnterRule, ExitRule, Accept]\<rparr>"

definition Drop_database_scoped_credentialContext :: context_class where [context_classes]:
  "Drop_database_scoped_credentialContext = \<lparr>class_id = RuleContext RuleDrop_database_scoped_credential, class_base = ParserRuleContext, members = [
     ContextField ''credential_name'' RuleId', Constructor, GetRuleIndex, TerminalGet T_DROP,
     TerminalGet T_DATABASE, TerminalGet T_SCOPED, TerminalGet T_CREDENTIAL,
     ContextGet RuleId', EnterRule, ExitRule, Accept]\<rparr>"

definition Drop_defaultContext :: context_class where [context_classes]:
  "Drop_defaultContext = \<lparr>class_id = RuleContext RuleDrop_default, class_base = ParserRuleContext, members = [
     ContextField ''schema_name'' RuleId', ContextField ''default_name'' RuleId', Constructor,
     GetRuleIndex, TerminalGet T_DROP, TerminalGet T_DEFAULT, TerminalGet T_IF,
     TerminalGet T_EXISTS, ContextAll RuleId', ContextNth RuleId', TerminalGet T_COMMA,
     TerminalGet T_DOT, EnterRule, ExitRule, Accept]\<rparr>"

definition Drop_endpointContext :: context_class where [context_classes]:
  "Drop_endpointContext = \<lparr>class_id = RuleContext RuleDrop_endpoint, class_base = ParserRuleContext, members = [
     ContextField ''endPointName'' RuleId', Constructor, GetRuleIndex, TerminalGet T_DROP,
     TerminalGet T_ENDPOINT, ContextGet RuleId', EnterRule, ExitRule, Accept]\<rparr>"

definition Drop_external_data_sourceContext :: context_class where [context_classes]:
  "Drop_external_data_sourceContext = \<lparr>class_id = RuleContext RuleDrop_external_data_source, class_base = ParserRuleContext, members = [
     ContextField ''external_data_source_name'' RuleId', Constructor, GetRuleIndex,
     TerminalGet T_DROP, TerminalGet T_EXTERNAL, TerminalGet T_DATA, TerminalGet T_SOURCE,
     ContextGet RuleId', EnterRule, ExitRule, Accept]\<rparr>"

definition Drop_external_file_formatContext :: context_class where [context_classes]:
  "Drop_external_file_formatContext = \<lparr>class_id = RuleContext RuleDrop_external_file_format, class_base = ParserRuleContext, members = [
     ContextField ''external_file_format_name'' RuleId', Constructor, GetRuleIndex,
     TerminalGet T_DROP, TerminalGet T_EXTERNAL, TerminalGet T_FILE, TerminalGet T_FORMAT,
     ContextGet RuleId', EnterRule, ExitRule, Accept]\<rparr>"

definition Drop_external_libraryContext :: context_class where [context_classes]:
  "Drop_external_libraryContext = \<lparr>class_id = RuleContext RuleDrop_external_library, class_base = ParserRuleContext, members = [
     ContextField ''library_name'' RuleId', ContextField ''owner_name'' RuleId', Constructor,
     GetRuleIndex, TerminalGet T_DROP, TerminalGet T_EXTERNAL, TerminalGet T_LIBRARY,
     ContextAll RuleId', ContextNth RuleId', TerminalGet T_AUTHORIZATION, EnterRule, ExitRule,
     Accept]\<rparr>"

definition Drop_external_resource_poolContext :: context_class where [context_classes]:
  "Drop_external_resource_poolContext = \<lparr>class_id = RuleContext RuleDrop_external_resource_pool, class_base = ParserRuleContext, members = [
     ContextField ''pool_name'' RuleId', Constructor, GetRuleIndex, TerminalGet T_DROP,
     TerminalGet T_EXTERNAL, TerminalGet T_RESOURCE, TerminalGet T_POOL, ContextGet RuleId',
     EnterRule, ExitRule, Accept]\<rparr>"

definition Drop_external_tableContext :: context_class where [context_classes]:
  "Drop_external_tableContext = \<lparr>class_id = RuleContext RuleDrop_external_table, class_base = ParserRuleContext, members = [
     ContextField ''database_name'' RuleId', ContextField ''schema_name'' RuleId',
     ContextField ''table'' RuleId', Constructor, GetRuleIndex, TerminalGet T_DROP,
     TerminalGet T_EXTERNAL, TerminalGet T_TABLE, ContextAll RuleId', ContextNth RuleId',
     TerminalAll T_DOT, TerminalNth T_DOT, EnterRule, ExitRule, Accept]\<rparr>"

definition Drop_event_notificationsContext :: context_class where [context_classes]:
  "Drop_event_notificationsContext = \<lparr>class_id = RuleContext RuleDrop_event_notifications, class_base = ParserRuleContext, members = [
     ContextField ''notification_name'' RuleId', ContextField ''queue_name'' RuleId',
     Constructor, GetRuleIndex, TerminalGet T_DROP, TerminalGet T_EVENT,
     TerminalGet T_NOTIFICATION, TerminalGet T_ON, TerminalGet T_SERVER,
     TerminalGet T_DATABASE, TerminalGet T_QUEUE, ContextAll RuleId', ContextNth RuleId',
     TerminalAll T_COMMA, TerminalNth T_COMMA, EnterRule, ExitRule, Accept]\<rparr>"

definition Drop_event_sessionContext :: context_class where [context_classes]:
  "Drop_event_sessionContext = \<lparr>class_id = RuleContext RuleDrop_event_session, class_base = ParserRuleContext, members = [
     ContextField ''event_session_name'' RuleId', Constructor, GetRuleIndex,
     TerminalGet T_DROP, TerminalGet T_EVENT, TerminalGet T_SESSION, TerminalGet T_ON,
     TerminalGet T_SERVER, ContextGet RuleId', EnterRule, ExitRule, Accept]\<rparr>"

definition Drop_fulltext_catalogContext :: context_class where [context_classes]:
  "Drop_fulltext_catalogContext = \<lparr>class_id = RuleContext RuleDrop_fulltext_catalog, class_base = ParserRuleContext, members = [
     ContextField ''catalog_name'' RuleId', Constructor, GetRuleIndex, TerminalGet T_DROP,
     TerminalGet T_FULLTEXT, TerminalGet T_CATALOG, ContextGet RuleId', EnterRule, ExitRule,
     Accept]\<rparr>"

definition Drop_fulltext_indexContext :: context_class where [context_classes]:
  "Drop_fulltext_indexContext = \<lparr>class_id = RuleContext RuleDrop_fulltext_index, class_base = ParserRuleContext, members = [
     ContextField ''schema'' RuleId', ContextField ''table'' RuleId', Constructor,
     GetRuleIndex, TerminalGet T_DROP, TerminalGet T_FULLTEXT, TerminalGet T_INDEX,
     TerminalGet T_ON, ContextAll RuleId', ContextNth RuleId', TerminalGet T_DOT, EnterRule,
     ExitRule, Accept]\<rparr>"

definition Drop_fulltext_stoplistContext :: context_class where [context_classes]:
  "Drop_fulltext_stoplistContext = \<lparr>class_id = RuleContext RuleDrop_fulltext_stoplist, class_base = ParserRuleContext, members = [
     ContextField ''stoplist_name'' RuleId', Constructor, GetRuleIndex, TerminalGet T_DROP,
     TerminalGet T_FULLTEXT, TerminalGet T_STOPLIST, ContextGet RuleId', EnterRule, ExitRule,
     Accept]\<rparr>"

definition Drop_loginContext :: context_class where [context_classes]:
  "Drop_loginContext = \<lparr>class_id = RuleContext RuleDrop_login, class_base = ParserRuleContext, members = [
     ContextField ''login_name'' RuleId', Constructor, GetRuleIndex, TerminalGet T_DROP,
     TerminalGet T_LOGIN, ContextGet RuleId', EnterRule, ExitRule, Accept]\<rparr>"

definition Drop_master_keyContext :: context_class where [context_classes]:
  "Drop_master_keyContext = \<lparr>class_id = RuleContext RuleDrop_master_key, class_base = ParserRuleContext, members = [
     Constructor, GetRuleIndex, TerminalGet T_DROP, TerminalGet T_MASTER, TerminalGet T_KEY,
     EnterRule, ExitRule, Accept]\<rparr>"

definition Drop_message_typeContext :: context_class where [context_classes]:
  "Drop_message_typeContext = \<lparr>class_id = RuleContext RuleDrop_message_type, class_base = ParserRuleContext, members = [
     ContextField ''message_type_name'' RuleId', Constructor, GetRuleIndex, TerminalGet T_DROP,
     TerminalGet T_MESSAGE, TerminalGet T_TYPE, ContextGet RuleId', EnterRule, ExitRule, Accept]\<rparr>"

definition Drop_partition_functionContext :: context_class where [context_classes]:
  "Drop_partition_functionContext = \<lparr>class_id = RuleContext RuleDrop_partition_function, class_base = ParserRuleContext, members = [
     ContextField ''partition_function_name'' RuleId', Constructor, GetRuleIndex,
     TerminalGet T_DROP, TerminalGet T_PARTITION, TerminalGet T_FUNCTION, ContextGet RuleId',
     EnterRule, ExitRule, Accept]\<rparr>"

definition Drop_partition_schemeContext :: context_class where [context_classes]:
  "Drop_partition_schemeContext = \<lparr>class_id = RuleContext RuleDrop_partition_scheme, class_base = ParserRuleContext, members = [
     ContextField ''partition_scheme_name'' RuleId', Constructor, GetRuleIndex,
     TerminalGet T_DROP, TerminalGet T_PARTITION, TerminalGet T_SCHEME, ContextGet RuleId',
     EnterRule, ExitRule, Accept]\<rparr>"

definition Drop_queueContext :: context_class where [context_classes]:
  "Drop_queueContext = \<lparr>class_id = RuleContext RuleDrop_queue, class_base = ParserRuleContext, members = [
     ContextField ''database_name'' RuleId', ContextField ''schema_name'' RuleId',
     ContextField ''queue_name'' RuleId', Constructor, GetRuleIndex, TerminalGet T_DROP,
     TerminalGet T_QUEUE, ContextAll RuleId', ContextNth RuleId', TerminalAll T_DOT,
     TerminalNth T_DOT, EnterRule, ExitRule, Accept]\<rparr>"

definition Drop_remote_service_bindingContext :: context_class where [context_classes]:
  "Drop_remote_service_bindingContext = \<lparr>class_id = RuleContext RuleDrop_remote_service_binding, class_base = ParserRuleContext, members = [
     ContextField ''binding_name'' RuleId', Constructor, GetRuleIndex, TerminalGet T_DROP,
     TerminalGet T_REMOTE, TerminalGet T_SERVICE, TerminalGet T_BINDING, ContextGet RuleId',
     EnterRule, ExitRule, Accept]\<rparr>"

definition Drop_resource_poolContext :: context_class where [context_classes]:
  "Drop_resource_poolContext = \<lparr>class_id = RuleContext RuleDrop_resource_pool, class_base = ParserRuleContext, members = [
     ContextField ''pool_name'' RuleId', Constructor, GetRuleIndex, TerminalGet T_DROP,
     TerminalGet T_RESOURCE, TerminalGet T_POOL, ContextGet RuleId', EnterRule, ExitRule,
     Accept]\<rparr>"

definition Drop_db_roleContext :: context_class where [context_classes]:
  "Drop_db_roleContext = \<lparr>class_id = RuleContext RuleDrop_db_role, class_base = ParserRuleContext, members = [
     ContextField ''role_name'' RuleId', Constructor, GetRuleIndex, TerminalGet T_DROP,
     TerminalGet T_ROLE, ContextGet RuleId', TerminalGet T_IF, TerminalGet T_EXISTS, EnterRule,
     ExitRule, Accept]\<rparr>"

definition Drop_routeContext :: context_class where [context_classes]:
  "Drop_routeContext = \<lparr>class_id = RuleContext RuleDrop_route, class_base = ParserRuleContext, members = [
     ContextField ''route_name'' RuleId', Constructor, GetRuleIndex, TerminalGet T_DROP,
     TerminalGet T_ROUTE, ContextGet RuleId', EnterRule, ExitRule, Accept]\<rparr>"

definition Drop_ruleContext :: context_class where [context_classes]:
  "Drop_ruleContext = \<lparr>class_id = RuleContext RuleDrop_rule, class_base = ParserRuleContext, members = [
     ContextField ''schema_name'' RuleId', ContextField ''rule_name'' RuleId', Constructor,
     GetRuleIndex, TerminalGet T_DROP, TerminalGet T_RULE, TerminalGet T_IF,
     TerminalGet T_EXISTS, ContextAll RuleId', ContextNth RuleId', TerminalGet T_COMMA,
     TerminalGet T_DOT, EnterRule, ExitRule, Accept]\<rparr>"

definition Drop_schemaContext :: context_class where [context_classes]:
  "Drop_schemaContext = \<lparr>class_id = RuleContext RuleDrop_schema, class_base = ParserRuleContext, members = [
     ContextField ''schema_name'' RuleId', Constructor, GetRuleIndex, TerminalGet T_DROP,
     TerminalGet T_SCHEMA, ContextGet RuleId', TerminalGet T_IF, TerminalGet T_EXISTS,
     EnterRule, ExitRule, Accept]\<rparr>"

definition Drop_search_property_listContext :: context_class where [context_classes]:
  "Drop_search_property_listContext = \<lparr>class_id = RuleContext RuleDrop_search_property_list, class_base = ParserRuleContext, members = [
     ContextField ''property_list_name'' RuleId', Constructor, GetRuleIndex,
     TerminalGet T_DROP, TerminalGet T_SEARCH, TerminalGet T_PROPERTY, TerminalGet T_LIST,
     ContextGet RuleId', EnterRule, ExitRule, Accept]\<rparr>"

definition Drop_security_policyContext :: context_class where [context_classes]:
  "Drop_security_policyContext = \<lparr>class_id = RuleContext RuleDrop_security_policy, class_base = ParserRuleContext, members = [
     ContextField ''schema_name'' RuleId', ContextField ''security_policy_name'' RuleId',
     Constructor, GetRuleIndex, TerminalGet T_DROP, TerminalGet T_SECURITY,
     TerminalGet T_POLICY, ContextAll RuleId', ContextNth RuleId', TerminalGet T_IF,
     TerminalGet T_EXISTS, TerminalGet T_DOT, EnterRule, ExitRule, Accept]\<rparr>"

definition Drop_sequenceContext :: context_class where [context_classes]:
  "Drop_sequenceContext = \<lparr>class_id = RuleContext RuleDrop_sequence, class_base = ParserRuleContext, members = [
     ContextField ''database_name'' RuleId', ContextField ''schema_name'' RuleId',
     ContextField ''sequence_name'' RuleId', Constructor, GetRuleIndex, TerminalGet T_DROP,
     TerminalGet T_SEQUENCE, TerminalGet T_IF, TerminalGet T_EXISTS, ContextAll RuleId',
     ContextNth RuleId', TerminalGet T_COMMA, TerminalAll T_DOT, TerminalNth T_DOT, EnterRule,
     ExitRule, Accept]\<rparr>"

definition Drop_server_auditContext :: context_class where [context_classes]:
  "Drop_server_auditContext = \<lparr>class_id = RuleContext RuleDrop_server_audit, class_base = ParserRuleContext, members = [
     ContextField ''audit_name'' RuleId', Constructor, GetRuleIndex, TerminalGet T_DROP,
     TerminalGet T_SERVER, TerminalGet T_AUDIT, ContextGet RuleId', EnterRule, ExitRule, Accept]\<rparr>"

definition Drop_server_audit_specificationContext :: context_class where [context_classes]:
  "Drop_server_audit_specificationContext = \<lparr>class_id = RuleContext RuleDrop_server_audit_specification, class_base = ParserRuleContext, members = [
     ContextField ''audit_specification_name'' RuleId', Constructor, GetRuleIndex,
     TerminalGet T_DROP, TerminalGet T_SERVER, TerminalGet T_AUDIT,
     TerminalGet T_SPECIFICATION, ContextGet RuleId', EnterRule, ExitRule, Accept]\<rparr>"

definition Drop_server_roleContext :: context_class where [context_classes]:
  "Drop_server_roleContext = \<lparr>class_id = RuleContext RuleDrop_server_role, class_base = ParserRuleContext, members = [
     ContextField ''role_name'' RuleId', Constructor, GetRuleIndex, TerminalGet T_DROP,
     TerminalGet T_SERVER, TerminalGet T_ROLE, ContextGet RuleId', EnterRule, ExitRule, Accept]\<rparr>"

definition Drop_serviceContext :: context_class where [context_classes]:
  "Drop_serviceContext = \<lparr>class_id = RuleContext RuleDrop_service, class_base = ParserRuleContext, members = [
     ContextField ''dropped_service_name'' RuleId', Constructor, GetRuleIndex,
     TerminalGet T_DROP, TerminalGet T_SERVICE, ContextGet RuleId', EnterRule, ExitRule, Accept]\<rparr>"

definition Drop_signatureContext :: context_class where [context_classes]:
  "Drop_signatureContext = \<lparr>class_id = RuleContext RuleDrop_signature, class_base = ParserRuleContext, members = [
     ContextField ''schema_name'' RuleId', ContextField ''module_name'' RuleId',
     ContextField ''cert_name'' RuleId', ContextField ''Asym_key_name'' RuleId', Constructor,
     GetRuleIndex, TerminalGet T_DROP, TerminalGet T_SIGNATURE, TerminalGet T_FROM,
     TerminalGet T_BY, ContextAll RuleId', ContextNth RuleId', TerminalGet T_COUNTER,
     TerminalGet T_DOT, TerminalAll T_CERTIFICATE, TerminalNth T_CERTIFICATE,
     TerminalAll T_ASYMMETRIC, TerminalNth T_ASYMMETRIC, TerminalAll T_KEY, TerminalNth T_KEY,
     TerminalAll T_COMMA, TerminalNth T_COMMA, EnterRule, ExitRule, Accept]\<rparr>"

definition Drop_statistics_name_azure_dw_and_pdwContext :: context_class where [context_classes]:
  "Drop_statistics_name_azure_dw_and_pdwContext = \<lparr>class_id = RuleContext RuleDrop_statistics_name_azure_dw_and_pdw, class_base = ParserRuleContext, members = [
     ContextField ''schema_name'' RuleId', ContextField ''object_name'' RuleId',
     ContextField ''statistics_name'' RuleId', Constructor, GetRuleIndex, TerminalGet T_DROP,
     TerminalGet T_STATISTICS, TerminalAll T_DOT, TerminalNth T_DOT, ContextAll RuleId',
     ContextNth RuleId', EnterRule, ExitRule, Accept]\<rparr>"

definition Drop_symmetric_keyContext :: context_class where [context_classes]:
  "Drop_symmetric_keyContext = \<lparr>class_id = RuleContext RuleDrop_symmetric_key, class_base = ParserRuleContext, members = [
     ContextField ''symmetric_key_name'' RuleId', Constructor, GetRuleIndex,
     TerminalGet T_DROP, TerminalGet T_SYMMETRIC, TerminalAll T_KEY, TerminalNth T_KEY,
     ContextGet RuleId', TerminalGet T_REMOVE, TerminalGet T_PROVIDER, EnterRule, ExitRule,
     Accept]\<rparr>"

definition Drop_synonymContext :: context_class where [context_classes]:
  "Drop_synonymContext = \<lparr>class_id = RuleContext RuleDrop_synonym, class_base = ParserRuleContext, members = [
     ContextField ''schema'' RuleId', ContextField ''synonym_name'' RuleId', Constructor,
     GetRuleIndex, TerminalGet T_DROP, TerminalGet T_SYNONYM, ContextAll RuleId',
     ContextNth RuleId', TerminalGet T_IF, TerminalGet T_EXISTS, TerminalGet T_DOT, EnterRule,
     ExitRule, Accept]\<rparr>"

definition Drop_userContext :: context_class where [context_classes]:
  "Drop_userContext = \<lparr>class_id = RuleContext RuleDrop_user, class_base = ParserRuleContext, members = [
     ContextField ''user_name'' RuleId', Constructor, GetRuleIndex, TerminalGet T_DROP,
     TerminalGet T_USER, ContextGet RuleId', TerminalGet T_IF, TerminalGet T_EXISTS, EnterRule,
     ExitRule, Accept]\<rparr>"

definition Drop_workload_groupContext :: context_class where [context_classes]:
  "Drop_workload_groupContext = \<lparr>class_id = RuleContext RuleDrop_workload_group, class_base = ParserRuleContext, members = [
     ContextField ''group_name'' RuleId', Constructor, GetRuleIndex, TerminalGet T_DROP,
     TerminalGet T_WORKLOAD, TerminalGet T_GROUP, ContextGet RuleId', EnterRule, ExitRule,
     Accept]\<rparr>"

definition Drop_xml_schema_collectionContext :: context_class where [context_classes]:
  "Drop_xml_schema_collectionContext = \<lparr>class_id = RuleContext RuleDrop_xml_schema_collection, class_base = ParserRuleContext, members = [
     ContextField ''relational_schema'' RuleId', ContextField ''sql_identifier'' RuleId',
     Constructor, GetRuleIndex, TerminalGet T_DROP, TerminalGet T_XML, TerminalGet T_SCHEMA,
     TerminalGet T_COLLECTION, ContextAll RuleId', ContextNth RuleId', TerminalGet T_DOT,
     EnterRule, ExitRule, Accept]\<rparr>"

definition Disable_triggerContext :: context_class where [context_classes]:
  "Disable_triggerContext = \<lparr>class_id = RuleContext RuleDisable_trigger, class_base = ParserRuleContext, members = [
     ContextField ''schema_name'' RuleId', ContextField ''trigger_name'' RuleId',
     ContextField ''schema_id'' RuleId', ContextField ''object_name'' RuleId', Constructor,
     GetRuleIndex, TerminalGet T_DISABLE, TerminalGet T_TRIGGER, TerminalGet T_ON,
     TerminalAll T_ALL, TerminalNth T_ALL, TerminalGet T_DATABASE, TerminalGet T_SERVER,
     ContextAll RuleId', ContextNth RuleId', TerminalAll T_DOT, TerminalNth T_DOT,
     TerminalAll T_COMMA, TerminalNth T_COMMA, EnterRule, ExitRule, Accept]\<rparr>"

definition Enable_triggerContext :: context_class where [context_classes]:
  "Enable_triggerContext = \<lparr>class_id = RuleContext RuleEnable_trigger, class_base = ParserRuleContext, members = [
     ContextField ''schema_name'' RuleId', ContextField ''trigger_name'' RuleId',
     ContextField ''schema_id'' RuleId', ContextField ''object_name'' RuleId', Constructor,
     GetRuleIndex, TerminalGet T_ENABLE, TerminalGet T_TRIGGER, TerminalGet T_ON,
     TerminalAll T_ALL, TerminalNth T_ALL, TerminalGet T_DATABASE, TerminalGet T_SERVER,
     ContextAll RuleId', ContextNth RuleId', TerminalAll T_DOT, TerminalNth T_DOT,
     TerminalAll T_COMMA, TerminalNth T_COMMA, EnterRule, ExitRule, Accept]\<rparr>"

definition Lock_tableContext :: context_class where [context_classes]:
  "Lock_tableContext = \<lparr>class_id = RuleContext RuleLock_table, class_base = ParserRuleContext, members = [
     TokenField ''seconds'', Constructor, GetRuleIndex, TerminalGet T_LOCK,
     TerminalGet T_TABLE, ContextGet RuleTable_name, TerminalGet T_IN, TerminalGet T_MODE,
     TerminalGet T_SHARE, TerminalGet T_EXCLUSIVE, TerminalGet T_WAIT, TerminalGet T_NOWAIT,
     TerminalGet T_SEMI, TerminalGet T_DECIMAL, EnterRule, ExitRule, Accept]\<rparr>"

definition classes_1 :: "context_class list" where
  "classes_1 = [
     Tsql_fileContext, BatchContext, Batch_level_statementContext, Sql_clausesContext,
     Dml_clauseContext, Ddl_clauseContext, Backup_statementContext, Cfl_statementContext,
     Block_statementContext, Break_statementContext, Continue_statementContext,
     Goto_statementContext, Return_statementContext, If_statementContext,
     Throw_statementContext, Throw_error_numberContext, Throw_messageContext,
     Throw_stateContext, Try_catch_statementContext, Waitfor_statementContext,
     While_statementContext, Print_statementContext, Raiseerror_statementContext,
     Empty_statementContext, Another_statementContext, Alter_application_roleContext,
     Alter_xml_schema_collectionContext, Create_application_roleContext, Drop_aggregateContext,
     Drop_application_roleContext, Alter_assemblyContext, Alter_assembly_startContext,
     Alter_assembly_clauseContext, Alter_assembly_from_clauseContext,
     Alter_assembly_from_clause_startContext, Alter_assembly_drop_clauseContext,
     Alter_assembly_drop_multiple_filesContext, Alter_assembly_dropContext,
     Alter_assembly_add_clauseContext, Alter_asssembly_add_clause_startContext,
     Alter_assembly_client_file_clauseContext, Alter_assembly_file_nameContext,
     Alter_assembly_file_bitsContext, Alter_assembly_asContext,
     Alter_assembly_with_clauseContext, Alter_assembly_withContext,
     Client_assembly_specifierContext, Assembly_optionContext, Network_file_shareContext,
     Network_computerContext, Network_file_startContext, File_pathContext,
     File_directory_path_separatorContext, Local_fileContext, Local_driveContext,
     Multiple_local_filesContext, Multiple_local_file_startContext, Create_assemblyContext,
     Drop_assemblyContext, Alter_asymmetric_keyContext, Alter_asymmetric_key_startContext,
     Asymmetric_key_optionContext, Asymmetric_key_option_startContext,
     Asymmetric_key_password_change_optionContext, Create_asymmetric_keyContext,
     Drop_asymmetric_keyContext, Alter_authorizationContext, Authorization_granteeContext,
     Entity_toContext, Colon_colonContext, Alter_authorization_startContext,
     Alter_authorization_for_sql_databaseContext, Alter_authorization_for_azure_dwContext,
     Alter_authorization_for_parallel_dwContext, Class_typeContext,
     Class_type_for_sql_databaseContext, Class_type_for_azure_dwContext,
     Class_type_for_parallel_dwContext, Class_type_for_grantContext,
     Drop_availability_groupContext, Alter_availability_groupContext,
     Alter_availability_group_startContext, Alter_availability_group_optionsContext,
     Ip_v4_failoverContext, Ip_v6_failoverContext, Create_or_alter_broker_priorityContext,
     Drop_broker_priorityContext, Alter_certificateContext, Alter_column_encryption_keyContext,
     Create_column_encryption_keyContext, Drop_certificateContext,
     Drop_column_encryption_keyContext, Drop_column_master_keyContext, Drop_contractContext,
     Drop_credentialContext, Drop_cryptograhic_providerContext, Drop_databaseContext,
     Drop_database_audit_specificationContext, Drop_database_encryption_keyContext,
     Drop_database_scoped_credentialContext, Drop_defaultContext, Drop_endpointContext,
     Drop_external_data_sourceContext, Drop_external_file_formatContext,
     Drop_external_libraryContext, Drop_external_resource_poolContext,
     Drop_external_tableContext, Drop_event_notificationsContext, Drop_event_sessionContext,
     Drop_fulltext_catalogContext, Drop_fulltext_indexContext, Drop_fulltext_stoplistContext,
     Drop_loginContext, Drop_master_keyContext, Drop_message_typeContext,
     Drop_partition_functionContext, Drop_partition_schemeContext, Drop_queueContext,
     Drop_remote_service_bindingContext, Drop_resource_poolContext, Drop_db_roleContext,
     Drop_routeContext, Drop_ruleContext, Drop_schemaContext, Drop_search_property_listContext,
     Drop_security_policyContext, Drop_sequenceContext, Drop_server_auditContext,
     Drop_server_audit_specificationContext, Drop_server_roleContext, Drop_serviceContext,
     Drop_signatureContext, Drop_statistics_name_azure_dw_and_pdwContext,
     Drop_symmetric_keyContext, Drop_synonymContext, Drop_userContext,
     Drop_workload_groupContext, Drop_xml_schema_collectionContext, Disable_triggerContext,
     Enable_triggerContext, Lock_tableContext]"

end
