(* ===== verification/Conformance_1.thy ===== *)
theory Conformance_1
  imports Conforming Rules_1 Contexts_1
begin

text \<open>
  Part 1 of the comparison of \<open>TSqlParser.g4\<close> with the classes of \<open>TSqlParser.h\<close>: each rule
  with the classes the header declares for it, and the evaluation of the check.
\<close>

definition pairs_1 :: "(rule option \<times> context_class list) list" where
  "pairs_1 = [
     (Some g_tsql_file, [Tsql_fileContext]),
     (None, [BatchContext]),
     (Some g_batch_without_go, []),
     (Some g_batch_level_statement, [Batch_level_statementContext]),
     (Some g_sql_clauses, [Sql_clausesContext]),
     (Some g_dml_clause, [Dml_clauseContext]),
     (Some g_ddl_clause, [Ddl_clauseContext]),
     (Some g_backup_statement, [Backup_statementContext]),
     (Some g_cfl_statement, [Cfl_statementContext]),
     (Some g_block_statement, [Block_statementContext]),
     (Some g_break_statement, [Break_statementContext]),
     (Some g_continue_statement, [Continue_statementContext]),
     (Some g_goto_statement, [Goto_statementContext]),
     (Some g_return_statement, [Return_statementContext]),
     (Some g_if_statement, [If_statementContext]),
     (Some g_throw_statement, [Throw_statementContext]),
     (Some g_throw_error_number, [Throw_error_numberContext]),
     (Some g_throw_message, [Throw_messageContext]),
     (Some g_throw_state, [Throw_stateContext]),
     (Some g_try_catch_statement, [Try_catch_statementContext]),
     (Some g_waitfor_statement, [Waitfor_statementContext]),
     (Some g_while_statement, [While_statementContext]),
     (Some g_print_statement, [Print_statementContext]),
     (Some g_raiseerror_statement, [Raiseerror_statementContext]),
     (Some g_empty_statement, [Empty_statementContext]),
     (Some g_another_statement, [Another_statementContext]),
     (Some g_alter_application_role, [Alter_application_roleContext]),
     (Some g_alter_xml_schema_collection, [Alter_xml_schema_collectionContext]),
     (Some g_create_application_role, [Create_application_roleContext]),
     (Some g_drop_aggregate, [Drop_aggregateContext]),
     (Some g_drop_application_role, [Drop_application_roleContext]),
     (Some g_alter_assembly, [Alter_assemblyContext]),
     (Some g_alter_assembly_start, [Alter_assembly_startContext]),
     (Some g_alter_assembly_clause, [Alter_assembly_clauseContext]),
     (Some g_alter_assembly_from_clause, [Alter_assembly_from_clauseContext]),
     (Some g_alter_assembly_from_clause_start, [Alter_assembly_from_clause_startContext]),
     (Some g_alter_assembly_drop_clause, [Alter_assembly_drop_clauseContext]),
     (Some g_alter_assembly_drop_multiple_files, [Alter_assembly_drop_multiple_filesContext]),
     (Some g_alter_assembly_drop, [Alter_assembly_dropContext]),
     (Some g_alter_assembly_add_clause, [Alter_assembly_add_clauseContext]),
     (Some g_alter_asssembly_add_clause_start, [Alter_asssembly_add_clause_startContext]),
     (Some g_alter_assembly_client_file_clause, [Alter_assembly_client_file_clauseContext]),
     (Some g_alter_assembly_file_name, [Alter_assembly_file_nameContext]),
     (Some g_alter_assembly_file_bits, [Alter_assembly_file_bitsContext]),
     (Some g_alter_assembly_as, [Alter_assembly_asContext]),
     (Some g_alter_assembly_with_clause, [Alter_assembly_with_clauseContext]),
     (Some g_alter_assembly_with, [Alter_assembly_withContext]),
     (Some g_client_assembly_specifier, [Client_assembly_specifierContext]),
     (Some g_assembly_option, [Assembly_optionContext]),
     (Some g_network_file_share, [Network_file_shareContext]),
     (Some g_network_computer, [Network_computerContext]),
     (Some g_network_file_start, [Network_file_startContext]),
     (Some g_file_path, [File_pathContext]),
     (Some g_file_directory_path_separator, [File_directory_path_separatorContext]),
     (Some g_local_file, [Local_fileContext]),
     (Some g_local_drive, [Local_driveContext]),
     (Some g_multiple_local_files, [Multiple_local_filesContext]),
     (Some g_multiple_local_file_start, [Multiple_local_file_startContext]),
     (Some g_create_assembly, [Create_assemblyContext]),
     (Some g_drop_assembly, [Drop_assemblyContext]),
     (Some g_alter_asymmetric_key, [Alter_asymmetric_keyContext]),
     (Some g_alter_asymmetric_key_start, [Alter_asymmetric_key_startContext]),
     (Some g_asymmetric_key_option, [Asymmetric_key_optionContext]),
     (Some g_asymmetric_key_option_start, [Asymmetric_key_option_startContext]),
     (Some g_asymmetric_key_password_change_option, [Asymmetric_key_password_change_optionContext]),
     (Some g_create_asymmetric_key, [Create_asymmetric_keyContext]),
     (Some g_drop_asymmetric_key, [Drop_asymmetric_keyContext]),
     (Some g_alter_authorization, [Alter_authorizationContext]),
     (Some g_authorization_grantee, [Authorization_granteeContext]),
     (Some g_entity_to, [Entity_toContext]),
     (Some g_colon_colon, [Colon_colonContext]),
     (Some g_alter_authorization_start, [Alter_authorization_startContext]),
     (Some g_alter_authorization_for_sql_database, [Alter_authorization_for_sql_databaseContext]),
     (Some g_alter_authorization_for_azure_dw, [Alter_authorization_for_azure_dwContext]),
     (Some g_alter_authorization_for_parallel_dw, [Alter_authorization_for_parallel_dwContext]),
     (Some g_class_type, [Class_typeContext]),
     (Some g_class_type_for_sql_database, [Class_type_for_sql_databaseContext]),
     (Some g_class_type_for_azure_dw, [Class_type_for_azure_dwContext]),
     (Some g_class_type_for_parallel_dw, [Class_type_for_parallel_dwContext]),
     (Some g_class_type_for_grant, [Class_type_for_grantContext]),
     (Some g_drop_availability_group, [Drop_availability_groupContext]),
     (Some g_alter_availability_group, [Alter_availability_groupContext]),
     (Some g_alter_availability_group_start, [Alter_availability_group_startContext]),
     (Some g_alter_availability_group_options, [Alter_availability_group_optionsContext]),
     (Some g_ip_v4_failover, [Ip_v4_failoverContext]),
     (Some g_ip_v6_failover, [Ip_v6_failoverContext]),
     (Some g_create_or_alter_broker_priority, [Create_or_alter_broker_priorityContext]),
     (Some g_drop_broker_priority, [Drop_broker_priorityContext]),
     (Some g_alter_certificate, [Alter_certificateContext]),
     (Some g_alter_column_encryption_key, [Alter_column_encryption_keyContext]),
     (Some g_create_column_encryption_key, [Create_column_encryption_keyContext]),
     (Some g_drop_certificate, [Drop_certificateContext]),
     (Some g_drop_column_encryption_key, [Drop_column_encryption_keyContext]),
     (Some g_drop_column_master_key, [Drop_column_master_keyContext]),
     (Some g_drop_contract, [Drop_contractContext]),
     (Some g_drop_credential, [Drop_credentialContext]),
     (Some g_drop_cryptograhic_provider, [Drop_cryptograhic_providerContext]),
     (Some g_drop_database, [Drop_databaseContext]),
     (Some g_drop_database_audit_specification, [Drop_database_audit_specificationContext]),
     (Some g_drop_database_encryption_key, [Drop_database_encryption_keyContext]),
     (Some g_drop_database_scoped_credential, [Drop_database_scoped_credentialContext]),
     (Some g_drop_default, [Drop_defaultContext]),
     (Some g_drop_endpoint, [Drop_endpointContext]),
     (Some g_drop_external_data_source, [Drop_external_data_sourceContext]),
     (Some g_drop_external_file_format, [Drop_external_file_formatContext]),
     (Some g_drop_external_library, [Drop_external_libraryContext]),
     (Some g_drop_external_resource_pool, [Drop_external_resource_poolContext]),
     (Some g_drop_external_table, [Drop_external_tableContext]),
     (Some g_drop_event_notifications, [Drop_event_notificationsContext]),
     (Some g_drop_event_session, [Drop_event_sessionContext]),
     (Some g_drop_fulltext_catalog, [Drop_fulltext_catalogContext]),
     (Some g_drop_fulltext_index, [Drop_fulltext_indexContext]),
     (Some g_drop_fulltext_stoplist, [Drop_fulltext_stoplistContext]),
     (Some g_drop_login, [Drop_loginContext]),
     (Some g_drop_master_key, [Drop_master_keyContext]),
     (Some g_drop_message_type, [Drop_message_typeContext]),
     (Some g_drop_partition_function, [Drop_partition_functionContext]),
     (Some g_drop_partition_scheme, [Drop_partition_schemeContext]),
     (Some g_drop_queue, [Drop_queueContext]),
     (Some g_drop_remote_service_binding, [Drop_remote_service_bindingContext]),
     (Some g_drop_resource_pool, [Drop_resource_poolContext]),
     (Some g_drop_db_role, [Drop_db_roleContext]),
     (Some g_drop_route, [Drop_routeContext]),
     (Some g_drop_rule, [Drop_ruleContext]),
     (Some g_drop_schema, [Drop_schemaContext]),
     (Some g_drop_search_property_list, [Drop_search_property_listContext]),
     (Some g_drop_security_policy, [Drop_security_policyContext]),
     (Some g_drop_sequence, [Drop_sequenceContext]),
     (Some g_drop_server_audit, [Drop_server_auditContext]),
     (Some g_drop_server_audit_specification, [Drop_server_audit_specificationContext]),
     (Some g_drop_server_role, [Drop_server_roleContext]),
     (Some g_drop_service, [Drop_serviceContext]),
     (Some g_drop_signature, [Drop_signatureContext]),
     (Some g_drop_statistics_name_azure_dw_and_pdw, [Drop_statistics_name_azure_dw_and_pdwContext]),
     (Some g_drop_symmetric_key, [Drop_symmetric_keyContext]),
     (Some g_drop_synonym, [Drop_synonymContext]),
     (Some g_drop_user, [Drop_userContext]),
     (Some g_drop_workload_group, [Drop_workload_groupContext]),
     (Some g_drop_xml_schema_collection, [Drop_xml_schema_collectionContext]),
     (Some g_disable_trigger, [Disable_triggerContext]),
     (Some g_enable_trigger, [Enable_triggerContext]),
     (Some g_lock_table, [Lock_tableContext])]"

lemma pairs_1_ok: "list_all pair_ok pairs_1"
  by (simp only: conformance_eval pairs_1_def grammar_rules context_classes cong: opaque case_opaque)

end
