(* ===== verification/Rules_2.thy ===== *)
theory Rules_2
  imports Grammar Tokens Rule_Ids Label_Ids
begin

text \<open>
  Rules of \<open>src/TSqlParser.g4\<close>, from \<open>truncate_table\<close> to \<open>delete_statement\<close>: one definition per
  rule, its alternatives in the order of the file.  A quoted literal of the grammar is the
  token whose lexer rule is that literal.
\<close>

definition g_truncate_table :: rule where [grammar_rules]:
  "g_truncate_table = \<lparr>rule_index = RuleTruncate_table, rule_alts = [
       (None, Seq [Tok T_TRUNCATE, Tok T_TABLE, Ref RuleTable_name, Opt (Seq [Tok T_WITH,
         Tok T_LR_BRACKET, Tok T_PARTITIONS, Tok T_LR_BRACKET, Plus (Seq [Opt (Tok T_COMMA),
         Alt [Tok T_DECIMAL, Seq [Tok T_DECIMAL, Tok T_TO, Tok T_DECIMAL]]]), Tok T_RR_BRACKET,
         Tok T_RR_BRACKET])])]\<rparr>"

definition g_create_column_master_key :: rule where [grammar_rules]:
  "g_create_column_master_key = \<lparr>rule_index = RuleCreate_column_master_key, rule_alts = [
       (None, Seq [Tok T_CREATE, Tok T_COLUMN, Tok T_MASTER, Tok T_KEY,
         Lab (Assign ''key_name'') (Ref RuleId'), Tok T_WITH, Tok T_LR_BRACKET,
         Tok T_KEY_STORE_PROVIDER_NAME, Tok T_EQUAL,
         Lab (Assign ''key_store_provider_name'') (Tok T_STRING), Tok T_COMMA, Tok T_KEY_PATH,
         Tok T_EQUAL, Lab (Assign ''key_path'') (Tok T_STRING), Tok T_RR_BRACKET])]\<rparr>"

definition g_alter_credential :: rule where [grammar_rules]:
  "g_alter_credential = \<lparr>rule_index = RuleAlter_credential, rule_alts = [
       (None, Seq [Tok T_ALTER, Tok T_CREDENTIAL,
         Lab (Assign ''credential_name'') (Ref RuleId'), Tok T_WITH, Tok T_IDENTITY,
         Tok T_EQUAL, Lab (Assign ''identity_name'') (Tok T_STRING), Opt (Seq [Tok T_COMMA,
         Tok T_SECRET, Tok T_EQUAL, Lab (Assign ''secret'') (Tok T_STRING)])])]\<rparr>"

definition g_create_credential :: rule where [grammar_rules]:
  "g_create_credential = \<lparr>rule_index = RuleCreate_credential, rule_alts = [
       (None, Seq [Tok T_CREATE, Tok T_CREDENTIAL,
         Lab (Assign ''credential_name'') (Ref RuleId'), Tok T_WITH, Tok T_IDENTITY,
         Tok T_EQUAL, Lab (Assign ''identity_name'') (Tok T_STRING), Opt (Seq [Tok T_COMMA,
         Tok T_SECRET, Tok T_EQUAL, Lab (Assign ''secret'') (Tok T_STRING)]),
         Opt (Seq [Tok T_FOR, Tok T_CRYPTOGRAPHIC, Tok T_PROVIDER,
         Lab (Assign ''cryptographic_provider_name'') (Ref RuleId')])])]\<rparr>"

definition g_alter_cryptographic_provider :: rule where [grammar_rules]:
  "g_alter_cryptographic_provider = \<lparr>rule_index = RuleAlter_cryptographic_provider, rule_alts = [
       (None, Seq [Tok T_ALTER, Tok T_CRYPTOGRAPHIC, Tok T_PROVIDER,
         Lab (Assign ''provider_name'') (Ref RuleId'), Opt (Seq [Tok T_FROM, Tok T_FILE,
         Tok T_EQUAL, Lab (Assign ''crypto_provider_ddl_file'') (Tok T_STRING)]),
         Opt (Alt [Tok T_ENABLE, Tok T_DISABLE])])]\<rparr>"

definition g_create_cryptographic_provider :: rule where [grammar_rules]:
  "g_create_cryptographic_provider = \<lparr>rule_index = RuleCreate_cryptographic_provider, rule_alts = [
       (None, Seq [Tok T_CREATE, Tok T_CRYPTOGRAPHIC, Tok T_PROVIDER,
         Lab (Assign ''provider_name'') (Ref RuleId'), Tok T_FROM, Tok T_FILE, Tok T_EQUAL,
         Lab (Assign ''path_of_DLL'') (Tok T_STRING)])]\<rparr>"

definition g_create_endpoint :: rule where [grammar_rules]:
  "g_create_endpoint = \<lparr>rule_index = RuleCreate_endpoint, rule_alts = [
       (None, Seq [Tok T_CREATE, Tok T_ENDPOINT, Lab (Assign ''endpointname'') (Ref RuleId'),
         Opt (Seq [Tok T_AUTHORIZATION, Lab (Assign ''login'') (Ref RuleId')]),
         Opt (Seq [Tok T_STATE, Tok T_EQUAL, Lab (Assign ''state'') (Alt [Tok T_STARTED,
         Tok T_STOPPED, Tok T_DISABLED])]), Tok T_AS, Tok T_TCP, Tok T_LR_BRACKET,
         Ref RuleEndpoint_listener_clause, Tok T_RR_BRACKET, Alt [Seq [Tok T_FOR, Tok T_TSQL,
         Tok T_LR_BRACKET, Tok T_RR_BRACKET], Seq [Tok T_FOR, Tok T_SERVICE_BROKER,
         Tok T_LR_BRACKET, Ref RuleEndpoint_authentication_clause, Opt (Seq [Opt (Tok T_COMMA),
         Ref RuleEndpoint_encryption_alogorithm_clause]), Opt (Seq [Opt (Tok T_COMMA),
         Tok T_MESSAGE_FORWARDING, Tok T_EQUAL, Alt [Tok T_ENABLED, Tok T_DISABLED]]),
         Opt (Seq [Opt (Tok T_COMMA), Tok T_MESSAGE_FORWARD_SIZE, Tok T_EQUAL, Tok T_DECIMAL]),
         Tok T_RR_BRACKET], Seq [Tok T_FOR, Tok T_DATABASE_MIRRORING, Tok T_LR_BRACKET,
         Ref RuleEndpoint_authentication_clause, Opt (Seq [Opt (Tok T_COMMA),
         Ref RuleEndpoint_encryption_alogorithm_clause]), Opt (Tok T_COMMA), Tok T_ROLE,
         Tok T_EQUAL, Alt [Tok T_WITNESS, Tok T_PARTNER, Tok T_ALL], Tok T_RR_BRACKET]]])]\<rparr>"

definition g_endpoint_encryption_alogorithm_clause :: rule where [grammar_rules]:
  "g_endpoint_encryption_alogorithm_clause = \<lparr>rule_index = RuleEndpoint_encryption_alogorithm_clause, rule_alts = [
       (None, Seq [Tok T_ENCRYPTION, Tok T_EQUAL, Alt [Tok T_DISABLED, Tok T_SUPPORTED,
         Tok T_REQUIRED], Opt (Seq [Tok T_ALGORITHM, Alt [Seq [Tok T_AES, Opt (Tok T_RC4)],
         Seq [Tok T_RC4, Opt (Tok T_AES)]]])])]\<rparr>"

definition g_endpoint_authentication_clause :: rule where [grammar_rules]:
  "g_endpoint_authentication_clause = \<lparr>rule_index = RuleEndpoint_authentication_clause, rule_alts = [
       (None, Seq [Tok T_AUTHENTICATION, Tok T_EQUAL, Alt [Seq [Tok T_WINDOWS,
         Opt (Alt [Tok T_NTLM, Tok T_KERBEROS, Tok T_NEGOTIATE]), Opt (Seq [Tok T_CERTIFICATE,
         Lab (Assign ''cert_name'') (Ref RuleId')])], Seq [Tok T_CERTIFICATE,
         Lab (Assign ''cert_name'') (Ref RuleId'), Opt (Tok T_WINDOWS), Opt (Alt [Tok T_NTLM,
         Tok T_KERBEROS, Tok T_NEGOTIATE])]]])]\<rparr>"

definition g_endpoint_listener_clause :: rule where [grammar_rules]:
  "g_endpoint_listener_clause = \<lparr>rule_index = RuleEndpoint_listener_clause, rule_alts = [
       (None, Seq [Tok T_LISTENER_PORT, Tok T_EQUAL, Lab (Assign ''port'') (Tok T_DECIMAL),
         Opt (Seq [Tok T_COMMA, Tok T_LISTENER_IP, Tok T_EQUAL, Alt [Tok T_ALL,
         Seq [Tok T_LR_BRACKET, Alt [Lab (Assign ''ipv4'') (Tok T_IPV4_ADDR),
         Lab (Assign ''ipv6'') (Tok T_STRING)], Tok T_RR_BRACKET]]])])]\<rparr>"

definition g_create_event_notification :: rule where [grammar_rules]:
  "g_create_event_notification = \<lparr>rule_index = RuleCreate_event_notification, rule_alts = [
       (None, Seq [Tok T_CREATE, Tok T_EVENT, Tok T_NOTIFICATION,
         Lab (Assign ''event_notification_name'') (Ref RuleId'), Tok T_ON, Alt [Tok T_SERVER,
         Tok T_DATABASE, Seq [Tok T_QUEUE, Lab (Assign ''queue_name'') (Ref RuleId')]],
         Opt (Seq [Tok T_WITH, Tok T_FAN_IN]), Tok T_FOR, Plus (Seq [Opt (Tok T_COMMA),
         Lab (Assign ''event_type_or_group'') (Ref RuleId')]), Tok T_TO, Tok T_SERVICE,
         Lab (Assign ''broker_service'') (Tok T_STRING), Tok T_COMMA,
         Lab (Assign ''broker_service_specifier_or_current_database'') (Tok T_STRING)])]\<rparr>"

definition g_create_or_alter_event_session :: rule where [grammar_rules]:
  "g_create_or_alter_event_session = \<lparr>rule_index = RuleCreate_or_alter_event_session, rule_alts = [
       (None, Seq [Alt [Tok T_CREATE, Tok T_ALTER], Tok T_EVENT, Tok T_SESSION,
         Lab (Assign ''event_session_name'') (Ref RuleId'), Tok T_ON, Tok T_SERVER,
         Star (Seq [Opt (Tok T_COMMA), Tok T_ADD, Tok T_EVENT,
         Seq [Opt (Seq [Lab (Assign ''event_module_guid'') (Ref RuleId'), Tok T_DOT]),
         Lab (Assign ''event_package_name'') (Ref RuleId'), Tok T_DOT,
         Lab (Assign ''event_name'') (Ref RuleId')], Star (Seq [Tok T_LR_BRACKET,
         Opt (Seq [Tok T_SET, Star (Seq [Opt (Tok T_COMMA),
         Lab (Assign ''event_customizable_attributue'') (Ref RuleId'), Tok T_EQUAL,
         Alt [Tok T_DECIMAL, Tok T_STRING]])]), Plus (Seq [Tok T_ACTION, Tok T_LR_BRACKET,
         Plus (Seq [Opt (Tok T_COMMA),
         Opt (Seq [Lab (Assign ''event_module_guid'') (Ref RuleId'), Tok T_DOT]),
         Lab (Assign ''event_package_name'') (Ref RuleId'), Tok T_DOT,
         Lab (Assign ''action_name'') (Ref RuleId')]), Tok T_RR_BRACKET]),
         Opt (Seq [Tok T_WHERE, Ref RuleEvent_session_predicate_expression]),
         Tok T_RR_BRACKET])]), Star (Seq [Opt (Tok T_COMMA), Tok T_DROP, Tok T_EVENT,
         Opt (Seq [Lab (Assign ''event_module_guid'') (Ref RuleId'), Tok T_DOT]),
         Lab (Assign ''event_package_name'') (Ref RuleId'), Tok T_DOT,
         Lab (Assign ''event_name'') (Ref RuleId')]), Star (Seq [Seq [Tok T_ADD, Tok T_TARGET,
         Opt (Seq [Lab (Assign ''event_module_guid'') (Ref RuleId'), Tok T_DOT]),
         Lab (Assign ''event_package_name'') (Ref RuleId'), Tok T_DOT,
         Lab (Assign ''target_name'') (Ref RuleId')], Star (Seq [Tok T_LR_BRACKET, Tok T_SET,
         Plus (Seq [Opt (Tok T_COMMA), Lab (Assign ''target_parameter_name'') (Ref RuleId'),
         Tok T_EQUAL, Alt [Seq [Opt (Tok T_LR_BRACKET), Tok T_DECIMAL, Opt (Tok T_RR_BRACKET)],
         Tok T_STRING]]), Tok T_RR_BRACKET])]), Star (Seq [Tok T_DROP, Tok T_TARGET,
         Opt (Seq [Lab (Assign ''event_module_guid'') (Ref RuleId'), Tok T_DOT]),
         Lab (Assign ''event_package_name'') (Ref RuleId'), Tok T_DOT,
         Lab (Assign ''target_name'') (Ref RuleId')]), Opt (Seq [Tok T_WITH, Tok T_LR_BRACKET,
         Opt (Seq [Opt (Tok T_COMMA), Tok T_MAX_MEMORY, Tok T_EQUAL,
         Lab (Assign ''max_memory'') (Tok T_DECIMAL), Alt [Tok T_KB, Tok T_MB]]),
         Opt (Seq [Opt (Tok T_COMMA), Tok T_EVENT_RETENTION_MODE, Tok T_EQUAL,
         Alt [Tok T_ALLOW_SINGLE_EVENT_LOSS, Tok T_ALLOW_MULTIPLE_EVENT_LOSS,
         Tok T_NO_EVENT_LOSS]]), Opt (Seq [Opt (Tok T_COMMA), Tok T_MAX_DISPATCH_LATENCY,
         Tok T_EQUAL, Alt [Seq [Lab (Assign ''max_dispatch_latency_seconds'') (Tok T_DECIMAL),
         Tok T_SECONDS], Tok T_INFINITE]]), Opt (Seq [Opt (Tok T_COMMA), Tok T_MAX_EVENT_SIZE,
         Tok T_EQUAL, Lab (Assign ''max_event_size'') (Tok T_DECIMAL), Alt [Tok T_KB,
         Tok T_MB]]), Opt (Seq [Opt (Tok T_COMMA), Tok T_MEMORY_PARTITION_MODE, Tok T_EQUAL,
         Alt [Tok T_NONE, Tok T_PER_NODE, Tok T_PER_CPU]]), Opt (Seq [Opt (Tok T_COMMA),
         Tok T_TRACK_CAUSALITY, Tok T_EQUAL, Alt [Tok T_ON, Tok T_OFF]]),
         Opt (Seq [Opt (Tok T_COMMA), Tok T_STARTUP_STATE, Tok T_EQUAL, Alt [Tok T_ON,
         Tok T_OFF]]), Tok T_RR_BRACKET]), Opt (Seq [Tok T_STATE, Tok T_EQUAL,
         Alt [Tok T_START, Tok T_STOP]])])]\<rparr>"

definition g_event_session_predicate_expression :: rule where [grammar_rules]:
  "g_event_session_predicate_expression = \<lparr>rule_index = RuleEvent_session_predicate_expression, rule_alts = [
       (None, Plus (Seq [Opt (Tok T_COMMA), Opt (Alt [Tok T_AND, Tok T_OR]), Opt (Tok T_NOT),
         Alt [Ref RuleEvent_session_predicate_factor, Seq [Tok T_LR_BRACKET,
         Ref RuleEvent_session_predicate_expression, Tok T_RR_BRACKET]]]))]\<rparr>"

definition g_event_session_predicate_factor :: rule where [grammar_rules]:
  "g_event_session_predicate_factor = \<lparr>rule_index = RuleEvent_session_predicate_factor, rule_alts = [
       (None, Ref RuleEvent_session_predicate_leaf),
       (None, Seq [Tok T_LR_BRACKET, Ref RuleEvent_session_predicate_expression,
         Tok T_RR_BRACKET])]\<rparr>"

definition g_event_session_predicate_leaf :: rule where [grammar_rules]:
  "g_event_session_predicate_leaf = \<lparr>rule_index = RuleEvent_session_predicate_leaf, rule_alts = [
       (None, Alt [Lab (Assign ''event_field_name'') (Ref RuleId'),
         Seq [Alt [Lab (Assign ''event_field_name'') (Ref RuleId'),
         Seq [Opt (Seq [Lab (Assign ''event_module_guid'') (Ref RuleId'), Tok T_DOT]),
         Lab (Assign ''event_package_name'') (Ref RuleId'), Tok T_DOT,
         Lab (Assign ''predicate_source_name'') (Ref RuleId')]], Alt [Tok T_EQUAL,
         Seq [Tok T_LESS, Tok T_GREATER], Seq [Tok T_EXCLAMATION, Tok T_EQUAL], Tok T_GREATER,
         Seq [Tok T_GREATER, Tok T_EQUAL], Tok T_LESS, Seq [Tok T_LESS, Tok T_EQUAL]],
         Alt [Tok T_DECIMAL, Tok T_STRING]]]),
       (None, Seq [Opt (Seq [Lab (Assign ''event_module_guid'') (Ref RuleId'), Tok T_DOT]),
         Lab (Assign ''event_package_name'') (Ref RuleId'), Tok T_DOT,
         Lab (Assign ''predicate_compare_name'') (Ref RuleId'), Tok T_LR_BRACKET,
         Alt [Lab (Assign ''event_field_name'') (Ref RuleId'),
         Seq [Seq [Opt (Seq [Lab (Assign ''event_module_guid'') (Ref RuleId'), Tok T_DOT]),
         Lab (Assign ''event_package_name'') (Ref RuleId'), Tok T_DOT,
         Lab (Assign ''predicate_source_name'') (Ref RuleId')], Tok T_COMMA,
         Alt [Tok T_DECIMAL, Tok T_STRING]]], Tok T_RR_BRACKET])]\<rparr>"

definition g_alter_external_data_source :: rule where [grammar_rules]:
  "g_alter_external_data_source = \<lparr>rule_index = RuleAlter_external_data_source, rule_alts = [
       (None, Seq [Tok T_ALTER, Tok T_EXTERNAL, Tok T_DATA, Tok T_SOURCE,
         Lab (Assign ''data_source_name'') (Ref RuleId'), Tok T_SET,
         Plus (Alt [Seq [Tok T_LOCATION, Tok T_EQUAL, Lab (Assign ''location'') (Tok T_STRING),
         Opt (Tok T_COMMA)], Seq [Tok T_RESOURCE_MANAGER_LOCATION, Tok T_EQUAL,
         Lab (Assign ''resource_manager_location'') (Tok T_STRING), Opt (Tok T_COMMA)],
         Seq [Tok T_CREDENTIAL, Tok T_EQUAL,
         Lab (Assign ''credential_name'') (Ref RuleId')]])]),
       (None, Seq [Tok T_ALTER, Tok T_EXTERNAL, Tok T_DATA, Tok T_SOURCE,
         Lab (Assign ''data_source_name'') (Ref RuleId'), Tok T_WITH, Tok T_LR_BRACKET,
         Tok T_TYPE, Tok T_EQUAL, Tok T_BLOB_STORAGE, Tok T_COMMA, Tok T_LOCATION, Tok T_EQUAL,
         Lab (Assign ''location'') (Tok T_STRING), Opt (Seq [Tok T_COMMA, Tok T_CREDENTIAL,
         Tok T_EQUAL, Lab (Assign ''credential_name'') (Ref RuleId')]), Tok T_RR_BRACKET])]\<rparr>"

definition g_alter_external_library :: rule where [grammar_rules]:
  "g_alter_external_library = \<lparr>rule_index = RuleAlter_external_library, rule_alts = [
       (None, Seq [Tok T_ALTER, Tok T_EXTERNAL, Tok T_LIBRARY,
         Lab (Assign ''library_name'') (Ref RuleId'), Opt (Seq [Tok T_AUTHORIZATION,
         Lab (Assign ''owner_name'') (Ref RuleId')]), Alt [Tok T_SET, Tok T_ADD],
         Seq [Tok T_LR_BRACKET, Tok T_CONTENT, Tok T_EQUAL,
         Alt [Lab (Assign ''client_library'') (Tok T_STRING), Tok T_BINARY, Tok T_NONE],
         Seq [Tok T_COMMA, Tok T_PLATFORM, Tok T_EQUAL, Opt (Alt [Tok T_WINDOWS, Tok T_LINUX]),
         Tok T_RR_BRACKET], Tok T_WITH, Plus (Alt [Seq [Opt (Tok T_COMMA), Tok T_LANGUAGE,
         Tok T_EQUAL, Alt [Tok T_R, Tok T_PYTHON]], Seq [Tok T_DATA_SOURCE, Tok T_EQUAL,
         Lab (Assign ''external_data_source_name'') (Ref RuleId')]]), Tok T_RR_BRACKET]])]\<rparr>"

definition g_create_external_library :: rule where [grammar_rules]:
  "g_create_external_library = \<lparr>rule_index = RuleCreate_external_library, rule_alts = [
       (None, Seq [Tok T_CREATE, Tok T_EXTERNAL, Tok T_LIBRARY,
         Lab (Assign ''library_name'') (Ref RuleId'), Opt (Seq [Tok T_AUTHORIZATION,
         Lab (Assign ''owner_name'') (Ref RuleId')]), Tok T_FROM, Seq [Opt (Tok T_COMMA),
         Opt (Tok T_LR_BRACKET), Opt (Seq [Tok T_CONTENT, Tok T_EQUAL]),
         Alt [Lab (Assign ''client_library'') (Tok T_STRING), Tok T_BINARY, Tok T_NONE],
         Opt (Seq [Tok T_COMMA, Tok T_PLATFORM, Tok T_EQUAL, Opt (Alt [Tok T_WINDOWS,
         Tok T_LINUX]), Tok T_RR_BRACKET])], Opt (Seq [Tok T_WITH,
         Plus (Alt [Seq [Opt (Tok T_COMMA), Tok T_LANGUAGE, Tok T_EQUAL, Alt [Tok T_R,
         Tok T_PYTHON]], Seq [Tok T_DATA_SOURCE, Tok T_EQUAL,
         Lab (Assign ''external_data_source_name'') (Ref RuleId')]]), Tok T_RR_BRACKET])])]\<rparr>"

definition g_alter_external_resource_pool :: rule where [grammar_rules]:
  "g_alter_external_resource_pool = \<lparr>rule_index = RuleAlter_external_resource_pool, rule_alts = [
       (None, Seq [Tok T_ALTER, Tok T_EXTERNAL, Tok T_RESOURCE, Tok T_POOL,
         Alt [Lab (Assign ''pool_name'') (Ref RuleId'), Tok T_DEFAULT_DOUBLE_QUOTE],
         Tok T_WITH, Tok T_LR_BRACKET, Tok T_MAX_CPU_PERCENT, Tok T_EQUAL,
         Lab (Assign ''max_cpu_percent'') (Tok T_DECIMAL), Alt [Seq [Opt (Tok T_COMMA),
         Tok T_AFFINITY, Tok T_CPU, Tok T_EQUAL, Alt [Tok T_AUTO,
         Plus (Alt [Seq [Opt (Tok T_COMMA), Tok T_DECIMAL, Tok T_TO, Tok T_DECIMAL],
         Seq [Tok T_COMMA, Tok T_DECIMAL]])]], Seq [Tok T_NUMANODE, Tok T_EQUAL,
         Plus (Alt [Seq [Opt (Tok T_COMMA), Tok T_DECIMAL, Tok T_TO, Tok T_DECIMAL],
         Seq [Opt (Tok T_COMMA), Tok T_DECIMAL]])]], Opt (Seq [Opt (Tok T_COMMA),
         Tok T_MAX_MEMORY_PERCENT, Tok T_EQUAL,
         Lab (Assign ''max_memory_percent'') (Tok T_DECIMAL)]), Opt (Seq [Opt (Tok T_COMMA),
         Tok T_MAX_PROCESSES, Tok T_EQUAL, Lab (Assign ''max_processes'') (Tok T_DECIMAL)]),
         Tok T_RR_BRACKET])]\<rparr>"

definition g_create_external_resource_pool :: rule where [grammar_rules]:
  "g_create_external_resource_pool = \<lparr>rule_index = RuleCreate_external_resource_pool, rule_alts = [
       (None, Seq [Tok T_CREATE, Tok T_EXTERNAL, Tok T_RESOURCE, Tok T_POOL,
         Lab (Assign ''pool_name'') (Ref RuleId'), Tok T_WITH, Tok T_LR_BRACKET,
         Tok T_MAX_CPU_PERCENT, Tok T_EQUAL, Lab (Assign ''max_cpu_percent'') (Tok T_DECIMAL),
         Alt [Seq [Opt (Tok T_COMMA), Tok T_AFFINITY, Tok T_CPU, Tok T_EQUAL, Alt [Tok T_AUTO,
         Plus (Alt [Seq [Opt (Tok T_COMMA), Tok T_DECIMAL, Tok T_TO, Tok T_DECIMAL],
         Seq [Tok T_COMMA, Tok T_DECIMAL]])]], Seq [Tok T_NUMANODE, Tok T_EQUAL,
         Plus (Alt [Seq [Opt (Tok T_COMMA), Tok T_DECIMAL, Tok T_TO, Tok T_DECIMAL],
         Seq [Opt (Tok T_COMMA), Tok T_DECIMAL]])]], Opt (Seq [Opt (Tok T_COMMA),
         Tok T_MAX_MEMORY_PERCENT, Tok T_EQUAL,
         Lab (Assign ''max_memory_percent'') (Tok T_DECIMAL)]), Opt (Seq [Opt (Tok T_COMMA),
         Tok T_MAX_PROCESSES, Tok T_EQUAL, Lab (Assign ''max_processes'') (Tok T_DECIMAL)]),
         Tok T_RR_BRACKET])]\<rparr>"

definition g_alter_fulltext_catalog :: rule where [grammar_rules]:
  "g_alter_fulltext_catalog = \<lparr>rule_index = RuleAlter_fulltext_catalog, rule_alts = [
       (None, Seq [Tok T_ALTER, Tok T_FULLTEXT, Tok T_CATALOG,
         Lab (Assign ''catalog_name'') (Ref RuleId'), Alt [Seq [Tok T_REBUILD,
         Opt (Seq [Tok T_WITH, Tok T_ACCENT_SENSITIVITY, Tok T_EQUAL, Alt [Tok T_ON,
         Tok T_OFF]])], Tok T_REORGANIZE, Seq [Tok T_AS, Tok T_DEFAULT]]])]\<rparr>"

definition g_create_fulltext_catalog :: rule where [grammar_rules]:
  "g_create_fulltext_catalog = \<lparr>rule_index = RuleCreate_fulltext_catalog, rule_alts = [
       (None, Seq [Tok T_CREATE, Tok T_FULLTEXT, Tok T_CATALOG,
         Lab (Assign ''catalog_name'') (Ref RuleId'), Opt (Seq [Tok T_ON, Tok T_FILEGROUP,
         Lab (Assign ''filegroup'') (Ref RuleId')]), Opt (Seq [Tok T_IN, Tok T_PATH,
         Lab (Assign ''rootpath'') (Tok T_STRING)]), Opt (Seq [Tok T_WITH,
         Tok T_ACCENT_SENSITIVITY, Tok T_EQUAL, Alt [Tok T_ON, Tok T_OFF]]),
         Opt (Seq [Tok T_AS, Tok T_DEFAULT]), Opt (Seq [Tok T_AUTHORIZATION,
         Lab (Assign ''owner_name'') (Ref RuleId')])])]\<rparr>"

definition g_alter_fulltext_stoplist :: rule where [grammar_rules]:
  "g_alter_fulltext_stoplist = \<lparr>rule_index = RuleAlter_fulltext_stoplist, rule_alts = [
       (None, Seq [Tok T_ALTER, Tok T_FULLTEXT, Tok T_STOPLIST,
         Lab (Assign ''stoplist_name'') (Ref RuleId'), Alt [Seq [Tok T_ADD,
         Lab (Assign ''stopword'') (Tok T_STRING), Tok T_LANGUAGE, Alt [Tok T_STRING,
         Tok T_DECIMAL, Tok T_BINARY]], Seq [Tok T_DROP,
         Alt [Seq [Lab (Assign ''stopword'') (Tok T_STRING), Tok T_LANGUAGE, Alt [Tok T_STRING,
         Tok T_DECIMAL, Tok T_BINARY]], Seq [Tok T_ALL, Alt [Tok T_STRING, Tok T_DECIMAL,
         Tok T_BINARY]], Tok T_ALL]]]])]\<rparr>"

definition g_create_fulltext_stoplist :: rule where [grammar_rules]:
  "g_create_fulltext_stoplist = \<lparr>rule_index = RuleCreate_fulltext_stoplist, rule_alts = [
       (None, Seq [Tok T_CREATE, Tok T_FULLTEXT, Tok T_STOPLIST,
         Lab (Assign ''stoplist_name'') (Ref RuleId'), Opt (Seq [Tok T_FROM,
         Alt [Seq [Opt (Seq [Lab (Assign ''database_name'') (Ref RuleId'), Tok T_DOT]),
         Lab (Assign ''source_stoplist_name'') (Ref RuleId')], Seq [Tok T_SYSTEM,
         Tok T_STOPLIST]]]), Opt (Seq [Tok T_AUTHORIZATION,
         Lab (Assign ''owner_name'') (Ref RuleId')])])]\<rparr>"

definition g_alter_login_sql_server :: rule where [grammar_rules]:
  "g_alter_login_sql_server = \<lparr>rule_index = RuleAlter_login_sql_server, rule_alts = [
       (None, Seq [Tok T_ALTER, Tok T_LOGIN, Lab (Assign ''login_name'') (Ref RuleId'),
         Alt [Opt (Alt [Tok T_ENABLE, Tok T_DISABLE]), Seq [Tok T_WITH,
         Opt (Seq [Seq [Tok T_PASSWORD, Tok T_EQUAL,
         Alt [Lab (Assign ''password'') (Tok T_STRING),
         Seq [Lab (Assign ''password_hash'') (Tok T_BINARY), Tok T_HASHED]]],
         Star (Alt [Tok T_MUST_CHANGE, Tok T_UNLOCK])]), Opt (Seq [Tok T_OLD_PASSWORD,
         Tok T_EQUAL, Lab (Assign ''old_password'') (Tok T_STRING),
         Star (Alt [Tok T_MUST_CHANGE, Tok T_UNLOCK])]), Opt (Seq [Tok T_DEFAULT_DATABASE,
         Tok T_EQUAL, Lab (Assign ''default_database'') (Ref RuleId')]),
         Opt (Seq [Tok T_DEFAULT_LANGUAGE, Tok T_EQUAL,
         Lab (Assign ''default_laguage'') (Ref RuleId')]), Opt (Seq [Tok T_NAME, Tok T_EQUAL,
         Lab (Assign ''login_name'') (Ref RuleId')]), Opt (Seq [Tok T_CHECK_POLICY,
         Tok T_EQUAL, Alt [Tok T_ON, Tok T_OFF]]), Opt (Seq [Tok T_CHECK_EXPIRATION,
         Tok T_EQUAL, Alt [Tok T_ON, Tok T_OFF]]), Opt (Seq [Tok T_CREDENTIAL, Tok T_EQUAL,
         Lab (Assign ''credential_name'') (Ref RuleId')]), Opt (Seq [Tok T_NO,
         Tok T_CREDENTIAL])], Seq [Alt [Tok T_ADD, Tok T_DROP], Tok T_CREDENTIAL,
         Lab (Assign ''credential_name'') (Ref RuleId')]]])]\<rparr>"

definition g_create_login_sql_server :: rule where [grammar_rules]:
  "g_create_login_sql_server = \<lparr>rule_index = RuleCreate_login_sql_server, rule_alts = [
       (None, Seq [Tok T_CREATE, Tok T_LOGIN, Lab (Assign ''login_name'') (Ref RuleId'),
         Alt [Seq [Tok T_WITH, Opt (Seq [Seq [Tok T_PASSWORD, Tok T_EQUAL,
         Alt [Lab (Assign ''password'') (Tok T_STRING),
         Seq [Lab (Assign ''password_hash'') (Tok T_BINARY), Tok T_HASHED]]],
         Star (Alt [Tok T_MUST_CHANGE, Tok T_UNLOCK])]), Opt (Seq [Opt (Tok T_COMMA),
         Tok T_SID, Tok T_EQUAL, Lab (Assign ''sid'') (Tok T_BINARY)]),
         Opt (Seq [Opt (Tok T_COMMA), Tok T_DEFAULT_DATABASE, Tok T_EQUAL,
         Lab (Assign ''default_database'') (Ref RuleId')]), Opt (Seq [Opt (Tok T_COMMA),
         Tok T_DEFAULT_LANGUAGE, Tok T_EQUAL, Lab (Assign ''default_laguage'') (Ref RuleId')]),
         Opt (Seq [Opt (Tok T_COMMA), Tok T_CHECK_EXPIRATION, Tok T_EQUAL, Alt [Tok T_ON,
         Tok T_OFF]]), Opt (Seq [Opt (Tok T_COMMA), Tok T_CHECK_POLICY, Tok T_EQUAL,
         Alt [Tok T_ON, Tok T_OFF]]), Opt (Seq [Opt (Tok T_COMMA), Tok T_CREDENTIAL,
         Tok T_EQUAL, Lab (Assign ''credential_name'') (Ref RuleId')])], Seq [Tok T_FROM,
         Alt [Seq [Tok T_WINDOWS, Seq [Tok T_WITH, Opt (Seq [Opt (Tok T_COMMA),
         Tok T_DEFAULT_DATABASE, Tok T_EQUAL,
         Lab (Assign ''default_database'') (Ref RuleId')]), Opt (Seq [Opt (Tok T_COMMA),
         Tok T_DEFAULT_LANGUAGE, Tok T_EQUAL,
         Lab (Assign ''default_language'') (Tok T_STRING)])]], Seq [Tok T_CERTIFICATE,
         Lab (Assign ''certname'') (Ref RuleId')], Seq [Tok T_ASYMMETRIC, Tok T_KEY,
         Lab (Assign ''asym_key_name'') (Ref RuleId')]]]]])]\<rparr>"

definition g_alter_login_azure_sql :: rule where [grammar_rules]:
  "g_alter_login_azure_sql = \<lparr>rule_index = RuleAlter_login_azure_sql, rule_alts = [
       (None, Seq [Tok T_ALTER, Tok T_LOGIN, Lab (Assign ''login_name'') (Ref RuleId'),
         Alt [Opt (Alt [Tok T_ENABLE, Tok T_DISABLE]), Seq [Tok T_WITH,
         Alt [Seq [Tok T_PASSWORD, Tok T_EQUAL, Lab (Assign ''password'') (Tok T_STRING),
         Opt (Seq [Tok T_OLD_PASSWORD, Tok T_EQUAL,
         Lab (Assign ''old_password'') (Tok T_STRING)])], Seq [Tok T_NAME, Tok T_EQUAL,
         Lab (Assign ''login_name'') (Ref RuleId')]]]]])]\<rparr>"

definition g_create_login_azure_sql :: rule where [grammar_rules]:
  "g_create_login_azure_sql = \<lparr>rule_index = RuleCreate_login_azure_sql, rule_alts = [
       (None, Seq [Tok T_CREATE, Tok T_LOGIN, Lab (Assign ''login_name'') (Ref RuleId'),
         Tok T_WITH, Tok T_PASSWORD, Tok T_EQUAL, Tok T_STRING, Opt (Seq [Tok T_SID,
         Tok T_EQUAL, Lab (Assign ''sid'') (Tok T_BINARY)])])]\<rparr>"

definition g_alter_login_azure_sql_dw_and_pdw :: rule where [grammar_rules]:
  "g_alter_login_azure_sql_dw_and_pdw = \<lparr>rule_index = RuleAlter_login_azure_sql_dw_and_pdw, rule_alts = [
       (None, Seq [Tok T_ALTER, Tok T_LOGIN, Lab (Assign ''login_name'') (Ref RuleId'),
         Alt [Opt (Alt [Tok T_ENABLE, Tok T_DISABLE]), Seq [Tok T_WITH,
         Alt [Seq [Tok T_PASSWORD, Tok T_EQUAL, Lab (Assign ''password'') (Tok T_STRING),
         Opt (Seq [Tok T_OLD_PASSWORD, Tok T_EQUAL,
         Lab (Assign ''old_password'') (Tok T_STRING), Star (Alt [Tok T_MUST_CHANGE,
         Tok T_UNLOCK])])], Seq [Tok T_NAME, Tok T_EQUAL,
         Lab (Assign ''login_name'') (Ref RuleId')]]]]])]\<rparr>"

definition g_create_login_pdw :: rule where [grammar_rules]:
  "g_create_login_pdw = \<lparr>rule_index = RuleCreate_login_pdw, rule_alts = [
       (None, Seq [Tok T_CREATE, Tok T_LOGIN, Lab (Assign ''loginName'') (Ref RuleId'),
         Alt [Seq [Tok T_WITH, Seq [Tok T_PASSWORD, Tok T_EQUAL,
         Lab (Assign ''password'') (Tok T_STRING), Opt (Tok T_MUST_CHANGE),
         Opt (Seq [Tok T_CHECK_POLICY, Tok T_EQUAL, Opt (Alt [Tok T_ON, Tok T_OFF])])]],
         Seq [Tok T_FROM, Tok T_WINDOWS]]])]\<rparr>"

definition g_alter_master_key_sql_server :: rule where [grammar_rules]:
  "g_alter_master_key_sql_server = \<lparr>rule_index = RuleAlter_master_key_sql_server, rule_alts = [
       (None, Seq [Tok T_ALTER, Tok T_MASTER, Tok T_KEY, Alt [Seq [Opt (Tok T_FORCE),
         Tok T_REGENERATE, Tok T_WITH, Tok T_ENCRYPTION, Tok T_BY, Tok T_PASSWORD, Tok T_EQUAL,
         Lab (Assign ''password'') (Tok T_STRING)], Seq [Alt [Tok T_ADD, Tok T_DROP],
         Tok T_ENCRYPTION, Tok T_BY, Alt [Seq [Tok T_SERVICE, Tok T_MASTER, Tok T_KEY],
         Seq [Tok T_PASSWORD, Tok T_EQUAL,
         Lab (Assign ''encryption_password'') (Tok T_STRING)]]]]])]\<rparr>"

definition g_create_master_key_sql_server :: rule where [grammar_rules]:
  "g_create_master_key_sql_server = \<lparr>rule_index = RuleCreate_master_key_sql_server, rule_alts = [
       (None, Seq [Tok T_CREATE, Tok T_MASTER, Tok T_KEY, Tok T_ENCRYPTION, Tok T_BY,
         Tok T_PASSWORD, Tok T_EQUAL, Lab (Assign ''password'') (Tok T_STRING)])]\<rparr>"

definition g_alter_master_key_azure_sql :: rule where [grammar_rules]:
  "g_alter_master_key_azure_sql = \<lparr>rule_index = RuleAlter_master_key_azure_sql, rule_alts = [
       (None, Seq [Tok T_ALTER, Tok T_MASTER, Tok T_KEY, Alt [Seq [Opt (Tok T_FORCE),
         Tok T_REGENERATE, Tok T_WITH, Tok T_ENCRYPTION, Tok T_BY, Tok T_PASSWORD, Tok T_EQUAL,
         Lab (Assign ''password'') (Tok T_STRING)], Seq [Tok T_ADD, Tok T_ENCRYPTION, Tok T_BY,
         Alt [Seq [Tok T_SERVICE, Tok T_MASTER, Tok T_KEY], Seq [Tok T_PASSWORD, Tok T_EQUAL,
         Lab (Assign ''encryption_password'') (Tok T_STRING)]]], Seq [Tok T_DROP,
         Tok T_ENCRYPTION, Tok T_BY, Tok T_PASSWORD, Tok T_EQUAL,
         Lab (Assign ''encryption_password'') (Tok T_STRING)]]])]\<rparr>"

definition g_create_master_key_azure_sql :: rule where [grammar_rules]:
  "g_create_master_key_azure_sql = \<lparr>rule_index = RuleCreate_master_key_azure_sql, rule_alts = [
       (None, Seq [Tok T_CREATE, Tok T_MASTER, Tok T_KEY, Opt (Seq [Tok T_ENCRYPTION, Tok T_BY,
         Tok T_PASSWORD, Tok T_EQUAL, Lab (Assign ''password'') (Tok T_STRING)])])]\<rparr>"

definition g_alter_message_type :: rule where [grammar_rules]:
  "g_alter_message_type = \<lparr>rule_index = RuleAlter_message_type, rule_alts = [
       (None, Seq [Tok T_ALTER, Tok T_MESSAGE, Tok T_TYPE,
         Lab (Assign ''message_type_name'') (Ref RuleId'), Tok T_VALIDATION, Tok T_EQUAL,
         Alt [Tok T_NONE, Tok T_EMPTY, Tok T_WELL_FORMED_XML, Seq [Tok T_VALID_XML, Tok T_WITH,
         Tok T_SCHEMA, Tok T_COLLECTION,
         Lab (Assign ''schema_collection_name'') (Ref RuleId')]]])]\<rparr>"

definition g_alter_partition_function :: rule where [grammar_rules]:
  "g_alter_partition_function = \<lparr>rule_index = RuleAlter_partition_function, rule_alts = [
       (None, Seq [Tok T_ALTER, Tok T_PARTITION, Tok T_FUNCTION,
         Lab (Assign ''partition_function_name'') (Ref RuleId'), Tok T_LR_BRACKET,
         Tok T_RR_BRACKET, Alt [Tok T_SPLIT, Tok T_MERGE], Tok T_RANGE, Tok T_LR_BRACKET,
         Tok T_DECIMAL, Tok T_RR_BRACKET])]\<rparr>"

definition g_alter_partition_scheme :: rule where [grammar_rules]:
  "g_alter_partition_scheme = \<lparr>rule_index = RuleAlter_partition_scheme, rule_alts = [
       (None, Seq [Tok T_ALTER, Tok T_PARTITION, Tok T_SCHEME,
         Lab (Assign ''partition_scheme_name'') (Ref RuleId'), Tok T_NEXT, Tok T_USED,
         Opt (Lab (Assign ''file_group_name'') (Ref RuleId'))])]\<rparr>"

definition g_alter_remote_service_binding :: rule where [grammar_rules]:
  "g_alter_remote_service_binding = \<lparr>rule_index = RuleAlter_remote_service_binding, rule_alts = [
       (None, Seq [Tok T_ALTER, Tok T_REMOTE, Tok T_SERVICE, Tok T_BINDING,
         Lab (Assign ''binding_name'') (Ref RuleId'), Tok T_WITH, Opt (Seq [Tok T_USER,
         Tok T_EQUAL, Lab (Assign ''user_name'') (Ref RuleId')]), Opt (Seq [Tok T_COMMA,
         Tok T_ANONYMOUS, Tok T_EQUAL, Alt [Tok T_ON, Tok T_OFF]])])]\<rparr>"

definition g_create_remote_service_binding :: rule where [grammar_rules]:
  "g_create_remote_service_binding = \<lparr>rule_index = RuleCreate_remote_service_binding, rule_alts = [
       (None, Seq [Tok T_CREATE, Tok T_REMOTE, Tok T_SERVICE, Tok T_BINDING,
         Lab (Assign ''binding_name'') (Ref RuleId'), Opt (Seq [Tok T_AUTHORIZATION,
         Lab (Assign ''owner_name'') (Ref RuleId')]), Tok T_TO, Tok T_SERVICE,
         Lab (Assign ''remote_service_name'') (Tok T_STRING), Tok T_WITH, Opt (Seq [Tok T_USER,
         Tok T_EQUAL, Lab (Assign ''user_name'') (Ref RuleId')]), Opt (Seq [Tok T_COMMA,
         Tok T_ANONYMOUS, Tok T_EQUAL, Alt [Tok T_ON, Tok T_OFF]])])]\<rparr>"

definition g_create_resource_pool :: rule where [grammar_rules]:
  "g_create_resource_pool = \<lparr>rule_index = RuleCreate_resource_pool, rule_alts = [
       (None, Seq [Tok T_CREATE, Tok T_RESOURCE, Tok T_POOL,
         Lab (Assign ''pool_name'') (Ref RuleId'), Opt (Seq [Tok T_WITH, Tok T_LR_BRACKET,
         Opt (Seq [Opt (Tok T_COMMA), Tok T_MIN_CPU_PERCENT, Tok T_EQUAL, Tok T_DECIMAL]),
         Opt (Seq [Opt (Tok T_COMMA), Tok T_MAX_CPU_PERCENT, Tok T_EQUAL, Tok T_DECIMAL]),
         Opt (Seq [Opt (Tok T_COMMA), Tok T_CAP_CPU_PERCENT, Tok T_EQUAL, Tok T_DECIMAL]),
         Opt (Seq [Opt (Tok T_COMMA), Tok T_AFFINITY, Tok T_SCHEDULER, Tok T_EQUAL,
         Alt [Tok T_AUTO, Seq [Tok T_LR_BRACKET, Plus (Seq [Opt (Tok T_COMMA),
         Alt [Tok T_DECIMAL, Seq [Tok T_DECIMAL, Tok T_TO, Tok T_DECIMAL]]]),
         Tok T_RR_BRACKET], Seq [Tok T_NUMANODE, Tok T_EQUAL, Tok T_LR_BRACKET,
         Plus (Seq [Opt (Tok T_COMMA), Alt [Tok T_DECIMAL, Seq [Tok T_DECIMAL, Tok T_TO,
         Tok T_DECIMAL]]]), Tok T_RR_BRACKET]]]), Opt (Seq [Opt (Tok T_COMMA),
         Tok T_MIN_MEMORY_PERCENT, Tok T_EQUAL, Tok T_DECIMAL]), Opt (Seq [Opt (Tok T_COMMA),
         Tok T_MAX_MEMORY_PERCENT, Tok T_EQUAL, Tok T_DECIMAL]), Opt (Seq [Opt (Tok T_COMMA),
         Tok T_MIN_IOPS_PER_VOLUME, Tok T_EQUAL, Tok T_DECIMAL]), Opt (Seq [Opt (Tok T_COMMA),
         Tok T_MAX_IOPS_PER_VOLUME, Tok T_EQUAL, Tok T_DECIMAL]), Tok T_RR_BRACKET])])]\<rparr>"

definition g_alter_resource_governor :: rule where [grammar_rules]:
  "g_alter_resource_governor = \<lparr>rule_index = RuleAlter_resource_governor, rule_alts = [
       (None, Seq [Tok T_ALTER, Tok T_RESOURCE, Tok T_GOVERNOR, Alt [Alt [Tok T_DISABLE,
         Tok T_RECONFIGURE], Seq [Tok T_WITH, Tok T_LR_BRACKET, Tok T_CLASSIFIER_FUNCTION,
         Tok T_EQUAL, Alt [Seq [Lab (Assign ''schema_name'') (Ref RuleId'), Tok T_DOT,
         Lab (Assign ''function_name'') (Ref RuleId')], Tok T_NULL'], Tok T_RR_BRACKET],
         Seq [Tok T_RESET, Tok T_STATISTICS], Seq [Tok T_WITH, Tok T_LR_BRACKET,
         Tok T_MAX_OUTSTANDING_IO_PER_VOLUME, Tok T_EQUAL,
         Lab (Assign ''max_outstanding_io_per_volume'') (Tok T_DECIMAL), Tok T_RR_BRACKET]]])]\<rparr>"

definition g_alter_database_audit_specification :: rule where [grammar_rules]:
  "g_alter_database_audit_specification = \<lparr>rule_index = RuleAlter_database_audit_specification, rule_alts = [
       (None, Seq [Tok T_ALTER, Tok T_DATABASE, Tok T_AUDIT, Tok T_SPECIFICATION,
         Lab (Assign ''audit_specification_name'') (Ref RuleId'), Opt (Seq [Tok T_FOR,
         Tok T_SERVER, Tok T_AUDIT, Lab (Assign ''audit_name'') (Ref RuleId')]),
         Opt (Seq [Ref RuleAudit_action_spec_group, Star (Seq [Tok T_COMMA,
         Ref RuleAudit_action_spec_group])]), Opt (Seq [Tok T_WITH, Tok T_LR_BRACKET,
         Tok T_STATE, Tok T_EQUAL, Alt [Tok T_ON, Tok T_OFF], Tok T_RR_BRACKET])])]\<rparr>"

definition g_audit_action_spec_group :: rule where [grammar_rules]:
  "g_audit_action_spec_group = \<lparr>rule_index = RuleAudit_action_spec_group, rule_alts = [
       (None, Seq [Alt [Tok T_ADD, Tok T_DROP], Tok T_LR_BRACKET,
         Alt [Ref RuleAudit_action_specification,
         Lab (Assign ''audit_action_group_name'') (Ref RuleId')], Tok T_RR_BRACKET])]\<rparr>"

definition g_audit_action_specification :: rule where [grammar_rules]:
  "g_audit_action_specification = \<lparr>rule_index = RuleAudit_action_specification, rule_alts = [
       (None, Seq [Ref RuleAction_specification, Star (Seq [Tok T_COMMA,
         Ref RuleAction_specification]), Tok T_ON, Opt (Seq [Ref RuleAudit_class_name,
         Tok T_DOUBLE_COLON]), Ref RuleAudit_securable, Tok T_BY, Ref RulePrincipal_id,
         Star (Seq [Tok T_COMMA, Ref RulePrincipal_id])])]\<rparr>"

definition g_action_specification :: rule where [grammar_rules]:
  "g_action_specification = \<lparr>rule_index = RuleAction_specification, rule_alts = [
       (None, Tok T_SELECT),
       (None, Tok T_INSERT),
       (None, Tok T_UPDATE),
       (None, Tok T_DELETE),
       (None, Tok T_EXECUTE),
       (None, Tok T_RECEIVE),
       (None, Tok T_REFERENCES)]\<rparr>"

definition g_audit_class_name :: rule where [grammar_rules]:
  "g_audit_class_name = \<lparr>rule_index = RuleAudit_class_name, rule_alts = [
       (None, Tok T_OBJECT),
       (None, Tok T_SCHEMA),
       (None, Tok T_TABLE)]\<rparr>"

definition g_audit_securable :: rule where [grammar_rules]:
  "g_audit_securable = \<lparr>rule_index = RuleAudit_securable, rule_alts = [
       (None, Seq [Opt (Seq [Opt (Seq [Ref RuleId', Tok T_DOT]), Ref RuleId', Tok T_DOT]),
         Ref RuleId'])]\<rparr>"

definition g_alter_db_role :: rule where [grammar_rules]:
  "g_alter_db_role = \<lparr>rule_index = RuleAlter_db_role, rule_alts = [
       (None, Seq [Tok T_ALTER, Tok T_ROLE, Lab (Assign ''role_name'') (Ref RuleId'),
         Alt [Seq [Alt [Tok T_ADD, Tok T_DROP], Tok T_MEMBER,
         Lab (Assign ''database_principal'') (Ref RuleId')], Seq [Tok T_WITH, Tok T_NAME,
         Tok T_EQUAL, Lab (Assign ''new_role_name'') (Ref RuleId')]]])]\<rparr>"

definition g_create_database_audit_specification :: rule where [grammar_rules]:
  "g_create_database_audit_specification = \<lparr>rule_index = RuleCreate_database_audit_specification, rule_alts = [
       (None, Seq [Tok T_CREATE, Tok T_DATABASE, Tok T_AUDIT, Tok T_SPECIFICATION,
         Lab (Assign ''audit_specification_name'') (Ref RuleId'), Opt (Seq [Tok T_FOR,
         Tok T_SERVER, Tok T_AUDIT, Lab (Assign ''audit_name'') (Ref RuleId')]),
         Opt (Seq [Ref RuleAudit_action_spec_group, Star (Seq [Tok T_COMMA,
         Ref RuleAudit_action_spec_group])]), Opt (Seq [Tok T_WITH, Tok T_LR_BRACKET,
         Tok T_STATE, Tok T_EQUAL, Alt [Tok T_ON, Tok T_OFF], Tok T_RR_BRACKET])])]\<rparr>"

definition g_create_db_role :: rule where [grammar_rules]:
  "g_create_db_role = \<lparr>rule_index = RuleCreate_db_role, rule_alts = [
       (None, Seq [Tok T_CREATE, Tok T_ROLE, Lab (Assign ''role_name'') (Ref RuleId'),
         Opt (Seq [Tok T_AUTHORIZATION, Lab (Assign ''owner_name'') (Ref RuleId')])])]\<rparr>"

definition g_create_route :: rule where [grammar_rules]:
  "g_create_route = \<lparr>rule_index = RuleCreate_route, rule_alts = [
       (None, Seq [Tok T_CREATE, Tok T_ROUTE, Lab (Assign ''route_name'') (Ref RuleId'),
         Opt (Seq [Tok T_AUTHORIZATION, Lab (Assign ''owner_name'') (Ref RuleId')]),
         Tok T_WITH, Opt (Seq [Opt (Tok T_COMMA), Tok T_SERVICE_NAME, Tok T_EQUAL,
         Lab (Assign ''route_service_name'') (Tok T_STRING)]), Opt (Seq [Opt (Tok T_COMMA),
         Tok T_BROKER_INSTANCE, Tok T_EQUAL,
         Lab (Assign ''broker_instance_identifier'') (Tok T_STRING)]),
         Opt (Seq [Opt (Tok T_COMMA), Tok T_LIFETIME, Tok T_EQUAL, Tok T_DECIMAL]),
         Opt (Tok T_COMMA), Tok T_ADDRESS, Tok T_EQUAL, Tok T_STRING, Opt (Seq [Tok T_COMMA,
         Tok T_MIRROR_ADDRESS, Tok T_EQUAL, Tok T_STRING])])]\<rparr>"

definition g_create_rule :: rule where [grammar_rules]:
  "g_create_rule = \<lparr>rule_index = RuleCreate_rule, rule_alts = [
       (None, Seq [Tok T_CREATE, Tok T_RULE,
         Opt (Seq [Lab (Assign ''schema_name'') (Ref RuleId'), Tok T_DOT]),
         Lab (Assign ''rule_name'') (Ref RuleId'), Tok T_AS, Ref RuleSearch_condition])]\<rparr>"

definition g_alter_schema_sql :: rule where [grammar_rules]:
  "g_alter_schema_sql = \<lparr>rule_index = RuleAlter_schema_sql, rule_alts = [
       (None, Seq [Tok T_ALTER, Tok T_SCHEMA, Lab (Assign ''schema_name'') (Ref RuleId'),
         Tok T_TRANSFER, Opt (Seq [Alt [Tok T_OBJECT, Tok T_TYPE, Seq [Tok T_XML, Tok T_SCHEMA,
         Tok T_COLLECTION]], Tok T_DOUBLE_COLON]), Ref RuleId', Opt (Seq [Tok T_DOT,
         Ref RuleId'])])]\<rparr>"

definition g_create_schema :: rule where [grammar_rules]:
  "g_create_schema = \<lparr>rule_index = RuleCreate_schema, rule_alts = [
       (None, Seq [Tok T_CREATE, Tok T_SCHEMA, Alt [Lab (Assign ''schema_name'') (Ref RuleId'),
         Seq [Tok T_AUTHORIZATION, Lab (Assign ''owner_name'') (Ref RuleId')],
         Seq [Lab (Assign ''schema_name'') (Ref RuleId'), Tok T_AUTHORIZATION,
         Lab (Assign ''owner_name'') (Ref RuleId')]], Star (Alt [Ref RuleCreate_table,
         Ref RuleCreate_view, Seq [Alt [Tok T_GRANT, Tok T_DENY], Alt [Tok T_SELECT,
         Tok T_INSERT, Tok T_DELETE, Tok T_UPDATE], Tok T_ON, Opt (Seq [Tok T_SCHEMA,
         Tok T_DOUBLE_COLON]), Lab (Assign ''object_name'') (Ref RuleId'), Tok T_TO,
         Lab (Assign ''owner_name'') (Ref RuleId')], Seq [Tok T_REVOKE, Alt [Tok T_SELECT,
         Tok T_INSERT, Tok T_DELETE, Tok T_UPDATE], Tok T_ON, Opt (Seq [Tok T_SCHEMA,
         Tok T_DOUBLE_COLON]), Lab (Assign ''object_name'') (Ref RuleId'), Tok T_FROM,
         Lab (Assign ''owner_name'') (Ref RuleId')]])])]\<rparr>"

definition g_create_schema_azure_sql_dw_and_pdw :: rule where [grammar_rules]:
  "g_create_schema_azure_sql_dw_and_pdw = \<lparr>rule_index = RuleCreate_schema_azure_sql_dw_and_pdw, rule_alts = [
       (None, Seq [Tok T_CREATE, Tok T_SCHEMA, Lab (Assign ''schema_name'') (Ref RuleId'),
         Opt (Seq [Tok T_AUTHORIZATION, Lab (Assign ''owner_name'') (Ref RuleId')])])]\<rparr>"

definition g_alter_schema_azure_sql_dw_and_pdw :: rule where [grammar_rules]:
  "g_alter_schema_azure_sql_dw_and_pdw = \<lparr>rule_index = RuleAlter_schema_azure_sql_dw_and_pdw, rule_alts = [
       (None, Seq [Tok T_ALTER, Tok T_SCHEMA, Lab (Assign ''schema_name'') (Ref RuleId'),
         Tok T_TRANSFER, Opt (Seq [Tok T_OBJECT, Tok T_DOUBLE_COLON]), Ref RuleId',
         Opt (Seq [Tok T_DOT, Tok T_ID])])]\<rparr>"

definition g_create_search_property_list :: rule where [grammar_rules]:
  "g_create_search_property_list = \<lparr>rule_index = RuleCreate_search_property_list, rule_alts = [
       (None, Seq [Tok T_CREATE, Tok T_SEARCH, Tok T_PROPERTY, Tok T_LIST,
         Lab (Assign ''new_list_name'') (Ref RuleId'), Opt (Seq [Tok T_FROM,
         Opt (Seq [Lab (Assign ''database_name'') (Ref RuleId'), Tok T_DOT]),
         Lab (Assign ''source_list_name'') (Ref RuleId')]), Opt (Seq [Tok T_AUTHORIZATION,
         Lab (Assign ''owner_name'') (Ref RuleId')])])]\<rparr>"

definition g_create_security_policy :: rule where [grammar_rules]:
  "g_create_security_policy = \<lparr>rule_index = RuleCreate_security_policy, rule_alts = [
       (None, Seq [Tok T_CREATE, Tok T_SECURITY, Tok T_POLICY,
         Opt (Seq [Lab (Assign ''schema_name'') (Ref RuleId'), Tok T_DOT]),
         Lab (Assign ''security_policy_name'') (Ref RuleId'), Plus (Seq [Opt (Tok T_COMMA),
         Tok T_ADD, Opt (Alt [Tok T_FILTER, Tok T_BLOCK]), Tok T_PREDICATE,
         Lab (Assign ''tvf_schema_name'') (Ref RuleId'), Tok T_DOT,
         Lab (Assign ''security_predicate_function_name'') (Ref RuleId'), Tok T_LR_BRACKET,
         Plus (Seq [Opt (Tok T_COMMA),
         Lab (Assign ''column_name_or_arguments'') (Ref RuleId')]), Tok T_RR_BRACKET, Tok T_ON,
         Lab (Assign ''table_schema_name'') (Ref RuleId'), Tok T_DOT,
         Lab (Assign ''name'') (Ref RuleId'), Star (Alt [Seq [Opt (Tok T_COMMA), Tok T_AFTER,
         Alt [Tok T_INSERT, Tok T_UPDATE]], Seq [Opt (Tok T_COMMA), Tok T_BEFORE,
         Alt [Tok T_UPDATE, Tok T_DELETE]]])]), Opt (Seq [Tok T_WITH, Tok T_LR_BRACKET,
         Tok T_STATE, Tok T_EQUAL, Alt [Tok T_ON, Tok T_OFF], Opt (Seq [Tok T_SCHEMABINDING,
         Alt [Tok T_ON, Tok T_OFF]]), Tok T_RR_BRACKET]), Opt (Seq [Tok T_NOT, Tok T_FOR,
         Tok T_REPLICATION])])]\<rparr>"

definition g_alter_sequence :: rule where [grammar_rules]:
  "g_alter_sequence = \<lparr>rule_index = RuleAlter_sequence, rule_alts = [
       (None, Seq [Tok T_ALTER, Tok T_SEQUENCE,
         Opt (Seq [Lab (Assign ''schema_name'') (Ref RuleId'), Tok T_DOT]),
         Lab (Assign ''sequence_name'') (Ref RuleId'), Opt (Seq [Tok T_RESTART,
         Opt (Seq [Tok T_WITH, Tok T_DECIMAL])]), Opt (Seq [Tok T_INCREMENT, Tok T_BY,
         Lab (Assign ''sequnce_increment'') (Tok T_DECIMAL)]), Opt (Alt [Seq [Tok T_MINVALUE,
         Tok T_DECIMAL], Seq [Tok T_NO, Tok T_MINVALUE]]), Opt (Alt [Seq [Tok T_MAXVALUE,
         Tok T_DECIMAL], Seq [Tok T_NO, Tok T_MAXVALUE]]), Opt (Alt [Tok T_CYCLE,
         Seq [Tok T_NO, Tok T_CYCLE]]), Opt (Alt [Seq [Tok T_CACHE, Tok T_DECIMAL],
         Seq [Tok T_NO, Tok T_CACHE]])])]\<rparr>"

definition g_create_sequence :: rule where [grammar_rules]:
  "g_create_sequence = \<lparr>rule_index = RuleCreate_sequence, rule_alts = [
       (None, Seq [Tok T_CREATE, Tok T_SEQUENCE,
         Opt (Seq [Lab (Assign ''schema_name'') (Ref RuleId'), Tok T_DOT]),
         Lab (Assign ''sequence_name'') (Ref RuleId'), Opt (Seq [Tok T_AS, Ref RuleData_type]),
         Opt (Seq [Tok T_START, Tok T_WITH, Tok T_DECIMAL]), Opt (Seq [Tok T_INCREMENT,
         Tok T_BY, Opt (Tok T_MINUS), Tok T_DECIMAL]), Opt (Alt [Seq [Tok T_MINVALUE,
         Opt (Seq [Opt (Tok T_MINUS), Tok T_DECIMAL])], Seq [Tok T_NO, Tok T_MINVALUE]]),
         Opt (Alt [Seq [Tok T_MAXVALUE, Opt (Seq [Opt (Tok T_MINUS), Tok T_DECIMAL])],
         Seq [Tok T_NO, Tok T_MAXVALUE]]), Opt (Alt [Tok T_CYCLE, Seq [Tok T_NO,
         Tok T_CYCLE]]), Opt (Alt [Seq [Tok T_CACHE, Opt (Tok T_DECIMAL)], Seq [Tok T_NO,
         Tok T_CACHE]])])]\<rparr>"

definition g_alter_server_audit :: rule where [grammar_rules]:
  "g_alter_server_audit = \<lparr>rule_index = RuleAlter_server_audit, rule_alts = [
       (None, Seq [Tok T_ALTER, Tok T_SERVER, Tok T_AUDIT,
         Lab (Assign ''audit_name'') (Ref RuleId'), Alt [Seq [Opt (Seq [Tok T_TO,
         Alt [Seq [Tok T_FILE, Seq [Tok T_LR_BRACKET, Star (Alt [Seq [Opt (Tok T_COMMA),
         Tok T_FILEPATH, Tok T_EQUAL, Lab (Assign ''filepath'') (Tok T_STRING)],
         Seq [Opt (Tok T_COMMA), Tok T_MAXSIZE, Tok T_EQUAL, Alt [Seq [Tok T_DECIMAL,
         Alt [Tok T_MB, Tok T_GB, Tok T_TB]], Tok T_UNLIMITED]], Seq [Opt (Tok T_COMMA),
         Tok T_MAX_ROLLOVER_FILES, Tok T_EQUAL,
         Lab (Assign ''max_rollover_files'') (Alt [Tok T_DECIMAL, Tok T_UNLIMITED])],
         Seq [Opt (Tok T_COMMA), Tok T_MAX_FILES, Tok T_EQUAL,
         Lab (Assign ''max_files'') (Tok T_DECIMAL)], Seq [Opt (Tok T_COMMA),
         Tok T_RESERVE_DISK_SPACE, Tok T_EQUAL, Alt [Tok T_ON, Tok T_OFF]]]),
         Tok T_RR_BRACKET]], Tok T_APPLICATION_LOG, Tok T_SECURITY_LOG]]),
         Opt (Seq [Tok T_WITH, Tok T_LR_BRACKET, Star (Alt [Seq [Opt (Tok T_COMMA),
         Tok T_QUEUE_DELAY, Tok T_EQUAL, Lab (Assign ''queue_delay'') (Tok T_DECIMAL)],
         Seq [Opt (Tok T_COMMA), Tok T_ON_FAILURE, Tok T_EQUAL, Alt [Tok T_CONTINUE,
         Tok T_SHUTDOWN, Tok T_FAIL_OPERATION]], Seq [Opt (Tok T_COMMA), Tok T_STATE,
         Tok T_EQUAL, Alt [Tok T_ON, Tok T_OFF]]]), Tok T_RR_BRACKET]), Opt (Seq [Tok T_WHERE,
         Alt [Seq [Opt (Tok T_COMMA), Opt (Tok T_NOT),
         Lab (Assign ''event_field_name'') (Ref RuleId'), Alt [Tok T_EQUAL, Seq [Tok T_LESS,
         Tok T_GREATER], Seq [Tok T_EXCLAMATION, Tok T_EQUAL], Tok T_GREATER,
         Seq [Tok T_GREATER, Tok T_EQUAL], Tok T_LESS, Seq [Tok T_LESS, Tok T_EQUAL]],
         Alt [Tok T_DECIMAL, Tok T_STRING]], Seq [Opt (Tok T_COMMA), Alt [Tok T_AND, Tok T_OR],
         Opt (Tok T_NOT), Alt [Tok T_EQUAL, Seq [Tok T_LESS, Tok T_GREATER],
         Seq [Tok T_EXCLAMATION, Tok T_EQUAL], Tok T_GREATER, Seq [Tok T_GREATER, Tok T_EQUAL],
         Tok T_LESS, Seq [Tok T_LESS, Tok T_EQUAL]], Alt [Tok T_DECIMAL, Tok T_STRING]]]])],
         Seq [Tok T_REMOVE, Tok T_WHERE], Seq [Tok T_MODIFY, Tok T_NAME, Tok T_EQUAL,
         Lab (Assign ''new_audit_name'') (Ref RuleId')]]])]\<rparr>"

definition g_create_server_audit :: rule where [grammar_rules]:
  "g_create_server_audit = \<lparr>rule_index = RuleCreate_server_audit, rule_alts = [
       (None, Seq [Tok T_CREATE, Tok T_SERVER, Tok T_AUDIT,
         Lab (Assign ''audit_name'') (Ref RuleId'), Alt [Seq [Opt (Seq [Tok T_TO,
         Alt [Seq [Tok T_FILE, Seq [Tok T_LR_BRACKET, Star (Alt [Seq [Opt (Tok T_COMMA),
         Tok T_FILEPATH, Tok T_EQUAL, Lab (Assign ''filepath'') (Tok T_STRING)],
         Seq [Opt (Tok T_COMMA), Tok T_MAXSIZE, Tok T_EQUAL, Alt [Seq [Tok T_DECIMAL,
         Alt [Tok T_MB, Tok T_GB, Tok T_TB]], Tok T_UNLIMITED]], Seq [Opt (Tok T_COMMA),
         Tok T_MAX_ROLLOVER_FILES, Tok T_EQUAL,
         Lab (Assign ''max_rollover_files'') (Alt [Tok T_DECIMAL, Tok T_UNLIMITED])],
         Seq [Opt (Tok T_COMMA), Tok T_MAX_FILES, Tok T_EQUAL,
         Lab (Assign ''max_files'') (Tok T_DECIMAL)], Seq [Opt (Tok T_COMMA),
         Tok T_RESERVE_DISK_SPACE, Tok T_EQUAL, Alt [Tok T_ON, Tok T_OFF]]]),
         Tok T_RR_BRACKET]], Tok T_APPLICATION_LOG, Tok T_SECURITY_LOG]]),
         Opt (Seq [Tok T_WITH, Tok T_LR_BRACKET, Star (Alt [Seq [Opt (Tok T_COMMA),
         Tok T_QUEUE_DELAY, Tok T_EQUAL, Lab (Assign ''queue_delay'') (Tok T_DECIMAL)],
         Seq [Opt (Tok T_COMMA), Tok T_ON_FAILURE, Tok T_EQUAL, Alt [Tok T_CONTINUE,
         Tok T_SHUTDOWN, Tok T_FAIL_OPERATION]], Seq [Opt (Tok T_COMMA), Tok T_STATE,
         Tok T_EQUAL, Alt [Tok T_ON, Tok T_OFF]], Seq [Opt (Tok T_COMMA), Tok T_AUDIT_GUID,
         Tok T_EQUAL, Lab (Assign ''audit_guid'') (Ref RuleId')]]), Tok T_RR_BRACKET]),
         Opt (Seq [Tok T_WHERE, Alt [Seq [Opt (Tok T_COMMA), Opt (Tok T_NOT),
         Lab (Assign ''event_field_name'') (Ref RuleId'), Alt [Tok T_EQUAL, Seq [Tok T_LESS,
         Tok T_GREATER], Seq [Tok T_EXCLAMATION, Tok T_EQUAL], Tok T_GREATER,
         Seq [Tok T_GREATER, Tok T_EQUAL], Tok T_LESS, Seq [Tok T_LESS, Tok T_EQUAL]],
         Alt [Tok T_DECIMAL, Tok T_STRING]], Seq [Opt (Tok T_COMMA), Alt [Tok T_AND, Tok T_OR],
         Opt (Tok T_NOT), Alt [Tok T_EQUAL, Seq [Tok T_LESS, Tok T_GREATER],
         Seq [Tok T_EXCLAMATION, Tok T_EQUAL], Tok T_GREATER, Seq [Tok T_GREATER, Tok T_EQUAL],
         Tok T_LESS, Seq [Tok T_LESS, Tok T_EQUAL]], Alt [Tok T_DECIMAL, Tok T_STRING]]]])],
         Seq [Tok T_REMOVE, Tok T_WHERE], Seq [Tok T_MODIFY, Tok T_NAME, Tok T_EQUAL,
         Lab (Assign ''new_audit_name'') (Ref RuleId')]]])]\<rparr>"

definition g_alter_server_audit_specification :: rule where [grammar_rules]:
  "g_alter_server_audit_specification = \<lparr>rule_index = RuleAlter_server_audit_specification, rule_alts = [
       (None, Seq [Tok T_ALTER, Tok T_SERVER, Tok T_AUDIT, Tok T_SPECIFICATION,
         Lab (Assign ''audit_specification_name'') (Ref RuleId'), Opt (Seq [Tok T_FOR,
         Tok T_SERVER, Tok T_AUDIT, Lab (Assign ''audit_name'') (Ref RuleId')]),
         Star (Seq [Alt [Tok T_ADD, Tok T_DROP], Tok T_LR_BRACKET,
         Lab (Assign ''audit_action_group_name'') (Ref RuleId'), Tok T_RR_BRACKET]),
         Opt (Seq [Tok T_WITH, Tok T_LR_BRACKET, Tok T_STATE, Tok T_EQUAL, Alt [Tok T_ON,
         Tok T_OFF], Tok T_RR_BRACKET])])]\<rparr>"

definition g_create_server_audit_specification :: rule where [grammar_rules]:
  "g_create_server_audit_specification = \<lparr>rule_index = RuleCreate_server_audit_specification, rule_alts = [
       (None, Seq [Tok T_CREATE, Tok T_SERVER, Tok T_AUDIT, Tok T_SPECIFICATION,
         Lab (Assign ''audit_specification_name'') (Ref RuleId'), Opt (Seq [Tok T_FOR,
         Tok T_SERVER, Tok T_AUDIT, Lab (Assign ''audit_name'') (Ref RuleId')]),
         Star (Seq [Tok T_ADD, Tok T_LR_BRACKET,
         Lab (Assign ''audit_action_group_name'') (Ref RuleId'), Tok T_RR_BRACKET]),
         Opt (Seq [Tok T_WITH, Tok T_LR_BRACKET, Tok T_STATE, Tok T_EQUAL, Alt [Tok T_ON,
         Tok T_OFF], Tok T_RR_BRACKET])])]\<rparr>"

definition g_alter_server_configuration :: rule where [grammar_rules]:
  "g_alter_server_configuration = \<lparr>rule_index = RuleAlter_server_configuration, rule_alts = [
       (None, Seq [Tok T_ALTER, Tok T_SERVER, Tok T_CONFIGURATION, Tok T_SET,
         Alt [Seq [Tok T_PROCESS, Tok T_AFFINITY, Alt [Seq [Tok T_CPU, Tok T_EQUAL,
         Alt [Tok T_AUTO, Plus (Alt [Seq [Opt (Tok T_COMMA), Tok T_DECIMAL],
         Seq [Opt (Tok T_COMMA), Tok T_DECIMAL, Tok T_TO, Tok T_DECIMAL]])]],
         Seq [Tok T_NUMANODE, Tok T_EQUAL, Plus (Alt [Seq [Opt (Tok T_COMMA), Tok T_DECIMAL],
         Seq [Opt (Tok T_COMMA), Tok T_DECIMAL, Tok T_TO, Tok T_DECIMAL]])]]],
         Seq [Tok T_DIAGNOSTICS, Tok T_LOG, Alt [Tok T_ON, Tok T_OFF, Seq [Tok T_PATH,
         Tok T_EQUAL, Alt [Tok T_STRING, Tok T_DEFAULT]], Seq [Tok T_MAX_SIZE, Tok T_EQUAL,
         Alt [Seq [Tok T_DECIMAL, Tok T_MB], Tok T_DEFAULT]], Seq [Tok T_MAX_FILES,
         Tok T_EQUAL, Alt [Tok T_DECIMAL, Tok T_DEFAULT]]]], Seq [Tok T_FAILOVER,
         Tok T_CLUSTER, Tok T_PROPERTY, Alt [Seq [Tok T_VERBOSELOGGING, Tok T_EQUAL,
         Alt [Tok T_STRING, Tok T_DEFAULT]], Seq [Tok T_SQLDUMPERFLAGS, Tok T_EQUAL,
         Alt [Tok T_STRING, Tok T_DEFAULT]], Seq [Tok T_SQLDUMPERPATH, Tok T_EQUAL,
         Alt [Tok T_STRING, Tok T_DEFAULT]], Seq [Tok T_SQLDUMPERTIMEOUT, Alt [Tok T_STRING,
         Tok T_DEFAULT]], Seq [Tok T_FAILURECONDITIONLEVEL, Tok T_EQUAL, Alt [Tok T_STRING,
         Tok T_DEFAULT]], Seq [Tok T_HEALTHCHECKTIMEOUT, Tok T_EQUAL, Alt [Tok T_DECIMAL,
         Tok T_DEFAULT]]]], Seq [Tok T_HADR, Tok T_CLUSTER, Tok T_CONTEXT, Tok T_EQUAL,
         Alt [Tok T_STRING, Tok T_LOCAL]], Seq [Tok T_BUFFER, Tok T_POOL, Tok T_EXTENSION,
         Alt [Seq [Tok T_ON, Tok T_LR_BRACKET, Tok T_FILENAME, Tok T_EQUAL, Tok T_STRING,
         Tok T_COMMA, Tok T_SIZE, Tok T_EQUAL, Tok T_DECIMAL, Alt [Tok T_KB, Tok T_MB,
         Tok T_GB], Tok T_RR_BRACKET], Tok T_OFF]], Seq [Tok T_SET, Tok T_SOFTNUMA,
         Alt [Tok T_ON, Tok T_OFF]]]])]\<rparr>"

definition g_alter_server_role :: rule where [grammar_rules]:
  "g_alter_server_role = \<lparr>rule_index = RuleAlter_server_role, rule_alts = [
       (None, Seq [Tok T_ALTER, Tok T_SERVER, Tok T_ROLE,
         Lab (Assign ''server_role_name'') (Ref RuleId'), Alt [Seq [Alt [Tok T_ADD,
         Tok T_DROP], Tok T_MEMBER, Lab (Assign ''server_principal'') (Ref RuleId')],
         Seq [Tok T_WITH, Tok T_NAME, Tok T_EQUAL,
         Lab (Assign ''new_server_role_name'') (Ref RuleId')]]])]\<rparr>"

definition g_create_server_role :: rule where [grammar_rules]:
  "g_create_server_role = \<lparr>rule_index = RuleCreate_server_role, rule_alts = [
       (None, Seq [Tok T_CREATE, Tok T_SERVER, Tok T_ROLE,
         Lab (Assign ''server_role'') (Ref RuleId'), Opt (Seq [Tok T_AUTHORIZATION,
         Lab (Assign ''server_principal'') (Ref RuleId')])])]\<rparr>"

definition g_alter_server_role_pdw :: rule where [grammar_rules]:
  "g_alter_server_role_pdw = \<lparr>rule_index = RuleAlter_server_role_pdw, rule_alts = [
       (None, Seq [Tok T_ALTER, Tok T_SERVER, Tok T_ROLE,
         Lab (Assign ''server_role_name'') (Ref RuleId'), Alt [Tok T_ADD, Tok T_DROP],
         Tok T_MEMBER, Lab (Assign ''login'') (Ref RuleId')])]\<rparr>"

definition g_alter_service :: rule where [grammar_rules]:
  "g_alter_service = \<lparr>rule_index = RuleAlter_service, rule_alts = [
       (None, Seq [Tok T_ALTER, Tok T_SERVICE,
         Lab (Assign ''modified_service_name'') (Ref RuleId'), Opt (Seq [Tok T_ON, Tok T_QUEUE,
         Opt (Seq [Lab (Assign ''schema_name'') (Ref RuleId'), Tok T_DOT]),
         Lab (Assign ''queue_name'') (Ref RuleId')]), Opt (Seq [Tok T_LR_BRACKET,
         Ref RuleOpt_arg_clause, Star (Seq [Tok T_COMMA, Ref RuleOpt_arg_clause]),
         Tok T_RR_BRACKET])])]\<rparr>"

definition g_opt_arg_clause :: rule where [grammar_rules]:
  "g_opt_arg_clause = \<lparr>rule_index = RuleOpt_arg_clause, rule_alts = [
       (None, Seq [Alt [Tok T_ADD, Tok T_DROP], Tok T_CONTRACT,
         Lab (Assign ''modified_contract_name'') (Ref RuleId')])]\<rparr>"

definition g_create_service :: rule where [grammar_rules]:
  "g_create_service = \<lparr>rule_index = RuleCreate_service, rule_alts = [
       (None, Seq [Tok T_CREATE, Tok T_SERVICE,
         Lab (Assign ''create_service_name'') (Ref RuleId'), Opt (Seq [Tok T_AUTHORIZATION,
         Lab (Assign ''owner_name'') (Ref RuleId')]), Tok T_ON, Tok T_QUEUE,
         Opt (Seq [Lab (Assign ''schema_name'') (Ref RuleId'), Tok T_DOT]),
         Lab (Assign ''queue_name'') (Ref RuleId'), Opt (Seq [Tok T_LR_BRACKET,
         Plus (Seq [Opt (Tok T_COMMA), Alt [Ref RuleId', Tok T_DEFAULT]]),
         Tok T_RR_BRACKET])])]\<rparr>"

definition g_alter_service_master_key :: rule where [grammar_rules]:
  "g_alter_service_master_key = \<lparr>rule_index = RuleAlter_service_master_key, rule_alts = [
       (None, Seq [Tok T_ALTER, Tok T_SERVICE, Tok T_MASTER, Tok T_KEY,
         Alt [Seq [Opt (Tok T_FORCE), Tok T_REGENERATE], Seq [Tok T_WITH,
         Opt (Alt [Seq [Tok T_OLD_ACCOUNT, Tok T_EQUAL,
         Lab (Assign ''acold_account_name'') (Tok T_STRING), Tok T_COMMA, Tok T_OLD_PASSWORD,
         Tok T_EQUAL, Lab (Assign ''old_password'') (Tok T_STRING)], Seq [Tok T_NEW_ACCOUNT,
         Tok T_EQUAL, Lab (Assign ''new_account_name'') (Tok T_STRING), Tok T_COMMA,
         Tok T_NEW_PASSWORD, Tok T_EQUAL, Lab (Assign ''new_password'') (Tok T_STRING)]])]]])]\<rparr>"

definition g_alter_symmetric_key :: rule where [grammar_rules]:
  "g_alter_symmetric_key = \<lparr>rule_index = RuleAlter_symmetric_key, rule_alts = [
       (None, Seq [Tok T_ALTER, Tok T_SYMMETRIC, Tok T_KEY,
         Lab (Assign ''key_name'') (Ref RuleId'), Seq [Alt [Tok T_ADD, Tok T_DROP],
         Tok T_ENCRYPTION, Tok T_BY, Alt [Seq [Tok T_CERTIFICATE,
         Lab (Assign ''certificate_name'') (Ref RuleId')], Seq [Tok T_PASSWORD, Tok T_EQUAL,
         Lab (Assign ''password'') (Tok T_STRING)], Seq [Tok T_SYMMETRIC, Tok T_KEY,
         Lab (Assign ''symmetric_key_name'') (Ref RuleId')], Seq [Tok T_ASYMMETRIC, Tok T_KEY,
         Lab (Assign ''Asym_key_name'') (Ref RuleId')]]]])]\<rparr>"

definition g_create_synonym :: rule where [grammar_rules]:
  "g_create_synonym = \<lparr>rule_index = RuleCreate_synonym, rule_alts = [
       (None, Seq [Tok T_CREATE, Tok T_SYNONYM,
         Opt (Seq [Lab (Assign ''schema_name_1'') (Ref RuleId'), Tok T_DOT]),
         Lab (Assign ''synonym_name'') (Ref RuleId'), Tok T_FOR,
         Alt [Seq [Opt (Seq [Lab (Assign ''server_name'') (Ref RuleId'), Tok T_DOT]),
         Opt (Seq [Lab (Assign ''database_name'') (Ref RuleId'), Tok T_DOT]),
         Opt (Seq [Lab (Assign ''schema_name_2'') (Ref RuleId'), Tok T_DOT]),
         Lab (Assign ''object_name'') (Ref RuleId')],
         Seq [Opt (Seq [Lab (Assign ''database_or_schema2'') (Ref RuleId'), Tok T_DOT]),
         Opt (Seq [Lab (Assign ''schema_id_2_or_object_name'') (Ref RuleId'), Tok T_DOT])]]])]\<rparr>"

definition g_alter_user :: rule where [grammar_rules]:
  "g_alter_user = \<lparr>rule_index = RuleAlter_user, rule_alts = [
       (None, Seq [Tok T_ALTER, Tok T_USER, Lab (Assign ''username'') (Ref RuleId'),
         Tok T_WITH, Plus (Alt [Seq [Opt (Tok T_COMMA), Tok T_NAME, Tok T_EQUAL,
         Lab (Assign ''newusername'') (Ref RuleId')], Seq [Opt (Tok T_COMMA),
         Tok T_DEFAULT_SCHEMA, Tok T_EQUAL, Alt [Lab (Assign ''schema_name'') (Ref RuleId'),
         Tok T_NULL']], Seq [Opt (Tok T_COMMA), Tok T_LOGIN, Tok T_EQUAL,
         Lab (Assign ''loginame'') (Ref RuleId')], Seq [Opt (Tok T_COMMA), Tok T_PASSWORD,
         Tok T_EQUAL, Tok T_STRING, Plus (Seq [Tok T_OLD_PASSWORD, Tok T_EQUAL,
         Tok T_STRING])], Seq [Opt (Tok T_COMMA), Tok T_DEFAULT_LANGUAGE, Tok T_EQUAL,
         Alt [Tok T_NONE, Lab (Assign ''lcid'') (Tok T_DECIMAL),
         Lab (Assign ''language_name_or_alias'') (Ref RuleId')]], Seq [Opt (Tok T_COMMA),
         Tok T_ALLOW_ENCRYPTED_VALUE_MODIFICATIONS, Tok T_EQUAL, Alt [Tok T_ON,
         Tok T_OFF]]])])]\<rparr>"

definition g_create_user :: rule where [grammar_rules]:
  "g_create_user = \<lparr>rule_index = RuleCreate_user, rule_alts = [
       (None, Seq [Tok T_CREATE, Tok T_USER, Lab (Assign ''user_name'') (Ref RuleId'),
         Opt (Seq [Alt [Tok T_FOR, Tok T_FROM], Tok T_LOGIN,
         Lab (Assign ''login_name'') (Ref RuleId')]), Opt (Seq [Tok T_WITH,
         Star (Alt [Seq [Opt (Tok T_COMMA), Tok T_DEFAULT_SCHEMA, Tok T_EQUAL,
         Lab (Assign ''schema_name'') (Ref RuleId')], Seq [Opt (Tok T_COMMA),
         Tok T_ALLOW_ENCRYPTED_VALUE_MODIFICATIONS, Tok T_EQUAL, Alt [Tok T_ON,
         Tok T_OFF]]])])]),
       (None, Seq [Tok T_CREATE, Tok T_USER,
         Alt [Seq [Lab (Assign ''windows_principal'') (Ref RuleId'), Opt (Seq [Tok T_WITH,
         Star (Alt [Seq [Opt (Tok T_COMMA), Tok T_DEFAULT_SCHEMA, Tok T_EQUAL,
         Lab (Assign ''schema_name'') (Ref RuleId')], Seq [Opt (Tok T_COMMA),
         Tok T_DEFAULT_LANGUAGE, Tok T_EQUAL, Alt [Tok T_NONE, Tok T_DECIMAL,
         Lab (Assign ''language_name_or_alias'') (Ref RuleId')]], Seq [Opt (Tok T_COMMA),
         Tok T_SID, Tok T_EQUAL, Tok T_BINARY], Seq [Opt (Tok T_COMMA),
         Tok T_ALLOW_ENCRYPTED_VALUE_MODIFICATIONS, Tok T_EQUAL, Alt [Tok T_ON,
         Tok T_OFF]]])])], Seq [Lab (Assign ''user_name'') (Ref RuleId'), Tok T_WITH,
         Tok T_PASSWORD, Tok T_EQUAL, Lab (Assign ''password'') (Tok T_STRING),
         Star (Alt [Seq [Opt (Tok T_COMMA), Tok T_DEFAULT_SCHEMA, Tok T_EQUAL,
         Lab (Assign ''schema_name'') (Ref RuleId')], Seq [Opt (Tok T_COMMA),
         Tok T_DEFAULT_LANGUAGE, Tok T_EQUAL, Alt [Tok T_NONE, Tok T_DECIMAL,
         Lab (Assign ''language_name_or_alias'') (Ref RuleId')]], Seq [Opt (Tok T_COMMA),
         Tok T_SID, Tok T_EQUAL, Tok T_BINARY], Seq [Opt (Tok T_COMMA),
         Tok T_ALLOW_ENCRYPTED_VALUE_MODIFICATIONS, Tok T_EQUAL, Alt [Tok T_ON, Tok T_OFF]]])],
         Seq [Lab (Assign ''Azure_Active_Directory_principal'') (Ref RuleId'), Tok T_FROM,
         Tok T_EXTERNAL, Tok T_PROVIDER]]]),
       (None, Seq [Tok T_CREATE, Tok T_USER, Lab (Assign ''user_name'') (Ref RuleId'),
         Alt [Seq [Tok T_WITHOUT, Tok T_LOGIN, Star (Alt [Seq [Opt (Tok T_COMMA),
         Tok T_DEFAULT_SCHEMA, Tok T_EQUAL, Lab (Assign ''schema_name'') (Ref RuleId')],
         Seq [Opt (Tok T_COMMA), Tok T_ALLOW_ENCRYPTED_VALUE_MODIFICATIONS, Tok T_EQUAL,
         Alt [Tok T_ON, Tok T_OFF]]])], Seq [Alt [Tok T_FOR, Tok T_FROM], Tok T_CERTIFICATE,
         Lab (Assign ''cert_name'') (Ref RuleId')], Seq [Alt [Tok T_FOR, Tok T_FROM],
         Tok T_ASYMMETRIC, Tok T_KEY, Lab (Assign ''asym_key_name'') (Ref RuleId')]]]),
       (None, Seq [Tok T_CREATE, Tok T_USER, Lab (Assign ''user_name'') (Ref RuleId')])]\<rparr>"

definition g_create_user_azure_sql_dw :: rule where [grammar_rules]:
  "g_create_user_azure_sql_dw = \<lparr>rule_index = RuleCreate_user_azure_sql_dw, rule_alts = [
       (None, Seq [Tok T_CREATE, Tok T_USER, Lab (Assign ''user_name'') (Ref RuleId'),
         Opt (Alt [Seq [Alt [Tok T_FOR, Tok T_FROM], Tok T_LOGIN,
         Lab (Assign ''login_name'') (Ref RuleId')], Seq [Tok T_WITHOUT, Tok T_LOGIN]]),
         Opt (Seq [Tok T_WITH, Tok T_DEFAULT_SCHEMA, Tok T_EQUAL,
         Lab (Assign ''schema_name'') (Ref RuleId')])]),
       (None, Seq [Tok T_CREATE, Tok T_USER,
         Lab (Assign ''Azure_Active_Directory_principal'') (Ref RuleId'), Tok T_FROM,
         Tok T_EXTERNAL, Tok T_PROVIDER, Opt (Seq [Tok T_WITH, Tok T_DEFAULT_SCHEMA,
         Tok T_EQUAL, Lab (Assign ''schema_name'') (Ref RuleId')])])]\<rparr>"

definition g_alter_user_azure_sql :: rule where [grammar_rules]:
  "g_alter_user_azure_sql = \<lparr>rule_index = RuleAlter_user_azure_sql, rule_alts = [
       (None, Seq [Tok T_ALTER, Tok T_USER, Lab (Assign ''username'') (Ref RuleId'),
         Tok T_WITH, Plus (Alt [Seq [Opt (Tok T_COMMA), Tok T_NAME, Tok T_EQUAL,
         Lab (Assign ''newusername'') (Ref RuleId')], Seq [Opt (Tok T_COMMA),
         Tok T_DEFAULT_SCHEMA, Tok T_EQUAL, Lab (Assign ''schema_name'') (Ref RuleId')],
         Seq [Opt (Tok T_COMMA), Tok T_LOGIN, Tok T_EQUAL,
         Lab (Assign ''loginame'') (Ref RuleId')], Seq [Opt (Tok T_COMMA),
         Tok T_ALLOW_ENCRYPTED_VALUE_MODIFICATIONS, Tok T_EQUAL, Alt [Tok T_ON,
         Tok T_OFF]]])])]\<rparr>"

definition g_alter_workload_group :: rule where [grammar_rules]:
  "g_alter_workload_group = \<lparr>rule_index = RuleAlter_workload_group, rule_alts = [
       (None, Seq [Tok T_ALTER, Tok T_WORKLOAD, Tok T_GROUP,
         Alt [Lab (Assign ''workload_group_group_name'') (Ref RuleId'),
         Tok T_DEFAULT_DOUBLE_QUOTE], Opt (Seq [Tok T_WITH, Tok T_LR_BRACKET,
         Plus (Alt [Seq [Tok T_IMPORTANCE, Tok T_EQUAL, Alt [Tok T_LOW, Tok T_MEDIUM,
         Tok T_HIGH]], Seq [Opt (Tok T_COMMA), Tok T_REQUEST_MAX_MEMORY_GRANT_PERCENT,
         Tok T_EQUAL, Lab (Assign ''request_max_memory_grant'') (Tok T_DECIMAL)],
         Seq [Opt (Tok T_COMMA), Tok T_REQUEST_MAX_CPU_TIME_SEC, Tok T_EQUAL,
         Lab (Assign ''request_max_cpu_time_sec'') (Tok T_DECIMAL)],
         Seq [Tok T_REQUEST_MEMORY_GRANT_TIMEOUT_SEC, Tok T_EQUAL,
         Lab (Assign ''request_memory_grant_timeout_sec'') (Tok T_DECIMAL)],
         Seq [Tok T_MAX_DOP, Tok T_EQUAL, Lab (Assign ''max_dop'') (Tok T_DECIMAL)],
         Seq [Tok T_GROUP_MAX_REQUESTS, Tok T_EQUAL,
         Lab (Assign ''group_max_requests'') (Tok T_DECIMAL)]]), Tok T_RR_BRACKET]),
         Opt (Seq [Tok T_USING, Alt [Lab (Assign ''workload_group_pool_name'') (Ref RuleId'),
         Tok T_DEFAULT_DOUBLE_QUOTE]])])]\<rparr>"

definition g_create_workload_group :: rule where [grammar_rules]:
  "g_create_workload_group = \<lparr>rule_index = RuleCreate_workload_group, rule_alts = [
       (None, Seq [Tok T_CREATE, Tok T_WORKLOAD, Tok T_GROUP,
         Lab (Assign ''workload_group_group_name'') (Ref RuleId'), Opt (Seq [Tok T_WITH,
         Tok T_LR_BRACKET, Plus (Alt [Seq [Tok T_IMPORTANCE, Tok T_EQUAL, Alt [Tok T_LOW,
         Tok T_MEDIUM, Tok T_HIGH]], Seq [Opt (Tok T_COMMA),
         Tok T_REQUEST_MAX_MEMORY_GRANT_PERCENT, Tok T_EQUAL,
         Lab (Assign ''request_max_memory_grant'') (Tok T_DECIMAL)], Seq [Opt (Tok T_COMMA),
         Tok T_REQUEST_MAX_CPU_TIME_SEC, Tok T_EQUAL,
         Lab (Assign ''request_max_cpu_time_sec'') (Tok T_DECIMAL)],
         Seq [Tok T_REQUEST_MEMORY_GRANT_TIMEOUT_SEC, Tok T_EQUAL,
         Lab (Assign ''request_memory_grant_timeout_sec'') (Tok T_DECIMAL)],
         Seq [Tok T_MAX_DOP, Tok T_EQUAL, Lab (Assign ''max_dop'') (Tok T_DECIMAL)],
         Seq [Tok T_GROUP_MAX_REQUESTS, Tok T_EQUAL,
         Lab (Assign ''group_max_requests'') (Tok T_DECIMAL)]]), Tok T_RR_BRACKET]),
         Opt (Seq [Tok T_USING,
         Opt (Alt [Lab (Assign ''workload_group_pool_name'') (Ref RuleId'),
         Tok T_DEFAULT_DOUBLE_QUOTE]), Opt (Alt [Seq [Opt (Tok T_COMMA), Tok T_EXTERNAL,
         Lab (Assign ''external_pool_name'') (Ref RuleId')], Tok T_DEFAULT_DOUBLE_QUOTE])])])]\<rparr>"

definition g_create_xml_schema_collection :: rule where [grammar_rules]:
  "g_create_xml_schema_collection = \<lparr>rule_index = RuleCreate_xml_schema_collection, rule_alts = [
       (None, Seq [Tok T_CREATE, Tok T_XML, Tok T_SCHEMA, Tok T_COLLECTION,
         Opt (Seq [Lab (Assign ''relational_schema'') (Ref RuleId'), Tok T_DOT]),
         Lab (Assign ''sql_identifier'') (Ref RuleId'), Tok T_AS, Alt [Tok T_STRING,
         Ref RuleId', Tok T_LOCAL_ID]])]\<rparr>"

definition g_create_partition_function :: rule where [grammar_rules]:
  "g_create_partition_function = \<lparr>rule_index = RuleCreate_partition_function, rule_alts = [
       (None, Seq [Tok T_CREATE, Tok T_PARTITION, Tok T_FUNCTION,
         Lab (Assign ''partition_function_name'') (Ref RuleId'), Tok T_LR_BRACKET,
         Lab (Assign ''input_parameter_type'') (Ref RuleData_type), Tok T_RR_BRACKET, Tok T_AS,
         Tok T_RANGE, Opt (Alt [Tok T_LEFT, Tok T_RIGHT]), Tok T_FOR, Tok T_VALUES,
         Tok T_LR_BRACKET, Lab (Assign ''boundary_values'') (Ref RuleExpression_list'),
         Tok T_RR_BRACKET])]\<rparr>"

definition g_create_partition_scheme :: rule where [grammar_rules]:
  "g_create_partition_scheme = \<lparr>rule_index = RuleCreate_partition_scheme, rule_alts = [
       (None, Seq [Tok T_CREATE, Tok T_PARTITION, Tok T_SCHEME,
         Lab (Assign ''partition_scheme_name'') (Ref RuleId'), Tok T_AS, Tok T_PARTITION,
         Lab (Assign ''partition_function_name'') (Ref RuleId'), Opt (Tok T_ALL), Tok T_TO,
         Tok T_LR_BRACKET, Lab (Append ''file_group_names'') (Ref RuleId'),
         Star (Seq [Tok T_COMMA, Lab (Append ''file_group_names'') (Ref RuleId')]),
         Tok T_RR_BRACKET])]\<rparr>"

definition g_create_queue :: rule where [grammar_rules]:
  "g_create_queue = \<lparr>rule_index = RuleCreate_queue, rule_alts = [
       (None, Seq [Tok T_CREATE, Tok T_QUEUE, Alt [Ref RuleFull_table_name,
         Lab (Assign ''queue_name'') (Ref RuleId')], Opt (Ref RuleQueue_settings),
         Opt (Alt [Seq [Tok T_ON, Lab (Assign ''filegroup'') (Ref RuleId')], Tok T_DEFAULT])])]\<rparr>"

definition g_queue_settings :: rule where [grammar_rules]:
  "g_queue_settings = \<lparr>rule_index = RuleQueue_settings, rule_alts = [
       (None, Seq [Tok T_WITH, Opt (Seq [Tok T_STATUS, Tok T_EQUAL, Ref RuleOn_off,
         Opt (Tok T_COMMA)]), Opt (Seq [Tok T_RETENTION, Tok T_EQUAL, Ref RuleOn_off,
         Opt (Tok T_COMMA)]), Opt (Seq [Tok T_ACTIVATION, Tok T_LR_BRACKET,
         Alt [Seq [Opt (Seq [Tok T_STATUS, Tok T_EQUAL, Ref RuleOn_off, Opt (Tok T_COMMA)]),
         Opt (Seq [Tok T_PROCEDURE_NAME, Tok T_EQUAL, Ref RuleFunc_proc_name_database_schema,
         Opt (Tok T_COMMA)]), Opt (Seq [Tok T_MAX_QUEUE_READERS, Tok T_EQUAL,
         Lab (Assign ''max_readers'') (Tok T_DECIMAL), Opt (Tok T_COMMA)]),
         Opt (Seq [Tok T_EXECUTE, Tok T_AS, Alt [Tok T_SELF,
         Lab (Assign ''user_name'') (Tok T_STRING), Tok T_OWNER], Opt (Tok T_COMMA)])],
         Tok T_DROP], Tok T_RR_BRACKET, Opt (Tok T_COMMA)]),
         Opt (Seq [Tok T_POISON_MESSAGE_HANDLING, Tok T_LR_BRACKET, Seq [Tok T_STATUS,
         Tok T_EQUAL, Ref RuleOn_off], Tok T_RR_BRACKET])])]\<rparr>"

definition g_alter_queue :: rule where [grammar_rules]:
  "g_alter_queue = \<lparr>rule_index = RuleAlter_queue, rule_alts = [
       (None, Seq [Tok T_ALTER, Tok T_QUEUE, Alt [Ref RuleFull_table_name,
         Lab (Assign ''queue_name'') (Ref RuleId')], Alt [Ref RuleQueue_settings,
         Ref RuleQueue_action]])]\<rparr>"

definition g_queue_action :: rule where [grammar_rules]:
  "g_queue_action = \<lparr>rule_index = RuleQueue_action, rule_alts = [
       (None, Seq [Tok T_REBUILD, Opt (Seq [Tok T_WITH, Tok T_LR_BRACKET,
         Ref RuleQueue_rebuild_options, Tok T_RR_BRACKET])]),
       (None, Seq [Tok T_REORGANIZE, Opt (Seq [Tok T_WITH, Tok T_LOB_COMPACTION, Tok T_EQUAL,
         Ref RuleOn_off])]),
       (None, Seq [Tok T_MOVE, Tok T_TO, Alt [Ref RuleId', Tok T_DEFAULT]])]\<rparr>"

definition g_queue_rebuild_options :: rule where [grammar_rules]:
  "g_queue_rebuild_options = \<lparr>rule_index = RuleQueue_rebuild_options, rule_alts = [
       (None, Seq [Tok T_MAXDOP, Tok T_EQUAL, Tok T_DECIMAL])]\<rparr>"

definition g_create_contract :: rule where [grammar_rules]:
  "g_create_contract = \<lparr>rule_index = RuleCreate_contract, rule_alts = [
       (None, Seq [Tok T_CREATE, Tok T_CONTRACT, Ref RuleContract_name,
         Opt (Seq [Tok T_AUTHORIZATION, Lab (Assign ''owner_name'') (Ref RuleId')]),
         Tok T_LR_BRACKET, Plus (Seq [Alt [Lab (Assign ''message_type_name'') (Ref RuleId'),
         Tok T_DEFAULT], Tok T_SENT, Tok T_BY, Alt [Tok T_INITIATOR, Tok T_TARGET, Tok T_ANY],
         Opt (Tok T_COMMA)]), Tok T_RR_BRACKET])]\<rparr>"

definition g_conversation_statement :: rule where [grammar_rules]:
  "g_conversation_statement = \<lparr>rule_index = RuleConversation_statement, rule_alts = [
       (None, Ref RuleBegin_conversation_timer),
       (None, Ref RuleBegin_conversation_dialog),
       (None, Ref RuleEnd_conversation),
       (None, Ref RuleGet_conversation),
       (None, Ref RuleSend_conversation),
       (None, Ref RuleWaitfor_conversation)]\<rparr>"

definition g_message_statement :: rule where [grammar_rules]:
  "g_message_statement = \<lparr>rule_index = RuleMessage_statement, rule_alts = [
       (None, Seq [Tok T_CREATE, Tok T_MESSAGE, Tok T_TYPE,
         Lab (Assign ''message_type_name'') (Ref RuleId'), Opt (Seq [Tok T_AUTHORIZATION,
         Lab (Assign ''owner_name'') (Ref RuleId')]), Seq [Tok T_VALIDATION, Tok T_EQUAL,
         Alt [Tok T_NONE, Tok T_EMPTY, Tok T_WELL_FORMED_XML, Seq [Tok T_VALID_XML, Tok T_WITH,
         Tok T_SCHEMA, Tok T_COLLECTION,
         Lab (Assign ''schema_collection_name'') (Ref RuleId')]]]])]\<rparr>"

definition g_merge_statement :: rule where [grammar_rules]:
  "g_merge_statement = \<lparr>rule_index = RuleMerge_statement, rule_alts = [
       (None, Seq [Opt (Ref RuleWith_expression), Tok T_MERGE, Opt (Seq [Tok T_TOP,
         Tok T_LR_BRACKET, Ref RuleExpression, Tok T_RR_BRACKET, Opt (Tok T_PERCENT)]),
         Opt (Tok T_INTO), Ref RuleDdl_object, Opt (Ref RuleWith_table_hints),
         Opt (Ref RuleAs_table_alias), Tok T_USING, Ref RuleTable_sources, Tok T_ON,
         Ref RuleSearch_condition, Plus (Ref RuleWhen_matches), Opt (Ref RuleOutput_clause),
         Opt (Ref RuleOption_clause), Tok T_SEMI])]\<rparr>"

definition g_when_matches :: rule where [grammar_rules]:
  "g_when_matches = \<lparr>rule_index = RuleWhen_matches, rule_alts = [
       (None, Plus (Seq [Tok T_WHEN, Tok T_MATCHED, Opt (Seq [Tok T_AND,
         Ref RuleSearch_condition]), Tok T_THEN, Ref RuleMerge_matched])),
       (None, Seq [Tok T_WHEN, Tok T_NOT, Tok T_MATCHED, Opt (Seq [Tok T_BY, Tok T_TARGET]),
         Opt (Seq [Tok T_AND, Ref RuleSearch_condition]), Tok T_THEN,
         Ref RuleMerge_not_matched]),
       (None, Plus (Seq [Tok T_WHEN, Tok T_NOT, Tok T_MATCHED, Tok T_BY, Tok T_SOURCE,
         Opt (Seq [Tok T_AND, Ref RuleSearch_condition]), Tok T_THEN, Ref RuleMerge_matched]))]\<rparr>"

definition g_merge_matched :: rule where [grammar_rules]:
  "g_merge_matched = \<lparr>rule_index = RuleMerge_matched, rule_alts = [
       (None, Seq [Tok T_UPDATE, Tok T_SET, Ref RuleUpdate_elem_merge, Star (Seq [Tok T_COMMA,
         Ref RuleUpdate_elem_merge])]),
       (None, Tok T_DELETE)]\<rparr>"

definition g_merge_not_matched :: rule where [grammar_rules]:
  "g_merge_not_matched = \<lparr>rule_index = RuleMerge_not_matched, rule_alts = [
       (None, Seq [Tok T_INSERT, Opt (Seq [Tok T_LR_BRACKET, Ref RuleColumn_name_list,
         Tok T_RR_BRACKET]), Alt [Ref RuleTable_value_constructor, Seq [Tok T_DEFAULT,
         Tok T_VALUES]]])]\<rparr>"

definition g_delete_statement :: rule where [grammar_rules]:
  "g_delete_statement = \<lparr>rule_index = RuleDelete_statement, rule_alts = [
       (None, Seq [Opt (Ref RuleWith_expression), Tok T_DELETE, Opt (Alt [Seq [Tok T_TOP,
         Tok T_LR_BRACKET, Ref RuleExpression, Tok T_RR_BRACKET, Opt (Tok T_PERCENT)],
         Seq [Tok T_TOP, Tok T_DECIMAL]]), Opt (Tok T_FROM), Ref RuleDelete_statement_from,
         Opt (Ref RuleWith_table_hints), Opt (Ref RuleOutput_clause),
         Opt (Ref RuleFrom_table_sources), Opt (Seq [Tok T_WHERE,
         Alt [Ref RuleSearch_condition, Seq [Tok T_CURRENT, Tok T_OF,
         Alt [Seq [Opt (Tok T_GLOBAL), Ref RuleCursor_name],
         Lab (Assign ''cursor_var'') (Tok T_LOCAL_ID)]]]]), Opt (Ref RuleFor_clause),
         Opt (Ref RuleOption_clause), Opt (Tok T_SEMI)])]\<rparr>"

definition rules_2 :: grammar where
  "rules_2 = [
     g_truncate_table, g_create_column_master_key, g_alter_credential, g_create_credential,
     g_alter_cryptographic_provider, g_create_cryptographic_provider, g_create_endpoint,
     g_endpoint_encryption_alogorithm_clause, g_endpoint_authentication_clause,
     g_endpoint_listener_clause, g_create_event_notification, g_create_or_alter_event_session,
     g_event_session_predicate_expression, g_event_session_predicate_factor,
     g_event_session_predicate_leaf, g_alter_external_data_source, g_alter_external_library,
     g_create_external_library, g_alter_external_resource_pool,
     g_create_external_resource_pool, g_alter_fulltext_catalog, g_create_fulltext_catalog,
     g_alter_fulltext_stoplist, g_create_fulltext_stoplist, g_alter_login_sql_server,
     g_create_login_sql_server, g_alter_login_azure_sql, g_create_login_azure_sql,
     g_alter_login_azure_sql_dw_and_pdw, g_create_login_pdw, g_alter_master_key_sql_server,
     g_create_master_key_sql_server, g_alter_master_key_azure_sql,
     g_create_master_key_azure_sql, g_alter_message_type, g_alter_partition_function,
     g_alter_partition_scheme, g_alter_remote_service_binding, g_create_remote_service_binding,
     g_create_resource_pool, g_alter_resource_governor, g_alter_database_audit_specification,
     g_audit_action_spec_group, g_audit_action_specification, g_action_specification,
     g_audit_class_name, g_audit_securable, g_alter_db_role,
     g_create_database_audit_specification, g_create_db_role, g_create_route, g_create_rule,
     g_alter_schema_sql, g_create_schema, g_create_schema_azure_sql_dw_and_pdw,
     g_alter_schema_azure_sql_dw_and_pdw, g_create_search_property_list,
     g_create_security_policy, g_alter_sequence, g_create_sequence, g_alter_server_audit,
     g_create_server_audit, g_alter_server_audit_specification,
     g_create_server_audit_specification, g_alter_server_configuration, g_alter_server_role,
     g_create_server_role, g_alter_server_role_pdw, g_alter_service, g_opt_arg_clause,
     g_create_service, g_alter_service_master_key, g_alter_symmetric_key, g_create_synonym,
     g_alter_user, g_create_user, g_create_user_azure_sql_dw, g_alter_user_azure_sql,
     g_alter_workload_group, g_create_workload_group, g_create_xml_schema_collection,
     g_create_partition_function, g_create_partition_scheme, g_create_queue, g_queue_settings,
     g_alter_queue, g_queue_action, g_queue_rebuild_options, g_create_contract,
     g_conversation_statement, g_message_statement, g_merge_statement, g_when_matches,
     g_merge_matched, g_merge_not_matched, g_delete_statement]"

end
