(* ===== verification/Contexts_2.thy ===== *)
theory Contexts_2
  imports Contexts Tokens Rule_Ids Label_Ids
begin

text \<open>
  Context classes of \<open>src/port/cpp/TSqlParser.h\<close>, from \<open>Truncate_tableContext\<close> to
  \<open>Delete_statementContext\<close>: one definition per class, its members in the order of their declarations.
\<close>

definition Truncate_tableContext :: context_class where [context_classes]:
  "Truncate_tableContext = \<lparr>class_id = RuleContext RuleTruncate_table, class_base = ParserRuleContext, members = [
     Constructor, GetRuleIndex, TerminalGet T_TRUNCATE, TerminalGet T_TABLE,
     ContextGet RuleTable_name, TerminalGet T_WITH, TerminalAll T_LR_BRACKET,
     TerminalNth T_LR_BRACKET, TerminalGet T_PARTITIONS, TerminalAll T_RR_BRACKET,
     TerminalNth T_RR_BRACKET, TerminalAll T_DECIMAL, TerminalNth T_DECIMAL, TerminalAll T_TO,
     TerminalNth T_TO, TerminalAll T_COMMA, TerminalNth T_COMMA, EnterRule, ExitRule, Accept]\<rparr>"

definition Create_column_master_keyContext :: context_class where [context_classes]:
  "Create_column_master_keyContext = \<lparr>class_id = RuleContext RuleCreate_column_master_key, class_base = ParserRuleContext, members = [
     ContextField ''key_name'' RuleId', TokenField ''key_store_provider_name'',
     TokenField ''key_path'', Constructor, GetRuleIndex, TerminalGet T_CREATE,
     TerminalGet T_COLUMN, TerminalGet T_MASTER, TerminalGet T_KEY, TerminalGet T_WITH,
     TerminalGet T_LR_BRACKET, TerminalGet T_KEY_STORE_PROVIDER_NAME, TerminalAll T_EQUAL,
     TerminalNth T_EQUAL, TerminalGet T_COMMA, TerminalGet T_KEY_PATH,
     TerminalGet T_RR_BRACKET, ContextGet RuleId', TerminalAll T_STRING, TerminalNth T_STRING,
     EnterRule, ExitRule, Accept]\<rparr>"

definition Alter_credentialContext :: context_class where [context_classes]:
  "Alter_credentialContext = \<lparr>class_id = RuleContext RuleAlter_credential, class_base = ParserRuleContext, members = [
     ContextField ''credential_name'' RuleId', TokenField ''identity_name'',
     TokenField ''secret'', Constructor, GetRuleIndex, TerminalGet T_ALTER,
     TerminalGet T_CREDENTIAL, TerminalGet T_WITH, TerminalGet T_IDENTITY, TerminalAll T_EQUAL,
     TerminalNth T_EQUAL, ContextGet RuleId', TerminalAll T_STRING, TerminalNth T_STRING,
     TerminalGet T_COMMA, TerminalGet T_SECRET, EnterRule, ExitRule, Accept]\<rparr>"

definition Create_credentialContext :: context_class where [context_classes]:
  "Create_credentialContext = \<lparr>class_id = RuleContext RuleCreate_credential, class_base = ParserRuleContext, members = [
     ContextField ''credential_name'' RuleId', TokenField ''identity_name'',
     TokenField ''secret'', ContextField ''cryptographic_provider_name'' RuleId', Constructor,
     GetRuleIndex, TerminalGet T_CREATE, TerminalGet T_CREDENTIAL, TerminalGet T_WITH,
     TerminalGet T_IDENTITY, TerminalAll T_EQUAL, TerminalNth T_EQUAL, ContextAll RuleId',
     ContextNth RuleId', TerminalAll T_STRING, TerminalNth T_STRING, TerminalGet T_COMMA,
     TerminalGet T_SECRET, TerminalGet T_FOR, TerminalGet T_CRYPTOGRAPHIC,
     TerminalGet T_PROVIDER, EnterRule, ExitRule, Accept]\<rparr>"

definition Alter_cryptographic_providerContext :: context_class where [context_classes]:
  "Alter_cryptographic_providerContext = \<lparr>class_id = RuleContext RuleAlter_cryptographic_provider, class_base = ParserRuleContext, members = [
     ContextField ''provider_name'' RuleId', TokenField ''crypto_provider_ddl_file'',
     Constructor, GetRuleIndex, TerminalGet T_ALTER, TerminalGet T_CRYPTOGRAPHIC,
     TerminalGet T_PROVIDER, ContextGet RuleId', TerminalGet T_FROM, TerminalGet T_FILE,
     TerminalGet T_EQUAL, TerminalGet T_STRING, TerminalGet T_ENABLE, TerminalGet T_DISABLE,
     EnterRule, ExitRule, Accept]\<rparr>"

definition Create_cryptographic_providerContext :: context_class where [context_classes]:
  "Create_cryptographic_providerContext = \<lparr>class_id = RuleContext RuleCreate_cryptographic_provider, class_base = ParserRuleContext, members = [
     ContextField ''provider_name'' RuleId', TokenField ''path_of_DLL'', Constructor,
     GetRuleIndex, TerminalGet T_CREATE, TerminalGet T_CRYPTOGRAPHIC, TerminalGet T_PROVIDER,
     TerminalGet T_FROM, TerminalGet T_FILE, TerminalGet T_EQUAL, ContextGet RuleId',
     TerminalGet T_STRING, EnterRule, ExitRule, Accept]\<rparr>"

definition Create_endpointContext :: context_class where [context_classes]:
  "Create_endpointContext = \<lparr>class_id = RuleContext RuleCreate_endpoint, class_base = ParserRuleContext, members = [
     ContextField ''endpointname'' RuleId', ContextField ''login'' RuleId',
     TokenField ''state'', Constructor, GetRuleIndex, TerminalGet T_CREATE,
     TerminalGet T_ENDPOINT, TerminalGet T_AS, TerminalGet T_TCP, TerminalAll T_LR_BRACKET,
     TerminalNth T_LR_BRACKET, ContextGet RuleEndpoint_listener_clause,
     TerminalAll T_RR_BRACKET, TerminalNth T_RR_BRACKET, ContextAll RuleId',
     ContextNth RuleId', TerminalGet T_FOR, TerminalGet T_TSQL, TerminalGet T_SERVICE_BROKER,
     ContextGet RuleEndpoint_authentication_clause, TerminalGet T_DATABASE_MIRRORING,
     TerminalGet T_ROLE, TerminalAll T_EQUAL, TerminalNth T_EQUAL, TerminalGet T_AUTHORIZATION,
     TerminalGet T_STATE, TerminalGet T_WITNESS, TerminalGet T_PARTNER, TerminalGet T_ALL,
     TerminalGet T_STARTED, TerminalGet T_STOPPED, TerminalAll T_DISABLED,
     TerminalNth T_DISABLED, ContextGet RuleEndpoint_encryption_alogorithm_clause,
     TerminalGet T_MESSAGE_FORWARDING, TerminalGet T_MESSAGE_FORWARD_SIZE,
     TerminalGet T_DECIMAL, TerminalAll T_COMMA, TerminalNth T_COMMA, TerminalGet T_ENABLED,
     EnterRule, ExitRule, Accept]\<rparr>"

definition Endpoint_encryption_alogorithm_clauseContext :: context_class where [context_classes]:
  "Endpoint_encryption_alogorithm_clauseContext = \<lparr>class_id = RuleContext RuleEndpoint_encryption_alogorithm_clause, class_base = ParserRuleContext, members = [
     Constructor, GetRuleIndex, TerminalGet T_ENCRYPTION, TerminalGet T_EQUAL,
     TerminalGet T_DISABLED, TerminalGet T_SUPPORTED, TerminalGet T_REQUIRED,
     TerminalGet T_ALGORITHM, TerminalGet T_AES, TerminalGet T_RC4, EnterRule, ExitRule, Accept]\<rparr>"

definition Endpoint_authentication_clauseContext :: context_class where [context_classes]:
  "Endpoint_authentication_clauseContext = \<lparr>class_id = RuleContext RuleEndpoint_authentication_clause, class_base = ParserRuleContext, members = [
     ContextField ''cert_name'' RuleId', Constructor, GetRuleIndex,
     TerminalGet T_AUTHENTICATION, TerminalGet T_EQUAL, TerminalGet T_WINDOWS,
     TerminalGet T_CERTIFICATE, ContextGet RuleId', TerminalGet T_NTLM, TerminalGet T_KERBEROS,
     TerminalGet T_NEGOTIATE, EnterRule, ExitRule, Accept]\<rparr>"

definition Endpoint_listener_clauseContext :: context_class where [context_classes]:
  "Endpoint_listener_clauseContext = \<lparr>class_id = RuleContext RuleEndpoint_listener_clause, class_base = ParserRuleContext, members = [
     TokenField ''port'', TokenField ''ipv4'', TokenField ''ipv6'', Constructor, GetRuleIndex,
     TerminalGet T_LISTENER_PORT, TerminalAll T_EQUAL, TerminalNth T_EQUAL,
     TerminalGet T_DECIMAL, TerminalGet T_COMMA, TerminalGet T_LISTENER_IP, TerminalGet T_ALL,
     TerminalGet T_LR_BRACKET, TerminalGet T_RR_BRACKET, TerminalGet T_IPV4_ADDR,
     TerminalGet T_STRING, EnterRule, ExitRule, Accept]\<rparr>"

definition Create_event_notificationContext :: context_class where [context_classes]:
  "Create_event_notificationContext = \<lparr>class_id = RuleContext RuleCreate_event_notification, class_base = ParserRuleContext, members = [
     ContextField ''event_notification_name'' RuleId', ContextField ''queue_name'' RuleId',
     ContextField ''event_type_or_group'' RuleId', TokenField ''broker_service'',
     TokenField ''broker_service_specifier_or_current_database'', Constructor, GetRuleIndex,
     TerminalGet T_CREATE, TerminalGet T_EVENT, TerminalGet T_NOTIFICATION, TerminalGet T_ON,
     TerminalGet T_FOR, TerminalGet T_TO, TerminalGet T_SERVICE, TerminalAll T_COMMA,
     TerminalNth T_COMMA, ContextAll RuleId', ContextNth RuleId', TerminalAll T_STRING,
     TerminalNth T_STRING, TerminalGet T_SERVER, TerminalGet T_DATABASE, TerminalGet T_QUEUE,
     TerminalGet T_WITH, TerminalGet T_FAN_IN, EnterRule, ExitRule, Accept]\<rparr>"

definition Create_or_alter_event_sessionContext :: context_class where [context_classes]:
  "Create_or_alter_event_sessionContext = \<lparr>class_id = RuleContext RuleCreate_or_alter_event_session, class_base = ParserRuleContext, members = [
     ContextField ''event_session_name'' RuleId', ContextField ''event_module_guid'' RuleId',
     ContextField ''event_package_name'' RuleId', ContextField ''event_name'' RuleId',
     ContextField ''event_customizable_attributue'' RuleId',
     ContextField ''action_name'' RuleId', ContextField ''target_name'' RuleId',
     ContextField ''target_parameter_name'' RuleId', TokenField ''max_memory'',
     TokenField ''max_dispatch_latency_seconds'', TokenField ''max_event_size'', Constructor,
     GetRuleIndex, TerminalAll T_EVENT, TerminalNth T_EVENT, TerminalGet T_SESSION,
     TerminalAll T_ON, TerminalNth T_ON, TerminalGet T_SERVER, TerminalGet T_CREATE,
     TerminalGet T_ALTER, ContextAll RuleId', ContextNth RuleId', TerminalAll T_ADD,
     TerminalNth T_ADD, TerminalAll T_DROP, TerminalNth T_DROP, TerminalAll T_DOT,
     TerminalNth T_DOT, TerminalAll T_TARGET, TerminalNth T_TARGET, TerminalGet T_WITH,
     TerminalAll T_LR_BRACKET, TerminalNth T_LR_BRACKET, TerminalAll T_RR_BRACKET,
     TerminalNth T_RR_BRACKET, TerminalGet T_STATE, TerminalAll T_EQUAL, TerminalNth T_EQUAL,
     TerminalGet T_START, TerminalGet T_STOP, TerminalAll T_COMMA, TerminalNth T_COMMA,
     TerminalAll T_SET, TerminalNth T_SET, TerminalGet T_MAX_MEMORY,
     TerminalGet T_EVENT_RETENTION_MODE, TerminalGet T_MAX_DISPATCH_LATENCY,
     TerminalGet T_MAX_EVENT_SIZE, TerminalGet T_MEMORY_PARTITION_MODE,
     TerminalGet T_TRACK_CAUSALITY, TerminalGet T_STARTUP_STATE, TerminalAll T_DECIMAL,
     TerminalNth T_DECIMAL, TerminalAll T_KB, TerminalNth T_KB, TerminalAll T_MB,
     TerminalNth T_MB, TerminalGet T_ALLOW_SINGLE_EVENT_LOSS,
     TerminalGet T_ALLOW_MULTIPLE_EVENT_LOSS, TerminalGet T_NO_EVENT_LOSS, TerminalGet T_NONE,
     TerminalGet T_PER_NODE, TerminalGet T_PER_CPU, TerminalAll T_OFF, TerminalNth T_OFF,
     TerminalGet T_SECONDS, TerminalGet T_INFINITE, TerminalAll T_ACTION, TerminalNth T_ACTION,
     TerminalAll T_WHERE, TerminalNth T_WHERE,
     ContextAll RuleEvent_session_predicate_expression,
     ContextNth RuleEvent_session_predicate_expression, TerminalAll T_STRING,
     TerminalNth T_STRING, EnterRule, ExitRule, Accept]\<rparr>"

definition Event_session_predicate_expressionContext :: context_class where [context_classes]:
  "Event_session_predicate_expressionContext = \<lparr>class_id = RuleContext RuleEvent_session_predicate_expression, class_base = ParserRuleContext, members = [
     Constructor, GetRuleIndex, ContextAll RuleEvent_session_predicate_factor,
     ContextNth RuleEvent_session_predicate_factor, TerminalAll T_LR_BRACKET,
     TerminalNth T_LR_BRACKET, ContextAll RuleEvent_session_predicate_expression,
     ContextNth RuleEvent_session_predicate_expression, TerminalAll T_RR_BRACKET,
     TerminalNth T_RR_BRACKET, TerminalAll T_COMMA, TerminalNth T_COMMA, TerminalAll T_NOT,
     TerminalNth T_NOT, TerminalAll T_AND, TerminalNth T_AND, TerminalAll T_OR,
     TerminalNth T_OR, EnterRule, ExitRule, Accept]\<rparr>"

definition Event_session_predicate_factorContext :: context_class where [context_classes]:
  "Event_session_predicate_factorContext = \<lparr>class_id = RuleContext RuleEvent_session_predicate_factor, class_base = ParserRuleContext, members = [
     Constructor, GetRuleIndex, ContextGet RuleEvent_session_predicate_leaf,
     TerminalGet T_LR_BRACKET, ContextGet RuleEvent_session_predicate_expression,
     TerminalGet T_RR_BRACKET, EnterRule, ExitRule, Accept]\<rparr>"

definition Event_session_predicate_leafContext :: context_class where [context_classes]:
  "Event_session_predicate_leafContext = \<lparr>class_id = RuleContext RuleEvent_session_predicate_leaf, class_base = ParserRuleContext, members = [
     ContextField ''event_field_name'' RuleId', ContextField ''event_module_guid'' RuleId',
     ContextField ''event_package_name'' RuleId',
     ContextField ''predicate_source_name'' RuleId',
     ContextField ''predicate_compare_name'' RuleId', Constructor, GetRuleIndex,
     ContextAll RuleId', ContextNth RuleId', TerminalGet T_DECIMAL, TerminalGet T_STRING,
     TerminalGet T_EQUAL, TerminalGet T_GREATER, TerminalGet T_LESS, TerminalAll T_DOT,
     TerminalNth T_DOT, TerminalGet T_EXCLAMATION, TerminalGet T_LR_BRACKET,
     TerminalGet T_RR_BRACKET, TerminalGet T_COMMA, EnterRule, ExitRule, Accept]\<rparr>"

definition Alter_external_data_sourceContext :: context_class where [context_classes]:
  "Alter_external_data_sourceContext = \<lparr>class_id = RuleContext RuleAlter_external_data_source, class_base = ParserRuleContext, members = [
     ContextField ''data_source_name'' RuleId', TokenField ''location'',
     TokenField ''resource_manager_location'', ContextField ''credential_name'' RuleId',
     Constructor, GetRuleIndex, TerminalGet T_ALTER, TerminalGet T_EXTERNAL,
     TerminalGet T_DATA, TerminalGet T_SOURCE, TerminalGet T_SET, ContextAll RuleId',
     ContextNth RuleId', TerminalAll T_LOCATION, TerminalNth T_LOCATION, TerminalAll T_EQUAL,
     TerminalNth T_EQUAL, TerminalAll T_RESOURCE_MANAGER_LOCATION,
     TerminalNth T_RESOURCE_MANAGER_LOCATION, TerminalAll T_CREDENTIAL,
     TerminalNth T_CREDENTIAL, TerminalAll T_STRING, TerminalNth T_STRING, TerminalAll T_COMMA,
     TerminalNth T_COMMA, TerminalGet T_WITH, TerminalGet T_LR_BRACKET, TerminalGet T_TYPE,
     TerminalGet T_BLOB_STORAGE, TerminalGet T_RR_BRACKET, EnterRule, ExitRule, Accept]\<rparr>"

definition Alter_external_libraryContext :: context_class where [context_classes]:
  "Alter_external_libraryContext = \<lparr>class_id = RuleContext RuleAlter_external_library, class_base = ParserRuleContext, members = [
     ContextField ''library_name'' RuleId', ContextField ''owner_name'' RuleId',
     TokenField ''client_library'', ContextField ''external_data_source_name'' RuleId',
     Constructor, GetRuleIndex, TerminalGet T_ALTER, TerminalGet T_EXTERNAL,
     TerminalGet T_LIBRARY, ContextAll RuleId', ContextNth RuleId', TerminalGet T_SET,
     TerminalGet T_ADD, TerminalGet T_LR_BRACKET, TerminalGet T_CONTENT, TerminalAll T_EQUAL,
     TerminalNth T_EQUAL, TerminalGet T_WITH, TerminalAll T_RR_BRACKET,
     TerminalNth T_RR_BRACKET, TerminalGet T_AUTHORIZATION, TerminalGet T_BINARY,
     TerminalGet T_NONE, TerminalAll T_COMMA, TerminalNth T_COMMA, TerminalGet T_PLATFORM,
     TerminalGet T_STRING, TerminalAll T_LANGUAGE, TerminalNth T_LANGUAGE,
     TerminalAll T_DATA_SOURCE, TerminalNth T_DATA_SOURCE, TerminalAll T_R, TerminalNth T_R,
     TerminalAll T_PYTHON, TerminalNth T_PYTHON, TerminalGet T_WINDOWS, TerminalGet T_LINUX,
     EnterRule, ExitRule, Accept]\<rparr>"

definition Create_external_libraryContext :: context_class where [context_classes]:
  "Create_external_libraryContext = \<lparr>class_id = RuleContext RuleCreate_external_library, class_base = ParserRuleContext, members = [
     ContextField ''library_name'' RuleId', ContextField ''owner_name'' RuleId',
     TokenField ''client_library'', ContextField ''external_data_source_name'' RuleId',
     Constructor, GetRuleIndex, TerminalGet T_CREATE, TerminalGet T_EXTERNAL,
     TerminalGet T_LIBRARY, TerminalGet T_FROM, ContextAll RuleId', ContextNth RuleId',
     TerminalGet T_AUTHORIZATION, TerminalGet T_WITH, TerminalAll T_RR_BRACKET,
     TerminalNth T_RR_BRACKET, TerminalGet T_BINARY, TerminalGet T_NONE, TerminalAll T_COMMA,
     TerminalNth T_COMMA, TerminalGet T_LR_BRACKET, TerminalGet T_CONTENT, TerminalAll T_EQUAL,
     TerminalNth T_EQUAL, TerminalGet T_STRING, TerminalGet T_PLATFORM, TerminalAll T_LANGUAGE,
     TerminalNth T_LANGUAGE, TerminalAll T_DATA_SOURCE, TerminalNth T_DATA_SOURCE,
     TerminalAll T_R, TerminalNth T_R, TerminalAll T_PYTHON, TerminalNth T_PYTHON,
     TerminalGet T_WINDOWS, TerminalGet T_LINUX, EnterRule, ExitRule, Accept]\<rparr>"

definition Alter_external_resource_poolContext :: context_class where [context_classes]:
  "Alter_external_resource_poolContext = \<lparr>class_id = RuleContext RuleAlter_external_resource_pool, class_base = ParserRuleContext, members = [
     ContextField ''pool_name'' RuleId', TokenField ''max_cpu_percent'',
     TokenField ''max_memory_percent'', TokenField ''max_processes'', Constructor,
     GetRuleIndex, TerminalGet T_ALTER, TerminalGet T_EXTERNAL, TerminalGet T_RESOURCE,
     TerminalGet T_POOL, TerminalGet T_WITH, TerminalGet T_LR_BRACKET,
     TerminalGet T_MAX_CPU_PERCENT, TerminalAll T_EQUAL, TerminalNth T_EQUAL,
     TerminalGet T_RR_BRACKET, TerminalAll T_DECIMAL, TerminalNth T_DECIMAL,
     TerminalGet T_DEFAULT_DOUBLE_QUOTE, TerminalGet T_AFFINITY, TerminalGet T_CPU,
     TerminalGet T_NUMANODE, ContextGet RuleId', TerminalGet T_MAX_MEMORY_PERCENT,
     TerminalGet T_MAX_PROCESSES, TerminalGet T_AUTO, TerminalAll T_COMMA, TerminalNth T_COMMA,
     TerminalAll T_TO, TerminalNth T_TO, EnterRule, ExitRule, Accept]\<rparr>"

definition Create_external_resource_poolContext :: context_class where [context_classes]:
  "Create_external_resource_poolContext = \<lparr>class_id = RuleContext RuleCreate_external_resource_pool, class_base = ParserRuleContext, members = [
     ContextField ''pool_name'' RuleId', TokenField ''max_cpu_percent'',
     TokenField ''max_memory_percent'', TokenField ''max_processes'', Constructor,
     GetRuleIndex, TerminalGet T_CREATE, TerminalGet T_EXTERNAL, TerminalGet T_RESOURCE,
     TerminalGet T_POOL, TerminalGet T_WITH, TerminalGet T_LR_BRACKET,
     TerminalGet T_MAX_CPU_PERCENT, TerminalAll T_EQUAL, TerminalNth T_EQUAL,
     TerminalGet T_RR_BRACKET, ContextGet RuleId', TerminalAll T_DECIMAL,
     TerminalNth T_DECIMAL, TerminalGet T_AFFINITY, TerminalGet T_CPU, TerminalGet T_NUMANODE,
     TerminalGet T_MAX_MEMORY_PERCENT, TerminalGet T_MAX_PROCESSES, TerminalGet T_AUTO,
     TerminalAll T_COMMA, TerminalNth T_COMMA, TerminalAll T_TO, TerminalNth T_TO, EnterRule,
     ExitRule, Accept]\<rparr>"

definition Alter_fulltext_catalogContext :: context_class where [context_classes]:
  "Alter_fulltext_catalogContext = \<lparr>class_id = RuleContext RuleAlter_fulltext_catalog, class_base = ParserRuleContext, members = [
     ContextField ''catalog_name'' RuleId', Constructor, GetRuleIndex, TerminalGet T_ALTER,
     TerminalGet T_FULLTEXT, TerminalGet T_CATALOG, ContextGet RuleId', TerminalGet T_REBUILD,
     TerminalGet T_REORGANIZE, TerminalGet T_AS, TerminalGet T_DEFAULT, TerminalGet T_WITH,
     TerminalGet T_ACCENT_SENSITIVITY, TerminalGet T_EQUAL, TerminalGet T_ON,
     TerminalGet T_OFF, EnterRule, ExitRule, Accept]\<rparr>"

definition Create_fulltext_catalogContext :: context_class where [context_classes]:
  "Create_fulltext_catalogContext = \<lparr>class_id = RuleContext RuleCreate_fulltext_catalog, class_base = ParserRuleContext, members = [
     ContextField ''catalog_name'' RuleId', ContextField ''filegroup'' RuleId',
     TokenField ''rootpath'', ContextField ''owner_name'' RuleId', Constructor, GetRuleIndex,
     TerminalGet T_CREATE, TerminalGet T_FULLTEXT, TerminalGet T_CATALOG, ContextAll RuleId',
     ContextNth RuleId', TerminalAll T_ON, TerminalNth T_ON, TerminalGet T_FILEGROUP,
     TerminalGet T_IN, TerminalGet T_PATH, TerminalGet T_WITH,
     TerminalGet T_ACCENT_SENSITIVITY, TerminalGet T_EQUAL, TerminalGet T_AS,
     TerminalGet T_DEFAULT, TerminalGet T_AUTHORIZATION, TerminalGet T_STRING,
     TerminalGet T_OFF, EnterRule, ExitRule, Accept]\<rparr>"

definition Alter_fulltext_stoplistContext :: context_class where [context_classes]:
  "Alter_fulltext_stoplistContext = \<lparr>class_id = RuleContext RuleAlter_fulltext_stoplist, class_base = ParserRuleContext, members = [
     ContextField ''stoplist_name'' RuleId', TokenField ''stopword'', Constructor,
     GetRuleIndex, TerminalGet T_ALTER, TerminalGet T_FULLTEXT, TerminalGet T_STOPLIST,
     ContextGet RuleId', TerminalGet T_ADD, TerminalGet T_LANGUAGE, TerminalGet T_DROP,
     TerminalAll T_STRING, TerminalNth T_STRING, TerminalGet T_DECIMAL, TerminalGet T_BINARY,
     TerminalGet T_ALL, EnterRule, ExitRule, Accept]\<rparr>"

definition Create_fulltext_stoplistContext :: context_class where [context_classes]:
  "Create_fulltext_stoplistContext = \<lparr>class_id = RuleContext RuleCreate_fulltext_stoplist, class_base = ParserRuleContext, members = [
     ContextField ''stoplist_name'' RuleId', ContextField ''database_name'' RuleId',
     ContextField ''source_stoplist_name'' RuleId', ContextField ''owner_name'' RuleId',
     Constructor, GetRuleIndex, TerminalGet T_CREATE, TerminalGet T_FULLTEXT,
     TerminalAll T_STOPLIST, TerminalNth T_STOPLIST, ContextAll RuleId', ContextNth RuleId',
     TerminalGet T_FROM, TerminalGet T_AUTHORIZATION, TerminalGet T_SYSTEM, TerminalGet T_DOT,
     EnterRule, ExitRule, Accept]\<rparr>"

definition Alter_login_sql_serverContext :: context_class where [context_classes]:
  "Alter_login_sql_serverContext = \<lparr>class_id = RuleContext RuleAlter_login_sql_server, class_base = ParserRuleContext, members = [
     ContextField ''login_name'' RuleId', TokenField ''password'',
     TokenField ''password_hash'', TokenField ''old_password'',
     ContextField ''default_database'' RuleId', ContextField ''default_laguage'' RuleId',
     ContextField ''credential_name'' RuleId', Constructor, GetRuleIndex, TerminalGet T_ALTER,
     TerminalGet T_LOGIN, ContextAll RuleId', ContextNth RuleId', TerminalGet T_WITH,
     TerminalAll T_CREDENTIAL, TerminalNth T_CREDENTIAL, TerminalGet T_ADD, TerminalGet T_DROP,
     TerminalGet T_OLD_PASSWORD, TerminalAll T_EQUAL, TerminalNth T_EQUAL,
     TerminalGet T_DEFAULT_DATABASE, TerminalGet T_DEFAULT_LANGUAGE, TerminalGet T_NAME,
     TerminalGet T_CHECK_POLICY, TerminalGet T_CHECK_EXPIRATION, TerminalGet T_NO,
     TerminalGet T_ENABLE, TerminalGet T_DISABLE, TerminalAll T_STRING, TerminalNth T_STRING,
     TerminalAll T_ON, TerminalNth T_ON, TerminalAll T_OFF, TerminalNth T_OFF,
     TerminalGet T_PASSWORD, TerminalGet T_HASHED, TerminalAll T_MUST_CHANGE,
     TerminalNth T_MUST_CHANGE, TerminalAll T_UNLOCK, TerminalNth T_UNLOCK,
     TerminalGet T_BINARY, EnterRule, ExitRule, Accept]\<rparr>"

definition Create_login_sql_serverContext :: context_class where [context_classes]:
  "Create_login_sql_serverContext = \<lparr>class_id = RuleContext RuleCreate_login_sql_server, class_base = ParserRuleContext, members = [
     ContextField ''login_name'' RuleId', TokenField ''password'',
     TokenField ''password_hash'', TokenField ''sid'',
     ContextField ''default_database'' RuleId', ContextField ''default_laguage'' RuleId',
     ContextField ''credential_name'' RuleId', TokenField ''default_language'',
     ContextField ''certname'' RuleId', ContextField ''asym_key_name'' RuleId', Constructor,
     GetRuleIndex, TerminalGet T_CREATE, TerminalGet T_LOGIN, ContextAll RuleId',
     ContextNth RuleId', TerminalGet T_WITH, TerminalGet T_FROM, TerminalGet T_SID,
     TerminalAll T_EQUAL, TerminalNth T_EQUAL, TerminalGet T_DEFAULT_DATABASE,
     TerminalGet T_DEFAULT_LANGUAGE, TerminalGet T_CHECK_EXPIRATION,
     TerminalGet T_CHECK_POLICY, TerminalGet T_CREDENTIAL, TerminalAll T_BINARY,
     TerminalNth T_BINARY, TerminalAll T_ON, TerminalNth T_ON, TerminalAll T_OFF,
     TerminalNth T_OFF, TerminalGet T_WINDOWS, TerminalGet T_CERTIFICATE,
     TerminalGet T_ASYMMETRIC, TerminalGet T_KEY, TerminalGet T_PASSWORD, TerminalAll T_COMMA,
     TerminalNth T_COMMA, TerminalGet T_HASHED, TerminalAll T_MUST_CHANGE,
     TerminalNth T_MUST_CHANGE, TerminalAll T_UNLOCK, TerminalNth T_UNLOCK,
     TerminalGet T_STRING, EnterRule, ExitRule, Accept]\<rparr>"

definition Alter_login_azure_sqlContext :: context_class where [context_classes]:
  "Alter_login_azure_sqlContext = \<lparr>class_id = RuleContext RuleAlter_login_azure_sql, class_base = ParserRuleContext, members = [
     ContextField ''login_name'' RuleId', TokenField ''password'', TokenField ''old_password'',
     Constructor, GetRuleIndex, TerminalGet T_ALTER, TerminalGet T_LOGIN, ContextAll RuleId',
     ContextNth RuleId', TerminalGet T_WITH, TerminalGet T_PASSWORD, TerminalAll T_EQUAL,
     TerminalNth T_EQUAL, TerminalGet T_NAME, TerminalAll T_STRING, TerminalNth T_STRING,
     TerminalGet T_ENABLE, TerminalGet T_DISABLE, TerminalGet T_OLD_PASSWORD, EnterRule,
     ExitRule, Accept]\<rparr>"

definition Create_login_azure_sqlContext :: context_class where [context_classes]:
  "Create_login_azure_sqlContext = \<lparr>class_id = RuleContext RuleCreate_login_azure_sql, class_base = ParserRuleContext, members = [
     ContextField ''login_name'' RuleId', TokenField ''sid'', Constructor, GetRuleIndex,
     TerminalGet T_CREATE, TerminalGet T_LOGIN, TerminalGet T_WITH, TerminalGet T_PASSWORD,
     TerminalAll T_EQUAL, TerminalNth T_EQUAL, TerminalGet T_STRING, ContextGet RuleId',
     TerminalGet T_SID, TerminalGet T_BINARY, EnterRule, ExitRule, Accept]\<rparr>"

definition Alter_login_azure_sql_dw_and_pdwContext :: context_class where [context_classes]:
  "Alter_login_azure_sql_dw_and_pdwContext = \<lparr>class_id = RuleContext RuleAlter_login_azure_sql_dw_and_pdw, class_base = ParserRuleContext, members = [
     ContextField ''login_name'' RuleId', TokenField ''password'', TokenField ''old_password'',
     Constructor, GetRuleIndex, TerminalGet T_ALTER, TerminalGet T_LOGIN, ContextAll RuleId',
     ContextNth RuleId', TerminalGet T_WITH, TerminalGet T_PASSWORD, TerminalAll T_EQUAL,
     TerminalNth T_EQUAL, TerminalGet T_NAME, TerminalAll T_STRING, TerminalNth T_STRING,
     TerminalGet T_ENABLE, TerminalGet T_DISABLE, TerminalGet T_OLD_PASSWORD,
     TerminalAll T_MUST_CHANGE, TerminalNth T_MUST_CHANGE, TerminalAll T_UNLOCK,
     TerminalNth T_UNLOCK, EnterRule, ExitRule, Accept]\<rparr>"

definition Create_login_pdwContext :: context_class where [context_classes]:
  "Create_login_pdwContext = \<lparr>class_id = RuleContext RuleCreate_login_pdw, class_base = ParserRuleContext, members = [
     ContextField ''loginName'' RuleId', TokenField ''password'', Constructor, GetRuleIndex,
     TerminalGet T_CREATE, TerminalGet T_LOGIN, ContextGet RuleId', TerminalGet T_WITH,
     TerminalGet T_FROM, TerminalGet T_WINDOWS, TerminalGet T_PASSWORD, TerminalAll T_EQUAL,
     TerminalNth T_EQUAL, TerminalGet T_STRING, TerminalGet T_MUST_CHANGE,
     TerminalGet T_CHECK_POLICY, TerminalGet T_ON, TerminalGet T_OFF, EnterRule, ExitRule,
     Accept]\<rparr>"

definition Alter_master_key_sql_serverContext :: context_class where [context_classes]:
  "Alter_master_key_sql_serverContext = \<lparr>class_id = RuleContext RuleAlter_master_key_sql_server, class_base = ParserRuleContext, members = [
     TokenField ''password'', TokenField ''encryption_password'', Constructor, GetRuleIndex,
     TerminalGet T_ALTER, TerminalAll T_MASTER, TerminalNth T_MASTER, TerminalAll T_KEY,
     TerminalNth T_KEY, TerminalGet T_REGENERATE, TerminalGet T_WITH, TerminalGet T_ENCRYPTION,
     TerminalGet T_BY, TerminalGet T_PASSWORD, TerminalGet T_EQUAL, TerminalGet T_STRING,
     TerminalGet T_ADD, TerminalGet T_DROP, TerminalGet T_SERVICE, TerminalGet T_FORCE,
     EnterRule, ExitRule, Accept]\<rparr>"

definition Create_master_key_sql_serverContext :: context_class where [context_classes]:
  "Create_master_key_sql_serverContext = \<lparr>class_id = RuleContext RuleCreate_master_key_sql_server, class_base = ParserRuleContext, members = [
     TokenField ''password'', Constructor, GetRuleIndex, TerminalGet T_CREATE,
     TerminalGet T_MASTER, TerminalGet T_KEY, TerminalGet T_ENCRYPTION, TerminalGet T_BY,
     TerminalGet T_PASSWORD, TerminalGet T_EQUAL, TerminalGet T_STRING, EnterRule, ExitRule,
     Accept]\<rparr>"

definition Alter_master_key_azure_sqlContext :: context_class where [context_classes]:
  "Alter_master_key_azure_sqlContext = \<lparr>class_id = RuleContext RuleAlter_master_key_azure_sql, class_base = ParserRuleContext, members = [
     TokenField ''password'', TokenField ''encryption_password'', Constructor, GetRuleIndex,
     TerminalGet T_ALTER, TerminalAll T_MASTER, TerminalNth T_MASTER, TerminalAll T_KEY,
     TerminalNth T_KEY, TerminalGet T_REGENERATE, TerminalGet T_WITH, TerminalGet T_ENCRYPTION,
     TerminalGet T_BY, TerminalGet T_PASSWORD, TerminalGet T_EQUAL, TerminalGet T_ADD,
     TerminalGet T_DROP, TerminalGet T_STRING, TerminalGet T_SERVICE, TerminalGet T_FORCE,
     EnterRule, ExitRule, Accept]\<rparr>"

definition Create_master_key_azure_sqlContext :: context_class where [context_classes]:
  "Create_master_key_azure_sqlContext = \<lparr>class_id = RuleContext RuleCreate_master_key_azure_sql, class_base = ParserRuleContext, members = [
     TokenField ''password'', Constructor, GetRuleIndex, TerminalGet T_CREATE,
     TerminalGet T_MASTER, TerminalGet T_KEY, TerminalGet T_ENCRYPTION, TerminalGet T_BY,
     TerminalGet T_PASSWORD, TerminalGet T_EQUAL, TerminalGet T_STRING, EnterRule, ExitRule,
     Accept]\<rparr>"

definition Alter_message_typeContext :: context_class where [context_classes]:
  "Alter_message_typeContext = \<lparr>class_id = RuleContext RuleAlter_message_type, class_base = ParserRuleContext, members = [
     ContextField ''message_type_name'' RuleId',
     ContextField ''schema_collection_name'' RuleId', Constructor, GetRuleIndex,
     TerminalGet T_ALTER, TerminalGet T_MESSAGE, TerminalGet T_TYPE, TerminalGet T_VALIDATION,
     TerminalGet T_EQUAL, ContextAll RuleId', ContextNth RuleId', TerminalGet T_NONE,
     TerminalGet T_EMPTY, TerminalGet T_WELL_FORMED_XML, TerminalGet T_VALID_XML,
     TerminalGet T_WITH, TerminalGet T_SCHEMA, TerminalGet T_COLLECTION, EnterRule, ExitRule,
     Accept]\<rparr>"

definition Alter_partition_functionContext :: context_class where [context_classes]:
  "Alter_partition_functionContext = \<lparr>class_id = RuleContext RuleAlter_partition_function, class_base = ParserRuleContext, members = [
     ContextField ''partition_function_name'' RuleId', Constructor, GetRuleIndex,
     TerminalGet T_ALTER, TerminalGet T_PARTITION, TerminalGet T_FUNCTION,
     TerminalAll T_LR_BRACKET, TerminalNth T_LR_BRACKET, TerminalAll T_RR_BRACKET,
     TerminalNth T_RR_BRACKET, TerminalGet T_RANGE, TerminalGet T_DECIMAL, ContextGet RuleId',
     TerminalGet T_SPLIT, TerminalGet T_MERGE, EnterRule, ExitRule, Accept]\<rparr>"

definition Alter_partition_schemeContext :: context_class where [context_classes]:
  "Alter_partition_schemeContext = \<lparr>class_id = RuleContext RuleAlter_partition_scheme, class_base = ParserRuleContext, members = [
     ContextField ''partition_scheme_name'' RuleId', ContextField ''file_group_name'' RuleId',
     Constructor, GetRuleIndex, TerminalGet T_ALTER, TerminalGet T_PARTITION,
     TerminalGet T_SCHEME, TerminalGet T_NEXT, TerminalGet T_USED, ContextAll RuleId',
     ContextNth RuleId', EnterRule, ExitRule, Accept]\<rparr>"

definition Alter_remote_service_bindingContext :: context_class where [context_classes]:
  "Alter_remote_service_bindingContext = \<lparr>class_id = RuleContext RuleAlter_remote_service_binding, class_base = ParserRuleContext, members = [
     ContextField ''binding_name'' RuleId', ContextField ''user_name'' RuleId', Constructor,
     GetRuleIndex, TerminalGet T_ALTER, TerminalGet T_REMOTE, TerminalGet T_SERVICE,
     TerminalGet T_BINDING, TerminalGet T_WITH, ContextAll RuleId', ContextNth RuleId',
     TerminalGet T_USER, TerminalAll T_EQUAL, TerminalNth T_EQUAL, TerminalGet T_COMMA,
     TerminalGet T_ANONYMOUS, TerminalGet T_ON, TerminalGet T_OFF, EnterRule, ExitRule, Accept]\<rparr>"

definition Create_remote_service_bindingContext :: context_class where [context_classes]:
  "Create_remote_service_bindingContext = \<lparr>class_id = RuleContext RuleCreate_remote_service_binding, class_base = ParserRuleContext, members = [
     ContextField ''binding_name'' RuleId', ContextField ''owner_name'' RuleId',
     TokenField ''remote_service_name'', ContextField ''user_name'' RuleId', Constructor,
     GetRuleIndex, TerminalGet T_CREATE, TerminalGet T_REMOTE, TerminalAll T_SERVICE,
     TerminalNth T_SERVICE, TerminalGet T_BINDING, TerminalGet T_TO, TerminalGet T_WITH,
     ContextAll RuleId', ContextNth RuleId', TerminalGet T_STRING, TerminalGet T_AUTHORIZATION,
     TerminalGet T_USER, TerminalAll T_EQUAL, TerminalNth T_EQUAL, TerminalGet T_COMMA,
     TerminalGet T_ANONYMOUS, TerminalGet T_ON, TerminalGet T_OFF, EnterRule, ExitRule, Accept]\<rparr>"

definition Create_resource_poolContext :: context_class where [context_classes]:
  "Create_resource_poolContext = \<lparr>class_id = RuleContext RuleCreate_resource_pool, class_base = ParserRuleContext, members = [
     ContextField ''pool_name'' RuleId', Constructor, GetRuleIndex, TerminalGet T_CREATE,
     TerminalGet T_RESOURCE, TerminalGet T_POOL, ContextGet RuleId', TerminalGet T_WITH,
     TerminalAll T_LR_BRACKET, TerminalNth T_LR_BRACKET, TerminalAll T_RR_BRACKET,
     TerminalNth T_RR_BRACKET, TerminalGet T_MIN_CPU_PERCENT, TerminalAll T_EQUAL,
     TerminalNth T_EQUAL, TerminalAll T_DECIMAL, TerminalNth T_DECIMAL,
     TerminalGet T_MAX_CPU_PERCENT, TerminalGet T_CAP_CPU_PERCENT, TerminalGet T_AFFINITY,
     TerminalGet T_SCHEDULER, TerminalGet T_MIN_MEMORY_PERCENT,
     TerminalGet T_MAX_MEMORY_PERCENT, TerminalGet T_MIN_IOPS_PER_VOLUME,
     TerminalGet T_MAX_IOPS_PER_VOLUME, TerminalGet T_AUTO, TerminalGet T_NUMANODE,
     TerminalAll T_COMMA, TerminalNth T_COMMA, TerminalAll T_TO, TerminalNth T_TO, EnterRule,
     ExitRule, Accept]\<rparr>"

definition Alter_resource_governorContext :: context_class where [context_classes]:
  "Alter_resource_governorContext = \<lparr>class_id = RuleContext RuleAlter_resource_governor, class_base = ParserRuleContext, members = [
     ContextField ''schema_name'' RuleId', ContextField ''function_name'' RuleId',
     TokenField ''max_outstanding_io_per_volume'', Constructor, GetRuleIndex,
     TerminalGet T_ALTER, TerminalGet T_RESOURCE, TerminalGet T_GOVERNOR, TerminalGet T_WITH,
     TerminalGet T_LR_BRACKET, TerminalGet T_CLASSIFIER_FUNCTION, TerminalGet T_EQUAL,
     TerminalGet T_RR_BRACKET, TerminalGet T_RESET, TerminalGet T_STATISTICS,
     TerminalGet T_MAX_OUTSTANDING_IO_PER_VOLUME, TerminalGet T_DISABLE,
     TerminalGet T_RECONFIGURE, TerminalGet T_DECIMAL, TerminalGet T_DOT, TerminalGet T_NULL',
     ContextAll RuleId', ContextNth RuleId', EnterRule, ExitRule, Accept]\<rparr>"

definition Alter_database_audit_specificationContext :: context_class where [context_classes]:
  "Alter_database_audit_specificationContext = \<lparr>class_id = RuleContext RuleAlter_database_audit_specification, class_base = ParserRuleContext, members = [
     ContextField ''audit_specification_name'' RuleId', ContextField ''audit_name'' RuleId',
     Constructor, GetRuleIndex, TerminalGet T_ALTER, TerminalGet T_DATABASE,
     TerminalAll T_AUDIT, TerminalNth T_AUDIT, TerminalGet T_SPECIFICATION, ContextAll RuleId',
     ContextNth RuleId', TerminalGet T_FOR, TerminalGet T_SERVER,
     ContextAll RuleAudit_action_spec_group, ContextNth RuleAudit_action_spec_group,
     TerminalGet T_WITH, TerminalGet T_LR_BRACKET, TerminalGet T_STATE, TerminalGet T_EQUAL,
     TerminalGet T_RR_BRACKET, TerminalGet T_ON, TerminalGet T_OFF, TerminalAll T_COMMA,
     TerminalNth T_COMMA, EnterRule, ExitRule, Accept]\<rparr>"

definition Audit_action_spec_groupContext :: context_class where [context_classes]:
  "Audit_action_spec_groupContext = \<lparr>class_id = RuleContext RuleAudit_action_spec_group, class_base = ParserRuleContext, members = [
     ContextField ''audit_action_group_name'' RuleId', Constructor, GetRuleIndex,
     TerminalGet T_LR_BRACKET, TerminalGet T_RR_BRACKET, TerminalGet T_ADD, TerminalGet T_DROP,
     ContextGet RuleAudit_action_specification, ContextGet RuleId', EnterRule, ExitRule, Accept]\<rparr>"

definition Audit_action_specificationContext :: context_class where [context_classes]:
  "Audit_action_specificationContext = \<lparr>class_id = RuleContext RuleAudit_action_specification, class_base = ParserRuleContext, members = [
     Constructor, GetRuleIndex, ContextAll RuleAction_specification,
     ContextNth RuleAction_specification, TerminalGet T_ON, ContextGet RuleAudit_securable,
     TerminalGet T_BY, ContextAll RulePrincipal_id, ContextNth RulePrincipal_id,
     TerminalAll T_COMMA, TerminalNth T_COMMA, ContextGet RuleAudit_class_name,
     TerminalGet T_DOUBLE_COLON, EnterRule, ExitRule, Accept]\<rparr>"

definition Action_specificationContext :: context_class where [context_classes]:
  "Action_specificationContext = \<lparr>class_id = RuleContext RuleAction_specification, class_base = ParserRuleContext, members = [
     Constructor, GetRuleIndex, TerminalGet T_SELECT, TerminalGet T_INSERT,
     TerminalGet T_UPDATE, TerminalGet T_DELETE, TerminalGet T_EXECUTE, TerminalGet T_RECEIVE,
     TerminalGet T_REFERENCES, EnterRule, ExitRule, Accept]\<rparr>"

definition Audit_class_nameContext :: context_class where [context_classes]:
  "Audit_class_nameContext = \<lparr>class_id = RuleContext RuleAudit_class_name, class_base = ParserRuleContext, members = [
     Constructor, GetRuleIndex, TerminalGet T_OBJECT, TerminalGet T_SCHEMA,
     TerminalGet T_TABLE, EnterRule, ExitRule, Accept]\<rparr>"

definition Audit_securableContext :: context_class where [context_classes]:
  "Audit_securableContext = \<lparr>class_id = RuleContext RuleAudit_securable, class_base = ParserRuleContext, members = [
     Constructor, GetRuleIndex, ContextAll RuleId', ContextNth RuleId', TerminalAll T_DOT,
     TerminalNth T_DOT, EnterRule, ExitRule, Accept]\<rparr>"

definition Alter_db_roleContext :: context_class where [context_classes]:
  "Alter_db_roleContext = \<lparr>class_id = RuleContext RuleAlter_db_role, class_base = ParserRuleContext, members = [
     ContextField ''role_name'' RuleId', ContextField ''database_principal'' RuleId',
     ContextField ''new_role_name'' RuleId', Constructor, GetRuleIndex, TerminalGet T_ALTER,
     TerminalGet T_ROLE, ContextAll RuleId', ContextNth RuleId', TerminalGet T_MEMBER,
     TerminalGet T_WITH, TerminalGet T_NAME, TerminalGet T_EQUAL, TerminalGet T_ADD,
     TerminalGet T_DROP, EnterRule, ExitRule, Accept]\<rparr>"

definition Create_database_audit_specificationContext :: context_class where [context_classes]:
  "Create_database_audit_specificationContext = \<lparr>class_id = RuleContext RuleCreate_database_audit_specification, class_base = ParserRuleContext, members = [
     ContextField ''audit_specification_name'' RuleId', ContextField ''audit_name'' RuleId',
     Constructor, GetRuleIndex, TerminalGet T_CREATE, TerminalGet T_DATABASE,
     TerminalAll T_AUDIT, TerminalNth T_AUDIT, TerminalGet T_SPECIFICATION, ContextAll RuleId',
     ContextNth RuleId', TerminalGet T_FOR, TerminalGet T_SERVER,
     ContextAll RuleAudit_action_spec_group, ContextNth RuleAudit_action_spec_group,
     TerminalGet T_WITH, TerminalGet T_LR_BRACKET, TerminalGet T_STATE, TerminalGet T_EQUAL,
     TerminalGet T_RR_BRACKET, TerminalGet T_ON, TerminalGet T_OFF, TerminalAll T_COMMA,
     TerminalNth T_COMMA, EnterRule, ExitRule, Accept]\<rparr>"

definition Create_db_roleContext :: context_class where [context_classes]:
  "Create_db_roleContext = \<lparr>class_id = RuleContext RuleCreate_db_role, class_base = ParserRuleContext, members = [
     ContextField ''role_name'' RuleId', ContextField ''owner_name'' RuleId', Constructor,
     GetRuleIndex, TerminalGet T_CREATE, TerminalGet T_ROLE, ContextAll RuleId',
     ContextNth RuleId', TerminalGet T_AUTHORIZATION, EnterRule, ExitRule, Accept]\<rparr>"

definition Create_routeContext :: context_class where [context_classes]:
  "Create_routeContext = \<lparr>class_id = RuleContext RuleCreate_route, class_base = ParserRuleContext, members = [
     ContextField ''route_name'' RuleId', ContextField ''owner_name'' RuleId',
     TokenField ''route_service_name'', TokenField ''broker_instance_identifier'', Constructor,
     GetRuleIndex, TerminalGet T_CREATE, TerminalGet T_ROUTE, TerminalGet T_WITH,
     TerminalGet T_ADDRESS, TerminalAll T_EQUAL, TerminalNth T_EQUAL, TerminalAll T_STRING,
     TerminalNth T_STRING, ContextAll RuleId', ContextNth RuleId', TerminalGet T_AUTHORIZATION,
     TerminalGet T_SERVICE_NAME, TerminalGet T_BROKER_INSTANCE, TerminalGet T_LIFETIME,
     TerminalGet T_DECIMAL, TerminalAll T_COMMA, TerminalNth T_COMMA,
     TerminalGet T_MIRROR_ADDRESS, EnterRule, ExitRule, Accept]\<rparr>"

definition Create_ruleContext :: context_class where [context_classes]:
  "Create_ruleContext = \<lparr>class_id = RuleContext RuleCreate_rule, class_base = ParserRuleContext, members = [
     ContextField ''schema_name'' RuleId', ContextField ''rule_name'' RuleId', Constructor,
     GetRuleIndex, TerminalGet T_CREATE, TerminalGet T_RULE, TerminalGet T_AS,
     ContextGet RuleSearch_condition, ContextAll RuleId', ContextNth RuleId',
     TerminalGet T_DOT, EnterRule, ExitRule, Accept]\<rparr>"

definition Alter_schema_sqlContext :: context_class where [context_classes]:
  "Alter_schema_sqlContext = \<lparr>class_id = RuleContext RuleAlter_schema_sql, class_base = ParserRuleContext, members = [
     ContextField ''schema_name'' RuleId', Constructor, GetRuleIndex, TerminalGet T_ALTER,
     TerminalAll T_SCHEMA, TerminalNth T_SCHEMA, TerminalGet T_TRANSFER, ContextAll RuleId',
     ContextNth RuleId', TerminalGet T_DOUBLE_COLON, TerminalGet T_DOT, TerminalGet T_OBJECT,
     TerminalGet T_TYPE, TerminalGet T_XML, TerminalGet T_COLLECTION, EnterRule, ExitRule,
     Accept]\<rparr>"

definition Create_schemaContext :: context_class where [context_classes]:
  "Create_schemaContext = \<lparr>class_id = RuleContext RuleCreate_schema, class_base = ParserRuleContext, members = [
     ContextField ''schema_name'' RuleId', ContextField ''owner_name'' RuleId',
     ContextField ''object_name'' RuleId', Constructor, GetRuleIndex, TerminalGet T_CREATE,
     TerminalAll T_SCHEMA, TerminalNth T_SCHEMA, TerminalGet T_AUTHORIZATION,
     ContextAll RuleId', ContextNth RuleId', ContextAll RuleCreate_table,
     ContextNth RuleCreate_table, ContextAll RuleCreate_view, ContextNth RuleCreate_view,
     TerminalAll T_ON, TerminalNth T_ON, TerminalAll T_TO, TerminalNth T_TO,
     TerminalAll T_REVOKE, TerminalNth T_REVOKE, TerminalAll T_FROM, TerminalNth T_FROM,
     TerminalAll T_GRANT, TerminalNth T_GRANT, TerminalAll T_DENY, TerminalNth T_DENY,
     TerminalAll T_SELECT, TerminalNth T_SELECT, TerminalAll T_INSERT, TerminalNth T_INSERT,
     TerminalAll T_DELETE, TerminalNth T_DELETE, TerminalAll T_UPDATE, TerminalNth T_UPDATE,
     TerminalAll T_DOUBLE_COLON, TerminalNth T_DOUBLE_COLON, EnterRule, ExitRule, Accept]\<rparr>"

definition Create_schema_azure_sql_dw_and_pdwContext :: context_class where [context_classes]:
  "Create_schema_azure_sql_dw_and_pdwContext = \<lparr>class_id = RuleContext RuleCreate_schema_azure_sql_dw_and_pdw, class_base = ParserRuleContext, members = [
     ContextField ''schema_name'' RuleId', ContextField ''owner_name'' RuleId', Constructor,
     GetRuleIndex, TerminalGet T_CREATE, TerminalGet T_SCHEMA, ContextAll RuleId',
     ContextNth RuleId', TerminalGet T_AUTHORIZATION, EnterRule, ExitRule, Accept]\<rparr>"

definition Alter_schema_azure_sql_dw_and_pdwContext :: context_class where [context_classes]:
  "Alter_schema_azure_sql_dw_and_pdwContext = \<lparr>class_id = RuleContext RuleAlter_schema_azure_sql_dw_and_pdw, class_base = ParserRuleContext, members = [
     ContextField ''schema_name'' RuleId', Constructor, GetRuleIndex, TerminalGet T_ALTER,
     TerminalGet T_SCHEMA, TerminalGet T_TRANSFER, ContextAll RuleId', ContextNth RuleId',
     TerminalGet T_OBJECT, TerminalGet T_DOUBLE_COLON, TerminalGet T_DOT, TerminalGet T_ID,
     EnterRule, ExitRule, Accept]\<rparr>"

definition Create_search_property_listContext :: context_class where [context_classes]:
  "Create_search_property_listContext = \<lparr>class_id = RuleContext RuleCreate_search_property_list, class_base = ParserRuleContext, members = [
     ContextField ''new_list_name'' RuleId', ContextField ''database_name'' RuleId',
     ContextField ''source_list_name'' RuleId', ContextField ''owner_name'' RuleId',
     Constructor, GetRuleIndex, TerminalGet T_CREATE, TerminalGet T_SEARCH,
     TerminalGet T_PROPERTY, TerminalGet T_LIST, ContextAll RuleId', ContextNth RuleId',
     TerminalGet T_FROM, TerminalGet T_AUTHORIZATION, TerminalGet T_DOT, EnterRule, ExitRule,
     Accept]\<rparr>"

definition Create_security_policyContext :: context_class where [context_classes]:
  "Create_security_policyContext = \<lparr>class_id = RuleContext RuleCreate_security_policy, class_base = ParserRuleContext, members = [
     ContextField ''schema_name'' RuleId', ContextField ''security_policy_name'' RuleId',
     ContextField ''tvf_schema_name'' RuleId',
     ContextField ''security_predicate_function_name'' RuleId',
     ContextField ''column_name_or_arguments'' RuleId',
     ContextField ''table_schema_name'' RuleId', ContextField ''name'' RuleId', Constructor,
     GetRuleIndex, TerminalGet T_CREATE, TerminalGet T_SECURITY, TerminalGet T_POLICY,
     ContextAll RuleId', ContextNth RuleId', TerminalAll T_DOT, TerminalNth T_DOT,
     TerminalAll T_ADD, TerminalNth T_ADD, TerminalAll T_PREDICATE, TerminalNth T_PREDICATE,
     TerminalAll T_LR_BRACKET, TerminalNth T_LR_BRACKET, TerminalAll T_RR_BRACKET,
     TerminalNth T_RR_BRACKET, TerminalAll T_ON, TerminalNth T_ON, TerminalGet T_WITH,
     TerminalGet T_STATE, TerminalGet T_EQUAL, TerminalGet T_NOT, TerminalGet T_FOR,
     TerminalGet T_REPLICATION, TerminalAll T_OFF, TerminalNth T_OFF, TerminalAll T_COMMA,
     TerminalNth T_COMMA, TerminalAll T_AFTER, TerminalNth T_AFTER, TerminalAll T_BEFORE,
     TerminalNth T_BEFORE, TerminalGet T_SCHEMABINDING, TerminalAll T_FILTER,
     TerminalNth T_FILTER, TerminalAll T_BLOCK, TerminalNth T_BLOCK, TerminalAll T_INSERT,
     TerminalNth T_INSERT, TerminalAll T_UPDATE, TerminalNth T_UPDATE, TerminalAll T_DELETE,
     TerminalNth T_DELETE, EnterRule, ExitRule, Accept]\<rparr>"

definition Alter_sequenceContext :: context_class where [context_classes]:
  "Alter_sequenceContext = \<lparr>class_id = RuleContext RuleAlter_sequence, class_base = ParserRuleContext, members = [
     ContextField ''schema_name'' RuleId', ContextField ''sequence_name'' RuleId',
     TokenField ''sequnce_increment'', Constructor, GetRuleIndex, TerminalGet T_ALTER,
     TerminalGet T_SEQUENCE, ContextAll RuleId', ContextNth RuleId', TerminalGet T_DOT,
     TerminalGet T_RESTART, TerminalGet T_INCREMENT, TerminalGet T_BY, TerminalGet T_MINVALUE,
     TerminalAll T_DECIMAL, TerminalNth T_DECIMAL, TerminalAll T_NO, TerminalNth T_NO,
     TerminalGet T_MAXVALUE, TerminalGet T_CYCLE, TerminalGet T_CACHE, TerminalGet T_WITH,
     EnterRule, ExitRule, Accept]\<rparr>"

definition Create_sequenceContext :: context_class where [context_classes]:
  "Create_sequenceContext = \<lparr>class_id = RuleContext RuleCreate_sequence, class_base = ParserRuleContext, members = [
     ContextField ''schema_name'' RuleId', ContextField ''sequence_name'' RuleId', Constructor,
     GetRuleIndex, TerminalGet T_CREATE, TerminalGet T_SEQUENCE, ContextAll RuleId',
     ContextNth RuleId', TerminalGet T_DOT, TerminalGet T_AS, ContextGet RuleData_type,
     TerminalGet T_START, TerminalGet T_WITH, TerminalAll T_DECIMAL, TerminalNth T_DECIMAL,
     TerminalGet T_INCREMENT, TerminalGet T_BY, TerminalGet T_MINVALUE, TerminalAll T_NO,
     TerminalNth T_NO, TerminalGet T_MAXVALUE, TerminalGet T_CYCLE, TerminalGet T_CACHE,
     TerminalAll T_MINUS, TerminalNth T_MINUS, EnterRule, ExitRule, Accept]\<rparr>"

definition Alter_server_auditContext :: context_class where [context_classes]:
  "Alter_server_auditContext = \<lparr>class_id = RuleContext RuleAlter_server_audit, class_base = ParserRuleContext, members = [
     ContextField ''audit_name'' RuleId', TokenField ''filepath'',
     TokenField ''max_rollover_files'', TokenField ''max_files'', TokenField ''queue_delay'',
     ContextField ''event_field_name'' RuleId', ContextField ''new_audit_name'' RuleId',
     Constructor, GetRuleIndex, TerminalGet T_ALTER, TerminalGet T_SERVER, TerminalGet T_AUDIT,
     ContextAll RuleId', ContextNth RuleId', TerminalGet T_REMOVE, TerminalGet T_WHERE,
     TerminalGet T_MODIFY, TerminalGet T_NAME, TerminalAll T_EQUAL, TerminalNth T_EQUAL,
     TerminalGet T_TO, TerminalGet T_WITH, TerminalAll T_LR_BRACKET, TerminalNth T_LR_BRACKET,
     TerminalAll T_RR_BRACKET, TerminalNth T_RR_BRACKET, TerminalGet T_FILE,
     TerminalGet T_APPLICATION_LOG, TerminalGet T_SECURITY_LOG, TerminalAll T_QUEUE_DELAY,
     TerminalNth T_QUEUE_DELAY, TerminalAll T_ON_FAILURE, TerminalNth T_ON_FAILURE,
     TerminalAll T_STATE, TerminalNth T_STATE, TerminalAll T_DECIMAL, TerminalNth T_DECIMAL,
     TerminalAll T_STRING, TerminalNth T_STRING, TerminalGet T_AND, TerminalGet T_OR,
     TerminalAll T_CONTINUE, TerminalNth T_CONTINUE, TerminalAll T_SHUTDOWN,
     TerminalNth T_SHUTDOWN, TerminalAll T_FAIL_OPERATION, TerminalNth T_FAIL_OPERATION,
     TerminalAll T_ON, TerminalNth T_ON, TerminalAll T_OFF, TerminalNth T_OFF,
     TerminalGet T_GREATER, TerminalGet T_LESS, TerminalAll T_COMMA, TerminalNth T_COMMA,
     TerminalGet T_NOT, TerminalGet T_EXCLAMATION, TerminalAll T_FILEPATH,
     TerminalNth T_FILEPATH, TerminalAll T_MAXSIZE, TerminalNth T_MAXSIZE,
     TerminalAll T_MAX_ROLLOVER_FILES, TerminalNth T_MAX_ROLLOVER_FILES,
     TerminalAll T_MAX_FILES, TerminalNth T_MAX_FILES, TerminalAll T_RESERVE_DISK_SPACE,
     TerminalNth T_RESERVE_DISK_SPACE, TerminalAll T_UNLIMITED, TerminalNth T_UNLIMITED,
     TerminalAll T_MB, TerminalNth T_MB, TerminalAll T_GB, TerminalNth T_GB, TerminalAll T_TB,
     TerminalNth T_TB, EnterRule, ExitRule, Accept]\<rparr>"

definition Create_server_auditContext :: context_class where [context_classes]:
  "Create_server_auditContext = \<lparr>class_id = RuleContext RuleCreate_server_audit, class_base = ParserRuleContext, members = [
     ContextField ''audit_name'' RuleId', TokenField ''filepath'',
     TokenField ''max_rollover_files'', TokenField ''max_files'', TokenField ''queue_delay'',
     ContextField ''audit_guid'' RuleId', ContextField ''event_field_name'' RuleId',
     ContextField ''new_audit_name'' RuleId', Constructor, GetRuleIndex, TerminalGet T_CREATE,
     TerminalGet T_SERVER, TerminalGet T_AUDIT, ContextAll RuleId', ContextNth RuleId',
     TerminalGet T_REMOVE, TerminalGet T_WHERE, TerminalGet T_MODIFY, TerminalGet T_NAME,
     TerminalAll T_EQUAL, TerminalNth T_EQUAL, TerminalGet T_TO, TerminalGet T_WITH,
     TerminalAll T_LR_BRACKET, TerminalNth T_LR_BRACKET, TerminalAll T_RR_BRACKET,
     TerminalNth T_RR_BRACKET, TerminalGet T_FILE, TerminalGet T_APPLICATION_LOG,
     TerminalGet T_SECURITY_LOG, TerminalAll T_QUEUE_DELAY, TerminalNth T_QUEUE_DELAY,
     TerminalAll T_ON_FAILURE, TerminalNth T_ON_FAILURE, TerminalAll T_STATE,
     TerminalNth T_STATE, TerminalAll T_AUDIT_GUID, TerminalNth T_AUDIT_GUID,
     TerminalAll T_DECIMAL, TerminalNth T_DECIMAL, TerminalAll T_STRING, TerminalNth T_STRING,
     TerminalGet T_AND, TerminalGet T_OR, TerminalAll T_CONTINUE, TerminalNth T_CONTINUE,
     TerminalAll T_SHUTDOWN, TerminalNth T_SHUTDOWN, TerminalAll T_FAIL_OPERATION,
     TerminalNth T_FAIL_OPERATION, TerminalAll T_ON, TerminalNth T_ON, TerminalAll T_OFF,
     TerminalNth T_OFF, TerminalGet T_GREATER, TerminalGet T_LESS, TerminalAll T_COMMA,
     TerminalNth T_COMMA, TerminalGet T_NOT, TerminalGet T_EXCLAMATION, TerminalAll T_FILEPATH,
     TerminalNth T_FILEPATH, TerminalAll T_MAXSIZE, TerminalNth T_MAXSIZE,
     TerminalAll T_MAX_ROLLOVER_FILES, TerminalNth T_MAX_ROLLOVER_FILES,
     TerminalAll T_MAX_FILES, TerminalNth T_MAX_FILES, TerminalAll T_RESERVE_DISK_SPACE,
     TerminalNth T_RESERVE_DISK_SPACE, TerminalAll T_UNLIMITED, TerminalNth T_UNLIMITED,
     TerminalAll T_MB, TerminalNth T_MB, TerminalAll T_GB, TerminalNth T_GB, TerminalAll T_TB,
     TerminalNth T_TB, EnterRule, ExitRule, Accept]\<rparr>"

definition Alter_server_audit_specificationContext :: context_class where [context_classes]:
  "Alter_server_audit_specificationContext = \<lparr>class_id = RuleContext RuleAlter_server_audit_specification, class_base = ParserRuleContext, members = [
     ContextField ''audit_specification_name'' RuleId', ContextField ''audit_name'' RuleId',
     ContextField ''audit_action_group_name'' RuleId', Constructor, GetRuleIndex,
     TerminalGet T_ALTER, TerminalAll T_SERVER, TerminalNth T_SERVER, TerminalAll T_AUDIT,
     TerminalNth T_AUDIT, TerminalGet T_SPECIFICATION, ContextAll RuleId', ContextNth RuleId',
     TerminalGet T_FOR, TerminalAll T_LR_BRACKET, TerminalNth T_LR_BRACKET,
     TerminalAll T_RR_BRACKET, TerminalNth T_RR_BRACKET, TerminalGet T_WITH,
     TerminalGet T_STATE, TerminalGet T_EQUAL, TerminalAll T_ADD, TerminalNth T_ADD,
     TerminalAll T_DROP, TerminalNth T_DROP, TerminalGet T_ON, TerminalGet T_OFF, EnterRule,
     ExitRule, Accept]\<rparr>"

definition Create_server_audit_specificationContext :: context_class where [context_classes]:
  "Create_server_audit_specificationContext = \<lparr>class_id = RuleContext RuleCreate_server_audit_specification, class_base = ParserRuleContext, members = [
     ContextField ''audit_specification_name'' RuleId', ContextField ''audit_name'' RuleId',
     ContextField ''audit_action_group_name'' RuleId', Constructor, GetRuleIndex,
     TerminalGet T_CREATE, TerminalAll T_SERVER, TerminalNth T_SERVER, TerminalAll T_AUDIT,
     TerminalNth T_AUDIT, TerminalGet T_SPECIFICATION, ContextAll RuleId', ContextNth RuleId',
     TerminalGet T_FOR, TerminalAll T_ADD, TerminalNth T_ADD, TerminalAll T_LR_BRACKET,
     TerminalNth T_LR_BRACKET, TerminalAll T_RR_BRACKET, TerminalNth T_RR_BRACKET,
     TerminalGet T_WITH, TerminalGet T_STATE, TerminalGet T_EQUAL, TerminalGet T_ON,
     TerminalGet T_OFF, EnterRule, ExitRule, Accept]\<rparr>"

definition Alter_server_configurationContext :: context_class where [context_classes]:
  "Alter_server_configurationContext = \<lparr>class_id = RuleContext RuleAlter_server_configuration, class_base = ParserRuleContext, members = [
     Constructor, GetRuleIndex, TerminalGet T_ALTER, TerminalGet T_SERVER,
     TerminalGet T_CONFIGURATION, TerminalAll T_SET, TerminalNth T_SET, TerminalGet T_PROCESS,
     TerminalGet T_AFFINITY, TerminalGet T_DIAGNOSTICS, TerminalGet T_LOG,
     TerminalGet T_FAILOVER, TerminalGet T_CLUSTER, TerminalGet T_PROPERTY, TerminalGet T_HADR,
     TerminalGet T_CONTEXT, TerminalAll T_EQUAL, TerminalNth T_EQUAL, TerminalGet T_BUFFER,
     TerminalGet T_POOL, TerminalGet T_EXTENSION, TerminalGet T_SOFTNUMA, TerminalGet T_STRING,
     TerminalGet T_LOCAL, TerminalGet T_ON, TerminalGet T_OFF, TerminalGet T_CPU,
     TerminalGet T_NUMANODE, TerminalGet T_PATH, TerminalGet T_MAX_SIZE,
     TerminalGet T_MAX_FILES, TerminalGet T_VERBOSELOGGING, TerminalGet T_SQLDUMPERFLAGS,
     TerminalGet T_SQLDUMPERPATH, TerminalGet T_SQLDUMPERTIMEOUT,
     TerminalGet T_FAILURECONDITIONLEVEL, TerminalGet T_HEALTHCHECKTIMEOUT,
     TerminalGet T_LR_BRACKET, TerminalGet T_FILENAME, TerminalAll T_COMMA,
     TerminalNth T_COMMA, TerminalGet T_SIZE, TerminalAll T_DECIMAL, TerminalNth T_DECIMAL,
     TerminalGet T_RR_BRACKET, TerminalGet T_DEFAULT, TerminalGet T_KB, TerminalGet T_MB,
     TerminalGet T_GB, TerminalGet T_AUTO, TerminalAll T_TO, TerminalNth T_TO, EnterRule,
     ExitRule, Accept]\<rparr>"

definition Alter_server_roleContext :: context_class where [context_classes]:
  "Alter_server_roleContext = \<lparr>class_id = RuleContext RuleAlter_server_role, class_base = ParserRuleContext, members = [
     ContextField ''server_role_name'' RuleId', ContextField ''server_principal'' RuleId',
     ContextField ''new_server_role_name'' RuleId', Constructor, GetRuleIndex,
     TerminalGet T_ALTER, TerminalGet T_SERVER, TerminalGet T_ROLE, ContextAll RuleId',
     ContextNth RuleId', TerminalGet T_MEMBER, TerminalGet T_WITH, TerminalGet T_NAME,
     TerminalGet T_EQUAL, TerminalGet T_ADD, TerminalGet T_DROP, EnterRule, ExitRule, Accept]\<rparr>"

definition Create_server_roleContext :: context_class where [context_classes]:
  "Create_server_roleContext = \<lparr>class_id = RuleContext RuleCreate_server_role, class_base = ParserRuleContext, members = [
     ContextField ''server_role'' RuleId', ContextField ''server_principal'' RuleId',
     Constructor, GetRuleIndex, TerminalGet T_CREATE, TerminalGet T_SERVER, TerminalGet T_ROLE,
     ContextAll RuleId', ContextNth RuleId', TerminalGet T_AUTHORIZATION, EnterRule, ExitRule,
     Accept]\<rparr>"

definition Alter_server_role_pdwContext :: context_class where [context_classes]:
  "Alter_server_role_pdwContext = \<lparr>class_id = RuleContext RuleAlter_server_role_pdw, class_base = ParserRuleContext, members = [
     ContextField ''server_role_name'' RuleId', ContextField ''login'' RuleId', Constructor,
     GetRuleIndex, TerminalGet T_ALTER, TerminalGet T_SERVER, TerminalGet T_ROLE,
     TerminalGet T_MEMBER, ContextAll RuleId', ContextNth RuleId', TerminalGet T_ADD,
     TerminalGet T_DROP, EnterRule, ExitRule, Accept]\<rparr>"

definition Alter_serviceContext :: context_class where [context_classes]:
  "Alter_serviceContext = \<lparr>class_id = RuleContext RuleAlter_service, class_base = ParserRuleContext, members = [
     ContextField ''modified_service_name'' RuleId', ContextField ''schema_name'' RuleId',
     ContextField ''queue_name'' RuleId', Constructor, GetRuleIndex, TerminalGet T_ALTER,
     TerminalGet T_SERVICE, ContextAll RuleId', ContextNth RuleId', TerminalGet T_ON,
     TerminalGet T_QUEUE, TerminalGet T_LR_BRACKET, ContextAll RuleOpt_arg_clause,
     ContextNth RuleOpt_arg_clause, TerminalGet T_RR_BRACKET, TerminalGet T_DOT,
     TerminalAll T_COMMA, TerminalNth T_COMMA, EnterRule, ExitRule, Accept]\<rparr>"

definition Opt_arg_clauseContext :: context_class where [context_classes]:
  "Opt_arg_clauseContext = \<lparr>class_id = RuleContext RuleOpt_arg_clause, class_base = ParserRuleContext, members = [
     ContextField ''modified_contract_name'' RuleId', Constructor, GetRuleIndex,
     TerminalGet T_CONTRACT, TerminalGet T_ADD, TerminalGet T_DROP, ContextGet RuleId',
     EnterRule, ExitRule, Accept]\<rparr>"

definition Create_serviceContext :: context_class where [context_classes]:
  "Create_serviceContext = \<lparr>class_id = RuleContext RuleCreate_service, class_base = ParserRuleContext, members = [
     ContextField ''create_service_name'' RuleId', ContextField ''owner_name'' RuleId',
     ContextField ''schema_name'' RuleId', ContextField ''queue_name'' RuleId', Constructor,
     GetRuleIndex, TerminalGet T_CREATE, TerminalGet T_SERVICE, TerminalGet T_ON,
     TerminalGet T_QUEUE, ContextAll RuleId', ContextNth RuleId', TerminalGet T_AUTHORIZATION,
     TerminalGet T_DOT, TerminalGet T_LR_BRACKET, TerminalGet T_RR_BRACKET,
     TerminalAll T_DEFAULT, TerminalNth T_DEFAULT, TerminalAll T_COMMA, TerminalNth T_COMMA,
     EnterRule, ExitRule, Accept]\<rparr>"

definition Alter_service_master_keyContext :: context_class where [context_classes]:
  "Alter_service_master_keyContext = \<lparr>class_id = RuleContext RuleAlter_service_master_key, class_base = ParserRuleContext, members = [
     TokenField ''acold_account_name'', TokenField ''old_password'',
     TokenField ''new_account_name'', TokenField ''new_password'', Constructor, GetRuleIndex,
     TerminalGet T_ALTER, TerminalGet T_SERVICE, TerminalGet T_MASTER, TerminalGet T_KEY,
     TerminalGet T_REGENERATE, TerminalGet T_WITH, TerminalGet T_FORCE,
     TerminalGet T_OLD_ACCOUNT, TerminalAll T_EQUAL, TerminalNth T_EQUAL, TerminalGet T_COMMA,
     TerminalGet T_OLD_PASSWORD, TerminalGet T_NEW_ACCOUNT, TerminalGet T_NEW_PASSWORD,
     TerminalAll T_STRING, TerminalNth T_STRING, EnterRule, ExitRule, Accept]\<rparr>"

definition Alter_symmetric_keyContext :: context_class where [context_classes]:
  "Alter_symmetric_keyContext = \<lparr>class_id = RuleContext RuleAlter_symmetric_key, class_base = ParserRuleContext, members = [
     ContextField ''key_name'' RuleId', ContextField ''certificate_name'' RuleId',
     TokenField ''password'', ContextField ''symmetric_key_name'' RuleId',
     ContextField ''Asym_key_name'' RuleId', Constructor, GetRuleIndex, TerminalGet T_ALTER,
     TerminalAll T_SYMMETRIC, TerminalNth T_SYMMETRIC, TerminalAll T_KEY, TerminalNth T_KEY,
     ContextAll RuleId', ContextNth RuleId', TerminalGet T_ENCRYPTION, TerminalGet T_BY,
     TerminalGet T_ADD, TerminalGet T_DROP, TerminalGet T_CERTIFICATE, TerminalGet T_PASSWORD,
     TerminalGet T_EQUAL, TerminalGet T_ASYMMETRIC, TerminalGet T_STRING, EnterRule, ExitRule,
     Accept]\<rparr>"

definition Create_synonymContext :: context_class where [context_classes]:
  "Create_synonymContext = \<lparr>class_id = RuleContext RuleCreate_synonym, class_base = ParserRuleContext, members = [
     ContextField ''schema_name_1'' RuleId', ContextField ''synonym_name'' RuleId',
     ContextField ''server_name'' RuleId', ContextField ''database_name'' RuleId',
     ContextField ''schema_name_2'' RuleId', ContextField ''object_name'' RuleId',
     ContextField ''database_or_schema2'' RuleId',
     ContextField ''schema_id_2_or_object_name'' RuleId', Constructor, GetRuleIndex,
     TerminalGet T_CREATE, TerminalGet T_SYNONYM, TerminalGet T_FOR, ContextAll RuleId',
     ContextNth RuleId', TerminalAll T_DOT, TerminalNth T_DOT, EnterRule, ExitRule, Accept]\<rparr>"

definition Alter_userContext :: context_class where [context_classes]:
  "Alter_userContext = \<lparr>class_id = RuleContext RuleAlter_user, class_base = ParserRuleContext, members = [
     ContextField ''username'' RuleId', ContextField ''newusername'' RuleId',
     ContextField ''schema_name'' RuleId', ContextField ''loginame'' RuleId',
     TokenField ''lcid'', ContextField ''language_name_or_alias'' RuleId', Constructor,
     GetRuleIndex, TerminalGet T_ALTER, TerminalGet T_USER, TerminalGet T_WITH,
     ContextAll RuleId', ContextNth RuleId', TerminalAll T_NAME, TerminalNth T_NAME,
     TerminalAll T_EQUAL, TerminalNth T_EQUAL, TerminalAll T_DEFAULT_SCHEMA,
     TerminalNth T_DEFAULT_SCHEMA, TerminalAll T_LOGIN, TerminalNth T_LOGIN,
     TerminalAll T_PASSWORD, TerminalNth T_PASSWORD, TerminalAll T_STRING,
     TerminalNth T_STRING, TerminalAll T_DEFAULT_LANGUAGE, TerminalNth T_DEFAULT_LANGUAGE,
     TerminalAll T_ALLOW_ENCRYPTED_VALUE_MODIFICATIONS,
     TerminalNth T_ALLOW_ENCRYPTED_VALUE_MODIFICATIONS, TerminalAll T_ON, TerminalNth T_ON,
     TerminalAll T_OFF, TerminalNth T_OFF, TerminalAll T_NULL', TerminalNth T_NULL',
     TerminalAll T_NONE, TerminalNth T_NONE, TerminalAll T_COMMA, TerminalNth T_COMMA,
     TerminalAll T_OLD_PASSWORD, TerminalNth T_OLD_PASSWORD, TerminalAll T_DECIMAL,
     TerminalNth T_DECIMAL, EnterRule, ExitRule, Accept]\<rparr>"

definition Create_userContext :: context_class where [context_classes]:
  "Create_userContext = \<lparr>class_id = RuleContext RuleCreate_user, class_base = ParserRuleContext, members = [
     ContextField ''user_name'' RuleId', ContextField ''login_name'' RuleId',
     ContextField ''schema_name'' RuleId', ContextField ''windows_principal'' RuleId',
     ContextField ''language_name_or_alias'' RuleId', TokenField ''password'',
     ContextField ''Azure_Active_Directory_principal'' RuleId',
     ContextField ''cert_name'' RuleId', ContextField ''asym_key_name'' RuleId', Constructor,
     GetRuleIndex, TerminalGet T_CREATE, TerminalGet T_USER, ContextAll RuleId',
     ContextNth RuleId', TerminalGet T_LOGIN, TerminalGet T_WITH, TerminalGet T_FOR,
     TerminalGet T_FROM, TerminalAll T_DEFAULT_SCHEMA, TerminalNth T_DEFAULT_SCHEMA,
     TerminalAll T_EQUAL, TerminalNth T_EQUAL,
     TerminalAll T_ALLOW_ENCRYPTED_VALUE_MODIFICATIONS,
     TerminalNth T_ALLOW_ENCRYPTED_VALUE_MODIFICATIONS, TerminalAll T_ON, TerminalNth T_ON,
     TerminalAll T_OFF, TerminalNth T_OFF, TerminalAll T_COMMA, TerminalNth T_COMMA,
     TerminalGet T_PASSWORD, TerminalGet T_EXTERNAL, TerminalGet T_PROVIDER,
     TerminalGet T_STRING, TerminalAll T_DEFAULT_LANGUAGE, TerminalNth T_DEFAULT_LANGUAGE,
     TerminalAll T_SID, TerminalNth T_SID, TerminalAll T_BINARY, TerminalNth T_BINARY,
     TerminalAll T_NONE, TerminalNth T_NONE, TerminalAll T_DECIMAL, TerminalNth T_DECIMAL,
     TerminalGet T_WITHOUT, TerminalGet T_CERTIFICATE, TerminalGet T_ASYMMETRIC,
     TerminalGet T_KEY, EnterRule, ExitRule, Accept]\<rparr>"

definition Create_user_azure_sql_dwContext :: context_class where [context_classes]:
  "Create_user_azure_sql_dwContext = \<lparr>class_id = RuleContext RuleCreate_user_azure_sql_dw, class_base = ParserRuleContext, members = [
     ContextField ''user_name'' RuleId', ContextField ''login_name'' RuleId',
     ContextField ''schema_name'' RuleId',
     ContextField ''Azure_Active_Directory_principal'' RuleId', Constructor, GetRuleIndex,
     TerminalGet T_CREATE, TerminalGet T_USER, ContextAll RuleId', ContextNth RuleId',
     TerminalGet T_LOGIN, TerminalGet T_WITHOUT, TerminalGet T_WITH,
     TerminalGet T_DEFAULT_SCHEMA, TerminalGet T_EQUAL, TerminalGet T_FOR, TerminalGet T_FROM,
     TerminalGet T_EXTERNAL, TerminalGet T_PROVIDER, EnterRule, ExitRule, Accept]\<rparr>"

definition Alter_user_azure_sqlContext :: context_class where [context_classes]:
  "Alter_user_azure_sqlContext = \<lparr>class_id = RuleContext RuleAlter_user_azure_sql, class_base = ParserRuleContext, members = [
     ContextField ''username'' RuleId', ContextField ''newusername'' RuleId',
     ContextField ''schema_name'' RuleId', ContextField ''loginame'' RuleId', Constructor,
     GetRuleIndex, TerminalGet T_ALTER, TerminalGet T_USER, TerminalGet T_WITH,
     ContextAll RuleId', ContextNth RuleId', TerminalAll T_NAME, TerminalNth T_NAME,
     TerminalAll T_EQUAL, TerminalNth T_EQUAL, TerminalAll T_DEFAULT_SCHEMA,
     TerminalNth T_DEFAULT_SCHEMA, TerminalAll T_LOGIN, TerminalNth T_LOGIN,
     TerminalAll T_ALLOW_ENCRYPTED_VALUE_MODIFICATIONS,
     TerminalNth T_ALLOW_ENCRYPTED_VALUE_MODIFICATIONS, TerminalAll T_ON, TerminalNth T_ON,
     TerminalAll T_OFF, TerminalNth T_OFF, TerminalAll T_COMMA, TerminalNth T_COMMA, EnterRule,
     ExitRule, Accept]\<rparr>"

definition Alter_workload_groupContext :: context_class where [context_classes]:
  "Alter_workload_groupContext = \<lparr>class_id = RuleContext RuleAlter_workload_group, class_base = ParserRuleContext, members = [
     ContextField ''workload_group_group_name'' RuleId',
     TokenField ''request_max_memory_grant'', TokenField ''request_max_cpu_time_sec'',
     TokenField ''request_memory_grant_timeout_sec'', TokenField ''max_dop'',
     TokenField ''group_max_requests'', ContextField ''workload_group_pool_name'' RuleId',
     Constructor, GetRuleIndex, TerminalGet T_ALTER, TerminalGet T_WORKLOAD,
     TerminalGet T_GROUP, TerminalAll T_DEFAULT_DOUBLE_QUOTE,
     TerminalNth T_DEFAULT_DOUBLE_QUOTE, ContextAll RuleId', ContextNth RuleId',
     TerminalGet T_WITH, TerminalGet T_LR_BRACKET, TerminalGet T_RR_BRACKET,
     TerminalGet T_USING, TerminalAll T_IMPORTANCE, TerminalNth T_IMPORTANCE,
     TerminalAll T_EQUAL, TerminalNth T_EQUAL, TerminalAll T_REQUEST_MAX_MEMORY_GRANT_PERCENT,
     TerminalNth T_REQUEST_MAX_MEMORY_GRANT_PERCENT, TerminalAll T_REQUEST_MAX_CPU_TIME_SEC,
     TerminalNth T_REQUEST_MAX_CPU_TIME_SEC, TerminalAll T_REQUEST_MEMORY_GRANT_TIMEOUT_SEC,
     TerminalNth T_REQUEST_MEMORY_GRANT_TIMEOUT_SEC, TerminalAll T_MAX_DOP,
     TerminalNth T_MAX_DOP, TerminalAll T_GROUP_MAX_REQUESTS, TerminalNth T_GROUP_MAX_REQUESTS,
     TerminalAll T_LOW, TerminalNth T_LOW, TerminalAll T_MEDIUM, TerminalNth T_MEDIUM,
     TerminalAll T_HIGH, TerminalNth T_HIGH, TerminalAll T_DECIMAL, TerminalNth T_DECIMAL,
     TerminalAll T_COMMA, TerminalNth T_COMMA, EnterRule, ExitRule, Accept]\<rparr>"

definition Create_workload_groupContext :: context_class where [context_classes]:
  "Create_workload_groupContext = \<lparr>class_id = RuleContext RuleCreate_workload_group, class_base = ParserRuleContext, members = [
     ContextField ''workload_group_group_name'' RuleId',
     TokenField ''request_max_memory_grant'', TokenField ''request_max_cpu_time_sec'',
     TokenField ''request_memory_grant_timeout_sec'', TokenField ''max_dop'',
     TokenField ''group_max_requests'', ContextField ''workload_group_pool_name'' RuleId',
     ContextField ''external_pool_name'' RuleId', Constructor, GetRuleIndex,
     TerminalGet T_CREATE, TerminalGet T_WORKLOAD, TerminalGet T_GROUP, ContextAll RuleId',
     ContextNth RuleId', TerminalGet T_WITH, TerminalGet T_LR_BRACKET,
     TerminalGet T_RR_BRACKET, TerminalGet T_USING, TerminalAll T_IMPORTANCE,
     TerminalNth T_IMPORTANCE, TerminalAll T_EQUAL, TerminalNth T_EQUAL,
     TerminalAll T_REQUEST_MAX_MEMORY_GRANT_PERCENT,
     TerminalNth T_REQUEST_MAX_MEMORY_GRANT_PERCENT, TerminalAll T_REQUEST_MAX_CPU_TIME_SEC,
     TerminalNth T_REQUEST_MAX_CPU_TIME_SEC, TerminalAll T_REQUEST_MEMORY_GRANT_TIMEOUT_SEC,
     TerminalNth T_REQUEST_MEMORY_GRANT_TIMEOUT_SEC, TerminalAll T_MAX_DOP,
     TerminalNth T_MAX_DOP, TerminalAll T_GROUP_MAX_REQUESTS, TerminalNth T_GROUP_MAX_REQUESTS,
     TerminalAll T_DEFAULT_DOUBLE_QUOTE, TerminalNth T_DEFAULT_DOUBLE_QUOTE,
     TerminalGet T_EXTERNAL, TerminalAll T_LOW, TerminalNth T_LOW, TerminalAll T_MEDIUM,
     TerminalNth T_MEDIUM, TerminalAll T_HIGH, TerminalNth T_HIGH, TerminalAll T_DECIMAL,
     TerminalNth T_DECIMAL, TerminalAll T_COMMA, TerminalNth T_COMMA, EnterRule, ExitRule,
     Accept]\<rparr>"

definition Create_xml_schema_collectionContext :: context_class where [context_classes]:
  "Create_xml_schema_collectionContext = \<lparr>class_id = RuleContext RuleCreate_xml_schema_collection, class_base = ParserRuleContext, members = [
     ContextField ''relational_schema'' RuleId', ContextField ''sql_identifier'' RuleId',
     Constructor, GetRuleIndex, TerminalGet T_CREATE, TerminalGet T_XML, TerminalGet T_SCHEMA,
     TerminalGet T_COLLECTION, TerminalGet T_AS, ContextAll RuleId', ContextNth RuleId',
     TerminalGet T_STRING, TerminalGet T_LOCAL_ID, TerminalGet T_DOT, EnterRule, ExitRule,
     Accept]\<rparr>"

definition Create_partition_functionContext :: context_class where [context_classes]:
  "Create_partition_functionContext = \<lparr>class_id = RuleContext RuleCreate_partition_function, class_base = ParserRuleContext, members = [
     ContextField ''partition_function_name'' RuleId',
     ContextField ''input_parameter_type'' RuleData_type,
     ContextField ''boundary_values'' RuleExpression_list', Constructor, GetRuleIndex,
     TerminalGet T_CREATE, TerminalGet T_PARTITION, TerminalGet T_FUNCTION,
     TerminalAll T_LR_BRACKET, TerminalNth T_LR_BRACKET, TerminalAll T_RR_BRACKET,
     TerminalNth T_RR_BRACKET, TerminalGet T_AS, TerminalGet T_RANGE, TerminalGet T_FOR,
     TerminalGet T_VALUES, ContextGet RuleId', ContextGet RuleData_type,
     ContextGet RuleExpression_list', TerminalGet T_LEFT, TerminalGet T_RIGHT, EnterRule,
     ExitRule, Accept]\<rparr>"

definition Create_partition_schemeContext :: context_class where [context_classes]:
  "Create_partition_schemeContext = \<lparr>class_id = RuleContext RuleCreate_partition_scheme, class_base = ParserRuleContext, members = [
     ContextField ''partition_scheme_name'' RuleId',
     ContextField ''partition_function_name'' RuleId', ContextField ''id_Context'' RuleId',
     ContextListField ''file_group_names'' RuleId', Constructor, GetRuleIndex,
     TerminalGet T_CREATE, TerminalAll T_PARTITION, TerminalNth T_PARTITION,
     TerminalGet T_SCHEME, TerminalGet T_AS, TerminalGet T_TO, TerminalGet T_LR_BRACKET,
     TerminalGet T_RR_BRACKET, ContextAll RuleId', ContextNth RuleId', TerminalGet T_ALL,
     TerminalAll T_COMMA, TerminalNth T_COMMA, EnterRule, ExitRule, Accept]\<rparr>"

definition Create_queueContext :: context_class where [context_classes]:
  "Create_queueContext = \<lparr>class_id = RuleContext RuleCreate_queue, class_base = ParserRuleContext, members = [
     ContextField ''queue_name'' RuleId', ContextField ''filegroup'' RuleId', Constructor,
     GetRuleIndex, TerminalGet T_CREATE, TerminalGet T_QUEUE, ContextGet RuleFull_table_name,
     ContextAll RuleId', ContextNth RuleId', ContextGet RuleQueue_settings, TerminalGet T_ON,
     TerminalGet T_DEFAULT, EnterRule, ExitRule, Accept]\<rparr>"

definition Queue_settingsContext :: context_class where [context_classes]:
  "Queue_settingsContext = \<lparr>class_id = RuleContext RuleQueue_settings, class_base = ParserRuleContext, members = [
     TokenField ''max_readers'', TokenField ''user_name'', Constructor, GetRuleIndex,
     TerminalGet T_WITH, TerminalAll T_STATUS, TerminalNth T_STATUS, TerminalAll T_EQUAL,
     TerminalNth T_EQUAL, ContextAll RuleOn_off, ContextNth RuleOn_off,
     TerminalGet T_RETENTION, TerminalGet T_ACTIVATION, TerminalAll T_LR_BRACKET,
     TerminalNth T_LR_BRACKET, TerminalAll T_RR_BRACKET, TerminalNth T_RR_BRACKET,
     TerminalGet T_POISON_MESSAGE_HANDLING, TerminalGet T_DROP, TerminalAll T_COMMA,
     TerminalNth T_COMMA, TerminalGet T_PROCEDURE_NAME,
     ContextGet RuleFunc_proc_name_database_schema, TerminalGet T_MAX_QUEUE_READERS,
     TerminalGet T_EXECUTE, TerminalGet T_AS, TerminalGet T_DECIMAL, TerminalGet T_SELF,
     TerminalGet T_OWNER, TerminalGet T_STRING, EnterRule, ExitRule, Accept]\<rparr>"

definition Alter_queueContext :: context_class where [context_classes]:
  "Alter_queueContext = \<lparr>class_id = RuleContext RuleAlter_queue, class_base = ParserRuleContext, members = [
     ContextField ''queue_name'' RuleId', Constructor, GetRuleIndex, TerminalGet T_ALTER,
     TerminalGet T_QUEUE, ContextGet RuleFull_table_name, ContextGet RuleQueue_settings,
     ContextGet RuleQueue_action, ContextGet RuleId', EnterRule, ExitRule, Accept]\<rparr>"

definition Queue_actionContext :: context_class where [context_classes]:
  "Queue_actionContext = \<lparr>class_id = RuleContext RuleQueue_action, class_base = ParserRuleContext, members = [
     Constructor, GetRuleIndex, TerminalGet T_REBUILD, TerminalGet T_WITH,
     TerminalGet T_LR_BRACKET, ContextGet RuleQueue_rebuild_options, TerminalGet T_RR_BRACKET,
     TerminalGet T_REORGANIZE, TerminalGet T_LOB_COMPACTION, TerminalGet T_EQUAL,
     ContextGet RuleOn_off, TerminalGet T_MOVE, TerminalGet T_TO, ContextGet RuleId',
     TerminalGet T_DEFAULT, EnterRule, ExitRule, Accept]\<rparr>"

definition Queue_rebuild_optionsContext :: context_class where [context_classes]:
  "Queue_rebuild_optionsContext = \<lparr>class_id = RuleContext RuleQueue_rebuild_options, class_base = ParserRuleContext, members = [
     Constructor, GetRuleIndex, TerminalGet T_MAXDOP, TerminalGet T_EQUAL,
     TerminalGet T_DECIMAL, EnterRule, ExitRule, Accept]\<rparr>"

definition Create_contractContext :: context_class where [context_classes]:
  "Create_contractContext = \<lparr>class_id = RuleContext RuleCreate_contract, class_base = ParserRuleContext, members = [
     ContextField ''owner_name'' RuleId', ContextField ''message_type_name'' RuleId',
     Constructor, GetRuleIndex, TerminalGet T_CREATE, TerminalGet T_CONTRACT,
     ContextGet RuleContract_name, TerminalGet T_LR_BRACKET, TerminalGet T_RR_BRACKET,
     TerminalGet T_AUTHORIZATION, TerminalAll T_SENT, TerminalNth T_SENT, TerminalAll T_BY,
     TerminalNth T_BY, ContextAll RuleId', ContextNth RuleId', TerminalAll T_INITIATOR,
     TerminalNth T_INITIATOR, TerminalAll T_TARGET, TerminalNth T_TARGET, TerminalAll T_ANY,
     TerminalNth T_ANY, TerminalAll T_DEFAULT, TerminalNth T_DEFAULT, TerminalAll T_COMMA,
     TerminalNth T_COMMA, EnterRule, ExitRule, Accept]\<rparr>"

definition Conversation_statementContext :: context_class where [context_classes]:
  "Conversation_statementContext = \<lparr>class_id = RuleContext RuleConversation_statement, class_base = ParserRuleContext, members = [
     Constructor, GetRuleIndex, ContextGet RuleBegin_conversation_timer,
     ContextGet RuleBegin_conversation_dialog, ContextGet RuleEnd_conversation,
     ContextGet RuleGet_conversation, ContextGet RuleSend_conversation,
     ContextGet RuleWaitfor_conversation, EnterRule, ExitRule, Accept]\<rparr>"

definition Message_statementContext :: context_class where [context_classes]:
  "Message_statementContext = \<lparr>class_id = RuleContext RuleMessage_statement, class_base = ParserRuleContext, members = [
     ContextField ''message_type_name'' RuleId', ContextField ''owner_name'' RuleId',
     ContextField ''schema_collection_name'' RuleId', Constructor, GetRuleIndex,
     TerminalGet T_CREATE, TerminalGet T_MESSAGE, TerminalGet T_TYPE, ContextAll RuleId',
     ContextNth RuleId', TerminalGet T_VALIDATION, TerminalGet T_EQUAL,
     TerminalGet T_AUTHORIZATION, TerminalGet T_NONE, TerminalGet T_EMPTY,
     TerminalGet T_WELL_FORMED_XML, TerminalGet T_VALID_XML, TerminalGet T_WITH,
     TerminalGet T_SCHEMA, TerminalGet T_COLLECTION, EnterRule, ExitRule, Accept]\<rparr>"

definition Merge_statementContext :: context_class where [context_classes]:
  "Merge_statementContext = \<lparr>class_id = RuleContext RuleMerge_statement, class_base = ParserRuleContext, members = [
     Constructor, GetRuleIndex, TerminalGet T_MERGE, ContextGet RuleDdl_object,
     TerminalGet T_USING, ContextGet RuleTable_sources, TerminalGet T_ON,
     ContextGet RuleSearch_condition, TerminalGet T_SEMI, ContextGet RuleWith_expression,
     TerminalGet T_TOP, TerminalGet T_LR_BRACKET, ContextGet RuleExpression,
     TerminalGet T_RR_BRACKET, TerminalGet T_INTO, ContextGet RuleWith_table_hints,
     ContextGet RuleAs_table_alias, ContextAll RuleWhen_matches, ContextNth RuleWhen_matches,
     ContextGet RuleOutput_clause, ContextGet RuleOption_clause, TerminalGet T_PERCENT,
     EnterRule, ExitRule, Accept]\<rparr>"

definition When_matchesContext :: context_class where [context_classes]:
  "When_matchesContext = \<lparr>class_id = RuleContext RuleWhen_matches, class_base = ParserRuleContext, members = [
     Constructor, GetRuleIndex, TerminalAll T_WHEN, TerminalNth T_WHEN, TerminalAll T_MATCHED,
     TerminalNth T_MATCHED, TerminalAll T_THEN, TerminalNth T_THEN,
     ContextAll RuleMerge_matched, ContextNth RuleMerge_matched, TerminalAll T_AND,
     TerminalNth T_AND, ContextAll RuleSearch_condition, ContextNth RuleSearch_condition,
     TerminalAll T_NOT, TerminalNth T_NOT, ContextGet RuleMerge_not_matched, TerminalAll T_BY,
     TerminalNth T_BY, TerminalGet T_TARGET, TerminalAll T_SOURCE, TerminalNth T_SOURCE,
     EnterRule, ExitRule, Accept]\<rparr>"

definition Merge_matchedContext :: context_class where [context_classes]:
  "Merge_matchedContext = \<lparr>class_id = RuleContext RuleMerge_matched, class_base = ParserRuleContext, members = [
     Constructor, GetRuleIndex, TerminalGet T_UPDATE, TerminalGet T_SET,
     ContextAll RuleUpdate_elem_merge, ContextNth RuleUpdate_elem_merge, TerminalAll T_COMMA,
     TerminalNth T_COMMA, TerminalGet T_DELETE, EnterRule, ExitRule, Accept]\<rparr>"

definition Merge_not_matchedContext :: context_class where [context_classes]:
  "Merge_not_matchedContext = \<lparr>class_id = RuleContext RuleMerge_not_matched, class_base = ParserRuleContext, members = [
     Constructor, GetRuleIndex, TerminalGet T_INSERT, ContextGet RuleTable_value_constructor,
     TerminalGet T_DEFAULT, TerminalGet T_VALUES, TerminalGet T_LR_BRACKET,
     ContextGet RuleColumn_name_list, TerminalGet T_RR_BRACKET, EnterRule, ExitRule, Accept]\<rparr>"

definition Delete_statementContext :: context_class where [context_classes]:
  "Delete_statementContext = \<lparr>class_id = RuleContext RuleDelete_statement, class_base = ParserRuleContext, members = [
     TokenField ''cursor_var'', Constructor, GetRuleIndex, TerminalGet T_DELETE,
     ContextGet RuleDelete_statement_from, ContextGet RuleWith_expression, TerminalGet T_TOP,
     TerminalGet T_LR_BRACKET, ContextGet RuleExpression, TerminalGet T_RR_BRACKET,
     TerminalGet T_DECIMAL, TerminalGet T_FROM, ContextGet RuleWith_table_hints,
     ContextGet RuleOutput_clause, ContextGet RuleFrom_table_sources, TerminalGet T_WHERE,
     ContextGet RuleFor_clause, ContextGet RuleOption_clause, TerminalGet T_SEMI,
     ContextGet RuleSearch_condition, TerminalGet T_CURRENT, TerminalGet T_OF,
     TerminalGet T_PERCENT, ContextGet RuleCursor_name, TerminalGet T_LOCAL_ID,
     TerminalGet T_GLOBAL, EnterRule, ExitRule, Accept]\<rparr>"

definition classes_2 :: "context_class list" where
  "classes_2 = [
     Truncate_tableContext, Create_column_master_keyContext, Alter_credentialContext,
     Create_credentialContext, Alter_cryptographic_providerContext,
     Create_cryptographic_providerContext, Create_endpointContext,
     Endpoint_encryption_alogorithm_clauseContext, Endpoint_authentication_clauseContext,
     Endpoint_listener_clauseContext, Create_event_notificationContext,
     Create_or_alter_event_sessionContext, Event_session_predicate_expressionContext,
     Event_session_predicate_factorContext, Event_session_predicate_leafContext,
     Alter_external_data_sourceContext, Alter_external_libraryContext,
     Create_external_libraryContext, Alter_external_resource_poolContext,
     Create_external_resource_poolContext, Alter_fulltext_catalogContext,
     Create_fulltext_catalogContext, Alter_fulltext_stoplistContext,
     Create_fulltext_stoplistContext, Alter_login_sql_serverContext,
     Create_login_sql_serverContext, Alter_login_azure_sqlContext,
     Create_login_azure_sqlContext, Alter_login_azure_sql_dw_and_pdwContext,
     Create_login_pdwContext, Alter_master_key_sql_serverContext,
     Create_master_key_sql_serverContext, Alter_master_key_azure_sqlContext,
     Create_master_key_azure_sqlContext, Alter_message_typeContext,
     Alter_partition_functionContext, Alter_partition_schemeContext,
     Alter_remote_service_bindingContext, Create_remote_service_bindingContext,
     Create_resource_poolContext, Alter_resource_governorContext,
     Alter_database_audit_specificationContext, Audit_action_spec_groupContext,
     Audit_action_specificationContext, Action_specificationContext, Audit_class_nameContext,
     Audit_securableContext, Alter_db_roleContext, Create_database_audit_specificationContext,
     Create_db_roleContext, Create_routeContext, Create_ruleContext, Alter_schema_sqlContext,
     Create_schemaContext, Create_schema_azure_sql_dw_and_pdwContext,
     Alter_schema_azure_sql_dw_and_pdwContext, Create_search_property_listContext,
     Create_security_policyContext, Alter_sequenceContext, Create_sequenceContext,
     Alter_server_auditContext, Create_server_auditContext,
     Alter_server_audit_specificationContext, Create_server_audit_specificationContext,
     Alter_server_configurationContext, Alter_server_roleContext, Create_server_roleContext,
     Alter_server_role_pdwContext, Alter_serviceContext, Opt_arg_clauseContext,
     Create_serviceContext, Alter_service_master_keyContext, Alter_symmetric_keyContext,
     Create_synonymContext, Alter_userContext, Create_userContext,
     Create_user_azure_sql_dwContext, Alter_user_azure_sqlContext, Alter_workload_groupContext,
     Create_workload_groupContext, Create_xml_schema_collectionContext,
     Create_partition_functionContext, Create_partition_schemeContext, Create_queueContext,
     Queue_settingsContext, Alter_queueContext, Queue_actionContext,
     Queue_rebuild_optionsContext, Create_contractContext, Conversation_statementContext,
     Message_statementContext, Merge_statementContext, When_matchesContext,
     Merge_matchedContext, Merge_not_matchedContext, Delete_statementContext]"

end
