(* ===== verification/Conformance_2.thy ===== *)
theory Conformance_2
  imports Conforming Rules_2 Contexts_2
begin

text \<open>
  Part 2 of the comparison of \<open>TSqlParser.g4\<close> with the classes of \<open>TSqlParser.h\<close>: each rule
  with the classes the header declares for it, and the evaluation of the check.
\<close>

definition pairs_2 :: "(rule option \<times> context_class list) list" where
  "pairs_2 = [
     (Some g_truncate_table, [Truncate_tableContext]),
     (Some g_create_column_master_key, [Create_column_master_keyContext]),
     (Some g_alter_credential, [Alter_credentialContext]),
     (Some g_create_credential, [Create_credentialContext]),
     (Some g_alter_cryptographic_provider, [Alter_cryptographic_providerContext]),
     (Some g_create_cryptographic_provider, [Create_cryptographic_providerContext]),
     (Some g_create_endpoint, [Create_endpointContext]),
     (Some g_endpoint_encryption_alogorithm_clause, [Endpoint_encryption_alogorithm_clauseContext]),
     (Some g_endpoint_authentication_clause, [Endpoint_authentication_clauseContext]),
     (Some g_endpoint_listener_clause, [Endpoint_listener_clauseContext]),
     (Some g_create_event_notification, [Create_event_notificationContext]),
     (Some g_create_or_alter_event_session, [Create_or_alter_event_sessionContext]),
     (Some g_event_session_predicate_expression, [Event_session_predicate_expressionContext]),
     (Some g_event_session_predicate_factor, [Event_session_predicate_factorContext]),
     (Some g_event_session_predicate_leaf, [Event_session_predicate_leafContext]),
     (Some g_alter_external_data_source, [Alter_external_data_sourceContext]),
     (Some g_alter_external_library, [Alter_external_libraryContext]),
     (Some g_create_external_library, [Create_external_libraryContext]),
     (Some g_alter_external_resource_pool, [Alter_external_resource_poolContext]),
     (Some g_create_external_resource_pool, [Create_external_resource_poolContext]),
     (Some g_alter_fulltext_catalog, [Alter_fulltext_catalogContext]),
     (Some g_create_fulltext_catalog, [Create_fulltext_catalogContext]),
     (Some g_alter_fulltext_stoplist, [Alter_fulltext_stoplistContext]),
     (Some g_create_fulltext_stoplist, [Create_fulltext_stoplistContext]),
     (Some g_alter_login_sql_server, [Alter_login_sql_serverContext]),
     (Some g_create_login_sql_server, [Create_login_sql_serverContext]),
     (Some g_alter_login_azure_sql, [Alter_login_azure_sqlContext]),
     (Some g_create_login_azure_sql, [Create_login_azure_sqlContext]),
     (Some g_alter_login_azure_sql_dw_and_pdw, [Alter_login_azure_sql_dw_and_pdwContext]),
     (Some g_create_login_pdw, [Create_login_pdwContext]),
     (Some g_alter_master_key_sql_server, [Alter_master_key_sql_serverContext]),
     (Some g_create_master_key_sql_server, [Create_master_key_sql_serverContext]),
     (Some g_alter_master_key_azure_sql, [Alter_master_key_azure_sqlContext]),
     (Some g_create_master_key_azure_sql, [Create_master_key_azure_sqlContext]),
     (Some g_alter_message_type, [Alter_message_typeContext]),
     (Some g_alter_partition_function, [Alter_partition_functionContext]),
     (Some g_alter_partition_scheme, [Alter_partition_schemeContext]),
     (Some g_alter_remote_service_binding, [Alter_remote_service_bindingContext]),
     (Some g_create_remote_service_binding, [Create_remote_service_bindingContext]),
     (Some g_create_resource_pool, [Create_resource_poolContext]),
     (Some g_alter_resource_governor, [Alter_resource_governorContext]),
     (Some g_alter_database_audit_specification, [Alter_database_audit_specificationContext]),
     (Some g_audit_action_spec_group, [Audit_action_spec_groupContext]),
     (Some g_audit_action_specification, [Audit_action_specificationContext]),
     (Some g_action_specification, [Action_specificationContext]),
     (Some g_audit_class_name, [Audit_class_nameContext]),
     (Some g_audit_securable, [Audit_securableContext]),
     (Some g_alter_db_role, [Alter_db_roleContext]),
     (Some g_create_database_audit_specification, [Create_database_audit_specificationContext]),
     (Some g_create_db_role, [Create_db_roleContext]),
     (Some g_create_route, [Create_routeContext]),
     (Some g_create_rule, [Create_ruleContext]),
     (Some g_alter_schema_sql, [Alter_schema_sqlContext]),
     (Some g_create_schema, [Create_schemaContext]),
     (Some g_create_schema_azure_sql_dw_and_pdw, [Create_schema_azure_sql_dw_and_pdwContext]),
     (Some g_alter_schema_azure_sql_dw_and_pdw, [Alter_schema_azure_sql_dw_and_pdwContext]),
     (Some g_create_search_property_list, [Create_search_property_listContext]),
     (Some g_create_security_policy, [Create_security_policyContext]),
     (Some g_alter_sequence, [Alter_sequenceContext]),
     (Some g_create_sequence, [Create_sequenceContext]),
     (Some g_alter_server_audit, [Alter_server_auditContext]),
     (Some g_create_server_audit, [Create_server_auditContext]),
     (Some g_alter_server_audit_specification, [Alter_server_audit_specificationContext]),
     (Some g_create_server_audit_specification, [Create_server_audit_specificationContext]),
     (Some g_alter_server_configuration, [Alter_server_configurationContext]),
     (Some g_alter_server_role, [Alter_server_roleContext]),
     (Some g_create_server_role, [Create_server_roleContext]),
     (Some g_alter_server_role_pdw, [Alter_server_role_pdwContext]),
     (Some g_alter_service, [Alter_serviceContext]),
     (Some g_opt_arg_clause, [Opt_arg_clauseContext]),
     (Some g_create_service, [Create_serviceContext]),
     (Some g_alter_service_master_key, [Alter_service_master_keyContext]),
     (Some g_alter_symmetric_key, [Alter_symmetric_keyContext]),
     (Some g_create_synonym, [Create_synonymContext]),
     (Some g_alter_user, [Alter_userContext]),
     (Some g_create_user, [Create_userContext]),
     (Some g_create_user_azure_sql_dw, [Create_user_azure_sql_dwContext]),
     (Some g_alter_user_azure_sql, [Alter_user_azure_sqlContext]),
     (Some g_alter_workload_group, [Alter_workload_groupContext]),
     (Some g_create_workload_group, [Create_workload_groupContext]),
     (Some g_create_xml_schema_collection, [Create_xml_schema_collectionContext]),
     (Some g_create_partition_function, [Create_partition_functionContext]),
     (Some g_create_partition_scheme, [Create_partition_schemeContext]),
     (Some g_create_queue, [Create_queueContext]),
     (Some g_queue_settings, [Queue_settingsContext]),
     (Some g_alter_queue, [Alter_queueContext]),
     (Some g_queue_action, [Queue_actionContext]),
     (Some g_queue_rebuild_options, [Queue_rebuild_optionsContext]),
     (Some g_create_contract, [Create_contractContext]),
     (Some g_conversation_statement, [Conversation_statementContext]),
     (Some g_message_statement, [Message_statementContext]),
     (Some g_merge_statement, [Merge_statementContext]),
     (Some g_when_matches, [When_matchesContext]),
     (Some g_merge_matched, [Merge_matchedContext]),
     (Some g_merge_not_matched, [Merge_not_matchedContext]),
     (Some g_delete_statement, [Delete_statementContext])]"

lemma pairs_2_ok: "list_all pair_ok pairs_2"
  by (simp only: conformance_eval pairs_2_def grammar_rules context_classes cong: opaque case_opaque)

end
