(* ===== verification/Rules_3.thy ===== *)
theory Rules_3
  imports Grammar Tokens Rule_Ids Label_Ids
begin

text \<open>
  Rules of \<open>src/TSqlParser.g4\<close>, from \<open>delete_statement_from\<close> to \<open>backup_log\<close>: one definition per
  rule, its alternatives in the order of the file.  A quoted literal of the grammar is the
  token whose lexer rule is that literal.
\<close>

definition g_delete_statement_from :: rule where [grammar_rules]:
  "g_delete_statement_from = \<lparr>rule_index = RuleDelete_statement_from, rule_alts = [
       (None, Ref RuleDdl_object),
       (None, Ref RuleRowset_function_limited),
       (None, Lab (Assign ''table_var'') (Tok T_LOCAL_ID))]\<rparr>"

definition g_insert_statement :: rule where [grammar_rules]:
  "g_insert_statement = \<lparr>rule_index = RuleInsert_statement, rule_alts = [
       (None, Seq [Opt (Ref RuleWith_expression), Tok T_INSERT, Opt (Seq [Tok T_TOP,
         Tok T_LR_BRACKET, Ref RuleExpression, Tok T_RR_BRACKET, Opt (Tok T_PERCENT)]),
         Opt (Tok T_INTO), Alt [Ref RuleDdl_object, Ref RuleRowset_function_limited],
         Opt (Ref RuleWith_table_hints), Opt (Seq [Tok T_LR_BRACKET,
         Ref RuleInsert_column_name_list, Tok T_RR_BRACKET]), Opt (Ref RuleOutput_clause),
         Ref RuleInsert_statement_value, Opt (Ref RuleFor_clause), Opt (Ref RuleOption_clause),
         Opt (Tok T_SEMI)])]\<rparr>"

definition g_insert_statement_value :: rule where [grammar_rules]:
  "g_insert_statement_value = \<lparr>rule_index = RuleInsert_statement_value, rule_alts = [
       (None, Ref RuleDerived_table),
       (None, Ref RuleExecute_statement),
       (None, Seq [Tok T_DEFAULT, Tok T_VALUES])]\<rparr>"

definition g_receive_statement :: rule where [grammar_rules]:
  "g_receive_statement = \<lparr>rule_index = RuleReceive_statement, rule_alts = [
       (None, Seq [Opt (Tok T_LR_BRACKET), Tok T_RECEIVE, Alt [Tok T_ALL, Tok T_DISTINCT,
         Ref RuleTop_clause, Tok T_STAR], Star (Seq [Tok T_LOCAL_ID, Tok T_EQUAL,
         Ref RuleExpression, Opt (Tok T_COMMA)]), Tok T_FROM, Ref RuleFull_table_name,
         Opt (Seq [Tok T_INTO, Lab (Assign ''table_variable'') (Ref RuleId'), Seq [Tok T_WHERE,
         Lab (Assign ''where'') (Ref RuleSearch_condition)]]), Opt (Tok T_RR_BRACKET)])]\<rparr>"

definition g_select_statement_standalone :: rule where [grammar_rules]:
  "g_select_statement_standalone = \<lparr>rule_index = RuleSelect_statement_standalone, rule_alts = [
       (None, Seq [Opt (Ref RuleWith_expression), Ref RuleSelect_statement])]\<rparr>"

definition g_select_statement :: rule where [grammar_rules]:
  "g_select_statement = \<lparr>rule_index = RuleSelect_statement, rule_alts = [
       (None, Seq [Ref RuleQuery_expression, Opt (Ref RuleSelect_order_by_clause),
         Opt (Ref RuleFor_clause), Opt (Ref RuleOption_clause), Opt (Tok T_SEMI)])]\<rparr>"

definition g_time :: rule where [grammar_rules]:
  "g_time = \<lparr>rule_index = RuleTime, rule_alts = [
       (None, Alt [Tok T_LOCAL_ID, Ref RuleConstant])]\<rparr>"

definition g_update_statement :: rule where [grammar_rules]:
  "g_update_statement = \<lparr>rule_index = RuleUpdate_statement, rule_alts = [
       (None, Seq [Opt (Ref RuleWith_expression), Tok T_UPDATE, Opt (Seq [Tok T_TOP,
         Tok T_LR_BRACKET, Ref RuleExpression, Tok T_RR_BRACKET, Opt (Tok T_PERCENT)]),
         Alt [Ref RuleDdl_object, Ref RuleRowset_function_limited],
         Opt (Ref RuleWith_table_hints), Tok T_SET, Ref RuleUpdate_elem,
         Star (Seq [Tok T_COMMA, Ref RuleUpdate_elem]), Opt (Ref RuleOutput_clause),
         Opt (Seq [Tok T_FROM, Ref RuleTable_sources]), Opt (Seq [Tok T_WHERE,
         Alt [Ref RuleSearch_condition, Seq [Tok T_CURRENT, Tok T_OF,
         Alt [Seq [Opt (Tok T_GLOBAL), Ref RuleCursor_name],
         Lab (Assign ''cursor_var'') (Tok T_LOCAL_ID)]]]]), Opt (Ref RuleFor_clause),
         Opt (Ref RuleOption_clause), Opt (Tok T_SEMI)])]\<rparr>"

definition g_output_clause :: rule where [grammar_rules]:
  "g_output_clause = \<lparr>rule_index = RuleOutput_clause, rule_alts = [
       (None, Seq [Tok T_OUTPUT, Ref RuleOutput_dml_list_elem, Star (Seq [Tok T_COMMA,
         Ref RuleOutput_dml_list_elem]), Opt (Seq [Tok T_INTO, Alt [Tok T_LOCAL_ID,
         Ref RuleTable_name], Opt (Seq [Tok T_LR_BRACKET, Ref RuleColumn_name_list,
         Tok T_RR_BRACKET])])])]\<rparr>"

definition g_output_dml_list_elem :: rule where [grammar_rules]:
  "g_output_dml_list_elem = \<lparr>rule_index = RuleOutput_dml_list_elem, rule_alts = [
       (None, Seq [Alt [Ref RuleExpression, Ref RuleAsterisk], Opt (Ref RuleAs_column_alias)])]\<rparr>"

definition g_create_database :: rule where [grammar_rules]:
  "g_create_database = \<lparr>rule_index = RuleCreate_database, rule_alts = [
       (None, Seq [Tok T_CREATE, Tok T_DATABASE, Lab (Assign ''database'') (Ref RuleId'),
         Opt (Seq [Tok T_CONTAINMENT, Tok T_EQUAL, Alt [Tok T_NONE, Tok T_PARTIAL]]),
         Opt (Seq [Tok T_ON, Opt (Tok T_PRIMARY), Ref RuleDatabase_file_spec,
         Star (Seq [Tok T_COMMA, Ref RuleDatabase_file_spec])]), Opt (Seq [Tok T_LOG, Tok T_ON,
         Ref RuleDatabase_file_spec, Star (Seq [Tok T_COMMA, Ref RuleDatabase_file_spec])]),
         Opt (Seq [Tok T_COLLATE, Lab (Assign ''collation_name'') (Ref RuleId')]),
         Opt (Seq [Tok T_WITH, Ref RuleCreate_database_option, Star (Seq [Tok T_COMMA,
         Ref RuleCreate_database_option])])])]\<rparr>"

definition g_create_index :: rule where [grammar_rules]:
  "g_create_index = \<lparr>rule_index = RuleCreate_index, rule_alts = [
       (None, Seq [Tok T_CREATE, Opt (Tok T_UNIQUE), Opt (Ref RuleClustered), Tok T_INDEX,
         Ref RuleId', Tok T_ON, Ref RuleTable_name, Tok T_LR_BRACKET,
         Ref RuleColumn_name_list_with_order, Tok T_RR_BRACKET, Opt (Seq [Tok T_INCLUDE,
         Tok T_LR_BRACKET, Ref RuleColumn_name_list, Tok T_RR_BRACKET]), Opt (Seq [Tok T_WHERE,
         Lab (Assign ''where'') (Ref RuleSearch_condition)]),
         Opt (Ref RuleCreate_index_options), Opt (Seq [Tok T_ON, Ref RuleId']),
         Opt (Tok T_SEMI)])]\<rparr>"

definition g_create_index_options :: rule where [grammar_rules]:
  "g_create_index_options = \<lparr>rule_index = RuleCreate_index_options, rule_alts = [
       (None, Seq [Tok T_WITH, Tok T_LR_BRACKET, Ref RuleRelational_index_option,
         Star (Seq [Tok T_COMMA, Ref RuleRelational_index_option]), Tok T_RR_BRACKET])]\<rparr>"

definition g_relational_index_option :: rule where [grammar_rules]:
  "g_relational_index_option = \<lparr>rule_index = RuleRelational_index_option, rule_alts = [
       (None, Ref RuleRebuild_index_option),
       (None, Seq [Tok T_DROP_EXISTING, Tok T_EQUAL, Ref RuleOn_off]),
       (None, Seq [Tok T_OPTIMIZE_FOR_SEQUENTIAL_KEY, Tok T_EQUAL, Ref RuleOn_off])]\<rparr>"

definition g_alter_index :: rule where [grammar_rules]:
  "g_alter_index = \<lparr>rule_index = RuleAlter_index, rule_alts = [
       (None, Seq [Tok T_ALTER, Tok T_INDEX, Alt [Ref RuleId', Tok T_ALL], Tok T_ON,
         Ref RuleTable_name, Alt [Tok T_DISABLE, Tok T_PAUSE, Tok T_ABORT, Seq [Tok T_RESUME,
         Opt (Ref RuleResumable_index_options)], Ref RuleReorganize_partition,
         Ref RuleSet_index_options, Ref RuleRebuild_partition]])]\<rparr>"

definition g_resumable_index_options :: rule where [grammar_rules]:
  "g_resumable_index_options = \<lparr>rule_index = RuleResumable_index_options, rule_alts = [
       (None, Seq [Tok T_WITH, Tok T_LR_BRACKET, Seq [Ref RuleResumable_index_option,
         Star (Seq [Tok T_COMMA, Ref RuleResumable_index_option])], Tok T_RR_BRACKET])]\<rparr>"

definition g_resumable_index_option :: rule where [grammar_rules]:
  "g_resumable_index_option = \<lparr>rule_index = RuleResumable_index_option, rule_alts = [
       (None, Seq [Tok T_MAXDOP, Tok T_EQUAL,
         Lab (Assign ''max_degree_of_parallelism'') (Tok T_DECIMAL)]),
       (None, Seq [Tok T_MAX_DURATION, Tok T_EQUAL,
         Lab (Assign ''max_duration'') (Tok T_DECIMAL), Opt (Tok T_MINUTES)]),
       (None, Ref RuleLow_priority_lock_wait)]\<rparr>"

definition g_reorganize_partition :: rule where [grammar_rules]:
  "g_reorganize_partition = \<lparr>rule_index = RuleReorganize_partition, rule_alts = [
       (None, Seq [Tok T_REORGANIZE, Opt (Seq [Tok T_PARTITION, Tok T_EQUAL, Tok T_DECIMAL]),
         Opt (Ref RuleReorganize_options)])]\<rparr>"

definition g_reorganize_options :: rule where [grammar_rules]:
  "g_reorganize_options = \<lparr>rule_index = RuleReorganize_options, rule_alts = [
       (None, Seq [Tok T_WITH, Tok T_LR_BRACKET, Seq [Ref RuleReorganize_option,
         Star (Seq [Tok T_COMMA, Ref RuleReorganize_option])], Tok T_RR_BRACKET])]\<rparr>"

definition g_reorganize_option :: rule where [grammar_rules]:
  "g_reorganize_option = \<lparr>rule_index = RuleReorganize_option, rule_alts = [
       (None, Seq [Tok T_LOB_COMPACTION, Tok T_EQUAL, Ref RuleOn_off]),
       (None, Seq [Tok T_COMPRESS_ALL_ROW_GROUPS, Tok T_EQUAL, Ref RuleOn_off])]\<rparr>"

definition g_set_index_options :: rule where [grammar_rules]:
  "g_set_index_options = \<lparr>rule_index = RuleSet_index_options, rule_alts = [
       (None, Seq [Tok T_SET, Tok T_LR_BRACKET, Ref RuleSet_index_option,
         Star (Seq [Tok T_COMMA, Ref RuleSet_index_option]), Tok T_RR_BRACKET])]\<rparr>"

definition g_set_index_option :: rule where [grammar_rules]:
  "g_set_index_option = \<lparr>rule_index = RuleSet_index_option, rule_alts = [
       (None, Seq [Tok T_ALLOW_ROW_LOCKS, Tok T_EQUAL, Ref RuleOn_off]),
       (None, Seq [Tok T_ALLOW_PAGE_LOCKS, Tok T_EQUAL, Ref RuleOn_off]),
       (None, Seq [Tok T_OPTIMIZE_FOR_SEQUENTIAL_KEY, Tok T_EQUAL, Ref RuleOn_off]),
       (None, Seq [Tok T_IGNORE_DUP_KEY, Tok T_EQUAL, Ref RuleOn_off]),
       (None, Seq [Tok T_STATISTICS_NORECOMPUTE, Tok T_EQUAL, Ref RuleOn_off]),
       (None, Seq [Tok T_COMPRESSION_DELAY, Tok T_EQUAL,
         Lab (Assign ''delay'') (Tok T_DECIMAL), Opt (Tok T_MINUTES)])]\<rparr>"

definition g_rebuild_partition :: rule where [grammar_rules]:
  "g_rebuild_partition = \<lparr>rule_index = RuleRebuild_partition, rule_alts = [
       (None, Seq [Tok T_REBUILD, Opt (Seq [Tok T_PARTITION, Tok T_EQUAL, Tok T_ALL]),
         Opt (Ref RuleRebuild_index_options)]),
       (None, Seq [Tok T_REBUILD, Tok T_PARTITION, Tok T_EQUAL, Tok T_DECIMAL,
         Opt (Ref RuleSingle_partition_rebuild_index_options)])]\<rparr>"

definition g_rebuild_index_options :: rule where [grammar_rules]:
  "g_rebuild_index_options = \<lparr>rule_index = RuleRebuild_index_options, rule_alts = [
       (None, Seq [Tok T_WITH, Tok T_LR_BRACKET, Ref RuleRebuild_index_option,
         Star (Seq [Tok T_COMMA, Ref RuleRebuild_index_option]), Tok T_RR_BRACKET])]\<rparr>"

definition g_rebuild_index_option :: rule where [grammar_rules]:
  "g_rebuild_index_option = \<lparr>rule_index = RuleRebuild_index_option, rule_alts = [
       (None, Seq [Tok T_PAD_INDEX, Tok T_EQUAL, Ref RuleOn_off]),
       (None, Seq [Tok T_FILLFACTOR, Tok T_EQUAL, Tok T_DECIMAL]),
       (None, Seq [Tok T_SORT_IN_TEMPDB, Tok T_EQUAL, Ref RuleOn_off]),
       (None, Seq [Tok T_IGNORE_DUP_KEY, Tok T_EQUAL, Ref RuleOn_off]),
       (None, Seq [Tok T_STATISTICS_NORECOMPUTE, Tok T_EQUAL, Ref RuleOn_off]),
       (None, Seq [Tok T_STATISTICS_INCREMENTAL, Tok T_EQUAL, Ref RuleOn_off]),
       (None, Seq [Tok T_ONLINE, Tok T_EQUAL, Alt [Seq [Tok T_ON, Opt (Seq [Tok T_LR_BRACKET,
         Ref RuleLow_priority_lock_wait, Tok T_RR_BRACKET])], Tok T_OFF]]),
       (None, Seq [Tok T_RESUMABLE, Tok T_EQUAL, Ref RuleOn_off]),
       (None, Seq [Tok T_MAX_DURATION, Tok T_EQUAL, Lab (Assign ''times'') (Tok T_DECIMAL),
         Opt (Tok T_MINUTES)]),
       (None, Seq [Tok T_ALLOW_ROW_LOCKS, Tok T_EQUAL, Ref RuleOn_off]),
       (None, Seq [Tok T_ALLOW_PAGE_LOCKS, Tok T_EQUAL, Ref RuleOn_off]),
       (None, Seq [Tok T_MAXDOP, Tok T_EQUAL,
         Lab (Assign ''max_degree_of_parallelism'') (Tok T_DECIMAL)]),
       (None, Seq [Tok T_DATA_COMPRESSION, Tok T_EQUAL, Alt [Tok T_NONE, Tok T_ROW, Tok T_PAGE,
         Tok T_COLUMNSTORE, Tok T_COLUMNSTORE_ARCHIVE], Opt (Ref RuleOn_partitions)]),
       (None, Seq [Tok T_XML_COMPRESSION, Tok T_EQUAL, Ref RuleOn_off,
         Opt (Ref RuleOn_partitions)])]\<rparr>"

definition g_single_partition_rebuild_index_options :: rule where [grammar_rules]:
  "g_single_partition_rebuild_index_options = \<lparr>rule_index = RuleSingle_partition_rebuild_index_options, rule_alts = [
       (None, Seq [Tok T_WITH, Tok T_LR_BRACKET, Ref RuleSingle_partition_rebuild_index_option,
         Star (Seq [Tok T_COMMA, Ref RuleSingle_partition_rebuild_index_option]),
         Tok T_RR_BRACKET])]\<rparr>"

definition g_single_partition_rebuild_index_option :: rule where [grammar_rules]:
  "g_single_partition_rebuild_index_option = \<lparr>rule_index = RuleSingle_partition_rebuild_index_option, rule_alts = [
       (None, Seq [Tok T_SORT_IN_TEMPDB, Tok T_EQUAL, Ref RuleOn_off]),
       (None, Seq [Tok T_MAXDOP, Tok T_EQUAL,
         Lab (Assign ''max_degree_of_parallelism'') (Tok T_DECIMAL)]),
       (None, Seq [Tok T_RESUMABLE, Tok T_EQUAL, Ref RuleOn_off]),
       (None, Seq [Tok T_DATA_COMPRESSION, Tok T_EQUAL, Alt [Tok T_NONE, Tok T_ROW, Tok T_PAGE,
         Tok T_COLUMNSTORE, Tok T_COLUMNSTORE_ARCHIVE], Opt (Ref RuleOn_partitions)]),
       (None, Seq [Tok T_XML_COMPRESSION, Tok T_EQUAL, Ref RuleOn_off,
         Opt (Ref RuleOn_partitions)]),
       (None, Seq [Tok T_ONLINE, Tok T_EQUAL, Alt [Seq [Tok T_ON, Opt (Seq [Tok T_LR_BRACKET,
         Ref RuleLow_priority_lock_wait, Tok T_RR_BRACKET])], Tok T_OFF]])]\<rparr>"

definition g_on_partitions :: rule where [grammar_rules]:
  "g_on_partitions = \<lparr>rule_index = RuleOn_partitions, rule_alts = [
       (None, Seq [Tok T_ON, Tok T_PARTITIONS, Tok T_LR_BRACKET,
         Lab (Assign ''partition_number'') (Tok T_DECIMAL), Opt (Seq [Tok T_TO,
         Lab (Assign ''to_partition_number'') (Tok T_DECIMAL)]), Star (Seq [Tok T_COMMA,
         Lab (Assign ''partition_number'') (Tok T_DECIMAL), Opt (Seq [Tok T_TO,
         Lab (Assign ''to_partition_number'') (Tok T_DECIMAL)])]), Tok T_RR_BRACKET])]\<rparr>"

definition g_create_columnstore_index :: rule where [grammar_rules]:
  "g_create_columnstore_index = \<lparr>rule_index = RuleCreate_columnstore_index, rule_alts = [
       (None, Seq [Tok T_CREATE, Tok T_CLUSTERED, Tok T_COLUMNSTORE, Tok T_INDEX, Ref RuleId',
         Tok T_ON, Ref RuleTable_name, Opt (Ref RuleCreate_columnstore_index_options),
         Opt (Seq [Tok T_ON, Ref RuleId']), Opt (Tok T_SEMI)])]\<rparr>"

definition g_create_columnstore_index_options :: rule where [grammar_rules]:
  "g_create_columnstore_index_options = \<lparr>rule_index = RuleCreate_columnstore_index_options, rule_alts = [
       (None, Seq [Tok T_WITH, Tok T_LR_BRACKET, Ref RuleColumnstore_index_option,
         Star (Seq [Tok T_COMMA, Ref RuleColumnstore_index_option]), Tok T_RR_BRACKET])]\<rparr>"

definition g_columnstore_index_option :: rule where [grammar_rules]:
  "g_columnstore_index_option = \<lparr>rule_index = RuleColumnstore_index_option, rule_alts = [
       (None, Seq [Tok T_DROP_EXISTING, Tok T_EQUAL, Ref RuleOn_off]),
       (None, Seq [Tok T_MAXDOP, Tok T_EQUAL,
         Lab (Assign ''max_degree_of_parallelism'') (Tok T_DECIMAL)]),
       (None, Seq [Tok T_ONLINE, Tok T_EQUAL, Ref RuleOn_off]),
       (None, Seq [Tok T_COMPRESSION_DELAY, Tok T_EQUAL,
         Lab (Assign ''delay'') (Tok T_DECIMAL), Opt (Tok T_MINUTES)]),
       (None, Seq [Tok T_DATA_COMPRESSION, Tok T_EQUAL, Alt [Tok T_COLUMNSTORE,
         Tok T_COLUMNSTORE_ARCHIVE], Opt (Ref RuleOn_partitions)])]\<rparr>"

definition g_create_nonclustered_columnstore_index :: rule where [grammar_rules]:
  "g_create_nonclustered_columnstore_index = \<lparr>rule_index = RuleCreate_nonclustered_columnstore_index, rule_alts = [
       (None, Seq [Tok T_CREATE, Opt (Tok T_NONCLUSTERED), Tok T_COLUMNSTORE, Tok T_INDEX,
         Ref RuleId', Tok T_ON, Ref RuleTable_name, Tok T_LR_BRACKET,
         Ref RuleColumn_name_list_with_order, Tok T_RR_BRACKET, Opt (Seq [Tok T_WHERE,
         Ref RuleSearch_condition]), Opt (Ref RuleCreate_columnstore_index_options),
         Opt (Seq [Tok T_ON, Ref RuleId']), Opt (Tok T_SEMI)])]\<rparr>"

definition g_create_xml_index :: rule where [grammar_rules]:
  "g_create_xml_index = \<lparr>rule_index = RuleCreate_xml_index, rule_alts = [
       (None, Seq [Tok T_CREATE, Opt (Tok T_PRIMARY), Tok T_XML, Tok T_INDEX, Ref RuleId',
         Tok T_ON, Ref RuleTable_name, Tok T_LR_BRACKET, Ref RuleId', Tok T_RR_BRACKET,
         Opt (Seq [Tok T_USING, Tok T_XML, Tok T_INDEX, Ref RuleId', Opt (Seq [Tok T_FOR,
         Opt (Alt [Tok T_VALUE, Tok T_PATH, Tok T_PROPERTY])])]),
         Opt (Ref RuleXml_index_options), Opt (Tok T_SEMI)])]\<rparr>"

definition g_xml_index_options :: rule where [grammar_rules]:
  "g_xml_index_options = \<lparr>rule_index = RuleXml_index_options, rule_alts = [
       (None, Seq [Tok T_WITH, Tok T_LR_BRACKET, Ref RuleXml_index_option,
         Star (Seq [Tok T_COMMA, Ref RuleXml_index_option]), Tok T_RR_BRACKET])]\<rparr>"

definition g_xml_index_option :: rule where [grammar_rules]:
  "g_xml_index_option = \<lparr>rule_index = RuleXml_index_option, rule_alts = [
       (None, Seq [Tok T_PAD_INDEX, Tok T_EQUAL, Ref RuleOn_off]),
       (None, Seq [Tok T_FILLFACTOR, Tok T_EQUAL, Tok T_DECIMAL]),
       (None, Seq [Tok T_SORT_IN_TEMPDB, Tok T_EQUAL, Ref RuleOn_off]),
       (None, Seq [Tok T_IGNORE_DUP_KEY, Tok T_EQUAL, Ref RuleOn_off]),
       (None, Seq [Tok T_DROP_EXISTING, Tok T_EQUAL, Ref RuleOn_off]),
       (None, Seq [Tok T_ONLINE, Tok T_EQUAL, Alt [Seq [Tok T_ON, Opt (Seq [Tok T_LR_BRACKET,
         Ref RuleLow_priority_lock_wait, Tok T_RR_BRACKET])], Tok T_OFF]]),
       (None, Seq [Tok T_ALLOW_ROW_LOCKS, Tok T_EQUAL, Ref RuleOn_off]),
       (None, Seq [Tok T_ALLOW_PAGE_LOCKS, Tok T_EQUAL, Ref RuleOn_off]),
       (None, Seq [Tok T_MAXDOP, Tok T_EQUAL,
         Lab (Assign ''max_degree_of_parallelism'') (Tok T_DECIMAL)]),
       (None, Seq [Tok T_XML_COMPRESSION, Tok T_EQUAL, Ref RuleOn_off])]\<rparr>"

definition g_create_or_alter_procedure :: rule where [grammar_rules]:
  "g_create_or_alter_procedure = \<lparr>rule_index = RuleCreate_or_alter_procedure, rule_alts = [
       (None, Seq [Alt [Seq [Tok T_CREATE, Opt (Seq [Tok T_OR, Alt [Tok T_ALTER,
         Tok T_REPLACE]])], Tok T_ALTER], Lab (Assign ''proc'') (Alt [Tok T_PROC,
         Tok T_PROCEDURE]), Lab (Assign ''procName'') (Ref RuleFunc_proc_name_schema),
         Opt (Seq [Tok T_SEMI, Tok T_DECIMAL]), Opt (Seq [Opt (Tok T_LR_BRACKET),
         Ref RuleProcedure_param, Star (Seq [Tok T_COMMA, Ref RuleProcedure_param]),
         Opt (Tok T_RR_BRACKET)]), Opt (Seq [Tok T_WITH, Ref RuleProcedure_option,
         Star (Seq [Tok T_COMMA, Ref RuleProcedure_option])]), Opt (Seq [Tok T_FOR,
         Tok T_REPLICATION]), Tok T_AS, Alt [Ref RuleAs_external_name,
         Star (Ref RuleSql_clauses)]])]\<rparr>"

definition g_as_external_name :: rule where [grammar_rules]:
  "g_as_external_name = \<lparr>rule_index = RuleAs_external_name, rule_alts = [
       (None, Seq [Tok T_EXTERNAL, Tok T_NAME, Lab (Assign ''assembly_name'') (Ref RuleId'),
         Tok T_DOT, Lab (Assign ''class_name'') (Ref RuleId'), Tok T_DOT,
         Lab (Assign ''method_name'') (Ref RuleId')])]\<rparr>"

definition g_create_or_alter_trigger :: rule where [grammar_rules]:
  "g_create_or_alter_trigger = \<lparr>rule_index = RuleCreate_or_alter_trigger, rule_alts = [
       (None, Ref RuleCreate_or_alter_dml_trigger),
       (None, Ref RuleCreate_or_alter_ddl_trigger)]\<rparr>"

definition g_create_or_alter_dml_trigger :: rule where [grammar_rules]:
  "g_create_or_alter_dml_trigger = \<lparr>rule_index = RuleCreate_or_alter_dml_trigger, rule_alts = [
       (None, Seq [Alt [Seq [Tok T_CREATE, Opt (Seq [Tok T_OR, Alt [Tok T_ALTER,
         Tok T_REPLACE]])], Tok T_ALTER], Tok T_TRIGGER, Ref RuleSimple_name, Tok T_ON,
         Ref RuleTable_name, Opt (Seq [Tok T_WITH, Ref RuleDml_trigger_option,
         Star (Seq [Tok T_COMMA, Ref RuleDml_trigger_option])]), Alt [Tok T_FOR, Tok T_AFTER,
         Seq [Tok T_INSTEAD, Tok T_OF]], Ref RuleDml_trigger_operation, Star (Seq [Tok T_COMMA,
         Ref RuleDml_trigger_operation]), Opt (Seq [Tok T_WITH, Tok T_APPEND]),
         Opt (Seq [Tok T_NOT, Tok T_FOR, Tok T_REPLICATION]), Tok T_AS,
         Plus (Ref RuleSql_clauses)])]\<rparr>"

definition g_dml_trigger_option :: rule where [grammar_rules]:
  "g_dml_trigger_option = \<lparr>rule_index = RuleDml_trigger_option, rule_alts = [
       (None, Tok T_ENCRYPTION),
       (None, Ref RuleExecute_clause)]\<rparr>"

definition g_dml_trigger_operation :: rule where [grammar_rules]:
  "g_dml_trigger_operation = \<lparr>rule_index = RuleDml_trigger_operation, rule_alts = [
       (None, Alt [Tok T_INSERT, Tok T_UPDATE, Tok T_DELETE])]\<rparr>"

definition g_create_or_alter_ddl_trigger :: rule where [grammar_rules]:
  "g_create_or_alter_ddl_trigger = \<lparr>rule_index = RuleCreate_or_alter_ddl_trigger, rule_alts = [
       (None, Seq [Alt [Seq [Tok T_CREATE, Opt (Seq [Tok T_OR, Alt [Tok T_ALTER,
         Tok T_REPLACE]])], Tok T_ALTER], Tok T_TRIGGER, Ref RuleSimple_name, Tok T_ON,
         Alt [Seq [Tok T_ALL, Tok T_SERVER], Tok T_DATABASE], Opt (Seq [Tok T_WITH,
         Ref RuleDml_trigger_option, Star (Seq [Tok T_COMMA, Ref RuleDml_trigger_option])]),
         Alt [Tok T_FOR, Tok T_AFTER], Ref RuleDdl_trigger_operation, Star (Seq [Tok T_COMMA,
         Ref RuleDdl_trigger_operation]), Tok T_AS, Plus (Ref RuleSql_clauses)])]\<rparr>"

definition g_ddl_trigger_operation :: rule where [grammar_rules]:
  "g_ddl_trigger_operation = \<lparr>rule_index = RuleDdl_trigger_operation, rule_alts = [
       (None, Ref RuleSimple_id)]\<rparr>"

definition g_create_or_alter_function :: rule where [grammar_rules]:
  "g_create_or_alter_function = \<lparr>rule_index = RuleCreate_or_alter_function, rule_alts = [
       (None, Seq [Alt [Seq [Tok T_CREATE, Opt (Seq [Tok T_OR, Tok T_ALTER])], Tok T_ALTER],
         Tok T_FUNCTION, Lab (Assign ''funcName'') (Ref RuleFunc_proc_name_schema),
         Alt [Seq [Tok T_LR_BRACKET, Ref RuleProcedure_param, Star (Seq [Tok T_COMMA,
         Ref RuleProcedure_param]), Tok T_RR_BRACKET], Seq [Tok T_LR_BRACKET,
         Tok T_RR_BRACKET]], Alt [Ref RuleFunc_body_returns_select,
         Ref RuleFunc_body_returns_table, Ref RuleFunc_body_returns_scalar],
         Opt (Tok T_SEMI)])]\<rparr>"

definition g_func_body_returns_select :: rule where [grammar_rules]:
  "g_func_body_returns_select = \<lparr>rule_index = RuleFunc_body_returns_select, rule_alts = [
       (None, Seq [Tok T_RETURNS, Tok T_TABLE, Opt (Seq [Tok T_WITH, Ref RuleFunction_option,
         Star (Seq [Tok T_COMMA, Ref RuleFunction_option])]), Opt (Tok T_AS),
         Alt [Ref RuleAs_external_name, Seq [Tok T_RETURN, Alt [Seq [Tok T_LR_BRACKET,
         Ref RuleSelect_statement_standalone, Tok T_RR_BRACKET],
         Ref RuleSelect_statement_standalone]]]])]\<rparr>"

definition g_func_body_returns_table :: rule where [grammar_rules]:
  "g_func_body_returns_table = \<lparr>rule_index = RuleFunc_body_returns_table, rule_alts = [
       (None, Seq [Tok T_RETURNS, Tok T_LOCAL_ID, Ref RuleTable_type_definition,
         Opt (Seq [Tok T_WITH, Ref RuleFunction_option, Star (Seq [Tok T_COMMA,
         Ref RuleFunction_option])]), Opt (Tok T_AS), Alt [Ref RuleAs_external_name,
         Seq [Tok T_BEGIN, Star (Ref RuleSql_clauses), Tok T_RETURN, Opt (Tok T_SEMI),
         Tok T_END, Opt (Tok T_SEMI)]]])]\<rparr>"

definition g_func_body_returns_scalar :: rule where [grammar_rules]:
  "g_func_body_returns_scalar = \<lparr>rule_index = RuleFunc_body_returns_scalar, rule_alts = [
       (None, Seq [Tok T_RETURNS, Ref RuleData_type, Opt (Seq [Tok T_WITH,
         Ref RuleFunction_option, Star (Seq [Tok T_COMMA, Ref RuleFunction_option])]),
         Opt (Tok T_AS), Alt [Ref RuleAs_external_name, Seq [Tok T_BEGIN,
         Star (Ref RuleSql_clauses), Tok T_RETURN, Lab (Assign ''ret'') (Ref RuleExpression),
         Opt (Tok T_SEMI), Tok T_END]]])]\<rparr>"

definition g_procedure_param_default_value :: rule where [grammar_rules]:
  "g_procedure_param_default_value = \<lparr>rule_index = RuleProcedure_param_default_value, rule_alts = [
       (None, Tok T_NULL'),
       (None, Tok T_DEFAULT),
       (None, Ref RuleConstant),
       (None, Tok T_LOCAL_ID)]\<rparr>"

definition g_procedure_param :: rule where [grammar_rules]:
  "g_procedure_param = \<lparr>rule_index = RuleProcedure_param, rule_alts = [
       (None, Seq [Tok T_LOCAL_ID, Opt (Tok T_AS),
         Opt (Seq [Lab (Assign ''type_schema'') (Ref RuleId'), Tok T_DOT]), Ref RuleData_type,
         Opt (Tok T_VARYING), Opt (Seq [Tok T_EQUAL,
         Lab (Assign ''default_val'') (Ref RuleProcedure_param_default_value)]),
         Opt (Alt [Tok T_OUT, Tok T_OUTPUT, Tok T_READONLY])])]\<rparr>"

definition g_procedure_option :: rule where [grammar_rules]:
  "g_procedure_option = \<lparr>rule_index = RuleProcedure_option, rule_alts = [
       (None, Tok T_ENCRYPTION),
       (None, Tok T_RECOMPILE),
       (None, Ref RuleExecute_clause)]\<rparr>"

definition g_function_option :: rule where [grammar_rules]:
  "g_function_option = \<lparr>rule_index = RuleFunction_option, rule_alts = [
       (None, Tok T_ENCRYPTION),
       (None, Tok T_SCHEMABINDING),
       (None, Seq [Tok T_RETURNS, Tok T_NULL', Tok T_ON, Tok T_NULL', Tok T_INPUT]),
       (None, Seq [Tok T_CALLED, Tok T_ON, Tok T_NULL', Tok T_INPUT]),
       (None, Ref RuleExecute_clause)]\<rparr>"

definition g_create_statistics :: rule where [grammar_rules]:
  "g_create_statistics = \<lparr>rule_index = RuleCreate_statistics, rule_alts = [
       (None, Seq [Tok T_CREATE, Tok T_STATISTICS, Ref RuleId', Tok T_ON, Ref RuleTable_name,
         Tok T_LR_BRACKET, Ref RuleColumn_name_list, Tok T_RR_BRACKET, Opt (Seq [Tok T_WITH,
         Alt [Tok T_FULLSCAN, Seq [Tok T_SAMPLE, Tok T_DECIMAL, Alt [Tok T_PERCENT,
         Tok T_ROWS]], Tok T_STATS_STREAM], Opt (Seq [Tok T_COMMA, Tok T_NORECOMPUTE]),
         Opt (Seq [Tok T_COMMA, Tok T_INCREMENTAL, Tok T_EQUAL, Ref RuleOn_off])]),
         Opt (Tok T_SEMI)])]\<rparr>"

definition g_update_statistics :: rule where [grammar_rules]:
  "g_update_statistics = \<lparr>rule_index = RuleUpdate_statistics, rule_alts = [
       (None, Seq [Tok T_UPDATE, Tok T_STATISTICS, Ref RuleFull_table_name,
         Opt (Alt [Ref RuleId', Seq [Tok T_LR_BRACKET, Ref RuleId', Star (Seq [Tok T_COMMA,
         Ref RuleId']), Tok T_RR_BRACKET]]), Opt (Ref RuleUpdate_statistics_options)])]\<rparr>"

definition g_update_statistics_options :: rule where [grammar_rules]:
  "g_update_statistics_options = \<lparr>rule_index = RuleUpdate_statistics_options, rule_alts = [
       (None, Seq [Tok T_WITH, Ref RuleUpdate_statistics_option, Star (Seq [Tok T_COMMA,
         Ref RuleUpdate_statistics_option])])]\<rparr>"

definition g_update_statistics_option :: rule where [grammar_rules]:
  "g_update_statistics_option = \<lparr>rule_index = RuleUpdate_statistics_option, rule_alts = [
       (None, Seq [Tok T_FULLSCAN, Opt (Seq [Opt (Tok T_COMMA), Tok T_PERSIST_SAMPLE_PERCENT,
         Tok T_EQUAL, Ref RuleOn_off])]),
       (None, Seq [Tok T_SAMPLE, Lab (Assign ''number'') (Tok T_DECIMAL), Alt [Tok T_PERCENT,
         Tok T_ROWS], Opt (Seq [Opt (Tok T_COMMA), Tok T_PERSIST_SAMPLE_PERCENT, Tok T_EQUAL,
         Ref RuleOn_off])]),
       (None, Seq [Tok T_RESAMPLE, Opt (Ref RuleOn_partitions)]),
       (None, Seq [Tok T_STATS_STREAM, Tok T_EQUAL,
         Lab (Assign ''stats_stream_'') (Ref RuleExpression)]),
       (None, Seq [Tok T_ROWCOUNT, Tok T_EQUAL, Tok T_DECIMAL]),
       (None, Seq [Tok T_PAGECOUNT, Tok T_EQUAL, Tok T_DECIMAL]),
       (None, Tok T_ALL),
       (None, Tok T_COLUMNS),
       (None, Tok T_INDEX),
       (None, Tok T_NORECOMPUTE),
       (None, Seq [Tok T_INCREMENTAL, Tok T_EQUAL, Ref RuleOn_off]),
       (None, Seq [Tok T_MAXDOP, Tok T_EQUAL,
         Lab (Assign ''max_dregree_of_parallelism'') (Tok T_DECIMAL)]),
       (None, Seq [Tok T_AUTO_DROP, Tok T_EQUAL, Ref RuleOn_off])]\<rparr>"

definition g_create_table :: rule where [grammar_rules]:
  "g_create_table = \<lparr>rule_index = RuleCreate_table, rule_alts = [
       (None, Seq [Tok T_CREATE, Tok T_TABLE, Ref RuleTable_name, Tok T_LR_BRACKET,
         Ref RuleColumn_def_table_constraints, Star (Seq [Opt (Tok T_COMMA),
         Ref RuleTable_indices]), Opt (Tok T_COMMA), Tok T_RR_BRACKET, Opt (Seq [Tok T_LOCK,
         Ref RuleSimple_id]), Star (Ref RuleTable_options), Opt (Alt [Seq [Tok T_ON,
         Ref RuleId'], Tok T_DEFAULT, Ref RuleOn_partition_or_filegroup]),
         Opt (Alt [Seq [Tok T_TEXTIMAGE_ON, Ref RuleId'], Tok T_DEFAULT]), Opt (Tok T_SEMI)])]\<rparr>"

definition g_table_indices :: rule where [grammar_rules]:
  "g_table_indices = \<lparr>rule_index = RuleTable_indices, rule_alts = [
       (None, Seq [Tok T_INDEX, Ref RuleId', Opt (Tok T_UNIQUE), Opt (Ref RuleClustered),
         Tok T_LR_BRACKET, Ref RuleColumn_name_list_with_order, Tok T_RR_BRACKET]),
       (None, Seq [Tok T_INDEX, Ref RuleId', Tok T_CLUSTERED, Tok T_COLUMNSTORE]),
       (None, Seq [Tok T_INDEX, Ref RuleId', Opt (Tok T_NONCLUSTERED), Tok T_COLUMNSTORE,
         Tok T_LR_BRACKET, Ref RuleColumn_name_list, Tok T_RR_BRACKET,
         Opt (Ref RuleCreate_table_index_options), Opt (Seq [Tok T_ON, Ref RuleId'])])]\<rparr>"

definition g_table_options :: rule where [grammar_rules]:
  "g_table_options = \<lparr>rule_index = RuleTable_options, rule_alts = [
       (None, Seq [Tok T_WITH, Alt [Seq [Tok T_LR_BRACKET, Ref RuleTable_option,
         Star (Seq [Tok T_COMMA, Ref RuleTable_option]), Tok T_RR_BRACKET],
         Seq [Ref RuleTable_option, Star (Seq [Tok T_COMMA, Ref RuleTable_option])]]])]\<rparr>"

definition g_table_option :: rule where [grammar_rules]:
  "g_table_option = \<lparr>rule_index = RuleTable_option, rule_alts = [
       (None, Seq [Alt [Ref RuleSimple_id, Ref RuleKeyword], Tok T_EQUAL,
         Alt [Ref RuleSimple_id, Ref RuleKeyword, Ref RuleOn_off, Tok T_DECIMAL]]),
       (None, Seq [Tok T_CLUSTERED, Tok T_COLUMNSTORE, Tok T_INDEX]),
       (None, Tok T_HEAP),
       (None, Seq [Tok T_FILLFACTOR, Tok T_EQUAL, Tok T_DECIMAL]),
       (None, Seq [Tok T_DISTRIBUTION, Tok T_EQUAL, Tok T_HASH, Tok T_LR_BRACKET, Ref RuleId',
         Tok T_RR_BRACKET]),
       (None, Seq [Tok T_CLUSTERED, Tok T_INDEX, Tok T_LR_BRACKET, Ref RuleId',
         Opt (Alt [Tok T_ASC, Tok T_DESC]), Star (Seq [Tok T_COMMA, Ref RuleId',
         Opt (Alt [Tok T_ASC, Tok T_DESC])]), Tok T_RR_BRACKET]),
       (None, Seq [Tok T_DATA_COMPRESSION, Tok T_EQUAL, Alt [Tok T_NONE, Tok T_ROW,
         Tok T_PAGE], Opt (Ref RuleOn_partitions)]),
       (None, Seq [Tok T_XML_COMPRESSION, Tok T_EQUAL, Ref RuleOn_off,
         Opt (Ref RuleOn_partitions)])]\<rparr>"

definition g_create_table_index_options :: rule where [grammar_rules]:
  "g_create_table_index_options = \<lparr>rule_index = RuleCreate_table_index_options, rule_alts = [
       (None, Seq [Tok T_WITH, Tok T_LR_BRACKET, Ref RuleCreate_table_index_option,
         Star (Seq [Tok T_COMMA, Ref RuleCreate_table_index_option]), Tok T_RR_BRACKET])]\<rparr>"

definition g_create_table_index_option :: rule where [grammar_rules]:
  "g_create_table_index_option = \<lparr>rule_index = RuleCreate_table_index_option, rule_alts = [
       (None, Seq [Tok T_PAD_INDEX, Tok T_EQUAL, Ref RuleOn_off]),
       (None, Seq [Tok T_FILLFACTOR, Tok T_EQUAL, Tok T_DECIMAL]),
       (None, Seq [Tok T_IGNORE_DUP_KEY, Tok T_EQUAL, Ref RuleOn_off]),
       (None, Seq [Tok T_STATISTICS_NORECOMPUTE, Tok T_EQUAL, Ref RuleOn_off]),
       (None, Seq [Tok T_STATISTICS_INCREMENTAL, Tok T_EQUAL, Ref RuleOn_off]),
       (None, Seq [Tok T_ALLOW_ROW_LOCKS, Tok T_EQUAL, Ref RuleOn_off]),
       (None, Seq [Tok T_ALLOW_PAGE_LOCKS, Tok T_EQUAL, Ref RuleOn_off]),
       (None, Seq [Tok T_OPTIMIZE_FOR_SEQUENTIAL_KEY, Tok T_EQUAL, Ref RuleOn_off]),
       (None, Seq [Tok T_DATA_COMPRESSION, Tok T_EQUAL, Alt [Tok T_NONE, Tok T_ROW, Tok T_PAGE,
         Tok T_COLUMNSTORE, Tok T_COLUMNSTORE_ARCHIVE], Opt (Ref RuleOn_partitions)]),
       (None, Seq [Tok T_XML_COMPRESSION, Tok T_EQUAL, Ref RuleOn_off,
         Opt (Ref RuleOn_partitions)])]\<rparr>"

definition g_create_view :: rule where [grammar_rules]:
  "g_create_view = \<lparr>rule_index = RuleCreate_view, rule_alts = [
       (None, Seq [Alt [Seq [Tok T_CREATE, Opt (Seq [Tok T_OR, Alt [Tok T_ALTER,
         Tok T_REPLACE]])], Tok T_ALTER], Tok T_VIEW, Ref RuleSimple_name,
         Opt (Seq [Tok T_LR_BRACKET, Ref RuleColumn_name_list, Tok T_RR_BRACKET]),
         Opt (Seq [Tok T_WITH, Ref RuleView_attribute, Star (Seq [Tok T_COMMA,
         Ref RuleView_attribute])]), Tok T_AS, Ref RuleSelect_statement_standalone,
         Opt (Seq [Tok T_WITH, Tok T_CHECK, Tok T_OPTION]), Opt (Tok T_SEMI)])]\<rparr>"

definition g_view_attribute :: rule where [grammar_rules]:
  "g_view_attribute = \<lparr>rule_index = RuleView_attribute, rule_alts = [
       (None, Tok T_ENCRYPTION),
       (None, Tok T_SCHEMABINDING),
       (None, Tok T_VIEW_METADATA)]\<rparr>"

definition g_alter_table :: rule where [grammar_rules]:
  "g_alter_table = \<lparr>rule_index = RuleAlter_table, rule_alts = [
       (None, Seq [Tok T_ALTER, Tok T_TABLE, Ref RuleTable_name, Alt [Seq [Tok T_SET,
         Tok T_LR_BRACKET, Tok T_LOCK_ESCALATION, Tok T_EQUAL, Alt [Tok T_AUTO, Tok T_TABLE,
         Tok T_DISABLE], Tok T_RR_BRACKET], Seq [Tok T_ADD,
         Ref RuleColumn_def_table_constraints], Seq [Tok T_ALTER, Tok T_COLUMN,
         Alt [Ref RuleColumn_definition, Ref RuleColumn_modifier]], Seq [Tok T_DROP,
         Tok T_COLUMN, Ref RuleId', Star (Seq [Tok T_COMMA, Ref RuleId'])], Seq [Tok T_DROP,
         Tok T_CONSTRAINT, Lab (Assign ''constraint'') (Ref RuleId')], Seq [Tok T_WITH,
         Alt [Tok T_CHECK, Tok T_NOCHECK], Tok T_ADD, Opt (Seq [Tok T_CONSTRAINT,
         Lab (Assign ''constraint'') (Ref RuleId')]), Alt [Seq [Tok T_FOREIGN, Tok T_KEY,
         Tok T_LR_BRACKET, Lab (Assign ''fk'') (Ref RuleColumn_name_list), Tok T_RR_BRACKET,
         Tok T_REFERENCES, Ref RuleTable_name, Opt (Seq [Tok T_LR_BRACKET,
         Lab (Assign ''pk'') (Ref RuleColumn_name_list), Tok T_RR_BRACKET]),
         Star (Alt [Ref RuleOn_delete, Ref RuleOn_update])], Seq [Tok T_CHECK,
         Tok T_LR_BRACKET, Ref RuleSearch_condition, Tok T_RR_BRACKET]]],
         Seq [Alt [Tok T_NOCHECK, Tok T_CHECK], Tok T_CONSTRAINT,
         Lab (Assign ''constraint'') (Ref RuleId')], Seq [Alt [Tok T_ENABLE, Tok T_DISABLE],
         Tok T_TRIGGER, Opt (Ref RuleId')], Seq [Tok T_REBUILD, Ref RuleTable_options],
         Seq [Tok T_SWITCH, Ref RuleSwitch_partition]], Opt (Tok T_SEMI)])]\<rparr>"

definition g_switch_partition :: rule where [grammar_rules]:
  "g_switch_partition = \<lparr>rule_index = RuleSwitch_partition, rule_alts = [
       (None, Seq [Opt (Seq [Opt (Tok T_PARTITION),
         Lab (Assign ''source_partition_number_expression'') (Ref RuleExpression)]), Tok T_TO,
         Lab (Assign ''target_table'') (Ref RuleTable_name), Opt (Seq [Tok T_PARTITION,
         Lab (Assign ''target_partition_number_expression'') (Ref RuleExpression)]),
         Opt (Seq [Tok T_WITH, Ref RuleLow_priority_lock_wait])])]\<rparr>"

definition g_low_priority_lock_wait :: rule where [grammar_rules]:
  "g_low_priority_lock_wait = \<lparr>rule_index = RuleLow_priority_lock_wait, rule_alts = [
       (None, Seq [Tok T_WAIT_AT_LOW_PRIORITY, Tok T_LR_BRACKET, Tok T_MAX_DURATION,
         Tok T_EQUAL, Lab (Assign ''max_duration'') (Ref RuleTime), Opt (Tok T_MINUTES),
         Tok T_COMMA, Tok T_ABORT_AFTER_WAIT, Tok T_EQUAL,
         Lab (Assign ''abort_after_wait'') (Alt [Tok T_NONE, Tok T_SELF, Tok T_BLOCKERS]),
         Tok T_RR_BRACKET])]\<rparr>"

definition g_alter_database :: rule where [grammar_rules]:
  "g_alter_database = \<lparr>rule_index = RuleAlter_database, rule_alts = [
       (None, Seq [Tok T_ALTER, Tok T_DATABASE, Alt [Lab (Assign ''database'') (Ref RuleId'),
         Tok T_CURRENT], Alt [Seq [Tok T_MODIFY, Tok T_NAME, Tok T_EQUAL,
         Lab (Assign ''new_name'') (Ref RuleId')], Seq [Tok T_COLLATE,
         Lab (Assign ''collation'') (Ref RuleId')], Seq [Tok T_SET,
         Ref RuleDatabase_optionspec, Opt (Seq [Tok T_WITH, Ref RuleTermination])],
         Ref RuleAdd_or_modify_files, Ref RuleAdd_or_modify_filegroups], Opt (Tok T_SEMI)])]\<rparr>"

definition g_add_or_modify_files :: rule where [grammar_rules]:
  "g_add_or_modify_files = \<lparr>rule_index = RuleAdd_or_modify_files, rule_alts = [
       (None, Seq [Tok T_ADD, Tok T_FILE, Ref RuleFilespec, Star (Seq [Tok T_COMMA,
         Ref RuleFilespec]), Opt (Seq [Tok T_TO, Tok T_FILEGROUP,
         Lab (Assign ''filegroup_name'') (Ref RuleId')])]),
       (None, Seq [Tok T_ADD, Tok T_LOG, Tok T_FILE, Ref RuleFilespec, Star (Seq [Tok T_COMMA,
         Ref RuleFilespec])]),
       (None, Seq [Tok T_REMOVE, Tok T_FILE,
         Lab (Assign ''logical_file_name'') (Ref RuleId')]),
       (None, Seq [Tok T_MODIFY, Tok T_FILE, Ref RuleFilespec])]\<rparr>"

definition g_filespec :: rule where [grammar_rules]:
  "g_filespec = \<lparr>rule_index = RuleFilespec, rule_alts = [
       (None, Seq [Tok T_LR_BRACKET, Tok T_NAME, Tok T_EQUAL,
         Lab (Assign ''name'') (Ref RuleId_or_string), Opt (Seq [Tok T_COMMA, Tok T_NEWNAME,
         Tok T_EQUAL, Lab (Assign ''new_name'') (Ref RuleId_or_string)]),
         Opt (Seq [Tok T_COMMA, Tok T_FILENAME, Tok T_EQUAL,
         Lab (Assign ''file_name'') (Tok T_STRING)]), Opt (Seq [Tok T_COMMA, Tok T_SIZE,
         Tok T_EQUAL, Lab (Assign ''size'') (Ref RuleFile_size)]), Opt (Alt [Seq [Tok T_COMMA,
         Tok T_MAXSIZE, Tok T_EQUAL, Lab (Assign ''max_size'') (Ref RuleFile_size)],
         Tok T_UNLIMITED]), Opt (Seq [Tok T_COMMA, Tok T_FILEGROWTH, Tok T_EQUAL,
         Lab (Assign ''growth_increment'') (Ref RuleFile_size)]), Opt (Seq [Tok T_COMMA,
         Tok T_OFFLINE]), Tok T_RR_BRACKET])]\<rparr>"

definition g_add_or_modify_filegroups :: rule where [grammar_rules]:
  "g_add_or_modify_filegroups = \<lparr>rule_index = RuleAdd_or_modify_filegroups, rule_alts = [
       (None, Seq [Tok T_ADD, Tok T_FILEGROUP, Lab (Assign ''filegroup_name'') (Ref RuleId'),
         Opt (Alt [Seq [Tok T_CONTAINS, Tok T_FILESTREAM], Seq [Tok T_CONTAINS,
         Tok T_MEMORY_OPTIMIZED_DATA]])]),
       (None, Seq [Tok T_REMOVE, Tok T_FILEGROUP,
         Lab (Assign ''filegrou_name'') (Ref RuleId')]),
       (None, Seq [Tok T_MODIFY, Tok T_FILEGROUP, Lab (Assign ''filegrou_name'') (Ref RuleId'),
         Alt [Ref RuleFilegroup_updatability_option, Tok T_DEFAULT, Seq [Tok T_NAME,
         Tok T_EQUAL, Lab (Assign ''new_filegroup_name'') (Ref RuleId')],
         Tok T_AUTOGROW_SINGLE_FILE, Tok T_AUTOGROW_ALL_FILES]])]\<rparr>"

definition g_filegroup_updatability_option :: rule where [grammar_rules]:
  "g_filegroup_updatability_option = \<lparr>rule_index = RuleFilegroup_updatability_option, rule_alts = [
       (None, Tok T_READONLY),
       (None, Tok T_READWRITE),
       (None, Tok T_READ_ONLY),
       (None, Tok T_READ_WRITE)]\<rparr>"

definition g_database_optionspec :: rule where [grammar_rules]:
  "g_database_optionspec = \<lparr>rule_index = RuleDatabase_optionspec, rule_alts = [
       (None, Ref RuleAuto_option),
       (None, Ref RuleChange_tracking_option),
       (None, Ref RuleContainment_option),
       (None, Ref RuleCursor_option),
       (None, Ref RuleDatabase_mirroring_option),
       (None, Ref RuleDate_correlation_optimization_option),
       (None, Ref RuleDb_encryption_option),
       (None, Ref RuleDb_state_option),
       (None, Ref RuleDb_update_option),
       (None, Ref RuleDb_user_access_option),
       (None, Ref RuleDelayed_durability_option),
       (None, Ref RuleExternal_access_option),
       (None, Seq [Tok T_FILESTREAM, Ref RuleDatabase_filestream_option]),
       (None, Ref RuleHadr_options),
       (None, Ref RuleMixed_page_allocation_option),
       (None, Ref RuleParameterization_option),
       (None, Ref RuleRecovery_option),
       (None, Ref RuleService_broker_option),
       (None, Ref RuleSnapshot_option),
       (None, Ref RuleSql_option),
       (None, Ref RuleTarget_recovery_time_option),
       (None, Ref RuleTermination)]\<rparr>"

definition g_auto_option :: rule where [grammar_rules]:
  "g_auto_option = \<lparr>rule_index = RuleAuto_option, rule_alts = [
       (None, Seq [Tok T_AUTO_CLOSE, Ref RuleOn_off]),
       (None, Seq [Tok T_AUTO_CREATE_STATISTICS, Tok T_OFF]),
       (None, Seq [Tok T_ON, Alt [Seq [Tok T_INCREMENTAL, Tok T_EQUAL, Tok T_ON], Tok T_OFF]]),
       (None, Seq [Tok T_AUTO_SHRINK, Ref RuleOn_off]),
       (None, Seq [Tok T_AUTO_UPDATE_STATISTICS, Ref RuleOn_off]),
       (None, Seq [Tok T_AUTO_UPDATE_STATISTICS_ASYNC, Alt [Tok T_ON, Tok T_OFF]])]\<rparr>"

definition g_change_tracking_option :: rule where [grammar_rules]:
  "g_change_tracking_option = \<lparr>rule_index = RuleChange_tracking_option, rule_alts = [
       (None, Seq [Tok T_CHANGE_TRACKING, Tok T_EQUAL, Alt [Tok T_OFF, Seq [Tok T_ON,
         Tok T_LR_BRACKET, Star (Seq [Ref RuleChange_tracking_option_list,
         Star (Seq [Tok T_COMMA, Ref RuleChange_tracking_option_list])]), Tok T_RR_BRACKET]]])]\<rparr>"

definition g_change_tracking_option_list :: rule where [grammar_rules]:
  "g_change_tracking_option_list = \<lparr>rule_index = RuleChange_tracking_option_list, rule_alts = [
       (None, Seq [Tok T_AUTO_CLEANUP, Tok T_EQUAL, Ref RuleOn_off]),
       (None, Seq [Tok T_CHANGE_RETENTION, Tok T_EQUAL, Tok T_DECIMAL, Alt [Tok T_DAYS,
         Tok T_HOURS, Tok T_MINUTES]])]\<rparr>"

definition g_containment_option :: rule where [grammar_rules]:
  "g_containment_option = \<lparr>rule_index = RuleContainment_option, rule_alts = [
       (None, Seq [Tok T_CONTAINMENT, Tok T_EQUAL, Alt [Tok T_NONE, Tok T_PARTIAL]])]\<rparr>"

definition g_cursor_option :: rule where [grammar_rules]:
  "g_cursor_option = \<lparr>rule_index = RuleCursor_option, rule_alts = [
       (None, Seq [Tok T_CURSOR_CLOSE_ON_COMMIT, Ref RuleOn_off]),
       (None, Seq [Tok T_CURSOR_DEFAULT, Alt [Tok T_LOCAL, Tok T_GLOBAL]])]\<rparr>"

definition g_alter_endpoint :: rule where [grammar_rules]:
  "g_alter_endpoint = \<lparr>rule_index = RuleAlter_endpoint, rule_alts = [
       (None, Seq [Tok T_ALTER, Tok T_ENDPOINT, Lab (Assign ''endpointname'') (Ref RuleId'),
         Opt (Seq [Tok T_AUTHORIZATION, Lab (Assign ''login'') (Ref RuleId')]),
         Opt (Seq [Tok T_STATE, Tok T_EQUAL, Lab (Assign ''state'') (Alt [Tok T_STARTED,
         Tok T_STOPPED, Tok T_DISABLED])]), Tok T_AS, Tok T_TCP, Tok T_LR_BRACKET,
         Ref RuleEndpoint_listener_clause, Tok T_RR_BRACKET, Alt [Seq [Tok T_FOR, Tok T_TSQL,
         Tok T_LR_BRACKET, Tok T_RR_BRACKET], Seq [Tok T_FOR, Tok T_SERVICE_BROKER,
         Tok T_LR_BRACKET, Ref RuleEndpoint_authentication_clause, Opt (Seq [Opt (Tok T_COMMA),
         Ref RuleEndpoint_encryption_alogorithm_clause]), Opt (Seq [Opt (Tok T_COMMA),
         Tok T_MESSAGE_FORWARDING, Tok T_EQUAL, Alt [Tok T_ENABLED, Tok T_DISABLED]]),
         Opt (Seq [Opt (Tok T_COMMA), Tok T_MESSAGE_FORWARD_SIZE, Tok T_EQUAL, Tok T_DECIMAL]),
         Tok T_RR_BRACKET], Seq [Tok T_FOR, Tok T_DATABASE_MIRRORING, Tok T_LR_BRACKET,
         Ref RuleEndpoint_authentication_clause, Opt (Seq [Opt (Tok T_COMMA),
         Ref RuleEndpoint_encryption_alogorithm_clause]), Opt (Tok T_COMMA), Tok T_ROLE,
         Tok T_EQUAL, Alt [Tok T_WITNESS, Tok T_PARTNER, Tok T_ALL], Tok T_RR_BRACKET]]])]\<rparr>"

definition g_database_mirroring_option :: rule where [grammar_rules]:
  "g_database_mirroring_option = \<lparr>rule_index = RuleDatabase_mirroring_option, rule_alts = [
       (None, Ref RuleMirroring_set_option)]\<rparr>"

definition g_mirroring_set_option :: rule where [grammar_rules]:
  "g_mirroring_set_option = \<lparr>rule_index = RuleMirroring_set_option, rule_alts = [
       (None, Seq [Ref RuleMirroring_partner, Ref RulePartner_option]),
       (None, Seq [Ref RuleMirroring_witness, Ref RuleWitness_option])]\<rparr>"

definition g_mirroring_partner :: rule where [grammar_rules]:
  "g_mirroring_partner = \<lparr>rule_index = RuleMirroring_partner, rule_alts = [
       (None, Tok T_PARTNER)]\<rparr>"

definition g_mirroring_witness :: rule where [grammar_rules]:
  "g_mirroring_witness = \<lparr>rule_index = RuleMirroring_witness, rule_alts = [
       (None, Tok T_WITNESS)]\<rparr>"

definition g_witness_partner_equal :: rule where [grammar_rules]:
  "g_witness_partner_equal = \<lparr>rule_index = RuleWitness_partner_equal, rule_alts = [
       (None, Tok T_EQUAL)]\<rparr>"

definition g_partner_option :: rule where [grammar_rules]:
  "g_partner_option = \<lparr>rule_index = RulePartner_option, rule_alts = [
       (None, Seq [Ref RuleWitness_partner_equal, Ref RulePartner_server]),
       (None, Tok T_FAILOVER),
       (None, Tok T_FORCE_SERVICE_ALLOW_DATA_LOSS),
       (None, Tok T_OFF),
       (None, Tok T_RESUME),
       (None, Seq [Tok T_SAFETY, Alt [Tok T_FULL, Tok T_OFF]]),
       (None, Tok T_SUSPEND),
       (None, Seq [Tok T_TIMEOUT, Tok T_DECIMAL])]\<rparr>"

definition g_witness_option :: rule where [grammar_rules]:
  "g_witness_option = \<lparr>rule_index = RuleWitness_option, rule_alts = [
       (None, Seq [Ref RuleWitness_partner_equal, Ref RuleWitness_server]),
       (None, Tok T_OFF)]\<rparr>"

definition g_witness_server :: rule where [grammar_rules]:
  "g_witness_server = \<lparr>rule_index = RuleWitness_server, rule_alts = [
       (None, Ref RulePartner_server)]\<rparr>"

definition g_partner_server :: rule where [grammar_rules]:
  "g_partner_server = \<lparr>rule_index = RulePartner_server, rule_alts = [
       (None, Seq [Ref RulePartner_server_tcp_prefix, Ref RuleHost,
         Ref RuleMirroring_host_port_seperator, Ref RulePort_number])]\<rparr>"

definition g_mirroring_host_port_seperator :: rule where [grammar_rules]:
  "g_mirroring_host_port_seperator = \<lparr>rule_index = RuleMirroring_host_port_seperator, rule_alts = [
       (None, Tok T_COLON)]\<rparr>"

definition g_partner_server_tcp_prefix :: rule where [grammar_rules]:
  "g_partner_server_tcp_prefix = \<lparr>rule_index = RulePartner_server_tcp_prefix, rule_alts = [
       (None, Seq [Tok T_TCP, Tok T_COLON, Tok T_DOUBLE_FORWARD_SLASH])]\<rparr>"

definition g_port_number :: rule where [grammar_rules]:
  "g_port_number = \<lparr>rule_index = RulePort_number, rule_alts = [
       (None, Lab (Assign ''port'') (Tok T_DECIMAL))]\<rparr>"

definition g_host :: rule where [grammar_rules]:
  "g_host = \<lparr>rule_index = RuleHost, rule_alts = [
       (None, Seq [Ref RuleId', Tok T_DOT, Ref RuleHost]),
       (None, Alt [Seq [Ref RuleId', Tok T_DOT], Ref RuleId'])]\<rparr>"

definition g_date_correlation_optimization_option :: rule where [grammar_rules]:
  "g_date_correlation_optimization_option = \<lparr>rule_index = RuleDate_correlation_optimization_option, rule_alts = [
       (None, Seq [Tok T_DATE_CORRELATION_OPTIMIZATION, Ref RuleOn_off])]\<rparr>"

definition g_db_encryption_option :: rule where [grammar_rules]:
  "g_db_encryption_option = \<lparr>rule_index = RuleDb_encryption_option, rule_alts = [
       (None, Seq [Tok T_ENCRYPTION, Ref RuleOn_off])]\<rparr>"

definition g_db_state_option :: rule where [grammar_rules]:
  "g_db_state_option = \<lparr>rule_index = RuleDb_state_option, rule_alts = [
       (None, Alt [Tok T_ONLINE, Tok T_OFFLINE, Tok T_EMERGENCY])]\<rparr>"

definition g_db_update_option :: rule where [grammar_rules]:
  "g_db_update_option = \<lparr>rule_index = RuleDb_update_option, rule_alts = [
       (None, Tok T_READ_ONLY),
       (None, Tok T_READ_WRITE)]\<rparr>"

definition g_db_user_access_option :: rule where [grammar_rules]:
  "g_db_user_access_option = \<lparr>rule_index = RuleDb_user_access_option, rule_alts = [
       (None, Tok T_SINGLE_USER),
       (None, Tok T_RESTRICTED_USER),
       (None, Tok T_MULTI_USER)]\<rparr>"

definition g_delayed_durability_option :: rule where [grammar_rules]:
  "g_delayed_durability_option = \<lparr>rule_index = RuleDelayed_durability_option, rule_alts = [
       (None, Seq [Tok T_DELAYED_DURABILITY, Tok T_EQUAL, Alt [Tok T_DISABLED, Tok T_ALLOWED,
         Tok T_FORCED]])]\<rparr>"

definition g_external_access_option :: rule where [grammar_rules]:
  "g_external_access_option = \<lparr>rule_index = RuleExternal_access_option, rule_alts = [
       (None, Seq [Tok T_DB_CHAINING, Ref RuleOn_off]),
       (None, Seq [Tok T_TRUSTWORTHY, Ref RuleOn_off]),
       (None, Seq [Tok T_DEFAULT_LANGUAGE, Tok T_EQUAL, Alt [Ref RuleId', Tok T_STRING]]),
       (None, Seq [Tok T_DEFAULT_FULLTEXT_LANGUAGE, Tok T_EQUAL, Alt [Ref RuleId',
         Tok T_STRING]]),
       (None, Seq [Tok T_NESTED_TRIGGERS, Tok T_EQUAL, Alt [Tok T_OFF, Tok T_ON]]),
       (None, Seq [Tok T_TRANSFORM_NOISE_WORDS, Tok T_EQUAL, Alt [Tok T_OFF, Tok T_ON]]),
       (None, Seq [Tok T_TWO_DIGIT_YEAR_CUTOFF, Tok T_EQUAL, Tok T_DECIMAL])]\<rparr>"

definition g_hadr_options :: rule where [grammar_rules]:
  "g_hadr_options = \<lparr>rule_index = RuleHadr_options, rule_alts = [
       (None, Seq [Tok T_HADR, Alt [Alt [Seq [Tok T_AVAILABILITY, Tok T_GROUP, Tok T_EQUAL,
         Lab (Assign ''availability_group_name'') (Ref RuleId')], Tok T_OFF],
         Alt [Tok T_SUSPEND, Tok T_RESUME]]])]\<rparr>"

definition g_mixed_page_allocation_option :: rule where [grammar_rules]:
  "g_mixed_page_allocation_option = \<lparr>rule_index = RuleMixed_page_allocation_option, rule_alts = [
       (None, Seq [Tok T_MIXED_PAGE_ALLOCATION, Alt [Tok T_OFF, Tok T_ON]])]\<rparr>"

definition g_parameterization_option :: rule where [grammar_rules]:
  "g_parameterization_option = \<lparr>rule_index = RuleParameterization_option, rule_alts = [
       (None, Seq [Tok T_PARAMETERIZATION, Alt [Tok T_SIMPLE, Tok T_FORCED]])]\<rparr>"

definition g_recovery_option :: rule where [grammar_rules]:
  "g_recovery_option = \<lparr>rule_index = RuleRecovery_option, rule_alts = [
       (None, Seq [Tok T_RECOVERY, Alt [Tok T_FULL, Tok T_BULK_LOGGED, Tok T_SIMPLE]]),
       (None, Seq [Tok T_TORN_PAGE_DETECTION, Ref RuleOn_off]),
       (None, Seq [Tok T_ACCELERATED_DATABASE_RECOVERY, Tok T_EQUAL, Ref RuleOn_off]),
       (None, Seq [Tok T_PAGE_VERIFY, Alt [Tok T_CHECKSUM, Tok T_TORN_PAGE_DETECTION,
         Tok T_NONE]])]\<rparr>"

definition g_service_broker_option :: rule where [grammar_rules]:
  "g_service_broker_option = \<lparr>rule_index = RuleService_broker_option, rule_alts = [
       (None, Tok T_ENABLE_BROKER),
       (None, Tok T_DISABLE_BROKER),
       (None, Tok T_NEW_BROKER),
       (None, Tok T_ERROR_BROKER_CONVERSATIONS),
       (None, Seq [Tok T_HONOR_BROKER_PRIORITY, Ref RuleOn_off])]\<rparr>"

definition g_snapshot_option :: rule where [grammar_rules]:
  "g_snapshot_option = \<lparr>rule_index = RuleSnapshot_option, rule_alts = [
       (None, Seq [Tok T_ALLOW_SNAPSHOT_ISOLATION, Ref RuleOn_off]),
       (None, Seq [Tok T_READ_COMMITTED_SNAPSHOT, Alt [Tok T_ON, Tok T_OFF]]),
       (None, Lab (Assign ''MEMORY_OPTIMIZED_ELEVATE_TO_SNAPSHOT'') (Alt [Tok T_ON,
         Tok T_OFF]))]\<rparr>"

definition g_sql_option :: rule where [grammar_rules]:
  "g_sql_option = \<lparr>rule_index = RuleSql_option, rule_alts = [
       (None, Seq [Tok T_ANSI_NULL_DEFAULT, Ref RuleOn_off]),
       (None, Seq [Tok T_ANSI_NULLS, Ref RuleOn_off]),
       (None, Seq [Tok T_ANSI_PADDING, Ref RuleOn_off]),
       (None, Seq [Tok T_ANSI_WARNINGS, Ref RuleOn_off]),
       (None, Seq [Tok T_ARITHABORT, Ref RuleOn_off]),
       (None, Seq [Tok T_COMPATIBILITY_LEVEL, Tok T_EQUAL, Tok T_DECIMAL]),
       (None, Seq [Tok T_CONCAT_NULL_YIELDS_NULL, Ref RuleOn_off]),
       (None, Seq [Tok T_NUMERIC_ROUNDABORT, Ref RuleOn_off]),
       (None, Seq [Tok T_QUOTED_IDENTIFIER, Ref RuleOn_off]),
       (None, Seq [Tok T_RECURSIVE_TRIGGERS, Ref RuleOn_off])]\<rparr>"

definition g_target_recovery_time_option :: rule where [grammar_rules]:
  "g_target_recovery_time_option = \<lparr>rule_index = RuleTarget_recovery_time_option, rule_alts = [
       (None, Seq [Tok T_TARGET_RECOVERY_TIME, Tok T_EQUAL, Tok T_DECIMAL, Alt [Tok T_SECONDS,
         Tok T_MINUTES]])]\<rparr>"

definition g_termination :: rule where [grammar_rules]:
  "g_termination = \<lparr>rule_index = RuleTermination, rule_alts = [
       (None, Seq [Tok T_ROLLBACK, Tok T_AFTER, Lab (Assign ''seconds'') (Tok T_DECIMAL)]),
       (None, Seq [Tok T_ROLLBACK, Tok T_IMMEDIATE]),
       (None, Tok T_NO_WAIT)]\<rparr>"

definition g_drop_index :: rule where [grammar_rules]:
  "g_drop_index = \<lparr>rule_index = RuleDrop_index, rule_alts = [
       (None, Seq [Tok T_DROP, Tok T_INDEX, Opt (Seq [Tok T_IF, Tok T_EXISTS]),
         Alt [Seq [Ref RuleDrop_relational_or_xml_or_spatial_index, Star (Seq [Tok T_COMMA,
         Ref RuleDrop_relational_or_xml_or_spatial_index])],
         Seq [Ref RuleDrop_backward_compatible_index, Star (Seq [Tok T_COMMA,
         Ref RuleDrop_backward_compatible_index])]], Opt (Tok T_SEMI)])]\<rparr>"

definition g_drop_relational_or_xml_or_spatial_index :: rule where [grammar_rules]:
  "g_drop_relational_or_xml_or_spatial_index = \<lparr>rule_index = RuleDrop_relational_or_xml_or_spatial_index, rule_alts = [
       (None, Seq [Lab (Assign ''index_name'') (Ref RuleId'), Tok T_ON,
         Ref RuleFull_table_name])]\<rparr>"

definition g_drop_backward_compatible_index :: rule where [grammar_rules]:
  "g_drop_backward_compatible_index = \<lparr>rule_index = RuleDrop_backward_compatible_index, rule_alts = [
       (None, Seq [Opt (Seq [Lab (Assign ''owner_name'') (Ref RuleId'), Tok T_DOT]),
         Lab (Assign ''table_or_view_name'') (Ref RuleId'), Tok T_DOT,
         Lab (Assign ''index_name'') (Ref RuleId')])]\<rparr>"

definition g_drop_procedure :: rule where [grammar_rules]:
  "g_drop_procedure = \<lparr>rule_index = RuleDrop_procedure, rule_alts = [
       (None, Seq [Tok T_DROP, Lab (Assign ''proc'') (Alt [Tok T_PROC, Tok T_PROCEDURE]),
         Opt (Seq [Tok T_IF, Tok T_EXISTS]), Ref RuleFunc_proc_name_schema,
         Star (Seq [Tok T_COMMA, Ref RuleFunc_proc_name_schema]), Opt (Tok T_SEMI)])]\<rparr>"

definition g_drop_trigger :: rule where [grammar_rules]:
  "g_drop_trigger = \<lparr>rule_index = RuleDrop_trigger, rule_alts = [
       (None, Ref RuleDrop_dml_trigger),
       (None, Ref RuleDrop_ddl_trigger)]\<rparr>"

definition g_drop_dml_trigger :: rule where [grammar_rules]:
  "g_drop_dml_trigger = \<lparr>rule_index = RuleDrop_dml_trigger, rule_alts = [
       (None, Seq [Tok T_DROP, Tok T_TRIGGER, Opt (Seq [Tok T_IF, Tok T_EXISTS]),
         Ref RuleSimple_name, Star (Seq [Tok T_COMMA, Ref RuleSimple_name]),
         Opt (Tok T_SEMI)])]\<rparr>"

definition g_drop_ddl_trigger :: rule where [grammar_rules]:
  "g_drop_ddl_trigger = \<lparr>rule_index = RuleDrop_ddl_trigger, rule_alts = [
       (None, Seq [Tok T_DROP, Tok T_TRIGGER, Opt (Seq [Tok T_IF, Tok T_EXISTS]),
         Ref RuleSimple_name, Star (Seq [Tok T_COMMA, Ref RuleSimple_name]), Tok T_ON,
         Alt [Tok T_DATABASE, Seq [Tok T_ALL, Tok T_SERVER]], Opt (Tok T_SEMI)])]\<rparr>"

definition g_drop_function :: rule where [grammar_rules]:
  "g_drop_function = \<lparr>rule_index = RuleDrop_function, rule_alts = [
       (None, Seq [Tok T_DROP, Tok T_FUNCTION, Opt (Seq [Tok T_IF, Tok T_EXISTS]),
         Ref RuleFunc_proc_name_schema, Star (Seq [Tok T_COMMA,
         Ref RuleFunc_proc_name_schema]), Opt (Tok T_SEMI)])]\<rparr>"

definition g_drop_statistics :: rule where [grammar_rules]:
  "g_drop_statistics = \<lparr>rule_index = RuleDrop_statistics, rule_alts = [
       (None, Seq [Tok T_DROP, Tok T_STATISTICS, Plus (Seq [Opt (Tok T_COMMA),
         Opt (Seq [Ref RuleTable_name, Tok T_DOT]), Lab (Assign ''name'') (Ref RuleId')]),
         Tok T_SEMI])]\<rparr>"

definition g_drop_table :: rule where [grammar_rules]:
  "g_drop_table = \<lparr>rule_index = RuleDrop_table, rule_alts = [
       (None, Seq [Tok T_DROP, Tok T_TABLE, Opt (Seq [Tok T_IF, Tok T_EXISTS]),
         Ref RuleTable_name, Star (Seq [Tok T_COMMA, Ref RuleTable_name]), Opt (Tok T_SEMI)])]\<rparr>"

definition g_drop_view :: rule where [grammar_rules]:
  "g_drop_view = \<lparr>rule_index = RuleDrop_view, rule_alts = [
       (None, Seq [Tok T_DROP, Tok T_VIEW, Opt (Seq [Tok T_IF, Tok T_EXISTS]),
         Ref RuleSimple_name, Star (Seq [Tok T_COMMA, Ref RuleSimple_name]),
         Opt (Tok T_SEMI)])]\<rparr>"

definition g_create_type :: rule where [grammar_rules]:
  "g_create_type = \<lparr>rule_index = RuleCreate_type, rule_alts = [
       (None, Seq [Tok T_CREATE, Tok T_TYPE, Lab (Assign ''name'') (Ref RuleSimple_name),
         Opt (Seq [Tok T_FROM, Ref RuleData_type, Opt (Ref RuleNull_notnull)]),
         Opt (Seq [Tok T_AS, Tok T_TABLE, Tok T_LR_BRACKET,
         Ref RuleColumn_def_table_constraints, Tok T_RR_BRACKET])])]\<rparr>"

definition g_drop_type :: rule where [grammar_rules]:
  "g_drop_type = \<lparr>rule_index = RuleDrop_type, rule_alts = [
       (None, Seq [Tok T_DROP, Tok T_TYPE, Opt (Seq [Tok T_IF, Tok T_EXISTS]),
         Lab (Assign ''name'') (Ref RuleSimple_name)])]\<rparr>"

definition g_rowset_function_limited :: rule where [grammar_rules]:
  "g_rowset_function_limited = \<lparr>rule_index = RuleRowset_function_limited, rule_alts = [
       (None, Ref RuleOpenquery),
       (None, Ref RuleOpendatasource)]\<rparr>"

definition g_openquery :: rule where [grammar_rules]:
  "g_openquery = \<lparr>rule_index = RuleOpenquery, rule_alts = [
       (None, Seq [Tok T_OPENQUERY, Tok T_LR_BRACKET,
         Lab (Assign ''linked_server'') (Ref RuleId'), Tok T_COMMA,
         Lab (Assign ''query'') (Tok T_STRING), Tok T_RR_BRACKET])]\<rparr>"

definition g_opendatasource :: rule where [grammar_rules]:
  "g_opendatasource = \<lparr>rule_index = RuleOpendatasource, rule_alts = [
       (None, Seq [Tok T_OPENDATASOURCE, Tok T_LR_BRACKET,
         Lab (Assign ''provider'') (Tok T_STRING), Tok T_COMMA,
         Lab (Assign ''init'') (Tok T_STRING), Tok T_RR_BRACKET, Tok T_DOT,
         Opt (Lab (Assign ''database'') (Ref RuleId')), Tok T_DOT,
         Opt (Lab (Assign ''scheme'') (Ref RuleId')), Tok T_DOT,
         Lab (Assign ''table'') (Ref RuleId')])]\<rparr>"

definition g_declare_statement :: rule where [grammar_rules]:
  "g_declare_statement = \<lparr>rule_index = RuleDeclare_statement, rule_alts = [
       (None, Seq [Tok T_DECLARE, Tok T_LOCAL_ID, Opt (Tok T_AS), Alt [Ref RuleData_type,
         Ref RuleTable_type_definition, Ref RuleTable_name]]),
       (None, Seq [Tok T_DECLARE, Lab (Append ''loc'') (Ref RuleDeclare_local),
         Star (Seq [Tok T_COMMA, Lab (Append ''loc'') (Ref RuleDeclare_local)])]),
       (None, Seq [Tok T_DECLARE, Tok T_LOCAL_ID, Opt (Tok T_AS),
         Ref RuleXml_type_definition]),
       (None, Seq [Tok T_WITH, Tok T_XMLNAMESPACES, Tok T_LR_BRACKET,
         Lab (Append ''xml_dec'') (Ref RuleXml_declaration), Star (Seq [Tok T_COMMA,
         Lab (Append ''xml_dec'') (Ref RuleXml_declaration)]), Tok T_RR_BRACKET])]\<rparr>"

definition g_xml_declaration :: rule where [grammar_rules]:
  "g_xml_declaration = \<lparr>rule_index = RuleXml_declaration, rule_alts = [
       (None, Seq [Lab (Assign ''xml_namespace_uri'') (Tok T_STRING), Tok T_AS, Ref RuleId']),
       (None, Seq [Tok T_DEFAULT, Tok T_STRING])]\<rparr>"

definition g_cursor_statement :: rule where [grammar_rules]:
  "g_cursor_statement = \<lparr>rule_index = RuleCursor_statement, rule_alts = [
       (None, Seq [Tok T_CLOSE, Opt (Tok T_GLOBAL), Ref RuleCursor_name, Opt (Tok T_SEMI)]),
       (None, Seq [Tok T_DEALLOCATE, Opt (Tok T_GLOBAL), Opt (Tok T_CURSOR),
         Ref RuleCursor_name, Opt (Tok T_SEMI)]),
       (None, Ref RuleDeclare_cursor),
       (None, Ref RuleFetch_cursor),
       (None, Seq [Tok T_OPEN, Opt (Tok T_GLOBAL), Ref RuleCursor_name, Opt (Tok T_SEMI)])]\<rparr>"

definition g_backup_database :: rule where [grammar_rules]:
  "g_backup_database = \<lparr>rule_index = RuleBackup_database, rule_alts = [
       (None, Seq [Tok T_BACKUP, Tok T_DATABASE, Lab (Assign ''database_name'') (Ref RuleId'),
         Opt (Seq [Tok T_READ_WRITE_FILEGROUPS, Star (Seq [Opt (Tok T_COMMA), Alt [Tok T_FILE,
         Tok T_FILEGROUP], Tok T_EQUAL, Lab (Assign ''file_or_filegroup'') (Tok T_STRING)])]),
         Star (Seq [Opt (Tok T_COMMA), Alt [Tok T_FILE, Tok T_FILEGROUP], Tok T_EQUAL,
         Lab (Assign ''file_or_filegroup'') (Tok T_STRING)]), Alt [Seq [Tok T_TO,
         Plus (Seq [Opt (Tok T_COMMA), Lab (Assign ''logical_device_name'') (Ref RuleId')])],
         Seq [Tok T_TO, Plus (Seq [Opt (Tok T_COMMA), Alt [Tok T_DISK, Tok T_TAPE, Tok T_URL],
         Tok T_EQUAL, Alt [Tok T_STRING, Ref RuleId']])]], Opt (Alt [Plus (Seq [Tok T_MIRROR,
         Tok T_TO, Plus (Seq [Opt (Tok T_COMMA),
         Lab (Assign ''logical_device_name'') (Ref RuleId')])]), Plus (Seq [Tok T_MIRROR,
         Tok T_TO, Plus (Seq [Opt (Tok T_COMMA), Alt [Tok T_DISK, Tok T_TAPE, Tok T_URL],
         Tok T_EQUAL, Alt [Tok T_STRING, Ref RuleId']])])]), Opt (Seq [Tok T_WITH,
         Star (Alt [Seq [Opt (Tok T_COMMA), Tok T_DIFFERENTIAL], Seq [Opt (Tok T_COMMA),
         Tok T_COPY_ONLY], Seq [Opt (Tok T_COMMA), Alt [Tok T_COMPRESSION,
         Tok T_NO_COMPRESSION]], Seq [Opt (Tok T_COMMA), Tok T_DESCRIPTION, Tok T_EQUAL,
         Alt [Tok T_STRING, Ref RuleId']], Seq [Opt (Tok T_COMMA), Tok T_NAME, Tok T_EQUAL,
         Lab (Assign ''backup_set_name'') (Ref RuleId')], Seq [Opt (Tok T_COMMA),
         Tok T_CREDENTIAL], Seq [Opt (Tok T_COMMA), Tok T_FILE_SNAPSHOT],
         Seq [Opt (Tok T_COMMA), Alt [Seq [Tok T_EXPIREDATE, Tok T_EQUAL, Alt [Tok T_STRING,
         Ref RuleId']], Seq [Tok T_RETAINDAYS, Tok T_EQUAL, Alt [Tok T_DECIMAL,
         Ref RuleId']]]], Seq [Opt (Tok T_COMMA), Alt [Tok T_NOINIT, Tok T_INIT]],
         Seq [Opt (Tok T_COMMA), Alt [Tok T_NOSKIP, Tok T_SKIP_KEYWORD]],
         Seq [Opt (Tok T_COMMA), Alt [Tok T_NOFORMAT, Tok T_FORMAT]], Seq [Opt (Tok T_COMMA),
         Tok T_MEDIADESCRIPTION, Tok T_EQUAL, Alt [Tok T_STRING, Ref RuleId']],
         Seq [Opt (Tok T_COMMA), Tok T_MEDIANAME, Tok T_EQUAL,
         Lab (Assign ''medianame'') (Tok T_STRING)], Seq [Opt (Tok T_COMMA), Tok T_BLOCKSIZE,
         Tok T_EQUAL, Alt [Tok T_DECIMAL, Ref RuleId']], Seq [Opt (Tok T_COMMA),
         Tok T_BUFFERCOUNT, Tok T_EQUAL, Alt [Tok T_DECIMAL, Ref RuleId']],
         Seq [Opt (Tok T_COMMA), Tok T_MAXTRANSFER, Tok T_EQUAL, Alt [Tok T_DECIMAL,
         Ref RuleId']], Seq [Opt (Tok T_COMMA), Alt [Tok T_NO_CHECKSUM, Tok T_CHECKSUM]],
         Seq [Opt (Tok T_COMMA), Alt [Tok T_STOP_ON_ERROR, Tok T_CONTINUE_AFTER_ERROR]],
         Seq [Opt (Tok T_COMMA), Tok T_RESTART], Seq [Opt (Tok T_COMMA), Tok T_STATS,
         Opt (Seq [Tok T_EQUAL, Lab (Assign ''stats_percent'') (Tok T_DECIMAL)])],
         Seq [Opt (Tok T_COMMA), Alt [Tok T_REWIND, Tok T_NOREWIND]], Seq [Opt (Tok T_COMMA),
         Alt [Tok T_LOAD, Tok T_NOUNLOAD]], Seq [Opt (Tok T_COMMA), Tok T_ENCRYPTION,
         Tok T_LR_BRACKET, Tok T_ALGORITHM, Tok T_EQUAL, Alt [Tok T_AES_128, Tok T_AES_192,
         Tok T_AES_256, Tok T_TRIPLE_DES_3KEY], Tok T_COMMA, Tok T_SERVER, Tok T_CERTIFICATE,
         Tok T_EQUAL, Alt [Lab (Assign ''encryptor_name'') (Ref RuleId'), Seq [Tok T_SERVER,
         Tok T_ASYMMETRIC, Tok T_KEY, Tok T_EQUAL,
         Lab (Assign ''encryptor_name'') (Ref RuleId')]]]])])])]\<rparr>"

definition g_backup_log :: rule where [grammar_rules]:
  "g_backup_log = \<lparr>rule_index = RuleBackup_log, rule_alts = [
       (None, Seq [Tok T_BACKUP, Tok T_LOG, Lab (Assign ''database_name'') (Ref RuleId'),
         Alt [Seq [Tok T_TO, Plus (Seq [Opt (Tok T_COMMA),
         Lab (Assign ''logical_device_name'') (Ref RuleId')])], Seq [Tok T_TO,
         Plus (Seq [Opt (Tok T_COMMA), Alt [Tok T_DISK, Tok T_TAPE, Tok T_URL], Tok T_EQUAL,
         Alt [Tok T_STRING, Ref RuleId']])]], Opt (Alt [Plus (Seq [Tok T_MIRROR, Tok T_TO,
         Plus (Seq [Opt (Tok T_COMMA), Lab (Assign ''logical_device_name'') (Ref RuleId')])]),
         Plus (Seq [Tok T_MIRROR, Tok T_TO, Plus (Seq [Opt (Tok T_COMMA), Alt [Tok T_DISK,
         Tok T_TAPE, Tok T_URL], Tok T_EQUAL, Alt [Tok T_STRING, Ref RuleId']])])]),
         Opt (Seq [Tok T_WITH, Star (Alt [Seq [Opt (Tok T_COMMA), Tok T_DIFFERENTIAL],
         Seq [Opt (Tok T_COMMA), Tok T_COPY_ONLY], Seq [Opt (Tok T_COMMA),
         Alt [Tok T_COMPRESSION, Tok T_NO_COMPRESSION]], Seq [Opt (Tok T_COMMA),
         Tok T_DESCRIPTION, Tok T_EQUAL, Alt [Tok T_STRING, Ref RuleId']],
         Seq [Opt (Tok T_COMMA), Tok T_NAME, Tok T_EQUAL,
         Lab (Assign ''backup_set_name'') (Ref RuleId')], Seq [Opt (Tok T_COMMA),
         Tok T_CREDENTIAL], Seq [Opt (Tok T_COMMA), Tok T_FILE_SNAPSHOT],
         Seq [Opt (Tok T_COMMA), Alt [Seq [Tok T_EXPIREDATE, Tok T_EQUAL, Alt [Tok T_STRING,
         Ref RuleId']], Seq [Tok T_RETAINDAYS, Tok T_EQUAL, Alt [Tok T_DECIMAL,
         Ref RuleId']]]], Seq [Opt (Tok T_COMMA), Alt [Tok T_NOINIT, Tok T_INIT]],
         Seq [Opt (Tok T_COMMA), Alt [Tok T_NOSKIP, Tok T_SKIP_KEYWORD]],
         Seq [Opt (Tok T_COMMA), Alt [Tok T_NOFORMAT, Tok T_FORMAT]], Seq [Opt (Tok T_COMMA),
         Tok T_MEDIADESCRIPTION, Tok T_EQUAL, Alt [Tok T_STRING, Ref RuleId']],
         Seq [Opt (Tok T_COMMA), Tok T_MEDIANAME, Tok T_EQUAL,
         Lab (Assign ''medianame'') (Tok T_STRING)], Seq [Opt (Tok T_COMMA), Tok T_BLOCKSIZE,
         Tok T_EQUAL, Alt [Tok T_DECIMAL, Ref RuleId']], Seq [Opt (Tok T_COMMA),
         Tok T_BUFFERCOUNT, Tok T_EQUAL, Alt [Tok T_DECIMAL, Ref RuleId']],
         Seq [Opt (Tok T_COMMA), Tok T_MAXTRANSFER, Tok T_EQUAL, Alt [Tok T_DECIMAL,
         Ref RuleId']], Seq [Opt (Tok T_COMMA), Alt [Tok T_NO_CHECKSUM, Tok T_CHECKSUM]],
         Seq [Opt (Tok T_COMMA), Alt [Tok T_STOP_ON_ERROR, Tok T_CONTINUE_AFTER_ERROR]],
         Seq [Opt (Tok T_COMMA), Tok T_RESTART], Seq [Opt (Tok T_COMMA), Tok T_STATS,
         Opt (Seq [Tok T_EQUAL, Lab (Assign ''stats_percent'') (Tok T_DECIMAL)])],
         Seq [Opt (Tok T_COMMA), Alt [Tok T_REWIND, Tok T_NOREWIND]], Seq [Opt (Tok T_COMMA),
         Alt [Tok T_LOAD, Tok T_NOUNLOAD]], Seq [Opt (Tok T_COMMA), Alt [Tok T_NORECOVERY,
         Seq [Tok T_STANDBY, Tok T_EQUAL, Lab (Assign ''undo_file_name'') (Tok T_STRING)]]],
         Seq [Opt (Tok T_COMMA), Tok T_NO_TRUNCATE], Seq [Opt (Tok T_COMMA), Tok T_ENCRYPTION,
         Tok T_LR_BRACKET, Tok T_ALGORITHM, Tok T_EQUAL, Alt [Tok T_AES_128, Tok T_AES_192,
         Tok T_AES_256, Tok T_TRIPLE_DES_3KEY], Tok T_COMMA, Tok T_SERVER, Tok T_CERTIFICATE,
         Tok T_EQUAL, Alt [Lab (Assign ''encryptor_name'') (Ref RuleId'), Seq [Tok T_SERVER,
         Tok T_ASYMMETRIC, Tok T_KEY, Tok T_EQUAL,
         Lab (Assign ''encryptor_name'') (Ref RuleId')]]]])])])]\<rparr>"

definition rules_3 :: grammar where
  "rules_3 = [
     g_delete_statement_from, g_insert_statement, g_insert_statement_value,
     g_receive_statement, g_select_statement_standalone, g_select_statement, g_time,
     g_update_statement, g_output_clause, g_output_dml_list_elem, g_create_database,
     g_create_index, g_create_index_options, g_relational_index_option, g_alter_index,
     g_resumable_index_options, g_resumable_index_option, g_reorganize_partition,
     g_reorganize_options, g_reorganize_option, g_set_index_options, g_set_index_option,
     g_rebuild_partition, g_rebuild_index_options, g_rebuild_index_option,
     g_single_partition_rebuild_index_options, g_single_partition_rebuild_index_option,
     g_on_partitions, g_create_columnstore_index, g_create_columnstore_index_options,
     g_columnstore_index_option, g_create_nonclustered_columnstore_index, g_create_xml_index,
     g_xml_index_options, g_xml_index_option, g_create_or_alter_procedure, g_as_external_name,
     g_create_or_alter_trigger, g_create_or_alter_dml_trigger, g_dml_trigger_option,
     g_dml_trigger_operation, g_create_or_alter_ddl_trigger, g_ddl_trigger_operation,
     g_create_or_alter_function, g_func_body_returns_select, g_func_body_returns_table,
     g_func_body_returns_scalar, g_procedure_param_default_value, g_procedure_param,
     g_procedure_option, g_function_option, g_create_statistics, g_update_statistics,
     g_update_statistics_options, g_update_statistics_option, g_create_table, g_table_indices,
     g_table_options, g_table_option, g_create_table_index_options,
     g_create_table_index_option, g_create_view, g_view_attribute, g_alter_table,
     g_switch_partition, g_low_priority_lock_wait, g_alter_database, g_add_or_modify_files,
     g_filespec, g_add_or_modify_filegroups, g_filegroup_updatability_option,
     g_database_optionspec, g_auto_option, g_change_tracking_option,
     g_change_tracking_option_list, g_containment_option, g_cursor_option, g_alter_endpoint,
     g_database_mirroring_option, g_mirroring_set_option, g_mirroring_partner,
     g_mirroring_witness, g_witness_partner_equal, g_partner_option, g_witness_option,
     g_witness_server, g_partner_server, g_mirroring_host_port_seperator,
     g_partner_server_tcp_prefix, g_port_number, g_host,
     g_date_correlation_optimization_option, g_db_encryption_option, g_db_state_option,
     g_db_update_option, g_db_user_access_option, g_delayed_durability_option,
     g_external_access_option, g_hadr_options, g_mixed_page_allocation_option,
     g_parameterization_option, g_recovery_option, g_service_broker_option, g_snapshot_option,
     g_sql_option, g_target_recovery_time_option, g_termination, g_drop_index,
     g_drop_relational_or_xml_or_spatial_index, g_drop_backward_compatible_index,
     g_drop_procedure, g_drop_trigger, g_drop_dml_trigger, g_drop_ddl_trigger, g_drop_function,
     g_drop_statistics, g_drop_table, g_drop_view, g_create_type, g_drop_type,
     g_rowset_function_limited, g_openquery, g_opendatasource, g_declare_statement,
     g_xml_declaration, g_cursor_statement, g_backup_database, g_backup_log]"

end
