(* ===== verification/Contexts_3.thy ===== *)
theory Contexts_3
  imports Contexts Tokens Rule_Ids Label_Ids
begin

text \<open>
  Context classes of \<open>src/port/cpp/TSqlParser.h\<close>, from \<open>Delete_statement_fromContext\<close> to
  \<open>Backup_logContext\<close>: one definition per class, its members in the order of their declarations.
\<close>

definition Delete_statement_fromContext :: context_class where [context_classes]:
  "Delete_statement_fromContext = \<lparr>class_id = RuleContext RuleDelete_statement_from, class_base = ParserRuleContext, members = [
     TokenField ''table_var'', Constructor, GetRuleIndex, ContextGet RuleDdl_object,
     ContextGet RuleRowset_function_limited, TerminalGet T_LOCAL_ID, EnterRule, ExitRule,
     Accept]\<rparr>"

definition Insert_statementContext :: context_class where [context_classes]:
  "Insert_statementContext = \<lparr>class_id = RuleContext RuleInsert_statement, class_base = ParserRuleContext, members = [
     Constructor, GetRuleIndex, TerminalGet T_INSERT, ContextGet RuleInsert_statement_value,
     ContextGet RuleDdl_object, ContextGet RuleRowset_function_limited,
     ContextGet RuleWith_expression, TerminalGet T_TOP, TerminalAll T_LR_BRACKET,
     TerminalNth T_LR_BRACKET, ContextGet RuleExpression, TerminalAll T_RR_BRACKET,
     TerminalNth T_RR_BRACKET, TerminalGet T_INTO, ContextGet RuleWith_table_hints,
     ContextGet RuleInsert_column_name_list, ContextGet RuleOutput_clause,
     ContextGet RuleFor_clause, ContextGet RuleOption_clause, TerminalGet T_SEMI,
     TerminalGet T_PERCENT, EnterRule, ExitRule, Accept]\<rparr>"

definition Insert_statement_valueContext :: context_class where [context_classes]:
  "Insert_statement_valueContext = \<lparr>class_id = RuleContext RuleInsert_statement_value, class_base = ParserRuleContext, members = [
     Constructor, GetRuleIndex, ContextGet RuleTable_value_constructor,
     ContextGet RuleDerived_table, ContextGet RuleExecute_statement, TerminalGet T_DEFAULT,
     TerminalGet T_VALUES, EnterRule, ExitRule, Accept]\<rparr>"

definition Receive_statementContext :: context_class where [context_classes]:
  "Receive_statementContext = \<lparr>class_id = RuleContext RuleReceive_statement, class_base = ParserRuleContext, members = [
     ContextField ''table_variable'' RuleId', ContextField ''where'' RuleSearch_condition,
     Constructor, GetRuleIndex, TerminalGet T_RECEIVE, TerminalGet T_FROM,
     ContextGet RuleFull_table_name, TerminalGet T_ALL, TerminalGet T_DISTINCT,
     ContextGet RuleTop_clause, TerminalGet T_STAR, TerminalGet T_LR_BRACKET,
     TerminalAll T_LOCAL_ID, TerminalNth T_LOCAL_ID, TerminalAll T_EQUAL, TerminalNth T_EQUAL,
     ContextAll RuleExpression, ContextNth RuleExpression, TerminalGet T_INTO,
     TerminalGet T_RR_BRACKET, ContextGet RuleId', TerminalGet T_WHERE, TerminalAll T_COMMA,
     TerminalNth T_COMMA, ContextGet RuleSearch_condition, EnterRule, ExitRule, Accept]\<rparr>"

definition Select_statement_standaloneContext :: context_class where [context_classes]:
  "Select_statement_standaloneContext = \<lparr>class_id = RuleContext RuleSelect_statement_standalone, class_base = ParserRuleContext, members = [
     Constructor, GetRuleIndex, ContextGet RuleSelect_statement,
     ContextGet RuleWith_expression, EnterRule, ExitRule, Accept]\<rparr>"

definition Select_statementContext :: context_class where [context_classes]:
  "Select_statementContext = \<lparr>class_id = RuleContext RuleSelect_statement, class_base = ParserRuleContext, members = [
     Constructor, GetRuleIndex, ContextGet RuleQuery_expression,
     ContextGet RuleSelect_order_by_clause, ContextGet RuleFor_clause,
     ContextGet RuleOption_clause, TerminalGet T_SEMI, EnterRule, ExitRule, Accept]\<rparr>"

definition TimeContext :: context_class where [context_classes]:
  "TimeContext = \<lparr>class_id = RuleContext RuleTime, class_base = ParserRuleContext, members = [
     Constructor, GetRuleIndex, TerminalGet T_LOCAL_ID, ContextGet RuleConstant, EnterRule,
     ExitRule, Accept]\<rparr>"

definition Update_statementContext :: context_class where [context_classes]:
  "Update_statementContext = \<lparr>class_id = RuleContext RuleUpdate_statement, class_base = ParserRuleContext, members = [
     TokenField ''cursor_var'', Constructor, GetRuleIndex, TerminalGet T_UPDATE,
     TerminalGet T_SET, ContextAll RuleUpdate_elem, ContextNth RuleUpdate_elem,
     ContextGet RuleDdl_object, ContextGet RuleRowset_function_limited,
     ContextGet RuleWith_expression, TerminalGet T_TOP, TerminalGet T_LR_BRACKET,
     ContextGet RuleExpression, TerminalGet T_RR_BRACKET, ContextGet RuleWith_table_hints,
     TerminalAll T_COMMA, TerminalNth T_COMMA, ContextGet RuleOutput_clause,
     TerminalGet T_FROM, ContextGet RuleTable_sources, TerminalGet T_WHERE,
     ContextGet RuleFor_clause, ContextGet RuleOption_clause, TerminalGet T_SEMI,
     ContextGet RuleSearch_condition, TerminalGet T_CURRENT, TerminalGet T_OF,
     TerminalGet T_PERCENT, ContextGet RuleCursor_name, TerminalGet T_LOCAL_ID,
     TerminalGet T_GLOBAL, EnterRule, ExitRule, Accept]\<rparr>"

definition Output_clauseContext :: context_class where [context_classes]:
  "Output_clauseContext = \<lparr>class_id = RuleContext RuleOutput_clause, class_base = ParserRuleContext, members = [
     Constructor, GetRuleIndex, TerminalGet T_OUTPUT, ContextAll RuleOutput_dml_list_elem,
     ContextNth RuleOutput_dml_list_elem, TerminalAll T_COMMA, TerminalNth T_COMMA,
     TerminalGet T_INTO, TerminalGet T_LOCAL_ID, ContextGet RuleTable_name,
     TerminalGet T_LR_BRACKET, ContextGet RuleColumn_name_list, TerminalGet T_RR_BRACKET,
     EnterRule, ExitRule, Accept]\<rparr>"

definition Output_dml_list_elemContext :: context_class where [context_classes]:
  "Output_dml_list_elemContext = \<lparr>class_id = RuleContext RuleOutput_dml_list_elem, class_base = ParserRuleContext, members = [
     Constructor, GetRuleIndex, ContextGet RuleExpression, ContextGet RuleAsterisk,
     ContextGet RuleAs_column_alias, EnterRule, ExitRule, Accept]\<rparr>"

definition Create_databaseContext :: context_class where [context_classes]:
  "Create_databaseContext = \<lparr>class_id = RuleContext RuleCreate_database, class_base = ParserRuleContext, members = [
     ContextField ''database'' RuleId', ContextField ''collation_name'' RuleId', Constructor,
     GetRuleIndex, TerminalGet T_CREATE, TerminalGet T_DATABASE, ContextAll RuleId',
     ContextNth RuleId', TerminalGet T_CONTAINMENT, TerminalGet T_EQUAL, TerminalAll T_ON,
     TerminalNth T_ON, ContextAll RuleDatabase_file_spec, ContextNth RuleDatabase_file_spec,
     TerminalGet T_LOG, TerminalGet T_COLLATE, TerminalGet T_WITH,
     ContextAll RuleCreate_database_option, ContextNth RuleCreate_database_option,
     TerminalGet T_NONE, TerminalGet T_PARTIAL, TerminalGet T_PRIMARY, TerminalAll T_COMMA,
     TerminalNth T_COMMA, EnterRule, ExitRule, Accept]\<rparr>"

definition Create_indexContext :: context_class where [context_classes]:
  "Create_indexContext = \<lparr>class_id = RuleContext RuleCreate_index, class_base = ParserRuleContext, members = [
     ContextField ''where'' RuleSearch_condition, Constructor, GetRuleIndex,
     TerminalGet T_CREATE, TerminalGet T_INDEX, ContextAll RuleId', ContextNth RuleId',
     TerminalAll T_ON, TerminalNth T_ON, ContextGet RuleTable_name, TerminalAll T_LR_BRACKET,
     TerminalNth T_LR_BRACKET, ContextGet RuleColumn_name_list_with_order,
     TerminalAll T_RR_BRACKET, TerminalNth T_RR_BRACKET, TerminalGet T_UNIQUE,
     ContextGet RuleClustered, TerminalGet T_INCLUDE, ContextGet RuleColumn_name_list,
     TerminalGet T_WHERE, ContextGet RuleCreate_index_options, TerminalGet T_SEMI,
     ContextGet RuleSearch_condition, EnterRule, ExitRule, Accept]\<rparr>"

definition Create_index_optionsContext :: context_class where [context_classes]:
  "Create_index_optionsContext = \<lparr>class_id = RuleContext RuleCreate_index_options, class_base = ParserRuleContext, members = [
     Constructor, GetRuleIndex, TerminalGet T_WITH, TerminalGet T_LR_BRACKET,
     ContextAll RuleRelational_index_option, ContextNth RuleRelational_index_option,
     TerminalGet T_RR_BRACKET, TerminalAll T_COMMA, TerminalNth T_COMMA, EnterRule, ExitRule,
     Accept]\<rparr>"

definition Relational_index_optionContext :: context_class where [context_classes]:
  "Relational_index_optionContext = \<lparr>class_id = RuleContext RuleRelational_index_option, class_base = ParserRuleContext, members = [
     Constructor, GetRuleIndex, ContextGet RuleRebuild_index_option,
     TerminalGet T_DROP_EXISTING, TerminalGet T_EQUAL, ContextGet RuleOn_off,
     TerminalGet T_OPTIMIZE_FOR_SEQUENTIAL_KEY, EnterRule, ExitRule, Accept]\<rparr>"

definition Alter_indexContext :: context_class where [context_classes]:
  "Alter_indexContext = \<lparr>class_id = RuleContext RuleAlter_index, class_base = ParserRuleContext, members = [
     Constructor, GetRuleIndex, TerminalGet T_ALTER, TerminalGet T_INDEX, TerminalGet T_ON,
     ContextGet RuleTable_name, ContextGet RuleId', TerminalGet T_ALL, TerminalGet T_DISABLE,
     TerminalGet T_PAUSE, TerminalGet T_ABORT, TerminalGet T_RESUME,
     ContextGet RuleReorganize_partition, ContextGet RuleSet_index_options,
     ContextGet RuleRebuild_partition, ContextGet RuleResumable_index_options, EnterRule,
     ExitRule, Accept]\<rparr>"

definition Resumable_index_optionsContext :: context_class where [context_classes]:
  "Resumable_index_optionsContext = \<lparr>class_id = RuleContext RuleResumable_index_options, class_base = ParserRuleContext, members = [
     Constructor, GetRuleIndex, TerminalGet T_WITH, TerminalGet T_LR_BRACKET,
     TerminalGet T_RR_BRACKET, ContextAll RuleResumable_index_option,
     ContextNth RuleResumable_index_option, TerminalAll T_COMMA, TerminalNth T_COMMA,
     EnterRule, ExitRule, Accept]\<rparr>"

definition Resumable_index_optionContext :: context_class where [context_classes]:
  "Resumable_index_optionContext = \<lparr>class_id = RuleContext RuleResumable_index_option, class_base = ParserRuleContext, members = [
     TokenField ''max_degree_of_parallelism'', TokenField ''max_duration'', Constructor,
     GetRuleIndex, TerminalGet T_MAXDOP, TerminalGet T_EQUAL, TerminalGet T_DECIMAL,
     TerminalGet T_MAX_DURATION, TerminalGet T_MINUTES, ContextGet RuleLow_priority_lock_wait,
     EnterRule, ExitRule, Accept]\<rparr>"

definition Reorganize_partitionContext :: context_class where [context_classes]:
  "Reorganize_partitionContext = \<lparr>class_id = RuleContext RuleReorganize_partition, class_base = ParserRuleContext, members = [
     Constructor, GetRuleIndex, TerminalGet T_REORGANIZE, TerminalGet T_PARTITION,
     TerminalGet T_EQUAL, TerminalGet T_DECIMAL, ContextGet RuleReorganize_options, EnterRule,
     ExitRule, Accept]\<rparr>"

definition Reorganize_optionsContext :: context_class where [context_classes]:
  "Reorganize_optionsContext = \<lparr>class_id = RuleContext RuleReorganize_options, class_base = ParserRuleContext, members = [
     Constructor, GetRuleIndex, TerminalGet T_WITH, TerminalGet T_LR_BRACKET,
     TerminalGet T_RR_BRACKET, ContextAll RuleReorganize_option,
     ContextNth RuleReorganize_option, TerminalAll T_COMMA, TerminalNth T_COMMA, EnterRule,
     ExitRule, Accept]\<rparr>"

definition Reorganize_optionContext :: context_class where [context_classes]:
  "Reorganize_optionContext = \<lparr>class_id = RuleContext RuleReorganize_option, class_base = ParserRuleContext, members = [
     Constructor, GetRuleIndex, TerminalGet T_LOB_COMPACTION, TerminalGet T_EQUAL,
     ContextGet RuleOn_off, TerminalGet T_COMPRESS_ALL_ROW_GROUPS, EnterRule, ExitRule, Accept]\<rparr>"

definition Set_index_optionsContext :: context_class where [context_classes]:
  "Set_index_optionsContext = \<lparr>class_id = RuleContext RuleSet_index_options, class_base = ParserRuleContext, members = [
     Constructor, GetRuleIndex, TerminalGet T_SET, TerminalGet T_LR_BRACKET,
     ContextAll RuleSet_index_option, ContextNth RuleSet_index_option,
     TerminalGet T_RR_BRACKET, TerminalAll T_COMMA, TerminalNth T_COMMA, EnterRule, ExitRule,
     Accept]\<rparr>"

definition Set_index_optionContext :: context_class where [context_classes]:
  "Set_index_optionContext = \<lparr>class_id = RuleContext RuleSet_index_option, class_base = ParserRuleContext, members = [
     TokenField ''delay'', Constructor, GetRuleIndex, TerminalGet T_ALLOW_ROW_LOCKS,
     TerminalGet T_EQUAL, ContextGet RuleOn_off, TerminalGet T_ALLOW_PAGE_LOCKS,
     TerminalGet T_OPTIMIZE_FOR_SEQUENTIAL_KEY, TerminalGet T_IGNORE_DUP_KEY,
     TerminalGet T_STATISTICS_NORECOMPUTE, TerminalGet T_COMPRESSION_DELAY,
     TerminalGet T_DECIMAL, TerminalGet T_MINUTES, EnterRule, ExitRule, Accept]\<rparr>"

definition Rebuild_partitionContext :: context_class where [context_classes]:
  "Rebuild_partitionContext = \<lparr>class_id = RuleContext RuleRebuild_partition, class_base = ParserRuleContext, members = [
     Constructor, GetRuleIndex, TerminalGet T_REBUILD, TerminalGet T_PARTITION,
     TerminalGet T_EQUAL, TerminalGet T_ALL, ContextGet RuleRebuild_index_options,
     TerminalGet T_DECIMAL, ContextGet RuleSingle_partition_rebuild_index_options, EnterRule,
     ExitRule, Accept]\<rparr>"

definition Rebuild_index_optionsContext :: context_class where [context_classes]:
  "Rebuild_index_optionsContext = \<lparr>class_id = RuleContext RuleRebuild_index_options, class_base = ParserRuleContext, members = [
     Constructor, GetRuleIndex, TerminalGet T_WITH, TerminalGet T_LR_BRACKET,
     ContextAll RuleRebuild_index_option, ContextNth RuleRebuild_index_option,
     TerminalGet T_RR_BRACKET, TerminalAll T_COMMA, TerminalNth T_COMMA, EnterRule, ExitRule,
     Accept]\<rparr>"

definition Rebuild_index_optionContext :: context_class where [context_classes]:
  "Rebuild_index_optionContext = \<lparr>class_id = RuleContext RuleRebuild_index_option, class_base = ParserRuleContext, members = [
     TokenField ''times'', TokenField ''max_degree_of_parallelism'', Constructor, GetRuleIndex,
     TerminalGet T_PAD_INDEX, TerminalGet T_EQUAL, ContextGet RuleOn_off,
     TerminalGet T_FILLFACTOR, TerminalGet T_DECIMAL, TerminalGet T_SORT_IN_TEMPDB,
     TerminalGet T_IGNORE_DUP_KEY, TerminalGet T_STATISTICS_NORECOMPUTE,
     TerminalGet T_STATISTICS_INCREMENTAL, TerminalGet T_ONLINE, TerminalGet T_ON,
     TerminalGet T_OFF, TerminalGet T_LR_BRACKET, ContextGet RuleLow_priority_lock_wait,
     TerminalGet T_RR_BRACKET, TerminalGet T_RESUMABLE, TerminalGet T_MAX_DURATION,
     TerminalGet T_MINUTES, TerminalGet T_ALLOW_ROW_LOCKS, TerminalGet T_ALLOW_PAGE_LOCKS,
     TerminalGet T_MAXDOP, TerminalGet T_DATA_COMPRESSION, TerminalGet T_NONE,
     TerminalGet T_ROW, TerminalGet T_PAGE, TerminalGet T_COLUMNSTORE,
     TerminalGet T_COLUMNSTORE_ARCHIVE, ContextGet RuleOn_partitions,
     TerminalGet T_XML_COMPRESSION, EnterRule, ExitRule, Accept]\<rparr>"

definition Single_partition_rebuild_index_optionsContext :: context_class where [context_classes]:
  "Single_partition_rebuild_index_optionsContext = \<lparr>class_id = RuleContext RuleSingle_partition_rebuild_index_options, class_base = ParserRuleContext, members = [
     Constructor, GetRuleIndex, TerminalGet T_WITH, TerminalGet T_LR_BRACKET,
     ContextAll RuleSingle_partition_rebuild_index_option,
     ContextNth RuleSingle_partition_rebuild_index_option, TerminalGet T_RR_BRACKET,
     TerminalAll T_COMMA, TerminalNth T_COMMA, EnterRule, ExitRule, Accept]\<rparr>"

definition Single_partition_rebuild_index_optionContext :: context_class where [context_classes]:
  "Single_partition_rebuild_index_optionContext = \<lparr>class_id = RuleContext RuleSingle_partition_rebuild_index_option, class_base = ParserRuleContext, members = [
     TokenField ''max_degree_of_parallelism'', Constructor, GetRuleIndex,
     TerminalGet T_SORT_IN_TEMPDB, TerminalGet T_EQUAL, ContextGet RuleOn_off,
     TerminalGet T_MAXDOP, TerminalGet T_DECIMAL, TerminalGet T_RESUMABLE,
     TerminalGet T_DATA_COMPRESSION, TerminalGet T_NONE, TerminalGet T_ROW, TerminalGet T_PAGE,
     TerminalGet T_COLUMNSTORE, TerminalGet T_COLUMNSTORE_ARCHIVE,
     ContextGet RuleOn_partitions, TerminalGet T_XML_COMPRESSION, TerminalGet T_ONLINE,
     TerminalGet T_ON, TerminalGet T_OFF, TerminalGet T_LR_BRACKET,
     ContextGet RuleLow_priority_lock_wait, TerminalGet T_RR_BRACKET, EnterRule, ExitRule,
     Accept]\<rparr>"

definition On_partitionsContext :: context_class where [context_classes]:
  "On_partitionsContext = \<lparr>class_id = RuleContext RuleOn_partitions, class_base = ParserRuleContext, members = [
     TokenField ''partition_number'', TokenField ''to_partition_number'', Constructor,
     GetRuleIndex, TerminalGet T_ON, TerminalGet T_PARTITIONS, TerminalGet T_LR_BRACKET,
     TerminalGet T_RR_BRACKET, TerminalAll T_DECIMAL, TerminalNth T_DECIMAL, TerminalAll T_TO,
     TerminalNth T_TO, TerminalAll T_COMMA, TerminalNth T_COMMA, EnterRule, ExitRule, Accept]\<rparr>"

definition Create_columnstore_indexContext :: context_class where [context_classes]:
  "Create_columnstore_indexContext = \<lparr>class_id = RuleContext RuleCreate_columnstore_index, class_base = ParserRuleContext, members = [
     Constructor, GetRuleIndex, TerminalGet T_CREATE, TerminalGet T_CLUSTERED,
     TerminalGet T_COLUMNSTORE, TerminalGet T_INDEX, ContextAll RuleId', ContextNth RuleId',
     TerminalAll T_ON, TerminalNth T_ON, ContextGet RuleTable_name,
     ContextGet RuleCreate_columnstore_index_options, TerminalGet T_SEMI, EnterRule, ExitRule,
     Accept]\<rparr>"

definition Create_columnstore_index_optionsContext :: context_class where [context_classes]:
  "Create_columnstore_index_optionsContext = \<lparr>class_id = RuleContext RuleCreate_columnstore_index_options, class_base = ParserRuleContext, members = [
     Constructor, GetRuleIndex, TerminalGet T_WITH, TerminalGet T_LR_BRACKET,
     ContextAll RuleColumnstore_index_option, ContextNth RuleColumnstore_index_option,
     TerminalGet T_RR_BRACKET, TerminalAll T_COMMA, TerminalNth T_COMMA, EnterRule, ExitRule,
     Accept]\<rparr>"

definition Columnstore_index_optionContext :: context_class where [context_classes]:
  "Columnstore_index_optionContext = \<lparr>class_id = RuleContext RuleColumnstore_index_option, class_base = ParserRuleContext, members = [
     TokenField ''max_degree_of_parallelism'', TokenField ''delay'', Constructor, GetRuleIndex,
     TerminalGet T_DROP_EXISTING, TerminalGet T_EQUAL, ContextGet RuleOn_off,
     TerminalGet T_MAXDOP, TerminalGet T_DECIMAL, TerminalGet T_ONLINE,
     TerminalGet T_COMPRESSION_DELAY, TerminalGet T_MINUTES, TerminalGet T_DATA_COMPRESSION,
     TerminalGet T_COLUMNSTORE, TerminalGet T_COLUMNSTORE_ARCHIVE,
     ContextGet RuleOn_partitions, EnterRule, ExitRule, Accept]\<rparr>"

definition Create_nonclustered_columnstore_indexContext :: context_class where [context_classes]:
  "Create_nonclustered_columnstore_indexContext = \<lparr>class_id = RuleContext RuleCreate_nonclustered_columnstore_index, class_base = ParserRuleContext, members = [
     Constructor, GetRuleIndex, TerminalGet T_CREATE, TerminalGet T_COLUMNSTORE,
     TerminalGet T_INDEX, ContextAll RuleId', ContextNth RuleId', TerminalAll T_ON,
     TerminalNth T_ON, ContextGet RuleTable_name, TerminalGet T_LR_BRACKET,
     ContextGet RuleColumn_name_list_with_order, TerminalGet T_RR_BRACKET,
     TerminalGet T_NONCLUSTERED, TerminalGet T_WHERE, ContextGet RuleSearch_condition,
     ContextGet RuleCreate_columnstore_index_options, TerminalGet T_SEMI, EnterRule, ExitRule,
     Accept]\<rparr>"

definition Create_xml_indexContext :: context_class where [context_classes]:
  "Create_xml_indexContext = \<lparr>class_id = RuleContext RuleCreate_xml_index, class_base = ParserRuleContext, members = [
     Constructor, GetRuleIndex, TerminalGet T_CREATE, TerminalAll T_XML, TerminalNth T_XML,
     TerminalAll T_INDEX, TerminalNth T_INDEX, ContextAll RuleId', ContextNth RuleId',
     TerminalGet T_ON, ContextGet RuleTable_name, TerminalGet T_LR_BRACKET,
     TerminalGet T_RR_BRACKET, TerminalGet T_PRIMARY, TerminalGet T_USING,
     ContextGet RuleXml_index_options, TerminalGet T_SEMI, TerminalGet T_FOR,
     TerminalGet T_VALUE, TerminalGet T_PATH, TerminalGet T_PROPERTY, EnterRule, ExitRule,
     Accept]\<rparr>"

definition Xml_index_optionsContext :: context_class where [context_classes]:
  "Xml_index_optionsContext = \<lparr>class_id = RuleContext RuleXml_index_options, class_base = ParserRuleContext, members = [
     Constructor, GetRuleIndex, TerminalGet T_WITH, TerminalGet T_LR_BRACKET,
     ContextAll RuleXml_index_option, ContextNth RuleXml_index_option,
     TerminalGet T_RR_BRACKET, TerminalAll T_COMMA, TerminalNth T_COMMA, EnterRule, ExitRule,
     Accept]\<rparr>"

definition Xml_index_optionContext :: context_class where [context_classes]:
  "Xml_index_optionContext = \<lparr>class_id = RuleContext RuleXml_index_option, class_base = ParserRuleContext, members = [
     TokenField ''max_degree_of_parallelism'', Constructor, GetRuleIndex,
     TerminalGet T_PAD_INDEX, TerminalGet T_EQUAL, ContextGet RuleOn_off,
     TerminalGet T_FILLFACTOR, TerminalGet T_DECIMAL, TerminalGet T_SORT_IN_TEMPDB,
     TerminalGet T_IGNORE_DUP_KEY, TerminalGet T_DROP_EXISTING, TerminalGet T_ONLINE,
     TerminalGet T_ON, TerminalGet T_OFF, TerminalGet T_LR_BRACKET,
     ContextGet RuleLow_priority_lock_wait, TerminalGet T_RR_BRACKET,
     TerminalGet T_ALLOW_ROW_LOCKS, TerminalGet T_ALLOW_PAGE_LOCKS, TerminalGet T_MAXDOP,
     TerminalGet T_XML_COMPRESSION, EnterRule, ExitRule, Accept]\<rparr>"

definition Create_or_alter_procedureContext :: context_class where [context_classes]:
  "Create_or_alter_procedureContext = \<lparr>class_id = RuleContext RuleCreate_or_alter_procedure, class_base = ParserRuleContext, members = [
     TokenField ''proc'', ContextField ''procName'' RuleFunc_proc_name_schema, Constructor,
     GetRuleIndex, TerminalGet T_AS, ContextGet RuleFunc_proc_name_schema, TerminalGet T_ALTER,
     TerminalGet T_PROC, TerminalGet T_PROCEDURE, ContextGet RuleAs_external_name,
     TerminalGet T_SEMI, TerminalGet T_DECIMAL, ContextAll RuleProcedure_param,
     ContextNth RuleProcedure_param, TerminalGet T_WITH, ContextAll RuleProcedure_option,
     ContextNth RuleProcedure_option, TerminalGet T_FOR, TerminalGet T_REPLICATION,
     TerminalGet T_CREATE, ContextAll RuleSql_clauses, ContextNth RuleSql_clauses,
     TerminalGet T_LR_BRACKET, TerminalAll T_COMMA, TerminalNth T_COMMA,
     TerminalGet T_RR_BRACKET, TerminalGet T_OR, TerminalGet T_REPLACE, EnterRule, ExitRule,
     Accept]\<rparr>"

definition As_external_nameContext :: context_class where [context_classes]:
  "As_external_nameContext = \<lparr>class_id = RuleContext RuleAs_external_name, class_base = ParserRuleContext, members = [
     ContextField ''assembly_name'' RuleId', ContextField ''class_name'' RuleId',
     ContextField ''method_name'' RuleId', Constructor, GetRuleIndex, TerminalGet T_EXTERNAL,
     TerminalGet T_NAME, TerminalAll T_DOT, TerminalNth T_DOT, ContextAll RuleId',
     ContextNth RuleId', EnterRule, ExitRule, Accept]\<rparr>"

definition Create_or_alter_triggerContext :: context_class where [context_classes]:
  "Create_or_alter_triggerContext = \<lparr>class_id = RuleContext RuleCreate_or_alter_trigger, class_base = ParserRuleContext, members = [
     Constructor, GetRuleIndex, ContextGet RuleCreate_or_alter_dml_trigger,
     ContextGet RuleCreate_or_alter_ddl_trigger, EnterRule, ExitRule, Accept]\<rparr>"

definition Create_or_alter_dml_triggerContext :: context_class where [context_classes]:
  "Create_or_alter_dml_triggerContext = \<lparr>class_id = RuleContext RuleCreate_or_alter_dml_trigger, class_base = ParserRuleContext, members = [
     Constructor, GetRuleIndex, TerminalGet T_TRIGGER, ContextGet RuleSimple_name,
     TerminalGet T_ON, ContextGet RuleTable_name, ContextAll RuleDml_trigger_operation,
     ContextNth RuleDml_trigger_operation, TerminalGet T_AS, TerminalGet T_CREATE,
     TerminalGet T_ALTER, TerminalAll T_FOR, TerminalNth T_FOR, TerminalGet T_AFTER,
     TerminalGet T_INSTEAD, TerminalGet T_OF, TerminalAll T_WITH, TerminalNth T_WITH,
     ContextAll RuleDml_trigger_option, ContextNth RuleDml_trigger_option, TerminalAll T_COMMA,
     TerminalNth T_COMMA, TerminalGet T_APPEND, TerminalGet T_NOT, TerminalGet T_REPLICATION,
     ContextAll RuleSql_clauses, ContextNth RuleSql_clauses, TerminalGet T_OR,
     TerminalGet T_REPLACE, EnterRule, ExitRule, Accept]\<rparr>"

definition Dml_trigger_optionContext :: context_class where [context_classes]:
  "Dml_trigger_optionContext = \<lparr>class_id = RuleContext RuleDml_trigger_option, class_base = ParserRuleContext, members = [
     Constructor, GetRuleIndex, TerminalGet T_ENCRYPTION, ContextGet RuleExecute_clause,
     EnterRule, ExitRule, Accept]\<rparr>"

definition Dml_trigger_operationContext :: context_class where [context_classes]:
  "Dml_trigger_operationContext = \<lparr>class_id = RuleContext RuleDml_trigger_operation, class_base = ParserRuleContext, members = [
     Constructor, GetRuleIndex, TerminalGet T_INSERT, TerminalGet T_UPDATE,
     TerminalGet T_DELETE, EnterRule, ExitRule, Accept]\<rparr>"

definition Create_or_alter_ddl_triggerContext :: context_class where [context_classes]:
  "Create_or_alter_ddl_triggerContext = \<lparr>class_id = RuleContext RuleCreate_or_alter_ddl_trigger, class_base = ParserRuleContext, members = [
     Constructor, GetRuleIndex, TerminalGet T_TRIGGER, ContextGet RuleSimple_name,
     TerminalGet T_ON, ContextAll RuleDdl_trigger_operation,
     ContextNth RuleDdl_trigger_operation, TerminalGet T_AS, TerminalGet T_FOR,
     TerminalGet T_AFTER, TerminalGet T_CREATE, TerminalGet T_ALTER, TerminalGet T_ALL,
     TerminalGet T_SERVER, TerminalGet T_DATABASE, TerminalGet T_WITH,
     ContextAll RuleDml_trigger_option, ContextNth RuleDml_trigger_option, TerminalAll T_COMMA,
     TerminalNth T_COMMA, ContextAll RuleSql_clauses, ContextNth RuleSql_clauses,
     TerminalGet T_OR, TerminalGet T_REPLACE, EnterRule, ExitRule, Accept]\<rparr>"

definition Ddl_trigger_operationContext :: context_class where [context_classes]:
  "Ddl_trigger_operationContext = \<lparr>class_id = RuleContext RuleDdl_trigger_operation, class_base = ParserRuleContext, members = [
     Constructor, GetRuleIndex, ContextGet RuleSimple_id, EnterRule, ExitRule, Accept]\<rparr>"

definition Create_or_alter_functionContext :: context_class where [context_classes]:
  "Create_or_alter_functionContext = \<lparr>class_id = RuleContext RuleCreate_or_alter_function, class_base = ParserRuleContext, members = [
     ContextField ''funcName'' RuleFunc_proc_name_schema, Constructor, GetRuleIndex,
     TerminalGet T_FUNCTION, ContextGet RuleFunc_proc_name_schema, TerminalGet T_ALTER,
     TerminalGet T_LR_BRACKET, TerminalGet T_RR_BRACKET,
     ContextGet RuleFunc_body_returns_select, ContextGet RuleFunc_body_returns_table,
     ContextGet RuleFunc_body_returns_scalar, TerminalGet T_SEMI, TerminalGet T_CREATE,
     ContextAll RuleProcedure_param, ContextNth RuleProcedure_param, TerminalGet T_OR,
     TerminalAll T_COMMA, TerminalNth T_COMMA, EnterRule, ExitRule, Accept]\<rparr>"

definition Func_body_returns_selectContext :: context_class where [context_classes]:
  "Func_body_returns_selectContext = \<lparr>class_id = RuleContext RuleFunc_body_returns_select, class_base = ParserRuleContext, members = [
     Constructor, GetRuleIndex, TerminalGet T_RETURNS, TerminalGet T_TABLE,
     ContextGet RuleAs_external_name, TerminalGet T_RETURN, TerminalGet T_WITH,
     ContextAll RuleFunction_option, ContextNth RuleFunction_option, TerminalGet T_AS,
     TerminalGet T_LR_BRACKET, ContextGet RuleSelect_statement_standalone,
     TerminalGet T_RR_BRACKET, TerminalAll T_COMMA, TerminalNth T_COMMA, EnterRule, ExitRule,
     Accept]\<rparr>"

definition Func_body_returns_tableContext :: context_class where [context_classes]:
  "Func_body_returns_tableContext = \<lparr>class_id = RuleContext RuleFunc_body_returns_table, class_base = ParserRuleContext, members = [
     Constructor, GetRuleIndex, TerminalGet T_RETURNS, TerminalGet T_LOCAL_ID,
     ContextGet RuleTable_type_definition, ContextGet RuleAs_external_name,
     TerminalGet T_BEGIN, TerminalGet T_RETURN, TerminalGet T_END, TerminalGet T_WITH,
     ContextAll RuleFunction_option, ContextNth RuleFunction_option, TerminalGet T_AS,
     ContextAll RuleSql_clauses, ContextNth RuleSql_clauses, TerminalAll T_SEMI,
     TerminalNth T_SEMI, TerminalAll T_COMMA, TerminalNth T_COMMA, EnterRule, ExitRule, Accept]\<rparr>"

definition Func_body_returns_scalarContext :: context_class where [context_classes]:
  "Func_body_returns_scalarContext = \<lparr>class_id = RuleContext RuleFunc_body_returns_scalar, class_base = ParserRuleContext, members = [
     ContextField ''ret'' RuleExpression, Constructor, GetRuleIndex, TerminalGet T_RETURNS,
     ContextGet RuleData_type, ContextGet RuleAs_external_name, TerminalGet T_BEGIN,
     TerminalGet T_RETURN, TerminalGet T_END, TerminalGet T_WITH,
     ContextAll RuleFunction_option, ContextNth RuleFunction_option, TerminalGet T_AS,
     ContextGet RuleExpression, ContextAll RuleSql_clauses, ContextNth RuleSql_clauses,
     TerminalGet T_SEMI, TerminalAll T_COMMA, TerminalNth T_COMMA, EnterRule, ExitRule, Accept]\<rparr>"

definition Procedure_param_default_valueContext :: context_class where [context_classes]:
  "Procedure_param_default_valueContext = \<lparr>class_id = RuleContext RuleProcedure_param_default_value, class_base = ParserRuleContext, members = [
     Constructor, GetRuleIndex, TerminalGet T_NULL', TerminalGet T_DEFAULT,
     ContextGet RuleConstant, TerminalGet T_LOCAL_ID, EnterRule, ExitRule, Accept]\<rparr>"

definition Procedure_paramContext :: context_class where [context_classes]:
  "Procedure_paramContext = \<lparr>class_id = RuleContext RuleProcedure_param, class_base = ParserRuleContext, members = [
     ContextField ''type_schema'' RuleId',
     ContextField ''default_val'' RuleProcedure_param_default_value, Constructor, GetRuleIndex,
     TerminalGet T_LOCAL_ID, ContextGet RuleData_type, TerminalGet T_AS, TerminalGet T_DOT,
     TerminalGet T_VARYING, TerminalGet T_EQUAL, ContextGet RuleId',
     ContextGet RuleProcedure_param_default_value, TerminalGet T_OUT, TerminalGet T_OUTPUT,
     TerminalGet T_READONLY, EnterRule, ExitRule, Accept]\<rparr>"

definition Procedure_optionContext :: context_class where [context_classes]:
  "Procedure_optionContext = \<lparr>class_id = RuleContext RuleProcedure_option, class_base = ParserRuleContext, members = [
     Constructor, GetRuleIndex, TerminalGet T_ENCRYPTION, TerminalGet T_RECOMPILE,
     ContextGet RuleExecute_clause, EnterRule, ExitRule, Accept]\<rparr>"

definition Function_optionContext :: context_class where [context_classes]:
  "Function_optionContext = \<lparr>class_id = RuleContext RuleFunction_option, class_base = ParserRuleContext, members = [
     Constructor, GetRuleIndex, TerminalGet T_ENCRYPTION, TerminalGet T_SCHEMABINDING,
     TerminalGet T_RETURNS, TerminalAll T_NULL', TerminalNth T_NULL', TerminalGet T_ON,
     TerminalGet T_INPUT, TerminalGet T_CALLED, ContextGet RuleExecute_clause, EnterRule,
     ExitRule, Accept]\<rparr>"

definition Create_statisticsContext :: context_class where [context_classes]:
  "Create_statisticsContext = \<lparr>class_id = RuleContext RuleCreate_statistics, class_base = ParserRuleContext, members = [
     Constructor, GetRuleIndex, TerminalGet T_CREATE, TerminalGet T_STATISTICS,
     ContextGet RuleId', TerminalGet T_ON, ContextGet RuleTable_name, TerminalGet T_LR_BRACKET,
     ContextGet RuleColumn_name_list, TerminalGet T_RR_BRACKET, TerminalGet T_WITH,
     TerminalGet T_SEMI, TerminalGet T_FULLSCAN, TerminalGet T_SAMPLE, TerminalGet T_DECIMAL,
     TerminalGet T_STATS_STREAM, TerminalGet T_PERCENT, TerminalGet T_ROWS,
     TerminalAll T_COMMA, TerminalNth T_COMMA, TerminalGet T_NORECOMPUTE,
     TerminalGet T_INCREMENTAL, TerminalGet T_EQUAL, ContextGet RuleOn_off, EnterRule,
     ExitRule, Accept]\<rparr>"

definition Update_statisticsContext :: context_class where [context_classes]:
  "Update_statisticsContext = \<lparr>class_id = RuleContext RuleUpdate_statistics, class_base = ParserRuleContext, members = [
     Constructor, GetRuleIndex, TerminalGet T_UPDATE, TerminalGet T_STATISTICS,
     ContextGet RuleFull_table_name, ContextAll RuleId', ContextNth RuleId',
     TerminalGet T_LR_BRACKET, TerminalGet T_RR_BRACKET,
     ContextGet RuleUpdate_statistics_options, TerminalAll T_COMMA, TerminalNth T_COMMA,
     EnterRule, ExitRule, Accept]\<rparr>"

definition Update_statistics_optionsContext :: context_class where [context_classes]:
  "Update_statistics_optionsContext = \<lparr>class_id = RuleContext RuleUpdate_statistics_options, class_base = ParserRuleContext, members = [
     Constructor, GetRuleIndex, TerminalGet T_WITH, ContextAll RuleUpdate_statistics_option,
     ContextNth RuleUpdate_statistics_option, TerminalAll T_COMMA, TerminalNth T_COMMA,
     EnterRule, ExitRule, Accept]\<rparr>"

definition Update_statistics_optionContext :: context_class where [context_classes]:
  "Update_statistics_optionContext = \<lparr>class_id = RuleContext RuleUpdate_statistics_option, class_base = ParserRuleContext, members = [
     TokenField ''number'', ContextField ''stats_stream_'' RuleExpression,
     TokenField ''max_dregree_of_parallelism'', Constructor, GetRuleIndex,
     TerminalGet T_FULLSCAN, TerminalGet T_PERSIST_SAMPLE_PERCENT, TerminalGet T_EQUAL,
     ContextGet RuleOn_off, TerminalGet T_COMMA, TerminalGet T_SAMPLE, TerminalGet T_DECIMAL,
     TerminalGet T_PERCENT, TerminalGet T_ROWS, TerminalGet T_RESAMPLE,
     ContextGet RuleOn_partitions, TerminalGet T_STATS_STREAM, ContextGet RuleExpression,
     TerminalGet T_ROWCOUNT, TerminalGet T_PAGECOUNT, TerminalGet T_ALL, TerminalGet T_COLUMNS,
     TerminalGet T_INDEX, TerminalGet T_NORECOMPUTE, TerminalGet T_INCREMENTAL,
     TerminalGet T_MAXDOP, TerminalGet T_AUTO_DROP, EnterRule, ExitRule, Accept]\<rparr>"

definition Create_tableContext :: context_class where [context_classes]:
  "Create_tableContext = \<lparr>class_id = RuleContext RuleCreate_table, class_base = ParserRuleContext, members = [
     Constructor, GetRuleIndex, TerminalGet T_CREATE, TerminalGet T_TABLE,
     ContextGet RuleTable_name, TerminalGet T_LR_BRACKET,
     ContextGet RuleColumn_def_table_constraints, TerminalGet T_RR_BRACKET,
     ContextAll RuleTable_indices, ContextNth RuleTable_indices, TerminalAll T_COMMA,
     TerminalNth T_COMMA, TerminalGet T_LOCK, ContextGet RuleSimple_id,
     ContextAll RuleTable_options, ContextNth RuleTable_options, TerminalGet T_ON,
     ContextAll RuleId', ContextNth RuleId', TerminalAll T_DEFAULT, TerminalNth T_DEFAULT,
     ContextGet RuleOn_partition_or_filegroup, TerminalGet T_TEXTIMAGE_ON, TerminalGet T_SEMI,
     EnterRule, ExitRule, Accept]\<rparr>"

definition Table_indicesContext :: context_class where [context_classes]:
  "Table_indicesContext = \<lparr>class_id = RuleContext RuleTable_indices, class_base = ParserRuleContext, members = [
     Constructor, GetRuleIndex, TerminalGet T_INDEX, ContextAll RuleId', ContextNth RuleId',
     TerminalGet T_LR_BRACKET, ContextGet RuleColumn_name_list_with_order,
     TerminalGet T_RR_BRACKET, TerminalGet T_UNIQUE, ContextGet RuleClustered,
     TerminalGet T_CLUSTERED, TerminalGet T_COLUMNSTORE, ContextGet RuleColumn_name_list,
     TerminalGet T_NONCLUSTERED, ContextGet RuleCreate_table_index_options, TerminalGet T_ON,
     EnterRule, ExitRule, Accept]\<rparr>"

definition Table_optionsContext :: context_class where [context_classes]:
  "Table_optionsContext = \<lparr>class_id = RuleContext RuleTable_options, class_base = ParserRuleContext, members = [
     Constructor, GetRuleIndex, TerminalGet T_WITH, TerminalGet T_LR_BRACKET,
     ContextAll RuleTable_option, ContextNth RuleTable_option, TerminalGet T_RR_BRACKET,
     TerminalAll T_COMMA, TerminalNth T_COMMA, EnterRule, ExitRule, Accept]\<rparr>"

definition Table_optionContext :: context_class where [context_classes]:
  "Table_optionContext = \<lparr>class_id = RuleContext RuleTable_option, class_base = ParserRuleContext, members = [
     Constructor, GetRuleIndex, TerminalGet T_EQUAL, ContextAll RuleSimple_id,
     ContextNth RuleSimple_id, ContextAll RuleKeyword, ContextNth RuleKeyword,
     ContextGet RuleOn_off, TerminalGet T_DECIMAL, TerminalGet T_CLUSTERED,
     TerminalGet T_COLUMNSTORE, TerminalGet T_INDEX, TerminalGet T_HEAP,
     TerminalGet T_FILLFACTOR, TerminalGet T_DISTRIBUTION, TerminalGet T_HASH,
     TerminalGet T_LR_BRACKET, ContextAll RuleId', ContextNth RuleId',
     TerminalGet T_RR_BRACKET, TerminalAll T_COMMA, TerminalNth T_COMMA, TerminalAll T_ASC,
     TerminalNth T_ASC, TerminalAll T_DESC, TerminalNth T_DESC, TerminalGet T_DATA_COMPRESSION,
     TerminalGet T_NONE, TerminalGet T_ROW, TerminalGet T_PAGE, ContextGet RuleOn_partitions,
     TerminalGet T_XML_COMPRESSION, EnterRule, ExitRule, Accept]\<rparr>"

definition Create_table_index_optionsContext :: context_class where [context_classes]:
  "Create_table_index_optionsContext = \<lparr>class_id = RuleContext RuleCreate_table_index_options, class_base = ParserRuleContext, members = [
     Constructor, GetRuleIndex, TerminalGet T_WITH, TerminalGet T_LR_BRACKET,
     ContextAll RuleCreate_table_index_option, ContextNth RuleCreate_table_index_option,
     TerminalGet T_RR_BRACKET, TerminalAll T_COMMA, TerminalNth T_COMMA, EnterRule, ExitRule,
     Accept]\<rparr>"

definition Create_table_index_optionContext :: context_class where [context_classes]:
  "Create_table_index_optionContext = \<lparr>class_id = RuleContext RuleCreate_table_index_option, class_base = ParserRuleContext, members = [
     Constructor, GetRuleIndex, TerminalGet T_PAD_INDEX, TerminalGet T_EQUAL,
     ContextGet RuleOn_off, TerminalGet T_FILLFACTOR, TerminalGet T_DECIMAL,
     TerminalGet T_IGNORE_DUP_KEY, TerminalGet T_STATISTICS_NORECOMPUTE,
     TerminalGet T_STATISTICS_INCREMENTAL, TerminalGet T_ALLOW_ROW_LOCKS,
     TerminalGet T_ALLOW_PAGE_LOCKS, TerminalGet T_OPTIMIZE_FOR_SEQUENTIAL_KEY,
     TerminalGet T_DATA_COMPRESSION, TerminalGet T_NONE, TerminalGet T_ROW, TerminalGet T_PAGE,
     TerminalGet T_COLUMNSTORE, TerminalGet T_COLUMNSTORE_ARCHIVE,
     ContextGet RuleOn_partitions, TerminalGet T_XML_COMPRESSION, EnterRule, ExitRule, Accept]\<rparr>"

definition Create_viewContext :: context_class where [context_classes]:
  "Create_viewContext = \<lparr>class_id = RuleContext RuleCreate_view, class_base = ParserRuleContext, members = [
     Constructor, GetRuleIndex, TerminalGet T_VIEW, ContextGet RuleSimple_name,
     TerminalGet T_AS, ContextGet RuleSelect_statement_standalone, TerminalGet T_CREATE,
     TerminalGet T_ALTER, TerminalGet T_LR_BRACKET, ContextGet RuleColumn_name_list,
     TerminalGet T_RR_BRACKET, TerminalAll T_WITH, TerminalNth T_WITH,
     ContextAll RuleView_attribute, ContextNth RuleView_attribute, TerminalGet T_CHECK,
     TerminalGet T_OPTION, TerminalGet T_SEMI, TerminalGet T_OR, TerminalGet T_REPLACE,
     TerminalAll T_COMMA, TerminalNth T_COMMA, EnterRule, ExitRule, Accept]\<rparr>"

definition View_attributeContext :: context_class where [context_classes]:
  "View_attributeContext = \<lparr>class_id = RuleContext RuleView_attribute, class_base = ParserRuleContext, members = [
     Constructor, GetRuleIndex, TerminalGet T_ENCRYPTION, TerminalGet T_SCHEMABINDING,
     TerminalGet T_VIEW_METADATA, EnterRule, ExitRule, Accept]\<rparr>"

definition Alter_tableContext :: context_class where [context_classes]:
  "Alter_tableContext = \<lparr>class_id = RuleContext RuleAlter_table, class_base = ParserRuleContext, members = [
     ContextField ''constraint'' RuleId', ContextField ''fk'' RuleColumn_name_list,
     ContextField ''pk'' RuleColumn_name_list, Constructor, GetRuleIndex, TerminalAll T_ALTER,
     TerminalNth T_ALTER, TerminalAll T_TABLE, TerminalNth T_TABLE, ContextAll RuleTable_name,
     ContextNth RuleTable_name, TerminalGet T_SET, TerminalAll T_LR_BRACKET,
     TerminalNth T_LR_BRACKET, TerminalGet T_LOCK_ESCALATION, TerminalGet T_EQUAL,
     TerminalAll T_RR_BRACKET, TerminalNth T_RR_BRACKET, TerminalGet T_ADD,
     ContextGet RuleColumn_def_table_constraints, TerminalGet T_COLUMN, TerminalGet T_DROP,
     ContextAll RuleId', ContextNth RuleId', TerminalGet T_CONSTRAINT, TerminalGet T_WITH,
     TerminalGet T_TRIGGER, TerminalGet T_REBUILD, ContextGet RuleTable_options,
     TerminalGet T_SWITCH, ContextGet RuleSwitch_partition, TerminalGet T_AUTO,
     TerminalGet T_DISABLE, TerminalAll T_CHECK, TerminalNth T_CHECK, TerminalGet T_NOCHECK,
     TerminalGet T_ENABLE, TerminalGet T_SEMI, ContextGet RuleColumn_definition,
     ContextGet RuleColumn_modifier, TerminalGet T_FOREIGN, TerminalGet T_KEY,
     TerminalGet T_REFERENCES, ContextGet RuleSearch_condition, TerminalAll T_COMMA,
     TerminalNth T_COMMA, ContextAll RuleColumn_name_list, ContextNth RuleColumn_name_list,
     ContextAll RuleOn_delete, ContextNth RuleOn_delete, ContextAll RuleOn_update,
     ContextNth RuleOn_update, EnterRule, ExitRule, Accept]\<rparr>"

definition Switch_partitionContext :: context_class where [context_classes]:
  "Switch_partitionContext = \<lparr>class_id = RuleContext RuleSwitch_partition, class_base = ParserRuleContext, members = [
     ContextField ''source_partition_number_expression'' RuleExpression,
     ContextField ''target_table'' RuleTable_name,
     ContextField ''target_partition_number_expression'' RuleExpression, Constructor,
     GetRuleIndex, TerminalGet T_TO, ContextGet RuleTable_name, TerminalAll T_PARTITION,
     TerminalNth T_PARTITION, TerminalGet T_WITH, ContextGet RuleLow_priority_lock_wait,
     ContextAll RuleExpression, ContextNth RuleExpression, EnterRule, ExitRule, Accept]\<rparr>"

definition Low_priority_lock_waitContext :: context_class where [context_classes]:
  "Low_priority_lock_waitContext = \<lparr>class_id = RuleContext RuleLow_priority_lock_wait, class_base = ParserRuleContext, members = [
     ContextField ''max_duration'' RuleTime, TokenField ''abort_after_wait'', Constructor,
     GetRuleIndex, TerminalGet T_WAIT_AT_LOW_PRIORITY, TerminalGet T_LR_BRACKET,
     TerminalGet T_MAX_DURATION, TerminalAll T_EQUAL, TerminalNth T_EQUAL, TerminalGet T_COMMA,
     TerminalGet T_ABORT_AFTER_WAIT, TerminalGet T_RR_BRACKET, ContextGet RuleTime,
     TerminalGet T_NONE, TerminalGet T_SELF, TerminalGet T_BLOCKERS, TerminalGet T_MINUTES,
     EnterRule, ExitRule, Accept]\<rparr>"

definition Alter_databaseContext :: context_class where [context_classes]:
  "Alter_databaseContext = \<lparr>class_id = RuleContext RuleAlter_database, class_base = ParserRuleContext, members = [
     ContextField ''database'' RuleId', ContextField ''new_name'' RuleId',
     ContextField ''collation'' RuleId', Constructor, GetRuleIndex, TerminalGet T_ALTER,
     TerminalGet T_DATABASE, TerminalGet T_CURRENT, TerminalGet T_MODIFY, TerminalGet T_NAME,
     TerminalGet T_EQUAL, TerminalGet T_COLLATE, TerminalGet T_SET,
     ContextGet RuleDatabase_optionspec, ContextGet RuleAdd_or_modify_files,
     ContextGet RuleAdd_or_modify_filegroups, ContextAll RuleId', ContextNth RuleId',
     TerminalGet T_SEMI, TerminalGet T_WITH, ContextGet RuleTermination, EnterRule, ExitRule,
     Accept]\<rparr>"

definition Add_or_modify_filesContext :: context_class where [context_classes]:
  "Add_or_modify_filesContext = \<lparr>class_id = RuleContext RuleAdd_or_modify_files, class_base = ParserRuleContext, members = [
     ContextField ''filegroup_name'' RuleId', ContextField ''logical_file_name'' RuleId',
     Constructor, GetRuleIndex, TerminalGet T_ADD, TerminalGet T_FILE, ContextAll RuleFilespec,
     ContextNth RuleFilespec, TerminalAll T_COMMA, TerminalNth T_COMMA, TerminalGet T_TO,
     TerminalGet T_FILEGROUP, ContextGet RuleId', TerminalGet T_LOG, TerminalGet T_REMOVE,
     TerminalGet T_MODIFY, EnterRule, ExitRule, Accept]\<rparr>"

definition FilespecContext :: context_class where [context_classes]:
  "FilespecContext = \<lparr>class_id = RuleContext RuleFilespec, class_base = ParserRuleContext, members = [
     ContextField ''name'' RuleId_or_string, ContextField ''new_name'' RuleId_or_string,
     TokenField ''file_name'', ContextField ''size'' RuleFile_size,
     ContextField ''max_size'' RuleFile_size, ContextField ''growth_increment'' RuleFile_size,
     Constructor, GetRuleIndex, TerminalGet T_LR_BRACKET, TerminalGet T_NAME,
     TerminalAll T_EQUAL, TerminalNth T_EQUAL, TerminalGet T_RR_BRACKET,
     ContextAll RuleId_or_string, ContextNth RuleId_or_string, TerminalAll T_COMMA,
     TerminalNth T_COMMA, TerminalGet T_NEWNAME, TerminalGet T_FILENAME, TerminalGet T_SIZE,
     TerminalGet T_MAXSIZE, TerminalGet T_UNLIMITED, TerminalGet T_FILEGROWTH,
     TerminalGet T_OFFLINE, TerminalGet T_STRING, ContextAll RuleFile_size,
     ContextNth RuleFile_size, EnterRule, ExitRule, Accept]\<rparr>"

definition Add_or_modify_filegroupsContext :: context_class where [context_classes]:
  "Add_or_modify_filegroupsContext = \<lparr>class_id = RuleContext RuleAdd_or_modify_filegroups, class_base = ParserRuleContext, members = [
     ContextField ''filegroup_name'' RuleId', ContextField ''filegrou_name'' RuleId',
     ContextField ''new_filegroup_name'' RuleId', Constructor, GetRuleIndex, TerminalGet T_ADD,
     TerminalGet T_FILEGROUP, ContextAll RuleId', ContextNth RuleId', TerminalGet T_CONTAINS,
     TerminalGet T_FILESTREAM, TerminalGet T_MEMORY_OPTIMIZED_DATA, TerminalGet T_REMOVE,
     TerminalGet T_MODIFY, ContextGet RuleFilegroup_updatability_option, TerminalGet T_DEFAULT,
     TerminalGet T_NAME, TerminalGet T_EQUAL, TerminalGet T_AUTOGROW_SINGLE_FILE,
     TerminalGet T_AUTOGROW_ALL_FILES, EnterRule, ExitRule, Accept]\<rparr>"

definition Filegroup_updatability_optionContext :: context_class where [context_classes]:
  "Filegroup_updatability_optionContext = \<lparr>class_id = RuleContext RuleFilegroup_updatability_option, class_base = ParserRuleContext, members = [
     Constructor, GetRuleIndex, TerminalGet T_READONLY, TerminalGet T_READWRITE,
     TerminalGet T_READ_ONLY, TerminalGet T_READ_WRITE, EnterRule, ExitRule, Accept]\<rparr>"

definition Database_optionspecContext :: context_class where [context_classes]:
  "Database_optionspecContext = \<lparr>class_id = RuleContext RuleDatabase_optionspec, class_base = ParserRuleContext, members = [
     Constructor, GetRuleIndex, ContextGet RuleAuto_option,
     ContextGet RuleChange_tracking_option, ContextGet RuleContainment_option,
     ContextGet RuleCursor_option, ContextGet RuleDatabase_mirroring_option,
     ContextGet RuleDate_correlation_optimization_option, ContextGet RuleDb_encryption_option,
     ContextGet RuleDb_state_option, ContextGet RuleDb_update_option,
     ContextGet RuleDb_user_access_option, ContextGet RuleDelayed_durability_option,
     ContextGet RuleExternal_access_option, TerminalGet T_FILESTREAM,
     ContextGet RuleDatabase_filestream_option, ContextGet RuleHadr_options,
     ContextGet RuleMixed_page_allocation_option, ContextGet RuleParameterization_option,
     ContextGet RuleRecovery_option, ContextGet RuleService_broker_option,
     ContextGet RuleSnapshot_option, ContextGet RuleSql_option,
     ContextGet RuleTarget_recovery_time_option, ContextGet RuleTermination, EnterRule,
     ExitRule, Accept]\<rparr>"

definition Auto_optionContext :: context_class where [context_classes]:
  "Auto_optionContext = \<lparr>class_id = RuleContext RuleAuto_option, class_base = ParserRuleContext, members = [
     Constructor, GetRuleIndex, TerminalGet T_AUTO_CLOSE, ContextGet RuleOn_off,
     TerminalGet T_AUTO_CREATE_STATISTICS, TerminalGet T_OFF, TerminalAll T_ON,
     TerminalNth T_ON, TerminalGet T_INCREMENTAL, TerminalGet T_EQUAL,
     TerminalGet T_AUTO_SHRINK, TerminalGet T_AUTO_UPDATE_STATISTICS,
     TerminalGet T_AUTO_UPDATE_STATISTICS_ASYNC, EnterRule, ExitRule, Accept]\<rparr>"

definition Change_tracking_optionContext :: context_class where [context_classes]:
  "Change_tracking_optionContext = \<lparr>class_id = RuleContext RuleChange_tracking_option, class_base = ParserRuleContext, members = [
     Constructor, GetRuleIndex, TerminalGet T_CHANGE_TRACKING, TerminalGet T_EQUAL,
     TerminalGet T_OFF, TerminalGet T_ON, TerminalGet T_LR_BRACKET, TerminalGet T_RR_BRACKET,
     ContextAll RuleChange_tracking_option_list, ContextNth RuleChange_tracking_option_list,
     TerminalAll T_COMMA, TerminalNth T_COMMA, EnterRule, ExitRule, Accept]\<rparr>"

definition Change_tracking_option_listContext :: context_class where [context_classes]:
  "Change_tracking_option_listContext = \<lparr>class_id = RuleContext RuleChange_tracking_option_list, class_base = ParserRuleContext, members = [
     Constructor, GetRuleIndex, TerminalGet T_AUTO_CLEANUP, TerminalGet T_EQUAL,
     ContextGet RuleOn_off, TerminalGet T_CHANGE_RETENTION, TerminalGet T_DECIMAL,
     TerminalGet T_DAYS, TerminalGet T_HOURS, TerminalGet T_MINUTES, EnterRule, ExitRule,
     Accept]\<rparr>"

definition Containment_optionContext :: context_class where [context_classes]:
  "Containment_optionContext = \<lparr>class_id = RuleContext RuleContainment_option, class_base = ParserRuleContext, members = [
     Constructor, GetRuleIndex, TerminalGet T_CONTAINMENT, TerminalGet T_EQUAL,
     TerminalGet T_NONE, TerminalGet T_PARTIAL, EnterRule, ExitRule, Accept]\<rparr>"

definition Cursor_optionContext :: context_class where [context_classes]:
  "Cursor_optionContext = \<lparr>class_id = RuleContext RuleCursor_option, class_base = ParserRuleContext, members = [
     Constructor, GetRuleIndex, TerminalGet T_CURSOR_CLOSE_ON_COMMIT, ContextGet RuleOn_off,
     TerminalGet T_CURSOR_DEFAULT, TerminalGet T_LOCAL, TerminalGet T_GLOBAL, EnterRule,
     ExitRule, Accept]\<rparr>"

definition Alter_endpointContext :: context_class where [context_classes]:
  "Alter_endpointContext = \<lparr>class_id = RuleContext RuleAlter_endpoint, class_base = ParserRuleContext, members = [
     ContextField ''endpointname'' RuleId', ContextField ''login'' RuleId',
     TokenField ''state'', Constructor, GetRuleIndex, TerminalGet T_ALTER,
     TerminalGet T_ENDPOINT, TerminalGet T_AS, TerminalGet T_TCP, TerminalAll T_LR_BRACKET,
     TerminalNth T_LR_BRACKET, ContextGet RuleEndpoint_listener_clause,
     TerminalAll T_RR_BRACKET, TerminalNth T_RR_BRACKET, ContextAll RuleId',
     ContextNth RuleId', TerminalGet T_FOR, TerminalGet T_TSQL, TerminalGet T_SERVICE_BROKER,
     ContextGet RuleEndpoint_authentication_clause, TerminalGet T_DATABASE_MIRRORING,
     TerminalGet T_ROLE, TerminalAll T_EQUAL, TerminalNth T_EQUAL, TerminalGet T_AUTHORIZATION,
     TerminalGet T_STATE, TerminalGet T_WITNESS, TerminalGet T_PARTNER, TerminalGet T_ALL,
     TerminalGet T_STARTED, TerminalGet T_STOPPED, TerminalAll T_DISABLED,
     TerminalNth T_DISABLED, ContextGet RuleEndpoint_encryption_alogorithm_clause,
     TerminalGet T_MESSAGE_FORWARDING, TerminalGet T_MESSAGE_FORWARD_SIZE,
     TerminalGet T_DECIMAL, TerminalAll T_COMMA, TerminalNth T_COMMA, TerminalGet T_ENABLED,
     EnterRule, ExitRule, Accept]\<rparr>"

definition Database_mirroring_optionContext :: context_class where [context_classes]:
  "Database_mirroring_optionContext = \<lparr>class_id = RuleContext RuleDatabase_mirroring_option, class_base = ParserRuleContext, members = [
     Constructor, GetRuleIndex, ContextGet RuleMirroring_set_option, EnterRule, ExitRule,
     Accept]\<rparr>"

definition Mirroring_set_optionContext :: context_class where [context_classes]:
  "Mirroring_set_optionContext = \<lparr>class_id = RuleContext RuleMirroring_set_option, class_base = ParserRuleContext, members = [
     Constructor, GetRuleIndex, ContextGet RuleMirroring_partner,
     ContextGet RulePartner_option, ContextGet RuleMirroring_witness,
     ContextGet RuleWitness_option, EnterRule, ExitRule, Accept]\<rparr>"

definition Mirroring_partnerContext :: context_class where [context_classes]:
  "Mirroring_partnerContext = \<lparr>class_id = RuleContext RuleMirroring_partner, class_base = ParserRuleContext, members = [
     Constructor, GetRuleIndex, TerminalGet T_PARTNER, EnterRule, ExitRule, Accept]\<rparr>"

definition Mirroring_witnessContext :: context_class where [context_classes]:
  "Mirroring_witnessContext = \<lparr>class_id = RuleContext RuleMirroring_witness, class_base = ParserRuleContext, members = [
     Constructor, GetRuleIndex, TerminalGet T_WITNESS, EnterRule, ExitRule, Accept]\<rparr>"

definition Witness_partner_equalContext :: context_class where [context_classes]:
  "Witness_partner_equalContext = \<lparr>class_id = RuleContext RuleWitness_partner_equal, class_base = ParserRuleContext, members = [
     Constructor, GetRuleIndex, TerminalGet T_EQUAL, EnterRule, ExitRule, Accept]\<rparr>"

definition Partner_optionContext :: context_class where [context_classes]:
  "Partner_optionContext = \<lparr>class_id = RuleContext RulePartner_option, class_base = ParserRuleContext, members = [
     Constructor, GetRuleIndex, ContextGet RuleWitness_partner_equal,
     ContextGet RulePartner_server, TerminalGet T_FAILOVER,
     TerminalGet T_FORCE_SERVICE_ALLOW_DATA_LOSS, TerminalGet T_OFF, TerminalGet T_RESUME,
     TerminalGet T_SAFETY, TerminalGet T_FULL, TerminalGet T_SUSPEND, TerminalGet T_TIMEOUT,
     TerminalGet T_DECIMAL, EnterRule, ExitRule, Accept]\<rparr>"

definition Witness_optionContext :: context_class where [context_classes]:
  "Witness_optionContext = \<lparr>class_id = RuleContext RuleWitness_option, class_base = ParserRuleContext, members = [
     Constructor, GetRuleIndex, ContextGet RuleWitness_partner_equal,
     ContextGet RuleWitness_server, TerminalGet T_OFF, EnterRule, ExitRule, Accept]\<rparr>"

definition Witness_serverContext :: context_class where [context_classes]:
  "Witness_serverContext = \<lparr>class_id = RuleContext RuleWitness_server, class_base = ParserRuleContext, members = [
     Constructor, GetRuleIndex, ContextGet RulePartner_server, EnterRule, ExitRule, Accept]\<rparr>"

definition Partner_serverContext :: context_class where [context_classes]:
  "Partner_serverContext = \<lparr>class_id = RuleContext RulePartner_server, class_base = ParserRuleContext, members = [
     Constructor, GetRuleIndex, ContextGet RulePartner_server_tcp_prefix, ContextGet RuleHost,
     ContextGet RuleMirroring_host_port_seperator, ContextGet RulePort_number, EnterRule,
     ExitRule, Accept]\<rparr>"

definition Mirroring_host_port_seperatorContext :: context_class where [context_classes]:
  "Mirroring_host_port_seperatorContext = \<lparr>class_id = RuleContext RuleMirroring_host_port_seperator, class_base = ParserRuleContext, members = [
     Constructor, GetRuleIndex, TerminalGet T_COLON, EnterRule, ExitRule, Accept]\<rparr>"

definition Partner_server_tcp_prefixContext :: context_class where [context_classes]:
  "Partner_server_tcp_prefixContext = \<lparr>class_id = RuleContext RulePartner_server_tcp_prefix, class_base = ParserRuleContext, members = [
     Constructor, GetRuleIndex, TerminalGet T_TCP, TerminalGet T_COLON,
     TerminalGet T_DOUBLE_FORWARD_SLASH, EnterRule, ExitRule, Accept]\<rparr>"

definition Port_numberContext :: context_class where [context_classes]:
  "Port_numberContext = \<lparr>class_id = RuleContext RulePort_number, class_base = ParserRuleContext, members = [
     TokenField ''port'', Constructor, GetRuleIndex, TerminalGet T_DECIMAL, EnterRule,
     ExitRule, Accept]\<rparr>"

definition HostContext :: context_class where [context_classes]:
  "HostContext = \<lparr>class_id = RuleContext RuleHost, class_base = ParserRuleContext, members = [
     Constructor, GetRuleIndex, ContextGet RuleId', TerminalGet T_DOT, ContextGet RuleHost,
     EnterRule, ExitRule, Accept]\<rparr>"

definition Date_correlation_optimization_optionContext :: context_class where [context_classes]:
  "Date_correlation_optimization_optionContext = \<lparr>class_id = RuleContext RuleDate_correlation_optimization_option, class_base = ParserRuleContext, members = [
     Constructor, GetRuleIndex, TerminalGet T_DATE_CORRELATION_OPTIMIZATION,
     ContextGet RuleOn_off, EnterRule, ExitRule, Accept]\<rparr>"

definition Db_encryption_optionContext :: context_class where [context_classes]:
  "Db_encryption_optionContext = \<lparr>class_id = RuleContext RuleDb_encryption_option, class_base = ParserRuleContext, members = [
     Constructor, GetRuleIndex, TerminalGet T_ENCRYPTION, ContextGet RuleOn_off, EnterRule,
     ExitRule, Accept]\<rparr>"

definition Db_state_optionContext :: context_class where [context_classes]:
  "Db_state_optionContext = \<lparr>class_id = RuleContext RuleDb_state_option, class_base = ParserRuleContext, members = [
     Constructor, GetRuleIndex, TerminalGet T_ONLINE, TerminalGet T_OFFLINE,
     TerminalGet T_EMERGENCY, EnterRule, ExitRule, Accept]\<rparr>"

definition Db_update_optionContext :: context_class where [context_classes]:
  "Db_update_optionContext = \<lparr>class_id = RuleContext RuleDb_update_option, class_base = ParserRuleContext, members = [
     Constructor, GetRuleIndex, TerminalGet T_READ_ONLY, TerminalGet T_READ_WRITE, EnterRule,
     ExitRule, Accept]\<rparr>"

definition Db_user_access_optionContext :: context_class where [context_classes]:
  "Db_user_access_optionContext = \<lparr>class_id = RuleContext RuleDb_user_access_option, class_base = ParserRuleContext, members = [
     Constructor, GetRuleIndex, TerminalGet T_SINGLE_USER, TerminalGet T_RESTRICTED_USER,
     TerminalGet T_MULTI_USER, EnterRule, ExitRule, Accept]\<rparr>"

definition Delayed_durability_optionContext :: context_class where [context_classes]:
  "Delayed_durability_optionContext = \<lparr>class_id = RuleContext RuleDelayed_durability_option, class_base = ParserRuleContext, members = [
     Constructor, GetRuleIndex, TerminalGet T_DELAYED_DURABILITY, TerminalGet T_EQUAL,
     TerminalGet T_DISABLED, TerminalGet T_ALLOWED, TerminalGet T_FORCED, EnterRule, ExitRule,
     Accept]\<rparr>"

definition External_access_optionContext :: context_class where [context_classes]:
  "External_access_optionContext = \<lparr>class_id = RuleContext RuleExternal_access_option, class_base = ParserRuleContext, members = [
     Constructor, GetRuleIndex, TerminalGet T_DB_CHAINING, ContextGet RuleOn_off,
     TerminalGet T_TRUSTWORTHY, TerminalGet T_DEFAULT_LANGUAGE, TerminalGet T_EQUAL,
     ContextGet RuleId', TerminalGet T_STRING, TerminalGet T_DEFAULT_FULLTEXT_LANGUAGE,
     TerminalGet T_NESTED_TRIGGERS, TerminalGet T_OFF, TerminalGet T_ON,
     TerminalGet T_TRANSFORM_NOISE_WORDS, TerminalGet T_TWO_DIGIT_YEAR_CUTOFF,
     TerminalGet T_DECIMAL, EnterRule, ExitRule, Accept]\<rparr>"

definition Hadr_optionsContext :: context_class where [context_classes]:
  "Hadr_optionsContext = \<lparr>class_id = RuleContext RuleHadr_options, class_base = ParserRuleContext, members = [
     ContextField ''availability_group_name'' RuleId', Constructor, GetRuleIndex,
     TerminalGet T_HADR, TerminalGet T_SUSPEND, TerminalGet T_RESUME,
     TerminalGet T_AVAILABILITY, TerminalGet T_GROUP, TerminalGet T_EQUAL, TerminalGet T_OFF,
     ContextGet RuleId', EnterRule, ExitRule, Accept]\<rparr>"

definition Mixed_page_allocation_optionContext :: context_class where [context_classes]:
  "Mixed_page_allocation_optionContext = \<lparr>class_id = RuleContext RuleMixed_page_allocation_option, class_base = ParserRuleContext, members = [
     Constructor, GetRuleIndex, TerminalGet T_MIXED_PAGE_ALLOCATION, TerminalGet T_OFF,
     TerminalGet T_ON, EnterRule, ExitRule, Accept]\<rparr>"

definition Parameterization_optionContext :: context_class where [context_classes]:
  "Parameterization_optionContext = \<lparr>class_id = RuleContext RuleParameterization_option, class_base = ParserRuleContext, members = [
     Constructor, GetRuleIndex, TerminalGet T_PARAMETERIZATION, TerminalGet T_SIMPLE,
     TerminalGet T_FORCED, EnterRule, ExitRule, Accept]\<rparr>"

definition Recovery_optionContext :: context_class where [context_classes]:
  "Recovery_optionContext = \<lparr>class_id = RuleContext RuleRecovery_option, class_base = ParserRuleContext, members = [
     Constructor, GetRuleIndex, TerminalGet T_RECOVERY, TerminalGet T_FULL,
     TerminalGet T_BULK_LOGGED, TerminalGet T_SIMPLE, TerminalGet T_TORN_PAGE_DETECTION,
     ContextGet RuleOn_off, TerminalGet T_ACCELERATED_DATABASE_RECOVERY, TerminalGet T_EQUAL,
     TerminalGet T_PAGE_VERIFY, TerminalGet T_CHECKSUM, TerminalGet T_NONE, EnterRule,
     ExitRule, Accept]\<rparr>"

definition Service_broker_optionContext :: context_class where [context_classes]:
  "Service_broker_optionContext = \<lparr>class_id = RuleContext RuleService_broker_option, class_base = ParserRuleContext, members = [
     Constructor, GetRuleIndex, TerminalGet T_ENABLE_BROKER, TerminalGet T_DISABLE_BROKER,
     TerminalGet T_NEW_BROKER, TerminalGet T_ERROR_BROKER_CONVERSATIONS,
     TerminalGet T_HONOR_BROKER_PRIORITY, ContextGet RuleOn_off, EnterRule, ExitRule, Accept]\<rparr>"

definition Snapshot_optionContext :: context_class where [context_classes]:
  "Snapshot_optionContext = \<lparr>class_id = RuleContext RuleSnapshot_option, class_base = ParserRuleContext, members = [
     TokenField ''MEMORY_OPTIMIZED_ELEVATE_TO_SNAPSHOT'', Constructor, GetRuleIndex,
     TerminalGet T_ALLOW_SNAPSHOT_ISOLATION, ContextGet RuleOn_off,
     TerminalGet T_READ_COMMITTED_SNAPSHOT, TerminalGet T_ON, TerminalGet T_OFF, EnterRule,
     ExitRule, Accept]\<rparr>"

definition Sql_optionContext :: context_class where [context_classes]:
  "Sql_optionContext = \<lparr>class_id = RuleContext RuleSql_option, class_base = ParserRuleContext, members = [
     Constructor, GetRuleIndex, TerminalGet T_ANSI_NULL_DEFAULT, ContextGet RuleOn_off,
     TerminalGet T_ANSI_NULLS, TerminalGet T_ANSI_PADDING, TerminalGet T_ANSI_WARNINGS,
     TerminalGet T_ARITHABORT, TerminalGet T_COMPATIBILITY_LEVEL, TerminalGet T_EQUAL,
     TerminalGet T_DECIMAL, TerminalGet T_CONCAT_NULL_YIELDS_NULL,
     TerminalGet T_NUMERIC_ROUNDABORT, TerminalGet T_QUOTED_IDENTIFIER,
     TerminalGet T_RECURSIVE_TRIGGERS, EnterRule, ExitRule, Accept]\<rparr>"

definition Target_recovery_time_optionContext :: context_class where [context_classes]:
  "Target_recovery_time_optionContext = \<lparr>class_id = RuleContext RuleTarget_recovery_time_option, class_base = ParserRuleContext, members = [
     Constructor, GetRuleIndex, TerminalGet T_TARGET_RECOVERY_TIME, TerminalGet T_EQUAL,
     TerminalGet T_DECIMAL, TerminalGet T_SECONDS, TerminalGet T_MINUTES, EnterRule, ExitRule,
     Accept]\<rparr>"

definition TerminationContext :: context_class where [context_classes]:
  "TerminationContext = \<lparr>class_id = RuleContext RuleTermination, class_base = ParserRuleContext, members = [
     TokenField ''seconds'', Constructor, GetRuleIndex, TerminalGet T_ROLLBACK,
     TerminalGet T_AFTER, TerminalGet T_DECIMAL, TerminalGet T_IMMEDIATE,
     TerminalGet T_NO_WAIT, EnterRule, ExitRule, Accept]\<rparr>"

definition Drop_indexContext :: context_class where [context_classes]:
  "Drop_indexContext = \<lparr>class_id = RuleContext RuleDrop_index, class_base = ParserRuleContext, members = [
     Constructor, GetRuleIndex, TerminalGet T_DROP, TerminalGet T_INDEX,
     ContextAll RuleDrop_relational_or_xml_or_spatial_index,
     ContextNth RuleDrop_relational_or_xml_or_spatial_index,
     ContextAll RuleDrop_backward_compatible_index,
     ContextNth RuleDrop_backward_compatible_index, TerminalGet T_IF, TerminalGet T_EXISTS,
     TerminalGet T_SEMI, TerminalAll T_COMMA, TerminalNth T_COMMA, EnterRule, ExitRule, Accept]\<rparr>"

definition Drop_relational_or_xml_or_spatial_indexContext :: context_class where [context_classes]:
  "Drop_relational_or_xml_or_spatial_indexContext = \<lparr>class_id = RuleContext RuleDrop_relational_or_xml_or_spatial_index, class_base = ParserRuleContext, members = [
     ContextField ''index_name'' RuleId', Constructor, GetRuleIndex, TerminalGet T_ON,
     ContextGet RuleFull_table_name, ContextGet RuleId', EnterRule, ExitRule, Accept]\<rparr>"

definition Drop_backward_compatible_indexContext :: context_class where [context_classes]:
  "Drop_backward_compatible_indexContext = \<lparr>class_id = RuleContext RuleDrop_backward_compatible_index, class_base = ParserRuleContext, members = [
     ContextField ''owner_name'' RuleId', ContextField ''table_or_view_name'' RuleId',
     ContextField ''index_name'' RuleId', Constructor, GetRuleIndex, TerminalAll T_DOT,
     TerminalNth T_DOT, ContextAll RuleId', ContextNth RuleId', EnterRule, ExitRule, Accept]\<rparr>"

definition Drop_procedureContext :: context_class where [context_classes]:
  "Drop_procedureContext = \<lparr>class_id = RuleContext RuleDrop_procedure, class_base = ParserRuleContext, members = [
     TokenField ''proc'', Constructor, GetRuleIndex, TerminalGet T_DROP,
     ContextAll RuleFunc_proc_name_schema, ContextNth RuleFunc_proc_name_schema,
     TerminalGet T_PROC, TerminalGet T_PROCEDURE, TerminalGet T_IF, TerminalGet T_EXISTS,
     TerminalAll T_COMMA, TerminalNth T_COMMA, TerminalGet T_SEMI, EnterRule, ExitRule, Accept]\<rparr>"

definition Drop_triggerContext :: context_class where [context_classes]:
  "Drop_triggerContext = \<lparr>class_id = RuleContext RuleDrop_trigger, class_base = ParserRuleContext, members = [
     Constructor, GetRuleIndex, ContextGet RuleDrop_dml_trigger,
     ContextGet RuleDrop_ddl_trigger, EnterRule, ExitRule, Accept]\<rparr>"

definition Drop_dml_triggerContext :: context_class where [context_classes]:
  "Drop_dml_triggerContext = \<lparr>class_id = RuleContext RuleDrop_dml_trigger, class_base = ParserRuleContext, members = [
     Constructor, GetRuleIndex, TerminalGet T_DROP, TerminalGet T_TRIGGER,
     ContextAll RuleSimple_name, ContextNth RuleSimple_name, TerminalGet T_IF,
     TerminalGet T_EXISTS, TerminalAll T_COMMA, TerminalNth T_COMMA, TerminalGet T_SEMI,
     EnterRule, ExitRule, Accept]\<rparr>"

definition Drop_ddl_triggerContext :: context_class where [context_classes]:
  "Drop_ddl_triggerContext = \<lparr>class_id = RuleContext RuleDrop_ddl_trigger, class_base = ParserRuleContext, members = [
     Constructor, GetRuleIndex, TerminalGet T_DROP, TerminalGet T_TRIGGER,
     ContextAll RuleSimple_name, ContextNth RuleSimple_name, TerminalGet T_ON,
     TerminalGet T_DATABASE, TerminalGet T_ALL, TerminalGet T_SERVER, TerminalGet T_IF,
     TerminalGet T_EXISTS, TerminalAll T_COMMA, TerminalNth T_COMMA, TerminalGet T_SEMI,
     EnterRule, ExitRule, Accept]\<rparr>"

definition Drop_functionContext :: context_class where [context_classes]:
  "Drop_functionContext = \<lparr>class_id = RuleContext RuleDrop_function, class_base = ParserRuleContext, members = [
     Constructor, GetRuleIndex, TerminalGet T_DROP, TerminalGet T_FUNCTION,
     ContextAll RuleFunc_proc_name_schema, ContextNth RuleFunc_proc_name_schema,
     TerminalGet T_IF, TerminalGet T_EXISTS, TerminalAll T_COMMA, TerminalNth T_COMMA,
     TerminalGet T_SEMI, EnterRule, ExitRule, Accept]\<rparr>"

definition Drop_statisticsContext :: context_class where [context_classes]:
  "Drop_statisticsContext = \<lparr>class_id = RuleContext RuleDrop_statistics, class_base = ParserRuleContext, members = [
     ContextField ''name'' RuleId', Constructor, GetRuleIndex, TerminalGet T_DROP,
     TerminalGet T_STATISTICS, TerminalGet T_SEMI, ContextAll RuleId', ContextNth RuleId',
     TerminalAll T_COMMA, TerminalNth T_COMMA, ContextAll RuleTable_name,
     ContextNth RuleTable_name, TerminalAll T_DOT, TerminalNth T_DOT, EnterRule, ExitRule,
     Accept]\<rparr>"

definition Drop_tableContext :: context_class where [context_classes]:
  "Drop_tableContext = \<lparr>class_id = RuleContext RuleDrop_table, class_base = ParserRuleContext, members = [
     Constructor, GetRuleIndex, TerminalGet T_DROP, TerminalGet T_TABLE,
     ContextAll RuleTable_name, ContextNth RuleTable_name, TerminalGet T_IF,
     TerminalGet T_EXISTS, TerminalAll T_COMMA, TerminalNth T_COMMA, TerminalGet T_SEMI,
     EnterRule, ExitRule, Accept]\<rparr>"

definition Drop_viewContext :: context_class where [context_classes]:
  "Drop_viewContext = \<lparr>class_id = RuleContext RuleDrop_view, class_base = ParserRuleContext, members = [
     Constructor, GetRuleIndex, TerminalGet T_DROP, TerminalGet T_VIEW,
     ContextAll RuleSimple_name, ContextNth RuleSimple_name, TerminalGet T_IF,
     TerminalGet T_EXISTS, TerminalAll T_COMMA, TerminalNth T_COMMA, TerminalGet T_SEMI,
     EnterRule, ExitRule, Accept]\<rparr>"

definition Create_typeContext :: context_class where [context_classes]:
  "Create_typeContext = \<lparr>class_id = RuleContext RuleCreate_type, class_base = ParserRuleContext, members = [
     ContextField ''name'' RuleSimple_name, Constructor, GetRuleIndex, TerminalGet T_CREATE,
     TerminalGet T_TYPE, ContextGet RuleSimple_name, TerminalGet T_FROM,
     ContextGet RuleData_type, TerminalGet T_AS, TerminalGet T_TABLE, TerminalGet T_LR_BRACKET,
     ContextGet RuleColumn_def_table_constraints, TerminalGet T_RR_BRACKET,
     ContextGet RuleNull_notnull, EnterRule, ExitRule, Accept]\<rparr>"

definition Drop_typeContext :: context_class where [context_classes]:
  "Drop_typeContext = \<lparr>class_id = RuleContext RuleDrop_type, class_base = ParserRuleContext, members = [
     ContextField ''name'' RuleSimple_name, Constructor, GetRuleIndex, TerminalGet T_DROP,
     TerminalGet T_TYPE, ContextGet RuleSimple_name, TerminalGet T_IF, TerminalGet T_EXISTS,
     EnterRule, ExitRule, Accept]\<rparr>"

definition Rowset_function_limitedContext :: context_class where [context_classes]:
  "Rowset_function_limitedContext = \<lparr>class_id = RuleContext RuleRowset_function_limited, class_base = ParserRuleContext, members = [
     Constructor, GetRuleIndex, ContextGet RuleOpenquery, ContextGet RuleOpendatasource,
     EnterRule, ExitRule, Accept]\<rparr>"

definition OpenqueryContext :: context_class where [context_classes]:
  "OpenqueryContext = \<lparr>class_id = RuleContext RuleOpenquery, class_base = ParserRuleContext, members = [
     ContextField ''linked_server'' RuleId', TokenField ''query'', Constructor, GetRuleIndex,
     TerminalGet T_OPENQUERY, TerminalGet T_LR_BRACKET, TerminalGet T_COMMA,
     TerminalGet T_RR_BRACKET, ContextGet RuleId', TerminalGet T_STRING, EnterRule, ExitRule,
     Accept]\<rparr>"

definition OpendatasourceContext :: context_class where [context_classes]:
  "OpendatasourceContext = \<lparr>class_id = RuleContext RuleOpendatasource, class_base = ParserRuleContext, members = [
     TokenField ''provider'', TokenField ''init'', ContextField ''database'' RuleId',
     ContextField ''scheme'' RuleId', ContextField ''table'' RuleId', Constructor,
     GetRuleIndex, TerminalGet T_OPENDATASOURCE, TerminalGet T_LR_BRACKET, TerminalGet T_COMMA,
     TerminalGet T_RR_BRACKET, TerminalAll T_DOT, TerminalNth T_DOT, TerminalAll T_STRING,
     TerminalNth T_STRING, ContextAll RuleId', ContextNth RuleId', EnterRule, ExitRule, Accept]\<rparr>"

definition Declare_statementContext :: context_class where [context_classes]:
  "Declare_statementContext = \<lparr>class_id = RuleContext RuleDeclare_statement, class_base = ParserRuleContext, members = [
     ContextField ''declare_localContext'' RuleDeclare_local,
     ContextListField ''loc'' RuleDeclare_local,
     ContextField ''xml_declarationContext'' RuleXml_declaration,
     ContextListField ''xml_dec'' RuleXml_declaration, Constructor, GetRuleIndex,
     TerminalGet T_DECLARE, TerminalGet T_LOCAL_ID, ContextGet RuleData_type,
     ContextGet RuleTable_type_definition, ContextGet RuleTable_name, TerminalGet T_AS,
     ContextAll RuleDeclare_local, ContextNth RuleDeclare_local, TerminalAll T_COMMA,
     TerminalNth T_COMMA, ContextGet RuleXml_type_definition, TerminalGet T_WITH,
     TerminalGet T_XMLNAMESPACES, TerminalGet T_LR_BRACKET, TerminalGet T_RR_BRACKET,
     ContextAll RuleXml_declaration, ContextNth RuleXml_declaration, EnterRule, ExitRule,
     Accept]\<rparr>"

definition Xml_declarationContext :: context_class where [context_classes]:
  "Xml_declarationContext = \<lparr>class_id = RuleContext RuleXml_declaration, class_base = ParserRuleContext, members = [
     TokenField ''xml_namespace_uri'', Constructor, GetRuleIndex, TerminalGet T_AS,
     ContextGet RuleId', TerminalGet T_STRING, TerminalGet T_DEFAULT, EnterRule, ExitRule,
     Accept]\<rparr>"

definition Cursor_statementContext :: context_class where [context_classes]:
  "Cursor_statementContext = \<lparr>class_id = RuleContext RuleCursor_statement, class_base = ParserRuleContext, members = [
     Constructor, GetRuleIndex, TerminalGet T_CLOSE, ContextGet RuleCursor_name,
     TerminalGet T_GLOBAL, TerminalGet T_SEMI, TerminalGet T_DEALLOCATE, TerminalGet T_CURSOR,
     ContextGet RuleDeclare_cursor, ContextGet RuleFetch_cursor, TerminalGet T_OPEN, EnterRule,
     ExitRule, Accept]\<rparr>"

definition Backup_databaseContext :: context_class where [context_classes]:
  "Backup_databaseContext = \<lparr>class_id = RuleContext RuleBackup_database, class_base = ParserRuleContext, members = [
     ContextField ''database_name'' RuleId', TokenField ''file_or_filegroup'',
     ContextField ''logical_device_name'' RuleId', ContextField ''backup_set_name'' RuleId',
     TokenField ''medianame'', TokenField ''stats_percent'',
     ContextField ''encryptor_name'' RuleId', Constructor, GetRuleIndex, TerminalGet T_BACKUP,
     TerminalGet T_DATABASE, TerminalAll T_TO, TerminalNth T_TO, ContextAll RuleId',
     ContextNth RuleId', TerminalGet T_READ_WRITE_FILEGROUPS, TerminalAll T_EQUAL,
     TerminalNth T_EQUAL, TerminalGet T_WITH, TerminalAll T_FILE, TerminalNth T_FILE,
     TerminalAll T_FILEGROUP, TerminalNth T_FILEGROUP, TerminalAll T_STRING,
     TerminalNth T_STRING, TerminalAll T_COMMA, TerminalNth T_COMMA, TerminalAll T_DISK,
     TerminalNth T_DISK, TerminalAll T_TAPE, TerminalNth T_TAPE, TerminalAll T_URL,
     TerminalNth T_URL, TerminalAll T_MIRROR, TerminalNth T_MIRROR, TerminalAll T_DIFFERENTIAL,
     TerminalNth T_DIFFERENTIAL, TerminalAll T_COPY_ONLY, TerminalNth T_COPY_ONLY,
     TerminalAll T_DESCRIPTION, TerminalNth T_DESCRIPTION, TerminalAll T_NAME,
     TerminalNth T_NAME, TerminalAll T_CREDENTIAL, TerminalNth T_CREDENTIAL,
     TerminalAll T_FILE_SNAPSHOT, TerminalNth T_FILE_SNAPSHOT, TerminalAll T_MEDIADESCRIPTION,
     TerminalNth T_MEDIADESCRIPTION, TerminalAll T_MEDIANAME, TerminalNth T_MEDIANAME,
     TerminalAll T_BLOCKSIZE, TerminalNth T_BLOCKSIZE, TerminalAll T_BUFFERCOUNT,
     TerminalNth T_BUFFERCOUNT, TerminalAll T_MAXTRANSFER, TerminalNth T_MAXTRANSFER,
     TerminalAll T_RESTART, TerminalNth T_RESTART, TerminalAll T_STATS, TerminalNth T_STATS,
     TerminalAll T_ENCRYPTION, TerminalNth T_ENCRYPTION, TerminalAll T_LR_BRACKET,
     TerminalNth T_LR_BRACKET, TerminalAll T_ALGORITHM, TerminalNth T_ALGORITHM,
     TerminalAll T_SERVER, TerminalNth T_SERVER, TerminalAll T_CERTIFICATE,
     TerminalNth T_CERTIFICATE, TerminalAll T_COMPRESSION, TerminalNth T_COMPRESSION,
     TerminalAll T_NO_COMPRESSION, TerminalNth T_NO_COMPRESSION, TerminalAll T_NOINIT,
     TerminalNth T_NOINIT, TerminalAll T_INIT, TerminalNth T_INIT, TerminalAll T_NOSKIP,
     TerminalNth T_NOSKIP, TerminalAll T_SKIP_KEYWORD, TerminalNth T_SKIP_KEYWORD,
     TerminalAll T_NOFORMAT, TerminalNth T_NOFORMAT, TerminalAll T_FORMAT,
     TerminalNth T_FORMAT, TerminalAll T_NO_CHECKSUM, TerminalNth T_NO_CHECKSUM,
     TerminalAll T_CHECKSUM, TerminalNth T_CHECKSUM, TerminalAll T_STOP_ON_ERROR,
     TerminalNth T_STOP_ON_ERROR, TerminalAll T_CONTINUE_AFTER_ERROR,
     TerminalNth T_CONTINUE_AFTER_ERROR, TerminalAll T_REWIND, TerminalNth T_REWIND,
     TerminalAll T_NOREWIND, TerminalNth T_NOREWIND, TerminalAll T_LOAD, TerminalNth T_LOAD,
     TerminalAll T_NOUNLOAD, TerminalNth T_NOUNLOAD, TerminalAll T_AES_128,
     TerminalNth T_AES_128, TerminalAll T_AES_192, TerminalNth T_AES_192,
     TerminalAll T_AES_256, TerminalNth T_AES_256, TerminalAll T_TRIPLE_DES_3KEY,
     TerminalNth T_TRIPLE_DES_3KEY, TerminalAll T_EXPIREDATE, TerminalNth T_EXPIREDATE,
     TerminalAll T_RETAINDAYS, TerminalNth T_RETAINDAYS, TerminalAll T_DECIMAL,
     TerminalNth T_DECIMAL, TerminalAll T_ASYMMETRIC, TerminalNth T_ASYMMETRIC,
     TerminalAll T_KEY, TerminalNth T_KEY, EnterRule, ExitRule, Accept]\<rparr>"

definition Backup_logContext :: context_class where [context_classes]:
  "Backup_logContext = \<lparr>class_id = RuleContext RuleBackup_log, class_base = ParserRuleContext, members = [
     ContextField ''database_name'' RuleId', ContextField ''logical_device_name'' RuleId',
     ContextField ''backup_set_name'' RuleId', TokenField ''medianame'',
     TokenField ''stats_percent'', TokenField ''undo_file_name'',
     ContextField ''encryptor_name'' RuleId', Constructor, GetRuleIndex, TerminalGet T_BACKUP,
     TerminalGet T_LOG, TerminalAll T_TO, TerminalNth T_TO, ContextAll RuleId',
     ContextNth RuleId', TerminalGet T_WITH, TerminalAll T_EQUAL, TerminalNth T_EQUAL,
     TerminalAll T_DISK, TerminalNth T_DISK, TerminalAll T_TAPE, TerminalNth T_TAPE,
     TerminalAll T_URL, TerminalNth T_URL, TerminalAll T_MIRROR, TerminalNth T_MIRROR,
     TerminalAll T_DIFFERENTIAL, TerminalNth T_DIFFERENTIAL, TerminalAll T_COPY_ONLY,
     TerminalNth T_COPY_ONLY, TerminalAll T_DESCRIPTION, TerminalNth T_DESCRIPTION,
     TerminalAll T_NAME, TerminalNth T_NAME, TerminalAll T_CREDENTIAL,
     TerminalNth T_CREDENTIAL, TerminalAll T_FILE_SNAPSHOT, TerminalNth T_FILE_SNAPSHOT,
     TerminalAll T_MEDIADESCRIPTION, TerminalNth T_MEDIADESCRIPTION, TerminalAll T_MEDIANAME,
     TerminalNth T_MEDIANAME, TerminalAll T_BLOCKSIZE, TerminalNth T_BLOCKSIZE,
     TerminalAll T_BUFFERCOUNT, TerminalNth T_BUFFERCOUNT, TerminalAll T_MAXTRANSFER,
     TerminalNth T_MAXTRANSFER, TerminalAll T_RESTART, TerminalNth T_RESTART,
     TerminalAll T_STATS, TerminalNth T_STATS, TerminalAll T_NO_TRUNCATE,
     TerminalNth T_NO_TRUNCATE, TerminalAll T_ENCRYPTION, TerminalNth T_ENCRYPTION,
     TerminalAll T_LR_BRACKET, TerminalNth T_LR_BRACKET, TerminalAll T_ALGORITHM,
     TerminalNth T_ALGORITHM, TerminalAll T_COMMA, TerminalNth T_COMMA, TerminalAll T_SERVER,
     TerminalNth T_SERVER, TerminalAll T_CERTIFICATE, TerminalNth T_CERTIFICATE,
     TerminalAll T_STRING, TerminalNth T_STRING, TerminalAll T_COMPRESSION,
     TerminalNth T_COMPRESSION, TerminalAll T_NO_COMPRESSION, TerminalNth T_NO_COMPRESSION,
     TerminalAll T_NOINIT, TerminalNth T_NOINIT, TerminalAll T_INIT, TerminalNth T_INIT,
     TerminalAll T_NOSKIP, TerminalNth T_NOSKIP, TerminalAll T_SKIP_KEYWORD,
     TerminalNth T_SKIP_KEYWORD, TerminalAll T_NOFORMAT, TerminalNth T_NOFORMAT,
     TerminalAll T_FORMAT, TerminalNth T_FORMAT, TerminalAll T_NO_CHECKSUM,
     TerminalNth T_NO_CHECKSUM, TerminalAll T_CHECKSUM, TerminalNth T_CHECKSUM,
     TerminalAll T_STOP_ON_ERROR, TerminalNth T_STOP_ON_ERROR,
     TerminalAll T_CONTINUE_AFTER_ERROR, TerminalNth T_CONTINUE_AFTER_ERROR,
     TerminalAll T_REWIND, TerminalNth T_REWIND, TerminalAll T_NOREWIND,
     TerminalNth T_NOREWIND, TerminalAll T_LOAD, TerminalNth T_LOAD, TerminalAll T_NOUNLOAD,
     TerminalNth T_NOUNLOAD, TerminalAll T_AES_128, TerminalNth T_AES_128,
     TerminalAll T_AES_192, TerminalNth T_AES_192, TerminalAll T_AES_256,
     TerminalNth T_AES_256, TerminalAll T_TRIPLE_DES_3KEY, TerminalNth T_TRIPLE_DES_3KEY,
     TerminalAll T_EXPIREDATE, TerminalNth T_EXPIREDATE, TerminalAll T_RETAINDAYS,
     TerminalNth T_RETAINDAYS, TerminalAll T_DECIMAL, TerminalNth T_DECIMAL,
     TerminalAll T_NORECOVERY, TerminalNth T_NORECOVERY, TerminalAll T_STANDBY,
     TerminalNth T_STANDBY, TerminalAll T_ASYMMETRIC, TerminalNth T_ASYMMETRIC,
     TerminalAll T_KEY, TerminalNth T_KEY, EnterRule, ExitRule, Accept]\<rparr>"

definition classes_3 :: "context_class list" where
  "classes_3 = [
     Delete_statement_fromContext, Insert_statementContext, Insert_statement_valueContext,
     Receive_statementContext, Select_statement_standaloneContext, Select_statementContext,
     TimeContext, Update_statementContext, Output_clauseContext, Output_dml_list_elemContext,
     Create_databaseContext, Create_indexContext, Create_index_optionsContext,
     Relational_index_optionContext, Alter_indexContext, Resumable_index_optionsContext,
     Resumable_index_optionContext, Reorganize_partitionContext, Reorganize_optionsContext,
     Reorganize_optionContext, Set_index_optionsContext, Set_index_optionContext,
     Rebuild_partitionContext, Rebuild_index_optionsContext, Rebuild_index_optionContext,
     Single_partition_rebuild_index_optionsContext,
     Single_partition_rebuild_index_optionContext, On_partitionsContext,
     Create_columnstore_indexContext, Create_columnstore_index_optionsContext,
     Columnstore_index_optionContext, Create_nonclustered_columnstore_indexContext,
     Create_xml_indexContext, Xml_index_optionsContext, Xml_index_optionContext,
     Create_or_alter_procedureContext, As_external_nameContext, Create_or_alter_triggerContext,
     Create_or_alter_dml_triggerContext, Dml_trigger_optionContext,
     Dml_trigger_operationContext, Create_or_alter_ddl_triggerContext,
     Ddl_trigger_operationContext, Create_or_alter_functionContext,
     Func_body_returns_selectContext, Func_body_returns_tableContext,
     Func_body_returns_scalarContext, Procedure_param_default_valueContext,
     Procedure_paramContext, Procedure_optionContext, Function_optionContext,
     Create_statisticsContext, Update_statisticsContext, Update_statistics_optionsContext,
     Update_statistics_optionContext, Create_tableContext, Table_indicesContext,
     Table_optionsContext, Table_optionContext, Create_table_index_optionsContext,
     Create_table_index_optionContext, Create_viewContext, View_attributeContext,
     Alter_tableContext, Switch_partitionContext, Low_priority_lock_waitContext,
     Alter_databaseContext, Add_or_modify_filesContext, FilespecContext,
     Add_or_modify_filegroupsContext, Filegroup_updatability_optionContext,
     Database_optionspecContext, Auto_optionContext, Change_tracking_optionContext,
     Change_tracking_option_listContext, Containment_optionContext, Cursor_optionContext,
     Alter_endpointContext, Database_mirroring_optionContext, Mirroring_set_optionContext,
     Mirroring_partnerContext, Mirroring_witnessContext, Witness_partner_equalContext,
     Partner_optionContext, Witness_optionContext, Witness_serverContext,
     Partner_serverContext, Mirroring_host_port_seperatorContext,
     Partner_server_tcp_prefixContext, Port_numberContext, HostContext,
     Date_correlation_optimization_optionContext, Db_encryption_optionContext,
     Db_state_optionContext, Db_update_optionContext, Db_user_access_optionContext,
     Delayed_durability_optionContext, External_access_optionContext, Hadr_optionsContext,
     Mixed_page_allocation_optionContext, Parameterization_optionContext,
     Recovery_optionContext, Service_broker_optionContext, Snapshot_optionContext,
     Sql_optionContext, Target_recovery_time_optionContext, TerminationContext,
     Drop_indexContext, Drop_relational_or_xml_or_spatial_indexContext,
     Drop_backward_compatible_indexContext, Drop_procedureContext, Drop_triggerContext,
     Drop_dml_triggerContext, Drop_ddl_triggerContext, Drop_functionContext,
     Drop_statisticsContext, Drop_tableContext, Drop_viewContext, Create_typeContext,
     Drop_typeContext, Rowset_function_limitedContext, OpenqueryContext, OpendatasourceContext,
     Declare_statementContext, Xml_declarationContext, Cursor_statementContext,
     Backup_databaseContext, Backup_logContext]"

end
