(* ===== verification/Conformance_3.thy ===== *)
theory Conformance_3
  imports Conforming Rules_3 Contexts_3
begin

text \<open>
  Part 3 of the comparison of \<open>TSqlParser.g4\<close> with the classes of \<open>TSqlParser.h\<close>: each rule
  with the classes the header declares for it, and the evaluation of the check.
\<close>

definition pairs_3 :: "(rule option \<times> context_class list) list" where
  "pairs_3 = [
     (Some g_delete_statement_from, [Delete_statement_fromContext]),
     (Some g_insert_statement, [Insert_statementContext]),
     (Some g_insert_statement_value, [Insert_statement_valueContext]),
     (Some g_receive_statement, [Receive_statementContext]),
     (Some g_select_statement_standalone, [Select_statement_standaloneContext]),
     (Some g_select_statement, [Select_statementContext]),
     (Some g_time, [TimeContext]),
     (Some g_update_statement, [Update_statementContext]),
     (Some g_output_clause, [Output_clauseContext]),
     (Some g_output_dml_list_elem, [Output_dml_list_elemContext]),
     (Some g_create_database, [Create_databaseContext]),
     (Some g_create_index, [Create_indexContext]),
     (Some g_create_index_options, [Create_index_optionsContext]),
     (Some g_relational_index_option, [Relational_index_optionContext]),
     (Some g_alter_index, [Alter_indexContext]),
     (Some g_resumable_index_options, [Resumable_index_optionsContext]),
     (Some g_resumable_index_option, [Resumable_index_optionContext]),
     (Some g_reorganize_partition, [Reorganize_partitionContext]),
     (Some g_reorganize_options, [Reorganize_optionsContext]),
     (Some g_reorganize_option, [Reorganize_optionContext]),
     (Some g_set_index_options, [Set_index_optionsContext]),
     (Some g_set_index_option, [Set_index_optionContext]),
     (Some g_rebuild_partition, [Rebuild_partitionContext]),
     (Some g_rebuild_index_options, [Rebuild_index_optionsContext]),
     (Some g_rebuild_index_option, [Rebuild_index_optionContext]),
     (Some g_single_partition_rebuild_index_options, [Single_partition_rebuild_index_optionsContext]),
     (Some g_single_partition_rebuild_index_option, [Single_partition_rebuild_index_optionContext]),
     (Some g_on_partitions, [On_partitionsContext]),
     (Some g_create_columnstore_index, [Create_columnstore_indexContext]),
     (Some g_create_columnstore_index_options, [Create_columnstore_index_optionsContext]),
     (Some g_columnstore_index_option, [Columnstore_index_optionContext]),
     (Some g_create_nonclustered_columnstore_index, [Create_nonclustered_columnstore_indexContext]),
     (Some g_create_xml_index, [Create_xml_indexContext]),
     (Some g_xml_index_options, [Xml_index_optionsContext]),
     (Some g_xml_index_option, [Xml_index_optionContext]),
     (Some g_create_or_alter_procedure, [Create_or_alter_procedureContext]),
     (Some g_as_external_name, [As_external_nameContext]),
     (Some g_create_or_alter_trigger, [Create_or_alter_triggerContext]),
     (Some g_create_or_alter_dml_trigger, [Create_or_alter_dml_triggerContext]),
     (Some g_dml_trigger_option, [Dml_trigger_optionContext]),
     (Some g_dml_trigger_operation, [Dml_trigger_operationContext]),
     (Some g_create_or_alter_ddl_trigger, [Create_or_alter_ddl_triggerContext]),
     (Some g_ddl_trigger_operation, [Ddl_trigger_operationContext]),
     (Some g_create_or_alter_function, [Create_or_alter_functionContext]),
     (Some g_func_body_returns_select, [Func_body_returns_selectContext]),
     (Some g_func_body_returns_table, [Func_body_returns_tableContext]),
     (Some g_func_body_returns_scalar, [Func_body_returns_scalarContext]),
     (Some g_procedure_param_default_value, [Procedure_param_default_valueContext]),
     (Some g_procedure_param, [Procedure_paramContext]),
     (Some g_procedure_option, [Procedure_optionContext]),
     (Some g_function_option, [Function_optionContext]),
     (Some g_create_statistics, [Create_statisticsContext]),
     (Some g_update_statistics, [Update_statisticsContext]),
     (Some g_update_statistics_options, [Update_statistics_optionsContext]),
     (Some g_update_statistics_option, [Update_statistics_optionContext]),
     (Some g_create_table, [Create_tableContext]),
     (Some g_table_indices, [Table_indicesContext]),
     (Some g_table_options, [Table_optionsContext]),
     (Some g_table_option, [Table_optionContext]),
     (Some g_create_table_index_options, [Create_table_index_optionsContext]),
     (Some g_create_table_index_option, [Create_table_index_optionContext]),
     (Some g_create_view, [Create_viewContext]),
     (Some g_view_attribute, [View_attributeContext]),
     (Some g_alter_table, [Alter_tableContext]),
     (Some g_switch_partition, [Switch_partitionContext]),
     (Some g_low_priority_lock_wait, [Low_priority_lock_waitContext]),
     (Some g_alter_database, [Alter_databaseContext]),
     (Some g_add_or_modify_files, [Add_or_modify_filesContext]),
     (Some g_filespec, [FilespecContext]),
     (Some g_add_or_modify_filegroups, [Add_or_modify_filegroupsContext]),
     (Some g_filegroup_updatability_option, [Filegroup_updatability_optionContext]),
     (Some g_database_optionspec, [Database_optionspecContext]),
     (Some g_auto_option, [Auto_optionContext]),
     (Some g_change_tracking_option, [Change_tracking_optionContext]),
     (Some g_change_tracking_option_list, [Change_tracking_option_listContext]),
     (Some g_containment_option, [Containment_optionContext]),
     (Some g_cursor_option, [Cursor_optionContext]),
     (Some g_alter_endpoint, [Alter_endpointContext]),
     (Some g_database_mirroring_option, [Database_mirroring_optionContext]),
     (Some g_mirroring_set_option, [Mirroring_set_optionContext]),
     (Some g_mirroring_partner, [Mirroring_partnerContext]),
     (Some g_mirroring_witness, [Mirroring_witnessContext]),
     (Some g_witness_partner_equal, [Witness_partner_equalContext]),
     (Some g_partner_option, [Partner_optionContext]),
     (Some g_witness_option, [Witness_optionContext]),
     (Some g_witness_server, [Witness_serverContext]),
     (Some g_partner_server, [Partner_serverContext]),
     (Some g_mirroring_host_port_seperator, [Mirroring_host_port_seperatorContext]),
     (Some g_partner_server_tcp_prefix, [Partner_server_tcp_prefixContext]),
     (Some g_port_number, [Port_numberContext]),
     (Some g_host, [HostContext]),
     (Some g_date_correlation_optimization_option, [Date_correlation_optimization_optionContext]),
     (Some g_db_encryption_option, [Db_encryption_optionContext]),
     (Some g_db_state_option, [Db_state_optionContext]),
     (Some g_db_update_option, [Db_update_optionContext]),
     (Some g_db_user_access_option, [Db_user_access_optionContext]),
     (Some g_delayed_durability_option, [Delayed_durability_optionContext]),
     (Some g_external_access_option, [External_access_optionContext]),
     (Some g_hadr_options, [Hadr_optionsContext]),
     (Some g_mixed_page_allocation_option, [Mixed_page_allocation_optionContext]),
     (Some g_parameterization_option, [Parameterization_optionContext]),
     (Some g_recovery_option, [Recovery_optionContext]),
     (Some g_service_broker_option, [Service_broker_optionContext]),
     (Some g_snapshot_option, [Snapshot_optionContext]),
     (Some g_sql_option, [Sql_optionContext]),
     (Some g_target_recovery_time_option, [Target_recovery_time_optionContext]),
     (Some g_termination, [TerminationContext]),
     (Some g_drop_index, [Drop_indexContext]),
     (Some g_drop_relational_or_xml_or_spatial_index, [Drop_relational_or_xml_or_spatial_indexContext]),
     (Some g_drop_backward_compatible_index, [Drop_backward_compatible_indexContext]),
     (Some g_drop_procedure, [Drop_procedureContext]),
     (Some g_drop_trigger, [Drop_triggerContext]),
     (Some g_drop_dml_trigger, [Drop_dml_triggerContext]),
     (Some g_drop_ddl_trigger, [Drop_ddl_triggerContext]),
     (Some g_drop_function, [Drop_functionContext]),
     (Some g_drop_statistics, [Drop_statisticsContext]),
     (Some g_drop_table, [Drop_tableContext]),
     (Some g_drop_view, [Drop_viewContext]),
     (Some g_create_type, [Create_typeContext]),
     (Some g_drop_type, [Drop_typeContext]),
     (Some g_rowset_function_limited, [Rowset_function_limitedContext]),
     (Some g_openquery, [OpenqueryContext]),
     (Some g_opendatasource, [OpendatasourceContext]),
     (Some g_declare_statement, [Declare_statementContext]),
     (Some g_xml_declaration, [Xml_declarationContext]),
     (Some g_cursor_statement, [Cursor_statementContext]),
     (Some g_backup_database, [Backup_databaseContext]),
     (Some g_backup_log, [Backup_logContext])]"

lemma pairs_3_ok: "list_all pair_ok pairs_3"
  by (simp only: conformance_eval pairs_3_def grammar_rules context_classes cong: opaque case_opaque)

end
