(* ===== verification/Rules_4.thy ===== *)
theory Rules_4
  imports Grammar Tokens Rule_Ids Label_Ids
begin

text \<open>
  Rules of \<open>src/TSqlParser.g4\<close>, from \<open>backup_certificate\<close> to \<open>option\<close>: one definition per
  rule, its alternatives in the order of the file.  A quoted literal of the grammar is the
  token whose lexer rule is that literal.
\<close>

definition g_backup_certificate :: rule where [grammar_rules]:
  "g_backup_certificate = \<lparr>rule_index = RuleBackup_certificate, rule_alts = [
       (None, Seq [Tok T_BACKUP, Tok T_CERTIFICATE, Lab (Assign ''certname'') (Ref RuleId'),
         Tok T_TO, Tok T_FILE, Tok T_EQUAL, Lab (Assign ''cert_file'') (Tok T_STRING),
         Opt (Seq [Tok T_WITH, Tok T_PRIVATE, Tok T_KEY, Tok T_LR_BRACKET,
         Plus (Alt [Seq [Opt (Tok T_COMMA), Tok T_FILE, Tok T_EQUAL,
         Lab (Assign ''private_key_file'') (Tok T_STRING)], Seq [Opt (Tok T_COMMA),
         Tok T_ENCRYPTION, Tok T_BY, Tok T_PASSWORD, Tok T_EQUAL,
         Lab (Assign ''encryption_password'') (Tok T_STRING)], Seq [Opt (Tok T_COMMA),
         Tok T_DECRYPTION, Tok T_BY, Tok T_PASSWORD, Tok T_EQUAL,
         Lab (Assign ''decryption_pasword'') (Tok T_STRING)]]), Tok T_RR_BRACKET])])]\<rparr>"

definition g_backup_master_key :: rule where [grammar_rules]:
  "g_backup_master_key = \<lparr>rule_index = RuleBackup_master_key, rule_alts = [
       (None, Seq [Tok T_BACKUP, Tok T_MASTER, Tok T_KEY, Tok T_TO, Tok T_FILE, Tok T_EQUAL,
         Lab (Assign ''master_key_backup_file'') (Tok T_STRING), Tok T_ENCRYPTION, Tok T_BY,
         Tok T_PASSWORD, Tok T_EQUAL, Lab (Assign ''encryption_password'') (Tok T_STRING)])]\<rparr>"

definition g_backup_service_master_key :: rule where [grammar_rules]:
  "g_backup_service_master_key = \<lparr>rule_index = RuleBackup_service_master_key, rule_alts = [
       (None, Seq [Tok T_BACKUP, Tok T_SERVICE, Tok T_MASTER, Tok T_KEY, Tok T_TO, Tok T_FILE,
         Tok T_EQUAL, Lab (Assign ''service_master_key_backup_file'') (Tok T_STRING),
         Tok T_ENCRYPTION, Tok T_BY, Tok T_PASSWORD, Tok T_EQUAL,
         Lab (Assign ''encryption_password'') (Tok T_STRING)])]\<rparr>"

definition g_kill_statement :: rule where [grammar_rules]:
  "g_kill_statement = \<lparr>rule_index = RuleKill_statement, rule_alts = [
       (None, Seq [Tok T_KILL, Alt [Ref RuleKill_process, Ref RuleKill_query_notification,
         Ref RuleKill_stats_job]])]\<rparr>"

definition g_kill_process :: rule where [grammar_rules]:
  "g_kill_process = \<lparr>rule_index = RuleKill_process, rule_alts = [
       (None, Seq [Alt [Lab (Assign ''session_id'') (Alt [Tok T_DECIMAL, Tok T_STRING]),
         Tok T_UOW], Opt (Seq [Tok T_WITH, Tok T_STATUSONLY])])]\<rparr>"

definition g_kill_query_notification :: rule where [grammar_rules]:
  "g_kill_query_notification = \<lparr>rule_index = RuleKill_query_notification, rule_alts = [
       (None, Seq [Tok T_QUERY, Tok T_NOTIFICATION, Tok T_SUBSCRIPTION, Alt [Tok T_ALL,
         Lab (Assign ''subscription_id'') (Tok T_DECIMAL)]])]\<rparr>"

definition g_kill_stats_job :: rule where [grammar_rules]:
  "g_kill_stats_job = \<lparr>rule_index = RuleKill_stats_job, rule_alts = [
       (None, Seq [Tok T_STATS, Tok T_JOB, Lab (Assign ''job_id'') (Tok T_DECIMAL)])]\<rparr>"

definition g_execute_statement :: rule where [grammar_rules]:
  "g_execute_statement = \<lparr>rule_index = RuleExecute_statement, rule_alts = [
       (None, Seq [Tok T_EXECUTE, Ref RuleExecute_body, Opt (Tok T_SEMI)])]\<rparr>"

definition g_execute_body_batch :: rule where [grammar_rules]:
  "g_execute_body_batch = \<lparr>rule_index = RuleExecute_body_batch, rule_alts = [
       (None, Seq [Ref RuleFunc_proc_name_server_database_schema,
         Opt (Seq [Ref RuleExecute_statement_arg, Star (Seq [Tok T_COMMA,
         Ref RuleExecute_statement_arg])]), Opt (Tok T_SEMI)])]\<rparr>"

definition g_execute_body :: rule where [grammar_rules]:
  "g_execute_body = \<lparr>rule_index = RuleExecute_body, rule_alts = [
       (None, Seq [Opt (Seq [Lab (Assign ''return_status'') (Tok T_LOCAL_ID), Tok T_EQUAL]),
         Alt [Ref RuleFunc_proc_name_server_database_schema, Ref RuleExecute_var_string],
         Opt (Ref RuleExecute_statement_arg)]),
       (None, Seq [Tok T_LR_BRACKET, Ref RuleExecute_var_string, Star (Seq [Tok T_COMMA,
         Ref RuleExecute_var_string]), Tok T_RR_BRACKET, Opt (Seq [Tok T_AS, Alt [Tok T_LOGIN,
         Tok T_USER], Tok T_EQUAL, Tok T_STRING]), Opt (Seq [Tok T_AT_KEYWORD,
         Lab (Assign ''linkedServer'') (Ref RuleId')])]),
       (None, Seq [Tok T_AS, Alt [Seq [Alt [Tok T_LOGIN, Tok T_USER], Tok T_EQUAL,
         Tok T_STRING], Tok T_CALLER]])]\<rparr>"

definition g_execute_statement_arg :: rule where [grammar_rules]:
  "g_execute_statement_arg = \<lparr>rule_index = RuleExecute_statement_arg, rule_alts = [
       (None, Seq [Ref RuleExecute_statement_arg_unnamed, Star (Seq [Tok T_COMMA,
         Ref RuleExecute_statement_arg])]),
       (None, Seq [Ref RuleExecute_statement_arg_named, Star (Seq [Tok T_COMMA,
         Ref RuleExecute_statement_arg_named])])]\<rparr>"

definition g_execute_statement_arg_named :: rule where [grammar_rules]:
  "g_execute_statement_arg_named = \<lparr>rule_index = RuleExecute_statement_arg_named, rule_alts = [
       (None, Seq [Lab (Assign ''name'') (Tok T_LOCAL_ID), Tok T_EQUAL,
         Lab (Assign ''value'') (Ref RuleExecute_parameter)])]\<rparr>"

definition g_execute_statement_arg_unnamed :: rule where [grammar_rules]:
  "g_execute_statement_arg_unnamed = \<lparr>rule_index = RuleExecute_statement_arg_unnamed, rule_alts = [
       (None, Lab (Assign ''value'') (Ref RuleExecute_parameter))]\<rparr>"

definition g_execute_parameter :: rule where [grammar_rules]:
  "g_execute_parameter = \<lparr>rule_index = RuleExecute_parameter, rule_alts = [
       (None, Alt [Ref RuleConstant, Seq [Tok T_LOCAL_ID, Opt (Alt [Tok T_OUTPUT, Tok T_OUT])],
         Ref RuleId', Tok T_DEFAULT, Tok T_NULL'])]\<rparr>"

definition g_execute_var_string :: rule where [grammar_rules]:
  "g_execute_var_string = \<lparr>rule_index = RuleExecute_var_string, rule_alts = [
       (None, Seq [Tok T_LOCAL_ID, Opt (Alt [Tok T_OUTPUT, Tok T_OUT]), Opt (Seq [Tok T_PLUS,
         Tok T_LOCAL_ID, Opt (Seq [Tok T_PLUS, Ref RuleExecute_var_string])])]),
       (None, Seq [Tok T_STRING, Opt (Seq [Tok T_PLUS, Tok T_LOCAL_ID, Opt (Seq [Tok T_PLUS,
         Ref RuleExecute_var_string])])])]\<rparr>"

definition g_security_statement :: rule where [grammar_rules]:
  "g_security_statement = \<lparr>rule_index = RuleSecurity_statement, rule_alts = [
       (None, Seq [Ref RuleExecute_clause, Opt (Tok T_SEMI)]),
       (None, Seq [Tok T_GRANT, Alt [Seq [Tok T_ALL, Opt (Tok T_PRIVILEGES)],
         Seq [Ref RuleGrant_permission, Opt (Seq [Tok T_LR_BRACKET, Ref RuleColumn_name_list,
         Tok T_RR_BRACKET])]], Opt (Seq [Tok T_ON, Opt (Seq [Ref RuleClass_type_for_grant,
         Tok T_DOUBLE_COLON]), Lab (Assign ''on_id'') (Ref RuleTable_name)]), Tok T_TO,
         Lab (Append ''to_principal'') (Ref RulePrincipal_id), Star (Seq [Tok T_COMMA,
         Lab (Append ''to_principal'') (Ref RulePrincipal_id)]), Opt (Seq [Tok T_WITH,
         Tok T_GRANT, Tok T_OPTION]), Opt (Seq [Tok T_AS,
         Lab (Assign ''as_principal'') (Ref RulePrincipal_id)]), Opt (Tok T_SEMI)]),
       (None, Seq [Tok T_REVERT, Opt (Seq [Tok T_WITH, Tok T_COOKIE, Tok T_EQUAL,
         Tok T_LOCAL_ID]), Opt (Tok T_SEMI)]),
       (None, Ref RuleOpen_key),
       (None, Ref RuleClose_key),
       (None, Ref RuleCreate_key),
       (None, Ref RuleCreate_certificate)]\<rparr>"

definition g_principal_id :: rule where [grammar_rules]:
  "g_principal_id = \<lparr>rule_index = RulePrincipal_id, rule_alts = [
       (None, Ref RuleId'),
       (None, Tok T_PUBLIC)]\<rparr>"

definition g_create_certificate :: rule where [grammar_rules]:
  "g_create_certificate = \<lparr>rule_index = RuleCreate_certificate, rule_alts = [
       (None, Seq [Tok T_CREATE, Tok T_CERTIFICATE,
         Lab (Assign ''certificate_name'') (Ref RuleId'), Opt (Seq [Tok T_AUTHORIZATION,
         Lab (Assign ''user_name'') (Ref RuleId')]), Alt [Seq [Tok T_FROM,
         Ref RuleExisting_keys], Ref RuleGenerate_new_keys], Opt (Seq [Tok T_ACTIVE, Tok T_FOR,
         Tok T_BEGIN, Tok T_DIALOG, Tok T_EQUAL, Ref RuleOn_off])])]\<rparr>"

definition g_existing_keys :: rule where [grammar_rules]:
  "g_existing_keys = \<lparr>rule_index = RuleExisting_keys, rule_alts = [
       (None, Seq [Tok T_ASSEMBLY, Lab (Assign ''assembly_name'') (Ref RuleId')]),
       (None, Seq [Opt (Tok T_EXECUTABLE), Tok T_FILE, Tok T_EQUAL,
         Lab (Assign ''path_to_file'') (Tok T_STRING), Opt (Seq [Tok T_WITH, Tok T_PRIVATE,
         Tok T_KEY, Tok T_LR_BRACKET, Ref RulePrivate_key_options, Tok T_RR_BRACKET])])]\<rparr>"

definition g_private_key_options :: rule where [grammar_rules]:
  "g_private_key_options = \<lparr>rule_index = RulePrivate_key_options, rule_alts = [
       (None, Seq [Alt [Tok T_FILE, Tok T_BINARY], Tok T_EQUAL,
         Lab (Assign ''path'') (Tok T_STRING), Opt (Seq [Tok T_COMMA, Alt [Tok T_DECRYPTION,
         Tok T_ENCRYPTION], Tok T_BY, Tok T_PASSWORD, Tok T_EQUAL,
         Lab (Assign ''password'') (Tok T_STRING)])])]\<rparr>"

definition g_generate_new_keys :: rule where [grammar_rules]:
  "g_generate_new_keys = \<lparr>rule_index = RuleGenerate_new_keys, rule_alts = [
       (None, Seq [Opt (Seq [Tok T_ENCRYPTION, Tok T_BY, Tok T_PASSWORD, Tok T_EQUAL,
         Lab (Assign ''password'') (Tok T_STRING)]), Tok T_WITH, Tok T_SUBJECT, Tok T_EQUAL,
         Lab (Assign ''certificate_subject_name'') (Tok T_STRING), Star (Seq [Tok T_COMMA,
         Ref RuleDate_options])])]\<rparr>"

definition g_date_options :: rule where [grammar_rules]:
  "g_date_options = \<lparr>rule_index = RuleDate_options, rule_alts = [
       (None, Seq [Alt [Tok T_START_DATE, Tok T_EXPIRY_DATE], Tok T_EQUAL, Tok T_STRING])]\<rparr>"

definition g_open_key :: rule where [grammar_rules]:
  "g_open_key = \<lparr>rule_index = RuleOpen_key, rule_alts = [
       (None, Seq [Tok T_OPEN, Tok T_SYMMETRIC, Tok T_KEY,
         Lab (Assign ''key_name'') (Ref RuleId'), Tok T_DECRYPTION, Tok T_BY,
         Ref RuleDecryption_mechanism]),
       (None, Seq [Tok T_OPEN, Tok T_MASTER, Tok T_KEY, Tok T_DECRYPTION, Tok T_BY,
         Tok T_PASSWORD, Tok T_EQUAL, Lab (Assign ''password'') (Tok T_STRING)])]\<rparr>"

definition g_close_key :: rule where [grammar_rules]:
  "g_close_key = \<lparr>rule_index = RuleClose_key, rule_alts = [
       (None, Seq [Tok T_CLOSE, Tok T_SYMMETRIC, Tok T_KEY,
         Lab (Assign ''key_name'') (Ref RuleId')]),
       (None, Seq [Tok T_CLOSE, Tok T_ALL, Tok T_SYMMETRIC, Tok T_KEYS]),
       (None, Seq [Tok T_CLOSE, Tok T_MASTER, Tok T_KEY])]\<rparr>"

definition g_create_key :: rule where [grammar_rules]:
  "g_create_key = \<lparr>rule_index = RuleCreate_key, rule_alts = [
       (None, Seq [Tok T_CREATE, Tok T_MASTER, Tok T_KEY, Tok T_ENCRYPTION, Tok T_BY,
         Tok T_PASSWORD, Tok T_EQUAL, Lab (Assign ''password'') (Tok T_STRING)]),
       (None, Seq [Tok T_CREATE, Tok T_SYMMETRIC, Tok T_KEY,
         Lab (Assign ''key_name'') (Ref RuleId'), Opt (Seq [Tok T_AUTHORIZATION,
         Lab (Assign ''user_name'') (Ref RuleId')]), Opt (Seq [Tok T_FROM, Tok T_PROVIDER,
         Lab (Assign ''provider_name'') (Ref RuleId')]), Tok T_WITH,
         Plus (Seq [Alt [Ref RuleKey_options, Seq [Tok T_ENCRYPTION, Tok T_BY,
         Ref RuleEncryption_mechanism]], Opt (Tok T_COMMA)])])]\<rparr>"

definition g_key_options :: rule where [grammar_rules]:
  "g_key_options = \<lparr>rule_index = RuleKey_options, rule_alts = [
       (None, Seq [Tok T_KEY_SOURCE, Tok T_EQUAL,
         Lab (Assign ''pass_phrase'') (Tok T_STRING)]),
       (None, Seq [Tok T_ALGORITHM, Tok T_EQUAL, Ref RuleAlgorithm]),
       (None, Seq [Tok T_IDENTITY_VALUE, Tok T_EQUAL,
         Lab (Assign ''identity_phrase'') (Tok T_STRING)]),
       (None, Seq [Tok T_PROVIDER_KEY_NAME, Tok T_EQUAL,
         Lab (Assign ''key_name_in_provider'') (Tok T_STRING)]),
       (None, Seq [Tok T_CREATION_DISPOSITION, Tok T_EQUAL, Alt [Tok T_CREATE_NEW,
         Tok T_OPEN_EXISTING]])]\<rparr>"

definition g_algorithm :: rule where [grammar_rules]:
  "g_algorithm = \<lparr>rule_index = RuleAlgorithm, rule_alts = [
       (None, Tok T_DES),
       (None, Tok T_TRIPLE_DES),
       (None, Tok T_TRIPLE_DES_3KEY),
       (None, Tok T_RC2),
       (None, Tok T_RC4),
       (None, Tok T_RC4_128),
       (None, Tok T_DESX),
       (None, Tok T_AES_128),
       (None, Tok T_AES_192),
       (None, Tok T_AES_256)]\<rparr>"

definition g_encryption_mechanism :: rule where [grammar_rules]:
  "g_encryption_mechanism = \<lparr>rule_index = RuleEncryption_mechanism, rule_alts = [
       (None, Seq [Tok T_CERTIFICATE, Lab (Assign ''certificate_name'') (Ref RuleId')]),
       (None, Seq [Tok T_ASYMMETRIC, Tok T_KEY, Lab (Assign ''asym_key_name'') (Ref RuleId')]),
       (None, Seq [Tok T_SYMMETRIC, Tok T_KEY,
         Lab (Assign ''decrypting_Key_name'') (Ref RuleId')]),
       (None, Seq [Tok T_PASSWORD, Tok T_EQUAL, Tok T_STRING])]\<rparr>"

definition g_decryption_mechanism :: rule where [grammar_rules]:
  "g_decryption_mechanism = \<lparr>rule_index = RuleDecryption_mechanism, rule_alts = [
       (None, Seq [Tok T_CERTIFICATE, Lab (Assign ''certificate_name'') (Ref RuleId'),
         Opt (Seq [Tok T_WITH, Tok T_PASSWORD, Tok T_EQUAL, Tok T_STRING])]),
       (None, Seq [Tok T_ASYMMETRIC, Tok T_KEY, Lab (Assign ''asym_key_name'') (Ref RuleId'),
         Opt (Seq [Tok T_WITH, Tok T_PASSWORD, Tok T_EQUAL, Tok T_STRING])]),
       (None, Seq [Tok T_SYMMETRIC, Tok T_KEY,
         Lab (Assign ''decrypting_Key_name'') (Ref RuleId')]),
       (None, Seq [Tok T_PASSWORD, Tok T_EQUAL, Tok T_STRING])]\<rparr>"

definition g_grant_permission :: rule where [grammar_rules]:
  "g_grant_permission = \<lparr>rule_index = RuleGrant_permission, rule_alts = [
       (None, Seq [Tok T_ADMINISTER, Alt [Seq [Tok T_BULK, Tok T_OPERATIONS],
         Seq [Tok T_DATABASE, Tok T_BULK, Tok T_OPERATIONS]]]),
       (None, Seq [Tok T_ALTER, Opt (Alt [Seq [Tok T_ANY, Alt [Seq [Tok T_APPLICATION,
         Tok T_ROLE], Tok T_ASSEMBLY, Seq [Tok T_ASYMMETRIC, Tok T_KEY],
         Seq [Tok T_AVAILABILITY, Tok T_GROUP], Tok T_CERTIFICATE, Seq [Tok T_COLUMN,
         Alt [Seq [Tok T_ENCRYPTION, Tok T_KEY], Seq [Tok T_MASTER, Tok T_KEY]]],
         Tok T_CONNECTION, Tok T_CONTRACT, Tok T_CREDENTIAL, Seq [Tok T_DATABASE,
         Opt (Alt [Tok T_AUDIT, Seq [Tok T_DDL, Tok T_TRIGGER], Seq [Tok T_EVENT,
         Alt [Tok T_NOTIFICATION, Tok T_SESSION]], Seq [Tok T_SCOPED, Tok T_CONFIGURATION]])],
         Tok T_DATASPACE, Tok T_ENDPOINT, Seq [Tok T_EVENT, Alt [Tok T_NOTIFICATION,
         Tok T_SESSION]], Seq [Tok T_EXTERNAL, Alt [Seq [Tok T_DATA, Tok T_SOURCE],
         Seq [Tok T_FILE, Tok T_FORMAT], Tok T_LIBRARY]], Seq [Tok T_FULLTEXT, Tok T_CATALOG],
         Seq [Tok T_LINKED, Tok T_SERVER], Tok T_LOGIN, Tok T_MASK, Seq [Tok T_MESSAGE,
         Tok T_TYPE], Seq [Tok T_REMOTE, Tok T_SERVICE, Tok T_BINDING], Tok T_ROLE,
         Tok T_ROUTE, Tok T_SCHEMA, Seq [Tok T_SECURITY, Tok T_POLICY], Seq [Tok T_SERVER,
         Alt [Tok T_AUDIT, Tok T_ROLE]], Tok T_SERVICE, Seq [Tok T_SYMMETRIC, Tok T_KEY],
         Tok T_USER]], Tok T_RESOURCES, Seq [Tok T_SERVER, Tok T_STATE], Tok T_SETTINGS,
         Tok T_TRACE])]),
       (None, Seq [Tok T_AUTHENTICATE, Opt (Tok T_SERVER)]),
       (None, Seq [Tok T_BACKUP, Alt [Tok T_DATABASE, Tok T_LOG]]),
       (None, Tok T_CHECKPOINT),
       (None, Seq [Tok T_CONNECT, Opt (Alt [Seq [Tok T_ANY, Tok T_DATABASE], Tok T_REPLICATION,
         Tok T_SQL])]),
       (None, Seq [Tok T_CONTROL, Opt (Tok T_SERVER)]),
       (None, Seq [Tok T_CREATE, Alt [Tok T_AGGREGATE, Seq [Tok T_ANY, Tok T_DATABASE],
         Tok T_ASSEMBLY, Seq [Tok T_ASYMMETRIC, Tok T_KEY], Seq [Tok T_AVAILABILITY,
         Tok T_GROUP], Tok T_CERTIFICATE, Tok T_CONTRACT, Seq [Tok T_DATABASE,
         Opt (Seq [Tok T_DDL, Tok T_EVENT, Tok T_NOTIFICATION])], Seq [Tok T_DDL, Tok T_EVENT,
         Tok T_NOTIFICATION], Tok T_DEFAULT, Tok T_ENDPOINT, Seq [Tok T_EXTERNAL,
         Tok T_LIBRARY], Seq [Tok T_FULLTEXT, Tok T_CATALOG], Tok T_FUNCTION,
         Seq [Tok T_MESSAGE, Tok T_TYPE], Tok T_PROCEDURE, Tok T_QUEUE, Seq [Tok T_REMOTE,
         Tok T_SERVICE, Tok T_BINDING], Tok T_ROLE, Tok T_ROUTE, Tok T_RULE, Tok T_SCHEMA,
         Tok T_SEQUENCE, Seq [Tok T_SERVER, Tok T_ROLE], Tok T_SERVICE, Seq [Tok T_SYMMETRIC,
         Tok T_KEY], Tok T_SYNONYM, Tok T_TABLE, Seq [Tok T_TRACE, Tok T_EVENT,
         Tok T_NOTIFICATION], Tok T_TYPE, Tok T_VIEW, Seq [Tok T_XML, Tok T_SCHEMA,
         Tok T_COLLECTION]]]),
       (None, Tok T_DELETE),
       (None, Seq [Tok T_EXECUTE, Opt (Seq [Tok T_ANY, Tok T_EXTERNAL, Tok T_SCRIPT])]),
       (None, Seq [Tok T_EXTERNAL, Tok T_ACCESS, Tok T_ASSEMBLY]),
       (None, Seq [Tok T_IMPERSONATE, Opt (Seq [Tok T_ANY, Tok T_LOGIN])]),
       (None, Tok T_INSERT),
       (None, Seq [Tok T_KILL, Tok T_DATABASE, Tok T_CONNECTION]),
       (None, Tok T_RECEIVE),
       (None, Tok T_REFERENCES),
       (None, Seq [Tok T_SELECT, Opt (Seq [Tok T_ALL, Tok T_USER, Tok T_SECURABLES])]),
       (None, Tok T_SEND),
       (None, Tok T_SHOWPLAN),
       (None, Tok T_SHUTDOWN),
       (None, Seq [Tok T_SUBSCRIBE, Tok T_QUERY, Tok T_NOTIFICATIONS]),
       (None, Seq [Tok T_TAKE, Tok T_OWNERSHIP]),
       (None, Tok T_UNMASK),
       (None, Seq [Tok T_UNSAFE, Tok T_ASSEMBLY]),
       (None, Tok T_UPDATE),
       (None, Seq [Tok T_VIEW, Alt [Seq [Tok T_ANY, Alt [Tok T_DATABASE, Tok T_DEFINITION,
         Seq [Tok T_COLUMN, Alt [Tok T_ENCRYPTION, Tok T_MASTER], Tok T_KEY,
         Tok T_DEFINITION]]], Seq [Tok T_CHANGE, Tok T_TRACKING], Seq [Tok T_DATABASE,
         Tok T_STATE], Tok T_DEFINITION, Seq [Tok T_SERVER, Tok T_STATE]]])]\<rparr>"

definition g_set_statement :: rule where [grammar_rules]:
  "g_set_statement = \<lparr>rule_index = RuleSet_statement, rule_alts = [
       (None, Seq [Tok T_SET, Tok T_LOCAL_ID, Opt (Seq [Tok T_DOT,
         Lab (Assign ''member_name'') (Ref RuleId')]), Tok T_EQUAL, Ref RuleExpression]),
       (None, Seq [Tok T_SET, Tok T_LOCAL_ID, Ref RuleAssignment_operator,
         Ref RuleExpression]),
       (None, Seq [Tok T_SET, Tok T_LOCAL_ID, Tok T_EQUAL, Tok T_CURSOR,
         Ref RuleDeclare_set_cursor_common, Opt (Seq [Tok T_FOR, Alt [Seq [Tok T_READ,
         Tok T_ONLY], Seq [Tok T_UPDATE, Opt (Seq [Tok T_OF, Ref RuleColumn_name_list])]]])]),
       (None, Ref RuleSet_special)]\<rparr>"

definition g_transaction_statement :: rule where [grammar_rules]:
  "g_transaction_statement = \<lparr>rule_index = RuleTransaction_statement, rule_alts = [
       (None, Seq [Tok T_BEGIN, Tok T_DISTRIBUTED, Alt [Tok T_TRAN, Tok T_TRANSACTION],
         Opt (Alt [Ref RuleId', Tok T_LOCAL_ID])]),
       (None, Seq [Tok T_BEGIN, Alt [Tok T_TRAN, Tok T_TRANSACTION],
         Opt (Seq [Alt [Ref RuleId', Tok T_LOCAL_ID], Opt (Seq [Tok T_WITH, Tok T_MARK,
         Tok T_STRING])])]),
       (None, Seq [Tok T_COMMIT, Alt [Tok T_TRAN, Tok T_TRANSACTION],
         Opt (Seq [Alt [Ref RuleId', Tok T_LOCAL_ID], Opt (Seq [Tok T_WITH, Tok T_LR_BRACKET,
         Tok T_DELAYED_DURABILITY, Tok T_EQUAL, Alt [Tok T_OFF, Tok T_ON],
         Tok T_RR_BRACKET])])]),
       (None, Seq [Tok T_COMMIT, Opt (Tok T_WORK)]),
       (None, Seq [Tok T_COMMIT, Ref RuleId']),
       (None, Seq [Tok T_ROLLBACK, Ref RuleId']),
       (None, Seq [Tok T_ROLLBACK, Alt [Tok T_TRAN, Tok T_TRANSACTION], Opt (Alt [Ref RuleId',
         Tok T_LOCAL_ID])]),
       (None, Seq [Tok T_ROLLBACK, Opt (Tok T_WORK)]),
       (None, Seq [Tok T_SAVE, Alt [Tok T_TRAN, Tok T_TRANSACTION], Opt (Alt [Ref RuleId',
         Tok T_LOCAL_ID])])]\<rparr>"

definition g_go_statement :: rule where [grammar_rules]:
  "g_go_statement = \<lparr>rule_index = RuleGo_statement, rule_alts = [
       (None, Seq [Tok T_GO, Opt (Lab (Assign ''count'') (Tok T_DECIMAL))])]\<rparr>"

definition g_use_statement :: rule where [grammar_rules]:
  "g_use_statement = \<lparr>rule_index = RuleUse_statement, rule_alts = [
       (None, Seq [Tok T_USE, Lab (Assign ''database'') (Ref RuleId')])]\<rparr>"

definition g_setuser_statement :: rule where [grammar_rules]:
  "g_setuser_statement = \<lparr>rule_index = RuleSetuser_statement, rule_alts = [
       (None, Seq [Tok T_SETUSER, Opt (Lab (Assign ''user'') (Tok T_STRING))])]\<rparr>"

definition g_reconfigure_statement :: rule where [grammar_rules]:
  "g_reconfigure_statement = \<lparr>rule_index = RuleReconfigure_statement, rule_alts = [
       (None, Seq [Tok T_RECONFIGURE, Opt (Seq [Tok T_WITH, Tok T_OVERRIDE])])]\<rparr>"

definition g_shutdown_statement :: rule where [grammar_rules]:
  "g_shutdown_statement = \<lparr>rule_index = RuleShutdown_statement, rule_alts = [
       (None, Seq [Tok T_SHUTDOWN, Opt (Seq [Tok T_WITH, Tok T_NOWAIT])])]\<rparr>"

definition g_checkpoint_statement :: rule where [grammar_rules]:
  "g_checkpoint_statement = \<lparr>rule_index = RuleCheckpoint_statement, rule_alts = [
       (None, Seq [Tok T_CHECKPOINT,
         Opt (Lab (Assign ''checkPointDuration'') (Tok T_DECIMAL))])]\<rparr>"

definition g_dbcc_checkalloc_option :: rule where [grammar_rules]:
  "g_dbcc_checkalloc_option = \<lparr>rule_index = RuleDbcc_checkalloc_option, rule_alts = [
       (None, Tok T_ALL_ERRORMSGS),
       (None, Tok T_NO_INFOMSGS),
       (None, Tok T_TABLOCK),
       (None, Tok T_ESTIMATEONLY)]\<rparr>"

definition g_dbcc_checkalloc :: rule where [grammar_rules]:
  "g_dbcc_checkalloc = \<lparr>rule_index = RuleDbcc_checkalloc, rule_alts = [
       (None, Seq [Lab (Assign ''name'') (Tok T_CHECKALLOC), Opt (Seq [Tok T_LR_BRACKET,
         Alt [Lab (Assign ''database'') (Ref RuleId'),
         Lab (Assign ''databaseid'') (Tok T_STRING), Tok T_DECIMAL],
         Opt (Alt [Seq [Tok T_COMMA, Tok T_NOINDEX], Seq [Tok T_COMMA,
         Alt [Tok T_REPAIR_ALLOW_DATA_LOSS, Tok T_REPAIR_FAST, Tok T_REPAIR_REBUILD]]]),
         Tok T_RR_BRACKET, Opt (Seq [Tok T_WITH,
         Lab (Assign ''dbcc_option'') (Ref RuleDbcc_checkalloc_option), Star (Seq [Tok T_COMMA,
         Lab (Assign ''dbcc_option'') (Ref RuleDbcc_checkalloc_option)])])])])]\<rparr>"

definition g_dbcc_checkcatalog :: rule where [grammar_rules]:
  "g_dbcc_checkcatalog = \<lparr>rule_index = RuleDbcc_checkcatalog, rule_alts = [
       (None, Seq [Lab (Assign ''name'') (Tok T_CHECKCATALOG), Opt (Seq [Tok T_LR_BRACKET,
         Alt [Lab (Assign ''database'') (Ref RuleId'),
         Lab (Assign ''databasename'') (Tok T_STRING), Tok T_DECIMAL], Tok T_RR_BRACKET]),
         Opt (Seq [Tok T_WITH, Lab (Assign ''dbcc_option'') (Tok T_NO_INFOMSGS)])])]\<rparr>"

definition g_dbcc_checkconstraints_option :: rule where [grammar_rules]:
  "g_dbcc_checkconstraints_option = \<lparr>rule_index = RuleDbcc_checkconstraints_option, rule_alts = [
       (None, Tok T_ALL_CONSTRAINTS),
       (None, Tok T_ALL_ERRORMSGS),
       (None, Tok T_NO_INFOMSGS)]\<rparr>"

definition g_dbcc_checkconstraints :: rule where [grammar_rules]:
  "g_dbcc_checkconstraints = \<lparr>rule_index = RuleDbcc_checkconstraints, rule_alts = [
       (None, Seq [Lab (Assign ''name'') (Tok T_CHECKCONSTRAINTS), Opt (Seq [Tok T_LR_BRACKET,
         Alt [Lab (Assign ''table_or_constraint'') (Ref RuleId'),
         Lab (Assign ''table_or_constraint_name'') (Tok T_STRING)], Tok T_RR_BRACKET]),
         Opt (Seq [Tok T_WITH,
         Lab (Assign ''dbcc_option'') (Ref RuleDbcc_checkconstraints_option),
         Star (Seq [Tok T_COMMA,
         Lab (Assign ''dbcc_option'') (Ref RuleDbcc_checkconstraints_option)])])])]\<rparr>"

definition g_dbcc_checkdb_table_option :: rule where [grammar_rules]:
  "g_dbcc_checkdb_table_option = \<lparr>rule_index = RuleDbcc_checkdb_table_option, rule_alts = [
       (None, Tok T_ALL_ERRORMSGS),
       (None, Tok T_EXTENDED_LOGICAL_CHECKS),
       (None, Tok T_NO_INFOMSGS),
       (None, Tok T_TABLOCK),
       (None, Tok T_ESTIMATEONLY),
       (None, Tok T_PHYSICAL_ONLY),
       (None, Tok T_DATA_PURITY),
       (None, Seq [Tok T_MAXDOP, Tok T_EQUAL,
         Lab (Assign ''max_dregree_of_parallelism'') (Tok T_DECIMAL)])]\<rparr>"

definition g_dbcc_checkdb :: rule where [grammar_rules]:
  "g_dbcc_checkdb = \<lparr>rule_index = RuleDbcc_checkdb, rule_alts = [
       (None, Seq [Lab (Assign ''name'') (Tok T_CHECKDB), Opt (Seq [Tok T_LR_BRACKET,
         Alt [Lab (Assign ''database'') (Ref RuleId'),
         Lab (Assign ''databasename'') (Tok T_STRING), Tok T_DECIMAL], Opt (Seq [Tok T_COMMA,
         Alt [Tok T_NOINDEX, Tok T_REPAIR_ALLOW_DATA_LOSS, Tok T_REPAIR_FAST,
         Tok T_REPAIR_REBUILD]]), Tok T_RR_BRACKET]), Opt (Seq [Tok T_WITH,
         Lab (Assign ''dbcc_option'') (Ref RuleDbcc_checkdb_table_option),
         Star (Seq [Tok T_COMMA,
         Lab (Assign ''dbcc_option'') (Ref RuleDbcc_checkdb_table_option)])])])]\<rparr>"

definition g_dbcc_checkfilegroup_option :: rule where [grammar_rules]:
  "g_dbcc_checkfilegroup_option = \<lparr>rule_index = RuleDbcc_checkfilegroup_option, rule_alts = [
       (None, Tok T_ALL_ERRORMSGS),
       (None, Tok T_NO_INFOMSGS),
       (None, Tok T_TABLOCK),
       (None, Tok T_ESTIMATEONLY),
       (None, Tok T_PHYSICAL_ONLY),
       (None, Seq [Tok T_MAXDOP, Tok T_EQUAL,
         Lab (Assign ''max_dregree_of_parallelism'') (Tok T_DECIMAL)])]\<rparr>"

definition g_dbcc_checkfilegroup :: rule where [grammar_rules]:
  "g_dbcc_checkfilegroup = \<lparr>rule_index = RuleDbcc_checkfilegroup, rule_alts = [
       (None, Seq [Lab (Assign ''name'') (Tok T_CHECKFILEGROUP), Opt (Seq [Tok T_LR_BRACKET,
         Alt [Lab (Assign ''filegroup_id'') (Tok T_DECIMAL),
         Lab (Assign ''filegroup_name'') (Tok T_STRING)], Opt (Seq [Tok T_COMMA,
         Alt [Tok T_NOINDEX, Tok T_REPAIR_ALLOW_DATA_LOSS, Tok T_REPAIR_FAST,
         Tok T_REPAIR_REBUILD]]), Tok T_RR_BRACKET]), Opt (Seq [Tok T_WITH,
         Lab (Assign ''dbcc_option'') (Ref RuleDbcc_checkfilegroup_option),
         Star (Seq [Tok T_COMMA,
         Lab (Assign ''dbcc_option'') (Ref RuleDbcc_checkfilegroup_option)])])])]\<rparr>"

definition g_dbcc_checktable :: rule where [grammar_rules]:
  "g_dbcc_checktable = \<lparr>rule_index = RuleDbcc_checktable, rule_alts = [
       (None, Seq [Lab (Assign ''name'') (Tok T_CHECKTABLE), Tok T_LR_BRACKET,
         Lab (Assign ''table_or_view_name'') (Tok T_STRING), Opt (Seq [Tok T_COMMA,
         Alt [Tok T_NOINDEX, Lab (Assign ''index_id'') (Ref RuleExpression),
         Tok T_REPAIR_ALLOW_DATA_LOSS, Tok T_REPAIR_FAST, Tok T_REPAIR_REBUILD]]),
         Tok T_RR_BRACKET, Opt (Seq [Tok T_WITH,
         Lab (Assign ''dbcc_option'') (Ref RuleDbcc_checkdb_table_option),
         Star (Seq [Tok T_COMMA,
         Lab (Assign ''dbcc_option'') (Ref RuleDbcc_checkdb_table_option)])])])]\<rparr>"

definition g_dbcc_cleantable :: rule where [grammar_rules]:
  "g_dbcc_cleantable = \<lparr>rule_index = RuleDbcc_cleantable, rule_alts = [
       (None, Seq [Lab (Assign ''name'') (Tok T_CLEANTABLE), Tok T_LR_BRACKET,
         Alt [Lab (Assign ''database'') (Ref RuleId'),
         Lab (Assign ''databasename'') (Tok T_STRING), Tok T_DECIMAL], Tok T_COMMA,
         Alt [Lab (Assign ''table_or_view'') (Ref RuleId'),
         Lab (Assign ''table_or_view_name'') (Tok T_STRING)], Opt (Seq [Tok T_COMMA,
         Lab (Assign ''batch_size'') (Tok T_DECIMAL)]), Tok T_RR_BRACKET, Opt (Seq [Tok T_WITH,
         Lab (Assign ''dbcc_option'') (Tok T_NO_INFOMSGS)])])]\<rparr>"

definition g_dbcc_clonedatabase_option :: rule where [grammar_rules]:
  "g_dbcc_clonedatabase_option = \<lparr>rule_index = RuleDbcc_clonedatabase_option, rule_alts = [
       (None, Tok T_NO_STATISTICS),
       (None, Tok T_NO_QUERYSTORE),
       (None, Tok T_SERVICEBROKER),
       (None, Tok T_VERIFY_CLONEDB),
       (None, Tok T_BACKUP_CLONEDB)]\<rparr>"

definition g_dbcc_clonedatabase :: rule where [grammar_rules]:
  "g_dbcc_clonedatabase = \<lparr>rule_index = RuleDbcc_clonedatabase, rule_alts = [
       (None, Seq [Lab (Assign ''name'') (Tok T_CLONEDATABASE), Tok T_LR_BRACKET,
         Lab (Assign ''source_database'') (Ref RuleId'), Tok T_COMMA,
         Lab (Assign ''target_database'') (Ref RuleId'), Tok T_RR_BRACKET,
         Opt (Seq [Tok T_WITH,
         Lab (Assign ''dbcc_option'') (Ref RuleDbcc_clonedatabase_option),
         Star (Seq [Tok T_COMMA,
         Lab (Assign ''dbcc_option'') (Ref RuleDbcc_clonedatabase_option)])])])]\<rparr>"

definition g_dbcc_pdw_showspaceused :: rule where [grammar_rules]:
  "g_dbcc_pdw_showspaceused = \<lparr>rule_index = RuleDbcc_pdw_showspaceused, rule_alts = [
       (None, Seq [Lab (Assign ''name'') (Tok T_PDW_SHOWSPACEUSED), Opt (Seq [Tok T_LR_BRACKET,
         Lab (Assign ''tablename'') (Ref RuleId'), Tok T_RR_BRACKET]), Opt (Seq [Tok T_WITH,
         Lab (Assign ''dbcc_option'') (Tok T_IGNORE_REPLICATED_TABLE_CACHE)])])]\<rparr>"

definition g_dbcc_proccache :: rule where [grammar_rules]:
  "g_dbcc_proccache = \<lparr>rule_index = RuleDbcc_proccache, rule_alts = [
       (None, Seq [Lab (Assign ''name'') (Tok T_PROCCACHE), Opt (Seq [Tok T_WITH,
         Lab (Assign ''dbcc_option'') (Tok T_NO_INFOMSGS)])])]\<rparr>"

definition g_dbcc_showcontig_option :: rule where [grammar_rules]:
  "g_dbcc_showcontig_option = \<lparr>rule_index = RuleDbcc_showcontig_option, rule_alts = [
       (None, Tok T_ALL_INDEXES),
       (None, Tok T_TABLERESULTS),
       (None, Tok T_FAST),
       (None, Tok T_ALL_LEVELS),
       (None, Tok T_NO_INFOMSGS)]\<rparr>"

definition g_dbcc_showcontig :: rule where [grammar_rules]:
  "g_dbcc_showcontig = \<lparr>rule_index = RuleDbcc_showcontig, rule_alts = [
       (None, Seq [Lab (Assign ''name'') (Tok T_SHOWCONTIG), Opt (Seq [Tok T_LR_BRACKET,
         Lab (Assign ''table_or_view'') (Ref RuleExpression), Opt (Seq [Tok T_COMMA,
         Lab (Assign ''index'') (Ref RuleExpression)]), Tok T_RR_BRACKET]),
         Opt (Seq [Tok T_WITH, Lab (Assign ''dbcc_option'') (Ref RuleDbcc_showcontig_option),
         Star (Seq [Tok T_COMMA, Ref RuleDbcc_showcontig_option])])])]\<rparr>"

definition g_dbcc_shrinklog :: rule where [grammar_rules]:
  "g_dbcc_shrinklog = \<lparr>rule_index = RuleDbcc_shrinklog, rule_alts = [
       (None, Seq [Lab (Assign ''name'') (Tok T_SHRINKLOG), Opt (Seq [Tok T_LR_BRACKET,
         Tok T_SIZE, Tok T_EQUAL, Alt [Seq [Tok T_DECIMAL, Alt [Tok T_MB, Tok T_GB, Tok T_TB]],
         Tok T_DEFAULT], Tok T_RR_BRACKET]), Opt (Seq [Tok T_WITH,
         Lab (Assign ''dbcc_option'') (Tok T_NO_INFOMSGS)])])]\<rparr>"

definition g_dbcc_dbreindex :: rule where [grammar_rules]:
  "g_dbcc_dbreindex = \<lparr>rule_index = RuleDbcc_dbreindex, rule_alts = [
       (None, Seq [Lab (Assign ''name'') (Tok T_DBREINDEX), Tok T_LR_BRACKET,
         Lab (Assign ''table'') (Ref RuleId_or_string), Opt (Seq [Tok T_COMMA,
         Lab (Assign ''index_name'') (Ref RuleId_or_string), Opt (Seq [Tok T_COMMA,
         Lab (Assign ''fillfactor'') (Ref RuleExpression)])]), Tok T_RR_BRACKET,
         Opt (Seq [Tok T_WITH, Lab (Assign ''dbcc_option'') (Tok T_NO_INFOMSGS)])])]\<rparr>"

definition g_dbcc_dll_free :: rule where [grammar_rules]:
  "g_dbcc_dll_free = \<lparr>rule_index = RuleDbcc_dll_free, rule_alts = [
       (None, Seq [Lab (Assign ''dllname'') (Ref RuleId'), Tok T_LR_BRACKET,
         Lab (Assign ''name'') (Tok T_FREE), Tok T_RR_BRACKET, Opt (Seq [Tok T_WITH,
         Lab (Assign ''dbcc_option'') (Tok T_NO_INFOMSGS)])])]\<rparr>"

definition g_dbcc_dropcleanbuffers :: rule where [grammar_rules]:
  "g_dbcc_dropcleanbuffers = \<lparr>rule_index = RuleDbcc_dropcleanbuffers, rule_alts = [
       (None, Seq [Lab (Assign ''name'') (Tok T_DROPCLEANBUFFERS),
         Opt (Alt [Seq [Tok T_LR_BRACKET, Tok T_COMPUTE], Seq [Tok T_ALL, Tok T_RR_BRACKET]]),
         Opt (Seq [Tok T_WITH, Lab (Assign ''dbcc_option'') (Tok T_NO_INFOMSGS)])])]\<rparr>"

definition g_dbcc_clause :: rule where [grammar_rules]:
  "g_dbcc_clause = \<lparr>rule_index = RuleDbcc_clause, rule_alts = [
       (None, Seq [Tok T_DBCC, Alt [Ref RuleDbcc_checkalloc, Ref RuleDbcc_checkcatalog,
         Ref RuleDbcc_checkconstraints, Ref RuleDbcc_checkdb, Ref RuleDbcc_checkfilegroup,
         Ref RuleDbcc_checktable, Ref RuleDbcc_cleantable, Ref RuleDbcc_clonedatabase,
         Ref RuleDbcc_dbreindex, Ref RuleDbcc_dll_free, Ref RuleDbcc_dropcleanbuffers,
         Ref RuleDbcc_pdw_showspaceused, Ref RuleDbcc_proccache, Ref RuleDbcc_showcontig,
         Ref RuleDbcc_shrinklog]])]\<rparr>"

definition g_execute_clause :: rule where [grammar_rules]:
  "g_execute_clause = \<lparr>rule_index = RuleExecute_clause, rule_alts = [
       (None, Seq [Tok T_EXECUTE, Tok T_AS, Lab (Assign ''clause'') (Alt [Tok T_CALLER,
         Tok T_SELF, Tok T_OWNER, Tok T_STRING])])]\<rparr>"

definition g_declare_local :: rule where [grammar_rules]:
  "g_declare_local = \<lparr>rule_index = RuleDeclare_local, rule_alts = [
       (None, Seq [Tok T_LOCAL_ID, Opt (Tok T_AS), Ref RuleData_type, Opt (Seq [Tok T_EQUAL,
         Ref RuleExpression])])]\<rparr>"

definition g_table_type_definition :: rule where [grammar_rules]:
  "g_table_type_definition = \<lparr>rule_index = RuleTable_type_definition, rule_alts = [
       (None, Seq [Tok T_TABLE, Tok T_LR_BRACKET, Ref RuleColumn_def_table_constraints,
         Star (Seq [Opt (Tok T_COMMA), Ref RuleTable_type_indices]), Tok T_RR_BRACKET])]\<rparr>"

definition g_table_type_indices :: rule where [grammar_rules]:
  "g_table_type_indices = \<lparr>rule_index = RuleTable_type_indices, rule_alts = [
       (None, Seq [Alt [Seq [Alt [Seq [Tok T_PRIMARY, Tok T_KEY], Seq [Tok T_INDEX,
         Ref RuleId']], Opt (Alt [Tok T_CLUSTERED, Tok T_NONCLUSTERED])], Tok T_UNIQUE],
         Tok T_LR_BRACKET, Ref RuleColumn_name_list_with_order, Tok T_RR_BRACKET]),
       (None, Seq [Tok T_CHECK, Tok T_LR_BRACKET, Ref RuleSearch_condition, Tok T_RR_BRACKET])]\<rparr>"

definition g_xml_type_definition :: rule where [grammar_rules]:
  "g_xml_type_definition = \<lparr>rule_index = RuleXml_type_definition, rule_alts = [
       (None, Seq [Tok T_XML, Tok T_LR_BRACKET, Opt (Alt [Tok T_CONTENT, Tok T_DOCUMENT]),
         Ref RuleXml_schema_collection, Tok T_RR_BRACKET])]\<rparr>"

definition g_xml_schema_collection :: rule where [grammar_rules]:
  "g_xml_schema_collection = \<lparr>rule_index = RuleXml_schema_collection, rule_alts = [
       (None, Seq [Tok T_ID, Tok T_DOT, Tok T_ID])]\<rparr>"

definition g_column_def_table_constraints :: rule where [grammar_rules]:
  "g_column_def_table_constraints = \<lparr>rule_index = RuleColumn_def_table_constraints, rule_alts = [
       (None, Seq [Ref RuleColumn_def_table_constraint, Star (Seq [Opt (Tok T_COMMA),
         Ref RuleColumn_def_table_constraint])])]\<rparr>"

definition g_column_def_table_constraint :: rule where [grammar_rules]:
  "g_column_def_table_constraint = \<lparr>rule_index = RuleColumn_def_table_constraint, rule_alts = [
       (None, Ref RuleColumn_definition),
       (None, Ref RuleMaterialized_column_definition),
       (None, Ref RuleTable_constraint)]\<rparr>"

definition g_column_definition :: rule where [grammar_rules]:
  "g_column_definition = \<lparr>rule_index = RuleColumn_definition, rule_alts = [
       (None, Seq [Ref RuleId', Alt [Ref RuleData_type, Seq [Tok T_AS, Ref RuleExpression,
         Opt (Tok T_PERSISTED)]], Star (Ref RuleColumn_definition_element),
         Opt (Ref RuleColumn_index)])]\<rparr>"

definition g_column_definition_element :: rule where [grammar_rules]:
  "g_column_definition_element = \<lparr>rule_index = RuleColumn_definition_element, rule_alts = [
       (None, Tok T_FILESTREAM),
       (None, Seq [Tok T_COLLATE, Lab (Assign ''collation_name'') (Ref RuleId')]),
       (None, Tok T_SPARSE),
       (None, Seq [Tok T_MASKED, Tok T_WITH, Tok T_LR_BRACKET, Tok T_FUNCTION, Tok T_EQUAL,
         Lab (Assign ''mask_function'') (Tok T_STRING), Tok T_RR_BRACKET]),
       (None, Seq [Opt (Seq [Tok T_CONSTRAINT, Lab (Assign ''constraint'') (Ref RuleId')]),
         Tok T_DEFAULT, Lab (Assign ''constant_expr'') (Ref RuleExpression)]),
       (None, Seq [Tok T_IDENTITY, Opt (Seq [Tok T_LR_BRACKET,
         Lab (Assign ''seed'') (Tok T_DECIMAL), Tok T_COMMA,
         Lab (Assign ''increment'') (Tok T_DECIMAL), Tok T_RR_BRACKET])]),
       (None, Seq [Tok T_NOT, Tok T_FOR, Tok T_REPLICATION]),
       (None, Seq [Tok T_GENERATED, Tok T_ALWAYS, Tok T_AS, Alt [Tok T_ROW,
         Tok T_TRANSACTION_ID, Tok T_SEQUENCE_NUMBER], Alt [Tok T_START, Tok T_END],
         Opt (Tok T_HIDDEN_KEYWORD)]),
       (None, Tok T_ROWGUIDCOL),
       (None, Seq [Tok T_ENCRYPTED, Tok T_WITH, Tok T_LR_BRACKET, Tok T_COLUMN_ENCRYPTION_KEY,
         Tok T_EQUAL, Lab (Assign ''key_name'') (Tok T_STRING), Tok T_COMMA,
         Tok T_ENCRYPTION_TYPE, Tok T_EQUAL, Alt [Tok T_DETERMINISTIC, Tok T_RANDOMIZED],
         Tok T_COMMA, Tok T_ALGORITHM, Tok T_EQUAL, Lab (Assign ''algo'') (Tok T_STRING),
         Tok T_RR_BRACKET]),
       (None, Ref RuleColumn_constraint)]\<rparr>"

definition g_column_modifier :: rule where [grammar_rules]:
  "g_column_modifier = \<lparr>rule_index = RuleColumn_modifier, rule_alts = [
       (None, Seq [Ref RuleId', Alt [Tok T_ADD, Tok T_DROP], Alt [Tok T_ROWGUIDCOL,
         Tok T_PERSISTED, Seq [Tok T_NOT, Tok T_FOR, Tok T_REPLICATION], Tok T_SPARSE,
         Tok T_HIDDEN_KEYWORD, Seq [Tok T_MASKED, Opt (Seq [Tok T_WITH,
         Alt [Seq [Tok T_FUNCTION, Tok T_EQUAL, Tok T_STRING], Seq [Tok T_LR_BRACKET,
         Tok T_FUNCTION, Tok T_EQUAL, Tok T_STRING, Tok T_RR_BRACKET]]])]]])]\<rparr>"

definition g_materialized_column_definition :: rule where [grammar_rules]:
  "g_materialized_column_definition = \<lparr>rule_index = RuleMaterialized_column_definition, rule_alts = [
       (None, Seq [Ref RuleId', Alt [Tok T_COMPUTE, Tok T_AS], Ref RuleExpression,
         Opt (Alt [Tok T_MATERIALIZED, Seq [Tok T_NOT, Tok T_MATERIALIZED]])])]\<rparr>"

definition g_column_constraint :: rule where [grammar_rules]:
  "g_column_constraint = \<lparr>rule_index = RuleColumn_constraint, rule_alts = [
       (None, Seq [Opt (Seq [Tok T_CONSTRAINT, Lab (Assign ''constraint'') (Ref RuleId')]),
         Alt [Ref RuleNull_notnull, Seq [Alt [Seq [Tok T_PRIMARY, Tok T_KEY], Tok T_UNIQUE],
         Opt (Ref RuleClustered), Ref RulePrimary_key_options], Seq [Opt (Seq [Tok T_FOREIGN,
         Tok T_KEY]), Ref RuleForeign_key_options], Ref RuleCheck_constraint]])]\<rparr>"

definition g_column_index :: rule where [grammar_rules]:
  "g_column_index = \<lparr>rule_index = RuleColumn_index, rule_alts = [
       (None, Seq [Tok T_INDEX, Lab (Assign ''index_name'') (Ref RuleId'),
         Opt (Ref RuleClustered), Opt (Ref RuleCreate_table_index_options),
         Opt (Ref RuleOn_partition_or_filegroup), Opt (Seq [Tok T_FILESTREAM_ON,
         Alt [Lab (Assign ''filestream_filegroup_or_partition_schema_name'') (Ref RuleId'),
         Tok T_NULL_DOUBLE_QUOTE]])])]\<rparr>"

definition g_on_partition_or_filegroup :: rule where [grammar_rules]:
  "g_on_partition_or_filegroup = \<lparr>rule_index = RuleOn_partition_or_filegroup, rule_alts = [
       (None, Seq [Tok T_ON, Alt [Seq [Lab (Assign ''partition_scheme_name'') (Ref RuleId'),
         Tok T_LR_BRACKET, Lab (Assign ''partition_column_name'') (Ref RuleId'),
         Tok T_RR_BRACKET], Lab (Assign ''filegroup'') (Ref RuleId'),
         Tok T_DEFAULT_DOUBLE_QUOTE]])]\<rparr>"

definition g_table_constraint :: rule where [grammar_rules]:
  "g_table_constraint = \<lparr>rule_index = RuleTable_constraint, rule_alts = [
       (None, Seq [Opt (Seq [Tok T_CONSTRAINT, Lab (Assign ''constraint'') (Ref RuleId')]),
         Alt [Seq [Alt [Seq [Tok T_PRIMARY, Tok T_KEY], Tok T_UNIQUE], Opt (Ref RuleClustered),
         Tok T_LR_BRACKET, Ref RuleColumn_name_list_with_order, Tok T_RR_BRACKET,
         Ref RulePrimary_key_options], Seq [Tok T_FOREIGN, Tok T_KEY, Tok T_LR_BRACKET,
         Lab (Assign ''fk'') (Ref RuleColumn_name_list), Tok T_RR_BRACKET,
         Ref RuleForeign_key_options], Seq [Tok T_CONNECTION, Tok T_LR_BRACKET,
         Ref RuleConnection_node, Star (Seq [Tok T_COMMA, Ref RuleConnection_node]),
         Tok T_RR_BRACKET], Seq [Tok T_DEFAULT,
         Lab (Assign ''constant_expr'') (Ref RuleExpression), Tok T_FOR,
         Lab (Assign ''column'') (Ref RuleId'), Opt (Seq [Tok T_WITH, Tok T_VALUES])],
         Ref RuleCheck_constraint]])]\<rparr>"

definition g_connection_node :: rule where [grammar_rules]:
  "g_connection_node = \<lparr>rule_index = RuleConnection_node, rule_alts = [
       (None, Seq [Lab (Assign ''from_node_table'') (Ref RuleId'), Tok T_TO,
         Lab (Assign ''to_node_table'') (Ref RuleId')])]\<rparr>"

definition g_primary_key_options :: rule where [grammar_rules]:
  "g_primary_key_options = \<lparr>rule_index = RulePrimary_key_options, rule_alts = [
       (None, Seq [Opt (Seq [Tok T_WITH, Tok T_FILLFACTOR, Tok T_EQUAL, Tok T_DECIMAL]),
         Opt (Ref RuleAlter_table_index_options), Opt (Ref RuleOn_partition_or_filegroup)])]\<rparr>"

definition g_foreign_key_options :: rule where [grammar_rules]:
  "g_foreign_key_options = \<lparr>rule_index = RuleForeign_key_options, rule_alts = [
       (None, Seq [Tok T_REFERENCES, Ref RuleTable_name, Tok T_LR_BRACKET,
         Lab (Assign ''pk'') (Ref RuleColumn_name_list), Tok T_RR_BRACKET,
         Star (Alt [Ref RuleOn_delete, Ref RuleOn_update]), Opt (Seq [Tok T_NOT, Tok T_FOR,
         Tok T_REPLICATION])])]\<rparr>"

definition g_check_constraint :: rule where [grammar_rules]:
  "g_check_constraint = \<lparr>rule_index = RuleCheck_constraint, rule_alts = [
       (None, Seq [Tok T_CHECK, Opt (Seq [Tok T_NOT, Tok T_FOR, Tok T_REPLICATION]),
         Tok T_LR_BRACKET, Ref RuleSearch_condition, Tok T_RR_BRACKET])]\<rparr>"

definition g_on_delete :: rule where [grammar_rules]:
  "g_on_delete = \<lparr>rule_index = RuleOn_delete, rule_alts = [
       (None, Seq [Tok T_ON, Tok T_DELETE, Alt [Seq [Tok T_NO, Tok T_ACTION], Tok T_CASCADE,
         Seq [Tok T_SET, Tok T_NULL'], Seq [Tok T_SET, Tok T_DEFAULT]]])]\<rparr>"

definition g_on_update :: rule where [grammar_rules]:
  "g_on_update = \<lparr>rule_index = RuleOn_update, rule_alts = [
       (None, Seq [Tok T_ON, Tok T_UPDATE, Alt [Seq [Tok T_NO, Tok T_ACTION], Tok T_CASCADE,
         Seq [Tok T_SET, Tok T_NULL'], Seq [Tok T_SET, Tok T_DEFAULT]]])]\<rparr>"

definition g_alter_table_index_options :: rule where [grammar_rules]:
  "g_alter_table_index_options = \<lparr>rule_index = RuleAlter_table_index_options, rule_alts = [
       (None, Seq [Tok T_WITH, Tok T_LR_BRACKET, Ref RuleAlter_table_index_option,
         Star (Seq [Tok T_COMMA, Ref RuleAlter_table_index_option]), Tok T_RR_BRACKET])]\<rparr>"

definition g_alter_table_index_option :: rule where [grammar_rules]:
  "g_alter_table_index_option = \<lparr>rule_index = RuleAlter_table_index_option, rule_alts = [
       (None, Seq [Tok T_PAD_INDEX, Tok T_EQUAL, Ref RuleOn_off]),
       (None, Seq [Tok T_FILLFACTOR, Tok T_EQUAL, Tok T_DECIMAL]),
       (None, Seq [Tok T_IGNORE_DUP_KEY, Tok T_EQUAL, Ref RuleOn_off]),
       (None, Seq [Tok T_STATISTICS_NORECOMPUTE, Tok T_EQUAL, Ref RuleOn_off]),
       (None, Seq [Tok T_ALLOW_ROW_LOCKS, Tok T_EQUAL, Ref RuleOn_off]),
       (None, Seq [Tok T_ALLOW_PAGE_LOCKS, Tok T_EQUAL, Ref RuleOn_off]),
       (None, Seq [Tok T_OPTIMIZE_FOR_SEQUENTIAL_KEY, Tok T_EQUAL, Ref RuleOn_off]),
       (None, Seq [Tok T_SORT_IN_TEMPDB, Tok T_EQUAL, Ref RuleOn_off]),
       (None, Seq [Tok T_MAXDOP, Tok T_EQUAL,
         Lab (Assign ''max_degree_of_parallelism'') (Tok T_DECIMAL)]),
       (None, Seq [Tok T_DATA_COMPRESSION, Tok T_EQUAL, Alt [Tok T_NONE, Tok T_ROW, Tok T_PAGE,
         Tok T_COLUMNSTORE, Tok T_COLUMNSTORE_ARCHIVE], Opt (Ref RuleOn_partitions)]),
       (None, Seq [Tok T_XML_COMPRESSION, Tok T_EQUAL, Ref RuleOn_off,
         Opt (Ref RuleOn_partitions)]),
       (None, Seq [Tok T_DISTRIBUTION, Tok T_EQUAL, Tok T_HASH, Tok T_LR_BRACKET, Ref RuleId',
         Tok T_RR_BRACKET]),
       (None, Seq [Tok T_CLUSTERED, Tok T_INDEX, Tok T_LR_BRACKET, Ref RuleId',
         Opt (Alt [Tok T_ASC, Tok T_DESC]), Star (Seq [Tok T_COMMA, Ref RuleId',
         Opt (Alt [Tok T_ASC, Tok T_DESC])]), Tok T_RR_BRACKET]),
       (None, Seq [Tok T_ONLINE, Tok T_EQUAL, Alt [Seq [Tok T_ON, Opt (Seq [Tok T_LR_BRACKET,
         Ref RuleLow_priority_lock_wait, Tok T_RR_BRACKET])], Tok T_OFF]]),
       (None, Seq [Tok T_RESUMABLE, Tok T_EQUAL, Ref RuleOn_off]),
       (None, Seq [Tok T_MAX_DURATION, Tok T_EQUAL, Lab (Assign ''times'') (Tok T_DECIMAL),
         Opt (Tok T_MINUTES)])]\<rparr>"

definition g_declare_cursor :: rule where [grammar_rules]:
  "g_declare_cursor = \<lparr>rule_index = RuleDeclare_cursor, rule_alts = [
       (None, Seq [Tok T_DECLARE, Ref RuleCursor_name, Alt [Seq [Tok T_CURSOR,
         Opt (Seq [Ref RuleDeclare_set_cursor_common, Opt (Seq [Tok T_FOR, Tok T_UPDATE,
         Opt (Seq [Tok T_OF, Ref RuleColumn_name_list])])])],
         Seq [Opt (Alt [Tok T_SEMI_SENSITIVE, Tok T_INSENSITIVE]), Opt (Tok T_SCROLL),
         Tok T_CURSOR, Tok T_FOR, Ref RuleSelect_statement_standalone, Opt (Seq [Tok T_FOR,
         Alt [Seq [Tok T_READ, Tok T_ONLY], Tok T_UPDATE, Seq [Tok T_OF,
         Ref RuleColumn_name_list]]])]], Opt (Tok T_SEMI)])]\<rparr>"

definition g_declare_set_cursor_common :: rule where [grammar_rules]:
  "g_declare_set_cursor_common = \<lparr>rule_index = RuleDeclare_set_cursor_common, rule_alts = [
       (None, Seq [Star (Ref RuleDeclare_set_cursor_common_partial), Tok T_FOR,
         Ref RuleSelect_statement_standalone])]\<rparr>"

definition g_declare_set_cursor_common_partial :: rule where [grammar_rules]:
  "g_declare_set_cursor_common_partial = \<lparr>rule_index = RuleDeclare_set_cursor_common_partial, rule_alts = [
       (None, Alt [Tok T_LOCAL, Tok T_GLOBAL]),
       (None, Alt [Tok T_FORWARD_ONLY, Tok T_SCROLL]),
       (None, Alt [Tok T_STATIC, Tok T_KEYSET, Tok T_DYNAMIC, Tok T_FAST_FORWARD]),
       (None, Alt [Tok T_READ_ONLY, Tok T_SCROLL_LOCKS, Tok T_OPTIMISTIC]),
       (None, Tok T_TYPE_WARNING)]\<rparr>"

definition g_fetch_cursor :: rule where [grammar_rules]:
  "g_fetch_cursor = \<lparr>rule_index = RuleFetch_cursor, rule_alts = [
       (None, Seq [Tok T_FETCH, Opt (Seq [Opt (Alt [Tok T_NEXT, Tok T_PRIOR, Tok T_FIRST,
         Tok T_LAST, Seq [Alt [Tok T_ABSOLUTE, Tok T_RELATIVE], Ref RuleExpression]]),
         Tok T_FROM]), Opt (Tok T_GLOBAL), Ref RuleCursor_name, Opt (Seq [Tok T_INTO,
         Tok T_LOCAL_ID, Star (Seq [Tok T_COMMA, Tok T_LOCAL_ID])]), Opt (Tok T_SEMI)])]\<rparr>"

definition g_set_special :: rule where [grammar_rules]:
  "g_set_special = \<lparr>rule_index = RuleSet_special, rule_alts = [
       (None, Seq [Tok T_SET, Ref RuleId', Alt [Ref RuleId', Ref RuleConstant_LOCAL_ID,
         Ref RuleOn_off], Opt (Tok T_SEMI)]),
       (None, Seq [Tok T_SET, Tok T_STATISTICS, Alt [Tok T_IO, Tok T_TIME, Tok T_XML,
         Tok T_PROFILE], Ref RuleOn_off, Opt (Tok T_SEMI)]),
       (None, Seq [Tok T_SET, Tok T_ROWCOUNT, Alt [Tok T_LOCAL_ID, Tok T_DECIMAL],
         Opt (Tok T_SEMI)]),
       (None, Seq [Tok T_SET, Tok T_TEXTSIZE, Tok T_DECIMAL, Opt (Tok T_SEMI)]),
       (None, Seq [Tok T_SET, Tok T_TRANSACTION, Tok T_ISOLATION, Tok T_LEVEL,
         Alt [Seq [Tok T_READ, Tok T_UNCOMMITTED], Seq [Tok T_READ, Tok T_COMMITTED],
         Seq [Tok T_REPEATABLE, Tok T_READ], Tok T_SNAPSHOT, Tok T_SERIALIZABLE,
         Tok T_DECIMAL], Opt (Tok T_SEMI)]),
       (None, Seq [Tok T_SET, Tok T_IDENTITY_INSERT, Ref RuleTable_name, Ref RuleOn_off,
         Opt (Tok T_SEMI)]),
       (None, Seq [Tok T_SET, Ref RuleSpecial_list, Star (Seq [Tok T_COMMA,
         Ref RuleSpecial_list]), Ref RuleOn_off]),
       (None, Seq [Tok T_SET, Ref RuleModify_method])]\<rparr>"

definition g_special_list :: rule where [grammar_rules]:
  "g_special_list = \<lparr>rule_index = RuleSpecial_list, rule_alts = [
       (None, Tok T_ANSI_NULLS),
       (None, Tok T_QUOTED_IDENTIFIER),
       (None, Tok T_ANSI_PADDING),
       (None, Tok T_ANSI_WARNINGS),
       (None, Tok T_ANSI_DEFAULTS),
       (None, Tok T_ANSI_NULL_DFLT_OFF),
       (None, Tok T_ANSI_NULL_DFLT_ON),
       (None, Tok T_ARITHABORT),
       (None, Tok T_ARITHIGNORE),
       (None, Tok T_CONCAT_NULL_YIELDS_NULL),
       (None, Tok T_CURSOR_CLOSE_ON_COMMIT),
       (None, Tok T_FMTONLY),
       (None, Tok T_FORCEPLAN),
       (None, Tok T_IMPLICIT_TRANSACTIONS),
       (None, Tok T_NOCOUNT),
       (None, Tok T_NOEXEC),
       (None, Tok T_NUMERIC_ROUNDABORT),
       (None, Tok T_PARSEONLY),
       (None, Tok T_REMOTE_PROC_TRANSACTIONS),
       (None, Tok T_SHOWPLAN_ALL),
       (None, Tok T_SHOWPLAN_TEXT),
       (None, Tok T_SHOWPLAN_XML),
       (None, Tok T_XACT_ABORT)]\<rparr>"

definition g_constant_LOCAL_ID :: rule where [grammar_rules]:
  "g_constant_LOCAL_ID = \<lparr>rule_index = RuleConstant_LOCAL_ID, rule_alts = [
       (None, Ref RuleConstant),
       (None, Tok T_LOCAL_ID)]\<rparr>"

definition g_expression :: rule where [grammar_rules]:
  "g_expression = \<lparr>rule_index = RuleExpression, rule_alts = [
       (None, Ref RulePrimitive_expression),
       (None, Ref RuleFull_column_name),
       (None, Ref RuleFunction_call),
       (None, Seq [Ref RuleExpression, Tok T_DOT, Alt [Ref RuleValue_call, Ref RuleQuery_call,
         Ref RuleExist_call, Ref RuleModify_call]]),
       (None, Seq [Ref RuleExpression, Tok T_DOT, Ref RuleHierarchyid_call]),
       (None, Seq [Ref RuleExpression, Tok T_COLLATE, Ref RuleId']),
       (None, Ref RuleCase_expression),
       (None, Ref RuleBracket_expression),
       (None, Ref RuleUnary_operator_expression),
       (None, Seq [Ref RuleExpression, Lab (Assign ''op'') (Alt [Tok T_STAR, Tok T_DIVIDE,
         Tok T_MODULE]), Ref RuleExpression]),
       (None, Seq [Ref RuleExpression, Lab (Assign ''op'') (Alt [Tok T_PLUS, Tok T_MINUS,
         Tok T_BIT_AND, Tok T_BIT_XOR, Tok T_BIT_OR, Tok T_DOUBLE_BAR]), Ref RuleExpression]),
       (None, Seq [Ref RuleExpression, Ref RuleTime_zone]),
       (None, Ref RuleOver_clause),
       (None, Tok T_DOLLAR_ACTION)]\<rparr>"

definition g_parameter :: rule where [grammar_rules]:
  "g_parameter = \<lparr>rule_index = RuleParameter, rule_alts = [
       (None, Tok T_PLACEHOLDER)]\<rparr>"

definition g_time_zone :: rule where [grammar_rules]:
  "g_time_zone = \<lparr>rule_index = RuleTime_zone, rule_alts = [
       (None, Seq [Tok T_AT_KEYWORD, Tok T_TIME, Tok T_ZONE, Ref RuleExpression])]\<rparr>"

definition g_primitive_expression :: rule where [grammar_rules]:
  "g_primitive_expression = \<lparr>rule_index = RulePrimitive_expression, rule_alts = [
       (None, Tok T_DEFAULT),
       (None, Tok T_NULL'),
       (None, Tok T_LOCAL_ID),
       (None, Ref RulePrimitive_constant)]\<rparr>"

definition g_case_expression :: rule where [grammar_rules]:
  "g_case_expression = \<lparr>rule_index = RuleCase_expression, rule_alts = [
       (None, Seq [Tok T_CASE, Lab (Assign ''caseExpr'') (Ref RuleExpression),
         Plus (Ref RuleSwitch_section), Opt (Seq [Tok T_ELSE,
         Lab (Assign ''elseExpr'') (Ref RuleExpression)]), Tok T_END]),
       (None, Seq [Tok T_CASE, Plus (Ref RuleSwitch_search_condition_section),
         Opt (Seq [Tok T_ELSE, Lab (Assign ''elseExpr'') (Ref RuleExpression)]), Tok T_END])]\<rparr>"

definition g_unary_operator_expression :: rule where [grammar_rules]:
  "g_unary_operator_expression = \<lparr>rule_index = RuleUnary_operator_expression, rule_alts = [
       (None, Seq [Tok T_BIT_NOT, Ref RuleExpression]),
       (None, Seq [Lab (Assign ''op'') (Alt [Tok T_PLUS, Tok T_MINUS]), Ref RuleExpression])]\<rparr>"

definition g_bracket_expression :: rule where [grammar_rules]:
  "g_bracket_expression = \<lparr>rule_index = RuleBracket_expression, rule_alts = [
       (None, Seq [Tok T_LR_BRACKET, Ref RuleExpression, Tok T_RR_BRACKET]),
       (None, Seq [Tok T_LR_BRACKET, Ref RuleSubquery, Tok T_RR_BRACKET])]\<rparr>"

definition g_subquery :: rule where [grammar_rules]:
  "g_subquery = \<lparr>rule_index = RuleSubquery, rule_alts = [
       (None, Ref RuleSelect_statement)]\<rparr>"

definition g_with_expression :: rule where [grammar_rules]:
  "g_with_expression = \<lparr>rule_index = RuleWith_expression, rule_alts = [
       (None, Seq [Tok T_WITH, Lab (Append ''ctes'') (Ref RuleCommon_table_expression),
         Star (Seq [Tok T_COMMA, Lab (Append ''ctes'') (Ref RuleCommon_table_expression)])])]\<rparr>"

definition g_common_table_expression :: rule where [grammar_rules]:
  "g_common_table_expression = \<lparr>rule_index = RuleCommon_table_expression, rule_alts = [
       (None, Seq [Lab (Assign ''expression_name'') (Ref RuleId'), Opt (Seq [Tok T_LR_BRACKET,
         Lab (Assign ''columns'') (Ref RuleColumn_name_list), Tok T_RR_BRACKET]), Tok T_AS,
         Tok T_LR_BRACKET, Lab (Assign ''cte_query'') (Ref RuleSelect_statement),
         Tok T_RR_BRACKET])]\<rparr>"

definition g_update_elem :: rule where [grammar_rules]:
  "g_update_elem = \<lparr>rule_index = RuleUpdate_elem, rule_alts = [
       (None, Seq [Tok T_LOCAL_ID, Tok T_EQUAL, Ref RuleFull_column_name, Alt [Tok T_EQUAL,
         Ref RuleAssignment_operator], Ref RuleExpression]),
       (None, Seq [Alt [Ref RuleFull_column_name, Tok T_LOCAL_ID], Alt [Tok T_EQUAL,
         Ref RuleAssignment_operator], Ref RuleExpression]),
       (None, Seq [Lab (Assign ''udt_column_name'') (Ref RuleId'), Tok T_DOT,
         Lab (Assign ''method_name'') (Ref RuleId'), Tok T_LR_BRACKET,
         Ref RuleExpression_list', Tok T_RR_BRACKET])]\<rparr>"

definition g_update_elem_merge :: rule where [grammar_rules]:
  "g_update_elem_merge = \<lparr>rule_index = RuleUpdate_elem_merge, rule_alts = [
       (None, Seq [Alt [Ref RuleFull_column_name, Tok T_LOCAL_ID], Alt [Tok T_EQUAL,
         Ref RuleAssignment_operator], Ref RuleExpression]),
       (None, Seq [Lab (Assign ''udt_column_name'') (Ref RuleId'), Tok T_DOT,
         Lab (Assign ''method_name'') (Ref RuleId'), Tok T_LR_BRACKET,
         Ref RuleExpression_list', Tok T_RR_BRACKET])]\<rparr>"

definition g_search_condition :: rule where [grammar_rules]:
  "g_search_condition = \<lparr>rule_index = RuleSearch_condition, rule_alts = [
       (None, Seq [Star (Tok T_NOT), Alt [Ref RulePredicate, Seq [Tok T_LR_BRACKET,
         Ref RuleSearch_condition, Tok T_RR_BRACKET]]]),
       (None, Seq [Ref RuleSearch_condition, Tok T_AND, Ref RuleSearch_condition]),
       (None, Seq [Ref RuleSearch_condition, Tok T_OR, Ref RuleSearch_condition])]\<rparr>"

definition g_predicate :: rule where [grammar_rules]:
  "g_predicate = \<lparr>rule_index = RulePredicate, rule_alts = [
       (None, Seq [Tok T_EXISTS, Tok T_LR_BRACKET, Ref RuleSubquery, Tok T_RR_BRACKET]),
       (None, Ref RuleFreetext_predicate),
       (None, Seq [Ref RuleExpression, Ref RuleComparison_operator, Ref RuleExpression]),
       (None, Seq [Ref RuleExpression, Tok T_MULT_ASSIGN, Ref RuleExpression]),
       (None, Seq [Ref RuleExpression, Ref RuleComparison_operator, Alt [Tok T_ALL, Tok T_SOME,
         Tok T_ANY], Tok T_LR_BRACKET, Ref RuleSubquery, Tok T_RR_BRACKET]),
       (None, Seq [Ref RuleExpression, Star (Tok T_NOT), Tok T_BETWEEN, Ref RuleExpression,
         Tok T_AND, Ref RuleExpression]),
       (None, Seq [Ref RuleExpression, Star (Tok T_NOT), Tok T_IN, Tok T_LR_BRACKET,
         Alt [Ref RuleSubquery, Ref RuleExpression_list'], Tok T_RR_BRACKET]),
       (None, Seq [Ref RuleExpression, Star (Tok T_NOT), Tok T_LIKE, Ref RuleExpression,
         Opt (Seq [Tok T_ESCAPE, Ref RuleExpression])]),
       (None, Seq [Ref RuleExpression, Tok T_IS, Ref RuleNull_notnull])]\<rparr>"

definition g_query_expression :: rule where [grammar_rules]:
  "g_query_expression = \<lparr>rule_index = RuleQuery_expression, rule_alts = [
       (None, Seq [Ref RuleQuery_specification, Opt (Ref RuleSelect_order_by_clause),
         Star (Lab (Append ''unions'') (Ref RuleSql_union))]),
       (None, Seq [Tok T_LR_BRACKET, Ref RuleQuery_expression, Tok T_RR_BRACKET,
         Opt (Seq [Tok T_UNION, Opt (Tok T_ALL), Ref RuleQuery_expression])])]\<rparr>"

definition g_sql_union :: rule where [grammar_rules]:
  "g_sql_union = \<lparr>rule_index = RuleSql_union, rule_alts = [
       (None, Seq [Alt [Seq [Tok T_UNION, Opt (Tok T_ALL)], Tok T_EXCEPT, Tok T_INTERSECT],
         Alt [Lab (Assign ''spec'') (Ref RuleQuery_specification), Seq [Tok T_LR_BRACKET,
         Lab (Assign ''op'') (Ref RuleQuery_expression), Tok T_RR_BRACKET]]])]\<rparr>"

definition g_query_specification :: rule where [grammar_rules]:
  "g_query_specification = \<lparr>rule_index = RuleQuery_specification, rule_alts = [
       (None, Seq [Tok T_SELECT, Opt (Lab (Assign ''allOrDistinct'') (Alt [Tok T_ALL,
         Tok T_DISTINCT])), Opt (Lab (Assign ''top'') (Ref RuleTop_clause)),
         Lab (Assign ''columns'') (Ref RuleSelect_list), Opt (Seq [Tok T_INTO,
         Lab (Assign ''into'') (Ref RuleTable_name)]), Opt (Ref RuleFrom_table_sources),
         Opt (Seq [Tok T_WHERE, Lab (Assign ''where'') (Ref RuleSearch_condition)]),
         Opt (Ref RuleGroup_by_clause), Opt (Ref RuleHaving_clause)])]\<rparr>"

definition g_group_by_clause :: rule where [grammar_rules]:
  "g_group_by_clause = \<lparr>rule_index = RuleGroup_by_clause, rule_alts = [
       (None, Seq [Tok T_GROUP, Tok T_BY,
         Alt [Seq [Opt (Lab (Assign ''groupByAll'') (Tok T_ALL)),
         Lab (Append ''groupBys'') (Ref RuleGroup_by_item), Star (Seq [Tok T_COMMA,
         Lab (Append ''groupBys'') (Ref RuleGroup_by_item)])], Seq [Tok T_GROUPING, Tok T_SETS,
         Tok T_LR_BRACKET, Lab (Append ''groupSets'') (Ref RuleGrouping_sets_item),
         Star (Seq [Tok T_COMMA, Lab (Append ''groupSets'') (Ref RuleGrouping_sets_item)]),
         Tok T_RR_BRACKET]]])]\<rparr>"

definition g_having_clause :: rule where [grammar_rules]:
  "g_having_clause = \<lparr>rule_index = RuleHaving_clause, rule_alts = [
       (None, Seq [Tok T_HAVING, Lab (Assign ''having'') (Ref RuleSearch_condition)])]\<rparr>"

definition g_from_table_sources :: rule where [grammar_rules]:
  "g_from_table_sources = \<lparr>rule_index = RuleFrom_table_sources, rule_alts = [
       (None, Seq [Tok T_FROM, Lab (Assign ''from'') (Ref RuleTable_sources)])]\<rparr>"

definition g_top_clause :: rule where [grammar_rules]:
  "g_top_clause = \<lparr>rule_index = RuleTop_clause, rule_alts = [
       (None, Seq [Tok T_TOP, Alt [Ref RuleTop_percent, Ref RuleTop_count],
         Opt (Seq [Tok T_WITH, Tok T_TIES])])]\<rparr>"

definition g_top_percent :: rule where [grammar_rules]:
  "g_top_percent = \<lparr>rule_index = RuleTop_percent, rule_alts = [
       (None, Seq [Lab (Assign ''percent_constant'') (Alt [Tok T_REAL, Tok T_FLOAT,
         Tok T_DECIMAL]), Tok T_PERCENT]),
       (None, Seq [Tok T_LR_BRACKET, Lab (Assign ''topper_expression'') (Ref RuleExpression),
         Tok T_RR_BRACKET, Tok T_PERCENT])]\<rparr>"

definition g_top_count :: rule where [grammar_rules]:
  "g_top_count = \<lparr>rule_index = RuleTop_count, rule_alts = [
       (None, Lab (Assign ''count_constant'') (Tok T_DECIMAL)),
       (None, Seq [Tok T_LR_BRACKET, Lab (Assign ''topcount_expression'') (Ref RuleExpression),
         Tok T_RR_BRACKET])]\<rparr>"

definition g_order_by_clause :: rule where [grammar_rules]:
  "g_order_by_clause = \<lparr>rule_index = RuleOrder_by_clause, rule_alts = [
       (None, Seq [Tok T_ORDER, Tok T_BY,
         Lab (Append ''order_bys'') (Ref RuleOrder_by_expression), Star (Seq [Tok T_COMMA,
         Lab (Append ''order_bys'') (Ref RuleOrder_by_expression)])])]\<rparr>"

definition g_select_order_by_clause :: rule where [grammar_rules]:
  "g_select_order_by_clause = \<lparr>rule_index = RuleSelect_order_by_clause, rule_alts = [
       (None, Seq [Ref RuleOrder_by_clause, Opt (Seq [Tok T_OFFSET,
         Lab (Assign ''offset_exp'') (Ref RuleExpression),
         Lab (Assign ''offset_rows'') (Alt [Tok T_ROW, Tok T_ROWS]), Opt (Seq [Tok T_FETCH,
         Lab (Assign ''fetch_offset'') (Alt [Tok T_FIRST, Tok T_NEXT]),
         Lab (Assign ''fetch_exp'') (Ref RuleExpression),
         Lab (Assign ''fetch_rows'') (Alt [Tok T_ROW, Tok T_ROWS]), Tok T_ONLY])])])]\<rparr>"

definition g_for_clause :: rule where [grammar_rules]:
  "g_for_clause = \<lparr>rule_index = RuleFor_clause, rule_alts = [
       (None, Seq [Tok T_FOR, Tok T_BROWSE]),
       (None, Seq [Tok T_FOR, Tok T_XML, Alt [Seq [Tok T_RAW, Opt (Seq [Tok T_LR_BRACKET,
         Tok T_STRING, Tok T_RR_BRACKET])], Tok T_AUTO], Star (Ref RuleXml_common_directives),
         Opt (Seq [Tok T_COMMA, Alt [Tok T_XMLDATA, Seq [Tok T_XMLSCHEMA,
         Opt (Seq [Tok T_LR_BRACKET, Tok T_STRING, Tok T_RR_BRACKET])]]]),
         Opt (Seq [Tok T_COMMA, Tok T_ELEMENTS, Opt (Alt [Tok T_XSINIL, Tok T_ABSENT])])]),
       (None, Seq [Tok T_FOR, Tok T_XML, Tok T_EXPLICIT, Star (Ref RuleXml_common_directives),
         Opt (Seq [Tok T_COMMA, Tok T_XMLDATA])]),
       (None, Seq [Tok T_FOR, Tok T_XML, Tok T_PATH, Opt (Seq [Tok T_LR_BRACKET, Tok T_STRING,
         Tok T_RR_BRACKET]), Star (Ref RuleXml_common_directives), Opt (Seq [Tok T_COMMA,
         Tok T_ELEMENTS, Opt (Alt [Tok T_XSINIL, Tok T_ABSENT])])]),
       (None, Seq [Tok T_FOR, Tok T_JSON, Alt [Tok T_AUTO, Tok T_PATH], Star (Seq [Tok T_COMMA,
         Alt [Seq [Tok T_ROOT, Seq [Tok T_LR_BRACKET, Tok T_STRING, Tok T_RR_BRACKET]],
         Tok T_INCLUDE_NULL_VALUES, Tok T_WITHOUT_ARRAY_WRAPPER]])])]\<rparr>"

definition g_xml_common_directives :: rule where [grammar_rules]:
  "g_xml_common_directives = \<lparr>rule_index = RuleXml_common_directives, rule_alts = [
       (None, Seq [Tok T_COMMA, Alt [Seq [Tok T_BINARY_KEYWORD, Tok T_BASE64], Tok T_TYPE,
         Seq [Tok T_ROOT, Opt (Seq [Tok T_LR_BRACKET, Tok T_STRING, Tok T_RR_BRACKET])]]])]\<rparr>"

definition g_order_by_expression :: rule where [grammar_rules]:
  "g_order_by_expression = \<lparr>rule_index = RuleOrder_by_expression, rule_alts = [
       (None, Seq [Lab (Assign ''order_by'') (Ref RuleExpression),
         Opt (Alt [Lab (Assign ''ascending'') (Tok T_ASC),
         Lab (Assign ''descending'') (Tok T_DESC)])])]\<rparr>"

definition g_grouping_sets_item :: rule where [grammar_rules]:
  "g_grouping_sets_item = \<lparr>rule_index = RuleGrouping_sets_item, rule_alts = [
       (None, Seq [Opt (Tok T_LR_BRACKET),
         Lab (Append ''groupSetItems'') (Ref RuleGroup_by_item), Star (Seq [Tok T_COMMA,
         Lab (Append ''groupSetItems'') (Ref RuleGroup_by_item)]), Opt (Tok T_RR_BRACKET)]),
       (None, Seq [Tok T_LR_BRACKET, Tok T_RR_BRACKET])]\<rparr>"

definition g_group_by_item :: rule where [grammar_rules]:
  "g_group_by_item = \<lparr>rule_index = RuleGroup_by_item, rule_alts = [
       (None, Ref RuleExpression)]\<rparr>"

definition g_option_clause :: rule where [grammar_rules]:
  "g_option_clause = \<lparr>rule_index = RuleOption_clause, rule_alts = [
       (None, Seq [Tok T_OPTION, Tok T_LR_BRACKET, Lab (Append ''options'') (Ref RuleOption),
         Star (Seq [Tok T_COMMA, Lab (Append ''options'') (Ref RuleOption)]),
         Tok T_RR_BRACKET])]\<rparr>"

definition g_option :: rule where [grammar_rules]:
  "g_option = \<lparr>rule_index = RuleOption, rule_alts = [
       (None, Seq [Tok T_FAST, Lab (Assign ''number_rows'') (Tok T_DECIMAL)]),
       (None, Seq [Alt [Tok T_HASH, Tok T_ORDER], Tok T_GROUP]),
       (None, Seq [Alt [Tok T_MERGE, Tok T_HASH, Tok T_CONCAT], Tok T_UNION]),
       (None, Seq [Alt [Tok T_LOOP, Tok T_MERGE, Tok T_HASH], Tok T_JOIN]),
       (None, Seq [Tok T_EXPAND, Tok T_VIEWS]),
       (None, Seq [Tok T_FORCE, Tok T_ORDER]),
       (None, Tok T_IGNORE_NONCLUSTERED_COLUMNSTORE_INDEX),
       (None, Seq [Tok T_KEEP, Tok T_PLAN]),
       (None, Seq [Tok T_KEEPFIXED, Tok T_PLAN]),
       (None, Seq [Tok T_MAXDOP, Lab (Assign ''number_of_processors'') (Tok T_DECIMAL)]),
       (None, Seq [Tok T_MAXRECURSION, Lab (Assign ''number_recursion'') (Tok T_DECIMAL)]),
       (None, Seq [Tok T_OPTIMIZE, Tok T_FOR, Tok T_LR_BRACKET, Ref RuleOptimize_for_arg,
         Star (Seq [Tok T_COMMA, Ref RuleOptimize_for_arg]), Tok T_RR_BRACKET]),
       (None, Seq [Tok T_OPTIMIZE, Tok T_FOR, Tok T_UNKNOWN]),
       (None, Seq [Tok T_PARAMETERIZATION, Alt [Tok T_SIMPLE, Tok T_FORCED]]),
       (None, Tok T_RECOMPILE),
       (None, Seq [Tok T_ROBUST, Tok T_PLAN]),
       (None, Seq [Tok T_USE, Tok T_PLAN, Tok T_STRING])]\<rparr>"

definition rules_4 :: grammar where
  "rules_4 = [
     g_backup_certificate, g_backup_master_key, g_backup_service_master_key, g_kill_statement,
     g_kill_process, g_kill_query_notification, g_kill_stats_job, g_execute_statement,
     g_execute_body_batch, g_execute_body, g_execute_statement_arg,
     g_execute_statement_arg_named, g_execute_statement_arg_unnamed, g_execute_parameter,
     g_execute_var_string, g_security_statement, g_principal_id, g_create_certificate,
     g_existing_keys, g_private_key_options, g_generate_new_keys, g_date_options, g_open_key,
     g_close_key, g_create_key, g_key_options, g_algorithm, g_encryption_mechanism,
     g_decryption_mechanism, g_grant_permission, g_set_statement, g_transaction_statement,
     g_go_statement, g_use_statement, g_setuser_statement, g_reconfigure_statement,
     g_shutdown_statement, g_checkpoint_statement, g_dbcc_checkalloc_option, g_dbcc_checkalloc,
     g_dbcc_checkcatalog, g_dbcc_checkconstraints_option, g_dbcc_checkconstraints,
     g_dbcc_checkdb_table_option, g_dbcc_checkdb, g_dbcc_checkfilegroup_option,
     g_dbcc_checkfilegroup, g_dbcc_checktable, g_dbcc_cleantable, g_dbcc_clonedatabase_option,
     g_dbcc_clonedatabase, g_dbcc_pdw_showspaceused, g_dbcc_proccache,
     g_dbcc_showcontig_option, g_dbcc_showcontig, g_dbcc_shrinklog, g_dbcc_dbreindex,
     g_dbcc_dll_free, g_dbcc_dropcleanbuffers, g_dbcc_clause, g_execute_clause,
     g_declare_local, g_table_type_definition, g_table_type_indices, g_xml_type_definition,
     g_xml_schema_collection, g_column_def_table_constraints, g_column_def_table_constraint,
     g_column_definition, g_column_definition_element, g_column_modifier,
     g_materialized_column_definition, g_column_constraint, g_column_index,
     g_on_partition_or_filegroup, g_table_constraint, g_connection_node, g_primary_key_options,
     g_foreign_key_options, g_check_constraint, g_on_delete, g_on_update,
     g_alter_table_index_options, g_alter_table_index_option, g_declare_cursor,
     g_declare_set_cursor_common, g_declare_set_cursor_common_partial, g_fetch_cursor,
     g_set_special, g_special_list, g_constant_LOCAL_ID, g_expression, g_parameter,
     g_time_zone, g_primitive_expression, g_case_expression, g_unary_operator_expression,
     g_bracket_expression, g_subquery, g_with_expression, g_common_table_expression,
     g_update_elem, g_update_elem_merge, g_search_condition, g_predicate, g_query_expression,
     g_sql_union, g_query_specification, g_group_by_clause, g_having_clause,
     g_from_table_sources, g_top_clause, g_top_percent, g_top_count, g_order_by_clause,
     g_select_order_by_clause, g_for_clause, g_xml_common_directives, g_order_by_expression,
     g_grouping_sets_item, g_group_by_item, g_option_clause, g_option]"

end
