(* ===== verification/Contexts_4.thy ===== *)
theory Contexts_4
  imports Contexts Tokens Rule_Ids Label_Ids
begin

text \<open>
  Context classes of \<open>src/port/cpp/TSqlParser.h\<close>, from \<open>Backup_certificateContext\<close> to
  \<open>OptionContext\<close>: one definition per class, its members in the order of their declarations.
\<close>

definition Backup_certificateContext :: context_class where [context_classes]:
  "Backup_certificateContext = \<lparr>class_id = RuleContext RuleBackup_certificate, class_base = ParserRuleContext, members = [
     ContextField ''certname'' RuleId', TokenField ''cert_file'',
     TokenField ''private_key_file'', TokenField ''encryption_password'',
     TokenField ''decryption_pasword'', Constructor, GetRuleIndex, TerminalGet T_BACKUP,
     TerminalGet T_CERTIFICATE, TerminalGet T_TO, TerminalAll T_FILE, TerminalNth T_FILE,
     TerminalAll T_EQUAL, TerminalNth T_EQUAL, ContextGet RuleId', TerminalAll T_STRING,
     TerminalNth T_STRING, TerminalGet T_WITH, TerminalGet T_PRIVATE, TerminalGet T_KEY,
     TerminalGet T_LR_BRACKET, TerminalGet T_RR_BRACKET, TerminalAll T_ENCRYPTION,
     TerminalNth T_ENCRYPTION, TerminalAll T_BY, TerminalNth T_BY, TerminalAll T_PASSWORD,
     TerminalNth T_PASSWORD, TerminalAll T_DECRYPTION, TerminalNth T_DECRYPTION,
     TerminalAll T_COMMA, TerminalNth T_COMMA, EnterRule, ExitRule, Accept]\<rparr>"

definition Backup_master_keyContext :: context_class where [context_classes]:
  "Backup_master_keyContext = \<lparr>class_id = RuleContext RuleBackup_master_key, class_base = ParserRuleContext, members = [
     TokenField ''master_key_backup_file'', TokenField ''encryption_password'', Constructor,
     GetRuleIndex, TerminalGet T_BACKUP, TerminalGet T_MASTER, TerminalGet T_KEY,
     TerminalGet T_TO, TerminalGet T_FILE, TerminalAll T_EQUAL, TerminalNth T_EQUAL,
     TerminalGet T_ENCRYPTION, TerminalGet T_BY, TerminalGet T_PASSWORD, TerminalAll T_STRING,
     TerminalNth T_STRING, EnterRule, ExitRule, Accept]\<rparr>"

definition Backup_service_master_keyContext :: context_class where [context_classes]:
  "Backup_service_master_keyContext = \<lparr>class_id = RuleContext RuleBackup_service_master_key, class_base = ParserRuleContext, members = [
     TokenField ''service_master_key_backup_file'', TokenField ''encryption_password'',
     Constructor, GetRuleIndex, TerminalGet T_BACKUP, TerminalGet T_SERVICE,
     TerminalGet T_MASTER, TerminalGet T_KEY, TerminalGet T_TO, TerminalGet T_FILE,
     TerminalAll T_EQUAL, TerminalNth T_EQUAL, TerminalGet T_ENCRYPTION, TerminalGet T_BY,
     TerminalGet T_PASSWORD, TerminalAll T_STRING, TerminalNth T_STRING, EnterRule, ExitRule,
     Accept]\<rparr>"

definition Kill_statementContext :: context_class where [context_classes]:
  "Kill_statementContext = \<lparr>class_id = RuleContext RuleKill_statement, class_base = ParserRuleContext, members = [
     Constructor, GetRuleIndex, TerminalGet T_KILL, ContextGet RuleKill_process,
     ContextGet RuleKill_query_notification, ContextGet RuleKill_stats_job, EnterRule,
     ExitRule, Accept]\<rparr>"

definition Kill_processContext :: context_class where [context_classes]:
  "Kill_processContext = \<lparr>class_id = RuleContext RuleKill_process, class_base = ParserRuleContext, members = [
     TokenField ''session_id'', Constructor, GetRuleIndex, TerminalGet T_UOW,
     TerminalGet T_WITH, TerminalGet T_STATUSONLY, TerminalGet T_DECIMAL, TerminalGet T_STRING,
     EnterRule, ExitRule, Accept]\<rparr>"

definition Kill_query_notificationContext :: context_class where [context_classes]:
  "Kill_query_notificationContext = \<lparr>class_id = RuleContext RuleKill_query_notification, class_base = ParserRuleContext, members = [
     TokenField ''subscription_id'', Constructor, GetRuleIndex, TerminalGet T_QUERY,
     TerminalGet T_NOTIFICATION, TerminalGet T_SUBSCRIPTION, TerminalGet T_ALL,
     TerminalGet T_DECIMAL, EnterRule, ExitRule, Accept]\<rparr>"

definition Kill_stats_jobContext :: context_class where [context_classes]:
  "Kill_stats_jobContext = \<lparr>class_id = RuleContext RuleKill_stats_job, class_base = ParserRuleContext, members = [
     TokenField ''job_id'', Constructor, GetRuleIndex, TerminalGet T_STATS, TerminalGet T_JOB,
     TerminalGet T_DECIMAL, EnterRule, ExitRule, Accept]\<rparr>"

definition Execute_statementContext :: context_class where [context_classes]:
  "Execute_statementContext = \<lparr>class_id = RuleContext RuleExecute_statement, class_base = ParserRuleContext, members = [
     Constructor, GetRuleIndex, TerminalGet T_EXECUTE, ContextGet RuleExecute_body,
     TerminalGet T_SEMI, EnterRule, ExitRule, Accept]\<rparr>"

definition Execute_body_batchContext :: context_class where [context_classes]:
  "Execute_body_batchContext = \<lparr>class_id = RuleContext RuleExecute_body_batch, class_base = ParserRuleContext, members = [
     Constructor, GetRuleIndex, ContextGet RuleFunc_proc_name_server_database_schema,
     ContextAll RuleExecute_statement_arg, ContextNth RuleExecute_statement_arg,
     TerminalGet T_SEMI, TerminalAll T_COMMA, TerminalNth T_COMMA, EnterRule, ExitRule, Accept]\<rparr>"

definition Execute_bodyContext :: context_class where [context_classes]:
  "Execute_bodyContext = \<lparr>class_id = RuleContext RuleExecute_body, class_base = ParserRuleContext, members = [
     TokenField ''return_status'', ContextField ''linkedServer'' RuleId', Constructor,
     GetRuleIndex, ContextGet RuleFunc_proc_name_server_database_schema,
     ContextAll RuleExecute_var_string, ContextNth RuleExecute_var_string, TerminalGet T_EQUAL,
     ContextGet RuleExecute_statement_arg, TerminalGet T_LOCAL_ID, TerminalGet T_LR_BRACKET,
     TerminalGet T_RR_BRACKET, TerminalAll T_COMMA, TerminalNth T_COMMA, TerminalGet T_AS,
     TerminalGet T_STRING, TerminalGet T_AT_KEYWORD, TerminalGet T_LOGIN, TerminalGet T_USER,
     ContextGet RuleId', TerminalGet T_CALLER, EnterRule, ExitRule, Accept]\<rparr>"

definition Execute_statement_argContext :: context_class where [context_classes]:
  "Execute_statement_argContext = \<lparr>class_id = RuleContext RuleExecute_statement_arg, class_base = ParserRuleContext, members = [
     Constructor, GetRuleIndex, ContextGet RuleExecute_statement_arg_unnamed,
     TerminalAll T_COMMA, TerminalNth T_COMMA, ContextAll RuleExecute_statement_arg,
     ContextNth RuleExecute_statement_arg, ContextAll RuleExecute_statement_arg_named,
     ContextNth RuleExecute_statement_arg_named, EnterRule, ExitRule, Accept]\<rparr>"

definition Execute_statement_arg_namedContext :: context_class where [context_classes]:
  "Execute_statement_arg_namedContext = \<lparr>class_id = RuleContext RuleExecute_statement_arg_named, class_base = ParserRuleContext, members = [
     TokenField ''name'', ContextField ''value'' RuleExecute_parameter, Constructor,
     GetRuleIndex, TerminalGet T_EQUAL, TerminalGet T_LOCAL_ID,
     ContextGet RuleExecute_parameter, EnterRule, ExitRule, Accept]\<rparr>"

definition Execute_statement_arg_unnamedContext :: context_class where [context_classes]:
  "Execute_statement_arg_unnamedContext = \<lparr>class_id = RuleContext RuleExecute_statement_arg_unnamed, class_base = ParserRuleContext, members = [
     ContextField ''value'' RuleExecute_parameter, Constructor, GetRuleIndex,
     ContextGet RuleExecute_parameter, EnterRule, ExitRule, Accept]\<rparr>"

definition Execute_parameterContext :: context_class where [context_classes]:
  "Execute_parameterContext = \<lparr>class_id = RuleContext RuleExecute_parameter, class_base = ParserRuleContext, members = [
     Constructor, GetRuleIndex, ContextGet RuleConstant, TerminalGet T_LOCAL_ID,
     ContextGet RuleId', TerminalGet T_DEFAULT, TerminalGet T_NULL', TerminalGet T_OUTPUT,
     TerminalGet T_OUT, EnterRule, ExitRule, Accept]\<rparr>"

definition Execute_var_stringContext :: context_class where [context_classes]:
  "Execute_var_stringContext = \<lparr>class_id = RuleContext RuleExecute_var_string, class_base = ParserRuleContext, members = [
     Constructor, GetRuleIndex, TerminalAll T_LOCAL_ID, TerminalNth T_LOCAL_ID,
     TerminalAll T_PLUS, TerminalNth T_PLUS, TerminalGet T_OUTPUT, TerminalGet T_OUT,
     ContextGet RuleExecute_var_string, TerminalGet T_STRING, EnterRule, ExitRule, Accept]\<rparr>"

definition Security_statementContext :: context_class where [context_classes]:
  "Security_statementContext = \<lparr>class_id = RuleContext RuleSecurity_statement, class_base = ParserRuleContext, members = [
     ContextField ''on_id'' RuleTable_name,
     ContextField ''principal_idContext'' RulePrincipal_id,
     ContextListField ''to_principal'' RulePrincipal_id,
     ContextField ''as_principal'' RulePrincipal_id, Constructor, GetRuleIndex,
     ContextGet RuleExecute_clause, TerminalGet T_SEMI, TerminalAll T_GRANT,
     TerminalNth T_GRANT, TerminalGet T_TO, ContextAll RulePrincipal_id,
     ContextNth RulePrincipal_id, TerminalGet T_ALL, ContextGet RuleGrant_permission,
     TerminalGet T_ON, TerminalAll T_COMMA, TerminalNth T_COMMA, TerminalGet T_WITH,
     TerminalGet T_OPTION, TerminalGet T_AS, ContextGet RuleTable_name,
     TerminalGet T_PRIVILEGES, TerminalGet T_LR_BRACKET, ContextGet RuleColumn_name_list,
     TerminalGet T_RR_BRACKET, ContextGet RuleClass_type_for_grant, TerminalGet T_DOUBLE_COLON,
     TerminalGet T_REVERT, TerminalGet T_COOKIE, TerminalGet T_EQUAL, TerminalGet T_LOCAL_ID,
     ContextGet RuleOpen_key, ContextGet RuleClose_key, ContextGet RuleCreate_key,
     ContextGet RuleCreate_certificate, EnterRule, ExitRule, Accept]\<rparr>"

definition Principal_idContext :: context_class where [context_classes]:
  "Principal_idContext = \<lparr>class_id = RuleContext RulePrincipal_id, class_base = ParserRuleContext, members = [
     Constructor, GetRuleIndex, ContextGet RuleId', TerminalGet T_PUBLIC, EnterRule, ExitRule,
     Accept]\<rparr>"

definition Create_certificateContext :: context_class where [context_classes]:
  "Create_certificateContext = \<lparr>class_id = RuleContext RuleCreate_certificate, class_base = ParserRuleContext, members = [
     ContextField ''certificate_name'' RuleId', ContextField ''user_name'' RuleId',
     Constructor, GetRuleIndex, TerminalGet T_CREATE, TerminalGet T_CERTIFICATE,
     ContextAll RuleId', ContextNth RuleId', TerminalGet T_FROM, ContextGet RuleExisting_keys,
     ContextGet RuleGenerate_new_keys, TerminalGet T_AUTHORIZATION, TerminalGet T_ACTIVE,
     TerminalGet T_FOR, TerminalGet T_BEGIN, TerminalGet T_DIALOG, TerminalGet T_EQUAL,
     ContextGet RuleOn_off, EnterRule, ExitRule, Accept]\<rparr>"

definition Existing_keysContext :: context_class where [context_classes]:
  "Existing_keysContext = \<lparr>class_id = RuleContext RuleExisting_keys, class_base = ParserRuleContext, members = [
     ContextField ''assembly_name'' RuleId', TokenField ''path_to_file'', Constructor,
     GetRuleIndex, TerminalGet T_ASSEMBLY, ContextGet RuleId', TerminalGet T_FILE,
     TerminalGet T_EQUAL, TerminalGet T_STRING, TerminalGet T_EXECUTABLE, TerminalGet T_WITH,
     TerminalGet T_PRIVATE, TerminalGet T_KEY, TerminalGet T_LR_BRACKET,
     ContextGet RulePrivate_key_options, TerminalGet T_RR_BRACKET, EnterRule, ExitRule, Accept]\<rparr>"

definition Private_key_optionsContext :: context_class where [context_classes]:
  "Private_key_optionsContext = \<lparr>class_id = RuleContext RulePrivate_key_options, class_base = ParserRuleContext, members = [
     TokenField ''path'', TokenField ''password'', Constructor, GetRuleIndex,
     TerminalAll T_EQUAL, TerminalNth T_EQUAL, TerminalGet T_FILE, TerminalGet T_BINARY,
     TerminalAll T_STRING, TerminalNth T_STRING, TerminalGet T_COMMA, TerminalGet T_BY,
     TerminalGet T_PASSWORD, TerminalGet T_DECRYPTION, TerminalGet T_ENCRYPTION, EnterRule,
     ExitRule, Accept]\<rparr>"

definition Generate_new_keysContext :: context_class where [context_classes]:
  "Generate_new_keysContext = \<lparr>class_id = RuleContext RuleGenerate_new_keys, class_base = ParserRuleContext, members = [
     TokenField ''password'', TokenField ''certificate_subject_name'', Constructor,
     GetRuleIndex, TerminalGet T_WITH, TerminalGet T_SUBJECT, TerminalAll T_EQUAL,
     TerminalNth T_EQUAL, TerminalAll T_STRING, TerminalNth T_STRING, TerminalGet T_ENCRYPTION,
     TerminalGet T_BY, TerminalGet T_PASSWORD, TerminalAll T_COMMA, TerminalNth T_COMMA,
     ContextAll RuleDate_options, ContextNth RuleDate_options, EnterRule, ExitRule, Accept]\<rparr>"

definition Date_optionsContext :: context_class where [context_classes]:
  "Date_optionsContext = \<lparr>class_id = RuleContext RuleDate_options, class_base = ParserRuleContext, members = [
     Constructor, GetRuleIndex, TerminalGet T_EQUAL, TerminalGet T_STRING,
     TerminalGet T_START_DATE, TerminalGet T_EXPIRY_DATE, EnterRule, ExitRule, Accept]\<rparr>"

definition Open_keyContext :: context_class where [context_classes]:
  "Open_keyContext = \<lparr>class_id = RuleContext RuleOpen_key, class_base = ParserRuleContext, members = [
     ContextField ''key_name'' RuleId', TokenField ''password'', Constructor, GetRuleIndex,
     TerminalGet T_OPEN, TerminalGet T_SYMMETRIC, TerminalGet T_KEY, TerminalGet T_DECRYPTION,
     TerminalGet T_BY, ContextGet RuleDecryption_mechanism, ContextGet RuleId',
     TerminalGet T_MASTER, TerminalGet T_PASSWORD, TerminalGet T_EQUAL, TerminalGet T_STRING,
     EnterRule, ExitRule, Accept]\<rparr>"

definition Close_keyContext :: context_class where [context_classes]:
  "Close_keyContext = \<lparr>class_id = RuleContext RuleClose_key, class_base = ParserRuleContext, members = [
     ContextField ''key_name'' RuleId', Constructor, GetRuleIndex, TerminalGet T_CLOSE,
     TerminalGet T_SYMMETRIC, TerminalGet T_KEY, ContextGet RuleId', TerminalGet T_ALL,
     TerminalGet T_KEYS, TerminalGet T_MASTER, EnterRule, ExitRule, Accept]\<rparr>"

definition Create_keyContext :: context_class where [context_classes]:
  "Create_keyContext = \<lparr>class_id = RuleContext RuleCreate_key, class_base = ParserRuleContext, members = [
     TokenField ''password'', ContextField ''key_name'' RuleId',
     ContextField ''user_name'' RuleId', ContextField ''provider_name'' RuleId', Constructor,
     GetRuleIndex, TerminalGet T_CREATE, TerminalGet T_MASTER, TerminalGet T_KEY,
     TerminalAll T_ENCRYPTION, TerminalNth T_ENCRYPTION, TerminalAll T_BY, TerminalNth T_BY,
     TerminalGet T_PASSWORD, TerminalGet T_EQUAL, TerminalGet T_STRING,
     TerminalGet T_SYMMETRIC, TerminalGet T_WITH, ContextAll RuleId', ContextNth RuleId',
     TerminalGet T_AUTHORIZATION, TerminalGet T_FROM, TerminalGet T_PROVIDER,
     ContextAll RuleKey_options, ContextNth RuleKey_options,
     ContextAll RuleEncryption_mechanism, ContextNth RuleEncryption_mechanism,
     TerminalAll T_COMMA, TerminalNth T_COMMA, EnterRule, ExitRule, Accept]\<rparr>"

definition Key_optionsContext :: context_class where [context_classes]:
  "Key_optionsContext = \<lparr>class_id = RuleContext RuleKey_options, class_base = ParserRuleContext, members = [
     TokenField ''pass_phrase'', TokenField ''identity_phrase'',
     TokenField ''key_name_in_provider'', Constructor, GetRuleIndex, TerminalGet T_KEY_SOURCE,
     TerminalGet T_EQUAL, TerminalGet T_STRING, TerminalGet T_ALGORITHM,
     ContextGet RuleAlgorithm, TerminalGet T_IDENTITY_VALUE, TerminalGet T_PROVIDER_KEY_NAME,
     TerminalGet T_CREATION_DISPOSITION, TerminalGet T_CREATE_NEW, TerminalGet T_OPEN_EXISTING,
     EnterRule, ExitRule, Accept]\<rparr>"

definition AlgorithmContext :: context_class where [context_classes]:
  "AlgorithmContext = \<lparr>class_id = RuleContext RuleAlgorithm, class_base = ParserRuleContext, members = [
     Constructor, GetRuleIndex, TerminalGet T_DES, TerminalGet T_TRIPLE_DES,
     TerminalGet T_TRIPLE_DES_3KEY, TerminalGet T_RC2, TerminalGet T_RC4,
     TerminalGet T_RC4_128, TerminalGet T_DESX, TerminalGet T_AES_128, TerminalGet T_AES_192,
     TerminalGet T_AES_256, EnterRule, ExitRule, Accept]\<rparr>"

definition Encryption_mechanismContext :: context_class where [context_classes]:
  "Encryption_mechanismContext = \<lparr>class_id = RuleContext RuleEncryption_mechanism, class_base = ParserRuleContext, members = [
     ContextField ''certificate_name'' RuleId', ContextField ''asym_key_name'' RuleId',
     ContextField ''decrypting_Key_name'' RuleId', Constructor, GetRuleIndex,
     TerminalGet T_CERTIFICATE, ContextGet RuleId', TerminalGet T_ASYMMETRIC,
     TerminalGet T_KEY, TerminalGet T_SYMMETRIC, TerminalGet T_PASSWORD, TerminalGet T_EQUAL,
     TerminalGet T_STRING, EnterRule, ExitRule, Accept]\<rparr>"

definition Decryption_mechanismContext :: context_class where [context_classes]:
  "Decryption_mechanismContext = \<lparr>class_id = RuleContext RuleDecryption_mechanism, class_base = ParserRuleContext, members = [
     ContextField ''certificate_name'' RuleId', ContextField ''asym_key_name'' RuleId',
     ContextField ''decrypting_Key_name'' RuleId', Constructor, GetRuleIndex,
     TerminalGet T_CERTIFICATE, ContextGet RuleId', TerminalGet T_WITH, TerminalGet T_PASSWORD,
     TerminalGet T_EQUAL, TerminalGet T_STRING, TerminalGet T_ASYMMETRIC, TerminalGet T_KEY,
     TerminalGet T_SYMMETRIC, EnterRule, ExitRule, Accept]\<rparr>"

definition Grant_permissionContext :: context_class where [context_classes]:
  "Grant_permissionContext = \<lparr>class_id = RuleContext RuleGrant_permission, class_base = ParserRuleContext, members = [
     Constructor, GetRuleIndex, TerminalGet T_ADMINISTER, TerminalGet T_BULK,
     TerminalGet T_OPERATIONS, TerminalGet T_DATABASE, TerminalGet T_ALTER, TerminalGet T_ANY,
     TerminalGet T_RESOURCES, TerminalGet T_SERVER, TerminalGet T_STATE,
     TerminalGet T_SETTINGS, TerminalGet T_TRACE, TerminalGet T_APPLICATION,
     TerminalGet T_ROLE, TerminalGet T_ASSEMBLY, TerminalGet T_ASYMMETRIC, TerminalGet T_KEY,
     TerminalGet T_AVAILABILITY, TerminalGet T_GROUP, TerminalGet T_CERTIFICATE,
     TerminalGet T_COLUMN, TerminalGet T_CONNECTION, TerminalGet T_CONTRACT,
     TerminalGet T_CREDENTIAL, TerminalGet T_DATASPACE, TerminalGet T_ENDPOINT,
     TerminalGet T_EVENT, TerminalGet T_EXTERNAL, TerminalGet T_FULLTEXT,
     TerminalGet T_CATALOG, TerminalGet T_LINKED, TerminalGet T_LOGIN, TerminalGet T_MASK,
     TerminalGet T_MESSAGE, TerminalGet T_TYPE, TerminalGet T_REMOTE, TerminalGet T_SERVICE,
     TerminalGet T_BINDING, TerminalGet T_ROUTE, TerminalGet T_SCHEMA, TerminalGet T_SECURITY,
     TerminalGet T_POLICY, TerminalGet T_SYMMETRIC, TerminalGet T_USER,
     TerminalGet T_NOTIFICATION, TerminalGet T_SESSION, TerminalGet T_AUDIT,
     TerminalGet T_ENCRYPTION, TerminalGet T_MASTER, TerminalGet T_DATA, TerminalGet T_SOURCE,
     TerminalGet T_FILE, TerminalGet T_FORMAT, TerminalGet T_LIBRARY, TerminalGet T_DDL,
     TerminalGet T_TRIGGER, TerminalGet T_SCOPED, TerminalGet T_CONFIGURATION,
     TerminalGet T_AUTHENTICATE, TerminalGet T_BACKUP, TerminalGet T_LOG,
     TerminalGet T_CHECKPOINT, TerminalGet T_CONNECT, TerminalGet T_REPLICATION,
     TerminalGet T_SQL, TerminalGet T_CONTROL, TerminalGet T_CREATE, TerminalGet T_AGGREGATE,
     TerminalGet T_DEFAULT, TerminalGet T_FUNCTION, TerminalGet T_PROCEDURE,
     TerminalGet T_QUEUE, TerminalGet T_RULE, TerminalGet T_SEQUENCE, TerminalGet T_SYNONYM,
     TerminalGet T_TABLE, TerminalGet T_VIEW, TerminalGet T_XML, TerminalGet T_COLLECTION,
     TerminalGet T_DELETE, TerminalGet T_EXECUTE, TerminalGet T_SCRIPT, TerminalGet T_ACCESS,
     TerminalGet T_IMPERSONATE, TerminalGet T_INSERT, TerminalGet T_KILL,
     TerminalGet T_RECEIVE, TerminalGet T_REFERENCES, TerminalGet T_SELECT, TerminalGet T_ALL,
     TerminalGet T_SECURABLES, TerminalGet T_SEND, TerminalGet T_SHOWPLAN,
     TerminalGet T_SHUTDOWN, TerminalGet T_SUBSCRIBE, TerminalGet T_QUERY,
     TerminalGet T_NOTIFICATIONS, TerminalGet T_TAKE, TerminalGet T_OWNERSHIP,
     TerminalGet T_UNMASK, TerminalGet T_UNSAFE, TerminalGet T_UPDATE, TerminalGet T_CHANGE,
     TerminalGet T_TRACKING, TerminalGet T_DEFINITION, EnterRule, ExitRule, Accept]\<rparr>"

definition Set_statementContext :: context_class where [context_classes]:
  "Set_statementContext = \<lparr>class_id = RuleContext RuleSet_statement, class_base = ParserRuleContext, members = [
     ContextField ''member_name'' RuleId', Constructor, GetRuleIndex, TerminalGet T_SET,
     TerminalGet T_LOCAL_ID, TerminalGet T_EQUAL, ContextGet RuleExpression, TerminalGet T_DOT,
     ContextGet RuleId', ContextGet RuleAssignment_operator, TerminalGet T_CURSOR,
     ContextGet RuleDeclare_set_cursor_common, TerminalGet T_FOR, TerminalGet T_READ,
     TerminalGet T_ONLY, TerminalGet T_UPDATE, TerminalGet T_OF,
     ContextGet RuleColumn_name_list, ContextGet RuleSet_special, EnterRule, ExitRule, Accept]\<rparr>"

definition Transaction_statementContext :: context_class where [context_classes]:
  "Transaction_statementContext = \<lparr>class_id = RuleContext RuleTransaction_statement, class_base = ParserRuleContext, members = [
     Constructor, GetRuleIndex, TerminalGet T_BEGIN, TerminalGet T_DISTRIBUTED,
     TerminalGet T_TRAN, TerminalGet T_TRANSACTION, ContextGet RuleId', TerminalGet T_LOCAL_ID,
     TerminalGet T_WITH, TerminalGet T_MARK, TerminalGet T_STRING, TerminalGet T_COMMIT,
     TerminalGet T_LR_BRACKET, TerminalGet T_DELAYED_DURABILITY, TerminalGet T_EQUAL,
     TerminalGet T_RR_BRACKET, TerminalGet T_OFF, TerminalGet T_ON, TerminalGet T_WORK,
     TerminalGet T_ROLLBACK, TerminalGet T_SAVE, EnterRule, ExitRule, Accept]\<rparr>"

definition Go_statementContext :: context_class where [context_classes]:
  "Go_statementContext = \<lparr>class_id = RuleContext RuleGo_statement, class_base = ParserRuleContext, members = [
     TokenField ''count'', Constructor, GetRuleIndex, TerminalGet T_GO, TerminalGet T_DECIMAL,
     EnterRule, ExitRule, Accept]\<rparr>"

definition Use_statementContext :: context_class where [context_classes]:
  "Use_statementContext = \<lparr>class_id = RuleContext RuleUse_statement, class_base = ParserRuleContext, members = [
     ContextField ''database'' RuleId', Constructor, GetRuleIndex, TerminalGet T_USE,
     ContextGet RuleId', EnterRule, ExitRule, Accept]\<rparr>"

definition Setuser_statementContext :: context_class where [context_classes]:
  "Setuser_statementContext = \<lparr>class_id = RuleContext RuleSetuser_statement, class_base = ParserRuleContext, members = [
     TokenField ''user'', Constructor, GetRuleIndex, TerminalGet T_SETUSER,
     TerminalGet T_STRING, EnterRule, ExitRule, Accept]\<rparr>"

definition Reconfigure_statementContext :: context_class where [context_classes]:
  "Reconfigure_statementContext = \<lparr>class_id = RuleContext RuleReconfigure_statement, class_base = ParserRuleContext, members = [
     Constructor, GetRuleIndex, TerminalGet T_RECONFIGURE, TerminalGet T_WITH,
     TerminalGet T_OVERRIDE, EnterRule, ExitRule, Accept]\<rparr>"

definition Shutdown_statementContext :: context_class where [context_classes]:
  "Shutdown_statementContext = \<lparr>class_id = RuleContext RuleShutdown_statement, class_base = ParserRuleContext, members = [
     Constructor, GetRuleIndex, TerminalGet T_SHUTDOWN, TerminalGet T_WITH,
     TerminalGet T_NOWAIT, EnterRule, ExitRule, Accept]\<rparr>"

definition Checkpoint_statementContext :: context_class where [context_classes]:
  "Checkpoint_statementContext = \<lparr>class_id = RuleContext RuleCheckpoint_statement, class_base = ParserRuleContext, members = [
     TokenField ''checkPointDuration'', Constructor, GetRuleIndex, TerminalGet T_CHECKPOINT,
     TerminalGet T_DECIMAL, EnterRule, ExitRule, Accept]\<rparr>"

definition Dbcc_checkalloc_optionContext :: context_class where [context_classes]:
  "Dbcc_checkalloc_optionContext = \<lparr>class_id = RuleContext RuleDbcc_checkalloc_option, class_base = ParserRuleContext, members = [
     Constructor, GetRuleIndex, TerminalGet T_ALL_ERRORMSGS, TerminalGet T_NO_INFOMSGS,
     TerminalGet T_TABLOCK, TerminalGet T_ESTIMATEONLY, EnterRule, ExitRule, Accept]\<rparr>"

definition Dbcc_checkallocContext :: context_class where [context_classes]:
  "Dbcc_checkallocContext = \<lparr>class_id = RuleContext RuleDbcc_checkalloc, class_base = ParserRuleContext, members = [
     TokenField ''name'', ContextField ''database'' RuleId', TokenField ''databaseid'',
     ContextField ''dbcc_option'' RuleDbcc_checkalloc_option, Constructor, GetRuleIndex,
     TerminalGet T_CHECKALLOC, TerminalGet T_LR_BRACKET, TerminalGet T_RR_BRACKET,
     TerminalGet T_DECIMAL, ContextGet RuleId', TerminalGet T_STRING, TerminalAll T_COMMA,
     TerminalNth T_COMMA, TerminalGet T_NOINDEX, TerminalGet T_WITH,
     TerminalGet T_REPAIR_ALLOW_DATA_LOSS, TerminalGet T_REPAIR_FAST,
     TerminalGet T_REPAIR_REBUILD, ContextAll RuleDbcc_checkalloc_option,
     ContextNth RuleDbcc_checkalloc_option, EnterRule, ExitRule, Accept]\<rparr>"

definition Dbcc_checkcatalogContext :: context_class where [context_classes]:
  "Dbcc_checkcatalogContext = \<lparr>class_id = RuleContext RuleDbcc_checkcatalog, class_base = ParserRuleContext, members = [
     TokenField ''name'', ContextField ''database'' RuleId', TokenField ''databasename'',
     TokenField ''dbcc_option'', Constructor, GetRuleIndex, TerminalGet T_CHECKCATALOG,
     TerminalGet T_LR_BRACKET, TerminalGet T_RR_BRACKET, TerminalGet T_WITH,
     TerminalGet T_NO_INFOMSGS, TerminalGet T_DECIMAL, ContextGet RuleId',
     TerminalGet T_STRING, EnterRule, ExitRule, Accept]\<rparr>"

definition Dbcc_checkconstraints_optionContext :: context_class where [context_classes]:
  "Dbcc_checkconstraints_optionContext = \<lparr>class_id = RuleContext RuleDbcc_checkconstraints_option, class_base = ParserRuleContext, members = [
     Constructor, GetRuleIndex, TerminalGet T_ALL_CONSTRAINTS, TerminalGet T_ALL_ERRORMSGS,
     TerminalGet T_NO_INFOMSGS, EnterRule, ExitRule, Accept]\<rparr>"

definition Dbcc_checkconstraintsContext :: context_class where [context_classes]:
  "Dbcc_checkconstraintsContext = \<lparr>class_id = RuleContext RuleDbcc_checkconstraints, class_base = ParserRuleContext, members = [
     TokenField ''name'', ContextField ''table_or_constraint'' RuleId',
     TokenField ''table_or_constraint_name'',
     ContextField ''dbcc_option'' RuleDbcc_checkconstraints_option, Constructor, GetRuleIndex,
     TerminalGet T_CHECKCONSTRAINTS, TerminalGet T_LR_BRACKET, TerminalGet T_RR_BRACKET,
     TerminalGet T_WITH, ContextAll RuleDbcc_checkconstraints_option,
     ContextNth RuleDbcc_checkconstraints_option, ContextGet RuleId', TerminalGet T_STRING,
     TerminalAll T_COMMA, TerminalNth T_COMMA, EnterRule, ExitRule, Accept]\<rparr>"

definition Dbcc_checkdb_table_optionContext :: context_class where [context_classes]:
  "Dbcc_checkdb_table_optionContext = \<lparr>class_id = RuleContext RuleDbcc_checkdb_table_option, class_base = ParserRuleContext, members = [
     TokenField ''max_dregree_of_parallelism'', Constructor, GetRuleIndex,
     TerminalGet T_ALL_ERRORMSGS, TerminalGet T_EXTENDED_LOGICAL_CHECKS,
     TerminalGet T_NO_INFOMSGS, TerminalGet T_TABLOCK, TerminalGet T_ESTIMATEONLY,
     TerminalGet T_PHYSICAL_ONLY, TerminalGet T_DATA_PURITY, TerminalGet T_MAXDOP,
     TerminalGet T_EQUAL, TerminalGet T_DECIMAL, EnterRule, ExitRule, Accept]\<rparr>"

definition Dbcc_checkdbContext :: context_class where [context_classes]:
  "Dbcc_checkdbContext = \<lparr>class_id = RuleContext RuleDbcc_checkdb, class_base = ParserRuleContext, members = [
     TokenField ''name'', ContextField ''database'' RuleId', TokenField ''databasename'',
     ContextField ''dbcc_option'' RuleDbcc_checkdb_table_option, Constructor, GetRuleIndex,
     TerminalGet T_CHECKDB, TerminalGet T_LR_BRACKET, TerminalGet T_RR_BRACKET,
     TerminalGet T_WITH, ContextAll RuleDbcc_checkdb_table_option,
     ContextNth RuleDbcc_checkdb_table_option, TerminalGet T_DECIMAL, ContextGet RuleId',
     TerminalGet T_STRING, TerminalAll T_COMMA, TerminalNth T_COMMA, TerminalGet T_NOINDEX,
     TerminalGet T_REPAIR_ALLOW_DATA_LOSS, TerminalGet T_REPAIR_FAST,
     TerminalGet T_REPAIR_REBUILD, EnterRule, ExitRule, Accept]\<rparr>"

definition Dbcc_checkfilegroup_optionContext :: context_class where [context_classes]:
  "Dbcc_checkfilegroup_optionContext = \<lparr>class_id = RuleContext RuleDbcc_checkfilegroup_option, class_base = ParserRuleContext, members = [
     TokenField ''max_dregree_of_parallelism'', Constructor, GetRuleIndex,
     TerminalGet T_ALL_ERRORMSGS, TerminalGet T_NO_INFOMSGS, TerminalGet T_TABLOCK,
     TerminalGet T_ESTIMATEONLY, TerminalGet T_PHYSICAL_ONLY, TerminalGet T_MAXDOP,
     TerminalGet T_EQUAL, TerminalGet T_DECIMAL, EnterRule, ExitRule, Accept]\<rparr>"

definition Dbcc_checkfilegroupContext :: context_class where [context_classes]:
  "Dbcc_checkfilegroupContext = \<lparr>class_id = RuleContext RuleDbcc_checkfilegroup, class_base = ParserRuleContext, members = [
     TokenField ''name'', TokenField ''filegroup_id'', TokenField ''filegroup_name'',
     ContextField ''dbcc_option'' RuleDbcc_checkfilegroup_option, Constructor, GetRuleIndex,
     TerminalGet T_CHECKFILEGROUP, TerminalGet T_LR_BRACKET, TerminalGet T_RR_BRACKET,
     TerminalGet T_WITH, ContextAll RuleDbcc_checkfilegroup_option,
     ContextNth RuleDbcc_checkfilegroup_option, TerminalGet T_DECIMAL, TerminalGet T_STRING,
     TerminalAll T_COMMA, TerminalNth T_COMMA, TerminalGet T_NOINDEX,
     TerminalGet T_REPAIR_ALLOW_DATA_LOSS, TerminalGet T_REPAIR_FAST,
     TerminalGet T_REPAIR_REBUILD, EnterRule, ExitRule, Accept]\<rparr>"

definition Dbcc_checktableContext :: context_class where [context_classes]:
  "Dbcc_checktableContext = \<lparr>class_id = RuleContext RuleDbcc_checktable, class_base = ParserRuleContext, members = [
     TokenField ''name'', TokenField ''table_or_view_name'',
     ContextField ''index_id'' RuleExpression,
     ContextField ''dbcc_option'' RuleDbcc_checkdb_table_option, Constructor, GetRuleIndex,
     TerminalGet T_LR_BRACKET, TerminalGet T_RR_BRACKET, TerminalGet T_CHECKTABLE,
     TerminalGet T_STRING, TerminalAll T_COMMA, TerminalNth T_COMMA, TerminalGet T_WITH,
     ContextAll RuleDbcc_checkdb_table_option, ContextNth RuleDbcc_checkdb_table_option,
     TerminalGet T_NOINDEX, TerminalGet T_REPAIR_ALLOW_DATA_LOSS, TerminalGet T_REPAIR_FAST,
     TerminalGet T_REPAIR_REBUILD, ContextGet RuleExpression, EnterRule, ExitRule, Accept]\<rparr>"

definition Dbcc_cleantableContext :: context_class where [context_classes]:
  "Dbcc_cleantableContext = \<lparr>class_id = RuleContext RuleDbcc_cleantable, class_base = ParserRuleContext, members = [
     TokenField ''name'', ContextField ''database'' RuleId', TokenField ''databasename'',
     ContextField ''table_or_view'' RuleId', TokenField ''table_or_view_name'',
     TokenField ''batch_size'', TokenField ''dbcc_option'', Constructor, GetRuleIndex,
     TerminalGet T_LR_BRACKET, TerminalAll T_COMMA, TerminalNth T_COMMA,
     TerminalGet T_RR_BRACKET, TerminalGet T_CLEANTABLE, TerminalAll T_DECIMAL,
     TerminalNth T_DECIMAL, ContextAll RuleId', ContextNth RuleId', TerminalAll T_STRING,
     TerminalNth T_STRING, TerminalGet T_WITH, TerminalGet T_NO_INFOMSGS, EnterRule, ExitRule,
     Accept]\<rparr>"

definition Dbcc_clonedatabase_optionContext :: context_class where [context_classes]:
  "Dbcc_clonedatabase_optionContext = \<lparr>class_id = RuleContext RuleDbcc_clonedatabase_option, class_base = ParserRuleContext, members = [
     Constructor, GetRuleIndex, TerminalGet T_NO_STATISTICS, TerminalGet T_NO_QUERYSTORE,
     TerminalGet T_SERVICEBROKER, TerminalGet T_VERIFY_CLONEDB, TerminalGet T_BACKUP_CLONEDB,
     EnterRule, ExitRule, Accept]\<rparr>"

definition Dbcc_clonedatabaseContext :: context_class where [context_classes]:
  "Dbcc_clonedatabaseContext = \<lparr>class_id = RuleContext RuleDbcc_clonedatabase, class_base = ParserRuleContext, members = [
     TokenField ''name'', ContextField ''source_database'' RuleId',
     ContextField ''target_database'' RuleId',
     ContextField ''dbcc_option'' RuleDbcc_clonedatabase_option, Constructor, GetRuleIndex,
     TerminalGet T_LR_BRACKET, TerminalAll T_COMMA, TerminalNth T_COMMA,
     TerminalGet T_RR_BRACKET, TerminalGet T_CLONEDATABASE, ContextAll RuleId',
     ContextNth RuleId', TerminalGet T_WITH, ContextAll RuleDbcc_clonedatabase_option,
     ContextNth RuleDbcc_clonedatabase_option, EnterRule, ExitRule, Accept]\<rparr>"

definition Dbcc_pdw_showspaceusedContext :: context_class where [context_classes]:
  "Dbcc_pdw_showspaceusedContext = \<lparr>class_id = RuleContext RuleDbcc_pdw_showspaceused, class_base = ParserRuleContext, members = [
     TokenField ''name'', ContextField ''tablename'' RuleId', TokenField ''dbcc_option'',
     Constructor, GetRuleIndex, TerminalGet T_PDW_SHOWSPACEUSED, TerminalGet T_LR_BRACKET,
     TerminalGet T_RR_BRACKET, TerminalGet T_WITH, ContextGet RuleId',
     TerminalGet T_IGNORE_REPLICATED_TABLE_CACHE, EnterRule, ExitRule, Accept]\<rparr>"

definition Dbcc_proccacheContext :: context_class where [context_classes]:
  "Dbcc_proccacheContext = \<lparr>class_id = RuleContext RuleDbcc_proccache, class_base = ParserRuleContext, members = [
     TokenField ''name'', TokenField ''dbcc_option'', Constructor, GetRuleIndex,
     TerminalGet T_PROCCACHE, TerminalGet T_WITH, TerminalGet T_NO_INFOMSGS, EnterRule,
     ExitRule, Accept]\<rparr>"

definition Dbcc_showcontig_optionContext :: context_class where [context_classes]:
  "Dbcc_showcontig_optionContext = \<lparr>class_id = RuleContext RuleDbcc_showcontig_option, class_base = ParserRuleContext, members = [
     Constructor, GetRuleIndex, TerminalGet T_ALL_INDEXES, TerminalGet T_TABLERESULTS,
     TerminalGet T_FAST, TerminalGet T_ALL_LEVELS, TerminalGet T_NO_INFOMSGS, EnterRule,
     ExitRule, Accept]\<rparr>"

definition Dbcc_showcontigContext :: context_class where [context_classes]:
  "Dbcc_showcontigContext = \<lparr>class_id = RuleContext RuleDbcc_showcontig, class_base = ParserRuleContext, members = [
     TokenField ''name'', ContextField ''table_or_view'' RuleExpression,
     ContextField ''index'' RuleExpression,
     ContextField ''dbcc_option'' RuleDbcc_showcontig_option, Constructor, GetRuleIndex,
     TerminalGet T_SHOWCONTIG, TerminalGet T_LR_BRACKET, TerminalGet T_RR_BRACKET,
     TerminalGet T_WITH, ContextAll RuleExpression, ContextNth RuleExpression,
     ContextAll RuleDbcc_showcontig_option, ContextNth RuleDbcc_showcontig_option,
     TerminalAll T_COMMA, TerminalNth T_COMMA, EnterRule, ExitRule, Accept]\<rparr>"

definition Dbcc_shrinklogContext :: context_class where [context_classes]:
  "Dbcc_shrinklogContext = \<lparr>class_id = RuleContext RuleDbcc_shrinklog, class_base = ParserRuleContext, members = [
     TokenField ''name'', TokenField ''dbcc_option'', Constructor, GetRuleIndex,
     TerminalGet T_SHRINKLOG, TerminalGet T_LR_BRACKET, TerminalGet T_SIZE,
     TerminalGet T_EQUAL, TerminalGet T_RR_BRACKET, TerminalGet T_WITH,
     TerminalGet T_NO_INFOMSGS, TerminalGet T_DEFAULT, TerminalGet T_DECIMAL, TerminalGet T_MB,
     TerminalGet T_GB, TerminalGet T_TB, EnterRule, ExitRule, Accept]\<rparr>"

definition Dbcc_dbreindexContext :: context_class where [context_classes]:
  "Dbcc_dbreindexContext = \<lparr>class_id = RuleContext RuleDbcc_dbreindex, class_base = ParserRuleContext, members = [
     TokenField ''name'', ContextField ''table'' RuleId_or_string,
     ContextField ''index_name'' RuleId_or_string, ContextField ''fillfactor'' RuleExpression,
     TokenField ''dbcc_option'', Constructor, GetRuleIndex, TerminalGet T_LR_BRACKET,
     TerminalGet T_RR_BRACKET, TerminalGet T_DBREINDEX, ContextAll RuleId_or_string,
     ContextNth RuleId_or_string, TerminalAll T_COMMA, TerminalNth T_COMMA, TerminalGet T_WITH,
     TerminalGet T_NO_INFOMSGS, ContextGet RuleExpression, EnterRule, ExitRule, Accept]\<rparr>"

definition Dbcc_dll_freeContext :: context_class where [context_classes]:
  "Dbcc_dll_freeContext = \<lparr>class_id = RuleContext RuleDbcc_dll_free, class_base = ParserRuleContext, members = [
     ContextField ''dllname'' RuleId', TokenField ''name'', TokenField ''dbcc_option'',
     Constructor, GetRuleIndex, TerminalGet T_LR_BRACKET, TerminalGet T_RR_BRACKET,
     ContextGet RuleId', TerminalGet T_FREE, TerminalGet T_WITH, TerminalGet T_NO_INFOMSGS,
     EnterRule, ExitRule, Accept]\<rparr>"

definition Dbcc_dropcleanbuffersContext :: context_class where [context_classes]:
  "Dbcc_dropcleanbuffersContext = \<lparr>class_id = RuleContext RuleDbcc_dropcleanbuffers, class_base = ParserRuleContext, members = [
     TokenField ''name'', TokenField ''dbcc_option'', Constructor, GetRuleIndex,
     TerminalGet T_DROPCLEANBUFFERS, TerminalGet T_LR_BRACKET, TerminalGet T_COMPUTE,
     TerminalGet T_ALL, TerminalGet T_RR_BRACKET, TerminalGet T_WITH,
     TerminalGet T_NO_INFOMSGS, EnterRule, ExitRule, Accept]\<rparr>"

definition Dbcc_clauseContext :: context_class where [context_classes]:
  "Dbcc_clauseContext = \<lparr>class_id = RuleContext RuleDbcc_clause, class_base = ParserRuleContext, members = [
     Constructor, GetRuleIndex, TerminalGet T_DBCC, ContextGet RuleDbcc_checkalloc,
     ContextGet RuleDbcc_checkcatalog, ContextGet RuleDbcc_checkconstraints,
     ContextGet RuleDbcc_checkdb, ContextGet RuleDbcc_checkfilegroup,
     ContextGet RuleDbcc_checktable, ContextGet RuleDbcc_cleantable,
     ContextGet RuleDbcc_clonedatabase, ContextGet RuleDbcc_dbreindex,
     ContextGet RuleDbcc_dll_free, ContextGet RuleDbcc_dropcleanbuffers,
     ContextGet RuleDbcc_pdw_showspaceused, ContextGet RuleDbcc_proccache,
     ContextGet RuleDbcc_showcontig, ContextGet RuleDbcc_shrinklog, EnterRule, ExitRule, Accept]\<rparr>"

definition Execute_clauseContext :: context_class where [context_classes]:
  "Execute_clauseContext = \<lparr>class_id = RuleContext RuleExecute_clause, class_base = ParserRuleContext, members = [
     TokenField ''clause'', Constructor, GetRuleIndex, TerminalGet T_EXECUTE, TerminalGet T_AS,
     TerminalGet T_CALLER, TerminalGet T_SELF, TerminalGet T_OWNER, TerminalGet T_STRING,
     EnterRule, ExitRule, Accept]\<rparr>"

definition Declare_localContext :: context_class where [context_classes]:
  "Declare_localContext = \<lparr>class_id = RuleContext RuleDeclare_local, class_base = ParserRuleContext, members = [
     Constructor, GetRuleIndex, TerminalGet T_LOCAL_ID, ContextGet RuleData_type,
     TerminalGet T_AS, TerminalGet T_EQUAL, ContextGet RuleExpression, EnterRule, ExitRule,
     Accept]\<rparr>"

definition Table_type_definitionContext :: context_class where [context_classes]:
  "Table_type_definitionContext = \<lparr>class_id = RuleContext RuleTable_type_definition, class_base = ParserRuleContext, members = [
     Constructor, GetRuleIndex, TerminalGet T_TABLE, TerminalGet T_LR_BRACKET,
     ContextGet RuleColumn_def_table_constraints, TerminalGet T_RR_BRACKET,
     ContextAll RuleTable_type_indices, ContextNth RuleTable_type_indices, TerminalAll T_COMMA,
     TerminalNth T_COMMA, EnterRule, ExitRule, Accept]\<rparr>"

definition Table_type_indicesContext :: context_class where [context_classes]:
  "Table_type_indicesContext = \<lparr>class_id = RuleContext RuleTable_type_indices, class_base = ParserRuleContext, members = [
     Constructor, GetRuleIndex, TerminalGet T_LR_BRACKET,
     ContextGet RuleColumn_name_list_with_order, TerminalGet T_RR_BRACKET,
     TerminalGet T_UNIQUE, TerminalGet T_PRIMARY, TerminalGet T_KEY, TerminalGet T_INDEX,
     ContextGet RuleId', TerminalGet T_CLUSTERED, TerminalGet T_NONCLUSTERED,
     TerminalGet T_CHECK, ContextGet RuleSearch_condition, EnterRule, ExitRule, Accept]\<rparr>"

definition Xml_type_definitionContext :: context_class where [context_classes]:
  "Xml_type_definitionContext = \<lparr>class_id = RuleContext RuleXml_type_definition, class_base = ParserRuleContext, members = [
     Constructor, GetRuleIndex, TerminalGet T_XML, TerminalGet T_LR_BRACKET,
     ContextGet RuleXml_schema_collection, TerminalGet T_RR_BRACKET, TerminalGet T_CONTENT,
     TerminalGet T_DOCUMENT, EnterRule, ExitRule, Accept]\<rparr>"

definition Xml_schema_collectionContext :: context_class where [context_classes]:
  "Xml_schema_collectionContext = \<lparr>class_id = RuleContext RuleXml_schema_collection, class_base = ParserRuleContext, members = [
     Constructor, GetRuleIndex, TerminalAll T_ID, TerminalNth T_ID, TerminalGet T_DOT,
     EnterRule, ExitRule, Accept]\<rparr>"

definition Column_def_table_constraintsContext :: context_class where [context_classes]:
  "Column_def_table_constraintsContext = \<lparr>class_id = RuleContext RuleColumn_def_table_constraints, class_base = ParserRuleContext, members = [
     Constructor, GetRuleIndex, ContextAll RuleColumn_def_table_constraint,
     ContextNth RuleColumn_def_table_constraint, TerminalAll T_COMMA, TerminalNth T_COMMA,
     EnterRule, ExitRule, Accept]\<rparr>"

definition Column_def_table_constraintContext :: context_class where [context_classes]:
  "Column_def_table_constraintContext = \<lparr>class_id = RuleContext RuleColumn_def_table_constraint, class_base = ParserRuleContext, members = [
     Constructor, GetRuleIndex, ContextGet RuleColumn_definition,
     ContextGet RuleMaterialized_column_definition, ContextGet RuleTable_constraint, EnterRule,
     ExitRule, Accept]\<rparr>"

definition Column_definitionContext :: context_class where [context_classes]:
  "Column_definitionContext = \<lparr>class_id = RuleContext RuleColumn_definition, class_base = ParserRuleContext, members = [
     Constructor, GetRuleIndex, ContextGet RuleId', ContextGet RuleData_type, TerminalGet T_AS,
     ContextGet RuleExpression, ContextAll RuleColumn_definition_element,
     ContextNth RuleColumn_definition_element, ContextGet RuleColumn_index,
     TerminalGet T_PERSISTED, EnterRule, ExitRule, Accept]\<rparr>"

definition Column_definition_elementContext :: context_class where [context_classes]:
  "Column_definition_elementContext = \<lparr>class_id = RuleContext RuleColumn_definition_element, class_base = ParserRuleContext, members = [
     ContextField ''collation_name'' RuleId', TokenField ''mask_function'',
     ContextField ''constraint'' RuleId', ContextField ''constant_expr'' RuleExpression,
     TokenField ''seed'', TokenField ''increment'', TokenField ''key_name'',
     TokenField ''algo'', Constructor, GetRuleIndex, TerminalGet T_FILESTREAM,
     TerminalGet T_COLLATE, ContextGet RuleId', TerminalGet T_SPARSE, TerminalGet T_MASKED,
     TerminalGet T_WITH, TerminalGet T_LR_BRACKET, TerminalGet T_FUNCTION, TerminalAll T_EQUAL,
     TerminalNth T_EQUAL, TerminalGet T_RR_BRACKET, TerminalAll T_STRING, TerminalNth T_STRING,
     TerminalGet T_DEFAULT, ContextGet RuleExpression, TerminalGet T_CONSTRAINT,
     TerminalGet T_IDENTITY, TerminalAll T_COMMA, TerminalNth T_COMMA, TerminalAll T_DECIMAL,
     TerminalNth T_DECIMAL, TerminalGet T_NOT, TerminalGet T_FOR, TerminalGet T_REPLICATION,
     TerminalGet T_GENERATED, TerminalGet T_ALWAYS, TerminalGet T_AS, TerminalGet T_ROW,
     TerminalGet T_TRANSACTION_ID, TerminalGet T_SEQUENCE_NUMBER, TerminalGet T_START,
     TerminalGet T_END, TerminalGet T_HIDDEN_KEYWORD, TerminalGet T_ROWGUIDCOL,
     TerminalGet T_ENCRYPTED, TerminalGet T_COLUMN_ENCRYPTION_KEY,
     TerminalGet T_ENCRYPTION_TYPE, TerminalGet T_ALGORITHM, TerminalGet T_DETERMINISTIC,
     TerminalGet T_RANDOMIZED, ContextGet RuleColumn_constraint, EnterRule, ExitRule, Accept]\<rparr>"

definition Column_modifierContext :: context_class where [context_classes]:
  "Column_modifierContext = \<lparr>class_id = RuleContext RuleColumn_modifier, class_base = ParserRuleContext, members = [
     Constructor, GetRuleIndex, ContextGet RuleId', TerminalGet T_ADD, TerminalGet T_DROP,
     TerminalGet T_ROWGUIDCOL, TerminalGet T_PERSISTED, TerminalGet T_NOT, TerminalGet T_FOR,
     TerminalGet T_REPLICATION, TerminalGet T_SPARSE, TerminalGet T_HIDDEN_KEYWORD,
     TerminalGet T_MASKED, TerminalGet T_WITH, TerminalGet T_FUNCTION, TerminalGet T_EQUAL,
     TerminalGet T_STRING, TerminalGet T_LR_BRACKET, TerminalGet T_RR_BRACKET, EnterRule,
     ExitRule, Accept]\<rparr>"

definition Materialized_column_definitionContext :: context_class where [context_classes]:
  "Materialized_column_definitionContext = \<lparr>class_id = RuleContext RuleMaterialized_column_definition, class_base = ParserRuleContext, members = [
     Constructor, GetRuleIndex, ContextGet RuleId', ContextGet RuleExpression,
     TerminalGet T_COMPUTE, TerminalGet T_AS, TerminalGet T_MATERIALIZED, TerminalGet T_NOT,
     EnterRule, ExitRule, Accept]\<rparr>"

definition Column_constraintContext :: context_class where [context_classes]:
  "Column_constraintContext = \<lparr>class_id = RuleContext RuleColumn_constraint, class_base = ParserRuleContext, members = [
     ContextField ''constraint'' RuleId', Constructor, GetRuleIndex,
     ContextGet RuleNull_notnull, ContextGet RuleCheck_constraint, TerminalGet T_CONSTRAINT,
     ContextGet RuleId', ContextGet RulePrimary_key_options,
     ContextGet RuleForeign_key_options, TerminalGet T_PRIMARY, TerminalGet T_KEY,
     TerminalGet T_UNIQUE, ContextGet RuleClustered, TerminalGet T_FOREIGN, EnterRule,
     ExitRule, Accept]\<rparr>"

definition Column_indexContext :: context_class where [context_classes]:
  "Column_indexContext = \<lparr>class_id = RuleContext RuleColumn_index, class_base = ParserRuleContext, members = [
     ContextField ''index_name'' RuleId',
     ContextField ''filestream_filegroup_or_partition_schema_name'' RuleId', Constructor,
     GetRuleIndex, TerminalGet T_INDEX, ContextAll RuleId', ContextNth RuleId',
     ContextGet RuleClustered, ContextGet RuleCreate_table_index_options,
     ContextGet RuleOn_partition_or_filegroup, TerminalGet T_FILESTREAM_ON,
     TerminalGet T_NULL_DOUBLE_QUOTE, EnterRule, ExitRule, Accept]\<rparr>"

definition On_partition_or_filegroupContext :: context_class where [context_classes]:
  "On_partition_or_filegroupContext = \<lparr>class_id = RuleContext RuleOn_partition_or_filegroup, class_base = ParserRuleContext, members = [
     ContextField ''partition_scheme_name'' RuleId',
     ContextField ''partition_column_name'' RuleId', ContextField ''filegroup'' RuleId',
     Constructor, GetRuleIndex, TerminalGet T_ON, TerminalGet T_DEFAULT_DOUBLE_QUOTE,
     ContextAll RuleId', ContextNth RuleId', TerminalGet T_LR_BRACKET,
     TerminalGet T_RR_BRACKET, EnterRule, ExitRule, Accept]\<rparr>"

definition Table_constraintContext :: context_class where [context_classes]:
  "Table_constraintContext = \<lparr>class_id = RuleContext RuleTable_constraint, class_base = ParserRuleContext, members = [
     ContextField ''constraint'' RuleId', ContextField ''fk'' RuleColumn_name_list,
     ContextField ''constant_expr'' RuleExpression, ContextField ''column'' RuleId',
     Constructor, GetRuleIndex, ContextGet RuleCheck_constraint, TerminalGet T_CONSTRAINT,
     ContextAll RuleId', ContextNth RuleId', TerminalGet T_LR_BRACKET,
     ContextGet RuleColumn_name_list_with_order, TerminalGet T_RR_BRACKET,
     ContextGet RulePrimary_key_options, TerminalGet T_FOREIGN, TerminalGet T_KEY,
     ContextGet RuleForeign_key_options, TerminalGet T_CONNECTION,
     ContextAll RuleConnection_node, ContextNth RuleConnection_node, TerminalGet T_DEFAULT,
     TerminalGet T_FOR, ContextGet RuleColumn_name_list, ContextGet RuleExpression,
     TerminalGet T_PRIMARY, TerminalGet T_UNIQUE, ContextGet RuleClustered,
     TerminalAll T_COMMA, TerminalNth T_COMMA, TerminalGet T_WITH, TerminalGet T_VALUES,
     EnterRule, ExitRule, Accept]\<rparr>"

definition Connection_nodeContext :: context_class where [context_classes]:
  "Connection_nodeContext = \<lparr>class_id = RuleContext RuleConnection_node, class_base = ParserRuleContext, members = [
     ContextField ''from_node_table'' RuleId', ContextField ''to_node_table'' RuleId',
     Constructor, GetRuleIndex, TerminalGet T_TO, ContextAll RuleId', ContextNth RuleId',
     EnterRule, ExitRule, Accept]\<rparr>"

definition Primary_key_optionsContext :: context_class where [context_classes]:
  "Primary_key_optionsContext = \<lparr>class_id = RuleContext RulePrimary_key_options, class_base = ParserRuleContext, members = [
     Constructor, GetRuleIndex, TerminalGet T_WITH, TerminalGet T_FILLFACTOR,
     TerminalGet T_EQUAL, TerminalGet T_DECIMAL, ContextGet RuleAlter_table_index_options,
     ContextGet RuleOn_partition_or_filegroup, EnterRule, ExitRule, Accept]\<rparr>"

definition Foreign_key_optionsContext :: context_class where [context_classes]:
  "Foreign_key_optionsContext = \<lparr>class_id = RuleContext RuleForeign_key_options, class_base = ParserRuleContext, members = [
     ContextField ''pk'' RuleColumn_name_list, Constructor, GetRuleIndex,
     TerminalGet T_REFERENCES, ContextGet RuleTable_name, TerminalGet T_LR_BRACKET,
     TerminalGet T_RR_BRACKET, ContextGet RuleColumn_name_list, ContextAll RuleOn_delete,
     ContextNth RuleOn_delete, ContextAll RuleOn_update, ContextNth RuleOn_update,
     TerminalGet T_NOT, TerminalGet T_FOR, TerminalGet T_REPLICATION, EnterRule, ExitRule,
     Accept]\<rparr>"

definition Check_constraintContext :: context_class where [context_classes]:
  "Check_constraintContext = \<lparr>class_id = RuleContext RuleCheck_constraint, class_base = ParserRuleContext, members = [
     Constructor, GetRuleIndex, TerminalGet T_CHECK, TerminalGet T_LR_BRACKET,
     ContextGet RuleSearch_condition, TerminalGet T_RR_BRACKET, TerminalGet T_NOT,
     TerminalGet T_FOR, TerminalGet T_REPLICATION, EnterRule, ExitRule, Accept]\<rparr>"

definition On_deleteContext :: context_class where [context_classes]:
  "On_deleteContext = \<lparr>class_id = RuleContext RuleOn_delete, class_base = ParserRuleContext, members = [
     Constructor, GetRuleIndex, TerminalGet T_ON, TerminalGet T_DELETE, TerminalGet T_NO,
     TerminalGet T_ACTION, TerminalGet T_CASCADE, TerminalGet T_SET, TerminalGet T_NULL',
     TerminalGet T_DEFAULT, EnterRule, ExitRule, Accept]\<rparr>"

definition On_updateContext :: context_class where [context_classes]:
  "On_updateContext = \<lparr>class_id = RuleContext RuleOn_update, class_base = ParserRuleContext, members = [
     Constructor, GetRuleIndex, TerminalGet T_ON, TerminalGet T_UPDATE, TerminalGet T_NO,
     TerminalGet T_ACTION, TerminalGet T_CASCADE, TerminalGet T_SET, TerminalGet T_NULL',
     TerminalGet T_DEFAULT, EnterRule, ExitRule, Accept]\<rparr>"

definition Alter_table_index_optionsContext :: context_class where [context_classes]:
  "Alter_table_index_optionsContext = \<lparr>class_id = RuleContext RuleAlter_table_index_options, class_base = ParserRuleContext, members = [
     Constructor, GetRuleIndex, TerminalGet T_WITH, TerminalGet T_LR_BRACKET,
     ContextAll RuleAlter_table_index_option, ContextNth RuleAlter_table_index_option,
     TerminalGet T_RR_BRACKET, TerminalAll T_COMMA, TerminalNth T_COMMA, EnterRule, ExitRule,
     Accept]\<rparr>"

definition Alter_table_index_optionContext :: context_class where [context_classes]:
  "Alter_table_index_optionContext = \<lparr>class_id = RuleContext RuleAlter_table_index_option, class_base = ParserRuleContext, members = [
     TokenField ''max_degree_of_parallelism'', TokenField ''times'', Constructor, GetRuleIndex,
     TerminalGet T_PAD_INDEX, TerminalGet T_EQUAL, ContextGet RuleOn_off,
     TerminalGet T_FILLFACTOR, TerminalGet T_DECIMAL, TerminalGet T_IGNORE_DUP_KEY,
     TerminalGet T_STATISTICS_NORECOMPUTE, TerminalGet T_ALLOW_ROW_LOCKS,
     TerminalGet T_ALLOW_PAGE_LOCKS, TerminalGet T_OPTIMIZE_FOR_SEQUENTIAL_KEY,
     TerminalGet T_SORT_IN_TEMPDB, TerminalGet T_MAXDOP, TerminalGet T_DATA_COMPRESSION,
     TerminalGet T_NONE, TerminalGet T_ROW, TerminalGet T_PAGE, TerminalGet T_COLUMNSTORE,
     TerminalGet T_COLUMNSTORE_ARCHIVE, ContextGet RuleOn_partitions,
     TerminalGet T_XML_COMPRESSION, TerminalGet T_DISTRIBUTION, TerminalGet T_HASH,
     TerminalGet T_LR_BRACKET, ContextAll RuleId', ContextNth RuleId',
     TerminalGet T_RR_BRACKET, TerminalGet T_CLUSTERED, TerminalGet T_INDEX,
     TerminalAll T_COMMA, TerminalNth T_COMMA, TerminalAll T_ASC, TerminalNth T_ASC,
     TerminalAll T_DESC, TerminalNth T_DESC, TerminalGet T_ONLINE, TerminalGet T_ON,
     TerminalGet T_OFF, ContextGet RuleLow_priority_lock_wait, TerminalGet T_RESUMABLE,
     TerminalGet T_MAX_DURATION, TerminalGet T_MINUTES, EnterRule, ExitRule, Accept]\<rparr>"

definition Declare_cursorContext :: context_class where [context_classes]:
  "Declare_cursorContext = \<lparr>class_id = RuleContext RuleDeclare_cursor, class_base = ParserRuleContext, members = [
     Constructor, GetRuleIndex, TerminalGet T_DECLARE, ContextGet RuleCursor_name,
     TerminalGet T_CURSOR, TerminalAll T_FOR, TerminalNth T_FOR,
     ContextGet RuleSelect_statement_standalone, TerminalGet T_SEMI,
     ContextGet RuleDeclare_set_cursor_common, TerminalGet T_SCROLL,
     TerminalGet T_SEMI_SENSITIVE, TerminalGet T_INSENSITIVE, TerminalGet T_READ,
     TerminalGet T_ONLY, TerminalGet T_UPDATE, TerminalGet T_OF,
     ContextGet RuleColumn_name_list, EnterRule, ExitRule, Accept]\<rparr>"

definition Declare_set_cursor_commonContext :: context_class where [context_classes]:
  "Declare_set_cursor_commonContext = \<lparr>class_id = RuleContext RuleDeclare_set_cursor_common, class_base = ParserRuleContext, members = [
     Constructor, GetRuleIndex, TerminalGet T_FOR, ContextGet RuleSelect_statement_standalone,
     ContextAll RuleDeclare_set_cursor_common_partial,
     ContextNth RuleDeclare_set_cursor_common_partial, EnterRule, ExitRule, Accept]\<rparr>"

definition Declare_set_cursor_common_partialContext :: context_class where [context_classes]:
  "Declare_set_cursor_common_partialContext = \<lparr>class_id = RuleContext RuleDeclare_set_cursor_common_partial, class_base = ParserRuleContext, members = [
     Constructor, GetRuleIndex, TerminalGet T_LOCAL, TerminalGet T_GLOBAL,
     TerminalGet T_FORWARD_ONLY, TerminalGet T_SCROLL, TerminalGet T_STATIC,
     TerminalGet T_KEYSET, TerminalGet T_DYNAMIC, TerminalGet T_FAST_FORWARD,
     TerminalGet T_READ_ONLY, TerminalGet T_SCROLL_LOCKS, TerminalGet T_OPTIMISTIC,
     TerminalGet T_TYPE_WARNING, EnterRule, ExitRule, Accept]\<rparr>"

definition Fetch_cursorContext :: context_class where [context_classes]:
  "Fetch_cursorContext = \<lparr>class_id = RuleContext RuleFetch_cursor, class_base = ParserRuleContext, members = [
     Constructor, GetRuleIndex, TerminalGet T_FETCH, ContextGet RuleCursor_name,
     TerminalGet T_FROM, TerminalGet T_GLOBAL, TerminalGet T_INTO, TerminalAll T_LOCAL_ID,
     TerminalNth T_LOCAL_ID, TerminalGet T_SEMI, TerminalGet T_NEXT, TerminalGet T_PRIOR,
     TerminalGet T_FIRST, TerminalGet T_LAST, ContextGet RuleExpression, TerminalAll T_COMMA,
     TerminalNth T_COMMA, TerminalGet T_ABSOLUTE, TerminalGet T_RELATIVE, EnterRule, ExitRule,
     Accept]\<rparr>"

definition Set_specialContext :: context_class where [context_classes]:
  "Set_specialContext = \<lparr>class_id = RuleContext RuleSet_special, class_base = ParserRuleContext, members = [
     Constructor, GetRuleIndex, TerminalGet T_SET, ContextAll RuleId', ContextNth RuleId',
     ContextGet RuleConstant_LOCAL_ID, ContextGet RuleOn_off, TerminalGet T_SEMI,
     TerminalGet T_STATISTICS, TerminalGet T_IO, TerminalGet T_TIME, TerminalGet T_XML,
     TerminalGet T_PROFILE, TerminalGet T_ROWCOUNT, TerminalGet T_LOCAL_ID,
     TerminalGet T_DECIMAL, TerminalGet T_TEXTSIZE, TerminalGet T_TRANSACTION,
     TerminalGet T_ISOLATION, TerminalGet T_LEVEL, TerminalGet T_READ,
     TerminalGet T_UNCOMMITTED, TerminalGet T_COMMITTED, TerminalGet T_REPEATABLE,
     TerminalGet T_SNAPSHOT, TerminalGet T_SERIALIZABLE, TerminalGet T_IDENTITY_INSERT,
     ContextGet RuleTable_name, ContextAll RuleSpecial_list, ContextNth RuleSpecial_list,
     TerminalAll T_COMMA, TerminalNth T_COMMA, ContextGet RuleModify_method, EnterRule,
     ExitRule, Accept]\<rparr>"

definition Special_listContext :: context_class where [context_classes]:
  "Special_listContext = \<lparr>class_id = RuleContext RuleSpecial_list, class_base = ParserRuleContext, members = [
     Constructor, GetRuleIndex, TerminalGet T_ANSI_NULLS, TerminalGet T_QUOTED_IDENTIFIER,
     TerminalGet T_ANSI_PADDING, TerminalGet T_ANSI_WARNINGS, TerminalGet T_ANSI_DEFAULTS,
     TerminalGet T_ANSI_NULL_DFLT_OFF, TerminalGet T_ANSI_NULL_DFLT_ON,
     TerminalGet T_ARITHABORT, TerminalGet T_ARITHIGNORE,
     TerminalGet T_CONCAT_NULL_YIELDS_NULL, TerminalGet T_CURSOR_CLOSE_ON_COMMIT,
     TerminalGet T_FMTONLY, TerminalGet T_FORCEPLAN, TerminalGet T_IMPLICIT_TRANSACTIONS,
     TerminalGet T_NOCOUNT, TerminalGet T_NOEXEC, TerminalGet T_NUMERIC_ROUNDABORT,
     TerminalGet T_PARSEONLY, TerminalGet T_REMOTE_PROC_TRANSACTIONS,
     TerminalGet T_SHOWPLAN_ALL, TerminalGet T_SHOWPLAN_TEXT, TerminalGet T_SHOWPLAN_XML,
     TerminalGet T_XACT_ABORT, EnterRule, ExitRule, Accept]\<rparr>"

definition Constant_LOCAL_IDContext :: context_class where [context_classes]:
  "Constant_LOCAL_IDContext = \<lparr>class_id = RuleContext RuleConstant_LOCAL_ID, class_base = ParserRuleContext, members = [
     Constructor, GetRuleIndex, ContextGet RuleConstant, TerminalGet T_LOCAL_ID, EnterRule,
     ExitRule, Accept]\<rparr>"

definition ExpressionContext :: context_class where [context_classes]:
  "ExpressionContext = \<lparr>class_id = RuleContext RuleExpression, class_base = ParserRuleContext, members = [
     TokenField ''op'', Constructor, GetRuleIndex, ContextGet RulePrimitive_expression,
     ContextGet RuleFull_column_name, ContextGet RuleFunction_call,
     ContextGet RuleCase_expression, ContextGet RuleBracket_expression,
     ContextGet RuleUnary_operator_expression, ContextGet RuleOver_clause,
     TerminalGet T_DOLLAR_ACTION, ContextAll RuleExpression, ContextNth RuleExpression,
     TerminalGet T_STAR, TerminalGet T_DIVIDE, TerminalGet T_MODULE, TerminalGet T_PLUS,
     TerminalGet T_MINUS, TerminalGet T_BIT_AND, TerminalGet T_BIT_XOR, TerminalGet T_BIT_OR,
     TerminalGet T_DOUBLE_BAR, TerminalGet T_DOT, ContextGet RuleValue_call,
     ContextGet RuleQuery_call, ContextGet RuleExist_call, ContextGet RuleModify_call,
     ContextGet RuleHierarchyid_call, TerminalGet T_COLLATE, ContextGet RuleId',
     ContextGet RuleTime_zone, EnterRule, ExitRule, Accept]\<rparr>"

definition ParameterContext :: context_class where [context_classes]:
  "ParameterContext = \<lparr>class_id = RuleContext RuleParameter, class_base = ParserRuleContext, members = [
     Constructor, GetRuleIndex, TerminalGet T_PLACEHOLDER, EnterRule, ExitRule, Accept]\<rparr>"

definition Time_zoneContext :: context_class where [context_classes]:
  "Time_zoneContext = \<lparr>class_id = RuleContext RuleTime_zone, class_base = ParserRuleContext, members = [
     Constructor, GetRuleIndex, TerminalGet T_AT_KEYWORD, TerminalGet T_TIME,
     TerminalGet T_ZONE, ContextGet RuleExpression, EnterRule, ExitRule, Accept]\<rparr>"

definition Primitive_expressionContext :: context_class where [context_classes]:
  "Primitive_expressionContext = \<lparr>class_id = RuleContext RulePrimitive_expression, class_base = ParserRuleContext, members = [
     Constructor, GetRuleIndex, TerminalGet T_DEFAULT, TerminalGet T_NULL',
     TerminalGet T_LOCAL_ID, ContextGet RulePrimitive_constant, EnterRule, ExitRule, Accept]\<rparr>"

definition Case_expressionContext :: context_class where [context_classes]:
  "Case_expressionContext = \<lparr>class_id = RuleContext RuleCase_expression, class_base = ParserRuleContext, members = [
     ContextField ''caseExpr'' RuleExpression, ContextField ''elseExpr'' RuleExpression,
     Constructor, GetRuleIndex, TerminalGet T_CASE, TerminalGet T_END,
     ContextAll RuleExpression, ContextNth RuleExpression, ContextAll RuleSwitch_section,
     ContextNth RuleSwitch_section, TerminalGet T_ELSE,
     ContextAll RuleSwitch_search_condition_section,
     ContextNth RuleSwitch_search_condition_section, EnterRule, ExitRule, Accept]\<rparr>"

definition Unary_operator_expressionContext :: context_class where [context_classes]:
  "Unary_operator_expressionContext = \<lparr>class_id = RuleContext RuleUnary_operator_expression, class_base = ParserRuleContext, members = [
     TokenField ''op'', Constructor, GetRuleIndex, TerminalGet T_BIT_NOT,
     ContextGet RuleExpression, TerminalGet T_PLUS, TerminalGet T_MINUS, EnterRule, ExitRule,
     Accept]\<rparr>"

definition Bracket_expressionContext :: context_class where [context_classes]:
  "Bracket_expressionContext = \<lparr>class_id = RuleContext RuleBracket_expression, class_base = ParserRuleContext, members = [
     Constructor, GetRuleIndex, TerminalGet T_LR_BRACKET, ContextGet RuleExpression,
     TerminalGet T_RR_BRACKET, ContextGet RuleSubquery, EnterRule, ExitRule, Accept]\<rparr>"

definition SubqueryContext :: context_class where [context_classes]:
  "SubqueryContext = \<lparr>class_id = RuleContext RuleSubquery, class_base = ParserRuleContext, members = [
     Constructor, GetRuleIndex, ContextGet RuleSelect_statement, EnterRule, ExitRule, Accept]\<rparr>"

definition With_expressionContext :: context_class where [context_classes]:
  "With_expressionContext = \<lparr>class_id = RuleContext RuleWith_expression, class_base = ParserRuleContext, members = [
     ContextField ''common_table_expressionContext'' RuleCommon_table_expression,
     ContextListField ''ctes'' RuleCommon_table_expression, Constructor, GetRuleIndex,
     TerminalGet T_WITH, ContextAll RuleCommon_table_expression,
     ContextNth RuleCommon_table_expression, TerminalAll T_COMMA, TerminalNth T_COMMA,
     EnterRule, ExitRule, Accept]\<rparr>"

definition Common_table_expressionContext :: context_class where [context_classes]:
  "Common_table_expressionContext = \<lparr>class_id = RuleContext RuleCommon_table_expression, class_base = ParserRuleContext, members = [
     ContextField ''expression_name'' RuleId', ContextField ''columns'' RuleColumn_name_list,
     ContextField ''cte_query'' RuleSelect_statement, Constructor, GetRuleIndex,
     TerminalGet T_AS, TerminalAll T_LR_BRACKET, TerminalNth T_LR_BRACKET,
     TerminalAll T_RR_BRACKET, TerminalNth T_RR_BRACKET, ContextGet RuleId',
     ContextGet RuleSelect_statement, ContextGet RuleColumn_name_list, EnterRule, ExitRule,
     Accept]\<rparr>"

definition Update_elemContext :: context_class where [context_classes]:
  "Update_elemContext = \<lparr>class_id = RuleContext RuleUpdate_elem, class_base = ParserRuleContext, members = [
     ContextField ''udt_column_name'' RuleId', ContextField ''method_name'' RuleId',
     Constructor, GetRuleIndex, TerminalGet T_LOCAL_ID, TerminalAll T_EQUAL,
     TerminalNth T_EQUAL, ContextGet RuleFull_column_name, ContextGet RuleExpression,
     ContextGet RuleAssignment_operator, TerminalGet T_DOT, TerminalGet T_LR_BRACKET,
     ContextGet RuleExpression_list', TerminalGet T_RR_BRACKET, ContextAll RuleId',
     ContextNth RuleId', EnterRule, ExitRule, Accept]\<rparr>"

definition Update_elem_mergeContext :: context_class where [context_classes]:
  "Update_elem_mergeContext = \<lparr>class_id = RuleContext RuleUpdate_elem_merge, class_base = ParserRuleContext, members = [
     ContextField ''udt_column_name'' RuleId', ContextField ''method_name'' RuleId',
     Constructor, GetRuleIndex, ContextGet RuleExpression, ContextGet RuleFull_column_name,
     TerminalGet T_LOCAL_ID, TerminalGet T_EQUAL, ContextGet RuleAssignment_operator,
     TerminalGet T_DOT, TerminalGet T_LR_BRACKET, ContextGet RuleExpression_list',
     TerminalGet T_RR_BRACKET, ContextAll RuleId', ContextNth RuleId', EnterRule, ExitRule,
     Accept]\<rparr>"

definition Search_conditionContext :: context_class where [context_classes]:
  "Search_conditionContext = \<lparr>class_id = RuleContext RuleSearch_condition, class_base = ParserRuleContext, members = [
     Constructor, GetRuleIndex, ContextGet RulePredicate, TerminalGet T_LR_BRACKET,
     ContextAll RuleSearch_condition, ContextNth RuleSearch_condition,
     TerminalGet T_RR_BRACKET, TerminalAll T_NOT, TerminalNth T_NOT, TerminalGet T_AND,
     TerminalGet T_OR, EnterRule, ExitRule, Accept]\<rparr>"

definition PredicateContext :: context_class where [context_classes]:
  "PredicateContext = \<lparr>class_id = RuleContext RulePredicate, class_base = ParserRuleContext, members = [
     Constructor, GetRuleIndex, TerminalGet T_EXISTS, TerminalGet T_LR_BRACKET,
     ContextGet RuleSubquery, TerminalGet T_RR_BRACKET, ContextGet RuleFreetext_predicate,
     ContextAll RuleExpression, ContextNth RuleExpression, ContextGet RuleComparison_operator,
     TerminalGet T_MULT_ASSIGN, TerminalGet T_ALL, TerminalGet T_SOME, TerminalGet T_ANY,
     TerminalGet T_BETWEEN, TerminalGet T_AND, TerminalAll T_NOT, TerminalNth T_NOT,
     TerminalGet T_IN, ContextGet RuleExpression_list', TerminalGet T_LIKE,
     TerminalGet T_ESCAPE, TerminalGet T_IS, ContextGet RuleNull_notnull, EnterRule, ExitRule,
     Accept]\<rparr>"

definition Query_expressionContext :: context_class where [context_classes]:
  "Query_expressionContext = \<lparr>class_id = RuleContext RuleQuery_expression, class_base = ParserRuleContext, members = [
     ContextField ''sql_unionContext'' RuleSql_union,
     ContextListField ''unions'' RuleSql_union, Constructor, GetRuleIndex,
     ContextGet RuleQuery_specification, ContextGet RuleSelect_order_by_clause,
     ContextAll RuleSql_union, ContextNth RuleSql_union, TerminalGet T_LR_BRACKET,
     ContextAll RuleQuery_expression, ContextNth RuleQuery_expression,
     TerminalGet T_RR_BRACKET, TerminalGet T_UNION, TerminalGet T_ALL, EnterRule, ExitRule,
     Accept]\<rparr>"

definition Sql_unionContext :: context_class where [context_classes]:
  "Sql_unionContext = \<lparr>class_id = RuleContext RuleSql_union, class_base = ParserRuleContext, members = [
     ContextField ''spec'' RuleQuery_specification, ContextField ''op'' RuleQuery_expression,
     Constructor, GetRuleIndex, TerminalGet T_UNION, TerminalGet T_EXCEPT,
     TerminalGet T_INTERSECT, ContextGet RuleQuery_specification, TerminalGet T_LR_BRACKET,
     TerminalGet T_RR_BRACKET, TerminalGet T_ALL, ContextGet RuleQuery_expression, EnterRule,
     ExitRule, Accept]\<rparr>"

definition Query_specificationContext :: context_class where [context_classes]:
  "Query_specificationContext = \<lparr>class_id = RuleContext RuleQuery_specification, class_base = ParserRuleContext, members = [
     TokenField ''allOrDistinct'', ContextField ''top'' RuleTop_clause,
     ContextField ''columns'' RuleSelect_list, ContextField ''into'' RuleTable_name,
     ContextField ''where'' RuleSearch_condition, Constructor, GetRuleIndex,
     TerminalGet T_SELECT, ContextGet RuleSelect_list, TerminalGet T_INTO,
     ContextGet RuleFrom_table_sources, TerminalGet T_WHERE, ContextGet RuleGroup_by_clause,
     ContextGet RuleHaving_clause, ContextGet RuleTop_clause, ContextGet RuleTable_name,
     ContextGet RuleSearch_condition, TerminalGet T_ALL, TerminalGet T_DISTINCT, EnterRule,
     ExitRule, Accept]\<rparr>"

definition Group_by_clauseContext :: context_class where [context_classes]:
  "Group_by_clauseContext = \<lparr>class_id = RuleContext RuleGroup_by_clause, class_base = ParserRuleContext, members = [
     TokenField ''groupByAll'', ContextField ''group_by_itemContext'' RuleGroup_by_item,
     ContextListField ''groupBys'' RuleGroup_by_item,
     ContextField ''grouping_sets_itemContext'' RuleGrouping_sets_item,
     ContextListField ''groupSets'' RuleGrouping_sets_item, Constructor, GetRuleIndex,
     TerminalGet T_GROUP, TerminalGet T_BY, TerminalGet T_GROUPING, TerminalGet T_SETS,
     TerminalGet T_LR_BRACKET, TerminalGet T_RR_BRACKET, ContextAll RuleGrouping_sets_item,
     ContextNth RuleGrouping_sets_item, ContextAll RuleGroup_by_item,
     ContextNth RuleGroup_by_item, TerminalAll T_COMMA, TerminalNth T_COMMA, TerminalGet T_ALL,
     EnterRule, ExitRule, Accept]\<rparr>"

definition Having_clauseContext :: context_class where [context_classes]:
  "Having_clauseContext = \<lparr>class_id = RuleContext RuleHaving_clause, class_base = ParserRuleContext, members = [
     ContextField ''having'' RuleSearch_condition, Constructor, GetRuleIndex,
     TerminalGet T_HAVING, ContextGet RuleSearch_condition, EnterRule, ExitRule, Accept]\<rparr>"

definition From_table_sourcesContext :: context_class where [context_classes]:
  "From_table_sourcesContext = \<lparr>class_id = RuleContext RuleFrom_table_sources, class_base = ParserRuleContext, members = [
     ContextField ''from'' RuleTable_sources, Constructor, GetRuleIndex, TerminalGet T_FROM,
     ContextGet RuleTable_sources, EnterRule, ExitRule, Accept]\<rparr>"

definition Top_clauseContext :: context_class where [context_classes]:
  "Top_clauseContext = \<lparr>class_id = RuleContext RuleTop_clause, class_base = ParserRuleContext, members = [
     Constructor, GetRuleIndex, TerminalGet T_TOP, ContextGet RuleTop_percent,
     ContextGet RuleTop_count, TerminalGet T_WITH, TerminalGet T_TIES, EnterRule, ExitRule,
     Accept]\<rparr>"

definition Top_percentContext :: context_class where [context_classes]:
  "Top_percentContext = \<lparr>class_id = RuleContext RuleTop_percent, class_base = ParserRuleContext, members = [
     TokenField ''percent_constant'', ContextField ''topper_expression'' RuleExpression,
     Constructor, GetRuleIndex, TerminalGet T_PERCENT, TerminalGet T_REAL, TerminalGet T_FLOAT,
     TerminalGet T_DECIMAL, TerminalGet T_LR_BRACKET, TerminalGet T_RR_BRACKET,
     ContextGet RuleExpression, EnterRule, ExitRule, Accept]\<rparr>"

definition Top_countContext :: context_class where [context_classes]:
  "Top_countContext = \<lparr>class_id = RuleContext RuleTop_count, class_base = ParserRuleContext, members = [
     TokenField ''count_constant'', ContextField ''topcount_expression'' RuleExpression,
     Constructor, GetRuleIndex, TerminalGet T_DECIMAL, TerminalGet T_LR_BRACKET,
     TerminalGet T_RR_BRACKET, ContextGet RuleExpression, EnterRule, ExitRule, Accept]\<rparr>"

definition Order_by_clauseContext :: context_class where [context_classes]:
  "Order_by_clauseContext = \<lparr>class_id = RuleContext RuleOrder_by_clause, class_base = ParserRuleContext, members = [
     ContextField ''order_by_expressionContext'' RuleOrder_by_expression,
     ContextListField ''order_bys'' RuleOrder_by_expression, Constructor, GetRuleIndex,
     TerminalGet T_ORDER, TerminalGet T_BY, ContextAll RuleOrder_by_expression,
     ContextNth RuleOrder_by_expression, TerminalAll T_COMMA, TerminalNth T_COMMA, EnterRule,
     ExitRule, Accept]\<rparr>"

definition Select_order_by_clauseContext :: context_class where [context_classes]:
  "Select_order_by_clauseContext = \<lparr>class_id = RuleContext RuleSelect_order_by_clause, class_base = ParserRuleContext, members = [
     ContextField ''offset_exp'' RuleExpression, TokenField ''offset_rows'',
     TokenField ''fetch_offset'', ContextField ''fetch_exp'' RuleExpression,
     TokenField ''fetch_rows'', Constructor, GetRuleIndex, ContextGet RuleOrder_by_clause,
     TerminalGet T_OFFSET, ContextAll RuleExpression, ContextNth RuleExpression,
     TerminalAll T_ROW, TerminalNth T_ROW, TerminalAll T_ROWS, TerminalNth T_ROWS,
     TerminalGet T_FETCH, TerminalGet T_ONLY, TerminalGet T_FIRST, TerminalGet T_NEXT,
     EnterRule, ExitRule, Accept]\<rparr>"

definition For_clauseContext :: context_class where [context_classes]:
  "For_clauseContext = \<lparr>class_id = RuleContext RuleFor_clause, class_base = ParserRuleContext, members = [
     Constructor, GetRuleIndex, TerminalGet T_FOR, TerminalGet T_BROWSE, TerminalGet T_XML,
     TerminalGet T_RAW, TerminalGet T_AUTO, ContextAll RuleXml_common_directives,
     ContextNth RuleXml_common_directives, TerminalAll T_COMMA, TerminalNth T_COMMA,
     TerminalGet T_ELEMENTS, TerminalAll T_LR_BRACKET, TerminalNth T_LR_BRACKET,
     TerminalAll T_STRING, TerminalNth T_STRING, TerminalAll T_RR_BRACKET,
     TerminalNth T_RR_BRACKET, TerminalGet T_XMLDATA, TerminalGet T_XMLSCHEMA,
     TerminalGet T_XSINIL, TerminalGet T_ABSENT, TerminalGet T_EXPLICIT, TerminalGet T_PATH,
     TerminalGet T_JSON, TerminalAll T_ROOT, TerminalNth T_ROOT,
     TerminalAll T_INCLUDE_NULL_VALUES, TerminalNth T_INCLUDE_NULL_VALUES,
     TerminalAll T_WITHOUT_ARRAY_WRAPPER, TerminalNth T_WITHOUT_ARRAY_WRAPPER, EnterRule,
     ExitRule, Accept]\<rparr>"

definition Xml_common_directivesContext :: context_class where [context_classes]:
  "Xml_common_directivesContext = \<lparr>class_id = RuleContext RuleXml_common_directives, class_base = ParserRuleContext, members = [
     Constructor, GetRuleIndex, TerminalGet T_COMMA, TerminalGet T_BINARY_KEYWORD,
     TerminalGet T_BASE64, TerminalGet T_TYPE, TerminalGet T_ROOT, TerminalGet T_LR_BRACKET,
     TerminalGet T_STRING, TerminalGet T_RR_BRACKET, EnterRule, ExitRule, Accept]\<rparr>"

definition Order_by_expressionContext :: context_class where [context_classes]:
  "Order_by_expressionContext = \<lparr>class_id = RuleContext RuleOrder_by_expression, class_base = ParserRuleContext, members = [
     ContextField ''order_by'' RuleExpression, TokenField ''ascending'',
     TokenField ''descending'', Constructor, GetRuleIndex, ContextGet RuleExpression,
     TerminalGet T_ASC, TerminalGet T_DESC, EnterRule, ExitRule, Accept]\<rparr>"

definition Grouping_sets_itemContext :: context_class where [context_classes]:
  "Grouping_sets_itemContext = \<lparr>class_id = RuleContext RuleGrouping_sets_item, class_base = ParserRuleContext, members = [
     ContextField ''group_by_itemContext'' RuleGroup_by_item,
     ContextListField ''groupSetItems'' RuleGroup_by_item, Constructor, GetRuleIndex,
     ContextAll RuleGroup_by_item, ContextNth RuleGroup_by_item, TerminalGet T_LR_BRACKET,
     TerminalAll T_COMMA, TerminalNth T_COMMA, TerminalGet T_RR_BRACKET, EnterRule, ExitRule,
     Accept]\<rparr>"

definition Group_by_itemContext :: context_class where [context_classes]:
  "Group_by_itemContext = \<lparr>class_id = RuleContext RuleGroup_by_item, class_base = ParserRuleContext, members = [
     Constructor, GetRuleIndex, ContextGet RuleExpression, EnterRule, ExitRule, Accept]\<rparr>"

definition Option_clauseContext :: context_class where [context_classes]:
  "Option_clauseContext = \<lparr>class_id = RuleContext RuleOption_clause, class_base = ParserRuleContext, members = [
     ContextField ''optionContext'' RuleOption, ContextListField ''options'' RuleOption,
     Constructor, GetRuleIndex, TerminalGet T_OPTION, TerminalGet T_LR_BRACKET,
     TerminalGet T_RR_BRACKET, ContextAll RuleOption, ContextNth RuleOption,
     TerminalAll T_COMMA, TerminalNth T_COMMA, EnterRule, ExitRule, Accept]\<rparr>"

definition OptionContext :: context_class where [context_classes]:
  "OptionContext = \<lparr>class_id = RuleContext RuleOption, class_base = ParserRuleContext, members = [
     TokenField ''number_rows'', TokenField ''number_of_processors'',
     TokenField ''number_recursion'', Constructor, GetRuleIndex, TerminalGet T_FAST,
     TerminalGet T_DECIMAL, TerminalGet T_GROUP, TerminalGet T_HASH, TerminalGet T_ORDER,
     TerminalGet T_UNION, TerminalGet T_MERGE, TerminalGet T_CONCAT, TerminalGet T_JOIN,
     TerminalGet T_LOOP, TerminalGet T_EXPAND, TerminalGet T_VIEWS, TerminalGet T_FORCE,
     TerminalGet T_IGNORE_NONCLUSTERED_COLUMNSTORE_INDEX, TerminalGet T_KEEP,
     TerminalGet T_PLAN, TerminalGet T_KEEPFIXED, TerminalGet T_MAXDOP,
     TerminalGet T_MAXRECURSION, TerminalGet T_OPTIMIZE, TerminalGet T_FOR,
     TerminalGet T_LR_BRACKET, ContextAll RuleOptimize_for_arg,
     ContextNth RuleOptimize_for_arg, TerminalGet T_RR_BRACKET, TerminalAll T_COMMA,
     TerminalNth T_COMMA, TerminalGet T_UNKNOWN, TerminalGet T_PARAMETERIZATION,
     TerminalGet T_SIMPLE, TerminalGet T_FORCED, TerminalGet T_RECOMPILE, TerminalGet T_ROBUST,
     TerminalGet T_USE, TerminalGet T_STRING, EnterRule, ExitRule, Accept]\<rparr>"

definition classes_4 :: "context_class list" where
  "classes_4 = [
     Backup_certificateContext, Backup_master_keyContext, Backup_service_master_keyContext,
     Kill_statementContext, Kill_processContext, Kill_query_notificationContext,
     Kill_stats_jobContext, Execute_statementContext, Execute_body_batchContext,
     Execute_bodyContext, Execute_statement_argContext, Execute_statement_arg_namedContext,
     Execute_statement_arg_unnamedContext, Execute_parameterContext, Execute_var_stringContext,
     Security_statementContext, Principal_idContext, Create_certificateContext,
     Existing_keysContext, Private_key_optionsContext, Generate_new_keysContext,
     Date_optionsContext, Open_keyContext, Close_keyContext, Create_keyContext,
     Key_optionsContext, AlgorithmContext, Encryption_mechanismContext,
     Decryption_mechanismContext, Grant_permissionContext, Set_statementContext,
     Transaction_statementContext, Go_statementContext, Use_statementContext,
     Setuser_statementContext, Reconfigure_statementContext, Shutdown_statementContext,
     Checkpoint_statementContext, Dbcc_checkalloc_optionContext, Dbcc_checkallocContext,
     Dbcc_checkcatalogContext, Dbcc_checkconstraints_optionContext,
     Dbcc_checkconstraintsContext, Dbcc_checkdb_table_optionContext, Dbcc_checkdbContext,
     Dbcc_checkfilegroup_optionContext, Dbcc_checkfilegroupContext, Dbcc_checktableContext,
     Dbcc_cleantableContext, Dbcc_clonedatabase_optionContext, Dbcc_clonedatabaseContext,
     Dbcc_pdw_showspaceusedContext, Dbcc_proccacheContext, Dbcc_showcontig_optionContext,
     Dbcc_showcontigContext, Dbcc_shrinklogContext, Dbcc_dbreindexContext,
     Dbcc_dll_freeContext, Dbcc_dropcleanbuffersContext, Dbcc_clauseContext,
     Execute_clauseContext, Declare_localContext, Table_type_definitionContext,
     Table_type_indicesContext, Xml_type_definitionContext, Xml_schema_collectionContext,
     Column_def_table_constraintsContext, Column_def_table_constraintContext,
     Column_definitionContext, Column_definition_elementContext, Column_modifierContext,
     Materialized_column_definitionContext, Column_constraintContext, Column_indexContext,
     On_partition_or_filegroupContext, Table_constraintContext, Connection_nodeContext,
     Primary_key_optionsContext, Foreign_key_optionsContext, Check_constraintContext,
     On_deleteContext, On_updateContext, Alter_table_index_optionsContext,
     Alter_table_index_optionContext, Declare_cursorContext, Declare_set_cursor_commonContext,
     Declare_set_cursor_common_partialContext, Fetch_cursorContext, Set_specialContext,
     Special_listContext, Constant_LOCAL_IDContext, ExpressionContext, ParameterContext,
     Time_zoneContext, Primitive_expressionContext, Case_expressionContext,
     Unary_operator_expressionContext, Bracket_expressionContext, SubqueryContext,
     With_expressionContext, Common_table_expressionContext, Update_elemContext,
     Update_elem_mergeContext, Search_conditionContext, PredicateContext,
     Query_expressionContext, Sql_unionContext, Query_specificationContext,
     Group_by_clauseContext, Having_clauseContext, From_table_sourcesContext,
     Top_clauseContext, Top_percentContext, Top_countContext, Order_by_clauseContext,
     Select_order_by_clauseContext, For_clauseContext, Xml_common_directivesContext,
     Order_by_expressionContext, Grouping_sets_itemContext, Group_by_itemContext,
     Option_clauseContext, OptionContext]"

end
