(* ===== verification/Conformance_4.thy ===== *)
theory Conformance_4
  imports Conforming Rules_4 Contexts_4
begin

text \<open>
  Part 4 of the comparison of \<open>TSqlParser.g4\<close> with the classes of \<open>TSqlParser.h\<close>: each rule
  with the classes the header declares for it, and the evaluation of the check.
\<close>

definition pairs_4 :: "(rule option \<times> context_class list) list" where
  "pairs_4 = [
     (Some g_backup_certificate, [Backup_certificateContext]),
     (Some g_backup_master_key, [Backup_master_keyContext]),
     (Some g_backup_service_master_key, [Backup_service_master_keyContext]),
     (Some g_kill_statement, [Kill_statementContext]),
     (Some g_kill_process, [Kill_processContext]),
     (Some g_kill_query_notification, [Kill_query_notificationContext]),
     (Some g_kill_stats_job, [Kill_stats_jobContext]),
     (Some g_execute_statement, [Execute_statementContext]),
     (Some g_execute_body_batch, [Execute_body_batchContext]),
     (Some g_execute_body, [Execute_bodyContext]),
     (Some g_execute_statement_arg, [Execute_statement_argContext]),
     (Some g_execute_statement_arg_named, [Execute_statement_arg_namedContext]),
     (Some g_execute_statement_arg_unnamed, [Execute_statement_arg_unnamedContext]),
     (Some g_execute_parameter, [Execute_parameterContext]),
     (Some g_execute_var_string, [Execute_var_stringContext]),
     (Some g_security_statement, [Security_statementContext]),
     (Some g_principal_id, [Principal_idContext]),
     (Some g_create_certificate, [Create_certificateContext]),
     (Some g_existing_keys, [Existing_keysContext]),
     (Some g_private_key_options, [Private_key_optionsContext]),
     (Some g_generate_new_keys, [Generate_new_keysContext]),
     (Some g_date_options, [Date_optionsContext]),
     (Some g_open_key, [Open_keyContext]),
     (Some g_close_key, [Close_keyContext]),
     (Some g_create_key, [Create_keyContext]),
     (Some g_key_options, [Key_optionsContext]),
     (Some g_algorithm, [AlgorithmContext]),
     (Some g_encryption_mechanism, [Encryption_mechanismContext]),
     (Some g_decryption_mechanism, [Decryption_mechanismContext]),
     (Some g_grant_permission, [Grant_permissionContext]),
     (Some g_set_statement, [Set_statementContext]),
     (Some g_transaction_statement, [Transaction_statementContext]),
     (Some g_go_statement, [Go_statementContext]),
     (Some g_use_statement, [Use_statementContext]),
     (Some g_setuser_statement, [Setuser_statementContext]),
     (Some g_reconfigure_statement, [Reconfigure_statementContext]),
     (Some g_shutdown_statement, [Shutdown_statementContext]),
     (Some g_checkpoint_statement, [Checkpoint_statementContext]),
     (Some g_dbcc_checkalloc_option, [Dbcc_checkalloc_optionContext]),
     (Some g_dbcc_checkalloc, [Dbcc_checkallocContext]),
     (Some g_dbcc_checkcatalog, [Dbcc_checkcatalogContext]),
     (Some g_dbcc_checkconstraints_option, [Dbcc_checkconstraints_optionContext]),
     (Some g_dbcc_checkconstraints, [Dbcc_checkconstraintsContext]),
     (Some g_dbcc_checkdb_table_option, [Dbcc_checkdb_table_optionContext]),
     (Some g_dbcc_checkdb, [Dbcc_checkdbContext]),
     (Some g_dbcc_checkfilegroup_option, [Dbcc_checkfilegroup_optionContext]),
     (Some g_dbcc_checkfilegroup, [Dbcc_checkfilegroupContext]),
     (Some g_dbcc_checktable, [Dbcc_checktableContext]),
     (Some g_dbcc_cleantable, [Dbcc_cleantableContext]),
     (Some g_dbcc_clonedatabase_option, [Dbcc_clonedatabase_optionContext]),
     (Some g_dbcc_clonedatabase, [Dbcc_clonedatabaseContext]),
     (Some g_dbcc_pdw_showspaceused, [Dbcc_pdw_showspaceusedContext]),
     (Some g_dbcc_proccache, [Dbcc_proccacheContext]),
     (Some g_dbcc_showcontig_option, [Dbcc_showcontig_optionContext]),
     (Some g_dbcc_showcontig, [Dbcc_showcontigContext]),
     (Some g_dbcc_shrinklog, [Dbcc_shrinklogContext]),
     (Some g_dbcc_dbreindex, [Dbcc_dbreindexContext]),
     (Some g_dbcc_dll_free, [Dbcc_dll_freeContext]),
     (Some g_dbcc_dropcleanbuffers, [Dbcc_dropcleanbuffersContext]),
     (Some g_dbcc_clause, [Dbcc_clauseContext]),
     (Some g_execute_clause, [Execute_clauseContext]),
     (Some g_declare_local, [Declare_localContext]),
     (Some g_table_type_definition, [Table_type_definitionContext]),
     (Some g_table_type_indices, [Table_type_indicesContext]),
     (Some g_xml_type_definition, [Xml_type_definitionContext]),
     (Some g_xml_schema_collection, [Xml_schema_collectionContext]),
     (Some g_column_def_table_constraints, [Column_def_table_constraintsContext]),
     (Some g_column_def_table_constraint, [Column_def_table_constraintContext]),
     (Some g_column_definition, [Column_definitionContext]),
     (Some g_column_definition_element, [Column_definition_elementContext]),
     (Some g_column_modifier, [Column_modifierContext]),
     (Some g_materialized_column_definition, [Materialized_column_definitionContext]),
     (Some g_column_constraint, [Column_constraintContext]),
     (Some g_column_index, [Column_indexContext]),
     (Some g_on_partition_or_filegroup, [On_partition_or_filegroupContext]),
     (Some g_table_constraint, [Table_constraintContext]),
     (Some g_connection_node, [Connection_nodeContext]),
     (Some g_primary_key_options, [Primary_key_optionsContext]),
     (Some g_foreign_key_options, [Foreign_key_optionsContext]),
     (Some g_check_constraint, [Check_constraintContext]),
     (Some g_on_delete, [On_deleteContext]),
     (Some g_on_update, [On_updateContext]),
     (Some g_alter_table_index_options, [Alter_table_index_optionsContext]),
     (Some g_alter_table_index_option, [Alter_table_index_optionContext]),
     (Some g_declare_cursor, [Declare_cursorContext]),
     (Some g_declare_set_cursor_common, [Declare_set_cursor_commonContext]),
     (Some g_declare_set_cursor_common_partial, [Declare_set_cursor_common_partialContext]),
     (Some g_fetch_cursor, [Fetch_cursorContext]),
     (Some g_set_special, [Set_specialContext]),
     (Some g_special_list, [Special_listContext]),
     (Some g_constant_LOCAL_ID, [Constant_LOCAL_IDContext]),
     (Some g_expression, [ExpressionContext]),
     (Some g_parameter, [ParameterContext]),
     (Some g_time_zone, [Time_zoneContext]),
     (Some g_primitive_expression, [Primitive_expressionContext]),
     (Some g_case_expression, [Case_expressionContext]),
     (Some g_unary_operator_expression, [Unary_operator_expressionContext]),
     (Some g_bracket_expression, [Bracket_expressionContext]),
     (Some g_subquery, [SubqueryContext]),
     (Some g_with_expression, [With_expressionContext]),
     (Some g_common_table_expression, [Common_table_expressionContext]),
     (Some g_update_elem, [Update_elemContext]),
     (Some g_update_elem_merge, [Update_elem_mergeContext]),
     (Some g_search_condition, [Search_conditionContext]),
     (Some g_predicate, [PredicateContext]),
     (Some g_query_expression, [Query_expressionContext]),
     (Some g_sql_union, [Sql_unionContext]),
     (Some g_query_specification, [Query_specificationContext]),
     (Some g_group_by_clause, [Group_by_clauseContext]),
     (Some g_having_clause, [Having_clauseContext]),
     (Some g_from_table_sources, [From_table_sourcesContext]),
     (Some g_top_clause, [Top_clauseContext]),
     (Some g_top_percent, [Top_percentContext]),
     (Some g_top_count, [Top_countContext]),
     (Some g_order_by_clause, [Order_by_clauseContext]),
     (Some g_select_order_by_clause, [Select_order_by_clauseContext]),
     (Some g_for_clause, [For_clauseContext]),
     (Some g_xml_common_directives, [Xml_common_directivesContext]),
     (Some g_order_by_expression, [Order_by_expressionContext]),
     (Some g_grouping_sets_item, [Grouping_sets_itemContext]),
     (Some g_group_by_item, [Group_by_itemContext]),
     (Some g_option_clause, [Option_clauseContext]),
     (Some g_option, [OptionContext])]"

lemma pairs_4_ok: "list_all pair_ok pairs_4"
  by (simp only: conformance_eval pairs_4_def grammar_rules context_classes cong: opaque case_opaque)

end
