(* ===== verification/Rules_5.thy ===== *)
theory Rules_5
  imports Grammar Tokens Rule_Ids Label_Ids
begin

text \<open>
  Rules of \<open>src/TSqlParser.g4\<close>, from \<open>optimize_for_arg\<close> to \<open>built_in_functions\<close>: one definition per
  rule, its alternatives in the order of the file.  A quoted literal of the grammar is the
  token whose lexer rule is that literal.
\<close>

definition g_optimize_for_arg :: rule where [grammar_rules]:
  "g_optimize_for_arg = \<lparr>rule_index = RuleOptimize_for_arg, rule_alts = [
       (None, Seq [Tok T_LOCAL_ID, Alt [Tok T_UNKNOWN, Seq [Tok T_EQUAL, Alt [Ref RuleConstant,
         Tok T_NULL']]]])]\<rparr>"

definition g_select_list :: rule where [grammar_rules]:
  "g_select_list = \<lparr>rule_index = RuleSelect_list, rule_alts = [
       (None, Seq [Lab (Append ''selectElement'') (Ref RuleSelect_list_elem),
         Star (Seq [Tok T_COMMA, Lab (Append ''selectElement'') (Ref RuleSelect_list_elem)])])]\<rparr>"

definition g_udt_method_arguments :: rule where [grammar_rules]:
  "g_udt_method_arguments = \<lparr>rule_index = RuleUdt_method_arguments, rule_alts = [
       (None, Seq [Tok T_LR_BRACKET, Lab (Append ''argument'') (Ref RuleExecute_var_string),
         Star (Seq [Tok T_COMMA, Lab (Append ''argument'') (Ref RuleExecute_var_string)]),
         Tok T_RR_BRACKET])]\<rparr>"

definition g_asterisk :: rule where [grammar_rules]:
  "g_asterisk = \<lparr>rule_index = RuleAsterisk, rule_alts = [
       (None, Seq [Opt (Seq [Ref RuleTable_name, Tok T_DOT]), Tok T_STAR]),
       (None, Seq [Alt [Tok T_INSERTED, Tok T_DELETED], Tok T_DOT, Tok T_STAR])]\<rparr>"

definition g_udt_elem :: rule where [grammar_rules]:
  "g_udt_elem = \<lparr>rule_index = RuleUdt_elem, rule_alts = [
       (None, Seq [Lab (Assign ''udt_column_name'') (Ref RuleId'), Tok T_DOT,
         Lab (Assign ''non_static_attr'') (Ref RuleId'), Ref RuleUdt_method_arguments,
         Opt (Ref RuleAs_column_alias)]),
       (None, Seq [Lab (Assign ''udt_column_name'') (Ref RuleId'), Tok T_DOUBLE_COLON,
         Lab (Assign ''static_attr'') (Ref RuleId'), Opt (Ref RuleUdt_method_arguments),
         Opt (Ref RuleAs_column_alias)])]\<rparr>"

definition g_expression_elem :: rule where [grammar_rules]:
  "g_expression_elem = \<lparr>rule_index = RuleExpression_elem, rule_alts = [
       (None, Seq [Lab (Assign ''leftAlias'') (Ref RuleColumn_alias),
         Lab (Assign ''eq'') (Tok T_EQUAL),
         Lab (Assign ''leftAssignment'') (Ref RuleExpression)]),
       (None, Seq [Lab (Assign ''expressionAs'') (Ref RuleExpression),
         Opt (Ref RuleAs_column_alias)])]\<rparr>"

definition g_select_list_elem :: rule where [grammar_rules]:
  "g_select_list_elem = \<lparr>rule_index = RuleSelect_list_elem, rule_alts = [
       (None, Ref RuleAsterisk),
       (None, Ref RuleUdt_elem),
       (None, Seq [Tok T_LOCAL_ID, Alt [Ref RuleAssignment_operator, Tok T_EQUAL],
         Ref RuleExpression]),
       (None, Ref RuleExpression_elem)]\<rparr>"

definition g_table_sources :: rule where [grammar_rules]:
  "g_table_sources = \<lparr>rule_index = RuleTable_sources, rule_alts = [
       (None, Seq [Lab (Append ''source'') (Ref RuleTable_source), Star (Seq [Tok T_COMMA,
         Lab (Append ''source'') (Ref RuleTable_source)])])]\<rparr>"

definition g_table_source :: rule where [grammar_rules]:
  "g_table_source = \<lparr>rule_index = RuleTable_source, rule_alts = [
       (None, Seq [Ref RuleTable_source_item,
         Star (Lab (Append ''joins'') (Ref RuleJoin_part))])]\<rparr>"

definition g_table_source_item :: rule where [grammar_rules]:
  "g_table_source_item = \<lparr>rule_index = RuleTable_source_item, rule_alts = [
       (None, Seq [Ref RuleFull_table_name, Ref RuleDeprecated_table_hint,
         Ref RuleAs_table_alias]),
       (None, Seq [Ref RuleFull_table_name, Opt (Ref RuleAs_table_alias),
         Opt (Alt [Ref RuleWith_table_hints, Ref RuleDeprecated_table_hint,
         Ref RuleSybase_legacy_hints])]),
       (None, Seq [Ref RuleRowset_function, Opt (Ref RuleAs_table_alias)]),
       (None, Seq [Tok T_LR_BRACKET, Ref RuleDerived_table, Tok T_RR_BRACKET,
         Opt (Seq [Ref RuleAs_table_alias, Opt (Ref RuleColumn_alias_list)])]),
       (None, Seq [Ref RuleChange_table, Opt (Ref RuleAs_table_alias)]),
       (None, Seq [Ref RuleNodes_method, Opt (Seq [Ref RuleAs_table_alias,
         Opt (Ref RuleColumn_alias_list)])]),
       (None, Seq [Ref RuleFunction_call, Opt (Seq [Ref RuleAs_table_alias,
         Opt (Ref RuleColumn_alias_list)])]),
       (None, Seq [Lab (Assign ''loc_id'') (Tok T_LOCAL_ID), Opt (Ref RuleAs_table_alias)]),
       (None, Seq [Lab (Assign ''loc_id_call'') (Tok T_LOCAL_ID), Tok T_DOT,
         Lab (Assign ''loc_fcall'') (Ref RuleFunction_call), Opt (Seq [Ref RuleAs_table_alias,
         Opt (Ref RuleColumn_alias_list)])]),
       (None, Ref RuleOpen_xml),
       (None, Ref RuleOpen_json),
       (None, Seq [Tok T_DOUBLE_COLON, Lab (Assign ''oldstyle_fcall'') (Ref RuleFunction_call),
         Opt (Ref RuleAs_table_alias)]),
       (None, Seq [Tok T_LR_BRACKET, Ref RuleTable_source, Tok T_RR_BRACKET])]\<rparr>"

definition g_open_xml :: rule where [grammar_rules]:
  "g_open_xml = \<lparr>rule_index = RuleOpen_xml, rule_alts = [
       (None, Seq [Tok T_OPENXML, Tok T_LR_BRACKET, Ref RuleExpression, Tok T_COMMA,
         Ref RuleExpression, Opt (Seq [Tok T_COMMA, Ref RuleExpression]), Tok T_RR_BRACKET,
         Opt (Seq [Tok T_WITH, Tok T_LR_BRACKET, Ref RuleSchema_declaration,
         Tok T_RR_BRACKET]), Opt (Ref RuleAs_table_alias)])]\<rparr>"

definition g_open_json :: rule where [grammar_rules]:
  "g_open_json = \<lparr>rule_index = RuleOpen_json, rule_alts = [
       (None, Seq [Tok T_OPENJSON, Tok T_LR_BRACKET, Ref RuleExpression, Opt (Seq [Tok T_COMMA,
         Ref RuleExpression]), Tok T_RR_BRACKET, Opt (Seq [Tok T_WITH, Tok T_LR_BRACKET,
         Ref RuleJson_declaration, Tok T_RR_BRACKET]), Opt (Ref RuleAs_table_alias)])]\<rparr>"

definition g_json_declaration :: rule where [grammar_rules]:
  "g_json_declaration = \<lparr>rule_index = RuleJson_declaration, rule_alts = [
       (None, Seq [Lab (Append ''json_col'') (Ref RuleJson_column_declaration),
         Star (Seq [Tok T_COMMA,
         Lab (Append ''json_col'') (Ref RuleJson_column_declaration)])])]\<rparr>"

definition g_json_column_declaration :: rule where [grammar_rules]:
  "g_json_column_declaration = \<lparr>rule_index = RuleJson_column_declaration, rule_alts = [
       (None, Seq [Ref RuleColumn_declaration, Opt (Seq [Tok T_AS, Tok T_JSON])])]\<rparr>"

definition g_schema_declaration :: rule where [grammar_rules]:
  "g_schema_declaration = \<lparr>rule_index = RuleSchema_declaration, rule_alts = [
       (None, Seq [Lab (Append ''xml_col'') (Ref RuleColumn_declaration),
         Star (Seq [Tok T_COMMA, Lab (Append ''xml_col'') (Ref RuleColumn_declaration)])])]\<rparr>"

definition g_column_declaration :: rule where [grammar_rules]:
  "g_column_declaration = \<lparr>rule_index = RuleColumn_declaration, rule_alts = [
       (None, Seq [Ref RuleId', Ref RuleData_type, Opt (Tok T_STRING)])]\<rparr>"

definition g_change_table :: rule where [grammar_rules]:
  "g_change_table = \<lparr>rule_index = RuleChange_table, rule_alts = [
       (None, Ref RuleChange_table_changes),
       (None, Ref RuleChange_table_version)]\<rparr>"

definition g_change_table_changes :: rule where [grammar_rules]:
  "g_change_table_changes = \<lparr>rule_index = RuleChange_table_changes, rule_alts = [
       (None, Seq [Tok T_CHANGETABLE, Tok T_LR_BRACKET, Tok T_CHANGES,
         Lab (Assign ''changetable'') (Ref RuleTable_name), Tok T_COMMA,
         Lab (Assign ''changesid'') (Alt [Tok T_NULL', Tok T_DECIMAL, Tok T_LOCAL_ID]),
         Tok T_RR_BRACKET])]\<rparr>"

definition g_change_table_version :: rule where [grammar_rules]:
  "g_change_table_version = \<lparr>rule_index = RuleChange_table_version, rule_alts = [
       (None, Seq [Tok T_CHANGETABLE, Tok T_LR_BRACKET, Tok T_VERSION,
         Lab (Assign ''versiontable'') (Ref RuleTable_name), Tok T_COMMA,
         Lab (Assign ''pk_columns'') (Ref RuleFull_column_name_list), Tok T_COMMA,
         Lab (Assign ''pk_values'') (Ref RuleSelect_list), Tok T_RR_BRACKET])]\<rparr>"

definition g_join_part :: rule where [grammar_rules]:
  "g_join_part = \<lparr>rule_index = RuleJoin_part, rule_alts = [
       (None, Ref RuleJoin_on),
       (None, Ref RuleCross_join),
       (None, Ref RuleApply'),
       (None, Ref RulePivot),
       (None, Ref RuleUnpivot)]\<rparr>"

definition g_join_on :: rule where [grammar_rules]:
  "g_join_on = \<lparr>rule_index = RuleJoin_on, rule_alts = [
       (None, Seq [Alt [Opt (Lab (Assign ''inner'') (Tok T_INNER)),
         Seq [Lab (Assign ''join_type'') (Alt [Tok T_LEFT, Tok T_RIGHT, Tok T_FULL]),
         Opt (Lab (Assign ''outer'') (Tok T_OUTER))]],
         Opt (Lab (Assign ''join_hint'') (Alt [Tok T_LOOP, Tok T_HASH, Tok T_MERGE,
         Tok T_REMOTE])), Tok T_JOIN, Lab (Assign ''source'') (Ref RuleTable_source), Tok T_ON,
         Lab (Assign ''cond'') (Ref RuleSearch_condition)])]\<rparr>"

definition g_cross_join :: rule where [grammar_rules]:
  "g_cross_join = \<lparr>rule_index = RuleCross_join, rule_alts = [
       (None, Seq [Tok T_CROSS, Tok T_JOIN, Ref RuleTable_source_item])]\<rparr>"

definition g_apply' :: rule where [grammar_rules]:
  "g_apply' = \<lparr>rule_index = RuleApply', rule_alts = [
       (None, Seq [Lab (Assign ''apply_style'') (Alt [Tok T_CROSS, Tok T_OUTER]), Tok T_APPLY,
         Lab (Assign ''source'') (Ref RuleTable_source_item)])]\<rparr>"

definition g_pivot :: rule where [grammar_rules]:
  "g_pivot = \<lparr>rule_index = RulePivot, rule_alts = [
       (None, Seq [Tok T_PIVOT, Ref RulePivot_clause, Ref RuleAs_table_alias])]\<rparr>"

definition g_unpivot :: rule where [grammar_rules]:
  "g_unpivot = \<lparr>rule_index = RuleUnpivot, rule_alts = [
       (None, Seq [Tok T_UNPIVOT, Ref RuleUnpivot_clause, Ref RuleAs_table_alias])]\<rparr>"

definition g_pivot_clause :: rule where [grammar_rules]:
  "g_pivot_clause = \<lparr>rule_index = RulePivot_clause, rule_alts = [
       (None, Seq [Tok T_LR_BRACKET, Ref RuleAggregate_windowed_function, Tok T_FOR,
         Ref RuleFull_column_name, Tok T_IN, Ref RuleColumn_alias_list, Tok T_RR_BRACKET])]\<rparr>"

definition g_unpivot_clause :: rule where [grammar_rules]:
  "g_unpivot_clause = \<lparr>rule_index = RuleUnpivot_clause, rule_alts = [
       (None, Seq [Tok T_LR_BRACKET, Lab (Assign ''unpivot_exp'') (Ref RuleExpression),
         Tok T_FOR, Ref RuleFull_column_name, Tok T_IN, Tok T_LR_BRACKET,
         Ref RuleFull_column_name_list, Tok T_RR_BRACKET, Tok T_RR_BRACKET])]\<rparr>"

definition g_full_column_name_list :: rule where [grammar_rules]:
  "g_full_column_name_list = \<lparr>rule_index = RuleFull_column_name_list, rule_alts = [
       (None, Seq [Lab (Append ''column'') (Ref RuleFull_column_name), Star (Seq [Tok T_COMMA,
         Lab (Append ''column'') (Ref RuleFull_column_name)])])]\<rparr>"

definition g_rowset_function :: rule where [grammar_rules]:
  "g_rowset_function = \<lparr>rule_index = RuleRowset_function, rule_alts = [
       (None, Seq [Tok T_OPENROWSET, Tok T_LR_BRACKET,
         Lab (Assign ''provider_name'') (Tok T_STRING), Tok T_COMMA,
         Lab (Assign ''connectionString'') (Tok T_STRING), Tok T_COMMA,
         Lab (Assign ''sql'') (Tok T_STRING), Tok T_RR_BRACKET]),
       (None, Seq [Tok T_OPENROWSET, Tok T_LR_BRACKET, Tok T_BULK,
         Lab (Assign ''data_file'') (Tok T_STRING), Tok T_COMMA, Alt [Seq [Ref RuleBulk_option,
         Star (Seq [Tok T_COMMA, Ref RuleBulk_option])], Ref RuleId'], Tok T_RR_BRACKET])]\<rparr>"

definition g_bulk_option :: rule where [grammar_rules]:
  "g_bulk_option = \<lparr>rule_index = RuleBulk_option, rule_alts = [
       (None, Seq [Ref RuleId', Tok T_EQUAL,
         Lab (Assign ''bulk_option_value'') (Alt [Tok T_DECIMAL, Tok T_STRING])])]\<rparr>"

definition g_derived_table :: rule where [grammar_rules]:
  "g_derived_table = \<lparr>rule_index = RuleDerived_table, rule_alts = [
       (None, Ref RuleSubquery),
       (None, Seq [Tok T_LR_BRACKET, Ref RuleSubquery, Star (Seq [Tok T_UNION, Tok T_ALL,
         Ref RuleSubquery]), Tok T_RR_BRACKET]),
       (None, Ref RuleTable_value_constructor),
       (None, Seq [Tok T_LR_BRACKET, Ref RuleTable_value_constructor, Tok T_RR_BRACKET])]\<rparr>"

definition alt_RANKING_WINDOWED_FUNC :: ebnf where [grammar_rules]:
  "alt_RANKING_WINDOWED_FUNC = Ref RuleRanking_windowed_function"

definition alt_AGGREGATE_WINDOWED_FUNC :: ebnf where [grammar_rules]:
  "alt_AGGREGATE_WINDOWED_FUNC = Ref RuleAggregate_windowed_function"

definition alt_ANALYTIC_WINDOWED_FUNC :: ebnf where [grammar_rules]:
  "alt_ANALYTIC_WINDOWED_FUNC = Ref RuleAnalytic_windowed_function"

definition alt_BUILT_IN_FUNC :: ebnf where [grammar_rules]:
  "alt_BUILT_IN_FUNC = Ref RuleBuilt_in_functions"

definition alt_SCALAR_FUNCTION :: ebnf where [grammar_rules]:
  "alt_SCALAR_FUNCTION = Seq [Ref RuleScalar_function_name, Tok T_LR_BRACKET, Opt (Ref RuleExpression_list'),
       Tok T_RR_BRACKET]"

definition alt_FREE_TEXT :: ebnf where [grammar_rules]:
  "alt_FREE_TEXT = Ref RuleFreetext_function"

definition alt_PARTITION_FUNC :: ebnf where [grammar_rules]:
  "alt_PARTITION_FUNC = Ref RulePartition_function"

definition alt_HIERARCHYID_METHOD :: ebnf where [grammar_rules]:
  "alt_HIERARCHYID_METHOD = Ref RuleHierarchyid_static_method"

definition g_function_call :: rule where [grammar_rules]:
  "g_function_call = \<lparr>rule_index = RuleFunction_call, rule_alts = [
       (Some L_RANKING_WINDOWED_FUNC, alt_RANKING_WINDOWED_FUNC),
       (Some L_AGGREGATE_WINDOWED_FUNC, alt_AGGREGATE_WINDOWED_FUNC),
       (Some L_ANALYTIC_WINDOWED_FUNC, alt_ANALYTIC_WINDOWED_FUNC),
       (Some L_BUILT_IN_FUNC, alt_BUILT_IN_FUNC),
       (Some L_SCALAR_FUNCTION, alt_SCALAR_FUNCTION),
       (Some L_FREE_TEXT, alt_FREE_TEXT),
       (Some L_PARTITION_FUNC, alt_PARTITION_FUNC),
       (Some L_HIERARCHYID_METHOD, alt_HIERARCHYID_METHOD)]\<rparr>"

definition g_partition_function :: rule where [grammar_rules]:
  "g_partition_function = \<lparr>rule_index = RulePartition_function, rule_alts = [
       (None, Seq [Opt (Seq [Lab (Assign ''database'') (Ref RuleId'), Tok T_DOT]),
         Tok T_DOLLAR_PARTITION, Tok T_DOT, Lab (Assign ''func_name'') (Ref RuleId'),
         Tok T_LR_BRACKET, Ref RuleExpression, Tok T_RR_BRACKET])]\<rparr>"

definition g_freetext_function :: rule where [grammar_rules]:
  "g_freetext_function = \<lparr>rule_index = RuleFreetext_function, rule_alts = [
       (None, Seq [Alt [Tok T_CONTAINSTABLE, Tok T_FREETEXTTABLE], Tok T_LR_BRACKET,
         Ref RuleTable_name, Tok T_COMMA, Alt [Ref RuleFull_column_name, Seq [Tok T_LR_BRACKET,
         Ref RuleFull_column_name, Star (Seq [Tok T_COMMA, Ref RuleFull_column_name]),
         Tok T_RR_BRACKET], Tok T_STAR], Tok T_COMMA, Ref RuleExpression,
         Opt (Seq [Tok T_COMMA, Tok T_LANGUAGE, Ref RuleExpression]), Opt (Seq [Tok T_COMMA,
         Ref RuleExpression]), Tok T_RR_BRACKET]),
       (None, Seq [Alt [Tok T_SEMANTICSIMILARITYTABLE, Tok T_SEMANTICKEYPHRASETABLE],
         Tok T_LR_BRACKET, Ref RuleTable_name, Tok T_COMMA, Alt [Ref RuleFull_column_name,
         Seq [Tok T_LR_BRACKET, Ref RuleFull_column_name, Star (Seq [Tok T_COMMA,
         Ref RuleFull_column_name]), Tok T_RR_BRACKET], Tok T_STAR], Tok T_COMMA,
         Ref RuleExpression, Tok T_RR_BRACKET]),
       (None, Seq [Tok T_SEMANTICSIMILARITYDETAILSTABLE, Tok T_LR_BRACKET, Ref RuleTable_name,
         Tok T_COMMA, Ref RuleFull_column_name, Tok T_COMMA, Ref RuleExpression, Tok T_COMMA,
         Ref RuleFull_column_name, Tok T_COMMA, Ref RuleExpression, Tok T_RR_BRACKET])]\<rparr>"

definition g_freetext_predicate :: rule where [grammar_rules]:
  "g_freetext_predicate = \<lparr>rule_index = RuleFreetext_predicate, rule_alts = [
       (None, Seq [Tok T_CONTAINS, Tok T_LR_BRACKET, Alt [Ref RuleFull_column_name,
         Seq [Tok T_LR_BRACKET, Ref RuleFull_column_name, Star (Seq [Tok T_COMMA,
         Ref RuleFull_column_name]), Tok T_RR_BRACKET], Tok T_STAR, Seq [Tok T_PROPERTY,
         Tok T_LR_BRACKET, Ref RuleFull_column_name, Tok T_COMMA, Ref RuleExpression,
         Tok T_RR_BRACKET]], Tok T_COMMA, Ref RuleExpression, Tok T_RR_BRACKET]),
       (None, Seq [Tok T_FREETEXT, Tok T_LR_BRACKET, Opt (Seq [Ref RuleTable_name,
         Tok T_COMMA]), Alt [Ref RuleFull_column_name, Seq [Tok T_LR_BRACKET,
         Ref RuleFull_column_name, Star (Seq [Tok T_COMMA, Ref RuleFull_column_name]),
         Tok T_RR_BRACKET], Tok T_STAR], Tok T_COMMA, Ref RuleExpression,
         Opt (Seq [Tok T_COMMA, Tok T_LANGUAGE, Ref RuleExpression]), Tok T_RR_BRACKET])]\<rparr>"

definition g_json_key_value :: rule where [grammar_rules]:
  "g_json_key_value = \<lparr>rule_index = RuleJson_key_value, rule_alts = [
       (None, Seq [Lab (Assign ''json_key_name'') (Ref RuleExpression), Tok T_COLON,
         Lab (Assign ''value_expression'') (Ref RuleExpression)])]\<rparr>"

definition g_json_null_clause :: rule where [grammar_rules]:
  "g_json_null_clause = \<lparr>rule_index = RuleJson_null_clause, rule_alts = [
       (None, Seq [Alt [Tok T_ABSENT, Tok T_NULL'], Tok T_ON, Tok T_NULL'])]\<rparr>"

definition alt_APP_NAME :: ebnf where [grammar_rules]:
  "alt_APP_NAME = Seq [Tok T_APP_NAME, Tok T_LR_BRACKET, Tok T_RR_BRACKET]"

definition alt_APPLOCK_MODE :: ebnf where [grammar_rules]:
  "alt_APPLOCK_MODE = Seq [Tok T_APPLOCK_MODE, Tok T_LR_BRACKET,
       Lab (Assign ''database_principal'') (Ref RuleExpression), Tok T_COMMA,
       Lab (Assign ''resource_name'') (Ref RuleExpression), Tok T_COMMA,
       Lab (Assign ''lock_owner'') (Ref RuleExpression), Tok T_RR_BRACKET]"

definition alt_APPLOCK_TEST :: ebnf where [grammar_rules]:
  "alt_APPLOCK_TEST = Seq [Tok T_APPLOCK_TEST, Tok T_LR_BRACKET,
       Lab (Assign ''database_principal'') (Ref RuleExpression), Tok T_COMMA,
       Lab (Assign ''resource_name'') (Ref RuleExpression), Tok T_COMMA,
       Lab (Assign ''lock_mode'') (Ref RuleExpression), Tok T_COMMA,
       Lab (Assign ''lock_owner'') (Ref RuleExpression), Tok T_RR_BRACKET]"

definition alt_ASSEMBLYPROPERTY :: ebnf where [grammar_rules]:
  "alt_ASSEMBLYPROPERTY = Seq [Tok T_ASSEMBLYPROPERTY, Tok T_LR_BRACKET,
       Lab (Assign ''assembly_name'') (Ref RuleExpression), Tok T_COMMA,
       Lab (Assign ''property_name'') (Ref RuleExpression), Tok T_RR_BRACKET]"

definition alt_COL_LENGTH :: ebnf where [grammar_rules]:
  "alt_COL_LENGTH = Seq [Tok T_COL_LENGTH, Tok T_LR_BRACKET, Lab (Assign ''table'') (Ref RuleExpression),
       Tok T_COMMA, Lab (Assign ''column'') (Ref RuleExpression), Tok T_RR_BRACKET]"

definition alt_COL_NAME :: ebnf where [grammar_rules]:
  "alt_COL_NAME = Seq [Tok T_COL_NAME, Tok T_LR_BRACKET, Lab (Assign ''table_id'') (Ref RuleExpression),
       Tok T_COMMA, Lab (Assign ''column_id'') (Ref RuleExpression), Tok T_RR_BRACKET]"

definition alt_COLUMNPROPERTY :: ebnf where [grammar_rules]:
  "alt_COLUMNPROPERTY = Seq [Tok T_COLUMNPROPERTY, Tok T_LR_BRACKET, Lab (Assign ''id'') (Ref RuleExpression),
       Tok T_COMMA, Lab (Assign ''column'') (Ref RuleExpression), Tok T_COMMA,
       Lab (Assign ''property'') (Ref RuleExpression), Tok T_RR_BRACKET]"

definition alt_DATABASEPROPERTYEX :: ebnf where [grammar_rules]:
  "alt_DATABASEPROPERTYEX = Seq [Tok T_DATABASEPROPERTYEX, Tok T_LR_BRACKET,
       Lab (Assign ''database'') (Ref RuleExpression), Tok T_COMMA,
       Lab (Assign ''property'') (Ref RuleExpression), Tok T_RR_BRACKET]"

definition alt_DB_ID :: ebnf where [grammar_rules]:
  "alt_DB_ID = Seq [Tok T_DB_ID, Tok T_LR_BRACKET,
       Opt (Lab (Assign ''database_name'') (Ref RuleExpression)), Tok T_RR_BRACKET]"

definition alt_DB_NAME :: ebnf where [grammar_rules]:
  "alt_DB_NAME = Seq [Tok T_DB_NAME, Tok T_LR_BRACKET,
       Opt (Lab (Assign ''database_id'') (Ref RuleExpression)), Tok T_RR_BRACKET]"

definition alt_FILE_ID :: ebnf where [grammar_rules]:
  "alt_FILE_ID = Seq [Tok T_FILE_ID, Tok T_LR_BRACKET, Lab (Assign ''file_name'') (Ref RuleExpression),
       Tok T_RR_BRACKET]"

definition alt_FILE_IDEX :: ebnf where [grammar_rules]:
  "alt_FILE_IDEX = Seq [Tok T_FILE_IDEX, Tok T_LR_BRACKET, Lab (Assign ''file_name'') (Ref RuleExpression),
       Tok T_RR_BRACKET]"

definition alt_FILE_NAME :: ebnf where [grammar_rules]:
  "alt_FILE_NAME = Seq [Tok T_FILE_NAME, Tok T_LR_BRACKET, Lab (Assign ''file_id'') (Ref RuleExpression),
       Tok T_RR_BRACKET]"

definition alt_FILEGROUP_ID :: ebnf where [grammar_rules]:
  "alt_FILEGROUP_ID = Seq [Tok T_FILEGROUP_ID, Tok T_LR_BRACKET,
       Lab (Assign ''filegroup_name'') (Ref RuleExpression), Tok T_RR_BRACKET]"

definition alt_FILEGROUP_NAME :: ebnf where [grammar_rules]:
  "alt_FILEGROUP_NAME = Seq [Tok T_FILEGROUP_NAME, Tok T_LR_BRACKET,
       Lab (Assign ''filegroup_id'') (Ref RuleExpression), Tok T_RR_BRACKET]"

definition alt_FILEGROUPPROPERTY :: ebnf where [grammar_rules]:
  "alt_FILEGROUPPROPERTY = Seq [Tok T_FILEGROUPPROPERTY, Tok T_LR_BRACKET,
       Lab (Assign ''filegroup_name'') (Ref RuleExpression), Tok T_COMMA,
       Lab (Assign ''property'') (Ref RuleExpression), Tok T_RR_BRACKET]"

definition alt_FILEPROPERTY :: ebnf where [grammar_rules]:
  "alt_FILEPROPERTY = Seq [Tok T_FILEPROPERTY, Tok T_LR_BRACKET,
       Lab (Assign ''file_name'') (Ref RuleExpression), Tok T_COMMA,
       Lab (Assign ''property'') (Ref RuleExpression), Tok T_RR_BRACKET]"

definition alt_FILEPROPERTYEX :: ebnf where [grammar_rules]:
  "alt_FILEPROPERTYEX = Seq [Tok T_FILEPROPERTYEX, Tok T_LR_BRACKET, Lab (Assign ''name'') (Ref RuleExpression),
       Tok T_COMMA, Lab (Assign ''property'') (Ref RuleExpression), Tok T_RR_BRACKET]"

definition alt_FULLTEXTCATALOGPROPERTY :: ebnf where [grammar_rules]:
  "alt_FULLTEXTCATALOGPROPERTY = Seq [Tok T_FULLTEXTCATALOGPROPERTY, Tok T_LR_BRACKET,
       Lab (Assign ''catalog_name'') (Ref RuleExpression), Tok T_COMMA,
       Lab (Assign ''property'') (Ref RuleExpression), Tok T_RR_BRACKET]"

definition alt_FULLTEXTSERVICEPROPERTY :: ebnf where [grammar_rules]:
  "alt_FULLTEXTSERVICEPROPERTY = Seq [Tok T_FULLTEXTSERVICEPROPERTY, Tok T_LR_BRACKET,
       Lab (Assign ''property'') (Ref RuleExpression), Tok T_RR_BRACKET]"

definition alt_INDEX_COL :: ebnf where [grammar_rules]:
  "alt_INDEX_COL = Seq [Tok T_INDEX_COL, Tok T_LR_BRACKET,
       Lab (Assign ''table_or_view_name'') (Ref RuleExpression), Tok T_COMMA,
       Lab (Assign ''index_id'') (Ref RuleExpression), Tok T_COMMA,
       Lab (Assign ''key_id'') (Ref RuleExpression), Tok T_RR_BRACKET]"

definition alt_INDEXKEY_PROPERTY :: ebnf where [grammar_rules]:
  "alt_INDEXKEY_PROPERTY = Seq [Tok T_INDEXKEY_PROPERTY, Tok T_LR_BRACKET,
       Lab (Assign ''object_id'') (Ref RuleExpression), Tok T_COMMA,
       Lab (Assign ''index_id'') (Ref RuleExpression), Tok T_COMMA,
       Lab (Assign ''key_id'') (Ref RuleExpression), Tok T_COMMA,
       Lab (Assign ''property'') (Ref RuleExpression), Tok T_RR_BRACKET]"

definition alt_INDEXPROPERTY :: ebnf where [grammar_rules]:
  "alt_INDEXPROPERTY = Seq [Tok T_INDEXPROPERTY, Tok T_LR_BRACKET,
       Lab (Assign ''object_id'') (Ref RuleExpression), Tok T_COMMA,
       Lab (Assign ''index_or_statistics_name'') (Ref RuleExpression), Tok T_COMMA,
       Lab (Assign ''property'') (Ref RuleExpression), Tok T_RR_BRACKET]"

definition alt_NEXT_VALUE_FOR :: ebnf where [grammar_rules]:
  "alt_NEXT_VALUE_FOR = Seq [Tok T_NEXT, Tok T_VALUE, Tok T_FOR,
       Lab (Assign ''sequence_name'') (Ref RuleTable_name), Opt (Seq [Tok T_OVER,
       Tok T_LR_BRACKET, Ref RuleOrder_by_clause, Tok T_RR_BRACKET])]"

definition alt_OBJECT_DEFINITION :: ebnf where [grammar_rules]:
  "alt_OBJECT_DEFINITION = Seq [Tok T_OBJECT_DEFINITION, Tok T_LR_BRACKET,
       Lab (Assign ''object_id'') (Ref RuleExpression), Tok T_RR_BRACKET]"

definition alt_OBJECT_ID :: ebnf where [grammar_rules]:
  "alt_OBJECT_ID = Seq [Tok T_OBJECT_ID, Tok T_LR_BRACKET, Lab (Assign ''object_name'') (Ref RuleExpression),
       Opt (Seq [Tok T_COMMA, Lab (Assign ''object_type'') (Ref RuleExpression)]),
       Tok T_RR_BRACKET]"

definition alt_OBJECT_NAME :: ebnf where [grammar_rules]:
  "alt_OBJECT_NAME = Seq [Tok T_OBJECT_NAME, Tok T_LR_BRACKET, Lab (Assign ''object_id'') (Ref RuleExpression),
       Opt (Seq [Tok T_COMMA, Lab (Assign ''database_id'') (Ref RuleExpression)]),
       Tok T_RR_BRACKET]"

definition alt_OBJECT_SCHEMA_NAME :: ebnf where [grammar_rules]:
  "alt_OBJECT_SCHEMA_NAME = Seq [Tok T_OBJECT_SCHEMA_NAME, Tok T_LR_BRACKET,
       Lab (Assign ''object_id'') (Ref RuleExpression), Opt (Seq [Tok T_COMMA,
       Lab (Assign ''database_id'') (Ref RuleExpression)]), Tok T_RR_BRACKET]"

definition alt_OBJECTPROPERTY :: ebnf where [grammar_rules]:
  "alt_OBJECTPROPERTY = Seq [Tok T_OBJECTPROPERTY, Tok T_LR_BRACKET, Lab (Assign ''id'') (Ref RuleExpression),
       Tok T_COMMA, Lab (Assign ''property'') (Ref RuleExpression), Tok T_RR_BRACKET]"

definition alt_OBJECTPROPERTYEX :: ebnf where [grammar_rules]:
  "alt_OBJECTPROPERTYEX = Seq [Tok T_OBJECTPROPERTYEX, Tok T_LR_BRACKET, Lab (Assign ''id'') (Ref RuleExpression),
       Tok T_COMMA, Lab (Assign ''property'') (Ref RuleExpression), Tok T_RR_BRACKET]"

definition alt_ORIGINAL_DB_NAME :: ebnf where [grammar_rules]:
  "alt_ORIGINAL_DB_NAME = Seq [Tok T_ORIGINAL_DB_NAME, Tok T_LR_BRACKET, Tok T_RR_BRACKET]"

definition alt_PARSENAME :: ebnf where [grammar_rules]:
  "alt_PARSENAME = Seq [Tok T_PARSENAME, Tok T_LR_BRACKET, Lab (Assign ''object_name'') (Ref RuleExpression),
       Tok T_COMMA, Lab (Assign ''object_piece'') (Ref RuleExpression), Tok T_RR_BRACKET]"

definition alt_SCHEMA_ID :: ebnf where [grammar_rules]:
  "alt_SCHEMA_ID = Seq [Tok T_SCHEMA_ID, Tok T_LR_BRACKET,
       Opt (Lab (Assign ''schema_name'') (Ref RuleExpression)), Tok T_RR_BRACKET]"

definition alt_SCHEMA_NAME :: ebnf where [grammar_rules]:
  "alt_SCHEMA_NAME = Seq [Tok T_SCHEMA_NAME, Tok T_LR_BRACKET,
       Opt (Lab (Assign ''schema_id'') (Ref RuleExpression)), Tok T_RR_BRACKET]"

definition alt_SCOPE_IDENTITY :: ebnf where [grammar_rules]:
  "alt_SCOPE_IDENTITY = Seq [Tok T_SCOPE_IDENTITY, Tok T_LR_BRACKET, Tok T_RR_BRACKET]"

definition alt_SERVERPROPERTY :: ebnf where [grammar_rules]:
  "alt_SERVERPROPERTY = Seq [Tok T_SERVERPROPERTY, Tok T_LR_BRACKET,
       Lab (Assign ''property'') (Ref RuleExpression), Tok T_RR_BRACKET]"

definition alt_STATS_DATE :: ebnf where [grammar_rules]:
  "alt_STATS_DATE = Seq [Tok T_STATS_DATE, Tok T_LR_BRACKET, Lab (Assign ''object_id'') (Ref RuleExpression),
       Tok T_COMMA, Lab (Assign ''stats_id'') (Ref RuleExpression), Tok T_RR_BRACKET]"

definition alt_TYPE_ID :: ebnf where [grammar_rules]:
  "alt_TYPE_ID = Seq [Tok T_TYPE_ID, Tok T_LR_BRACKET, Lab (Assign ''type_name'') (Ref RuleExpression),
       Tok T_RR_BRACKET]"

definition alt_TYPE_NAME :: ebnf where [grammar_rules]:
  "alt_TYPE_NAME = Seq [Tok T_TYPE_NAME, Tok T_LR_BRACKET, Lab (Assign ''type_id'') (Ref RuleExpression),
       Tok T_RR_BRACKET]"

definition alt_TYPEPROPERTY :: ebnf where [grammar_rules]:
  "alt_TYPEPROPERTY = Seq [Tok T_TYPEPROPERTY, Tok T_LR_BRACKET, Lab (Assign ''type'') (Ref RuleExpression),
       Tok T_COMMA, Lab (Assign ''property'') (Ref RuleExpression), Tok T_RR_BRACKET]"

definition alt_ASCII :: ebnf where [grammar_rules]:
  "alt_ASCII = Seq [Tok T_ASCII, Tok T_LR_BRACKET,
       Lab (Assign ''character_expression'') (Ref RuleExpression), Tok T_RR_BRACKET]"

definition alt_CHAR :: ebnf where [grammar_rules]:
  "alt_CHAR = Seq [Tok T_CHAR, Tok T_LR_BRACKET,
       Lab (Assign ''integer_expression'') (Ref RuleExpression), Tok T_RR_BRACKET]"

definition alt_CHARINDEX :: ebnf where [grammar_rules]:
  "alt_CHARINDEX = Seq [Tok T_CHARINDEX, Tok T_LR_BRACKET,
       Lab (Assign ''expressionToFind'') (Ref RuleExpression), Tok T_COMMA,
       Lab (Assign ''expressionToSearch'') (Ref RuleExpression), Opt (Seq [Tok T_COMMA,
       Lab (Assign ''start_location'') (Ref RuleExpression)]), Tok T_RR_BRACKET]"

definition alt_CONCAT :: ebnf where [grammar_rules]:
  "alt_CONCAT = Seq [Tok T_CONCAT, Tok T_LR_BRACKET, Lab (Assign ''string_value_1'') (Ref RuleExpression),
       Tok T_COMMA, Lab (Assign ''string_value_2'') (Ref RuleExpression),
       Star (Seq [Tok T_COMMA, Lab (Append ''string_value_n'') (Ref RuleExpression)]),
       Tok T_RR_BRACKET]"

definition alt_CONCAT_WS :: ebnf where [grammar_rules]:
  "alt_CONCAT_WS = Seq [Tok T_CONCAT_WS, Tok T_LR_BRACKET, Lab (Assign ''separator'') (Ref RuleExpression),
       Tok T_COMMA, Lab (Assign ''argument_1'') (Ref RuleExpression), Tok T_COMMA,
       Lab (Assign ''argument_2'') (Ref RuleExpression), Star (Seq [Tok T_COMMA,
       Lab (Append ''argument_n'') (Ref RuleExpression)]), Tok T_RR_BRACKET]"

definition alt_DIFFERENCE :: ebnf where [grammar_rules]:
  "alt_DIFFERENCE = Seq [Tok T_DIFFERENCE, Tok T_LR_BRACKET,
       Lab (Assign ''character_expression_1'') (Ref RuleExpression), Tok T_COMMA,
       Lab (Assign ''character_expression_2'') (Ref RuleExpression), Tok T_RR_BRACKET]"

definition alt_FORMAT :: ebnf where [grammar_rules]:
  "alt_FORMAT = Seq [Tok T_FORMAT, Tok T_LR_BRACKET, Lab (Assign ''value'') (Ref RuleExpression),
       Tok T_COMMA, Lab (Assign ''format'') (Ref RuleExpression), Opt (Seq [Tok T_COMMA,
       Lab (Assign ''culture'') (Ref RuleExpression)]), Tok T_RR_BRACKET]"

definition alt_LEFT :: ebnf where [grammar_rules]:
  "alt_LEFT = Seq [Tok T_LEFT, Tok T_LR_BRACKET,
       Lab (Assign ''character_expression'') (Ref RuleExpression), Tok T_COMMA,
       Lab (Assign ''integer_expression'') (Ref RuleExpression), Tok T_RR_BRACKET]"

definition alt_LEN :: ebnf where [grammar_rules]:
  "alt_LEN = Seq [Tok T_LEN, Tok T_LR_BRACKET, Lab (Assign ''string_expression'') (Ref RuleExpression),
       Tok T_RR_BRACKET]"

definition alt_LOWER :: ebnf where [grammar_rules]:
  "alt_LOWER = Seq [Tok T_LOWER, Tok T_LR_BRACKET,
       Lab (Assign ''character_expression'') (Ref RuleExpression), Tok T_RR_BRACKET]"

definition alt_LTRIM :: ebnf where [grammar_rules]:
  "alt_LTRIM = Seq [Tok T_LTRIM, Tok T_LR_BRACKET,
       Lab (Assign ''character_expression'') (Ref RuleExpression), Tok T_RR_BRACKET]"

definition alt_NCHAR :: ebnf where [grammar_rules]:
  "alt_NCHAR = Seq [Tok T_NCHAR, Tok T_LR_BRACKET,
       Lab (Assign ''integer_expression'') (Ref RuleExpression), Tok T_RR_BRACKET]"

definition alt_PATINDEX :: ebnf where [grammar_rules]:
  "alt_PATINDEX = Seq [Tok T_PATINDEX, Tok T_LR_BRACKET, Lab (Assign ''pattern'') (Ref RuleExpression),
       Tok T_COMMA, Lab (Assign ''string_expression'') (Ref RuleExpression), Tok T_RR_BRACKET]"

definition alt_QUOTENAME :: ebnf where [grammar_rules]:
  "alt_QUOTENAME = Seq [Tok T_QUOTENAME, Tok T_LR_BRACKET,
       Lab (Assign ''character_string'') (Ref RuleExpression), Opt (Seq [Tok T_COMMA,
       Lab (Assign ''quote_character'') (Ref RuleExpression)]), Tok T_RR_BRACKET]"

definition alt_REPLACE :: ebnf where [grammar_rules]:
  "alt_REPLACE = Seq [Tok T_REPLACE, Tok T_LR_BRACKET, Lab (Assign ''input'') (Ref RuleExpression),
       Tok T_COMMA, Lab (Assign ''replacing'') (Ref RuleExpression), Tok T_COMMA,
       Lab (Assign ''with'') (Ref RuleExpression), Tok T_RR_BRACKET]"

definition alt_REPLICATE :: ebnf where [grammar_rules]:
  "alt_REPLICATE = Seq [Tok T_REPLICATE, Tok T_LR_BRACKET,
       Lab (Assign ''string_expression'') (Ref RuleExpression), Tok T_COMMA,
       Lab (Assign ''integer_expression'') (Ref RuleExpression), Tok T_RR_BRACKET]"

definition alt_REVERSE :: ebnf where [grammar_rules]:
  "alt_REVERSE = Seq [Tok T_REVERSE, Tok T_LR_BRACKET,
       Lab (Assign ''string_expression'') (Ref RuleExpression), Tok T_RR_BRACKET]"

definition alt_RIGHT :: ebnf where [grammar_rules]:
  "alt_RIGHT = Seq [Tok T_RIGHT, Tok T_LR_BRACKET,
       Lab (Assign ''character_expression'') (Ref RuleExpression), Tok T_COMMA,
       Lab (Assign ''integer_expression'') (Ref RuleExpression), Tok T_RR_BRACKET]"

definition alt_RTRIM :: ebnf where [grammar_rules]:
  "alt_RTRIM = Seq [Tok T_RTRIM, Tok T_LR_BRACKET,
       Lab (Assign ''character_expression'') (Ref RuleExpression), Tok T_RR_BRACKET]"

definition alt_SOUNDEX :: ebnf where [grammar_rules]:
  "alt_SOUNDEX = Seq [Tok T_SOUNDEX, Tok T_LR_BRACKET,
       Lab (Assign ''character_expression'') (Ref RuleExpression), Tok T_RR_BRACKET]"

definition alt_SPACE :: ebnf where [grammar_rules]:
  "alt_SPACE = Seq [Tok T_SPACE_KEYWORD, Tok T_LR_BRACKET,
       Lab (Assign ''integer_expression'') (Ref RuleExpression), Tok T_RR_BRACKET]"

definition alt_STR :: ebnf where [grammar_rules]:
  "alt_STR = Seq [Tok T_STR, Tok T_LR_BRACKET, Lab (Assign ''float_expression'') (Ref RuleExpression),
       Opt (Seq [Tok T_COMMA, Lab (Assign ''length_expression'') (Ref RuleExpression),
       Opt (Seq [Tok T_COMMA, Lab (Assign ''decimal'') (Ref RuleExpression)])]),
       Tok T_RR_BRACKET]"

definition alt_STRINGAGG :: ebnf where [grammar_rules]:
  "alt_STRINGAGG = Seq [Tok T_STRING_AGG, Tok T_LR_BRACKET, Lab (Assign ''expr'') (Ref RuleExpression),
       Tok T_COMMA, Lab (Assign ''separator'') (Ref RuleExpression), Tok T_RR_BRACKET,
       Opt (Seq [Tok T_WITHIN, Tok T_GROUP, Tok T_LR_BRACKET, Ref RuleOrder_by_clause,
       Tok T_RR_BRACKET])]"

definition alt_STRING_ESCAPE :: ebnf where [grammar_rules]:
  "alt_STRING_ESCAPE = Seq [Tok T_STRING_ESCAPE, Tok T_LR_BRACKET, Lab (Assign ''text_'') (Ref RuleExpression),
       Tok T_COMMA, Lab (Assign ''type_'') (Ref RuleExpression), Tok T_RR_BRACKET]"

definition alt_STUFF :: ebnf where [grammar_rules]:
  "alt_STUFF = Seq [Tok T_STUFF, Tok T_LR_BRACKET, Lab (Assign ''str'') (Ref RuleExpression),
       Tok T_COMMA, Lab (Assign ''from'') (Ref RuleExpression), Tok T_COMMA,
       Lab (Assign ''to'') (Ref RuleExpression), Tok T_COMMA,
       Lab (Assign ''str_with'') (Ref RuleExpression), Tok T_RR_BRACKET]"

definition alt_SUBSTRING :: ebnf where [grammar_rules]:
  "alt_SUBSTRING = Seq [Tok T_SUBSTRING, Tok T_LR_BRACKET,
       Lab (Assign ''string_expression'') (Ref RuleExpression), Tok T_COMMA,
       Lab (Assign ''start_'') (Ref RuleExpression), Tok T_COMMA,
       Lab (Assign ''length'') (Ref RuleExpression), Tok T_RR_BRACKET]"

definition alt_TRANSLATE :: ebnf where [grammar_rules]:
  "alt_TRANSLATE = Seq [Tok T_TRANSLATE, Tok T_LR_BRACKET, Lab (Assign ''inputString'') (Ref RuleExpression),
       Tok T_COMMA, Lab (Assign ''characters'') (Ref RuleExpression), Tok T_COMMA,
       Lab (Assign ''translations'') (Ref RuleExpression), Tok T_RR_BRACKET]"

definition alt_TRIM :: ebnf where [grammar_rules]:
  "alt_TRIM = Seq [Tok T_TRIM, Tok T_LR_BRACKET,
       Opt (Seq [Lab (Assign ''characters'') (Ref RuleExpression), Tok T_FROM]),
       Lab (Assign ''string_'') (Ref RuleExpression), Tok T_RR_BRACKET]"

definition alt_UNICODE :: ebnf where [grammar_rules]:
  "alt_UNICODE = Seq [Tok T_UNICODE, Tok T_LR_BRACKET,
       Lab (Assign ''ncharacter_expression'') (Ref RuleExpression), Tok T_RR_BRACKET]"

definition alt_UPPER :: ebnf where [grammar_rules]:
  "alt_UPPER = Seq [Tok T_UPPER, Tok T_LR_BRACKET,
       Lab (Assign ''character_expression'') (Ref RuleExpression), Tok T_RR_BRACKET]"

definition alt_BINARY_CHECKSUM :: ebnf where [grammar_rules]:
  "alt_BINARY_CHECKSUM = Seq [Tok T_BINARY_CHECKSUM, Tok T_LR_BRACKET, Alt [Lab (Assign ''star'') (Tok T_STAR),
       Seq [Ref RuleExpression, Star (Seq [Tok T_COMMA, Ref RuleExpression])]],
       Tok T_RR_BRACKET]"

definition alt_CHECKSUM :: ebnf where [grammar_rules]:
  "alt_CHECKSUM = Seq [Tok T_CHECKSUM, Tok T_LR_BRACKET, Alt [Lab (Assign ''star'') (Tok T_STAR),
       Seq [Ref RuleExpression, Star (Seq [Tok T_COMMA, Ref RuleExpression])]],
       Tok T_RR_BRACKET]"

definition alt_COMPRESS :: ebnf where [grammar_rules]:
  "alt_COMPRESS = Seq [Tok T_COMPRESS, Tok T_LR_BRACKET, Lab (Assign ''expr'') (Ref RuleExpression),
       Tok T_RR_BRACKET]"

definition alt_CONNECTIONPROPERTY :: ebnf where [grammar_rules]:
  "alt_CONNECTIONPROPERTY = Seq [Tok T_CONNECTIONPROPERTY, Tok T_LR_BRACKET, Lab (Assign ''property'') (Tok T_STRING),
       Tok T_RR_BRACKET]"

definition alt_CONTEXT_INFO :: ebnf where [grammar_rules]:
  "alt_CONTEXT_INFO = Seq [Tok T_CONTEXT_INFO, Tok T_LR_BRACKET, Tok T_RR_BRACKET]"

definition alt_CURRENT_REQUEST_ID :: ebnf where [grammar_rules]:
  "alt_CURRENT_REQUEST_ID = Seq [Tok T_CURRENT_REQUEST_ID, Tok T_LR_BRACKET, Tok T_RR_BRACKET]"

definition alt_CURRENT_TRANSACTION_ID :: ebnf where [grammar_rules]:
  "alt_CURRENT_TRANSACTION_ID = Seq [Tok T_CURRENT_TRANSACTION_ID, Tok T_LR_BRACKET, Tok T_RR_BRACKET]"

definition alt_DECOMPRESS :: ebnf where [grammar_rules]:
  "alt_DECOMPRESS = Seq [Tok T_DECOMPRESS, Tok T_LR_BRACKET, Lab (Assign ''expr'') (Ref RuleExpression),
       Tok T_RR_BRACKET]"

definition alt_ERROR_LINE :: ebnf where [grammar_rules]:
  "alt_ERROR_LINE = Seq [Tok T_ERROR_LINE, Tok T_LR_BRACKET, Tok T_RR_BRACKET]"

definition alt_ERROR_MESSAGE :: ebnf where [grammar_rules]:
  "alt_ERROR_MESSAGE = Seq [Tok T_ERROR_MESSAGE, Tok T_LR_BRACKET, Tok T_RR_BRACKET]"

definition alt_ERROR_NUMBER :: ebnf where [grammar_rules]:
  "alt_ERROR_NUMBER = Seq [Tok T_ERROR_NUMBER, Tok T_LR_BRACKET, Tok T_RR_BRACKET]"

definition alt_ERROR_PROCEDURE :: ebnf where [grammar_rules]:
  "alt_ERROR_PROCEDURE = Seq [Tok T_ERROR_PROCEDURE, Tok T_LR_BRACKET, Tok T_RR_BRACKET]"

definition alt_ERROR_SEVERITY :: ebnf where [grammar_rules]:
  "alt_ERROR_SEVERITY = Seq [Tok T_ERROR_SEVERITY, Tok T_LR_BRACKET, Tok T_RR_BRACKET]"

definition alt_ERROR_STATE :: ebnf where [grammar_rules]:
  "alt_ERROR_STATE = Seq [Tok T_ERROR_STATE, Tok T_LR_BRACKET, Tok T_RR_BRACKET]"

definition alt_FORMATMESSAGE :: ebnf where [grammar_rules]:
  "alt_FORMATMESSAGE = Seq [Tok T_FORMATMESSAGE, Tok T_LR_BRACKET,
       Alt [Lab (Assign ''msg_number'') (Tok T_DECIMAL),
       Lab (Assign ''msg_string'') (Tok T_STRING),
       Lab (Assign ''msg_variable'') (Tok T_LOCAL_ID)], Tok T_COMMA, Ref RuleExpression,
       Star (Seq [Tok T_COMMA, Ref RuleExpression]), Tok T_RR_BRACKET]"

definition alt_GET_FILESTREAM_TRANSACTION_CONTEXT :: ebnf where [grammar_rules]:
  "alt_GET_FILESTREAM_TRANSACTION_CONTEXT = Seq [Tok T_GET_FILESTREAM_TRANSACTION_CONTEXT, Tok T_LR_BRACKET, Tok T_RR_BRACKET]"

definition alt_GETANSINULL :: ebnf where [grammar_rules]:
  "alt_GETANSINULL = Seq [Tok T_GETANSINULL, Tok T_LR_BRACKET, Opt (Lab (Assign ''database'') (Tok T_STRING)),
       Tok T_RR_BRACKET]"

definition alt_HOST_ID :: ebnf where [grammar_rules]:
  "alt_HOST_ID = Seq [Tok T_HOST_ID, Tok T_LR_BRACKET, Tok T_RR_BRACKET]"

definition alt_HOST_NAME :: ebnf where [grammar_rules]:
  "alt_HOST_NAME = Seq [Tok T_HOST_NAME, Tok T_LR_BRACKET, Tok T_RR_BRACKET]"

definition alt_ISNULL :: ebnf where [grammar_rules]:
  "alt_ISNULL = Seq [Tok T_ISNULL, Tok T_LR_BRACKET, Lab (Assign ''left'') (Ref RuleExpression),
       Tok T_COMMA, Lab (Assign ''right'') (Ref RuleExpression), Tok T_RR_BRACKET]"

definition alt_ISNUMERIC :: ebnf where [grammar_rules]:
  "alt_ISNUMERIC = Seq [Tok T_ISNUMERIC, Tok T_LR_BRACKET, Ref RuleExpression, Tok T_RR_BRACKET]"

definition alt_MIN_ACTIVE_ROWVERSION :: ebnf where [grammar_rules]:
  "alt_MIN_ACTIVE_ROWVERSION = Seq [Tok T_MIN_ACTIVE_ROWVERSION, Tok T_LR_BRACKET, Tok T_RR_BRACKET]"

definition alt_NEWID :: ebnf where [grammar_rules]:
  "alt_NEWID = Seq [Tok T_NEWID, Tok T_LR_BRACKET, Tok T_RR_BRACKET]"

definition alt_NEWSEQUENTIALID :: ebnf where [grammar_rules]:
  "alt_NEWSEQUENTIALID = Seq [Tok T_NEWSEQUENTIALID, Tok T_LR_BRACKET, Tok T_RR_BRACKET]"

definition alt_ROWCOUNT_BIG :: ebnf where [grammar_rules]:
  "alt_ROWCOUNT_BIG = Seq [Tok T_ROWCOUNT_BIG, Tok T_LR_BRACKET, Tok T_RR_BRACKET]"

definition alt_SESSION_CONTEXT :: ebnf where [grammar_rules]:
  "alt_SESSION_CONTEXT = Seq [Tok T_SESSION_CONTEXT, Tok T_LR_BRACKET, Lab (Assign ''key'') (Tok T_STRING),
       Tok T_RR_BRACKET]"

definition alt_XACT_STATE :: ebnf where [grammar_rules]:
  "alt_XACT_STATE = Seq [Tok T_XACT_STATE, Tok T_LR_BRACKET, Tok T_RR_BRACKET]"

definition alt_CAST :: ebnf where [grammar_rules]:
  "alt_CAST = Seq [Tok T_CAST, Tok T_LR_BRACKET, Ref RuleExpression, Tok T_AS, Ref RuleData_type,
       Tok T_RR_BRACKET]"

definition alt_TRY_CAST :: ebnf where [grammar_rules]:
  "alt_TRY_CAST = Seq [Tok T_TRY_CAST, Tok T_LR_BRACKET, Ref RuleExpression, Tok T_AS, Ref RuleData_type,
       Tok T_RR_BRACKET]"

definition alt_CONVERT :: ebnf where [grammar_rules]:
  "alt_CONVERT = Seq [Tok T_CONVERT, Tok T_LR_BRACKET,
       Lab (Assign ''convert_data_type'') (Ref RuleData_type), Tok T_COMMA,
       Lab (Assign ''convert_expression'') (Ref RuleExpression), Opt (Seq [Tok T_COMMA,
       Lab (Assign ''style'') (Ref RuleExpression)]), Tok T_RR_BRACKET]"

definition alt_COALESCE :: ebnf where [grammar_rules]:
  "alt_COALESCE = Seq [Tok T_COALESCE, Tok T_LR_BRACKET, Ref RuleExpression_list', Tok T_RR_BRACKET]"

definition alt_CURSOR_ROWS :: ebnf where [grammar_rules]:
  "alt_CURSOR_ROWS = Tok T_CURSOR_ROWS"

definition alt_FETCH_STATUS :: ebnf where [grammar_rules]:
  "alt_FETCH_STATUS = Tok T_FETCH_STATUS"

definition alt_CURSOR_STATUS :: ebnf where [grammar_rules]:
  "alt_CURSOR_STATUS = Seq [Tok T_CURSOR_STATUS, Tok T_LR_BRACKET, Lab (Assign ''scope'') (Tok T_STRING),
       Tok T_COMMA, Lab (Assign ''cursor'') (Ref RuleExpression), Tok T_RR_BRACKET]"

definition alt_CERT_ID :: ebnf where [grammar_rules]:
  "alt_CERT_ID = Seq [Tok T_CERT_ID, Tok T_LR_BRACKET, Lab (Assign ''cert_name'') (Ref RuleExpression),
       Tok T_RR_BRACKET]"

definition alt_DATALENGTH :: ebnf where [grammar_rules]:
  "alt_DATALENGTH = Seq [Tok T_DATALENGTH, Tok T_LR_BRACKET, Ref RuleExpression, Tok T_RR_BRACKET]"

definition alt_IDENT_CURRENT :: ebnf where [grammar_rules]:
  "alt_IDENT_CURRENT = Seq [Tok T_IDENT_CURRENT, Tok T_LR_BRACKET,
       Lab (Assign ''table_or_view'') (Ref RuleExpression), Tok T_RR_BRACKET]"

definition alt_IDENT_INCR :: ebnf where [grammar_rules]:
  "alt_IDENT_INCR = Seq [Tok T_IDENT_INCR, Tok T_LR_BRACKET,
       Lab (Assign ''table_or_view'') (Ref RuleExpression), Tok T_RR_BRACKET]"

definition alt_IDENT_SEED :: ebnf where [grammar_rules]:
  "alt_IDENT_SEED = Seq [Tok T_IDENT_SEED, Tok T_LR_BRACKET,
       Lab (Assign ''table_or_view'') (Ref RuleExpression), Tok T_RR_BRACKET]"

definition alt_IDENTITY :: ebnf where [grammar_rules]:
  "alt_IDENTITY = Seq [Tok T_IDENTITY, Tok T_LR_BRACKET, Lab (Assign ''datatype'') (Ref RuleData_type),
       Opt (Seq [Tok T_COMMA, Lab (Assign ''seed'') (Tok T_DECIMAL), Tok T_COMMA,
       Lab (Assign ''increment'') (Tok T_DECIMAL)]), Tok T_RR_BRACKET]"

definition alt_SQL_VARIANT_PROPERTY :: ebnf where [grammar_rules]:
  "alt_SQL_VARIANT_PROPERTY = Seq [Tok T_SQL_VARIANT_PROPERTY, Tok T_LR_BRACKET,
       Lab (Assign ''expr'') (Ref RuleExpression), Tok T_COMMA,
       Lab (Assign ''property'') (Tok T_STRING), Tok T_RR_BRACKET]"

definition alt_CURRENT_DATE :: ebnf where [grammar_rules]:
  "alt_CURRENT_DATE = Seq [Tok T_CURRENT_DATE, Tok T_LR_BRACKET, Tok T_RR_BRACKET]"

definition alt_CURRENT_TIMESTAMP :: ebnf where [grammar_rules]:
  "alt_CURRENT_TIMESTAMP = Tok T_CURRENT_TIMESTAMP"

definition alt_CURRENT_TIMEZONE :: ebnf where [grammar_rules]:
  "alt_CURRENT_TIMEZONE = Seq [Tok T_CURRENT_TIMEZONE, Tok T_LR_BRACKET, Tok T_RR_BRACKET]"

definition alt_CURRENT_TIMEZONE_ID :: ebnf where [grammar_rules]:
  "alt_CURRENT_TIMEZONE_ID = Seq [Tok T_CURRENT_TIMEZONE_ID, Tok T_LR_BRACKET, Tok T_RR_BRACKET]"

definition alt_DATE_BUCKET :: ebnf where [grammar_rules]:
  "alt_DATE_BUCKET = Seq [Tok T_DATE_BUCKET, Tok T_LR_BRACKET, Lab (Assign ''datepart'') (Ref RuleDateparts_9),
       Tok T_COMMA, Lab (Assign ''number'') (Ref RuleExpression), Tok T_COMMA,
       Lab (Assign ''date'') (Ref RuleExpression), Opt (Seq [Tok T_COMMA,
       Lab (Assign ''origin'') (Ref RuleExpression)]), Tok T_RR_BRACKET]"

definition alt_DATEADD :: ebnf where [grammar_rules]:
  "alt_DATEADD = Seq [Tok T_DATEADD, Tok T_LR_BRACKET, Lab (Assign ''datepart'') (Ref RuleDateparts_12),
       Tok T_COMMA, Lab (Assign ''number'') (Ref RuleExpression), Tok T_COMMA,
       Lab (Assign ''date'') (Ref RuleExpression), Tok T_RR_BRACKET]"

definition alt_DATEDIFF :: ebnf where [grammar_rules]:
  "alt_DATEDIFF = Seq [Tok T_DATEDIFF, Tok T_LR_BRACKET, Lab (Assign ''datepart'') (Ref RuleDateparts_12),
       Tok T_COMMA, Lab (Assign ''date_first'') (Ref RuleExpression), Tok T_COMMA,
       Lab (Assign ''date_second'') (Ref RuleExpression), Tok T_RR_BRACKET]"

definition alt_DATEDIFF_BIG :: ebnf where [grammar_rules]:
  "alt_DATEDIFF_BIG = Seq [Tok T_DATEDIFF_BIG, Tok T_LR_BRACKET,
       Lab (Assign ''datepart'') (Ref RuleDateparts_12), Tok T_COMMA,
       Lab (Assign ''startdate'') (Ref RuleExpression), Tok T_COMMA,
       Lab (Assign ''enddate'') (Ref RuleExpression), Tok T_RR_BRACKET]"

definition alt_DATEFROMPARTS :: ebnf where [grammar_rules]:
  "alt_DATEFROMPARTS = Seq [Tok T_DATEFROMPARTS, Tok T_LR_BRACKET, Lab (Assign ''year'') (Ref RuleExpression),
       Tok T_COMMA, Lab (Assign ''month'') (Ref RuleExpression), Tok T_COMMA,
       Lab (Assign ''day'') (Ref RuleExpression), Tok T_RR_BRACKET]"

definition alt_DATENAME :: ebnf where [grammar_rules]:
  "alt_DATENAME = Seq [Tok T_DATENAME, Tok T_LR_BRACKET, Lab (Assign ''datepart'') (Ref RuleDateparts_15),
       Tok T_COMMA, Lab (Assign ''date'') (Ref RuleExpression), Tok T_RR_BRACKET]"

definition alt_DATEPART :: ebnf where [grammar_rules]:
  "alt_DATEPART = Seq [Tok T_DATEPART, Tok T_LR_BRACKET, Lab (Assign ''datepart'') (Ref RuleDateparts_15),
       Tok T_COMMA, Lab (Assign ''date'') (Ref RuleExpression), Tok T_RR_BRACKET]"

definition alt_DATETIME2FROMPARTS :: ebnf where [grammar_rules]:
  "alt_DATETIME2FROMPARTS = Seq [Tok T_DATETIME2FROMPARTS, Tok T_LR_BRACKET,
       Lab (Assign ''year'') (Ref RuleExpression), Tok T_COMMA,
       Lab (Assign ''month'') (Ref RuleExpression), Tok T_COMMA,
       Lab (Assign ''day'') (Ref RuleExpression), Tok T_COMMA,
       Lab (Assign ''hour'') (Ref RuleExpression), Tok T_COMMA,
       Lab (Assign ''minute'') (Ref RuleExpression), Tok T_COMMA,
       Lab (Assign ''seconds'') (Ref RuleExpression), Tok T_COMMA,
       Lab (Assign ''fractions'') (Ref RuleExpression), Tok T_COMMA,
       Lab (Assign ''precision'') (Ref RuleExpression), Tok T_RR_BRACKET]"

definition alt_DATETIMEFROMPARTS :: ebnf where [grammar_rules]:
  "alt_DATETIMEFROMPARTS = Seq [Tok T_DATETIMEFROMPARTS, Tok T_LR_BRACKET,
       Lab (Assign ''year'') (Ref RuleExpression), Tok T_COMMA,
       Lab (Assign ''month'') (Ref RuleExpression), Tok T_COMMA,
       Lab (Assign ''day'') (Ref RuleExpression), Tok T_COMMA,
       Lab (Assign ''hour'') (Ref RuleExpression), Tok T_COMMA,
       Lab (Assign ''minute'') (Ref RuleExpression), Tok T_COMMA,
       Lab (Assign ''seconds'') (Ref RuleExpression), Tok T_COMMA,
       Lab (Assign ''milliseconds'') (Ref RuleExpression), Tok T_RR_BRACKET]"

definition alt_DATETIMEOFFSETFROMPARTS :: ebnf where [grammar_rules]:
  "alt_DATETIMEOFFSETFROMPARTS = Seq [Tok T_DATETIMEOFFSETFROMPARTS, Tok T_LR_BRACKET,
       Lab (Assign ''year'') (Ref RuleExpression), Tok T_COMMA,
       Lab (Assign ''month'') (Ref RuleExpression), Tok T_COMMA,
       Lab (Assign ''day'') (Ref RuleExpression), Tok T_COMMA,
       Lab (Assign ''hour'') (Ref RuleExpression), Tok T_COMMA,
       Lab (Assign ''minute'') (Ref RuleExpression), Tok T_COMMA,
       Lab (Assign ''seconds'') (Ref RuleExpression), Tok T_COMMA,
       Lab (Assign ''fractions'') (Ref RuleExpression), Tok T_COMMA,
       Lab (Assign ''hour_offset'') (Ref RuleExpression), Tok T_COMMA,
       Lab (Assign ''minute_offset'') (Ref RuleExpression), Tok T_COMMA,
       Lab (Assign ''precision'') (Tok T_DECIMAL), Tok T_RR_BRACKET]"

definition alt_DATETRUNC :: ebnf where [grammar_rules]:
  "alt_DATETRUNC = Seq [Tok T_DATETRUNC, Tok T_LR_BRACKET,
       Lab (Assign ''datepart'') (Ref RuleDateparts_datetrunc), Tok T_COMMA,
       Lab (Assign ''date'') (Ref RuleExpression), Tok T_RR_BRACKET]"

definition alt_DAY :: ebnf where [grammar_rules]:
  "alt_DAY = Seq [Tok T_DAY, Tok T_LR_BRACKET, Lab (Assign ''date'') (Ref RuleExpression),
       Tok T_RR_BRACKET]"

definition alt_EOMONTH :: ebnf where [grammar_rules]:
  "alt_EOMONTH = Seq [Tok T_EOMONTH, Tok T_LR_BRACKET, Lab (Assign ''start_date'') (Ref RuleExpression),
       Opt (Seq [Tok T_COMMA, Lab (Assign ''month_to_add'') (Ref RuleExpression)]),
       Tok T_RR_BRACKET]"

definition alt_GETDATE :: ebnf where [grammar_rules]:
  "alt_GETDATE = Seq [Tok T_GETDATE, Tok T_LR_BRACKET, Tok T_RR_BRACKET]"

definition alt_GETUTCDATE :: ebnf where [grammar_rules]:
  "alt_GETUTCDATE = Seq [Tok T_GETUTCDATE, Tok T_LR_BRACKET, Tok T_RR_BRACKET]"

definition alt_ISDATE :: ebnf where [grammar_rules]:
  "alt_ISDATE = Seq [Tok T_ISDATE, Tok T_LR_BRACKET, Ref RuleExpression, Tok T_RR_BRACKET]"

definition alt_MONTH :: ebnf where [grammar_rules]:
  "alt_MONTH = Seq [Tok T_MONTH, Tok T_LR_BRACKET, Lab (Assign ''date'') (Ref RuleExpression),
       Tok T_RR_BRACKET]"

definition alt_SMALLDATETIMEFROMPARTS :: ebnf where [grammar_rules]:
  "alt_SMALLDATETIMEFROMPARTS = Seq [Tok T_SMALLDATETIMEFROMPARTS, Tok T_LR_BRACKET,
       Lab (Assign ''year'') (Ref RuleExpression), Tok T_COMMA,
       Lab (Assign ''month'') (Ref RuleExpression), Tok T_COMMA,
       Lab (Assign ''day'') (Ref RuleExpression), Tok T_COMMA,
       Lab (Assign ''hour'') (Ref RuleExpression), Tok T_COMMA,
       Lab (Assign ''minute'') (Ref RuleExpression), Tok T_RR_BRACKET]"

definition alt_SWITCHOFFSET :: ebnf where [grammar_rules]:
  "alt_SWITCHOFFSET = Seq [Tok T_SWITCHOFFSET, Tok T_LR_BRACKET,
       Lab (Assign ''datetimeoffset_expression'') (Ref RuleExpression), Tok T_COMMA,
       Lab (Assign ''timezoneoffset_expression'') (Ref RuleExpression), Tok T_RR_BRACKET]"

definition alt_SYSDATETIME :: ebnf where [grammar_rules]:
  "alt_SYSDATETIME = Seq [Tok T_SYSDATETIME, Tok T_LR_BRACKET, Tok T_RR_BRACKET]"

definition alt_SYSDATETIMEOFFSET :: ebnf where [grammar_rules]:
  "alt_SYSDATETIMEOFFSET = Seq [Tok T_SYSDATETIMEOFFSET, Tok T_LR_BRACKET, Tok T_RR_BRACKET]"

definition alt_SYSUTCDATETIME :: ebnf where [grammar_rules]:
  "alt_SYSUTCDATETIME = Seq [Tok T_SYSUTCDATETIME, Tok T_LR_BRACKET, Tok T_RR_BRACKET]"

definition alt_TIMEFROMPARTS :: ebnf where [grammar_rules]:
  "alt_TIMEFROMPARTS = Seq [Tok T_TIMEFROMPARTS, Tok T_LR_BRACKET, Lab (Assign ''hour'') (Ref RuleExpression),
       Tok T_COMMA, Lab (Assign ''minute'') (Ref RuleExpression), Tok T_COMMA,
       Lab (Assign ''seconds'') (Ref RuleExpression), Tok T_COMMA,
       Lab (Assign ''fractions'') (Ref RuleExpression), Tok T_COMMA,
       Lab (Assign ''precision'') (Tok T_DECIMAL), Tok T_RR_BRACKET]"

definition alt_TODATETIMEOFFSET :: ebnf where [grammar_rules]:
  "alt_TODATETIMEOFFSET = Seq [Tok T_TODATETIMEOFFSET, Tok T_LR_BRACKET,
       Lab (Assign ''datetime_expression'') (Ref RuleExpression), Tok T_COMMA,
       Lab (Assign ''timezoneoffset_expression'') (Ref RuleExpression), Tok T_RR_BRACKET]"

definition alt_YEAR :: ebnf where [grammar_rules]:
  "alt_YEAR = Seq [Tok T_YEAR, Tok T_LR_BRACKET, Lab (Assign ''date'') (Ref RuleExpression),
       Tok T_RR_BRACKET]"

definition alt_IDENTITY_2 :: ebnf where [grammar_rules]:
  "alt_IDENTITY_2 = Seq [Tok T_IDENTITY, Tok T_LR_BRACKET, Ref RuleData_type, Opt (Seq [Tok T_COMMA,
       Lab (Assign ''seed'') (Tok T_DECIMAL)]), Opt (Seq [Tok T_COMMA,
       Lab (Assign ''increment'') (Tok T_DECIMAL)]), Tok T_RR_BRACKET]"

definition alt_MIN_ACTIVE_ROWVERSION_2 :: ebnf where [grammar_rules]:
  "alt_MIN_ACTIVE_ROWVERSION_2 = Seq [Tok T_MIN_ACTIVE_ROWVERSION, Tok T_LR_BRACKET, Tok T_RR_BRACKET]"

definition alt_NULLIF :: ebnf where [grammar_rules]:
  "alt_NULLIF = Seq [Tok T_NULLIF, Tok T_LR_BRACKET, Lab (Assign ''left'') (Ref RuleExpression),
       Tok T_COMMA, Lab (Assign ''right'') (Ref RuleExpression), Tok T_RR_BRACKET]"

definition alt_PARSE :: ebnf where [grammar_rules]:
  "alt_PARSE = Seq [Tok T_PARSE, Tok T_LR_BRACKET, Lab (Assign ''str'') (Ref RuleExpression), Tok T_AS,
       Ref RuleData_type, Opt (Seq [Tok T_USING,
       Lab (Assign ''culture'') (Ref RuleExpression)]), Tok T_RR_BRACKET]"

definition alt_XML_DATA_TYPE_FUNC :: ebnf where [grammar_rules]:
  "alt_XML_DATA_TYPE_FUNC = Ref RuleXml_data_type_methods"

definition alt_IIF :: ebnf where [grammar_rules]:
  "alt_IIF = Seq [Tok T_IIF, Tok T_LR_BRACKET, Lab (Assign ''cond'') (Ref RuleSearch_condition),
       Tok T_COMMA, Lab (Assign ''left'') (Ref RuleExpression), Tok T_COMMA,
       Lab (Assign ''right'') (Ref RuleExpression), Tok T_RR_BRACKET]"

definition alt_ISJSON :: ebnf where [grammar_rules]:
  "alt_ISJSON = Seq [Tok T_ISJSON, Tok T_LR_BRACKET, Lab (Assign ''json_expr'') (Ref RuleExpression),
       Opt (Seq [Tok T_COMMA, Lab (Assign ''json_type_constraint'') (Ref RuleExpression)]),
       Tok T_RR_BRACKET]"

definition alt_JSON_OBJECT :: ebnf where [grammar_rules]:
  "alt_JSON_OBJECT = Seq [Tok T_JSON_OBJECT, Tok T_LR_BRACKET,
       Opt (Seq [Lab (Assign ''key_value'') (Ref RuleJson_key_value), Star (Seq [Tok T_COMMA,
       Lab (Assign ''key_value'') (Ref RuleJson_key_value)])]), Opt (Ref RuleJson_null_clause),
       Tok T_RR_BRACKET]"

definition alt_JSON_ARRAY :: ebnf where [grammar_rules]:
  "alt_JSON_ARRAY = Seq [Tok T_JSON_ARRAY, Tok T_LR_BRACKET, Opt (Ref RuleExpression_list'),
       Opt (Ref RuleJson_null_clause), Tok T_RR_BRACKET]"

definition alt_JSON_VALUE :: ebnf where [grammar_rules]:
  "alt_JSON_VALUE = Seq [Tok T_JSON_VALUE, Tok T_LR_BRACKET, Lab (Assign ''expr'') (Ref RuleExpression),
       Tok T_COMMA, Lab (Assign ''path'') (Ref RuleExpression), Tok T_RR_BRACKET]"

definition alt_JSON_QUERY :: ebnf where [grammar_rules]:
  "alt_JSON_QUERY = Seq [Tok T_JSON_QUERY, Tok T_LR_BRACKET, Lab (Assign ''expr'') (Ref RuleExpression),
       Opt (Seq [Tok T_COMMA, Lab (Assign ''path'') (Ref RuleExpression)]), Tok T_RR_BRACKET]"

definition alt_JSON_MODIFY :: ebnf where [grammar_rules]:
  "alt_JSON_MODIFY = Seq [Tok T_JSON_MODIFY, Tok T_LR_BRACKET, Lab (Assign ''expr'') (Ref RuleExpression),
       Tok T_COMMA, Lab (Assign ''path'') (Ref RuleExpression), Tok T_COMMA,
       Lab (Assign ''new_value'') (Ref RuleExpression), Tok T_RR_BRACKET]"

definition alt_JSON_PATH_EXISTS :: ebnf where [grammar_rules]:
  "alt_JSON_PATH_EXISTS = Seq [Tok T_JSON_PATH_EXISTS, Tok T_LR_BRACKET,
       Lab (Assign ''value_expression'') (Ref RuleExpression), Tok T_COMMA,
       Lab (Assign ''sql_json_path'') (Ref RuleExpression), Tok T_RR_BRACKET]"

definition alt_ABS :: ebnf where [grammar_rules]:
  "alt_ABS = Seq [Tok T_ABS, Tok T_LR_BRACKET,
       Lab (Assign ''numeric_expression'') (Ref RuleExpression), Tok T_RR_BRACKET]"

definition alt_ACOS :: ebnf where [grammar_rules]:
  "alt_ACOS = Seq [Tok T_ACOS, Tok T_LR_BRACKET, Lab (Assign ''float_expression'') (Ref RuleExpression),
       Tok T_RR_BRACKET]"

definition alt_ASIN :: ebnf where [grammar_rules]:
  "alt_ASIN = Seq [Tok T_ASIN, Tok T_LR_BRACKET, Lab (Assign ''float_expression'') (Ref RuleExpression),
       Tok T_RR_BRACKET]"

definition alt_ATAN :: ebnf where [grammar_rules]:
  "alt_ATAN = Seq [Tok T_ATAN, Tok T_LR_BRACKET, Lab (Assign ''float_expression'') (Ref RuleExpression),
       Tok T_RR_BRACKET]"

definition alt_ATN2 :: ebnf where [grammar_rules]:
  "alt_ATN2 = Seq [Tok T_ATN2, Tok T_LR_BRACKET, Lab (Assign ''float_expression'') (Ref RuleExpression),
       Tok T_COMMA, Lab (Assign ''float_expression'') (Ref RuleExpression), Tok T_RR_BRACKET]"

definition alt_CEILING :: ebnf where [grammar_rules]:
  "alt_CEILING = Seq [Tok T_CEILING, Tok T_LR_BRACKET,
       Lab (Assign ''numeric_expression'') (Ref RuleExpression), Tok T_RR_BRACKET]"

definition alt_COS :: ebnf where [grammar_rules]:
  "alt_COS = Seq [Tok T_COS, Tok T_LR_BRACKET, Lab (Assign ''float_expression'') (Ref RuleExpression),
       Tok T_RR_BRACKET]"

definition alt_COT :: ebnf where [grammar_rules]:
  "alt_COT = Seq [Tok T_COT, Tok T_LR_BRACKET, Lab (Assign ''float_expression'') (Ref RuleExpression),
       Tok T_RR_BRACKET]"

definition alt_DEGREES :: ebnf where [grammar_rules]:
  "alt_DEGREES = Seq [Tok T_DEGREES, Tok T_LR_BRACKET,
       Lab (Assign ''numeric_expression'') (Ref RuleExpression), Tok T_RR_BRACKET]"

definition alt_EXP :: ebnf where [grammar_rules]:
  "alt_EXP = Seq [Tok T_EXP, Tok T_LR_BRACKET, Lab (Assign ''float_expression'') (Ref RuleExpression),
       Tok T_RR_BRACKET]"

definition alt_FLOOR :: ebnf where [grammar_rules]:
  "alt_FLOOR = Seq [Tok T_FLOOR, Tok T_LR_BRACKET,
       Lab (Assign ''numeric_expression'') (Ref RuleExpression), Tok T_RR_BRACKET]"

definition alt_LOG :: ebnf where [grammar_rules]:
  "alt_LOG = Seq [Tok T_LOG, Tok T_LR_BRACKET, Lab (Assign ''float_expression'') (Ref RuleExpression),
       Opt (Seq [Tok T_COMMA, Lab (Assign ''base'') (Ref RuleExpression)]), Tok T_RR_BRACKET]"

definition alt_LOG10 :: ebnf where [grammar_rules]:
  "alt_LOG10 = Seq [Tok T_LOG10, Tok T_LR_BRACKET,
       Lab (Assign ''float_expression'') (Ref RuleExpression), Tok T_RR_BRACKET]"

definition alt_PI :: ebnf where [grammar_rules]:
  "alt_PI = Seq [Tok T_PI, Tok T_LR_BRACKET, Tok T_RR_BRACKET]"

definition alt_POWER :: ebnf where [grammar_rules]:
  "alt_POWER = Seq [Tok T_POWER, Tok T_LR_BRACKET,
       Lab (Assign ''float_expression'') (Ref RuleExpression), Tok T_COMMA,
       Lab (Assign ''y'') (Ref RuleExpression), Tok T_RR_BRACKET]"

definition alt_RADIANS :: ebnf where [grammar_rules]:
  "alt_RADIANS = Seq [Tok T_RADIANS, Tok T_LR_BRACKET,
       Lab (Assign ''numeric_expression'') (Ref RuleExpression), Tok T_RR_BRACKET]"

definition alt_RAND :: ebnf where [grammar_rules]:
  "alt_RAND = Seq [Tok T_RAND, Tok T_LR_BRACKET, Opt (Lab (Assign ''seed'') (Ref RuleExpression)),
       Tok T_RR_BRACKET]"

definition alt_ROUND :: ebnf where [grammar_rules]:
  "alt_ROUND = Seq [Tok T_ROUND, Tok T_LR_BRACKET,
       Lab (Assign ''numeric_expression'') (Ref RuleExpression), Tok T_COMMA,
       Lab (Assign ''length'') (Ref RuleExpression), Opt (Seq [Tok T_COMMA,
       Lab (Assign ''function'') (Ref RuleExpression)]), Tok T_RR_BRACKET]"

definition alt_MATH_SIGN :: ebnf where [grammar_rules]:
  "alt_MATH_SIGN = Seq [Tok T_SIGN, Tok T_LR_BRACKET,
       Lab (Assign ''numeric_expression'') (Ref RuleExpression), Tok T_RR_BRACKET]"

definition alt_SIN :: ebnf where [grammar_rules]:
  "alt_SIN = Seq [Tok T_SIN, Tok T_LR_BRACKET, Lab (Assign ''float_expression'') (Ref RuleExpression),
       Tok T_RR_BRACKET]"

definition alt_SQRT :: ebnf where [grammar_rules]:
  "alt_SQRT = Seq [Tok T_SQRT, Tok T_LR_BRACKET, Lab (Assign ''float_expression'') (Ref RuleExpression),
       Tok T_RR_BRACKET]"

definition alt_SQUARE :: ebnf where [grammar_rules]:
  "alt_SQUARE = Seq [Tok T_SQUARE, Tok T_LR_BRACKET,
       Lab (Assign ''float_expression'') (Ref RuleExpression), Tok T_RR_BRACKET]"

definition alt_TAN :: ebnf where [grammar_rules]:
  "alt_TAN = Seq [Tok T_TAN, Tok T_LR_BRACKET, Lab (Assign ''float_expression'') (Ref RuleExpression),
       Tok T_RR_BRACKET]"

definition alt_GREATEST :: ebnf where [grammar_rules]:
  "alt_GREATEST = Seq [Tok T_GREATEST, Tok T_LR_BRACKET, Ref RuleExpression_list', Tok T_RR_BRACKET]"

definition alt_LEAST :: ebnf where [grammar_rules]:
  "alt_LEAST = Seq [Tok T_LEAST, Tok T_LR_BRACKET, Ref RuleExpression_list', Tok T_RR_BRACKET]"

definition alt_CERTENCODED :: ebnf where [grammar_rules]:
  "alt_CERTENCODED = Seq [Tok T_CERTENCODED, Tok T_LR_BRACKET, Lab (Assign ''certid'') (Ref RuleExpression),
       Tok T_RR_BRACKET]"

definition alt_CERTPRIVATEKEY :: ebnf where [grammar_rules]:
  "alt_CERTPRIVATEKEY = Seq [Tok T_CERTPRIVATEKEY, Tok T_LR_BRACKET, Lab (Assign ''certid'') (Ref RuleExpression),
       Tok T_COMMA, Lab (Assign ''encryption_password'') (Ref RuleExpression),
       Opt (Seq [Tok T_COMMA, Lab (Assign ''decryption_pasword'') (Ref RuleExpression)]),
       Tok T_RR_BRACKET]"

definition alt_CURRENT_USER :: ebnf where [grammar_rules]:
  "alt_CURRENT_USER = Tok T_CURRENT_USER"

definition alt_DATABASE_PRINCIPAL_ID :: ebnf where [grammar_rules]:
  "alt_DATABASE_PRINCIPAL_ID = Seq [Tok T_DATABASE_PRINCIPAL_ID, Tok T_LR_BRACKET,
       Opt (Lab (Assign ''principal_name'') (Ref RuleExpression)), Tok T_RR_BRACKET]"

definition alt_HAS_DBACCESS :: ebnf where [grammar_rules]:
  "alt_HAS_DBACCESS = Seq [Tok T_HAS_DBACCESS, Tok T_LR_BRACKET,
       Lab (Assign ''database_name'') (Ref RuleExpression), Tok T_RR_BRACKET]"

definition alt_HAS_PERMS_BY_NAME :: ebnf where [grammar_rules]:
  "alt_HAS_PERMS_BY_NAME = Seq [Tok T_HAS_PERMS_BY_NAME, Tok T_LR_BRACKET,
       Lab (Assign ''securable'') (Ref RuleExpression), Tok T_COMMA,
       Lab (Assign ''securable_class'') (Ref RuleExpression), Tok T_COMMA,
       Lab (Assign ''permission'') (Ref RuleExpression), Opt (Seq [Tok T_COMMA,
       Lab (Assign ''sub_securable'') (Ref RuleExpression), Opt (Seq [Tok T_COMMA,
       Lab (Assign ''sub_securable_class'') (Ref RuleExpression)])]), Tok T_RR_BRACKET]"

definition alt_IS_MEMBER :: ebnf where [grammar_rules]:
  "alt_IS_MEMBER = Seq [Tok T_IS_MEMBER, Tok T_LR_BRACKET,
       Lab (Assign ''group_or_role'') (Ref RuleExpression), Tok T_RR_BRACKET]"

definition alt_IS_ROLEMEMBER :: ebnf where [grammar_rules]:
  "alt_IS_ROLEMEMBER = Seq [Tok T_IS_ROLEMEMBER, Tok T_LR_BRACKET, Lab (Assign ''role'') (Ref RuleExpression),
       Opt (Seq [Tok T_COMMA, Lab (Assign ''database_principal'') (Ref RuleExpression)]),
       Tok T_RR_BRACKET]"

definition alt_IS_SRVROLEMEMBER :: ebnf where [grammar_rules]:
  "alt_IS_SRVROLEMEMBER = Seq [Tok T_IS_SRVROLEMEMBER, Tok T_LR_BRACKET, Lab (Assign ''role'') (Ref RuleExpression),
       Opt (Seq [Tok T_COMMA, Lab (Assign ''login'') (Ref RuleExpression)]), Tok T_RR_BRACKET]"

definition alt_LOGINPROPERTY :: ebnf where [grammar_rules]:
  "alt_LOGINPROPERTY = Seq [Tok T_LOGINPROPERTY, Tok T_LR_BRACKET,
       Lab (Assign ''login_name'') (Ref RuleExpression), Tok T_COMMA,
       Lab (Assign ''property_name'') (Ref RuleExpression), Tok T_RR_BRACKET]"

definition alt_ORIGINAL_LOGIN :: ebnf where [grammar_rules]:
  "alt_ORIGINAL_LOGIN = Seq [Tok T_ORIGINAL_LOGIN, Tok T_LR_BRACKET, Tok T_RR_BRACKET]"

definition alt_PERMISSIONS :: ebnf where [grammar_rules]:
  "alt_PERMISSIONS = Seq [Tok T_PERMISSIONS, Tok T_LR_BRACKET,
       Opt (Seq [Lab (Assign ''object_id'') (Ref RuleExpression), Opt (Seq [Tok T_COMMA,
       Lab (Assign ''column'') (Ref RuleExpression)])]), Tok T_RR_BRACKET]"

definition alt_PWDENCRYPT :: ebnf where [grammar_rules]:
  "alt_PWDENCRYPT = Seq [Tok T_PWDENCRYPT, Tok T_LR_BRACKET, Lab (Assign ''password'') (Ref RuleExpression),
       Tok T_RR_BRACKET]"

definition alt_PWDCOMPARE :: ebnf where [grammar_rules]:
  "alt_PWDCOMPARE = Seq [Tok T_PWDCOMPARE, Tok T_LR_BRACKET,
       Lab (Assign ''clear_text_password'') (Ref RuleExpression), Tok T_COMMA,
       Lab (Assign ''password_hash'') (Ref RuleExpression), Opt (Seq [Tok T_COMMA,
       Lab (Assign ''version'') (Ref RuleExpression)]), Tok T_RR_BRACKET]"

definition alt_SESSION_USER :: ebnf where [grammar_rules]:
  "alt_SESSION_USER = Tok T_SESSION_USER"

definition alt_SESSIONPROPERTY :: ebnf where [grammar_rules]:
  "alt_SESSIONPROPERTY = Seq [Tok T_SESSIONPROPERTY, Tok T_LR_BRACKET,
       Lab (Assign ''option_name'') (Ref RuleExpression), Tok T_RR_BRACKET]"

definition alt_SUSER_ID :: ebnf where [grammar_rules]:
  "alt_SUSER_ID = Seq [Tok T_SUSER_ID, Tok T_LR_BRACKET, Opt (Lab (Assign ''login'') (Ref RuleExpression)),
       Tok T_RR_BRACKET]"

definition alt_SUSER_SNAME :: ebnf where [grammar_rules]:
  "alt_SUSER_SNAME = Seq [Tok T_SUSER_NAME, Tok T_LR_BRACKET,
       Opt (Lab (Assign ''server_user_sid'') (Ref RuleExpression)), Tok T_RR_BRACKET]"

definition alt_SUSER_SID :: ebnf where [grammar_rules]:
  "alt_SUSER_SID = Seq [Tok T_SUSER_SID, Tok T_LR_BRACKET,
       Opt (Seq [Lab (Assign ''login'') (Ref RuleExpression), Opt (Seq [Tok T_COMMA,
       Lab (Assign ''param2'') (Ref RuleExpression)])]), Tok T_RR_BRACKET]"

definition alt_SUSER_SNAME_2 :: ebnf where [grammar_rules]:
  "alt_SUSER_SNAME_2 = Seq [Tok T_SUSER_SNAME, Tok T_LR_BRACKET,
       Opt (Lab (Assign ''server_user_sid'') (Ref RuleExpression)), Tok T_RR_BRACKET]"

definition alt_SYSTEM_USER :: ebnf where [grammar_rules]:
  "alt_SYSTEM_USER = Tok T_SYSTEM_USER"

definition alt_USER :: ebnf where [grammar_rules]:
  "alt_USER = Tok T_USER"

definition alt_USER_ID :: ebnf where [grammar_rules]:
  "alt_USER_ID = Seq [Tok T_USER_ID, Tok T_LR_BRACKET, Opt (Lab (Assign ''user'') (Ref RuleExpression)),
       Tok T_RR_BRACKET]"

definition alt_USER_NAME :: ebnf where [grammar_rules]:
  "alt_USER_NAME = Seq [Tok T_USER_NAME, Tok T_LR_BRACKET, Opt (Lab (Assign ''id'') (Ref RuleExpression)),
       Tok T_RR_BRACKET]"

definition g_built_in_functions :: rule where [grammar_rules]:
  "g_built_in_functions = \<lparr>rule_index = RuleBuilt_in_functions, rule_alts = [
       (Some L_APP_NAME, alt_APP_NAME),
       (Some L_APPLOCK_MODE, alt_APPLOCK_MODE),
       (Some L_APPLOCK_TEST, alt_APPLOCK_TEST),
       (Some L_ASSEMBLYPROPERTY, alt_ASSEMBLYPROPERTY),
       (Some L_COL_LENGTH, alt_COL_LENGTH),
       (Some L_COL_NAME, alt_COL_NAME),
       (Some L_COLUMNPROPERTY, alt_COLUMNPROPERTY),
       (Some L_DATABASEPROPERTYEX, alt_DATABASEPROPERTYEX),
       (Some L_DB_ID, alt_DB_ID),
       (Some L_DB_NAME, alt_DB_NAME),
       (Some L_FILE_ID, alt_FILE_ID),
       (Some L_FILE_IDEX, alt_FILE_IDEX),
       (Some L_FILE_NAME, alt_FILE_NAME),
       (Some L_FILEGROUP_ID, alt_FILEGROUP_ID),
       (Some L_FILEGROUP_NAME, alt_FILEGROUP_NAME),
       (Some L_FILEGROUPPROPERTY, alt_FILEGROUPPROPERTY),
       (Some L_FILEPROPERTY, alt_FILEPROPERTY),
       (Some L_FILEPROPERTYEX, alt_FILEPROPERTYEX),
       (Some L_FULLTEXTCATALOGPROPERTY, alt_FULLTEXTCATALOGPROPERTY),
       (Some L_FULLTEXTSERVICEPROPERTY, alt_FULLTEXTSERVICEPROPERTY),
       (Some L_INDEX_COL, alt_INDEX_COL),
       (Some L_INDEXKEY_PROPERTY, alt_INDEXKEY_PROPERTY),
       (Some L_INDEXPROPERTY, alt_INDEXPROPERTY),
       (Some L_NEXT_VALUE_FOR, alt_NEXT_VALUE_FOR),
       (Some L_OBJECT_DEFINITION, alt_OBJECT_DEFINITION),
       (Some L_OBJECT_ID, alt_OBJECT_ID),
       (Some L_OBJECT_NAME, alt_OBJECT_NAME),
       (Some L_OBJECT_SCHEMA_NAME, alt_OBJECT_SCHEMA_NAME),
       (Some L_OBJECTPROPERTY, alt_OBJECTPROPERTY),
       (Some L_OBJECTPROPERTYEX, alt_OBJECTPROPERTYEX),
       (Some L_ORIGINAL_DB_NAME, alt_ORIGINAL_DB_NAME),
       (Some L_PARSENAME, alt_PARSENAME),
       (Some L_SCHEMA_ID, alt_SCHEMA_ID),
       (Some L_SCHEMA_NAME, alt_SCHEMA_NAME),
       (Some L_SCOPE_IDENTITY, alt_SCOPE_IDENTITY),
       (Some L_SERVERPROPERTY, alt_SERVERPROPERTY),
       (Some L_STATS_DATE, alt_STATS_DATE),
       (Some L_TYPE_ID, alt_TYPE_ID),
       (Some L_TYPE_NAME, alt_TYPE_NAME),
       (Some L_TYPEPROPERTY, alt_TYPEPROPERTY),
       (Some L_ASCII, alt_ASCII),
       (Some L_CHAR, alt_CHAR),
       (Some L_CHARINDEX, alt_CHARINDEX),
       (Some L_CONCAT, alt_CONCAT),
       (Some L_CONCAT_WS, alt_CONCAT_WS),
       (Some L_DIFFERENCE, alt_DIFFERENCE),
       (Some L_FORMAT, alt_FORMAT),
       (Some L_LEFT, alt_LEFT),
       (Some L_LEN, alt_LEN),
       (Some L_LOWER, alt_LOWER),
       (Some L_LTRIM, alt_LTRIM),
       (Some L_NCHAR, alt_NCHAR),
       (Some L_PATINDEX, alt_PATINDEX),
       (Some L_QUOTENAME, alt_QUOTENAME),
       (Some L_REPLACE, alt_REPLACE),
       (Some L_REPLICATE, alt_REPLICATE),
       (Some L_REVERSE, alt_REVERSE),
       (Some L_RIGHT, alt_RIGHT),
       (Some L_RTRIM, alt_RTRIM),
       (Some L_SOUNDEX, alt_SOUNDEX),
       (Some L_SPACE, alt_SPACE),
       (Some L_STR, alt_STR),
       (Some L_STRINGAGG, alt_STRINGAGG),
       (Some L_STRING_ESCAPE, alt_STRING_ESCAPE),
       (Some L_STUFF, alt_STUFF),
       (Some L_SUBSTRING, alt_SUBSTRING),
       (Some L_TRANSLATE, alt_TRANSLATE),
       (Some L_TRIM, alt_TRIM),
       (Some L_UNICODE, alt_UNICODE),
       (Some L_UPPER, alt_UPPER),
       (Some L_BINARY_CHECKSUM, alt_BINARY_CHECKSUM),
       (Some L_CHECKSUM, alt_CHECKSUM),
       (Some L_COMPRESS, alt_COMPRESS),
       (Some L_CONNECTIONPROPERTY, alt_CONNECTIONPROPERTY),
       (Some L_CONTEXT_INFO, alt_CONTEXT_INFO),
       (Some L_CURRENT_REQUEST_ID, alt_CURRENT_REQUEST_ID),
       (Some L_CURRENT_TRANSACTION_ID, alt_CURRENT_TRANSACTION_ID),
       (Some L_DECOMPRESS, alt_DECOMPRESS),
       (Some L_ERROR_LINE, alt_ERROR_LINE),
       (Some L_ERROR_MESSAGE, alt_ERROR_MESSAGE),
       (Some L_ERROR_NUMBER, alt_ERROR_NUMBER),
       (Some L_ERROR_PROCEDURE, alt_ERROR_PROCEDURE),
       (Some L_ERROR_SEVERITY, alt_ERROR_SEVERITY),
       (Some L_ERROR_STATE, alt_ERROR_STATE),
       (Some L_FORMATMESSAGE, alt_FORMATMESSAGE),
       (Some L_GET_FILESTREAM_TRANSACTION_CONTEXT, alt_GET_FILESTREAM_TRANSACTION_CONTEXT),
       (Some L_GETANSINULL, alt_GETANSINULL),
       (Some L_HOST_ID, alt_HOST_ID),
       (Some L_HOST_NAME, alt_HOST_NAME),
       (Some L_ISNULL, alt_ISNULL),
       (Some L_ISNUMERIC, alt_ISNUMERIC),
       (Some L_MIN_ACTIVE_ROWVERSION, alt_MIN_ACTIVE_ROWVERSION),
       (Some L_NEWID, alt_NEWID),
       (Some L_NEWSEQUENTIALID, alt_NEWSEQUENTIALID),
       (Some L_ROWCOUNT_BIG, alt_ROWCOUNT_BIG),
       (Some L_SESSION_CONTEXT, alt_SESSION_CONTEXT),
       (Some L_XACT_STATE, alt_XACT_STATE),
       (Some L_CAST, alt_CAST),
       (Some L_TRY_CAST, alt_TRY_CAST),
       (Some L_CONVERT, alt_CONVERT),
       (Some L_COALESCE, alt_COALESCE),
       (Some L_CURSOR_ROWS, alt_CURSOR_ROWS),
       (Some L_FETCH_STATUS, alt_FETCH_STATUS),
       (Some L_CURSOR_STATUS, alt_CURSOR_STATUS),
       (Some L_CERT_ID, alt_CERT_ID),
       (Some L_DATALENGTH, alt_DATALENGTH),
       (Some L_IDENT_CURRENT, alt_IDENT_CURRENT),
       (Some L_IDENT_INCR, alt_IDENT_INCR),
       (Some L_IDENT_SEED, alt_IDENT_SEED),
       (Some L_IDENTITY, alt_IDENTITY),
       (Some L_SQL_VARIANT_PROPERTY, alt_SQL_VARIANT_PROPERTY),
       (Some L_CURRENT_DATE, alt_CURRENT_DATE),
       (Some L_CURRENT_TIMESTAMP, alt_CURRENT_TIMESTAMP),
       (Some L_CURRENT_TIMEZONE, alt_CURRENT_TIMEZONE),
       (Some L_CURRENT_TIMEZONE_ID, alt_CURRENT_TIMEZONE_ID),
       (Some L_DATE_BUCKET, alt_DATE_BUCKET),
       (Some L_DATEADD, alt_DATEADD),
       (Some L_DATEDIFF, alt_DATEDIFF),
       (Some L_DATEDIFF_BIG, alt_DATEDIFF_BIG),
       (Some L_DATEFROMPARTS, alt_DATEFROMPARTS),
       (Some L_DATENAME, alt_DATENAME),
       (Some L_DATEPART, alt_DATEPART),
       (Some L_DATETIME2FROMPARTS, alt_DATETIME2FROMPARTS),
       (Some L_DATETIMEFROMPARTS, alt_DATETIMEFROMPARTS),
       (Some L_DATETIMEOFFSETFROMPARTS, alt_DATETIMEOFFSETFROMPARTS),
       (Some L_DATETRUNC, alt_DATETRUNC),
       (Some L_DAY, alt_DAY),
       (Some L_EOMONTH, alt_EOMONTH),
       (Some L_GETDATE, alt_GETDATE),
       (Some L_GETUTCDATE, alt_GETUTCDATE),
       (Some L_ISDATE, alt_ISDATE),
       (Some L_MONTH, alt_MONTH),
       (Some L_SMALLDATETIMEFROMPARTS, alt_SMALLDATETIMEFROMPARTS),
       (Some L_SWITCHOFFSET, alt_SWITCHOFFSET),
       (Some L_SYSDATETIME, alt_SYSDATETIME),
       (Some L_SYSDATETIMEOFFSET, alt_SYSDATETIMEOFFSET),
       (Some L_SYSUTCDATETIME, alt_SYSUTCDATETIME),
       (Some L_TIMEFROMPARTS, alt_TIMEFROMPARTS),
       (Some L_TODATETIMEOFFSET, alt_TODATETIMEOFFSET),
       (Some L_YEAR, alt_YEAR),
       (Some L_IDENTITY, alt_IDENTITY_2),
       (Some L_MIN_ACTIVE_ROWVERSION, alt_MIN_ACTIVE_ROWVERSION_2),
       (Some L_NULLIF, alt_NULLIF),
       (Some L_PARSE, alt_PARSE),
       (Some L_XML_DATA_TYPE_FUNC, alt_XML_DATA_TYPE_FUNC),
       (Some L_IIF, alt_IIF),
       (Some L_ISJSON, alt_ISJSON),
       (Some L_JSON_OBJECT, alt_JSON_OBJECT),
       (Some L_JSON_ARRAY, alt_JSON_ARRAY),
       (Some L_JSON_VALUE, alt_JSON_VALUE),
       (Some L_JSON_QUERY, alt_JSON_QUERY),
       (Some L_JSON_MODIFY, alt_JSON_MODIFY),
       (Some L_JSON_PATH_EXISTS, alt_JSON_PATH_EXISTS),
       (Some L_ABS, alt_ABS),
       (Some L_ACOS, alt_ACOS),
       (Some L_ASIN, alt_ASIN),
       (Some L_ATAN, alt_ATAN),
       (Some L_ATN2, alt_ATN2),
       (Some L_CEILING, alt_CEILING),
       (Some L_COS, alt_COS),
       (Some L_COT, alt_COT),
       (Some L_DEGREES, alt_DEGREES),
       (Some L_EXP, alt_EXP),
       (Some L_FLOOR, alt_FLOOR),
       (Some L_LOG, alt_LOG),
       (Some L_LOG10, alt_LOG10),
       (Some L_PI, alt_PI),
       (Some L_POWER, alt_POWER),
       (Some L_RADIANS, alt_RADIANS),
       (Some L_RAND, alt_RAND),
       (Some L_ROUND, alt_ROUND),
       (Some L_MATH_SIGN, alt_MATH_SIGN),
       (Some L_SIN, alt_SIN),
       (Some L_SQRT, alt_SQRT),
       (Some L_SQUARE, alt_SQUARE),
       (Some L_TAN, alt_TAN),
       (Some L_GREATEST, alt_GREATEST),
       (Some L_LEAST, alt_LEAST),
       (Some L_CERTENCODED, alt_CERTENCODED),
       (Some L_CERTPRIVATEKEY, alt_CERTPRIVATEKEY),
       (Some L_CURRENT_USER, alt_CURRENT_USER),
       (Some L_DATABASE_PRINCIPAL_ID, alt_DATABASE_PRINCIPAL_ID),
       (Some L_HAS_DBACCESS, alt_HAS_DBACCESS),
       (Some L_HAS_PERMS_BY_NAME, alt_HAS_PERMS_BY_NAME),
       (Some L_IS_MEMBER, alt_IS_MEMBER),
       (Some L_IS_ROLEMEMBER, alt_IS_ROLEMEMBER),
       (Some L_IS_SRVROLEMEMBER, alt_IS_SRVROLEMEMBER),
       (Some L_LOGINPROPERTY, alt_LOGINPROPERTY),
       (Some L_ORIGINAL_LOGIN, alt_ORIGINAL_LOGIN),
       (Some L_PERMISSIONS, alt_PERMISSIONS),
       (Some L_PWDENCRYPT, alt_PWDENCRYPT),
       (Some L_PWDCOMPARE, alt_PWDCOMPARE),
       (Some L_SESSION_USER, alt_SESSION_USER),
       (Some L_SESSIONPROPERTY, alt_SESSIONPROPERTY),
       (Some L_SUSER_ID, alt_SUSER_ID),
       (Some L_SUSER_SNAME, alt_SUSER_SNAME),
       (Some L_SUSER_SID, alt_SUSER_SID),
       (Some L_SUSER_SNAME, alt_SUSER_SNAME_2),
       (Some L_SYSTEM_USER, alt_SYSTEM_USER),
       (Some L_USER, alt_USER),
       (Some L_USER_ID, alt_USER_ID),
       (Some L_USER_NAME, alt_USER_NAME)]\<rparr>"

definition rules_5 :: grammar where
  "rules_5 = [
     g_optimize_for_arg, g_select_list, g_udt_method_arguments, g_asterisk, g_udt_elem,
     g_expression_elem, g_select_list_elem, g_table_sources, g_table_source,
     g_table_source_item, g_open_xml, g_open_json, g_json_declaration,
     g_json_column_declaration, g_schema_declaration, g_column_declaration, g_change_table,
     g_change_table_changes, g_change_table_version, g_join_part, g_join_on, g_cross_join,
     g_apply', g_pivot, g_unpivot, g_pivot_clause, g_unpivot_clause, g_full_column_name_list,
     g_rowset_function, g_bulk_option, g_derived_table, g_function_call, g_partition_function,
     g_freetext_function, g_freetext_predicate, g_json_key_value, g_json_null_clause,
     g_built_in_functions]"

end
