(* ===== verification/Contexts_5.thy ===== *)
theory Contexts_5
  imports Contexts Tokens Rule_Ids Label_Ids
begin

text \<open>
  Context classes of \<open>src/port/cpp/TSqlParser.h\<close>, from \<open>Optimize_for_argContext\<close> to
  \<open>STRINGAGGContext\<close>: one definition per class, its members in the order of their declarations.
\<close>

definition Optimize_for_argContext :: context_class where [context_classes]:
  "Optimize_for_argContext = \<lparr>class_id = RuleContext RuleOptimize_for_arg, class_base = ParserRuleContext, members = [
     Constructor, GetRuleIndex, TerminalGet T_LOCAL_ID, TerminalGet T_UNKNOWN,
     TerminalGet T_EQUAL, ContextGet RuleConstant, TerminalGet T_NULL', EnterRule, ExitRule,
     Accept]\<rparr>"

definition Select_listContext :: context_class where [context_classes]:
  "Select_listContext = \<lparr>class_id = RuleContext RuleSelect_list, class_base = ParserRuleContext, members = [
     ContextField ''select_list_elemContext'' RuleSelect_list_elem,
     ContextListField ''selectElement'' RuleSelect_list_elem, Constructor, GetRuleIndex,
     ContextAll RuleSelect_list_elem, ContextNth RuleSelect_list_elem, TerminalAll T_COMMA,
     TerminalNth T_COMMA, EnterRule, ExitRule, Accept]\<rparr>"

definition Udt_method_argumentsContext :: context_class where [context_classes]:
  "Udt_method_argumentsContext = \<lparr>class_id = RuleContext RuleUdt_method_arguments, class_base = ParserRuleContext, members = [
     ContextField ''execute_var_stringContext'' RuleExecute_var_string,
     ContextListField ''argument'' RuleExecute_var_string, Constructor, GetRuleIndex,
     TerminalGet T_LR_BRACKET, TerminalGet T_RR_BRACKET, ContextAll RuleExecute_var_string,
     ContextNth RuleExecute_var_string, TerminalAll T_COMMA, TerminalNth T_COMMA, EnterRule,
     ExitRule, Accept]\<rparr>"

definition AsteriskContext :: context_class where [context_classes]:
  "AsteriskContext = \<lparr>class_id = RuleContext RuleAsterisk, class_base = ParserRuleContext, members = [
     Constructor, GetRuleIndex, TerminalGet T_STAR, ContextGet RuleTable_name,
     TerminalGet T_DOT, TerminalGet T_INSERTED, TerminalGet T_DELETED, EnterRule, ExitRule,
     Accept]\<rparr>"

definition Udt_elemContext :: context_class where [context_classes]:
  "Udt_elemContext = \<lparr>class_id = RuleContext RuleUdt_elem, class_base = ParserRuleContext, members = [
     ContextField ''udt_column_name'' RuleId', ContextField ''non_static_attr'' RuleId',
     ContextField ''static_attr'' RuleId', Constructor, GetRuleIndex, TerminalGet T_DOT,
     ContextGet RuleUdt_method_arguments, ContextAll RuleId', ContextNth RuleId',
     ContextGet RuleAs_column_alias, TerminalGet T_DOUBLE_COLON, EnterRule, ExitRule, Accept]\<rparr>"

definition Expression_elemContext :: context_class where [context_classes]:
  "Expression_elemContext = \<lparr>class_id = RuleContext RuleExpression_elem, class_base = ParserRuleContext, members = [
     ContextField ''leftAlias'' RuleColumn_alias, TokenField ''eq'',
     ContextField ''leftAssignment'' RuleExpression,
     ContextField ''expressionAs'' RuleExpression, Constructor, GetRuleIndex,
     ContextGet RuleColumn_alias, TerminalGet T_EQUAL, ContextGet RuleExpression,
     ContextGet RuleAs_column_alias, EnterRule, ExitRule, Accept]\<rparr>"

definition Select_list_elemContext :: context_class where [context_classes]:
  "Select_list_elemContext = \<lparr>class_id = RuleContext RuleSelect_list_elem, class_base = ParserRuleContext, members = [
     Constructor, GetRuleIndex, ContextGet RuleAsterisk, ContextGet RuleUdt_elem,
     TerminalGet T_LOCAL_ID, ContextGet RuleExpression, ContextGet RuleAssignment_operator,
     TerminalGet T_EQUAL, ContextGet RuleExpression_elem, EnterRule, ExitRule, Accept]\<rparr>"

definition Table_sourcesContext :: context_class where [context_classes]:
  "Table_sourcesContext = \<lparr>class_id = RuleContext RuleTable_sources, class_base = ParserRuleContext, members = [
     ContextField ''table_sourceContext'' RuleTable_source,
     ContextListField ''source'' RuleTable_source, Constructor, GetRuleIndex,
     ContextGet RuleNon_ansi_join, ContextAll RuleTable_source, ContextNth RuleTable_source,
     TerminalAll T_COMMA, TerminalNth T_COMMA, EnterRule, ExitRule, Accept]\<rparr>"

definition Non_ansi_joinContext :: context_class where [context_classes]:
  "Non_ansi_joinContext = \<lparr>class_id = RuleContext RuleNon_ansi_join, class_base = ParserRuleContext, members = [
     ContextField ''table_sourceContext'' RuleTable_source,
     ContextListField ''source'' RuleTable_source, Constructor, GetRuleIndex,
     ContextAll RuleTable_source, ContextNth RuleTable_source, TerminalAll T_COMMA,
     TerminalNth T_COMMA, EnterRule, ExitRule, Accept]\<rparr>"

definition Table_sourceContext :: context_class where [context_classes]:
  "Table_sourceContext = \<lparr>class_id = RuleContext RuleTable_source, class_base = ParserRuleContext, members = [
     ContextField ''join_partContext'' RuleJoin_part, ContextListField ''joins'' RuleJoin_part,
     Constructor, GetRuleIndex, ContextGet RuleTable_source_item, ContextAll RuleJoin_part,
     ContextNth RuleJoin_part, EnterRule, ExitRule, Accept]\<rparr>"

definition Table_source_itemContext :: context_class where [context_classes]:
  "Table_source_itemContext = \<lparr>class_id = RuleContext RuleTable_source_item, class_base = ParserRuleContext, members = [
     TokenField ''loc_id'', TokenField ''loc_id_call'',
     ContextField ''loc_fcall'' RuleFunction_call,
     ContextField ''oldstyle_fcall'' RuleFunction_call, Constructor, GetRuleIndex,
     ContextGet RuleFull_table_name, ContextGet RuleDeprecated_table_hint,
     ContextGet RuleAs_table_alias, ContextGet RuleWith_table_hints,
     ContextGet RuleSybase_legacy_hints, ContextGet RuleRowset_function,
     TerminalGet T_LR_BRACKET, ContextGet RuleDerived_table, TerminalGet T_RR_BRACKET,
     ContextGet RuleColumn_alias_list, ContextGet RuleChange_table,
     ContextGet RuleNodes_method, ContextGet RuleFunction_call, TerminalGet T_LOCAL_ID,
     TerminalGet T_DOT, ContextGet RuleOpen_xml, ContextGet RuleOpen_json,
     TerminalGet T_DOUBLE_COLON, ContextGet RuleTable_source, EnterRule, ExitRule, Accept]\<rparr>"

definition Open_xmlContext :: context_class where [context_classes]:
  "Open_xmlContext = \<lparr>class_id = RuleContext RuleOpen_xml, class_base = ParserRuleContext, members = [
     Constructor, GetRuleIndex, TerminalGet T_OPENXML, TerminalAll T_LR_BRACKET,
     TerminalNth T_LR_BRACKET, ContextAll RuleExpression, ContextNth RuleExpression,
     TerminalAll T_COMMA, TerminalNth T_COMMA, TerminalAll T_RR_BRACKET,
     TerminalNth T_RR_BRACKET, TerminalGet T_WITH, ContextGet RuleSchema_declaration,
     ContextGet RuleAs_table_alias, EnterRule, ExitRule, Accept]\<rparr>"

definition Open_jsonContext :: context_class where [context_classes]:
  "Open_jsonContext = \<lparr>class_id = RuleContext RuleOpen_json, class_base = ParserRuleContext, members = [
     Constructor, GetRuleIndex, TerminalGet T_OPENJSON, TerminalAll T_LR_BRACKET,
     TerminalNth T_LR_BRACKET, ContextAll RuleExpression, ContextNth RuleExpression,
     TerminalAll T_RR_BRACKET, TerminalNth T_RR_BRACKET, TerminalGet T_COMMA,
     TerminalGet T_WITH, ContextGet RuleJson_declaration, ContextGet RuleAs_table_alias,
     EnterRule, ExitRule, Accept]\<rparr>"

definition Json_declarationContext :: context_class where [context_classes]:
  "Json_declarationContext = \<lparr>class_id = RuleContext RuleJson_declaration, class_base = ParserRuleContext, members = [
     ContextField ''json_column_declarationContext'' RuleJson_column_declaration,
     ContextListField ''json_col'' RuleJson_column_declaration, Constructor, GetRuleIndex,
     ContextAll RuleJson_column_declaration, ContextNth RuleJson_column_declaration,
     TerminalAll T_COMMA, TerminalNth T_COMMA, EnterRule, ExitRule, Accept]\<rparr>"

definition Json_column_declarationContext :: context_class where [context_classes]:
  "Json_column_declarationContext = \<lparr>class_id = RuleContext RuleJson_column_declaration, class_base = ParserRuleContext, members = [
     Constructor, GetRuleIndex, ContextGet RuleColumn_declaration, TerminalGet T_AS,
     TerminalGet T_JSON, EnterRule, ExitRule, Accept]\<rparr>"

definition Schema_declarationContext :: context_class where [context_classes]:
  "Schema_declarationContext = \<lparr>class_id = RuleContext RuleSchema_declaration, class_base = ParserRuleContext, members = [
     ContextField ''column_declarationContext'' RuleColumn_declaration,
     ContextListField ''xml_col'' RuleColumn_declaration, Constructor, GetRuleIndex,
     ContextAll RuleColumn_declaration, ContextNth RuleColumn_declaration, TerminalAll T_COMMA,
     TerminalNth T_COMMA, EnterRule, ExitRule, Accept]\<rparr>"

definition Column_declarationContext :: context_class where [context_classes]:
  "Column_declarationContext = \<lparr>class_id = RuleContext RuleColumn_declaration, class_base = ParserRuleContext, members = [
     Constructor, GetRuleIndex, ContextGet RuleId', ContextGet RuleData_type,
     TerminalGet T_STRING, EnterRule, ExitRule, Accept]\<rparr>"

definition Change_tableContext :: context_class where [context_classes]:
  "Change_tableContext = \<lparr>class_id = RuleContext RuleChange_table, class_base = ParserRuleContext, members = [
     Constructor, GetRuleIndex, ContextGet RuleChange_table_changes,
     ContextGet RuleChange_table_version, EnterRule, ExitRule, Accept]\<rparr>"

definition Change_table_changesContext :: context_class where [context_classes]:
  "Change_table_changesContext = \<lparr>class_id = RuleContext RuleChange_table_changes, class_base = ParserRuleContext, members = [
     ContextField ''changetable'' RuleTable_name, TokenField ''changesid'', Constructor,
     GetRuleIndex, TerminalGet T_CHANGETABLE, TerminalGet T_LR_BRACKET, TerminalGet T_CHANGES,
     TerminalGet T_COMMA, TerminalGet T_RR_BRACKET, ContextGet RuleTable_name,
     TerminalGet T_NULL', TerminalGet T_DECIMAL, TerminalGet T_LOCAL_ID, EnterRule, ExitRule,
     Accept]\<rparr>"

definition Change_table_versionContext :: context_class where [context_classes]:
  "Change_table_versionContext = \<lparr>class_id = RuleContext RuleChange_table_version, class_base = ParserRuleContext, members = [
     ContextField ''versiontable'' RuleTable_name,
     ContextField ''pk_columns'' RuleFull_column_name_list,
     ContextField ''pk_values'' RuleSelect_list, Constructor, GetRuleIndex,
     TerminalGet T_CHANGETABLE, TerminalGet T_LR_BRACKET, TerminalGet T_VERSION,
     TerminalAll T_COMMA, TerminalNth T_COMMA, TerminalGet T_RR_BRACKET,
     ContextGet RuleTable_name, ContextGet RuleFull_column_name_list,
     ContextGet RuleSelect_list, EnterRule, ExitRule, Accept]\<rparr>"

definition Join_partContext :: context_class where [context_classes]:
  "Join_partContext = \<lparr>class_id = RuleContext RuleJoin_part, class_base = ParserRuleContext, members = [
     Constructor, GetRuleIndex, ContextGet RuleJoin_on, ContextGet RuleCross_join,
     ContextGet RuleApply', ContextGet RulePivot, ContextGet RuleUnpivot, EnterRule, ExitRule,
     Accept]\<rparr>"

definition Join_onContext :: context_class where [context_classes]:
  "Join_onContext = \<lparr>class_id = RuleContext RuleJoin_on, class_base = ParserRuleContext, members = [
     TokenField ''inner'', TokenField ''join_type'', TokenField ''outer'',
     TokenField ''join_hint'', ContextField ''source'' RuleTable_source,
     ContextField ''cond'' RuleSearch_condition, Constructor, GetRuleIndex, TerminalGet T_JOIN,
     TerminalGet T_ON, ContextGet RuleTable_source, ContextGet RuleSearch_condition,
     TerminalGet T_LEFT, TerminalGet T_RIGHT, TerminalGet T_FULL, TerminalGet T_LOOP,
     TerminalGet T_HASH, TerminalGet T_MERGE, TerminalGet T_REMOTE, TerminalGet T_INNER,
     TerminalGet T_OUTER, EnterRule, ExitRule, Accept]\<rparr>"

definition Cross_joinContext :: context_class where [context_classes]:
  "Cross_joinContext = \<lparr>class_id = RuleContext RuleCross_join, class_base = ParserRuleContext, members = [
     Constructor, GetRuleIndex, TerminalGet T_CROSS, TerminalGet T_JOIN,
     ContextGet RuleTable_source_item, EnterRule, ExitRule, Accept]\<rparr>"

definition Apply_Context :: context_class where [context_classes]:
  "Apply_Context = \<lparr>class_id = RuleContext RuleApply', class_base = ParserRuleContext, members = [
     TokenField ''apply_style'', ContextField ''source'' RuleTable_source_item, Constructor,
     GetRuleIndex, TerminalGet T_APPLY, ContextGet RuleTable_source_item, TerminalGet T_CROSS,
     TerminalGet T_OUTER, EnterRule, ExitRule, Accept]\<rparr>"

definition PivotContext :: context_class where [context_classes]:
  "PivotContext = \<lparr>class_id = RuleContext RulePivot, class_base = ParserRuleContext, members = [
     Constructor, GetRuleIndex, TerminalGet T_PIVOT, ContextGet RulePivot_clause,
     ContextGet RuleAs_table_alias, EnterRule, ExitRule, Accept]\<rparr>"

definition UnpivotContext :: context_class where [context_classes]:
  "UnpivotContext = \<lparr>class_id = RuleContext RuleUnpivot, class_base = ParserRuleContext, members = [
     Constructor, GetRuleIndex, TerminalGet T_UNPIVOT, ContextGet RuleUnpivot_clause,
     ContextGet RuleAs_table_alias, EnterRule, ExitRule, Accept]\<rparr>"

definition Pivot_clauseContext :: context_class where [context_classes]:
  "Pivot_clauseContext = \<lparr>class_id = RuleContext RulePivot_clause, class_base = ParserRuleContext, members = [
     Constructor, GetRuleIndex, TerminalGet T_LR_BRACKET,
     ContextGet RuleAggregate_windowed_function, TerminalGet T_FOR,
     ContextGet RuleFull_column_name, TerminalGet T_IN, ContextGet RuleColumn_alias_list,
     TerminalGet T_RR_BRACKET, EnterRule, ExitRule, Accept]\<rparr>"

definition Unpivot_clauseContext :: context_class where [context_classes]:
  "Unpivot_clauseContext = \<lparr>class_id = RuleContext RuleUnpivot_clause, class_base = ParserRuleContext, members = [
     ContextField ''unpivot_exp'' RuleExpression, Constructor, GetRuleIndex,
     TerminalAll T_LR_BRACKET, TerminalNth T_LR_BRACKET, TerminalGet T_FOR,
     ContextGet RuleFull_column_name, TerminalGet T_IN, ContextGet RuleFull_column_name_list,
     TerminalAll T_RR_BRACKET, TerminalNth T_RR_BRACKET, ContextGet RuleExpression, EnterRule,
     ExitRule, Accept]\<rparr>"

definition Full_column_name_listContext :: context_class where [context_classes]:
  "Full_column_name_listContext = \<lparr>class_id = RuleContext RuleFull_column_name_list, class_base = ParserRuleContext, members = [
     ContextField ''full_column_nameContext'' RuleFull_column_name,
     ContextListField ''column'' RuleFull_column_name, Constructor, GetRuleIndex,
     ContextAll RuleFull_column_name, ContextNth RuleFull_column_name, TerminalAll T_COMMA,
     TerminalNth T_COMMA, EnterRule, ExitRule, Accept]\<rparr>"

definition Rowset_functionContext :: context_class where [context_classes]:
  "Rowset_functionContext = \<lparr>class_id = RuleContext RuleRowset_function, class_base = ParserRuleContext, members = [
     TokenField ''provider_name'', TokenField ''connectionString'', TokenField ''sql'',
     TokenField ''data_file'', Constructor, GetRuleIndex, TerminalGet T_OPENROWSET,
     TerminalGet T_LR_BRACKET, TerminalAll T_COMMA, TerminalNth T_COMMA,
     TerminalGet T_RR_BRACKET, TerminalAll T_STRING, TerminalNth T_STRING, TerminalGet T_BULK,
     ContextAll RuleBulk_option, ContextNth RuleBulk_option, ContextGet RuleId', EnterRule,
     ExitRule, Accept]\<rparr>"

definition Bulk_optionContext :: context_class where [context_classes]:
  "Bulk_optionContext = \<lparr>class_id = RuleContext RuleBulk_option, class_base = ParserRuleContext, members = [
     TokenField ''bulk_option_value'', Constructor, GetRuleIndex, ContextGet RuleId',
     TerminalGet T_EQUAL, TerminalGet T_DECIMAL, TerminalGet T_STRING, EnterRule, ExitRule,
     Accept]\<rparr>"

definition Derived_tableContext :: context_class where [context_classes]:
  "Derived_tableContext = \<lparr>class_id = RuleContext RuleDerived_table, class_base = ParserRuleContext, members = [
     Constructor, GetRuleIndex, ContextAll RuleSubquery, ContextNth RuleSubquery,
     TerminalGet T_LR_BRACKET, TerminalGet T_RR_BRACKET, TerminalAll T_UNION,
     TerminalNth T_UNION, TerminalAll T_ALL, TerminalNth T_ALL,
     ContextGet RuleTable_value_constructor, EnterRule, ExitRule, Accept]\<rparr>"

definition Function_callContext :: context_class where [context_classes]:
  "Function_callContext = \<lparr>class_id = RuleContext RuleFunction_call, class_base = ParserRuleContext, members = [
     Constructor, DefaultConstructor, CopyFrom RuleFunction_call, UsingCopyFrom, GetRuleIndex]\<rparr>"

definition RANKING_WINDOWED_FUNCContext :: context_class where [context_classes]:
  "RANKING_WINDOWED_FUNCContext = \<lparr>class_id = LabelContext L_RANKING_WINDOWED_FUNC, class_base = ContextClass RuleFunction_call, members = [
     ConstructorFrom RuleFunction_call, ContextGet RuleRanking_windowed_function, EnterRule,
     ExitRule, Accept]\<rparr>"

definition BUILT_IN_FUNCContext :: context_class where [context_classes]:
  "BUILT_IN_FUNCContext = \<lparr>class_id = LabelContext L_BUILT_IN_FUNC, class_base = ContextClass RuleFunction_call, members = [
     ConstructorFrom RuleFunction_call, ContextGet RuleBuilt_in_functions, EnterRule, ExitRule,
     Accept]\<rparr>"

definition FREE_TEXTContext :: context_class where [context_classes]:
  "FREE_TEXTContext = \<lparr>class_id = LabelContext L_FREE_TEXT, class_base = ContextClass RuleFunction_call, members = [
     ConstructorFrom RuleFunction_call, ContextGet RuleFreetext_function, EnterRule, ExitRule,
     Accept]\<rparr>"

definition ANALYTIC_WINDOWED_FUNCContext :: context_class where [context_classes]:
  "ANALYTIC_WINDOWED_FUNCContext = \<lparr>class_id = LabelContext L_ANALYTIC_WINDOWED_FUNC, class_base = ContextClass RuleFunction_call, members = [
     ConstructorFrom RuleFunction_call, ContextGet RuleAnalytic_windowed_function, EnterRule,
     ExitRule, Accept]\<rparr>"

definition SCALAR_FUNCTIONContext :: context_class where [context_classes]:
  "SCALAR_FUNCTIONContext = \<lparr>class_id = LabelContext L_SCALAR_FUNCTION, class_base = ContextClass RuleFunction_call, members = [
     ConstructorFrom RuleFunction_call, ContextGet RuleScalar_function_name,
     TerminalGet T_LR_BRACKET, TerminalGet T_RR_BRACKET, ContextGet RuleExpression_list',
     EnterRule, ExitRule, Accept]\<rparr>"

definition PARTITION_FUNCContext :: context_class where [context_classes]:
  "PARTITION_FUNCContext = \<lparr>class_id = LabelContext L_PARTITION_FUNC, class_base = ContextClass RuleFunction_call, members = [
     ConstructorFrom RuleFunction_call, ContextGet RulePartition_function, EnterRule, ExitRule,
     Accept]\<rparr>"

definition AGGREGATE_WINDOWED_FUNCContext :: context_class where [context_classes]:
  "AGGREGATE_WINDOWED_FUNCContext = \<lparr>class_id = LabelContext L_AGGREGATE_WINDOWED_FUNC, class_base = ContextClass RuleFunction_call, members = [
     ConstructorFrom RuleFunction_call, ContextGet RuleAggregate_windowed_function, EnterRule,
     ExitRule, Accept]\<rparr>"

definition HIERARCHYID_METHODContext :: context_class where [context_classes]:
  "HIERARCHYID_METHODContext = \<lparr>class_id = LabelContext L_HIERARCHYID_METHOD, class_base = ContextClass RuleFunction_call, members = [
     ConstructorFrom RuleFunction_call, ContextGet RuleHierarchyid_static_method, EnterRule,
     ExitRule, Accept]\<rparr>"

definition Partition_functionContext :: context_class where [context_classes]:
  "Partition_functionContext = \<lparr>class_id = RuleContext RulePartition_function, class_base = ParserRuleContext, members = [
     ContextField ''database'' RuleId', ContextField ''func_name'' RuleId', Constructor,
     GetRuleIndex, TerminalGet T_DOLLAR_PARTITION, TerminalAll T_DOT, TerminalNth T_DOT,
     TerminalGet T_LR_BRACKET, ContextGet RuleExpression, TerminalGet T_RR_BRACKET,
     ContextAll RuleId', ContextNth RuleId', EnterRule, ExitRule, Accept]\<rparr>"

definition Freetext_functionContext :: context_class where [context_classes]:
  "Freetext_functionContext = \<lparr>class_id = RuleContext RuleFreetext_function, class_base = ParserRuleContext, members = [
     Constructor, GetRuleIndex, TerminalAll T_LR_BRACKET, TerminalNth T_LR_BRACKET,
     ContextGet RuleTable_name, TerminalAll T_COMMA, TerminalNth T_COMMA,
     ContextAll RuleExpression, ContextNth RuleExpression, TerminalAll T_RR_BRACKET,
     TerminalNth T_RR_BRACKET, TerminalGet T_CONTAINSTABLE, TerminalGet T_FREETEXTTABLE,
     ContextAll RuleFull_column_name, ContextNth RuleFull_column_name, TerminalGet T_STAR,
     TerminalGet T_LANGUAGE, TerminalGet T_SEMANTICSIMILARITYTABLE,
     TerminalGet T_SEMANTICKEYPHRASETABLE, TerminalGet T_SEMANTICSIMILARITYDETAILSTABLE,
     EnterRule, ExitRule, Accept]\<rparr>"

definition Freetext_predicateContext :: context_class where [context_classes]:
  "Freetext_predicateContext = \<lparr>class_id = RuleContext RuleFreetext_predicate, class_base = ParserRuleContext, members = [
     Constructor, GetRuleIndex, TerminalGet T_CONTAINS, TerminalAll T_LR_BRACKET,
     TerminalNth T_LR_BRACKET, TerminalAll T_COMMA, TerminalNth T_COMMA,
     ContextAll RuleExpression, ContextNth RuleExpression, TerminalAll T_RR_BRACKET,
     TerminalNth T_RR_BRACKET, ContextAll RuleFull_column_name,
     ContextNth RuleFull_column_name, TerminalGet T_STAR, TerminalGet T_PROPERTY,
     TerminalGet T_FREETEXT, ContextGet RuleTable_name, TerminalGet T_LANGUAGE, EnterRule,
     ExitRule, Accept]\<rparr>"

definition Json_key_valueContext :: context_class where [context_classes]:
  "Json_key_valueContext = \<lparr>class_id = RuleContext RuleJson_key_value, class_base = ParserRuleContext, members = [
     ContextField ''json_key_name'' RuleExpression,
     ContextField ''value_expression'' RuleExpression, Constructor, GetRuleIndex,
     TerminalGet T_COLON, ContextAll RuleExpression, ContextNth RuleExpression, EnterRule,
     ExitRule, Accept]\<rparr>"

definition Json_null_clauseContext :: context_class where [context_classes]:
  "Json_null_clauseContext = \<lparr>class_id = RuleContext RuleJson_null_clause, class_base = ParserRuleContext, members = [
     Constructor, GetRuleIndex, TerminalGet T_ON, TerminalAll T_NULL', TerminalNth T_NULL',
     TerminalGet T_ABSENT, EnterRule, ExitRule, Accept]\<rparr>"

definition Built_in_functionsContext :: context_class where [context_classes]:
  "Built_in_functionsContext = \<lparr>class_id = RuleContext RuleBuilt_in_functions, class_base = ParserRuleContext, members = [
     Constructor, DefaultConstructor, CopyFrom RuleBuilt_in_functions, UsingCopyFrom,
     GetRuleIndex]\<rparr>"

definition COL_NAMEContext :: context_class where [context_classes]:
  "COL_NAMEContext = \<lparr>class_id = LabelContext L_COL_NAME, class_base = ContextClass RuleBuilt_in_functions, members = [
     ConstructorFrom RuleBuilt_in_functions, ContextField ''table_id'' RuleExpression,
     ContextField ''column_id'' RuleExpression, TerminalGet T_COL_NAME,
     TerminalGet T_LR_BRACKET, TerminalGet T_COMMA, TerminalGet T_RR_BRACKET,
     ContextAll RuleExpression, ContextNth RuleExpression, EnterRule, ExitRule, Accept]\<rparr>"

definition CHECKSUMContext :: context_class where [context_classes]:
  "CHECKSUMContext = \<lparr>class_id = LabelContext L_CHECKSUM, class_base = ContextClass RuleBuilt_in_functions, members = [
     ConstructorFrom RuleBuilt_in_functions, TokenField ''star'', TerminalGet T_CHECKSUM,
     TerminalGet T_LR_BRACKET, TerminalGet T_RR_BRACKET, ContextAll RuleExpression,
     ContextNth RuleExpression, TerminalGet T_STAR, TerminalAll T_COMMA, TerminalNth T_COMMA,
     EnterRule, ExitRule, Accept]\<rparr>"

definition DECOMPRESSContext :: context_class where [context_classes]:
  "DECOMPRESSContext = \<lparr>class_id = LabelContext L_DECOMPRESS, class_base = ContextClass RuleBuilt_in_functions, members = [
     ConstructorFrom RuleBuilt_in_functions, ContextField ''expr'' RuleExpression,
     TerminalGet T_DECOMPRESS, TerminalGet T_LR_BRACKET, TerminalGet T_RR_BRACKET,
     ContextGet RuleExpression, EnterRule, ExitRule, Accept]\<rparr>"

definition CURRENT_TIMEZONE_IDContext :: context_class where [context_classes]:
  "CURRENT_TIMEZONE_IDContext = \<lparr>class_id = LabelContext L_CURRENT_TIMEZONE_ID, class_base = ContextClass RuleBuilt_in_functions, members = [
     ConstructorFrom RuleBuilt_in_functions, TerminalGet T_CURRENT_TIMEZONE_ID,
     TerminalGet T_LR_BRACKET, TerminalGet T_RR_BRACKET, EnterRule, ExitRule, Accept]\<rparr>"

definition MONTHContext :: context_class where [context_classes]:
  "MONTHContext = \<lparr>class_id = LabelContext L_MONTH, class_base = ContextClass RuleBuilt_in_functions, members = [
     ConstructorFrom RuleBuilt_in_functions, ContextField ''date'' RuleExpression,
     TerminalGet T_MONTH, TerminalGet T_LR_BRACKET, TerminalGet T_RR_BRACKET,
     ContextGet RuleExpression, EnterRule, ExitRule, Accept]\<rparr>"

definition RANDContext :: context_class where [context_classes]:
  "RANDContext = \<lparr>class_id = LabelContext L_RAND, class_base = ContextClass RuleBuilt_in_functions, members = [
     ConstructorFrom RuleBuilt_in_functions, ContextField ''seed'' RuleExpression,
     TerminalGet T_RAND, TerminalGet T_LR_BRACKET, TerminalGet T_RR_BRACKET,
     ContextGet RuleExpression, EnterRule, ExitRule, Accept]\<rparr>"

definition FORMATContext :: context_class where [context_classes]:
  "FORMATContext = \<lparr>class_id = LabelContext L_FORMAT, class_base = ContextClass RuleBuilt_in_functions, members = [
     ConstructorFrom RuleBuilt_in_functions, ContextField ''value'' RuleExpression,
     ContextField ''format'' RuleExpression, ContextField ''culture'' RuleExpression,
     TerminalGet T_FORMAT, TerminalGet T_LR_BRACKET, TerminalAll T_COMMA, TerminalNth T_COMMA,
     TerminalGet T_RR_BRACKET, ContextAll RuleExpression, ContextNth RuleExpression, EnterRule,
     ExitRule, Accept]\<rparr>"

definition TRIMContext :: context_class where [context_classes]:
  "TRIMContext = \<lparr>class_id = LabelContext L_TRIM, class_base = ContextClass RuleBuilt_in_functions, members = [
     ConstructorFrom RuleBuilt_in_functions, ContextField ''characters'' RuleExpression,
     ContextField ''string_'' RuleExpression, TerminalGet T_TRIM, TerminalGet T_LR_BRACKET,
     TerminalGet T_RR_BRACKET, ContextAll RuleExpression, ContextNth RuleExpression,
     TerminalGet T_FROM, EnterRule, ExitRule, Accept]\<rparr>"

definition LEASTContext :: context_class where [context_classes]:
  "LEASTContext = \<lparr>class_id = LabelContext L_LEAST, class_base = ContextClass RuleBuilt_in_functions, members = [
     ConstructorFrom RuleBuilt_in_functions, TerminalGet T_LEAST, TerminalGet T_LR_BRACKET,
     ContextGet RuleExpression_list', TerminalGet T_RR_BRACKET, EnterRule, ExitRule, Accept]\<rparr>"

definition APP_NAMEContext :: context_class where [context_classes]:
  "APP_NAMEContext = \<lparr>class_id = LabelContext L_APP_NAME, class_base = ContextClass RuleBuilt_in_functions, members = [
     ConstructorFrom RuleBuilt_in_functions, TerminalGet T_APP_NAME, TerminalGet T_LR_BRACKET,
     TerminalGet T_RR_BRACKET, EnterRule, ExitRule, Accept]\<rparr>"

definition USER_IDContext :: context_class where [context_classes]:
  "USER_IDContext = \<lparr>class_id = LabelContext L_USER_ID, class_base = ContextClass RuleBuilt_in_functions, members = [
     ConstructorFrom RuleBuilt_in_functions, ContextField ''user'' RuleExpression,
     TerminalGet T_USER_ID, TerminalGet T_LR_BRACKET, TerminalGet T_RR_BRACKET,
     ContextGet RuleExpression, EnterRule, ExitRule, Accept]\<rparr>"

definition FILE_NAMEContext :: context_class where [context_classes]:
  "FILE_NAMEContext = \<lparr>class_id = LabelContext L_FILE_NAME, class_base = ContextClass RuleBuilt_in_functions, members = [
     ConstructorFrom RuleBuilt_in_functions, ContextField ''file_id'' RuleExpression,
     TerminalGet T_FILE_NAME, TerminalGet T_LR_BRACKET, TerminalGet T_RR_BRACKET,
     ContextGet RuleExpression, EnterRule, ExitRule, Accept]\<rparr>"

definition SESSION_CONTEXTContext :: context_class where [context_classes]:
  "SESSION_CONTEXTContext = \<lparr>class_id = LabelContext L_SESSION_CONTEXT, class_base = ContextClass RuleBuilt_in_functions, members = [
     ConstructorFrom RuleBuilt_in_functions, TokenField ''key'', TerminalGet T_SESSION_CONTEXT,
     TerminalGet T_LR_BRACKET, TerminalGet T_RR_BRACKET, TerminalGet T_STRING, EnterRule,
     ExitRule, Accept]\<rparr>"

definition STRContext :: context_class where [context_classes]:
  "STRContext = \<lparr>class_id = LabelContext L_STR, class_base = ContextClass RuleBuilt_in_functions, members = [
     ConstructorFrom RuleBuilt_in_functions, ContextField ''float_expression'' RuleExpression,
     ContextField ''length_expression'' RuleExpression,
     ContextField ''decimal'' RuleExpression, TerminalGet T_STR, TerminalGet T_LR_BRACKET,
     TerminalGet T_RR_BRACKET, ContextAll RuleExpression, ContextNth RuleExpression,
     TerminalAll T_COMMA, TerminalNth T_COMMA, EnterRule, ExitRule, Accept]\<rparr>"

definition CONVERTContext :: context_class where [context_classes]:
  "CONVERTContext = \<lparr>class_id = LabelContext L_CONVERT, class_base = ContextClass RuleBuilt_in_functions, members = [
     ConstructorFrom RuleBuilt_in_functions, ContextField ''convert_data_type'' RuleData_type,
     ContextField ''convert_expression'' RuleExpression, ContextField ''style'' RuleExpression,
     TerminalGet T_CONVERT, TerminalGet T_LR_BRACKET, TerminalAll T_COMMA, TerminalNth T_COMMA,
     TerminalGet T_RR_BRACKET, ContextGet RuleData_type, ContextAll RuleExpression,
     ContextNth RuleExpression, EnterRule, ExitRule, Accept]\<rparr>"

definition XML_DATA_TYPE_FUNCContext :: context_class where [context_classes]:
  "XML_DATA_TYPE_FUNCContext = \<lparr>class_id = LabelContext L_XML_DATA_TYPE_FUNC, class_base = ContextClass RuleBuilt_in_functions, members = [
     ConstructorFrom RuleBuilt_in_functions, ContextGet RuleXml_data_type_methods, EnterRule,
     ExitRule, Accept]\<rparr>"

definition LOG10Context :: context_class where [context_classes]:
  "LOG10Context = \<lparr>class_id = LabelContext L_LOG10, class_base = ContextClass RuleBuilt_in_functions, members = [
     ConstructorFrom RuleBuilt_in_functions, ContextField ''float_expression'' RuleExpression,
     TerminalGet T_LOG10, TerminalGet T_LR_BRACKET, TerminalGet T_RR_BRACKET,
     ContextGet RuleExpression, EnterRule, ExitRule, Accept]\<rparr>"

definition FLOORContext :: context_class where [context_classes]:
  "FLOORContext = \<lparr>class_id = LabelContext L_FLOOR, class_base = ContextClass RuleBuilt_in_functions, members = [
     ConstructorFrom RuleBuilt_in_functions,
     ContextField ''numeric_expression'' RuleExpression, TerminalGet T_FLOOR,
     TerminalGet T_LR_BRACKET, TerminalGet T_RR_BRACKET, ContextGet RuleExpression, EnterRule,
     ExitRule, Accept]\<rparr>"

definition YEARContext :: context_class where [context_classes]:
  "YEARContext = \<lparr>class_id = LabelContext L_YEAR, class_base = ContextClass RuleBuilt_in_functions, members = [
     ConstructorFrom RuleBuilt_in_functions, ContextField ''date'' RuleExpression,
     TerminalGet T_YEAR, TerminalGet T_LR_BRACKET, TerminalGet T_RR_BRACKET,
     ContextGet RuleExpression, EnterRule, ExitRule, Accept]\<rparr>"

definition PARSEContext :: context_class where [context_classes]:
  "PARSEContext = \<lparr>class_id = LabelContext L_PARSE, class_base = ContextClass RuleBuilt_in_functions, members = [
     ConstructorFrom RuleBuilt_in_functions, ContextField ''str'' RuleExpression,
     ContextField ''culture'' RuleExpression, TerminalGet T_PARSE, TerminalGet T_LR_BRACKET,
     TerminalGet T_AS, ContextGet RuleData_type, TerminalGet T_RR_BRACKET,
     ContextAll RuleExpression, ContextNth RuleExpression, TerminalGet T_USING, EnterRule,
     ExitRule, Accept]\<rparr>"

definition ORIGINAL_LOGINContext :: context_class where [context_classes]:
  "ORIGINAL_LOGINContext = \<lparr>class_id = LabelContext L_ORIGINAL_LOGIN, class_base = ContextClass RuleBuilt_in_functions, members = [
     ConstructorFrom RuleBuilt_in_functions, TerminalGet T_ORIGINAL_LOGIN,
     TerminalGet T_LR_BRACKET, TerminalGet T_RR_BRACKET, EnterRule, ExitRule, Accept]\<rparr>"

definition MATH_SIGNContext :: context_class where [context_classes]:
  "MATH_SIGNContext = \<lparr>class_id = LabelContext L_MATH_SIGN, class_base = ContextClass RuleBuilt_in_functions, members = [
     ConstructorFrom RuleBuilt_in_functions,
     ContextField ''numeric_expression'' RuleExpression, TerminalGet T_SIGN,
     TerminalGet T_LR_BRACKET, TerminalGet T_RR_BRACKET, ContextGet RuleExpression, EnterRule,
     ExitRule, Accept]\<rparr>"

definition TIMEFROMPARTSContext :: context_class where [context_classes]:
  "TIMEFROMPARTSContext = \<lparr>class_id = LabelContext L_TIMEFROMPARTS, class_base = ContextClass RuleBuilt_in_functions, members = [
     ConstructorFrom RuleBuilt_in_functions, ContextField ''hour'' RuleExpression,
     ContextField ''minute'' RuleExpression, ContextField ''seconds'' RuleExpression,
     ContextField ''fractions'' RuleExpression, TokenField ''precision'',
     TerminalGet T_TIMEFROMPARTS, TerminalGet T_LR_BRACKET, TerminalAll T_COMMA,
     TerminalNth T_COMMA, TerminalGet T_RR_BRACKET, ContextAll RuleExpression,
     ContextNth RuleExpression, TerminalGet T_DECIMAL, EnterRule, ExitRule, Accept]\<rparr>"

definition LEFTContext :: context_class where [context_classes]:
  "LEFTContext = \<lparr>class_id = LabelContext L_LEFT, class_base = ContextClass RuleBuilt_in_functions, members = [
     ConstructorFrom RuleBuilt_in_functions,
     ContextField ''character_expression'' RuleExpression,
     ContextField ''integer_expression'' RuleExpression, TerminalGet T_LEFT,
     TerminalGet T_LR_BRACKET, TerminalGet T_COMMA, TerminalGet T_RR_BRACKET,
     ContextAll RuleExpression, ContextNth RuleExpression, EnterRule, ExitRule, Accept]\<rparr>"

definition GET_FILESTREAM_TRANSACTION_CONTEXTContext :: context_class where [context_classes]:
  "GET_FILESTREAM_TRANSACTION_CONTEXTContext = \<lparr>class_id = LabelContext L_GET_FILESTREAM_TRANSACTION_CONTEXT, class_base = ContextClass RuleBuilt_in_functions, members = [
     ConstructorFrom RuleBuilt_in_functions, TerminalGet T_GET_FILESTREAM_TRANSACTION_CONTEXT,
     TerminalGet T_LR_BRACKET, TerminalGet T_RR_BRACKET, EnterRule, ExitRule, Accept]\<rparr>"

definition FILEPROPERTYContext :: context_class where [context_classes]:
  "FILEPROPERTYContext = \<lparr>class_id = LabelContext L_FILEPROPERTY, class_base = ContextClass RuleBuilt_in_functions, members = [
     ConstructorFrom RuleBuilt_in_functions, ContextField ''file_name'' RuleExpression,
     ContextField ''property'' RuleExpression, TerminalGet T_FILEPROPERTY,
     TerminalGet T_LR_BRACKET, TerminalGet T_COMMA, TerminalGet T_RR_BRACKET,
     ContextAll RuleExpression, ContextNth RuleExpression, EnterRule, ExitRule, Accept]\<rparr>"

definition IDENT_SEEDContext :: context_class where [context_classes]:
  "IDENT_SEEDContext = \<lparr>class_id = LabelContext L_IDENT_SEED, class_base = ContextClass RuleBuilt_in_functions, members = [
     ConstructorFrom RuleBuilt_in_functions, ContextField ''table_or_view'' RuleExpression,
     TerminalGet T_IDENT_SEED, TerminalGet T_LR_BRACKET, TerminalGet T_RR_BRACKET,
     ContextGet RuleExpression, EnterRule, ExitRule, Accept]\<rparr>"

definition IDENTITYContext :: context_class where [context_classes]:
  "IDENTITYContext = \<lparr>class_id = LabelContext L_IDENTITY, class_base = ContextClass RuleBuilt_in_functions, members = [
     ConstructorFrom RuleBuilt_in_functions, ContextField ''datatype'' RuleData_type,
     TokenField ''seed'', TokenField ''increment'', TerminalGet T_IDENTITY,
     TerminalGet T_LR_BRACKET, TerminalGet T_RR_BRACKET, ContextGet RuleData_type,
     TerminalAll T_COMMA, TerminalNth T_COMMA, TerminalAll T_DECIMAL, TerminalNth T_DECIMAL,
     EnterRule, ExitRule, Accept]\<rparr>"

definition CURRENT_TRANSACTION_IDContext :: context_class where [context_classes]:
  "CURRENT_TRANSACTION_IDContext = \<lparr>class_id = LabelContext L_CURRENT_TRANSACTION_ID, class_base = ContextClass RuleBuilt_in_functions, members = [
     ConstructorFrom RuleBuilt_in_functions, TerminalGet T_CURRENT_TRANSACTION_ID,
     TerminalGet T_LR_BRACKET, TerminalGet T_RR_BRACKET, EnterRule, ExitRule, Accept]\<rparr>"

definition LTRIMContext :: context_class where [context_classes]:
  "LTRIMContext = \<lparr>class_id = LabelContext L_LTRIM, class_base = ContextClass RuleBuilt_in_functions, members = [
     ConstructorFrom RuleBuilt_in_functions,
     ContextField ''character_expression'' RuleExpression, TerminalGet T_LTRIM,
     TerminalGet T_LR_BRACKET, TerminalGet T_RR_BRACKET, ContextGet RuleExpression, EnterRule,
     ExitRule, Accept]\<rparr>"

definition ROWCOUNT_BIGContext :: context_class where [context_classes]:
  "ROWCOUNT_BIGContext = \<lparr>class_id = LabelContext L_ROWCOUNT_BIG, class_base = ContextClass RuleBuilt_in_functions, members = [
     ConstructorFrom RuleBuilt_in_functions, TerminalGet T_ROWCOUNT_BIG,
     TerminalGet T_LR_BRACKET, TerminalGet T_RR_BRACKET, EnterRule, ExitRule, Accept]\<rparr>"

definition CERTENCODEDContext :: context_class where [context_classes]:
  "CERTENCODEDContext = \<lparr>class_id = LabelContext L_CERTENCODED, class_base = ContextClass RuleBuilt_in_functions, members = [
     ConstructorFrom RuleBuilt_in_functions, ContextField ''certid'' RuleExpression,
     TerminalGet T_CERTENCODED, TerminalGet T_LR_BRACKET, TerminalGet T_RR_BRACKET,
     ContextGet RuleExpression, EnterRule, ExitRule, Accept]\<rparr>"

definition JSON_VALUEContext :: context_class where [context_classes]:
  "JSON_VALUEContext = \<lparr>class_id = LabelContext L_JSON_VALUE, class_base = ContextClass RuleBuilt_in_functions, members = [
     ConstructorFrom RuleBuilt_in_functions, ContextField ''expr'' RuleExpression,
     ContextField ''path'' RuleExpression, TerminalGet T_JSON_VALUE, TerminalGet T_LR_BRACKET,
     TerminalGet T_COMMA, TerminalGet T_RR_BRACKET, ContextAll RuleExpression,
     ContextNth RuleExpression, EnterRule, ExitRule, Accept]\<rparr>"

definition SYSDATETIMEContext :: context_class where [context_classes]:
  "SYSDATETIMEContext = \<lparr>class_id = LabelContext L_SYSDATETIME, class_base = ContextClass RuleBuilt_in_functions, members = [
     ConstructorFrom RuleBuilt_in_functions, TerminalGet T_SYSDATETIME,
     TerminalGet T_LR_BRACKET, TerminalGet T_RR_BRACKET, EnterRule, ExitRule, Accept]\<rparr>"

definition CERTPRIVATEKEYContext :: context_class where [context_classes]:
  "CERTPRIVATEKEYContext = \<lparr>class_id = LabelContext L_CERTPRIVATEKEY, class_base = ContextClass RuleBuilt_in_functions, members = [
     ConstructorFrom RuleBuilt_in_functions, ContextField ''certid'' RuleExpression,
     ContextField ''encryption_password'' RuleExpression,
     ContextField ''decryption_pasword'' RuleExpression, TerminalGet T_CERTPRIVATEKEY,
     TerminalGet T_LR_BRACKET, TerminalAll T_COMMA, TerminalNth T_COMMA,
     TerminalGet T_RR_BRACKET, ContextAll RuleExpression, ContextNth RuleExpression, EnterRule,
     ExitRule, Accept]\<rparr>"

definition SPACEContext :: context_class where [context_classes]:
  "SPACEContext = \<lparr>class_id = LabelContext L_SPACE, class_base = ContextClass RuleBuilt_in_functions, members = [
     ConstructorFrom RuleBuilt_in_functions,
     ContextField ''integer_expression'' RuleExpression, TerminalGet T_SPACE_KEYWORD,
     TerminalGet T_LR_BRACKET, TerminalGet T_RR_BRACKET, ContextGet RuleExpression, EnterRule,
     ExitRule, Accept]\<rparr>"

definition UPPERContext :: context_class where [context_classes]:
  "UPPERContext = \<lparr>class_id = LabelContext L_UPPER, class_base = ContextClass RuleBuilt_in_functions, members = [
     ConstructorFrom RuleBuilt_in_functions,
     ContextField ''character_expression'' RuleExpression, TerminalGet T_UPPER,
     TerminalGet T_LR_BRACKET, TerminalGet T_RR_BRACKET, ContextGet RuleExpression, EnterRule,
     ExitRule, Accept]\<rparr>"

definition ABSContext :: context_class where [context_classes]:
  "ABSContext = \<lparr>class_id = LabelContext L_ABS, class_base = ContextClass RuleBuilt_in_functions, members = [
     ConstructorFrom RuleBuilt_in_functions,
     ContextField ''numeric_expression'' RuleExpression, TerminalGet T_ABS,
     TerminalGet T_LR_BRACKET, TerminalGet T_RR_BRACKET, ContextGet RuleExpression, EnterRule,
     ExitRule, Accept]\<rparr>"

definition ISJSONContext :: context_class where [context_classes]:
  "ISJSONContext = \<lparr>class_id = LabelContext L_ISJSON, class_base = ContextClass RuleBuilt_in_functions, members = [
     ConstructorFrom RuleBuilt_in_functions, ContextField ''json_expr'' RuleExpression,
     ContextField ''json_type_constraint'' RuleExpression, TerminalGet T_ISJSON,
     TerminalGet T_LR_BRACKET, TerminalGet T_RR_BRACKET, ContextAll RuleExpression,
     ContextNth RuleExpression, TerminalGet T_COMMA, EnterRule, ExitRule, Accept]\<rparr>"

definition HAS_PERMS_BY_NAMEContext :: context_class where [context_classes]:
  "HAS_PERMS_BY_NAMEContext = \<lparr>class_id = LabelContext L_HAS_PERMS_BY_NAME, class_base = ContextClass RuleBuilt_in_functions, members = [
     ConstructorFrom RuleBuilt_in_functions, ContextField ''securable'' RuleExpression,
     ContextField ''securable_class'' RuleExpression,
     ContextField ''permission'' RuleExpression, ContextField ''sub_securable'' RuleExpression,
     ContextField ''sub_securable_class'' RuleExpression, TerminalGet T_HAS_PERMS_BY_NAME,
     TerminalGet T_LR_BRACKET, TerminalAll T_COMMA, TerminalNth T_COMMA,
     TerminalGet T_RR_BRACKET, ContextAll RuleExpression, ContextNth RuleExpression, EnterRule,
     ExitRule, Accept]\<rparr>"

definition SUSER_IDContext :: context_class where [context_classes]:
  "SUSER_IDContext = \<lparr>class_id = LabelContext L_SUSER_ID, class_base = ContextClass RuleBuilt_in_functions, members = [
     ConstructorFrom RuleBuilt_in_functions, ContextField ''login'' RuleExpression,
     TerminalGet T_SUSER_ID, TerminalGet T_LR_BRACKET, TerminalGet T_RR_BRACKET,
     ContextGet RuleExpression, EnterRule, ExitRule, Accept]\<rparr>"

definition SCOPE_IDENTITYContext :: context_class where [context_classes]:
  "SCOPE_IDENTITYContext = \<lparr>class_id = LabelContext L_SCOPE_IDENTITY, class_base = ContextClass RuleBuilt_in_functions, members = [
     ConstructorFrom RuleBuilt_in_functions, TerminalGet T_SCOPE_IDENTITY,
     TerminalGet T_LR_BRACKET, TerminalGet T_RR_BRACKET, EnterRule, ExitRule, Accept]\<rparr>"

definition JSON_QUERYContext :: context_class where [context_classes]:
  "JSON_QUERYContext = \<lparr>class_id = LabelContext L_JSON_QUERY, class_base = ContextClass RuleBuilt_in_functions, members = [
     ConstructorFrom RuleBuilt_in_functions, ContextField ''expr'' RuleExpression,
     ContextField ''path'' RuleExpression, TerminalGet T_JSON_QUERY, TerminalGet T_LR_BRACKET,
     TerminalGet T_RR_BRACKET, ContextAll RuleExpression, ContextNth RuleExpression,
     TerminalGet T_COMMA, EnterRule, ExitRule, Accept]\<rparr>"

definition INDEX_COLContext :: context_class where [context_classes]:
  "INDEX_COLContext = \<lparr>class_id = LabelContext L_INDEX_COL, class_base = ContextClass RuleBuilt_in_functions, members = [
     ConstructorFrom RuleBuilt_in_functions,
     ContextField ''table_or_view_name'' RuleExpression,
     ContextField ''index_id'' RuleExpression, ContextField ''key_id'' RuleExpression,
     TerminalGet T_INDEX_COL, TerminalGet T_LR_BRACKET, TerminalAll T_COMMA,
     TerminalNth T_COMMA, TerminalGet T_RR_BRACKET, ContextAll RuleExpression,
     ContextNth RuleExpression, EnterRule, ExitRule, Accept]\<rparr>"

definition DATABASE_PRINCIPAL_IDContext :: context_class where [context_classes]:
  "DATABASE_PRINCIPAL_IDContext = \<lparr>class_id = LabelContext L_DATABASE_PRINCIPAL_ID, class_base = ContextClass RuleBuilt_in_functions, members = [
     ConstructorFrom RuleBuilt_in_functions, ContextField ''principal_name'' RuleExpression,
     TerminalGet T_DATABASE_PRINCIPAL_ID, TerminalGet T_LR_BRACKET, TerminalGet T_RR_BRACKET,
     ContextGet RuleExpression, EnterRule, ExitRule, Accept]\<rparr>"

definition PATINDEXContext :: context_class where [context_classes]:
  "PATINDEXContext = \<lparr>class_id = LabelContext L_PATINDEX, class_base = ContextClass RuleBuilt_in_functions, members = [
     ConstructorFrom RuleBuilt_in_functions, ContextField ''pattern'' RuleExpression,
     ContextField ''string_expression'' RuleExpression, TerminalGet T_PATINDEX,
     TerminalGet T_LR_BRACKET, TerminalGet T_COMMA, TerminalGet T_RR_BRACKET,
     ContextAll RuleExpression, ContextNth RuleExpression, EnterRule, ExitRule, Accept]\<rparr>"

definition FULLTEXTSERVICEPROPERTYContext :: context_class where [context_classes]:
  "FULLTEXTSERVICEPROPERTYContext = \<lparr>class_id = LabelContext L_FULLTEXTSERVICEPROPERTY, class_base = ContextClass RuleBuilt_in_functions, members = [
     ConstructorFrom RuleBuilt_in_functions, ContextField ''property'' RuleExpression,
     TerminalGet T_FULLTEXTSERVICEPROPERTY, TerminalGet T_LR_BRACKET, TerminalGet T_RR_BRACKET,
     ContextGet RuleExpression, EnterRule, ExitRule, Accept]\<rparr>"

definition SMALLDATETIMEFROMPARTSContext :: context_class where [context_classes]:
  "SMALLDATETIMEFROMPARTSContext = \<lparr>class_id = LabelContext L_SMALLDATETIMEFROMPARTS, class_base = ContextClass RuleBuilt_in_functions, members = [
     ConstructorFrom RuleBuilt_in_functions, ContextField ''year'' RuleExpression,
     ContextField ''month'' RuleExpression, ContextField ''day'' RuleExpression,
     ContextField ''hour'' RuleExpression, ContextField ''minute'' RuleExpression,
     TerminalGet T_SMALLDATETIMEFROMPARTS, TerminalGet T_LR_BRACKET, TerminalAll T_COMMA,
     TerminalNth T_COMMA, TerminalGet T_RR_BRACKET, ContextAll RuleExpression,
     ContextNth RuleExpression, EnterRule, ExitRule, Accept]\<rparr>"

definition IDENT_CURRENTContext :: context_class where [context_classes]:
  "IDENT_CURRENTContext = \<lparr>class_id = LabelContext L_IDENT_CURRENT, class_base = ContextClass RuleBuilt_in_functions, members = [
     ConstructorFrom RuleBuilt_in_functions, ContextField ''table_or_view'' RuleExpression,
     TerminalGet T_IDENT_CURRENT, TerminalGet T_LR_BRACKET, TerminalGet T_RR_BRACKET,
     ContextGet RuleExpression, EnterRule, ExitRule, Accept]\<rparr>"

definition SESSIONPROPERTYContext :: context_class where [context_classes]:
  "SESSIONPROPERTYContext = \<lparr>class_id = LabelContext L_SESSIONPROPERTY, class_base = ContextClass RuleBuilt_in_functions, members = [
     ConstructorFrom RuleBuilt_in_functions, ContextField ''option_name'' RuleExpression,
     TerminalGet T_SESSIONPROPERTY, TerminalGet T_LR_BRACKET, TerminalGet T_RR_BRACKET,
     ContextGet RuleExpression, EnterRule, ExitRule, Accept]\<rparr>"

definition FETCH_STATUSContext :: context_class where [context_classes]:
  "FETCH_STATUSContext = \<lparr>class_id = LabelContext L_FETCH_STATUS, class_base = ContextClass RuleBuilt_in_functions, members = [
     ConstructorFrom RuleBuilt_in_functions, TerminalGet T_FETCH_STATUS, EnterRule, ExitRule,
     Accept]\<rparr>"

definition POWERContext :: context_class where [context_classes]:
  "POWERContext = \<lparr>class_id = LabelContext L_POWER, class_base = ContextClass RuleBuilt_in_functions, members = [
     ConstructorFrom RuleBuilt_in_functions, ContextField ''float_expression'' RuleExpression,
     ContextField ''y'' RuleExpression, TerminalGet T_POWER, TerminalGet T_LR_BRACKET,
     TerminalGet T_COMMA, TerminalGet T_RR_BRACKET, ContextAll RuleExpression,
     ContextNth RuleExpression, EnterRule, ExitRule, Accept]\<rparr>"

definition REPLICATEContext :: context_class where [context_classes]:
  "REPLICATEContext = \<lparr>class_id = LabelContext L_REPLICATE, class_base = ContextClass RuleBuilt_in_functions, members = [
     ConstructorFrom RuleBuilt_in_functions, ContextField ''string_expression'' RuleExpression,
     ContextField ''integer_expression'' RuleExpression, TerminalGet T_REPLICATE,
     TerminalGet T_LR_BRACKET, TerminalGet T_COMMA, TerminalGet T_RR_BRACKET,
     ContextAll RuleExpression, ContextNth RuleExpression, EnterRule, ExitRule, Accept]\<rparr>"

definition USER_NAMEContext :: context_class where [context_classes]:
  "USER_NAMEContext = \<lparr>class_id = LabelContext L_USER_NAME, class_base = ContextClass RuleBuilt_in_functions, members = [
     ConstructorFrom RuleBuilt_in_functions, ContextField ''id'' RuleExpression,
     TerminalGet T_USER_NAME, TerminalGet T_LR_BRACKET, TerminalGet T_RR_BRACKET,
     ContextGet RuleExpression, EnterRule, ExitRule, Accept]\<rparr>"

definition OBJECT_DEFINITIONContext :: context_class where [context_classes]:
  "OBJECT_DEFINITIONContext = \<lparr>class_id = LabelContext L_OBJECT_DEFINITION, class_base = ContextClass RuleBuilt_in_functions, members = [
     ConstructorFrom RuleBuilt_in_functions, ContextField ''object_id'' RuleExpression,
     TerminalGet T_OBJECT_DEFINITION, TerminalGet T_LR_BRACKET, TerminalGet T_RR_BRACKET,
     ContextGet RuleExpression, EnterRule, ExitRule, Accept]\<rparr>"

definition IS_SRVROLEMEMBERContext :: context_class where [context_classes]:
  "IS_SRVROLEMEMBERContext = \<lparr>class_id = LabelContext L_IS_SRVROLEMEMBER, class_base = ContextClass RuleBuilt_in_functions, members = [
     ConstructorFrom RuleBuilt_in_functions, ContextField ''role'' RuleExpression,
     ContextField ''login'' RuleExpression, TerminalGet T_IS_SRVROLEMEMBER,
     TerminalGet T_LR_BRACKET, TerminalGet T_RR_BRACKET, ContextAll RuleExpression,
     ContextNth RuleExpression, TerminalGet T_COMMA, EnterRule, ExitRule, Accept]\<rparr>"

definition NEWSEQUENTIALIDContext :: context_class where [context_classes]:
  "NEWSEQUENTIALIDContext = \<lparr>class_id = LabelContext L_NEWSEQUENTIALID, class_base = ContextClass RuleBuilt_in_functions, members = [
     ConstructorFrom RuleBuilt_in_functions, TerminalGet T_NEWSEQUENTIALID,
     TerminalGet T_LR_BRACKET, TerminalGet T_RR_BRACKET, EnterRule, ExitRule, Accept]\<rparr>"

definition OBJECT_NAMEContext :: context_class where [context_classes]:
  "OBJECT_NAMEContext = \<lparr>class_id = LabelContext L_OBJECT_NAME, class_base = ContextClass RuleBuilt_in_functions, members = [
     ConstructorFrom RuleBuilt_in_functions, ContextField ''object_id'' RuleExpression,
     ContextField ''database_id'' RuleExpression, TerminalGet T_OBJECT_NAME,
     TerminalGet T_LR_BRACKET, TerminalGet T_RR_BRACKET, ContextAll RuleExpression,
     ContextNth RuleExpression, TerminalGet T_COMMA, EnterRule, ExitRule, Accept]\<rparr>"

definition JSON_PATH_EXISTSContext :: context_class where [context_classes]:
  "JSON_PATH_EXISTSContext = \<lparr>class_id = LabelContext L_JSON_PATH_EXISTS, class_base = ContextClass RuleBuilt_in_functions, members = [
     ConstructorFrom RuleBuilt_in_functions, ContextField ''value_expression'' RuleExpression,
     ContextField ''sql_json_path'' RuleExpression, TerminalGet T_JSON_PATH_EXISTS,
     TerminalGet T_LR_BRACKET, TerminalGet T_COMMA, TerminalGet T_RR_BRACKET,
     ContextAll RuleExpression, ContextNth RuleExpression, EnterRule, ExitRule, Accept]\<rparr>"

definition PWDCOMPAREContext :: context_class where [context_classes]:
  "PWDCOMPAREContext = \<lparr>class_id = LabelContext L_PWDCOMPARE, class_base = ContextClass RuleBuilt_in_functions, members = [
     ConstructorFrom RuleBuilt_in_functions,
     ContextField ''clear_text_password'' RuleExpression,
     ContextField ''password_hash'' RuleExpression, ContextField ''version'' RuleExpression,
     TerminalGet T_PWDCOMPARE, TerminalGet T_LR_BRACKET, TerminalAll T_COMMA,
     TerminalNth T_COMMA, TerminalGet T_RR_BRACKET, ContextAll RuleExpression,
     ContextNth RuleExpression, EnterRule, ExitRule, Accept]\<rparr>"

definition SCHEMA_IDContext :: context_class where [context_classes]:
  "SCHEMA_IDContext = \<lparr>class_id = LabelContext L_SCHEMA_ID, class_base = ContextClass RuleBuilt_in_functions, members = [
     ConstructorFrom RuleBuilt_in_functions, ContextField ''schema_name'' RuleExpression,
     TerminalGet T_SCHEMA_ID, TerminalGet T_LR_BRACKET, TerminalGet T_RR_BRACKET,
     ContextGet RuleExpression, EnterRule, ExitRule, Accept]\<rparr>"

definition OBJECT_SCHEMA_NAMEContext :: context_class where [context_classes]:
  "OBJECT_SCHEMA_NAMEContext = \<lparr>class_id = LabelContext L_OBJECT_SCHEMA_NAME, class_base = ContextClass RuleBuilt_in_functions, members = [
     ConstructorFrom RuleBuilt_in_functions, ContextField ''object_id'' RuleExpression,
     ContextField ''database_id'' RuleExpression, TerminalGet T_OBJECT_SCHEMA_NAME,
     TerminalGet T_LR_BRACKET, TerminalGet T_RR_BRACKET, ContextAll RuleExpression,
     ContextNth RuleExpression, TerminalGet T_COMMA, EnterRule, ExitRule, Accept]\<rparr>"

definition SUSER_SNAMEContext :: context_class where [context_classes]:
  "SUSER_SNAMEContext = \<lparr>class_id = LabelContext L_SUSER_SNAME, class_base = ContextClass RuleBuilt_in_functions, members = [
     ConstructorFrom RuleBuilt_in_functions, ContextField ''server_user_sid'' RuleExpression,
     TerminalGet T_SUSER_NAME, TerminalGet T_LR_BRACKET, TerminalGet T_RR_BRACKET,
     ContextGet RuleExpression, TerminalGet T_SUSER_SNAME, EnterRule, ExitRule, Accept]\<rparr>"

definition DB_NAMEContext :: context_class where [context_classes]:
  "DB_NAMEContext = \<lparr>class_id = LabelContext L_DB_NAME, class_base = ContextClass RuleBuilt_in_functions, members = [
     ConstructorFrom RuleBuilt_in_functions, ContextField ''database_id'' RuleExpression,
     TerminalGet T_DB_NAME, TerminalGet T_LR_BRACKET, TerminalGet T_RR_BRACKET,
     ContextGet RuleExpression, EnterRule, ExitRule, Accept]\<rparr>"

definition SUSER_SIDContext :: context_class where [context_classes]:
  "SUSER_SIDContext = \<lparr>class_id = LabelContext L_SUSER_SID, class_base = ContextClass RuleBuilt_in_functions, members = [
     ConstructorFrom RuleBuilt_in_functions, ContextField ''login'' RuleExpression,
     ContextField ''param2'' RuleExpression, TerminalGet T_SUSER_SID, TerminalGet T_LR_BRACKET,
     TerminalGet T_RR_BRACKET, ContextAll RuleExpression, ContextNth RuleExpression,
     TerminalGet T_COMMA, EnterRule, ExitRule, Accept]\<rparr>"

definition ASCIIContext :: context_class where [context_classes]:
  "ASCIIContext = \<lparr>class_id = LabelContext L_ASCII, class_base = ContextClass RuleBuilt_in_functions, members = [
     ConstructorFrom RuleBuilt_in_functions,
     ContextField ''character_expression'' RuleExpression, TerminalGet T_ASCII,
     TerminalGet T_LR_BRACKET, TerminalGet T_RR_BRACKET, ContextGet RuleExpression, EnterRule,
     ExitRule, Accept]\<rparr>"

definition FILE_IDEXContext :: context_class where [context_classes]:
  "FILE_IDEXContext = \<lparr>class_id = LabelContext L_FILE_IDEX, class_base = ContextClass RuleBuilt_in_functions, members = [
     ConstructorFrom RuleBuilt_in_functions, ContextField ''file_name'' RuleExpression,
     TerminalGet T_FILE_IDEX, TerminalGet T_LR_BRACKET, TerminalGet T_RR_BRACKET,
     ContextGet RuleExpression, EnterRule, ExitRule, Accept]\<rparr>"

definition ERROR_SEVERITYContext :: context_class where [context_classes]:
  "ERROR_SEVERITYContext = \<lparr>class_id = LabelContext L_ERROR_SEVERITY, class_base = ContextClass RuleBuilt_in_functions, members = [
     ConstructorFrom RuleBuilt_in_functions, TerminalGet T_ERROR_SEVERITY,
     TerminalGet T_LR_BRACKET, TerminalGet T_RR_BRACKET, EnterRule, ExitRule, Accept]\<rparr>"

definition REVERSEContext :: context_class where [context_classes]:
  "REVERSEContext = \<lparr>class_id = LabelContext L_REVERSE, class_base = ContextClass RuleBuilt_in_functions, members = [
     ConstructorFrom RuleBuilt_in_functions, ContextField ''string_expression'' RuleExpression,
     TerminalGet T_REVERSE, TerminalGet T_LR_BRACKET, TerminalGet T_RR_BRACKET,
     ContextGet RuleExpression, EnterRule, ExitRule, Accept]\<rparr>"

definition ISDATEContext :: context_class where [context_classes]:
  "ISDATEContext = \<lparr>class_id = LabelContext L_ISDATE, class_base = ContextClass RuleBuilt_in_functions, members = [
     ConstructorFrom RuleBuilt_in_functions, TerminalGet T_ISDATE, TerminalGet T_LR_BRACKET,
     ContextGet RuleExpression, TerminalGet T_RR_BRACKET, EnterRule, ExitRule, Accept]\<rparr>"

definition REPLACEContext :: context_class where [context_classes]:
  "REPLACEContext = \<lparr>class_id = LabelContext L_REPLACE, class_base = ContextClass RuleBuilt_in_functions, members = [
     ConstructorFrom RuleBuilt_in_functions, ContextField ''input'' RuleExpression,
     ContextField ''replacing'' RuleExpression, ContextField ''with'' RuleExpression,
     TerminalGet T_REPLACE, TerminalGet T_LR_BRACKET, TerminalAll T_COMMA, TerminalNth T_COMMA,
     TerminalGet T_RR_BRACKET, ContextAll RuleExpression, ContextNth RuleExpression, EnterRule,
     ExitRule, Accept]\<rparr>"

definition CURSOR_STATUSContext :: context_class where [context_classes]:
  "CURSOR_STATUSContext = \<lparr>class_id = LabelContext L_CURSOR_STATUS, class_base = ContextClass RuleBuilt_in_functions, members = [
     ConstructorFrom RuleBuilt_in_functions, TokenField ''scope'',
     ContextField ''cursor'' RuleExpression, TerminalGet T_CURSOR_STATUS,
     TerminalGet T_LR_BRACKET, TerminalGet T_COMMA, TerminalGet T_RR_BRACKET,
     TerminalGet T_STRING, ContextGet RuleExpression, EnterRule, ExitRule, Accept]\<rparr>"

definition MIN_ACTIVE_ROWVERSIONContext :: context_class where [context_classes]:
  "MIN_ACTIVE_ROWVERSIONContext = \<lparr>class_id = LabelContext L_MIN_ACTIVE_ROWVERSION, class_base = ContextClass RuleBuilt_in_functions, members = [
     ConstructorFrom RuleBuilt_in_functions, TerminalGet T_MIN_ACTIVE_ROWVERSION,
     TerminalGet T_LR_BRACKET, TerminalGet T_RR_BRACKET, EnterRule, ExitRule, Accept]\<rparr>"

definition HAS_DBACCESSContext :: context_class where [context_classes]:
  "HAS_DBACCESSContext = \<lparr>class_id = LabelContext L_HAS_DBACCESS, class_base = ContextClass RuleBuilt_in_functions, members = [
     ConstructorFrom RuleBuilt_in_functions, ContextField ''database_name'' RuleExpression,
     TerminalGet T_HAS_DBACCESS, TerminalGet T_LR_BRACKET, TerminalGet T_RR_BRACKET,
     ContextGet RuleExpression, EnterRule, ExitRule, Accept]\<rparr>"

definition NEXT_VALUE_FORContext :: context_class where [context_classes]:
  "NEXT_VALUE_FORContext = \<lparr>class_id = LabelContext L_NEXT_VALUE_FOR, class_base = ContextClass RuleBuilt_in_functions, members = [
     ConstructorFrom RuleBuilt_in_functions, ContextField ''sequence_name'' RuleTable_name,
     TerminalGet T_NEXT, TerminalGet T_VALUE, TerminalGet T_FOR, ContextGet RuleTable_name,
     TerminalGet T_OVER, TerminalGet T_LR_BRACKET, ContextGet RuleOrder_by_clause,
     TerminalGet T_RR_BRACKET, EnterRule, ExitRule, Accept]\<rparr>"

definition FILEGROUP_IDContext :: context_class where [context_classes]:
  "FILEGROUP_IDContext = \<lparr>class_id = LabelContext L_FILEGROUP_ID, class_base = ContextClass RuleBuilt_in_functions, members = [
     ConstructorFrom RuleBuilt_in_functions, ContextField ''filegroup_name'' RuleExpression,
     TerminalGet T_FILEGROUP_ID, TerminalGet T_LR_BRACKET, TerminalGet T_RR_BRACKET,
     ContextGet RuleExpression, EnterRule, ExitRule, Accept]\<rparr>"

definition LOWERContext :: context_class where [context_classes]:
  "LOWERContext = \<lparr>class_id = LabelContext L_LOWER, class_base = ContextClass RuleBuilt_in_functions, members = [
     ConstructorFrom RuleBuilt_in_functions,
     ContextField ''character_expression'' RuleExpression, TerminalGet T_LOWER,
     TerminalGet T_LR_BRACKET, TerminalGet T_RR_BRACKET, ContextGet RuleExpression, EnterRule,
     ExitRule, Accept]\<rparr>"

definition DATENAMEContext :: context_class where [context_classes]:
  "DATENAMEContext = \<lparr>class_id = LabelContext L_DATENAME, class_base = ContextClass RuleBuilt_in_functions, members = [
     ConstructorFrom RuleBuilt_in_functions, ContextField ''datepart'' RuleDateparts_15,
     ContextField ''date'' RuleExpression, TerminalGet T_DATENAME, TerminalGet T_LR_BRACKET,
     TerminalGet T_COMMA, TerminalGet T_RR_BRACKET, ContextGet RuleDateparts_15,
     ContextGet RuleExpression, EnterRule, ExitRule, Accept]\<rparr>"

definition CEILINGContext :: context_class where [context_classes]:
  "CEILINGContext = \<lparr>class_id = LabelContext L_CEILING, class_base = ContextClass RuleBuilt_in_functions, members = [
     ConstructorFrom RuleBuilt_in_functions,
     ContextField ''numeric_expression'' RuleExpression, TerminalGet T_CEILING,
     TerminalGet T_LR_BRACKET, TerminalGet T_RR_BRACKET, ContextGet RuleExpression, EnterRule,
     ExitRule, Accept]\<rparr>"

definition APPLOCK_TESTContext :: context_class where [context_classes]:
  "APPLOCK_TESTContext = \<lparr>class_id = LabelContext L_APPLOCK_TEST, class_base = ContextClass RuleBuilt_in_functions, members = [
     ConstructorFrom RuleBuilt_in_functions,
     ContextField ''database_principal'' RuleExpression,
     ContextField ''resource_name'' RuleExpression, ContextField ''lock_mode'' RuleExpression,
     ContextField ''lock_owner'' RuleExpression, TerminalGet T_APPLOCK_TEST,
     TerminalGet T_LR_BRACKET, TerminalAll T_COMMA, TerminalNth T_COMMA,
     TerminalGet T_RR_BRACKET, ContextAll RuleExpression, ContextNth RuleExpression, EnterRule,
     ExitRule, Accept]\<rparr>"

definition SINContext :: context_class where [context_classes]:
  "SINContext = \<lparr>class_id = LabelContext L_SIN, class_base = ContextClass RuleBuilt_in_functions, members = [
     ConstructorFrom RuleBuilt_in_functions, ContextField ''float_expression'' RuleExpression,
     TerminalGet T_SIN, TerminalGet T_LR_BRACKET, TerminalGet T_RR_BRACKET,
     ContextGet RuleExpression, EnterRule, ExitRule, Accept]\<rparr>"

definition TYPE_NAMEContext :: context_class where [context_classes]:
  "TYPE_NAMEContext = \<lparr>class_id = LabelContext L_TYPE_NAME, class_base = ContextClass RuleBuilt_in_functions, members = [
     ConstructorFrom RuleBuilt_in_functions, ContextField ''type_id'' RuleExpression,
     TerminalGet T_TYPE_NAME, TerminalGet T_LR_BRACKET, TerminalGet T_RR_BRACKET,
     ContextGet RuleExpression, EnterRule, ExitRule, Accept]\<rparr>"

definition SYSUTCDATETIMEContext :: context_class where [context_classes]:
  "SYSUTCDATETIMEContext = \<lparr>class_id = LabelContext L_SYSUTCDATETIME, class_base = ContextClass RuleBuilt_in_functions, members = [
     ConstructorFrom RuleBuilt_in_functions, TerminalGet T_SYSUTCDATETIME,
     TerminalGet T_LR_BRACKET, TerminalGet T_RR_BRACKET, EnterRule, ExitRule, Accept]\<rparr>"

definition DATEADDContext :: context_class where [context_classes]:
  "DATEADDContext = \<lparr>class_id = LabelContext L_DATEADD, class_base = ContextClass RuleBuilt_in_functions, members = [
     ConstructorFrom RuleBuilt_in_functions, ContextField ''datepart'' RuleDateparts_12,
     ContextField ''number'' RuleExpression, ContextField ''date'' RuleExpression,
     TerminalGet T_DATEADD, TerminalGet T_LR_BRACKET, TerminalAll T_COMMA, TerminalNth T_COMMA,
     TerminalGet T_RR_BRACKET, ContextGet RuleDateparts_12, ContextAll RuleExpression,
     ContextNth RuleExpression, EnterRule, ExitRule, Accept]\<rparr>"

definition DATETIMEFROMPARTSContext :: context_class where [context_classes]:
  "DATETIMEFROMPARTSContext = \<lparr>class_id = LabelContext L_DATETIMEFROMPARTS, class_base = ContextClass RuleBuilt_in_functions, members = [
     ConstructorFrom RuleBuilt_in_functions, ContextField ''year'' RuleExpression,
     ContextField ''month'' RuleExpression, ContextField ''day'' RuleExpression,
     ContextField ''hour'' RuleExpression, ContextField ''minute'' RuleExpression,
     ContextField ''seconds'' RuleExpression, ContextField ''milliseconds'' RuleExpression,
     TerminalGet T_DATETIMEFROMPARTS, TerminalGet T_LR_BRACKET, TerminalAll T_COMMA,
     TerminalNth T_COMMA, TerminalGet T_RR_BRACKET, ContextAll RuleExpression,
     ContextNth RuleExpression, EnterRule, ExitRule, Accept]\<rparr>"

definition ERROR_MESSAGEContext :: context_class where [context_classes]:
  "ERROR_MESSAGEContext = \<lparr>class_id = LabelContext L_ERROR_MESSAGE, class_base = ContextClass RuleBuilt_in_functions, members = [
     ConstructorFrom RuleBuilt_in_functions, TerminalGet T_ERROR_MESSAGE,
     TerminalGet T_LR_BRACKET, TerminalGet T_RR_BRACKET, EnterRule, ExitRule, Accept]\<rparr>"

definition FILEGROUPPROPERTYContext :: context_class where [context_classes]:
  "FILEGROUPPROPERTYContext = \<lparr>class_id = LabelContext L_FILEGROUPPROPERTY, class_base = ContextClass RuleBuilt_in_functions, members = [
     ConstructorFrom RuleBuilt_in_functions, ContextField ''filegroup_name'' RuleExpression,
     ContextField ''property'' RuleExpression, TerminalGet T_FILEGROUPPROPERTY,
     TerminalGet T_LR_BRACKET, TerminalGet T_COMMA, TerminalGet T_RR_BRACKET,
     ContextAll RuleExpression, ContextNth RuleExpression, EnterRule, ExitRule, Accept]\<rparr>"

definition EOMONTHContext :: context_class where [context_classes]:
  "EOMONTHContext = \<lparr>class_id = LabelContext L_EOMONTH, class_base = ContextClass RuleBuilt_in_functions, members = [
     ConstructorFrom RuleBuilt_in_functions, ContextField ''start_date'' RuleExpression,
     ContextField ''month_to_add'' RuleExpression, TerminalGet T_EOMONTH,
     TerminalGet T_LR_BRACKET, TerminalGet T_RR_BRACKET, ContextAll RuleExpression,
     ContextNth RuleExpression, TerminalGet T_COMMA, EnterRule, ExitRule, Accept]\<rparr>"

definition IDENT_INCRContext :: context_class where [context_classes]:
  "IDENT_INCRContext = \<lparr>class_id = LabelContext L_IDENT_INCR, class_base = ContextClass RuleBuilt_in_functions, members = [
     ConstructorFrom RuleBuilt_in_functions, ContextField ''table_or_view'' RuleExpression,
     TerminalGet T_IDENT_INCR, TerminalGet T_LR_BRACKET, TerminalGet T_RR_BRACKET,
     ContextGet RuleExpression, EnterRule, ExitRule, Accept]\<rparr>"

definition ASINContext :: context_class where [context_classes]:
  "ASINContext = \<lparr>class_id = LabelContext L_ASIN, class_base = ContextClass RuleBuilt_in_functions, members = [
     ConstructorFrom RuleBuilt_in_functions, ContextField ''float_expression'' RuleExpression,
     TerminalGet T_ASIN, TerminalGet T_LR_BRACKET, TerminalGet T_RR_BRACKET,
     ContextGet RuleExpression, EnterRule, ExitRule, Accept]\<rparr>"

definition NCHARContext :: context_class where [context_classes]:
  "NCHARContext = \<lparr>class_id = LabelContext L_NCHAR, class_base = ContextClass RuleBuilt_in_functions, members = [
     ConstructorFrom RuleBuilt_in_functions,
     ContextField ''integer_expression'' RuleExpression, TerminalGet T_NCHAR,
     TerminalGet T_LR_BRACKET, TerminalGet T_RR_BRACKET, ContextGet RuleExpression, EnterRule,
     ExitRule, Accept]\<rparr>"

definition DIFFERENCEContext :: context_class where [context_classes]:
  "DIFFERENCEContext = \<lparr>class_id = LabelContext L_DIFFERENCE, class_base = ContextClass RuleBuilt_in_functions, members = [
     ConstructorFrom RuleBuilt_in_functions,
     ContextField ''character_expression_1'' RuleExpression,
     ContextField ''character_expression_2'' RuleExpression, TerminalGet T_DIFFERENCE,
     TerminalGet T_LR_BRACKET, TerminalGet T_COMMA, TerminalGet T_RR_BRACKET,
     ContextAll RuleExpression, ContextNth RuleExpression, EnterRule, ExitRule, Accept]\<rparr>"

definition CHARINDEXContext :: context_class where [context_classes]:
  "CHARINDEXContext = \<lparr>class_id = LabelContext L_CHARINDEX, class_base = ContextClass RuleBuilt_in_functions, members = [
     ConstructorFrom RuleBuilt_in_functions, ContextField ''expressionToFind'' RuleExpression,
     ContextField ''expressionToSearch'' RuleExpression,
     ContextField ''start_location'' RuleExpression, TerminalGet T_CHARINDEX,
     TerminalGet T_LR_BRACKET, TerminalAll T_COMMA, TerminalNth T_COMMA,
     TerminalGet T_RR_BRACKET, ContextAll RuleExpression, ContextNth RuleExpression, EnterRule,
     ExitRule, Accept]\<rparr>"

definition TODATETIMEOFFSETContext :: context_class where [context_classes]:
  "TODATETIMEOFFSETContext = \<lparr>class_id = LabelContext L_TODATETIMEOFFSET, class_base = ContextClass RuleBuilt_in_functions, members = [
     ConstructorFrom RuleBuilt_in_functions,
     ContextField ''datetime_expression'' RuleExpression,
     ContextField ''timezoneoffset_expression'' RuleExpression, TerminalGet T_TODATETIMEOFFSET,
     TerminalGet T_LR_BRACKET, TerminalGet T_COMMA, TerminalGet T_RR_BRACKET,
     ContextAll RuleExpression, ContextNth RuleExpression, EnterRule, ExitRule, Accept]\<rparr>"

definition RADIANSContext :: context_class where [context_classes]:
  "RADIANSContext = \<lparr>class_id = LabelContext L_RADIANS, class_base = ContextClass RuleBuilt_in_functions, members = [
     ConstructorFrom RuleBuilt_in_functions,
     ContextField ''numeric_expression'' RuleExpression, TerminalGet T_RADIANS,
     TerminalGet T_LR_BRACKET, TerminalGet T_RR_BRACKET, ContextGet RuleExpression, EnterRule,
     ExitRule, Accept]\<rparr>"

definition CURRENT_TIMEZONEContext :: context_class where [context_classes]:
  "CURRENT_TIMEZONEContext = \<lparr>class_id = LabelContext L_CURRENT_TIMEZONE, class_base = ContextClass RuleBuilt_in_functions, members = [
     ConstructorFrom RuleBuilt_in_functions, TerminalGet T_CURRENT_TIMEZONE,
     TerminalGet T_LR_BRACKET, TerminalGet T_RR_BRACKET, EnterRule, ExitRule, Accept]\<rparr>"

definition COL_LENGTHContext :: context_class where [context_classes]:
  "COL_LENGTHContext = \<lparr>class_id = LabelContext L_COL_LENGTH, class_base = ContextClass RuleBuilt_in_functions, members = [
     ConstructorFrom RuleBuilt_in_functions, ContextField ''table'' RuleExpression,
     ContextField ''column'' RuleExpression, TerminalGet T_COL_LENGTH,
     TerminalGet T_LR_BRACKET, TerminalGet T_COMMA, TerminalGet T_RR_BRACKET,
     ContextAll RuleExpression, ContextNth RuleExpression, EnterRule, ExitRule, Accept]\<rparr>"

definition DATEFROMPARTSContext :: context_class where [context_classes]:
  "DATEFROMPARTSContext = \<lparr>class_id = LabelContext L_DATEFROMPARTS, class_base = ContextClass RuleBuilt_in_functions, members = [
     ConstructorFrom RuleBuilt_in_functions, ContextField ''year'' RuleExpression,
     ContextField ''month'' RuleExpression, ContextField ''day'' RuleExpression,
     TerminalGet T_DATEFROMPARTS, TerminalGet T_LR_BRACKET, TerminalAll T_COMMA,
     TerminalNth T_COMMA, TerminalGet T_RR_BRACKET, ContextAll RuleExpression,
     ContextNth RuleExpression, EnterRule, ExitRule, Accept]\<rparr>"

definition NEWIDContext :: context_class where [context_classes]:
  "NEWIDContext = \<lparr>class_id = LabelContext L_NEWID, class_base = ContextClass RuleBuilt_in_functions, members = [
     ConstructorFrom RuleBuilt_in_functions, TerminalGet T_NEWID, TerminalGet T_LR_BRACKET,
     TerminalGet T_RR_BRACKET, EnterRule, ExitRule, Accept]\<rparr>"

definition DATETRUNCContext :: context_class where [context_classes]:
  "DATETRUNCContext = \<lparr>class_id = LabelContext L_DATETRUNC, class_base = ContextClass RuleBuilt_in_functions, members = [
     ConstructorFrom RuleBuilt_in_functions, ContextField ''datepart'' RuleDateparts_datetrunc,
     ContextField ''date'' RuleExpression, TerminalGet T_DATETRUNC, TerminalGet T_LR_BRACKET,
     TerminalGet T_COMMA, TerminalGet T_RR_BRACKET, ContextGet RuleDateparts_datetrunc,
     ContextGet RuleExpression, EnterRule, ExitRule, Accept]\<rparr>"

definition ISNULLContext :: context_class where [context_classes]:
  "ISNULLContext = \<lparr>class_id = LabelContext L_ISNULL, class_base = ContextClass RuleBuilt_in_functions, members = [
     ConstructorFrom RuleBuilt_in_functions, ContextField ''left'' RuleExpression,
     ContextField ''right'' RuleExpression, TerminalGet T_ISNULL, TerminalGet T_LR_BRACKET,
     TerminalGet T_COMMA, TerminalGet T_RR_BRACKET, ContextAll RuleExpression,
     ContextNth RuleExpression, EnterRule, ExitRule, Accept]\<rparr>"

definition JSON_MODIFYContext :: context_class where [context_classes]:
  "JSON_MODIFYContext = \<lparr>class_id = LabelContext L_JSON_MODIFY, class_base = ContextClass RuleBuilt_in_functions, members = [
     ConstructorFrom RuleBuilt_in_functions, ContextField ''expr'' RuleExpression,
     ContextField ''path'' RuleExpression, ContextField ''new_value'' RuleExpression,
     TerminalGet T_JSON_MODIFY, TerminalGet T_LR_BRACKET, TerminalAll T_COMMA,
     TerminalNth T_COMMA, TerminalGet T_RR_BRACKET, ContextAll RuleExpression,
     ContextNth RuleExpression, EnterRule, ExitRule, Accept]\<rparr>"

definition CURRENT_REQUEST_IDContext :: context_class where [context_classes]:
  "CURRENT_REQUEST_IDContext = \<lparr>class_id = LabelContext L_CURRENT_REQUEST_ID, class_base = ContextClass RuleBuilt_in_functions, members = [
     ConstructorFrom RuleBuilt_in_functions, TerminalGet T_CURRENT_REQUEST_ID,
     TerminalGet T_LR_BRACKET, TerminalGet T_RR_BRACKET, EnterRule, ExitRule, Accept]\<rparr>"

definition IS_MEMBERContext :: context_class where [context_classes]:
  "IS_MEMBERContext = \<lparr>class_id = LabelContext L_IS_MEMBER, class_base = ContextClass RuleBuilt_in_functions, members = [
     ConstructorFrom RuleBuilt_in_functions, ContextField ''group_or_role'' RuleExpression,
     TerminalGet T_IS_MEMBER, TerminalGet T_LR_BRACKET, TerminalGet T_RR_BRACKET,
     ContextGet RuleExpression, EnterRule, ExitRule, Accept]\<rparr>"

definition SERVERPROPERTYContext :: context_class where [context_classes]:
  "SERVERPROPERTYContext = \<lparr>class_id = LabelContext L_SERVERPROPERTY, class_base = ContextClass RuleBuilt_in_functions, members = [
     ConstructorFrom RuleBuilt_in_functions, ContextField ''property'' RuleExpression,
     TerminalGet T_SERVERPROPERTY, TerminalGet T_LR_BRACKET, TerminalGet T_RR_BRACKET,
     ContextGet RuleExpression, EnterRule, ExitRule, Accept]\<rparr>"

definition SQRTContext :: context_class where [context_classes]:
  "SQRTContext = \<lparr>class_id = LabelContext L_SQRT, class_base = ContextClass RuleBuilt_in_functions, members = [
     ConstructorFrom RuleBuilt_in_functions, ContextField ''float_expression'' RuleExpression,
     TerminalGet T_SQRT, TerminalGet T_LR_BRACKET, TerminalGet T_RR_BRACKET,
     ContextGet RuleExpression, EnterRule, ExitRule, Accept]\<rparr>"

definition ATN2Context :: context_class where [context_classes]:
  "ATN2Context = \<lparr>class_id = LabelContext L_ATN2, class_base = ContextClass RuleBuilt_in_functions, members = [
     ConstructorFrom RuleBuilt_in_functions, ContextField ''float_expression'' RuleExpression,
     TerminalGet T_ATN2, TerminalGet T_LR_BRACKET, TerminalGet T_COMMA,
     TerminalGet T_RR_BRACKET, ContextAll RuleExpression, ContextNth RuleExpression, EnterRule,
     ExitRule, Accept]\<rparr>"

definition UNICODEContext :: context_class where [context_classes]:
  "UNICODEContext = \<lparr>class_id = LabelContext L_UNICODE, class_base = ContextClass RuleBuilt_in_functions, members = [
     ConstructorFrom RuleBuilt_in_functions,
     ContextField ''ncharacter_expression'' RuleExpression, TerminalGet T_UNICODE,
     TerminalGet T_LR_BRACKET, TerminalGet T_RR_BRACKET, ContextGet RuleExpression, EnterRule,
     ExitRule, Accept]\<rparr>"

definition NULLIFContext :: context_class where [context_classes]:
  "NULLIFContext = \<lparr>class_id = LabelContext L_NULLIF, class_base = ContextClass RuleBuilt_in_functions, members = [
     ConstructorFrom RuleBuilt_in_functions, ContextField ''left'' RuleExpression,
     ContextField ''right'' RuleExpression, TerminalGet T_NULLIF, TerminalGet T_LR_BRACKET,
     TerminalGet T_COMMA, TerminalGet T_RR_BRACKET, ContextAll RuleExpression,
     ContextNth RuleExpression, EnterRule, ExitRule, Accept]\<rparr>"

definition SESSION_USERContext :: context_class where [context_classes]:
  "SESSION_USERContext = \<lparr>class_id = LabelContext L_SESSION_USER, class_base = ContextClass RuleBuilt_in_functions, members = [
     ConstructorFrom RuleBuilt_in_functions, TerminalGet T_SESSION_USER, EnterRule, ExitRule,
     Accept]\<rparr>"

definition CASTContext :: context_class where [context_classes]:
  "CASTContext = \<lparr>class_id = LabelContext L_CAST, class_base = ContextClass RuleBuilt_in_functions, members = [
     ConstructorFrom RuleBuilt_in_functions, TerminalGet T_CAST, TerminalGet T_LR_BRACKET,
     ContextGet RuleExpression, TerminalGet T_AS, ContextGet RuleData_type,
     TerminalGet T_RR_BRACKET, EnterRule, ExitRule, Accept]\<rparr>"

definition DATETIME2FROMPARTSContext :: context_class where [context_classes]:
  "DATETIME2FROMPARTSContext = \<lparr>class_id = LabelContext L_DATETIME2FROMPARTS, class_base = ContextClass RuleBuilt_in_functions, members = [
     ConstructorFrom RuleBuilt_in_functions, ContextField ''year'' RuleExpression,
     ContextField ''month'' RuleExpression, ContextField ''day'' RuleExpression,
     ContextField ''hour'' RuleExpression, ContextField ''minute'' RuleExpression,
     ContextField ''seconds'' RuleExpression, ContextField ''fractions'' RuleExpression,
     ContextField ''precision'' RuleExpression, TerminalGet T_DATETIME2FROMPARTS,
     TerminalGet T_LR_BRACKET, TerminalAll T_COMMA, TerminalNth T_COMMA,
     TerminalGet T_RR_BRACKET, ContextAll RuleExpression, ContextNth RuleExpression, EnterRule,
     ExitRule, Accept]\<rparr>"

definition SQUAREContext :: context_class where [context_classes]:
  "SQUAREContext = \<lparr>class_id = LabelContext L_SQUARE, class_base = ContextClass RuleBuilt_in_functions, members = [
     ConstructorFrom RuleBuilt_in_functions, ContextField ''float_expression'' RuleExpression,
     TerminalGet T_SQUARE, TerminalGet T_LR_BRACKET, TerminalGet T_RR_BRACKET,
     ContextGet RuleExpression, EnterRule, ExitRule, Accept]\<rparr>"

definition LOGContext :: context_class where [context_classes]:
  "LOGContext = \<lparr>class_id = LabelContext L_LOG, class_base = ContextClass RuleBuilt_in_functions, members = [
     ConstructorFrom RuleBuilt_in_functions, ContextField ''float_expression'' RuleExpression,
     ContextField ''base'' RuleExpression, TerminalGet T_LOG, TerminalGet T_LR_BRACKET,
     TerminalGet T_RR_BRACKET, ContextAll RuleExpression, ContextNth RuleExpression,
     TerminalGet T_COMMA, EnterRule, ExitRule, Accept]\<rparr>"

definition IIFContext :: context_class where [context_classes]:
  "IIFContext = \<lparr>class_id = LabelContext L_IIF, class_base = ContextClass RuleBuilt_in_functions, members = [
     ConstructorFrom RuleBuilt_in_functions, ContextField ''cond'' RuleSearch_condition,
     ContextField ''left'' RuleExpression, ContextField ''right'' RuleExpression,
     TerminalGet T_IIF, TerminalGet T_LR_BRACKET, TerminalAll T_COMMA, TerminalNth T_COMMA,
     TerminalGet T_RR_BRACKET, ContextGet RuleSearch_condition, ContextAll RuleExpression,
     ContextNth RuleExpression, EnterRule, ExitRule, Accept]\<rparr>"

definition DATEPARTContext :: context_class where [context_classes]:
  "DATEPARTContext = \<lparr>class_id = LabelContext L_DATEPART, class_base = ContextClass RuleBuilt_in_functions, members = [
     ConstructorFrom RuleBuilt_in_functions, ContextField ''datepart'' RuleDateparts_15,
     ContextField ''date'' RuleExpression, TerminalGet T_DATEPART, TerminalGet T_LR_BRACKET,
     TerminalGet T_COMMA, TerminalGet T_RR_BRACKET, ContextGet RuleDateparts_15,
     ContextGet RuleExpression, EnterRule, ExitRule, Accept]\<rparr>"

definition CONTEXT_INFOContext :: context_class where [context_classes]:
  "CONTEXT_INFOContext = \<lparr>class_id = LabelContext L_CONTEXT_INFO, class_base = ContextClass RuleBuilt_in_functions, members = [
     ConstructorFrom RuleBuilt_in_functions, TerminalGet T_CONTEXT_INFO,
     TerminalGet T_LR_BRACKET, TerminalGet T_RR_BRACKET, EnterRule, ExitRule, Accept]\<rparr>"

definition DATEDIFFContext :: context_class where [context_classes]:
  "DATEDIFFContext = \<lparr>class_id = LabelContext L_DATEDIFF, class_base = ContextClass RuleBuilt_in_functions, members = [
     ConstructorFrom RuleBuilt_in_functions, ContextField ''datepart'' RuleDateparts_12,
     ContextField ''date_first'' RuleExpression, ContextField ''date_second'' RuleExpression,
     TerminalGet T_DATEDIFF, TerminalGet T_LR_BRACKET, TerminalAll T_COMMA,
     TerminalNth T_COMMA, TerminalGet T_RR_BRACKET, ContextGet RuleDateparts_12,
     ContextAll RuleExpression, ContextNth RuleExpression, EnterRule, ExitRule, Accept]\<rparr>"

definition OBJECTPROPERTYContext :: context_class where [context_classes]:
  "OBJECTPROPERTYContext = \<lparr>class_id = LabelContext L_OBJECTPROPERTY, class_base = ContextClass RuleBuilt_in_functions, members = [
     ConstructorFrom RuleBuilt_in_functions, ContextField ''id'' RuleExpression,
     ContextField ''property'' RuleExpression, TerminalGet T_OBJECTPROPERTY,
     TerminalGet T_LR_BRACKET, TerminalGet T_COMMA, TerminalGet T_RR_BRACKET,
     ContextAll RuleExpression, ContextNth RuleExpression, EnterRule, ExitRule, Accept]\<rparr>"

definition CHARContext :: context_class where [context_classes]:
  "CHARContext = \<lparr>class_id = LabelContext L_CHAR, class_base = ContextClass RuleBuilt_in_functions, members = [
     ConstructorFrom RuleBuilt_in_functions,
     ContextField ''integer_expression'' RuleExpression, TerminalGet T_CHAR,
     TerminalGet T_LR_BRACKET, TerminalGet T_RR_BRACKET, ContextGet RuleExpression, EnterRule,
     ExitRule, Accept]\<rparr>"

definition STRING_ESCAPEContext :: context_class where [context_classes]:
  "STRING_ESCAPEContext = \<lparr>class_id = LabelContext L_STRING_ESCAPE, class_base = ContextClass RuleBuilt_in_functions, members = [
     ConstructorFrom RuleBuilt_in_functions, ContextField ''text_'' RuleExpression,
     ContextField ''type_'' RuleExpression, TerminalGet T_STRING_ESCAPE,
     TerminalGet T_LR_BRACKET, TerminalGet T_COMMA, TerminalGet T_RR_BRACKET,
     ContextAll RuleExpression, ContextNth RuleExpression, EnterRule, ExitRule, Accept]\<rparr>"

definition GETANSINULLContext :: context_class where [context_classes]:
  "GETANSINULLContext = \<lparr>class_id = LabelContext L_GETANSINULL, class_base = ContextClass RuleBuilt_in_functions, members = [
     ConstructorFrom RuleBuilt_in_functions, TokenField ''database'',
     TerminalGet T_GETANSINULL, TerminalGet T_LR_BRACKET, TerminalGet T_RR_BRACKET,
     TerminalGet T_STRING, EnterRule, ExitRule, Accept]\<rparr>"

definition SYSTEM_USERContext :: context_class where [context_classes]:
  "SYSTEM_USERContext = \<lparr>class_id = LabelContext L_SYSTEM_USER, class_base = ContextClass RuleBuilt_in_functions, members = [
     ConstructorFrom RuleBuilt_in_functions, TerminalGet T_SYSTEM_USER, EnterRule, ExitRule,
     Accept]\<rparr>"

definition OBJECT_IDContext :: context_class where [context_classes]:
  "OBJECT_IDContext = \<lparr>class_id = LabelContext L_OBJECT_ID, class_base = ContextClass RuleBuilt_in_functions, members = [
     ConstructorFrom RuleBuilt_in_functions, ContextField ''object_name'' RuleExpression,
     ContextField ''object_type'' RuleExpression, TerminalGet T_OBJECT_ID,
     TerminalGet T_LR_BRACKET, TerminalGet T_RR_BRACKET, ContextAll RuleExpression,
     ContextNth RuleExpression, TerminalGet T_COMMA, EnterRule, ExitRule, Accept]\<rparr>"

definition ERROR_PROCEDUREContext :: context_class where [context_classes]:
  "ERROR_PROCEDUREContext = \<lparr>class_id = LabelContext L_ERROR_PROCEDURE, class_base = ContextClass RuleBuilt_in_functions, members = [
     ConstructorFrom RuleBuilt_in_functions, TerminalGet T_ERROR_PROCEDURE,
     TerminalGet T_LR_BRACKET, TerminalGet T_RR_BRACKET, EnterRule, ExitRule, Accept]\<rparr>"

definition QUOTENAMEContext :: context_class where [context_classes]:
  "QUOTENAMEContext = \<lparr>class_id = LabelContext L_QUOTENAME, class_base = ContextClass RuleBuilt_in_functions, members = [
     ConstructorFrom RuleBuilt_in_functions, ContextField ''character_string'' RuleExpression,
     ContextField ''quote_character'' RuleExpression, TerminalGet T_QUOTENAME,
     TerminalGet T_LR_BRACKET, TerminalGet T_RR_BRACKET, ContextAll RuleExpression,
     ContextNth RuleExpression, TerminalGet T_COMMA, EnterRule, ExitRule, Accept]\<rparr>"

definition RIGHTContext :: context_class where [context_classes]:
  "RIGHTContext = \<lparr>class_id = LabelContext L_RIGHT, class_base = ContextClass RuleBuilt_in_functions, members = [
     ConstructorFrom RuleBuilt_in_functions,
     ContextField ''character_expression'' RuleExpression,
     ContextField ''integer_expression'' RuleExpression, TerminalGet T_RIGHT,
     TerminalGet T_LR_BRACKET, TerminalGet T_COMMA, TerminalGet T_RR_BRACKET,
     ContextAll RuleExpression, ContextNth RuleExpression, EnterRule, ExitRule, Accept]\<rparr>"

definition HOST_IDContext :: context_class where [context_classes]:
  "HOST_IDContext = \<lparr>class_id = LabelContext L_HOST_ID, class_base = ContextClass RuleBuilt_in_functions, members = [
     ConstructorFrom RuleBuilt_in_functions, TerminalGet T_HOST_ID, TerminalGet T_LR_BRACKET,
     TerminalGet T_RR_BRACKET, EnterRule, ExitRule, Accept]\<rparr>"

definition DATETIMEOFFSETFROMPARTSContext :: context_class where [context_classes]:
  "DATETIMEOFFSETFROMPARTSContext = \<lparr>class_id = LabelContext L_DATETIMEOFFSETFROMPARTS, class_base = ContextClass RuleBuilt_in_functions, members = [
     ConstructorFrom RuleBuilt_in_functions, ContextField ''year'' RuleExpression,
     ContextField ''month'' RuleExpression, ContextField ''day'' RuleExpression,
     ContextField ''hour'' RuleExpression, ContextField ''minute'' RuleExpression,
     ContextField ''seconds'' RuleExpression, ContextField ''fractions'' RuleExpression,
     ContextField ''hour_offset'' RuleExpression,
     ContextField ''minute_offset'' RuleExpression, TokenField ''precision'',
     TerminalGet T_DATETIMEOFFSETFROMPARTS, TerminalGet T_LR_BRACKET, TerminalAll T_COMMA,
     TerminalNth T_COMMA, TerminalGet T_RR_BRACKET, ContextAll RuleExpression,
     ContextNth RuleExpression, TerminalGet T_DECIMAL, EnterRule, ExitRule, Accept]\<rparr>"

definition COSContext :: context_class where [context_classes]:
  "COSContext = \<lparr>class_id = LabelContext L_COS, class_base = ContextClass RuleBuilt_in_functions, members = [
     ConstructorFrom RuleBuilt_in_functions, ContextField ''float_expression'' RuleExpression,
     TerminalGet T_COS, TerminalGet T_LR_BRACKET, TerminalGet T_RR_BRACKET,
     ContextGet RuleExpression, EnterRule, ExitRule, Accept]\<rparr>"

definition COTContext :: context_class where [context_classes]:
  "COTContext = \<lparr>class_id = LabelContext L_COT, class_base = ContextClass RuleBuilt_in_functions, members = [
     ConstructorFrom RuleBuilt_in_functions, ContextField ''float_expression'' RuleExpression,
     TerminalGet T_COT, TerminalGet T_LR_BRACKET, TerminalGet T_RR_BRACKET,
     ContextGet RuleExpression, EnterRule, ExitRule, Accept]\<rparr>"

definition FILE_IDContext :: context_class where [context_classes]:
  "FILE_IDContext = \<lparr>class_id = LabelContext L_FILE_ID, class_base = ContextClass RuleBuilt_in_functions, members = [
     ConstructorFrom RuleBuilt_in_functions, ContextField ''file_name'' RuleExpression,
     TerminalGet T_FILE_ID, TerminalGet T_LR_BRACKET, TerminalGet T_RR_BRACKET,
     ContextGet RuleExpression, EnterRule, ExitRule, Accept]\<rparr>"

definition ASSEMBLYPROPERTYContext :: context_class where [context_classes]:
  "ASSEMBLYPROPERTYContext = \<lparr>class_id = LabelContext L_ASSEMBLYPROPERTY, class_base = ContextClass RuleBuilt_in_functions, members = [
     ConstructorFrom RuleBuilt_in_functions, ContextField ''assembly_name'' RuleExpression,
     ContextField ''property_name'' RuleExpression, TerminalGet T_ASSEMBLYPROPERTY,
     TerminalGet T_LR_BRACKET, TerminalGet T_COMMA, TerminalGet T_RR_BRACKET,
     ContextAll RuleExpression, ContextNth RuleExpression, EnterRule, ExitRule, Accept]\<rparr>"

definition STUFFContext :: context_class where [context_classes]:
  "STUFFContext = \<lparr>class_id = LabelContext L_STUFF, class_base = ContextClass RuleBuilt_in_functions, members = [
     ConstructorFrom RuleBuilt_in_functions, ContextField ''str'' RuleExpression,
     ContextField ''from'' RuleExpression, ContextField ''to'' RuleExpression,
     ContextField ''str_with'' RuleExpression, TerminalGet T_STUFF, TerminalGet T_LR_BRACKET,
     TerminalAll T_COMMA, TerminalNth T_COMMA, TerminalGet T_RR_BRACKET,
     ContextAll RuleExpression, ContextNth RuleExpression, EnterRule, ExitRule, Accept]\<rparr>"

definition IS_ROLEMEMBERContext :: context_class where [context_classes]:
  "IS_ROLEMEMBERContext = \<lparr>class_id = LabelContext L_IS_ROLEMEMBER, class_base = ContextClass RuleBuilt_in_functions, members = [
     ConstructorFrom RuleBuilt_in_functions, ContextField ''role'' RuleExpression,
     ContextField ''database_principal'' RuleExpression, TerminalGet T_IS_ROLEMEMBER,
     TerminalGet T_LR_BRACKET, TerminalGet T_RR_BRACKET, ContextAll RuleExpression,
     ContextNth RuleExpression, TerminalGet T_COMMA, EnterRule, ExitRule, Accept]\<rparr>"

definition SQL_VARIANT_PROPERTYContext :: context_class where [context_classes]:
  "SQL_VARIANT_PROPERTYContext = \<lparr>class_id = LabelContext L_SQL_VARIANT_PROPERTY, class_base = ContextClass RuleBuilt_in_functions, members = [
     ConstructorFrom RuleBuilt_in_functions, ContextField ''expr'' RuleExpression,
     TokenField ''property'', TerminalGet T_SQL_VARIANT_PROPERTY, TerminalGet T_LR_BRACKET,
     TerminalGet T_COMMA, TerminalGet T_RR_BRACKET, ContextGet RuleExpression,
     TerminalGet T_STRING, EnterRule, ExitRule, Accept]\<rparr>"

definition GREATESTContext :: context_class where [context_classes]:
  "GREATESTContext = \<lparr>class_id = LabelContext L_GREATEST, class_base = ContextClass RuleBuilt_in_functions, members = [
     ConstructorFrom RuleBuilt_in_functions, TerminalGet T_GREATEST, TerminalGet T_LR_BRACKET,
     ContextGet RuleExpression_list', TerminalGet T_RR_BRACKET, EnterRule, ExitRule, Accept]\<rparr>"

definition GETUTCDATEContext :: context_class where [context_classes]:
  "GETUTCDATEContext = \<lparr>class_id = LabelContext L_GETUTCDATE, class_base = ContextClass RuleBuilt_in_functions, members = [
     ConstructorFrom RuleBuilt_in_functions, TerminalGet T_GETUTCDATE,
     TerminalGet T_LR_BRACKET, TerminalGet T_RR_BRACKET, EnterRule, ExitRule, Accept]\<rparr>"

definition LOGINPROPERTYContext :: context_class where [context_classes]:
  "LOGINPROPERTYContext = \<lparr>class_id = LabelContext L_LOGINPROPERTY, class_base = ContextClass RuleBuilt_in_functions, members = [
     ConstructorFrom RuleBuilt_in_functions, ContextField ''login_name'' RuleExpression,
     ContextField ''property_name'' RuleExpression, TerminalGet T_LOGINPROPERTY,
     TerminalGet T_LR_BRACKET, TerminalGet T_COMMA, TerminalGet T_RR_BRACKET,
     ContextAll RuleExpression, ContextNth RuleExpression, EnterRule, ExitRule, Accept]\<rparr>"

definition CONCAT_WSContext :: context_class where [context_classes]:
  "CONCAT_WSContext = \<lparr>class_id = LabelContext L_CONCAT_WS, class_base = ContextClass RuleBuilt_in_functions, members = [
     ConstructorFrom RuleBuilt_in_functions, ContextField ''separator'' RuleExpression,
     ContextField ''argument_1'' RuleExpression, ContextField ''argument_2'' RuleExpression,
     ContextField ''expressionContext'' RuleExpression,
     ContextListField ''argument_n'' RuleExpression, TerminalGet T_CONCAT_WS,
     TerminalGet T_LR_BRACKET, TerminalAll T_COMMA, TerminalNth T_COMMA,
     TerminalGet T_RR_BRACKET, ContextAll RuleExpression, ContextNth RuleExpression, EnterRule,
     ExitRule, Accept]\<rparr>"

definition ERROR_STATEContext :: context_class where [context_classes]:
  "ERROR_STATEContext = \<lparr>class_id = LabelContext L_ERROR_STATE, class_base = ContextClass RuleBuilt_in_functions, members = [
     ConstructorFrom RuleBuilt_in_functions, TerminalGet T_ERROR_STATE,
     TerminalGet T_LR_BRACKET, TerminalGet T_RR_BRACKET, EnterRule, ExitRule, Accept]\<rparr>"

definition DAYContext :: context_class where [context_classes]:
  "DAYContext = \<lparr>class_id = LabelContext L_DAY, class_base = ContextClass RuleBuilt_in_functions, members = [
     ConstructorFrom RuleBuilt_in_functions, ContextField ''date'' RuleExpression,
     TerminalGet T_DAY, TerminalGet T_LR_BRACKET, TerminalGet T_RR_BRACKET,
     ContextGet RuleExpression, EnterRule, ExitRule, Accept]\<rparr>"

definition PARSENAMEContext :: context_class where [context_classes]:
  "PARSENAMEContext = \<lparr>class_id = LabelContext L_PARSENAME, class_base = ContextClass RuleBuilt_in_functions, members = [
     ConstructorFrom RuleBuilt_in_functions, ContextField ''object_name'' RuleExpression,
     ContextField ''object_piece'' RuleExpression, TerminalGet T_PARSENAME,
     TerminalGet T_LR_BRACKET, TerminalGet T_COMMA, TerminalGet T_RR_BRACKET,
     ContextAll RuleExpression, ContextNth RuleExpression, EnterRule, ExitRule, Accept]\<rparr>"

definition TANContext :: context_class where [context_classes]:
  "TANContext = \<lparr>class_id = LabelContext L_TAN, class_base = ContextClass RuleBuilt_in_functions, members = [
     ConstructorFrom RuleBuilt_in_functions, ContextField ''float_expression'' RuleExpression,
     TerminalGet T_TAN, TerminalGet T_LR_BRACKET, TerminalGet T_RR_BRACKET,
     ContextGet RuleExpression, EnterRule, ExitRule, Accept]\<rparr>"

definition CURRENT_USERContext :: context_class where [context_classes]:
  "CURRENT_USERContext = \<lparr>class_id = LabelContext L_CURRENT_USER, class_base = ContextClass RuleBuilt_in_functions, members = [
     ConstructorFrom RuleBuilt_in_functions, TerminalGet T_CURRENT_USER, EnterRule, ExitRule,
     Accept]\<rparr>"

definition PERMISSIONSContext :: context_class where [context_classes]:
  "PERMISSIONSContext = \<lparr>class_id = LabelContext L_PERMISSIONS, class_base = ContextClass RuleBuilt_in_functions, members = [
     ConstructorFrom RuleBuilt_in_functions, ContextField ''object_id'' RuleExpression,
     ContextField ''column'' RuleExpression, TerminalGet T_PERMISSIONS,
     TerminalGet T_LR_BRACKET, TerminalGet T_RR_BRACKET, ContextAll RuleExpression,
     ContextNth RuleExpression, TerminalGet T_COMMA, EnterRule, ExitRule, Accept]\<rparr>"

definition SYSDATETIMEOFFSETContext :: context_class where [context_classes]:
  "SYSDATETIMEOFFSETContext = \<lparr>class_id = LabelContext L_SYSDATETIMEOFFSET, class_base = ContextClass RuleBuilt_in_functions, members = [
     ConstructorFrom RuleBuilt_in_functions, TerminalGet T_SYSDATETIMEOFFSET,
     TerminalGet T_LR_BRACKET, TerminalGet T_RR_BRACKET, EnterRule, ExitRule, Accept]\<rparr>"

definition INDEXPROPERTYContext :: context_class where [context_classes]:
  "INDEXPROPERTYContext = \<lparr>class_id = LabelContext L_INDEXPROPERTY, class_base = ContextClass RuleBuilt_in_functions, members = [
     ConstructorFrom RuleBuilt_in_functions, ContextField ''object_id'' RuleExpression,
     ContextField ''index_or_statistics_name'' RuleExpression,
     ContextField ''property'' RuleExpression, TerminalGet T_INDEXPROPERTY,
     TerminalGet T_LR_BRACKET, TerminalAll T_COMMA, TerminalNth T_COMMA,
     TerminalGet T_RR_BRACKET, ContextAll RuleExpression, ContextNth RuleExpression, EnterRule,
     ExitRule, Accept]\<rparr>"

definition OBJECTPROPERTYEXContext :: context_class where [context_classes]:
  "OBJECTPROPERTYEXContext = \<lparr>class_id = LabelContext L_OBJECTPROPERTYEX, class_base = ContextClass RuleBuilt_in_functions, members = [
     ConstructorFrom RuleBuilt_in_functions, ContextField ''id'' RuleExpression,
     ContextField ''property'' RuleExpression, TerminalGet T_OBJECTPROPERTYEX,
     TerminalGet T_LR_BRACKET, TerminalGet T_COMMA, TerminalGet T_RR_BRACKET,
     ContextAll RuleExpression, ContextNth RuleExpression, EnterRule, ExitRule, Accept]\<rparr>"

definition SUBSTRINGContext :: context_class where [context_classes]:
  "SUBSTRINGContext = \<lparr>class_id = LabelContext L_SUBSTRING, class_base = ContextClass RuleBuilt_in_functions, members = [
     ConstructorFrom RuleBuilt_in_functions, ContextField ''string_expression'' RuleExpression,
     ContextField ''start_'' RuleExpression, ContextField ''length'' RuleExpression,
     TerminalGet T_SUBSTRING, TerminalGet T_LR_BRACKET, TerminalAll T_COMMA,
     TerminalNth T_COMMA, TerminalGet T_RR_BRACKET, ContextAll RuleExpression,
     ContextNth RuleExpression, EnterRule, ExitRule, Accept]\<rparr>"

definition BINARY_CHECKSUMContext :: context_class where [context_classes]:
  "BINARY_CHECKSUMContext = \<lparr>class_id = LabelContext L_BINARY_CHECKSUM, class_base = ContextClass RuleBuilt_in_functions, members = [
     ConstructorFrom RuleBuilt_in_functions, TokenField ''star'',
     TerminalGet T_BINARY_CHECKSUM, TerminalGet T_LR_BRACKET, TerminalGet T_RR_BRACKET,
     ContextAll RuleExpression, ContextNth RuleExpression, TerminalGet T_STAR,
     TerminalAll T_COMMA, TerminalNth T_COMMA, EnterRule, ExitRule, Accept]\<rparr>"

definition INDEXKEY_PROPERTYContext :: context_class where [context_classes]:
  "INDEXKEY_PROPERTYContext = \<lparr>class_id = LabelContext L_INDEXKEY_PROPERTY, class_base = ContextClass RuleBuilt_in_functions, members = [
     ConstructorFrom RuleBuilt_in_functions, ContextField ''object_id'' RuleExpression,
     ContextField ''index_id'' RuleExpression, ContextField ''key_id'' RuleExpression,
     ContextField ''property'' RuleExpression, TerminalGet T_INDEXKEY_PROPERTY,
     TerminalGet T_LR_BRACKET, TerminalAll T_COMMA, TerminalNth T_COMMA,
     TerminalGet T_RR_BRACKET, ContextAll RuleExpression, ContextNth RuleExpression, EnterRule,
     ExitRule, Accept]\<rparr>"

definition PWDENCRYPTContext :: context_class where [context_classes]:
  "PWDENCRYPTContext = \<lparr>class_id = LabelContext L_PWDENCRYPT, class_base = ContextClass RuleBuilt_in_functions, members = [
     ConstructorFrom RuleBuilt_in_functions, ContextField ''password'' RuleExpression,
     TerminalGet T_PWDENCRYPT, TerminalGet T_LR_BRACKET, TerminalGet T_RR_BRACKET,
     ContextGet RuleExpression, EnterRule, ExitRule, Accept]\<rparr>"

definition COMPRESSContext :: context_class where [context_classes]:
  "COMPRESSContext = \<lparr>class_id = LabelContext L_COMPRESS, class_base = ContextClass RuleBuilt_in_functions, members = [
     ConstructorFrom RuleBuilt_in_functions, ContextField ''expr'' RuleExpression,
     TerminalGet T_COMPRESS, TerminalGet T_LR_BRACKET, TerminalGet T_RR_BRACKET,
     ContextGet RuleExpression, EnterRule, ExitRule, Accept]\<rparr>"

definition COALESCEContext :: context_class where [context_classes]:
  "COALESCEContext = \<lparr>class_id = LabelContext L_COALESCE, class_base = ContextClass RuleBuilt_in_functions, members = [
     ConstructorFrom RuleBuilt_in_functions, TerminalGet T_COALESCE, TerminalGet T_LR_BRACKET,
     ContextGet RuleExpression_list', TerminalGet T_RR_BRACKET, EnterRule, ExitRule, Accept]\<rparr>"

definition STATS_DATEContext :: context_class where [context_classes]:
  "STATS_DATEContext = \<lparr>class_id = LabelContext L_STATS_DATE, class_base = ContextClass RuleBuilt_in_functions, members = [
     ConstructorFrom RuleBuilt_in_functions, ContextField ''object_id'' RuleExpression,
     ContextField ''stats_id'' RuleExpression, TerminalGet T_STATS_DATE,
     TerminalGet T_LR_BRACKET, TerminalGet T_COMMA, TerminalGet T_RR_BRACKET,
     ContextAll RuleExpression, ContextNth RuleExpression, EnterRule, ExitRule, Accept]\<rparr>"

definition ISNUMERICContext :: context_class where [context_classes]:
  "ISNUMERICContext = \<lparr>class_id = LabelContext L_ISNUMERIC, class_base = ContextClass RuleBuilt_in_functions, members = [
     ConstructorFrom RuleBuilt_in_functions, TerminalGet T_ISNUMERIC, TerminalGet T_LR_BRACKET,
     ContextGet RuleExpression, TerminalGet T_RR_BRACKET, EnterRule, ExitRule, Accept]\<rparr>"

definition ACOSContext :: context_class where [context_classes]:
  "ACOSContext = \<lparr>class_id = LabelContext L_ACOS, class_base = ContextClass RuleBuilt_in_functions, members = [
     ConstructorFrom RuleBuilt_in_functions, ContextField ''float_expression'' RuleExpression,
     TerminalGet T_ACOS, TerminalGet T_LR_BRACKET, TerminalGet T_RR_BRACKET,
     ContextGet RuleExpression, EnterRule, ExitRule, Accept]\<rparr>"

definition FILEGROUP_NAMEContext :: context_class where [context_classes]:
  "FILEGROUP_NAMEContext = \<lparr>class_id = LabelContext L_FILEGROUP_NAME, class_base = ContextClass RuleBuilt_in_functions, members = [
     ConstructorFrom RuleBuilt_in_functions, ContextField ''filegroup_id'' RuleExpression,
     TerminalGet T_FILEGROUP_NAME, TerminalGet T_LR_BRACKET, TerminalGet T_RR_BRACKET,
     ContextGet RuleExpression, EnterRule, ExitRule, Accept]\<rparr>"

definition COLUMNPROPERTYContext :: context_class where [context_classes]:
  "COLUMNPROPERTYContext = \<lparr>class_id = LabelContext L_COLUMNPROPERTY, class_base = ContextClass RuleBuilt_in_functions, members = [
     ConstructorFrom RuleBuilt_in_functions, ContextField ''id'' RuleExpression,
     ContextField ''column'' RuleExpression, ContextField ''property'' RuleExpression,
     TerminalGet T_COLUMNPROPERTY, TerminalGet T_LR_BRACKET, TerminalAll T_COMMA,
     TerminalNth T_COMMA, TerminalGet T_RR_BRACKET, ContextAll RuleExpression,
     ContextNth RuleExpression, EnterRule, ExitRule, Accept]\<rparr>"

definition DB_IDContext :: context_class where [context_classes]:
  "DB_IDContext = \<lparr>class_id = LabelContext L_DB_ID, class_base = ContextClass RuleBuilt_in_functions, members = [
     ConstructorFrom RuleBuilt_in_functions, ContextField ''database_name'' RuleExpression,
     TerminalGet T_DB_ID, TerminalGet T_LR_BRACKET, TerminalGet T_RR_BRACKET,
     ContextGet RuleExpression, EnterRule, ExitRule, Accept]\<rparr>"

definition SOUNDEXContext :: context_class where [context_classes]:
  "SOUNDEXContext = \<lparr>class_id = LabelContext L_SOUNDEX, class_base = ContextClass RuleBuilt_in_functions, members = [
     ConstructorFrom RuleBuilt_in_functions,
     ContextField ''character_expression'' RuleExpression, TerminalGet T_SOUNDEX,
     TerminalGet T_LR_BRACKET, TerminalGet T_RR_BRACKET, ContextGet RuleExpression, EnterRule,
     ExitRule, Accept]\<rparr>"

definition CURSOR_ROWSContext :: context_class where [context_classes]:
  "CURSOR_ROWSContext = \<lparr>class_id = LabelContext L_CURSOR_ROWS, class_base = ContextClass RuleBuilt_in_functions, members = [
     ConstructorFrom RuleBuilt_in_functions, TerminalGet T_CURSOR_ROWS, EnterRule, ExitRule,
     Accept]\<rparr>"

definition FULLTEXTCATALOGPROPERTYContext :: context_class where [context_classes]:
  "FULLTEXTCATALOGPROPERTYContext = \<lparr>class_id = LabelContext L_FULLTEXTCATALOGPROPERTY, class_base = ContextClass RuleBuilt_in_functions, members = [
     ConstructorFrom RuleBuilt_in_functions, ContextField ''catalog_name'' RuleExpression,
     ContextField ''property'' RuleExpression, TerminalGet T_FULLTEXTCATALOGPROPERTY,
     TerminalGet T_LR_BRACKET, TerminalGet T_COMMA, TerminalGet T_RR_BRACKET,
     ContextAll RuleExpression, ContextNth RuleExpression, EnterRule, ExitRule, Accept]\<rparr>"

definition TYPEPROPERTYContext :: context_class where [context_classes]:
  "TYPEPROPERTYContext = \<lparr>class_id = LabelContext L_TYPEPROPERTY, class_base = ContextClass RuleBuilt_in_functions, members = [
     ConstructorFrom RuleBuilt_in_functions, ContextField ''type'' RuleExpression,
     ContextField ''property'' RuleExpression, TerminalGet T_TYPEPROPERTY,
     TerminalGet T_LR_BRACKET, TerminalGet T_COMMA, TerminalGet T_RR_BRACKET,
     ContextAll RuleExpression, ContextNth RuleExpression, EnterRule, ExitRule, Accept]\<rparr>"

definition SCHEMA_NAMEContext :: context_class where [context_classes]:
  "SCHEMA_NAMEContext = \<lparr>class_id = LabelContext L_SCHEMA_NAME, class_base = ContextClass RuleBuilt_in_functions, members = [
     ConstructorFrom RuleBuilt_in_functions, ContextField ''schema_id'' RuleExpression,
     TerminalGet T_SCHEMA_NAME, TerminalGet T_LR_BRACKET, TerminalGet T_RR_BRACKET,
     ContextGet RuleExpression, EnterRule, ExitRule, Accept]\<rparr>"

definition TYPE_IDContext :: context_class where [context_classes]:
  "TYPE_IDContext = \<lparr>class_id = LabelContext L_TYPE_ID, class_base = ContextClass RuleBuilt_in_functions, members = [
     ConstructorFrom RuleBuilt_in_functions, ContextField ''type_name'' RuleExpression,
     TerminalGet T_TYPE_ID, TerminalGet T_LR_BRACKET, TerminalGet T_RR_BRACKET,
     ContextGet RuleExpression, EnterRule, ExitRule, Accept]\<rparr>"

definition TRY_CASTContext :: context_class where [context_classes]:
  "TRY_CASTContext = \<lparr>class_id = LabelContext L_TRY_CAST, class_base = ContextClass RuleBuilt_in_functions, members = [
     ConstructorFrom RuleBuilt_in_functions, TerminalGet T_TRY_CAST, TerminalGet T_LR_BRACKET,
     ContextGet RuleExpression, TerminalGet T_AS, ContextGet RuleData_type,
     TerminalGet T_RR_BRACKET, EnterRule, ExitRule, Accept]\<rparr>"

definition APPLOCK_MODEContext :: context_class where [context_classes]:
  "APPLOCK_MODEContext = \<lparr>class_id = LabelContext L_APPLOCK_MODE, class_base = ContextClass RuleBuilt_in_functions, members = [
     ConstructorFrom RuleBuilt_in_functions,
     ContextField ''database_principal'' RuleExpression,
     ContextField ''resource_name'' RuleExpression, ContextField ''lock_owner'' RuleExpression,
     TerminalGet T_APPLOCK_MODE, TerminalGet T_LR_BRACKET, TerminalAll T_COMMA,
     TerminalNth T_COMMA, TerminalGet T_RR_BRACKET, ContextAll RuleExpression,
     ContextNth RuleExpression, EnterRule, ExitRule, Accept]\<rparr>"

definition CURRENT_DATEContext :: context_class where [context_classes]:
  "CURRENT_DATEContext = \<lparr>class_id = LabelContext L_CURRENT_DATE, class_base = ContextClass RuleBuilt_in_functions, members = [
     ConstructorFrom RuleBuilt_in_functions, TerminalGet T_CURRENT_DATE,
     TerminalGet T_LR_BRACKET, TerminalGet T_RR_BRACKET, EnterRule, ExitRule, Accept]\<rparr>"

definition GETDATEContext :: context_class where [context_classes]:
  "GETDATEContext = \<lparr>class_id = LabelContext L_GETDATE, class_base = ContextClass RuleBuilt_in_functions, members = [
     ConstructorFrom RuleBuilt_in_functions, TerminalGet T_GETDATE, TerminalGet T_LR_BRACKET,
     TerminalGet T_RR_BRACKET, EnterRule, ExitRule, Accept]\<rparr>"

definition CERT_IDContext :: context_class where [context_classes]:
  "CERT_IDContext = \<lparr>class_id = LabelContext L_CERT_ID, class_base = ContextClass RuleBuilt_in_functions, members = [
     ConstructorFrom RuleBuilt_in_functions, ContextField ''cert_name'' RuleExpression,
     TerminalGet T_CERT_ID, TerminalGet T_LR_BRACKET, TerminalGet T_RR_BRACKET,
     ContextGet RuleExpression, EnterRule, ExitRule, Accept]\<rparr>"

definition ATANContext :: context_class where [context_classes]:
  "ATANContext = \<lparr>class_id = LabelContext L_ATAN, class_base = ContextClass RuleBuilt_in_functions, members = [
     ConstructorFrom RuleBuilt_in_functions, ContextField ''float_expression'' RuleExpression,
     TerminalGet T_ATAN, TerminalGet T_LR_BRACKET, TerminalGet T_RR_BRACKET,
     ContextGet RuleExpression, EnterRule, ExitRule, Accept]\<rparr>"

definition CONNECTIONPROPERTYContext :: context_class where [context_classes]:
  "CONNECTIONPROPERTYContext = \<lparr>class_id = LabelContext L_CONNECTIONPROPERTY, class_base = ContextClass RuleBuilt_in_functions, members = [
     ConstructorFrom RuleBuilt_in_functions, TokenField ''property'',
     TerminalGet T_CONNECTIONPROPERTY, TerminalGet T_LR_BRACKET, TerminalGet T_RR_BRACKET,
     TerminalGet T_STRING, EnterRule, ExitRule, Accept]\<rparr>"

definition ERROR_NUMBERContext :: context_class where [context_classes]:
  "ERROR_NUMBERContext = \<lparr>class_id = LabelContext L_ERROR_NUMBER, class_base = ContextClass RuleBuilt_in_functions, members = [
     ConstructorFrom RuleBuilt_in_functions, TerminalGet T_ERROR_NUMBER,
     TerminalGet T_LR_BRACKET, TerminalGet T_RR_BRACKET, EnterRule, ExitRule, Accept]\<rparr>"

definition ERROR_LINEContext :: context_class where [context_classes]:
  "ERROR_LINEContext = \<lparr>class_id = LabelContext L_ERROR_LINE, class_base = ContextClass RuleBuilt_in_functions, members = [
     ConstructorFrom RuleBuilt_in_functions, TerminalGet T_ERROR_LINE,
     TerminalGet T_LR_BRACKET, TerminalGet T_RR_BRACKET, EnterRule, ExitRule, Accept]\<rparr>"

definition CURRENT_TIMESTAMPContext :: context_class where [context_classes]:
  "CURRENT_TIMESTAMPContext = \<lparr>class_id = LabelContext L_CURRENT_TIMESTAMP, class_base = ContextClass RuleBuilt_in_functions, members = [
     ConstructorFrom RuleBuilt_in_functions, TerminalGet T_CURRENT_TIMESTAMP, EnterRule,
     ExitRule, Accept]\<rparr>"

definition CONCATContext :: context_class where [context_classes]:
  "CONCATContext = \<lparr>class_id = LabelContext L_CONCAT, class_base = ContextClass RuleBuilt_in_functions, members = [
     ConstructorFrom RuleBuilt_in_functions, ContextField ''string_value_1'' RuleExpression,
     ContextField ''string_value_2'' RuleExpression,
     ContextField ''expressionContext'' RuleExpression,
     ContextListField ''string_value_n'' RuleExpression, TerminalGet T_CONCAT,
     TerminalGet T_LR_BRACKET, TerminalAll T_COMMA, TerminalNth T_COMMA,
     TerminalGet T_RR_BRACKET, ContextAll RuleExpression, ContextNth RuleExpression, EnterRule,
     ExitRule, Accept]\<rparr>"

definition JSON_ARRAYContext :: context_class where [context_classes]:
  "JSON_ARRAYContext = \<lparr>class_id = LabelContext L_JSON_ARRAY, class_base = ContextClass RuleBuilt_in_functions, members = [
     ConstructorFrom RuleBuilt_in_functions, TerminalGet T_JSON_ARRAY,
     TerminalGet T_LR_BRACKET, TerminalGet T_RR_BRACKET, ContextGet RuleExpression_list',
     ContextGet RuleJson_null_clause, EnterRule, ExitRule, Accept]\<rparr>"

definition ROUNDContext :: context_class where [context_classes]:
  "ROUNDContext = \<lparr>class_id = LabelContext L_ROUND, class_base = ContextClass RuleBuilt_in_functions, members = [
     ConstructorFrom RuleBuilt_in_functions,
     ContextField ''numeric_expression'' RuleExpression,
     ContextField ''length'' RuleExpression, ContextField ''function'' RuleExpression,
     TerminalGet T_ROUND, TerminalGet T_LR_BRACKET, TerminalAll T_COMMA, TerminalNth T_COMMA,
     TerminalGet T_RR_BRACKET, ContextAll RuleExpression, ContextNth RuleExpression, EnterRule,
     ExitRule, Accept]\<rparr>"

definition DATALENGTHContext :: context_class where [context_classes]:
  "DATALENGTHContext = \<lparr>class_id = LabelContext L_DATALENGTH, class_base = ContextClass RuleBuilt_in_functions, members = [
     ConstructorFrom RuleBuilt_in_functions, TerminalGet T_DATALENGTH,
     TerminalGet T_LR_BRACKET, ContextGet RuleExpression, TerminalGet T_RR_BRACKET, EnterRule,
     ExitRule, Accept]\<rparr>"

definition HOST_NAMEContext :: context_class where [context_classes]:
  "HOST_NAMEContext = \<lparr>class_id = LabelContext L_HOST_NAME, class_base = ContextClass RuleBuilt_in_functions, members = [
     ConstructorFrom RuleBuilt_in_functions, TerminalGet T_HOST_NAME, TerminalGet T_LR_BRACKET,
     TerminalGet T_RR_BRACKET, EnterRule, ExitRule, Accept]\<rparr>"

definition DATABASEPROPERTYEXContext :: context_class where [context_classes]:
  "DATABASEPROPERTYEXContext = \<lparr>class_id = LabelContext L_DATABASEPROPERTYEX, class_base = ContextClass RuleBuilt_in_functions, members = [
     ConstructorFrom RuleBuilt_in_functions, ContextField ''database'' RuleExpression,
     ContextField ''property'' RuleExpression, TerminalGet T_DATABASEPROPERTYEX,
     TerminalGet T_LR_BRACKET, TerminalGet T_COMMA, TerminalGet T_RR_BRACKET,
     ContextAll RuleExpression, ContextNth RuleExpression, EnterRule, ExitRule, Accept]\<rparr>"

definition ORIGINAL_DB_NAMEContext :: context_class where [context_classes]:
  "ORIGINAL_DB_NAMEContext = \<lparr>class_id = LabelContext L_ORIGINAL_DB_NAME, class_base = ContextClass RuleBuilt_in_functions, members = [
     ConstructorFrom RuleBuilt_in_functions, TerminalGet T_ORIGINAL_DB_NAME,
     TerminalGet T_LR_BRACKET, TerminalGet T_RR_BRACKET, EnterRule, ExitRule, Accept]\<rparr>"

definition FILEPROPERTYEXContext :: context_class where [context_classes]:
  "FILEPROPERTYEXContext = \<lparr>class_id = LabelContext L_FILEPROPERTYEX, class_base = ContextClass RuleBuilt_in_functions, members = [
     ConstructorFrom RuleBuilt_in_functions, ContextField ''name'' RuleExpression,
     ContextField ''property'' RuleExpression, TerminalGet T_FILEPROPERTYEX,
     TerminalGet T_LR_BRACKET, TerminalGet T_COMMA, TerminalGet T_RR_BRACKET,
     ContextAll RuleExpression, ContextNth RuleExpression, EnterRule, ExitRule, Accept]\<rparr>"

definition RTRIMContext :: context_class where [context_classes]:
  "RTRIMContext = \<lparr>class_id = LabelContext L_RTRIM, class_base = ContextClass RuleBuilt_in_functions, members = [
     ConstructorFrom RuleBuilt_in_functions,
     ContextField ''character_expression'' RuleExpression, TerminalGet T_RTRIM,
     TerminalGet T_LR_BRACKET, TerminalGet T_RR_BRACKET, ContextGet RuleExpression, EnterRule,
     ExitRule, Accept]\<rparr>"

definition JSON_OBJECTContext :: context_class where [context_classes]:
  "JSON_OBJECTContext = \<lparr>class_id = LabelContext L_JSON_OBJECT, class_base = ContextClass RuleBuilt_in_functions, members = [
     ConstructorFrom RuleBuilt_in_functions, ContextField ''key_value'' RuleJson_key_value,
     TerminalGet T_JSON_OBJECT, TerminalGet T_LR_BRACKET, TerminalGet T_RR_BRACKET,
     ContextGet RuleJson_null_clause, ContextAll RuleJson_key_value,
     ContextNth RuleJson_key_value, TerminalAll T_COMMA, TerminalNth T_COMMA, EnterRule,
     ExitRule, Accept]\<rparr>"

definition XACT_STATEContext :: context_class where [context_classes]:
  "XACT_STATEContext = \<lparr>class_id = LabelContext L_XACT_STATE, class_base = ContextClass RuleBuilt_in_functions, members = [
     ConstructorFrom RuleBuilt_in_functions, TerminalGet T_XACT_STATE,
     TerminalGet T_LR_BRACKET, TerminalGet T_RR_BRACKET, EnterRule, ExitRule, Accept]\<rparr>"

definition FORMATMESSAGEContext :: context_class where [context_classes]:
  "FORMATMESSAGEContext = \<lparr>class_id = LabelContext L_FORMATMESSAGE, class_base = ContextClass RuleBuilt_in_functions, members = [
     ConstructorFrom RuleBuilt_in_functions, TokenField ''msg_number'',
     TokenField ''msg_string'', TokenField ''msg_variable'', TerminalGet T_FORMATMESSAGE,
     TerminalGet T_LR_BRACKET, TerminalAll T_COMMA, TerminalNth T_COMMA,
     ContextAll RuleExpression, ContextNth RuleExpression, TerminalGet T_RR_BRACKET,
     TerminalGet T_DECIMAL, TerminalGet T_STRING, TerminalGet T_LOCAL_ID, EnterRule, ExitRule,
     Accept]\<rparr>"

definition DATEDIFF_BIGContext :: context_class where [context_classes]:
  "DATEDIFF_BIGContext = \<lparr>class_id = LabelContext L_DATEDIFF_BIG, class_base = ContextClass RuleBuilt_in_functions, members = [
     ConstructorFrom RuleBuilt_in_functions, ContextField ''datepart'' RuleDateparts_12,
     ContextField ''startdate'' RuleExpression, ContextField ''enddate'' RuleExpression,
     TerminalGet T_DATEDIFF_BIG, TerminalGet T_LR_BRACKET, TerminalAll T_COMMA,
     TerminalNth T_COMMA, TerminalGet T_RR_BRACKET, ContextGet RuleDateparts_12,
     ContextAll RuleExpression, ContextNth RuleExpression, EnterRule, ExitRule, Accept]\<rparr>"

definition USERContext :: context_class where [context_classes]:
  "USERContext = \<lparr>class_id = LabelContext L_USER, class_base = ContextClass RuleBuilt_in_functions, members = [
     ConstructorFrom RuleBuilt_in_functions, TerminalGet T_USER, EnterRule, ExitRule, Accept]\<rparr>"

definition DEGREESContext :: context_class where [context_classes]:
  "DEGREESContext = \<lparr>class_id = LabelContext L_DEGREES, class_base = ContextClass RuleBuilt_in_functions, members = [
     ConstructorFrom RuleBuilt_in_functions,
     ContextField ''numeric_expression'' RuleExpression, TerminalGet T_DEGREES,
     TerminalGet T_LR_BRACKET, TerminalGet T_RR_BRACKET, ContextGet RuleExpression, EnterRule,
     ExitRule, Accept]\<rparr>"

definition LENContext :: context_class where [context_classes]:
  "LENContext = \<lparr>class_id = LabelContext L_LEN, class_base = ContextClass RuleBuilt_in_functions, members = [
     ConstructorFrom RuleBuilt_in_functions, ContextField ''string_expression'' RuleExpression,
     TerminalGet T_LEN, TerminalGet T_LR_BRACKET, TerminalGet T_RR_BRACKET,
     ContextGet RuleExpression, EnterRule, ExitRule, Accept]\<rparr>"

definition TRANSLATEContext :: context_class where [context_classes]:
  "TRANSLATEContext = \<lparr>class_id = LabelContext L_TRANSLATE, class_base = ContextClass RuleBuilt_in_functions, members = [
     ConstructorFrom RuleBuilt_in_functions, ContextField ''inputString'' RuleExpression,
     ContextField ''characters'' RuleExpression, ContextField ''translations'' RuleExpression,
     TerminalGet T_TRANSLATE, TerminalGet T_LR_BRACKET, TerminalAll T_COMMA,
     TerminalNth T_COMMA, TerminalGet T_RR_BRACKET, ContextAll RuleExpression,
     ContextNth RuleExpression, EnterRule, ExitRule, Accept]\<rparr>"

definition SWITCHOFFSETContext :: context_class where [context_classes]:
  "SWITCHOFFSETContext = \<lparr>class_id = LabelContext L_SWITCHOFFSET, class_base = ContextClass RuleBuilt_in_functions, members = [
     ConstructorFrom RuleBuilt_in_functions,
     ContextField ''datetimeoffset_expression'' RuleExpression,
     ContextField ''timezoneoffset_expression'' RuleExpression, TerminalGet T_SWITCHOFFSET,
     TerminalGet T_LR_BRACKET, TerminalGet T_COMMA, TerminalGet T_RR_BRACKET,
     ContextAll RuleExpression, ContextNth RuleExpression, EnterRule, ExitRule, Accept]\<rparr>"

definition PIContext :: context_class where [context_classes]:
  "PIContext = \<lparr>class_id = LabelContext L_PI, class_base = ContextClass RuleBuilt_in_functions, members = [
     ConstructorFrom RuleBuilt_in_functions, TerminalGet T_PI, TerminalGet T_LR_BRACKET,
     TerminalGet T_RR_BRACKET, EnterRule, ExitRule, Accept]\<rparr>"

definition DATE_BUCKETContext :: context_class where [context_classes]:
  "DATE_BUCKETContext = \<lparr>class_id = LabelContext L_DATE_BUCKET, class_base = ContextClass RuleBuilt_in_functions, members = [
     ConstructorFrom RuleBuilt_in_functions, ContextField ''datepart'' RuleDateparts_9,
     ContextField ''number'' RuleExpression, ContextField ''date'' RuleExpression,
     ContextField ''origin'' RuleExpression, TerminalGet T_DATE_BUCKET,
     TerminalGet T_LR_BRACKET, TerminalAll T_COMMA, TerminalNth T_COMMA,
     TerminalGet T_RR_BRACKET, ContextGet RuleDateparts_9, ContextAll RuleExpression,
     ContextNth RuleExpression, EnterRule, ExitRule, Accept]\<rparr>"

definition EXPContext :: context_class where [context_classes]:
  "EXPContext = \<lparr>class_id = LabelContext L_EXP, class_base = ContextClass RuleBuilt_in_functions, members = [
     ConstructorFrom RuleBuilt_in_functions, ContextField ''float_expression'' RuleExpression,
     TerminalGet T_EXP, TerminalGet T_LR_BRACKET, TerminalGet T_RR_BRACKET,
     ContextGet RuleExpression, EnterRule, ExitRule, Accept]\<rparr>"

definition STRINGAGGContext :: context_class where [context_classes]:
  "STRINGAGGContext = \<lparr>class_id = LabelContext L_STRINGAGG, class_base = ContextClass RuleBuilt_in_functions, members = [
     ConstructorFrom RuleBuilt_in_functions, ContextField ''expr'' RuleExpression,
     ContextField ''separator'' RuleExpression, TerminalGet T_STRING_AGG,
     TerminalAll T_LR_BRACKET, TerminalNth T_LR_BRACKET, TerminalGet T_COMMA,
     TerminalAll T_RR_BRACKET, TerminalNth T_RR_BRACKET, ContextAll RuleExpression,
     ContextNth RuleExpression, TerminalGet T_WITHIN, TerminalGet T_GROUP,
     ContextGet RuleOrder_by_clause, EnterRule, ExitRule, Accept]\<rparr>"

definition classes_5 :: "context_class list" where
  "classes_5 = [
     Optimize_for_argContext, Select_listContext, Udt_method_argumentsContext, AsteriskContext,
     Udt_elemContext, Expression_elemContext, Select_list_elemContext, Table_sourcesContext,
     Non_ansi_joinContext, Table_sourceContext, Table_source_itemContext, Open_xmlContext,
     Open_jsonContext, Json_declarationContext, Json_column_declarationContext,
     Schema_declarationContext, Column_declarationContext, Change_tableContext,
     Change_table_changesContext, Change_table_versionContext, Join_partContext,
     Join_onContext, Cross_joinContext, Apply_Context, PivotContext, UnpivotContext,
     Pivot_clauseContext, Unpivot_clauseContext, Full_column_name_listContext,
     Rowset_functionContext, Bulk_optionContext, Derived_tableContext, Function_callContext,
     RANKING_WINDOWED_FUNCContext, BUILT_IN_FUNCContext, FREE_TEXTContext,
     ANALYTIC_WINDOWED_FUNCContext, SCALAR_FUNCTIONContext, PARTITION_FUNCContext,
     AGGREGATE_WINDOWED_FUNCContext, HIERARCHYID_METHODContext, Partition_functionContext,
     Freetext_functionContext, Freetext_predicateContext, Json_key_valueContext,
     Json_null_clauseContext, Built_in_functionsContext, COL_NAMEContext, CHECKSUMContext,
     DECOMPRESSContext, CURRENT_TIMEZONE_IDContext, MONTHContext, RANDContext, FORMATContext,
     TRIMContext, LEASTContext, APP_NAMEContext, USER_IDContext, FILE_NAMEContext,
     SESSION_CONTEXTContext, STRContext, CONVERTContext, XML_DATA_TYPE_FUNCContext,
     LOG10Context, FLOORContext, YEARContext, PARSEContext, ORIGINAL_LOGINContext,
     MATH_SIGNContext, TIMEFROMPARTSContext, LEFTContext,
     GET_FILESTREAM_TRANSACTION_CONTEXTContext, FILEPROPERTYContext, IDENT_SEEDContext,
     IDENTITYContext, CURRENT_TRANSACTION_IDContext, LTRIMContext, ROWCOUNT_BIGContext,
     CERTENCODEDContext, JSON_VALUEContext, SYSDATETIMEContext, CERTPRIVATEKEYContext,
     SPACEContext, UPPERContext, ABSContext, ISJSONContext, HAS_PERMS_BY_NAMEContext,
     SUSER_IDContext, SCOPE_IDENTITYContext, JSON_QUERYContext, INDEX_COLContext,
     DATABASE_PRINCIPAL_IDContext, PATINDEXContext, FULLTEXTSERVICEPROPERTYContext,
     SMALLDATETIMEFROMPARTSContext, IDENT_CURRENTContext, SESSIONPROPERTYContext,
     FETCH_STATUSContext, POWERContext, REPLICATEContext, USER_NAMEContext,
     OBJECT_DEFINITIONContext, IS_SRVROLEMEMBERContext, NEWSEQUENTIALIDContext,
     OBJECT_NAMEContext, JSON_PATH_EXISTSContext, PWDCOMPAREContext, SCHEMA_IDContext,
     OBJECT_SCHEMA_NAMEContext, SUSER_SNAMEContext, DB_NAMEContext, SUSER_SIDContext,
     ASCIIContext, FILE_IDEXContext, ERROR_SEVERITYContext, REVERSEContext, ISDATEContext,
     REPLACEContext, CURSOR_STATUSContext, MIN_ACTIVE_ROWVERSIONContext, HAS_DBACCESSContext,
     NEXT_VALUE_FORContext, FILEGROUP_IDContext, LOWERContext, DATENAMEContext, CEILINGContext,
     APPLOCK_TESTContext, SINContext, TYPE_NAMEContext, SYSUTCDATETIMEContext, DATEADDContext,
     DATETIMEFROMPARTSContext, ERROR_MESSAGEContext, FILEGROUPPROPERTYContext, EOMONTHContext,
     IDENT_INCRContext, ASINContext, NCHARContext, DIFFERENCEContext, CHARINDEXContext,
     TODATETIMEOFFSETContext, RADIANSContext, CURRENT_TIMEZONEContext, COL_LENGTHContext,
     DATEFROMPARTSContext, NEWIDContext, DATETRUNCContext, ISNULLContext, JSON_MODIFYContext,
     CURRENT_REQUEST_IDContext, IS_MEMBERContext, SERVERPROPERTYContext, SQRTContext,
     ATN2Context, UNICODEContext, NULLIFContext, SESSION_USERContext, CASTContext,
     DATETIME2FROMPARTSContext, SQUAREContext, LOGContext, IIFContext, DATEPARTContext,
     CONTEXT_INFOContext, DATEDIFFContext, OBJECTPROPERTYContext, CHARContext,
     STRING_ESCAPEContext, GETANSINULLContext, SYSTEM_USERContext, OBJECT_IDContext,
     ERROR_PROCEDUREContext, QUOTENAMEContext, RIGHTContext, HOST_IDContext,
     DATETIMEOFFSETFROMPARTSContext, COSContext, COTContext, FILE_IDContext,
     ASSEMBLYPROPERTYContext, STUFFContext, IS_ROLEMEMBERContext, SQL_VARIANT_PROPERTYContext,
     GREATESTContext, GETUTCDATEContext, LOGINPROPERTYContext, CONCAT_WSContext,
     ERROR_STATEContext, DAYContext, PARSENAMEContext, TANContext, CURRENT_USERContext,
     PERMISSIONSContext, SYSDATETIMEOFFSETContext, INDEXPROPERTYContext,
     OBJECTPROPERTYEXContext, SUBSTRINGContext, BINARY_CHECKSUMContext,
     INDEXKEY_PROPERTYContext, PWDENCRYPTContext, COMPRESSContext, COALESCEContext,
     STATS_DATEContext, ISNUMERICContext, ACOSContext, FILEGROUP_NAMEContext,
     COLUMNPROPERTYContext, DB_IDContext, SOUNDEXContext, CURSOR_ROWSContext,
     FULLTEXTCATALOGPROPERTYContext, TYPEPROPERTYContext, SCHEMA_NAMEContext, TYPE_IDContext,
     TRY_CASTContext, APPLOCK_MODEContext, CURRENT_DATEContext, GETDATEContext, CERT_IDContext,
     ATANContext, CONNECTIONPROPERTYContext, ERROR_NUMBERContext, ERROR_LINEContext,
     CURRENT_TIMESTAMPContext, CONCATContext, JSON_ARRAYContext, ROUNDContext,
     DATALENGTHContext, HOST_NAMEContext, DATABASEPROPERTYEXContext, ORIGINAL_DB_NAMEContext,
     FILEPROPERTYEXContext, RTRIMContext, JSON_OBJECTContext, XACT_STATEContext,
     FORMATMESSAGEContext, DATEDIFF_BIGContext, USERContext, DEGREESContext, LENContext,
     TRANSLATEContext, SWITCHOFFSETContext, PIContext, DATE_BUCKETContext, EXPContext,
     STRINGAGGContext]"

end
