(* ===== verification/Conformance_5.thy ===== *)
theory Conformance_5
  imports Conforming Rules_5 Contexts_5
begin

text \<open>
  Part 5 of the comparison of \<open>TSqlParser.g4\<close> with the classes of \<open>TSqlParser.h\<close>: each rule
  with the classes the header declares for it, and the evaluation of the check.
\<close>

definition pairs_5 :: "(rule option \<times> context_class list) list" where
  "pairs_5 = [
     (Some g_optimize_for_arg, [Optimize_for_argContext]),
     (Some g_select_list, [Select_listContext]),
     (Some g_udt_method_arguments, [Udt_method_argumentsContext]),
     (Some g_asterisk, [AsteriskContext]),
     (Some g_udt_elem, [Udt_elemContext]),
     (Some g_expression_elem, [Expression_elemContext]),
     (Some g_select_list_elem, [Select_list_elemContext]),
     (Some g_table_sources, [Table_sourcesContext]),
     (None, [Non_ansi_joinContext]),
     (Some g_table_source, [Table_sourceContext]),
     (Some g_table_source_item, [Table_source_itemContext]),
     (Some g_open_xml, [Open_xmlContext]),
     (Some g_open_json, [Open_jsonContext]),
     (Some g_json_declaration, [Json_declarationContext]),
     (Some g_json_column_declaration, [Json_column_declarationContext]),
     (Some g_schema_declaration, [Schema_declarationContext]),
     (Some g_column_declaration, [Column_declarationContext]),
     (Some g_change_table, [Change_tableContext]),
     (Some g_change_table_changes, [Change_table_changesContext]),
     (Some g_change_table_version, [Change_table_versionContext]),
     (Some g_join_part, [Join_partContext]),
     (Some g_join_on, [Join_onContext]),
     (Some g_cross_join, [Cross_joinContext]),
     (Some g_apply', [Apply_Context]),
     (Some g_pivot, [PivotContext]),
     (Some g_unpivot, [UnpivotContext]),
     (Some g_pivot_clause, [Pivot_clauseContext]),
     (Some g_unpivot_clause, [Unpivot_clauseContext]),
     (Some g_full_column_name_list, [Full_column_name_listContext]),
     (Some g_rowset_function, [Rowset_functionContext]),
     (Some g_bulk_option, [Bulk_optionContext]),
     (Some g_derived_table, [Derived_tableContext]),
     (Some g_function_call, [
       Function_callContext, RANKING_WINDOWED_FUNCContext, BUILT_IN_FUNCContext,
       FREE_TEXTContext, ANALYTIC_WINDOWED_FUNCContext, SCALAR_FUNCTIONContext,
       PARTITION_FUNCContext, AGGREGATE_WINDOWED_FUNCContext, HIERARCHYID_METHODContext]),
     (Some g_partition_function, [Partition_functionContext]),
     (Some g_freetext_function, [Freetext_functionContext]),
     (Some g_freetext_predicate, [Freetext_predicateContext]),
     (Some g_json_key_value, [Json_key_valueContext]),
     (Some g_json_null_clause, [Json_null_clauseContext]),
     (Some g_built_in_functions, [
       Built_in_functionsContext, COL_NAMEContext, CHECKSUMContext, DECOMPRESSContext,
       CURRENT_TIMEZONE_IDContext, MONTHContext, RANDContext, FORMATContext, TRIMContext,
       LEASTContext, APP_NAMEContext, USER_IDContext, FILE_NAMEContext, SESSION_CONTEXTContext,
       STRContext, CONVERTContext, XML_DATA_TYPE_FUNCContext, LOG10Context, FLOORContext,
       YEARContext, PARSEContext, ORIGINAL_LOGINContext, MATH_SIGNContext,
       TIMEFROMPARTSContext, LEFTContext, GET_FILESTREAM_TRANSACTION_CONTEXTContext,
       FILEPROPERTYContext, IDENT_SEEDContext, IDENTITYContext, CURRENT_TRANSACTION_IDContext,
       LTRIMContext, ROWCOUNT_BIGContext, CERTENCODEDContext, JSON_VALUEContext,
       SYSDATETIMEContext, CERTPRIVATEKEYContext, SPACEContext, UPPERContext, ABSContext,
       ISJSONContext, HAS_PERMS_BY_NAMEContext, SUSER_IDContext, SCOPE_IDENTITYContext,
       JSON_QUERYContext, INDEX_COLContext, DATABASE_PRINCIPAL_IDContext, PATINDEXContext,
       FULLTEXTSERVICEPROPERTYContext, SMALLDATETIMEFROMPARTSContext, IDENT_CURRENTContext,
       SESSIONPROPERTYContext, FETCH_STATUSContext, POWERContext, REPLICATEContext,
       USER_NAMEContext, OBJECT_DEFINITIONContext, IS_SRVROLEMEMBERContext,
       NEWSEQUENTIALIDContext, OBJECT_NAMEContext, JSON_PATH_EXISTSContext, PWDCOMPAREContext,
       SCHEMA_IDContext, OBJECT_SCHEMA_NAMEContext, SUSER_SNAMEContext, DB_NAMEContext,
       SUSER_SIDContext, ASCIIContext, FILE_IDEXContext, ERROR_SEVERITYContext, REVERSEContext,
       ISDATEContext, REPLACEContext, CURSOR_STATUSContext, MIN_ACTIVE_ROWVERSIONContext,
       HAS_DBACCESSContext, NEXT_VALUE_FORContext, FILEGROUP_IDContext, LOWERContext,
       DATENAMEContext, CEILINGContext, APPLOCK_TESTContext, SINContext, TYPE_NAMEContext,
       SYSUTCDATETIMEContext, DATEADDContext, DATETIMEFROMPARTSContext, ERROR_MESSAGEContext,
       FILEGROUPPROPERTYContext, EOMONTHContext, IDENT_INCRContext, ASINContext, NCHARContext,
       DIFFERENCEContext, CHARINDEXContext, TODATETIMEOFFSETContext, RADIANSContext,
       CURRENT_TIMEZONEContext, COL_LENGTHContext, DATEFROMPARTSContext, NEWIDContext,
       DATETRUNCContext, ISNULLContext, JSON_MODIFYContext, CURRENT_REQUEST_IDContext,
       IS_MEMBERContext, SERVERPROPERTYContext, SQRTContext, ATN2Context, UNICODEContext,
       NULLIFContext, SESSION_USERContext, CASTContext, DATETIME2FROMPARTSContext,
       SQUAREContext, LOGContext, IIFContext, DATEPARTContext, CONTEXT_INFOContext,
       DATEDIFFContext, OBJECTPROPERTYContext, CHARContext, STRING_ESCAPEContext,
       GETANSINULLContext, SYSTEM_USERContext, OBJECT_IDContext, ERROR_PROCEDUREContext,
       QUOTENAMEContext, RIGHTContext, HOST_IDContext, DATETIMEOFFSETFROMPARTSContext,
       COSContext, COTContext, FILE_IDContext, ASSEMBLYPROPERTYContext, STUFFContext,
       IS_ROLEMEMBERContext, SQL_VARIANT_PROPERTYContext, GREATESTContext, GETUTCDATEContext,
       LOGINPROPERTYContext, CONCAT_WSContext, ERROR_STATEContext, DAYContext,
       PARSENAMEContext, TANContext, CURRENT_USERContext, PERMISSIONSContext,
       SYSDATETIMEOFFSETContext, INDEXPROPERTYContext, OBJECTPROPERTYEXContext,
       SUBSTRINGContext, BINARY_CHECKSUMContext, INDEXKEY_PROPERTYContext, PWDENCRYPTContext,
       COMPRESSContext, COALESCEContext, STATS_DATEContext, ISNUMERICContext, ACOSContext,
       FILEGROUP_NAMEContext, COLUMNPROPERTYContext, DB_IDContext, SOUNDEXContext,
       CURSOR_ROWSContext, FULLTEXTCATALOGPROPERTYContext, TYPEPROPERTYContext,
       SCHEMA_NAMEContext, TYPE_IDContext, TRY_CASTContext, APPLOCK_MODEContext,
       CURRENT_DATEContext, GETDATEContext, CERT_IDContext, ATANContext,
       CONNECTIONPROPERTYContext, ERROR_NUMBERContext, ERROR_LINEContext,
       CURRENT_TIMESTAMPContext, CONCATContext, JSON_ARRAYContext, ROUNDContext,
       DATALENGTHContext, HOST_NAMEContext, DATABASEPROPERTYEXContext, ORIGINAL_DB_NAMEContext,
       FILEPROPERTYEXContext, RTRIMContext, JSON_OBJECTContext, XACT_STATEContext,
       FORMATMESSAGEContext, DATEDIFF_BIGContext, USERContext, DEGREESContext, LENContext,
       TRANSLATEContext, SWITCHOFFSETContext, PIContext, DATE_BUCKETContext, EXPContext,
       STRINGAGGContext])]"

lemma pairs_5_ok: "list_all pair_ok pairs_5"
  by (simp only: conformance_eval pairs_5_def grammar_rules context_classes cong: opaque case_opaque)

end
