(* ===== verification/Rules_6.thy ===== *)
theory Rules_6
  imports Grammar Tokens Rule_Ids Label_Ids
begin

text \<open>
  Rules of \<open>src/TSqlParser.g4\<close>, from \<open>xml_data_type_methods\<close> to \<open>file_size\<close>: one definition per
  rule, its alternatives in the order of the file.  A quoted literal of the grammar is the
  token whose lexer rule is that literal.
\<close>

definition g_xml_data_type_methods :: rule where [grammar_rules]:
  "g_xml_data_type_methods = \<lparr>rule_index = RuleXml_data_type_methods, rule_alts = [
       (None, Ref RuleValue_method),
       (None, Ref RuleQuery_method),
       (None, Ref RuleExist_method),
       (None, Ref RuleModify_method)]\<rparr>"

definition g_dateparts_9 :: rule where [grammar_rules]:
  "g_dateparts_9 = \<lparr>rule_index = RuleDateparts_9, rule_alts = [
       (None, Tok T_YEAR),
       (None, Tok T_YEAR_ABBR),
       (None, Tok T_QUARTER),
       (None, Tok T_QUARTER_ABBR),
       (None, Tok T_MONTH),
       (None, Tok T_MONTH_ABBR),
       (None, Tok T_DAY),
       (None, Tok T_DAY_ABBR),
       (None, Tok T_WEEK),
       (None, Tok T_WEEK_ABBR),
       (None, Tok T_HOUR),
       (None, Tok T_HOUR_ABBR),
       (None, Tok T_MINUTE),
       (None, Tok T_MINUTE_ABBR),
       (None, Tok T_SECOND),
       (None, Tok T_SECOND_ABBR),
       (None, Tok T_MILLISECOND),
       (None, Tok T_MILLISECOND_ABBR)]\<rparr>"

definition g_dateparts_12 :: rule where [grammar_rules]:
  "g_dateparts_12 = \<lparr>rule_index = RuleDateparts_12, rule_alts = [
       (None, Ref RuleDateparts_9),
       (None, Tok T_DAYOFYEAR),
       (None, Tok T_DAYOFYEAR_ABBR),
       (None, Tok T_MICROSECOND),
       (None, Tok T_MICROSECOND_ABBR),
       (None, Tok T_NANOSECOND),
       (None, Tok T_NANOSECOND_ABBR)]\<rparr>"

definition g_dateparts_15 :: rule where [grammar_rules]:
  "g_dateparts_15 = \<lparr>rule_index = RuleDateparts_15, rule_alts = [
       (None, Ref RuleDateparts_12),
       (None, Tok T_WEEKDAY),
       (None, Tok T_WEEKDAY_ABBR),
       (None, Tok T_TZOFFSET),
       (None, Tok T_TZOFFSET_ABBR),
       (None, Tok T_ISO_WEEK),
       (None, Tok T_ISO_WEEK_ABBR)]\<rparr>"

definition g_dateparts_datetrunc :: rule where [grammar_rules]:
  "g_dateparts_datetrunc = \<lparr>rule_index = RuleDateparts_datetrunc, rule_alts = [
       (None, Ref RuleDateparts_9),
       (None, Tok T_DAYOFYEAR),
       (None, Tok T_DAYOFYEAR_ABBR),
       (None, Tok T_MICROSECOND),
       (None, Tok T_MICROSECOND_ABBR),
       (None, Tok T_ISO_WEEK),
       (None, Tok T_ISO_WEEK_ABBR)]\<rparr>"

definition g_value_method :: rule where [grammar_rules]:
  "g_value_method = \<lparr>rule_index = RuleValue_method, rule_alts = [
       (None, Seq [Alt [Lab (Assign ''loc_id'') (Tok T_LOCAL_ID),
         Lab (Assign ''value_id'') (Ref RuleFull_column_name),
         Seq [Lab (Assign ''eventdata'') (Tok T_EVENTDATA), Tok T_LR_BRACKET,
         Tok T_RR_BRACKET], Lab (Assign ''query'') (Ref RuleQuery_method),
         Seq [Tok T_LR_BRACKET, Ref RuleSubquery, Tok T_RR_BRACKET]], Tok T_DOT,
         Lab (Assign ''call'') (Ref RuleValue_call)])]\<rparr>"

definition g_value_call :: rule where [grammar_rules]:
  "g_value_call = \<lparr>rule_index = RuleValue_call, rule_alts = [
       (None, Seq [Alt [Tok T_VALUE, Tok T_VALUE_SQUARE_BRACKET], Tok T_LR_BRACKET,
         Lab (Assign ''xquery'') (Tok T_STRING), Tok T_COMMA,
         Lab (Assign ''sqltype'') (Tok T_STRING), Tok T_RR_BRACKET])]\<rparr>"

definition g_query_method :: rule where [grammar_rules]:
  "g_query_method = \<lparr>rule_index = RuleQuery_method, rule_alts = [
       (None, Seq [Alt [Lab (Assign ''loc_id'') (Tok T_LOCAL_ID),
         Lab (Assign ''value_id'') (Ref RuleFull_column_name), Seq [Tok T_LR_BRACKET,
         Ref RuleSubquery, Tok T_RR_BRACKET]], Tok T_DOT,
         Lab (Assign ''call'') (Ref RuleQuery_call)])]\<rparr>"

definition g_query_call :: rule where [grammar_rules]:
  "g_query_call = \<lparr>rule_index = RuleQuery_call, rule_alts = [
       (None, Seq [Alt [Tok T_QUERY, Tok T_QUERY_SQUARE_BRACKET], Tok T_LR_BRACKET,
         Lab (Assign ''xquery'') (Tok T_STRING), Tok T_RR_BRACKET])]\<rparr>"

definition g_exist_method :: rule where [grammar_rules]:
  "g_exist_method = \<lparr>rule_index = RuleExist_method, rule_alts = [
       (None, Seq [Alt [Lab (Assign ''loc_id'') (Tok T_LOCAL_ID),
         Lab (Assign ''value_id'') (Ref RuleFull_column_name), Seq [Tok T_LR_BRACKET,
         Ref RuleSubquery, Tok T_RR_BRACKET]], Tok T_DOT,
         Lab (Assign ''call'') (Ref RuleExist_call)])]\<rparr>"

definition g_exist_call :: rule where [grammar_rules]:
  "g_exist_call = \<lparr>rule_index = RuleExist_call, rule_alts = [
       (None, Seq [Alt [Tok T_EXIST, Tok T_EXIST_SQUARE_BRACKET], Tok T_LR_BRACKET,
         Lab (Assign ''xquery'') (Tok T_STRING), Tok T_RR_BRACKET])]\<rparr>"

definition g_modify_method :: rule where [grammar_rules]:
  "g_modify_method = \<lparr>rule_index = RuleModify_method, rule_alts = [
       (None, Seq [Alt [Lab (Assign ''loc_id'') (Tok T_LOCAL_ID),
         Lab (Assign ''value_id'') (Ref RuleFull_column_name), Seq [Tok T_LR_BRACKET,
         Ref RuleSubquery, Tok T_RR_BRACKET]], Tok T_DOT,
         Lab (Assign ''call'') (Ref RuleModify_call)])]\<rparr>"

definition g_modify_call :: rule where [grammar_rules]:
  "g_modify_call = \<lparr>rule_index = RuleModify_call, rule_alts = [
       (None, Seq [Alt [Tok T_MODIFY, Tok T_MODIFY_SQUARE_BRACKET], Tok T_LR_BRACKET,
         Lab (Assign ''xml_dml'') (Tok T_STRING), Tok T_RR_BRACKET])]\<rparr>"

definition g_hierarchyid_call :: rule where [grammar_rules]:
  "g_hierarchyid_call = \<lparr>rule_index = RuleHierarchyid_call, rule_alts = [
       (None, Seq [Tok T_GETANCESTOR, Tok T_LR_BRACKET,
         Lab (Assign ''n'') (Ref RuleExpression), Tok T_RR_BRACKET]),
       (None, Seq [Tok T_GETDESCENDANT, Tok T_LR_BRACKET,
         Lab (Assign ''child1'') (Ref RuleExpression), Tok T_COMMA,
         Lab (Assign ''child2'') (Ref RuleExpression), Tok T_RR_BRACKET]),
       (None, Seq [Tok T_GETLEVEL, Tok T_LR_BRACKET, Tok T_RR_BRACKET]),
       (None, Seq [Tok T_ISDESCENDANTOF, Tok T_LR_BRACKET,
         Lab (Assign ''parent_'') (Ref RuleExpression), Tok T_RR_BRACKET]),
       (None, Seq [Tok T_GETREPARENTEDVALUE, Tok T_LR_BRACKET,
         Lab (Assign ''oldroot'') (Ref RuleExpression), Tok T_COMMA,
         Lab (Assign ''newroot'') (Ref RuleExpression), Tok T_RR_BRACKET]),
       (None, Seq [Tok T_TOSTRING, Tok T_LR_BRACKET, Tok T_RR_BRACKET])]\<rparr>"

definition g_hierarchyid_static_method :: rule where [grammar_rules]:
  "g_hierarchyid_static_method = \<lparr>rule_index = RuleHierarchyid_static_method, rule_alts = [
       (None, Seq [Tok T_HIERARCHYID, Tok T_DOUBLE_COLON, Alt [Seq [Tok T_GETROOT,
         Tok T_LR_BRACKET, Tok T_RR_BRACKET], Seq [Tok T_PARSE, Tok T_LR_BRACKET,
         Lab (Assign ''input'') (Ref RuleExpression), Tok T_RR_BRACKET]]])]\<rparr>"

definition g_nodes_method :: rule where [grammar_rules]:
  "g_nodes_method = \<lparr>rule_index = RuleNodes_method, rule_alts = [
       (None, Seq [Alt [Lab (Assign ''loc_id'') (Tok T_LOCAL_ID),
         Lab (Assign ''value_id'') (Ref RuleFull_column_name), Seq [Tok T_LR_BRACKET,
         Ref RuleSubquery, Tok T_RR_BRACKET]], Tok T_DOT, Tok T_NODES, Tok T_LR_BRACKET,
         Lab (Assign ''xquery'') (Tok T_STRING), Tok T_RR_BRACKET])]\<rparr>"

definition g_switch_section :: rule where [grammar_rules]:
  "g_switch_section = \<lparr>rule_index = RuleSwitch_section, rule_alts = [
       (None, Seq [Tok T_WHEN, Ref RuleExpression, Tok T_THEN, Ref RuleExpression])]\<rparr>"

definition g_switch_search_condition_section :: rule where [grammar_rules]:
  "g_switch_search_condition_section = \<lparr>rule_index = RuleSwitch_search_condition_section, rule_alts = [
       (None, Seq [Tok T_WHEN, Ref RuleSearch_condition, Tok T_THEN, Ref RuleExpression])]\<rparr>"

definition g_as_column_alias :: rule where [grammar_rules]:
  "g_as_column_alias = \<lparr>rule_index = RuleAs_column_alias, rule_alts = [
       (None, Seq [Opt (Tok T_AS), Ref RuleColumn_alias])]\<rparr>"

definition g_as_table_alias :: rule where [grammar_rules]:
  "g_as_table_alias = \<lparr>rule_index = RuleAs_table_alias, rule_alts = [
       (None, Seq [Opt (Tok T_AS), Ref RuleTable_alias])]\<rparr>"

definition g_table_alias :: rule where [grammar_rules]:
  "g_table_alias = \<lparr>rule_index = RuleTable_alias, rule_alts = [
       (None, Ref RuleId')]\<rparr>"

definition g_with_table_hints :: rule where [grammar_rules]:
  "g_with_table_hints = \<lparr>rule_index = RuleWith_table_hints, rule_alts = [
       (None, Seq [Tok T_WITH, Tok T_LR_BRACKET, Lab (Append ''hint'') (Ref RuleTable_hint),
         Star (Seq [Opt (Tok T_COMMA), Lab (Append ''hint'') (Ref RuleTable_hint)]),
         Tok T_RR_BRACKET])]\<rparr>"

definition g_deprecated_table_hint :: rule where [grammar_rules]:
  "g_deprecated_table_hint = \<lparr>rule_index = RuleDeprecated_table_hint, rule_alts = [
       (None, Seq [Tok T_LR_BRACKET, Ref RuleTable_hint, Tok T_RR_BRACKET])]\<rparr>"

definition g_sybase_legacy_hints :: rule where [grammar_rules]:
  "g_sybase_legacy_hints = \<lparr>rule_index = RuleSybase_legacy_hints, rule_alts = [
       (None, Plus (Ref RuleSybase_legacy_hint))]\<rparr>"

definition g_sybase_legacy_hint :: rule where [grammar_rules]:
  "g_sybase_legacy_hint = \<lparr>rule_index = RuleSybase_legacy_hint, rule_alts = [
       (None, Tok T_HOLDLOCK),
       (None, Tok T_NOHOLDLOCK),
       (None, Tok T_READPAST),
       (None, Tok T_SHARED)]\<rparr>"

definition g_table_hint :: rule where [grammar_rules]:
  "g_table_hint = \<lparr>rule_index = RuleTable_hint, rule_alts = [
       (None, Tok T_NOEXPAND),
       (None, Seq [Tok T_INDEX, Alt [Seq [Tok T_LR_BRACKET, Ref RuleIndex_value,
         Star (Seq [Tok T_COMMA, Ref RuleIndex_value]), Tok T_RR_BRACKET], Seq [Tok T_EQUAL,
         Tok T_LR_BRACKET, Ref RuleIndex_value, Tok T_RR_BRACKET], Seq [Tok T_EQUAL,
         Ref RuleIndex_value]]]),
       (None, Seq [Tok T_FORCESEEK, Opt (Seq [Tok T_LR_BRACKET, Ref RuleIndex_value,
         Tok T_LR_BRACKET, Ref RuleColumn_name_list, Tok T_RR_BRACKET, Tok T_RR_BRACKET])]),
       (None, Tok T_FORCESCAN),
       (None, Tok T_HOLDLOCK),
       (None, Tok T_NOLOCK),
       (None, Tok T_NOWAIT),
       (None, Tok T_PAGLOCK),
       (None, Tok T_READCOMMITTED),
       (None, Tok T_READCOMMITTEDLOCK),
       (None, Tok T_READPAST),
       (None, Tok T_READUNCOMMITTED),
       (None, Tok T_REPEATABLEREAD),
       (None, Tok T_ROWLOCK),
       (None, Tok T_SERIALIZABLE),
       (None, Tok T_SNAPSHOT),
       (None, Seq [Tok T_SPATIAL_WINDOW_MAX_CELLS, Tok T_EQUAL, Tok T_DECIMAL]),
       (None, Tok T_TABLOCK),
       (None, Tok T_TABLOCKX),
       (None, Tok T_UPDLOCK),
       (None, Tok T_XLOCK),
       (None, Tok T_KEEPIDENTITY),
       (None, Tok T_KEEPDEFAULTS),
       (None, Tok T_IGNORE_CONSTRAINTS),
       (None, Tok T_IGNORE_TRIGGERS)]\<rparr>"

definition g_index_value :: rule where [grammar_rules]:
  "g_index_value = \<lparr>rule_index = RuleIndex_value, rule_alts = [
       (None, Ref RuleId'),
       (None, Tok T_DECIMAL)]\<rparr>"

definition g_column_alias_list :: rule where [grammar_rules]:
  "g_column_alias_list = \<lparr>rule_index = RuleColumn_alias_list, rule_alts = [
       (None, Seq [Tok T_LR_BRACKET, Lab (Append ''alias'') (Ref RuleColumn_alias),
         Star (Seq [Tok T_COMMA, Lab (Append ''alias'') (Ref RuleColumn_alias)]),
         Tok T_RR_BRACKET])]\<rparr>"

definition g_column_alias :: rule where [grammar_rules]:
  "g_column_alias = \<lparr>rule_index = RuleColumn_alias, rule_alts = [
       (None, Ref RuleId'),
       (None, Tok T_STRING)]\<rparr>"

definition g_table_value_constructor :: rule where [grammar_rules]:
  "g_table_value_constructor = \<lparr>rule_index = RuleTable_value_constructor, rule_alts = [
       (None, Seq [Tok T_VALUES, Tok T_LR_BRACKET,
         Lab (Append ''exps'') (Ref RuleExpression_list'), Tok T_RR_BRACKET,
         Star (Seq [Tok T_COMMA, Tok T_LR_BRACKET,
         Lab (Append ''exps'') (Ref RuleExpression_list'), Tok T_RR_BRACKET])])]\<rparr>"

definition g_expression_list' :: rule where [grammar_rules]:
  "g_expression_list' = \<lparr>rule_index = RuleExpression_list', rule_alts = [
       (None, Seq [Lab (Append ''exp'') (Ref RuleExpression), Star (Seq [Tok T_COMMA,
         Lab (Append ''exp'') (Ref RuleExpression)])])]\<rparr>"

definition g_ranking_windowed_function :: rule where [grammar_rules]:
  "g_ranking_windowed_function = \<lparr>rule_index = RuleRanking_windowed_function, rule_alts = [
       (None, Seq [Alt [Tok T_RANK, Tok T_DENSE_RANK, Tok T_ROW_NUMBER], Tok T_LR_BRACKET,
         Tok T_RR_BRACKET, Ref RuleOver_clause]),
       (None, Seq [Tok T_NTILE, Tok T_LR_BRACKET, Ref RuleExpression, Tok T_RR_BRACKET,
         Ref RuleOver_clause])]\<rparr>"

definition g_aggregate_windowed_function :: rule where [grammar_rules]:
  "g_aggregate_windowed_function = \<lparr>rule_index = RuleAggregate_windowed_function, rule_alts = [
       (None, Seq [Lab (Assign ''agg_func'') (Alt [Tok T_AVG, Tok T_MAX, Tok T_MIN, Tok T_SUM,
         Tok T_STDEV, Tok T_STDEVP, Tok T_VAR, Tok T_VARP]), Tok T_LR_BRACKET,
         Ref RuleAll_distinct_expression, Tok T_RR_BRACKET, Opt (Ref RuleOver_clause)]),
       (None, Seq [Lab (Assign ''cnt'') (Alt [Tok T_COUNT, Tok T_COUNT_BIG]), Tok T_LR_BRACKET,
         Alt [Tok T_STAR, Ref RuleAll_distinct_expression], Tok T_RR_BRACKET,
         Opt (Ref RuleOver_clause)]),
       (None, Seq [Tok T_CHECKSUM_AGG, Tok T_LR_BRACKET, Ref RuleAll_distinct_expression,
         Tok T_RR_BRACKET]),
       (None, Seq [Tok T_GROUPING, Tok T_LR_BRACKET, Ref RuleExpression, Tok T_RR_BRACKET]),
       (None, Seq [Tok T_GROUPING_ID, Tok T_LR_BRACKET, Ref RuleExpression_list',
         Tok T_RR_BRACKET])]\<rparr>"

definition g_analytic_windowed_function :: rule where [grammar_rules]:
  "g_analytic_windowed_function = \<lparr>rule_index = RuleAnalytic_windowed_function, rule_alts = [
       (None, Seq [Alt [Tok T_FIRST_VALUE, Tok T_LAST_VALUE], Tok T_LR_BRACKET,
         Ref RuleExpression, Tok T_RR_BRACKET, Ref RuleOver_clause]),
       (None, Seq [Alt [Tok T_LAG, Tok T_LEAD], Tok T_LR_BRACKET, Ref RuleExpression,
         Opt (Seq [Tok T_COMMA, Ref RuleExpression, Opt (Seq [Tok T_COMMA,
         Ref RuleExpression])]), Tok T_RR_BRACKET, Ref RuleOver_clause]),
       (None, Seq [Alt [Tok T_CUME_DIST, Tok T_PERCENT_RANK], Tok T_LR_BRACKET,
         Tok T_RR_BRACKET, Tok T_OVER, Tok T_LR_BRACKET, Opt (Seq [Tok T_PARTITION, Tok T_BY,
         Ref RuleExpression_list']), Ref RuleOrder_by_clause, Tok T_RR_BRACKET]),
       (None, Seq [Alt [Tok T_PERCENTILE_CONT, Tok T_PERCENTILE_DISC], Tok T_LR_BRACKET,
         Ref RuleExpression, Tok T_RR_BRACKET, Tok T_WITHIN, Tok T_GROUP, Tok T_LR_BRACKET,
         Ref RuleOrder_by_clause, Tok T_RR_BRACKET, Tok T_OVER, Tok T_LR_BRACKET,
         Opt (Seq [Tok T_PARTITION, Tok T_BY, Ref RuleExpression_list']), Tok T_RR_BRACKET])]\<rparr>"

definition g_all_distinct_expression :: rule where [grammar_rules]:
  "g_all_distinct_expression = \<lparr>rule_index = RuleAll_distinct_expression, rule_alts = [
       (None, Seq [Opt (Alt [Tok T_ALL, Tok T_DISTINCT]), Ref RuleExpression])]\<rparr>"

definition g_over_clause :: rule where [grammar_rules]:
  "g_over_clause = \<lparr>rule_index = RuleOver_clause, rule_alts = [
       (None, Seq [Tok T_OVER, Tok T_LR_BRACKET, Opt (Seq [Tok T_PARTITION, Tok T_BY,
         Ref RuleExpression_list']), Opt (Ref RuleOrder_by_clause),
         Opt (Ref RuleRow_or_range_clause), Tok T_RR_BRACKET])]\<rparr>"

definition g_row_or_range_clause :: rule where [grammar_rules]:
  "g_row_or_range_clause = \<lparr>rule_index = RuleRow_or_range_clause, rule_alts = [
       (None, Seq [Alt [Tok T_ROWS, Tok T_RANGE], Ref RuleWindow_frame_extent])]\<rparr>"

definition g_window_frame_extent :: rule where [grammar_rules]:
  "g_window_frame_extent = \<lparr>rule_index = RuleWindow_frame_extent, rule_alts = [
       (None, Ref RuleWindow_frame_preceding),
       (None, Seq [Tok T_BETWEEN, Ref RuleWindow_frame_bound, Tok T_AND,
         Ref RuleWindow_frame_bound])]\<rparr>"

definition g_window_frame_bound :: rule where [grammar_rules]:
  "g_window_frame_bound = \<lparr>rule_index = RuleWindow_frame_bound, rule_alts = [
       (None, Ref RuleWindow_frame_preceding),
       (None, Ref RuleWindow_frame_following)]\<rparr>"

definition g_window_frame_preceding :: rule where [grammar_rules]:
  "g_window_frame_preceding = \<lparr>rule_index = RuleWindow_frame_preceding, rule_alts = [
       (None, Seq [Tok T_UNBOUNDED, Tok T_PRECEDING]),
       (None, Seq [Tok T_DECIMAL, Tok T_PRECEDING]),
       (None, Seq [Tok T_CURRENT, Tok T_ROW])]\<rparr>"

definition g_window_frame_following :: rule where [grammar_rules]:
  "g_window_frame_following = \<lparr>rule_index = RuleWindow_frame_following, rule_alts = [
       (None, Seq [Tok T_UNBOUNDED, Tok T_FOLLOWING]),
       (None, Seq [Tok T_DECIMAL, Tok T_FOLLOWING])]\<rparr>"

definition g_create_database_option :: rule where [grammar_rules]:
  "g_create_database_option = \<lparr>rule_index = RuleCreate_database_option, rule_alts = [
       (None, Seq [Tok T_FILESTREAM, Seq [Ref RuleDatabase_filestream_option,
         Star (Seq [Tok T_COMMA, Ref RuleDatabase_filestream_option])]]),
       (None, Seq [Tok T_DEFAULT_LANGUAGE, Tok T_EQUAL, Alt [Ref RuleId', Tok T_STRING]]),
       (None, Seq [Tok T_DEFAULT_FULLTEXT_LANGUAGE, Tok T_EQUAL, Alt [Ref RuleId',
         Tok T_STRING]]),
       (None, Seq [Tok T_NESTED_TRIGGERS, Tok T_EQUAL, Alt [Tok T_OFF, Tok T_ON]]),
       (None, Seq [Tok T_TRANSFORM_NOISE_WORDS, Tok T_EQUAL, Alt [Tok T_OFF, Tok T_ON]]),
       (None, Seq [Tok T_TWO_DIGIT_YEAR_CUTOFF, Tok T_EQUAL, Tok T_DECIMAL]),
       (None, Seq [Tok T_DB_CHAINING, Alt [Tok T_OFF, Tok T_ON]]),
       (None, Seq [Tok T_TRUSTWORTHY, Alt [Tok T_OFF, Tok T_ON]])]\<rparr>"

definition g_database_filestream_option :: rule where [grammar_rules]:
  "g_database_filestream_option = \<lparr>rule_index = RuleDatabase_filestream_option, rule_alts = [
       (None, Seq [Tok T_LR_BRACKET, Alt [Seq [Tok T_NON_TRANSACTED_ACCESS, Tok T_EQUAL,
         Alt [Tok T_OFF, Tok T_READ_ONLY, Tok T_FULL]], Seq [Tok T_DIRECTORY_NAME, Tok T_EQUAL,
         Tok T_STRING]], Tok T_RR_BRACKET])]\<rparr>"

definition g_database_file_spec :: rule where [grammar_rules]:
  "g_database_file_spec = \<lparr>rule_index = RuleDatabase_file_spec, rule_alts = [
       (None, Ref RuleFile_group),
       (None, Ref RuleFile_spec)]\<rparr>"

definition g_file_group :: rule where [grammar_rules]:
  "g_file_group = \<lparr>rule_index = RuleFile_group, rule_alts = [
       (None, Seq [Tok T_FILEGROUP, Ref RuleId', Opt (Seq [Tok T_CONTAINS, Tok T_FILESTREAM]),
         Opt (Tok T_DEFAULT), Opt (Seq [Tok T_CONTAINS, Tok T_MEMORY_OPTIMIZED_DATA]),
         Ref RuleFile_spec, Star (Seq [Tok T_COMMA, Ref RuleFile_spec])])]\<rparr>"

definition g_file_spec :: rule where [grammar_rules]:
  "g_file_spec = \<lparr>rule_index = RuleFile_spec, rule_alts = [
       (None, Seq [Tok T_LR_BRACKET, Tok T_NAME, Tok T_EQUAL, Alt [Ref RuleId', Tok T_STRING],
         Opt (Tok T_COMMA), Tok T_FILENAME, Tok T_EQUAL, Lab (Assign ''file'') (Tok T_STRING),
         Opt (Tok T_COMMA), Opt (Seq [Tok T_SIZE, Tok T_EQUAL, Ref RuleFile_size,
         Opt (Tok T_COMMA)]), Opt (Seq [Tok T_MAXSIZE, Tok T_EQUAL, Alt [Ref RuleFile_size,
         Tok T_UNLIMITED], Opt (Tok T_COMMA)]), Opt (Seq [Tok T_FILEGROWTH, Tok T_EQUAL,
         Ref RuleFile_size, Opt (Tok T_COMMA)]), Tok T_RR_BRACKET])]\<rparr>"

definition g_entity_name :: rule where [grammar_rules]:
  "g_entity_name = \<lparr>rule_index = RuleEntity_name, rule_alts = [
       (None, Seq [Opt (Alt [Seq [Lab (Assign ''server'') (Ref RuleId'), Tok T_DOT,
         Lab (Assign ''database'') (Ref RuleId'), Tok T_DOT,
         Lab (Assign ''schema'') (Ref RuleId'), Tok T_DOT],
         Seq [Lab (Assign ''database'') (Ref RuleId'), Tok T_DOT,
         Opt (Lab (Assign ''schema'') (Ref RuleId')), Tok T_DOT],
         Seq [Lab (Assign ''schema'') (Ref RuleId'), Tok T_DOT]]),
         Lab (Assign ''table'') (Ref RuleId')])]\<rparr>"

definition g_entity_name_for_azure_dw :: rule where [grammar_rules]:
  "g_entity_name_for_azure_dw = \<lparr>rule_index = RuleEntity_name_for_azure_dw, rule_alts = [
       (None, Lab (Assign ''schema'') (Ref RuleId')),
       (None, Seq [Lab (Assign ''schema'') (Ref RuleId'), Tok T_DOT,
         Lab (Assign ''object_name'') (Ref RuleId')])]\<rparr>"

definition g_entity_name_for_parallel_dw :: rule where [grammar_rules]:
  "g_entity_name_for_parallel_dw = \<lparr>rule_index = RuleEntity_name_for_parallel_dw, rule_alts = [
       (None, Lab (Assign ''schema_database'') (Ref RuleId')),
       (None, Seq [Lab (Assign ''schema'') (Ref RuleId'), Tok T_DOT,
         Lab (Assign ''object_name'') (Ref RuleId')])]\<rparr>"

definition g_full_table_name :: rule where [grammar_rules]:
  "g_full_table_name = \<lparr>rule_index = RuleFull_table_name, rule_alts = [
       (None, Seq [Ref RuleId', Opt (Alt [Plus (Ref RuleDotID), Seq [Ref RuleDoubleDotID,
         Opt (Ref RuleDotID)]])])]\<rparr>"

definition g_dotID :: rule where [grammar_rules]:
  "g_dotID = \<lparr>rule_index = RuleDotID, rule_alts = [
       (None, Seq [Tok T_DOT, Ref RuleId'])]\<rparr>"

definition g_doubleDotID :: rule where [grammar_rules]:
  "g_doubleDotID = \<lparr>rule_index = RuleDoubleDotID, rule_alts = [
       (None, Seq [Tok T_DOT, Tok T_DOT, Ref RuleId'])]\<rparr>"

definition g_table_name :: rule where [grammar_rules]:
  "g_table_name = \<lparr>rule_index = RuleTable_name, rule_alts = [
       (None, Seq [Opt (Alt [Seq [Lab (Assign ''database'') (Ref RuleId'), Tok T_DOT,
         Opt (Lab (Assign ''schema'') (Ref RuleId')), Tok T_DOT],
         Seq [Lab (Assign ''schema'') (Ref RuleId'), Tok T_DOT]]),
         Alt [Lab (Assign ''table'') (Ref RuleId'),
         Lab (Assign ''blocking_hierarchy'') (Tok T_BLOCKING_HIERARCHY)]])]\<rparr>"

definition g_simple_name :: rule where [grammar_rules]:
  "g_simple_name = \<lparr>rule_index = RuleSimple_name, rule_alts = [
       (None, Seq [Opt (Seq [Lab (Assign ''schema'') (Ref RuleId'), Tok T_DOT]),
         Lab (Assign ''name'') (Ref RuleId')])]\<rparr>"

definition g_func_proc_name_schema :: rule where [grammar_rules]:
  "g_func_proc_name_schema = \<lparr>rule_index = RuleFunc_proc_name_schema, rule_alts = [
       (None, Seq [Opt (Seq [Lab (Assign ''schema'') (Ref RuleId'), Tok T_DOT]),
         Lab (Assign ''procedure'') (Ref RuleId')])]\<rparr>"

definition g_func_proc_name_database_schema :: rule where [grammar_rules]:
  "g_func_proc_name_database_schema = \<lparr>rule_index = RuleFunc_proc_name_database_schema, rule_alts = [
       (None, Seq [Opt (Lab (Assign ''database'') (Ref RuleId')), Tok T_DOT,
         Opt (Lab (Assign ''schema'') (Ref RuleId')), Tok T_DOT,
         Lab (Assign ''procedure'') (Ref RuleId')]),
       (None, Ref RuleFunc_proc_name_schema)]\<rparr>"

definition g_func_proc_name_server_database_schema :: rule where [grammar_rules]:
  "g_func_proc_name_server_database_schema = \<lparr>rule_index = RuleFunc_proc_name_server_database_schema, rule_alts = [
       (None, Seq [Opt (Lab (Assign ''server'') (Ref RuleId')), Tok T_DOT,
         Opt (Lab (Assign ''database'') (Ref RuleId')), Tok T_DOT,
         Opt (Lab (Assign ''schema'') (Ref RuleId')), Tok T_DOT,
         Lab (Assign ''procedure'') (Ref RuleId')]),
       (None, Ref RuleFunc_proc_name_database_schema)]\<rparr>"

definition g_ddl_object :: rule where [grammar_rules]:
  "g_ddl_object = \<lparr>rule_index = RuleDdl_object, rule_alts = [
       (None, Ref RuleFull_table_name),
       (None, Tok T_LOCAL_ID)]\<rparr>"

definition g_full_column_name :: rule where [grammar_rules]:
  "g_full_column_name = \<lparr>rule_index = RuleFull_column_name, rule_alts = [
       (None, Seq [Alt [Tok T_DELETED, Tok T_INSERTED],
         Alt [Lab (Assign ''column_name'') (Ref RuleId'), Seq [Tok T_DOLLAR,
         Alt [Tok T_IDENTITY, Tok T_ROWGUID]]]]),
       (None, Seq [Ref RuleFull_table_name, Tok T_DOT,
         Alt [Lab (Assign ''column_name'') (Ref RuleId'), Seq [Tok T_DOLLAR,
         Alt [Tok T_IDENTITY, Tok T_ROWGUID]]]]),
       (None, Alt [Lab (Assign ''column_name'') (Ref RuleId'), Seq [Tok T_DOLLAR,
         Alt [Tok T_IDENTITY, Tok T_ROWGUID]]])]\<rparr>"

definition g_column_name_list_with_order :: rule where [grammar_rules]:
  "g_column_name_list_with_order = \<lparr>rule_index = RuleColumn_name_list_with_order, rule_alts = [
       (None, Seq [Ref RuleId', Opt (Alt [Tok T_ASC, Tok T_DESC]), Star (Seq [Tok T_COMMA,
         Ref RuleId', Opt (Alt [Tok T_ASC, Tok T_DESC])])])]\<rparr>"

definition g_insert_column_name_list :: rule where [grammar_rules]:
  "g_insert_column_name_list = \<lparr>rule_index = RuleInsert_column_name_list, rule_alts = [
       (None, Seq [Lab (Append ''col'') (Ref RuleInsert_column_id), Star (Seq [Tok T_COMMA,
         Lab (Append ''col'') (Ref RuleInsert_column_id)])])]\<rparr>"

definition g_insert_column_id :: rule where [grammar_rules]:
  "g_insert_column_id = \<lparr>rule_index = RuleInsert_column_id, rule_alts = [
       (None, Seq [Star (Seq [Opt (Lab (Append ''ignore'') (Ref RuleId')), Tok T_DOT]),
         Ref RuleId'])]\<rparr>"

definition g_column_name_list :: rule where [grammar_rules]:
  "g_column_name_list = \<lparr>rule_index = RuleColumn_name_list, rule_alts = [
       (None, Seq [Lab (Append ''col'') (Ref RuleId'), Star (Seq [Tok T_COMMA,
         Lab (Append ''col'') (Ref RuleId')])])]\<rparr>"

definition g_cursor_name :: rule where [grammar_rules]:
  "g_cursor_name = \<lparr>rule_index = RuleCursor_name, rule_alts = [
       (None, Ref RuleId'),
       (None, Tok T_LOCAL_ID)]\<rparr>"

definition g_on_off :: rule where [grammar_rules]:
  "g_on_off = \<lparr>rule_index = RuleOn_off, rule_alts = [
       (None, Tok T_ON),
       (None, Tok T_OFF)]\<rparr>"

definition g_clustered :: rule where [grammar_rules]:
  "g_clustered = \<lparr>rule_index = RuleClustered, rule_alts = [
       (None, Tok T_CLUSTERED),
       (None, Tok T_NONCLUSTERED)]\<rparr>"

definition g_null_notnull :: rule where [grammar_rules]:
  "g_null_notnull = \<lparr>rule_index = RuleNull_notnull, rule_alts = [
       (None, Seq [Opt (Tok T_NOT), Tok T_NULL'])]\<rparr>"

definition g_scalar_function_name :: rule where [grammar_rules]:
  "g_scalar_function_name = \<lparr>rule_index = RuleScalar_function_name, rule_alts = [
       (None, Ref RuleFunc_proc_name_server_database_schema),
       (None, Tok T_RIGHT),
       (None, Tok T_LEFT),
       (None, Tok T_BINARY_CHECKSUM),
       (None, Tok T_CHECKSUM)]\<rparr>"

definition g_begin_conversation_timer :: rule where [grammar_rules]:
  "g_begin_conversation_timer = \<lparr>rule_index = RuleBegin_conversation_timer, rule_alts = [
       (None, Seq [Tok T_BEGIN, Tok T_CONVERSATION, Tok T_TIMER, Tok T_LR_BRACKET,
         Tok T_LOCAL_ID, Tok T_RR_BRACKET, Tok T_TIMEOUT, Tok T_EQUAL, Ref RuleTime,
         Opt (Tok T_SEMI)])]\<rparr>"

definition g_begin_conversation_dialog :: rule where [grammar_rules]:
  "g_begin_conversation_dialog = \<lparr>rule_index = RuleBegin_conversation_dialog, rule_alts = [
       (None, Seq [Tok T_BEGIN, Tok T_DIALOG, Opt (Tok T_CONVERSATION),
         Lab (Assign ''dialog_handle'') (Tok T_LOCAL_ID), Tok T_FROM, Tok T_SERVICE,
         Lab (Assign ''initiator_service_name'') (Ref RuleService_name), Tok T_TO,
         Tok T_SERVICE, Lab (Assign ''target_service_name'') (Ref RuleService_name),
         Opt (Seq [Tok T_COMMA, Lab (Assign ''service_broker_guid'') (Tok T_STRING)]),
         Tok T_ON, Tok T_CONTRACT, Ref RuleContract_name, Opt (Seq [Tok T_WITH,
         Opt (Seq [Alt [Tok T_RELATED_CONVERSATION, Tok T_RELATED_CONVERSATION_GROUP],
         Tok T_EQUAL, Tok T_LOCAL_ID, Opt (Tok T_COMMA)]), Opt (Seq [Tok T_LIFETIME,
         Tok T_EQUAL, Alt [Tok T_DECIMAL, Tok T_LOCAL_ID], Opt (Tok T_COMMA)]),
         Opt (Seq [Tok T_ENCRYPTION, Tok T_EQUAL, Ref RuleOn_off])]), Opt (Tok T_SEMI)])]\<rparr>"

definition g_contract_name :: rule where [grammar_rules]:
  "g_contract_name = \<lparr>rule_index = RuleContract_name, rule_alts = [
       (None, Alt [Ref RuleId', Ref RuleExpression])]\<rparr>"

definition g_service_name :: rule where [grammar_rules]:
  "g_service_name = \<lparr>rule_index = RuleService_name, rule_alts = [
       (None, Alt [Ref RuleId', Ref RuleExpression])]\<rparr>"

definition g_end_conversation :: rule where [grammar_rules]:
  "g_end_conversation = \<lparr>rule_index = RuleEnd_conversation, rule_alts = [
       (None, Seq [Tok T_END, Tok T_CONVERSATION,
         Lab (Assign ''conversation_handle'') (Tok T_LOCAL_ID), Opt (Tok T_SEMI),
         Opt (Seq [Tok T_WITH, Opt (Seq [Tok T_ERROR, Tok T_EQUAL,
         Lab (Assign ''faliure_code'') (Alt [Tok T_LOCAL_ID, Tok T_STRING]), Tok T_DESCRIPTION,
         Tok T_EQUAL, Lab (Assign ''failure_text'') (Alt [Tok T_LOCAL_ID, Tok T_STRING])]),
         Opt (Tok T_CLEANUP)])])]\<rparr>"

definition g_waitfor_conversation :: rule where [grammar_rules]:
  "g_waitfor_conversation = \<lparr>rule_index = RuleWaitfor_conversation, rule_alts = [
       (None, Seq [Opt (Tok T_WAITFOR), Tok T_LR_BRACKET, Ref RuleGet_conversation,
         Tok T_RR_BRACKET, Opt (Seq [Opt (Tok T_COMMA), Tok T_TIMEOUT,
         Lab (Assign ''timeout'') (Ref RuleTime)]), Opt (Tok T_SEMI)])]\<rparr>"

definition g_get_conversation :: rule where [grammar_rules]:
  "g_get_conversation = \<lparr>rule_index = RuleGet_conversation, rule_alts = [
       (None, Seq [Tok T_GET, Tok T_CONVERSATION, Tok T_GROUP,
         Lab (Assign ''conversation_group_id'') (Alt [Tok T_STRING, Tok T_LOCAL_ID]),
         Tok T_FROM, Lab (Assign ''queue'') (Ref RuleQueue_id), Opt (Tok T_SEMI)])]\<rparr>"

definition g_queue_id :: rule where [grammar_rules]:
  "g_queue_id = \<lparr>rule_index = RuleQueue_id, rule_alts = [
       (None, Seq [Lab (Assign ''database_name'') (Ref RuleId'), Tok T_DOT,
         Lab (Assign ''schema_name'') (Ref RuleId'), Tok T_DOT,
         Lab (Assign ''name'') (Ref RuleId')]),
       (None, Ref RuleId')]\<rparr>"

definition g_send_conversation :: rule where [grammar_rules]:
  "g_send_conversation = \<lparr>rule_index = RuleSend_conversation, rule_alts = [
       (None, Seq [Tok T_SEND, Tok T_ON, Tok T_CONVERSATION,
         Lab (Assign ''conversation_handle'') (Alt [Tok T_STRING, Tok T_LOCAL_ID]),
         Tok T_MESSAGE, Tok T_TYPE, Lab (Assign ''message_type_name'') (Ref RuleExpression),
         Opt (Seq [Tok T_LR_BRACKET,
         Lab (Assign ''message_body_expression'') (Alt [Tok T_STRING, Tok T_LOCAL_ID]),
         Tok T_RR_BRACKET]), Opt (Tok T_SEMI)])]\<rparr>"

definition g_data_type :: rule where [grammar_rules]:
  "g_data_type = \<lparr>rule_index = RuleData_type, rule_alts = [
       (None, Seq [Lab (Assign ''scaled'') (Alt [Tok T_VARCHAR, Tok T_NVARCHAR,
         Tok T_BINARY_KEYWORD, Tok T_VARBINARY_KEYWORD, Tok T_SQUARE_BRACKET_ID]),
         Tok T_LR_BRACKET, Tok T_MAX, Tok T_RR_BRACKET]),
       (None, Seq [Lab (Assign ''ext_type'') (Ref RuleId'), Tok T_LR_BRACKET,
         Lab (Assign ''scale'') (Tok T_DECIMAL), Tok T_COMMA,
         Lab (Assign ''prec'') (Tok T_DECIMAL), Tok T_RR_BRACKET]),
       (None, Seq [Lab (Assign ''ext_type'') (Ref RuleId'), Tok T_LR_BRACKET,
         Lab (Assign ''scale'') (Tok T_DECIMAL), Tok T_RR_BRACKET]),
       (None, Seq [Lab (Assign ''ext_type'') (Ref RuleId'), Tok T_IDENTITY,
         Opt (Seq [Tok T_LR_BRACKET, Lab (Assign ''seed'') (Tok T_DECIMAL), Tok T_COMMA,
         Lab (Assign ''inc'') (Tok T_DECIMAL), Tok T_RR_BRACKET])]),
       (None, Seq [Lab (Assign ''double_prec'') (Tok T_DOUBLE), Opt (Tok T_PRECISION)]),
       (None, Lab (Assign ''unscaled_type'') (Ref RuleId'))]\<rparr>"

definition g_constant :: rule where [grammar_rules]:
  "g_constant = \<lparr>rule_index = RuleConstant, rule_alts = [
       (None, Tok T_STRING),
       (None, Tok T_BINARY),
       (None, Seq [Opt (Tok T_MINUS), Alt [Tok T_DECIMAL, Tok T_REAL, Tok T_FLOAT]]),
       (None, Seq [Opt (Tok T_MINUS), Lab (Assign ''dollar'') (Tok T_DOLLAR),
         Opt (Alt [Tok T_MINUS, Tok T_PLUS]), Alt [Tok T_DECIMAL, Tok T_FLOAT]]),
       (None, Ref RuleParameter)]\<rparr>"

definition g_primitive_constant :: rule where [grammar_rules]:
  "g_primitive_constant = \<lparr>rule_index = RulePrimitive_constant, rule_alts = [
       (None, Tok T_STRING),
       (None, Tok T_BINARY),
       (None, Alt [Tok T_DECIMAL, Tok T_REAL, Tok T_FLOAT]),
       (None, Seq [Lab (Assign ''dollar'') (Tok T_DOLLAR), Opt (Alt [Tok T_MINUS, Tok T_PLUS]),
         Alt [Tok T_DECIMAL, Tok T_FLOAT]]),
       (None, Ref RuleParameter)]\<rparr>"

definition g_keyword :: rule where [grammar_rules]:
  "g_keyword = \<lparr>rule_index = RuleKeyword, rule_alts = [
       (None, Tok T_ABORT),
       (None, Tok T_ABSOLUTE),
       (None, Tok T_ACCENT_SENSITIVITY),
       (None, Tok T_ACCESS),
       (None, Tok T_ACTION),
       (None, Tok T_ACTIVATION),
       (None, Tok T_ACTIVE),
       (None, Tok T_ADD),
       (None, Tok T_ADDRESS),
       (None, Tok T_AES_128),
       (None, Tok T_AES_192),
       (None, Tok T_AES_256),
       (None, Tok T_AFFINITY),
       (None, Tok T_AFTER),
       (None, Tok T_AGGREGATE),
       (None, Tok T_ALGORITHM),
       (None, Tok T_ALL_CONSTRAINTS),
       (None, Tok T_ALL_ERRORMSGS),
       (None, Tok T_ALL_INDEXES),
       (None, Tok T_ALL_LEVELS),
       (None, Tok T_ALLOW_ENCRYPTED_VALUE_MODIFICATIONS),
       (None, Tok T_ALLOW_PAGE_LOCKS),
       (None, Tok T_ALLOW_ROW_LOCKS),
       (None, Tok T_ALLOW_SNAPSHOT_ISOLATION),
       (None, Tok T_ALLOWED),
       (None, Tok T_ALWAYS),
       (None, Tok T_ANSI_DEFAULTS),
       (None, Tok T_ANSI_NULL_DEFAULT),
       (None, Tok T_ANSI_NULL_DFLT_OFF),
       (None, Tok T_ANSI_NULL_DFLT_ON),
       (None, Tok T_ANSI_NULLS),
       (None, Tok T_ANSI_PADDING),
       (None, Tok T_ANSI_WARNINGS),
       (None, Tok T_APP_NAME),
       (None, Tok T_APPLICATION_LOG),
       (None, Tok T_APPLOCK_MODE),
       (None, Tok T_APPLOCK_TEST),
       (None, Tok T_APPLY),
       (None, Tok T_ARITHABORT),
       (None, Tok T_ARITHIGNORE),
       (None, Tok T_ASCII),
       (None, Tok T_ASSEMBLY),
       (None, Tok T_ASSEMBLYPROPERTY),
       (None, Tok T_AT_KEYWORD),
       (None, Tok T_AUDIT),
       (None, Tok T_AUDIT_GUID),
       (None, Tok T_AUTO),
       (None, Tok T_AUTO_CLEANUP),
       (None, Tok T_AUTO_CLOSE),
       (None, Tok T_AUTO_CREATE_STATISTICS),
       (None, Tok T_AUTO_DROP),
       (None, Tok T_AUTO_SHRINK),
       (None, Tok T_AUTO_UPDATE_STATISTICS),
       (None, Tok T_AUTO_UPDATE_STATISTICS_ASYNC),
       (None, Tok T_AUTOGROW_ALL_FILES),
       (None, Tok T_AUTOGROW_SINGLE_FILE),
       (None, Tok T_AVAILABILITY),
       (None, Tok T_AVG),
       (None, Tok T_BACKUP_CLONEDB),
       (None, Tok T_BACKUP_PRIORITY),
       (None, Tok T_BASE64),
       (None, Tok T_BEGIN_DIALOG),
       (None, Tok T_BIGINT),
       (None, Tok T_BINARY_KEYWORD),
       (None, Tok T_BINARY_CHECKSUM),
       (None, Tok T_BINDING),
       (None, Tok T_BLOB_STORAGE),
       (None, Tok T_BROKER),
       (None, Tok T_BROKER_INSTANCE),
       (None, Tok T_BULK_LOGGED),
       (None, Tok T_CALLER),
       (None, Tok T_CAP_CPU_PERCENT),
       (None, Tok T_CAST),
       (None, Tok T_TRY_CAST),
       (None, Tok T_CATALOG),
       (None, Tok T_CATCH),
       (None, Tok T_CERT_ID),
       (None, Tok T_CERTENCODED),
       (None, Tok T_CERTPRIVATEKEY),
       (None, Tok T_CHANGE),
       (None, Tok T_CHANGE_RETENTION),
       (None, Tok T_CHANGE_TRACKING),
       (None, Tok T_CHAR),
       (None, Tok T_CHARINDEX),
       (None, Tok T_CHECKALLOC),
       (None, Tok T_CHECKCATALOG),
       (None, Tok T_CHECKCONSTRAINTS),
       (None, Tok T_CHECKDB),
       (None, Tok T_CHECKFILEGROUP),
       (None, Tok T_CHECKSUM),
       (None, Tok T_CHECKSUM_AGG),
       (None, Tok T_CHECKTABLE),
       (None, Tok T_CLEANTABLE),
       (None, Tok T_CLEANUP),
       (None, Tok T_CLONEDATABASE),
       (None, Tok T_COL_LENGTH),
       (None, Tok T_COL_NAME),
       (None, Tok T_COLLECTION),
       (None, Tok T_COLUMN_ENCRYPTION_KEY),
       (None, Tok T_COLUMN_MASTER_KEY),
       (None, Tok T_COLUMNPROPERTY),
       (None, Tok T_COLUMNS),
       (None, Tok T_COLUMNSTORE),
       (None, Tok T_COLUMNSTORE_ARCHIVE),
       (None, Tok T_COMMITTED),
       (None, Tok T_COMPATIBILITY_LEVEL),
       (None, Tok T_COMPRESS_ALL_ROW_GROUPS),
       (None, Tok T_COMPRESSION_DELAY),
       (None, Tok T_CONCAT),
       (None, Tok T_CONCAT_WS),
       (None, Tok T_CONCAT_NULL_YIELDS_NULL),
       (None, Tok T_CONTENT),
       (None, Tok T_CONTROL),
       (None, Tok T_COOKIE),
       (None, Tok T_COUNT),
       (None, Tok T_COUNT_BIG),
       (None, Tok T_COUNTER),
       (None, Tok T_CPU),
       (None, Tok T_CREATE_NEW),
       (None, Tok T_CREATION_DISPOSITION),
       (None, Tok T_CREDENTIAL),
       (None, Tok T_CRYPTOGRAPHIC),
       (None, Tok T_CUME_DIST),
       (None, Tok T_CURSOR_CLOSE_ON_COMMIT),
       (None, Tok T_CURSOR_DEFAULT),
       (None, Tok T_CURSOR_STATUS),
       (None, Tok T_DATA),
       (None, Tok T_DATA_PURITY),
       (None, Tok T_DATABASE_PRINCIPAL_ID),
       (None, Tok T_DATABASEPROPERTYEX),
       (None, Tok T_DATALENGTH),
       (None, Tok T_DATE_CORRELATION_OPTIMIZATION),
       (None, Tok T_DATEADD),
       (None, Tok T_DATEDIFF),
       (None, Tok T_DATENAME),
       (None, Tok T_DATEPART),
       (None, Tok T_DAYS),
       (None, Tok T_DB_CHAINING),
       (None, Tok T_DB_FAILOVER),
       (None, Tok T_DB_ID),
       (None, Tok T_DB_NAME),
       (None, Tok T_DBCC),
       (None, Tok T_DBREINDEX),
       (None, Tok T_DECRYPTION),
       (None, Tok T_DEFAULT_DOUBLE_QUOTE),
       (None, Tok T_DEFAULT_FULLTEXT_LANGUAGE),
       (None, Tok T_DEFAULT_LANGUAGE),
       (None, Tok T_DEFINITION),
       (None, Tok T_DELAY),
       (None, Tok T_DELAYED_DURABILITY),
       (None, Tok T_DELETED),
       (None, Tok T_DENSE_RANK),
       (None, Tok T_DEPENDENTS),
       (None, Tok T_DES),
       (None, Tok T_DESCRIPTION),
       (None, Tok T_DESX),
       (None, Tok T_DETERMINISTIC),
       (None, Tok T_DHCP),
       (None, Tok T_DIALOG),
       (None, Tok T_DIFFERENCE),
       (None, Tok T_DIRECTORY_NAME),
       (None, Tok T_DISABLE),
       (None, Tok T_DISABLE_BROKER),
       (None, Tok T_DISABLED),
       (None, Tok T_DOCUMENT),
       (None, Tok T_DROP_EXISTING),
       (None, Tok T_DROPCLEANBUFFERS),
       (None, Tok T_DYNAMIC),
       (None, Tok T_ELEMENTS),
       (None, Tok T_EMERGENCY),
       (None, Tok T_EMPTY),
       (None, Tok T_ENABLE),
       (None, Tok T_ENABLE_BROKER),
       (None, Tok T_ENCRYPTED),
       (None, Tok T_ENCRYPTED_VALUE),
       (None, Tok T_ENCRYPTION),
       (None, Tok T_ENCRYPTION_TYPE),
       (None, Tok T_ENDPOINT_URL),
       (None, Tok T_ERROR_BROKER_CONVERSATIONS),
       (None, Tok T_ESTIMATEONLY),
       (None, Tok T_EXCLUSIVE),
       (None, Tok T_EXECUTABLE),
       (None, Tok T_EXIST),
       (None, Tok T_EXIST_SQUARE_BRACKET),
       (None, Tok T_EXPAND),
       (None, Tok T_EXPIRY_DATE),
       (None, Tok T_EXPLICIT),
       (None, Tok T_EXTENDED_LOGICAL_CHECKS),
       (None, Tok T_FAIL_OPERATION),
       (None, Tok T_FAILOVER_MODE),
       (None, Tok T_FAILURE),
       (None, Tok T_FAILURE_CONDITION_LEVEL),
       (None, Tok T_FAST),
       (None, Tok T_FAST_FORWARD),
       (None, Tok T_FILE_ID),
       (None, Tok T_FILE_IDEX),
       (None, Tok T_FILE_NAME),
       (None, Tok T_FILEGROUP),
       (None, Tok T_FILEGROUP_ID),
       (None, Tok T_FILEGROUP_NAME),
       (None, Tok T_FILEGROUPPROPERTY),
       (None, Tok T_FILEGROWTH),
       (None, Tok T_FILENAME),
       (None, Tok T_FILEPATH),
       (None, Tok T_FILEPROPERTY),
       (None, Tok T_FILEPROPERTYEX),
       (None, Tok T_FILESTREAM),
       (None, Tok T_FILTER),
       (None, Tok T_FIRST),
       (None, Tok T_FIRST_VALUE),
       (None, Tok T_FMTONLY),
       (None, Tok T_FOLLOWING),
       (None, Tok T_FORCE),
       (None, Tok T_FORCE_FAILOVER_ALLOW_DATA_LOSS),
       (None, Tok T_FORCED),
       (None, Tok T_FORCEPLAN),
       (None, Tok T_FORCESCAN),
       (None, Tok T_FORMAT),
       (None, Tok T_FORWARD_ONLY),
       (None, Tok T_FREE),
       (None, Tok T_FULLSCAN),
       (None, Tok T_FULLTEXT),
       (None, Tok T_FULLTEXTCATALOGPROPERTY),
       (None, Tok T_FULLTEXTSERVICEPROPERTY),
       (None, Tok T_GB),
       (None, Tok T_GENERATED),
       (None, Tok T_GETDATE),
       (None, Tok T_GETUTCDATE),
       (None, Tok T_GLOBAL),
       (None, Tok T_GO),
       (None, Tok T_GREATEST),
       (None, Tok T_GROUP_MAX_REQUESTS),
       (None, Tok T_GROUPING),
       (None, Tok T_GROUPING_ID),
       (None, Tok T_HADR),
       (None, Tok T_HAS_DBACCESS),
       (None, Tok T_HAS_PERMS_BY_NAME),
       (None, Tok T_HASH),
       (None, Tok T_HEALTH_CHECK_TIMEOUT),
       (None, Tok T_HIDDEN_KEYWORD),
       (None, Tok T_HIGH),
       (None, Tok T_HONOR_BROKER_PRIORITY),
       (None, Tok T_HOURS),
       (None, Tok T_IDENT_CURRENT),
       (None, Tok T_IDENT_INCR),
       (None, Tok T_IDENT_SEED),
       (None, Tok T_IDENTITY_VALUE),
       (None, Tok T_IGNORE_CONSTRAINTS),
       (None, Tok T_IGNORE_DUP_KEY),
       (None, Tok T_IGNORE_NONCLUSTERED_COLUMNSTORE_INDEX),
       (None, Tok T_IGNORE_REPLICATED_TABLE_CACHE),
       (None, Tok T_IGNORE_TRIGGERS),
       (None, Tok T_IMMEDIATE),
       (None, Tok T_IMPERSONATE),
       (None, Tok T_IMPLICIT_TRANSACTIONS),
       (None, Tok T_IMPORTANCE),
       (None, Tok T_INCLUDE_NULL_VALUES),
       (None, Tok T_INCREMENTAL),
       (None, Tok T_INDEX_COL),
       (None, Tok T_INDEXKEY_PROPERTY),
       (None, Tok T_INDEXPROPERTY),
       (None, Tok T_INITIATOR),
       (None, Tok T_INPUT),
       (None, Tok T_INSENSITIVE),
       (None, Tok T_INSERTED),
       (None, Tok T_INT),
       (None, Tok T_IP),
       (None, Tok T_IS_MEMBER),
       (None, Tok T_IS_ROLEMEMBER),
       (None, Tok T_IS_SRVROLEMEMBER),
       (None, Tok T_ISJSON),
       (None, Tok T_ISOLATION),
       (None, Tok T_JOB),
       (None, Tok T_JSON),
       (None, Tok T_JSON_OBJECT),
       (None, Tok T_JSON_ARRAY),
       (None, Tok T_JSON_VALUE),
       (None, Tok T_JSON_QUERY),
       (None, Tok T_JSON_MODIFY),
       (None, Tok T_JSON_PATH_EXISTS),
       (None, Tok T_KB),
       (None, Tok T_KEEP),
       (None, Tok T_KEEPDEFAULTS),
       (None, Tok T_KEEPFIXED),
       (None, Tok T_KEEPIDENTITY),
       (None, Tok T_KEY_SOURCE),
       (None, Tok T_KEYS),
       (None, Tok T_KEYSET),
       (None, Tok T_LAG),
       (None, Tok T_LAST),
       (None, Tok T_LAST_VALUE),
       (None, Tok T_LEAD),
       (None, Tok T_LEAST),
       (None, Tok T_LEN),
       (None, Tok T_LEVEL),
       (None, Tok T_LIST),
       (None, Tok T_LISTENER),
       (None, Tok T_LISTENER_URL),
       (None, Tok T_LOB_COMPACTION),
       (None, Tok T_LOCAL),
       (None, Tok T_LOCATION),
       (None, Tok T_LOCK),
       (None, Tok T_LOCK_ESCALATION),
       (None, Tok T_LOGIN),
       (None, Tok T_LOGINPROPERTY),
       (None, Tok T_LOOP),
       (None, Tok T_LOW),
       (None, Tok T_LOWER),
       (None, Tok T_LTRIM),
       (None, Tok T_MANUAL),
       (None, Tok T_MARK),
       (None, Tok T_MASKED),
       (None, Tok T_MATERIALIZED),
       (None, Tok T_MAX),
       (None, Tok T_MAX_CPU_PERCENT),
       (None, Tok T_MAX_DOP),
       (None, Tok T_MAX_FILES),
       (None, Tok T_MAX_IOPS_PER_VOLUME),
       (None, Tok T_MAX_MEMORY_PERCENT),
       (None, Tok T_MAX_PROCESSES),
       (None, Tok T_MAX_QUEUE_READERS),
       (None, Tok T_MAX_ROLLOVER_FILES),
       (None, Tok T_MAXDOP),
       (None, Tok T_MAXRECURSION),
       (None, Tok T_MAXSIZE),
       (None, Tok T_MB),
       (None, Tok T_MEDIUM),
       (None, Tok T_MEMORY_OPTIMIZED_DATA),
       (None, Tok T_MESSAGE),
       (None, Tok T_MIN),
       (None, Tok T_MIN_ACTIVE_ROWVERSION),
       (None, Tok T_MIN_CPU_PERCENT),
       (None, Tok T_MIN_IOPS_PER_VOLUME),
       (None, Tok T_MIN_MEMORY_PERCENT),
       (None, Tok T_MINUTES),
       (None, Tok T_MIRROR_ADDRESS),
       (None, Tok T_MIXED_PAGE_ALLOCATION),
       (None, Tok T_MODE),
       (None, Tok T_MODIFY),
       (None, Tok T_MODIFY_SQUARE_BRACKET),
       (None, Tok T_MOVE),
       (None, Tok T_MULTI_USER),
       (None, Tok T_NAME),
       (None, Tok T_NCHAR),
       (None, Tok T_NESTED_TRIGGERS),
       (None, Tok T_NEW_ACCOUNT),
       (None, Tok T_NEW_BROKER),
       (None, Tok T_NEW_PASSWORD),
       (None, Tok T_NEWNAME),
       (None, Tok T_NEXT),
       (None, Tok T_NO),
       (None, Tok T_NO_INFOMSGS),
       (None, Tok T_NO_QUERYSTORE),
       (None, Tok T_NO_STATISTICS),
       (None, Tok T_NO_TRUNCATE),
       (None, Tok T_NO_WAIT),
       (None, Tok T_NOCOUNT),
       (None, Tok T_NODES),
       (None, Tok T_NOEXEC),
       (None, Tok T_NOEXPAND),
       (None, Tok T_NOINDEX),
       (None, Tok T_NOLOCK),
       (None, Tok T_NON_TRANSACTED_ACCESS),
       (None, Tok T_NORECOMPUTE),
       (None, Tok T_NORECOVERY),
       (None, Tok T_NOTIFICATIONS),
       (None, Tok T_NOWAIT),
       (None, Tok T_NTILE),
       (None, Tok T_NULL_DOUBLE_QUOTE),
       (None, Tok T_NUMANODE),
       (None, Tok T_NUMBER),
       (None, Tok T_NUMERIC_ROUNDABORT),
       (None, Tok T_OBJECT),
       (None, Tok T_OBJECT_DEFINITION),
       (None, Tok T_OBJECT_ID),
       (None, Tok T_OBJECT_NAME),
       (None, Tok T_OBJECT_SCHEMA_NAME),
       (None, Tok T_OBJECTPROPERTY),
       (None, Tok T_OBJECTPROPERTYEX),
       (None, Tok T_OFFLINE),
       (None, Tok T_OFFSET),
       (None, Tok T_OLD_ACCOUNT),
       (None, Tok T_ONLINE),
       (None, Tok T_ONLY),
       (None, Tok T_OPEN_EXISTING),
       (None, Tok T_OPENJSON),
       (None, Tok T_OPTIMISTIC),
       (None, Tok T_OPTIMIZE),
       (None, Tok T_OPTIMIZE_FOR_SEQUENTIAL_KEY),
       (None, Tok T_ORIGINAL_DB_NAME),
       (None, Tok T_ORIGINAL_LOGIN),
       (None, Tok T_OUT),
       (None, Tok T_OUTPUT),
       (None, Tok T_OVERRIDE),
       (None, Tok T_OWNER),
       (None, Tok T_OWNERSHIP),
       (None, Tok T_PAD_INDEX),
       (None, Tok T_PAGE_VERIFY),
       (None, Tok T_PAGECOUNT),
       (None, Tok T_PAGLOCK),
       (None, Tok T_PARAMETERIZATION),
       (None, Tok T_PARSENAME),
       (None, Tok T_PARSEONLY),
       (None, Tok T_PARTITION),
       (None, Tok T_PARTITIONS),
       (None, Tok T_PARTNER),
       (None, Tok T_PATH),
       (None, Tok T_PATINDEX),
       (None, Tok T_PAUSE),
       (None, Tok T_PDW_SHOWSPACEUSED),
       (None, Tok T_PERCENT_RANK),
       (None, Tok T_PERCENTILE_CONT),
       (None, Tok T_PERCENTILE_DISC),
       (None, Tok T_PERMISSIONS),
       (None, Tok T_PERSIST_SAMPLE_PERCENT),
       (None, Tok T_PHYSICAL_ONLY),
       (None, Tok T_POISON_MESSAGE_HANDLING),
       (None, Tok T_POOL),
       (None, Tok T_PORT),
       (None, Tok T_PRECEDING),
       (None, Tok T_PRIMARY_ROLE),
       (None, Tok T_PRIOR),
       (None, Tok T_PRIORITY),
       (None, Tok T_PRIORITY_LEVEL),
       (None, Tok T_PRIVATE),
       (None, Tok T_PRIVATE_KEY),
       (None, Tok T_PRIVILEGES),
       (None, Tok T_PROCCACHE),
       (None, Tok T_PROCEDURE_NAME),
       (None, Tok T_PROPERTY),
       (None, Tok T_PROVIDER),
       (None, Tok T_PROVIDER_KEY_NAME),
       (None, Tok T_PWDCOMPARE),
       (None, Tok T_PWDENCRYPT),
       (None, Tok T_QUERY),
       (None, Tok T_QUERY_SQUARE_BRACKET),
       (None, Tok T_QUEUE),
       (None, Tok T_QUEUE_DELAY),
       (None, Tok T_QUOTED_IDENTIFIER),
       (None, Tok T_QUOTENAME),
       (None, Tok T_RANDOMIZED),
       (None, Tok T_RANGE),
       (None, Tok T_RANK),
       (None, Tok T_RC2),
       (None, Tok T_RC4),
       (None, Tok T_RC4_128),
       (None, Tok T_READ_COMMITTED_SNAPSHOT),
       (None, Tok T_READ_ONLY),
       (None, Tok T_READ_ONLY_ROUTING_LIST),
       (None, Tok T_READ_WRITE),
       (None, Tok T_READCOMMITTED),
       (None, Tok T_READCOMMITTEDLOCK),
       (None, Tok T_READONLY),
       (None, Tok T_READPAST),
       (None, Tok T_READUNCOMMITTED),
       (None, Tok T_READWRITE),
       (None, Tok T_REBUILD),
       (None, Tok T_RECEIVE),
       (None, Tok T_RECOMPILE),
       (None, Tok T_RECOVERY),
       (None, Tok T_RECURSIVE_TRIGGERS),
       (None, Tok T_RELATIVE),
       (None, Tok T_REMOTE),
       (None, Tok T_REMOTE_PROC_TRANSACTIONS),
       (None, Tok T_REMOTE_SERVICE_NAME),
       (None, Tok T_REMOVE),
       (None, Tok T_REORGANIZE),
       (None, Tok T_REPAIR_ALLOW_DATA_LOSS),
       (None, Tok T_REPAIR_FAST),
       (None, Tok T_REPAIR_REBUILD),
       (None, Tok T_REPEATABLE),
       (None, Tok T_REPEATABLEREAD),
       (None, Tok T_REPLACE),
       (None, Tok T_REPLICA),
       (None, Tok T_REPLICATE),
       (None, Tok T_REQUEST_MAX_CPU_TIME_SEC),
       (None, Tok T_REQUEST_MAX_MEMORY_GRANT_PERCENT),
       (None, Tok T_REQUEST_MEMORY_GRANT_TIMEOUT_SEC),
       (None, Tok T_REQUIRED_SYNCHRONIZED_SECONDARIES_TO_COMMIT),
       (None, Tok T_RESAMPLE),
       (None, Tok T_RESERVE_DISK_SPACE),
       (None, Tok T_RESOURCE),
       (None, Tok T_RESOURCE_MANAGER_LOCATION),
       (None, Tok T_RESTRICTED_USER),
       (None, Tok T_RESUMABLE),
       (None, Tok T_RETENTION),
       (None, Tok T_REVERSE),
       (None, Tok T_ROBUST),
       (None, Tok T_ROOT),
       (None, Tok T_ROUTE),
       (None, Tok T_ROW),
       (None, Tok T_ROW_NUMBER),
       (None, Tok T_ROWGUID),
       (None, Tok T_ROWLOCK),
       (None, Tok T_ROWS),
       (None, Tok T_RTRIM),
       (None, Tok T_SAMPLE),
       (None, Tok T_SCHEMA_ID),
       (None, Tok T_SCHEMA_NAME),
       (None, Tok T_SCHEMABINDING),
       (None, Tok T_SCOPE_IDENTITY),
       (None, Tok T_SCOPED),
       (None, Tok T_SCROLL),
       (None, Tok T_SCROLL_LOCKS),
       (None, Tok T_SEARCH),
       (None, Tok T_SECONDARY),
       (None, Tok T_SECONDARY_ONLY),
       (None, Tok T_SECONDARY_ROLE),
       (None, Tok T_SECONDS),
       (None, Tok T_SECRET),
       (None, Tok T_SECURABLES),
       (None, Tok T_SECURITY),
       (None, Tok T_SECURITY_LOG),
       (None, Tok T_SEEDING_MODE),
       (None, Tok T_SELF),
       (None, Tok T_SEMI_SENSITIVE),
       (None, Tok T_SEND),
       (None, Tok T_SENT),
       (None, Tok T_SEQUENCE),
       (None, Tok T_SEQUENCE_NUMBER),
       (None, Tok T_SERIALIZABLE),
       (None, Tok T_SERVERPROPERTY),
       (None, Tok T_SERVICEBROKER),
       (None, Tok T_SESSIONPROPERTY),
       (None, Tok T_SESSION_TIMEOUT),
       (None, Tok T_SETERROR),
       (None, Tok T_SHARE),
       (None, Tok T_SHARED),
       (None, Tok T_SHOWCONTIG),
       (None, Tok T_SHOWPLAN),
       (None, Tok T_SHOWPLAN_ALL),
       (None, Tok T_SHOWPLAN_TEXT),
       (None, Tok T_SHOWPLAN_XML),
       (None, Tok T_SIGNATURE),
       (None, Tok T_SIMPLE),
       (None, Tok T_SINGLE_USER),
       (None, Tok T_SIZE),
       (None, Tok T_SMALLINT),
       (None, Tok T_SNAPSHOT),
       (None, Tok T_SORT_IN_TEMPDB),
       (None, Tok T_SOUNDEX),
       (None, Tok T_SPACE_KEYWORD),
       (None, Tok T_SPARSE),
       (None, Tok T_SPATIAL_WINDOW_MAX_CELLS),
       (None, Tok T_SQL_VARIANT_PROPERTY),
       (None, Tok T_STANDBY),
       (None, Tok T_START_DATE),
       (None, Tok T_STATIC),
       (None, Tok T_STATISTICS_INCREMENTAL),
       (None, Tok T_STATISTICS_NORECOMPUTE),
       (None, Tok T_STATS_DATE),
       (None, Tok T_STATS_STREAM),
       (None, Tok T_STATUS),
       (None, Tok T_STATUSONLY),
       (None, Tok T_STDEV),
       (None, Tok T_STDEVP),
       (None, Tok T_STOPLIST),
       (None, Tok T_STR),
       (None, Tok T_STRING_AGG),
       (None, Tok T_STRING_ESCAPE),
       (None, Tok T_STUFF),
       (None, Tok T_SUBJECT),
       (None, Tok T_SUBSCRIBE),
       (None, Tok T_SUBSCRIPTION),
       (None, Tok T_SUBSTRING),
       (None, Tok T_SUM),
       (None, Tok T_SUSER_ID),
       (None, Tok T_SUSER_NAME),
       (None, Tok T_SUSER_SID),
       (None, Tok T_SUSER_SNAME),
       (None, Tok T_SUSPEND),
       (None, Tok T_SYMMETRIC),
       (None, Tok T_SYNCHRONOUS_COMMIT),
       (None, Tok T_SYNONYM),
       (None, Tok T_SYSTEM),
       (None, Tok T_TABLERESULTS),
       (None, Tok T_TABLOCK),
       (None, Tok T_TABLOCKX),
       (None, Tok T_TAKE),
       (None, Tok T_TARGET_RECOVERY_TIME),
       (None, Tok T_TB),
       (None, Tok T_TEXTIMAGE_ON),
       (None, Tok T_THROW),
       (None, Tok T_TIES),
       (None, Tok T_TIME),
       (None, Tok T_TIMEOUT),
       (None, Tok T_TIMER),
       (None, Tok T_TINYINT),
       (None, Tok T_TORN_PAGE_DETECTION),
       (None, Tok T_TRACKING),
       (None, Tok T_TRANSACTION_ID),
       (None, Tok T_TRANSFORM_NOISE_WORDS),
       (None, Tok T_TRANSLATE),
       (None, Tok T_TRIM),
       (None, Tok T_TRIPLE_DES),
       (None, Tok T_TRIPLE_DES_3KEY),
       (None, Tok T_TRUSTWORTHY),
       (None, Tok T_TRY),
       (None, Tok T_TSQL),
       (None, Tok T_TWO_DIGIT_YEAR_CUTOFF),
       (None, Tok T_TYPE),
       (None, Tok T_TYPE_ID),
       (None, Tok T_TYPE_NAME),
       (None, Tok T_TYPE_WARNING),
       (None, Tok T_TYPEPROPERTY),
       (None, Tok T_UNBOUNDED),
       (None, Tok T_UNCOMMITTED),
       (None, Tok T_UNICODE),
       (None, Tok T_UNKNOWN),
       (None, Tok T_UNLIMITED),
       (None, Tok T_UNMASK),
       (None, Tok T_UOW),
       (None, Tok T_UPDLOCK),
       (None, Tok T_UPPER),
       (None, Tok T_USER_ID),
       (None, Tok T_USER_NAME),
       (None, Tok T_USING),
       (None, Tok T_VALID_XML),
       (None, Tok T_VALIDATION),
       (None, Tok T_VALUE),
       (None, Tok T_VALUE_SQUARE_BRACKET),
       (None, Tok T_VAR),
       (None, Tok T_VARBINARY_KEYWORD),
       (None, Tok T_VARP),
       (None, Tok T_VERIFY_CLONEDB),
       (None, Tok T_VERSION),
       (None, Tok T_VIEW_METADATA),
       (None, Tok T_VIEWS),
       (None, Tok T_WAIT),
       (None, Tok T_WELL_FORMED_XML),
       (None, Tok T_WITHOUT_ARRAY_WRAPPER),
       (None, Tok T_WORK),
       (None, Tok T_WORKLOAD),
       (None, Tok T_XLOCK),
       (None, Tok T_XML),
       (None, Tok T_XML_COMPRESSION),
       (None, Tok T_XMLDATA),
       (None, Tok T_XMLNAMESPACES),
       (None, Tok T_XMLSCHEMA),
       (None, Tok T_XSINIL),
       (None, Tok T_ZONE),
       (None, Tok T_ABORT_AFTER_WAIT),
       (None, Tok T_ABSENT),
       (None, Tok T_ADMINISTER),
       (None, Tok T_AES),
       (None, Tok T_ALLOW_CONNECTIONS),
       (None, Tok T_ALLOW_MULTIPLE_EVENT_LOSS),
       (None, Tok T_ALLOW_SINGLE_EVENT_LOSS),
       (None, Tok T_ANONYMOUS),
       (None, Tok T_APPEND),
       (None, Tok T_APPLICATION),
       (None, Tok T_ASYMMETRIC),
       (None, Tok T_ASYNCHRONOUS_COMMIT),
       (None, Tok T_AUTHENTICATE),
       (None, Tok T_AUTHENTICATION),
       (None, Tok T_AUTOMATED_BACKUP_PREFERENCE),
       (None, Tok T_AUTOMATIC),
       (None, Tok T_AVAILABILITY_MODE),
       (None, Tok T_BEFORE),
       (None, Tok T_BLOCK),
       (None, Tok T_BLOCKERS),
       (None, Tok T_BLOCKSIZE),
       (None, Tok T_BLOCKING_HIERARCHY),
       (None, Tok T_BUFFER),
       (None, Tok T_BUFFERCOUNT),
       (None, Tok T_CACHE),
       (None, Tok T_CALLED),
       (None, Tok T_CERTIFICATE),
       (None, Tok T_CHANGETABLE),
       (None, Tok T_CHANGES),
       (None, Tok T_CHECK_POLICY),
       (None, Tok T_CHECK_EXPIRATION),
       (None, Tok T_CLASSIFIER_FUNCTION),
       (None, Tok T_CLUSTER),
       (None, Tok T_COMPRESS),
       (None, Tok T_COMPRESSION),
       (None, Tok T_CONNECT),
       (None, Tok T_CONNECTION),
       (None, Tok T_CONFIGURATION),
       (None, Tok T_CONNECTIONPROPERTY),
       (None, Tok T_CONTAINMENT),
       (None, Tok T_CONTEXT),
       (None, Tok T_CONTEXT_INFO),
       (None, Tok T_CONTINUE_AFTER_ERROR),
       (None, Tok T_CONTRACT),
       (None, Tok T_CONTRACT_NAME),
       (None, Tok T_CONVERSATION),
       (None, Tok T_COPY_ONLY),
       (None, Tok T_CURRENT_REQUEST_ID),
       (None, Tok T_CURRENT_TRANSACTION_ID),
       (None, Tok T_CYCLE),
       (None, Tok T_DATA_COMPRESSION),
       (None, Tok T_DATA_SOURCE),
       (None, Tok T_DATABASE_MIRRORING),
       (None, Tok T_DATASPACE),
       (None, Tok T_DDL),
       (None, Tok T_DECOMPRESS),
       (None, Tok T_DEFAULT_DATABASE),
       (None, Tok T_DEFAULT_SCHEMA),
       (None, Tok T_DIAGNOSTICS),
       (None, Tok T_DIFFERENTIAL),
       (None, Tok T_DISTRIBUTION),
       (None, Tok T_DTC_SUPPORT),
       (None, Tok T_ENABLED),
       (None, Tok T_ENDPOINT),
       (None, Tok T_ERROR),
       (None, Tok T_ERROR_LINE),
       (None, Tok T_ERROR_MESSAGE),
       (None, Tok T_ERROR_NUMBER),
       (None, Tok T_ERROR_PROCEDURE),
       (None, Tok T_ERROR_SEVERITY),
       (None, Tok T_ERROR_STATE),
       (None, Tok T_EVENT),
       (None, Tok T_EVENTDATA),
       (None, Tok T_EVENT_RETENTION_MODE),
       (None, Tok T_EXECUTABLE_FILE),
       (None, Tok T_EXPIREDATE),
       (None, Tok T_EXTENSION),
       (None, Tok T_EXTERNAL_ACCESS),
       (None, Tok T_FAILOVER),
       (None, Tok T_FAILURECONDITIONLEVEL),
       (None, Tok T_FAN_IN),
       (None, Tok T_FILE_SNAPSHOT),
       (None, Tok T_FORCESEEK),
       (None, Tok T_FORCE_SERVICE_ALLOW_DATA_LOSS),
       (None, Tok T_FORMATMESSAGE),
       (None, Tok T_GET),
       (None, Tok T_GET_FILESTREAM_TRANSACTION_CONTEXT),
       (None, Tok T_GETANCESTOR),
       (None, Tok T_GETANSINULL),
       (None, Tok T_GETDESCENDANT),
       (None, Tok T_GETLEVEL),
       (None, Tok T_GETREPARENTEDVALUE),
       (None, Tok T_GETROOT),
       (None, Tok T_GOVERNOR),
       (None, Tok T_HASHED),
       (None, Tok T_HEALTHCHECKTIMEOUT),
       (None, Tok T_HEAP),
       (None, Tok T_HIERARCHYID),
       (None, Tok T_HOST_ID),
       (None, Tok T_HOST_NAME),
       (None, Tok T_IIF),
       (None, Tok T_IO),
       (None, Tok T_INCLUDE),
       (None, Tok T_INCREMENT),
       (None, Tok T_INFINITE),
       (None, Tok T_INIT),
       (None, Tok T_INSTEAD),
       (None, Tok T_ISDESCENDANTOF),
       (None, Tok T_ISNULL),
       (None, Tok T_ISNUMERIC),
       (None, Tok T_KERBEROS),
       (None, Tok T_KEY_PATH),
       (None, Tok T_KEY_STORE_PROVIDER_NAME),
       (None, Tok T_LANGUAGE),
       (None, Tok T_LIBRARY),
       (None, Tok T_LIFETIME),
       (None, Tok T_LINKED),
       (None, Tok T_LINUX),
       (None, Tok T_LISTENER_IP),
       (None, Tok T_LISTENER_PORT),
       (None, Tok T_LOCAL_SERVICE_NAME),
       (None, Tok T_LOG),
       (None, Tok T_MASK),
       (None, Tok T_MATCHED),
       (None, Tok T_MASTER),
       (None, Tok T_MAX_MEMORY),
       (None, Tok T_MAXTRANSFER),
       (None, Tok T_MAXVALUE),
       (None, Tok T_MAX_DISPATCH_LATENCY),
       (None, Tok T_MAX_DURATION),
       (None, Tok T_MAX_EVENT_SIZE),
       (None, Tok T_MAX_SIZE),
       (None, Tok T_MAX_OUTSTANDING_IO_PER_VOLUME),
       (None, Tok T_MEDIADESCRIPTION),
       (None, Tok T_MEDIANAME),
       (None, Tok T_MEMBER),
       (None, Tok T_MEMORY_PARTITION_MODE),
       (None, Tok T_MESSAGE_FORWARDING),
       (None, Tok T_MESSAGE_FORWARD_SIZE),
       (None, Tok T_MINVALUE),
       (None, Tok T_MIRROR),
       (None, Tok T_MUST_CHANGE),
       (None, Tok T_NEWID),
       (None, Tok T_NEWSEQUENTIALID),
       (None, Tok T_NOFORMAT),
       (None, Tok T_NOINIT),
       (None, Tok T_NONE),
       (None, Tok T_NOREWIND),
       (None, Tok T_NOSKIP),
       (None, Tok T_NOUNLOAD),
       (None, Tok T_NO_CHECKSUM),
       (None, Tok T_NO_COMPRESSION),
       (None, Tok T_NO_EVENT_LOSS),
       (None, Tok T_NOTIFICATION),
       (None, Tok T_NTLM),
       (None, Tok T_OLD_PASSWORD),
       (None, Tok T_ON_FAILURE),
       (None, Tok T_OPERATIONS),
       (None, Tok T_PAGE),
       (None, Tok T_PARAM_NODE),
       (None, Tok T_PARTIAL),
       (None, Tok T_PASSWORD),
       (None, Tok T_PERMISSION_SET),
       (None, Tok T_PER_CPU),
       (None, Tok T_PER_DB),
       (None, Tok T_PER_NODE),
       (None, Tok T_PERSISTED),
       (None, Tok T_PLATFORM),
       (None, Tok T_POLICY),
       (None, Tok T_PREDICATE),
       (None, Tok T_PROCESS),
       (None, Tok T_PROFILE),
       (None, Tok T_PYTHON),
       (None, Tok T_R),
       (None, Tok T_READ_WRITE_FILEGROUPS),
       (None, Tok T_REGENERATE),
       (None, Tok T_RELATED_CONVERSATION),
       (None, Tok T_RELATED_CONVERSATION_GROUP),
       (None, Tok T_REQUIRED),
       (None, Tok T_RESET),
       (None, Tok T_RESOURCES),
       (None, Tok T_RESTART),
       (None, Tok T_RESUME),
       (None, Tok T_RETAINDAYS),
       (None, Tok T_RETURNS),
       (None, Tok T_REWIND),
       (None, Tok T_ROLE),
       (None, Tok T_ROUND_ROBIN),
       (None, Tok T_ROWCOUNT_BIG),
       (None, Tok T_RSA_512),
       (None, Tok T_RSA_1024),
       (None, Tok T_RSA_2048),
       (None, Tok T_RSA_3072),
       (None, Tok T_RSA_4096),
       (None, Tok T_SAFETY),
       (None, Tok T_SAFE),
       (None, Tok T_SCHEDULER),
       (None, Tok T_SCHEME),
       (None, Tok T_SCRIPT),
       (None, Tok T_SERVER),
       (None, Tok T_SERVICE),
       (None, Tok T_SERVICE_BROKER),
       (None, Tok T_SERVICE_NAME),
       (None, Tok T_SESSION),
       (None, Tok T_SESSION_CONTEXT),
       (None, Tok T_SETTINGS),
       (None, Tok T_SHRINKLOG),
       (None, Tok T_SID),
       (None, Tok T_SKIP_KEYWORD),
       (None, Tok T_SOFTNUMA),
       (None, Tok T_SOURCE),
       (None, Tok T_SPECIFICATION),
       (None, Tok T_SPLIT),
       (None, Tok T_SQL),
       (None, Tok T_SQLDUMPERFLAGS),
       (None, Tok T_SQLDUMPERPATH),
       (None, Tok T_SQLDUMPERTIMEOUT),
       (None, Tok T_STATE),
       (None, Tok T_STATS),
       (None, Tok T_START),
       (None, Tok T_STARTED),
       (None, Tok T_STARTUP_STATE),
       (None, Tok T_STOP),
       (None, Tok T_STOPPED),
       (None, Tok T_STOP_ON_ERROR),
       (None, Tok T_SUPPORTED),
       (None, Tok T_SWITCH),
       (None, Tok T_TAPE),
       (None, Tok T_TARGET),
       (None, Tok T_TCP),
       (None, Tok T_TOSTRING),
       (None, Tok T_TRACE),
       (None, Tok T_TRACK_CAUSALITY),
       (None, Tok T_TRANSFER),
       (None, Tok T_UNCHECKED),
       (None, Tok T_UNLOCK),
       (None, Tok T_UNSAFE),
       (None, Tok T_URL),
       (None, Tok T_USED),
       (None, Tok T_VERBOSELOGGING),
       (None, Tok T_VISIBILITY),
       (None, Tok T_WAIT_AT_LOW_PRIORITY),
       (None, Tok T_WINDOWS),
       (None, Tok T_WITHOUT),
       (None, Tok T_WITNESS),
       (None, Tok T_XACT_ABORT),
       (None, Tok T_XACT_STATE),
       (None, Tok T_ABS),
       (None, Tok T_ACOS),
       (None, Tok T_ASIN),
       (None, Tok T_ATAN),
       (None, Tok T_ATN2),
       (None, Tok T_CEILING),
       (None, Tok T_COS),
       (None, Tok T_COT),
       (None, Tok T_DEGREES),
       (None, Tok T_EXP),
       (None, Tok T_FLOOR),
       (None, Tok T_LOG10),
       (None, Tok T_PI),
       (None, Tok T_POWER),
       (None, Tok T_RADIANS),
       (None, Tok T_RAND),
       (None, Tok T_ROUND),
       (None, Tok T_SIGN),
       (None, Tok T_SIN),
       (None, Tok T_SQRT),
       (None, Tok T_SQUARE),
       (None, Tok T_TAN),
       (None, Tok T_CURRENT_TIMEZONE),
       (None, Tok T_CURRENT_TIMEZONE_ID),
       (None, Tok T_DATE_BUCKET),
       (None, Tok T_DATEDIFF_BIG),
       (None, Tok T_DATEFROMPARTS),
       (None, Tok T_DATETIME2FROMPARTS),
       (None, Tok T_DATETIMEFROMPARTS),
       (None, Tok T_DATETIMEOFFSETFROMPARTS),
       (None, Tok T_DATETRUNC),
       (None, Tok T_DAY),
       (None, Tok T_EOMONTH),
       (None, Tok T_ISDATE),
       (None, Tok T_MONTH),
       (None, Tok T_SMALLDATETIMEFROMPARTS),
       (None, Tok T_SWITCHOFFSET),
       (None, Tok T_SYSDATETIME),
       (None, Tok T_SYSDATETIMEOFFSET),
       (None, Tok T_SYSUTCDATETIME),
       (None, Tok T_TIMEFROMPARTS),
       (None, Tok T_TODATETIMEOFFSET),
       (None, Tok T_YEAR),
       (None, Tok T_QUARTER),
       (None, Tok T_DAYOFYEAR),
       (None, Tok T_WEEK),
       (None, Tok T_HOUR),
       (None, Tok T_MINUTE),
       (None, Tok T_SECOND),
       (None, Tok T_MILLISECOND),
       (None, Tok T_MICROSECOND),
       (None, Tok T_NANOSECOND),
       (None, Tok T_TZOFFSET),
       (None, Tok T_ISO_WEEK),
       (None, Tok T_WEEKDAY),
       (None, Tok T_YEAR_ABBR),
       (None, Tok T_QUARTER_ABBR),
       (None, Tok T_MONTH_ABBR),
       (None, Tok T_DAYOFYEAR_ABBR),
       (None, Tok T_DAY_ABBR),
       (None, Tok T_WEEK_ABBR),
       (None, Tok T_HOUR_ABBR),
       (None, Tok T_MINUTE_ABBR),
       (None, Tok T_SECOND_ABBR),
       (None, Tok T_MILLISECOND_ABBR),
       (None, Tok T_MICROSECOND_ABBR),
       (None, Tok T_NANOSECOND_ABBR),
       (None, Tok T_TZOFFSET_ABBR),
       (None, Tok T_ISO_WEEK_ABBR),
       (None, Tok T_WEEKDAY_ABBR),
       (None, Tok T_SP_EXECUTESQL),
       (None, Tok T_VARCHAR),
       (None, Tok T_NVARCHAR),
       (None, Tok T_PRECISION),
       (None, Tok T_FILESTREAM_ON)]\<rparr>"

definition g_id' :: rule where [grammar_rules]:
  "g_id' = \<lparr>rule_index = RuleId', rule_alts = [
       (None, Tok T_ID),
       (None, Tok T_TEMP_ID),
       (None, Tok T_DOUBLE_QUOTE_ID),
       (None, Tok T_DOUBLE_QUOTE_BLANK),
       (None, Tok T_SQUARE_BRACKET_ID),
       (None, Ref RuleKeyword),
       (None, Tok T_RAW)]\<rparr>"

definition g_simple_id :: rule where [grammar_rules]:
  "g_simple_id = \<lparr>rule_index = RuleSimple_id, rule_alts = [
       (None, Tok T_ID)]\<rparr>"

definition g_id_or_string :: rule where [grammar_rules]:
  "g_id_or_string = \<lparr>rule_index = RuleId_or_string, rule_alts = [
       (None, Ref RuleId'),
       (None, Tok T_STRING)]\<rparr>"

definition g_comparison_operator :: rule where [grammar_rules]:
  "g_comparison_operator = \<lparr>rule_index = RuleComparison_operator, rule_alts = [
       (None, Tok T_EQUAL),
       (None, Tok T_GREATER),
       (None, Tok T_LESS),
       (None, Seq [Tok T_LESS, Tok T_EQUAL]),
       (None, Seq [Tok T_GREATER, Tok T_EQUAL]),
       (None, Seq [Tok T_LESS, Tok T_GREATER]),
       (None, Seq [Tok T_EXCLAMATION, Tok T_EQUAL]),
       (None, Seq [Tok T_EXCLAMATION, Tok T_GREATER]),
       (None, Seq [Tok T_EXCLAMATION, Tok T_LESS])]\<rparr>"

definition g_assignment_operator :: rule where [grammar_rules]:
  "g_assignment_operator = \<lparr>rule_index = RuleAssignment_operator, rule_alts = [
       (None, Tok T_PLUS_ASSIGN),
       (None, Tok T_MINUS_ASSIGN),
       (None, Tok T_MULT_ASSIGN),
       (None, Tok T_DIV_ASSIGN),
       (None, Tok T_MOD_ASSIGN),
       (None, Tok T_AND_ASSIGN),
       (None, Tok T_XOR_ASSIGN),
       (None, Tok T_OR_ASSIGN)]\<rparr>"

definition g_file_size :: rule where [grammar_rules]:
  "g_file_size = \<lparr>rule_index = RuleFile_size, rule_alts = [
       (None, Seq [Tok T_DECIMAL, Opt (Alt [Tok T_KB, Tok T_MB, Tok T_GB, Tok T_TB,
         Tok T_MODULE])])]\<rparr>"

definition rules_6 :: grammar where
  "rules_6 = [
     g_xml_data_type_methods, g_dateparts_9, g_dateparts_12, g_dateparts_15,
     g_dateparts_datetrunc, g_value_method, g_value_call, g_query_method, g_query_call,
     g_exist_method, g_exist_call, g_modify_method, g_modify_call, g_hierarchyid_call,
     g_hierarchyid_static_method, g_nodes_method, g_switch_section,
     g_switch_search_condition_section, g_as_column_alias, g_as_table_alias, g_table_alias,
     g_with_table_hints, g_deprecated_table_hint, g_sybase_legacy_hints, g_sybase_legacy_hint,
     g_table_hint, g_index_value, g_column_alias_list, g_column_alias,
     g_table_value_constructor, g_expression_list', g_ranking_windowed_function,
     g_aggregate_windowed_function, g_analytic_windowed_function, g_all_distinct_expression,
     g_over_clause, g_row_or_range_clause, g_window_frame_extent, g_window_frame_bound,
     g_window_frame_preceding, g_window_frame_following, g_create_database_option,
     g_database_filestream_option, g_database_file_spec, g_file_group, g_file_spec,
     g_entity_name, g_entity_name_for_azure_dw, g_entity_name_for_parallel_dw,
     g_full_table_name, g_dotID, g_doubleDotID, g_table_name, g_simple_name,
     g_func_proc_name_schema, g_func_proc_name_database_schema,
     g_func_proc_name_server_database_schema, g_ddl_object, g_full_column_name,
     g_column_name_list_with_order, g_insert_column_name_list, g_insert_column_id,
     g_column_name_list, g_cursor_name, g_on_off, g_clustered, g_null_notnull,
     g_scalar_function_name, g_begin_conversation_timer, g_begin_conversation_dialog,
     g_contract_name, g_service_name, g_end_conversation, g_waitfor_conversation,
     g_get_conversation, g_queue_id, g_send_conversation, g_data_type, g_constant,
     g_primitive_constant, g_keyword, g_id', g_simple_id, g_id_or_string,
     g_comparison_operator, g_assignment_operator, g_file_size]"

end
