(* ===== verification/Contexts_6.thy ===== *)
theory Contexts_6
  imports Contexts Tokens Rule_Ids Label_Ids
begin

text \<open>
  Context classes of \<open>src/port/cpp/TSqlParser.h\<close>, from \<open>Xml_data_type_methodsContext\<close> to
  \<open>File_sizeContext\<close>: one definition per class, its members in the order of their declarations.
\<close>

definition Xml_data_type_methodsContext :: context_class where [context_classes]:
  "Xml_data_type_methodsContext = \<lparr>class_id = RuleContext RuleXml_data_type_methods, class_base = ParserRuleContext, members = [
     Constructor, GetRuleIndex, ContextGet RuleValue_method, ContextGet RuleQuery_method,
     ContextGet RuleExist_method, ContextGet RuleModify_method, EnterRule, ExitRule, Accept]\<rparr>"

definition Dateparts_9Context :: context_class where [context_classes]:
  "Dateparts_9Context = \<lparr>class_id = RuleContext RuleDateparts_9, class_base = ParserRuleContext, members = [
     Constructor, GetRuleIndex, TerminalGet T_YEAR, TerminalGet T_YEAR_ABBR,
     TerminalGet T_QUARTER, TerminalGet T_QUARTER_ABBR, TerminalGet T_MONTH,
     TerminalGet T_MONTH_ABBR, TerminalGet T_DAY, TerminalGet T_DAY_ABBR, TerminalGet T_WEEK,
     TerminalGet T_WEEK_ABBR, TerminalGet T_HOUR, TerminalGet T_HOUR_ABBR,
     TerminalGet T_MINUTE, TerminalGet T_MINUTE_ABBR, TerminalGet T_SECOND,
     TerminalGet T_SECOND_ABBR, TerminalGet T_MILLISECOND, TerminalGet T_MILLISECOND_ABBR,
     EnterRule, ExitRule, Accept]\<rparr>"

definition Dateparts_12Context :: context_class where [context_classes]:
  "Dateparts_12Context = \<lparr>class_id = RuleContext RuleDateparts_12, class_base = ParserRuleContext, members = [
     Constructor, GetRuleIndex, ContextGet RuleDateparts_9, TerminalGet T_DAYOFYEAR,
     TerminalGet T_DAYOFYEAR_ABBR, TerminalGet T_MICROSECOND, TerminalGet T_MICROSECOND_ABBR,
     TerminalGet T_NANOSECOND, TerminalGet T_NANOSECOND_ABBR, EnterRule, ExitRule, Accept]\<rparr>"

definition Dateparts_15Context :: context_class where [context_classes]:
  "Dateparts_15Context = \<lparr>class_id = RuleContext RuleDateparts_15, class_base = ParserRuleContext, members = [
     Constructor, GetRuleIndex, ContextGet RuleDateparts_12, TerminalGet T_WEEKDAY,
     TerminalGet T_WEEKDAY_ABBR, TerminalGet T_TZOFFSET, TerminalGet T_TZOFFSET_ABBR,
     TerminalGet T_ISO_WEEK, TerminalGet T_ISO_WEEK_ABBR, EnterRule, ExitRule, Accept]\<rparr>"

definition Dateparts_datetruncContext :: context_class where [context_classes]:
  "Dateparts_datetruncContext = \<lparr>class_id = RuleContext RuleDateparts_datetrunc, class_base = ParserRuleContext, members = [
     Constructor, GetRuleIndex, ContextGet RuleDateparts_9, TerminalGet T_DAYOFYEAR,
     TerminalGet T_DAYOFYEAR_ABBR, TerminalGet T_MICROSECOND, TerminalGet T_MICROSECOND_ABBR,
     TerminalGet T_ISO_WEEK, TerminalGet T_ISO_WEEK_ABBR, EnterRule, ExitRule, Accept]\<rparr>"

definition Value_methodContext :: context_class where [context_classes]:
  "Value_methodContext = \<lparr>class_id = RuleContext RuleValue_method, class_base = ParserRuleContext, members = [
     TokenField ''loc_id'', ContextField ''value_id'' RuleFull_column_name,
     TokenField ''eventdata'', ContextField ''query'' RuleQuery_method,
     ContextField ''call'' RuleValue_call, Constructor, GetRuleIndex, TerminalGet T_DOT,
     ContextGet RuleValue_call, TerminalGet T_LR_BRACKET, TerminalGet T_RR_BRACKET,
     ContextGet RuleSubquery, TerminalGet T_LOCAL_ID, ContextGet RuleFull_column_name,
     TerminalGet T_EVENTDATA, ContextGet RuleQuery_method, EnterRule, ExitRule, Accept]\<rparr>"

definition Value_callContext :: context_class where [context_classes]:
  "Value_callContext = \<lparr>class_id = RuleContext RuleValue_call, class_base = ParserRuleContext, members = [
     TokenField ''xquery'', TokenField ''sqltype'', Constructor, GetRuleIndex,
     TerminalGet T_LR_BRACKET, TerminalGet T_COMMA, TerminalGet T_RR_BRACKET,
     TerminalGet T_VALUE, TerminalGet T_VALUE_SQUARE_BRACKET, TerminalAll T_STRING,
     TerminalNth T_STRING, EnterRule, ExitRule, Accept]\<rparr>"

definition Query_methodContext :: context_class where [context_classes]:
  "Query_methodContext = \<lparr>class_id = RuleContext RuleQuery_method, class_base = ParserRuleContext, members = [
     TokenField ''loc_id'', ContextField ''value_id'' RuleFull_column_name,
     ContextField ''call'' RuleQuery_call, Constructor, GetRuleIndex, TerminalGet T_DOT,
     ContextGet RuleQuery_call, TerminalGet T_LR_BRACKET, ContextGet RuleSubquery,
     TerminalGet T_RR_BRACKET, TerminalGet T_LOCAL_ID, ContextGet RuleFull_column_name,
     EnterRule, ExitRule, Accept]\<rparr>"

definition Query_callContext :: context_class where [context_classes]:
  "Query_callContext = \<lparr>class_id = RuleContext RuleQuery_call, class_base = ParserRuleContext, members = [
     TokenField ''xquery'', Constructor, GetRuleIndex, TerminalGet T_LR_BRACKET,
     TerminalGet T_RR_BRACKET, TerminalGet T_QUERY, TerminalGet T_QUERY_SQUARE_BRACKET,
     TerminalGet T_STRING, EnterRule, ExitRule, Accept]\<rparr>"

definition Exist_methodContext :: context_class where [context_classes]:
  "Exist_methodContext = \<lparr>class_id = RuleContext RuleExist_method, class_base = ParserRuleContext, members = [
     TokenField ''loc_id'', ContextField ''value_id'' RuleFull_column_name,
     ContextField ''call'' RuleExist_call, Constructor, GetRuleIndex, TerminalGet T_DOT,
     ContextGet RuleExist_call, TerminalGet T_LR_BRACKET, ContextGet RuleSubquery,
     TerminalGet T_RR_BRACKET, TerminalGet T_LOCAL_ID, ContextGet RuleFull_column_name,
     EnterRule, ExitRule, Accept]\<rparr>"

definition Exist_callContext :: context_class where [context_classes]:
  "Exist_callContext = \<lparr>class_id = RuleContext RuleExist_call, class_base = ParserRuleContext, members = [
     TokenField ''xquery'', Constructor, GetRuleIndex, TerminalGet T_LR_BRACKET,
     TerminalGet T_RR_BRACKET, TerminalGet T_EXIST, TerminalGet T_EXIST_SQUARE_BRACKET,
     TerminalGet T_STRING, EnterRule, ExitRule, Accept]\<rparr>"

definition Modify_methodContext :: context_class where [context_classes]:
  "Modify_methodContext = \<lparr>class_id = RuleContext RuleModify_method, class_base = ParserRuleContext, members = [
     TokenField ''loc_id'', ContextField ''value_id'' RuleFull_column_name,
     ContextField ''call'' RuleModify_call, Constructor, GetRuleIndex, TerminalGet T_DOT,
     ContextGet RuleModify_call, TerminalGet T_LR_BRACKET, ContextGet RuleSubquery,
     TerminalGet T_RR_BRACKET, TerminalGet T_LOCAL_ID, ContextGet RuleFull_column_name,
     EnterRule, ExitRule, Accept]\<rparr>"

definition Modify_callContext :: context_class where [context_classes]:
  "Modify_callContext = \<lparr>class_id = RuleContext RuleModify_call, class_base = ParserRuleContext, members = [
     TokenField ''xml_dml'', Constructor, GetRuleIndex, TerminalGet T_LR_BRACKET,
     TerminalGet T_RR_BRACKET, TerminalGet T_MODIFY, TerminalGet T_MODIFY_SQUARE_BRACKET,
     TerminalGet T_STRING, EnterRule, ExitRule, Accept]\<rparr>"

definition Hierarchyid_callContext :: context_class where [context_classes]:
  "Hierarchyid_callContext = \<lparr>class_id = RuleContext RuleHierarchyid_call, class_base = ParserRuleContext, members = [
     ContextField ''n'' RuleExpression, ContextField ''child1'' RuleExpression,
     ContextField ''child2'' RuleExpression, ContextField ''parent_'' RuleExpression,
     ContextField ''oldroot'' RuleExpression, ContextField ''newroot'' RuleExpression,
     Constructor, GetRuleIndex, TerminalGet T_GETANCESTOR, TerminalGet T_LR_BRACKET,
     TerminalGet T_RR_BRACKET, ContextAll RuleExpression, ContextNth RuleExpression,
     TerminalGet T_GETDESCENDANT, TerminalGet T_COMMA, TerminalGet T_GETLEVEL,
     TerminalGet T_ISDESCENDANTOF, TerminalGet T_GETREPARENTEDVALUE, TerminalGet T_TOSTRING,
     EnterRule, ExitRule, Accept]\<rparr>"

definition Hierarchyid_static_methodContext :: context_class where [context_classes]:
  "Hierarchyid_static_methodContext = \<lparr>class_id = RuleContext RuleHierarchyid_static_method, class_base = ParserRuleContext, members = [
     ContextField ''input'' RuleExpression, Constructor, GetRuleIndex,
     TerminalGet T_HIERARCHYID, TerminalGet T_DOUBLE_COLON, TerminalGet T_GETROOT,
     TerminalGet T_LR_BRACKET, TerminalGet T_RR_BRACKET, TerminalGet T_PARSE,
     ContextGet RuleExpression, EnterRule, ExitRule, Accept]\<rparr>"

definition Nodes_methodContext :: context_class where [context_classes]:
  "Nodes_methodContext = \<lparr>class_id = RuleContext RuleNodes_method, class_base = ParserRuleContext, members = [
     TokenField ''loc_id'', ContextField ''value_id'' RuleFull_column_name,
     TokenField ''xquery'', Constructor, GetRuleIndex, TerminalGet T_DOT, TerminalGet T_NODES,
     TerminalAll T_LR_BRACKET, TerminalNth T_LR_BRACKET, TerminalAll T_RR_BRACKET,
     TerminalNth T_RR_BRACKET, TerminalGet T_STRING, ContextGet RuleSubquery,
     TerminalGet T_LOCAL_ID, ContextGet RuleFull_column_name, EnterRule, ExitRule, Accept]\<rparr>"

definition Switch_sectionContext :: context_class where [context_classes]:
  "Switch_sectionContext = \<lparr>class_id = RuleContext RuleSwitch_section, class_base = ParserRuleContext, members = [
     Constructor, GetRuleIndex, TerminalGet T_WHEN, ContextAll RuleExpression,
     ContextNth RuleExpression, TerminalGet T_THEN, EnterRule, ExitRule, Accept]\<rparr>"

definition Switch_search_condition_sectionContext :: context_class where [context_classes]:
  "Switch_search_condition_sectionContext = \<lparr>class_id = RuleContext RuleSwitch_search_condition_section, class_base = ParserRuleContext, members = [
     Constructor, GetRuleIndex, TerminalGet T_WHEN, ContextGet RuleSearch_condition,
     TerminalGet T_THEN, ContextGet RuleExpression, EnterRule, ExitRule, Accept]\<rparr>"

definition As_column_aliasContext :: context_class where [context_classes]:
  "As_column_aliasContext = \<lparr>class_id = RuleContext RuleAs_column_alias, class_base = ParserRuleContext, members = [
     Constructor, GetRuleIndex, ContextGet RuleColumn_alias, TerminalGet T_AS, EnterRule,
     ExitRule, Accept]\<rparr>"

definition As_table_aliasContext :: context_class where [context_classes]:
  "As_table_aliasContext = \<lparr>class_id = RuleContext RuleAs_table_alias, class_base = ParserRuleContext, members = [
     Constructor, GetRuleIndex, ContextGet RuleTable_alias, TerminalGet T_AS, EnterRule,
     ExitRule, Accept]\<rparr>"

definition Table_aliasContext :: context_class where [context_classes]:
  "Table_aliasContext = \<lparr>class_id = RuleContext RuleTable_alias, class_base = ParserRuleContext, members = [
     Constructor, GetRuleIndex, ContextGet RuleId', EnterRule, ExitRule, Accept]\<rparr>"

definition With_table_hintsContext :: context_class where [context_classes]:
  "With_table_hintsContext = \<lparr>class_id = RuleContext RuleWith_table_hints, class_base = ParserRuleContext, members = [
     ContextField ''table_hintContext'' RuleTable_hint,
     ContextListField ''hint'' RuleTable_hint, Constructor, GetRuleIndex, TerminalGet T_WITH,
     TerminalGet T_LR_BRACKET, TerminalGet T_RR_BRACKET, ContextAll RuleTable_hint,
     ContextNth RuleTable_hint, TerminalAll T_COMMA, TerminalNth T_COMMA, EnterRule, ExitRule,
     Accept]\<rparr>"

definition Deprecated_table_hintContext :: context_class where [context_classes]:
  "Deprecated_table_hintContext = \<lparr>class_id = RuleContext RuleDeprecated_table_hint, class_base = ParserRuleContext, members = [
     Constructor, GetRuleIndex, TerminalGet T_LR_BRACKET, ContextGet RuleTable_hint,
     TerminalGet T_RR_BRACKET, EnterRule, ExitRule, Accept]\<rparr>"

definition Sybase_legacy_hintsContext :: context_class where [context_classes]:
  "Sybase_legacy_hintsContext = \<lparr>class_id = RuleContext RuleSybase_legacy_hints, class_base = ParserRuleContext, members = [
     Constructor, GetRuleIndex, ContextAll RuleSybase_legacy_hint,
     ContextNth RuleSybase_legacy_hint, EnterRule, ExitRule, Accept]\<rparr>"

definition Sybase_legacy_hintContext :: context_class where [context_classes]:
  "Sybase_legacy_hintContext = \<lparr>class_id = RuleContext RuleSybase_legacy_hint, class_base = ParserRuleContext, members = [
     Constructor, GetRuleIndex, TerminalGet T_HOLDLOCK, TerminalGet T_NOHOLDLOCK,
     TerminalGet T_READPAST, TerminalGet T_SHARED, EnterRule, ExitRule, Accept]\<rparr>"

definition Table_hintContext :: context_class where [context_classes]:
  "Table_hintContext = \<lparr>class_id = RuleContext RuleTable_hint, class_base = ParserRuleContext, members = [
     Constructor, GetRuleIndex, TerminalGet T_NOEXPAND, TerminalGet T_INDEX,
     TerminalAll T_LR_BRACKET, TerminalNth T_LR_BRACKET, ContextAll RuleIndex_value,
     ContextNth RuleIndex_value, TerminalAll T_RR_BRACKET, TerminalNth T_RR_BRACKET,
     TerminalGet T_EQUAL, TerminalAll T_COMMA, TerminalNth T_COMMA, TerminalGet T_FORCESEEK,
     ContextGet RuleColumn_name_list, TerminalGet T_FORCESCAN, TerminalGet T_HOLDLOCK,
     TerminalGet T_NOLOCK, TerminalGet T_NOWAIT, TerminalGet T_PAGLOCK,
     TerminalGet T_READCOMMITTED, TerminalGet T_READCOMMITTEDLOCK, TerminalGet T_READPAST,
     TerminalGet T_READUNCOMMITTED, TerminalGet T_REPEATABLEREAD, TerminalGet T_ROWLOCK,
     TerminalGet T_SERIALIZABLE, TerminalGet T_SNAPSHOT,
     TerminalGet T_SPATIAL_WINDOW_MAX_CELLS, TerminalGet T_DECIMAL, TerminalGet T_TABLOCK,
     TerminalGet T_TABLOCKX, TerminalGet T_UPDLOCK, TerminalGet T_XLOCK,
     TerminalGet T_KEEPIDENTITY, TerminalGet T_KEEPDEFAULTS, TerminalGet T_IGNORE_CONSTRAINTS,
     TerminalGet T_IGNORE_TRIGGERS, EnterRule, ExitRule, Accept]\<rparr>"

definition Index_valueContext :: context_class where [context_classes]:
  "Index_valueContext = \<lparr>class_id = RuleContext RuleIndex_value, class_base = ParserRuleContext, members = [
     Constructor, GetRuleIndex, ContextGet RuleId', TerminalGet T_DECIMAL, EnterRule, ExitRule,
     Accept]\<rparr>"

definition Column_alias_listContext :: context_class where [context_classes]:
  "Column_alias_listContext = \<lparr>class_id = RuleContext RuleColumn_alias_list, class_base = ParserRuleContext, members = [
     ContextField ''column_aliasContext'' RuleColumn_alias,
     ContextListField ''alias'' RuleColumn_alias, Constructor, GetRuleIndex,
     TerminalGet T_LR_BRACKET, TerminalGet T_RR_BRACKET, ContextAll RuleColumn_alias,
     ContextNth RuleColumn_alias, TerminalAll T_COMMA, TerminalNth T_COMMA, EnterRule,
     ExitRule, Accept]\<rparr>"

definition Column_aliasContext :: context_class where [context_classes]:
  "Column_aliasContext = \<lparr>class_id = RuleContext RuleColumn_alias, class_base = ParserRuleContext, members = [
     Constructor, GetRuleIndex, ContextGet RuleId', TerminalGet T_STRING, EnterRule, ExitRule,
     Accept]\<rparr>"

definition Table_value_constructorContext :: context_class where [context_classes]:
  "Table_value_constructorContext = \<lparr>class_id = RuleContext RuleTable_value_constructor, class_base = ParserRuleContext, members = [
     ContextField ''expression_list_Context'' RuleExpression_list',
     ContextListField ''exps'' RuleExpression_list', Constructor, GetRuleIndex,
     TerminalGet T_VALUES, TerminalAll T_LR_BRACKET, TerminalNth T_LR_BRACKET,
     TerminalAll T_RR_BRACKET, TerminalNth T_RR_BRACKET, ContextAll RuleExpression_list',
     ContextNth RuleExpression_list', TerminalAll T_COMMA, TerminalNth T_COMMA, EnterRule,
     ExitRule, Accept]\<rparr>"

definition Expression_list_Context :: context_class where [context_classes]:
  "Expression_list_Context = \<lparr>class_id = RuleContext RuleExpression_list', class_base = ParserRuleContext, members = [
     ContextField ''expressionContext'' RuleExpression,
     ContextListField ''exp'' RuleExpression, Constructor, GetRuleIndex,
     ContextAll RuleExpression, ContextNth RuleExpression, TerminalAll T_COMMA,
     TerminalNth T_COMMA, EnterRule, ExitRule, Accept]\<rparr>"

definition Ranking_windowed_functionContext :: context_class where [context_classes]:
  "Ranking_windowed_functionContext = \<lparr>class_id = RuleContext RuleRanking_windowed_function, class_base = ParserRuleContext, members = [
     Constructor, GetRuleIndex, TerminalGet T_LR_BRACKET, TerminalGet T_RR_BRACKET,
     ContextGet RuleOver_clause, TerminalGet T_RANK, TerminalGet T_DENSE_RANK,
     TerminalGet T_ROW_NUMBER, TerminalGet T_NTILE, ContextGet RuleExpression, EnterRule,
     ExitRule, Accept]\<rparr>"

definition Aggregate_windowed_functionContext :: context_class where [context_classes]:
  "Aggregate_windowed_functionContext = \<lparr>class_id = RuleContext RuleAggregate_windowed_function, class_base = ParserRuleContext, members = [
     TokenField ''agg_func'', TokenField ''cnt'', Constructor, GetRuleIndex,
     TerminalGet T_LR_BRACKET, ContextGet RuleAll_distinct_expression,
     TerminalGet T_RR_BRACKET, TerminalGet T_AVG, TerminalGet T_MAX, TerminalGet T_MIN,
     TerminalGet T_SUM, TerminalGet T_STDEV, TerminalGet T_STDEVP, TerminalGet T_VAR,
     TerminalGet T_VARP, ContextGet RuleOver_clause, TerminalGet T_COUNT,
     TerminalGet T_COUNT_BIG, TerminalGet T_STAR, TerminalGet T_CHECKSUM_AGG,
     TerminalGet T_GROUPING, ContextGet RuleExpression, TerminalGet T_GROUPING_ID,
     ContextGet RuleExpression_list', EnterRule, ExitRule, Accept]\<rparr>"

definition Analytic_windowed_functionContext :: context_class where [context_classes]:
  "Analytic_windowed_functionContext = \<lparr>class_id = RuleContext RuleAnalytic_windowed_function, class_base = ParserRuleContext, members = [
     Constructor, GetRuleIndex, TerminalAll T_LR_BRACKET, TerminalNth T_LR_BRACKET,
     ContextAll RuleExpression, ContextNth RuleExpression, TerminalAll T_RR_BRACKET,
     TerminalNth T_RR_BRACKET, ContextGet RuleOver_clause, TerminalGet T_FIRST_VALUE,
     TerminalGet T_LAST_VALUE, TerminalGet T_LAG, TerminalGet T_LEAD, TerminalAll T_COMMA,
     TerminalNth T_COMMA, TerminalGet T_OVER, ContextGet RuleOrder_by_clause,
     TerminalGet T_CUME_DIST, TerminalGet T_PERCENT_RANK, TerminalGet T_PARTITION,
     TerminalGet T_BY, ContextGet RuleExpression_list', TerminalGet T_WITHIN,
     TerminalGet T_GROUP, TerminalGet T_PERCENTILE_CONT, TerminalGet T_PERCENTILE_DISC,
     EnterRule, ExitRule, Accept]\<rparr>"

definition All_distinct_expressionContext :: context_class where [context_classes]:
  "All_distinct_expressionContext = \<lparr>class_id = RuleContext RuleAll_distinct_expression, class_base = ParserRuleContext, members = [
     Constructor, GetRuleIndex, ContextGet RuleExpression, TerminalGet T_ALL,
     TerminalGet T_DISTINCT, EnterRule, ExitRule, Accept]\<rparr>"

definition Over_clauseContext :: context_class where [context_classes]:
  "Over_clauseContext = \<lparr>class_id = RuleContext RuleOver_clause, class_base = ParserRuleContext, members = [
     Constructor, GetRuleIndex, TerminalGet T_OVER, TerminalGet T_LR_BRACKET,
     TerminalGet T_RR_BRACKET, TerminalGet T_PARTITION, TerminalGet T_BY,
     ContextGet RuleExpression_list', ContextGet RuleOrder_by_clause,
     ContextGet RuleRow_or_range_clause, EnterRule, ExitRule, Accept]\<rparr>"

definition Row_or_range_clauseContext :: context_class where [context_classes]:
  "Row_or_range_clauseContext = \<lparr>class_id = RuleContext RuleRow_or_range_clause, class_base = ParserRuleContext, members = [
     Constructor, GetRuleIndex, ContextGet RuleWindow_frame_extent, TerminalGet T_ROWS,
     TerminalGet T_RANGE, EnterRule, ExitRule, Accept]\<rparr>"

definition Window_frame_extentContext :: context_class where [context_classes]:
  "Window_frame_extentContext = \<lparr>class_id = RuleContext RuleWindow_frame_extent, class_base = ParserRuleContext, members = [
     Constructor, GetRuleIndex, ContextGet RuleWindow_frame_preceding, TerminalGet T_BETWEEN,
     ContextAll RuleWindow_frame_bound, ContextNth RuleWindow_frame_bound, TerminalGet T_AND,
     EnterRule, ExitRule, Accept]\<rparr>"

definition Window_frame_boundContext :: context_class where [context_classes]:
  "Window_frame_boundContext = \<lparr>class_id = RuleContext RuleWindow_frame_bound, class_base = ParserRuleContext, members = [
     Constructor, GetRuleIndex, ContextGet RuleWindow_frame_preceding,
     ContextGet RuleWindow_frame_following, EnterRule, ExitRule, Accept]\<rparr>"

definition Window_frame_precedingContext :: context_class where [context_classes]:
  "Window_frame_precedingContext = \<lparr>class_id = RuleContext RuleWindow_frame_preceding, class_base = ParserRuleContext, members = [
     Constructor, GetRuleIndex, TerminalGet T_UNBOUNDED, TerminalGet T_PRECEDING,
     TerminalGet T_DECIMAL, TerminalGet T_CURRENT, TerminalGet T_ROW, EnterRule, ExitRule,
     Accept]\<rparr>"

definition Window_frame_followingContext :: context_class where [context_classes]:
  "Window_frame_followingContext = \<lparr>class_id = RuleContext RuleWindow_frame_following, class_base = ParserRuleContext, members = [
     Constructor, GetRuleIndex, TerminalGet T_UNBOUNDED, TerminalGet T_FOLLOWING,
     TerminalGet T_DECIMAL, EnterRule, ExitRule, Accept]\<rparr>"

definition Create_database_optionContext :: context_class where [context_classes]:
  "Create_database_optionContext = \<lparr>class_id = RuleContext RuleCreate_database_option, class_base = ParserRuleContext, members = [
     Constructor, GetRuleIndex, TerminalGet T_FILESTREAM,
     ContextAll RuleDatabase_filestream_option, ContextNth RuleDatabase_filestream_option,
     TerminalAll T_COMMA, TerminalNth T_COMMA, TerminalGet T_DEFAULT_LANGUAGE,
     TerminalGet T_EQUAL, ContextGet RuleId', TerminalGet T_STRING,
     TerminalGet T_DEFAULT_FULLTEXT_LANGUAGE, TerminalGet T_NESTED_TRIGGERS, TerminalGet T_OFF,
     TerminalGet T_ON, TerminalGet T_TRANSFORM_NOISE_WORDS,
     TerminalGet T_TWO_DIGIT_YEAR_CUTOFF, TerminalGet T_DECIMAL, TerminalGet T_DB_CHAINING,
     TerminalGet T_TRUSTWORTHY, EnterRule, ExitRule, Accept]\<rparr>"

definition Database_filestream_optionContext :: context_class where [context_classes]:
  "Database_filestream_optionContext = \<lparr>class_id = RuleContext RuleDatabase_filestream_option, class_base = ParserRuleContext, members = [
     Constructor, GetRuleIndex, TerminalGet T_LR_BRACKET, TerminalGet T_RR_BRACKET,
     TerminalGet T_NON_TRANSACTED_ACCESS, TerminalGet T_EQUAL, TerminalGet T_DIRECTORY_NAME,
     TerminalGet T_STRING, TerminalGet T_OFF, TerminalGet T_READ_ONLY, TerminalGet T_FULL,
     EnterRule, ExitRule, Accept]\<rparr>"

definition Database_file_specContext :: context_class where [context_classes]:
  "Database_file_specContext = \<lparr>class_id = RuleContext RuleDatabase_file_spec, class_base = ParserRuleContext, members = [
     Constructor, GetRuleIndex, ContextGet RuleFile_group, ContextGet RuleFile_spec, EnterRule,
     ExitRule, Accept]\<rparr>"

definition File_groupContext :: context_class where [context_classes]:
  "File_groupContext = \<lparr>class_id = RuleContext RuleFile_group, class_base = ParserRuleContext, members = [
     Constructor, GetRuleIndex, TerminalGet T_FILEGROUP, ContextGet RuleId',
     ContextAll RuleFile_spec, ContextNth RuleFile_spec, TerminalAll T_CONTAINS,
     TerminalNth T_CONTAINS, TerminalGet T_FILESTREAM, TerminalGet T_DEFAULT,
     TerminalGet T_MEMORY_OPTIMIZED_DATA, TerminalAll T_COMMA, TerminalNth T_COMMA, EnterRule,
     ExitRule, Accept]\<rparr>"

definition File_specContext :: context_class where [context_classes]:
  "File_specContext = \<lparr>class_id = RuleContext RuleFile_spec, class_base = ParserRuleContext, members = [
     TokenField ''file'', Constructor, GetRuleIndex, TerminalGet T_LR_BRACKET,
     TerminalGet T_NAME, TerminalAll T_EQUAL, TerminalNth T_EQUAL, TerminalGet T_FILENAME,
     TerminalGet T_RR_BRACKET, TerminalAll T_STRING, TerminalNth T_STRING, ContextGet RuleId',
     TerminalAll T_COMMA, TerminalNth T_COMMA, TerminalGet T_SIZE, ContextAll RuleFile_size,
     ContextNth RuleFile_size, TerminalGet T_MAXSIZE, TerminalGet T_FILEGROWTH,
     TerminalGet T_UNLIMITED, EnterRule, ExitRule, Accept]\<rparr>"

definition Entity_nameContext :: context_class where [context_classes]:
  "Entity_nameContext = \<lparr>class_id = RuleContext RuleEntity_name, class_base = ParserRuleContext, members = [
     ContextField ''server'' RuleId', ContextField ''database'' RuleId',
     ContextField ''schema'' RuleId', ContextField ''table'' RuleId', Constructor,
     GetRuleIndex, ContextAll RuleId', ContextNth RuleId', TerminalAll T_DOT,
     TerminalNth T_DOT, EnterRule, ExitRule, Accept]\<rparr>"

definition Entity_name_for_azure_dwContext :: context_class where [context_classes]:
  "Entity_name_for_azure_dwContext = \<lparr>class_id = RuleContext RuleEntity_name_for_azure_dw, class_base = ParserRuleContext, members = [
     ContextField ''schema'' RuleId', ContextField ''object_name'' RuleId', Constructor,
     GetRuleIndex, ContextAll RuleId', ContextNth RuleId', TerminalGet T_DOT, EnterRule,
     ExitRule, Accept]\<rparr>"

definition Entity_name_for_parallel_dwContext :: context_class where [context_classes]:
  "Entity_name_for_parallel_dwContext = \<lparr>class_id = RuleContext RuleEntity_name_for_parallel_dw, class_base = ParserRuleContext, members = [
     ContextField ''schema_database'' RuleId', ContextField ''schema'' RuleId',
     ContextField ''object_name'' RuleId', Constructor, GetRuleIndex, ContextAll RuleId',
     ContextNth RuleId', TerminalGet T_DOT, EnterRule, ExitRule, Accept]\<rparr>"

definition Full_table_nameContext :: context_class where [context_classes]:
  "Full_table_nameContext = \<lparr>class_id = RuleContext RuleFull_table_name, class_base = ParserRuleContext, members = [
     ContextField ''linkedServer'' RuleId', ContextField ''schema'' RuleId',
     ContextField ''server'' RuleId', ContextField ''database'' RuleId',
     ContextField ''table'' RuleId', Constructor, GetRuleIndex, ContextAll RuleId',
     ContextNth RuleId', TerminalAll T_DOT, TerminalNth T_DOT, EnterRule, ExitRule, Accept]\<rparr>"

definition Table_nameContext :: context_class where [context_classes]:
  "Table_nameContext = \<lparr>class_id = RuleContext RuleTable_name, class_base = ParserRuleContext, members = [
     ContextField ''database'' RuleId', ContextField ''schema'' RuleId',
     ContextField ''table'' RuleId', TokenField ''blocking_hierarchy'', Constructor,
     GetRuleIndex, TerminalAll T_DOT, TerminalNth T_DOT, ContextAll RuleId',
     ContextNth RuleId', TerminalGet T_BLOCKING_HIERARCHY, EnterRule, ExitRule, Accept]\<rparr>"

definition Simple_nameContext :: context_class where [context_classes]:
  "Simple_nameContext = \<lparr>class_id = RuleContext RuleSimple_name, class_base = ParserRuleContext, members = [
     ContextField ''schema'' RuleId', ContextField ''name'' RuleId', Constructor, GetRuleIndex,
     ContextAll RuleId', ContextNth RuleId', TerminalGet T_DOT, EnterRule, ExitRule, Accept]\<rparr>"

definition Func_proc_name_schemaContext :: context_class where [context_classes]:
  "Func_proc_name_schemaContext = \<lparr>class_id = RuleContext RuleFunc_proc_name_schema, class_base = ParserRuleContext, members = [
     ContextField ''schema'' RuleId', ContextField ''procedure'' RuleId', Constructor,
     GetRuleIndex, ContextAll RuleId', ContextNth RuleId', TerminalGet T_DOT, EnterRule,
     ExitRule, Accept]\<rparr>"

definition Func_proc_name_database_schemaContext :: context_class where [context_classes]:
  "Func_proc_name_database_schemaContext = \<lparr>class_id = RuleContext RuleFunc_proc_name_database_schema, class_base = ParserRuleContext, members = [
     ContextField ''database'' RuleId', ContextField ''schema'' RuleId',
     ContextField ''procedure'' RuleId', Constructor, GetRuleIndex, TerminalAll T_DOT,
     TerminalNth T_DOT, ContextAll RuleId', ContextNth RuleId',
     ContextGet RuleFunc_proc_name_schema, EnterRule, ExitRule, Accept]\<rparr>"

definition Func_proc_name_server_database_schemaContext :: context_class where [context_classes]:
  "Func_proc_name_server_database_schemaContext = \<lparr>class_id = RuleContext RuleFunc_proc_name_server_database_schema, class_base = ParserRuleContext, members = [
     ContextField ''server'' RuleId', ContextField ''database'' RuleId',
     ContextField ''schema'' RuleId', ContextField ''procedure'' RuleId', Constructor,
     GetRuleIndex, TerminalAll T_DOT, TerminalNth T_DOT, ContextAll RuleId',
     ContextNth RuleId', ContextGet RuleFunc_proc_name_database_schema, EnterRule, ExitRule,
     Accept]\<rparr>"

definition Ddl_objectContext :: context_class where [context_classes]:
  "Ddl_objectContext = \<lparr>class_id = RuleContext RuleDdl_object, class_base = ParserRuleContext, members = [
     Constructor, GetRuleIndex, ContextGet RuleFull_table_name, TerminalGet T_LOCAL_ID,
     EnterRule, ExitRule, Accept]\<rparr>"

definition Full_column_nameContext :: context_class where [context_classes]:
  "Full_column_nameContext = \<lparr>class_id = RuleContext RuleFull_column_name, class_base = ParserRuleContext, members = [
     ContextField ''column_name'' RuleId', Constructor, GetRuleIndex, TerminalGet T_DOT,
     ContextGet RuleId', TerminalGet T_DOLLAR, TerminalGet T_DELETED, TerminalGet T_INSERTED,
     ContextGet RuleFull_table_name, TerminalGet T_IDENTITY, TerminalGet T_ROWGUID, EnterRule,
     ExitRule, Accept]\<rparr>"

definition Column_name_list_with_orderContext :: context_class where [context_classes]:
  "Column_name_list_with_orderContext = \<lparr>class_id = RuleContext RuleColumn_name_list_with_order, class_base = ParserRuleContext, members = [
     Constructor, GetRuleIndex, ContextAll RuleId', ContextNth RuleId', TerminalAll T_COMMA,
     TerminalNth T_COMMA, TerminalAll T_ASC, TerminalNth T_ASC, TerminalAll T_DESC,
     TerminalNth T_DESC, EnterRule, ExitRule, Accept]\<rparr>"

definition Insert_column_name_listContext :: context_class where [context_classes]:
  "Insert_column_name_listContext = \<lparr>class_id = RuleContext RuleInsert_column_name_list, class_base = ParserRuleContext, members = [
     ContextField ''insert_column_idContext'' RuleInsert_column_id,
     ContextListField ''col'' RuleInsert_column_id, Constructor, GetRuleIndex,
     ContextAll RuleInsert_column_id, ContextNth RuleInsert_column_id, TerminalAll T_COMMA,
     TerminalNth T_COMMA, EnterRule, ExitRule, Accept]\<rparr>"

definition Insert_column_idContext :: context_class where [context_classes]:
  "Insert_column_idContext = \<lparr>class_id = RuleContext RuleInsert_column_id, class_base = ParserRuleContext, members = [
     ContextField ''id_Context'' RuleId', ContextListField ''ignore'' RuleId', Constructor,
     GetRuleIndex, ContextAll RuleId', ContextNth RuleId', TerminalAll T_DOT,
     TerminalNth T_DOT, EnterRule, ExitRule, Accept]\<rparr>"

definition Column_name_listContext :: context_class where [context_classes]:
  "Column_name_listContext = \<lparr>class_id = RuleContext RuleColumn_name_list, class_base = ParserRuleContext, members = [
     ContextField ''id_Context'' RuleId', ContextListField ''col'' RuleId', Constructor,
     GetRuleIndex, ContextAll RuleId', ContextNth RuleId', TerminalAll T_COMMA,
     TerminalNth T_COMMA, EnterRule, ExitRule, Accept]\<rparr>"

definition Cursor_nameContext :: context_class where [context_classes]:
  "Cursor_nameContext = \<lparr>class_id = RuleContext RuleCursor_name, class_base = ParserRuleContext, members = [
     Constructor, GetRuleIndex, ContextGet RuleId', TerminalGet T_LOCAL_ID, EnterRule,
     ExitRule, Accept]\<rparr>"

definition On_offContext :: context_class where [context_classes]:
  "On_offContext = \<lparr>class_id = RuleContext RuleOn_off, class_base = ParserRuleContext, members = [
     Constructor, GetRuleIndex, TerminalGet T_ON, TerminalGet T_OFF, EnterRule, ExitRule,
     Accept]\<rparr>"

definition ClusteredContext :: context_class where [context_classes]:
  "ClusteredContext = \<lparr>class_id = RuleContext RuleClustered, class_base = ParserRuleContext, members = [
     Constructor, GetRuleIndex, TerminalGet T_CLUSTERED, TerminalGet T_NONCLUSTERED, EnterRule,
     ExitRule, Accept]\<rparr>"

definition Null_notnullContext :: context_class where [context_classes]:
  "Null_notnullContext = \<lparr>class_id = RuleContext RuleNull_notnull, class_base = ParserRuleContext, members = [
     Constructor, GetRuleIndex, TerminalGet T_NULL', TerminalGet T_NOT, EnterRule, ExitRule,
     Accept]\<rparr>"

definition Scalar_function_nameContext :: context_class where [context_classes]:
  "Scalar_function_nameContext = \<lparr>class_id = RuleContext RuleScalar_function_name, class_base = ParserRuleContext, members = [
     Constructor, GetRuleIndex, ContextGet RuleFunc_proc_name_server_database_schema,
     TerminalGet T_RIGHT, TerminalGet T_LEFT, TerminalGet T_BINARY_CHECKSUM,
     TerminalGet T_CHECKSUM, EnterRule, ExitRule, Accept]\<rparr>"

definition Begin_conversation_timerContext :: context_class where [context_classes]:
  "Begin_conversation_timerContext = \<lparr>class_id = RuleContext RuleBegin_conversation_timer, class_base = ParserRuleContext, members = [
     Constructor, GetRuleIndex, TerminalGet T_BEGIN, TerminalGet T_CONVERSATION,
     TerminalGet T_TIMER, TerminalGet T_LR_BRACKET, TerminalGet T_LOCAL_ID,
     TerminalGet T_RR_BRACKET, TerminalGet T_TIMEOUT, TerminalGet T_EQUAL, ContextGet RuleTime,
     TerminalGet T_SEMI, EnterRule, ExitRule, Accept]\<rparr>"

definition Begin_conversation_dialogContext :: context_class where [context_classes]:
  "Begin_conversation_dialogContext = \<lparr>class_id = RuleContext RuleBegin_conversation_dialog, class_base = ParserRuleContext, members = [
     TokenField ''dialog_handle'', ContextField ''initiator_service_name'' RuleService_name,
     ContextField ''target_service_name'' RuleService_name, TokenField ''service_broker_guid'',
     Constructor, GetRuleIndex, TerminalGet T_BEGIN, TerminalGet T_DIALOG, TerminalGet T_FROM,
     TerminalAll T_SERVICE, TerminalNth T_SERVICE, TerminalGet T_TO, TerminalGet T_ON,
     TerminalGet T_CONTRACT, ContextGet RuleContract_name, TerminalAll T_LOCAL_ID,
     TerminalNth T_LOCAL_ID, ContextAll RuleService_name, ContextNth RuleService_name,
     TerminalGet T_CONVERSATION, TerminalAll T_COMMA, TerminalNth T_COMMA, TerminalGet T_WITH,
     TerminalGet T_SEMI, TerminalGet T_STRING, TerminalAll T_EQUAL, TerminalNth T_EQUAL,
     TerminalGet T_LIFETIME, TerminalGet T_ENCRYPTION, ContextGet RuleOn_off,
     TerminalGet T_RELATED_CONVERSATION, TerminalGet T_RELATED_CONVERSATION_GROUP,
     TerminalGet T_DECIMAL, EnterRule, ExitRule, Accept]\<rparr>"

definition Contract_nameContext :: context_class where [context_classes]:
  "Contract_nameContext = \<lparr>class_id = RuleContext RuleContract_name, class_base = ParserRuleContext, members = [
     Constructor, GetRuleIndex, ContextGet RuleId', ContextGet RuleExpression, EnterRule,
     ExitRule, Accept]\<rparr>"

definition Service_nameContext :: context_class where [context_classes]:
  "Service_nameContext = \<lparr>class_id = RuleContext RuleService_name, class_base = ParserRuleContext, members = [
     Constructor, GetRuleIndex, ContextGet RuleId', ContextGet RuleExpression, EnterRule,
     ExitRule, Accept]\<rparr>"

definition End_conversationContext :: context_class where [context_classes]:
  "End_conversationContext = \<lparr>class_id = RuleContext RuleEnd_conversation, class_base = ParserRuleContext, members = [
     TokenField ''conversation_handle'', TokenField ''faliure_code'',
     TokenField ''failure_text'', Constructor, GetRuleIndex, TerminalGet T_END,
     TerminalGet T_CONVERSATION, TerminalAll T_LOCAL_ID, TerminalNth T_LOCAL_ID,
     TerminalGet T_SEMI, TerminalGet T_WITH, TerminalGet T_ERROR, TerminalAll T_EQUAL,
     TerminalNth T_EQUAL, TerminalGet T_DESCRIPTION, TerminalGet T_CLEANUP,
     TerminalAll T_STRING, TerminalNth T_STRING, EnterRule, ExitRule, Accept]\<rparr>"

definition Waitfor_conversationContext :: context_class where [context_classes]:
  "Waitfor_conversationContext = \<lparr>class_id = RuleContext RuleWaitfor_conversation, class_base = ParserRuleContext, members = [
     ContextField ''timeout'' RuleTime, Constructor, GetRuleIndex, TerminalGet T_LR_BRACKET,
     ContextGet RuleGet_conversation, TerminalGet T_RR_BRACKET, TerminalGet T_WAITFOR,
     TerminalGet T_TIMEOUT, TerminalGet T_SEMI, ContextGet RuleTime, TerminalGet T_COMMA,
     EnterRule, ExitRule, Accept]\<rparr>"

definition Get_conversationContext :: context_class where [context_classes]:
  "Get_conversationContext = \<lparr>class_id = RuleContext RuleGet_conversation, class_base = ParserRuleContext, members = [
     TokenField ''conversation_group_id'', ContextField ''queue'' RuleQueue_id, Constructor,
     GetRuleIndex, TerminalGet T_GET, TerminalGet T_CONVERSATION, TerminalGet T_GROUP,
     TerminalGet T_FROM, ContextGet RuleQueue_id, TerminalGet T_STRING, TerminalGet T_LOCAL_ID,
     TerminalGet T_SEMI, EnterRule, ExitRule, Accept]\<rparr>"

definition Queue_idContext :: context_class where [context_classes]:
  "Queue_idContext = \<lparr>class_id = RuleContext RuleQueue_id, class_base = ParserRuleContext, members = [
     ContextField ''database_name'' RuleId', ContextField ''schema_name'' RuleId',
     ContextField ''name'' RuleId', Constructor, GetRuleIndex, TerminalAll T_DOT,
     TerminalNth T_DOT, ContextAll RuleId', ContextNth RuleId', EnterRule, ExitRule, Accept]\<rparr>"

definition Send_conversationContext :: context_class where [context_classes]:
  "Send_conversationContext = \<lparr>class_id = RuleContext RuleSend_conversation, class_base = ParserRuleContext, members = [
     TokenField ''conversation_handle'', ContextField ''message_type_name'' RuleExpression,
     TokenField ''message_body_expression'', Constructor, GetRuleIndex, TerminalGet T_SEND,
     TerminalGet T_ON, TerminalGet T_CONVERSATION, TerminalGet T_MESSAGE, TerminalGet T_TYPE,
     ContextGet RuleExpression, TerminalAll T_STRING, TerminalNth T_STRING,
     TerminalAll T_LOCAL_ID, TerminalNth T_LOCAL_ID, TerminalGet T_LR_BRACKET,
     TerminalGet T_RR_BRACKET, TerminalGet T_SEMI, EnterRule, ExitRule, Accept]\<rparr>"

definition Data_typeContext :: context_class where [context_classes]:
  "Data_typeContext = \<lparr>class_id = RuleContext RuleData_type, class_base = ParserRuleContext, members = [
     TokenField ''scaled'', ContextField ''ext_type'' RuleId', TokenField ''scale'',
     TokenField ''prec'', TokenField ''seed'', TokenField ''inc'', TokenField ''double_prec'',
     ContextField ''unscaled_type'' RuleId', Constructor, GetRuleIndex,
     TerminalGet T_LR_BRACKET, TerminalGet T_MAX, TerminalGet T_RR_BRACKET,
     TerminalGet T_VARCHAR, TerminalGet T_NVARCHAR, TerminalGet T_BINARY_KEYWORD,
     TerminalGet T_VARBINARY_KEYWORD, TerminalGet T_SQUARE_BRACKET_ID, TerminalGet T_COMMA,
     ContextGet RuleId', TerminalAll T_DECIMAL, TerminalNth T_DECIMAL, TerminalGet T_IDENTITY,
     TerminalGet T_DOUBLE, TerminalGet T_PRECISION, EnterRule, ExitRule, Accept]\<rparr>"

definition ConstantContext :: context_class where [context_classes]:
  "ConstantContext = \<lparr>class_id = RuleContext RuleConstant, class_base = ParserRuleContext, members = [
     TokenField ''dollar'', Constructor, GetRuleIndex, TerminalGet T_STRING,
     TerminalGet T_BINARY, TerminalGet T_DECIMAL, TerminalGet T_REAL, TerminalGet T_FLOAT,
     TerminalAll T_MINUS, TerminalNth T_MINUS, TerminalGet T_DOLLAR, TerminalGet T_PLUS,
     ContextGet RuleParameter, EnterRule, ExitRule, Accept]\<rparr>"

definition Primitive_constantContext :: context_class where [context_classes]:
  "Primitive_constantContext = \<lparr>class_id = RuleContext RulePrimitive_constant, class_base = ParserRuleContext, members = [
     TokenField ''dollar'', Constructor, GetRuleIndex, TerminalGet T_STRING,
     TerminalGet T_BINARY, TerminalGet T_DECIMAL, TerminalGet T_REAL, TerminalGet T_FLOAT,
     TerminalGet T_DOLLAR, TerminalGet T_MINUS, TerminalGet T_PLUS, ContextGet RuleParameter,
     EnterRule, ExitRule, Accept]\<rparr>"

definition keyword_members_1 :: "cpp_member list" where
  "keyword_members_1 = [
     Constructor, GetRuleIndex, TerminalGet T_ABORT, TerminalGet T_ABSOLUTE, TerminalGet
     T_ACCENT_SENSITIVITY, TerminalGet T_ACCESS, TerminalGet T_ACTION, TerminalGet T_ACTIVATION,
     TerminalGet T_ACTIVE, TerminalGet T_ADD, TerminalGet T_ADDRESS, TerminalGet T_AES_128,
     TerminalGet T_AES_192, TerminalGet T_AES_256, TerminalGet T_AFFINITY, TerminalGet T_AFTER,
     TerminalGet T_AGGREGATE, TerminalGet T_ALGORITHM, TerminalGet T_ALL_CONSTRAINTS, TerminalGet
     T_ALL_ERRORMSGS, TerminalGet T_ALL_INDEXES, TerminalGet T_ALL_LEVELS, TerminalGet
     T_ALLOW_ENCRYPTED_VALUE_MODIFICATIONS, TerminalGet T_ALLOW_PAGE_LOCKS, TerminalGet
     T_ALLOW_ROW_LOCKS, TerminalGet T_ALLOW_SNAPSHOT_ISOLATION, TerminalGet T_ALLOWED,
     TerminalGet T_ALWAYS, TerminalGet T_ANSI_DEFAULTS, TerminalGet T_ANSI_NULL_DEFAULT,
     TerminalGet T_ANSI_NULL_DFLT_OFF, TerminalGet T_ANSI_NULL_DFLT_ON, TerminalGet T_ANSI_NULLS,
     TerminalGet T_ANSI_PADDING, TerminalGet T_ANSI_WARNINGS, TerminalGet T_APP_NAME, TerminalGet
     T_APPLICATION_LOG, TerminalGet T_APPLOCK_MODE, TerminalGet T_APPLOCK_TEST, TerminalGet
     T_APPLY, TerminalGet T_ARITHABORT, TerminalGet T_ARITHIGNORE, TerminalGet T_ASCII,
     TerminalGet T_ASSEMBLY, TerminalGet T_ASSEMBLYPROPERTY, TerminalGet T_AT_KEYWORD,
     TerminalGet T_AUDIT, TerminalGet T_AUDIT_GUID, TerminalGet T_AUTO, TerminalGet
     T_AUTO_CLEANUP, TerminalGet T_AUTO_CLOSE, TerminalGet T_AUTO_CREATE_STATISTICS, TerminalGet
     T_AUTO_DROP, TerminalGet T_AUTO_SHRINK, TerminalGet T_AUTO_UPDATE_STATISTICS, TerminalGet
     T_AUTO_UPDATE_STATISTICS_ASYNC, TerminalGet T_AUTOGROW_ALL_FILES, TerminalGet
     T_AUTOGROW_SINGLE_FILE, TerminalGet T_AVAILABILITY, TerminalGet T_AVG, TerminalGet
     T_BACKUP_CLONEDB, TerminalGet T_BACKUP_PRIORITY, TerminalGet T_BASE64, TerminalGet
     T_BEGIN_DIALOG, TerminalGet T_BIGINT, TerminalGet T_BINARY_KEYWORD, TerminalGet
     T_BINARY_CHECKSUM, TerminalGet T_BINDING, TerminalGet T_BLOB_STORAGE, TerminalGet T_BROKER,
     TerminalGet T_BROKER_INSTANCE, TerminalGet T_BULK_LOGGED, TerminalGet T_CALLER, TerminalGet
     T_CAP_CPU_PERCENT, TerminalGet T_CAST, TerminalGet T_TRY_CAST, TerminalGet T_CATALOG,
     TerminalGet T_CATCH, TerminalGet T_CERT_ID, TerminalGet T_CERTENCODED, TerminalGet
     T_CERTPRIVATEKEY, TerminalGet T_CHANGE, TerminalGet T_CHANGE_RETENTION, TerminalGet
     T_CHANGE_TRACKING, TerminalGet T_CHAR, TerminalGet T_CHARINDEX, TerminalGet T_CHECKALLOC,
     TerminalGet T_CHECKCATALOG, TerminalGet T_CHECKCONSTRAINTS, TerminalGet T_CHECKDB,
     TerminalGet T_CHECKFILEGROUP, TerminalGet T_CHECKSUM, TerminalGet T_CHECKSUM_AGG,
     TerminalGet T_CHECKTABLE, TerminalGet T_CLEANTABLE, TerminalGet T_CLEANUP, TerminalGet
     T_CLONEDATABASE, TerminalGet T_COL_LENGTH, TerminalGet T_COL_NAME, TerminalGet T_COLLECTION,
     TerminalGet T_COLUMN_ENCRYPTION_KEY, TerminalGet T_COLUMN_MASTER_KEY, TerminalGet
     T_COLUMNPROPERTY, TerminalGet T_COLUMNS, TerminalGet T_COLUMNSTORE, TerminalGet
     T_COLUMNSTORE_ARCHIVE, TerminalGet T_COMMITTED, TerminalGet T_COMPATIBILITY_LEVEL,
     TerminalGet T_COMPRESS_ALL_ROW_GROUPS, TerminalGet T_COMPRESSION_DELAY, TerminalGet
     T_CONCAT, TerminalGet T_CONCAT_WS, TerminalGet T_CONCAT_NULL_YIELDS_NULL, TerminalGet
     T_CONTENT, TerminalGet T_CONTROL, TerminalGet T_COOKIE, TerminalGet T_COUNT, TerminalGet
     T_COUNT_BIG, TerminalGet T_COUNTER, TerminalGet T_CPU, TerminalGet T_CREATE_NEW, TerminalGet
     T_CREATION_DISPOSITION, TerminalGet T_CREDENTIAL, TerminalGet T_CRYPTOGRAPHIC, TerminalGet
     T_CUME_DIST, TerminalGet T_CURSOR_CLOSE_ON_COMMIT, TerminalGet T_CURSOR_DEFAULT, TerminalGet
     T_CURSOR_STATUS, TerminalGet T_DATA, TerminalGet T_DATA_PURITY, TerminalGet
     T_DATABASE_PRINCIPAL_ID, TerminalGet T_DATABASEPROPERTYEX, TerminalGet T_DATALENGTH,
     TerminalGet T_DATE_CORRELATION_OPTIMIZATION, TerminalGet T_DATEADD, TerminalGet T_DATEDIFF,
     TerminalGet T_DATENAME, TerminalGet T_DATEPART, TerminalGet T_DAYS, TerminalGet
     T_DB_CHAINING]"

definition keyword_members_2 :: "cpp_member list" where
  "keyword_members_2 = [
     TerminalGet T_DB_FAILOVER, TerminalGet T_DB_ID, TerminalGet T_DB_NAME, TerminalGet T_DBCC,
     TerminalGet T_DBREINDEX, TerminalGet T_DECRYPTION, TerminalGet T_DEFAULT_DOUBLE_QUOTE,
     TerminalGet T_DEFAULT_FULLTEXT_LANGUAGE, TerminalGet T_DEFAULT_LANGUAGE, TerminalGet
     T_DEFINITION, TerminalGet T_DELAY, TerminalGet T_DELAYED_DURABILITY, TerminalGet T_DELETED,
     TerminalGet T_DENSE_RANK, TerminalGet T_DEPENDENTS, TerminalGet T_DES, TerminalGet
     T_DESCRIPTION, TerminalGet T_DESX, TerminalGet T_DETERMINISTIC, TerminalGet T_DHCP,
     TerminalGet T_DIALOG, TerminalGet T_DIFFERENCE, TerminalGet T_DIRECTORY_NAME, TerminalGet
     T_DISABLE, TerminalGet T_DISABLE_BROKER, TerminalGet T_DISABLED, TerminalGet T_DOCUMENT,
     TerminalGet T_DROP_EXISTING, TerminalGet T_DROPCLEANBUFFERS, TerminalGet T_DYNAMIC,
     TerminalGet T_ELEMENTS, TerminalGet T_EMERGENCY, TerminalGet T_EMPTY, TerminalGet T_ENABLE,
     TerminalGet T_ENABLE_BROKER, TerminalGet T_ENCRYPTED, TerminalGet T_ENCRYPTED_VALUE,
     TerminalGet T_ENCRYPTION, TerminalGet T_ENCRYPTION_TYPE, TerminalGet T_ENDPOINT_URL,
     TerminalGet T_ERROR_BROKER_CONVERSATIONS, TerminalGet T_ESTIMATEONLY, TerminalGet
     T_EXCLUSIVE, TerminalGet T_EXECUTABLE, TerminalGet T_EXIST, TerminalGet
     T_EXIST_SQUARE_BRACKET, TerminalGet T_EXPAND, TerminalGet T_EXPIRY_DATE, TerminalGet
     T_EXPLICIT, TerminalGet T_EXTENDED_LOGICAL_CHECKS, TerminalGet T_FAIL_OPERATION, TerminalGet
     T_FAILOVER_MODE, TerminalGet T_FAILURE, TerminalGet T_FAILURE_CONDITION_LEVEL, TerminalGet
     T_FAST, TerminalGet T_FAST_FORWARD, TerminalGet T_FILE_ID, TerminalGet T_FILE_IDEX,
     TerminalGet T_FILE_NAME, TerminalGet T_FILEGROUP, TerminalGet T_FILEGROUP_ID, TerminalGet
     T_FILEGROUP_NAME, TerminalGet T_FILEGROUPPROPERTY, TerminalGet T_FILEGROWTH, TerminalGet
     T_FILENAME, TerminalGet T_FILEPATH, TerminalGet T_FILEPROPERTY, TerminalGet
     T_FILEPROPERTYEX, TerminalGet T_FILESTREAM, TerminalGet T_FILTER, TerminalGet T_FIRST,
     TerminalGet T_FIRST_VALUE, TerminalGet T_FMTONLY, TerminalGet T_FOLLOWING, TerminalGet
     T_FORCE, TerminalGet T_FORCE_FAILOVER_ALLOW_DATA_LOSS, TerminalGet T_FORCED, TerminalGet
     T_FORCEPLAN, TerminalGet T_FORCESCAN, TerminalGet T_FORMAT, TerminalGet T_FORWARD_ONLY,
     TerminalGet T_FREE, TerminalGet T_FULLSCAN, TerminalGet T_FULLTEXT, TerminalGet
     T_FULLTEXTCATALOGPROPERTY, TerminalGet T_FULLTEXTSERVICEPROPERTY, TerminalGet T_GB,
     TerminalGet T_GENERATED, TerminalGet T_GETDATE, TerminalGet T_GETUTCDATE, TerminalGet
     T_GLOBAL, TerminalGet T_GO, TerminalGet T_GREATEST, TerminalGet T_GROUP_MAX_REQUESTS,
     TerminalGet T_GROUPING, TerminalGet T_GROUPING_ID, TerminalGet T_HADR, TerminalGet
     T_HAS_DBACCESS, TerminalGet T_HAS_PERMS_BY_NAME, TerminalGet T_HASH, TerminalGet
     T_HEALTH_CHECK_TIMEOUT, TerminalGet T_HIDDEN_KEYWORD, TerminalGet T_HIGH, TerminalGet
     T_HONOR_BROKER_PRIORITY, TerminalGet T_HOURS, TerminalGet T_IDENT_CURRENT, TerminalGet
     T_IDENT_INCR, TerminalGet T_IDENT_SEED, TerminalGet T_IDENTITY_VALUE, TerminalGet
     T_IGNORE_CONSTRAINTS, TerminalGet T_IGNORE_DUP_KEY, TerminalGet
     T_IGNORE_NONCLUSTERED_COLUMNSTORE_INDEX, TerminalGet T_IGNORE_REPLICATED_TABLE_CACHE,
     TerminalGet T_IGNORE_TRIGGERS, TerminalGet T_IMMEDIATE, TerminalGet T_IMPERSONATE,
     TerminalGet T_IMPLICIT_TRANSACTIONS, TerminalGet T_IMPORTANCE, TerminalGet
     T_INCLUDE_NULL_VALUES, TerminalGet T_INCREMENTAL, TerminalGet T_INDEX_COL, TerminalGet
     T_INDEXKEY_PROPERTY, TerminalGet T_INDEXPROPERTY, TerminalGet T_INITIATOR, TerminalGet
     T_INPUT, TerminalGet T_INSENSITIVE, TerminalGet T_INSERTED, TerminalGet T_INT, TerminalGet
     T_IP, TerminalGet T_IS_MEMBER, TerminalGet T_IS_ROLEMEMBER, TerminalGet T_IS_SRVROLEMEMBER,
     TerminalGet T_ISJSON, TerminalGet T_ISOLATION, TerminalGet T_JOB, TerminalGet T_JSON,
     TerminalGet T_JSON_OBJECT, TerminalGet T_JSON_ARRAY, TerminalGet T_JSON_VALUE, TerminalGet
     T_JSON_QUERY]"

definition keyword_members_3 :: "cpp_member list" where
  "keyword_members_3 = [
     TerminalGet T_JSON_MODIFY, TerminalGet T_JSON_PATH_EXISTS, TerminalGet T_KB, TerminalGet
     T_KEEP, TerminalGet T_KEEPDEFAULTS, TerminalGet T_KEEPFIXED, TerminalGet T_KEEPIDENTITY,
     TerminalGet T_KEY_SOURCE, TerminalGet T_KEYS, TerminalGet T_KEYSET, TerminalGet T_LAG,
     TerminalGet T_LAST, TerminalGet T_LAST_VALUE, TerminalGet T_LEAD, TerminalGet T_LEAST,
     TerminalGet T_LEN, TerminalGet T_LEVEL, TerminalGet T_LIST, TerminalGet T_LISTENER,
     TerminalGet T_LISTENER_URL, TerminalGet T_LOB_COMPACTION, TerminalGet T_LOCAL, TerminalGet
     T_LOCATION, TerminalGet T_LOCK, TerminalGet T_LOCK_ESCALATION, TerminalGet T_LOGIN,
     TerminalGet T_LOGINPROPERTY, TerminalGet T_LOOP, TerminalGet T_LOW, TerminalGet T_LOWER,
     TerminalGet T_LTRIM, TerminalGet T_MANUAL, TerminalGet T_MARK, TerminalGet T_MASKED,
     TerminalGet T_MATERIALIZED, TerminalGet T_MAX, TerminalGet T_MAX_CPU_PERCENT, TerminalGet
     T_MAX_DOP, TerminalGet T_MAX_FILES, TerminalGet T_MAX_IOPS_PER_VOLUME, TerminalGet
     T_MAX_MEMORY_PERCENT, TerminalGet T_MAX_PROCESSES, TerminalGet T_MAX_QUEUE_READERS,
     TerminalGet T_MAX_ROLLOVER_FILES, TerminalGet T_MAXDOP, TerminalGet T_MAXRECURSION,
     TerminalGet T_MAXSIZE, TerminalGet T_MB, TerminalGet T_MEDIUM, TerminalGet
     T_MEMORY_OPTIMIZED_DATA, TerminalGet T_MESSAGE, TerminalGet T_MIN, TerminalGet
     T_MIN_ACTIVE_ROWVERSION, TerminalGet T_MIN_CPU_PERCENT, TerminalGet T_MIN_IOPS_PER_VOLUME,
     TerminalGet T_MIN_MEMORY_PERCENT, TerminalGet T_MINUTES, TerminalGet T_MIRROR_ADDRESS,
     TerminalGet T_MIXED_PAGE_ALLOCATION, TerminalGet T_MODE, TerminalGet T_MODIFY, TerminalGet
     T_MODIFY_SQUARE_BRACKET, TerminalGet T_MOVE, TerminalGet T_MULTI_USER, TerminalGet T_NAME,
     TerminalGet T_NCHAR, TerminalGet T_NESTED_TRIGGERS, TerminalGet T_NEW_ACCOUNT, TerminalGet
     T_NEW_BROKER, TerminalGet T_NEW_PASSWORD, TerminalGet T_NEWNAME, TerminalGet T_NEXT,
     TerminalGet T_NO, TerminalGet T_NO_INFOMSGS, TerminalGet T_NO_QUERYSTORE, TerminalGet
     T_NO_STATISTICS, TerminalGet T_NO_TRUNCATE, TerminalGet T_NO_WAIT, TerminalGet T_NOCOUNT,
     TerminalGet T_NODES, TerminalGet T_NOEXEC, TerminalGet T_NOEXPAND, TerminalGet T_NOINDEX,
     TerminalGet T_NOLOCK, TerminalGet T_NON_TRANSACTED_ACCESS, TerminalGet T_NORECOMPUTE,
     TerminalGet T_NORECOVERY, TerminalGet T_NOTIFICATIONS, TerminalGet T_NOWAIT, TerminalGet
     T_NTILE, TerminalGet T_NULL_DOUBLE_QUOTE, TerminalGet T_NUMANODE, TerminalGet T_NUMBER,
     TerminalGet T_NUMERIC_ROUNDABORT, TerminalGet T_OBJECT, TerminalGet T_OBJECT_DEFINITION,
     TerminalGet T_OBJECT_ID, TerminalGet T_OBJECT_NAME, TerminalGet T_OBJECT_SCHEMA_NAME,
     TerminalGet T_OBJECTPROPERTY, TerminalGet T_OBJECTPROPERTYEX, TerminalGet T_OFFLINE,
     TerminalGet T_OFFSET, TerminalGet T_OLD_ACCOUNT, TerminalGet T_ONLINE, TerminalGet T_ONLY,
     TerminalGet T_OPEN_EXISTING, TerminalGet T_OPENJSON, TerminalGet T_OPTIMISTIC, TerminalGet
     T_OPTIMIZE, TerminalGet T_OPTIMIZE_FOR_SEQUENTIAL_KEY, TerminalGet T_ORIGINAL_DB_NAME,
     TerminalGet T_ORIGINAL_LOGIN, TerminalGet T_OUT, TerminalGet T_OUTPUT, TerminalGet
     T_OVERRIDE, TerminalGet T_OWNER, TerminalGet T_OWNERSHIP, TerminalGet T_PAD_INDEX,
     TerminalGet T_PAGE_VERIFY, TerminalGet T_PAGECOUNT, TerminalGet T_PAGLOCK, TerminalGet
     T_PARAMETERIZATION, TerminalGet T_PARSENAME, TerminalGet T_PARSEONLY, TerminalGet
     T_PARTITION, TerminalGet T_PARTITIONS, TerminalGet T_PARTNER, TerminalGet T_PATH,
     TerminalGet T_PATINDEX, TerminalGet T_PAUSE, TerminalGet T_PDW_SHOWSPACEUSED, TerminalGet
     T_PERCENT_RANK, TerminalGet T_PERCENTILE_CONT, TerminalGet T_PERCENTILE_DISC, TerminalGet
     T_PERMISSIONS, TerminalGet T_PERSIST_SAMPLE_PERCENT, TerminalGet T_PHYSICAL_ONLY,
     TerminalGet T_POISON_MESSAGE_HANDLING, TerminalGet T_POOL]"

definition keyword_members_4 :: "cpp_member list" where
  "keyword_members_4 = [
     TerminalGet T_PORT, TerminalGet T_PRECEDING, TerminalGet T_PRIMARY_ROLE, TerminalGet
     T_PRIOR, TerminalGet T_PRIORITY, TerminalGet T_PRIORITY_LEVEL, TerminalGet T_PRIVATE,
     TerminalGet T_PRIVATE_KEY, TerminalGet T_PRIVILEGES, TerminalGet T_PROCCACHE, TerminalGet
     T_PROCEDURE_NAME, TerminalGet T_PROPERTY, TerminalGet T_PROVIDER, TerminalGet
     T_PROVIDER_KEY_NAME, TerminalGet T_PWDCOMPARE, TerminalGet T_PWDENCRYPT, TerminalGet
     T_QUERY, TerminalGet T_QUERY_SQUARE_BRACKET, TerminalGet T_QUEUE, TerminalGet T_QUEUE_DELAY,
     TerminalGet T_QUOTED_IDENTIFIER, TerminalGet T_QUOTENAME, TerminalGet T_RANDOMIZED,
     TerminalGet T_RANGE, TerminalGet T_RANK, TerminalGet T_RC2, TerminalGet T_RC4, TerminalGet
     T_RC4_128, TerminalGet T_READ_COMMITTED_SNAPSHOT, TerminalGet T_READ_ONLY, TerminalGet
     T_READ_ONLY_ROUTING_LIST, TerminalGet T_READ_WRITE, TerminalGet T_READCOMMITTED, TerminalGet
     T_READCOMMITTEDLOCK, TerminalGet T_READONLY, TerminalGet T_READPAST, TerminalGet
     T_READUNCOMMITTED, TerminalGet T_READWRITE, TerminalGet T_REBUILD, TerminalGet T_RECEIVE,
     TerminalGet T_RECOMPILE, TerminalGet T_RECOVERY, TerminalGet T_RECURSIVE_TRIGGERS,
     TerminalGet T_RELATIVE, TerminalGet T_REMOTE, TerminalGet T_REMOTE_PROC_TRANSACTIONS,
     TerminalGet T_REMOTE_SERVICE_NAME, TerminalGet T_REMOVE, TerminalGet T_REORGANIZE,
     TerminalGet T_REPAIR_ALLOW_DATA_LOSS, TerminalGet T_REPAIR_FAST, TerminalGet
     T_REPAIR_REBUILD, TerminalGet T_REPEATABLE, TerminalGet T_REPEATABLEREAD, TerminalGet
     T_REPLACE, TerminalGet T_REPLICA, TerminalGet T_REPLICATE, TerminalGet
     T_REQUEST_MAX_CPU_TIME_SEC, TerminalGet T_REQUEST_MAX_MEMORY_GRANT_PERCENT, TerminalGet
     T_REQUEST_MEMORY_GRANT_TIMEOUT_SEC, TerminalGet
     T_REQUIRED_SYNCHRONIZED_SECONDARIES_TO_COMMIT, TerminalGet T_RESAMPLE, TerminalGet
     T_RESERVE_DISK_SPACE, TerminalGet T_RESOURCE, TerminalGet T_RESOURCE_MANAGER_LOCATION,
     TerminalGet T_RESTRICTED_USER, TerminalGet T_RESUMABLE, TerminalGet T_RETENTION, TerminalGet
     T_REVERSE, TerminalGet T_ROBUST, TerminalGet T_ROOT, TerminalGet T_ROUTE, TerminalGet T_ROW,
     TerminalGet T_ROW_NUMBER, TerminalGet T_ROWGUID, TerminalGet T_ROWLOCK, TerminalGet T_ROWS,
     TerminalGet T_RTRIM, TerminalGet T_SAMPLE, TerminalGet T_SCHEMA_ID, TerminalGet
     T_SCHEMA_NAME, TerminalGet T_SCHEMABINDING, TerminalGet T_SCOPE_IDENTITY, TerminalGet
     T_SCOPED, TerminalGet T_SCROLL, TerminalGet T_SCROLL_LOCKS, TerminalGet T_SEARCH,
     TerminalGet T_SECONDARY, TerminalGet T_SECONDARY_ONLY, TerminalGet T_SECONDARY_ROLE,
     TerminalGet T_SECONDS, TerminalGet T_SECRET, TerminalGet T_SECURABLES, TerminalGet
     T_SECURITY, TerminalGet T_SECURITY_LOG, TerminalGet T_SEEDING_MODE, TerminalGet T_SELF,
     TerminalGet T_SEMI_SENSITIVE, TerminalGet T_SEND, TerminalGet T_SENT, TerminalGet
     T_SEQUENCE, TerminalGet T_SEQUENCE_NUMBER, TerminalGet T_SERIALIZABLE, TerminalGet
     T_SERVERPROPERTY, TerminalGet T_SERVICEBROKER, TerminalGet T_SESSIONPROPERTY, TerminalGet
     T_SESSION_TIMEOUT, TerminalGet T_SETERROR, TerminalGet T_SHARE, TerminalGet T_SHARED,
     TerminalGet T_SHOWCONTIG, TerminalGet T_SHOWPLAN, TerminalGet T_SHOWPLAN_ALL, TerminalGet
     T_SHOWPLAN_TEXT, TerminalGet T_SHOWPLAN_XML, TerminalGet T_SIGNATURE, TerminalGet T_SIMPLE,
     TerminalGet T_SINGLE_USER, TerminalGet T_SIZE, TerminalGet T_SMALLINT, TerminalGet
     T_SNAPSHOT, TerminalGet T_SORT_IN_TEMPDB, TerminalGet T_SOUNDEX, TerminalGet
     T_SPACE_KEYWORD, TerminalGet T_SPARSE, TerminalGet T_SPATIAL_WINDOW_MAX_CELLS, TerminalGet
     T_SQL_VARIANT_PROPERTY, TerminalGet T_STANDBY, TerminalGet T_START_DATE, TerminalGet
     T_STATIC, TerminalGet T_STATISTICS_INCREMENTAL, TerminalGet T_STATISTICS_NORECOMPUTE,
     TerminalGet T_STATS_DATE, TerminalGet T_STATS_STREAM, TerminalGet T_STATUS, TerminalGet
     T_STATUSONLY, TerminalGet T_STDEV, TerminalGet T_STDEVP, TerminalGet T_STOPLIST, TerminalGet
     T_STR]"

definition keyword_members_5 :: "cpp_member list" where
  "keyword_members_5 = [
     TerminalGet T_STRING_AGG, TerminalGet T_STRING_ESCAPE, TerminalGet T_STUFF, TerminalGet
     T_SUBJECT, TerminalGet T_SUBSCRIBE, TerminalGet T_SUBSCRIPTION, TerminalGet T_SUBSTRING,
     TerminalGet T_SUM, TerminalGet T_SUSER_ID, TerminalGet T_SUSER_NAME, TerminalGet
     T_SUSER_SID, TerminalGet T_SUSER_SNAME, TerminalGet T_SUSPEND, TerminalGet T_SYMMETRIC,
     TerminalGet T_SYNCHRONOUS_COMMIT, TerminalGet T_SYNONYM, TerminalGet T_SYSTEM, TerminalGet
     T_TABLERESULTS, TerminalGet T_TABLOCK, TerminalGet T_TABLOCKX, TerminalGet T_TAKE,
     TerminalGet T_TARGET_RECOVERY_TIME, TerminalGet T_TB, TerminalGet T_TEXTIMAGE_ON,
     TerminalGet T_THROW, TerminalGet T_TIES, TerminalGet T_TIME, TerminalGet T_TIMEOUT,
     TerminalGet T_TIMER, TerminalGet T_TINYINT, TerminalGet T_TORN_PAGE_DETECTION, TerminalGet
     T_TRACKING, TerminalGet T_TRANSACTION_ID, TerminalGet T_TRANSFORM_NOISE_WORDS, TerminalGet
     T_TRANSLATE, TerminalGet T_TRIM, TerminalGet T_TRIPLE_DES, TerminalGet T_TRIPLE_DES_3KEY,
     TerminalGet T_TRUSTWORTHY, TerminalGet T_TRY, TerminalGet T_TSQL, TerminalGet
     T_TWO_DIGIT_YEAR_CUTOFF, TerminalGet T_TYPE, TerminalGet T_TYPE_ID, TerminalGet T_TYPE_NAME,
     TerminalGet T_TYPE_WARNING, TerminalGet T_TYPEPROPERTY, TerminalGet T_UNBOUNDED, TerminalGet
     T_UNCOMMITTED, TerminalGet T_UNICODE, TerminalGet T_UNKNOWN, TerminalGet T_UNLIMITED,
     TerminalGet T_UNMASK, TerminalGet T_UOW, TerminalGet T_UPDLOCK, TerminalGet T_UPPER,
     TerminalGet T_USER_ID, TerminalGet T_USER_NAME, TerminalGet T_USING, TerminalGet
     T_VALID_XML, TerminalGet T_VALIDATION, TerminalGet T_VALUE, TerminalGet
     T_VALUE_SQUARE_BRACKET, TerminalGet T_VAR, TerminalGet T_VARBINARY_KEYWORD, TerminalGet
     T_VARP, TerminalGet T_VERIFY_CLONEDB, TerminalGet T_VERSION, TerminalGet T_VIEW_METADATA,
     TerminalGet T_VIEWS, TerminalGet T_WAIT, TerminalGet T_WELL_FORMED_XML, TerminalGet
     T_WITHOUT_ARRAY_WRAPPER, TerminalGet T_WORK, TerminalGet T_WORKLOAD, TerminalGet T_XLOCK,
     TerminalGet T_XML, TerminalGet T_XML_COMPRESSION, TerminalGet T_XMLDATA, TerminalGet
     T_XMLNAMESPACES, TerminalGet T_XMLSCHEMA, TerminalGet T_XSINIL, TerminalGet T_ZONE,
     TerminalGet T_ABORT_AFTER_WAIT, TerminalGet T_ABSENT, TerminalGet T_ADMINISTER, TerminalGet
     T_AES, TerminalGet T_ALLOW_CONNECTIONS, TerminalGet T_ALLOW_MULTIPLE_EVENT_LOSS, TerminalGet
     T_ALLOW_SINGLE_EVENT_LOSS, TerminalGet T_ANONYMOUS, TerminalGet T_APPEND, TerminalGet
     T_APPLICATION, TerminalGet T_ASYMMETRIC, TerminalGet T_ASYNCHRONOUS_COMMIT, TerminalGet
     T_AUTHENTICATE, TerminalGet T_AUTHENTICATION, TerminalGet T_AUTOMATED_BACKUP_PREFERENCE,
     TerminalGet T_AUTOMATIC, TerminalGet T_AVAILABILITY_MODE, TerminalGet T_BEFORE, TerminalGet
     T_BLOCK, TerminalGet T_BLOCKERS, TerminalGet T_BLOCKSIZE, TerminalGet T_BLOCKING_HIERARCHY,
     TerminalGet T_BUFFER, TerminalGet T_BUFFERCOUNT, TerminalGet T_CACHE, TerminalGet T_CALLED,
     TerminalGet T_CERTIFICATE, TerminalGet T_CHANGETABLE, TerminalGet T_CHANGES, TerminalGet
     T_CHECK_POLICY, TerminalGet T_CHECK_EXPIRATION, TerminalGet T_CLASSIFIER_FUNCTION,
     TerminalGet T_CLUSTER, TerminalGet T_COMPRESS, TerminalGet T_COMPRESSION, TerminalGet
     T_CONNECT, TerminalGet T_CONNECTION, TerminalGet T_CONFIGURATION, TerminalGet
     T_CONNECTIONPROPERTY, TerminalGet T_CONTAINMENT, TerminalGet T_CONTEXT, TerminalGet
     T_CONTEXT_INFO, TerminalGet T_CONTINUE_AFTER_ERROR, TerminalGet T_CONTRACT, TerminalGet
     T_CONTRACT_NAME, TerminalGet T_CONVERSATION, TerminalGet T_COPY_ONLY, TerminalGet
     T_CURRENT_REQUEST_ID, TerminalGet T_CURRENT_TRANSACTION_ID, TerminalGet T_CYCLE, TerminalGet
     T_DATA_COMPRESSION, TerminalGet T_DATA_SOURCE, TerminalGet T_DATABASE_MIRRORING, TerminalGet
     T_DATASPACE, TerminalGet T_DDL, TerminalGet T_DECOMPRESS, TerminalGet T_DEFAULT_DATABASE]"

definition keyword_members_6 :: "cpp_member list" where
  "keyword_members_6 = [
     TerminalGet T_DEFAULT_SCHEMA, TerminalGet T_DIAGNOSTICS, TerminalGet T_DIFFERENTIAL,
     TerminalGet T_DISTRIBUTION, TerminalGet T_DTC_SUPPORT, TerminalGet T_ENABLED, TerminalGet
     T_ENDPOINT, TerminalGet T_ERROR, TerminalGet T_ERROR_LINE, TerminalGet T_ERROR_MESSAGE,
     TerminalGet T_ERROR_NUMBER, TerminalGet T_ERROR_PROCEDURE, TerminalGet T_ERROR_SEVERITY,
     TerminalGet T_ERROR_STATE, TerminalGet T_EVENT, TerminalGet T_EVENTDATA, TerminalGet
     T_EVENT_RETENTION_MODE, TerminalGet T_EXECUTABLE_FILE, TerminalGet T_EXPIREDATE, TerminalGet
     T_EXTENSION, TerminalGet T_EXTERNAL_ACCESS, TerminalGet T_FAILOVER, TerminalGet
     T_FAILURECONDITIONLEVEL, TerminalGet T_FAN_IN, TerminalGet T_FILE_SNAPSHOT, TerminalGet
     T_FORCESEEK, TerminalGet T_FORCE_SERVICE_ALLOW_DATA_LOSS, TerminalGet T_FORMATMESSAGE,
     TerminalGet T_GET, TerminalGet T_GET_FILESTREAM_TRANSACTION_CONTEXT, TerminalGet
     T_GETANCESTOR, TerminalGet T_GETANSINULL, TerminalGet T_GETDESCENDANT, TerminalGet
     T_GETLEVEL, TerminalGet T_GETREPARENTEDVALUE, TerminalGet T_GETROOT, TerminalGet T_GOVERNOR,
     TerminalGet T_HASHED, TerminalGet T_HEALTHCHECKTIMEOUT, TerminalGet T_HEAP, TerminalGet
     T_HIERARCHYID, TerminalGet T_HOST_ID, TerminalGet T_HOST_NAME, TerminalGet T_IIF,
     TerminalGet T_IO, TerminalGet T_INCLUDE, TerminalGet T_INCREMENT, TerminalGet T_INFINITE,
     TerminalGet T_INIT, TerminalGet T_INSTEAD, TerminalGet T_ISDESCENDANTOF, TerminalGet
     T_ISNULL, TerminalGet T_ISNUMERIC, TerminalGet T_KERBEROS, TerminalGet T_KEY_PATH,
     TerminalGet T_KEY_STORE_PROVIDER_NAME, TerminalGet T_LANGUAGE, TerminalGet T_LIBRARY,
     TerminalGet T_LIFETIME, TerminalGet T_LINKED, TerminalGet T_LINUX, TerminalGet
     T_LISTENER_IP, TerminalGet T_LISTENER_PORT, TerminalGet T_LOCAL_SERVICE_NAME, TerminalGet
     T_LOG, TerminalGet T_MASK, TerminalGet T_MATCHED, TerminalGet T_MASTER, TerminalGet
     T_MAX_MEMORY, TerminalGet T_MAXTRANSFER, TerminalGet T_MAXVALUE, TerminalGet
     T_MAX_DISPATCH_LATENCY, TerminalGet T_MAX_DURATION, TerminalGet T_MAX_EVENT_SIZE,
     TerminalGet T_MAX_SIZE, TerminalGet T_MAX_OUTSTANDING_IO_PER_VOLUME, TerminalGet
     T_MEDIADESCRIPTION, TerminalGet T_MEDIANAME, TerminalGet T_MEMBER, TerminalGet
     T_MEMORY_PARTITION_MODE, TerminalGet T_MESSAGE_FORWARDING, TerminalGet
     T_MESSAGE_FORWARD_SIZE, TerminalGet T_MINVALUE, TerminalGet T_MIRROR, TerminalGet
     T_MUST_CHANGE, TerminalGet T_NEWID, TerminalGet T_NEWSEQUENTIALID, TerminalGet T_NOFORMAT,
     TerminalGet T_NOINIT, TerminalGet T_NONE, TerminalGet T_NOREWIND, TerminalGet T_NOSKIP,
     TerminalGet T_NOUNLOAD, TerminalGet T_NO_CHECKSUM, TerminalGet T_NO_COMPRESSION, TerminalGet
     T_NO_EVENT_LOSS, TerminalGet T_NOTIFICATION, TerminalGet T_NTLM, TerminalGet T_OLD_PASSWORD,
     TerminalGet T_ON_FAILURE, TerminalGet T_OPERATIONS, TerminalGet T_PAGE, TerminalGet
     T_PARAM_NODE, TerminalGet T_PARTIAL, TerminalGet T_PASSWORD, TerminalGet T_PERMISSION_SET,
     TerminalGet T_PER_CPU, TerminalGet T_PER_DB, TerminalGet T_PER_NODE, TerminalGet
     T_PERSISTED, TerminalGet T_PLATFORM, TerminalGet T_POLICY, TerminalGet T_PREDICATE,
     TerminalGet T_PROCESS, TerminalGet T_PROFILE, TerminalGet T_PYTHON, TerminalGet T_R,
     TerminalGet T_READ_WRITE_FILEGROUPS, TerminalGet T_REGENERATE, TerminalGet
     T_RELATED_CONVERSATION, TerminalGet T_RELATED_CONVERSATION_GROUP, TerminalGet T_REQUIRED,
     TerminalGet T_RESET, TerminalGet T_RESOURCES, TerminalGet T_RESTART, TerminalGet T_RESUME,
     TerminalGet T_RETAINDAYS, TerminalGet T_RETURNS, TerminalGet T_REWIND, TerminalGet T_ROLE,
     TerminalGet T_ROUND_ROBIN, TerminalGet T_ROWCOUNT_BIG, TerminalGet T_RSA_512, TerminalGet
     T_RSA_1024, TerminalGet T_RSA_2048, TerminalGet T_RSA_3072, TerminalGet T_RSA_4096,
     TerminalGet T_SAFETY, TerminalGet T_SAFE, TerminalGet T_SCHEDULER]"

definition keyword_members_7 :: "cpp_member list" where
  "keyword_members_7 = [
     TerminalGet T_SCHEME, TerminalGet T_SCRIPT, TerminalGet T_SERVER, TerminalGet T_SERVICE,
     TerminalGet T_SERVICE_BROKER, TerminalGet T_SERVICE_NAME, TerminalGet T_SESSION, TerminalGet
     T_SESSION_CONTEXT, TerminalGet T_SETTINGS, TerminalGet T_SHRINKLOG, TerminalGet T_SID,
     TerminalGet T_SKIP_KEYWORD, TerminalGet T_SOFTNUMA, TerminalGet T_SOURCE, TerminalGet
     T_SPECIFICATION, TerminalGet T_SPLIT, TerminalGet T_SQL, TerminalGet T_SQLDUMPERFLAGS,
     TerminalGet T_SQLDUMPERPATH, TerminalGet T_SQLDUMPERTIMEOUT, TerminalGet T_STATE,
     TerminalGet T_STATS, TerminalGet T_START, TerminalGet T_STARTED, TerminalGet
     T_STARTUP_STATE, TerminalGet T_STOP, TerminalGet T_STOPPED, TerminalGet T_STOP_ON_ERROR,
     TerminalGet T_SUPPORTED, TerminalGet T_SWITCH, TerminalGet T_TAPE, TerminalGet T_TARGET,
     TerminalGet T_TCP, TerminalGet T_TOSTRING, TerminalGet T_TRACE, TerminalGet
     T_TRACK_CAUSALITY, TerminalGet T_TRANSFER, TerminalGet T_UNCHECKED, TerminalGet T_UNLOCK,
     TerminalGet T_UNSAFE, TerminalGet T_URL, TerminalGet T_USED, TerminalGet T_VERBOSELOGGING,
     TerminalGet T_VISIBILITY, TerminalGet T_WAIT_AT_LOW_PRIORITY, TerminalGet T_WINDOWS,
     TerminalGet T_WITHOUT, TerminalGet T_WITNESS, TerminalGet T_XACT_ABORT, TerminalGet
     T_XACT_STATE, TerminalGet T_ABS, TerminalGet T_ACOS, TerminalGet T_ASIN, TerminalGet T_ATAN,
     TerminalGet T_ATN2, TerminalGet T_CEILING, TerminalGet T_COS, TerminalGet T_COT, TerminalGet
     T_DEGREES, TerminalGet T_EXP, TerminalGet T_FLOOR, TerminalGet T_LOG10, TerminalGet T_PI,
     TerminalGet T_POWER, TerminalGet T_RADIANS, TerminalGet T_RAND, TerminalGet T_ROUND,
     TerminalGet T_SIGN, TerminalGet T_SIN, TerminalGet T_SQRT, TerminalGet T_SQUARE, TerminalGet
     T_TAN, TerminalGet T_CURRENT_TIMEZONE, TerminalGet T_CURRENT_TIMEZONE_ID, TerminalGet
     T_DATE_BUCKET, TerminalGet T_DATEDIFF_BIG, TerminalGet T_DATEFROMPARTS, TerminalGet
     T_DATETIME2FROMPARTS, TerminalGet T_DATETIMEFROMPARTS, TerminalGet
     T_DATETIMEOFFSETFROMPARTS, TerminalGet T_DATETRUNC, TerminalGet T_DAY, TerminalGet
     T_EOMONTH, TerminalGet T_ISDATE, TerminalGet T_MONTH, TerminalGet T_SMALLDATETIMEFROMPARTS,
     TerminalGet T_SWITCHOFFSET, TerminalGet T_SYSDATETIME, TerminalGet T_SYSDATETIMEOFFSET,
     TerminalGet T_SYSUTCDATETIME, TerminalGet T_TIMEFROMPARTS, TerminalGet T_TODATETIMEOFFSET,
     TerminalGet T_YEAR, TerminalGet T_QUARTER, TerminalGet T_DAYOFYEAR, TerminalGet T_WEEK,
     TerminalGet T_HOUR, TerminalGet T_MINUTE, TerminalGet T_SECOND, TerminalGet T_MILLISECOND,
     TerminalGet T_MICROSECOND, TerminalGet T_NANOSECOND, TerminalGet T_TZOFFSET, TerminalGet
     T_ISO_WEEK, TerminalGet T_WEEKDAY, TerminalGet T_YEAR_ABBR, TerminalGet T_QUARTER_ABBR,
     TerminalGet T_MONTH_ABBR, TerminalGet T_DAYOFYEAR_ABBR, TerminalGet T_DAY_ABBR, TerminalGet
     T_WEEK_ABBR, TerminalGet T_HOUR_ABBR, TerminalGet T_MINUTE_ABBR, TerminalGet T_SECOND_ABBR,
     TerminalGet T_MILLISECOND_ABBR, TerminalGet T_MICROSECOND_ABBR, TerminalGet
     T_NANOSECOND_ABBR, TerminalGet T_TZOFFSET_ABBR, TerminalGet T_ISO_WEEK_ABBR, TerminalGet
     T_WEEKDAY_ABBR, TerminalGet T_SP_EXECUTESQL, TerminalGet T_VARCHAR, TerminalGet T_NVARCHAR,
     TerminalGet T_PRECISION, TerminalGet T_FILESTREAM_ON, EnterRule, ExitRule, Accept]"

definition KeywordContext :: context_class where
  "KeywordContext = \<lparr>class_id = RuleContext RuleKeyword, class_base = ParserRuleContext,
     members = keyword_members_1 @ keyword_members_2 @ keyword_members_3 @ keyword_members_4
       @ keyword_members_5 @ keyword_members_6 @ keyword_members_7\<rparr>"

lemmas keyword_class [context_classes] = KeywordContext_def [unfolded
  keyword_members_1_def keyword_members_2_def keyword_members_3_def keyword_members_4_def
  keyword_members_5_def keyword_members_6_def keyword_members_7_def append.simps]

definition Id_Context :: context_class where [context_classes]:
  "Id_Context = \<lparr>class_id = RuleContext RuleId', class_base = ParserRuleContext, members = [
     Constructor, GetRuleIndex, TerminalGet T_ID, TerminalGet T_TEMP_ID,
     TerminalGet T_DOUBLE_QUOTE_ID, TerminalGet T_DOUBLE_QUOTE_BLANK,
     TerminalGet T_SQUARE_BRACKET_ID, ContextGet RuleKeyword, TerminalGet T_RAW, EnterRule,
     ExitRule, Accept]\<rparr>"

definition Simple_idContext :: context_class where [context_classes]:
  "Simple_idContext = \<lparr>class_id = RuleContext RuleSimple_id, class_base = ParserRuleContext, members = [
     Constructor, GetRuleIndex, TerminalGet T_ID, EnterRule, ExitRule, Accept]\<rparr>"

definition Id_or_stringContext :: context_class where [context_classes]:
  "Id_or_stringContext = \<lparr>class_id = RuleContext RuleId_or_string, class_base = ParserRuleContext, members = [
     Constructor, GetRuleIndex, ContextGet RuleId', TerminalGet T_STRING, EnterRule, ExitRule,
     Accept]\<rparr>"

definition Comparison_operatorContext :: context_class where [context_classes]:
  "Comparison_operatorContext = \<lparr>class_id = RuleContext RuleComparison_operator, class_base = ParserRuleContext, members = [
     Constructor, GetRuleIndex, TerminalGet T_EQUAL, TerminalGet T_GREATER, TerminalGet T_LESS,
     TerminalGet T_EXCLAMATION, EnterRule, ExitRule, Accept]\<rparr>"

definition Assignment_operatorContext :: context_class where [context_classes]:
  "Assignment_operatorContext = \<lparr>class_id = RuleContext RuleAssignment_operator, class_base = ParserRuleContext, members = [
     Constructor, GetRuleIndex, TerminalGet T_PLUS_ASSIGN, TerminalGet T_MINUS_ASSIGN,
     TerminalGet T_MULT_ASSIGN, TerminalGet T_DIV_ASSIGN, TerminalGet T_MOD_ASSIGN,
     TerminalGet T_AND_ASSIGN, TerminalGet T_XOR_ASSIGN, TerminalGet T_OR_ASSIGN, EnterRule,
     ExitRule, Accept]\<rparr>"

definition File_sizeContext :: context_class where [context_classes]:
  "File_sizeContext = \<lparr>class_id = RuleContext RuleFile_size, class_base = ParserRuleContext, members = [
     Constructor, GetRuleIndex, TerminalGet T_DECIMAL, TerminalGet T_KB, TerminalGet T_MB,
     TerminalGet T_GB, TerminalGet T_TB, TerminalGet T_MODULE, EnterRule, ExitRule, Accept]\<rparr>"

definition classes_6 :: "context_class list" where
  "classes_6 = [
     Xml_data_type_methodsContext, Dateparts_9Context, Dateparts_12Context,
     Dateparts_15Context, Dateparts_datetruncContext, Value_methodContext, Value_callContext,
     Query_methodContext, Query_callContext, Exist_methodContext, Exist_callContext,
     Modify_methodContext, Modify_callContext, Hierarchyid_callContext,
     Hierarchyid_static_methodContext, Nodes_methodContext, Switch_sectionContext,
     Switch_search_condition_sectionContext, As_column_aliasContext, As_table_aliasContext,
     Table_aliasContext, With_table_hintsContext, Deprecated_table_hintContext,
     Sybase_legacy_hintsContext, Sybase_legacy_hintContext, Table_hintContext,
     Index_valueContext, Column_alias_listContext, Column_aliasContext,
     Table_value_constructorContext, Expression_list_Context, Ranking_windowed_functionContext,
     Aggregate_windowed_functionContext, Analytic_windowed_functionContext,
     All_distinct_expressionContext, Over_clauseContext, Row_or_range_clauseContext,
     Window_frame_extentContext, Window_frame_boundContext, Window_frame_precedingContext,
     Window_frame_followingContext, Create_database_optionContext,
     Database_filestream_optionContext, Database_file_specContext, File_groupContext,
     File_specContext, Entity_nameContext, Entity_name_for_azure_dwContext,
     Entity_name_for_parallel_dwContext, Full_table_nameContext, Table_nameContext,
     Simple_nameContext, Func_proc_name_schemaContext, Func_proc_name_database_schemaContext,
     Func_proc_name_server_database_schemaContext, Ddl_objectContext, Full_column_nameContext,
     Column_name_list_with_orderContext, Insert_column_name_listContext,
     Insert_column_idContext, Column_name_listContext, Cursor_nameContext, On_offContext,
     ClusteredContext, Null_notnullContext, Scalar_function_nameContext,
     Begin_conversation_timerContext, Begin_conversation_dialogContext, Contract_nameContext,
     Service_nameContext, End_conversationContext, Waitfor_conversationContext,
     Get_conversationContext, Queue_idContext, Send_conversationContext, Data_typeContext,
     ConstantContext, Primitive_constantContext, KeywordContext, Id_Context, Simple_idContext,
     Id_or_stringContext, Comparison_operatorContext, Assignment_operatorContext,
     File_sizeContext]"

end
