(* ===== verification/Conformance_6.thy ===== *)
theory Conformance_6
  imports Conforming Rules_6 Contexts_6
begin

text \<open>
  Part 6 of the comparison of \<open>TSqlParser.g4\<close> with the classes of \<open>TSqlParser.h\<close>: each rule
  with the classes the header declares for it, and the evaluation of the check.
\<close>

definition pairs_6 :: "(rule option \<times> context_class list) list" where
  "pairs_6 = [
     (Some g_xml_data_type_methods, [Xml_data_type_methodsContext]),
     (Some g_dateparts_9, [Dateparts_9Context]),
     (Some g_dateparts_12, [Dateparts_12Context]),
     (Some g_dateparts_15, [Dateparts_15Context]),
     (Some g_dateparts_datetrunc, [Dateparts_datetruncContext]),
     (Some g_value_method, [Value_methodContext]),
     (Some g_value_call, [Value_callContext]),
     (Some g_query_method, [Query_methodContext]),
     (Some g_query_call, [Query_callContext]),
     (Some g_exist_method, [Exist_methodContext]),
     (Some g_exist_call, [Exist_callContext]),
     (Some g_modify_method, [Modify_methodContext]),
     (Some g_modify_call, [Modify_callContext]),
     (Some g_hierarchyid_call, [Hierarchyid_callContext]),
     (Some g_hierarchyid_static_method, [Hierarchyid_static_methodContext]),
     (Some g_nodes_method, [Nodes_methodContext]),
     (Some g_switch_section, [Switch_sectionContext]),
     (Some g_switch_search_condition_section, [Switch_search_condition_sectionContext]),
     (Some g_as_column_alias, [As_column_aliasContext]),
     (Some g_as_table_alias, [As_table_aliasContext]),
     (Some g_table_alias, [Table_aliasContext]),
     (Some g_with_table_hints, [With_table_hintsContext]),
     (Some g_deprecated_table_hint, [Deprecated_table_hintContext]),
     (Some g_sybase_legacy_hints, [Sybase_legacy_hintsContext]),
     (Some g_sybase_legacy_hint, [Sybase_legacy_hintContext]),
     (Some g_table_hint, [Table_hintContext]),
     (Some g_index_value, [Index_valueContext]),
     (Some g_column_alias_list, [Column_alias_listContext]),
     (Some g_column_alias, [Column_aliasContext]),
     (Some g_table_value_constructor, [Table_value_constructorContext]),
     (Some g_expression_list', [Expression_list_Context]),
     (Some g_ranking_windowed_function, [Ranking_windowed_functionContext]),
     (Some g_aggregate_windowed_function, [Aggregate_windowed_functionContext]),
     (Some g_analytic_windowed_function, [Analytic_windowed_functionContext]),
     (Some g_all_distinct_expression, [All_distinct_expressionContext]),
     (Some g_over_clause, [Over_clauseContext]),
     (Some g_row_or_range_clause, [Row_or_range_clauseContext]),
     (Some g_window_frame_extent, [Window_frame_extentContext]),
     (Some g_window_frame_bound, [Window_frame_boundContext]),
     (Some g_window_frame_preceding, [Window_frame_precedingContext]),
     (Some g_window_frame_following, [Window_frame_followingContext]),
     (Some g_create_database_option, [Create_database_optionContext]),
     (Some g_database_filestream_option, [Database_filestream_optionContext]),
     (Some g_database_file_spec, [Database_file_specContext]),
     (Some g_file_group, [File_groupContext]),
     (Some g_file_spec, [File_specContext]),
     (Some g_entity_name, [Entity_nameContext]),
     (Some g_entity_name_for_azure_dw, [Entity_name_for_azure_dwContext]),
     (Some g_entity_name_for_parallel_dw, [Entity_name_for_parallel_dwContext]),
     (Some g_full_table_name, [Full_table_nameContext]),
     (Some g_dotID, []),
     (Some g_doubleDotID, []),
     (Some g_table_name, [Table_nameContext]),
     (Some g_simple_name, [Simple_nameContext]),
     (Some g_func_proc_name_schema, [Func_proc_name_schemaContext]),
     (Some g_func_proc_name_database_schema, [Func_proc_name_database_schemaContext]),
     (Some g_func_proc_name_server_database_schema, [Func_proc_name_server_database_schemaContext]),
     (Some g_ddl_object, [Ddl_objectContext]),
     (Some g_full_column_name, [Full_column_nameContext]),
     (Some g_column_name_list_with_order, [Column_name_list_with_orderContext]),
     (Some g_insert_column_name_list, [Insert_column_name_listContext]),
     (Some g_insert_column_id, [Insert_column_idContext]),
     (Some g_column_name_list, [Column_name_listContext]),
     (Some g_cursor_name, [Cursor_nameContext]),
     (Some g_on_off, [On_offContext]),
     (Some g_clustered, [ClusteredContext]),
     (Some g_null_notnull, [Null_notnullContext]),
     (Some g_scalar_function_name, [Scalar_function_nameContext]),
     (Some g_begin_conversation_timer, [Begin_conversation_timerContext]),
     (Some g_begin_conversation_dialog, [Begin_conversation_dialogContext]),
     (Some g_contract_name, [Contract_nameContext]),
     (Some g_service_name, [Service_nameContext]),
     (Some g_end_conversation, [End_conversationContext]),
     (Some g_waitfor_conversation, [Waitfor_conversationContext]),
     (Some g_get_conversation, [Get_conversationContext]),
     (Some g_queue_id, [Queue_idContext]),
     (Some g_send_conversation, [Send_conversationContext]),
     (Some g_data_type, [Data_typeContext]),
     (Some g_constant, [ConstantContext]),
     (Some g_primitive_constant, [Primitive_constantContext]),
     (Some g_keyword, [KeywordContext]),
     (Some g_id', [Id_Context]),
     (Some g_simple_id, [Simple_idContext]),
     (Some g_id_or_string, [Id_or_stringContext]),
     (Some g_comparison_operator, [Comparison_operatorContext]),
     (Some g_assignment_operator, [Assignment_operatorContext]),
     (Some g_file_size, [File_sizeContext])]"

lemma pairs_6_ok: "list_all pair_ok pairs_6"
  by (simp only: conformance_eval pairs_6_def grammar_rules context_classes cong: opaque case_opaque)

end
