(* ===== verification/Header_API.thy ===== *)
theory Header_API
  imports Accessors
begin

text \<open>
  The interface between a grammar and the context classes generated for it: which class a
  node is an object of, and what the class then promises about the node's children.  The
  facts are proved once for any grammar and class list that satisfy the interface.
\<close>

text \<open>The class whose objects are the nodes of a rule built from alternatives with a label.\<close>

fun describes :: "context_class \<Rightarrow> rule_id \<Rightarrow> label_id option \<Rightarrow> bool" where
  "describes c r None = (class_id c = RuleContext r)"
| "describes c r (Some l) = (class_id c = LabelContext l \<and> class_base c = ContextClass r)"

text \<open>Exactness of the label fields of an expression.\<close>

lemma set_bind_all: "(k, s) \<in> set (bind_all l p) \<longleftrightarrow> k = l \<and> s \<in> fst ` set p"
  by (induction l p rule: bind_all.induct) auto

lemma labels_list_iff: "x \<in> set (labels_list es) \<longleftrightarrow> (\<exists>e \<in> set es. x \<in> set (labels e))"
  by (induction es) auto

lemma mem_occs: "gen e cs \<Longrightarrow> s \<in> fst ` set cs \<Longrightarrow> s \<in> fst ` set (occs e)"
proof (rule ccontr)
  assume "gen e cs" and s: "s \<in> fst ` set cs" and "s \<notin> fst ` set (occs e)"
  then have "mult_of e s = None" by (simp add: mult_of_def map_of_eq_None_iff)
  with \<open>gen e cs\<close> have "count_list (map fst cs) s = 0" using gen_within(1) [of e cs s] by simp
  with s show False by (auto simp: count_list_0_iff)
qed

lemma gen_labels:
  "gen e cs \<Longrightarrow> \<forall>s l. (s, Some l) \<in> set cs \<longrightarrow> (l, s) \<in> set (labels e)"
  "gens es cs \<Longrightarrow> \<forall>s l. (s, Some l) \<in> set cs \<longrightarrow> (l, s) \<in> set (labels_list es)"
proof (induction rule: gen_gens.inducts)
  case (gen_Lab e w l)
  then show ?case using mem_occs [OF gen_Lab.hyps(1)] by (auto simp: bind_label_def set_bind_all image_iff)
next
  case (gen_Alt e es w)
  then show ?case by (auto simp: labels_list_iff)
qed auto

definition labelled_child :: "ebnf \<Rightarrow> label \<Rightarrow> sym \<Rightarrow> bool" where
  "labelled_child e l s \<longleftrightarrow> (\<exists>cs. gen e cs \<and> (s, Some l) \<in> set cs)"

lemma inhabited_gen: "inhabited e \<Longrightarrow> \<exists>cs. gen e cs"
  using inhabited_lang by (auto simp: lang_def)

lemma inhabited_gens: "\<forall>e \<in> set es. inhabited e \<Longrightarrow> \<exists>cs. gens es cs"
proof (induction es)
  case (Cons e es)
  then obtain u v where "gen e u" and "gens es v" using inhabited_gen [of e] by auto
  then show ?case by (blast intro: gens_Cons)
qed (blast intro: gens_Nil)

lemma labelled_child_Seq:
  assumes "\<forall>e \<in> set es. inhabited e" and "e \<in> set es" and "labelled_child e l s"
  shows "\<exists>cs. gens es cs \<and> (s, Some l) \<in> set cs"
  using assms
proof (induction es)
  case (Cons f es)
  show ?case
  proof (cases "e = f")
    case True
    with Cons.prems obtain u v where "gen f u" "(s, Some l) \<in> set u" "gens es v"
      using inhabited_gens [of es] by (auto simp: labelled_child_def)
    then show ?thesis by (intro exI [of _ "u @ v"]) (auto intro: gens_Cons)
  next
    case False
    with Cons obtain u v where "gen f u" "gens es v" "(s, Some l) \<in> set v"
      using inhabited_gen [of f] by auto
    then show ?thesis by (intro exI [of _ "u @ v"]) (auto intro: gens_Cons)
  qed
qed simp

lemma labelled_child_many:
  assumes "labelled_child e l s"
  shows "labelled_child (Star e) l s" and "labelled_child (Plus e) l s"
proof -
  from assms obtain cs where cs: "gen e cs" "(s, Some l) \<in> set cs" by (auto simp: labelled_child_def)
  from cs(1) have "gen (Star e) (cs @ [])" and "gen (Plus e) (cs @ [])"
    by (blast intro: gen_gens.intros)+
  with cs(2) show "labelled_child (Star e) l s" and "labelled_child (Plus e) l s"
    unfolding labelled_child_def append_Nil2 by blast+
qed

lemma labels_exact: "inhabited e \<Longrightarrow> (l, s) \<in> set (labels e) \<Longrightarrow> labelled_child e l s"
proof (induction e)
  case (Lab k e)
  then have "k = l" and "mult_of e s \<noteq> None"
    by (auto simp: set_bind_all mult_of_def map_of_eq_None_iff)
  then have "1 \<le> reached (mult_of e s)" by (intro reached_pos)
  with Lab.prems(1) mult_of_exact [of e s] obtain cs where "gen e cs" "0 < count_list (map fst cs) s"
    by (force simp: attains_def lang_def)
  then have "gen (Lab k e) (map (bind_label k) cs)" "s \<in> fst ` set cs"
    by (auto intro: gen_Lab simp: count_list_pos_iff)
  with \<open>k = l\<close> show ?case unfolding labelled_child_def
    by (intro exI [of _ "map (bind_label k) cs"]) (auto simp: bind_label_def)
next
  case (Seq es)
  then obtain e where "e \<in> set es" "labelled_child e l s" by (auto simp: labels_list_iff list_all_iff)
  with Seq.prems show ?case using labelled_child_Seq [of es e l s]
    by (auto simp: labelled_child_def list_all_iff intro: gen_Seq)
next
  case (Alt es)
  then obtain e where "e \<in> set es" "labelled_child e l s" by (auto simp: labels_list_iff list_all_iff)
  then show ?case by (auto simp: labelled_child_def intro: gen_Alt)
next
  case (Opt e)
  then show ?case by (auto simp: labelled_child_def intro: gen_Opt_some)
qed (simp_all add: labelled_child_many)

lemma label_fields_iff:
  assumes "declared_fields ms = label_fields e" and "inhabited e"
  shows "x \<in> set (declared_fields ms) \<longleftrightarrow> (\<exists>k s. field_of (k, s) = x \<and> labelled_child e k s)"
proof -
  have "(k, s) \<in> set (labels e) \<longleftrightarrow> labelled_child e k s" for k s
    using labels_exact [OF assms(2)] gen_labels(1) unfolding labelled_child_def by blast
  then show ?thesis unfolding assms(1) label_fields_def by (auto simp: image_iff)
qed

end
