(* ===== verification/Derivation.thy ===== *)
theory Derivation
  imports Header_API
begin

text \<open>
  Facts about all parse trees of a grammar, each reduced to a check of the right-hand sides
  one by one.  The interfaces: a grammar whose references are defined; one with a
  certificate that every rule produces something; an invariant between a symbol and what
  its trees yield.
\<close>

section \<open>References\<close>

definition mentions :: "ebnf \<Rightarrow> sym \<Rightarrow> bool" where
  "mentions e s \<longleftrightarrow> s \<in> fst ` set (occs e)"

lemma lang_mentions: "lang e w \<Longrightarrow> s \<in> set w \<Longrightarrow> mentions e s"
  unfolding lang_def mentions_def using mem_occs by auto

lemma mentions_iff_mult: "mentions e s \<longleftrightarrow> mult_of e s \<noteq> None"
  by (auto simp: mentions_def mult_of_def map_of_eq_None_iff)

lemma mentions_many [simp]: "fst ` set (many p) = fst ` set p"
  by (induction p rule: many.induct) auto

lemma mentions_simps [simp]:
  "mentions (Sym t) s \<longleftrightarrow> s = t"
  "mentions (Lab l e) s \<longleftrightarrow> mentions e s"
  "mentions (Seq []) s \<longleftrightarrow> False"
  "mentions (Seq (e # es)) s \<longleftrightarrow> mentions e s \<or> mentions (Seq es) s"
  "mentions (Alt []) s \<longleftrightarrow> False"
  "mentions (Alt (e # es)) s \<longleftrightarrow> mentions e s \<or> mentions (Alt es) s"
  "mentions (Opt e) s \<longleftrightarrow> mentions e s"
  "mentions (Star e) s \<longleftrightarrow> mentions e s"
  "mentions (Plus e) s \<longleftrightarrow> mentions e s"
  by (auto simp: mentions_def fst_set_merge image_Un)

text \<open>Do all symbols of an expression satisfy a predicate?\<close>

fun all_syms :: "(sym \<Rightarrow> bool) \<Rightarrow> ebnf \<Rightarrow> bool" and all_syms_list :: "(sym \<Rightarrow> bool) \<Rightarrow> ebnf list \<Rightarrow> bool" where
  "all_syms P (Sym s) = P s"
| "all_syms P (Lab l e) = all_syms P e"
| "all_syms P (Seq es) = all_syms_list P es"
| "all_syms P (Alt es) = all_syms_list P es"
| "all_syms P (Opt e) = all_syms P e"
| "all_syms P (Star e) = all_syms P e"
| "all_syms P (Plus e) = all_syms P e"
| "all_syms_list P [] = True"
| "all_syms_list P (e # es) = (if all_syms P e then all_syms_list P es else False)"

lemma all_syms_iff:
  "all_syms P e \<longleftrightarrow> (\<forall>s. mentions e s \<longrightarrow> P s)"
  "all_syms_list P es \<longleftrightarrow> (\<forall>s. mentions (Seq es) s \<longrightarrow> P s)"
proof (induction P e and P es rule: all_syms_all_syms_list.induct)
  case (4 P es)
  have "mentions (Alt es) s \<longleftrightarrow> mentions (Seq es) s" for s
    by (induction es) auto
  with 4 show ?case by simp
qed auto

lemma mentions_Alt: "mentions (Alt es) s \<longleftrightarrow> (\<exists>e \<in> set es. mentions e s)"
  by (induction es) auto

lemma mentions_labelled: "mentions (labelled l as) s \<longleftrightarrow> (\<exists>e. (l, e) \<in> set as \<and> mentions e s)"
  by (auto simp: labelled_def mentions_Alt set_select_label)

text \<open>A property of every alternative of a list of rules.\<close>

fun all_alts :: "(rule_id \<Rightarrow> ebnf \<Rightarrow> bool) \<Rightarrow> rule_id \<Rightarrow> (label_id option \<times> ebnf) list \<Rightarrow> bool" where
  "all_alts P r [] = True"
| "all_alts P r ((l, e) # as) = (if P r e then all_alts P r as else False)"

fun all_rules :: "(rule_id \<Rightarrow> ebnf \<Rightarrow> bool) \<Rightarrow> grammar \<Rightarrow> bool" where
  "all_rules P [] = True"
| "all_rules P (g # gs) = (if all_alts P (rule_index g) (rule_alts g) then all_rules P gs else False)"

lemma all_alts_iff: "all_alts P r as \<longleftrightarrow> (\<forall>a \<in> set as. P r (snd a))"
  by (induction P r as rule: all_alts.induct) auto

lemma all_rules_iff: "all_rules P G \<longleftrightarrow> (\<forall>g \<in> set G. \<forall>a \<in> set (rule_alts g). P (rule_index g) (snd a))"
  by (induction P G rule: all_rules.induct) (auto simp: all_alts_iff)

lemma all_rules_append [simp]: "all_rules P (G @ H) \<longleftrightarrow> all_rules P G \<and> all_rules P H"
  by (auto simp: all_rules_iff)

lemma all_rules_body:
  assumes "all_rules P G" and "lang (body_of G r l) w"
  obtains e where "lang e w" and "P r e" and "r \<in> rule_index ` set G"
  using assms unfolding body_of_def lang_labelled all_rules_iff alts_of_in by force

definition rule_ids :: "grammar \<Rightarrow> rule_id set" where
  "rule_ids G = rule_index ` set G"

section \<open>Invariants of what a tree yields\<close>

text \<open>
  A relation between a symbol and a token sequence that every token satisfies and every
  alternative passes from the children to the node holds for every tree.
\<close>

locale yield_invariant =
  fixes G :: grammar and I :: "sym \<Rightarrow> token list \<Rightarrow> bool"
  assumes token: "I (Tm t) [t]"
    and node: "lang (body_of G r l) w \<Longrightarrow> list_all2 I w us \<Longrightarrow> I (Nt r) (concat us)"
begin

lemma holds: "valid G t \<Longrightarrow> I (root t) (yield t)"
proof (induction t)
  case (Leaf t)
  show ?case by (simp add: token)
next
  case (Node r l ts)
  then have "list_all2 I (map root ts) (map yield ts)"
    by (auto simp: list_all2_conv_all_nth)
  with Node.prems show ?case by (auto intro: node)
qed

end

section \<open>Closed and productive grammars\<close>

locale closed_grammar =
  fixes G :: grammar
  assumes closed: "all_rules (\<lambda>_. all_syms (\<lambda>s. case s of Tm _ \<Rightarrow> True | Nt q \<Rightarrow> q \<in> rule_ids G)) G"
begin

lemma child_defined: "lang (body_of G r l) w \<Longrightarrow> Nt q \<in> set w \<Longrightarrow> q \<in> rule_ids G"
  using closed by (elim all_rules_body) (auto simp: all_syms_iff dest: lang_mentions)

lemma body_defined: "mentions (body_of G r l) (Nt q) \<Longrightarrow> q \<in> rule_ids G"
  using closed unfolding body_of_def mentions_labelled alts_of_in all_rules_iff all_syms_iff
  by fastforce

end

text \<open>
  Productivity: every rule has a number, and some alternative of it can be matched with
  rules of smaller numbers only.  More generally, can an expression be matched with symbols
  that satisfy a predicate?
\<close>

fun can :: "(sym \<Rightarrow> bool) \<Rightarrow> ebnf \<Rightarrow> bool"
  and can_all :: "(sym \<Rightarrow> bool) \<Rightarrow> ebnf list \<Rightarrow> bool"
  and can_some :: "(sym \<Rightarrow> bool) \<Rightarrow> ebnf list \<Rightarrow> bool" where
  "can P (Sym s) = P s"
| "can P (Lab l e) = can P e"
| "can P (Seq es) = can_all P es"
| "can P (Alt es) = can_some P es"
| "can P (Opt e) = True"
| "can P (Star e) = True"
| "can P (Plus e) = can P e"
| "can_all P [] = True"
| "can_all P (e # es) = (if can P e then can_all P es else False)"
| "can_some P [] = False"
| "can_some P (e # es) = (if can P e then True else can_some P es)"

lemma can_word:
  "can P e \<Longrightarrow> \<exists>w. lang e w \<and> (\<forall>s \<in> set w. P s)"
  "can_all P es \<Longrightarrow> \<exists>w. lang (Seq es) w \<and> (\<forall>s \<in> set w. P s)"
  "can_some P es \<Longrightarrow> \<exists>w. lang (Alt es) w \<and> (\<forall>s \<in> set w. P s)"
proof (induction P e and P es and P es rule: can_can_all_can_some.induct)
  case (6 P e)
  show ?case by (rule exI [of _ "[]"]) simp
next
  case (7 P e)
  then show ?case by (simp del: lang_Plus) (blast intro: lang_Plus_one)
next
  case (9 P e es)
  then obtain u v where "lang e u" "\<forall>s \<in> set u. P s" "lang (Seq es) v" "\<forall>s \<in> set v. P s"
    by (auto split: if_splits)
  then show ?case by (intro exI [of _ "u @ v"]) auto
next
  case (11 P e es)
  then show ?case by (auto split: if_splits)
qed auto

lemma can_all_iff: "can_all P es \<longleftrightarrow> (\<forall>e \<in> set es. can P e)"
  by (induction es) auto

lemma can_some_iff: "can_some P es \<longleftrightarrow> (\<exists>e \<in> set es. can P e)"
  by (induction es) auto

lemma gen_can:
  "gen e cs \<Longrightarrow> \<forall>c \<in> set cs. P (fst c) \<Longrightarrow> can P e"
  "gens es cs \<Longrightarrow> \<forall>c \<in> set cs. P (fst c) \<Longrightarrow> can_all P es"
  by (induction rule: gen_gens.inducts) (auto simp: can_some_iff bind_label_def)

lemma can_iff: "can P e \<longleftrightarrow> (\<exists>w. lang e w \<and> (\<forall>s \<in> set w. P s))"
  using can_word(1) gen_can(1) [of e _ P] by (fastforce simp: lang_def)

text \<open>The number of a rule, below a bound.\<close>

definition low :: "(rule_id \<Rightarrow> nat) \<Rightarrow> nat \<Rightarrow> sym \<Rightarrow> bool" where
  "low h n s = (case s of Tm t \<Rightarrow> True | Nt r \<Rightarrow> h r < n)"

locale productive_grammar = closed_grammar +
  fixes height :: "rule_id \<Rightarrow> nat"
  assumes low_rule: "g \<in> set G \<Longrightarrow> can (low height (height (rule_index g))) (Alt (map snd (rule_alts g)))"
begin

lemma symbol_tree:
  "(\<And>q. s = Nt q \<Longrightarrow> \<exists>t. valid G t \<and> root t = Nt q) \<Longrightarrow> \<exists>t. valid G t \<and> root t = s"
  by (cases s) (auto intro: exI [of _ "Leaf _"])

lemma trees_for:
  assumes "\<forall>s \<in> set w. \<exists>t. valid G t \<and> root t = s"
  shows "\<exists>ts. map root ts = w \<and> (\<forall>t \<in> set ts. valid G t)"
  using assms
proof (induction w)
  case (Cons s w)
  then obtain t ts where "valid G t" "root t = s" "map root ts = w" "\<forall>t \<in> set ts. valid G t" by auto
  then show ?case by (intro exI [of _ "t # ts"]) auto
qed simp

lemma productive: "r \<in> rule_ids G \<Longrightarrow> \<exists>t. valid G t \<and> root t = Nt r"
proof (induction "height r" arbitrary: r rule: less_induct)
  case less
  then obtain g where g: "g \<in> set G" "rule_index g = r" by (auto simp: rule_ids_def)
  obtain w where "lang (Alt (map snd (rule_alts g))) w" and low: "\<forall>s \<in> set w. low height (height r) s"
    using can_word(1) [OF low_rule [OF g(1)]] g(2) by auto
  then obtain l e where "(l, e) \<in> set (rule_alts g)" "lang e w" by auto
  with g have body: "lang (body_of G r l) w"
    by (auto simp: body_of_def lang_labelled alts_of_in)
  have "\<exists>t. valid G t \<and> root t = Nt q" if "Nt q \<in> set w" for q
    using that low body by (auto intro!: less.hyps simp: low_def child_defined split: sym.splits)
  then have "\<forall>s \<in> set w. \<exists>t. valid G t \<and> root t = s" by (blast intro: symbol_tree)
  then obtain ts where "map root ts = w" "\<forall>t \<in> set ts. valid G t" using trees_for by blast
  with body show ?case by (intro exI [of _ "Node r l ts"]) simp
qed

text \<open>Every choice of children can be completed to a tree.\<close>

lemma complete:
  assumes "lang (body_of G r l) w"
  shows "\<exists>ts. map root ts = w \<and> valid G (Node r l ts)"
proof -
  have "\<forall>s \<in> set w. \<exists>t. valid G t \<and> root t = s"
    using assms child_defined productive by (blast intro: symbol_tree)
  then show ?thesis using assms trees_for by fastforce
qed

end

end
