(* ===== verification/Typed_Trees.thy ===== *)
theory Typed_Trees
  imports Derivation
begin

text \<open>
  What the context classes of a header promise about the parse trees of a grammar.  The
  interface \<open>context_api\<close> asks that the class describing a node fits the alternatives the
  node can be built from; everything a client of the classes relies on follows from it.
\<close>

locale context_api = productive_grammar +
  fixes classes :: "context_class list" and stale :: "rule_id set"
  assumes fits_described: "c \<in> set classes \<Longrightarrow> describes c r l \<Longrightarrow> r \<notin> stale \<Longrightarrow>
    (\<exists>w. lang (body_of G r l) w) \<or> getters (members c) \<noteq> [] \<Longrightarrow> fits c (body_of G r l)"
begin

lemma fits_body:
  assumes "c \<in> set classes" and "describes c r l" and "r \<notin> stale" and "lang (body_of G r l) w"
  shows "fits c (body_of G r l)"
  using assms by (blast intro: fits_described)

lemma fits_getter:
  assumes "c \<in> set classes" and "describes c r l" and "r \<notin> stale"
    and "m \<in> set (members c)" and "getter m = Some g"
  shows "fits c (body_of G r l)"
proof -
  have "g \<in> set (getters (members c))" using assms(4,5) getters_iff by blast
  then have "getters (members c) \<noteq> []" by auto
  with assms(1-3) show ?thesis by (blast intro: fits_described)
qed

lemma getter_mult:
  assumes "c \<in> set classes" and "describes c r l" and "r \<notin> stale" and "lang (body_of G r l) w"
  shows "(\<exists>m \<in> set (members c). getter m = Some (s, k)) \<longleftrightarrow> mult_of (body_of G r l) s = Some k"
proof -
  from fits_body [OF assms] have "exact_getters (getters (members c)) (body_of G r l)"
    by (simp add: fits_def)
  then show ?thesis by (simp add: exact_getters_iff flip: getters_iff)
qed

lemma single_getter:
  assumes "c \<in> set classes" and "describes c r l" and "r \<notin> stale"
    and "valid G (Node r l ts)" and "m \<in> set (members c)" and "getter m = Some (s, One)"
  shows "count_list (map root ts) s \<le> 1"
proof -
  from assms(4) have body: "lang (body_of G r l) (map root ts)" by simp
  with assms have "mult_of (body_of G r l) s = Some One" by (simp flip: getter_mult) blast
  with mult_of_sound [OF body, of s] show ?thesis by simp
qed

lemma child_getter:
  assumes "c \<in> set classes" and "describes c r l" and "r \<notin> stale"
    and "valid G (Node r l ts)" and "t \<in> set ts"
  shows "\<exists>m \<in> set (members c). \<exists>k. getter m = Some (root t, k)"
proof -
  from assms(4) have body: "lang (body_of G r l) (map root ts)" by simp
  moreover have "root t \<in> set (map root ts)" using assms(5) by simp
  ultimately have "mentions (body_of G r l) (root t)" by (rule lang_mentions)
  then obtain k where "mult_of (body_of G r l) (root t) = Some k" by (auto simp: mentions_iff_mult)
  with getter_mult [OF assms(1-3) body] show ?thesis by blast
qed

lemma getter_reached:
  assumes "c \<in> set classes" and "describes c r l" and "r \<notin> stale"
    and "m \<in> set (members c)" and "getter m = Some (s, k)"
  shows "\<exists>ts. valid G (Node r l ts) \<and> reached (Some k) \<le> count_list (map root ts) s"
proof -
  from fits_getter [OF assms] have inh: "inhabited (body_of G r l)" by (simp add: fits_def)
  then obtain w where "lang (body_of G r l) w" using inhabited_lang by blast
  with assms have "mult_of (body_of G r l) s = Some k" using getter_mult by blast
  with inh obtain v where v: "lang (body_of G r l) v" "reached (Some k) \<le> count_list v s"
    using mult_of_exact unfolding attains_def by metis
  with complete show ?thesis by metis
qed

lemma paired_members:
  assumes "c \<in> set classes" and "describes c r l" and "r \<notin> stale" and "lang (body_of G r l) w"
  shows "paired (members c)"
  using fits_body [OF assms] by (simp add: fits_def)

lemma fields_iff:
  assumes "c \<in> set classes" and "describes c r l" and "r \<notin> stale" and "lang (body_of G r l) w"
  shows "x \<in> set (declared_fields (members c)) \<longleftrightarrow> (\<exists>k s. field_of (k, s) = x \<and> labelled_child (body_of G r l) k s)"
  by (rule label_fields_iff) (use fits_body [OF assms] in \<open>simp_all add: fits_def\<close>)

end

text \<open>How a list of checked pairs of rules and classes provides the interface.\<close>

lemma filter_all: "list_all P xs \<Longrightarrow> filter P xs = xs"
  by (induction xs) auto

lemma select_label_map: "list_all (\<lambda>a. fst a = None) as \<Longrightarrow> select_label None as = map snd as"
  by (induction "None :: label_id option" as rule: select_label.induct) auto

lemma describes_conforms:
  assumes "conforms g cs" and "c \<in> set cs" and "describes c r l"
  shows "r = rule_index g"
  using assms
proof (induction g cs rule: conforms.induct)
  case (3 g c' d cs)
  then show ?case
    by (cases l) (auto simp: label_conforms_def list_all_iff split: class_id.splits)
qed (cases l; auto)+

lemma fits_conforms:
  assumes ok: "conforms g cs" and "c \<in> set cs" and "describes c (rule_index g) l"
    and "(\<exists>w. lang (labelled l (rule_alts g)) w) \<or> getters (members c) \<noteq> []"
  shows "fits c (labelled l (rule_alts g))"
  using assms
proof (induction g cs rule: conforms.induct)
  case (2 g d)
  then show ?case
    by (cases l) (auto simp: list_all_iff labelled_def set_select_label)
next
  case (3 g c' d cs)
  show ?case
  proof (cases l)
    case None
    with 3 have "(None, e) \<notin> set (rule_alts g)" for e
      by (auto simp: list_all_iff has_class_def)
    with None 3 show ?thesis
      by (auto simp: lang_labelled base_skeleton_def label_conforms_def list_all_iff
          split: class_id.splits)
  next
    case (Some x)
    with 3 show ?thesis by (auto simp: label_conforms_def list_all_iff split: class_id.splits)
  qed
qed simp

lemma describes_in_rule:
  assumes "conforms g cs" and "(l, e) \<in> set (rule_alts g)"
  shows "\<exists>c \<in> set cs. describes c (rule_index g) l"
  using assms
proof (induction g cs rule: conforms.induct)
  case (2 g d)
  then show ?case by (auto simp: list_all_iff)
next
  case (3 g c' d cs)
  then have "has_class (d # cs) l" by (auto simp: list_all_iff)
  then obtain x c where "l = Some x" "c \<in> set (d # cs)" "class_id c = LabelContext x"
    by (auto simp: has_class_def list_ex_iff split: option.splits)
  with 3 show ?case by (auto simp: label_conforms_def list_all_iff)
qed simp

end
