(* ===== verification/TSql_Grammar.thy ===== *)
theory TSql_Grammar
  imports Conformance_1 Conformance_2 Conformance_3 Conformance_4 Conformance_5 Conformance_6
    Typed_Trees
begin

text \<open>
  The grammar of \<open>src/TSqlParser.g4\<close> and the context classes of \<open>src/port/cpp/TSqlParser.h\<close>
  as whole tables, and the certificate that every rule of the grammar produces something.
\<close>

definition tsql_grammar :: grammar where
  "tsql_grammar = rules_1 @ rules_2 @ rules_3 @ rules_4 @ rules_5 @ rules_6"

definition tsql_classes :: "context_class list" where
  "tsql_classes = classes_1 @ classes_2 @ classes_3 @ classes_4 @ classes_5 @ classes_6"

definition tsql_pairs :: "(rule option \<times> context_class list) list" where
  "tsql_pairs = pairs_1 @ pairs_2 @ pairs_3 @ pairs_4 @ pairs_5 @ pairs_6"

lemma tsql_pairs_ok: "list_all pair_ok tsql_pairs"
  by (simp add: tsql_pairs_def pairs_1_ok pairs_2_ok pairs_3_ok pairs_4_ok pairs_5_ok pairs_6_ok)

section \<open>The tables and their pairing\<close>

fun paired_rules :: "(rule option \<times> 'a) list \<Rightarrow> rule list" where
  "paired_rules [] = []"
| "paired_rules ((None, cs) # ps) = paired_rules ps"
| "paired_rules ((Some g, cs) # ps) = g # paired_rules ps"

lemma paired_rules_append [simp]: "paired_rules (ps @ qs) = paired_rules ps @ paired_rules qs"
  by (induction ps rule: paired_rules.induct) auto

lemma in_paired_rules: "g \<in> set (paired_rules ps) \<longleftrightarrow> (\<exists>cs. (Some g, cs) \<in> set ps)"
  by (induction ps rule: paired_rules.induct) auto

lemma grammar_of_pairs: "tsql_grammar = paired_rules tsql_pairs"
  by (simp add: tsql_grammar_def tsql_pairs_def rules_1_def rules_2_def rules_3_def rules_4_def
      rules_5_def rules_6_def pairs_1_def pairs_2_def pairs_3_def pairs_4_def pairs_5_def pairs_6_def)

lemma classes_of_pairs: "tsql_classes = concat (map snd tsql_pairs)"
  by (simp add: tsql_classes_def tsql_pairs_def classes_1_def classes_2_def classes_3_def classes_4_def
      classes_5_def classes_6_def pairs_1_def pairs_2_def pairs_3_def pairs_4_def pairs_5_def pairs_6_def)

section \<open>Rule indices\<close>

text \<open>A list of rules has the given indices; both lists are consumed step by step.\<close>

fun indices_are :: "rule list \<Rightarrow> rule_id list \<Rightarrow> bool" where
  "indices_are [] ns = (ns = [])"
| "indices_are (g # gs) [] = False"
| "indices_are (g # gs) (n # ns) = (if rule_index g = n then indices_are gs ns else False)"

lemma indices_are_iff: "indices_are gs ns \<longleftrightarrow> map rule_index gs = ns"
  by (induction gs ns rule: indices_are.induct) auto

lemmas indices_eval = indices_are.simps grammar_rules record_eval number_eval logic_eval
  append.simps upt_rec_numeral Suc_numeral add_num_simps list.distinct

lemma indices_are_1: "indices_are rules_1 (0 # 612 # [2..<141])"
  by (simp only: indices_eval rules_1_def cong: opaque(1) case_opaque)

lemma indices_are_2: "indices_are rules_2 [141..<237]"
  by (simp only: indices_eval rules_2_def cong: opaque(1) case_opaque)

lemma indices_are_3: "indices_are rules_3 [237..<365]"
  by (simp only: indices_eval rules_3_def cong: opaque(1) case_opaque)

lemma indices_are_4: "indices_are rules_4 [365..<488]"
  by (simp only: indices_eval rules_4_def cong: opaque(1) case_opaque)

lemma indices_are_5: "indices_are rules_5 ([488..<496] @ [497..<527])"
  by (simp only: indices_eval rules_5_def cong: opaque(1) case_opaque)

lemma indices_are_6: "indices_are rules_6 ([527..<577] @ [613, 614] @ [577..<612])"
  by (simp only: indices_eval rules_6_def cong: opaque(1) case_opaque)

lemmas indices = indices_are_1 [unfolded indices_are_iff] indices_are_2 [unfolded indices_are_iff]
  indices_are_3 [unfolded indices_are_iff] indices_are_4 [unfolded indices_are_iff]
  indices_are_5 [unfolded indices_are_iff] indices_are_6 [unfolded indices_are_iff]

lemma distinct_indices: "distinct (map rule_index tsql_grammar)"
  by (auto simp: tsql_grammar_def indices simp del: upt_rec_numeral)

lemma rule_ids_tsql: "rule_ids tsql_grammar = {0..614} - {RuleBatch, RuleNon_ansi_join}"
proof -
  have "rule_ids tsql_grammar = set (map rule_index tsql_grammar)" by (simp add: rule_ids_def)
  then have "rule_ids tsql_grammar = {0, 612, 613, 614} \<union> {2..<141} \<union> {141..<237} \<union> {237..<365}
      \<union> {365..<488} \<union> {488..<496} \<union> {497..<527} \<union> {527..<577} \<union> {577..<612}"
    by (simp add: tsql_grammar_def indices Un_ac insert_commute del: upt_rec_numeral)
  then show ?thesis by auto
qed

end
