(* ===== verification/TSql_Productive.thy ===== *)
theory TSql_Productive
  imports TSql_Grammar
begin

text \<open>
  Every reference of \<open>TSqlParser.g4\<close> is to one of its rules, and every rule matches some token
  sequence: the certificate numbers the rules so that each has an alternative that needs only
  rules of smaller numbers.
\<close>

definition defined_sym :: "sym \<Rightarrow> bool" where
  "defined_sym s = (case s of Tm t \<Rightarrow> True
     | Nt q \<Rightarrow> if q = RuleBatch then False else if q = RuleNon_ansi_join then False else q < 615)"

definition closed_alt :: "rule_id \<Rightarrow> ebnf \<Rightarrow> bool" where
  "closed_alt r e = all_syms defined_sym e"

definition height :: "rule_id \<Rightarrow> nat" where
  "height r =
     (if r < 323 then (if r < 192 then (if r < 57 then (if r < 35 then (if r < 14 then (if r < 5
     then (if r < 3 then (if r < 2 then 1 else 4) else (if r < 4 then 1 else 3)) else (if r < 11
     then (if r < 8 then 2 else 1) else (if r < 12 then 2 else (if r < 13 then 1 else 4)))) else
     (if r < 21 then (if r < 19 then (if r < 18 then 1 else 2) else (if r < 20 then 1 else 4))
     else (if r < 31 then (if r < 24 then 1 else 2) else (if r < 33 then 1 else (if r < 34 then 2
     else 1))))) else (if r < 45 then (if r < 40 then (if r < 38 then (if r < 36 then 2 else 1)
     else (if r < 39 then 3 else 1)) else (if r < 42 then (if r < 41 then 2 else 1) else (if r <
     43 then 2 else (if r < 44 then 1 else 2)))) else (if r < 52 then (if r < 49 then (if r < 48
     then 1 else 3) else (if r < 50 then 2 else (if r < 51 then 1 else 2))) else (if r < 54 then
     (if r < 53 then 1 else 3) else (if r < 55 then 1 else (if r < 56 then 4 else 1)))))) else
     (if r < 123 then (if r < 79 then (if r < 64 then (if r < 61 then (if r < 60 then 2 else 1)
     else (if r < 62 then 2 else 1)) else (if r < 67 then (if r < 66 then 2 else 3) else (if r <
     71 then 1 else (if r < 74 then 3 else 1)))) else (if r < 98 then (if r < 81 then (if r < 80
     then 2 else 3) else (if r < 82 then 2 else (if r < 85 then 1 else 2))) else (if r < 113 then
     (if r < 99 then 1 else 2) else (if r < 114 then 1 else (if r < 122 then 2 else 1))))) else
     (if r < 155 then (if r < 140 then (if r < 127 then (if r < 126 then 2 else 1) else (if r <
     138 then 2 else 1)) else (if r < 151 then (if r < 148 then 2 else 1) else (if r < 153 then 2
     else (if r < 154 then 4 else 3)))) else (if r < 181 then (if r < 160 then (if r < 159 then 2
     else 1) else (if r < 171 then 2 else (if r < 175 then 1 else 2))) else (if r < 184 then (if
     r < 182 then 1 else 2) else (if r < 185 then 3 else (if r < 187 then 1 else 2))))))) else
     (if r < 263 then (if r < 236 then (if r < 223 then (if r < 212 then (if r < 205 then (if r <
     193 then 4 else 2) else (if r < 206 then 1 else 2)) else (if r < 219 then (if r < 213 then 1
     else 2) else (if r < 220 then 1 else (if r < 222 then 2 else 3)))) else (if r < 229 then (if
     r < 226 then (if r < 225 then 2 else 1) else (if r < 227 then 2 else 1)) else (if r < 232
     then (if r < 230 then 3 else 2) else (if r < 233 then 4 else (if r < 234 then 2 else 1)))))
     else (if r < 246 then (if r < 240 then (if r < 238 then (if r < 237 then 2 else 1) else (if
     r < 239 then 2 else 1)) else (if r < 242 then (if r < 241 then 3 else 7) else (if r < 243
     then 6 else (if r < 244 then 1 else 3)))) else (if r < 256 then (if r < 250 then (if r < 248
     then 2 else 3) else (if r < 253 then 2 else (if r < 255 then 1 else 3))) else (if r < 260
     then (if r < 258 then 2 else 1) else (if r < 261 then 2 else (if r < 262 then 1 else 2))))))
     else (if r < 288 then (if r < 275 then (if r < 269 then (if r < 267 then (if r < 265 then 1
     else 2) else (if r < 268 then 1 else 3)) else (if r < 272 then (if r < 271 then 2 else 1)
     else (if r < 273 then 3 else (if r < 274 then 2 else 4)))) else (if r < 282 then (if r < 278
     then (if r < 276 then 3 else 1) else (if r < 279 then 3 else (if r < 280 then 2 else 3)))
     else (if r < 284 then (if r < 283 then 6 else 2) else (if r < 285 then 1 else (if r < 286
     then 2 else 1))))) else (if r < 299 then (if r < 293 then (if r < 291 then (if r < 290 then
     3 else 2) else (if r < 292 then 1 else 5)) else (if r < 296 then (if r < 295 then 2 else 1)
     else (if r < 297 then 2 else (if r < 298 then 1 else 8)))) else (if r < 314 then (if r < 307
     then (if r < 300 then 1 else 2) else (if r < 308 then 1 else (if r < 309 then 2 else 1)))
     else (if r < 316 then (if r < 315 then 2 else 3) else (if r < 317 then 2 else (if r < 322
     then 1 else 4)))))))) else (if r < 480 then (if r < 428 then (if r < 373 then (if r < 352
     then (if r < 344 then (if r < 327 then (if r < 324 then 3 else 1) else (if r < 330 then 2
     else 1)) else (if r < 347 then (if r < 346 then 3 else 2) else (if r < 348 then 3 else (if r
     < 349 then 4 else 3)))) else (if r < 362 then (if r < 358 then (if r < 354 then 2 else 3)
     else (if r < 361 then 2 else 1)) else (if r < 368 then (if r < 366 then 2 else 1) else (if r
     < 369 then 2 else (if r < 372 then 1 else 2))))) else (if r < 398 then (if r < 378 then (if
     r < 375 then (if r < 374 then 3 else 1) else (if r < 376 then 3 else 2)) else (if r < 383
     then (if r < 382 then 1 else 2) else (if r < 395 then 1 else (if r < 396 then 2 else 1))))
     else (if r < 423 then (if r < 415 then (if r < 399 then 2 else 1) else (if r < 416 then 2
     else (if r < 421 then 1 else 2))) else (if r < 425 then (if r < 424 then 1 else 2) else (if
     r < 426 then 1 else (if r < 427 then 2 else 5)))))) else (if r < 452 then (if r < 440 then
     (if r < 432 then (if r < 430 then (if r < 429 then 3 else 2) else (if r < 431 then 1 else
     4)) else (if r < 434 then (if r < 433 then 3 else 2) else (if r < 435 then 1 else (if r <
     439 then 2 else 1)))) else (if r < 447 then (if r < 443 then (if r < 442 then 2 else 1) else
     (if r < 444 then 3 else (if r < 445 then 4 else 1))) else (if r < 449 then (if r < 448 then
     2 else 1) else (if r < 450 then 2 else (if r < 451 then 8 else 1))))) else (if r < 466 then
     (if r < 460 then (if r < 458 then (if r < 453 then 2 else 1) else (if r < 459 then 2 else
     1)) else (if r < 463 then (if r < 461 then 3 else 2) else (if r < 464 then 7 else (if r <
     465 then 8 else 7)))) else (if r < 473 then (if r < 469 then (if r < 468 then 2 else 3) else
     (if r < 470 then 2 else (if r < 472 then 5 else 4))) else (if r < 476 then (if r < 474 then
     2 else 4) else (if r < 477 then 2 else (if r < 479 then 1 else 3))))))) else (if r < 537
     then (if r < 507 then (if r < 492 then (if r < 485 then (if r < 483 then (if r < 481 then 4
     else 1) else (if r < 484 then 2 else 1)) else (if r < 489 then (if r < 487 then 2 else 1)
     else (if r < 490 then 3 else (if r < 491 then 2 else 1)))) else (if r < 501 then (if r < 497
     then (if r < 495 then 2 else 3) else (if r < 498 then 2 else (if r < 499 then 1 else 2)))
     else (if r < 504 then (if r < 502 then 4 else 3) else (if r < 505 then 2 else (if r < 506
     then 3 else 2))))) else (if r < 519 then (if r < 512 then (if r < 509 then (if r < 508 then
     4 else 3) else (if r < 510 then 4 else 2)) else (if r < 516 then (if r < 514 then 4 else 3)
     else (if r < 517 then 2 else (if r < 518 then 1 else 2)))) else (if r < 532 then (if r < 525
     then (if r < 520 then 4 else 2) else (if r < 527 then 1 else (if r < 528 then 3 else 1)))
     else (if r < 534 then (if r < 533 then 2 else 1) else (if r < 535 then 2 else (if r < 536
     then 1 else 2)))))) else (if r < 570 then (if r < 554 then (if r < 544 then (if r < 539 then
     (if r < 538 then 1 else 2) else (if r < 543 then 1 else 2)) else (if r < 546 then (if r <
     545 then 4 else 2) else (if r < 547 then 3 else (if r < 551 then 2 else 1)))) else (if r <
     560 then (if r < 556 then (if r < 555 then 2 else 1) else (if r < 557 then 3 else (if r <
     559 then 2 else 1))) else (if r < 563 then (if r < 562 then 2 else 1) else (if r < 564 then
     3 else (if r < 566 then 2 else 1))))) else (if r < 588 then (if r < 578 then (if r < 573
     then (if r < 572 then 2 else 1) else (if r < 577 then 2 else 1)) else (if r < 584 then (if r
     < 582 then 2 else 1) else (if r < 585 then 2 else (if r < 586 then 3 else 2)))) else (if r <
     598 then (if r < 594 then (if r < 593 then 1 else 2) else (if r < 595 then 3 else (if r <
     597 then 2 else 1))) else (if r < 600 then (if r < 599 then 4 else 3) else (if r < 602 then
     2 else (if r < 612 then 1 else 2)))))))))"

fun all_low :: "grammar \<Rightarrow> bool" where
  "all_low [] = True"
| "all_low (g # gs) = (if can (low height (height (rule_index g))) (Alt (map snd (rule_alts g)))
     then all_low gs else False)"

lemma all_low_iff: "all_low gs \<longleftrightarrow>
    (\<forall>g \<in> set gs. can (low height (height (rule_index g))) (Alt (map snd (rule_alts g))))"
  by (induction gs) auto

lemmas analysis_eval = number_eval data_eval logic_eval list_eval record_eval
  all_syms.simps all_syms_list.simps all_alts.simps all_rules.simps sym.case
  can.simps can_all.simps can_some.simps low_def all_low.simps

lemmas analysis_opaque = opaque case_opaque sym.case_cong_weak

lemma closed_1: "all_rules closed_alt rules_1"
  by (simp only: analysis_eval closed_alt_def defined_sym_def rules_1_def grammar_rules
      cong: analysis_opaque)

lemma low_1: "all_low rules_1"
  by (simp only: analysis_eval height_def rules_1_def grammar_rules cong: analysis_opaque)

lemma closed_2: "all_rules closed_alt rules_2"
  by (simp only: analysis_eval closed_alt_def defined_sym_def rules_2_def grammar_rules
      cong: analysis_opaque)

lemma low_2: "all_low rules_2"
  by (simp only: analysis_eval height_def rules_2_def grammar_rules cong: analysis_opaque)

lemma closed_3: "all_rules closed_alt rules_3"
  by (simp only: analysis_eval closed_alt_def defined_sym_def rules_3_def grammar_rules
      cong: analysis_opaque)

lemma low_3: "all_low rules_3"
  by (simp only: analysis_eval height_def rules_3_def grammar_rules cong: analysis_opaque)

lemma closed_4: "all_rules closed_alt rules_4"
  by (simp only: analysis_eval closed_alt_def defined_sym_def rules_4_def grammar_rules
      cong: analysis_opaque)

lemma low_4: "all_low rules_4"
  by (simp only: analysis_eval height_def rules_4_def grammar_rules cong: analysis_opaque)

lemma closed_5: "all_rules closed_alt rules_5"
  by (simp only: analysis_eval closed_alt_def defined_sym_def rules_5_def grammar_rules
      cong: analysis_opaque)

lemma low_5: "all_low rules_5"
  by (simp only: analysis_eval height_def rules_5_def grammar_rules cong: analysis_opaque)

lemma closed_6: "all_rules closed_alt rules_6"
  by (simp only: analysis_eval closed_alt_def defined_sym_def rules_6_def grammar_rules
      cong: analysis_opaque)

lemma low_6: "all_low rules_6"
  by (simp only: analysis_eval height_def rules_6_def grammar_rules cong: analysis_opaque)

end
