(* ===== verification/TSql_Header.thy ===== *)
theory TSql_Header
  imports TSql_Productive
begin

text \<open>
  The context classes of \<open>src/port/cpp/TSqlParser.h\<close> against the rules of
  \<open>src/TSqlParser.g4\<close>: the interpretation of the interfaces \<open>productive_grammar\<close> and
  \<open>context_api\<close> on the tables, and what it gives to a client of the classes.
\<close>

lemma tsql_closed:
  "all_rules (\<lambda>_. all_syms (\<lambda>s. case s of Tm _ \<Rightarrow> True | Nt q \<Rightarrow> q \<in> rule_ids tsql_grammar)) tsql_grammar"
proof -
  have "defined_sym s \<Longrightarrow> case s of Tm _ \<Rightarrow> True | Nt q \<Rightarrow> q \<in> rule_ids tsql_grammar" for s
    by (auto simp: defined_sym_def rule_ids_tsql split: sym.splits if_splits)
  moreover have "all_rules closed_alt tsql_grammar"
    by (simp add: tsql_grammar_def closed_1 closed_2 closed_3 closed_4 closed_5 closed_6)
  ultimately show ?thesis
    unfolding all_rules_iff closed_alt_def all_syms_iff by blast
qed

lemma tsql_low: "all_low tsql_grammar"
  using low_1 low_2 low_3 low_4 low_5 low_6 by (auto simp: all_low_iff tsql_grammar_def)

interpretation tsql_rules: productive_grammar tsql_grammar height
  by unfold_locales (use tsql_closed tsql_low in \<open>auto simp: all_low_iff\<close>)

text \<open>The rules whose classes the header does not declare as the grammar has them.\<close>

definition stale_rules :: "rule_id set" where
  "stale_rules = set drifted \<union> set header_only"

lemma described_pair:
  assumes "c \<in> set tsql_classes" and "describes c r l" and "r \<notin> stale_rules"
  obtains g cs where "g \<in> set tsql_grammar" "conforms g cs" "c \<in> set cs" "r = rule_index g"
proof -
  from assms(1) obtain p cs where p: "(p, cs) \<in> set tsql_pairs" "c \<in> set cs"
    unfolding classes_of_pairs by auto
  with tsql_pairs_ok have ok: "pair_ok (p, cs)" by (auto simp: list_all_iff)
  have stale: "class_id c \<noteq> RuleContext q" if "q \<in> stale_rules" for q
    using that assms(2,3) by (cases l) auto
  with ok p(2) obtain g where g: "p = Some g"
    by (cases p) (auto simp: list_all_iff list_ex_iff stale_rules_def)
  with ok p(2) stale have c: "conforms g cs"
    by (auto simp: list_all_iff list_ex_iff stale_rules_def split: if_splits)
  with p(2) assms(2) have "r = rule_index g" by (intro describes_conforms)
  moreover from p(1) g have "g \<in> set tsql_grammar" by (auto simp: grammar_of_pairs in_paired_rules)
  ultimately show thesis using that c p(2) by blast
qed

lemma body_of_rule: "g \<in> set tsql_grammar \<Longrightarrow> body_of tsql_grammar (rule_index g) l = labelled l (rule_alts g)"
  by (simp add: body_of_def alts_of_rule distinct_indices)

lemma tsql_fits:
  assumes "c \<in> set tsql_classes" and "describes c r l" and "r \<notin> stale_rules"
    and "(\<exists>w. lang (body_of tsql_grammar r l) w) \<or> getters (members c) \<noteq> []"
  shows "fits c (body_of tsql_grammar r l)"
proof -
  from assms(1-3) obtain g cs where "g \<in> set tsql_grammar" "conforms g cs" "c \<in> set cs" "r = rule_index g"
    by (rule described_pair)
  with assms(2,4) show ?thesis using fits_conforms by (simp add: body_of_rule)
qed

interpretation tsql: context_api tsql_grammar height tsql_classes stale_rules
  by unfold_locales (rule tsql_fits)

section \<open>Every class once\<close>

text \<open>The classes of rules and the classes of labels come in the order of their numbers.\<close>

fun class_ids_are :: "context_class list \<Rightarrow> rule_id list \<Rightarrow> label_id list \<Rightarrow> bool" where
  "class_ids_are [] rs ls = (rs = [] \<and> ls = [])"
| "class_ids_are (c # cs) rs ls = (case class_id c of
     RuleContext r \<Rightarrow> (case rs of [] \<Rightarrow> False | q # qs \<Rightarrow> if r = q then class_ids_are cs qs ls else False)
   | LabelContext l \<Rightarrow> (case ls of [] \<Rightarrow> False | k # ks \<Rightarrow> if l = k then class_ids_are cs rs ks else False))"

lemma class_ids_are_append:
  "class_ids_are cs rs ls \<Longrightarrow> class_ids_are ds qs ks \<Longrightarrow> class_ids_are (cs @ ds) (rs @ qs) (ls @ ks)"
  by (induction cs rs ls rule: class_ids_are.induct)
     (auto split: class_id.splits list.splits if_splits)

lemma class_ids_mem: "class_ids_are cs rs ls \<Longrightarrow> c \<in> set cs \<Longrightarrow>
    class_id c \<in> RuleContext ` set rs \<union> LabelContext ` set ls"
  by (induction cs rs ls rule: class_ids_are.induct)
     (auto split: class_id.splits list.splits if_splits)

lemma class_ids_distinct:
  "class_ids_are cs rs ls \<Longrightarrow> distinct rs \<Longrightarrow> distinct ls \<Longrightarrow> distinct (map class_id cs)"
proof (induction cs rs ls rule: class_ids_are.induct)
  case (2 c cs rs ls)
  then show ?case
    by (cases "class_id c") (auto split: list.splits if_splits dest!: class_ids_mem)
qed simp

lemmas class_ids_eval = class_ids_are.simps context_classes record_eval number_eval logic_eval
  append.simps upt_rec_numeral Suc_numeral add_num_simps list.distinct

lemma class_ids_1: "class_ids_are classes_1 (0 # 1 # [2..<141]) []"
  by (simp only: class_ids_eval classes_1_def cong: opaque(1) case_opaque)

lemma class_ids_2: "class_ids_are classes_2 [141..<237] []"
  by (simp only: class_ids_eval classes_2_def cong: opaque(1) case_opaque)

lemma class_ids_3: "class_ids_are classes_3 [237..<365] []"
  by (simp only: class_ids_eval classes_3_def cong: opaque(1) case_opaque)

lemma class_ids_4: "class_ids_are classes_4 [365..<488] []"
  by (simp only: class_ids_eval classes_4_def cong: opaque(1) case_opaque)

lemma class_ids_5: "class_ids_are classes_5 [488..<527] (0 # 1 # [2..<207])"
  by (simp only: class_ids_eval classes_5_def cong: opaque(1) case_opaque)

lemma class_ids_6: "class_ids_are classes_6 [527..<612] []"
  by (simp only: class_ids_eval classes_6_def cong: opaque(1) case_opaque)

lemma tsql_class_ids:
  "class_ids_are tsql_classes
     ((0 # 1 # [2..<141]) @ [141..<237] @ [237..<365] @ [365..<488] @ [488..<527] @ [527..<612])
     ([] @ [] @ [] @ [] @ (0 # 1 # [2..<207]) @ [])"
  unfolding tsql_classes_def
  by (rule class_ids_are_append [OF class_ids_1 class_ids_are_append [OF class_ids_2
    class_ids_are_append [OF class_ids_3 class_ids_are_append [OF class_ids_4
    class_ids_are_append [OF class_ids_5 class_ids_6]]]]])

lemma distinct_class_ids: "distinct (map class_id tsql_classes)"
  by (rule class_ids_distinct [OF tsql_class_ids]) (auto simp del: upt_rec_numeral)

lemma described_unique:
  assumes "c \<in> set tsql_classes" "d \<in> set tsql_classes" "describes c r l" "describes d r l"
  shows "c = d"
proof -
  from assms(3,4) have "class_id c = class_id d" by (cases l) auto
  with assms(1,2) distinct_class_ids show ?thesis by (metis distinct_map inj_onD)
qed

end
