(* ===== verification/TSql_Drift.thy ===== *)
theory TSql_Drift
  imports TSql_Header
begin

text \<open>
  The classes of \<open>port/cpp/TSqlParser.h\<close> that were not generated from the grammar next to it: which
  nodes of the grammar they describe, and what still holds for them.
\<close>

lemmas member_tables = tsql_grammar_def rules_1_def rules_2_def rules_3_def rules_4_def
  rules_5_def rules_6_def tsql_classes_def classes_1_def classes_2_def classes_3_def classes_4_def
  classes_5_def classes_6_def

lemmas stale_rules_eq = stale_rules_def drifted_def header_only_def

section \<open>Which nodes have an old class\<close>

lemma header_rule_unused:
  assumes "valid tsql_grammar (Node r l ts)"
  shows "r \<noteq> RuleBatch" "r \<noteq> RuleNon_ansi_join"
proof -
  from assms have "r \<in> rule_ids tsql_grammar"
    by (auto simp: body_of_def lang_labelled alts_of_in rule_ids_def)
  then show "r \<noteq> RuleBatch" "r \<noteq> RuleNon_ansi_join" by (auto simp: rule_ids_tsql)
qed

lemma class_index_bound:
  assumes "c \<in> set tsql_classes" and "class_id c = RuleContext r"
  shows "r < 612"
  using class_ids_mem [OF tsql_class_ids assms(1)] assms(2) by (auto simp del: upt_rec_numeral)

text \<open>The rules the grammar has gained since then have no class.\<close>

lemma new_rule_no_class:
  assumes "c \<in> set tsql_classes" and "describes c r None"
  shows "r \<noteq> RuleBatch_without_go" "r \<noteq> RuleDotID" "r \<noteq> RuleDoubleDotID"
  using class_index_bound [OF assms(1)] assms(2) by fastforce+

lemma label_class_not_stale:
  assumes "c \<in> set tsql_classes" and "describes c r (Some x)"
  shows "r \<notin> stale_rules"
proof -
  from assms(1) obtain p cs where p: "(p, cs) \<in> set tsql_pairs" "c \<in> set cs"
    unfolding classes_of_pairs by auto
  with tsql_pairs_ok have ok: "pair_ok (p, cs)" by (auto simp: list_all_iff)
  have id: "class_id c \<noteq> RuleContext q" for q using assms(2) by simp
  with ok p(2) obtain g where g: "p = Some g"
    by (cases p) (auto simp: list_all_iff list_ex_iff)
  with ok p(2) id have c: "conforms g cs" "rule_index g \<notin> set drifted"
    by (auto simp: list_all_iff list_ex_iff split: if_splits)
  with p(2) assms(2) have r: "r = rule_index g" by (intro describes_conforms)
  from p(1) g have "g \<in> set tsql_grammar" by (auto simp: grammar_of_pairs in_paired_rules)
  then have "r \<in> rule_ids tsql_grammar" by (simp add: r rule_ids_def)
  then have "r \<notin> set header_only" by (auto simp: rule_ids_tsql header_only_def)
  with c(2) r show ?thesis by (simp add: stale_rules_def)
qed

lemma unlabelled_node:
  assumes "g \<in> set tsql_grammar" and "list_all (\<lambda>a. fst a = None) (rule_alts g)"
    and "valid tsql_grammar (Node (rule_index g) l ts)"
  shows "l = None \<and> lang (labelled None (rule_alts g)) (map root ts)"
proof -
  from assms(1,3) have body: "lang (labelled l (rule_alts g)) (map root ts)" by (simp add: body_of_rule)
  then obtain e where "(l, e) \<in> set (rule_alts g)" by (auto simp: lang_labelled)
  with assms(2) have "l = None" by (auto simp: list_all_iff)
  with body show ?thesis by simp
qed

text \<open>The seven rules of the grammar among the stale ones, and what a node of them is built from.\<close>

lemma drifted_rules:
  "g_tsql_file \<in> set tsql_grammar" "g_batch_without_go \<in> set tsql_grammar"
  "g_insert_statement_value \<in> set tsql_grammar" "g_table_sources \<in> set tsql_grammar"
  "g_full_table_name \<in> set tsql_grammar" "g_dotID \<in> set tsql_grammar" "g_doubleDotID \<in> set tsql_grammar"
  by (simp_all add: member_tables)

lemma drifted_classes:
  "Tsql_fileContext \<in> set tsql_classes" "Insert_statement_valueContext \<in> set tsql_classes"
  "Table_sourcesContext \<in> set tsql_classes" "Full_table_nameContext \<in> set tsql_classes"
  by (simp_all add: member_tables)

lemmas drifted_defs = g_tsql_file_def g_batch_without_go_def g_insert_statement_value_def
  g_table_sources_def g_full_table_name_def g_dotID_def g_doubleDotID_def

lemmas drifted_class_defs = Tsql_fileContext_def Insert_statement_valueContext_def
  Table_sourcesContext_def Full_table_nameContext_def

lemma drifted_unlabelled:
  assumes "g \<in> {g_tsql_file, g_batch_without_go, g_insert_statement_value, g_table_sources,
      g_full_table_name, g_dotID, g_doubleDotID}"
    and "valid tsql_grammar (Node (rule_index g) l ts)"
  shows "l = None \<and> lang (labelled None (rule_alts g)) (map root ts)"
proof (rule unlabelled_node [OF _ _ assms(2)])
  show "g \<in> set tsql_grammar" using assms(1) drifted_rules by auto
  show "list_all (\<lambda>a. fst a = None) (rule_alts g)" using assms(1) by (auto simp: drifted_defs)
qed

lemma drifted_index:
  "rule_index g_tsql_file = RuleTsql_file" "rule_index g_batch_without_go = RuleBatch_without_go"
  "rule_index g_insert_statement_value = RuleInsert_statement_value"
  "rule_index g_table_sources = RuleTable_sources" "rule_index g_full_table_name = RuleFull_table_name"
  "rule_index g_dotID = RuleDotID" "rule_index g_doubleDotID = RuleDoubleDotID"
  by (simp_all add: drifted_defs)

lemma drifted_cases:
  assumes "r \<in> stale_rules" and "valid tsql_grammar (Node r l ts)"
  obtains g where "g \<in> {g_tsql_file, g_batch_without_go, g_insert_statement_value, g_table_sources,
      g_full_table_name, g_dotID, g_doubleDotID}" "r = rule_index g"
  using assms(1) header_rule_unused [OF assms(2)] by (auto simp: stale_rules_eq drifted_index [symmetric])

lemma stale_node:
  assumes "c \<in> set tsql_classes" and "describes c r l" and "r \<in> stale_rules"
    and "valid tsql_grammar (Node r l ts)"
  obtains g where "r = rule_index g" "l = None" "lang (labelled None (rule_alts g)) (map root ts)"
    "(g, c) \<in> {(g_tsql_file, Tsql_fileContext), (g_insert_statement_value, Insert_statement_valueContext),
      (g_table_sources, Table_sourcesContext), (g_full_table_name, Full_table_nameContext)}"
proof -
  obtain g where g: "g \<in> {g_tsql_file, g_batch_without_go, g_insert_statement_value, g_table_sources,
      g_full_table_name, g_dotID, g_doubleDotID}" "r = rule_index g"
    using drifted_cases [OF assms(3,4)] .
  with assms(4) have l: "l = None" "lang (labelled None (rule_alts g)) (map root ts)"
    using drifted_unlabelled by blast+
  have "c = d" if "d \<in> set tsql_classes" "class_id d = RuleContext r" for d
    using described_unique [OF assms(1) that(1) assms(2)] l(1) that(2) by simp
  moreover have "class_id Tsql_fileContext = RuleContext RuleTsql_file"
    "class_id Insert_statement_valueContext = RuleContext RuleInsert_statement_value"
    "class_id Table_sourcesContext = RuleContext RuleTable_sources"
    "class_id Full_table_nameContext = RuleContext RuleFull_table_name"
    by (simp_all add: drifted_class_defs)
  moreover have "r \<noteq> RuleBatch_without_go" "r \<noteq> RuleDotID" "r \<noteq> RuleDoubleDotID"
    using new_rule_no_class [OF assms(1)] assms(2) l(1) by simp_all
  ultimately show thesis
    using that [of g] g l drifted_classes unfolding drifted_index [symmetric] by blast
qed

section \<open>What still holds\<close>

lemma stale_single_getter:
  assumes "(g, c) \<in> {(g_tsql_file, Tsql_fileContext), (g_insert_statement_value, Insert_statement_valueContext),
      (g_table_sources, Table_sourcesContext), (g_full_table_name, Full_table_nameContext)}"
    and "m \<in> set (members c)" and "getter m = Some (s, One)"
  shows "mult_of (labelled None (rule_alts g)) s \<noteq> Some Many"
  using assms by (auto simp: drifted_defs drifted_class_defs labelled_def)

lemma stale_child_getter:
  assumes "(g, c) \<in> {(g_insert_statement_value, Insert_statement_valueContext),
      (g_table_sources, Table_sourcesContext)}"
    and "mentions (labelled None (rule_alts g)) s"
  shows "\<exists>m \<in> set (members c). \<exists>k. getter m = Some (s, k)"
  using assms by (auto simp: drifted_defs drifted_class_defs labelled_def)

lemma stale_fields:
  assumes "(g, c) \<in> {(g_tsql_file, Tsql_fileContext), (g_insert_statement_value, Insert_statement_valueContext),
      (g_table_sources, Table_sourcesContext)}"
  shows "declared_fields (members c) = label_fields (labelled None (rule_alts g))"
    and "inhabited (labelled None (rule_alts g))"
  using assms by (auto simp: drifted_defs drifted_class_defs labelled_def declared_fields_def label_fields_def
      dedup_def)

lemma stale_notified:
  assumes "(g, c) \<in> {(g_tsql_file, Tsql_fileContext), (g_insert_statement_value, Insert_statement_valueContext),
      (g_table_sources, Table_sourcesContext), (g_full_table_name, Full_table_nameContext)}"
  shows "EnterRule \<in> set (members c)"
  using assms by (auto simp: drifted_class_defs)

text \<open>A class describes every node, except for the nodes of the three new rules.\<close>

lemma stale_node_class:
  assumes "valid tsql_grammar (Node r l ts)" and "r \<in> stale_rules"
  shows "(\<exists>c \<in> set tsql_classes. describes c r l)
    \<longleftrightarrow> r \<notin> {RuleBatch_without_go, RuleDotID, RuleDoubleDotID}"
proof -
  obtain g where g: "g \<in> {g_tsql_file, g_batch_without_go, g_insert_statement_value, g_table_sources,
      g_full_table_name, g_dotID, g_doubleDotID}" "r = rule_index g"
    using drifted_cases [OF assms(2,1)] .
  with assms(1) have l: "l = None" using drifted_unlabelled by blast
  have "describes Tsql_fileContext RuleTsql_file None"
    "describes Insert_statement_valueContext RuleInsert_statement_value None"
    "describes Table_sourcesContext RuleTable_sources None"
    "describes Full_table_nameContext RuleFull_table_name None"
    by (simp_all add: drifted_class_defs)
  moreover have "\<not> describes c RuleBatch_without_go None" "\<not> describes c RuleDotID None"
    "\<not> describes c RuleDoubleDotID None" if "c \<in> set tsql_classes" for c
    using new_rule_no_class [OF that] by blast+
  ultimately show ?thesis
    using g l drifted_classes by (auto simp: drifted_index simp del: describes.simps)
qed

end
