(* ===== verification/TSql_API.thy ===== *)
theory TSql_API
  imports TSql_Drift
begin

text \<open>
  What a client of the C++ classes can rely on, for the nodes of every parse tree of the
  grammar.  The exceptions, which stem from the older grammar the classes were generated from, are
  named in each theorem.
\<close>

text \<open>Evaluating the children a rule may have, for the witnesses below.\<close>

lemma valid_rule:
  "g \<in> set tsql_grammar \<Longrightarrow> rule_index g = r \<Longrightarrow>
   valid tsql_grammar (Node r l ts) \<longleftrightarrow>
     accepts (labelled l (rule_alts g)) (map root ts) \<and> list_all (valid tsql_grammar) ts"
  by (auto simp: accepts_iff list_all_iff simp flip: body_of_rule)

text \<open>
  C2: A getter that returns one child (\<open>TerminalNode *X()\<close>, \<open>XContext *x()\<close>) never hides a
  second one: in every parse tree, a node of the class has at most one such child.  This holds for
  all classes, also for those of an older grammar.
\<close>

theorem single_getter_unique:
  assumes "c \<in> set tsql_classes" and "describes c r l"
    and "valid tsql_grammar (Node r l ts)" and "m \<in> set (members c)" and "getter m = Some (s, One)"
  shows "count_list (map root ts) s \<le> 1"
proof (cases "r \<in> stale_rules")
  case True
  obtain g where g: "lang (labelled None (rule_alts g)) (map root ts)"
    "(g, c) \<in> {(g_tsql_file, Tsql_fileContext), (g_insert_statement_value, Insert_statement_valueContext),
      (g_table_sources, Table_sourcesContext), (g_full_table_name, Full_table_nameContext)}"
    using stale_node [OF assms(1,2) True assms(3)] by metis
  from mult_of_sound [OF g(1), of s] stale_single_getter [OF g(2) assms(4,5)] show ?thesis
    by (auto elim: within.elims)
next
  case False
  with assms show ?thesis by (blast intro: tsql.single_getter)
qed

text \<open>The node of \<open>;\<close> as a statement: its class has the getter \<open>SEMI()\<close>.\<close>

definition semi_node :: tree where
  "semi_node = Node RuleSql_clauses None [Leaf T_SEMI]"

lemma semi_node_valid: "valid tsql_grammar semi_node"
  unfolding semi_node_def
  by (subst valid_rule [of g_sql_clauses])
     (simp_all add: member_tables g_sql_clauses_def labelled_def)

lemma semi_node_class:
  "Sql_clausesContext \<in> set tsql_classes" "describes Sql_clausesContext RuleSql_clauses None"
  "RuleSql_clauses \<notin> stale_rules" "TerminalGet T_SEMI \<in> set (members Sql_clausesContext)"
  by (simp_all add: member_tables Sql_clausesContext_def stale_rules_eq)

theorem single_getter_unique_witness:
  "count_list (map root [Leaf T_SEMI]) (Tm T_SEMI) \<le> 1"
  by (rule single_getter_unique [OF semi_node_class(1,2) semi_node_valid [unfolded semi_node_def]
        semi_node_class(4)]) simp



text \<open>
  C3: The getters of a class are those the right-hand side of its rule calls for: the class has a
  getter for a token or a rule exactly if some derivation gives a node of the class such a child,
  and the getter returns a vector exactly if some derivation gives it two of them.  The classes of
  six rules are not covered, because the grammar of these rules has changed since the header was
  generated: \<open>tsql_file\<close>, \<open>batch\<close>, \<open>insert_statement_value\<close>, \<open>table_sources\<close>, \<open>non_ansi_join\<close> and
  \<open>full_table_name\<close>.  Derivations are those of the grammar as it is written; which one the parser
  builds for an ambiguous text is not considered (see C37).
\<close>

theorem getters_exact:
  assumes "c \<in> set tsql_classes" and "describes c r l"
    and "r \<notin> {RuleTsql_file, RuleBatch, RuleInsert_statement_value, RuleTable_sources, RuleNon_ansi_join,
      RuleFull_table_name}"
  shows "(\<exists>m \<in> set (members c). getter m = Some (s, k)) \<longleftrightarrow>
     (\<exists>ts. valid tsql_grammar (Node r l ts) \<and> s \<in> set (map root ts))
     \<and> (k = Many \<longleftrightarrow> (\<exists>ts. valid tsql_grammar (Node r l ts) \<and> 2 \<le> count_list (map root ts) s))"
    (is "?getter k \<longleftrightarrow> ?child \<and> (k = Many \<longleftrightarrow> ?two)")
proof -
  have r: "r \<notin> stale_rules"
  proof (cases l)
    case None
    with assms new_rule_no_class [OF assms(1), of r] show ?thesis by (auto simp: stale_rules_eq)
  next
    case (Some x)
    with assms(1,2) label_class_not_stale show ?thesis by metis
  qed
  have only: "?child \<and> (k = Many \<longleftrightarrow> ?two)" if getter: "?getter k" for k
  proof -
    from getter obtain m where m: "m \<in> set (members c)" "getter m = Some (s, k)" by blast
    from tsql.getter_reached [OF assms(1,2) r m] obtain ts where
      ts: "valid tsql_grammar (Node r l ts)" "reached (Some k) \<le> count_list (map root ts) s" by blast
    from ts(2) have "0 < count_list (map root ts) s" by (cases k) auto
    then have "s \<in> set (map root ts)" by (simp only: count_list_pos_iff)
    moreover have "k = Many \<Longrightarrow> ?two" using ts by auto
    moreover have "\<not> ?two" if "k = One"
      using tsql.single_getter [OF assms(1,2) r _ m(1) m(2) [unfolded that]] by force
    ultimately show ?thesis using ts(1) by (cases k) auto
  qed
  show ?thesis
  proof
    assume right: "?child \<and> (k = Many \<longleftrightarrow> ?two)"
    then obtain ts t where "valid tsql_grammar (Node r l ts)" "t \<in> set ts" "root t = s" by auto
    with tsql.child_getter [OF assms(1,2) r] obtain j where "?getter j" by metis
    moreover from only [OF this] right have "j = k" by (cases j; cases k) blast+
    ultimately show "?getter k" by simp
  qed (rule only)
qed

theorem getters_exact_witness:
  "(\<exists>m \<in> set (members Sql_clausesContext). getter m = Some (Tm T_SEMI, One)) \<longleftrightarrow>
     (\<exists>ts. valid tsql_grammar (Node RuleSql_clauses None ts) \<and> Tm T_SEMI \<in> set (map root ts))
     \<and> (One = Many \<longleftrightarrow> (\<exists>ts. valid tsql_grammar (Node RuleSql_clauses None ts)
          \<and> 2 \<le> count_list (map root ts) (Tm T_SEMI)))"
  by (rule getters_exact [OF semi_node_class(1,2)]) simp

section \<open>Getters of lists\<close>

lemma paired_iff:
  "paired ms \<Longrightarrow> (\<exists>m \<in> set ms. list_getter m = Some s) \<longleftrightarrow> (\<exists>m \<in> set ms. nth_getter m = Some s)"
proof (induction ms rule: paired.induct)
  case (3 m n ms)
  have "list_getter n = None" if "nth_getter n = Some k" for k
    using that by (cases n) auto
  moreover have "nth_getter m = None" if "list_getter m = Some k" for k
    using that by (cases m) auto
  ultimately show ?case using 3 by (cases "list_getter m") auto
qed auto

fun all_paired :: "context_class list \<Rightarrow> bool" where
  "all_paired [] = True"
| "all_paired (c # cs) = (if paired (members c) then all_paired cs else False)"

lemma all_paired_iff: "all_paired cs \<longleftrightarrow> (\<forall>c \<in> set cs. paired (members c))"
  by (induction cs) auto

lemmas paired_eval = all_paired.simps accessor_eval context_classes record_eval number_eval data_eval
  logic_eval

lemma all_paired_1: "all_paired classes_1"
  by (simp only: paired_eval classes_1_def cong: opaque case_opaque)

lemma all_paired_2: "all_paired classes_2"
  by (simp only: paired_eval classes_2_def cong: opaque case_opaque)

lemma all_paired_3: "all_paired classes_3"
  by (simp only: paired_eval classes_3_def cong: opaque case_opaque)

lemma all_paired_4: "all_paired classes_4"
  by (simp only: paired_eval classes_4_def cong: opaque case_opaque)

lemma all_paired_5: "all_paired classes_5"
  by (simp only: paired_eval classes_5_def cong: opaque case_opaque)

lemma all_paired_6: "all_paired classes_6"
  by (simp only: paired_eval classes_6_def cong: opaque case_opaque)

text \<open>
  In every class of the header, a getter that returns a vector comes with an overload that
  takes an index, and the other way round.
\<close>

theorem list_getters_indexed:
  assumes "c \<in> set tsql_classes"
  shows "(\<exists>m \<in> set (members c). list_getter m = Some s) \<longleftrightarrow> (\<exists>m \<in> set (members c). nth_getter m = Some s)"
proof (rule paired_iff)
  show "paired (members c)"
    using assms all_paired_1 all_paired_2 all_paired_3 all_paired_4 all_paired_5 all_paired_6
    unfolding all_paired_iff tsql_classes_def by auto
qed

theorem list_getters_indexed_witness:
  "(\<exists>m \<in> set (members Full_table_nameContext). list_getter m = Some (Nt RuleId'))
    \<longleftrightarrow> (\<exists>m \<in> set (members Full_table_nameContext). nth_getter m = Some (Nt RuleId'))"
  by (rule list_getters_indexed) (simp add: member_tables)

end
