(* ===== verification/Yields.thy ===== *)
theory Yields
  imports Derivation
begin

text \<open>
  What the trees of a grammar yield, reduced to checks of the right-hand sides: which rules
  can yield nothing, which rules a recursive-descent parser can enter again without having
  consumed a token, where the end of the input is, and that brackets are balanced.
\<close>

section \<open>Rules that yield nothing\<close>

definition vanishing :: "(rule_id \<Rightarrow> bool) \<Rightarrow> sym \<Rightarrow> bool" where
  "vanishing N s = (case s of Tm t \<Rightarrow> False | Nt r \<Rightarrow> N r)"

definition empties :: "grammar \<Rightarrow> sym \<Rightarrow> bool" where
  "empties G s \<longleftrightarrow> (\<exists>t. valid G t \<and> root t = s \<and> yield t = [])"

lemma vanishing_simps [simp]: "\<not> vanishing N (Tm t)" "vanishing N (Nt r) \<longleftrightarrow> N r"
  by (simp_all add: vanishing_def)

lemma list_all2_every: "list_all2 P xs ys \<Longrightarrow> x \<in> set xs \<Longrightarrow> \<exists>y \<in> set ys. P x y"
  by (induction rule: list_all2_induct) auto

locale nullable_bound =
  fixes G :: grammar and N :: "rule_id \<Rightarrow> bool"
  assumes nullable_rules: "all_rules (\<lambda>r e. if can (vanishing N) e then N r else True) G"

sublocale nullable_bound \<subseteq> empty: yield_invariant G "\<lambda>s us. us = [] \<longrightarrow> vanishing N s"
proof
  fix r l w us
  assume body: "lang (body_of G r l) w"
    and inv: "list_all2 (\<lambda>s us. us = [] \<longrightarrow> vanishing N s) w (us :: token list list)"
  obtain e where e: "lang e w" "can (vanishing N) e \<Longrightarrow> N r"
    using all_rules_body [OF nullable_rules body] by metis
  show "concat us = [] \<longrightarrow> vanishing N (Nt r)"
  proof
    assume "concat us = []"
    with inv have "\<forall>s \<in> set w. vanishing N s" by (auto dest!: list_all2_every)
    with e show "vanishing N (Nt r)" by (auto simp: can_iff)
  qed
qed simp

context nullable_bound
begin

lemma empties_vanishing: "empties G s \<Longrightarrow> vanishing N s"
  unfolding empties_def using empty.holds by blast

lemma nonempty: "valid G t \<Longrightarrow> \<not> vanishing N (root t) \<Longrightarrow> yield t \<noteq> []"
  using empty.holds by blast

end

section \<open>Loops\<close>

text \<open>The bodies of the suffixes \<open>*\<close> and \<open>+\<close> inside an expression.\<close>

inductive loop_body :: "ebnf \<Rightarrow> ebnf \<Rightarrow> bool" where
  "loop_body (Star b) b"
| "loop_body (Plus b) b"
| "loop_body e b \<Longrightarrow> loop_body (Lab l e) b"
| "e \<in> set es \<Longrightarrow> loop_body e b \<Longrightarrow> loop_body (Seq es) b"
| "e \<in> set es \<Longrightarrow> loop_body e b \<Longrightarrow> loop_body (Alt es) b"
| "loop_body e b \<Longrightarrow> loop_body (Opt e) b"
| "loop_body e b \<Longrightarrow> loop_body (Star e) b"
| "loop_body e b \<Longrightarrow> loop_body (Plus e) b"

inductive_cases loop_body_AltE: "loop_body (Alt es) b"

fun loops_ok :: "(sym \<Rightarrow> bool) \<Rightarrow> ebnf \<Rightarrow> bool"
  and loops_ok_list :: "(sym \<Rightarrow> bool) \<Rightarrow> ebnf list \<Rightarrow> bool" where
  "loops_ok V (Sym s) = True"
| "loops_ok V (Lab l e) = loops_ok V e"
| "loops_ok V (Seq es) = loops_ok_list V es"
| "loops_ok V (Alt es) = loops_ok_list V es"
| "loops_ok V (Opt e) = loops_ok V e"
| "loops_ok V (Star e) = (if can V e then False else loops_ok V e)"
| "loops_ok V (Plus e) = (if can V e then False else loops_ok V e)"
| "loops_ok_list V [] = True"
| "loops_ok_list V (e # es) = (if loops_ok V e then loops_ok_list V es else False)"

lemma loops_ok_list_iff: "loops_ok_list V es \<longleftrightarrow> (\<forall>e \<in> set es. loops_ok V e)"
  by (induction es) auto

lemma loop_body_consumes: "loop_body e b \<Longrightarrow> loops_ok V e \<Longrightarrow> \<not> can V b"
  by (induction rule: loop_body.induct) (auto simp: loops_ok_list_iff split: if_splits)

locale progressing = nullable_bound +
  assumes loop_rules: "all_rules (\<lambda>_. loops_ok (vanishing N)) G"
begin

lemma loop_progress:
  assumes "loop_body (body_of G r l) b" and "lang b (map root ts)" and "\<forall>t \<in> set ts. valid G t"
  shows "concat (map yield ts) \<noteq> []"
proof
  assume "concat (map yield ts) = []"
  with assms(3) have "\<forall>s \<in> set (map root ts). vanishing N s" by (auto intro!: empties_vanishing simp: empties_def; blast)
  with assms(2) have "can (vanishing N) b" unfolding can_iff by blast
  moreover obtain e where "(l, e) \<in> set (alts_of G r)" "loop_body e b"
    using assms(1) by (auto simp: body_of_def labelled_def set_select_label elim: loop_body_AltE)
  moreover from this have "loops_ok (vanishing N) e"
    using loop_rules by (fastforce simp: all_rules_iff alts_of_in)
  ultimately show False using loop_body_consumes by blast
qed

end

section \<open>Left calls\<close>

text \<open>
  The function of a rule calls the function of another before any token is consumed when the
  other rule comes after symbols that yield nothing.
\<close>

definition left_call :: "grammar \<Rightarrow> rule_id \<Rightarrow> rule_id \<Rightarrow> bool" where
  "left_call G r q \<longleftrightarrow>
     (\<exists>l u v. lang (body_of G r l) (u @ Nt q # v) \<and> (\<forall>s \<in> set u. empties G s))"

lemma left_call_self: "lang (body_of G r l) (Nt q # v) \<Longrightarrow> left_call G r q"
  unfolding left_call_def by (intro exI [of _ l] exI [of _ "[]"] exI [of _ v]) simp

fun all_left :: "(sym \<Rightarrow> bool) \<Rightarrow> (sym \<Rightarrow> bool) \<Rightarrow> ebnf \<Rightarrow> bool"
  and all_left_seq :: "(sym \<Rightarrow> bool) \<Rightarrow> (sym \<Rightarrow> bool) \<Rightarrow> ebnf list \<Rightarrow> bool"
  and all_left_alt :: "(sym \<Rightarrow> bool) \<Rightarrow> (sym \<Rightarrow> bool) \<Rightarrow> ebnf list \<Rightarrow> bool" where
  "all_left V P (Sym s) = P s"
| "all_left V P (Lab l e) = all_left V P e"
| "all_left V P (Seq es) = all_left_seq V P es"
| "all_left V P (Alt es) = all_left_alt V P es"
| "all_left V P (Opt e) = all_left V P e"
| "all_left V P (Star e) = all_left V P e"
| "all_left V P (Plus e) = all_left V P e"
| "all_left_seq V P [] = True"
| "all_left_seq V P (e # es) =
     (if all_left V P e then (if can V e then all_left_seq V P es else True) else False)"
| "all_left_alt V P [] = True"
| "all_left_alt V P (e # es) = (if all_left V P e then all_left_alt V P es else False)"

lemma all_left_alt_iff: "all_left_alt V P es \<longleftrightarrow> (\<forall>e \<in> set es. all_left V P e)"
  by (induction es) auto

text \<open>A symbol after vanishing ones, in a concatenation.\<close>

lemma left_append:
  assumes "u @ s # v = x @ y"
  shows "(\<exists>z. x = u @ s # z) \<or> (\<exists>z. u = x @ z \<and> y = z @ s # v)"
  using assms by (auto simp: append_eq_append_conv2 Cons_eq_append_conv)

definition first_after :: "(sym \<Rightarrow> bool) \<Rightarrow> (sym \<Rightarrow> bool) \<Rightarrow> sym list \<Rightarrow> bool" where
  "first_after V P w \<longleftrightarrow> (\<forall>u s v. w = u @ s # v \<longrightarrow> (\<forall>x \<in> set u. V x) \<longrightarrow> P s)"

lemma first_after_append:
  assumes "first_after V P x" and "(\<forall>s \<in> set x. V s) \<Longrightarrow> first_after V P y"
  shows "first_after V P (x @ y)"
  unfolding first_after_def
proof (intro allI impI)
  fix u s v assume "x @ y = u @ s # v" and u: "\<forall>z \<in> set u. V z"
  then consider z where "x = u @ s # z" | z where "u = x @ z" "y = z @ s # v"
    using left_append by metis
  then show "P s"
  proof cases
    case 1
    with assms(1) u show ?thesis unfolding first_after_def by blast
  next
    case (2 z)
    with u have "\<forall>s \<in> set x. V s" "\<forall>s \<in> set z. V s" by auto
    with assms(2) 2 show ?thesis unfolding first_after_def by blast
  qed
qed

lemma first_after_single [simp]: "first_after V P []" "first_after V P [s] \<longleftrightarrow> P s"
  by (auto simp: first_after_def Cons_eq_append_conv)

lemma gen_all_left:
  "gen e cs \<Longrightarrow> all_left V P e \<Longrightarrow> first_after V P (map fst cs)"
  "gens es cs \<Longrightarrow> all_left_seq V P es \<Longrightarrow> first_after V P (map fst cs)"
proof (induction rule: gen_gens.inducts)
  case (gens_Cons e u es v)
  have "can V e" if "\<forall>s \<in> set (map fst u). V s"
    using that gens_Cons.hyps(1) by (intro gen_can(1)) auto
  with gens_Cons show ?case by (auto intro!: first_after_append split: if_splits)
qed (auto simp: all_left_alt_iff intro!: first_after_append)

lemma all_left_word:
  assumes "all_left V P e" and "lang e (u @ s # v)" and "\<forall>x \<in> set u. V x"
  shows "P s"
proof -
  from assms(2) obtain cs where "gen e cs" "map fst cs = u @ s # v" by (auto simp: lang_def)
  with gen_all_left(1) [OF this(1) assms(1)] assms(3) show ?thesis
    unfolding first_after_def by blast
qed

text \<open>
  Rules with a rank that every left call decreases, except for calls of a rule to itself
  where these are allowed.
\<close>

definition descends :: "(rule_id \<Rightarrow> nat) \<Rightarrow> (rule_id \<Rightarrow> bool) \<Rightarrow> rule_id \<Rightarrow> sym \<Rightarrow> bool" where
  "descends rank self r s =
     (case s of Tm t \<Rightarrow> True | Nt q \<Rightarrow> if q = r then self r else rank q < rank r)"

locale left_bounded = nullable_bound +
  fixes rank :: "rule_id \<Rightarrow> nat" and self :: "rule_id \<Rightarrow> bool"
  assumes left_rules: "all_rules (\<lambda>r. all_left (vanishing N) (descends rank self r)) G"
begin

lemma left_call_descends: "left_call G r q \<Longrightarrow> (if q = r then self r else rank q < rank r)"
proof -
  assume "left_call G r q"
  then obtain l u v where body: "lang (body_of G r l) (u @ Nt q # v)"
    and u: "\<forall>s \<in> set u. empties G s" unfolding left_call_def by blast
  obtain e where "lang e (u @ Nt q # v)" "all_left (vanishing N) (descends rank self r) e"
    using all_rules_body [OF left_rules body] by metis
  with u have "descends rank self r (Nt q)"
    by (blast intro: all_left_word empties_vanishing)
  then show ?thesis by (simp add: descends_def)
qed

lemma left_calls_descend:
  "(left_call G)\<^sup>+\<^sup>+ r q \<Longrightarrow> (q = r \<and> left_call G r r) \<or> rank q < rank r"
proof (induction rule: tranclp_induct)
  case (base q)
  then show ?case using left_call_descends [of r q] by (auto split: if_splits)
next
  case (step q p)
  then show ?case using left_call_descends [of q p] by (auto split: if_splits)
qed

lemma only_direct: "(left_call G)\<^sup>+\<^sup>+ r r \<Longrightarrow> left_call G r r \<and> self r"
  using left_calls_descend [of r r] left_call_descends [of r r] by auto

text \<open>There is no endless chain of calls of other rules without a token in between.\<close>

lemma left_calls_end: "wfp (\<lambda>q r. left_call G r q \<and> q \<noteq> r)"
proof (rule wfp_subset)
  show "wfp (\<lambda>q r. rank q < rank r)" by (simp add: wfp_if_convertible_to_nat)
  show "(\<lambda>q r. left_call G r q \<and> q \<noteq> r) \<le> (\<lambda>q r. rank q < rank r)"
    by (auto dest: left_call_descends)
qed

end

section \<open>The end of the input\<close>

text \<open>A token that is the last one of one rule and occurs nowhere else.\<close>

fun stops :: "(sym \<Rightarrow> bool) \<Rightarrow> sym \<Rightarrow> ebnf \<Rightarrow> bool" where
  "stops P s (Seq [e]) = is_sym e s"
| "stops P s (Seq (e # f # es)) = (if all_syms P e then stops P s (Seq (f # es)) else False)"
| "stops P s e = False"

lemma stops_word: "stops P s e \<Longrightarrow> lang e w \<Longrightarrow> \<exists>u. w = u @ [s] \<and> (\<forall>x \<in> set u. P x)"
proof (induction P s e arbitrary: w rule: stops.induct)
  case (2 P s e f es)
  then obtain u v where "w = u @ v" "lang e u" "lang (Seq (f # es)) v" by auto
  with 2 obtain v' where "v = v' @ [s]" "\<forall>x \<in> set v'. P x" by (auto split: if_splits)
  moreover have "\<forall>x \<in> set u. P x"
    using 2(2) \<open>lang e u\<close> by (auto simp: all_syms_iff dest: lang_mentions split: if_splits)
  ultimately show ?case using \<open>w = u @ v\<close> by auto
qed (auto simp: is_sym_iff)

definition other_than :: "token \<Rightarrow> rule_id \<Rightarrow> sym \<Rightarrow> bool" where
  "other_than stop main s = (case s of Tm t \<Rightarrow> t \<noteq> stop | Nt r \<Rightarrow> r \<noteq> main)"

definition ended_by :: "token \<Rightarrow> rule_id \<Rightarrow> sym \<Rightarrow> token list \<Rightarrow> bool" where
  "ended_by stop main s us = (if s = Tm stop then us = [stop]
     else if s = Nt main then (\<exists>v. us = v @ [stop] \<and> stop \<notin> set v) else stop \<notin> set us)"

lemma ended_by_others:
  "list_all2 (ended_by stop main) w us \<Longrightarrow> \<forall>s \<in> set w. other_than stop main s \<Longrightarrow> stop \<notin> set (concat us)"
  by (induction rule: list_all2_induct) (auto simp: ended_by_def other_than_def split: sym.splits)

locale ended_grammar =
  fixes G :: grammar and stop :: token and main :: rule_id
  assumes end_rules: "all_rules (\<lambda>r e. if r = main then stops (other_than stop main) (Tm stop) e
      else all_syms (other_than stop main) e) G"

sublocale ended_grammar \<subseteq> ended: yield_invariant G "ended_by stop main"
proof
  fix r l w us
  assume body: "lang (body_of G r l) w" and inv: "list_all2 (ended_by stop main) w us"
  obtain e where e: "lang e w" "if r = main then stops (other_than stop main) (Tm stop) e
      else all_syms (other_than stop main) e"
    using all_rules_body [OF end_rules body] by metis
  show "ended_by stop main (Nt r) (concat us)"
  proof (cases "r = main")
    case True
    with e obtain u where u: "w = u @ [Tm stop]" "\<forall>x \<in> set u. other_than stop main x"
      by (auto dest: stops_word)
    with inv obtain vs where "us = vs @ [[stop]]" "list_all2 (ended_by stop main) u vs"
      by (auto simp: list_all2_append1 list_all2_Cons1 ended_by_def)
    with u(2) True show ?thesis by (auto simp: ended_by_def dest: ended_by_others)
  next
    case False
    with e have "\<forall>s \<in> set w. other_than stop main s" by (auto simp: all_syms_iff dest: lang_mentions)
    with inv False show ?thesis by (auto simp: ended_by_def dest: ended_by_others)
  qed
qed (simp add: ended_by_def)

section \<open>Brackets\<close>

fun depth :: "token \<Rightarrow> token \<Rightarrow> nat \<Rightarrow> token list \<Rightarrow> nat option" where
  "depth a b n [] = Some n"
| "depth a b n (t # ts) = (if t = a then depth a b (Suc n) ts
     else if t = b then (case n of 0 \<Rightarrow> None | Suc m \<Rightarrow> depth a b m ts)
     else depth a b n ts)"

definition balanced :: "token \<Rightarrow> token \<Rightarrow> token list \<Rightarrow> bool" where
  "balanced a b ts \<longleftrightarrow> depth a b 0 ts = Some 0"

lemma depth_append:
  "depth a b n (us @ vs) = (case depth a b n us of None \<Rightarrow> None | Some m \<Rightarrow> depth a b m vs)"
  by (induction a b n us rule: depth.induct) (auto split: nat.splits)

lemma depth_add: "depth a b n ts = Some m \<Longrightarrow> depth a b (n + k) ts = Some (m + k)"
  by (induction a b n ts rule: depth.induct) (auto split: nat.splits if_splits)

text \<open>
  The depth behind an expression, where all its sequences agree on it.  A rule that opens a
  bracket its callers close leaves the depth one higher.
\<close>

fun level :: "(rule_id \<Rightarrow> bool) \<Rightarrow> token \<Rightarrow> token \<Rightarrow> ebnf \<Rightarrow> nat \<Rightarrow> nat option"
  and level_seq :: "(rule_id \<Rightarrow> bool) \<Rightarrow> token \<Rightarrow> token \<Rightarrow> ebnf list \<Rightarrow> nat \<Rightarrow> nat option"
  and level_alt :: "(rule_id \<Rightarrow> bool) \<Rightarrow> token \<Rightarrow> token \<Rightarrow> ebnf list \<Rightarrow> nat \<Rightarrow> nat \<Rightarrow> bool" where
  "level H a b (Sym s) n = (case s of Nt r \<Rightarrow> if H r then Some (Suc n) else Some n | Tm t \<Rightarrow>
     if t = a then Some (Suc n)
     else if t = b then (case n of 0 \<Rightarrow> None | Suc m \<Rightarrow> Some m) else Some n)"
| "level H a b (Lab l e) n = level H a b e n"
| "level H a b (Seq es) n = level_seq H a b es n"
| "level H a b (Alt es) n = (case es of [] \<Rightarrow> None
     | e # fs \<Rightarrow> (case level H a b e n of None \<Rightarrow> None
         | Some m \<Rightarrow> if level_alt H a b fs n m then Some m else None))"
| "level H a b (Opt e) n = (if level H a b e n = Some n then Some n else None)"
| "level H a b (Star e) n = (if level H a b e n = Some n then Some n else None)"
| "level H a b (Plus e) n = (if level H a b e n = Some n then Some n else None)"
| "level_seq H a b [] n = Some n"
| "level_seq H a b (e # es) n =
     (case level H a b e n of None \<Rightarrow> None | Some m \<Rightarrow> level_seq H a b es m)"
| "level_alt H a b [] n m = True"
| "level_alt H a b (e # es) n m = (if level H a b e n = Some m then level_alt H a b es n m else False)"

lemma level_alt_iff: "level_alt H a b es n m \<longleftrightarrow> (\<forall>e \<in> set es. level H a b e n = Some m)"
  by (induction es) auto

definition bracketed :: "(rule_id \<Rightarrow> bool) \<Rightarrow> token \<Rightarrow> token \<Rightarrow> sym \<Rightarrow> token list \<Rightarrow> bool" where
  "bracketed H a b s us = (case s of Tm t \<Rightarrow> us = [t]
     | Nt r \<Rightarrow> depth a b 0 us = Some (if H r then Suc 0 else 0))"

lemma bracketed_depth: "depth a b 0 us = Some m \<Longrightarrow> depth a b n us = Some (m + n)"
  by (drule depth_add [of _ _ _ _ _ n]) simp

lemma gen_level:
  "gen e cs \<Longrightarrow> \<forall>n m us. level H a b e n = Some m \<longrightarrow> list_all2 (bracketed H a b) (map fst cs) us
     \<longrightarrow> depth a b n (concat us) = Some m"
  "gens es cs \<Longrightarrow> \<forall>n m us. level_seq H a b es n = Some m \<longrightarrow> list_all2 (bracketed H a b) (map fst cs) us
     \<longrightarrow> depth a b n (concat us) = Some m"
proof (induction rule: gen_gens.inducts)
  case (gen_Sym s)
  then show ?case
    by (auto simp: list_all2_Cons1 bracketed_def bracketed_depth split: sym.splits if_splits nat.splits)
next
  case (gen_Lab e w l)
  then show ?case by simp
next
  case (gen_Alt e es w)
  then show ?case by (fastforce simp: level_alt_iff split: list.splits option.splits if_splits)
next
  case (gen_Star_more e u v)
  then show ?case by (fastforce simp: list_all2_append1 depth_append split: if_splits)
next
  case (gen_Plus e u v)
  then show ?case by (fastforce simp: list_all2_append1 depth_append split: if_splits)
next
  case (gens_Cons e u es v)
  then show ?case by (fastforce simp: list_all2_append1 depth_append split: option.splits)
qed (auto split: if_splits)

locale bracketed_grammar =
  fixes G :: grammar and H :: "rule_id \<Rightarrow> bool" and a :: token and b :: token
  assumes bracket_rules: "all_rules (\<lambda>r e. level H a b e 0 = Some (if H r then Suc 0 else 0)) G"

sublocale bracketed_grammar \<subseteq> brackets: yield_invariant G "bracketed H a b"
proof
  fix r l w us
  assume body: "lang (body_of G r l) w" and inv: "list_all2 (bracketed H a b) w us"
  obtain e where e: "lang e w" "level H a b e 0 = Some (if H r then Suc 0 else 0)"
    using all_rules_body [OF bracket_rules body] by metis
  then obtain cs where "gen e cs" "map fst cs = w" by (auto simp: lang_def)
  with e inv gen_level(1) show "bracketed H a b (Nt r) (concat us)"
    by (simp add: bracketed_def)
qed (simp add: bracketed_def)

text \<open>The trees of a grammar without some of its rules.\<close>

fun rules_in :: "tree \<Rightarrow> rule_id set" where
  "rules_in (Leaf t) = {}"
| "rules_in (Node r l ts) = insert r (\<Union> (rules_in ` set ts))"

definition without :: "(rule_id \<Rightarrow> bool) \<Rightarrow> grammar \<Rightarrow> grammar" where
  "without S G = filter (\<lambda>g. \<not> S (rule_index g)) G"

lemma body_of_without:
  assumes "\<not> S r"
  shows "body_of (without S G) r l = body_of G r l"
proof -
  have "filter (\<lambda>g. rule_index g = r) (without S G) = filter (\<lambda>g. rule_index g = r) G"
    using assms unfolding without_def filter_filter by (metis (mono_tags, lifting) filter_cong)
  then show ?thesis by (simp add: body_of_def alts_of_def)
qed

lemma valid_without: "valid G t \<Longrightarrow> \<forall>r \<in> rules_in t. \<not> S r \<Longrightarrow> valid (without S G) t"
  by (induction t) (auto simp: body_of_without)

lemma all_rules_without: "all_rules P (without S G) \<longleftrightarrow> all_rules (\<lambda>r e. if S r then True else P r e) G"
  by (auto simp: all_rules_iff without_def)

end
