(* ===== verification/TSql_Analysis.thy ===== *)
theory TSql_Analysis
  imports TSql_Header Yields
begin

text \<open>
  The checks of the right-hand sides of \<open>src/TSqlParser.g4\<close> that the interpretations of
  the interfaces of \<open>Yields\<close> rest on: the nullable rules, the rank of the left calls, the
  end of the input and the parentheses.
\<close>

text \<open>The rules that can yield nothing.\<close>

definition nullable_rule :: "rule_id \<Rightarrow> bool" where
  "nullable_rule r = (if r = RulePrimary_key_options then True else r = RuleAlter_assembly_clause)"

text \<open>
  The rules with a function \<open>bool xSempred(XContext *_localctx, size_t predicateIndex)\<close> in
  \<open>port/cpp/TSqlParser.h\<close>, which guards the alternatives of a left-recursive rule.
\<close>

definition sempred_rules :: "rule_id list" where
  "sempred_rules = [RuleAssembly_option, RuleExpression, RuleSearch_condition]"

fun is_one_of :: "rule_id list \<Rightarrow> rule_id \<Rightarrow> bool" where
  "is_one_of [] r = False"
| "is_one_of (q # qs) r = (if r = q then True else is_one_of qs r)"

lemma is_one_of_iff [simp]: "is_one_of rs r \<longleftrightarrow> r \<in> set rs"
  by (induction rs) auto

text \<open>A number that every left call of another rule decreases.\<close>

definition left_rank :: "rule_id \<Rightarrow> nat" where
  "left_rank r =
     (if r < 381 then (if r < 230 then (if r < 47 then (if r < 32 then (if r < 8 then (if r < 4
     then (if r < 2 then 7 else (if r < 3 then 2 else 5)) else (if r < 6 then (if r < 5 then 4
     else 2) else (if r < 7 then 1 else 3))) else (if r < 24 then (if r < 11 then 0 else (if r <
     12 then 2 else 0)) else (if r < 30 then (if r < 25 then 2 else 0) else (if r < 31 then 1
     else 0)))) else (if r < 39 then (if r < 35 then (if r < 33 then 2 else (if r < 34 then 1
     else 0)) else (if r < 37 then (if r < 36 then 1 else 3) else (if r < 38 then 0 else 1)))
     else (if r < 43 then (if r < 41 then (if r < 40 then 0 else 1) else (if r < 42 then 0 else
     1)) else (if r < 45 then (if r < 44 then 0 else 1) else (if r < 46 then 0 else 2))))) else
     (if r < 66 then (if r < 54 then (if r < 50 then (if r < 48 then 0 else (if r < 49 then 1
     else 2)) else (if r < 52 then (if r < 51 then 0 else 2) else (if r < 53 then 0 else 1)))
     else (if r < 59 then (if r < 55 then 0 else (if r < 56 then 2 else 0)) else (if r < 61 then
     (if r < 60 then 1 else 0) else (if r < 62 then 1 else 0)))) else (if r < 153 then (if r < 71
     then (if r < 67 then 1 else (if r < 68 then 2 else 0)) else (if r < 80 then (if r < 74 then
     1 else 0) else (if r < 81 then 1 else 0))) else (if r < 184 then (if r < 155 then (if r <
     154 then 4 else 3) else (if r < 156 then 2 else 0)) else (if r < 187 then (if r < 185 then 1
     else 0) else (if r < 188 then 2 else 0)))))) else (if r < 295 then (if r < 247 then (if r <
     239 then (if r < 233 then (if r < 231 then 1 else (if r < 232 then 0 else 1)) else (if r <
     237 then (if r < 236 then 0 else 1) else (if r < 238 then 4 else 1))) else (if r < 242 then
     (if r < 240 then 5 else (if r < 241 then 0 else 3)) else (if r < 245 then (if r < 244 then 2
     else 1) else (if r < 246 then 0 else 10)))) else (if r < 276 then (if r < 253 then (if r <
     250 then 0 else (if r < 251 then 1 else 0)) else (if r < 274 then (if r < 254 then 1 else 0)
     else (if r < 275 then 1 else 0))) else (if r < 284 then (if r < 279 then (if r < 277 then 1
     else 0) else (if r < 280 then 1 else 0)) else (if r < 286 then (if r < 285 then 2 else 0)
     else (if r < 288 then 1 else 0))))) else (if r < 345 then (if r < 316 then (if r < 302 then
     (if r < 296 then 1 else (if r < 301 then 0 else 10)) else (if r < 309 then (if r < 308 then
     0 else 3) else (if r < 315 then 0 else 2))) else (if r < 323 then (if r < 320 then (if r <
     317 then 1 else 0) else (if r < 322 then 1 else 2)) else (if r < 327 then (if r < 324 then 1
     else 0) else (if r < 328 then 2 else 0)))) else (if r < 363 then (if r < 349 then (if r <
     347 then 2 else (if r < 348 then 0 else 1)) else (if r < 358 then (if r < 357 then 0 else 1)
     else (if r < 362 then 0 else 1))) else (if r < 377 then (if r < 375 then (if r < 373 then 0
     else 5) else (if r < 376 then 4 else 0)) else (if r < 379 then (if r < 378 then 3 else 2)
     else (if r < 380 then 0 else 1))))))) else (if r < 522 then (if r < 471 then (if r < 443
     then (if r < 432 then (if r < 396 then (if r < 382 then 2 else (if r < 395 then 0 else 1))
     else (if r < 423 then (if r < 422 then 0 else 2) else (if r < 431 then 0 else 4))) else (if
     r < 438 then (if r < 433 then 3 else (if r < 437 then 2 else 1)) else (if r < 441 then (if r
     < 440 then 0 else 1) else (if r < 442 then 2 else 1)))) else (if r < 460 then (if r < 455
     then (if r < 450 then 0 else (if r < 451 then 1 else 0)) else (if r < 457 then (if r < 456
     then 2 else 9) else (if r < 459 then 0 else 2))) else (if r < 466 then (if r < 464 then (if
     r < 463 then 0 else 3) else (if r < 465 then 0 else 2)) else (if r < 469 then (if r < 468
     then 4 else 11) else (if r < 470 then 10 else 1))))) else (if r < 498 then (if r < 489 then
     (if r < 483 then (if r < 480 then 0 else (if r < 481 then 1 else 0)) else (if r < 485 then
     (if r < 484 then 10 else 11) else (if r < 486 then 10 else 0))) else (if r < 492 then (if r
     < 490 then 12 else (if r < 491 then 0 else 3)) else (if r < 494 then (if r < 493 then 2 else
     10) else (if r < 497 then 11 else 10)))) else (if r < 508 then (if r < 502 then (if r < 499
     then 9 else (if r < 501 then 0 else 4)) else (if r < 505 then (if r < 504 then 3 else 2)
     else (if r < 506 then 1 else 0))) else (if r < 518 then (if r < 516 then (if r < 509 then 1
     else 0) else (if r < 517 then 4 else 0)) else (if r < 520 then (if r < 519 then 2 else 4)
     else (if r < 521 then 8 else 2)))))) else (if r < 558 then (if r < 537 then (if r < 530 then
     (if r < 526 then (if r < 524 then 0 else (if r < 525 then 10 else 0)) else (if r < 528 then
     (if r < 527 then 7 else 6) else (if r < 529 then 0 else 1))) else (if r < 533 then (if r <
     531 then 2 else (if r < 532 then 1 else 5)) else (if r < 535 then (if r < 534 then 0 else 4)
     else (if r < 536 then 0 else 4)))) else (if r < 548 then (if r < 542 then (if r < 538 then 0
     else (if r < 539 then 4 else 0)) else (if r < 545 then (if r < 543 then 4 else 0) else (if r
     < 547 then 3 else 2))) else (if r < 554 then (if r < 551 then (if r < 550 then 0 else 1)
     else (if r < 553 then 0 else 2)) else (if r < 556 then (if r < 555 then 0 else 2) else (if r
     < 557 then 0 else 10))))) else (if r < 592 then (if r < 573 then (if r < 564 then (if r <
     561 then 0 else (if r < 562 then 10 else 0)) else (if r < 570 then (if r < 566 then 1 else
     0) else (if r < 571 then 1 else 0))) else (if r < 584 then (if r < 581 then (if r < 580 then
     2 else 3) else (if r < 582 then 4 else 3)) else (if r < 586 then (if r < 585 then 2 else 3)
     else (if r < 589 then 2 else 0)))) else (if r < 603 then (if r < 597 then (if r < 593 then 5
     else (if r < 595 then 0 else 10)) else (if r < 601 then (if r < 600 then 0 else 2) else (if
     r < 602 then 0 else 2))) else (if r < 608 then (if r < 606 then (if r < 605 then 1 else 0)
     else (if r < 607 then 1 else 0)) else (if r < 612 then (if r < 609 then 2 else 0) else (if r
     < 613 then 6 else 0))))))))"

text \<open>
  The rule that opens a parenthesis its caller \<open>asymmetric_key_option\<close> closes, and the rules
  with an alternative in which the parentheses are not balanced.
\<close>

definition opening_rule :: "rule_id \<Rightarrow> bool" where
  "opening_rule r = (r = RuleAsymmetric_key_option_start)"

definition unbalanced_rules :: "rule_id list" where
  "unbalanced_rules = [RuleAlter_availability_group_options, RuleCreate_or_alter_event_session,
     RuleAlter_external_library, RuleCreate_external_library, RuleReceive_statement,
     RuleCreate_or_alter_procedure, RuleBackup_database, RuleBackup_log,
     RuleDbcc_dropcleanbuffers, RuleGrouping_sets_item]"

section \<open>Checking the rules\<close>

text \<open>One pass over the rules for all of the analyses.\<close>

definition null_ok :: "rule_id \<Rightarrow> ebnf \<Rightarrow> bool" where
  "null_ok r e = (if can (vanishing nullable_rule) e then nullable_rule r else True)"

definition left_ok :: "rule_id \<Rightarrow> ebnf \<Rightarrow> bool" where
  "left_ok r = all_left (vanishing nullable_rule) (descends left_rank (is_one_of sempred_rules) r)"

definition loop_ok :: "rule_id \<Rightarrow> ebnf \<Rightarrow> bool" where
  "loop_ok r = loops_ok (vanishing nullable_rule)"

definition some_ok :: "rule_id \<Rightarrow> ebnf \<Rightarrow> bool" where
  "some_ok r = inhabited"

definition end_ok :: "rule_id \<Rightarrow> ebnf \<Rightarrow> bool" where
  "end_ok r e = (if r = RuleTsql_file then stops (other_than T_EOF RuleTsql_file) (Tm T_EOF) e
     else all_syms (other_than T_EOF RuleTsql_file) e)"

definition bracket_ok :: "rule_id \<Rightarrow> ebnf \<Rightarrow> bool" where
  "bracket_ok r e = (if is_one_of unbalanced_rules r then True
     else level opening_rule T_LR_BRACKET T_RR_BRACKET e 0 = Some (if opening_rule r then Suc 0 else 0))"

lemma minus_one_numeral:
  "(- 1 :: int) = numeral n \<longleftrightarrow> False" "numeral n = (- 1 :: int) \<longleftrightarrow> False" "(- 1 :: int) = - 1 \<longleftrightarrow> True"
  "(- 1 :: int) = 1 \<longleftrightarrow> False" "1 = (- 1 :: int) \<longleftrightarrow> False"
  by simp_all

lemmas yields_eval = analysis_eval minus_one_numeral nat.case nat.distinct nat.inject
  loops_ok.simps loops_ok_list.simps inhabited.simps all_left.simps all_left_seq.simps all_left_alt.simps stops.simps is_sym.simps
  level.simps level_seq.simps level_alt.simps
  vanishing_def descends_def other_than_def is_one_of.simps
  nullable_rule_def sempred_rules_def left_rank_def unbalanced_rules_def opening_rule_def

lemmas yields_opaque = analysis_opaque nat.case_cong_weak refl [of "Suc _"]

lemma null_1: "all_rules null_ok rules_1"
  by (simp only: yields_eval null_ok_def rules_1_def grammar_rules cong: yields_opaque)

lemma left_1: "all_rules left_ok rules_1"
  by (simp only: yields_eval left_ok_def rules_1_def grammar_rules cong: yields_opaque)

lemma loop_1: "all_rules loop_ok rules_1"
  by (simp only: yields_eval loop_ok_def rules_1_def grammar_rules cong: yields_opaque)

lemma some_1: "all_rules some_ok rules_1"
  by (simp only: yields_eval some_ok_def rules_1_def grammar_rules cong: yields_opaque)

lemma end_1: "all_rules end_ok rules_1"
  by (simp only: yields_eval end_ok_def rules_1_def grammar_rules cong: yields_opaque)

lemma bracket_1: "all_rules bracket_ok rules_1"
  by (simp only: yields_eval bracket_ok_def rules_1_def grammar_rules cong: yields_opaque)

lemma null_2: "all_rules null_ok rules_2"
  by (simp only: yields_eval null_ok_def rules_2_def grammar_rules cong: yields_opaque)

lemma left_2: "all_rules left_ok rules_2"
  by (simp only: yields_eval left_ok_def rules_2_def grammar_rules cong: yields_opaque)

lemma loop_2: "all_rules loop_ok rules_2"
  by (simp only: yields_eval loop_ok_def rules_2_def grammar_rules cong: yields_opaque)

lemma some_2: "all_rules some_ok rules_2"
  by (simp only: yields_eval some_ok_def rules_2_def grammar_rules cong: yields_opaque)

lemma end_2: "all_rules end_ok rules_2"
  by (simp only: yields_eval end_ok_def rules_2_def grammar_rules cong: yields_opaque)

lemma bracket_2: "all_rules bracket_ok rules_2"
  by (simp only: yields_eval bracket_ok_def rules_2_def grammar_rules cong: yields_opaque)

lemma null_3: "all_rules null_ok rules_3"
  by (simp only: yields_eval null_ok_def rules_3_def grammar_rules cong: yields_opaque)

lemma left_3: "all_rules left_ok rules_3"
  by (simp only: yields_eval left_ok_def rules_3_def grammar_rules cong: yields_opaque)

lemma loop_3: "all_rules loop_ok rules_3"
  by (simp only: yields_eval loop_ok_def rules_3_def grammar_rules cong: yields_opaque)

lemma some_3: "all_rules some_ok rules_3"
  by (simp only: yields_eval some_ok_def rules_3_def grammar_rules cong: yields_opaque)

lemma end_3: "all_rules end_ok rules_3"
  by (simp only: yields_eval end_ok_def rules_3_def grammar_rules cong: yields_opaque)

lemma bracket_3: "all_rules bracket_ok rules_3"
  by (simp only: yields_eval bracket_ok_def rules_3_def grammar_rules cong: yields_opaque)

lemma null_4: "all_rules null_ok rules_4"
  by (simp only: yields_eval null_ok_def rules_4_def grammar_rules cong: yields_opaque)

lemma left_4: "all_rules left_ok rules_4"
  by (simp only: yields_eval left_ok_def rules_4_def grammar_rules cong: yields_opaque)

lemma loop_4: "all_rules loop_ok rules_4"
  by (simp only: yields_eval loop_ok_def rules_4_def grammar_rules cong: yields_opaque)

lemma some_4: "all_rules some_ok rules_4"
  by (simp only: yields_eval some_ok_def rules_4_def grammar_rules cong: yields_opaque)

lemma end_4: "all_rules end_ok rules_4"
  by (simp only: yields_eval end_ok_def rules_4_def grammar_rules cong: yields_opaque)

lemma bracket_4: "all_rules bracket_ok rules_4"
  by (simp only: yields_eval bracket_ok_def rules_4_def grammar_rules cong: yields_opaque)

lemma null_5: "all_rules null_ok rules_5"
  by (simp only: yields_eval null_ok_def rules_5_def grammar_rules cong: yields_opaque)

lemma left_5: "all_rules left_ok rules_5"
  by (simp only: yields_eval left_ok_def rules_5_def grammar_rules cong: yields_opaque)

lemma loop_5: "all_rules loop_ok rules_5"
  by (simp only: yields_eval loop_ok_def rules_5_def grammar_rules cong: yields_opaque)

lemma some_5: "all_rules some_ok rules_5"
  by (simp only: yields_eval some_ok_def rules_5_def grammar_rules cong: yields_opaque)

lemma end_5: "all_rules end_ok rules_5"
  by (simp only: yields_eval end_ok_def rules_5_def grammar_rules cong: yields_opaque)

lemma bracket_5: "all_rules bracket_ok rules_5"
  by (simp only: yields_eval bracket_ok_def rules_5_def grammar_rules cong: yields_opaque)

lemma null_6: "all_rules null_ok rules_6"
  by (simp only: yields_eval null_ok_def rules_6_def grammar_rules cong: yields_opaque)

lemma left_6: "all_rules left_ok rules_6"
  by (simp only: yields_eval left_ok_def rules_6_def grammar_rules cong: yields_opaque)

lemma loop_6: "all_rules loop_ok rules_6"
  by (simp only: yields_eval loop_ok_def rules_6_def grammar_rules cong: yields_opaque)

lemma some_6: "all_rules some_ok rules_6"
  by (simp only: yields_eval some_ok_def rules_6_def grammar_rules cong: yields_opaque)

lemma end_6: "all_rules end_ok rules_6"
  by (simp only: yields_eval end_ok_def rules_6_def grammar_rules cong: yields_opaque)

lemma bracket_6: "all_rules bracket_ok rules_6"
  by (simp only: yields_eval bracket_ok_def rules_6_def grammar_rules cong: yields_opaque)

end
