(* ===== verification/Matching.thy ===== *)
theory Matching
  imports Grammar
begin

text \<open>
  A matcher for the children of a node that follows the expression from left to right, as
  the generated functions do, and keeps every way to go on: the list of what is left of the
  input after a match.  Loops are entered at most as often as the first argument says.
\<close>

fun rests :: "nat \<Rightarrow> ebnf \<Rightarrow> sym list \<Rightarrow> sym list list"
  and rests_seq :: "nat \<Rightarrow> ebnf list \<Rightarrow> sym list \<Rightarrow> sym list list"
  and rests_alt :: "nat \<Rightarrow> ebnf list \<Rightarrow> sym list \<Rightarrow> sym list list" where
  "rests n (Sym s) w = (case w of [] \<Rightarrow> [] | x # r \<Rightarrow> if x = s then [r] else [])"
| "rests n (Lab l e) w = rests n e w"
| "rests n (Seq es) w = rests_seq n es w"
| "rests n (Alt es) w = rests_alt n es w"
| "rests n (Opt e) w = w # rests n e w"
| "rests 0 (Star e) w = [w]"
| "rests (Suc n) (Star e) w = w # concat (map (\<lambda>r. rests n (Star e) r) (rests (Suc n) e w))"
| "rests 0 (Plus e) w = []"
| "rests (Suc n) (Plus e) w = concat (map (\<lambda>r. rests n (Star e) r) (rests (Suc n) e w))"
| "rests_seq n [] w = [w]"
| "rests_seq n (e # es) w = concat (map (\<lambda>r. rests_seq n es r) (rests n e w))"
| "rests_alt n [] w = []"
| "rests_alt n (e # es) w = rests n e w @ rests_alt n es w"

lemma rests_sound:
  "r \<in> set (rests n e w) \<Longrightarrow> \<exists>u. w = u @ r \<and> lang e u"
  "r \<in> set (rests_seq n es w) \<Longrightarrow> \<exists>u. w = u @ r \<and> lang (Seq es) u"
  "r \<in> set (rests_alt n es w) \<Longrightarrow> \<exists>u. w = u @ r \<and> lang (Alt es) u"
proof (induction n e w and n es w and n es w arbitrary: r and r and r
    rule: rests_rests_seq_rests_alt.induct)
  case (1 n s w)
  then show ?case by (auto split: list.splits if_splits)
next
  case (5 n e w)
  then show ?case by auto
next
  case (7 n e w)
  show ?case
  proof (cases "r = w")
    case True
    then show ?thesis by simp
  next
    case False
    with 7(3) obtain q where q: "q \<in> set (rests (Suc n) e w)" "r \<in> set (rests n (Star e) q)"
      by auto
    from 7(1) [OF q(1)] obtain u where u: "w = u @ q" "lang e u" by blast
    from 7(2) [OF q] obtain v where "q = v @ r" "lang (Star e) v" by blast
    with u show ?thesis by (intro exI [of _ "u @ v"]) (auto intro: lang_Star_append)
  qed
next
  case (9 n e w)
  from 9(3) obtain q where q: "q \<in> set (rests (Suc n) e w)" "r \<in> set (rests n (Star e) q)" by auto
  from 9(1) [OF q(1)] obtain u where u: "w = u @ q" "lang e u" by blast
  from 9(2) [OF q] obtain v where "q = v @ r" "lang (Star e) v" by blast
  with u show ?case by (intro exI [of _ "u @ v"]) auto
next
  case (11 n e es w)
  from 11(3) obtain q where q: "q \<in> set (rests n e w)" "r \<in> set (rests_seq n es q)" by auto
  from 11(1) [OF q(1)] obtain u where u: "w = u @ q" "lang e u" by blast
  from 11(2) [OF q] obtain v where "q = v @ r" "lang (Seq es) v" by blast
  with u show ?case by (intro exI [of _ "u @ v"]) auto
next
  case (13 n e es w)
  then show ?case by (simp; blast)
qed simp_all

text \<open>Enough for the expressions whose loops are entered at most three times.\<close>

definition reads :: "ebnf \<Rightarrow> sym list \<Rightarrow> bool" where
  "reads e w \<longleftrightarrow> list_ex (\<lambda>r. r = []) (rests (Suc (Suc (Suc 0))) e w)"

lemma reads_lang: "reads e w \<Longrightarrow> lang e w"
  unfolding reads_def list_ex_iff using rests_sound(1) by fastforce

end
