(* ===== verification/TSql_Syntax.thy ===== *)
theory TSql_Syntax
  imports TSql_Analysis Matching
begin

text \<open>
  What every parse tree of the grammar of \<open>src/TSqlParser.g4\<close> yields, and what that means
  for the recursive-descent functions generated from it.
\<close>

lemma tsql_all_rules:
  assumes "all_rules P rules_1" "all_rules P rules_2" "all_rules P rules_3" "all_rules P rules_4"
    "all_rules P rules_5" "all_rules P rules_6"
  shows "all_rules P tsql_grammar"
  using assms by (simp add: tsql_grammar_def)

interpretation tsql_left: left_bounded tsql_grammar nullable_rule left_rank "is_one_of sempred_rules"
proof
  show "all_rules (\<lambda>r e. if can (vanishing nullable_rule) e then nullable_rule r else True) tsql_grammar"
    using tsql_all_rules [OF null_1 null_2 null_3 null_4 null_5 null_6] unfolding null_ok_def .
  show "all_rules (\<lambda>r. all_left (vanishing nullable_rule)
      (descends left_rank (is_one_of sempred_rules) r)) tsql_grammar"
    using tsql_all_rules [OF left_1 left_2 left_3 left_4 left_5 left_6] unfolding left_ok_def .
qed

interpretation tsql_loops: progressing tsql_grammar nullable_rule
proof
  show "all_rules (\<lambda>_. loops_ok (vanishing nullable_rule)) tsql_grammar"
    using tsql_all_rules [OF loop_1 loop_2 loop_3 loop_4 loop_5 loop_6] unfolding loop_ok_def .
qed

interpretation tsql_end: ended_grammar tsql_grammar T_EOF RuleTsql_file
proof
  show "all_rules (\<lambda>r e. if r = RuleTsql_file then stops (other_than T_EOF RuleTsql_file) (Tm T_EOF) e
      else all_syms (other_than T_EOF RuleTsql_file) e) tsql_grammar"
    using tsql_all_rules [OF end_1 end_2 end_3 end_4 end_5 end_6] unfolding end_ok_def .
qed

interpretation tsql_brackets:
  bracketed_grammar "without (is_one_of unbalanced_rules) tsql_grammar" opening_rule T_LR_BRACKET T_RR_BRACKET
proof
  show "all_rules (\<lambda>r e. level opening_rule T_LR_BRACKET T_RR_BRACKET e 0
      = Some (if opening_rule r then Suc 0 else 0))
      (without (is_one_of unbalanced_rules) tsql_grammar)"
    using tsql_all_rules [OF bracket_1 bracket_2 bracket_3 bracket_4 bracket_5 bracket_6]
    unfolding bracket_ok_def all_rules_without .
qed

section \<open>The words of a rule\<close>

lemma rule_in_grammar:
  assumes "g \<in> set rules_1 \<union> set rules_2 \<union> set rules_3 \<union> set rules_4 \<union> set rules_5 \<union> set rules_6"
  shows "g \<in> set tsql_grammar"
  using assms by (simp add: tsql_grammar_def)

lemma rule_word:
  assumes "g \<in> set tsql_grammar" and "accepts (labelled l (rule_alts g)) w"
  shows "lang (body_of tsql_grammar (rule_index g) l) w"
  using assms by (simp add: body_of_rule accepts_iff)

lemma rule_leaves:
  assumes "g \<in> set tsql_grammar" and "accepts (labelled l (rule_alts g)) (map Tm ts)"
  shows "valid tsql_grammar (Node (rule_index g) l (map Leaf ts))"
  using rule_word [OF assms] by (simp add: comp_def)

lemma yield_leaves [simp]: "concat (map yield (map Leaf ts)) = ts"
  by (induction ts) auto

section \<open>Left recursion\<close>

text \<open>
  C16: All left recursion is direct: two functions call each other without a token consumed in
  between, over any number of other functions, only if they are the function of the same rule, and
  then this rule calls itself at the left end of one of its own alternatives.  The rules that do so
  are those for which the header declares a predicate function with the precedence check.
\<close>

theorem left_recursion_exact:
  "((left_call tsql_grammar)\<^sup>+\<^sup>+ r q \<and> (left_call tsql_grammar)\<^sup>+\<^sup>+ q r
      \<longleftrightarrow> r = q \<and> left_call tsql_grammar r r)
   \<and> (left_call tsql_grammar r r \<longleftrightarrow> r \<in> set sempred_rules)"
proof -
  have "lang (body_of tsql_grammar RuleAssembly_option None) [Nt RuleAssembly_option, Tm T_COMMA]"
    using rule_word [OF rule_in_grammar, of g_assembly_option None]
    by (simp add: rules_1_def g_assembly_option_def labelled_def)
  moreover have "lang (body_of tsql_grammar RuleExpression None) [Nt RuleExpression, Nt RuleTime_zone]"
    using rule_word [OF rule_in_grammar, of g_expression None]
    by (simp add: rules_4_def g_expression_def labelled_def)
  moreover have "lang (body_of tsql_grammar RuleSearch_condition None)
      [Nt RuleSearch_condition, Tm T_OR, Nt RuleSearch_condition]"
    using rule_word [OF rule_in_grammar, of g_search_condition None]
    by (simp add: rules_4_def g_search_condition_def labelled_def)
  ultimately have "left_call tsql_grammar r r" if "r \<in> set sempred_rules"
    using that left_call_self by (auto simp: sempred_rules_def)
  moreover have "r \<in> set sempred_rules" if "left_call tsql_grammar r r"
    using that tsql_left.only_direct by auto
  moreover have "r = q \<and> left_call tsql_grammar r r"
    if "(left_call tsql_grammar)\<^sup>+\<^sup>+ r q" "(left_call tsql_grammar)\<^sup>+\<^sup>+ q r"
    using tsql_left.left_calls_descend [OF that(1)] tsql_left.left_calls_descend [OF that(2)] by auto
  ultimately show ?thesis by blast
qed

text \<open>
  C17: There is no endless chain of calls between the functions of different rules without a
  token consumed in between.
\<close>

theorem left_calls_well_founded: "wfp (\<lambda>q r. left_call tsql_grammar r q \<and> q \<noteq> r)"
  by (rule tsql_left.left_calls_end)

text \<open>
  C18: Every iteration of a loop of a generated function (the suffixes \<open>*\<close> and \<open>+\<close>) consumes
  at least one token.
\<close>

theorem loop_consumes:
  assumes "loop_body (body_of tsql_grammar r l) b" and "lang b (map root ts)"
    and "\<forall>t \<in> set ts. valid tsql_grammar t"
  shows "concat (map yield ts) \<noteq> []"
  using assms by (rule tsql_loops.loop_progress)

theorem loop_consumes_witness: "concat (map yield [Leaf T_NOT]) \<noteq> []"
proof (rule loop_consumes)
  have "loop_body (labelled None (rule_alts g_search_condition)) (Tok T_NOT)"
    by (auto simp: labelled_def g_search_condition_def intro!: loop_body.intros)
  then show "loop_body (body_of tsql_grammar RuleSearch_condition None) (Tok T_NOT)"
    using body_of_rule [OF rule_in_grammar, of g_search_condition None]
    by (simp add: rules_4_def g_search_condition_def)
qed auto

section \<open>Empty nodes\<close>

text \<open>
  C26: The rules that can match no token at all are the options of a primary key and the
  clauses of \<open>ALTER ASSEMBLY\<close>.
\<close>

theorem empty_rules_exact:
  "(\<exists>t. valid tsql_grammar t \<and> root t = Nt r \<and> yield t = [])
     \<longleftrightarrow> r \<in> {RulePrimary_key_options, RuleAlter_assembly_clause}"
proof
  assume "\<exists>t. valid tsql_grammar t \<and> root t = Nt r \<and> yield t = []"
  then have "nullable_rule r" using tsql_left.empties_vanishing [of "Nt r"] by (simp add: empties_def)
  then show "r \<in> {RulePrimary_key_options, RuleAlter_assembly_clause}"
    by (auto simp: nullable_rule_def split: if_splits)
next
  have "valid tsql_grammar (Node RulePrimary_key_options None [])"
    using rule_leaves [OF rule_in_grammar, of g_primary_key_options None "[]"]
    by (simp add: rules_4_def g_primary_key_options_def labelled_def)
  moreover have "valid tsql_grammar (Node RuleAlter_assembly_clause None [])"
    using rule_leaves [OF rule_in_grammar, of g_alter_assembly_clause None "[]"]
    by (simp add: rules_1_def g_alter_assembly_clause_def labelled_def)
  ultimately show "r \<in> {RulePrimary_key_options, RuleAlter_assembly_clause} \<Longrightarrow>
      \<exists>t. valid tsql_grammar t \<and> root t = Nt r \<and> yield t = []"
    by (auto intro: exI [of _ "Node _ None []"])
qed

section \<open>The end of the input\<close>

text \<open>
  C25: A parse of a file consumes the whole input: its token sequence ends with \<open>EOF\<close>, and
  \<open>EOF\<close> occurs nowhere before.
\<close>

theorem file_ends_once:
  assumes "valid tsql_grammar t" and "root t = Nt RuleTsql_file"
  shows "\<exists>us. yield t = us @ [T_EOF] \<and> T_EOF \<notin> set us"
  using tsql_end.ended.holds [OF assms(1)] assms(2) by (simp add: ended_by_def)

theorem file_ends_once_witness:
  "\<exists>us. yield (Node RuleTsql_file None [Leaf T_EOF]) = us @ [T_EOF] \<and> T_EOF \<notin> set us"
proof (rule file_ends_once)
  show "valid tsql_grammar (Node RuleTsql_file None [Leaf T_EOF])"
    using rule_leaves [OF rule_in_grammar, of g_tsql_file None "[T_EOF]"]
    by (simp add: rules_1_def g_tsql_file_def labelled_def)
qed simp

section \<open>Parentheses\<close>

text \<open>
  C21: The parentheses of a statement are balanced, unless its tree has a node of one of
  ten rules.
\<close>

theorem parentheses_balanced:
  assumes "valid tsql_grammar t" and "\<forall>r \<in> rules_in t. r \<notin> set unbalanced_rules"
    and "root t = Nt r" and "r \<noteq> RuleAsymmetric_key_option_start"
  shows "balanced T_LR_BRACKET T_RR_BRACKET (yield t)"
proof -
  from assms(1,2) have "valid (without (is_one_of unbalanced_rules) tsql_grammar) t"
    by (intro valid_without) auto
  from tsql_brackets.brackets.holds [OF this] assms(3,4) show ?thesis
    by (simp add: bracketed_def balanced_def opening_rule_def)
qed

theorem parentheses_balanced_witness:
  "balanced T_LR_BRACKET T_RR_BRACKET [T_APP_NAME, T_LR_BRACKET, T_RR_BRACKET]"
proof -
  let ?t = "Node RuleBuilt_in_functions (Some L_APP_NAME) (map Leaf [T_APP_NAME, T_LR_BRACKET, T_RR_BRACKET])"
  have "valid tsql_grammar ?t"
    using rule_leaves [OF rule_in_grammar, of g_built_in_functions "Some L_APP_NAME"
        "[T_APP_NAME, T_LR_BRACKET, T_RR_BRACKET]"]
    by (simp add: rules_5_def g_built_in_functions_def labelled_def alt_APP_NAME_def)
  then show ?thesis
    using parentheses_balanced [of ?t RuleBuilt_in_functions] by (simp add: unbalanced_rules_def)
qed

end
