(* ===== verification/TSql_Faults.thy ===== *)
theory TSql_Faults
  imports TSql_Syntax
begin

text \<open>
  Statements the grammar of \<open>src/TSqlParser.g4\<close> accepts although their parentheses do not
  match: a tree for each of the \<open>unbalanced_rules\<close>.
\<close>

text \<open>A node is valid when its rule reads the children from left to right.\<close>

lemma rule_node:
  assumes "g \<in> set tsql_grammar" and "reads (labelled l (rule_alts g)) (map root ts)"
    and "list_all (valid tsql_grammar) ts"
  shows "valid tsql_grammar (Node (rule_index g) l ts)"
  using assms by (simp add: body_of_rule reads_lang list_all_iff)

definition id_node :: tree where
  "id_node = Node RuleId' None [Leaf T_ID]"

lemma id_node_simps [simp]: "root id_node = Nt RuleId'" "yield id_node = [T_ID]" "valid tsql_grammar id_node"
  using rule_node [OF rule_in_grammar, of "g_id'" None "[Leaf T_ID]"]
  by (simp_all add: id_node_def rules_6_def g_id'_def reads_def labelled_def)

definition token_nodes :: "token list \<Rightarrow> tree list" where
  "token_nodes us = map Leaf us"

lemma token_nodes_simps [simp]:
  "token_nodes [] = []" "token_nodes (u # us) = Leaf u # token_nodes us"
  by (simp_all add: token_nodes_def)

text \<open>A rule accepts a sequence of tokens, with a tree without other rules of a set.\<close>

definition admits_without :: "rule_id set \<Rightarrow> rule_id \<Rightarrow> token list \<Rightarrow> bool" where
  "admits_without R r us \<longleftrightarrow>
     (\<exists>t. valid tsql_grammar t \<and> root t = Nt r \<and> yield t = us \<and> rules_in t \<inter> R \<subseteq> {r})"

definition admits :: "rule_id \<Rightarrow> token list \<Rightarrow> bool" where
  "admits r us \<longleftrightarrow> (\<exists>t. valid tsql_grammar t \<and> root t = Nt r \<and> yield t = us)"

lemma admits_without_node:
  assumes "g \<in> set tsql_grammar" and "reads (labelled l (rule_alts g)) (map root ts)"
    and "list_all (valid tsql_grammar) ts" and "us = concat (map yield ts)"
    and "list_all (\<lambda>t. rules_in t \<inter> R = {}) ts"
  shows "admits_without R (rule_index g) us"
  unfolding admits_without_def using rule_node [OF assms(1-3)] assms(4,5)
  by (intro exI [of _ "Node (rule_index g) l ts"]) (auto simp: list_all_iff)

lemma admits_node:
  assumes "g \<in> set tsql_grammar" and "reads (labelled l (rule_alts g)) (map root ts)"
    and "list_all (valid tsql_grammar) ts" and "us = concat (map yield ts)"
  shows "admits (rule_index g) us"
  unfolding admits_def using rule_node [OF assms(1-3)] assms(4)
  by (intro exI [of _ "Node (rule_index g) l ts"]) simp

text \<open>Small nodes for the trees below.\<close>

definition table_node :: tree where
  "table_node = Node RuleFull_table_name None [id_node]"

lemma table_node_simps [simp]: "root table_node = Nt RuleFull_table_name" "yield table_node = [T_ID]"
    "valid tsql_grammar table_node"
  using rule_node [OF rule_in_grammar, of g_full_table_name None "[id_node]"]
  by (simp_all add: table_node_def rules_6_def g_full_table_name_def reads_def labelled_def)

definition name_node :: tree where
  "name_node = Node RuleFunc_proc_name_schema None [id_node]"

lemma name_node_simps [simp]: "root name_node = Nt RuleFunc_proc_name_schema" "yield name_node = [T_ID]"
    "valid tsql_grammar name_node"
  using rule_node [OF rule_in_grammar, of g_func_proc_name_schema None "[id_node]"]
  by (simp_all add: name_node_def rules_6_def g_func_proc_name_schema_def reads_def labelled_def)

definition type_node :: tree where
  "type_node = Node RuleData_type None [id_node]"

lemma type_node_simps [simp]: "root type_node = Nt RuleData_type" "yield type_node = [T_ID]"
    "valid tsql_grammar type_node"
  using rule_node [OF rule_in_grammar, of g_data_type None "[id_node]"]
  by (simp_all add: type_node_def rules_6_def g_data_type_def reads_def labelled_def)

definition param_node :: tree where
  "param_node = Node RuleProcedure_param None [Leaf T_LOCAL_ID, type_node]"

lemma param_node_simps [simp]: "root param_node = Nt RuleProcedure_param" "yield param_node = [T_LOCAL_ID, T_ID]"
    "valid tsql_grammar param_node"
  using rule_node [OF rule_in_grammar, of g_procedure_param None "[Leaf T_LOCAL_ID, type_node]"]
  by (simp_all add: param_node_def rules_3_def g_procedure_param_def reads_def labelled_def)

definition null_node :: tree where
  "null_node = Node RulePrimitive_expression None [Leaf T_NULL']"

lemma null_node_simps [simp]: "root null_node = Nt RulePrimitive_expression" "yield null_node = [T_NULL']"
    "valid tsql_grammar null_node"
  using rule_node [OF rule_in_grammar, of g_primitive_expression None "[Leaf T_NULL']"]
  by (simp_all add: null_node_def rules_4_def g_primitive_expression_def reads_def labelled_def)

definition expr_node :: tree where
  "expr_node = Node RuleExpression None [null_node]"

lemma expr_node_simps [simp]: "root expr_node = Nt RuleExpression" "yield expr_node = [T_NULL']"
    "valid tsql_grammar expr_node"
  using rule_node [OF rule_in_grammar, of g_expression None "[null_node]"]
  by (simp_all add: expr_node_def rules_4_def g_expression_def reads_def labelled_def)

definition item_node :: tree where
  "item_node = Node RuleGroup_by_item None [expr_node]"

lemma item_node_simps [simp]: "root item_node = Nt RuleGroup_by_item" "yield item_node = [T_NULL']"
    "valid tsql_grammar item_node"
  using rule_node [OF rule_in_grammar, of g_group_by_item None "[expr_node]"]
  by (simp_all add: item_node_def rules_4_def g_group_by_item_def reads_def labelled_def)

section \<open>One statement per rule\<close>

text \<open>Statements in which the rule is the only one of the unbalanced rules.\<close>

definition alone :: "rule_id \<Rightarrow> token list \<Rightarrow> bool" where
  "alone = admits_without (set unbalanced_rules)"

lemmas alone_node = admits_without_node [where R = "set unbalanced_rules", folded alone_def]

lemma rules_in_nodes:
  "rules_in id_node = {RuleId'}" "rules_in table_node = {RuleFull_table_name, RuleId'}"
  "rules_in name_node = {RuleFunc_proc_name_schema, RuleId'}" "rules_in type_node = {RuleData_type, RuleId'}"
  "rules_in param_node = {RuleProcedure_param, RuleData_type, RuleId'}"
  "rules_in null_node = {RulePrimitive_expression}"
  "rules_in expr_node = {RuleExpression, RulePrimitive_expression}"
  "rules_in item_node = {RuleGroup_by_item, RuleExpression, RulePrimitive_expression}"
  by (simp_all add: id_node_def table_node_def name_node_def type_node_def param_node_def null_node_def
      expr_node_def item_node_def)

lemmas alone_simps = unbalanced_rules_def rules_in_nodes

lemma alone_alter_availability_group_options:
  "alone RuleAlter_availability_group_options
     [T_SECONDARY_ROLE, T_LR_BRACKET, T_ALLOW_CONNECTIONS, T_EQUAL, T_NO]"
  using alone_node [OF rule_in_grammar, of g_alter_availability_group_options None
    "[Leaf T_SECONDARY_ROLE, Leaf T_LR_BRACKET, Leaf T_ALLOW_CONNECTIONS, Leaf T_EQUAL, Leaf
     T_NO]"]
  by (simp add: alone_simps rules_1_def g_alter_availability_group_options_def reads_def labelled_def)

lemma alone_create_or_alter_event_session:
  "alone RuleCreate_or_alter_event_session
     [T_CREATE, T_EVENT, T_SESSION, T_ID, T_ON, T_SERVER, T_ADD, T_TARGET, T_ID, T_DOT, T_ID,
     T_LR_BRACKET, T_SET, T_ID, T_EQUAL, T_DECIMAL, T_RR_BRACKET, T_RR_BRACKET]"
  using alone_node [OF rule_in_grammar, of g_create_or_alter_event_session None
    "[Leaf T_CREATE, Leaf T_EVENT, Leaf T_SESSION, id_node, Leaf T_ON, Leaf T_SERVER, Leaf
     T_ADD, Leaf T_TARGET, id_node, Leaf T_DOT, id_node, Leaf T_LR_BRACKET, Leaf T_SET, id_node,
     Leaf T_EQUAL, Leaf T_DECIMAL, Leaf T_RR_BRACKET, Leaf T_RR_BRACKET]"]
  by (simp add: alone_simps rules_2_def g_create_or_alter_event_session_def reads_def labelled_def)

lemma alone_alter_external_library:
  "alone RuleAlter_external_library
     [T_ALTER, T_EXTERNAL, T_LIBRARY, T_ID, T_SET, T_LR_BRACKET, T_CONTENT, T_EQUAL, T_NONE,
     T_COMMA, T_PLATFORM, T_EQUAL, T_LINUX, T_RR_BRACKET, T_WITH, T_LANGUAGE, T_EQUAL, T_R,
     T_RR_BRACKET]"
  using alone_node [OF rule_in_grammar, of g_alter_external_library None
    "[Leaf T_ALTER, Leaf T_EXTERNAL, Leaf T_LIBRARY, id_node, Leaf T_SET, Leaf T_LR_BRACKET,
     Leaf T_CONTENT, Leaf T_EQUAL, Leaf T_NONE, Leaf T_COMMA, Leaf T_PLATFORM, Leaf T_EQUAL,
     Leaf T_LINUX, Leaf T_RR_BRACKET, Leaf T_WITH, Leaf T_LANGUAGE, Leaf T_EQUAL, Leaf T_R, Leaf
     T_RR_BRACKET]"]
  by (simp add: alone_simps rules_2_def g_alter_external_library_def reads_def labelled_def)

lemma alone_create_external_library:
  "alone RuleCreate_external_library
     [T_CREATE, T_EXTERNAL, T_LIBRARY, T_ID, T_FROM, T_NONE, T_WITH, T_LANGUAGE, T_EQUAL, T_R,
     T_RR_BRACKET]"
  using alone_node [OF rule_in_grammar, of g_create_external_library None
    "[Leaf T_CREATE, Leaf T_EXTERNAL, Leaf T_LIBRARY, id_node, Leaf T_FROM, Leaf T_NONE, Leaf
     T_WITH, Leaf T_LANGUAGE, Leaf T_EQUAL, Leaf T_R, Leaf T_RR_BRACKET]"]
  by (simp add: alone_simps rules_2_def g_create_external_library_def reads_def labelled_def)

lemma alone_receive_statement:
  "alone RuleReceive_statement
     [T_LR_BRACKET, T_RECEIVE, T_ALL, T_FROM, T_ID]"
  using alone_node [OF rule_in_grammar, of g_receive_statement None
    "[Leaf T_LR_BRACKET, Leaf T_RECEIVE, Leaf T_ALL, Leaf T_FROM, table_node]"]
  by (simp add: alone_simps rules_3_def g_receive_statement_def reads_def labelled_def)

lemma alone_create_or_alter_procedure:
  "alone RuleCreate_or_alter_procedure
     [T_CREATE, T_PROC, T_ID, T_LR_BRACKET, T_LOCAL_ID, T_ID, T_AS]"
  using alone_node [OF rule_in_grammar, of g_create_or_alter_procedure None
    "[Leaf T_CREATE, Leaf T_PROC, name_node, Leaf T_LR_BRACKET, param_node, Leaf T_AS]"]
  by (simp add: alone_simps rules_3_def g_create_or_alter_procedure_def reads_def labelled_def)

lemma alone_backup_database:
  "alone RuleBackup_database
     [T_BACKUP, T_DATABASE, T_ID, T_TO, T_ID, T_WITH, T_ENCRYPTION, T_LR_BRACKET, T_ALGORITHM,
     T_EQUAL, T_AES_128, T_COMMA, T_SERVER, T_CERTIFICATE, T_EQUAL, T_ID]"
  using alone_node [OF rule_in_grammar, of g_backup_database None
    "[Leaf T_BACKUP, Leaf T_DATABASE, id_node, Leaf T_TO, id_node, Leaf T_WITH, Leaf
     T_ENCRYPTION, Leaf T_LR_BRACKET, Leaf T_ALGORITHM, Leaf T_EQUAL, Leaf T_AES_128, Leaf
     T_COMMA, Leaf T_SERVER, Leaf T_CERTIFICATE, Leaf T_EQUAL, id_node]"]
  by (simp add: alone_simps rules_3_def g_backup_database_def reads_def labelled_def)

lemma alone_backup_log:
  "alone RuleBackup_log
     [T_BACKUP, T_LOG, T_ID, T_TO, T_ID, T_WITH, T_ENCRYPTION, T_LR_BRACKET, T_ALGORITHM,
     T_EQUAL, T_AES_128, T_COMMA, T_SERVER, T_CERTIFICATE, T_EQUAL, T_ID]"
  using alone_node [OF rule_in_grammar, of g_backup_log None
    "[Leaf T_BACKUP, Leaf T_LOG, id_node, Leaf T_TO, id_node, Leaf T_WITH, Leaf T_ENCRYPTION,
     Leaf T_LR_BRACKET, Leaf T_ALGORITHM, Leaf T_EQUAL, Leaf T_AES_128, Leaf T_COMMA, Leaf
     T_SERVER, Leaf T_CERTIFICATE, Leaf T_EQUAL, id_node]"]
  by (simp add: alone_simps rules_3_def g_backup_log_def reads_def labelled_def)

lemma alone_dbcc_dropcleanbuffers:
  "alone RuleDbcc_dropcleanbuffers
     [T_DROPCLEANBUFFERS, T_LR_BRACKET, T_COMPUTE]"
  using alone_node [OF rule_in_grammar, of g_dbcc_dropcleanbuffers None
    "[Leaf T_DROPCLEANBUFFERS, Leaf T_LR_BRACKET, Leaf T_COMPUTE]"]
  by (simp add: alone_simps rules_4_def g_dbcc_dropcleanbuffers_def reads_def labelled_def)

lemma alone_grouping_sets_item:
  "alone RuleGrouping_sets_item
     [T_LR_BRACKET, T_NULL']"
  using alone_node [OF rule_in_grammar, of g_grouping_sets_item None
    "[Leaf T_LR_BRACKET, item_node]"]
  by (simp add: alone_simps rules_4_def g_grouping_sets_item_def reads_def labelled_def)

text \<open>
  C22: The list of exceptions of the balance theorem cannot be shortened: each of these rules accepts a
  statement whose parentheses do not match although no other of these rules takes part in it.
\<close>

theorem unbalanced_rules_tight:
  "\<forall>r \<in> set unbalanced_rules. \<exists>t. valid tsql_grammar t \<and> root t = Nt r
     \<and> rules_in t \<inter> set unbalanced_rules = {r} \<and> \<not> balanced T_LR_BRACKET T_RR_BRACKET (yield t)"
proof
  fix r assume r: "r \<in> set unbalanced_rules"
  have "\<exists>us. alone r us \<and> depth T_LR_BRACKET T_RR_BRACKET 0 us \<noteq> Some 0"
  proof -
    have ex: "alone r us \<Longrightarrow> depth T_LR_BRACKET T_RR_BRACKET 0 us \<noteq> Some 0 \<Longrightarrow>
      \<exists>us. alone r us \<and> depth T_LR_BRACKET T_RR_BRACKET 0 us \<noteq> Some 0" for r us by blast
    note trees =
      alone_alter_availability_group_options [THEN ex] alone_create_or_alter_event_session [THEN ex]
      alone_alter_external_library [THEN ex] alone_create_external_library [THEN ex]
      alone_receive_statement [THEN ex] alone_create_or_alter_procedure [THEN ex]
      alone_backup_database [THEN ex] alone_backup_log [THEN ex]
      alone_dbcc_dropcleanbuffers [THEN ex] alone_grouping_sets_item [THEN ex]
    show ?thesis using r trees unfolding unbalanced_rules_def by auto
  qed
  then obtain t where t: "valid tsql_grammar t" "root t = Nt r" "rules_in t \<inter> set unbalanced_rules \<subseteq> {r}"
    "\<not> balanced T_LR_BRACKET T_RR_BRACKET (yield t)"
    unfolding alone_def admits_without_def balanced_def by blast
  moreover from t(2) r have "r \<in> rules_in t \<inter> set unbalanced_rules" by (cases t) auto
  ultimately show "\<exists>t. valid tsql_grammar t \<and> root t = Nt r
     \<and> rules_in t \<inter> set unbalanced_rules = {r} \<and> \<not> balanced T_LR_BRACKET T_RR_BRACKET (yield t)"
    by blast
qed

theorem unbalanced_rules_tight_witness:
  "\<exists>t. valid tsql_grammar t \<and> root t = Nt RuleBackup_log
     \<and> rules_in t \<inter> set unbalanced_rules = {RuleBackup_log}
     \<and> \<not> balanced T_LR_BRACKET T_RR_BRACKET (yield t)"
  by (rule bspec [OF unbalanced_rules_tight]) (simp add: unbalanced_rules_def)

section \<open>A rule of tokens\<close>

lemma leaves_of: "map root ts = map Tm us \<Longrightarrow> ts = map Leaf us"
proof (induction ts arbitrary: us)
  case (Cons t ts)
  then show ?case by (cases us; cases t) auto
qed simp

lemma admits_tokens:
  assumes "g \<in> set tsql_grammar"
    and "list_all (\<lambda>a. all_syms (\<lambda>s. case s of Tm t \<Rightarrow> True | Nt r \<Rightarrow> False) (snd a)) (rule_alts g)"
  shows "admits (rule_index g) us \<longleftrightarrow> (\<exists>l. lang (labelled l (rule_alts g)) (map Tm us))"
proof
  assume "admits (rule_index g) us"
  then obtain l ts where t: "valid tsql_grammar (Node (rule_index g) l ts)" "concat (map yield ts) = us"
    unfolding admits_def by (metis root.simps sym.distinct(1) sym.inject(2) tree.exhaust yield.simps(2))
  with assms(1) obtain e where e: "(l, e) \<in> set (rule_alts g)" "lang e (map root ts)"
    by (auto simp: body_of_rule lang_labelled)
  have "\<exists>t. s = Tm t" if "s \<in> set (map root ts)" for s
  proof -
    from e that have "mentions e s" by (blast intro: lang_mentions)
    with e(1) assms(2) show ?thesis by (cases s) (force simp: list_all_iff all_syms_iff)+
  qed
  then obtain vs where "map root ts = map Tm vs"
    by (metis (no_types) ex_map_conv)
  then have "ts = map Leaf vs" by (rule leaves_of)
  with t(2) have "ts = map Leaf us" by (simp only: yield_leaves)
  with e show "\<exists>l. lang (labelled l (rule_alts g)) (map Tm us)"
    by (auto simp: lang_labelled comp_def)
next
  assume "\<exists>l. lang (labelled l (rule_alts g)) (map Tm us)"
  with assms(1) show "admits (rule_index g) us"
    unfolding admits_def using rule_leaves by (metis accepts_iff root.simps(2) yield.simps(2) yield_leaves)
qed

lemma admits_dropcleanbuffers_iff:
  "admits RuleDbcc_dropcleanbuffers us
     \<longleftrightarrow> (\<exists>l. lang (labelled l (rule_alts g_dbcc_dropcleanbuffers)) (map Tm us))"
proof -
  have "rule_index g_dbcc_dropcleanbuffers = RuleDbcc_dropcleanbuffers"
    by (simp add: g_dbcc_dropcleanbuffers_def)
  moreover have "g_dbcc_dropcleanbuffers \<in> set tsql_grammar"
    by (rule rule_in_grammar) (simp add: rules_4_def)
  moreover have "list_all (\<lambda>a. all_syms (\<lambda>s. case s of Tm t \<Rightarrow> True | Nt r \<Rightarrow> False) (snd a))
      (rule_alts g_dbcc_dropcleanbuffers)"
    by (simp add: g_dbcc_dropcleanbuffers_def)
  ultimately show ?thesis using admits_tokens by metis
qed

lemma admits_dropcleanbuffers:
  "reads (labelled None (rule_alts g_dbcc_dropcleanbuffers)) (map Tm us) \<Longrightarrow>
     admits RuleDbcc_dropcleanbuffers us"
  unfolding admits_dropcleanbuffers_iff using reads_lang by blast

text \<open>
  C27: \<open>DBCC DROPCLEANBUFFERS (COMPUTE)\<close> is not accepted: the alternation inside the
  parentheses of the rule takes one parenthesis to each side, so the rule accepts
  \<open>(COMPUTE\<close> and \<open>ALL)\<close>.
\<close>

theorem dropcleanbuffers_exact:
  "admits RuleDbcc_dropcleanbuffers us \<longleftrightarrow> us \<in>
     {[T_DROPCLEANBUFFERS],
      [T_DROPCLEANBUFFERS, T_LR_BRACKET, T_COMPUTE],
      [T_DROPCLEANBUFFERS, T_ALL, T_RR_BRACKET],
      [T_DROPCLEANBUFFERS, T_WITH, T_NO_INFOMSGS],
      [T_DROPCLEANBUFFERS, T_LR_BRACKET, T_COMPUTE, T_WITH, T_NO_INFOMSGS],
      [T_DROPCLEANBUFFERS, T_ALL, T_RR_BRACKET, T_WITH, T_NO_INFOMSGS]}"
  (is "_ \<longleftrightarrow> _ \<in> ?W")
proof
  assume "admits RuleDbcc_dropcleanbuffers us"
  then obtain l where "lang (labelled l (rule_alts g_dbcc_dropcleanbuffers)) (map Tm us)"
    unfolding admits_dropcleanbuffers_iff by blast
  then show "us \<in> ?W"
    unfolding g_dbcc_dropcleanbuffers_def lang_labelled by auto
next
  have "list_all (admits RuleDbcc_dropcleanbuffers) 
     [[T_DROPCLEANBUFFERS],
      [T_DROPCLEANBUFFERS, T_LR_BRACKET, T_COMPUTE],
      [T_DROPCLEANBUFFERS, T_ALL, T_RR_BRACKET],
      [T_DROPCLEANBUFFERS, T_WITH, T_NO_INFOMSGS],
      [T_DROPCLEANBUFFERS, T_LR_BRACKET, T_COMPUTE, T_WITH, T_NO_INFOMSGS],
      [T_DROPCLEANBUFFERS, T_ALL, T_RR_BRACKET, T_WITH, T_NO_INFOMSGS]]"
    by (simp add: admits_dropcleanbuffers reads_def g_dbcc_dropcleanbuffers_def labelled_def)
  moreover assume "us \<in> ?W"
  ultimately show "admits RuleDbcc_dropcleanbuffers us" by (auto simp: list_all_iff)
qed

end
