(* ===== verification/Listeners.thy ===== *)
theory Listeners
  imports Typed_Trees Conforming Label_Ids
begin

text \<open>
  The methods of the listener and visitor classes generated for a grammar, and what it takes
  for them to fit the rules and their context classes: one \<open>enter\<close> and one \<open>exit\<close> method for every class
  that overrides \<open>enterRule\<close> and \<open>exitRule\<close>, one \<open>visit\<close> method for every class that overrides
  \<open>accept\<close>, in the order of the grammar.
\<close>

text \<open>
  A method carries the class of its parameter; its name is the prefix and the class name
  without \<open>Context\<close>.
\<close>

datatype listener_method =
    EnterMethod class_id   \<comment> \<open>\<open>virtual void enterX(TSqlParser::XContext *ctx)\<close>\<close>
  | ExitMethod class_id    \<comment> \<open>\<open>virtual void exitX(TSqlParser::XContext *ctx)\<close>\<close>
  | EnterEvery             \<comment> \<open>\<open>virtual void enterEveryRule(antlr4::ParserRuleContext *)\<close>\<close>
  | ExitEvery              \<comment> \<open>\<open>virtual void exitEveryRule(antlr4::ParserRuleContext *)\<close>\<close>
  | TerminalMethod         \<comment> \<open>\<open>virtual void visitTerminal(antlr4::tree::TerminalNode *)\<close>\<close>
  | ErrorMethod            \<comment> \<open>\<open>virtual void visitErrorNode(antlr4::tree::ErrorNode *)\<close>\<close>

datatype visitor_method =
    VisitMethod class_id   \<comment> \<open>\<open>virtual std::any visitX(TSqlParser::XContext *context)\<close>\<close>

datatype visitor_body =
    VisitChildren          \<comment> \<open>\<open>return visitChildren(ctx);\<close>\<close>
  | DefaultResult          \<comment> \<open>\<open>return defaultResult();\<close>\<close>

section \<open>Classes of nodes\<close>

text \<open>
  A class of nodes overrides \<open>enterRule\<close>, \<open>exitRule\<close> and \<open>accept\<close>; the base class of the
  labelled alternatives of a rule overrides none of them.
\<close>

definition has_member :: "cpp_member \<Rightarrow> context_class \<Rightarrow> bool" where
  "has_member m c = list_ex (\<lambda>x. x = m) (members c)"

definition notified :: "context_class \<Rightarrow> bool" where
  "notified c \<longleftrightarrow> has_member EnterRule c \<and> has_member ExitRule c \<and> has_member Accept c"

definition silent :: "context_class \<Rightarrow> bool" where
  "silent c \<longleftrightarrow> \<not> has_member EnterRule c \<and> \<not> has_member ExitRule c \<and> \<not> has_member Accept c"

lemma has_member_iff: "has_member m c \<longleftrightarrow> m \<in> set (members c)"
  by (auto simp: has_member_def list_ex_iff)

fun notify_ok :: "rule option \<times> context_class list \<Rightarrow> bool" where
  "notify_ok (p, []) = True"
| "notify_ok (p, [c]) = notified c"
| "notify_ok (None, c # d # cs) = False"
| "notify_ok (Some g, c # d # cs) = (if silent c then list_all notified (d # cs) else False)"

text \<open>
  The identities of the classes of nodes of a rule, in the order the generator lists them:
  the labels in the order of their first alternatives.
\<close>

fun first_labels :: "label_id list \<Rightarrow> (label_id option \<times> ebnf) list \<Rightarrow> label_id list" where
  "first_labels seen [] = []"
| "first_labels seen ((k, e) # as) = (case k of None \<Rightarrow> first_labels seen as
     | Some l \<Rightarrow> if list_ex (\<lambda>x. x = l) seen then first_labels seen as
                else l # first_labels (l # seen) as)"

fun node_ids :: "rule option \<times> context_class list \<Rightarrow> class_id list" where
  "node_ids (p, []) = []"
| "node_ids (p, [c]) = [class_id c]"
| "node_ids (None, c # d # cs) = []"
| "node_ids (Some g, c # d # cs) = map LabelContext (first_labels [] (rule_alts g))"

fun all_node_ids :: "(rule option \<times> context_class list) list \<Rightarrow> class_id list" where
  "all_node_ids [] = []"
| "all_node_ids (p # ps) = node_ids p @ all_node_ids ps"

lemma all_node_ids_append: "all_node_ids (ps @ qs) = all_node_ids ps @ all_node_ids qs"
  by (induction ps) auto

lemma set_all_node_ids: "set (all_node_ids ps) = (\<Union>p \<in> set ps. set (node_ids p))"
  by (induction ps) auto

lemma set_first_labels: "set (first_labels seen as) = {l. \<exists>e. (Some l, e) \<in> set as} - set seen"
  by (induction seen as rule: first_labels.induct) (auto simp: list_ex_iff split: option.splits)

lemma distinct_first_labels: "distinct (first_labels seen as)"
  by (induction seen as rule: first_labels.induct) (auto simp: set_first_labels split: option.split)

lemma distinct_node_ids: "distinct (node_ids p)"
  by (induction p rule: node_ids.induct) (auto simp: distinct_map distinct_first_labels inj_on_def)

text \<open>The labels of a conforming rule are those of its classes.\<close>

lemma fits_nonempty: "fits c (labelled l as) \<Longrightarrow> \<exists>e. (l, e) \<in> set as"
  by (cases "select_label l as") (auto simp: fits_def labelled_def simp flip: set_select_label)

lemma label_class_ids:
  assumes "conforms g (c # d # cs)"
  shows "LabelContext ` set (first_labels [] (rule_alts g)) = class_id ` set (d # cs)"
proof
  show "LabelContext ` set (first_labels [] (rule_alts g)) \<subseteq> class_id ` set (d # cs)"
    using assms by (fastforce simp: set_first_labels list_all_iff list_ex_iff has_class_def image_iff)
  show "class_id ` set (d # cs) \<subseteq> LabelContext ` set (first_labels [] (rule_alts g))"
  proof
    fix i assume "i \<in> class_id ` set (d # cs)"
    then obtain k where k: "k \<in> set (d # cs)" "i = class_id k" by auto
    with assms have "label_conforms g k" by (auto simp: list_all_iff)
    then obtain l where "class_id k = LabelContext l" "fits k (labelled (Some l) (rule_alts g))"
      by (auto simp: label_conforms_def split: class_id.splits)
    with k fits_nonempty have "l \<in> set (first_labels [] (rule_alts g))" "i = LabelContext l"
      by (auto simp: set_first_labels)
    then show "i \<in> LabelContext ` set (first_labels [] (rule_alts g))" by simp
  qed
qed

lemma node_ids_notified:
  assumes "notify_ok (p, cs)" and "pair_ok (p, cs)"
    and "\<And>g. p = Some g \<Longrightarrow> length cs > 1 \<Longrightarrow> rule_index g \<notin> set drifted"
  shows "set (node_ids (p, cs)) = class_id ` {c \<in> set cs. notified c}"
proof (cases "(p, cs)" rule: node_ids.cases)
  case (4 g c d ds)
  with assms(2,3) have "conforms g (c # d # ds)"
    by (auto simp: list_ex_iff split: if_splits)
  moreover from 4 assms(1) have "{k \<in> set cs. notified k} = set (d # ds)"
    by (auto simp: list_all_iff silent_def notified_def split: if_splits)
  ultimately show ?thesis using 4 label_class_ids by simp
qed (use assms(1) in auto)

lemma notified_or_silent: "notify_ok (p, cs) \<Longrightarrow> c \<in> set cs \<Longrightarrow> notified c \<or> silent c"
  by (induction "(p, cs)" rule: notify_ok.induct) (auto simp: list_all_iff split: if_splits)

text \<open>The class of a node that an alternative can build is notified.\<close>

lemma described_notified:
  assumes "conforms g cs" and "c \<in> set cs" and "describes c (rule_index g) l"
    and "(l, e) \<in> set (rule_alts g)"
  shows "notified c"
proof -
  have all: "list_all P xs \<Longrightarrow> x \<in> set xs \<Longrightarrow> P x" for P and xs :: "'a list" and x
    by (simp add: list_all_iff)
  have skeleton: "m \<in> set (skeleton k) \<Longrightarrow> has_member m k" for m k
    by (simp add: skeleton_def has_member_iff)
  show ?thesis
  proof (cases cs rule: remdups_adj.cases)
    case (2 d)
    with assms have "skeleton c = rule_skeleton" by simp
    then show ?thesis by (simp add: notified_def skeleton rule_skeleton_def)
  next
    case (3 d f fs)
    show ?thesis
    proof (cases "c \<in> set (f # fs)")
      case True
      with assms(1) 3 have "skeleton c = label_skeleton (rule_index g)"
        by (auto simp: label_conforms_def list_all_iff)
      then show ?thesis by (simp add: notified_def skeleton label_skeleton_def)
    next
      case False
      with assms 3 have "class_id c = RuleContext (rule_index g)" by simp
      with assms(3) have "l = None" by (cases l) auto
      with assms 3 show ?thesis by (auto simp: has_class_def list_all_iff)
    qed
  qed (use assms in simp)
qed

lemma distinct_all_node_ids:
  assumes "distinct (map class_id (concat (map snd ps)))"
    and "\<And>p. p \<in> set ps \<Longrightarrow> set (node_ids p) \<subseteq> class_id ` set (snd p)"
  shows "distinct (all_node_ids ps)"
  using assms
proof (induction ps)
  case (Cons p ps)
  then have "set (all_node_ids ps) \<subseteq> class_id ` set (concat (map snd ps))"
    by (force simp: set_all_node_ids)
  moreover have "set (node_ids p) \<subseteq> class_id ` set (snd p)" using Cons.prems(2) by simp
  moreover from Cons.prems(1) have "class_id ` set (snd p) \<inter> class_id ` set (concat (map snd ps)) = {}"
    by simp
  ultimately have "set (node_ids p) \<inter> set (all_node_ids ps) = {}" by blast
  then show ?case using Cons distinct_node_ids by simp
qed simp

section \<open>The methods for a list of classes\<close>

definition listener_for :: "class_id list \<Rightarrow> listener_method list" where
  "listener_for is = concat (map (\<lambda>i. [EnterMethod i, ExitMethod i]) is)"

text \<open>The comparison of a list of methods with these, consuming both step by step.\<close>

fun listener_ok :: "class_id list \<Rightarrow> listener_method list \<Rightarrow> bool" where
  "listener_ok [] ms = (ms = [])"
| "listener_ok (i # is) ms = (case ms of [] \<Rightarrow> False | m # ns \<Rightarrow>
     if m = EnterMethod i
     then (case ns of [] \<Rightarrow> False | n # ms \<Rightarrow> if n = ExitMethod i then listener_ok is ms else False)
     else False)"

fun visited :: "visitor_method \<Rightarrow> class_id" where
  "visited (VisitMethod i) = i"

lemma listener_for_simps [simp]:
  "listener_for [] = []" "listener_for (i # is) = EnterMethod i # ExitMethod i # listener_for is"
  by (simp_all add: listener_for_def)

lemma listener_ok_iff: "listener_ok is ms \<longleftrightarrow> ms = listener_for is"
proof (induction "is" arbitrary: ms)
  case (Cons i js)
  then show ?case by (cases ms rule: remdups_adj.cases) simp_all
qed simp

lemma listener_for_inject: "listener_for is = listener_for js \<longleftrightarrow> is = js"
proof (induction "is" arbitrary: js)
  case (Cons i "is")
  then show ?case by (cases js) simp_all
next
  case Nil
  show ?case by (cases js) simp_all
qed

lemma map_visited: "map visited ms = is \<longleftrightarrow> ms = map VisitMethod is"
proof (induction ms arbitrary: "is")
  case (Cons m ms)
  then show ?case by (cases m; cases "is") auto
qed auto

lemma count_list_distinct: "distinct xs \<Longrightarrow> count_list xs x = (if x \<in> set xs then 1 else 0)"
  by (induction xs) auto

lemma count_listener_for:
  "count_list (listener_for is) (EnterMethod i) = count_list is i"
  "count_list (listener_for is) (ExitMethod i) = count_list is i"
  by (induction "is") simp_all

lemma set_listener_for: "set (listener_for is) = EnterMethod ` set is \<union> ExitMethod ` set is"
  by (auto simp: listener_for_def)

end
