(* ===== verification/Base_Listener_Table.thy ===== *)
theory Base_Listener_Table
  imports Listeners
begin

text \<open>
  The methods of \<open>port/cpp/TSqlParserBaseListener.h\<close>, all with an empty body.
\<close>

definition base_listener_1 :: "listener_method list" where
  "base_listener_1 = [
     EnterMethod (RuleContext RuleTsql_file), ExitMethod (RuleContext RuleTsql_file),
     EnterMethod (RuleContext RuleBatch), ExitMethod (RuleContext RuleBatch),
     EnterMethod (RuleContext RuleBatch_level_statement),
     ExitMethod (RuleContext RuleBatch_level_statement),
     EnterMethod (RuleContext RuleSql_clauses), ExitMethod (RuleContext RuleSql_clauses),
     EnterMethod (RuleContext RuleDml_clause), ExitMethod (RuleContext RuleDml_clause),
     EnterMethod (RuleContext RuleDdl_clause), ExitMethod (RuleContext RuleDdl_clause),
     EnterMethod (RuleContext RuleBackup_statement),
     ExitMethod (RuleContext RuleBackup_statement),
     EnterMethod (RuleContext RuleCfl_statement), ExitMethod (RuleContext RuleCfl_statement),
     EnterMethod (RuleContext RuleBlock_statement),
     ExitMethod (RuleContext RuleBlock_statement),
     EnterMethod (RuleContext RuleBreak_statement),
     ExitMethod (RuleContext RuleBreak_statement),
     EnterMethod (RuleContext RuleContinue_statement),
     ExitMethod (RuleContext RuleContinue_statement),
     EnterMethod (RuleContext RuleGoto_statement), ExitMethod (RuleContext RuleGoto_statement),
     EnterMethod (RuleContext RuleReturn_statement),
     ExitMethod (RuleContext RuleReturn_statement), EnterMethod (RuleContext RuleIf_statement),
     ExitMethod (RuleContext RuleIf_statement), EnterMethod (RuleContext RuleThrow_statement),
     ExitMethod (RuleContext RuleThrow_statement),
     EnterMethod (RuleContext RuleThrow_error_number),
     ExitMethod (RuleContext RuleThrow_error_number),
     EnterMethod (RuleContext RuleThrow_message), ExitMethod (RuleContext RuleThrow_message),
     EnterMethod (RuleContext RuleThrow_state), ExitMethod (RuleContext RuleThrow_state),
     EnterMethod (RuleContext RuleTry_catch_statement),
     ExitMethod (RuleContext RuleTry_catch_statement),
     EnterMethod (RuleContext RuleWaitfor_statement),
     ExitMethod (RuleContext RuleWaitfor_statement),
     EnterMethod (RuleContext RuleWhile_statement),
     ExitMethod (RuleContext RuleWhile_statement),
     EnterMethod (RuleContext RulePrint_statement),
     ExitMethod (RuleContext RulePrint_statement),
     EnterMethod (RuleContext RuleRaiseerror_statement),
     ExitMethod (RuleContext RuleRaiseerror_statement),
     EnterMethod (RuleContext RuleEmpty_statement),
     ExitMethod (RuleContext RuleEmpty_statement),
     EnterMethod (RuleContext RuleAnother_statement),
     ExitMethod (RuleContext RuleAnother_statement),
     EnterMethod (RuleContext RuleAlter_application_role),
     ExitMethod (RuleContext RuleAlter_application_role),
     EnterMethod (RuleContext RuleAlter_xml_schema_collection),
     ExitMethod (RuleContext RuleAlter_xml_schema_collection),
     EnterMethod (RuleContext RuleCreate_application_role),
     ExitMethod (RuleContext RuleCreate_application_role),
     EnterMethod (RuleContext RuleDrop_aggregate), ExitMethod (RuleContext RuleDrop_aggregate),
     EnterMethod (RuleContext RuleDrop_application_role),
     ExitMethod (RuleContext RuleDrop_application_role),
     EnterMethod (RuleContext RuleAlter_assembly), ExitMethod (RuleContext RuleAlter_assembly),
     EnterMethod (RuleContext RuleAlter_assembly_start),
     ExitMethod (RuleContext RuleAlter_assembly_start),
     EnterMethod (RuleContext RuleAlter_assembly_clause),
     ExitMethod (RuleContext RuleAlter_assembly_clause),
     EnterMethod (RuleContext RuleAlter_assembly_from_clause),
     ExitMethod (RuleContext RuleAlter_assembly_from_clause),
     EnterMethod (RuleContext RuleAlter_assembly_from_clause_start),
     ExitMethod (RuleContext RuleAlter_assembly_from_clause_start),
     EnterMethod (RuleContext RuleAlter_assembly_drop_clause),
     ExitMethod (RuleContext RuleAlter_assembly_drop_clause),
     EnterMethod (RuleContext RuleAlter_assembly_drop_multiple_files),
     ExitMethod (RuleContext RuleAlter_assembly_drop_multiple_files),
     EnterMethod (RuleContext RuleAlter_assembly_drop),
     ExitMethod (RuleContext RuleAlter_assembly_drop),
     EnterMethod (RuleContext RuleAlter_assembly_add_clause),
     ExitMethod (RuleContext RuleAlter_assembly_add_clause),
     EnterMethod (RuleContext RuleAlter_asssembly_add_clause_start),
     ExitMethod (RuleContext RuleAlter_asssembly_add_clause_start),
     EnterMethod (RuleContext RuleAlter_assembly_client_file_clause),
     ExitMethod (RuleContext RuleAlter_assembly_client_file_clause),
     EnterMethod (RuleContext RuleAlter_assembly_file_name),
     ExitMethod (RuleContext RuleAlter_assembly_file_name),
     EnterMethod (RuleContext RuleAlter_assembly_file_bits),
     ExitMethod (RuleContext RuleAlter_assembly_file_bits),
     EnterMethod (RuleContext RuleAlter_assembly_as),
     ExitMethod (RuleContext RuleAlter_assembly_as),
     EnterMethod (RuleContext RuleAlter_assembly_with_clause),
     ExitMethod (RuleContext RuleAlter_assembly_with_clause),
     EnterMethod (RuleContext RuleAlter_assembly_with),
     ExitMethod (RuleContext RuleAlter_assembly_with),
     EnterMethod (RuleContext RuleClient_assembly_specifier),
     ExitMethod (RuleContext RuleClient_assembly_specifier),
     EnterMethod (RuleContext RuleAssembly_option),
     ExitMethod (RuleContext RuleAssembly_option),
     EnterMethod (RuleContext RuleNetwork_file_share),
     ExitMethod (RuleContext RuleNetwork_file_share)]"

definition base_listener_2 :: "listener_method list" where
  "base_listener_2 = [
     EnterMethod (RuleContext RuleNetwork_computer),
     ExitMethod (RuleContext RuleNetwork_computer),
     EnterMethod (RuleContext RuleNetwork_file_start),
     ExitMethod (RuleContext RuleNetwork_file_start), EnterMethod (RuleContext RuleFile_path),
     ExitMethod (RuleContext RuleFile_path),
     EnterMethod (RuleContext RuleFile_directory_path_separator),
     ExitMethod (RuleContext RuleFile_directory_path_separator),
     EnterMethod (RuleContext RuleLocal_file), ExitMethod (RuleContext RuleLocal_file),
     EnterMethod (RuleContext RuleLocal_drive), ExitMethod (RuleContext RuleLocal_drive),
     EnterMethod (RuleContext RuleMultiple_local_files),
     ExitMethod (RuleContext RuleMultiple_local_files),
     EnterMethod (RuleContext RuleMultiple_local_file_start),
     ExitMethod (RuleContext RuleMultiple_local_file_start),
     EnterMethod (RuleContext RuleCreate_assembly),
     ExitMethod (RuleContext RuleCreate_assembly), EnterMethod (RuleContext RuleDrop_assembly),
     ExitMethod (RuleContext RuleDrop_assembly),
     EnterMethod (RuleContext RuleAlter_asymmetric_key),
     ExitMethod (RuleContext RuleAlter_asymmetric_key),
     EnterMethod (RuleContext RuleAlter_asymmetric_key_start),
     ExitMethod (RuleContext RuleAlter_asymmetric_key_start),
     EnterMethod (RuleContext RuleAsymmetric_key_option),
     ExitMethod (RuleContext RuleAsymmetric_key_option),
     EnterMethod (RuleContext RuleAsymmetric_key_option_start),
     ExitMethod (RuleContext RuleAsymmetric_key_option_start),
     EnterMethod (RuleContext RuleAsymmetric_key_password_change_option),
     ExitMethod (RuleContext RuleAsymmetric_key_password_change_option),
     EnterMethod (RuleContext RuleCreate_asymmetric_key),
     ExitMethod (RuleContext RuleCreate_asymmetric_key),
     EnterMethod (RuleContext RuleDrop_asymmetric_key),
     ExitMethod (RuleContext RuleDrop_asymmetric_key),
     EnterMethod (RuleContext RuleAlter_authorization),
     ExitMethod (RuleContext RuleAlter_authorization),
     EnterMethod (RuleContext RuleAuthorization_grantee),
     ExitMethod (RuleContext RuleAuthorization_grantee),
     EnterMethod (RuleContext RuleEntity_to), ExitMethod (RuleContext RuleEntity_to),
     EnterMethod (RuleContext RuleColon_colon), ExitMethod (RuleContext RuleColon_colon),
     EnterMethod (RuleContext RuleAlter_authorization_start),
     ExitMethod (RuleContext RuleAlter_authorization_start),
     EnterMethod (RuleContext RuleAlter_authorization_for_sql_database),
     ExitMethod (RuleContext RuleAlter_authorization_for_sql_database),
     EnterMethod (RuleContext RuleAlter_authorization_for_azure_dw),
     ExitMethod (RuleContext RuleAlter_authorization_for_azure_dw),
     EnterMethod (RuleContext RuleAlter_authorization_for_parallel_dw),
     ExitMethod (RuleContext RuleAlter_authorization_for_parallel_dw),
     EnterMethod (RuleContext RuleClass_type), ExitMethod (RuleContext RuleClass_type),
     EnterMethod (RuleContext RuleClass_type_for_sql_database),
     ExitMethod (RuleContext RuleClass_type_for_sql_database),
     EnterMethod (RuleContext RuleClass_type_for_azure_dw),
     ExitMethod (RuleContext RuleClass_type_for_azure_dw),
     EnterMethod (RuleContext RuleClass_type_for_parallel_dw),
     ExitMethod (RuleContext RuleClass_type_for_parallel_dw),
     EnterMethod (RuleContext RuleClass_type_for_grant),
     ExitMethod (RuleContext RuleClass_type_for_grant),
     EnterMethod (RuleContext RuleDrop_availability_group),
     ExitMethod (RuleContext RuleDrop_availability_group),
     EnterMethod (RuleContext RuleAlter_availability_group),
     ExitMethod (RuleContext RuleAlter_availability_group),
     EnterMethod (RuleContext RuleAlter_availability_group_start),
     ExitMethod (RuleContext RuleAlter_availability_group_start),
     EnterMethod (RuleContext RuleAlter_availability_group_options),
     ExitMethod (RuleContext RuleAlter_availability_group_options),
     EnterMethod (RuleContext RuleIp_v4_failover), ExitMethod (RuleContext RuleIp_v4_failover),
     EnterMethod (RuleContext RuleIp_v6_failover), ExitMethod (RuleContext RuleIp_v6_failover),
     EnterMethod (RuleContext RuleCreate_or_alter_broker_priority),
     ExitMethod (RuleContext RuleCreate_or_alter_broker_priority),
     EnterMethod (RuleContext RuleDrop_broker_priority),
     ExitMethod (RuleContext RuleDrop_broker_priority),
     EnterMethod (RuleContext RuleAlter_certificate),
     ExitMethod (RuleContext RuleAlter_certificate),
     EnterMethod (RuleContext RuleAlter_column_encryption_key),
     ExitMethod (RuleContext RuleAlter_column_encryption_key),
     EnterMethod (RuleContext RuleCreate_column_encryption_key),
     ExitMethod (RuleContext RuleCreate_column_encryption_key),
     EnterMethod (RuleContext RuleDrop_certificate),
     ExitMethod (RuleContext RuleDrop_certificate),
     EnterMethod (RuleContext RuleDrop_column_encryption_key),
     ExitMethod (RuleContext RuleDrop_column_encryption_key),
     EnterMethod (RuleContext RuleDrop_column_master_key),
     ExitMethod (RuleContext RuleDrop_column_master_key),
     EnterMethod (RuleContext RuleDrop_contract), ExitMethod (RuleContext RuleDrop_contract),
     EnterMethod (RuleContext RuleDrop_credential),
     ExitMethod (RuleContext RuleDrop_credential),
     EnterMethod (RuleContext RuleDrop_cryptograhic_provider),
     ExitMethod (RuleContext RuleDrop_cryptograhic_provider),
     EnterMethod (RuleContext RuleDrop_database), ExitMethod (RuleContext RuleDrop_database),
     EnterMethod (RuleContext RuleDrop_database_audit_specification),
     ExitMethod (RuleContext RuleDrop_database_audit_specification)]"

definition base_listener_3 :: "listener_method list" where
  "base_listener_3 = [
     EnterMethod (RuleContext RuleDrop_database_encryption_key),
     ExitMethod (RuleContext RuleDrop_database_encryption_key),
     EnterMethod (RuleContext RuleDrop_database_scoped_credential),
     ExitMethod (RuleContext RuleDrop_database_scoped_credential),
     EnterMethod (RuleContext RuleDrop_default), ExitMethod (RuleContext RuleDrop_default),
     EnterMethod (RuleContext RuleDrop_endpoint), ExitMethod (RuleContext RuleDrop_endpoint),
     EnterMethod (RuleContext RuleDrop_external_data_source),
     ExitMethod (RuleContext RuleDrop_external_data_source),
     EnterMethod (RuleContext RuleDrop_external_file_format),
     ExitMethod (RuleContext RuleDrop_external_file_format),
     EnterMethod (RuleContext RuleDrop_external_library),
     ExitMethod (RuleContext RuleDrop_external_library),
     EnterMethod (RuleContext RuleDrop_external_resource_pool),
     ExitMethod (RuleContext RuleDrop_external_resource_pool),
     EnterMethod (RuleContext RuleDrop_external_table),
     ExitMethod (RuleContext RuleDrop_external_table),
     EnterMethod (RuleContext RuleDrop_event_notifications),
     ExitMethod (RuleContext RuleDrop_event_notifications),
     EnterMethod (RuleContext RuleDrop_event_session),
     ExitMethod (RuleContext RuleDrop_event_session),
     EnterMethod (RuleContext RuleDrop_fulltext_catalog),
     ExitMethod (RuleContext RuleDrop_fulltext_catalog),
     EnterMethod (RuleContext RuleDrop_fulltext_index),
     ExitMethod (RuleContext RuleDrop_fulltext_index),
     EnterMethod (RuleContext RuleDrop_fulltext_stoplist),
     ExitMethod (RuleContext RuleDrop_fulltext_stoplist),
     EnterMethod (RuleContext RuleDrop_login), ExitMethod (RuleContext RuleDrop_login),
     EnterMethod (RuleContext RuleDrop_master_key),
     ExitMethod (RuleContext RuleDrop_master_key),
     EnterMethod (RuleContext RuleDrop_message_type),
     ExitMethod (RuleContext RuleDrop_message_type),
     EnterMethod (RuleContext RuleDrop_partition_function),
     ExitMethod (RuleContext RuleDrop_partition_function),
     EnterMethod (RuleContext RuleDrop_partition_scheme),
     ExitMethod (RuleContext RuleDrop_partition_scheme),
     EnterMethod (RuleContext RuleDrop_queue), ExitMethod (RuleContext RuleDrop_queue),
     EnterMethod (RuleContext RuleDrop_remote_service_binding),
     ExitMethod (RuleContext RuleDrop_remote_service_binding),
     EnterMethod (RuleContext RuleDrop_resource_pool),
     ExitMethod (RuleContext RuleDrop_resource_pool),
     EnterMethod (RuleContext RuleDrop_db_role), ExitMethod (RuleContext RuleDrop_db_role),
     EnterMethod (RuleContext RuleDrop_route), ExitMethod (RuleContext RuleDrop_route),
     EnterMethod (RuleContext RuleDrop_rule), ExitMethod (RuleContext RuleDrop_rule),
     EnterMethod (RuleContext RuleDrop_schema), ExitMethod (RuleContext RuleDrop_schema),
     EnterMethod (RuleContext RuleDrop_search_property_list),
     ExitMethod (RuleContext RuleDrop_search_property_list),
     EnterMethod (RuleContext RuleDrop_security_policy),
     ExitMethod (RuleContext RuleDrop_security_policy),
     EnterMethod (RuleContext RuleDrop_sequence), ExitMethod (RuleContext RuleDrop_sequence),
     EnterMethod (RuleContext RuleDrop_server_audit),
     ExitMethod (RuleContext RuleDrop_server_audit),
     EnterMethod (RuleContext RuleDrop_server_audit_specification),
     ExitMethod (RuleContext RuleDrop_server_audit_specification),
     EnterMethod (RuleContext RuleDrop_server_role),
     ExitMethod (RuleContext RuleDrop_server_role), EnterMethod (RuleContext RuleDrop_service),
     ExitMethod (RuleContext RuleDrop_service), EnterMethod (RuleContext RuleDrop_signature),
     ExitMethod (RuleContext RuleDrop_signature),
     EnterMethod (RuleContext RuleDrop_statistics_name_azure_dw_and_pdw),
     ExitMethod (RuleContext RuleDrop_statistics_name_azure_dw_and_pdw),
     EnterMethod (RuleContext RuleDrop_symmetric_key),
     ExitMethod (RuleContext RuleDrop_symmetric_key),
     EnterMethod (RuleContext RuleDrop_synonym), ExitMethod (RuleContext RuleDrop_synonym),
     EnterMethod (RuleContext RuleDrop_user), ExitMethod (RuleContext RuleDrop_user),
     EnterMethod (RuleContext RuleDrop_workload_group),
     ExitMethod (RuleContext RuleDrop_workload_group),
     EnterMethod (RuleContext RuleDrop_xml_schema_collection),
     ExitMethod (RuleContext RuleDrop_xml_schema_collection),
     EnterMethod (RuleContext RuleDisable_trigger),
     ExitMethod (RuleContext RuleDisable_trigger),
     EnterMethod (RuleContext RuleEnable_trigger), ExitMethod (RuleContext RuleEnable_trigger),
     EnterMethod (RuleContext RuleLock_table), ExitMethod (RuleContext RuleLock_table)]"

definition base_listener_4 :: "listener_method list" where
  "base_listener_4 = [
     EnterMethod (RuleContext RuleTruncate_table), ExitMethod (RuleContext RuleTruncate_table),
     EnterMethod (RuleContext RuleCreate_column_master_key),
     ExitMethod (RuleContext RuleCreate_column_master_key),
     EnterMethod (RuleContext RuleAlter_credential),
     ExitMethod (RuleContext RuleAlter_credential),
     EnterMethod (RuleContext RuleCreate_credential),
     ExitMethod (RuleContext RuleCreate_credential),
     EnterMethod (RuleContext RuleAlter_cryptographic_provider),
     ExitMethod (RuleContext RuleAlter_cryptographic_provider),
     EnterMethod (RuleContext RuleCreate_cryptographic_provider),
     ExitMethod (RuleContext RuleCreate_cryptographic_provider),
     EnterMethod (RuleContext RuleCreate_endpoint),
     ExitMethod (RuleContext RuleCreate_endpoint),
     EnterMethod (RuleContext RuleEndpoint_encryption_alogorithm_clause),
     ExitMethod (RuleContext RuleEndpoint_encryption_alogorithm_clause),
     EnterMethod (RuleContext RuleEndpoint_authentication_clause),
     ExitMethod (RuleContext RuleEndpoint_authentication_clause),
     EnterMethod (RuleContext RuleEndpoint_listener_clause),
     ExitMethod (RuleContext RuleEndpoint_listener_clause),
     EnterMethod (RuleContext RuleCreate_event_notification),
     ExitMethod (RuleContext RuleCreate_event_notification),
     EnterMethod (RuleContext RuleCreate_or_alter_event_session),
     ExitMethod (RuleContext RuleCreate_or_alter_event_session),
     EnterMethod (RuleContext RuleEvent_session_predicate_expression),
     ExitMethod (RuleContext RuleEvent_session_predicate_expression),
     EnterMethod (RuleContext RuleEvent_session_predicate_factor),
     ExitMethod (RuleContext RuleEvent_session_predicate_factor),
     EnterMethod (RuleContext RuleEvent_session_predicate_leaf),
     ExitMethod (RuleContext RuleEvent_session_predicate_leaf),
     EnterMethod (RuleContext RuleAlter_external_data_source),
     ExitMethod (RuleContext RuleAlter_external_data_source),
     EnterMethod (RuleContext RuleAlter_external_library),
     ExitMethod (RuleContext RuleAlter_external_library),
     EnterMethod (RuleContext RuleCreate_external_library),
     ExitMethod (RuleContext RuleCreate_external_library),
     EnterMethod (RuleContext RuleAlter_external_resource_pool),
     ExitMethod (RuleContext RuleAlter_external_resource_pool),
     EnterMethod (RuleContext RuleCreate_external_resource_pool),
     ExitMethod (RuleContext RuleCreate_external_resource_pool),
     EnterMethod (RuleContext RuleAlter_fulltext_catalog),
     ExitMethod (RuleContext RuleAlter_fulltext_catalog),
     EnterMethod (RuleContext RuleCreate_fulltext_catalog),
     ExitMethod (RuleContext RuleCreate_fulltext_catalog),
     EnterMethod (RuleContext RuleAlter_fulltext_stoplist),
     ExitMethod (RuleContext RuleAlter_fulltext_stoplist),
     EnterMethod (RuleContext RuleCreate_fulltext_stoplist),
     ExitMethod (RuleContext RuleCreate_fulltext_stoplist),
     EnterMethod (RuleContext RuleAlter_login_sql_server),
     ExitMethod (RuleContext RuleAlter_login_sql_server),
     EnterMethod (RuleContext RuleCreate_login_sql_server),
     ExitMethod (RuleContext RuleCreate_login_sql_server),
     EnterMethod (RuleContext RuleAlter_login_azure_sql),
     ExitMethod (RuleContext RuleAlter_login_azure_sql),
     EnterMethod (RuleContext RuleCreate_login_azure_sql),
     ExitMethod (RuleContext RuleCreate_login_azure_sql),
     EnterMethod (RuleContext RuleAlter_login_azure_sql_dw_and_pdw),
     ExitMethod (RuleContext RuleAlter_login_azure_sql_dw_and_pdw),
     EnterMethod (RuleContext RuleCreate_login_pdw),
     ExitMethod (RuleContext RuleCreate_login_pdw),
     EnterMethod (RuleContext RuleAlter_master_key_sql_server),
     ExitMethod (RuleContext RuleAlter_master_key_sql_server),
     EnterMethod (RuleContext RuleCreate_master_key_sql_server),
     ExitMethod (RuleContext RuleCreate_master_key_sql_server),
     EnterMethod (RuleContext RuleAlter_master_key_azure_sql),
     ExitMethod (RuleContext RuleAlter_master_key_azure_sql),
     EnterMethod (RuleContext RuleCreate_master_key_azure_sql),
     ExitMethod (RuleContext RuleCreate_master_key_azure_sql),
     EnterMethod (RuleContext RuleAlter_message_type),
     ExitMethod (RuleContext RuleAlter_message_type),
     EnterMethod (RuleContext RuleAlter_partition_function),
     ExitMethod (RuleContext RuleAlter_partition_function),
     EnterMethod (RuleContext RuleAlter_partition_scheme),
     ExitMethod (RuleContext RuleAlter_partition_scheme),
     EnterMethod (RuleContext RuleAlter_remote_service_binding),
     ExitMethod (RuleContext RuleAlter_remote_service_binding),
     EnterMethod (RuleContext RuleCreate_remote_service_binding),
     ExitMethod (RuleContext RuleCreate_remote_service_binding),
     EnterMethod (RuleContext RuleCreate_resource_pool),
     ExitMethod (RuleContext RuleCreate_resource_pool),
     EnterMethod (RuleContext RuleAlter_resource_governor),
     ExitMethod (RuleContext RuleAlter_resource_governor),
     EnterMethod (RuleContext RuleAlter_database_audit_specification),
     ExitMethod (RuleContext RuleAlter_database_audit_specification),
     EnterMethod (RuleContext RuleAudit_action_spec_group),
     ExitMethod (RuleContext RuleAudit_action_spec_group),
     EnterMethod (RuleContext RuleAudit_action_specification),
     ExitMethod (RuleContext RuleAudit_action_specification),
     EnterMethod (RuleContext RuleAction_specification),
     ExitMethod (RuleContext RuleAction_specification),
     EnterMethod (RuleContext RuleAudit_class_name),
     ExitMethod (RuleContext RuleAudit_class_name),
     EnterMethod (RuleContext RuleAudit_securable),
     ExitMethod (RuleContext RuleAudit_securable), EnterMethod (RuleContext RuleAlter_db_role),
     ExitMethod (RuleContext RuleAlter_db_role),
     EnterMethod (RuleContext RuleCreate_database_audit_specification),
     ExitMethod (RuleContext RuleCreate_database_audit_specification)]"

definition base_listener_5 :: "listener_method list" where
  "base_listener_5 = [
     EnterMethod (RuleContext RuleCreate_db_role), ExitMethod (RuleContext RuleCreate_db_role),
     EnterMethod (RuleContext RuleCreate_route), ExitMethod (RuleContext RuleCreate_route),
     EnterMethod (RuleContext RuleCreate_rule), ExitMethod (RuleContext RuleCreate_rule),
     EnterMethod (RuleContext RuleAlter_schema_sql),
     ExitMethod (RuleContext RuleAlter_schema_sql),
     EnterMethod (RuleContext RuleCreate_schema), ExitMethod (RuleContext RuleCreate_schema),
     EnterMethod (RuleContext RuleCreate_schema_azure_sql_dw_and_pdw),
     ExitMethod (RuleContext RuleCreate_schema_azure_sql_dw_and_pdw),
     EnterMethod (RuleContext RuleAlter_schema_azure_sql_dw_and_pdw),
     ExitMethod (RuleContext RuleAlter_schema_azure_sql_dw_and_pdw),
     EnterMethod (RuleContext RuleCreate_search_property_list),
     ExitMethod (RuleContext RuleCreate_search_property_list),
     EnterMethod (RuleContext RuleCreate_security_policy),
     ExitMethod (RuleContext RuleCreate_security_policy),
     EnterMethod (RuleContext RuleAlter_sequence), ExitMethod (RuleContext RuleAlter_sequence),
     EnterMethod (RuleContext RuleCreate_sequence),
     ExitMethod (RuleContext RuleCreate_sequence),
     EnterMethod (RuleContext RuleAlter_server_audit),
     ExitMethod (RuleContext RuleAlter_server_audit),
     EnterMethod (RuleContext RuleCreate_server_audit),
     ExitMethod (RuleContext RuleCreate_server_audit),
     EnterMethod (RuleContext RuleAlter_server_audit_specification),
     ExitMethod (RuleContext RuleAlter_server_audit_specification),
     EnterMethod (RuleContext RuleCreate_server_audit_specification),
     ExitMethod (RuleContext RuleCreate_server_audit_specification),
     EnterMethod (RuleContext RuleAlter_server_configuration),
     ExitMethod (RuleContext RuleAlter_server_configuration),
     EnterMethod (RuleContext RuleAlter_server_role),
     ExitMethod (RuleContext RuleAlter_server_role),
     EnterMethod (RuleContext RuleCreate_server_role),
     ExitMethod (RuleContext RuleCreate_server_role),
     EnterMethod (RuleContext RuleAlter_server_role_pdw),
     ExitMethod (RuleContext RuleAlter_server_role_pdw),
     EnterMethod (RuleContext RuleAlter_service), ExitMethod (RuleContext RuleAlter_service),
     EnterMethod (RuleContext RuleOpt_arg_clause), ExitMethod (RuleContext RuleOpt_arg_clause),
     EnterMethod (RuleContext RuleCreate_service), ExitMethod (RuleContext RuleCreate_service),
     EnterMethod (RuleContext RuleAlter_service_master_key),
     ExitMethod (RuleContext RuleAlter_service_master_key),
     EnterMethod (RuleContext RuleAlter_symmetric_key),
     ExitMethod (RuleContext RuleAlter_symmetric_key),
     EnterMethod (RuleContext RuleCreate_synonym), ExitMethod (RuleContext RuleCreate_synonym),
     EnterMethod (RuleContext RuleAlter_user), ExitMethod (RuleContext RuleAlter_user),
     EnterMethod (RuleContext RuleCreate_user), ExitMethod (RuleContext RuleCreate_user),
     EnterMethod (RuleContext RuleCreate_user_azure_sql_dw),
     ExitMethod (RuleContext RuleCreate_user_azure_sql_dw),
     EnterMethod (RuleContext RuleAlter_user_azure_sql),
     ExitMethod (RuleContext RuleAlter_user_azure_sql),
     EnterMethod (RuleContext RuleAlter_workload_group),
     ExitMethod (RuleContext RuleAlter_workload_group),
     EnterMethod (RuleContext RuleCreate_workload_group),
     ExitMethod (RuleContext RuleCreate_workload_group),
     EnterMethod (RuleContext RuleCreate_xml_schema_collection),
     ExitMethod (RuleContext RuleCreate_xml_schema_collection),
     EnterMethod (RuleContext RuleCreate_partition_function),
     ExitMethod (RuleContext RuleCreate_partition_function),
     EnterMethod (RuleContext RuleCreate_partition_scheme),
     ExitMethod (RuleContext RuleCreate_partition_scheme),
     EnterMethod (RuleContext RuleCreate_queue), ExitMethod (RuleContext RuleCreate_queue),
     EnterMethod (RuleContext RuleQueue_settings), ExitMethod (RuleContext RuleQueue_settings),
     EnterMethod (RuleContext RuleAlter_queue), ExitMethod (RuleContext RuleAlter_queue),
     EnterMethod (RuleContext RuleQueue_action), ExitMethod (RuleContext RuleQueue_action),
     EnterMethod (RuleContext RuleQueue_rebuild_options),
     ExitMethod (RuleContext RuleQueue_rebuild_options),
     EnterMethod (RuleContext RuleCreate_contract),
     ExitMethod (RuleContext RuleCreate_contract),
     EnterMethod (RuleContext RuleConversation_statement),
     ExitMethod (RuleContext RuleConversation_statement),
     EnterMethod (RuleContext RuleMessage_statement),
     ExitMethod (RuleContext RuleMessage_statement),
     EnterMethod (RuleContext RuleMerge_statement),
     ExitMethod (RuleContext RuleMerge_statement), EnterMethod (RuleContext RuleWhen_matches),
     ExitMethod (RuleContext RuleWhen_matches), EnterMethod (RuleContext RuleMerge_matched),
     ExitMethod (RuleContext RuleMerge_matched),
     EnterMethod (RuleContext RuleMerge_not_matched),
     ExitMethod (RuleContext RuleMerge_not_matched),
     EnterMethod (RuleContext RuleDelete_statement),
     ExitMethod (RuleContext RuleDelete_statement)]"

definition base_listener_6 :: "listener_method list" where
  "base_listener_6 = [
     EnterMethod (RuleContext RuleDelete_statement_from),
     ExitMethod (RuleContext RuleDelete_statement_from),
     EnterMethod (RuleContext RuleInsert_statement),
     ExitMethod (RuleContext RuleInsert_statement),
     EnterMethod (RuleContext RuleInsert_statement_value),
     ExitMethod (RuleContext RuleInsert_statement_value),
     EnterMethod (RuleContext RuleReceive_statement),
     ExitMethod (RuleContext RuleReceive_statement),
     EnterMethod (RuleContext RuleSelect_statement_standalone),
     ExitMethod (RuleContext RuleSelect_statement_standalone),
     EnterMethod (RuleContext RuleSelect_statement),
     ExitMethod (RuleContext RuleSelect_statement), EnterMethod (RuleContext RuleTime),
     ExitMethod (RuleContext RuleTime), EnterMethod (RuleContext RuleUpdate_statement),
     ExitMethod (RuleContext RuleUpdate_statement),
     EnterMethod (RuleContext RuleOutput_clause), ExitMethod (RuleContext RuleOutput_clause),
     EnterMethod (RuleContext RuleOutput_dml_list_elem),
     ExitMethod (RuleContext RuleOutput_dml_list_elem),
     EnterMethod (RuleContext RuleCreate_database),
     ExitMethod (RuleContext RuleCreate_database), EnterMethod (RuleContext RuleCreate_index),
     ExitMethod (RuleContext RuleCreate_index),
     EnterMethod (RuleContext RuleCreate_index_options),
     ExitMethod (RuleContext RuleCreate_index_options),
     EnterMethod (RuleContext RuleRelational_index_option),
     ExitMethod (RuleContext RuleRelational_index_option),
     EnterMethod (RuleContext RuleAlter_index), ExitMethod (RuleContext RuleAlter_index),
     EnterMethod (RuleContext RuleResumable_index_options),
     ExitMethod (RuleContext RuleResumable_index_options),
     EnterMethod (RuleContext RuleResumable_index_option),
     ExitMethod (RuleContext RuleResumable_index_option),
     EnterMethod (RuleContext RuleReorganize_partition),
     ExitMethod (RuleContext RuleReorganize_partition),
     EnterMethod (RuleContext RuleReorganize_options),
     ExitMethod (RuleContext RuleReorganize_options),
     EnterMethod (RuleContext RuleReorganize_option),
     ExitMethod (RuleContext RuleReorganize_option),
     EnterMethod (RuleContext RuleSet_index_options),
     ExitMethod (RuleContext RuleSet_index_options),
     EnterMethod (RuleContext RuleSet_index_option),
     ExitMethod (RuleContext RuleSet_index_option),
     EnterMethod (RuleContext RuleRebuild_partition),
     ExitMethod (RuleContext RuleRebuild_partition),
     EnterMethod (RuleContext RuleRebuild_index_options),
     ExitMethod (RuleContext RuleRebuild_index_options),
     EnterMethod (RuleContext RuleRebuild_index_option),
     ExitMethod (RuleContext RuleRebuild_index_option),
     EnterMethod (RuleContext RuleSingle_partition_rebuild_index_options),
     ExitMethod (RuleContext RuleSingle_partition_rebuild_index_options),
     EnterMethod (RuleContext RuleSingle_partition_rebuild_index_option),
     ExitMethod (RuleContext RuleSingle_partition_rebuild_index_option),
     EnterMethod (RuleContext RuleOn_partitions), ExitMethod (RuleContext RuleOn_partitions),
     EnterMethod (RuleContext RuleCreate_columnstore_index),
     ExitMethod (RuleContext RuleCreate_columnstore_index),
     EnterMethod (RuleContext RuleCreate_columnstore_index_options),
     ExitMethod (RuleContext RuleCreate_columnstore_index_options),
     EnterMethod (RuleContext RuleColumnstore_index_option),
     ExitMethod (RuleContext RuleColumnstore_index_option),
     EnterMethod (RuleContext RuleCreate_nonclustered_columnstore_index),
     ExitMethod (RuleContext RuleCreate_nonclustered_columnstore_index),
     EnterMethod (RuleContext RuleCreate_xml_index),
     ExitMethod (RuleContext RuleCreate_xml_index),
     EnterMethod (RuleContext RuleXml_index_options),
     ExitMethod (RuleContext RuleXml_index_options),
     EnterMethod (RuleContext RuleXml_index_option),
     ExitMethod (RuleContext RuleXml_index_option),
     EnterMethod (RuleContext RuleCreate_or_alter_procedure),
     ExitMethod (RuleContext RuleCreate_or_alter_procedure),
     EnterMethod (RuleContext RuleAs_external_name),
     ExitMethod (RuleContext RuleAs_external_name),
     EnterMethod (RuleContext RuleCreate_or_alter_trigger),
     ExitMethod (RuleContext RuleCreate_or_alter_trigger),
     EnterMethod (RuleContext RuleCreate_or_alter_dml_trigger),
     ExitMethod (RuleContext RuleCreate_or_alter_dml_trigger),
     EnterMethod (RuleContext RuleDml_trigger_option),
     ExitMethod (RuleContext RuleDml_trigger_option),
     EnterMethod (RuleContext RuleDml_trigger_operation),
     ExitMethod (RuleContext RuleDml_trigger_operation),
     EnterMethod (RuleContext RuleCreate_or_alter_ddl_trigger),
     ExitMethod (RuleContext RuleCreate_or_alter_ddl_trigger),
     EnterMethod (RuleContext RuleDdl_trigger_operation),
     ExitMethod (RuleContext RuleDdl_trigger_operation),
     EnterMethod (RuleContext RuleCreate_or_alter_function),
     ExitMethod (RuleContext RuleCreate_or_alter_function),
     EnterMethod (RuleContext RuleFunc_body_returns_select),
     ExitMethod (RuleContext RuleFunc_body_returns_select),
     EnterMethod (RuleContext RuleFunc_body_returns_table),
     ExitMethod (RuleContext RuleFunc_body_returns_table),
     EnterMethod (RuleContext RuleFunc_body_returns_scalar),
     ExitMethod (RuleContext RuleFunc_body_returns_scalar),
     EnterMethod (RuleContext RuleProcedure_param_default_value),
     ExitMethod (RuleContext RuleProcedure_param_default_value),
     EnterMethod (RuleContext RuleProcedure_param),
     ExitMethod (RuleContext RuleProcedure_param)]"

definition base_listener_7 :: "listener_method list" where
  "base_listener_7 = [
     EnterMethod (RuleContext RuleProcedure_option),
     ExitMethod (RuleContext RuleProcedure_option),
     EnterMethod (RuleContext RuleFunction_option),
     ExitMethod (RuleContext RuleFunction_option),
     EnterMethod (RuleContext RuleCreate_statistics),
     ExitMethod (RuleContext RuleCreate_statistics),
     EnterMethod (RuleContext RuleUpdate_statistics),
     ExitMethod (RuleContext RuleUpdate_statistics),
     EnterMethod (RuleContext RuleUpdate_statistics_options),
     ExitMethod (RuleContext RuleUpdate_statistics_options),
     EnterMethod (RuleContext RuleUpdate_statistics_option),
     ExitMethod (RuleContext RuleUpdate_statistics_option),
     EnterMethod (RuleContext RuleCreate_table), ExitMethod (RuleContext RuleCreate_table),
     EnterMethod (RuleContext RuleTable_indices), ExitMethod (RuleContext RuleTable_indices),
     EnterMethod (RuleContext RuleTable_options), ExitMethod (RuleContext RuleTable_options),
     EnterMethod (RuleContext RuleTable_option), ExitMethod (RuleContext RuleTable_option),
     EnterMethod (RuleContext RuleCreate_table_index_options),
     ExitMethod (RuleContext RuleCreate_table_index_options),
     EnterMethod (RuleContext RuleCreate_table_index_option),
     ExitMethod (RuleContext RuleCreate_table_index_option),
     EnterMethod (RuleContext RuleCreate_view), ExitMethod (RuleContext RuleCreate_view),
     EnterMethod (RuleContext RuleView_attribute), ExitMethod (RuleContext RuleView_attribute),
     EnterMethod (RuleContext RuleAlter_table), ExitMethod (RuleContext RuleAlter_table),
     EnterMethod (RuleContext RuleSwitch_partition),
     ExitMethod (RuleContext RuleSwitch_partition),
     EnterMethod (RuleContext RuleLow_priority_lock_wait),
     ExitMethod (RuleContext RuleLow_priority_lock_wait),
     EnterMethod (RuleContext RuleAlter_database), ExitMethod (RuleContext RuleAlter_database),
     EnterMethod (RuleContext RuleAdd_or_modify_files),
     ExitMethod (RuleContext RuleAdd_or_modify_files), EnterMethod (RuleContext RuleFilespec),
     ExitMethod (RuleContext RuleFilespec),
     EnterMethod (RuleContext RuleAdd_or_modify_filegroups),
     ExitMethod (RuleContext RuleAdd_or_modify_filegroups),
     EnterMethod (RuleContext RuleFilegroup_updatability_option),
     ExitMethod (RuleContext RuleFilegroup_updatability_option),
     EnterMethod (RuleContext RuleDatabase_optionspec),
     ExitMethod (RuleContext RuleDatabase_optionspec),
     EnterMethod (RuleContext RuleAuto_option), ExitMethod (RuleContext RuleAuto_option),
     EnterMethod (RuleContext RuleChange_tracking_option),
     ExitMethod (RuleContext RuleChange_tracking_option),
     EnterMethod (RuleContext RuleChange_tracking_option_list),
     ExitMethod (RuleContext RuleChange_tracking_option_list),
     EnterMethod (RuleContext RuleContainment_option),
     ExitMethod (RuleContext RuleContainment_option),
     EnterMethod (RuleContext RuleCursor_option), ExitMethod (RuleContext RuleCursor_option),
     EnterMethod (RuleContext RuleAlter_endpoint), ExitMethod (RuleContext RuleAlter_endpoint),
     EnterMethod (RuleContext RuleDatabase_mirroring_option),
     ExitMethod (RuleContext RuleDatabase_mirroring_option),
     EnterMethod (RuleContext RuleMirroring_set_option),
     ExitMethod (RuleContext RuleMirroring_set_option),
     EnterMethod (RuleContext RuleMirroring_partner),
     ExitMethod (RuleContext RuleMirroring_partner),
     EnterMethod (RuleContext RuleMirroring_witness),
     ExitMethod (RuleContext RuleMirroring_witness),
     EnterMethod (RuleContext RuleWitness_partner_equal),
     ExitMethod (RuleContext RuleWitness_partner_equal),
     EnterMethod (RuleContext RulePartner_option), ExitMethod (RuleContext RulePartner_option),
     EnterMethod (RuleContext RuleWitness_option), ExitMethod (RuleContext RuleWitness_option),
     EnterMethod (RuleContext RuleWitness_server), ExitMethod (RuleContext RuleWitness_server),
     EnterMethod (RuleContext RulePartner_server), ExitMethod (RuleContext RulePartner_server),
     EnterMethod (RuleContext RuleMirroring_host_port_seperator),
     ExitMethod (RuleContext RuleMirroring_host_port_seperator),
     EnterMethod (RuleContext RulePartner_server_tcp_prefix),
     ExitMethod (RuleContext RulePartner_server_tcp_prefix),
     EnterMethod (RuleContext RulePort_number), ExitMethod (RuleContext RulePort_number),
     EnterMethod (RuleContext RuleHost), ExitMethod (RuleContext RuleHost),
     EnterMethod (RuleContext RuleDate_correlation_optimization_option),
     ExitMethod (RuleContext RuleDate_correlation_optimization_option),
     EnterMethod (RuleContext RuleDb_encryption_option),
     ExitMethod (RuleContext RuleDb_encryption_option),
     EnterMethod (RuleContext RuleDb_state_option),
     ExitMethod (RuleContext RuleDb_state_option),
     EnterMethod (RuleContext RuleDb_update_option),
     ExitMethod (RuleContext RuleDb_update_option),
     EnterMethod (RuleContext RuleDb_user_access_option),
     ExitMethod (RuleContext RuleDb_user_access_option),
     EnterMethod (RuleContext RuleDelayed_durability_option),
     ExitMethod (RuleContext RuleDelayed_durability_option),
     EnterMethod (RuleContext RuleExternal_access_option),
     ExitMethod (RuleContext RuleExternal_access_option)]"

definition base_listener_8 :: "listener_method list" where
  "base_listener_8 = [
     EnterMethod (RuleContext RuleHadr_options), ExitMethod (RuleContext RuleHadr_options),
     EnterMethod (RuleContext RuleMixed_page_allocation_option),
     ExitMethod (RuleContext RuleMixed_page_allocation_option),
     EnterMethod (RuleContext RuleParameterization_option),
     ExitMethod (RuleContext RuleParameterization_option),
     EnterMethod (RuleContext RuleRecovery_option),
     ExitMethod (RuleContext RuleRecovery_option),
     EnterMethod (RuleContext RuleService_broker_option),
     ExitMethod (RuleContext RuleService_broker_option),
     EnterMethod (RuleContext RuleSnapshot_option),
     ExitMethod (RuleContext RuleSnapshot_option), EnterMethod (RuleContext RuleSql_option),
     ExitMethod (RuleContext RuleSql_option),
     EnterMethod (RuleContext RuleTarget_recovery_time_option),
     ExitMethod (RuleContext RuleTarget_recovery_time_option),
     EnterMethod (RuleContext RuleTermination), ExitMethod (RuleContext RuleTermination),
     EnterMethod (RuleContext RuleDrop_index), ExitMethod (RuleContext RuleDrop_index),
     EnterMethod (RuleContext RuleDrop_relational_or_xml_or_spatial_index),
     ExitMethod (RuleContext RuleDrop_relational_or_xml_or_spatial_index),
     EnterMethod (RuleContext RuleDrop_backward_compatible_index),
     ExitMethod (RuleContext RuleDrop_backward_compatible_index),
     EnterMethod (RuleContext RuleDrop_procedure), ExitMethod (RuleContext RuleDrop_procedure),
     EnterMethod (RuleContext RuleDrop_trigger), ExitMethod (RuleContext RuleDrop_trigger),
     EnterMethod (RuleContext RuleDrop_dml_trigger),
     ExitMethod (RuleContext RuleDrop_dml_trigger),
     EnterMethod (RuleContext RuleDrop_ddl_trigger),
     ExitMethod (RuleContext RuleDrop_ddl_trigger),
     EnterMethod (RuleContext RuleDrop_function), ExitMethod (RuleContext RuleDrop_function),
     EnterMethod (RuleContext RuleDrop_statistics),
     ExitMethod (RuleContext RuleDrop_statistics), EnterMethod (RuleContext RuleDrop_table),
     ExitMethod (RuleContext RuleDrop_table), EnterMethod (RuleContext RuleDrop_view),
     ExitMethod (RuleContext RuleDrop_view), EnterMethod (RuleContext RuleCreate_type),
     ExitMethod (RuleContext RuleCreate_type), EnterMethod (RuleContext RuleDrop_type),
     ExitMethod (RuleContext RuleDrop_type),
     EnterMethod (RuleContext RuleRowset_function_limited),
     ExitMethod (RuleContext RuleRowset_function_limited),
     EnterMethod (RuleContext RuleOpenquery), ExitMethod (RuleContext RuleOpenquery),
     EnterMethod (RuleContext RuleOpendatasource), ExitMethod (RuleContext RuleOpendatasource),
     EnterMethod (RuleContext RuleDeclare_statement),
     ExitMethod (RuleContext RuleDeclare_statement),
     EnterMethod (RuleContext RuleXml_declaration),
     ExitMethod (RuleContext RuleXml_declaration),
     EnterMethod (RuleContext RuleCursor_statement),
     ExitMethod (RuleContext RuleCursor_statement),
     EnterMethod (RuleContext RuleBackup_database),
     ExitMethod (RuleContext RuleBackup_database), EnterMethod (RuleContext RuleBackup_log),
     ExitMethod (RuleContext RuleBackup_log)]"

definition base_listener_9 :: "listener_method list" where
  "base_listener_9 = [
     EnterMethod (RuleContext RuleBackup_certificate),
     ExitMethod (RuleContext RuleBackup_certificate),
     EnterMethod (RuleContext RuleBackup_master_key),
     ExitMethod (RuleContext RuleBackup_master_key),
     EnterMethod (RuleContext RuleBackup_service_master_key),
     ExitMethod (RuleContext RuleBackup_service_master_key),
     EnterMethod (RuleContext RuleKill_statement), ExitMethod (RuleContext RuleKill_statement),
     EnterMethod (RuleContext RuleKill_process), ExitMethod (RuleContext RuleKill_process),
     EnterMethod (RuleContext RuleKill_query_notification),
     ExitMethod (RuleContext RuleKill_query_notification),
     EnterMethod (RuleContext RuleKill_stats_job), ExitMethod (RuleContext RuleKill_stats_job),
     EnterMethod (RuleContext RuleExecute_statement),
     ExitMethod (RuleContext RuleExecute_statement),
     EnterMethod (RuleContext RuleExecute_body_batch),
     ExitMethod (RuleContext RuleExecute_body_batch),
     EnterMethod (RuleContext RuleExecute_body), ExitMethod (RuleContext RuleExecute_body),
     EnterMethod (RuleContext RuleExecute_statement_arg),
     ExitMethod (RuleContext RuleExecute_statement_arg),
     EnterMethod (RuleContext RuleExecute_statement_arg_named),
     ExitMethod (RuleContext RuleExecute_statement_arg_named),
     EnterMethod (RuleContext RuleExecute_statement_arg_unnamed),
     ExitMethod (RuleContext RuleExecute_statement_arg_unnamed),
     EnterMethod (RuleContext RuleExecute_parameter),
     ExitMethod (RuleContext RuleExecute_parameter),
     EnterMethod (RuleContext RuleExecute_var_string),
     ExitMethod (RuleContext RuleExecute_var_string),
     EnterMethod (RuleContext RuleSecurity_statement),
     ExitMethod (RuleContext RuleSecurity_statement),
     EnterMethod (RuleContext RulePrincipal_id), ExitMethod (RuleContext RulePrincipal_id),
     EnterMethod (RuleContext RuleCreate_certificate),
     ExitMethod (RuleContext RuleCreate_certificate),
     EnterMethod (RuleContext RuleExisting_keys), ExitMethod (RuleContext RuleExisting_keys),
     EnterMethod (RuleContext RulePrivate_key_options),
     ExitMethod (RuleContext RulePrivate_key_options),
     EnterMethod (RuleContext RuleGenerate_new_keys),
     ExitMethod (RuleContext RuleGenerate_new_keys),
     EnterMethod (RuleContext RuleDate_options), ExitMethod (RuleContext RuleDate_options),
     EnterMethod (RuleContext RuleOpen_key), ExitMethod (RuleContext RuleOpen_key),
     EnterMethod (RuleContext RuleClose_key), ExitMethod (RuleContext RuleClose_key),
     EnterMethod (RuleContext RuleCreate_key), ExitMethod (RuleContext RuleCreate_key),
     EnterMethod (RuleContext RuleKey_options), ExitMethod (RuleContext RuleKey_options),
     EnterMethod (RuleContext RuleAlgorithm), ExitMethod (RuleContext RuleAlgorithm),
     EnterMethod (RuleContext RuleEncryption_mechanism),
     ExitMethod (RuleContext RuleEncryption_mechanism),
     EnterMethod (RuleContext RuleDecryption_mechanism),
     ExitMethod (RuleContext RuleDecryption_mechanism),
     EnterMethod (RuleContext RuleGrant_permission),
     ExitMethod (RuleContext RuleGrant_permission),
     EnterMethod (RuleContext RuleSet_statement), ExitMethod (RuleContext RuleSet_statement),
     EnterMethod (RuleContext RuleTransaction_statement),
     ExitMethod (RuleContext RuleTransaction_statement),
     EnterMethod (RuleContext RuleGo_statement), ExitMethod (RuleContext RuleGo_statement),
     EnterMethod (RuleContext RuleUse_statement), ExitMethod (RuleContext RuleUse_statement),
     EnterMethod (RuleContext RuleSetuser_statement),
     ExitMethod (RuleContext RuleSetuser_statement),
     EnterMethod (RuleContext RuleReconfigure_statement),
     ExitMethod (RuleContext RuleReconfigure_statement),
     EnterMethod (RuleContext RuleShutdown_statement),
     ExitMethod (RuleContext RuleShutdown_statement),
     EnterMethod (RuleContext RuleCheckpoint_statement),
     ExitMethod (RuleContext RuleCheckpoint_statement),
     EnterMethod (RuleContext RuleDbcc_checkalloc_option),
     ExitMethod (RuleContext RuleDbcc_checkalloc_option),
     EnterMethod (RuleContext RuleDbcc_checkalloc),
     ExitMethod (RuleContext RuleDbcc_checkalloc),
     EnterMethod (RuleContext RuleDbcc_checkcatalog),
     ExitMethod (RuleContext RuleDbcc_checkcatalog),
     EnterMethod (RuleContext RuleDbcc_checkconstraints_option),
     ExitMethod (RuleContext RuleDbcc_checkconstraints_option),
     EnterMethod (RuleContext RuleDbcc_checkconstraints),
     ExitMethod (RuleContext RuleDbcc_checkconstraints),
     EnterMethod (RuleContext RuleDbcc_checkdb_table_option),
     ExitMethod (RuleContext RuleDbcc_checkdb_table_option),
     EnterMethod (RuleContext RuleDbcc_checkdb), ExitMethod (RuleContext RuleDbcc_checkdb),
     EnterMethod (RuleContext RuleDbcc_checkfilegroup_option),
     ExitMethod (RuleContext RuleDbcc_checkfilegroup_option),
     EnterMethod (RuleContext RuleDbcc_checkfilegroup),
     ExitMethod (RuleContext RuleDbcc_checkfilegroup),
     EnterMethod (RuleContext RuleDbcc_checktable),
     ExitMethod (RuleContext RuleDbcc_checktable),
     EnterMethod (RuleContext RuleDbcc_cleantable),
     ExitMethod (RuleContext RuleDbcc_cleantable)]"

definition base_listener_10 :: "listener_method list" where
  "base_listener_10 = [
     EnterMethod (RuleContext RuleDbcc_clonedatabase_option),
     ExitMethod (RuleContext RuleDbcc_clonedatabase_option),
     EnterMethod (RuleContext RuleDbcc_clonedatabase),
     ExitMethod (RuleContext RuleDbcc_clonedatabase),
     EnterMethod (RuleContext RuleDbcc_pdw_showspaceused),
     ExitMethod (RuleContext RuleDbcc_pdw_showspaceused),
     EnterMethod (RuleContext RuleDbcc_proccache), ExitMethod (RuleContext RuleDbcc_proccache),
     EnterMethod (RuleContext RuleDbcc_showcontig_option),
     ExitMethod (RuleContext RuleDbcc_showcontig_option),
     EnterMethod (RuleContext RuleDbcc_showcontig),
     ExitMethod (RuleContext RuleDbcc_showcontig),
     EnterMethod (RuleContext RuleDbcc_shrinklog), ExitMethod (RuleContext RuleDbcc_shrinklog),
     EnterMethod (RuleContext RuleDbcc_dbreindex), ExitMethod (RuleContext RuleDbcc_dbreindex),
     EnterMethod (RuleContext RuleDbcc_dll_free), ExitMethod (RuleContext RuleDbcc_dll_free),
     EnterMethod (RuleContext RuleDbcc_dropcleanbuffers),
     ExitMethod (RuleContext RuleDbcc_dropcleanbuffers),
     EnterMethod (RuleContext RuleDbcc_clause), ExitMethod (RuleContext RuleDbcc_clause),
     EnterMethod (RuleContext RuleExecute_clause), ExitMethod (RuleContext RuleExecute_clause),
     EnterMethod (RuleContext RuleDeclare_local), ExitMethod (RuleContext RuleDeclare_local),
     EnterMethod (RuleContext RuleTable_type_definition),
     ExitMethod (RuleContext RuleTable_type_definition),
     EnterMethod (RuleContext RuleTable_type_indices),
     ExitMethod (RuleContext RuleTable_type_indices),
     EnterMethod (RuleContext RuleXml_type_definition),
     ExitMethod (RuleContext RuleXml_type_definition),
     EnterMethod (RuleContext RuleXml_schema_collection),
     ExitMethod (RuleContext RuleXml_schema_collection),
     EnterMethod (RuleContext RuleColumn_def_table_constraints),
     ExitMethod (RuleContext RuleColumn_def_table_constraints),
     EnterMethod (RuleContext RuleColumn_def_table_constraint),
     ExitMethod (RuleContext RuleColumn_def_table_constraint),
     EnterMethod (RuleContext RuleColumn_definition),
     ExitMethod (RuleContext RuleColumn_definition),
     EnterMethod (RuleContext RuleColumn_definition_element),
     ExitMethod (RuleContext RuleColumn_definition_element),
     EnterMethod (RuleContext RuleColumn_modifier),
     ExitMethod (RuleContext RuleColumn_modifier),
     EnterMethod (RuleContext RuleMaterialized_column_definition),
     ExitMethod (RuleContext RuleMaterialized_column_definition),
     EnterMethod (RuleContext RuleColumn_constraint),
     ExitMethod (RuleContext RuleColumn_constraint),
     EnterMethod (RuleContext RuleColumn_index), ExitMethod (RuleContext RuleColumn_index),
     EnterMethod (RuleContext RuleOn_partition_or_filegroup),
     ExitMethod (RuleContext RuleOn_partition_or_filegroup),
     EnterMethod (RuleContext RuleTable_constraint),
     ExitMethod (RuleContext RuleTable_constraint),
     EnterMethod (RuleContext RuleConnection_node),
     ExitMethod (RuleContext RuleConnection_node),
     EnterMethod (RuleContext RulePrimary_key_options),
     ExitMethod (RuleContext RulePrimary_key_options),
     EnterMethod (RuleContext RuleForeign_key_options),
     ExitMethod (RuleContext RuleForeign_key_options),
     EnterMethod (RuleContext RuleCheck_constraint),
     ExitMethod (RuleContext RuleCheck_constraint), EnterMethod (RuleContext RuleOn_delete),
     ExitMethod (RuleContext RuleOn_delete), EnterMethod (RuleContext RuleOn_update),
     ExitMethod (RuleContext RuleOn_update),
     EnterMethod (RuleContext RuleAlter_table_index_options),
     ExitMethod (RuleContext RuleAlter_table_index_options),
     EnterMethod (RuleContext RuleAlter_table_index_option),
     ExitMethod (RuleContext RuleAlter_table_index_option),
     EnterMethod (RuleContext RuleDeclare_cursor), ExitMethod (RuleContext RuleDeclare_cursor),
     EnterMethod (RuleContext RuleDeclare_set_cursor_common),
     ExitMethod (RuleContext RuleDeclare_set_cursor_common),
     EnterMethod (RuleContext RuleDeclare_set_cursor_common_partial),
     ExitMethod (RuleContext RuleDeclare_set_cursor_common_partial),
     EnterMethod (RuleContext RuleFetch_cursor), ExitMethod (RuleContext RuleFetch_cursor),
     EnterMethod (RuleContext RuleSet_special), ExitMethod (RuleContext RuleSet_special),
     EnterMethod (RuleContext RuleSpecial_list), ExitMethod (RuleContext RuleSpecial_list),
     EnterMethod (RuleContext RuleConstant_LOCAL_ID),
     ExitMethod (RuleContext RuleConstant_LOCAL_ID), EnterMethod (RuleContext RuleExpression),
     ExitMethod (RuleContext RuleExpression), EnterMethod (RuleContext RuleParameter),
     ExitMethod (RuleContext RuleParameter), EnterMethod (RuleContext RuleTime_zone),
     ExitMethod (RuleContext RuleTime_zone),
     EnterMethod (RuleContext RulePrimitive_expression),
     ExitMethod (RuleContext RulePrimitive_expression),
     EnterMethod (RuleContext RuleCase_expression),
     ExitMethod (RuleContext RuleCase_expression),
     EnterMethod (RuleContext RuleUnary_operator_expression),
     ExitMethod (RuleContext RuleUnary_operator_expression),
     EnterMethod (RuleContext RuleBracket_expression),
     ExitMethod (RuleContext RuleBracket_expression)]"

definition base_listener_11 :: "listener_method list" where
  "base_listener_11 = [
     EnterMethod (RuleContext RuleSubquery), ExitMethod (RuleContext RuleSubquery),
     EnterMethod (RuleContext RuleWith_expression),
     ExitMethod (RuleContext RuleWith_expression),
     EnterMethod (RuleContext RuleCommon_table_expression),
     ExitMethod (RuleContext RuleCommon_table_expression),
     EnterMethod (RuleContext RuleUpdate_elem), ExitMethod (RuleContext RuleUpdate_elem),
     EnterMethod (RuleContext RuleUpdate_elem_merge),
     ExitMethod (RuleContext RuleUpdate_elem_merge),
     EnterMethod (RuleContext RuleSearch_condition),
     ExitMethod (RuleContext RuleSearch_condition), EnterMethod (RuleContext RulePredicate),
     ExitMethod (RuleContext RulePredicate), EnterMethod (RuleContext RuleQuery_expression),
     ExitMethod (RuleContext RuleQuery_expression), EnterMethod (RuleContext RuleSql_union),
     ExitMethod (RuleContext RuleSql_union), EnterMethod (RuleContext RuleQuery_specification),
     ExitMethod (RuleContext RuleQuery_specification),
     EnterMethod (RuleContext RuleGroup_by_clause),
     ExitMethod (RuleContext RuleGroup_by_clause), EnterMethod (RuleContext RuleHaving_clause),
     ExitMethod (RuleContext RuleHaving_clause),
     EnterMethod (RuleContext RuleFrom_table_sources),
     ExitMethod (RuleContext RuleFrom_table_sources), EnterMethod (RuleContext RuleTop_clause),
     ExitMethod (RuleContext RuleTop_clause), EnterMethod (RuleContext RuleTop_percent),
     ExitMethod (RuleContext RuleTop_percent), EnterMethod (RuleContext RuleTop_count),
     ExitMethod (RuleContext RuleTop_count), EnterMethod (RuleContext RuleOrder_by_clause),
     ExitMethod (RuleContext RuleOrder_by_clause),
     EnterMethod (RuleContext RuleSelect_order_by_clause),
     ExitMethod (RuleContext RuleSelect_order_by_clause),
     EnterMethod (RuleContext RuleFor_clause), ExitMethod (RuleContext RuleFor_clause),
     EnterMethod (RuleContext RuleXml_common_directives),
     ExitMethod (RuleContext RuleXml_common_directives),
     EnterMethod (RuleContext RuleOrder_by_expression),
     ExitMethod (RuleContext RuleOrder_by_expression),
     EnterMethod (RuleContext RuleGrouping_sets_item),
     ExitMethod (RuleContext RuleGrouping_sets_item),
     EnterMethod (RuleContext RuleGroup_by_item), ExitMethod (RuleContext RuleGroup_by_item),
     EnterMethod (RuleContext RuleOption_clause), ExitMethod (RuleContext RuleOption_clause),
     EnterMethod (RuleContext RuleOption), ExitMethod (RuleContext RuleOption)]"

definition base_listener_12 :: "listener_method list" where
  "base_listener_12 = [
     EnterMethod (RuleContext RuleOptimize_for_arg),
     ExitMethod (RuleContext RuleOptimize_for_arg), EnterMethod (RuleContext RuleSelect_list),
     ExitMethod (RuleContext RuleSelect_list),
     EnterMethod (RuleContext RuleUdt_method_arguments),
     ExitMethod (RuleContext RuleUdt_method_arguments), EnterMethod (RuleContext RuleAsterisk),
     ExitMethod (RuleContext RuleAsterisk), EnterMethod (RuleContext RuleUdt_elem),
     ExitMethod (RuleContext RuleUdt_elem), EnterMethod (RuleContext RuleExpression_elem),
     ExitMethod (RuleContext RuleExpression_elem),
     EnterMethod (RuleContext RuleSelect_list_elem),
     ExitMethod (RuleContext RuleSelect_list_elem),
     EnterMethod (RuleContext RuleTable_sources), ExitMethod (RuleContext RuleTable_sources),
     EnterMethod (RuleContext RuleNon_ansi_join), ExitMethod (RuleContext RuleNon_ansi_join),
     EnterMethod (RuleContext RuleTable_source), ExitMethod (RuleContext RuleTable_source),
     EnterMethod (RuleContext RuleTable_source_item),
     ExitMethod (RuleContext RuleTable_source_item), EnterMethod (RuleContext RuleOpen_xml),
     ExitMethod (RuleContext RuleOpen_xml), EnterMethod (RuleContext RuleOpen_json),
     ExitMethod (RuleContext RuleOpen_json), EnterMethod (RuleContext RuleJson_declaration),
     ExitMethod (RuleContext RuleJson_declaration),
     EnterMethod (RuleContext RuleJson_column_declaration),
     ExitMethod (RuleContext RuleJson_column_declaration),
     EnterMethod (RuleContext RuleSchema_declaration),
     ExitMethod (RuleContext RuleSchema_declaration),
     EnterMethod (RuleContext RuleColumn_declaration),
     ExitMethod (RuleContext RuleColumn_declaration),
     EnterMethod (RuleContext RuleChange_table), ExitMethod (RuleContext RuleChange_table),
     EnterMethod (RuleContext RuleChange_table_changes),
     ExitMethod (RuleContext RuleChange_table_changes),
     EnterMethod (RuleContext RuleChange_table_version),
     ExitMethod (RuleContext RuleChange_table_version),
     EnterMethod (RuleContext RuleJoin_part), ExitMethod (RuleContext RuleJoin_part),
     EnterMethod (RuleContext RuleJoin_on), ExitMethod (RuleContext RuleJoin_on),
     EnterMethod (RuleContext RuleCross_join), ExitMethod (RuleContext RuleCross_join),
     EnterMethod (RuleContext RuleApply'), ExitMethod (RuleContext RuleApply'),
     EnterMethod (RuleContext RulePivot), ExitMethod (RuleContext RulePivot),
     EnterMethod (RuleContext RuleUnpivot), ExitMethod (RuleContext RuleUnpivot),
     EnterMethod (RuleContext RulePivot_clause), ExitMethod (RuleContext RulePivot_clause),
     EnterMethod (RuleContext RuleUnpivot_clause), ExitMethod (RuleContext RuleUnpivot_clause),
     EnterMethod (RuleContext RuleFull_column_name_list),
     ExitMethod (RuleContext RuleFull_column_name_list),
     EnterMethod (RuleContext RuleRowset_function),
     ExitMethod (RuleContext RuleRowset_function), EnterMethod (RuleContext RuleBulk_option),
     ExitMethod (RuleContext RuleBulk_option), EnterMethod (RuleContext RuleDerived_table),
     ExitMethod (RuleContext RuleDerived_table),
     EnterMethod (LabelContext L_RANKING_WINDOWED_FUNC),
     ExitMethod (LabelContext L_RANKING_WINDOWED_FUNC),
     EnterMethod (LabelContext L_AGGREGATE_WINDOWED_FUNC),
     ExitMethod (LabelContext L_AGGREGATE_WINDOWED_FUNC),
     EnterMethod (LabelContext L_ANALYTIC_WINDOWED_FUNC),
     ExitMethod (LabelContext L_ANALYTIC_WINDOWED_FUNC),
     EnterMethod (LabelContext L_BUILT_IN_FUNC), ExitMethod (LabelContext L_BUILT_IN_FUNC),
     EnterMethod (LabelContext L_SCALAR_FUNCTION), ExitMethod (LabelContext L_SCALAR_FUNCTION),
     EnterMethod (LabelContext L_FREE_TEXT), ExitMethod (LabelContext L_FREE_TEXT),
     EnterMethod (LabelContext L_PARTITION_FUNC), ExitMethod (LabelContext L_PARTITION_FUNC),
     EnterMethod (LabelContext L_HIERARCHYID_METHOD),
     ExitMethod (LabelContext L_HIERARCHYID_METHOD),
     EnterMethod (RuleContext RulePartition_function),
     ExitMethod (RuleContext RulePartition_function),
     EnterMethod (RuleContext RuleFreetext_function),
     ExitMethod (RuleContext RuleFreetext_function),
     EnterMethod (RuleContext RuleFreetext_predicate),
     ExitMethod (RuleContext RuleFreetext_predicate),
     EnterMethod (RuleContext RuleJson_key_value), ExitMethod (RuleContext RuleJson_key_value),
     EnterMethod (RuleContext RuleJson_null_clause),
     ExitMethod (RuleContext RuleJson_null_clause), EnterMethod (LabelContext L_APP_NAME),
     ExitMethod (LabelContext L_APP_NAME), EnterMethod (LabelContext L_APPLOCK_MODE),
     ExitMethod (LabelContext L_APPLOCK_MODE), EnterMethod (LabelContext L_APPLOCK_TEST),
     ExitMethod (LabelContext L_APPLOCK_TEST), EnterMethod (LabelContext L_ASSEMBLYPROPERTY),
     ExitMethod (LabelContext L_ASSEMBLYPROPERTY)]"

definition base_listener_13 :: "listener_method list" where
  "base_listener_13 = [
     EnterMethod (LabelContext L_COL_LENGTH), ExitMethod (LabelContext L_COL_LENGTH),
     EnterMethod (LabelContext L_COL_NAME), ExitMethod (LabelContext L_COL_NAME),
     EnterMethod (LabelContext L_COLUMNPROPERTY), ExitMethod (LabelContext L_COLUMNPROPERTY),
     EnterMethod (LabelContext L_DATABASEPROPERTYEX),
     ExitMethod (LabelContext L_DATABASEPROPERTYEX), EnterMethod (LabelContext L_DB_ID),
     ExitMethod (LabelContext L_DB_ID), EnterMethod (LabelContext L_DB_NAME),
     ExitMethod (LabelContext L_DB_NAME), EnterMethod (LabelContext L_FILE_ID),
     ExitMethod (LabelContext L_FILE_ID), EnterMethod (LabelContext L_FILE_IDEX),
     ExitMethod (LabelContext L_FILE_IDEX), EnterMethod (LabelContext L_FILE_NAME),
     ExitMethod (LabelContext L_FILE_NAME), EnterMethod (LabelContext L_FILEGROUP_ID),
     ExitMethod (LabelContext L_FILEGROUP_ID), EnterMethod (LabelContext L_FILEGROUP_NAME),
     ExitMethod (LabelContext L_FILEGROUP_NAME),
     EnterMethod (LabelContext L_FILEGROUPPROPERTY),
     ExitMethod (LabelContext L_FILEGROUPPROPERTY), EnterMethod (LabelContext L_FILEPROPERTY),
     ExitMethod (LabelContext L_FILEPROPERTY), EnterMethod (LabelContext L_FILEPROPERTYEX),
     ExitMethod (LabelContext L_FILEPROPERTYEX),
     EnterMethod (LabelContext L_FULLTEXTCATALOGPROPERTY),
     ExitMethod (LabelContext L_FULLTEXTCATALOGPROPERTY),
     EnterMethod (LabelContext L_FULLTEXTSERVICEPROPERTY),
     ExitMethod (LabelContext L_FULLTEXTSERVICEPROPERTY),
     EnterMethod (LabelContext L_INDEX_COL), ExitMethod (LabelContext L_INDEX_COL),
     EnterMethod (LabelContext L_INDEXKEY_PROPERTY),
     ExitMethod (LabelContext L_INDEXKEY_PROPERTY), EnterMethod (LabelContext L_INDEXPROPERTY),
     ExitMethod (LabelContext L_INDEXPROPERTY), EnterMethod (LabelContext L_NEXT_VALUE_FOR),
     ExitMethod (LabelContext L_NEXT_VALUE_FOR),
     EnterMethod (LabelContext L_OBJECT_DEFINITION),
     ExitMethod (LabelContext L_OBJECT_DEFINITION), EnterMethod (LabelContext L_OBJECT_ID),
     ExitMethod (LabelContext L_OBJECT_ID), EnterMethod (LabelContext L_OBJECT_NAME),
     ExitMethod (LabelContext L_OBJECT_NAME), EnterMethod (LabelContext L_OBJECT_SCHEMA_NAME),
     ExitMethod (LabelContext L_OBJECT_SCHEMA_NAME),
     EnterMethod (LabelContext L_OBJECTPROPERTY), ExitMethod (LabelContext L_OBJECTPROPERTY),
     EnterMethod (LabelContext L_OBJECTPROPERTYEX),
     ExitMethod (LabelContext L_OBJECTPROPERTYEX),
     EnterMethod (LabelContext L_ORIGINAL_DB_NAME),
     ExitMethod (LabelContext L_ORIGINAL_DB_NAME), EnterMethod (LabelContext L_PARSENAME),
     ExitMethod (LabelContext L_PARSENAME), EnterMethod (LabelContext L_SCHEMA_ID),
     ExitMethod (LabelContext L_SCHEMA_ID), EnterMethod (LabelContext L_SCHEMA_NAME),
     ExitMethod (LabelContext L_SCHEMA_NAME), EnterMethod (LabelContext L_SCOPE_IDENTITY),
     ExitMethod (LabelContext L_SCOPE_IDENTITY), EnterMethod (LabelContext L_SERVERPROPERTY),
     ExitMethod (LabelContext L_SERVERPROPERTY), EnterMethod (LabelContext L_STATS_DATE),
     ExitMethod (LabelContext L_STATS_DATE), EnterMethod (LabelContext L_TYPE_ID),
     ExitMethod (LabelContext L_TYPE_ID), EnterMethod (LabelContext L_TYPE_NAME),
     ExitMethod (LabelContext L_TYPE_NAME), EnterMethod (LabelContext L_TYPEPROPERTY),
     ExitMethod (LabelContext L_TYPEPROPERTY), EnterMethod (LabelContext L_ASCII),
     ExitMethod (LabelContext L_ASCII), EnterMethod (LabelContext L_CHAR),
     ExitMethod (LabelContext L_CHAR), EnterMethod (LabelContext L_CHARINDEX),
     ExitMethod (LabelContext L_CHARINDEX), EnterMethod (LabelContext L_CONCAT),
     ExitMethod (LabelContext L_CONCAT), EnterMethod (LabelContext L_CONCAT_WS),
     ExitMethod (LabelContext L_CONCAT_WS), EnterMethod (LabelContext L_DIFFERENCE),
     ExitMethod (LabelContext L_DIFFERENCE), EnterMethod (LabelContext L_FORMAT),
     ExitMethod (LabelContext L_FORMAT), EnterMethod (LabelContext L_LEFT),
     ExitMethod (LabelContext L_LEFT), EnterMethod (LabelContext L_LEN),
     ExitMethod (LabelContext L_LEN), EnterMethod (LabelContext L_LOWER),
     ExitMethod (LabelContext L_LOWER), EnterMethod (LabelContext L_LTRIM),
     ExitMethod (LabelContext L_LTRIM), EnterMethod (LabelContext L_NCHAR),
     ExitMethod (LabelContext L_NCHAR), EnterMethod (LabelContext L_PATINDEX),
     ExitMethod (LabelContext L_PATINDEX)]"

definition base_listener_14 :: "listener_method list" where
  "base_listener_14 = [
     EnterMethod (LabelContext L_QUOTENAME), ExitMethod (LabelContext L_QUOTENAME),
     EnterMethod (LabelContext L_REPLACE), ExitMethod (LabelContext L_REPLACE),
     EnterMethod (LabelContext L_REPLICATE), ExitMethod (LabelContext L_REPLICATE),
     EnterMethod (LabelContext L_REVERSE), ExitMethod (LabelContext L_REVERSE),
     EnterMethod (LabelContext L_RIGHT), ExitMethod (LabelContext L_RIGHT),
     EnterMethod (LabelContext L_RTRIM), ExitMethod (LabelContext L_RTRIM),
     EnterMethod (LabelContext L_SOUNDEX), ExitMethod (LabelContext L_SOUNDEX),
     EnterMethod (LabelContext L_SPACE), ExitMethod (LabelContext L_SPACE),
     EnterMethod (LabelContext L_STR), ExitMethod (LabelContext L_STR),
     EnterMethod (LabelContext L_STRINGAGG), ExitMethod (LabelContext L_STRINGAGG),
     EnterMethod (LabelContext L_STRING_ESCAPE), ExitMethod (LabelContext L_STRING_ESCAPE),
     EnterMethod (LabelContext L_STUFF), ExitMethod (LabelContext L_STUFF),
     EnterMethod (LabelContext L_SUBSTRING), ExitMethod (LabelContext L_SUBSTRING),
     EnterMethod (LabelContext L_TRANSLATE), ExitMethod (LabelContext L_TRANSLATE),
     EnterMethod (LabelContext L_TRIM), ExitMethod (LabelContext L_TRIM),
     EnterMethod (LabelContext L_UNICODE), ExitMethod (LabelContext L_UNICODE),
     EnterMethod (LabelContext L_UPPER), ExitMethod (LabelContext L_UPPER),
     EnterMethod (LabelContext L_BINARY_CHECKSUM), ExitMethod (LabelContext L_BINARY_CHECKSUM),
     EnterMethod (LabelContext L_CHECKSUM), ExitMethod (LabelContext L_CHECKSUM),
     EnterMethod (LabelContext L_COMPRESS), ExitMethod (LabelContext L_COMPRESS),
     EnterMethod (LabelContext L_CONNECTIONPROPERTY),
     ExitMethod (LabelContext L_CONNECTIONPROPERTY), EnterMethod (LabelContext L_CONTEXT_INFO),
     ExitMethod (LabelContext L_CONTEXT_INFO), EnterMethod (LabelContext L_CURRENT_REQUEST_ID),
     ExitMethod (LabelContext L_CURRENT_REQUEST_ID),
     EnterMethod (LabelContext L_CURRENT_TRANSACTION_ID),
     ExitMethod (LabelContext L_CURRENT_TRANSACTION_ID),
     EnterMethod (LabelContext L_DECOMPRESS), ExitMethod (LabelContext L_DECOMPRESS),
     EnterMethod (LabelContext L_ERROR_LINE), ExitMethod (LabelContext L_ERROR_LINE),
     EnterMethod (LabelContext L_ERROR_MESSAGE), ExitMethod (LabelContext L_ERROR_MESSAGE),
     EnterMethod (LabelContext L_ERROR_NUMBER), ExitMethod (LabelContext L_ERROR_NUMBER),
     EnterMethod (LabelContext L_ERROR_PROCEDURE), ExitMethod (LabelContext L_ERROR_PROCEDURE),
     EnterMethod (LabelContext L_ERROR_SEVERITY), ExitMethod (LabelContext L_ERROR_SEVERITY),
     EnterMethod (LabelContext L_ERROR_STATE), ExitMethod (LabelContext L_ERROR_STATE),
     EnterMethod (LabelContext L_FORMATMESSAGE), ExitMethod (LabelContext L_FORMATMESSAGE),
     EnterMethod (LabelContext L_GET_FILESTREAM_TRANSACTION_CONTEXT),
     ExitMethod (LabelContext L_GET_FILESTREAM_TRANSACTION_CONTEXT),
     EnterMethod (LabelContext L_GETANSINULL), ExitMethod (LabelContext L_GETANSINULL),
     EnterMethod (LabelContext L_HOST_ID), ExitMethod (LabelContext L_HOST_ID),
     EnterMethod (LabelContext L_HOST_NAME), ExitMethod (LabelContext L_HOST_NAME),
     EnterMethod (LabelContext L_ISNULL), ExitMethod (LabelContext L_ISNULL),
     EnterMethod (LabelContext L_ISNUMERIC), ExitMethod (LabelContext L_ISNUMERIC),
     EnterMethod (LabelContext L_MIN_ACTIVE_ROWVERSION),
     ExitMethod (LabelContext L_MIN_ACTIVE_ROWVERSION), EnterMethod (LabelContext L_NEWID),
     ExitMethod (LabelContext L_NEWID), EnterMethod (LabelContext L_NEWSEQUENTIALID),
     ExitMethod (LabelContext L_NEWSEQUENTIALID), EnterMethod (LabelContext L_ROWCOUNT_BIG),
     ExitMethod (LabelContext L_ROWCOUNT_BIG), EnterMethod (LabelContext L_SESSION_CONTEXT),
     ExitMethod (LabelContext L_SESSION_CONTEXT), EnterMethod (LabelContext L_XACT_STATE),
     ExitMethod (LabelContext L_XACT_STATE), EnterMethod (LabelContext L_CAST),
     ExitMethod (LabelContext L_CAST), EnterMethod (LabelContext L_TRY_CAST),
     ExitMethod (LabelContext L_TRY_CAST), EnterMethod (LabelContext L_CONVERT),
     ExitMethod (LabelContext L_CONVERT), EnterMethod (LabelContext L_COALESCE),
     ExitMethod (LabelContext L_COALESCE), EnterMethod (LabelContext L_CURSOR_ROWS),
     ExitMethod (LabelContext L_CURSOR_ROWS)]"

definition base_listener_15 :: "listener_method list" where
  "base_listener_15 = [
     EnterMethod (LabelContext L_FETCH_STATUS), ExitMethod (LabelContext L_FETCH_STATUS),
     EnterMethod (LabelContext L_CURSOR_STATUS), ExitMethod (LabelContext L_CURSOR_STATUS),
     EnterMethod (LabelContext L_CERT_ID), ExitMethod (LabelContext L_CERT_ID),
     EnterMethod (LabelContext L_DATALENGTH), ExitMethod (LabelContext L_DATALENGTH),
     EnterMethod (LabelContext L_IDENT_CURRENT), ExitMethod (LabelContext L_IDENT_CURRENT),
     EnterMethod (LabelContext L_IDENT_INCR), ExitMethod (LabelContext L_IDENT_INCR),
     EnterMethod (LabelContext L_IDENT_SEED), ExitMethod (LabelContext L_IDENT_SEED),
     EnterMethod (LabelContext L_IDENTITY), ExitMethod (LabelContext L_IDENTITY),
     EnterMethod (LabelContext L_SQL_VARIANT_PROPERTY),
     ExitMethod (LabelContext L_SQL_VARIANT_PROPERTY),
     EnterMethod (LabelContext L_CURRENT_DATE), ExitMethod (LabelContext L_CURRENT_DATE),
     EnterMethod (LabelContext L_CURRENT_TIMESTAMP),
     ExitMethod (LabelContext L_CURRENT_TIMESTAMP),
     EnterMethod (LabelContext L_CURRENT_TIMEZONE),
     ExitMethod (LabelContext L_CURRENT_TIMEZONE),
     EnterMethod (LabelContext L_CURRENT_TIMEZONE_ID),
     ExitMethod (LabelContext L_CURRENT_TIMEZONE_ID), EnterMethod (LabelContext L_DATE_BUCKET),
     ExitMethod (LabelContext L_DATE_BUCKET), EnterMethod (LabelContext L_DATEADD),
     ExitMethod (LabelContext L_DATEADD), EnterMethod (LabelContext L_DATEDIFF),
     ExitMethod (LabelContext L_DATEDIFF), EnterMethod (LabelContext L_DATEDIFF_BIG),
     ExitMethod (LabelContext L_DATEDIFF_BIG), EnterMethod (LabelContext L_DATEFROMPARTS),
     ExitMethod (LabelContext L_DATEFROMPARTS), EnterMethod (LabelContext L_DATENAME),
     ExitMethod (LabelContext L_DATENAME), EnterMethod (LabelContext L_DATEPART),
     ExitMethod (LabelContext L_DATEPART), EnterMethod (LabelContext L_DATETIME2FROMPARTS),
     ExitMethod (LabelContext L_DATETIME2FROMPARTS),
     EnterMethod (LabelContext L_DATETIMEFROMPARTS),
     ExitMethod (LabelContext L_DATETIMEFROMPARTS),
     EnterMethod (LabelContext L_DATETIMEOFFSETFROMPARTS),
     ExitMethod (LabelContext L_DATETIMEOFFSETFROMPARTS),
     EnterMethod (LabelContext L_DATETRUNC), ExitMethod (LabelContext L_DATETRUNC),
     EnterMethod (LabelContext L_DAY), ExitMethod (LabelContext L_DAY),
     EnterMethod (LabelContext L_EOMONTH), ExitMethod (LabelContext L_EOMONTH),
     EnterMethod (LabelContext L_GETDATE), ExitMethod (LabelContext L_GETDATE),
     EnterMethod (LabelContext L_GETUTCDATE), ExitMethod (LabelContext L_GETUTCDATE),
     EnterMethod (LabelContext L_ISDATE), ExitMethod (LabelContext L_ISDATE),
     EnterMethod (LabelContext L_MONTH), ExitMethod (LabelContext L_MONTH),
     EnterMethod (LabelContext L_SMALLDATETIMEFROMPARTS),
     ExitMethod (LabelContext L_SMALLDATETIMEFROMPARTS),
     EnterMethod (LabelContext L_SWITCHOFFSET), ExitMethod (LabelContext L_SWITCHOFFSET),
     EnterMethod (LabelContext L_SYSDATETIME), ExitMethod (LabelContext L_SYSDATETIME),
     EnterMethod (LabelContext L_SYSDATETIMEOFFSET),
     ExitMethod (LabelContext L_SYSDATETIMEOFFSET),
     EnterMethod (LabelContext L_SYSUTCDATETIME), ExitMethod (LabelContext L_SYSUTCDATETIME),
     EnterMethod (LabelContext L_TIMEFROMPARTS), ExitMethod (LabelContext L_TIMEFROMPARTS),
     EnterMethod (LabelContext L_TODATETIMEOFFSET),
     ExitMethod (LabelContext L_TODATETIMEOFFSET), EnterMethod (LabelContext L_YEAR),
     ExitMethod (LabelContext L_YEAR), EnterMethod (LabelContext L_NULLIF),
     ExitMethod (LabelContext L_NULLIF), EnterMethod (LabelContext L_PARSE),
     ExitMethod (LabelContext L_PARSE), EnterMethod (LabelContext L_XML_DATA_TYPE_FUNC),
     ExitMethod (LabelContext L_XML_DATA_TYPE_FUNC), EnterMethod (LabelContext L_IIF),
     ExitMethod (LabelContext L_IIF), EnterMethod (LabelContext L_ISJSON),
     ExitMethod (LabelContext L_ISJSON), EnterMethod (LabelContext L_JSON_OBJECT),
     ExitMethod (LabelContext L_JSON_OBJECT), EnterMethod (LabelContext L_JSON_ARRAY),
     ExitMethod (LabelContext L_JSON_ARRAY), EnterMethod (LabelContext L_JSON_VALUE),
     ExitMethod (LabelContext L_JSON_VALUE), EnterMethod (LabelContext L_JSON_QUERY),
     ExitMethod (LabelContext L_JSON_QUERY), EnterMethod (LabelContext L_JSON_MODIFY),
     ExitMethod (LabelContext L_JSON_MODIFY), EnterMethod (LabelContext L_JSON_PATH_EXISTS),
     ExitMethod (LabelContext L_JSON_PATH_EXISTS)]"

definition base_listener_16 :: "listener_method list" where
  "base_listener_16 = [
     EnterMethod (LabelContext L_ABS), ExitMethod (LabelContext L_ABS),
     EnterMethod (LabelContext L_ACOS), ExitMethod (LabelContext L_ACOS),
     EnterMethod (LabelContext L_ASIN), ExitMethod (LabelContext L_ASIN),
     EnterMethod (LabelContext L_ATAN), ExitMethod (LabelContext L_ATAN),
     EnterMethod (LabelContext L_ATN2), ExitMethod (LabelContext L_ATN2),
     EnterMethod (LabelContext L_CEILING), ExitMethod (LabelContext L_CEILING),
     EnterMethod (LabelContext L_COS), ExitMethod (LabelContext L_COS),
     EnterMethod (LabelContext L_COT), ExitMethod (LabelContext L_COT),
     EnterMethod (LabelContext L_DEGREES), ExitMethod (LabelContext L_DEGREES),
     EnterMethod (LabelContext L_EXP), ExitMethod (LabelContext L_EXP),
     EnterMethod (LabelContext L_FLOOR), ExitMethod (LabelContext L_FLOOR),
     EnterMethod (LabelContext L_LOG), ExitMethod (LabelContext L_LOG),
     EnterMethod (LabelContext L_LOG10), ExitMethod (LabelContext L_LOG10),
     EnterMethod (LabelContext L_PI), ExitMethod (LabelContext L_PI),
     EnterMethod (LabelContext L_POWER), ExitMethod (LabelContext L_POWER),
     EnterMethod (LabelContext L_RADIANS), ExitMethod (LabelContext L_RADIANS),
     EnterMethod (LabelContext L_RAND), ExitMethod (LabelContext L_RAND),
     EnterMethod (LabelContext L_ROUND), ExitMethod (LabelContext L_ROUND),
     EnterMethod (LabelContext L_MATH_SIGN), ExitMethod (LabelContext L_MATH_SIGN),
     EnterMethod (LabelContext L_SIN), ExitMethod (LabelContext L_SIN),
     EnterMethod (LabelContext L_SQRT), ExitMethod (LabelContext L_SQRT),
     EnterMethod (LabelContext L_SQUARE), ExitMethod (LabelContext L_SQUARE),
     EnterMethod (LabelContext L_TAN), ExitMethod (LabelContext L_TAN),
     EnterMethod (LabelContext L_GREATEST), ExitMethod (LabelContext L_GREATEST),
     EnterMethod (LabelContext L_LEAST), ExitMethod (LabelContext L_LEAST),
     EnterMethod (LabelContext L_CERTENCODED), ExitMethod (LabelContext L_CERTENCODED),
     EnterMethod (LabelContext L_CERTPRIVATEKEY), ExitMethod (LabelContext L_CERTPRIVATEKEY),
     EnterMethod (LabelContext L_CURRENT_USER), ExitMethod (LabelContext L_CURRENT_USER),
     EnterMethod (LabelContext L_DATABASE_PRINCIPAL_ID),
     ExitMethod (LabelContext L_DATABASE_PRINCIPAL_ID),
     EnterMethod (LabelContext L_HAS_DBACCESS), ExitMethod (LabelContext L_HAS_DBACCESS),
     EnterMethod (LabelContext L_HAS_PERMS_BY_NAME),
     ExitMethod (LabelContext L_HAS_PERMS_BY_NAME), EnterMethod (LabelContext L_IS_MEMBER),
     ExitMethod (LabelContext L_IS_MEMBER), EnterMethod (LabelContext L_IS_ROLEMEMBER),
     ExitMethod (LabelContext L_IS_ROLEMEMBER), EnterMethod (LabelContext L_IS_SRVROLEMEMBER),
     ExitMethod (LabelContext L_IS_SRVROLEMEMBER), EnterMethod (LabelContext L_LOGINPROPERTY),
     ExitMethod (LabelContext L_LOGINPROPERTY), EnterMethod (LabelContext L_ORIGINAL_LOGIN),
     ExitMethod (LabelContext L_ORIGINAL_LOGIN), EnterMethod (LabelContext L_PERMISSIONS),
     ExitMethod (LabelContext L_PERMISSIONS), EnterMethod (LabelContext L_PWDENCRYPT),
     ExitMethod (LabelContext L_PWDENCRYPT), EnterMethod (LabelContext L_PWDCOMPARE),
     ExitMethod (LabelContext L_PWDCOMPARE), EnterMethod (LabelContext L_SESSION_USER),
     ExitMethod (LabelContext L_SESSION_USER), EnterMethod (LabelContext L_SESSIONPROPERTY),
     ExitMethod (LabelContext L_SESSIONPROPERTY), EnterMethod (LabelContext L_SUSER_ID),
     ExitMethod (LabelContext L_SUSER_ID), EnterMethod (LabelContext L_SUSER_SNAME),
     ExitMethod (LabelContext L_SUSER_SNAME), EnterMethod (LabelContext L_SUSER_SID),
     ExitMethod (LabelContext L_SUSER_SID), EnterMethod (LabelContext L_SYSTEM_USER),
     ExitMethod (LabelContext L_SYSTEM_USER), EnterMethod (LabelContext L_USER),
     ExitMethod (LabelContext L_USER), EnterMethod (LabelContext L_USER_ID),
     ExitMethod (LabelContext L_USER_ID), EnterMethod (LabelContext L_USER_NAME),
     ExitMethod (LabelContext L_USER_NAME)]"

definition base_listener_17 :: "listener_method list" where
  "base_listener_17 = [
     EnterMethod (RuleContext RuleXml_data_type_methods),
     ExitMethod (RuleContext RuleXml_data_type_methods),
     EnterMethod (RuleContext RuleDateparts_9), ExitMethod (RuleContext RuleDateparts_9),
     EnterMethod (RuleContext RuleDateparts_12), ExitMethod (RuleContext RuleDateparts_12),
     EnterMethod (RuleContext RuleDateparts_15), ExitMethod (RuleContext RuleDateparts_15),
     EnterMethod (RuleContext RuleDateparts_datetrunc),
     ExitMethod (RuleContext RuleDateparts_datetrunc),
     EnterMethod (RuleContext RuleValue_method), ExitMethod (RuleContext RuleValue_method),
     EnterMethod (RuleContext RuleValue_call), ExitMethod (RuleContext RuleValue_call),
     EnterMethod (RuleContext RuleQuery_method), ExitMethod (RuleContext RuleQuery_method),
     EnterMethod (RuleContext RuleQuery_call), ExitMethod (RuleContext RuleQuery_call),
     EnterMethod (RuleContext RuleExist_method), ExitMethod (RuleContext RuleExist_method),
     EnterMethod (RuleContext RuleExist_call), ExitMethod (RuleContext RuleExist_call),
     EnterMethod (RuleContext RuleModify_method), ExitMethod (RuleContext RuleModify_method),
     EnterMethod (RuleContext RuleModify_call), ExitMethod (RuleContext RuleModify_call),
     EnterMethod (RuleContext RuleHierarchyid_call),
     ExitMethod (RuleContext RuleHierarchyid_call),
     EnterMethod (RuleContext RuleHierarchyid_static_method),
     ExitMethod (RuleContext RuleHierarchyid_static_method),
     EnterMethod (RuleContext RuleNodes_method), ExitMethod (RuleContext RuleNodes_method),
     EnterMethod (RuleContext RuleSwitch_section), ExitMethod (RuleContext RuleSwitch_section),
     EnterMethod (RuleContext RuleSwitch_search_condition_section),
     ExitMethod (RuleContext RuleSwitch_search_condition_section),
     EnterMethod (RuleContext RuleAs_column_alias),
     ExitMethod (RuleContext RuleAs_column_alias),
     EnterMethod (RuleContext RuleAs_table_alias), ExitMethod (RuleContext RuleAs_table_alias),
     EnterMethod (RuleContext RuleTable_alias), ExitMethod (RuleContext RuleTable_alias),
     EnterMethod (RuleContext RuleWith_table_hints),
     ExitMethod (RuleContext RuleWith_table_hints),
     EnterMethod (RuleContext RuleDeprecated_table_hint),
     ExitMethod (RuleContext RuleDeprecated_table_hint),
     EnterMethod (RuleContext RuleSybase_legacy_hints),
     ExitMethod (RuleContext RuleSybase_legacy_hints),
     EnterMethod (RuleContext RuleSybase_legacy_hint),
     ExitMethod (RuleContext RuleSybase_legacy_hint), EnterMethod (RuleContext RuleTable_hint),
     ExitMethod (RuleContext RuleTable_hint), EnterMethod (RuleContext RuleIndex_value),
     ExitMethod (RuleContext RuleIndex_value), EnterMethod (RuleContext RuleColumn_alias_list),
     ExitMethod (RuleContext RuleColumn_alias_list),
     EnterMethod (RuleContext RuleColumn_alias), ExitMethod (RuleContext RuleColumn_alias),
     EnterMethod (RuleContext RuleTable_value_constructor),
     ExitMethod (RuleContext RuleTable_value_constructor),
     EnterMethod (RuleContext RuleExpression_list'),
     ExitMethod (RuleContext RuleExpression_list'),
     EnterMethod (RuleContext RuleRanking_windowed_function),
     ExitMethod (RuleContext RuleRanking_windowed_function),
     EnterMethod (RuleContext RuleAggregate_windowed_function),
     ExitMethod (RuleContext RuleAggregate_windowed_function),
     EnterMethod (RuleContext RuleAnalytic_windowed_function),
     ExitMethod (RuleContext RuleAnalytic_windowed_function),
     EnterMethod (RuleContext RuleAll_distinct_expression),
     ExitMethod (RuleContext RuleAll_distinct_expression),
     EnterMethod (RuleContext RuleOver_clause), ExitMethod (RuleContext RuleOver_clause),
     EnterMethod (RuleContext RuleRow_or_range_clause),
     ExitMethod (RuleContext RuleRow_or_range_clause),
     EnterMethod (RuleContext RuleWindow_frame_extent),
     ExitMethod (RuleContext RuleWindow_frame_extent),
     EnterMethod (RuleContext RuleWindow_frame_bound),
     ExitMethod (RuleContext RuleWindow_frame_bound),
     EnterMethod (RuleContext RuleWindow_frame_preceding),
     ExitMethod (RuleContext RuleWindow_frame_preceding),
     EnterMethod (RuleContext RuleWindow_frame_following),
     ExitMethod (RuleContext RuleWindow_frame_following),
     EnterMethod (RuleContext RuleCreate_database_option),
     ExitMethod (RuleContext RuleCreate_database_option),
     EnterMethod (RuleContext RuleDatabase_filestream_option),
     ExitMethod (RuleContext RuleDatabase_filestream_option),
     EnterMethod (RuleContext RuleDatabase_file_spec),
     ExitMethod (RuleContext RuleDatabase_file_spec), EnterMethod (RuleContext RuleFile_group),
     ExitMethod (RuleContext RuleFile_group), EnterMethod (RuleContext RuleFile_spec),
     ExitMethod (RuleContext RuleFile_spec), EnterMethod (RuleContext RuleEntity_name),
     ExitMethod (RuleContext RuleEntity_name),
     EnterMethod (RuleContext RuleEntity_name_for_azure_dw),
     ExitMethod (RuleContext RuleEntity_name_for_azure_dw),
     EnterMethod (RuleContext RuleEntity_name_for_parallel_dw),
     ExitMethod (RuleContext RuleEntity_name_for_parallel_dw)]"

definition base_listener_18 :: "listener_method list" where
  "base_listener_18 = [
     EnterMethod (RuleContext RuleFull_table_name),
     ExitMethod (RuleContext RuleFull_table_name), EnterMethod (RuleContext RuleTable_name),
     ExitMethod (RuleContext RuleTable_name), EnterMethod (RuleContext RuleSimple_name),
     ExitMethod (RuleContext RuleSimple_name),
     EnterMethod (RuleContext RuleFunc_proc_name_schema),
     ExitMethod (RuleContext RuleFunc_proc_name_schema),
     EnterMethod (RuleContext RuleFunc_proc_name_database_schema),
     ExitMethod (RuleContext RuleFunc_proc_name_database_schema),
     EnterMethod (RuleContext RuleFunc_proc_name_server_database_schema),
     ExitMethod (RuleContext RuleFunc_proc_name_server_database_schema),
     EnterMethod (RuleContext RuleDdl_object), ExitMethod (RuleContext RuleDdl_object),
     EnterMethod (RuleContext RuleFull_column_name),
     ExitMethod (RuleContext RuleFull_column_name),
     EnterMethod (RuleContext RuleColumn_name_list_with_order),
     ExitMethod (RuleContext RuleColumn_name_list_with_order),
     EnterMethod (RuleContext RuleInsert_column_name_list),
     ExitMethod (RuleContext RuleInsert_column_name_list),
     EnterMethod (RuleContext RuleInsert_column_id),
     ExitMethod (RuleContext RuleInsert_column_id),
     EnterMethod (RuleContext RuleColumn_name_list),
     ExitMethod (RuleContext RuleColumn_name_list), EnterMethod (RuleContext RuleCursor_name),
     ExitMethod (RuleContext RuleCursor_name), EnterMethod (RuleContext RuleOn_off),
     ExitMethod (RuleContext RuleOn_off), EnterMethod (RuleContext RuleClustered),
     ExitMethod (RuleContext RuleClustered), EnterMethod (RuleContext RuleNull_notnull),
     ExitMethod (RuleContext RuleNull_notnull),
     EnterMethod (RuleContext RuleScalar_function_name),
     ExitMethod (RuleContext RuleScalar_function_name),
     EnterMethod (RuleContext RuleBegin_conversation_timer),
     ExitMethod (RuleContext RuleBegin_conversation_timer),
     EnterMethod (RuleContext RuleBegin_conversation_dialog),
     ExitMethod (RuleContext RuleBegin_conversation_dialog),
     EnterMethod (RuleContext RuleContract_name), ExitMethod (RuleContext RuleContract_name),
     EnterMethod (RuleContext RuleService_name), ExitMethod (RuleContext RuleService_name),
     EnterMethod (RuleContext RuleEnd_conversation),
     ExitMethod (RuleContext RuleEnd_conversation),
     EnterMethod (RuleContext RuleWaitfor_conversation),
     ExitMethod (RuleContext RuleWaitfor_conversation),
     EnterMethod (RuleContext RuleGet_conversation),
     ExitMethod (RuleContext RuleGet_conversation), EnterMethod (RuleContext RuleQueue_id),
     ExitMethod (RuleContext RuleQueue_id), EnterMethod (RuleContext RuleSend_conversation),
     ExitMethod (RuleContext RuleSend_conversation), EnterMethod (RuleContext RuleData_type),
     ExitMethod (RuleContext RuleData_type), EnterMethod (RuleContext RuleConstant),
     ExitMethod (RuleContext RuleConstant), EnterMethod (RuleContext RulePrimitive_constant),
     ExitMethod (RuleContext RulePrimitive_constant), EnterMethod (RuleContext RuleKeyword),
     ExitMethod (RuleContext RuleKeyword), EnterMethod (RuleContext RuleId'),
     ExitMethod (RuleContext RuleId'), EnterMethod (RuleContext RuleSimple_id),
     ExitMethod (RuleContext RuleSimple_id), EnterMethod (RuleContext RuleId_or_string),
     ExitMethod (RuleContext RuleId_or_string),
     EnterMethod (RuleContext RuleComparison_operator),
     ExitMethod (RuleContext RuleComparison_operator),
     EnterMethod (RuleContext RuleAssignment_operator),
     ExitMethod (RuleContext RuleAssignment_operator), EnterMethod (RuleContext RuleFile_size),
     ExitMethod (RuleContext RuleFile_size)]"

definition base_listener_19 :: "listener_method list" where
  "base_listener_19 = [
     EnterEvery, ExitEvery, TerminalMethod, ErrorMethod]"

end
