(* ===== verification/Visitor_Table.thy ===== *)
theory Visitor_Table
  imports Listeners
begin

text \<open>
  The methods of \<open>port/cpp/TSqlParserVisitor.h\<close>, in the order of the file.
\<close>

definition visitor_1 :: "visitor_method list" where
  "visitor_1 = [
     VisitMethod (RuleContext RuleTsql_file), VisitMethod (RuleContext RuleBatch),
     VisitMethod (RuleContext RuleBatch_level_statement),
     VisitMethod (RuleContext RuleSql_clauses), VisitMethod (RuleContext RuleDml_clause),
     VisitMethod (RuleContext RuleDdl_clause), VisitMethod (RuleContext RuleBackup_statement),
     VisitMethod (RuleContext RuleCfl_statement),
     VisitMethod (RuleContext RuleBlock_statement),
     VisitMethod (RuleContext RuleBreak_statement),
     VisitMethod (RuleContext RuleContinue_statement),
     VisitMethod (RuleContext RuleGoto_statement),
     VisitMethod (RuleContext RuleReturn_statement),
     VisitMethod (RuleContext RuleIf_statement), VisitMethod (RuleContext RuleThrow_statement),
     VisitMethod (RuleContext RuleThrow_error_number),
     VisitMethod (RuleContext RuleThrow_message), VisitMethod (RuleContext RuleThrow_state),
     VisitMethod (RuleContext RuleTry_catch_statement),
     VisitMethod (RuleContext RuleWaitfor_statement),
     VisitMethod (RuleContext RuleWhile_statement),
     VisitMethod (RuleContext RulePrint_statement),
     VisitMethod (RuleContext RuleRaiseerror_statement),
     VisitMethod (RuleContext RuleEmpty_statement),
     VisitMethod (RuleContext RuleAnother_statement),
     VisitMethod (RuleContext RuleAlter_application_role),
     VisitMethod (RuleContext RuleAlter_xml_schema_collection),
     VisitMethod (RuleContext RuleCreate_application_role),
     VisitMethod (RuleContext RuleDrop_aggregate),
     VisitMethod (RuleContext RuleDrop_application_role),
     VisitMethod (RuleContext RuleAlter_assembly),
     VisitMethod (RuleContext RuleAlter_assembly_start),
     VisitMethod (RuleContext RuleAlter_assembly_clause),
     VisitMethod (RuleContext RuleAlter_assembly_from_clause),
     VisitMethod (RuleContext RuleAlter_assembly_from_clause_start),
     VisitMethod (RuleContext RuleAlter_assembly_drop_clause),
     VisitMethod (RuleContext RuleAlter_assembly_drop_multiple_files),
     VisitMethod (RuleContext RuleAlter_assembly_drop),
     VisitMethod (RuleContext RuleAlter_assembly_add_clause),
     VisitMethod (RuleContext RuleAlter_asssembly_add_clause_start),
     VisitMethod (RuleContext RuleAlter_assembly_client_file_clause),
     VisitMethod (RuleContext RuleAlter_assembly_file_name),
     VisitMethod (RuleContext RuleAlter_assembly_file_bits),
     VisitMethod (RuleContext RuleAlter_assembly_as),
     VisitMethod (RuleContext RuleAlter_assembly_with_clause),
     VisitMethod (RuleContext RuleAlter_assembly_with),
     VisitMethod (RuleContext RuleClient_assembly_specifier),
     VisitMethod (RuleContext RuleAssembly_option),
     VisitMethod (RuleContext RuleNetwork_file_share),
     VisitMethod (RuleContext RuleNetwork_computer),
     VisitMethod (RuleContext RuleNetwork_file_start), VisitMethod (RuleContext RuleFile_path),
     VisitMethod (RuleContext RuleFile_directory_path_separator),
     VisitMethod (RuleContext RuleLocal_file), VisitMethod (RuleContext RuleLocal_drive),
     VisitMethod (RuleContext RuleMultiple_local_files),
     VisitMethod (RuleContext RuleMultiple_local_file_start),
     VisitMethod (RuleContext RuleCreate_assembly),
     VisitMethod (RuleContext RuleDrop_assembly),
     VisitMethod (RuleContext RuleAlter_asymmetric_key),
     VisitMethod (RuleContext RuleAlter_asymmetric_key_start),
     VisitMethod (RuleContext RuleAsymmetric_key_option),
     VisitMethod (RuleContext RuleAsymmetric_key_option_start),
     VisitMethod (RuleContext RuleAsymmetric_key_password_change_option),
     VisitMethod (RuleContext RuleCreate_asymmetric_key),
     VisitMethod (RuleContext RuleDrop_asymmetric_key),
     VisitMethod (RuleContext RuleAlter_authorization),
     VisitMethod (RuleContext RuleAuthorization_grantee),
     VisitMethod (RuleContext RuleEntity_to), VisitMethod (RuleContext RuleColon_colon),
     VisitMethod (RuleContext RuleAlter_authorization_start),
     VisitMethod (RuleContext RuleAlter_authorization_for_sql_database),
     VisitMethod (RuleContext RuleAlter_authorization_for_azure_dw),
     VisitMethod (RuleContext RuleAlter_authorization_for_parallel_dw)]"

definition visitor_2 :: "visitor_method list" where
  "visitor_2 = [
     VisitMethod (RuleContext RuleClass_type),
     VisitMethod (RuleContext RuleClass_type_for_sql_database),
     VisitMethod (RuleContext RuleClass_type_for_azure_dw),
     VisitMethod (RuleContext RuleClass_type_for_parallel_dw),
     VisitMethod (RuleContext RuleClass_type_for_grant),
     VisitMethod (RuleContext RuleDrop_availability_group),
     VisitMethod (RuleContext RuleAlter_availability_group),
     VisitMethod (RuleContext RuleAlter_availability_group_start),
     VisitMethod (RuleContext RuleAlter_availability_group_options),
     VisitMethod (RuleContext RuleIp_v4_failover),
     VisitMethod (RuleContext RuleIp_v6_failover),
     VisitMethod (RuleContext RuleCreate_or_alter_broker_priority),
     VisitMethod (RuleContext RuleDrop_broker_priority),
     VisitMethod (RuleContext RuleAlter_certificate),
     VisitMethod (RuleContext RuleAlter_column_encryption_key),
     VisitMethod (RuleContext RuleCreate_column_encryption_key),
     VisitMethod (RuleContext RuleDrop_certificate),
     VisitMethod (RuleContext RuleDrop_column_encryption_key),
     VisitMethod (RuleContext RuleDrop_column_master_key),
     VisitMethod (RuleContext RuleDrop_contract),
     VisitMethod (RuleContext RuleDrop_credential),
     VisitMethod (RuleContext RuleDrop_cryptograhic_provider),
     VisitMethod (RuleContext RuleDrop_database),
     VisitMethod (RuleContext RuleDrop_database_audit_specification),
     VisitMethod (RuleContext RuleDrop_database_encryption_key),
     VisitMethod (RuleContext RuleDrop_database_scoped_credential),
     VisitMethod (RuleContext RuleDrop_default), VisitMethod (RuleContext RuleDrop_endpoint),
     VisitMethod (RuleContext RuleDrop_external_data_source),
     VisitMethod (RuleContext RuleDrop_external_file_format),
     VisitMethod (RuleContext RuleDrop_external_library),
     VisitMethod (RuleContext RuleDrop_external_resource_pool),
     VisitMethod (RuleContext RuleDrop_external_table),
     VisitMethod (RuleContext RuleDrop_event_notifications),
     VisitMethod (RuleContext RuleDrop_event_session),
     VisitMethod (RuleContext RuleDrop_fulltext_catalog),
     VisitMethod (RuleContext RuleDrop_fulltext_index),
     VisitMethod (RuleContext RuleDrop_fulltext_stoplist),
     VisitMethod (RuleContext RuleDrop_login), VisitMethod (RuleContext RuleDrop_master_key),
     VisitMethod (RuleContext RuleDrop_message_type),
     VisitMethod (RuleContext RuleDrop_partition_function),
     VisitMethod (RuleContext RuleDrop_partition_scheme),
     VisitMethod (RuleContext RuleDrop_queue),
     VisitMethod (RuleContext RuleDrop_remote_service_binding),
     VisitMethod (RuleContext RuleDrop_resource_pool),
     VisitMethod (RuleContext RuleDrop_db_role), VisitMethod (RuleContext RuleDrop_route),
     VisitMethod (RuleContext RuleDrop_rule), VisitMethod (RuleContext RuleDrop_schema),
     VisitMethod (RuleContext RuleDrop_search_property_list),
     VisitMethod (RuleContext RuleDrop_security_policy),
     VisitMethod (RuleContext RuleDrop_sequence),
     VisitMethod (RuleContext RuleDrop_server_audit),
     VisitMethod (RuleContext RuleDrop_server_audit_specification),
     VisitMethod (RuleContext RuleDrop_server_role),
     VisitMethod (RuleContext RuleDrop_service), VisitMethod (RuleContext RuleDrop_signature),
     VisitMethod (RuleContext RuleDrop_statistics_name_azure_dw_and_pdw),
     VisitMethod (RuleContext RuleDrop_symmetric_key),
     VisitMethod (RuleContext RuleDrop_synonym), VisitMethod (RuleContext RuleDrop_user),
     VisitMethod (RuleContext RuleDrop_workload_group),
     VisitMethod (RuleContext RuleDrop_xml_schema_collection),
     VisitMethod (RuleContext RuleDisable_trigger),
     VisitMethod (RuleContext RuleEnable_trigger), VisitMethod (RuleContext RuleLock_table)]"

definition visitor_3 :: "visitor_method list" where
  "visitor_3 = [
     VisitMethod (RuleContext RuleTruncate_table),
     VisitMethod (RuleContext RuleCreate_column_master_key),
     VisitMethod (RuleContext RuleAlter_credential),
     VisitMethod (RuleContext RuleCreate_credential),
     VisitMethod (RuleContext RuleAlter_cryptographic_provider),
     VisitMethod (RuleContext RuleCreate_cryptographic_provider),
     VisitMethod (RuleContext RuleCreate_endpoint),
     VisitMethod (RuleContext RuleEndpoint_encryption_alogorithm_clause),
     VisitMethod (RuleContext RuleEndpoint_authentication_clause),
     VisitMethod (RuleContext RuleEndpoint_listener_clause),
     VisitMethod (RuleContext RuleCreate_event_notification),
     VisitMethod (RuleContext RuleCreate_or_alter_event_session),
     VisitMethod (RuleContext RuleEvent_session_predicate_expression),
     VisitMethod (RuleContext RuleEvent_session_predicate_factor),
     VisitMethod (RuleContext RuleEvent_session_predicate_leaf),
     VisitMethod (RuleContext RuleAlter_external_data_source),
     VisitMethod (RuleContext RuleAlter_external_library),
     VisitMethod (RuleContext RuleCreate_external_library),
     VisitMethod (RuleContext RuleAlter_external_resource_pool),
     VisitMethod (RuleContext RuleCreate_external_resource_pool),
     VisitMethod (RuleContext RuleAlter_fulltext_catalog),
     VisitMethod (RuleContext RuleCreate_fulltext_catalog),
     VisitMethod (RuleContext RuleAlter_fulltext_stoplist),
     VisitMethod (RuleContext RuleCreate_fulltext_stoplist),
     VisitMethod (RuleContext RuleAlter_login_sql_server),
     VisitMethod (RuleContext RuleCreate_login_sql_server),
     VisitMethod (RuleContext RuleAlter_login_azure_sql),
     VisitMethod (RuleContext RuleCreate_login_azure_sql),
     VisitMethod (RuleContext RuleAlter_login_azure_sql_dw_and_pdw),
     VisitMethod (RuleContext RuleCreate_login_pdw),
     VisitMethod (RuleContext RuleAlter_master_key_sql_server),
     VisitMethod (RuleContext RuleCreate_master_key_sql_server),
     VisitMethod (RuleContext RuleAlter_master_key_azure_sql),
     VisitMethod (RuleContext RuleCreate_master_key_azure_sql),
     VisitMethod (RuleContext RuleAlter_message_type),
     VisitMethod (RuleContext RuleAlter_partition_function),
     VisitMethod (RuleContext RuleAlter_partition_scheme),
     VisitMethod (RuleContext RuleAlter_remote_service_binding),
     VisitMethod (RuleContext RuleCreate_remote_service_binding),
     VisitMethod (RuleContext RuleCreate_resource_pool),
     VisitMethod (RuleContext RuleAlter_resource_governor),
     VisitMethod (RuleContext RuleAlter_database_audit_specification),
     VisitMethod (RuleContext RuleAudit_action_spec_group),
     VisitMethod (RuleContext RuleAudit_action_specification),
     VisitMethod (RuleContext RuleAction_specification),
     VisitMethod (RuleContext RuleAudit_class_name),
     VisitMethod (RuleContext RuleAudit_securable),
     VisitMethod (RuleContext RuleAlter_db_role),
     VisitMethod (RuleContext RuleCreate_database_audit_specification),
     VisitMethod (RuleContext RuleCreate_db_role), VisitMethod (RuleContext RuleCreate_route),
     VisitMethod (RuleContext RuleCreate_rule), VisitMethod (RuleContext RuleAlter_schema_sql),
     VisitMethod (RuleContext RuleCreate_schema),
     VisitMethod (RuleContext RuleCreate_schema_azure_sql_dw_and_pdw),
     VisitMethod (RuleContext RuleAlter_schema_azure_sql_dw_and_pdw),
     VisitMethod (RuleContext RuleCreate_search_property_list),
     VisitMethod (RuleContext RuleCreate_security_policy),
     VisitMethod (RuleContext RuleAlter_sequence),
     VisitMethod (RuleContext RuleCreate_sequence),
     VisitMethod (RuleContext RuleAlter_server_audit),
     VisitMethod (RuleContext RuleCreate_server_audit),
     VisitMethod (RuleContext RuleAlter_server_audit_specification),
     VisitMethod (RuleContext RuleCreate_server_audit_specification),
     VisitMethod (RuleContext RuleAlter_server_configuration),
     VisitMethod (RuleContext RuleAlter_server_role),
     VisitMethod (RuleContext RuleCreate_server_role),
     VisitMethod (RuleContext RuleAlter_server_role_pdw),
     VisitMethod (RuleContext RuleAlter_service), VisitMethod (RuleContext RuleOpt_arg_clause),
     VisitMethod (RuleContext RuleCreate_service),
     VisitMethod (RuleContext RuleAlter_service_master_key),
     VisitMethod (RuleContext RuleAlter_symmetric_key),
     VisitMethod (RuleContext RuleCreate_synonym)]"

definition visitor_4 :: "visitor_method list" where
  "visitor_4 = [
     VisitMethod (RuleContext RuleAlter_user), VisitMethod (RuleContext RuleCreate_user),
     VisitMethod (RuleContext RuleCreate_user_azure_sql_dw),
     VisitMethod (RuleContext RuleAlter_user_azure_sql),
     VisitMethod (RuleContext RuleAlter_workload_group),
     VisitMethod (RuleContext RuleCreate_workload_group),
     VisitMethod (RuleContext RuleCreate_xml_schema_collection),
     VisitMethod (RuleContext RuleCreate_partition_function),
     VisitMethod (RuleContext RuleCreate_partition_scheme),
     VisitMethod (RuleContext RuleCreate_queue), VisitMethod (RuleContext RuleQueue_settings),
     VisitMethod (RuleContext RuleAlter_queue), VisitMethod (RuleContext RuleQueue_action),
     VisitMethod (RuleContext RuleQueue_rebuild_options),
     VisitMethod (RuleContext RuleCreate_contract),
     VisitMethod (RuleContext RuleConversation_statement),
     VisitMethod (RuleContext RuleMessage_statement),
     VisitMethod (RuleContext RuleMerge_statement), VisitMethod (RuleContext RuleWhen_matches),
     VisitMethod (RuleContext RuleMerge_matched),
     VisitMethod (RuleContext RuleMerge_not_matched),
     VisitMethod (RuleContext RuleDelete_statement)]"

definition visitor_5 :: "visitor_method list" where
  "visitor_5 = [
     VisitMethod (RuleContext RuleDelete_statement_from),
     VisitMethod (RuleContext RuleInsert_statement),
     VisitMethod (RuleContext RuleInsert_statement_value),
     VisitMethod (RuleContext RuleReceive_statement),
     VisitMethod (RuleContext RuleSelect_statement_standalone),
     VisitMethod (RuleContext RuleSelect_statement), VisitMethod (RuleContext RuleTime),
     VisitMethod (RuleContext RuleUpdate_statement),
     VisitMethod (RuleContext RuleOutput_clause),
     VisitMethod (RuleContext RuleOutput_dml_list_elem),
     VisitMethod (RuleContext RuleCreate_database), VisitMethod (RuleContext RuleCreate_index),
     VisitMethod (RuleContext RuleCreate_index_options),
     VisitMethod (RuleContext RuleRelational_index_option),
     VisitMethod (RuleContext RuleAlter_index),
     VisitMethod (RuleContext RuleResumable_index_options),
     VisitMethod (RuleContext RuleResumable_index_option),
     VisitMethod (RuleContext RuleReorganize_partition),
     VisitMethod (RuleContext RuleReorganize_options),
     VisitMethod (RuleContext RuleReorganize_option),
     VisitMethod (RuleContext RuleSet_index_options),
     VisitMethod (RuleContext RuleSet_index_option),
     VisitMethod (RuleContext RuleRebuild_partition),
     VisitMethod (RuleContext RuleRebuild_index_options),
     VisitMethod (RuleContext RuleRebuild_index_option),
     VisitMethod (RuleContext RuleSingle_partition_rebuild_index_options),
     VisitMethod (RuleContext RuleSingle_partition_rebuild_index_option),
     VisitMethod (RuleContext RuleOn_partitions),
     VisitMethod (RuleContext RuleCreate_columnstore_index),
     VisitMethod (RuleContext RuleCreate_columnstore_index_options),
     VisitMethod (RuleContext RuleColumnstore_index_option),
     VisitMethod (RuleContext RuleCreate_nonclustered_columnstore_index),
     VisitMethod (RuleContext RuleCreate_xml_index),
     VisitMethod (RuleContext RuleXml_index_options),
     VisitMethod (RuleContext RuleXml_index_option),
     VisitMethod (RuleContext RuleCreate_or_alter_procedure),
     VisitMethod (RuleContext RuleAs_external_name),
     VisitMethod (RuleContext RuleCreate_or_alter_trigger),
     VisitMethod (RuleContext RuleCreate_or_alter_dml_trigger),
     VisitMethod (RuleContext RuleDml_trigger_option),
     VisitMethod (RuleContext RuleDml_trigger_operation),
     VisitMethod (RuleContext RuleCreate_or_alter_ddl_trigger),
     VisitMethod (RuleContext RuleDdl_trigger_operation),
     VisitMethod (RuleContext RuleCreate_or_alter_function),
     VisitMethod (RuleContext RuleFunc_body_returns_select),
     VisitMethod (RuleContext RuleFunc_body_returns_table),
     VisitMethod (RuleContext RuleFunc_body_returns_scalar),
     VisitMethod (RuleContext RuleProcedure_param_default_value),
     VisitMethod (RuleContext RuleProcedure_param),
     VisitMethod (RuleContext RuleProcedure_option),
     VisitMethod (RuleContext RuleFunction_option),
     VisitMethod (RuleContext RuleCreate_statistics),
     VisitMethod (RuleContext RuleUpdate_statistics),
     VisitMethod (RuleContext RuleUpdate_statistics_options),
     VisitMethod (RuleContext RuleUpdate_statistics_option),
     VisitMethod (RuleContext RuleCreate_table), VisitMethod (RuleContext RuleTable_indices),
     VisitMethod (RuleContext RuleTable_options), VisitMethod (RuleContext RuleTable_option),
     VisitMethod (RuleContext RuleCreate_table_index_options),
     VisitMethod (RuleContext RuleCreate_table_index_option),
     VisitMethod (RuleContext RuleCreate_view), VisitMethod (RuleContext RuleView_attribute),
     VisitMethod (RuleContext RuleAlter_table), VisitMethod (RuleContext RuleSwitch_partition),
     VisitMethod (RuleContext RuleLow_priority_lock_wait),
     VisitMethod (RuleContext RuleAlter_database),
     VisitMethod (RuleContext RuleAdd_or_modify_files), VisitMethod (RuleContext RuleFilespec),
     VisitMethod (RuleContext RuleAdd_or_modify_filegroups),
     VisitMethod (RuleContext RuleFilegroup_updatability_option),
     VisitMethod (RuleContext RuleDatabase_optionspec),
     VisitMethod (RuleContext RuleAuto_option),
     VisitMethod (RuleContext RuleChange_tracking_option)]"

definition visitor_6 :: "visitor_method list" where
  "visitor_6 = [
     VisitMethod (RuleContext RuleChange_tracking_option_list),
     VisitMethod (RuleContext RuleContainment_option),
     VisitMethod (RuleContext RuleCursor_option), VisitMethod (RuleContext RuleAlter_endpoint),
     VisitMethod (RuleContext RuleDatabase_mirroring_option),
     VisitMethod (RuleContext RuleMirroring_set_option),
     VisitMethod (RuleContext RuleMirroring_partner),
     VisitMethod (RuleContext RuleMirroring_witness),
     VisitMethod (RuleContext RuleWitness_partner_equal),
     VisitMethod (RuleContext RulePartner_option),
     VisitMethod (RuleContext RuleWitness_option),
     VisitMethod (RuleContext RuleWitness_server),
     VisitMethod (RuleContext RulePartner_server),
     VisitMethod (RuleContext RuleMirroring_host_port_seperator),
     VisitMethod (RuleContext RulePartner_server_tcp_prefix),
     VisitMethod (RuleContext RulePort_number), VisitMethod (RuleContext RuleHost),
     VisitMethod (RuleContext RuleDate_correlation_optimization_option),
     VisitMethod (RuleContext RuleDb_encryption_option),
     VisitMethod (RuleContext RuleDb_state_option),
     VisitMethod (RuleContext RuleDb_update_option),
     VisitMethod (RuleContext RuleDb_user_access_option),
     VisitMethod (RuleContext RuleDelayed_durability_option),
     VisitMethod (RuleContext RuleExternal_access_option),
     VisitMethod (RuleContext RuleHadr_options),
     VisitMethod (RuleContext RuleMixed_page_allocation_option),
     VisitMethod (RuleContext RuleParameterization_option),
     VisitMethod (RuleContext RuleRecovery_option),
     VisitMethod (RuleContext RuleService_broker_option),
     VisitMethod (RuleContext RuleSnapshot_option), VisitMethod (RuleContext RuleSql_option),
     VisitMethod (RuleContext RuleTarget_recovery_time_option),
     VisitMethod (RuleContext RuleTermination), VisitMethod (RuleContext RuleDrop_index),
     VisitMethod (RuleContext RuleDrop_relational_or_xml_or_spatial_index),
     VisitMethod (RuleContext RuleDrop_backward_compatible_index),
     VisitMethod (RuleContext RuleDrop_procedure), VisitMethod (RuleContext RuleDrop_trigger),
     VisitMethod (RuleContext RuleDrop_dml_trigger),
     VisitMethod (RuleContext RuleDrop_ddl_trigger),
     VisitMethod (RuleContext RuleDrop_function),
     VisitMethod (RuleContext RuleDrop_statistics), VisitMethod (RuleContext RuleDrop_table),
     VisitMethod (RuleContext RuleDrop_view), VisitMethod (RuleContext RuleCreate_type),
     VisitMethod (RuleContext RuleDrop_type),
     VisitMethod (RuleContext RuleRowset_function_limited),
     VisitMethod (RuleContext RuleOpenquery), VisitMethod (RuleContext RuleOpendatasource),
     VisitMethod (RuleContext RuleDeclare_statement),
     VisitMethod (RuleContext RuleXml_declaration),
     VisitMethod (RuleContext RuleCursor_statement),
     VisitMethod (RuleContext RuleBackup_database), VisitMethod (RuleContext RuleBackup_log)]"

definition visitor_7 :: "visitor_method list" where
  "visitor_7 = [
     VisitMethod (RuleContext RuleBackup_certificate),
     VisitMethod (RuleContext RuleBackup_master_key),
     VisitMethod (RuleContext RuleBackup_service_master_key),
     VisitMethod (RuleContext RuleKill_statement), VisitMethod (RuleContext RuleKill_process),
     VisitMethod (RuleContext RuleKill_query_notification),
     VisitMethod (RuleContext RuleKill_stats_job),
     VisitMethod (RuleContext RuleExecute_statement),
     VisitMethod (RuleContext RuleExecute_body_batch),
     VisitMethod (RuleContext RuleExecute_body),
     VisitMethod (RuleContext RuleExecute_statement_arg),
     VisitMethod (RuleContext RuleExecute_statement_arg_named),
     VisitMethod (RuleContext RuleExecute_statement_arg_unnamed),
     VisitMethod (RuleContext RuleExecute_parameter),
     VisitMethod (RuleContext RuleExecute_var_string),
     VisitMethod (RuleContext RuleSecurity_statement),
     VisitMethod (RuleContext RulePrincipal_id),
     VisitMethod (RuleContext RuleCreate_certificate),
     VisitMethod (RuleContext RuleExisting_keys),
     VisitMethod (RuleContext RulePrivate_key_options),
     VisitMethod (RuleContext RuleGenerate_new_keys),
     VisitMethod (RuleContext RuleDate_options), VisitMethod (RuleContext RuleOpen_key),
     VisitMethod (RuleContext RuleClose_key), VisitMethod (RuleContext RuleCreate_key),
     VisitMethod (RuleContext RuleKey_options), VisitMethod (RuleContext RuleAlgorithm),
     VisitMethod (RuleContext RuleEncryption_mechanism),
     VisitMethod (RuleContext RuleDecryption_mechanism),
     VisitMethod (RuleContext RuleGrant_permission),
     VisitMethod (RuleContext RuleSet_statement),
     VisitMethod (RuleContext RuleTransaction_statement),
     VisitMethod (RuleContext RuleGo_statement), VisitMethod (RuleContext RuleUse_statement),
     VisitMethod (RuleContext RuleSetuser_statement),
     VisitMethod (RuleContext RuleReconfigure_statement),
     VisitMethod (RuleContext RuleShutdown_statement),
     VisitMethod (RuleContext RuleCheckpoint_statement),
     VisitMethod (RuleContext RuleDbcc_checkalloc_option),
     VisitMethod (RuleContext RuleDbcc_checkalloc),
     VisitMethod (RuleContext RuleDbcc_checkcatalog),
     VisitMethod (RuleContext RuleDbcc_checkconstraints_option),
     VisitMethod (RuleContext RuleDbcc_checkconstraints),
     VisitMethod (RuleContext RuleDbcc_checkdb_table_option),
     VisitMethod (RuleContext RuleDbcc_checkdb),
     VisitMethod (RuleContext RuleDbcc_checkfilegroup_option),
     VisitMethod (RuleContext RuleDbcc_checkfilegroup),
     VisitMethod (RuleContext RuleDbcc_checktable),
     VisitMethod (RuleContext RuleDbcc_cleantable),
     VisitMethod (RuleContext RuleDbcc_clonedatabase_option),
     VisitMethod (RuleContext RuleDbcc_clonedatabase),
     VisitMethod (RuleContext RuleDbcc_pdw_showspaceused),
     VisitMethod (RuleContext RuleDbcc_proccache),
     VisitMethod (RuleContext RuleDbcc_showcontig_option),
     VisitMethod (RuleContext RuleDbcc_showcontig),
     VisitMethod (RuleContext RuleDbcc_shrinklog),
     VisitMethod (RuleContext RuleDbcc_dbreindex), VisitMethod (RuleContext RuleDbcc_dll_free),
     VisitMethod (RuleContext RuleDbcc_dropcleanbuffers),
     VisitMethod (RuleContext RuleDbcc_clause), VisitMethod (RuleContext RuleExecute_clause),
     VisitMethod (RuleContext RuleDeclare_local),
     VisitMethod (RuleContext RuleTable_type_definition),
     VisitMethod (RuleContext RuleTable_type_indices),
     VisitMethod (RuleContext RuleXml_type_definition),
     VisitMethod (RuleContext RuleXml_schema_collection),
     VisitMethod (RuleContext RuleColumn_def_table_constraints),
     VisitMethod (RuleContext RuleColumn_def_table_constraint),
     VisitMethod (RuleContext RuleColumn_definition),
     VisitMethod (RuleContext RuleColumn_definition_element),
     VisitMethod (RuleContext RuleColumn_modifier),
     VisitMethod (RuleContext RuleMaterialized_column_definition),
     VisitMethod (RuleContext RuleColumn_constraint),
     VisitMethod (RuleContext RuleColumn_index)]"

definition visitor_8 :: "visitor_method list" where
  "visitor_8 = [
     VisitMethod (RuleContext RuleOn_partition_or_filegroup),
     VisitMethod (RuleContext RuleTable_constraint),
     VisitMethod (RuleContext RuleConnection_node),
     VisitMethod (RuleContext RulePrimary_key_options),
     VisitMethod (RuleContext RuleForeign_key_options),
     VisitMethod (RuleContext RuleCheck_constraint), VisitMethod (RuleContext RuleOn_delete),
     VisitMethod (RuleContext RuleOn_update),
     VisitMethod (RuleContext RuleAlter_table_index_options),
     VisitMethod (RuleContext RuleAlter_table_index_option),
     VisitMethod (RuleContext RuleDeclare_cursor),
     VisitMethod (RuleContext RuleDeclare_set_cursor_common),
     VisitMethod (RuleContext RuleDeclare_set_cursor_common_partial),
     VisitMethod (RuleContext RuleFetch_cursor), VisitMethod (RuleContext RuleSet_special),
     VisitMethod (RuleContext RuleSpecial_list),
     VisitMethod (RuleContext RuleConstant_LOCAL_ID), VisitMethod (RuleContext RuleExpression),
     VisitMethod (RuleContext RuleParameter), VisitMethod (RuleContext RuleTime_zone),
     VisitMethod (RuleContext RulePrimitive_expression),
     VisitMethod (RuleContext RuleCase_expression),
     VisitMethod (RuleContext RuleUnary_operator_expression),
     VisitMethod (RuleContext RuleBracket_expression), VisitMethod (RuleContext RuleSubquery),
     VisitMethod (RuleContext RuleWith_expression),
     VisitMethod (RuleContext RuleCommon_table_expression),
     VisitMethod (RuleContext RuleUpdate_elem),
     VisitMethod (RuleContext RuleUpdate_elem_merge),
     VisitMethod (RuleContext RuleSearch_condition), VisitMethod (RuleContext RulePredicate),
     VisitMethod (RuleContext RuleQuery_expression), VisitMethod (RuleContext RuleSql_union),
     VisitMethod (RuleContext RuleQuery_specification),
     VisitMethod (RuleContext RuleGroup_by_clause),
     VisitMethod (RuleContext RuleHaving_clause),
     VisitMethod (RuleContext RuleFrom_table_sources),
     VisitMethod (RuleContext RuleTop_clause), VisitMethod (RuleContext RuleTop_percent),
     VisitMethod (RuleContext RuleTop_count), VisitMethod (RuleContext RuleOrder_by_clause),
     VisitMethod (RuleContext RuleSelect_order_by_clause),
     VisitMethod (RuleContext RuleFor_clause),
     VisitMethod (RuleContext RuleXml_common_directives),
     VisitMethod (RuleContext RuleOrder_by_expression),
     VisitMethod (RuleContext RuleGrouping_sets_item),
     VisitMethod (RuleContext RuleGroup_by_item), VisitMethod (RuleContext RuleOption_clause),
     VisitMethod (RuleContext RuleOption)]"

definition visitor_9 :: "visitor_method list" where
  "visitor_9 = [
     VisitMethod (RuleContext RuleOptimize_for_arg), VisitMethod (RuleContext RuleSelect_list),
     VisitMethod (RuleContext RuleUdt_method_arguments),
     VisitMethod (RuleContext RuleAsterisk), VisitMethod (RuleContext RuleUdt_elem),
     VisitMethod (RuleContext RuleExpression_elem),
     VisitMethod (RuleContext RuleSelect_list_elem),
     VisitMethod (RuleContext RuleTable_sources), VisitMethod (RuleContext RuleNon_ansi_join),
     VisitMethod (RuleContext RuleTable_source),
     VisitMethod (RuleContext RuleTable_source_item), VisitMethod (RuleContext RuleOpen_xml),
     VisitMethod (RuleContext RuleOpen_json), VisitMethod (RuleContext RuleJson_declaration),
     VisitMethod (RuleContext RuleJson_column_declaration),
     VisitMethod (RuleContext RuleSchema_declaration),
     VisitMethod (RuleContext RuleColumn_declaration),
     VisitMethod (RuleContext RuleChange_table),
     VisitMethod (RuleContext RuleChange_table_changes),
     VisitMethod (RuleContext RuleChange_table_version),
     VisitMethod (RuleContext RuleJoin_part), VisitMethod (RuleContext RuleJoin_on),
     VisitMethod (RuleContext RuleCross_join), VisitMethod (RuleContext RuleApply'),
     VisitMethod (RuleContext RulePivot), VisitMethod (RuleContext RuleUnpivot),
     VisitMethod (RuleContext RulePivot_clause), VisitMethod (RuleContext RuleUnpivot_clause),
     VisitMethod (RuleContext RuleFull_column_name_list),
     VisitMethod (RuleContext RuleRowset_function), VisitMethod (RuleContext RuleBulk_option),
     VisitMethod (RuleContext RuleDerived_table),
     VisitMethod (LabelContext L_RANKING_WINDOWED_FUNC),
     VisitMethod (LabelContext L_AGGREGATE_WINDOWED_FUNC),
     VisitMethod (LabelContext L_ANALYTIC_WINDOWED_FUNC),
     VisitMethod (LabelContext L_BUILT_IN_FUNC), VisitMethod (LabelContext L_SCALAR_FUNCTION),
     VisitMethod (LabelContext L_FREE_TEXT), VisitMethod (LabelContext L_PARTITION_FUNC),
     VisitMethod (LabelContext L_HIERARCHYID_METHOD),
     VisitMethod (RuleContext RulePartition_function),
     VisitMethod (RuleContext RuleFreetext_function),
     VisitMethod (RuleContext RuleFreetext_predicate),
     VisitMethod (RuleContext RuleJson_key_value),
     VisitMethod (RuleContext RuleJson_null_clause), VisitMethod (LabelContext L_APP_NAME),
     VisitMethod (LabelContext L_APPLOCK_MODE), VisitMethod (LabelContext L_APPLOCK_TEST),
     VisitMethod (LabelContext L_ASSEMBLYPROPERTY), VisitMethod (LabelContext L_COL_LENGTH),
     VisitMethod (LabelContext L_COL_NAME), VisitMethod (LabelContext L_COLUMNPROPERTY),
     VisitMethod (LabelContext L_DATABASEPROPERTYEX), VisitMethod (LabelContext L_DB_ID),
     VisitMethod (LabelContext L_DB_NAME), VisitMethod (LabelContext L_FILE_ID),
     VisitMethod (LabelContext L_FILE_IDEX), VisitMethod (LabelContext L_FILE_NAME),
     VisitMethod (LabelContext L_FILEGROUP_ID), VisitMethod (LabelContext L_FILEGROUP_NAME),
     VisitMethod (LabelContext L_FILEGROUPPROPERTY), VisitMethod (LabelContext L_FILEPROPERTY),
     VisitMethod (LabelContext L_FILEPROPERTYEX),
     VisitMethod (LabelContext L_FULLTEXTCATALOGPROPERTY),
     VisitMethod (LabelContext L_FULLTEXTSERVICEPROPERTY),
     VisitMethod (LabelContext L_INDEX_COL), VisitMethod (LabelContext L_INDEXKEY_PROPERTY),
     VisitMethod (LabelContext L_INDEXPROPERTY), VisitMethod (LabelContext L_NEXT_VALUE_FOR),
     VisitMethod (LabelContext L_OBJECT_DEFINITION), VisitMethod (LabelContext L_OBJECT_ID),
     VisitMethod (LabelContext L_OBJECT_NAME), VisitMethod (LabelContext L_OBJECT_SCHEMA_NAME),
     VisitMethod (LabelContext L_OBJECTPROPERTY)]"

definition visitor_10 :: "visitor_method list" where
  "visitor_10 = [
     VisitMethod (LabelContext L_OBJECTPROPERTYEX),
     VisitMethod (LabelContext L_ORIGINAL_DB_NAME), VisitMethod (LabelContext L_PARSENAME),
     VisitMethod (LabelContext L_SCHEMA_ID), VisitMethod (LabelContext L_SCHEMA_NAME),
     VisitMethod (LabelContext L_SCOPE_IDENTITY), VisitMethod (LabelContext L_SERVERPROPERTY),
     VisitMethod (LabelContext L_STATS_DATE), VisitMethod (LabelContext L_TYPE_ID),
     VisitMethod (LabelContext L_TYPE_NAME), VisitMethod (LabelContext L_TYPEPROPERTY),
     VisitMethod (LabelContext L_ASCII), VisitMethod (LabelContext L_CHAR),
     VisitMethod (LabelContext L_CHARINDEX), VisitMethod (LabelContext L_CONCAT),
     VisitMethod (LabelContext L_CONCAT_WS), VisitMethod (LabelContext L_DIFFERENCE),
     VisitMethod (LabelContext L_FORMAT), VisitMethod (LabelContext L_LEFT),
     VisitMethod (LabelContext L_LEN), VisitMethod (LabelContext L_LOWER),
     VisitMethod (LabelContext L_LTRIM), VisitMethod (LabelContext L_NCHAR),
     VisitMethod (LabelContext L_PATINDEX), VisitMethod (LabelContext L_QUOTENAME),
     VisitMethod (LabelContext L_REPLACE), VisitMethod (LabelContext L_REPLICATE),
     VisitMethod (LabelContext L_REVERSE), VisitMethod (LabelContext L_RIGHT),
     VisitMethod (LabelContext L_RTRIM), VisitMethod (LabelContext L_SOUNDEX),
     VisitMethod (LabelContext L_SPACE), VisitMethod (LabelContext L_STR),
     VisitMethod (LabelContext L_STRINGAGG), VisitMethod (LabelContext L_STRING_ESCAPE),
     VisitMethod (LabelContext L_STUFF), VisitMethod (LabelContext L_SUBSTRING),
     VisitMethod (LabelContext L_TRANSLATE), VisitMethod (LabelContext L_TRIM),
     VisitMethod (LabelContext L_UNICODE), VisitMethod (LabelContext L_UPPER),
     VisitMethod (LabelContext L_BINARY_CHECKSUM), VisitMethod (LabelContext L_CHECKSUM),
     VisitMethod (LabelContext L_COMPRESS), VisitMethod (LabelContext L_CONNECTIONPROPERTY),
     VisitMethod (LabelContext L_CONTEXT_INFO),
     VisitMethod (LabelContext L_CURRENT_REQUEST_ID),
     VisitMethod (LabelContext L_CURRENT_TRANSACTION_ID),
     VisitMethod (LabelContext L_DECOMPRESS), VisitMethod (LabelContext L_ERROR_LINE),
     VisitMethod (LabelContext L_ERROR_MESSAGE), VisitMethod (LabelContext L_ERROR_NUMBER),
     VisitMethod (LabelContext L_ERROR_PROCEDURE), VisitMethod (LabelContext L_ERROR_SEVERITY),
     VisitMethod (LabelContext L_ERROR_STATE), VisitMethod (LabelContext L_FORMATMESSAGE),
     VisitMethod (LabelContext L_GET_FILESTREAM_TRANSACTION_CONTEXT),
     VisitMethod (LabelContext L_GETANSINULL), VisitMethod (LabelContext L_HOST_ID),
     VisitMethod (LabelContext L_HOST_NAME), VisitMethod (LabelContext L_ISNULL),
     VisitMethod (LabelContext L_ISNUMERIC),
     VisitMethod (LabelContext L_MIN_ACTIVE_ROWVERSION), VisitMethod (LabelContext L_NEWID),
     VisitMethod (LabelContext L_NEWSEQUENTIALID), VisitMethod (LabelContext L_ROWCOUNT_BIG),
     VisitMethod (LabelContext L_SESSION_CONTEXT), VisitMethod (LabelContext L_XACT_STATE),
     VisitMethod (LabelContext L_CAST), VisitMethod (LabelContext L_TRY_CAST),
     VisitMethod (LabelContext L_CONVERT), VisitMethod (LabelContext L_COALESCE),
     VisitMethod (LabelContext L_CURSOR_ROWS), VisitMethod (LabelContext L_FETCH_STATUS)]"

definition visitor_11 :: "visitor_method list" where
  "visitor_11 = [
     VisitMethod (LabelContext L_CURSOR_STATUS), VisitMethod (LabelContext L_CERT_ID),
     VisitMethod (LabelContext L_DATALENGTH), VisitMethod (LabelContext L_IDENT_CURRENT),
     VisitMethod (LabelContext L_IDENT_INCR), VisitMethod (LabelContext L_IDENT_SEED),
     VisitMethod (LabelContext L_IDENTITY), VisitMethod (LabelContext L_SQL_VARIANT_PROPERTY),
     VisitMethod (LabelContext L_CURRENT_DATE), VisitMethod (LabelContext L_CURRENT_TIMESTAMP),
     VisitMethod (LabelContext L_CURRENT_TIMEZONE),
     VisitMethod (LabelContext L_CURRENT_TIMEZONE_ID),
     VisitMethod (LabelContext L_DATE_BUCKET), VisitMethod (LabelContext L_DATEADD),
     VisitMethod (LabelContext L_DATEDIFF), VisitMethod (LabelContext L_DATEDIFF_BIG),
     VisitMethod (LabelContext L_DATEFROMPARTS), VisitMethod (LabelContext L_DATENAME),
     VisitMethod (LabelContext L_DATEPART), VisitMethod (LabelContext L_DATETIME2FROMPARTS),
     VisitMethod (LabelContext L_DATETIMEFROMPARTS),
     VisitMethod (LabelContext L_DATETIMEOFFSETFROMPARTS),
     VisitMethod (LabelContext L_DATETRUNC), VisitMethod (LabelContext L_DAY),
     VisitMethod (LabelContext L_EOMONTH), VisitMethod (LabelContext L_GETDATE),
     VisitMethod (LabelContext L_GETUTCDATE), VisitMethod (LabelContext L_ISDATE),
     VisitMethod (LabelContext L_MONTH), VisitMethod (LabelContext L_SMALLDATETIMEFROMPARTS),
     VisitMethod (LabelContext L_SWITCHOFFSET), VisitMethod (LabelContext L_SYSDATETIME),
     VisitMethod (LabelContext L_SYSDATETIMEOFFSET),
     VisitMethod (LabelContext L_SYSUTCDATETIME), VisitMethod (LabelContext L_TIMEFROMPARTS),
     VisitMethod (LabelContext L_TODATETIMEOFFSET), VisitMethod (LabelContext L_YEAR),
     VisitMethod (LabelContext L_NULLIF), VisitMethod (LabelContext L_PARSE),
     VisitMethod (LabelContext L_XML_DATA_TYPE_FUNC), VisitMethod (LabelContext L_IIF),
     VisitMethod (LabelContext L_ISJSON), VisitMethod (LabelContext L_JSON_OBJECT),
     VisitMethod (LabelContext L_JSON_ARRAY), VisitMethod (LabelContext L_JSON_VALUE),
     VisitMethod (LabelContext L_JSON_QUERY), VisitMethod (LabelContext L_JSON_MODIFY),
     VisitMethod (LabelContext L_JSON_PATH_EXISTS), VisitMethod (LabelContext L_ABS),
     VisitMethod (LabelContext L_ACOS), VisitMethod (LabelContext L_ASIN),
     VisitMethod (LabelContext L_ATAN), VisitMethod (LabelContext L_ATN2),
     VisitMethod (LabelContext L_CEILING), VisitMethod (LabelContext L_COS),
     VisitMethod (LabelContext L_COT), VisitMethod (LabelContext L_DEGREES),
     VisitMethod (LabelContext L_EXP), VisitMethod (LabelContext L_FLOOR),
     VisitMethod (LabelContext L_LOG), VisitMethod (LabelContext L_LOG10),
     VisitMethod (LabelContext L_PI), VisitMethod (LabelContext L_POWER),
     VisitMethod (LabelContext L_RADIANS), VisitMethod (LabelContext L_RAND),
     VisitMethod (LabelContext L_ROUND), VisitMethod (LabelContext L_MATH_SIGN),
     VisitMethod (LabelContext L_SIN), VisitMethod (LabelContext L_SQRT),
     VisitMethod (LabelContext L_SQUARE), VisitMethod (LabelContext L_TAN),
     VisitMethod (LabelContext L_GREATEST), VisitMethod (LabelContext L_LEAST),
     VisitMethod (LabelContext L_CERTENCODED)]"

definition visitor_12 :: "visitor_method list" where
  "visitor_12 = [
     VisitMethod (LabelContext L_CERTPRIVATEKEY), VisitMethod (LabelContext L_CURRENT_USER),
     VisitMethod (LabelContext L_DATABASE_PRINCIPAL_ID),
     VisitMethod (LabelContext L_HAS_DBACCESS), VisitMethod (LabelContext L_HAS_PERMS_BY_NAME),
     VisitMethod (LabelContext L_IS_MEMBER), VisitMethod (LabelContext L_IS_ROLEMEMBER),
     VisitMethod (LabelContext L_IS_SRVROLEMEMBER), VisitMethod (LabelContext L_LOGINPROPERTY),
     VisitMethod (LabelContext L_ORIGINAL_LOGIN), VisitMethod (LabelContext L_PERMISSIONS),
     VisitMethod (LabelContext L_PWDENCRYPT), VisitMethod (LabelContext L_PWDCOMPARE),
     VisitMethod (LabelContext L_SESSION_USER), VisitMethod (LabelContext L_SESSIONPROPERTY),
     VisitMethod (LabelContext L_SUSER_ID), VisitMethod (LabelContext L_SUSER_SNAME),
     VisitMethod (LabelContext L_SUSER_SID), VisitMethod (LabelContext L_SYSTEM_USER),
     VisitMethod (LabelContext L_USER), VisitMethod (LabelContext L_USER_ID),
     VisitMethod (LabelContext L_USER_NAME)]"

definition visitor_13 :: "visitor_method list" where
  "visitor_13 = [
     VisitMethod (RuleContext RuleXml_data_type_methods),
     VisitMethod (RuleContext RuleDateparts_9), VisitMethod (RuleContext RuleDateparts_12),
     VisitMethod (RuleContext RuleDateparts_15),
     VisitMethod (RuleContext RuleDateparts_datetrunc),
     VisitMethod (RuleContext RuleValue_method), VisitMethod (RuleContext RuleValue_call),
     VisitMethod (RuleContext RuleQuery_method), VisitMethod (RuleContext RuleQuery_call),
     VisitMethod (RuleContext RuleExist_method), VisitMethod (RuleContext RuleExist_call),
     VisitMethod (RuleContext RuleModify_method), VisitMethod (RuleContext RuleModify_call),
     VisitMethod (RuleContext RuleHierarchyid_call),
     VisitMethod (RuleContext RuleHierarchyid_static_method),
     VisitMethod (RuleContext RuleNodes_method), VisitMethod (RuleContext RuleSwitch_section),
     VisitMethod (RuleContext RuleSwitch_search_condition_section),
     VisitMethod (RuleContext RuleAs_column_alias),
     VisitMethod (RuleContext RuleAs_table_alias), VisitMethod (RuleContext RuleTable_alias),
     VisitMethod (RuleContext RuleWith_table_hints),
     VisitMethod (RuleContext RuleDeprecated_table_hint),
     VisitMethod (RuleContext RuleSybase_legacy_hints),
     VisitMethod (RuleContext RuleSybase_legacy_hint),
     VisitMethod (RuleContext RuleTable_hint), VisitMethod (RuleContext RuleIndex_value),
     VisitMethod (RuleContext RuleColumn_alias_list),
     VisitMethod (RuleContext RuleColumn_alias),
     VisitMethod (RuleContext RuleTable_value_constructor),
     VisitMethod (RuleContext RuleExpression_list'),
     VisitMethod (RuleContext RuleRanking_windowed_function),
     VisitMethod (RuleContext RuleAggregate_windowed_function),
     VisitMethod (RuleContext RuleAnalytic_windowed_function),
     VisitMethod (RuleContext RuleAll_distinct_expression),
     VisitMethod (RuleContext RuleOver_clause),
     VisitMethod (RuleContext RuleRow_or_range_clause),
     VisitMethod (RuleContext RuleWindow_frame_extent),
     VisitMethod (RuleContext RuleWindow_frame_bound),
     VisitMethod (RuleContext RuleWindow_frame_preceding),
     VisitMethod (RuleContext RuleWindow_frame_following),
     VisitMethod (RuleContext RuleCreate_database_option),
     VisitMethod (RuleContext RuleDatabase_filestream_option),
     VisitMethod (RuleContext RuleDatabase_file_spec),
     VisitMethod (RuleContext RuleFile_group), VisitMethod (RuleContext RuleFile_spec),
     VisitMethod (RuleContext RuleEntity_name),
     VisitMethod (RuleContext RuleEntity_name_for_azure_dw),
     VisitMethod (RuleContext RuleEntity_name_for_parallel_dw),
     VisitMethod (RuleContext RuleFull_table_name), VisitMethod (RuleContext RuleTable_name),
     VisitMethod (RuleContext RuleSimple_name),
     VisitMethod (RuleContext RuleFunc_proc_name_schema),
     VisitMethod (RuleContext RuleFunc_proc_name_database_schema),
     VisitMethod (RuleContext RuleFunc_proc_name_server_database_schema),
     VisitMethod (RuleContext RuleDdl_object), VisitMethod (RuleContext RuleFull_column_name),
     VisitMethod (RuleContext RuleColumn_name_list_with_order),
     VisitMethod (RuleContext RuleInsert_column_name_list),
     VisitMethod (RuleContext RuleInsert_column_id),
     VisitMethod (RuleContext RuleColumn_name_list), VisitMethod (RuleContext RuleCursor_name),
     VisitMethod (RuleContext RuleOn_off), VisitMethod (RuleContext RuleClustered),
     VisitMethod (RuleContext RuleNull_notnull),
     VisitMethod (RuleContext RuleScalar_function_name),
     VisitMethod (RuleContext RuleBegin_conversation_timer),
     VisitMethod (RuleContext RuleBegin_conversation_dialog),
     VisitMethod (RuleContext RuleContract_name), VisitMethod (RuleContext RuleService_name),
     VisitMethod (RuleContext RuleEnd_conversation),
     VisitMethod (RuleContext RuleWaitfor_conversation),
     VisitMethod (RuleContext RuleGet_conversation), VisitMethod (RuleContext RuleQueue_id)]"

definition visitor_14 :: "visitor_method list" where
  "visitor_14 = [
     VisitMethod (RuleContext RuleSend_conversation), VisitMethod (RuleContext RuleData_type),
     VisitMethod (RuleContext RuleConstant), VisitMethod (RuleContext RulePrimitive_constant),
     VisitMethod (RuleContext RuleKeyword), VisitMethod (RuleContext RuleId'),
     VisitMethod (RuleContext RuleSimple_id), VisitMethod (RuleContext RuleId_or_string),
     VisitMethod (RuleContext RuleComparison_operator),
     VisitMethod (RuleContext RuleAssignment_operator), VisitMethod (RuleContext RuleFile_size)]"

end
