(* ===== verification/Base_Visitor_Table.thy ===== *)
theory Base_Visitor_Table
  imports Listeners
begin

text \<open>
  The methods of \<open>port/cpp/TSqlParserBaseVisitor.h\<close> with their bodies.
\<close>

definition base_visitor_1 :: "(visitor_method \<times> visitor_body) list" where
  "base_visitor_1 = [
     (VisitMethod (RuleContext RuleTsql_file), VisitChildren),
     (VisitMethod (RuleContext RuleBatch), VisitChildren),
     (VisitMethod (RuleContext RuleBatch_level_statement), VisitChildren),
     (VisitMethod (RuleContext RuleSql_clauses), VisitChildren),
     (VisitMethod (RuleContext RuleDml_clause), VisitChildren),
     (VisitMethod (RuleContext RuleDdl_clause), VisitChildren),
     (VisitMethod (RuleContext RuleBackup_statement), VisitChildren),
     (VisitMethod (RuleContext RuleCfl_statement), VisitChildren),
     (VisitMethod (RuleContext RuleBlock_statement), VisitChildren),
     (VisitMethod (RuleContext RuleBreak_statement), VisitChildren),
     (VisitMethod (RuleContext RuleContinue_statement), VisitChildren),
     (VisitMethod (RuleContext RuleGoto_statement), VisitChildren),
     (VisitMethod (RuleContext RuleReturn_statement), VisitChildren),
     (VisitMethod (RuleContext RuleIf_statement), VisitChildren),
     (VisitMethod (RuleContext RuleThrow_statement), VisitChildren),
     (VisitMethod (RuleContext RuleThrow_error_number), VisitChildren),
     (VisitMethod (RuleContext RuleThrow_message), VisitChildren),
     (VisitMethod (RuleContext RuleThrow_state), VisitChildren),
     (VisitMethod (RuleContext RuleTry_catch_statement), VisitChildren),
     (VisitMethod (RuleContext RuleWaitfor_statement), VisitChildren),
     (VisitMethod (RuleContext RuleWhile_statement), VisitChildren),
     (VisitMethod (RuleContext RulePrint_statement), VisitChildren),
     (VisitMethod (RuleContext RuleRaiseerror_statement), VisitChildren),
     (VisitMethod (RuleContext RuleEmpty_statement), VisitChildren),
     (VisitMethod (RuleContext RuleAnother_statement), VisitChildren),
     (VisitMethod (RuleContext RuleAlter_application_role), VisitChildren),
     (VisitMethod (RuleContext RuleAlter_xml_schema_collection), VisitChildren),
     (VisitMethod (RuleContext RuleCreate_application_role), VisitChildren),
     (VisitMethod (RuleContext RuleDrop_aggregate), VisitChildren),
     (VisitMethod (RuleContext RuleDrop_application_role), VisitChildren),
     (VisitMethod (RuleContext RuleAlter_assembly), VisitChildren),
     (VisitMethod (RuleContext RuleAlter_assembly_start), VisitChildren),
     (VisitMethod (RuleContext RuleAlter_assembly_clause), VisitChildren),
     (VisitMethod (RuleContext RuleAlter_assembly_from_clause), VisitChildren),
     (VisitMethod (RuleContext RuleAlter_assembly_from_clause_start), VisitChildren),
     (VisitMethod (RuleContext RuleAlter_assembly_drop_clause), VisitChildren),
     (VisitMethod (RuleContext RuleAlter_assembly_drop_multiple_files), VisitChildren)]"

definition base_visitor_2 :: "(visitor_method \<times> visitor_body) list" where
  "base_visitor_2 = [
     (VisitMethod (RuleContext RuleAlter_assembly_drop), VisitChildren),
     (VisitMethod (RuleContext RuleAlter_assembly_add_clause), VisitChildren),
     (VisitMethod (RuleContext RuleAlter_asssembly_add_clause_start), VisitChildren),
     (VisitMethod (RuleContext RuleAlter_assembly_client_file_clause), VisitChildren),
     (VisitMethod (RuleContext RuleAlter_assembly_file_name), VisitChildren),
     (VisitMethod (RuleContext RuleAlter_assembly_file_bits), VisitChildren),
     (VisitMethod (RuleContext RuleAlter_assembly_as), VisitChildren),
     (VisitMethod (RuleContext RuleAlter_assembly_with_clause), VisitChildren),
     (VisitMethod (RuleContext RuleAlter_assembly_with), VisitChildren),
     (VisitMethod (RuleContext RuleClient_assembly_specifier), VisitChildren),
     (VisitMethod (RuleContext RuleAssembly_option), VisitChildren),
     (VisitMethod (RuleContext RuleNetwork_file_share), VisitChildren),
     (VisitMethod (RuleContext RuleNetwork_computer), VisitChildren),
     (VisitMethod (RuleContext RuleNetwork_file_start), VisitChildren),
     (VisitMethod (RuleContext RuleFile_path), VisitChildren),
     (VisitMethod (RuleContext RuleFile_directory_path_separator), VisitChildren),
     (VisitMethod (RuleContext RuleLocal_file), VisitChildren),
     (VisitMethod (RuleContext RuleLocal_drive), VisitChildren),
     (VisitMethod (RuleContext RuleMultiple_local_files), VisitChildren),
     (VisitMethod (RuleContext RuleMultiple_local_file_start), VisitChildren),
     (VisitMethod (RuleContext RuleCreate_assembly), VisitChildren),
     (VisitMethod (RuleContext RuleDrop_assembly), VisitChildren),
     (VisitMethod (RuleContext RuleAlter_asymmetric_key), VisitChildren),
     (VisitMethod (RuleContext RuleAlter_asymmetric_key_start), VisitChildren),
     (VisitMethod (RuleContext RuleAsymmetric_key_option), VisitChildren),
     (VisitMethod (RuleContext RuleAsymmetric_key_option_start), VisitChildren),
     (VisitMethod (RuleContext RuleAsymmetric_key_password_change_option), VisitChildren),
     (VisitMethod (RuleContext RuleCreate_asymmetric_key), VisitChildren),
     (VisitMethod (RuleContext RuleDrop_asymmetric_key), VisitChildren),
     (VisitMethod (RuleContext RuleAlter_authorization), VisitChildren),
     (VisitMethod (RuleContext RuleAuthorization_grantee), VisitChildren),
     (VisitMethod (RuleContext RuleEntity_to), VisitChildren),
     (VisitMethod (RuleContext RuleColon_colon), VisitChildren),
     (VisitMethod (RuleContext RuleAlter_authorization_start), VisitChildren),
     (VisitMethod (RuleContext RuleAlter_authorization_for_sql_database), VisitChildren),
     (VisitMethod (RuleContext RuleAlter_authorization_for_azure_dw), VisitChildren),
     (VisitMethod (RuleContext RuleAlter_authorization_for_parallel_dw), VisitChildren)]"

definition base_visitor_3 :: "(visitor_method \<times> visitor_body) list" where
  "base_visitor_3 = [
     (VisitMethod (RuleContext RuleClass_type), VisitChildren),
     (VisitMethod (RuleContext RuleClass_type_for_sql_database), VisitChildren),
     (VisitMethod (RuleContext RuleClass_type_for_azure_dw), VisitChildren),
     (VisitMethod (RuleContext RuleClass_type_for_parallel_dw), VisitChildren),
     (VisitMethod (RuleContext RuleClass_type_for_grant), VisitChildren),
     (VisitMethod (RuleContext RuleDrop_availability_group), VisitChildren),
     (VisitMethod (RuleContext RuleAlter_availability_group), VisitChildren),
     (VisitMethod (RuleContext RuleAlter_availability_group_start), VisitChildren),
     (VisitMethod (RuleContext RuleAlter_availability_group_options), VisitChildren),
     (VisitMethod (RuleContext RuleIp_v4_failover), VisitChildren),
     (VisitMethod (RuleContext RuleIp_v6_failover), VisitChildren),
     (VisitMethod (RuleContext RuleCreate_or_alter_broker_priority), VisitChildren),
     (VisitMethod (RuleContext RuleDrop_broker_priority), VisitChildren),
     (VisitMethod (RuleContext RuleAlter_certificate), VisitChildren),
     (VisitMethod (RuleContext RuleAlter_column_encryption_key), VisitChildren),
     (VisitMethod (RuleContext RuleCreate_column_encryption_key), VisitChildren),
     (VisitMethod (RuleContext RuleDrop_certificate), VisitChildren),
     (VisitMethod (RuleContext RuleDrop_column_encryption_key), VisitChildren),
     (VisitMethod (RuleContext RuleDrop_column_master_key), VisitChildren),
     (VisitMethod (RuleContext RuleDrop_contract), VisitChildren),
     (VisitMethod (RuleContext RuleDrop_credential), VisitChildren),
     (VisitMethod (RuleContext RuleDrop_cryptograhic_provider), VisitChildren),
     (VisitMethod (RuleContext RuleDrop_database), VisitChildren),
     (VisitMethod (RuleContext RuleDrop_database_audit_specification), VisitChildren),
     (VisitMethod (RuleContext RuleDrop_database_encryption_key), VisitChildren),
     (VisitMethod (RuleContext RuleDrop_database_scoped_credential), VisitChildren),
     (VisitMethod (RuleContext RuleDrop_default), VisitChildren),
     (VisitMethod (RuleContext RuleDrop_endpoint), VisitChildren),
     (VisitMethod (RuleContext RuleDrop_external_data_source), VisitChildren),
     (VisitMethod (RuleContext RuleDrop_external_file_format), VisitChildren),
     (VisitMethod (RuleContext RuleDrop_external_library), VisitChildren),
     (VisitMethod (RuleContext RuleDrop_external_resource_pool), VisitChildren),
     (VisitMethod (RuleContext RuleDrop_external_table), VisitChildren),
     (VisitMethod (RuleContext RuleDrop_event_notifications), VisitChildren),
     (VisitMethod (RuleContext RuleDrop_event_session), VisitChildren),
     (VisitMethod (RuleContext RuleDrop_fulltext_catalog), VisitChildren),
     (VisitMethod (RuleContext RuleDrop_fulltext_index), VisitChildren)]"

definition base_visitor_4 :: "(visitor_method \<times> visitor_body) list" where
  "base_visitor_4 = [
     (VisitMethod (RuleContext RuleDrop_fulltext_stoplist), VisitChildren),
     (VisitMethod (RuleContext RuleDrop_login), VisitChildren),
     (VisitMethod (RuleContext RuleDrop_master_key), VisitChildren),
     (VisitMethod (RuleContext RuleDrop_message_type), VisitChildren),
     (VisitMethod (RuleContext RuleDrop_partition_function), VisitChildren),
     (VisitMethod (RuleContext RuleDrop_partition_scheme), VisitChildren),
     (VisitMethod (RuleContext RuleDrop_queue), VisitChildren),
     (VisitMethod (RuleContext RuleDrop_remote_service_binding), VisitChildren),
     (VisitMethod (RuleContext RuleDrop_resource_pool), VisitChildren),
     (VisitMethod (RuleContext RuleDrop_db_role), VisitChildren),
     (VisitMethod (RuleContext RuleDrop_route), VisitChildren),
     (VisitMethod (RuleContext RuleDrop_rule), VisitChildren),
     (VisitMethod (RuleContext RuleDrop_schema), VisitChildren),
     (VisitMethod (RuleContext RuleDrop_search_property_list), VisitChildren),
     (VisitMethod (RuleContext RuleDrop_security_policy), VisitChildren),
     (VisitMethod (RuleContext RuleDrop_sequence), VisitChildren),
     (VisitMethod (RuleContext RuleDrop_server_audit), VisitChildren),
     (VisitMethod (RuleContext RuleDrop_server_audit_specification), VisitChildren),
     (VisitMethod (RuleContext RuleDrop_server_role), VisitChildren),
     (VisitMethod (RuleContext RuleDrop_service), VisitChildren),
     (VisitMethod (RuleContext RuleDrop_signature), VisitChildren),
     (VisitMethod (RuleContext RuleDrop_statistics_name_azure_dw_and_pdw), VisitChildren),
     (VisitMethod (RuleContext RuleDrop_symmetric_key), VisitChildren),
     (VisitMethod (RuleContext RuleDrop_synonym), VisitChildren),
     (VisitMethod (RuleContext RuleDrop_user), VisitChildren),
     (VisitMethod (RuleContext RuleDrop_workload_group), VisitChildren),
     (VisitMethod (RuleContext RuleDrop_xml_schema_collection), VisitChildren),
     (VisitMethod (RuleContext RuleDisable_trigger), VisitChildren),
     (VisitMethod (RuleContext RuleEnable_trigger), VisitChildren),
     (VisitMethod (RuleContext RuleLock_table), VisitChildren)]"

definition base_visitor_5 :: "(visitor_method \<times> visitor_body) list" where
  "base_visitor_5 = [
     (VisitMethod (RuleContext RuleTruncate_table), VisitChildren),
     (VisitMethod (RuleContext RuleCreate_column_master_key), VisitChildren),
     (VisitMethod (RuleContext RuleAlter_credential), VisitChildren),
     (VisitMethod (RuleContext RuleCreate_credential), VisitChildren),
     (VisitMethod (RuleContext RuleAlter_cryptographic_provider), VisitChildren),
     (VisitMethod (RuleContext RuleCreate_cryptographic_provider), VisitChildren),
     (VisitMethod (RuleContext RuleCreate_endpoint), VisitChildren),
     (VisitMethod (RuleContext RuleEndpoint_encryption_alogorithm_clause), VisitChildren),
     (VisitMethod (RuleContext RuleEndpoint_authentication_clause), VisitChildren),
     (VisitMethod (RuleContext RuleEndpoint_listener_clause), VisitChildren),
     (VisitMethod (RuleContext RuleCreate_event_notification), VisitChildren),
     (VisitMethod (RuleContext RuleCreate_or_alter_event_session), VisitChildren),
     (VisitMethod (RuleContext RuleEvent_session_predicate_expression), VisitChildren),
     (VisitMethod (RuleContext RuleEvent_session_predicate_factor), VisitChildren),
     (VisitMethod (RuleContext RuleEvent_session_predicate_leaf), VisitChildren),
     (VisitMethod (RuleContext RuleAlter_external_data_source), VisitChildren),
     (VisitMethod (RuleContext RuleAlter_external_library), VisitChildren),
     (VisitMethod (RuleContext RuleCreate_external_library), VisitChildren),
     (VisitMethod (RuleContext RuleAlter_external_resource_pool), VisitChildren),
     (VisitMethod (RuleContext RuleCreate_external_resource_pool), VisitChildren),
     (VisitMethod (RuleContext RuleAlter_fulltext_catalog), VisitChildren),
     (VisitMethod (RuleContext RuleCreate_fulltext_catalog), VisitChildren),
     (VisitMethod (RuleContext RuleAlter_fulltext_stoplist), VisitChildren),
     (VisitMethod (RuleContext RuleCreate_fulltext_stoplist), VisitChildren),
     (VisitMethod (RuleContext RuleAlter_login_sql_server), VisitChildren),
     (VisitMethod (RuleContext RuleCreate_login_sql_server), VisitChildren),
     (VisitMethod (RuleContext RuleAlter_login_azure_sql), VisitChildren),
     (VisitMethod (RuleContext RuleCreate_login_azure_sql), VisitChildren),
     (VisitMethod (RuleContext RuleAlter_login_azure_sql_dw_and_pdw), VisitChildren),
     (VisitMethod (RuleContext RuleCreate_login_pdw), VisitChildren),
     (VisitMethod (RuleContext RuleAlter_master_key_sql_server), VisitChildren),
     (VisitMethod (RuleContext RuleCreate_master_key_sql_server), VisitChildren),
     (VisitMethod (RuleContext RuleAlter_master_key_azure_sql), VisitChildren),
     (VisitMethod (RuleContext RuleCreate_master_key_azure_sql), VisitChildren),
     (VisitMethod (RuleContext RuleAlter_message_type), VisitChildren),
     (VisitMethod (RuleContext RuleAlter_partition_function), VisitChildren),
     (VisitMethod (RuleContext RuleAlter_partition_scheme), VisitChildren)]"

definition base_visitor_6 :: "(visitor_method \<times> visitor_body) list" where
  "base_visitor_6 = [
     (VisitMethod (RuleContext RuleAlter_remote_service_binding), VisitChildren),
     (VisitMethod (RuleContext RuleCreate_remote_service_binding), VisitChildren),
     (VisitMethod (RuleContext RuleCreate_resource_pool), VisitChildren),
     (VisitMethod (RuleContext RuleAlter_resource_governor), VisitChildren),
     (VisitMethod (RuleContext RuleAlter_database_audit_specification), VisitChildren),
     (VisitMethod (RuleContext RuleAudit_action_spec_group), VisitChildren),
     (VisitMethod (RuleContext RuleAudit_action_specification), VisitChildren),
     (VisitMethod (RuleContext RuleAction_specification), VisitChildren),
     (VisitMethod (RuleContext RuleAudit_class_name), VisitChildren),
     (VisitMethod (RuleContext RuleAudit_securable), VisitChildren),
     (VisitMethod (RuleContext RuleAlter_db_role), VisitChildren),
     (VisitMethod (RuleContext RuleCreate_database_audit_specification), VisitChildren),
     (VisitMethod (RuleContext RuleCreate_db_role), VisitChildren),
     (VisitMethod (RuleContext RuleCreate_route), VisitChildren),
     (VisitMethod (RuleContext RuleCreate_rule), VisitChildren),
     (VisitMethod (RuleContext RuleAlter_schema_sql), VisitChildren),
     (VisitMethod (RuleContext RuleCreate_schema), VisitChildren),
     (VisitMethod (RuleContext RuleCreate_schema_azure_sql_dw_and_pdw), VisitChildren),
     (VisitMethod (RuleContext RuleAlter_schema_azure_sql_dw_and_pdw), VisitChildren),
     (VisitMethod (RuleContext RuleCreate_search_property_list), VisitChildren),
     (VisitMethod (RuleContext RuleCreate_security_policy), VisitChildren),
     (VisitMethod (RuleContext RuleAlter_sequence), VisitChildren),
     (VisitMethod (RuleContext RuleCreate_sequence), VisitChildren),
     (VisitMethod (RuleContext RuleAlter_server_audit), VisitChildren),
     (VisitMethod (RuleContext RuleCreate_server_audit), VisitChildren),
     (VisitMethod (RuleContext RuleAlter_server_audit_specification), VisitChildren),
     (VisitMethod (RuleContext RuleCreate_server_audit_specification), VisitChildren),
     (VisitMethod (RuleContext RuleAlter_server_configuration), VisitChildren),
     (VisitMethod (RuleContext RuleAlter_server_role), VisitChildren),
     (VisitMethod (RuleContext RuleCreate_server_role), VisitChildren),
     (VisitMethod (RuleContext RuleAlter_server_role_pdw), VisitChildren),
     (VisitMethod (RuleContext RuleAlter_service), VisitChildren),
     (VisitMethod (RuleContext RuleOpt_arg_clause), VisitChildren),
     (VisitMethod (RuleContext RuleCreate_service), VisitChildren),
     (VisitMethod (RuleContext RuleAlter_service_master_key), VisitChildren),
     (VisitMethod (RuleContext RuleAlter_symmetric_key), VisitChildren),
     (VisitMethod (RuleContext RuleCreate_synonym), VisitChildren)]"

definition base_visitor_7 :: "(visitor_method \<times> visitor_body) list" where
  "base_visitor_7 = [
     (VisitMethod (RuleContext RuleAlter_user), VisitChildren),
     (VisitMethod (RuleContext RuleCreate_user), VisitChildren),
     (VisitMethod (RuleContext RuleCreate_user_azure_sql_dw), VisitChildren),
     (VisitMethod (RuleContext RuleAlter_user_azure_sql), VisitChildren),
     (VisitMethod (RuleContext RuleAlter_workload_group), VisitChildren),
     (VisitMethod (RuleContext RuleCreate_workload_group), VisitChildren),
     (VisitMethod (RuleContext RuleCreate_xml_schema_collection), VisitChildren),
     (VisitMethod (RuleContext RuleCreate_partition_function), VisitChildren),
     (VisitMethod (RuleContext RuleCreate_partition_scheme), VisitChildren),
     (VisitMethod (RuleContext RuleCreate_queue), VisitChildren),
     (VisitMethod (RuleContext RuleQueue_settings), VisitChildren),
     (VisitMethod (RuleContext RuleAlter_queue), VisitChildren),
     (VisitMethod (RuleContext RuleQueue_action), VisitChildren),
     (VisitMethod (RuleContext RuleQueue_rebuild_options), VisitChildren),
     (VisitMethod (RuleContext RuleCreate_contract), VisitChildren),
     (VisitMethod (RuleContext RuleConversation_statement), VisitChildren),
     (VisitMethod (RuleContext RuleMessage_statement), VisitChildren),
     (VisitMethod (RuleContext RuleMerge_statement), VisitChildren),
     (VisitMethod (RuleContext RuleWhen_matches), VisitChildren),
     (VisitMethod (RuleContext RuleMerge_matched), VisitChildren),
     (VisitMethod (RuleContext RuleMerge_not_matched), VisitChildren),
     (VisitMethod (RuleContext RuleDelete_statement), VisitChildren)]"

definition base_visitor_8 :: "(visitor_method \<times> visitor_body) list" where
  "base_visitor_8 = [
     (VisitMethod (RuleContext RuleDelete_statement_from), VisitChildren),
     (VisitMethod (RuleContext RuleInsert_statement), VisitChildren),
     (VisitMethod (RuleContext RuleInsert_statement_value), VisitChildren),
     (VisitMethod (RuleContext RuleReceive_statement), VisitChildren),
     (VisitMethod (RuleContext RuleSelect_statement_standalone), VisitChildren),
     (VisitMethod (RuleContext RuleSelect_statement), VisitChildren),
     (VisitMethod (RuleContext RuleTime), VisitChildren),
     (VisitMethod (RuleContext RuleUpdate_statement), VisitChildren),
     (VisitMethod (RuleContext RuleOutput_clause), VisitChildren),
     (VisitMethod (RuleContext RuleOutput_dml_list_elem), VisitChildren),
     (VisitMethod (RuleContext RuleCreate_database), VisitChildren),
     (VisitMethod (RuleContext RuleCreate_index), VisitChildren),
     (VisitMethod (RuleContext RuleCreate_index_options), VisitChildren),
     (VisitMethod (RuleContext RuleRelational_index_option), VisitChildren),
     (VisitMethod (RuleContext RuleAlter_index), VisitChildren),
     (VisitMethod (RuleContext RuleResumable_index_options), VisitChildren),
     (VisitMethod (RuleContext RuleResumable_index_option), VisitChildren),
     (VisitMethod (RuleContext RuleReorganize_partition), VisitChildren),
     (VisitMethod (RuleContext RuleReorganize_options), VisitChildren),
     (VisitMethod (RuleContext RuleReorganize_option), VisitChildren),
     (VisitMethod (RuleContext RuleSet_index_options), VisitChildren),
     (VisitMethod (RuleContext RuleSet_index_option), VisitChildren),
     (VisitMethod (RuleContext RuleRebuild_partition), VisitChildren),
     (VisitMethod (RuleContext RuleRebuild_index_options), VisitChildren),
     (VisitMethod (RuleContext RuleRebuild_index_option), VisitChildren),
     (VisitMethod (RuleContext RuleSingle_partition_rebuild_index_options), VisitChildren),
     (VisitMethod (RuleContext RuleSingle_partition_rebuild_index_option), VisitChildren),
     (VisitMethod (RuleContext RuleOn_partitions), VisitChildren),
     (VisitMethod (RuleContext RuleCreate_columnstore_index), VisitChildren),
     (VisitMethod (RuleContext RuleCreate_columnstore_index_options), VisitChildren),
     (VisitMethod (RuleContext RuleColumnstore_index_option), VisitChildren),
     (VisitMethod (RuleContext RuleCreate_nonclustered_columnstore_index), VisitChildren),
     (VisitMethod (RuleContext RuleCreate_xml_index), VisitChildren),
     (VisitMethod (RuleContext RuleXml_index_options), VisitChildren),
     (VisitMethod (RuleContext RuleXml_index_option), VisitChildren),
     (VisitMethod (RuleContext RuleCreate_or_alter_procedure), VisitChildren),
     (VisitMethod (RuleContext RuleAs_external_name), VisitChildren)]"

definition base_visitor_9 :: "(visitor_method \<times> visitor_body) list" where
  "base_visitor_9 = [
     (VisitMethod (RuleContext RuleCreate_or_alter_trigger), VisitChildren),
     (VisitMethod (RuleContext RuleCreate_or_alter_dml_trigger), VisitChildren),
     (VisitMethod (RuleContext RuleDml_trigger_option), VisitChildren),
     (VisitMethod (RuleContext RuleDml_trigger_operation), VisitChildren),
     (VisitMethod (RuleContext RuleCreate_or_alter_ddl_trigger), VisitChildren),
     (VisitMethod (RuleContext RuleDdl_trigger_operation), VisitChildren),
     (VisitMethod (RuleContext RuleCreate_or_alter_function), VisitChildren),
     (VisitMethod (RuleContext RuleFunc_body_returns_select), VisitChildren),
     (VisitMethod (RuleContext RuleFunc_body_returns_table), VisitChildren),
     (VisitMethod (RuleContext RuleFunc_body_returns_scalar), VisitChildren),
     (VisitMethod (RuleContext RuleProcedure_param_default_value), VisitChildren),
     (VisitMethod (RuleContext RuleProcedure_param), VisitChildren),
     (VisitMethod (RuleContext RuleProcedure_option), VisitChildren),
     (VisitMethod (RuleContext RuleFunction_option), VisitChildren),
     (VisitMethod (RuleContext RuleCreate_statistics), VisitChildren),
     (VisitMethod (RuleContext RuleUpdate_statistics), VisitChildren),
     (VisitMethod (RuleContext RuleUpdate_statistics_options), VisitChildren),
     (VisitMethod (RuleContext RuleUpdate_statistics_option), VisitChildren),
     (VisitMethod (RuleContext RuleCreate_table), VisitChildren),
     (VisitMethod (RuleContext RuleTable_indices), VisitChildren),
     (VisitMethod (RuleContext RuleTable_options), VisitChildren),
     (VisitMethod (RuleContext RuleTable_option), VisitChildren),
     (VisitMethod (RuleContext RuleCreate_table_index_options), VisitChildren),
     (VisitMethod (RuleContext RuleCreate_table_index_option), VisitChildren),
     (VisitMethod (RuleContext RuleCreate_view), VisitChildren),
     (VisitMethod (RuleContext RuleView_attribute), VisitChildren),
     (VisitMethod (RuleContext RuleAlter_table), VisitChildren),
     (VisitMethod (RuleContext RuleSwitch_partition), VisitChildren),
     (VisitMethod (RuleContext RuleLow_priority_lock_wait), VisitChildren),
     (VisitMethod (RuleContext RuleAlter_database), VisitChildren),
     (VisitMethod (RuleContext RuleAdd_or_modify_files), VisitChildren),
     (VisitMethod (RuleContext RuleFilespec), VisitChildren),
     (VisitMethod (RuleContext RuleAdd_or_modify_filegroups), VisitChildren),
     (VisitMethod (RuleContext RuleFilegroup_updatability_option), VisitChildren),
     (VisitMethod (RuleContext RuleDatabase_optionspec), VisitChildren),
     (VisitMethod (RuleContext RuleAuto_option), VisitChildren),
     (VisitMethod (RuleContext RuleChange_tracking_option), VisitChildren)]"

definition base_visitor_10 :: "(visitor_method \<times> visitor_body) list" where
  "base_visitor_10 = [
     (VisitMethod (RuleContext RuleChange_tracking_option_list), VisitChildren),
     (VisitMethod (RuleContext RuleContainment_option), VisitChildren),
     (VisitMethod (RuleContext RuleCursor_option), VisitChildren),
     (VisitMethod (RuleContext RuleAlter_endpoint), VisitChildren),
     (VisitMethod (RuleContext RuleDatabase_mirroring_option), VisitChildren),
     (VisitMethod (RuleContext RuleMirroring_set_option), VisitChildren),
     (VisitMethod (RuleContext RuleMirroring_partner), VisitChildren),
     (VisitMethod (RuleContext RuleMirroring_witness), VisitChildren),
     (VisitMethod (RuleContext RuleWitness_partner_equal), VisitChildren),
     (VisitMethod (RuleContext RulePartner_option), VisitChildren),
     (VisitMethod (RuleContext RuleWitness_option), VisitChildren),
     (VisitMethod (RuleContext RuleWitness_server), VisitChildren),
     (VisitMethod (RuleContext RulePartner_server), VisitChildren),
     (VisitMethod (RuleContext RuleMirroring_host_port_seperator), VisitChildren),
     (VisitMethod (RuleContext RulePartner_server_tcp_prefix), VisitChildren),
     (VisitMethod (RuleContext RulePort_number), VisitChildren),
     (VisitMethod (RuleContext RuleHost), VisitChildren),
     (VisitMethod (RuleContext RuleDate_correlation_optimization_option), VisitChildren),
     (VisitMethod (RuleContext RuleDb_encryption_option), VisitChildren),
     (VisitMethod (RuleContext RuleDb_state_option), VisitChildren),
     (VisitMethod (RuleContext RuleDb_update_option), VisitChildren),
     (VisitMethod (RuleContext RuleDb_user_access_option), VisitChildren),
     (VisitMethod (RuleContext RuleDelayed_durability_option), VisitChildren),
     (VisitMethod (RuleContext RuleExternal_access_option), VisitChildren),
     (VisitMethod (RuleContext RuleHadr_options), VisitChildren),
     (VisitMethod (RuleContext RuleMixed_page_allocation_option), VisitChildren),
     (VisitMethod (RuleContext RuleParameterization_option), VisitChildren),
     (VisitMethod (RuleContext RuleRecovery_option), VisitChildren),
     (VisitMethod (RuleContext RuleService_broker_option), VisitChildren),
     (VisitMethod (RuleContext RuleSnapshot_option), VisitChildren),
     (VisitMethod (RuleContext RuleSql_option), VisitChildren),
     (VisitMethod (RuleContext RuleTarget_recovery_time_option), VisitChildren),
     (VisitMethod (RuleContext RuleTermination), VisitChildren),
     (VisitMethod (RuleContext RuleDrop_index), VisitChildren),
     (VisitMethod (RuleContext RuleDrop_relational_or_xml_or_spatial_index), VisitChildren),
     (VisitMethod (RuleContext RuleDrop_backward_compatible_index), VisitChildren),
     (VisitMethod (RuleContext RuleDrop_procedure), VisitChildren)]"

definition base_visitor_11 :: "(visitor_method \<times> visitor_body) list" where
  "base_visitor_11 = [
     (VisitMethod (RuleContext RuleDrop_trigger), VisitChildren),
     (VisitMethod (RuleContext RuleDrop_dml_trigger), VisitChildren),
     (VisitMethod (RuleContext RuleDrop_ddl_trigger), VisitChildren),
     (VisitMethod (RuleContext RuleDrop_function), VisitChildren),
     (VisitMethod (RuleContext RuleDrop_statistics), VisitChildren),
     (VisitMethod (RuleContext RuleDrop_table), VisitChildren),
     (VisitMethod (RuleContext RuleDrop_view), VisitChildren),
     (VisitMethod (RuleContext RuleCreate_type), VisitChildren),
     (VisitMethod (RuleContext RuleDrop_type), VisitChildren),
     (VisitMethod (RuleContext RuleRowset_function_limited), VisitChildren),
     (VisitMethod (RuleContext RuleOpenquery), VisitChildren),
     (VisitMethod (RuleContext RuleOpendatasource), VisitChildren),
     (VisitMethod (RuleContext RuleDeclare_statement), VisitChildren),
     (VisitMethod (RuleContext RuleXml_declaration), VisitChildren),
     (VisitMethod (RuleContext RuleCursor_statement), VisitChildren),
     (VisitMethod (RuleContext RuleBackup_database), VisitChildren),
     (VisitMethod (RuleContext RuleBackup_log), VisitChildren)]"

definition base_visitor_12 :: "(visitor_method \<times> visitor_body) list" where
  "base_visitor_12 = [
     (VisitMethod (RuleContext RuleBackup_certificate), VisitChildren),
     (VisitMethod (RuleContext RuleBackup_master_key), VisitChildren),
     (VisitMethod (RuleContext RuleBackup_service_master_key), VisitChildren),
     (VisitMethod (RuleContext RuleKill_statement), VisitChildren),
     (VisitMethod (RuleContext RuleKill_process), VisitChildren),
     (VisitMethod (RuleContext RuleKill_query_notification), VisitChildren),
     (VisitMethod (RuleContext RuleKill_stats_job), VisitChildren),
     (VisitMethod (RuleContext RuleExecute_statement), VisitChildren),
     (VisitMethod (RuleContext RuleExecute_body_batch), VisitChildren),
     (VisitMethod (RuleContext RuleExecute_body), VisitChildren),
     (VisitMethod (RuleContext RuleExecute_statement_arg), VisitChildren),
     (VisitMethod (RuleContext RuleExecute_statement_arg_named), VisitChildren),
     (VisitMethod (RuleContext RuleExecute_statement_arg_unnamed), VisitChildren),
     (VisitMethod (RuleContext RuleExecute_parameter), VisitChildren),
     (VisitMethod (RuleContext RuleExecute_var_string), VisitChildren),
     (VisitMethod (RuleContext RuleSecurity_statement), VisitChildren),
     (VisitMethod (RuleContext RulePrincipal_id), VisitChildren),
     (VisitMethod (RuleContext RuleCreate_certificate), VisitChildren),
     (VisitMethod (RuleContext RuleExisting_keys), VisitChildren),
     (VisitMethod (RuleContext RulePrivate_key_options), VisitChildren),
     (VisitMethod (RuleContext RuleGenerate_new_keys), VisitChildren),
     (VisitMethod (RuleContext RuleDate_options), VisitChildren),
     (VisitMethod (RuleContext RuleOpen_key), VisitChildren),
     (VisitMethod (RuleContext RuleClose_key), VisitChildren),
     (VisitMethod (RuleContext RuleCreate_key), VisitChildren),
     (VisitMethod (RuleContext RuleKey_options), VisitChildren),
     (VisitMethod (RuleContext RuleAlgorithm), VisitChildren),
     (VisitMethod (RuleContext RuleEncryption_mechanism), VisitChildren),
     (VisitMethod (RuleContext RuleDecryption_mechanism), VisitChildren),
     (VisitMethod (RuleContext RuleGrant_permission), VisitChildren),
     (VisitMethod (RuleContext RuleSet_statement), VisitChildren),
     (VisitMethod (RuleContext RuleTransaction_statement), VisitChildren),
     (VisitMethod (RuleContext RuleGo_statement), VisitChildren),
     (VisitMethod (RuleContext RuleUse_statement), VisitChildren),
     (VisitMethod (RuleContext RuleSetuser_statement), VisitChildren),
     (VisitMethod (RuleContext RuleReconfigure_statement), VisitChildren),
     (VisitMethod (RuleContext RuleShutdown_statement), VisitChildren)]"

definition base_visitor_13 :: "(visitor_method \<times> visitor_body) list" where
  "base_visitor_13 = [
     (VisitMethod (RuleContext RuleCheckpoint_statement), VisitChildren),
     (VisitMethod (RuleContext RuleDbcc_checkalloc_option), VisitChildren),
     (VisitMethod (RuleContext RuleDbcc_checkalloc), VisitChildren),
     (VisitMethod (RuleContext RuleDbcc_checkcatalog), VisitChildren),
     (VisitMethod (RuleContext RuleDbcc_checkconstraints_option), VisitChildren),
     (VisitMethod (RuleContext RuleDbcc_checkconstraints), VisitChildren),
     (VisitMethod (RuleContext RuleDbcc_checkdb_table_option), VisitChildren),
     (VisitMethod (RuleContext RuleDbcc_checkdb), VisitChildren),
     (VisitMethod (RuleContext RuleDbcc_checkfilegroup_option), VisitChildren),
     (VisitMethod (RuleContext RuleDbcc_checkfilegroup), VisitChildren),
     (VisitMethod (RuleContext RuleDbcc_checktable), VisitChildren),
     (VisitMethod (RuleContext RuleDbcc_cleantable), VisitChildren),
     (VisitMethod (RuleContext RuleDbcc_clonedatabase_option), VisitChildren),
     (VisitMethod (RuleContext RuleDbcc_clonedatabase), VisitChildren),
     (VisitMethod (RuleContext RuleDbcc_pdw_showspaceused), VisitChildren),
     (VisitMethod (RuleContext RuleDbcc_proccache), VisitChildren),
     (VisitMethod (RuleContext RuleDbcc_showcontig_option), VisitChildren),
     (VisitMethod (RuleContext RuleDbcc_showcontig), VisitChildren),
     (VisitMethod (RuleContext RuleDbcc_shrinklog), VisitChildren),
     (VisitMethod (RuleContext RuleDbcc_dbreindex), VisitChildren),
     (VisitMethod (RuleContext RuleDbcc_dll_free), VisitChildren),
     (VisitMethod (RuleContext RuleDbcc_dropcleanbuffers), VisitChildren),
     (VisitMethod (RuleContext RuleDbcc_clause), VisitChildren),
     (VisitMethod (RuleContext RuleExecute_clause), VisitChildren),
     (VisitMethod (RuleContext RuleDeclare_local), VisitChildren),
     (VisitMethod (RuleContext RuleTable_type_definition), VisitChildren),
     (VisitMethod (RuleContext RuleTable_type_indices), VisitChildren),
     (VisitMethod (RuleContext RuleXml_type_definition), VisitChildren),
     (VisitMethod (RuleContext RuleXml_schema_collection), VisitChildren),
     (VisitMethod (RuleContext RuleColumn_def_table_constraints), VisitChildren),
     (VisitMethod (RuleContext RuleColumn_def_table_constraint), VisitChildren),
     (VisitMethod (RuleContext RuleColumn_definition), VisitChildren),
     (VisitMethod (RuleContext RuleColumn_definition_element), VisitChildren),
     (VisitMethod (RuleContext RuleColumn_modifier), VisitChildren),
     (VisitMethod (RuleContext RuleMaterialized_column_definition), VisitChildren),
     (VisitMethod (RuleContext RuleColumn_constraint), VisitChildren),
     (VisitMethod (RuleContext RuleColumn_index), VisitChildren)]"

definition base_visitor_14 :: "(visitor_method \<times> visitor_body) list" where
  "base_visitor_14 = [
     (VisitMethod (RuleContext RuleOn_partition_or_filegroup), VisitChildren),
     (VisitMethod (RuleContext RuleTable_constraint), VisitChildren),
     (VisitMethod (RuleContext RuleConnection_node), VisitChildren),
     (VisitMethod (RuleContext RulePrimary_key_options), VisitChildren),
     (VisitMethod (RuleContext RuleForeign_key_options), VisitChildren),
     (VisitMethod (RuleContext RuleCheck_constraint), VisitChildren),
     (VisitMethod (RuleContext RuleOn_delete), VisitChildren),
     (VisitMethod (RuleContext RuleOn_update), VisitChildren),
     (VisitMethod (RuleContext RuleAlter_table_index_options), VisitChildren),
     (VisitMethod (RuleContext RuleAlter_table_index_option), VisitChildren),
     (VisitMethod (RuleContext RuleDeclare_cursor), VisitChildren),
     (VisitMethod (RuleContext RuleDeclare_set_cursor_common), VisitChildren),
     (VisitMethod (RuleContext RuleDeclare_set_cursor_common_partial), VisitChildren),
     (VisitMethod (RuleContext RuleFetch_cursor), VisitChildren),
     (VisitMethod (RuleContext RuleSet_special), VisitChildren),
     (VisitMethod (RuleContext RuleSpecial_list), VisitChildren),
     (VisitMethod (RuleContext RuleConstant_LOCAL_ID), VisitChildren),
     (VisitMethod (RuleContext RuleExpression), VisitChildren),
     (VisitMethod (RuleContext RuleParameter), VisitChildren),
     (VisitMethod (RuleContext RuleTime_zone), VisitChildren),
     (VisitMethod (RuleContext RulePrimitive_expression), VisitChildren),
     (VisitMethod (RuleContext RuleCase_expression), VisitChildren),
     (VisitMethod (RuleContext RuleUnary_operator_expression), VisitChildren),
     (VisitMethod (RuleContext RuleBracket_expression), VisitChildren),
     (VisitMethod (RuleContext RuleSubquery), VisitChildren),
     (VisitMethod (RuleContext RuleWith_expression), VisitChildren),
     (VisitMethod (RuleContext RuleCommon_table_expression), VisitChildren),
     (VisitMethod (RuleContext RuleUpdate_elem), VisitChildren),
     (VisitMethod (RuleContext RuleUpdate_elem_merge), VisitChildren),
     (VisitMethod (RuleContext RuleSearch_condition), VisitChildren),
     (VisitMethod (RuleContext RulePredicate), VisitChildren),
     (VisitMethod (RuleContext RuleQuery_expression), VisitChildren),
     (VisitMethod (RuleContext RuleSql_union), VisitChildren),
     (VisitMethod (RuleContext RuleQuery_specification), VisitChildren),
     (VisitMethod (RuleContext RuleGroup_by_clause), VisitChildren),
     (VisitMethod (RuleContext RuleHaving_clause), VisitChildren),
     (VisitMethod (RuleContext RuleFrom_table_sources), VisitChildren)]"

definition base_visitor_15 :: "(visitor_method \<times> visitor_body) list" where
  "base_visitor_15 = [
     (VisitMethod (RuleContext RuleTop_clause), VisitChildren),
     (VisitMethod (RuleContext RuleTop_percent), VisitChildren),
     (VisitMethod (RuleContext RuleTop_count), VisitChildren),
     (VisitMethod (RuleContext RuleOrder_by_clause), VisitChildren),
     (VisitMethod (RuleContext RuleSelect_order_by_clause), VisitChildren),
     (VisitMethod (RuleContext RuleFor_clause), VisitChildren),
     (VisitMethod (RuleContext RuleXml_common_directives), VisitChildren),
     (VisitMethod (RuleContext RuleOrder_by_expression), VisitChildren),
     (VisitMethod (RuleContext RuleGrouping_sets_item), VisitChildren),
     (VisitMethod (RuleContext RuleGroup_by_item), VisitChildren),
     (VisitMethod (RuleContext RuleOption_clause), VisitChildren),
     (VisitMethod (RuleContext RuleOption), VisitChildren)]"

definition base_visitor_16 :: "(visitor_method \<times> visitor_body) list" where
  "base_visitor_16 = [
     (VisitMethod (RuleContext RuleOptimize_for_arg), VisitChildren),
     (VisitMethod (RuleContext RuleSelect_list), VisitChildren),
     (VisitMethod (RuleContext RuleUdt_method_arguments), VisitChildren),
     (VisitMethod (RuleContext RuleAsterisk), VisitChildren),
     (VisitMethod (RuleContext RuleUdt_elem), VisitChildren),
     (VisitMethod (RuleContext RuleExpression_elem), VisitChildren),
     (VisitMethod (RuleContext RuleSelect_list_elem), VisitChildren),
     (VisitMethod (RuleContext RuleTable_sources), VisitChildren),
     (VisitMethod (RuleContext RuleNon_ansi_join), VisitChildren),
     (VisitMethod (RuleContext RuleTable_source), VisitChildren),
     (VisitMethod (RuleContext RuleTable_source_item), VisitChildren),
     (VisitMethod (RuleContext RuleOpen_xml), VisitChildren),
     (VisitMethod (RuleContext RuleOpen_json), VisitChildren),
     (VisitMethod (RuleContext RuleJson_declaration), VisitChildren),
     (VisitMethod (RuleContext RuleJson_column_declaration), VisitChildren),
     (VisitMethod (RuleContext RuleSchema_declaration), VisitChildren),
     (VisitMethod (RuleContext RuleColumn_declaration), VisitChildren),
     (VisitMethod (RuleContext RuleChange_table), VisitChildren),
     (VisitMethod (RuleContext RuleChange_table_changes), VisitChildren),
     (VisitMethod (RuleContext RuleChange_table_version), VisitChildren),
     (VisitMethod (RuleContext RuleJoin_part), VisitChildren),
     (VisitMethod (RuleContext RuleJoin_on), VisitChildren),
     (VisitMethod (RuleContext RuleCross_join), VisitChildren),
     (VisitMethod (RuleContext RuleApply'), VisitChildren),
     (VisitMethod (RuleContext RulePivot), VisitChildren),
     (VisitMethod (RuleContext RuleUnpivot), VisitChildren),
     (VisitMethod (RuleContext RulePivot_clause), VisitChildren),
     (VisitMethod (RuleContext RuleUnpivot_clause), VisitChildren),
     (VisitMethod (RuleContext RuleFull_column_name_list), VisitChildren),
     (VisitMethod (RuleContext RuleRowset_function), VisitChildren),
     (VisitMethod (RuleContext RuleBulk_option), VisitChildren),
     (VisitMethod (RuleContext RuleDerived_table), VisitChildren),
     (VisitMethod (LabelContext L_RANKING_WINDOWED_FUNC), VisitChildren),
     (VisitMethod (LabelContext L_AGGREGATE_WINDOWED_FUNC), VisitChildren),
     (VisitMethod (LabelContext L_ANALYTIC_WINDOWED_FUNC), VisitChildren),
     (VisitMethod (LabelContext L_BUILT_IN_FUNC), VisitChildren),
     (VisitMethod (LabelContext L_SCALAR_FUNCTION), VisitChildren)]"

definition base_visitor_17 :: "(visitor_method \<times> visitor_body) list" where
  "base_visitor_17 = [
     (VisitMethod (LabelContext L_FREE_TEXT), VisitChildren),
     (VisitMethod (LabelContext L_PARTITION_FUNC), VisitChildren),
     (VisitMethod (LabelContext L_HIERARCHYID_METHOD), VisitChildren),
     (VisitMethod (RuleContext RulePartition_function), VisitChildren),
     (VisitMethod (RuleContext RuleFreetext_function), VisitChildren),
     (VisitMethod (RuleContext RuleFreetext_predicate), VisitChildren),
     (VisitMethod (RuleContext RuleJson_key_value), VisitChildren),
     (VisitMethod (RuleContext RuleJson_null_clause), VisitChildren),
     (VisitMethod (LabelContext L_APP_NAME), VisitChildren),
     (VisitMethod (LabelContext L_APPLOCK_MODE), VisitChildren),
     (VisitMethod (LabelContext L_APPLOCK_TEST), VisitChildren),
     (VisitMethod (LabelContext L_ASSEMBLYPROPERTY), VisitChildren),
     (VisitMethod (LabelContext L_COL_LENGTH), VisitChildren),
     (VisitMethod (LabelContext L_COL_NAME), VisitChildren),
     (VisitMethod (LabelContext L_COLUMNPROPERTY), VisitChildren),
     (VisitMethod (LabelContext L_DATABASEPROPERTYEX), VisitChildren),
     (VisitMethod (LabelContext L_DB_ID), VisitChildren),
     (VisitMethod (LabelContext L_DB_NAME), VisitChildren),
     (VisitMethod (LabelContext L_FILE_ID), VisitChildren),
     (VisitMethod (LabelContext L_FILE_IDEX), VisitChildren),
     (VisitMethod (LabelContext L_FILE_NAME), VisitChildren),
     (VisitMethod (LabelContext L_FILEGROUP_ID), VisitChildren),
     (VisitMethod (LabelContext L_FILEGROUP_NAME), VisitChildren),
     (VisitMethod (LabelContext L_FILEGROUPPROPERTY), VisitChildren),
     (VisitMethod (LabelContext L_FILEPROPERTY), VisitChildren),
     (VisitMethod (LabelContext L_FILEPROPERTYEX), VisitChildren),
     (VisitMethod (LabelContext L_FULLTEXTCATALOGPROPERTY), VisitChildren),
     (VisitMethod (LabelContext L_FULLTEXTSERVICEPROPERTY), VisitChildren),
     (VisitMethod (LabelContext L_INDEX_COL), VisitChildren),
     (VisitMethod (LabelContext L_INDEXKEY_PROPERTY), VisitChildren),
     (VisitMethod (LabelContext L_INDEXPROPERTY), VisitChildren),
     (VisitMethod (LabelContext L_NEXT_VALUE_FOR), VisitChildren),
     (VisitMethod (LabelContext L_OBJECT_DEFINITION), VisitChildren),
     (VisitMethod (LabelContext L_OBJECT_ID), VisitChildren),
     (VisitMethod (LabelContext L_OBJECT_NAME), VisitChildren),
     (VisitMethod (LabelContext L_OBJECT_SCHEMA_NAME), VisitChildren),
     (VisitMethod (LabelContext L_OBJECTPROPERTY), VisitChildren)]"

definition base_visitor_18 :: "(visitor_method \<times> visitor_body) list" where
  "base_visitor_18 = [
     (VisitMethod (LabelContext L_OBJECTPROPERTYEX), VisitChildren),
     (VisitMethod (LabelContext L_ORIGINAL_DB_NAME), VisitChildren),
     (VisitMethod (LabelContext L_PARSENAME), VisitChildren),
     (VisitMethod (LabelContext L_SCHEMA_ID), VisitChildren),
     (VisitMethod (LabelContext L_SCHEMA_NAME), VisitChildren),
     (VisitMethod (LabelContext L_SCOPE_IDENTITY), VisitChildren),
     (VisitMethod (LabelContext L_SERVERPROPERTY), VisitChildren),
     (VisitMethod (LabelContext L_STATS_DATE), VisitChildren),
     (VisitMethod (LabelContext L_TYPE_ID), VisitChildren),
     (VisitMethod (LabelContext L_TYPE_NAME), VisitChildren),
     (VisitMethod (LabelContext L_TYPEPROPERTY), VisitChildren),
     (VisitMethod (LabelContext L_ASCII), VisitChildren),
     (VisitMethod (LabelContext L_CHAR), VisitChildren),
     (VisitMethod (LabelContext L_CHARINDEX), VisitChildren),
     (VisitMethod (LabelContext L_CONCAT), VisitChildren),
     (VisitMethod (LabelContext L_CONCAT_WS), VisitChildren),
     (VisitMethod (LabelContext L_DIFFERENCE), VisitChildren),
     (VisitMethod (LabelContext L_FORMAT), VisitChildren),
     (VisitMethod (LabelContext L_LEFT), VisitChildren),
     (VisitMethod (LabelContext L_LEN), VisitChildren),
     (VisitMethod (LabelContext L_LOWER), VisitChildren),
     (VisitMethod (LabelContext L_LTRIM), VisitChildren),
     (VisitMethod (LabelContext L_NCHAR), VisitChildren),
     (VisitMethod (LabelContext L_PATINDEX), VisitChildren),
     (VisitMethod (LabelContext L_QUOTENAME), VisitChildren),
     (VisitMethod (LabelContext L_REPLACE), VisitChildren),
     (VisitMethod (LabelContext L_REPLICATE), VisitChildren),
     (VisitMethod (LabelContext L_REVERSE), VisitChildren),
     (VisitMethod (LabelContext L_RIGHT), VisitChildren),
     (VisitMethod (LabelContext L_RTRIM), VisitChildren),
     (VisitMethod (LabelContext L_SOUNDEX), VisitChildren),
     (VisitMethod (LabelContext L_SPACE), VisitChildren),
     (VisitMethod (LabelContext L_STR), VisitChildren),
     (VisitMethod (LabelContext L_STRINGAGG), VisitChildren),
     (VisitMethod (LabelContext L_STRING_ESCAPE), VisitChildren),
     (VisitMethod (LabelContext L_STUFF), VisitChildren),
     (VisitMethod (LabelContext L_SUBSTRING), VisitChildren)]"

definition base_visitor_19 :: "(visitor_method \<times> visitor_body) list" where
  "base_visitor_19 = [
     (VisitMethod (LabelContext L_TRANSLATE), VisitChildren),
     (VisitMethod (LabelContext L_TRIM), VisitChildren),
     (VisitMethod (LabelContext L_UNICODE), VisitChildren),
     (VisitMethod (LabelContext L_UPPER), VisitChildren),
     (VisitMethod (LabelContext L_BINARY_CHECKSUM), VisitChildren),
     (VisitMethod (LabelContext L_CHECKSUM), VisitChildren),
     (VisitMethod (LabelContext L_COMPRESS), VisitChildren),
     (VisitMethod (LabelContext L_CONNECTIONPROPERTY), VisitChildren),
     (VisitMethod (LabelContext L_CONTEXT_INFO), VisitChildren),
     (VisitMethod (LabelContext L_CURRENT_REQUEST_ID), VisitChildren),
     (VisitMethod (LabelContext L_CURRENT_TRANSACTION_ID), VisitChildren),
     (VisitMethod (LabelContext L_DECOMPRESS), VisitChildren),
     (VisitMethod (LabelContext L_ERROR_LINE), VisitChildren),
     (VisitMethod (LabelContext L_ERROR_MESSAGE), VisitChildren),
     (VisitMethod (LabelContext L_ERROR_NUMBER), VisitChildren),
     (VisitMethod (LabelContext L_ERROR_PROCEDURE), VisitChildren),
     (VisitMethod (LabelContext L_ERROR_SEVERITY), VisitChildren),
     (VisitMethod (LabelContext L_ERROR_STATE), VisitChildren),
     (VisitMethod (LabelContext L_FORMATMESSAGE), VisitChildren),
     (VisitMethod (LabelContext L_GET_FILESTREAM_TRANSACTION_CONTEXT), VisitChildren),
     (VisitMethod (LabelContext L_GETANSINULL), VisitChildren),
     (VisitMethod (LabelContext L_HOST_ID), VisitChildren),
     (VisitMethod (LabelContext L_HOST_NAME), VisitChildren),
     (VisitMethod (LabelContext L_ISNULL), VisitChildren),
     (VisitMethod (LabelContext L_ISNUMERIC), VisitChildren),
     (VisitMethod (LabelContext L_MIN_ACTIVE_ROWVERSION), VisitChildren),
     (VisitMethod (LabelContext L_NEWID), VisitChildren),
     (VisitMethod (LabelContext L_NEWSEQUENTIALID), VisitChildren),
     (VisitMethod (LabelContext L_ROWCOUNT_BIG), VisitChildren),
     (VisitMethod (LabelContext L_SESSION_CONTEXT), VisitChildren),
     (VisitMethod (LabelContext L_XACT_STATE), VisitChildren),
     (VisitMethod (LabelContext L_CAST), VisitChildren),
     (VisitMethod (LabelContext L_TRY_CAST), VisitChildren),
     (VisitMethod (LabelContext L_CONVERT), VisitChildren),
     (VisitMethod (LabelContext L_COALESCE), VisitChildren),
     (VisitMethod (LabelContext L_CURSOR_ROWS), VisitChildren),
     (VisitMethod (LabelContext L_FETCH_STATUS), VisitChildren)]"

definition base_visitor_20 :: "(visitor_method \<times> visitor_body) list" where
  "base_visitor_20 = [
     (VisitMethod (LabelContext L_CURSOR_STATUS), VisitChildren),
     (VisitMethod (LabelContext L_CERT_ID), VisitChildren),
     (VisitMethod (LabelContext L_DATALENGTH), VisitChildren),
     (VisitMethod (LabelContext L_IDENT_CURRENT), VisitChildren),
     (VisitMethod (LabelContext L_IDENT_INCR), VisitChildren),
     (VisitMethod (LabelContext L_IDENT_SEED), VisitChildren),
     (VisitMethod (LabelContext L_IDENTITY), VisitChildren),
     (VisitMethod (LabelContext L_SQL_VARIANT_PROPERTY), VisitChildren),
     (VisitMethod (LabelContext L_CURRENT_DATE), VisitChildren),
     (VisitMethod (LabelContext L_CURRENT_TIMESTAMP), VisitChildren),
     (VisitMethod (LabelContext L_CURRENT_TIMEZONE), VisitChildren),
     (VisitMethod (LabelContext L_CURRENT_TIMEZONE_ID), VisitChildren),
     (VisitMethod (LabelContext L_DATE_BUCKET), VisitChildren),
     (VisitMethod (LabelContext L_DATEADD), VisitChildren),
     (VisitMethod (LabelContext L_DATEDIFF), VisitChildren),
     (VisitMethod (LabelContext L_DATEDIFF_BIG), VisitChildren),
     (VisitMethod (LabelContext L_DATEFROMPARTS), VisitChildren),
     (VisitMethod (LabelContext L_DATENAME), VisitChildren),
     (VisitMethod (LabelContext L_DATEPART), VisitChildren),
     (VisitMethod (LabelContext L_DATETIME2FROMPARTS), VisitChildren),
     (VisitMethod (LabelContext L_DATETIMEFROMPARTS), VisitChildren),
     (VisitMethod (LabelContext L_DATETIMEOFFSETFROMPARTS), VisitChildren),
     (VisitMethod (LabelContext L_DATETRUNC), VisitChildren),
     (VisitMethod (LabelContext L_DAY), VisitChildren),
     (VisitMethod (LabelContext L_EOMONTH), VisitChildren),
     (VisitMethod (LabelContext L_GETDATE), VisitChildren),
     (VisitMethod (LabelContext L_GETUTCDATE), VisitChildren),
     (VisitMethod (LabelContext L_ISDATE), VisitChildren),
     (VisitMethod (LabelContext L_MONTH), VisitChildren),
     (VisitMethod (LabelContext L_SMALLDATETIMEFROMPARTS), VisitChildren),
     (VisitMethod (LabelContext L_SWITCHOFFSET), VisitChildren),
     (VisitMethod (LabelContext L_SYSDATETIME), VisitChildren),
     (VisitMethod (LabelContext L_SYSDATETIMEOFFSET), VisitChildren),
     (VisitMethod (LabelContext L_SYSUTCDATETIME), VisitChildren),
     (VisitMethod (LabelContext L_TIMEFROMPARTS), VisitChildren),
     (VisitMethod (LabelContext L_TODATETIMEOFFSET), VisitChildren),
     (VisitMethod (LabelContext L_YEAR), VisitChildren)]"

definition base_visitor_21 :: "(visitor_method \<times> visitor_body) list" where
  "base_visitor_21 = [
     (VisitMethod (LabelContext L_NULLIF), VisitChildren),
     (VisitMethod (LabelContext L_PARSE), VisitChildren),
     (VisitMethod (LabelContext L_XML_DATA_TYPE_FUNC), VisitChildren),
     (VisitMethod (LabelContext L_IIF), VisitChildren),
     (VisitMethod (LabelContext L_ISJSON), VisitChildren),
     (VisitMethod (LabelContext L_JSON_OBJECT), VisitChildren),
     (VisitMethod (LabelContext L_JSON_ARRAY), VisitChildren),
     (VisitMethod (LabelContext L_JSON_VALUE), VisitChildren),
     (VisitMethod (LabelContext L_JSON_QUERY), VisitChildren),
     (VisitMethod (LabelContext L_JSON_MODIFY), VisitChildren),
     (VisitMethod (LabelContext L_JSON_PATH_EXISTS), VisitChildren),
     (VisitMethod (LabelContext L_ABS), VisitChildren),
     (VisitMethod (LabelContext L_ACOS), VisitChildren),
     (VisitMethod (LabelContext L_ASIN), VisitChildren),
     (VisitMethod (LabelContext L_ATAN), VisitChildren),
     (VisitMethod (LabelContext L_ATN2), VisitChildren),
     (VisitMethod (LabelContext L_CEILING), VisitChildren),
     (VisitMethod (LabelContext L_COS), VisitChildren),
     (VisitMethod (LabelContext L_COT), VisitChildren),
     (VisitMethod (LabelContext L_DEGREES), VisitChildren),
     (VisitMethod (LabelContext L_EXP), VisitChildren),
     (VisitMethod (LabelContext L_FLOOR), VisitChildren),
     (VisitMethod (LabelContext L_LOG), VisitChildren),
     (VisitMethod (LabelContext L_LOG10), VisitChildren),
     (VisitMethod (LabelContext L_PI), VisitChildren),
     (VisitMethod (LabelContext L_POWER), VisitChildren),
     (VisitMethod (LabelContext L_RADIANS), VisitChildren),
     (VisitMethod (LabelContext L_RAND), VisitChildren),
     (VisitMethod (LabelContext L_ROUND), VisitChildren),
     (VisitMethod (LabelContext L_MATH_SIGN), VisitChildren),
     (VisitMethod (LabelContext L_SIN), VisitChildren),
     (VisitMethod (LabelContext L_SQRT), VisitChildren),
     (VisitMethod (LabelContext L_SQUARE), VisitChildren),
     (VisitMethod (LabelContext L_TAN), VisitChildren),
     (VisitMethod (LabelContext L_GREATEST), VisitChildren),
     (VisitMethod (LabelContext L_LEAST), VisitChildren),
     (VisitMethod (LabelContext L_CERTENCODED), VisitChildren)]"

definition base_visitor_22 :: "(visitor_method \<times> visitor_body) list" where
  "base_visitor_22 = [
     (VisitMethod (LabelContext L_CERTPRIVATEKEY), VisitChildren),
     (VisitMethod (LabelContext L_CURRENT_USER), VisitChildren),
     (VisitMethod (LabelContext L_DATABASE_PRINCIPAL_ID), VisitChildren),
     (VisitMethod (LabelContext L_HAS_DBACCESS), VisitChildren),
     (VisitMethod (LabelContext L_HAS_PERMS_BY_NAME), VisitChildren),
     (VisitMethod (LabelContext L_IS_MEMBER), VisitChildren),
     (VisitMethod (LabelContext L_IS_ROLEMEMBER), VisitChildren),
     (VisitMethod (LabelContext L_IS_SRVROLEMEMBER), VisitChildren),
     (VisitMethod (LabelContext L_LOGINPROPERTY), VisitChildren),
     (VisitMethod (LabelContext L_ORIGINAL_LOGIN), VisitChildren),
     (VisitMethod (LabelContext L_PERMISSIONS), VisitChildren),
     (VisitMethod (LabelContext L_PWDENCRYPT), VisitChildren),
     (VisitMethod (LabelContext L_PWDCOMPARE), VisitChildren),
     (VisitMethod (LabelContext L_SESSION_USER), VisitChildren),
     (VisitMethod (LabelContext L_SESSIONPROPERTY), VisitChildren),
     (VisitMethod (LabelContext L_SUSER_ID), VisitChildren),
     (VisitMethod (LabelContext L_SUSER_SNAME), VisitChildren),
     (VisitMethod (LabelContext L_SUSER_SID), VisitChildren),
     (VisitMethod (LabelContext L_SYSTEM_USER), VisitChildren),
     (VisitMethod (LabelContext L_USER), VisitChildren),
     (VisitMethod (LabelContext L_USER_ID), VisitChildren),
     (VisitMethod (LabelContext L_USER_NAME), VisitChildren)]"

definition base_visitor_23 :: "(visitor_method \<times> visitor_body) list" where
  "base_visitor_23 = [
     (VisitMethod (RuleContext RuleXml_data_type_methods), VisitChildren),
     (VisitMethod (RuleContext RuleDateparts_9), VisitChildren),
     (VisitMethod (RuleContext RuleDateparts_12), VisitChildren),
     (VisitMethod (RuleContext RuleDateparts_15), VisitChildren),
     (VisitMethod (RuleContext RuleDateparts_datetrunc), VisitChildren),
     (VisitMethod (RuleContext RuleValue_method), VisitChildren),
     (VisitMethod (RuleContext RuleValue_call), VisitChildren),
     (VisitMethod (RuleContext RuleQuery_method), VisitChildren),
     (VisitMethod (RuleContext RuleQuery_call), VisitChildren),
     (VisitMethod (RuleContext RuleExist_method), VisitChildren),
     (VisitMethod (RuleContext RuleExist_call), VisitChildren),
     (VisitMethod (RuleContext RuleModify_method), VisitChildren),
     (VisitMethod (RuleContext RuleModify_call), VisitChildren),
     (VisitMethod (RuleContext RuleHierarchyid_call), VisitChildren),
     (VisitMethod (RuleContext RuleHierarchyid_static_method), VisitChildren),
     (VisitMethod (RuleContext RuleNodes_method), VisitChildren),
     (VisitMethod (RuleContext RuleSwitch_section), VisitChildren),
     (VisitMethod (RuleContext RuleSwitch_search_condition_section), VisitChildren),
     (VisitMethod (RuleContext RuleAs_column_alias), VisitChildren),
     (VisitMethod (RuleContext RuleAs_table_alias), VisitChildren),
     (VisitMethod (RuleContext RuleTable_alias), VisitChildren),
     (VisitMethod (RuleContext RuleWith_table_hints), VisitChildren),
     (VisitMethod (RuleContext RuleDeprecated_table_hint), VisitChildren),
     (VisitMethod (RuleContext RuleSybase_legacy_hints), VisitChildren),
     (VisitMethod (RuleContext RuleSybase_legacy_hint), VisitChildren),
     (VisitMethod (RuleContext RuleTable_hint), VisitChildren),
     (VisitMethod (RuleContext RuleIndex_value), VisitChildren),
     (VisitMethod (RuleContext RuleColumn_alias_list), VisitChildren),
     (VisitMethod (RuleContext RuleColumn_alias), VisitChildren),
     (VisitMethod (RuleContext RuleTable_value_constructor), VisitChildren),
     (VisitMethod (RuleContext RuleExpression_list'), VisitChildren),
     (VisitMethod (RuleContext RuleRanking_windowed_function), VisitChildren),
     (VisitMethod (RuleContext RuleAggregate_windowed_function), VisitChildren),
     (VisitMethod (RuleContext RuleAnalytic_windowed_function), VisitChildren),
     (VisitMethod (RuleContext RuleAll_distinct_expression), VisitChildren),
     (VisitMethod (RuleContext RuleOver_clause), VisitChildren),
     (VisitMethod (RuleContext RuleRow_or_range_clause), VisitChildren)]"

definition base_visitor_24 :: "(visitor_method \<times> visitor_body) list" where
  "base_visitor_24 = [
     (VisitMethod (RuleContext RuleWindow_frame_extent), VisitChildren),
     (VisitMethod (RuleContext RuleWindow_frame_bound), VisitChildren),
     (VisitMethod (RuleContext RuleWindow_frame_preceding), VisitChildren),
     (VisitMethod (RuleContext RuleWindow_frame_following), VisitChildren),
     (VisitMethod (RuleContext RuleCreate_database_option), VisitChildren),
     (VisitMethod (RuleContext RuleDatabase_filestream_option), VisitChildren),
     (VisitMethod (RuleContext RuleDatabase_file_spec), VisitChildren),
     (VisitMethod (RuleContext RuleFile_group), VisitChildren),
     (VisitMethod (RuleContext RuleFile_spec), VisitChildren),
     (VisitMethod (RuleContext RuleEntity_name), VisitChildren),
     (VisitMethod (RuleContext RuleEntity_name_for_azure_dw), VisitChildren),
     (VisitMethod (RuleContext RuleEntity_name_for_parallel_dw), VisitChildren),
     (VisitMethod (RuleContext RuleFull_table_name), VisitChildren),
     (VisitMethod (RuleContext RuleTable_name), VisitChildren),
     (VisitMethod (RuleContext RuleSimple_name), VisitChildren),
     (VisitMethod (RuleContext RuleFunc_proc_name_schema), VisitChildren),
     (VisitMethod (RuleContext RuleFunc_proc_name_database_schema), VisitChildren),
     (VisitMethod (RuleContext RuleFunc_proc_name_server_database_schema), VisitChildren),
     (VisitMethod (RuleContext RuleDdl_object), VisitChildren),
     (VisitMethod (RuleContext RuleFull_column_name), VisitChildren),
     (VisitMethod (RuleContext RuleColumn_name_list_with_order), VisitChildren),
     (VisitMethod (RuleContext RuleInsert_column_name_list), VisitChildren),
     (VisitMethod (RuleContext RuleInsert_column_id), VisitChildren),
     (VisitMethod (RuleContext RuleColumn_name_list), VisitChildren),
     (VisitMethod (RuleContext RuleCursor_name), VisitChildren),
     (VisitMethod (RuleContext RuleOn_off), VisitChildren),
     (VisitMethod (RuleContext RuleClustered), VisitChildren),
     (VisitMethod (RuleContext RuleNull_notnull), VisitChildren),
     (VisitMethod (RuleContext RuleScalar_function_name), VisitChildren),
     (VisitMethod (RuleContext RuleBegin_conversation_timer), VisitChildren),
     (VisitMethod (RuleContext RuleBegin_conversation_dialog), VisitChildren),
     (VisitMethod (RuleContext RuleContract_name), VisitChildren),
     (VisitMethod (RuleContext RuleService_name), VisitChildren),
     (VisitMethod (RuleContext RuleEnd_conversation), VisitChildren),
     (VisitMethod (RuleContext RuleWaitfor_conversation), VisitChildren),
     (VisitMethod (RuleContext RuleGet_conversation), VisitChildren),
     (VisitMethod (RuleContext RuleQueue_id), VisitChildren)]"

definition base_visitor_25 :: "(visitor_method \<times> visitor_body) list" where
  "base_visitor_25 = [
     (VisitMethod (RuleContext RuleSend_conversation), VisitChildren),
     (VisitMethod (RuleContext RuleData_type), VisitChildren),
     (VisitMethod (RuleContext RuleConstant), VisitChildren),
     (VisitMethod (RuleContext RulePrimitive_constant), VisitChildren),
     (VisitMethod (RuleContext RuleKeyword), VisitChildren),
     (VisitMethod (RuleContext RuleId'), VisitChildren),
     (VisitMethod (RuleContext RuleSimple_id), VisitChildren),
     (VisitMethod (RuleContext RuleId_or_string), VisitChildren),
     (VisitMethod (RuleContext RuleComparison_operator), VisitChildren),
     (VisitMethod (RuleContext RuleAssignment_operator), VisitChildren),
     (VisitMethod (RuleContext RuleFile_size), VisitChildren)]"

end
