(* ===== verification/TSql_Listeners.thy ===== *)
theory TSql_Listeners
  imports TSql_Header Listener_Table Base_Listener_Table Visitor_Table Base_Visitor_Table
begin

text \<open>
  The listener and visitor classes of \<open>port/cpp/\<close> against the context classes of
  \<open>port/cpp/TSqlParser.h\<close>: every class is notified by exactly one method of each kind, and
  the base classes override all of them.
\<close>

section \<open>The classes\<close>

definition listener_part_1 :: "listener_method list" where
  "listener_part_1 =
     listener_1 @ listener_2 @ listener_3"

definition listener_part_2 :: "listener_method list" where
  "listener_part_2 =
     listener_4 @ listener_5"

definition listener_part_3 :: "listener_method list" where
  "listener_part_3 =
     listener_6 @ listener_7 @ listener_8"

definition listener_part_4 :: "listener_method list" where
  "listener_part_4 =
     listener_9 @ listener_10 @ listener_11"

definition listener_part_5 :: "listener_method list" where
  "listener_part_5 =
     listener_12 @ listener_13 @ listener_14 @ listener_15 @ listener_16"

definition listener_part_6 :: "listener_method list" where
  "listener_part_6 =
     listener_17 @ listener_18"

definition tsql_listener :: "listener_method list" where
  "tsql_listener =
     listener_part_1 @ listener_part_2 @ listener_part_3 @ listener_part_4 @
     listener_part_5 @ listener_part_6"

definition base_listener_part_1 :: "listener_method list" where
  "base_listener_part_1 =
     base_listener_1 @ base_listener_2 @ base_listener_3"

definition base_listener_part_2 :: "listener_method list" where
  "base_listener_part_2 =
     base_listener_4 @ base_listener_5"

definition base_listener_part_3 :: "listener_method list" where
  "base_listener_part_3 =
     base_listener_6 @ base_listener_7 @ base_listener_8"

definition base_listener_part_4 :: "listener_method list" where
  "base_listener_part_4 =
     base_listener_9 @ base_listener_10 @ base_listener_11"

definition base_listener_part_5 :: "listener_method list" where
  "base_listener_part_5 =
     base_listener_12 @ base_listener_13 @ base_listener_14 @ base_listener_15 @
     base_listener_16"

definition base_listener_part_6 :: "listener_method list" where
  "base_listener_part_6 =
     base_listener_17 @ base_listener_18"

definition tsql_base_listener :: "listener_method list" where
  "tsql_base_listener =
     base_listener_part_1 @ base_listener_part_2 @ base_listener_part_3 @
     base_listener_part_4 @ base_listener_part_5 @ base_listener_part_6 @ base_listener_19"

definition visitor_part_1 :: "visitor_method list" where
  "visitor_part_1 =
     visitor_1 @ visitor_2"

definition visitor_part_2 :: "visitor_method list" where
  "visitor_part_2 =
     visitor_3 @ visitor_4"

definition visitor_part_3 :: "visitor_method list" where
  "visitor_part_3 =
     visitor_5 @ visitor_6"

definition visitor_part_4 :: "visitor_method list" where
  "visitor_part_4 =
     visitor_7 @ visitor_8"

definition visitor_part_5 :: "visitor_method list" where
  "visitor_part_5 =
     visitor_9 @ visitor_10 @ visitor_11 @ visitor_12"

definition visitor_part_6 :: "visitor_method list" where
  "visitor_part_6 =
     visitor_13 @ visitor_14"

definition tsql_visitor :: "visitor_method list" where
  "tsql_visitor =
     visitor_part_1 @ visitor_part_2 @ visitor_part_3 @ visitor_part_4 @ visitor_part_5 @
     visitor_part_6"

definition base_visitor_part_1 :: "(visitor_method \<times> visitor_body) list" where
  "base_visitor_part_1 =
     base_visitor_1 @ base_visitor_2 @ base_visitor_3 @ base_visitor_4"

definition base_visitor_part_2 :: "(visitor_method \<times> visitor_body) list" where
  "base_visitor_part_2 =
     base_visitor_5 @ base_visitor_6 @ base_visitor_7"

definition base_visitor_part_3 :: "(visitor_method \<times> visitor_body) list" where
  "base_visitor_part_3 =
     base_visitor_8 @ base_visitor_9 @ base_visitor_10 @ base_visitor_11"

definition base_visitor_part_4 :: "(visitor_method \<times> visitor_body) list" where
  "base_visitor_part_4 =
     base_visitor_12 @ base_visitor_13 @ base_visitor_14 @ base_visitor_15"

definition base_visitor_part_5 :: "(visitor_method \<times> visitor_body) list" where
  "base_visitor_part_5 =
     base_visitor_16 @ base_visitor_17 @ base_visitor_18 @ base_visitor_19 @
     base_visitor_20 @ base_visitor_21 @ base_visitor_22"

definition base_visitor_part_6 :: "(visitor_method \<times> visitor_body) list" where
  "base_visitor_part_6 =
     base_visitor_23 @ base_visitor_24 @ base_visitor_25"

definition tsql_base_visitor :: "(visitor_method \<times> visitor_body) list" where
  "tsql_base_visitor =
     base_visitor_part_1 @ base_visitor_part_2 @ base_visitor_part_3 @ base_visitor_part_4
     @ base_visitor_part_5 @ base_visitor_part_6"

section \<open>The comparison, part by part\<close>

lemmas listeners_eval = listener_ok.simps visited.simps o_apply node_ids.simps all_node_ids.simps
  first_labels.simps grammar_rules context_classes record_eval number_eval data_eval logic_eval list_eval listener_method.inject listener_method.distinct visitor_method.inject

text \<open>Methods that go on with the children of the node.\<close>

fun descending :: "(visitor_method \<times> visitor_body) list \<Rightarrow> bool" where
  "descending [] = True"
| "descending ((m, b) # ms) = (case b of VisitChildren \<Rightarrow> descending ms | DefaultResult \<Rightarrow> False)"

lemma descending_iff: "descending ms \<longleftrightarrow> (\<forall>b \<in> snd ` set ms. b = VisitChildren)"
  by (induction ms rule: descending.induct) (auto split: visitor_body.split)

lemma descending_append: "descending (ms @ ns) \<longleftrightarrow> descending ms \<and> descending ns"
  by (auto simp: descending_iff)

lemmas notify_eval = notify_ok.simps notified_def silent_def has_member_def
  list_ex_simps_eval context_classes record_eval data_eval logic_eval

lemmas listener_tables =
  listener_1_def listener_2_def listener_3_def listener_4_def listener_5_def
  listener_6_def listener_7_def listener_8_def listener_9_def listener_10_def
  listener_11_def listener_12_def listener_13_def listener_14_def listener_15_def
  listener_16_def listener_17_def listener_18_def

lemmas base_listener_tables =
  base_listener_1_def base_listener_2_def base_listener_3_def base_listener_4_def
  base_listener_5_def base_listener_6_def base_listener_7_def base_listener_8_def
  base_listener_9_def base_listener_10_def base_listener_11_def base_listener_12_def
  base_listener_13_def base_listener_14_def base_listener_15_def base_listener_16_def
  base_listener_17_def base_listener_18_def base_listener_19_def

lemmas visitor_tables =
  visitor_1_def visitor_2_def visitor_3_def visitor_4_def visitor_5_def visitor_6_def
  visitor_7_def visitor_8_def visitor_9_def visitor_10_def visitor_11_def visitor_12_def
  visitor_13_def visitor_14_def

lemmas base_visitor_tables =
  base_visitor_1_def base_visitor_2_def base_visitor_3_def base_visitor_4_def
  base_visitor_5_def base_visitor_6_def base_visitor_7_def base_visitor_8_def
  base_visitor_9_def base_visitor_10_def base_visitor_11_def base_visitor_12_def
  base_visitor_13_def base_visitor_14_def base_visitor_15_def base_visitor_16_def
  base_visitor_17_def base_visitor_18_def base_visitor_19_def base_visitor_20_def
  base_visitor_21_def base_visitor_22_def base_visitor_23_def base_visitor_24_def
  base_visitor_25_def

lemma listener_ok_1: "listener_ok (all_node_ids pairs_1) listener_part_1"
  by (simp only: listeners_eval listener_tables listener_part_1_def pairs_1_def cong: opaque case_opaque)

lemma visitor_ok_1: "listener_ok (map visited visitor_part_1) listener_part_1"
  by (simp only: listeners_eval listener_tables visitor_tables listener_part_1_def visitor_part_1_def
      cong: opaque case_opaque)

lemma base_visitor_ok_1: "listener_ok (map (visited \<circ> fst) base_visitor_part_1) listener_part_1"
  by (simp only: listeners_eval listener_tables base_visitor_tables listener_part_1_def
      base_visitor_part_1_def cong: opaque case_opaque)

lemma descending_1: "descending base_visitor_part_1"
  by (simp only: descending.simps visitor_body.case append.simps base_visitor_tables base_visitor_part_1_def
      cong: opaque(1,2) visitor_body.case_cong_weak)

lemma base_listener_eq_1: "base_listener_part_1 = listener_part_1"
  by (simp only: listener_tables base_listener_tables listener_part_1_def base_listener_part_1_def)

lemma notify_ok_1: "list_all notify_ok pairs_1"
  by (simp only: notify_eval pairs_1_def cong: opaque case_opaque)

lemma listener_ok_2: "listener_ok (all_node_ids pairs_2) listener_part_2"
  by (simp only: listeners_eval listener_tables listener_part_2_def pairs_2_def cong: opaque case_opaque)

lemma visitor_ok_2: "listener_ok (map visited visitor_part_2) listener_part_2"
  by (simp only: listeners_eval listener_tables visitor_tables listener_part_2_def visitor_part_2_def
      cong: opaque case_opaque)

lemma base_visitor_ok_2: "listener_ok (map (visited \<circ> fst) base_visitor_part_2) listener_part_2"
  by (simp only: listeners_eval listener_tables base_visitor_tables listener_part_2_def
      base_visitor_part_2_def cong: opaque case_opaque)

lemma descending_2: "descending base_visitor_part_2"
  by (simp only: descending.simps visitor_body.case append.simps base_visitor_tables base_visitor_part_2_def
      cong: opaque(1,2) visitor_body.case_cong_weak)

lemma base_listener_eq_2: "base_listener_part_2 = listener_part_2"
  by (simp only: listener_tables base_listener_tables listener_part_2_def base_listener_part_2_def)

lemma notify_ok_2: "list_all notify_ok pairs_2"
  by (simp only: notify_eval pairs_2_def cong: opaque case_opaque)

lemma listener_ok_3: "listener_ok (all_node_ids pairs_3) listener_part_3"
  by (simp only: listeners_eval listener_tables listener_part_3_def pairs_3_def cong: opaque case_opaque)

lemma visitor_ok_3: "listener_ok (map visited visitor_part_3) listener_part_3"
  by (simp only: listeners_eval listener_tables visitor_tables listener_part_3_def visitor_part_3_def
      cong: opaque case_opaque)

lemma base_visitor_ok_3: "listener_ok (map (visited \<circ> fst) base_visitor_part_3) listener_part_3"
  by (simp only: listeners_eval listener_tables base_visitor_tables listener_part_3_def
      base_visitor_part_3_def cong: opaque case_opaque)

lemma descending_3: "descending base_visitor_part_3"
  by (simp only: descending.simps visitor_body.case append.simps base_visitor_tables base_visitor_part_3_def
      cong: opaque(1,2) visitor_body.case_cong_weak)

lemma base_listener_eq_3: "base_listener_part_3 = listener_part_3"
  by (simp only: listener_tables base_listener_tables listener_part_3_def base_listener_part_3_def)

lemma notify_ok_3: "list_all notify_ok pairs_3"
  by (simp only: notify_eval pairs_3_def cong: opaque case_opaque)

lemma listener_ok_4: "listener_ok (all_node_ids pairs_4) listener_part_4"
  by (simp only: listeners_eval listener_tables listener_part_4_def pairs_4_def cong: opaque case_opaque)

lemma visitor_ok_4: "listener_ok (map visited visitor_part_4) listener_part_4"
  by (simp only: listeners_eval listener_tables visitor_tables listener_part_4_def visitor_part_4_def
      cong: opaque case_opaque)

lemma base_visitor_ok_4: "listener_ok (map (visited \<circ> fst) base_visitor_part_4) listener_part_4"
  by (simp only: listeners_eval listener_tables base_visitor_tables listener_part_4_def
      base_visitor_part_4_def cong: opaque case_opaque)

lemma descending_4: "descending base_visitor_part_4"
  by (simp only: descending.simps visitor_body.case append.simps base_visitor_tables base_visitor_part_4_def
      cong: opaque(1,2) visitor_body.case_cong_weak)

lemma base_listener_eq_4: "base_listener_part_4 = listener_part_4"
  by (simp only: listener_tables base_listener_tables listener_part_4_def base_listener_part_4_def)

lemma notify_ok_4: "list_all notify_ok pairs_4"
  by (simp only: notify_eval pairs_4_def cong: opaque case_opaque)

lemma listener_ok_5: "listener_ok (all_node_ids pairs_5) listener_part_5"
  by (simp only: listeners_eval listener_tables listener_part_5_def pairs_5_def cong: opaque case_opaque)

lemma visitor_ok_5: "listener_ok (map visited visitor_part_5) listener_part_5"
  by (simp only: listeners_eval listener_tables visitor_tables listener_part_5_def visitor_part_5_def
      cong: opaque case_opaque)

lemma base_visitor_ok_5: "listener_ok (map (visited \<circ> fst) base_visitor_part_5) listener_part_5"
  by (simp only: listeners_eval listener_tables base_visitor_tables listener_part_5_def
      base_visitor_part_5_def cong: opaque case_opaque)

lemma descending_5: "descending base_visitor_part_5"
  by (simp only: descending.simps visitor_body.case append.simps base_visitor_tables base_visitor_part_5_def
      cong: opaque(1,2) visitor_body.case_cong_weak)

lemma base_listener_eq_5: "base_listener_part_5 = listener_part_5"
  by (simp only: listener_tables base_listener_tables listener_part_5_def base_listener_part_5_def)

lemma notify_ok_5: "list_all notify_ok pairs_5"
  by (simp only: notify_eval pairs_5_def cong: opaque case_opaque)

lemma listener_ok_6: "listener_ok (all_node_ids pairs_6) listener_part_6"
  by (simp only: listeners_eval listener_tables listener_part_6_def pairs_6_def cong: opaque case_opaque)

lemma visitor_ok_6: "listener_ok (map visited visitor_part_6) listener_part_6"
  by (simp only: listeners_eval listener_tables visitor_tables listener_part_6_def visitor_part_6_def
      cong: opaque case_opaque)

lemma base_visitor_ok_6: "listener_ok (map (visited \<circ> fst) base_visitor_part_6) listener_part_6"
  by (simp only: listeners_eval listener_tables base_visitor_tables listener_part_6_def
      base_visitor_part_6_def cong: opaque case_opaque)

lemma descending_6: "descending base_visitor_part_6"
  by (simp only: descending.simps visitor_body.case append.simps base_visitor_tables base_visitor_part_6_def
      cong: opaque(1,2) visitor_body.case_cong_weak)

lemma base_listener_eq_6: "base_listener_part_6 = listener_part_6"
  by (simp only: listener_tables base_listener_tables listener_part_6_def base_listener_part_6_def)

lemma notify_ok_6: "list_all notify_ok pairs_6"
  by (simp only: notify_eval pairs_6_def cong: opaque case_opaque)

section \<open>The tables as a whole\<close>

lemma tsql_notify_ok: "list_all notify_ok tsql_pairs"
  by (simp add: tsql_pairs_def notify_ok_1 notify_ok_2 notify_ok_3 notify_ok_4 notify_ok_5 notify_ok_6)

lemma listener_for_append: "listener_for (is @ js) = listener_for is @ listener_for js"
  by (simp add: listener_for_def)

lemma listener_ids: "tsql_listener = listener_for (all_node_ids tsql_pairs)"
  using listener_ok_1 listener_ok_2 listener_ok_3 listener_ok_4 listener_ok_5 listener_ok_6
  by (simp add: listener_ok_iff tsql_listener_def tsql_pairs_def all_node_ids_append listener_for_append)

lemma visited_ids: "map visited tsql_visitor = all_node_ids tsql_pairs"
proof -
  have "listener_for (map visited tsql_visitor) = tsql_listener"
    using visitor_ok_1 visitor_ok_2 visitor_ok_3 visitor_ok_4 visitor_ok_5 visitor_ok_6
    by (simp add: listener_ok_iff tsql_visitor_def tsql_listener_def listener_for_append)
  then show ?thesis by (simp add: listener_ids listener_for_inject)
qed

lemma visitor_ids: "tsql_visitor = map VisitMethod (all_node_ids tsql_pairs)"
  using visited_ids by (simp add: map_visited)

lemma base_visitor_ids: "map fst tsql_base_visitor = map VisitMethod (all_node_ids tsql_pairs)"
proof -
  have "listener_for (map (visited \<circ> fst) tsql_base_visitor) = tsql_listener"
    using base_visitor_ok_1 base_visitor_ok_2 base_visitor_ok_3 base_visitor_ok_4 base_visitor_ok_5
      base_visitor_ok_6
    by (simp add: listener_ok_iff tsql_base_visitor_def tsql_listener_def listener_for_append)
  then have "map visited (map fst tsql_base_visitor) = all_node_ids tsql_pairs"
    by (simp add: listener_ids listener_for_inject)
  then show ?thesis by (simp only: map_visited)
qed

lemma base_visitor_descending: "descending tsql_base_visitor"
  using descending_1 descending_2 descending_3 descending_4 descending_5 descending_6
  by (simp add: tsql_base_visitor_def descending_append)

text \<open>A rule with labelled alternatives is none of the stale ones.\<close>

lemma tsql_node_ids:
  assumes "p \<in> set tsql_pairs"
  shows "set (node_ids p) = class_id ` {c \<in> set (snd p). notified c}"
proof (cases p)
  case (Pair q cs)
  have "rule_index g \<notin> set drifted" if g: "q = Some g" and long: "length cs > 1" for g
  proof
    assume "rule_index g \<in> set drifted"
    with assms Pair g tsql_pairs_ok have "\<forall>c \<in> set cs. class_id c = RuleContext (rule_index g)"
      by (auto simp: list_all_iff list_ex_iff dest!: bspec)
    moreover have "distinct (map class_id cs)"
    proof -
      have "set cs \<subseteq> set (concat (map snd tsql_pairs))" and "distinct cs"
        using assms Pair distinct_class_ids
        by (force, auto simp: classes_of_pairs distinct_map distinct_concat_iff)
      then show ?thesis using distinct_class_ids
        by (auto simp: distinct_map classes_of_pairs intro: inj_on_subset)
    qed
    ultimately show False using long by (cases cs rule: remdups_adj.cases) auto
  qed
  moreover have "notify_ok (q, cs)" "pair_ok (q, cs)"
    using assms Pair tsql_notify_ok tsql_pairs_ok by (auto simp: list_all_iff)
  ultimately show ?thesis using Pair by (simp only: snd_conv) (rule node_ids_notified)
qed

lemma tsql_all_node_ids: "set (all_node_ids tsql_pairs) = class_id ` {c \<in> set tsql_classes. notified c}"
  by (force simp: set_all_node_ids tsql_node_ids classes_of_pairs)

lemma distinct_tsql_node_ids: "distinct (all_node_ids tsql_pairs)"
  using distinct_class_ids by (intro distinct_all_node_ids) (auto simp: tsql_node_ids classes_of_pairs)

lemma count_node_ids:
  assumes "c \<in> set tsql_classes"
  shows "count_list (all_node_ids tsql_pairs) (class_id c) = (if notified c then 1 else 0)"
proof -
  have "class_id c \<in> set (all_node_ids tsql_pairs) \<longleftrightarrow> notified c"
    using assms distinct_class_ids unfolding tsql_all_node_ids
    by (auto simp: distinct_map dest: inj_onD)
  with distinct_tsql_node_ids show ?thesis by (simp add: count_list_distinct)
qed

lemma notified_iff:
  assumes "c \<in> set tsql_classes"
  shows "notified c \<longleftrightarrow> EnterRule \<in> set (members c)" and "notified c \<longleftrightarrow> ExitRule \<in> set (members c)"
    and "notified c \<longleftrightarrow> Accept \<in> set (members c)"
proof -
  from assms obtain p cs where "(p, cs) \<in> set tsql_pairs" "c \<in> set cs"
    unfolding classes_of_pairs by auto
  with tsql_notify_ok have "notified c \<or> silent c"
    using notified_or_silent unfolding list_all_iff by blast
  then show "notified c \<longleftrightarrow> EnterRule \<in> set (members c)" and "notified c \<longleftrightarrow> ExitRule \<in> set (members c)"
    and "notified c \<longleftrightarrow> Accept \<in> set (members c)"
    by (auto simp: notified_def silent_def has_member_iff)
qed

section \<open>Nodes\<close>

lemma count_list_map_VisitMethod: "count_list (map VisitMethod is) (VisitMethod i) = count_list is i"
  by (induction "is") auto

lemma described_pair_conforms:
  assumes "c \<in> set tsql_classes" and "describes c r l" and "r \<notin> stale_rules"
    and "valid tsql_grammar (Node r l ts)"
  shows "notified c"
proof -
  obtain g cs where g: "g \<in> set tsql_grammar" "conforms g cs" "c \<in> set cs" "r = rule_index g"
    using described_pair [OF assms(1-3)] .
  with assms(4) obtain e where "(l, e) \<in> set (rule_alts g)"
    by (auto simp: body_of_rule lang_labelled)
  with g assms(2) show ?thesis by (auto intro: described_notified)
qed

lemma node_count:
  assumes "c \<in> set tsql_classes" and "describes c r l" and "r \<notin> stale_rules"
    and "valid tsql_grammar (Node r l ts)"
  shows "count_list (all_node_ids tsql_pairs) (class_id c) = 1"
  using described_pair_conforms [OF assms] assms(1) by (simp add: count_node_ids)

text \<open>Every node has exactly one class.\<close>

lemma node_class_exists:
  assumes "valid tsql_grammar (Node r l ts)" and "r \<notin> stale_rules"
  shows "\<exists>c \<in> set tsql_classes. describes c r l"
proof -
  from assms(1) obtain g e where g: "g \<in> set tsql_grammar" "rule_index g = r" "(l, e) \<in> set (rule_alts g)"
    by (auto simp: body_of_def lang_labelled alts_of_in)
  then obtain cs where p: "(Some g, cs) \<in> set tsql_pairs"
    by (auto simp: grammar_of_pairs in_paired_rules)
  with tsql_pairs_ok have "pair_ok (Some g, cs)" unfolding list_all_iff by blast
  with assms(2) g(2) have "conforms g cs" by (auto simp: list_ex_iff stale_rules_def split: if_splits)
  with g obtain c where "c \<in> set cs" "describes c r l" using describes_in_rule by blast
  with p show ?thesis unfolding classes_of_pairs by force
qed

end
