(* ===== verification/TSql_Dispatch.thy ===== *)
theory TSql_Dispatch
  imports TSql_Listeners TSql_API
begin

text \<open>
  The listener and visitor interfaces of the C++ parser, for the nodes of the parse trees of
  the grammar: which methods a node is announced with, and what the base classes do.
\<close>

lemma node_notified:
  assumes "c \<in> set tsql_classes" and "describes c r l" and "valid tsql_grammar (Node r l ts)"
  shows "notified c"
proof (cases "r \<in> stale_rules")
  case True
  obtain g where "(g, c) \<in> {(g_tsql_file, Tsql_fileContext), (g_insert_statement_value, Insert_statement_valueContext),
      (g_table_sources, Table_sourcesContext), (g_full_table_name, Full_table_nameContext)}"
    using stale_node [OF assms(1,2) True assms(3)] by metis
  then show ?thesis using stale_notified notified_iff(1) [OF assms(1)] by blast
next
  case False
  with assms show ?thesis using described_pair_conforms by blast
qed

text \<open>
  C15: A node is announced exactly once: the class of a node has exactly one \<open>enter\<close>, one \<open>exit\<close>
  and one \<open>visit\<close> method in the listener and visitor interfaces.  (Only the nodes of
  \<open>batch_without_go\<close>, \<open>dotID\<close> and \<open>doubleDotID\<close> have no class, see C14.)
\<close>

theorem node_announced_once:
  assumes "c \<in> set tsql_classes" and "describes c r l" and "valid tsql_grammar (Node r l ts)"
  shows "count_list tsql_listener (EnterMethod (class_id c)) = 1
    \<and> count_list tsql_listener (ExitMethod (class_id c)) = 1
    \<and> count_list tsql_visitor (VisitMethod (class_id c)) = 1"
proof -
  have "count_list (all_node_ids tsql_pairs) (class_id c) = 1"
    using node_notified [OF assms] assms(1) by (simp add: count_node_ids)
  then show ?thesis
    by (simp add: listener_ids visitor_ids count_listener_for count_list_map_VisitMethod)
qed

theorem node_announced_once_witness:
  "count_list tsql_listener (EnterMethod (RuleContext RuleSql_clauses)) = 1
    \<and> count_list tsql_listener (ExitMethod (RuleContext RuleSql_clauses)) = 1
    \<and> count_list tsql_visitor (VisitMethod (RuleContext RuleSql_clauses)) = 1"
  using node_announced_once [OF semi_node_class(1,2) semi_node_valid [unfolded semi_node_def]]
  by (simp add: Sql_clausesContext_def)

text \<open>
  C34: The listener and visitor interfaces have the methods of the classes that ask for them and
  no others: \<open>enterX\<close> where \<open>XContext\<close> overrides \<open>enterRule\<close>, \<open>exitX\<close> where it overrides
  \<open>exitRule\<close>, \<open>visitX\<close> where it overrides \<open>accept\<close>.
\<close>

theorem methods_of_classes:
  "set tsql_listener = {EnterMethod (class_id c) | c. c \<in> set tsql_classes \<and> EnterRule \<in> set (members c)}
      \<union> {ExitMethod (class_id c) | c. c \<in> set tsql_classes \<and> ExitRule \<in> set (members c)}
   \<and> set tsql_visitor = {VisitMethod (class_id c) | c. c \<in> set tsql_classes \<and> Accept \<in> set (members c)}"
proof
  have enter: "{c \<in> set tsql_classes. notified c} = {c \<in> set tsql_classes. EnterRule \<in> set (members c)}"
    and exit: "{c \<in> set tsql_classes. notified c} = {c \<in> set tsql_classes. ExitRule \<in> set (members c)}"
    and accept: "{c \<in> set tsql_classes. notified c} = {c \<in> set tsql_classes. Accept \<in> set (members c)}"
    using notified_iff by auto
  have "set tsql_listener = EnterMethod ` class_id ` {c \<in> set tsql_classes. notified c}
      \<union> ExitMethod ` class_id ` {c \<in> set tsql_classes. notified c}"
    by (simp only: listener_ids set_listener_for tsql_all_node_ids)
  then show "set tsql_listener =
      {EnterMethod (class_id c) | c. c \<in> set tsql_classes \<and> EnterRule \<in> set (members c)}
      \<union> {ExitMethod (class_id c) | c. c \<in> set tsql_classes \<and> ExitRule \<in> set (members c)}"
    by (subst (asm) enter, subst (asm) exit) (simp add: image_image setcompr_eq_image)
  have "set tsql_visitor = VisitMethod ` class_id ` {c \<in> set tsql_classes. notified c}"
    by (simp only: visitor_ids set_map tsql_all_node_ids)
  then show "set tsql_visitor =
      {VisitMethod (class_id c) | c. c \<in> set tsql_classes \<and> Accept \<in> set (members c)}"
    unfolding accept by (simp add: image_image setcompr_eq_image)
qed

text \<open>
  The base listener is not abstract: it overrides every method of the listener interface,
  and besides them exactly the four methods of the runtime's \<open>ParseTreeListener\<close>.
\<close>

theorem base_listener_complete:
  "tsql_base_listener = tsql_listener @ [EnterEvery, ExitEvery, TerminalMethod, ErrorMethod]"
  unfolding tsql_base_listener_def tsql_listener_def base_listener_19_def
    base_listener_eq_1 base_listener_eq_2 base_listener_eq_3 base_listener_eq_4 base_listener_eq_5
    base_listener_eq_6
  by simp

section \<open>The base visitor\<close>

text \<open>
  A call of \<open>visitX(ctx)\<close> on a \<open>TSqlParserBaseVisitor\<close>.  \<open>visitChildren\<close> and the default result,
  which a body without a visit of the children would return, belong to the runtime and are parameters.
\<close>

fun run_body :: "visitor_body \<Rightarrow> ('ctx \<Rightarrow> 'any) \<Rightarrow> 'any \<Rightarrow> 'ctx \<Rightarrow> 'any" where
  "run_body VisitChildren visitChildren defaultResult ctx = visitChildren ctx"
| "run_body DefaultResult visitChildren defaultResult ctx = defaultResult"

definition base_visit :: "('ctx \<Rightarrow> 'any) \<Rightarrow> 'any \<Rightarrow> class_id \<Rightarrow> 'ctx \<Rightarrow> 'any option" where
  "base_visit visitChildren defaultResult i ctx =
     map_option (\<lambda>b. run_body b visitChildren defaultResult ctx) (map_of tsql_base_visitor (VisitMethod i))"

text \<open>
  C35: The base visitor has a method for every node with a class, and it descends into the children of
  the node: nothing of a tree is skipped unless a subclass decides so.  (Only the nodes of
  \<open>batch_without_go\<close>, \<open>dotID\<close> and \<open>doubleDotID\<close> have no class, see C14.)
\<close>

theorem base_visitor_descends:
  assumes "c \<in> set tsql_classes" and "describes c r l" and "valid tsql_grammar (Node r l ts)"
  shows "base_visit visitChildren defaultResult (class_id c) ctx = Some (visitChildren ctx)"
proof -
  have "class_id c \<in> set (all_node_ids tsql_pairs)"
    using node_notified [OF assms] assms(1) by (auto simp: tsql_all_node_ids)
  then have "VisitMethod (class_id c) \<in> set (map fst tsql_base_visitor)"
    by (simp add: base_visitor_ids)
  then obtain b where b: "map_of tsql_base_visitor (VisitMethod (class_id c)) = Some b"
    by (metis map_of_eq_None_iff not_None_eq set_map)
  then have "b \<in> snd ` set tsql_base_visitor" by (force dest: map_of_SomeD)
  with base_visitor_descending have "b = VisitChildren" unfolding descending_iff by blast
  with b show ?thesis by (simp add: base_visit_def)
qed

theorem base_visitor_descends_witness:
  "base_visit length 7 (RuleContext RuleSql_clauses) [T_SEMI] = Some 1"
  using base_visitor_descends [OF semi_node_class(1,2) semi_node_valid [unfolded semi_node_def],
      of length 7 "[T_SEMI]"]
  by (simp add: Sql_clausesContext_def)

section \<open>One class per node\<close>

text \<open>
  C14: The nodes of a rule that are built from alternatives with the same label are objects of
  exactly one class.  The only exceptions are the nodes of three rules the header does not know:
  \<open>batch_without_go\<close>, \<open>dotID\<close> and \<open>doubleDotID\<close>.
\<close>

theorem node_class_unique:
  assumes "valid tsql_grammar (Node r l ts)"
  shows "(\<exists>!c. c \<in> set tsql_classes \<and> describes c r l)
    \<longleftrightarrow> r \<notin> {RuleBatch_without_go, RuleDotID, RuleDoubleDotID}"
proof -
  have "(\<exists>c \<in> set tsql_classes. describes c r l) \<longleftrightarrow> r \<notin> {RuleBatch_without_go, RuleDotID, RuleDoubleDotID}"
  proof (cases "r \<in> stale_rules")
    case True
    with assms show ?thesis by (rule stale_node_class)
  next
    case False
    then have "r \<notin> {RuleBatch_without_go, RuleDotID, RuleDoubleDotID}" by (auto simp: stale_rules_eq)
    with node_class_exists [OF assms False] show ?thesis by simp
  qed
  then show ?thesis using described_unique by blast
qed

theorem node_class_unique_witness:
  "(\<exists>!c. c \<in> set tsql_classes \<and> describes c RuleSql_clauses None)
    \<longleftrightarrow> RuleSql_clauses \<notin> {RuleBatch_without_go, RuleDotID, RuleDoubleDotID}"
  by (rule node_class_unique [OF semi_node_valid [unfolded semi_node_def]])




end
