(* ===== verification/Choices.thy ===== *)
theory Choices
  imports Yields
begin

text \<open>
  Ambiguous texts.  ANTLR documents that where several alternatives of a rule match the input the
  parser takes the first of them.  The trees it builds are therefore \<open>ordered\<close>: every node is built
  from the first alternative of its rule that has a derivation of the tokens of the node.  The
  alternatives of left-recursive rules are rewritten by ANTLR, so nothing is asked of their nodes.
\<close>

section \<open>The first alternative\<close>

definition derives :: "grammar \<Rightarrow> ebnf \<Rightarrow> token list \<Rightarrow> bool" where
  "derives G e us \<longleftrightarrow>
     (\<exists>ts. lang e (map root ts) \<and> (\<forall>t \<in> set ts. valid G t) \<and> concat (map yield ts) = us)"

definition first_choice :: "grammar \<Rightarrow> rule_id \<Rightarrow> label_id option \<Rightarrow> tree list \<Rightarrow> bool" where
  "first_choice G r l ts \<longleftrightarrow> (\<exists>as e bs. alts_of G r = as @ (l, e) # bs \<and> lang e (map root ts)
     \<and> (\<forall>a \<in> set as. \<not> derives G (snd a) (concat (map yield ts))))"

fun ordered :: "grammar \<Rightarrow> rule_id list \<Rightarrow> tree \<Rightarrow> bool" where
  "ordered G recursive (Leaf t) = True"
| "ordered G recursive (Node r l ts) =
     ((r \<in> set recursive \<or> first_choice G r l ts) \<and> (\<forall>t \<in> set ts. ordered G recursive t))"

text \<open>A node of the only alternative, or of the first one.\<close>

lemma first_choice_hd: "alts_of G r = (l, e) # as \<Longrightarrow> lang e (map root ts) \<Longrightarrow> first_choice G r l ts"
  unfolding first_choice_def by (intro exI [of _ "[]"]) auto

section \<open>Symbols whose tokens another symbol derives\<close>

definition below :: "grammar \<Rightarrow> sym \<Rightarrow> sym \<Rightarrow> bool" where
  "below G s u \<longleftrightarrow> (\<forall>t. valid G t \<longrightarrow> root t = s \<longrightarrow> (\<exists>v. valid G v \<and> root v = u \<and> yield v = yield t))"

lemma below_refl: "below G s s"
  unfolding below_def by blast

lemma below_children:
  assumes "\<And>s. below G s (h s)" and "\<forall>t \<in> set ts. valid G t"
  shows "\<exists>us. map root us = map h (map root ts) \<and> (\<forall>u \<in> set us. valid G u)
    \<and> concat (map yield us) = concat (map yield ts)"
  using assms(2)
proof (induction ts)
  case (Cons t ts)
  from assms(1) [of "root t"] Cons.prems obtain u where
    "valid G u" "root u = h (root t)" "yield u = yield t" unfolding below_def by auto
  moreover from Cons obtain us where "map root us = map h (map root ts)" "\<forall>u \<in> set us. valid G u"
    "concat (map yield us) = concat (map yield ts)" by auto
  ultimately show ?case by (intro exI [of _ "u # us"]) simp
qed simp

text \<open>A rule derives what another one derives, if it accepts the children of the other with other names.\<close>

lemma below_rule:
  assumes "\<And>s. below G s (h s)"
    and "\<And>l w. lang (body_of G r l) w \<Longrightarrow> lang (body_of G q None) (map h w)"
  shows "below G (Nt r) (Nt q)"
  unfolding below_def
proof (intro allI impI)
  fix t assume t: "valid G t" "root t = Nt r"
  then obtain l ts where node: "t = Node r l ts" by (cases t) auto
  with t obtain us where us: "map root us = map h (map root ts)" "\<forall>u \<in> set us. valid G u"
    "concat (map yield us) = concat (map yield ts)"
    using below_children [OF assms(1)] by (metis valid.simps(2))
  have "lang (body_of G q None) (map root us)"
    unfolding us(1) using assms(2) [of l "map root ts"] t(1) node by simp
  with us node show "\<exists>v. valid G v \<and> root v = Nt q \<and> yield v = yield t"
    by (intro exI [of _ "Node q None us"]) simp
qed

definition renamed :: "(sym \<times> sym) list \<Rightarrow> sym \<Rightarrow> sym" where
  "renamed ps s = (case map_of ps s of None \<Rightarrow> s | Some u \<Rightarrow> u)"

lemma renamed_below: "\<forall>p \<in> set ps. below G (fst p) (snd p) \<Longrightarrow> below G s (renamed ps s)"
  by (force simp: renamed_def below_refl split: option.split dest: map_of_SomeD)

section \<open>The sequences of an expression without loops\<close>

fun loopless :: "ebnf \<Rightarrow> bool" where
  "loopless (Sym s) = True"
| "loopless (Lab l e) = loopless e"
| "loopless (Seq es) = list_all loopless es"
| "loopless (Alt es) = list_all loopless es"
| "loopless (Opt e) = loopless e"
| "loopless (Star e) = False"
| "loopless (Plus e) = False"

fun words :: "ebnf \<Rightarrow> sym list list" and words_seq :: "ebnf list \<Rightarrow> sym list list"
  and words_alt :: "ebnf list \<Rightarrow> sym list list" where
  "words (Sym s) = [[s]]"
| "words (Lab l e) = words e"
| "words (Seq es) = words_seq es"
| "words (Alt es) = words_alt es"
| "words (Opt e) = [] # words e"
| "words (Star e) = []"
| "words (Plus e) = []"
| "words_seq [] = [[]]"
| "words_seq (e # es) = concat (map (\<lambda>u. map (\<lambda>v. u @ v) (words_seq es)) (words e))"
| "words_alt [] = []"
| "words_alt (e # es) = words e @ words_alt es"

lemma words_complete:
  "loopless e \<Longrightarrow> lang e w \<Longrightarrow> w \<in> set (words e)"
  "list_all loopless es \<Longrightarrow> lang (Seq es) w \<Longrightarrow> w \<in> set (words_seq es)"
  "list_all loopless es \<Longrightarrow> lang (Alt es) w \<Longrightarrow> w \<in> set (words_alt es)"
proof (induction e and es and es arbitrary: w and w and w rule: words_words_seq_words_alt.induct)
  case (9 e es)
  then obtain u v where w: "w = u @ v" "lang e u" "lang (Seq es) v" by auto
  with 9 have "u \<in> set (words e)" "v \<in> set (words_seq es)" by auto
  with w(1) show ?case by auto
qed auto

section \<open>Alternatives that are never taken\<close>

text \<open>
  A rule that is a choice between rules never has a child of a rule whose tokens an earlier
  alternative derives, too.
\<close>

lemma shadowed:
  assumes "alts_of G p = map (\<lambda>r. (None, Ref r)) rs" and "p \<notin> set recursive"
    and "ordered G recursive (Node p l ts)" and "valid G (Node p l ts)"
    and "below G (Nt q) (Nt q')" and "q' \<in> set (takeWhile (\<lambda>r. r \<noteq> q) rs)"
  shows "map root ts \<noteq> [Nt q]"
proof
  assume ts: "map root ts = [Nt q]"
  from assms(2,3) obtain as e bs where split: "alts_of G p = as @ (l, e) # bs" "lang e (map root ts)"
    and first: "\<forall>a \<in> set as. \<not> derives G (snd a) (concat (map yield ts))"
    unfolding ordered.simps first_choice_def by blast
  from split(1) assms(1) obtain xs x ys where rs: "rs = xs @ x # ys" "as = map (\<lambda>r. (None, Ref r)) xs"
    "e = Ref x" by (auto simp: map_eq_append_conv)
  with split(2) ts have "x = q" by simp
  with rs(1) assms(6) have "q' \<in> set xs" by (auto simp: takeWhile_append split: if_splits dest: set_takeWhileD)
  with rs(2) first have none: "\<not> derives G (Ref q') (concat (map yield ts))" by auto
  from ts obtain t where t: "ts = [t]" "root t = Nt q" by auto
  with assms(4,5) obtain v where "valid G v" "root v = Nt q'" "yield v = yield t"
    unfolding below_def by auto
  with t none show False unfolding derives_def by (auto dest!: spec [of _ "[v]"])
qed

section \<open>Nodes\<close>

fun nodes_in :: "tree \<Rightarrow> (rule_id \<times> label_id option) set" where
  "nodes_in (Leaf t) = {}"
| "nodes_in (Node r l ts) = insert (r, l) (\<Union> (nodes_in ` set ts))"

lemma nodes_in_rules: "(r, l) \<in> nodes_in t \<Longrightarrow> r \<in> rules_in t"
  by (induction t) auto

end
