(* ===== verification/TSql_Choices.thy ===== *)
theory TSql_Choices
  imports TSql_Faults Choices
begin

text \<open>
  Rules of \<open>src/TSqlParser.g4\<close> no tree of the parser has a node of: rules the grammar does not use or
  does not have, and alternatives of \<open>ddl_clause\<close> whose texts an earlier alternative matches, too.
\<close>

section \<open>Statements an earlier alternative derives\<close>

text \<open>
  A rule without loops, each of whose sequences another rule reads when some symbols are replaced by
  others that derive the same tokens.
\<close>

definition reads_renamed :: "(sym \<times> sym) list \<Rightarrow> rule \<Rightarrow> rule \<Rightarrow> bool" where
  "reads_renamed ps g g' \<longleftrightarrow> list_all (\<lambda>a. loopless (snd a)
     \<and> list_all (\<lambda>w. reads (labelled None (rule_alts g')) (map (renamed ps) w)) (words (snd a))) (rule_alts g)"

lemma below_renamed:
  assumes "g \<in> set tsql_grammar" and "g' \<in> set tsql_grammar"
    and "list_all (\<lambda>p. below tsql_grammar (fst p) (snd p)) ps" and "reads_renamed ps g g'"
  shows "below tsql_grammar (Nt (rule_index g)) (Nt (rule_index g'))"
proof (rule below_rule)
  show "below tsql_grammar s (renamed ps s)" for s
    using assms(3) by (intro renamed_below) (simp add: list_all_iff)
next
  fix l w assume "lang (body_of tsql_grammar (rule_index g) l) w"
  with assms(1) obtain e where e: "(l, e) \<in> set (rule_alts g)" "lang e w"
    by (auto simp: body_of_rule lang_labelled)
  with assms(4) words_complete(1) [of e w]
  have "reads (labelled None (rule_alts g')) (map (renamed ps) w)"
    by (auto simp: reads_renamed_def list_all_iff)
  with assms(2) show "lang (body_of tsql_grammar (rule_index g') None) (map (renamed ps) w)"
    by (simp add: body_of_rule reads_lang)
qed

lemmas reads_eval = reads_renamed_def reads_def labelled_def renamed_def

text \<open>Classes and names of entities.\<close>

lemma below_classes:
  "below tsql_grammar (Nt RuleClass_type_for_sql_database) (Nt RuleClass_type)"
  "below tsql_grammar (Nt RuleClass_type_for_azure_dw) (Nt RuleClass_type)"
  "below tsql_grammar (Nt RuleClass_type_for_parallel_dw) (Nt RuleClass_type)"
  using below_renamed [OF rule_in_grammar rule_in_grammar, of g_class_type_for_sql_database g_class_type "[]"]
    below_renamed [OF rule_in_grammar rule_in_grammar, of g_class_type_for_azure_dw g_class_type "[]"]
    below_renamed [OF rule_in_grammar rule_in_grammar, of g_class_type_for_parallel_dw g_class_type "[]"]
  by (simp_all add: rules_1_def g_class_type_for_sql_database_def g_class_type_for_azure_dw_def
      g_class_type_for_parallel_dw_def g_class_type_def reads_eval)

lemma below_entities:
  "below tsql_grammar (Nt RuleEntity_name_for_azure_dw) (Nt RuleEntity_name)"
  "below tsql_grammar (Nt RuleEntity_name_for_parallel_dw) (Nt RuleEntity_name)"
  using below_renamed [OF rule_in_grammar rule_in_grammar, of g_entity_name_for_azure_dw g_entity_name "[]"]
    below_renamed [OF rule_in_grammar rule_in_grammar, of g_entity_name_for_parallel_dw g_entity_name "[]"]
  by (simp_all add: rules_6_def g_entity_name_for_azure_dw_def g_entity_name_for_parallel_dw_def
      g_entity_name_def reads_eval)

text \<open>Tokens that are also names.\<close>

lemma below_keyword:
  assumes "(None, Tok k) \<in> set (rule_alts g_keyword)"
  shows "below tsql_grammar (Tm k) (Nt RuleId')"
proof -
  have "lang (labelled None (rule_alts g_keyword)) [Tm k]"
    using assms by (auto simp: lang_labelled)
  then have "valid tsql_grammar (Node RuleKeyword None [Leaf k])"
    using body_of_rule [OF rule_in_grammar, of g_keyword None] by (simp add: rules_6_def g_keyword_def)
  moreover have "lang (labelled None (rule_alts g_id')) [Nt RuleKeyword]"
    by (rule reads_lang) (simp add: g_id'_def reads_eval)
  ultimately have "valid tsql_grammar (Node RuleId' None [Node RuleKeyword None [Leaf k]])"
    using body_of_rule [OF rule_in_grammar, of g_id' None] by (simp add: rules_6_def g_id'_def)
  moreover have "t = Leaf k" if "root t = Tm k" for t using that by (cases t) auto
  ultimately show ?thesis unfolding below_def
    by (metis root.simps(2) yield.simps concat.simps list.simps(8,9) append_Nil2)
qed

lemma below_names:
  "below tsql_grammar (Tm T_AUDIT) (Nt RuleId')" "below tsql_grammar (Tm T_SPECIFICATION) (Nt RuleId')"
  "below tsql_grammar (Tm T_SCOPED) (Nt RuleId')" "below tsql_grammar (Tm T_CREDENTIAL) (Nt RuleId')"
  by (rule below_keyword, simp add: g_keyword_def)+

section \<open>Statements an earlier alternative derives\<close>

lemma below_authorization:
  "below tsql_grammar (Nt RuleAlter_authorization_for_sql_database) (Nt RuleAlter_authorization)"
  "below tsql_grammar (Nt RuleAlter_authorization_for_azure_dw) (Nt RuleAlter_authorization)"
  "below tsql_grammar (Nt RuleAlter_authorization_for_parallel_dw) (Nt RuleAlter_authorization)"
  using below_renamed [OF rule_in_grammar rule_in_grammar, of g_alter_authorization_for_sql_database
      g_alter_authorization "[(Nt RuleClass_type_for_sql_database, Nt RuleClass_type)]"]
    below_renamed [OF rule_in_grammar rule_in_grammar, of g_alter_authorization_for_azure_dw
      g_alter_authorization "[(Nt RuleClass_type_for_azure_dw, Nt RuleClass_type),
        (Nt RuleEntity_name_for_azure_dw, Nt RuleEntity_name)]"]
    below_renamed [OF rule_in_grammar rule_in_grammar, of g_alter_authorization_for_parallel_dw
      g_alter_authorization "[(Nt RuleClass_type_for_parallel_dw, Nt RuleClass_type),
        (Nt RuleEntity_name_for_parallel_dw, Nt RuleEntity_name)]"]
  by (simp_all add: rules_1_def g_alter_authorization_for_sql_database_def
      g_alter_authorization_for_azure_dw_def g_alter_authorization_for_parallel_dw_def
      g_alter_authorization_def below_classes below_entities reads_eval)

lemma below_statements:
  "below tsql_grammar (Nt RuleAlter_server_role_pdw) (Nt RuleAlter_server_role)"
  "below tsql_grammar (Nt RuleCreate_master_key_sql_server) (Nt RuleCreate_master_key_azure_sql)"
  "below tsql_grammar (Nt RuleCreate_schema_azure_sql_dw_and_pdw) (Nt RuleCreate_schema)"
  using below_renamed [OF rule_in_grammar rule_in_grammar, of g_alter_server_role_pdw g_alter_server_role "[]"]
    below_renamed [OF rule_in_grammar rule_in_grammar, of g_create_master_key_sql_server
      g_create_master_key_azure_sql "[]"]
    below_renamed [OF rule_in_grammar rule_in_grammar, of g_create_schema_azure_sql_dw_and_pdw
      g_create_schema "[]"]
  by (simp_all add: rules_1_def rules_2_def g_alter_server_role_pdw_def g_alter_server_role_def
      g_create_master_key_sql_server_def g_create_master_key_azure_sql_def
      g_create_schema_azure_sql_dw_and_pdw_def g_create_schema_def reads_eval)

text \<open>\<open>DROP DATABASE\<close> takes a list of names without commas, and \<open>AUDIT\<close>, \<open>SPECIFICATION\<close>,
  \<open>SCOPED\<close> and \<open>CREDENTIAL\<close> are names.\<close>

lemma below_drop:
  "below tsql_grammar (Nt RuleDrop_database_audit_specification) (Nt RuleDrop_database)"
  "below tsql_grammar (Nt RuleDrop_database_scoped_credential) (Nt RuleDrop_database)"
  using below_renamed [OF rule_in_grammar rule_in_grammar, of g_drop_database_audit_specification
      g_drop_database "[(Tm T_AUDIT, Nt RuleId'), (Tm T_SPECIFICATION, Nt RuleId')]"]
    below_renamed [OF rule_in_grammar rule_in_grammar, of g_drop_database_scoped_credential
      g_drop_database "[(Tm T_SCOPED, Nt RuleId'), (Tm T_CREDENTIAL, Nt RuleId')]"]
  by (simp_all add: rules_1_def g_drop_database_audit_specification_def
      g_drop_database_scoped_credential_def g_drop_database_def below_names reads_eval)

text \<open>\<open>ALTER USER\<close> has a list of options, in any order.\<close>

lemma lang_Star_mono:
  assumes "\<And>w. lang e w \<Longrightarrow> lang f w"
  shows "lang (Star e) w \<Longrightarrow> lang (Star f) w"
proof (induction "length w" arbitrary: w rule: less_induct)
  case less
  show ?case
  proof (cases w)
    case (Cons s x)
    then obtain u v where x: "x = u @ v" "lang e (s # u)" "lang (Star e) v"
      using less.prems by (auto simp: lang_Star_Cons)
    with less.hyps [of v] Cons have "lang (Star f) v" by simp
    with assms [OF x(2)] x(1) Cons show ?thesis by (auto simp: lang_Star_Cons)
  qed simp
qed

lemma lang_Plus_mono: "(\<And>w. lang e w \<Longrightarrow> lang f w) \<Longrightarrow> lang (Plus e) w \<Longrightarrow> lang (Plus f) w"
  unfolding lang_Plus using lang_Star_mono by blast

lemma lang_words: "loopless e \<Longrightarrow> list_all (reads f) (words e) \<Longrightarrow> lang e w \<Longrightarrow> lang f w"
  using words_complete(1) reads_lang unfolding list_all_iff by blast

definition options_of :: "rule \<Rightarrow> ebnf" where
  "options_of g = (case snd (hd (rule_alts g)) of
     Seq es \<Rightarrow> (case last es of Plus e \<Rightarrow> e | _ \<Rightarrow> Seq []) | _ \<Rightarrow> Seq [])"

lemma alter_user_alts:
  "rule_alts g_alter_user_azure_sql = [(None, Seq [Tok T_ALTER, Tok T_USER,
     Lab (Assign ''username'') (Ref RuleId'), Tok T_WITH, Plus (options_of g_alter_user_azure_sql)])]"
  "rule_alts g_alter_user = [(None, Seq [Tok T_ALTER, Tok T_USER,
     Lab (Assign ''username'') (Ref RuleId'), Tok T_WITH, Plus (options_of g_alter_user)])]"
  by (simp_all add: g_alter_user_azure_sql_def g_alter_user_def options_of_def)

lemma alter_user_options:
  "loopless (options_of g_alter_user_azure_sql)"
  "list_all (reads (options_of g_alter_user)) (words (options_of g_alter_user_azure_sql))"
  by (simp_all add: g_alter_user_azure_sql_def g_alter_user_def options_of_def reads_def)

lemma below_alter_user: "below tsql_grammar (Nt RuleAlter_user_azure_sql) (Nt RuleAlter_user)"
proof (rule below_rule [where h = id])
  fix l w assume "lang (body_of tsql_grammar RuleAlter_user_azure_sql l) w"
  then have azure: "lang (labelled l (rule_alts g_alter_user_azure_sql)) w"
    using body_of_rule [OF rule_in_grammar, of g_alter_user_azure_sql l]
    by (simp add: rules_2_def g_alter_user_azure_sql_def)
  have "lang (Plus (options_of g_alter_user)) v" if "lang (Plus (options_of g_alter_user_azure_sql)) v" for v
    using lang_Plus_mono [OF lang_words [OF alter_user_options] that] .
  with azure have "lang (labelled None (rule_alts g_alter_user)) w"
    unfolding lang_labelled alter_user_alts by (auto simp del: lang_Plus)
  then show "lang (body_of tsql_grammar RuleAlter_user None) (map id w)"
    using body_of_rule [OF rule_in_grammar, of g_alter_user None]
    by (simp add: rules_2_def g_alter_user_def)
qed (simp add: below_refl)

section \<open>Rules without nodes\<close>

text \<open>The alternatives of \<open>ddl_clause\<close>: each is a rule.\<close>

definition ddl_rules :: "rule_id list" where
  "ddl_rules = List.map_filter (\<lambda>a. case snd a of Sym (Nt r) \<Rightarrow> Some r | _ \<Rightarrow> None) (rule_alts g_ddl_clause)"

lemma ddl_alternatives: "rule_alts g_ddl_clause = map (\<lambda>r. (None, Ref r)) ddl_rules"
  by (simp add: ddl_rules_def g_ddl_clause_def List.map_filter_simps)

definition covered_rules :: "(rule_id \<times> rule_id) list" where
  "covered_rules = [
     (RuleAlter_authorization_for_sql_database, RuleAlter_authorization),
     (RuleAlter_authorization_for_azure_dw, RuleAlter_authorization),
     (RuleAlter_authorization_for_parallel_dw, RuleAlter_authorization),
     (RuleAlter_server_role_pdw, RuleAlter_server_role),
     (RuleAlter_user_azure_sql, RuleAlter_user),
     (RuleCreate_master_key_sql_server, RuleCreate_master_key_azure_sql),
     (RuleCreate_schema_azure_sql_dw_and_pdw, RuleCreate_schema),
     (RuleDrop_database_audit_specification, RuleDrop_database),
     (RuleDrop_database_scoped_credential, RuleDrop_database)]"

lemma covered_below: "(q, q') \<in> set covered_rules \<Longrightarrow> below tsql_grammar (Nt q) (Nt q')"
  unfolding covered_rules_def
  using below_authorization below_statements below_drop below_alter_user by auto

lemma covered_earlier: "list_all (\<lambda>p. snd p \<in> set (takeWhile (\<lambda>r. r \<noteq> fst p) ddl_rules)) covered_rules"
  by (simp add: covered_rules_def ddl_rules_def g_ddl_clause_def List.map_filter_simps)

text \<open>
  These rules, the rules only they use, \<open>empty_statement\<close>, which no rule uses, and the two rules only
  the header knows.
\<close>

definition dead_rules :: "rule_id list" where
  "dead_rules = [RuleBatch, RuleNon_ansi_join, RuleEmpty_statement] @ map fst covered_rules
     @ [RuleClass_type_for_sql_database, RuleClass_type_for_azure_dw, RuleClass_type_for_parallel_dw,
        RuleEntity_name_for_azure_dw, RuleEntity_name_for_parallel_dw]"

lemma dead_rules_eq: "set dead_rules = {RuleBatch, RuleNon_ansi_join, RuleEmpty_statement,
    RuleAlter_authorization_for_sql_database, RuleAlter_authorization_for_azure_dw,
    RuleAlter_authorization_for_parallel_dw, RuleAlter_server_role_pdw, RuleAlter_user_azure_sql,
    RuleCreate_master_key_sql_server, RuleCreate_schema_azure_sql_dw_and_pdw,
    RuleDrop_database_audit_specification, RuleDrop_database_scoped_credential,
    RuleClass_type_for_sql_database, RuleClass_type_for_azure_dw, RuleClass_type_for_parallel_dw,
    RuleEntity_name_for_azure_dw, RuleEntity_name_for_parallel_dw}"
  by (auto simp: dead_rules_def covered_rules_def)

text \<open>Only \<open>ddl_clause\<close> and these rules themselves use them.\<close>

definition dead_ok :: "rule_id \<Rightarrow> ebnf \<Rightarrow> bool" where
  "dead_ok r e = (if r = RuleDdl_clause then True else if is_one_of dead_rules r then True
     else all_syms (\<lambda>s. case s of Tm t \<Rightarrow> True | Nt q \<Rightarrow> if is_one_of dead_rules q then False else True) e)"

lemmas dead_eval = yields_eval dead_ok_def dead_rules_def covered_rules_def list.map append.simps fst_conv

lemma dead_1: "all_rules dead_ok rules_1"
  by (simp only: dead_eval rules_1_def grammar_rules cong: yields_opaque)

lemma dead_2: "all_rules dead_ok rules_2"
  by (simp only: dead_eval rules_2_def grammar_rules cong: yields_opaque)

lemma dead_3: "all_rules dead_ok rules_3"
  by (simp only: dead_eval rules_3_def grammar_rules cong: yields_opaque)

lemma dead_4: "all_rules dead_ok rules_4"
  by (simp only: dead_eval rules_4_def grammar_rules cong: yields_opaque)

lemma dead_5: "all_rules dead_ok rules_5"
  by (simp only: dead_eval rules_5_def grammar_rules cong: yields_opaque)

lemma dead_6: "all_rules dead_ok rules_6"
  by (simp only: dead_eval rules_6_def grammar_rules cong: yields_opaque)

lemma dead_child:
  assumes "valid tsql_grammar (Node r l ts)" and "r \<notin> set dead_rules" and "r \<noteq> RuleDdl_clause" and "t \<in> set ts"
  shows "root t \<notin> Nt ` set dead_rules"
proof -
  obtain e where e: "lang e (map root ts)" "dead_ok r e"
    using all_rules_body [OF tsql_all_rules [OF dead_1 dead_2 dead_3 dead_4 dead_5 dead_6]] assms(1)
    by (metis valid.simps(2))
  with assms(4) lang_mentions have "mentions e (root t)" by fastforce
  with e(2) assms(2,3) show ?thesis
    by (fastforce simp: dead_ok_def all_syms_iff split: sym.splits if_splits)
qed

lemma ddl_dead: "list_all (\<lambda>q. if is_one_of dead_rules q then list_ex (\<lambda>p. fst p = q) covered_rules else True) ddl_rules"
  by (simp add: ddl_rules_def g_ddl_clause_def List.map_filter_simps dead_rules_def covered_rules_def
      del: is_one_of_iff)

lemma ddl_child:
  assumes "ordered tsql_grammar sempred_rules (Node RuleDdl_clause l ts)"
    and "valid tsql_grammar (Node RuleDdl_clause l ts)" and "t \<in> set ts"
  shows "root t \<notin> Nt ` set dead_rules"
proof
  assume dead: "root t \<in> Nt ` set dead_rules"
  have alts: "alts_of tsql_grammar RuleDdl_clause = map (\<lambda>r. (None, Ref r)) ddl_rules"
    using alts_of_rule [OF rule_in_grammar distinct_indices, of g_ddl_clause] ddl_alternatives
    by (simp add: rules_1_def g_ddl_clause_def)
  with assms(2) obtain q where q: "q \<in> set ddl_rules" "map root ts = [Nt q]"
    by (auto simp: body_of_def lang_labelled)
  with assms(3) dead have "q \<in> set dead_rules" by auto
  with q(1) ddl_dead obtain q' where q': "(q, q') \<in> set covered_rules"
    by (fastforce simp: list_all_iff list_ex_iff)
  with covered_earlier have "q' \<in> set (takeWhile (\<lambda>r. r \<noteq> q) ddl_rules)" by (auto simp: list_all_iff)
  from shadowed [OF alts _ assms(1,2) covered_below [OF q'] this] q(2) show False
    by (simp add: sempred_rules_def)
qed

lemma no_dead_rules:
  "valid tsql_grammar t \<Longrightarrow> ordered tsql_grammar sempred_rules t \<Longrightarrow> root t \<notin> Nt ` set dead_rules \<Longrightarrow>
     rules_in t \<inter> set dead_rules = {}"
proof (induction t)
  case (Node r l ts)
  have "root t \<notin> Nt ` set dead_rules" if "t \<in> set ts" for t
  proof (cases "r = RuleDdl_clause")
    case True
    with Node.prems that show ?thesis using ddl_child by blast
  next
    case False
    with Node.prems that show ?thesis using dead_child [OF Node.prems(1)] by auto
  qed
  with Node show ?case by fastforce
qed simp

end
