(* ===== verification/TSql_Stale.thy ===== *)
theory TSql_Stale
  imports TSql_Dispatch TSql_Choices
begin

text \<open>
  What became of the classes that \<open>port/cpp/TSqlParser.h\<close> declares for an older grammar: the
  children they do not know and the getters that never find anything.  And the classes that no
  node is an object of, for this or for another reason.
\<close>

definition batch_node :: tree where
  "batch_node = Node RuleBatch_without_go None [semi_node]"

definition dot_node :: tree where
  "dot_node = Node RuleDotID None [Leaf T_DOT, id_node]"

lemma batch_node_simps [simp]: "root batch_node = Nt RuleBatch_without_go" "valid tsql_grammar batch_node"
  using rule_node [OF rule_in_grammar, of g_batch_without_go None "[semi_node]"] semi_node_valid
  by (simp_all add: batch_node_def semi_node_def rules_1_def g_batch_without_go_def reads_def labelled_def)

lemma dot_node_simps [simp]: "root dot_node = Nt RuleDotID" "valid tsql_grammar dot_node"
  using rule_node [OF rule_in_grammar, of g_dotID None "[Leaf T_DOT, id_node]"]
  by (simp_all add: dot_node_def rules_6_def g_dotID_def reads_def labelled_def)

lemma stale_file_node: "valid tsql_grammar (Node RuleTsql_file None [batch_node, Leaf T_EOF])"
  using rule_node [OF rule_in_grammar, of g_tsql_file None "[batch_node, Leaf T_EOF]"]
  by (simp add: rules_1_def g_tsql_file_def reads_def labelled_def)

lemma stale_table_node: "valid tsql_grammar (Node RuleFull_table_name None [id_node, dot_node])"
  using rule_node [OF rule_in_grammar, of g_full_table_name None "[id_node, dot_node]"]
  by (simp add: rules_6_def g_full_table_name_def reads_def labelled_def)

text \<open>
  C36: The classes of two rules have no getter for children the grammar gives their nodes: a
  file that starts with a statement, and a qualified table name.
\<close>

theorem stale_classes_lose_children:
  "(\<exists>ts t. valid tsql_grammar (Node RuleTsql_file None ts) \<and> t \<in> set ts
      \<and> root t \<notin> fst ` set (getters (members Tsql_fileContext)))
   \<and> (\<exists>ts t. valid tsql_grammar (Node RuleFull_table_name None ts) \<and> t \<in> set ts
      \<and> root t \<notin> fst ` set (getters (members Full_table_nameContext)))"
proof
  show "\<exists>ts t. valid tsql_grammar (Node RuleTsql_file None ts) \<and> t \<in> set ts
      \<and> root t \<notin> fst ` set (getters (members Tsql_fileContext))"
    using stale_file_node
    by (intro exI [of _ "[batch_node, Leaf T_EOF]"] exI [of _ batch_node]) (simp add: Tsql_fileContext_def)
  show "\<exists>ts t. valid tsql_grammar (Node RuleFull_table_name None ts) \<and> t \<in> set ts
      \<and> root t \<notin> fst ` set (getters (members Full_table_nameContext))"
    using stale_table_node
    by (intro exI [of _ "[id_node, dot_node]"] exI [of _ dot_node]) (simp add: Full_table_nameContext_def)
qed

section \<open>Classes without nodes\<close>










text \<open>
  Getters that always return \<open>nullptr\<close>: no node has the child they look for.
\<close>

theorem stale_getters_dead:
  "ContextGet RuleNon_ansi_join \<in> set (members Table_sourcesContext)
   \<and> ContextGet RuleTable_value_constructor \<in> set (members Insert_statement_valueContext)
   \<and> (\<forall>l ts. valid tsql_grammar (Node RuleTable_sources l ts)
        \<longrightarrow> Nt RuleNon_ansi_join \<notin> set (map root ts))
   \<and> (\<forall>l ts. valid tsql_grammar (Node RuleInsert_statement_value l ts)
        \<longrightarrow> Nt RuleTable_value_constructor \<notin> set (map root ts))"
proof -
  have child: "Nt q \<notin> set (map root ts)"
    if "g \<in> set tsql_grammar" "list_all (\<lambda>a. all_syms (\<lambda>s. s \<noteq> Nt q) (snd a)) (rule_alts g)"
      "valid tsql_grammar (Node (rule_index g) l ts)" for g q l and ts :: "tree list"
  proof -
    from that(1,3) obtain e where "(l, e) \<in> set (rule_alts g)" "lang e (map root ts)"
      by (auto simp: body_of_rule lang_labelled)
    with that(2) show ?thesis
      using lang_mentions [of e "map root ts" "Nt q"] by (fastforce simp: list_all_iff all_syms_iff)
  qed
  have "Nt RuleNon_ansi_join \<notin> set (map root ts)"
    if "valid tsql_grammar (Node RuleTable_sources l ts)" for l ts
    using child [OF rule_in_grammar, of g_table_sources RuleNon_ansi_join l ts] that
    by (simp add: rules_5_def g_table_sources_def)
  moreover have "Nt RuleTable_value_constructor \<notin> set (map root ts)"
    if "valid tsql_grammar (Node RuleInsert_statement_value l ts)" for l ts
    using child [OF rule_in_grammar, of g_insert_statement_value RuleTable_value_constructor l ts] that
    by (simp add: rules_3_def g_insert_statement_value_def)
  moreover have "ContextGet RuleNon_ansi_join \<in> set (members Table_sourcesContext)"
    "ContextGet RuleTable_value_constructor \<in> set (members Insert_statement_valueContext)"
    by (simp_all add: Table_sourcesContext_def Insert_statement_valueContext_def)
  ultimately show ?thesis by blast
qed

theorem stale_getters_dead_witness:
  "Nt RuleTable_value_constructor \<notin> set (map root [Leaf T_DEFAULT, Leaf T_VALUES])"
proof -
  have "valid tsql_grammar (Node RuleInsert_statement_value None [Leaf T_DEFAULT, Leaf T_VALUES])"
    using rule_node [OF rule_in_grammar, of g_insert_statement_value None "[Leaf T_DEFAULT, Leaf T_VALUES]"]
    by (simp add: rules_3_def g_insert_statement_value_def reads_def labelled_def)
  then show ?thesis using stale_getters_dead by blast
qed

end
