(* ===== verification/Reach.thy ===== *)
theory Reach
  imports Yields
begin

text \<open>
  Which rules and tokens take part in the trees of a start rule.  The interface asks for a parent of every
  rule, so that following the parents leads to the start rule, and for expressions without an
  empty choice.
\<close>

definition uses :: "grammar \<Rightarrow> rule_id \<Rightarrow> rule_id \<Rightarrow> bool" where
  "uses G r q \<longleftrightarrow> (\<exists>l. mentions (body_of G r l) (Nt q))"

definition occurs_below :: "grammar \<Rightarrow> rule_id \<Rightarrow> rule_id \<Rightarrow> bool" where
  "occurs_below G start r \<longleftrightarrow> (\<exists>t. valid G t \<and> root t = Nt start \<and> r \<in> rules_in t)"

definition token_below :: "grammar \<Rightarrow> rule_id \<Rightarrow> token \<Rightarrow> bool" where
  "token_below G start k \<longleftrightarrow> (\<exists>t. valid G t \<and> root t = Nt start \<and> k \<in> set (yield t))"

lemma mentioned_word:
  assumes "inhabited e" and "mentions e s"
  shows "\<exists>w. lang e w \<and> s \<in> set w"
proof -
  from assms(2) have "mult_of e s \<noteq> None" by (simp add: mentions_iff_mult)
  then have "1 \<le> reached (mult_of e s)" by (intro reached_pos)
  moreover obtain w where "lang e w" "reached (mult_of e s) \<le> count_list w s"
    using mult_of_exact [OF assms(1), of s] unfolding attains_def by blast
  ultimately show ?thesis by (auto intro!: exI [of _ w] simp flip: count_list_pos_iff)
qed

locale rooted_grammar = productive_grammar +
  fixes start :: rule_id and parent :: "rule_id \<Rightarrow> rule_id" and level :: "rule_id \<Rightarrow> nat"
    and dead :: "rule_id \<Rightarrow> bool"
  assumes no_empty_choice: "all_rules (\<lambda>_. inhabited) G"
    and parent_uses: "r \<in> rule_ids G \<Longrightarrow> \<not> dead r \<Longrightarrow> r \<noteq> start \<Longrightarrow>
      uses G (parent r) r \<and> \<not> dead (parent r) \<and> level (parent r) < level r"
begin

lemma body_inhabited:
  assumes "mentions (body_of G r l) s"
  shows "\<exists>w. lang (body_of G r l) w \<and> s \<in> set w"
proof -
  from assms obtain e where e: "(l, e) \<in> set (alts_of G r)" "mentions e s"
    by (auto simp: body_of_def mentions_labelled)
  with no_empty_choice have "inhabited e" by (fastforce simp: all_rules_iff alts_of_in)
  with e mentioned_word show ?thesis by (fastforce simp: body_of_def lang_labelled)
qed

text \<open>A tree can be put below a node of any rule that uses its rule.\<close>

lemma tree_with_child:
  assumes "uses G r q" and "valid G t" and "root t = Nt q"
  shows "\<exists>u. valid G u \<and> root u = Nt r \<and> rules_in t \<subseteq> rules_in u \<and> set (yield t) \<subseteq> set (yield u)"
proof -
  obtain l w where w: "lang (body_of G r l) w" "Nt q \<in> set w"
    using assms(1) body_inhabited unfolding uses_def by blast
  then obtain ts where ts: "map root ts = w" "valid G (Node r l ts)" using complete by blast
  from w(2) ts(1) obtain i where i: "i < length ts" "root (ts ! i) = Nt q"
    by (metis in_set_conv_nth length_map nth_map)
  let ?us = "ts[i := t]"
  have "map root ?us = w"
    using ts(1) i assms(3) by (metis list_update_id map_update nth_map)
  moreover have "\<forall>u \<in> set ?us. valid G u"
    using ts(2) assms(2) set_update_subset_insert [of ts i t] by auto
  moreover have "t \<in> set ?us" using i(1) by (rule set_update_memI)
  ultimately show ?thesis using w(1)
    by (intro exI [of _ "Node r l ?us"]) auto
qed

lemma parent_defined: "mentions (body_of G r l) s \<Longrightarrow> r \<in> rule_ids G"
  unfolding body_of_def mentions_labelled alts_of_in rule_ids_def by auto

text \<open>So every tree is part of a tree of the start rule.\<close>

lemma tree_below_start:
  assumes "valid G t" and "root t = Nt q" and "q \<in> rule_ids G" and "\<not> dead q"
  shows "\<exists>u. valid G u \<and> root u = Nt start \<and> rules_in t \<subseteq> rules_in u \<and> set (yield t) \<subseteq> set (yield u)"
  using assms
proof (induction "level q" arbitrary: q t rule: less_induct)
  case less
  show ?case
  proof (cases "q = start")
    case False
    with less.prems have p: "uses G (parent q) q" "\<not> dead (parent q)" "level (parent q) < level q"
      using parent_uses by blast+
    with less.prems obtain u where u: "valid G u" "root u = Nt (parent q)" "rules_in t \<subseteq> rules_in u"
      "set (yield t) \<subseteq> set (yield u)"
      using tree_with_child by blast
    from p(1) have "parent q \<in> rule_ids G" unfolding uses_def using parent_defined by blast
    from less.hyps [OF p(3) u(1,2) this p(2)] u(3,4) show ?thesis by blast
  qed (use less.prems in blast)
qed

lemma occurs:
  assumes "r \<in> rule_ids G" and "\<not> dead r"
  shows "occurs_below G start r"
proof -
  obtain t where t: "valid G t" "root t = Nt r" using productive assms(1) by blast
  from t(2) have "r \<in> rules_in t" by (cases t) auto
  with tree_below_start [OF t assms] show ?thesis unfolding occurs_below_def by blast
qed

lemma token_occurs:
  assumes "mentions (body_of G r l) (Tm k)" and "\<not> dead r"
  shows "token_below G start k"
proof -
  obtain w where w: "lang (body_of G r l) w" "Tm k \<in> set w" using body_inhabited [OF assms(1)] by blast
  then obtain ts where ts: "map root ts = w" "valid G (Node r l ts)" using complete by blast
  from w(2) ts(1) obtain t where "t \<in> set ts" "root t = Tm k" by auto
  moreover from this(2) have "t = Leaf k" by (cases t) auto
  ultimately have "k \<in> set (yield (Node r l ts))" by force
  with tree_below_start [OF ts(2) _ parent_defined [OF assms(1)] assms(2)] show ?thesis
    unfolding token_below_def by auto
qed

end

end
