(* ===== verification/TSql_Reach.thy ===== *)
theory TSql_Reach
  imports TSql_Syntax Reach
begin

text \<open>
  Every rule of \<open>src/TSqlParser.g4\<close> except \<open>empty_statement\<close> takes part in some tree of
  \<open>tsql_file\<close>: a spanning tree of the references, found by breadth-first search, and its check.
\<close>

definition caller :: "rule_id \<Rightarrow> rule_id" where
  "caller r =
     (if r < 387 then (if r < 257 then (if r < 83 then (if r < 46 then (if r < 33 then (if r < 18
     then (if r < 4 then (if r < 2 then 0 else 612) else (if r < 8 then 3 else (if r < 15 then 7
     else 14))) else (if r < 24 then (if r < 23 then 7 else 0) else (if r < 25 then 3 else (if r
     < 31 then 5 else 30)))) else (if r < 39 then (if r < 35 then (if r < 34 then 32 else 33)
     else (if r < 36 then 32 else (if r < 38 then 35 else 32))) else (if r < 43 then (if r < 41
     then 38 else (if r < 42 then 40 else 33)) else (if r < 44 then 42 else (if r < 45 then 32
     else 44))))) else (if r < 62 then (if r < 53 then (if r < 48 then (if r < 47 then 33 else
     44) else (if r < 49 then 46 else (if r < 52 then 48 else 51))) else (if r < 56 then (if r <
     54 then 46 else (if r < 55 then 53 else 36)) else (if r < 57 then 55 else (if r < 60 then 5
     else 59)))) else (if r < 75 then (if r < 67 then (if r < 64 then 61 else 5) else (if r < 71
     then 66 else (if r < 74 then 5 else 66))) else (if r < 78 then (if r < 76 then 71 else (if r
     < 77 then 72 else 73)) else (if r < 79 then 380 else (if r < 81 then 5 else 80)))))) else
     (if r < 233 then (if r < 185 then (if r < 154 then (if r < 148 then (if r < 85 then 82 else
     5) else (if r < 151 then 314 else (if r < 153 then 5 else 152))) else (if r < 156 then (if r
     < 155 then 153 else 154) else (if r < 183 then 5 else (if r < 184 then 182 else 183)))) else
     (if r < 225 then (if r < 210 then (if r < 188 then 184 else 5) else (if r < 211 then 209
     else (if r < 224 then 5 else 24))) else (if r < 228 then (if r < 226 then 226 else (if r <
     227 then 24 else 226)) else (if r < 229 then 227 else (if r < 232 then 24 else 4))))) else
     (if r < 245 then (if r < 239 then (if r < 236 then (if r < 234 then 232 else 233) else (if r
     < 237 then 4 else (if r < 238 then 236 else 4))) else (if r < 242 then (if r < 240 then 238
     else (if r < 241 then 19 else 4)) else (if r < 243 then 241 else (if r < 244 then 19 else
     4)))) else (if r < 251 then (if r < 247 then (if r < 246 then 232 else 245) else (if r < 249
     then 5 else (if r < 250 then 248 else 249))) else (if r < 254 then (if r < 252 then 5 else
     (if r < 253 then 251 else 252)) else (if r < 255 then 251 else (if r < 256 then 254 else
     255))))))) else (if r < 305 then (if r < 280 then (if r < 267 then (if r < 262 then (if r <
     259 then (if r < 258 then 251 else 257) else (if r < 260 then 251 else (if r < 261 then 259
     else 260))) else (if r < 264 then (if r < 263 then 259 else 262) else (if r < 265 then 295
     else (if r < 266 then 5 else 265)))) else (if r < 273 then (if r < 270 then (if r < 268 then
     266 else 5) else (if r < 271 then 269 else (if r < 272 then 270 else 2))) else (if r < 276
     then (if r < 274 then 272 else (if r < 275 then 2 else 274)) else (if r < 278 then 275 else
     (if r < 279 then 274 else 278))))) else (if r < 294 then (if r < 287 then (if r < 284 then
     (if r < 281 then 2 else 280) else (if r < 285 then 285 else (if r < 286 then 280 else 272)))
     else (if r < 291 then (if r < 288 then 281 else (if r < 290 then 5 else 289)) else (if r <
     292 then 290 else (if r < 293 then 5 else 292)))) else (if r < 299 then (if r < 296 then (if
     r < 295 then 300 else 294) else (if r < 297 then 293 else (if r < 298 then 296 else 2)))
     else (if r < 302 then (if r < 300 then 298 else (if r < 301 then 5 else 300)) else (if r <
     303 then 301 else (if r < 304 then 5 else 303)))))) else (if r < 351 then (if r < 319 then
     (if r < 311 then (if r < 307 then (if r < 306 then 304 else 303) else (if r < 308 then 306
     else (if r < 309 then 303 else 308))) else (if r < 315 then (if r < 312 then 310 else (if r
     < 314 then 308 else 5)) else (if r < 316 then 308 else (if r < 317 then 315 else 316))))
     else (if r < 328 then (if r < 322 then (if r < 320 then 320 else 316) else (if r < 323 then
     321 else (if r < 324 then 320 else 323))) else (if r < 345 then (if r < 343 then 308 else
     (if r < 344 then 303 else 5)) else (if r < 347 then 344 else (if r < 349 then 5 else
     348))))) else (if r < 374 then (if r < 362 then (if r < 358 then (if r < 357 then 5 else
     238) else (if r < 360 then 357 else (if r < 361 then 24 else 360))) else (if r < 369 then
     (if r < 363 then 24 else (if r < 368 then 6 else 24)) else (if r < 372 then 368 else (if r <
     373 then 24 else 612)))) else (if r < 380 then (if r < 376 then (if r < 375 then 372 else
     373) else (if r < 378 then 375 else (if r < 379 then 377 else 374))) else (if r < 384 then
     (if r < 381 then 24 else (if r < 383 then 380 else 382)) else (if r < 385 then 383 else (if
     r < 386 then 382 else 385)))))))) else (if r < 506 then (if r < 451 then (if r < 424 then
     (if r < 404 then (if r < 394 then (if r < 391 then (if r < 390 then 380 else 389) else (if r
     < 392 then 390 else (if r < 393 then 389 else 387))) else (if r < 397 then (if r < 395 then
     380 else 24) else (if r < 398 then 0 else (if r < 403 then 24 else 404)))) else (if r < 410
     then (if r < 407 then (if r < 406 then 424 else 407) else (if r < 408 then 424 else (if r <
     409 then 409 else 424))) else (if r < 415 then (if r < 411 then 411 else (if r < 414 then
     424 else 415)) else (if r < 418 then 424 else (if r < 419 then 419 else 424))))) else (if r
     < 436 then (if r < 430 then (if r < 426 then (if r < 425 then 3 else 380) else (if r < 428
     then 360 else (if r < 429 then 427 else 360))) else (if r < 433 then (if r < 431 then 429
     else (if r < 432 then 300 else 431)) else (if r < 434 then 300 else (if r < 435 then 433
     else 300)))) else (if r < 441 then (if r < 438 then (if r < 437 then 432 else 434) else (if
     r < 439 then 433 else (if r < 440 then 292 else 432))) else (if r < 448 then (if r < 445
     then 440 else (if r < 447 then 300 else 442)) else (if r < 449 then 447 else (if r < 450
     then 362 else 395)))))) else (if r < 480 then (if r < 466 then (if r < 456 then (if r < 453
     then (if r < 452 then 450 else 362) else (if r < 454 then 395 else (if r < 455 then 453 else
     22))) else (if r < 463 then (if r < 457 then 232 else (if r < 458 then 603 else 456)) else
     (if r < 464 then 462 else (if r < 465 then 232 else 464)))) else (if r < 471 then (if r <
     468 then (if r < 467 then 244 else 234) else (if r < 469 then 232 else (if r < 470 then 468
     else 242))) else (if r < 476 then (if r < 473 then 470 else (if r < 475 then 472 else 236))
     else (if r < 477 then 240 else (if r < 479 then 476 else 562))))) else (if r < 492 then (if
     r < 486 then (if r < 482 then (if r < 481 then 242 else 236) else (if r < 483 then 481 else
     (if r < 484 then 479 else 473))) else (if r < 489 then (if r < 487 then 232 else (if r < 488
     then 486 else 487)) else (if r < 490 then 472 else (if r < 491 then 492 else 246)))) else
     (if r < 499 then (if r < 495 then (if r < 494 then 494 else 489) else (if r < 497 then 232
     else (if r < 498 then 495 else 497))) else (if r < 503 then (if r < 501 then 498 else (if r
     < 502 then 500 else 501)) else (if r < 504 then 499 else (if r < 505 then 503 else
     498))))))) else (if r < 565 then (if r < 538 then (if r < 521 then (if r < 516 then (if r <
     509 then (if r < 508 then 505 else 497) else (if r < 514 then 508 else (if r < 515 then 512
     else 513))) else (if r < 518 then (if r < 517 then 507 else 498) else (if r < 519 then 517
     else (if r < 520 then 239 else 456)))) else (if r < 532 then (if r < 524 then (if r < 523
     then 520 else 469) else (if r < 526 then 526 else (if r < 527 then 520 else 526))) else (if
     r < 535 then (if r < 533 then 527 else (if r < 534 then 456 else 527)) else (if r < 536 then
     456 else (if r < 537 then 527 else 456))))) else (if r < 552 then (if r < 545 then (if r <
     541 then (if r < 539 then 453 else 456) else (if r < 542 then 520 else (if r < 543 then 498
     else 460))) else (if r < 548 then (if r < 546 then 246 else (if r < 547 then 232 else 546))
     else (if r < 549 then 232 else (if r < 551 then 498 else 550)))) else (if r < 557 then (if r
     < 554 then (if r < 553 then 548 else 552) else (if r < 555 then 498 else (if r < 556 then
     545 else 235))) else (if r < 562 then (if r < 558 then 222 else (if r < 561 then 520 else
     559)) else (if r < 563 then 456 else (if r < 564 then 562 else 563)))))) else (if r < 589
     then (if r < 578 then (if r < 571 then (if r < 568 then (if r < 567 then 564 else 565) else
     (if r < 569 then 247 else (if r < 570 then 308 else 247))) else (if r < 575 then (if r < 573
     then 570 else (if r < 574 then 66 else 72)) else (if r < 576 then 73 else (if r < 577 then
     226 else 360)))) else (if r < 583 then (if r < 580 then (if r < 579 then 298 else 280) else
     (if r < 581 then 581 else (if r < 582 then 373 else 232))) else (if r < 586 then (if r < 584
     then 456 else (if r < 585 then 248 else 238)) else (if r < 587 then 585 else (if r < 588
     then 298 else 236))))) else (if r < 603 then (if r < 595 then (if r < 591 then (if r < 590
     then 288 else 248) else (if r < 592 then 355 else (if r < 593 then 520 else 230))) else (if
     r < 600 then (if r < 596 then 229 else (if r < 597 then 594 else 230)) else (if r < 601 then
     599 else (if r < 602 then 230 else 360)))) else (if r < 608 then (if r < 605 then (if r <
     604 then 455 else 459) else (if r < 606 then 606 else (if r < 607 then 581 else 292))) else
     (if r < 611 then (if r < 609 then 421 else (if r < 610 then 469 else 395)) else (if r < 612
     then 305 else (if r < 613 then 0 else 576)))))))))"

definition distance :: "rule_id \<Rightarrow> nat" where
  "distance r =
     (if r < 381 then (if r < 256 then (if r < 83 then (if r < 43 then (if r < 31 then (if r < 15
     then (if r < 4 then (if r < 2 then 0 else 2) else (if r < 8 then 3 else 4)) else (if r < 23
     then (if r < 18 then 5 else 4) else (if r < 24 then 0 else (if r < 25 then 3 else 4)))) else
     (if r < 36 then (if r < 34 then (if r < 33 then 5 else 6) else (if r < 35 then 7 else 6))
     else (if r < 39 then (if r < 38 then 7 else 6) else (if r < 41 then 7 else (if r < 42 then 8
     else 7))))) else (if r < 56 then (if r < 49 then (if r < 45 then (if r < 44 then 8 else 6)
     else (if r < 48 then 7 else 8)) else (if r < 53 then (if r < 52 then 9 else 10) else (if r <
     54 then 8 else (if r < 55 then 9 else 8)))) else (if r < 67 then (if r < 60 then (if r < 57
     then 9 else 4) else (if r < 62 then 5 else (if r < 64 then 6 else 4))) else (if r < 74 then
     (if r < 71 then 5 else 4) else (if r < 79 then 5 else (if r < 81 then 4 else 5)))))) else
     (if r < 233 then (if r < 184 then (if r < 153 then (if r < 148 then (if r < 85 then 6 else
     4) else (if r < 151 then 5 else 4)) else (if r < 155 then (if r < 154 then 5 else 6) else
     (if r < 156 then 7 else (if r < 183 then 4 else 5)))) else (if r < 225 then (if r < 188 then
     (if r < 185 then 6 else 7) else (if r < 210 then 4 else (if r < 211 then 5 else 4))) else
     (if r < 227 then (if r < 226 then 5 else 4) else (if r < 228 then 5 else (if r < 229 then 6
     else 4))))) else (if r < 245 then (if r < 238 then (if r < 236 then (if r < 234 then 5 else
     6) else (if r < 237 then 4 else 5)) else (if r < 241 then (if r < 239 then 4 else 5) else
     (if r < 242 then 4 else (if r < 244 then 5 else 4)))) else (if r < 251 then (if r < 247 then
     (if r < 246 then 5 else 6) else (if r < 249 then 4 else (if r < 250 then 5 else 6))) else
     (if r < 253 then (if r < 252 then 4 else 5) else (if r < 254 then 6 else (if r < 255 then 5
     else 6))))))) else (if r < 303 then (if r < 276 then (if r < 266 then (if r < 260 then (if r
     < 258 then (if r < 257 then 7 else 5) else (if r < 259 then 6 else 5)) else (if r < 262 then
     (if r < 261 then 6 else 7) else (if r < 263 then 6 else (if r < 265 then 7 else 4)))) else
     (if r < 271 then (if r < 268 then (if r < 267 then 5 else 6) else (if r < 270 then 4 else
     5)) else (if r < 273 then (if r < 272 then 6 else 3) else (if r < 274 then 4 else (if r <
     275 then 3 else 4))))) else (if r < 290 then (if r < 281 then (if r < 279 then (if r < 278
     then 5 else 4) else (if r < 280 then 5 else 3)) else (if r < 285 then (if r < 284 then 4
     else 5) else (if r < 287 then 4 else (if r < 288 then 5 else 4)))) else (if r < 297 then (if
     r < 292 then (if r < 291 then 5 else 6) else (if r < 293 then 4 else (if r < 295 then 5 else
     6))) else (if r < 299 then (if r < 298 then 7 else 3) else (if r < 301 then 4 else (if r <
     302 then 5 else 6)))))) else (if r < 344 then (if r < 314 then (if r < 307 then (if r < 305
     then (if r < 304 then 4 else 5) else (if r < 306 then 6 else 5)) else (if r < 309 then (if r
     < 308 then 6 else 5) else (if r < 311 then 6 else (if r < 312 then 7 else 6)))) else (if r <
     320 then (if r < 316 then (if r < 315 then 4 else 6) else (if r < 317 then 7 else (if r <
     319 then 8 else 9))) else (if r < 324 then (if r < 322 then 8 else 9) else (if r < 328 then
     10 else (if r < 343 then 6 else 5))))) else (if r < 362 then (if r < 351 then (if r < 347
     then (if r < 345 then 4 else 5) else (if r < 349 then 4 else 5)) else (if r < 358 then (if r
     < 357 then 4 else 5) else (if r < 360 then 6 else (if r < 361 then 4 else 5)))) else (if r <
     375 then (if r < 372 then (if r < 369 then 4 else 5) else (if r < 373 then 4 else (if r <
     374 then 2 else 5))) else (if r < 378 then (if r < 376 then 3 else 4) else (if r < 379 then
     5 else (if r < 380 then 6 else 4)))))))) else (if r < 495 then (if r < 439 then (if r < 409
     then (if r < 394 then (if r < 386 then (if r < 384 then (if r < 383 then 5 else 6) else (if
     r < 385 then 7 else 6)) else (if r < 390 then (if r < 387 then 7 else 5) else (if r < 391
     then 6 else (if r < 392 then 7 else 6)))) else (if r < 403 then (if r < 397 then (if r < 395
     then 5 else 4) else (if r < 398 then 1 else 4)) else (if r < 406 then (if r < 404 then 5
     else 4) else (if r < 407 then 5 else (if r < 408 then 4 else 5))))) else (if r < 428 then
     (if r < 415 then (if r < 411 then (if r < 410 then 4 else 5) else (if r < 414 then 4 else
     5)) else (if r < 419 then (if r < 418 then 4 else 5) else (if r < 424 then 4 else (if r <
     425 then 3 else 5)))) else (if r < 433 then (if r < 430 then (if r < 429 then 6 else 5) else
     (if r < 431 then 6 else (if r < 432 then 5 else 6))) else (if r < 435 then (if r < 434 then
     5 else 6) else (if r < 436 then 5 else (if r < 438 then 7 else 6)))))) else (if r < 469 then
     (if r < 454 then (if r < 447 then (if r < 441 then (if r < 440 then 5 else 7) else (if r <
     445 then 8 else 5)) else (if r < 449 then (if r < 448 then 9 else 10) else (if r < 451 then
     5 else (if r < 452 then 6 else 5)))) else (if r < 464 then (if r < 457 then (if r < 455 then
     6 else 5) else (if r < 458 then 7 else (if r < 463 then 6 else 7))) else (if r < 466 then
     (if r < 465 then 5 else 6) else (if r < 467 then 5 else (if r < 468 then 7 else 5))))) else
     (if r < 483 then (if r < 476 then (if r < 473 then (if r < 471 then 6 else 7) else (if r <
     475 then 8 else 5)) else (if r < 480 then (if r < 477 then 6 else 7) else (if r < 481 then 6
     else (if r < 482 then 5 else 6)))) else (if r < 489 then (if r < 486 then (if r < 484 then 8
     else 9) else (if r < 487 then 5 else (if r < 488 then 6 else 7))) else (if r < 491 then (if
     r < 490 then 8 else 11) else (if r < 492 then 7 else (if r < 494 then 10 else 9))))))) else
     (if r < 556 then (if r < 526 then (if r < 506 then (if r < 501 then (if r < 498 then (if r <
     497 then 5 else 6) else (if r < 499 then 7 else 8)) else (if r < 503 then (if r < 502 then 9
     else 10) else (if r < 504 then 9 else (if r < 505 then 10 else 8)))) else (if r < 517 then
     (if r < 509 then (if r < 508 then 9 else 7) else (if r < 514 then 8 else (if r < 516 then 9
     else 10))) else (if r < 519 then (if r < 518 then 8 else 9) else (if r < 521 then 6 else (if
     r < 524 then 7 else 8))))) else (if r < 542 then (if r < 534 then (if r < 532 then (if r <
     527 then 7 else 8) else (if r < 533 then 9 else 6)) else (if r < 536 then (if r < 535 then 9
     else 6) else (if r < 537 then 9 else (if r < 541 then 6 else 7)))) else (if r < 549 then (if
     r < 546 then (if r < 543 then 8 else 7) else (if r < 547 then 5 else (if r < 548 then 6 else
     5))) else (if r < 552 then (if r < 551 then 8 else 9) else (if r < 553 then 6 else (if r <
     554 then 7 else 8)))))) else (if r < 586 then (if r < 568 then (if r < 562 then (if r < 558
     then (if r < 557 then 7 else 5) else (if r < 561 then 7 else 8)) else (if r < 564 then (if r
     < 563 then 6 else 7) else (if r < 565 then 8 else (if r < 567 then 9 else 10)))) else (if r
     < 578 then (if r < 570 then (if r < 569 then 5 else 6) else (if r < 571 then 5 else (if r <
     573 then 6 else 5))) else (if r < 582 then (if r < 581 then 4 else 3) else (if r < 583 then
     5 else (if r < 584 then 6 else 5))))) else (if r < 603 then (if r < 593 then (if r < 588
     then (if r < 587 then 6 else 4) else (if r < 592 then 5 else 7)) else (if r < 597 then (if r
     < 596 then 5 else 6) else (if r < 600 then 5 else (if r < 601 then 6 else 5)))) else (if r <
     609 then (if r < 605 then (if r < 604 then 6 else 7) else (if r < 606 then 5 else (if r <
     607 then 4 else 5))) else (if r < 611 then (if r < 610 then 7 else 5) else (if r < 612 then
     7 else (if r < 613 then 1 else 6)))))))))"

definition callees :: "rule_id \<Rightarrow> rule_id list" where
  "callees r =
     (if r < 345 then (if r < 237 then (if r < 54 then (if r < 33 then (if r < 15 then (if r < 5
     then (if r < 3 then (if r < 2 then [397, 612] else [280, 272, 274, 298]) else (if r < 4 then
     [4, 7, 24, 5, 424, 6] else [232, 236, 238, 241, 244])) else (if r < 7 then (if r < 6 then
     [25, 30, 59, 66, 72, 73, 71, 80, 87, 88, 143, 145, 303, 182, 188, 314, 156, 157, 159, 161,
     163, 251, 167, 169, 165, 173, 171, 175, 176, 177, 178, 181, 196, 193, 199, 201, 203, 205,
     206, 208, 209, 212, 213, 300, 215, 218, 219, 26, 27, 57, 64, 89, 142, 265, 144, 146, 247,
     189, 190, 147, 151, 158, 160, 162, 164, 248, 168, 170, 166, 174, 172, 268, 85, 152, 222,
     223, 179, 180, 191, 192, 194, 195, 197, 198, 200, 202, 204, 207, 211, 288, 214, 292, 355,
     216, 217, 220, 269, 221, 138, 28, 29, 58, 65, 79, 86, 90, 91, 92, 93, 94, 95, 96, 97, 98,
     99, 120, 100, 101, 107, 108, 102, 103, 104, 105, 106, 109, 110, 111, 351, 344, 112, 113,
     114, 115, 116, 347, 117, 118, 119, 121, 122, 123, 124, 125, 126, 127, 128, 129, 130, 131,
     352, 132, 133, 134, 353, 348, 356, 135, 354, 136, 137, 139, 140, 141, 289] else [363, 364,
     365, 366, 367]) else (if r < 8 then [8, 9, 10, 11, 13, 21, 22, 12, 14, 18, 19, 20] else (if
     r < 14 then [] else [15, 16, 17])))) else (if r < 24 then (if r < 20 then (if r < 19 then []
     else [240, 243]) else (if r < 22 then [] else (if r < 23 then [455] else []))) else (if r <
     30 then (if r < 25 then [226, 402, 230, 229, 224, 362, 360, 372, 368, 231, 400, 380, 395,
     399, 401, 396, 398] else []) else (if r < 31 then [31, 32] else (if r < 32 then [] else [33,
     44, 35, 38]))))) else (if r < 43 then (if r < 38 then (if r < 35 then (if r < 34 then [34,
     46, 42] else []) else (if r < 36 then [37, 36] else (if r < 37 then [55] else []))) else (if
     r < 40 then (if r < 39 then [39, 40] else []) else (if r < 41 then [41] else (if r < 42 then
     [] else [43])))) else (if r < 48 then (if r < 45 then (if r < 44 then [] else [45, 47]) else
     (if r < 46 then [] else (if r < 47 then [48, 53] else []))) else (if r < 51 then (if r < 49
     then [50, 49, 51] else []) else (if r < 52 then [52] else (if r < 53 then [] else [54]))))))
     else (if r < 155 then (if r < 72 then (if r < 61 then (if r < 56 then (if r < 55 then []
     else [56]) else (if r < 59 then [] else (if r < 60 then [60, 61] else []))) else (if r < 66
     then (if r < 62 then [62, 63] else []) else (if r < 67 then [70, 74, 69, 573, 68, 67] else
     (if r < 71 then [] else [75])))) else (if r < 82 then (if r < 74 then (if r < 73 then [76,
     574] else [77, 575]) else (if r < 80 then [] else (if r < 81 then [81, 82] else []))) else
     (if r < 152 then (if r < 83 then [83, 84] else []) else (if r < 153 then [153] else (if r <
     154 then [154] else [155]))))) else (if r < 227 then (if r < 209 then (if r < 183 then (if r
     < 182 then [] else [183]) else (if r < 184 then [184] else (if r < 185 then [185, 186, 187]
     else []))) else (if r < 222 then (if r < 210 then [210] else []) else (if r < 223 then [557]
     else (if r < 226 then [] else [576, 225, 227])))) else (if r < 232 then (if r < 229 then (if
     r < 228 then [228] else []) else (if r < 230 then [595] else (if r < 231 then [593, 594,
     597, 599, 601, 598] else []))) else (if r < 234 then (if r < 233 then [464, 456, 582, 548,
     546, 495, 468, 233, 245, 486] else [234, 235]) else (if r < 235 then [467] else (if r < 236
     then [556] else [237, 475, 588, 481]))))))) else (if r < 279 then (if r < 256 then (if r <
     246 then (if r < 241 then (if r < 239 then (if r < 238 then [] else [357, 585, 239]) else
     (if r < 240 then [519] else [476])) else (if r < 243 then (if r < 242 then [242] else [470,
     480]) else (if r < 244 then [] else (if r < 245 then [466] else [246])))) else (if r < 251
     then (if r < 248 then (if r < 247 then [491, 545] else [570, 568]) else (if r < 249 then
     [590, 584, 249] else (if r < 250 then [250] else []))) else (if r < 253 then (if r < 252
     then [252, 254, 257, 259] else [253]) else (if r < 254 then [] else (if r < 255 then [255]
     else [256]))))) else (if r < 267 then (if r < 261 then (if r < 258 then (if r < 257 then []
     else [258]) else (if r < 259 then [] else (if r < 260 then [260, 262] else [261]))) else (if
     r < 263 then (if r < 262 then [] else [263]) else (if r < 265 then [] else (if r < 266 then
     [266] else [267])))) else (if r < 273 then (if r < 270 then (if r < 269 then [] else [270])
     else (if r < 271 then [271] else (if r < 272 then [] else [286, 273]))) else (if r < 275
     then (if r < 274 then [] else [275, 278]) else (if r < 276 then [276, 277] else (if r < 278
     then [] else [279])))))) else (if r < 302 then (if r < 292 then (if r < 286 then (if r < 281
     then (if r < 280 then [] else [579, 285, 281, 282, 283]) else (if r < 282 then [287] else
     (if r < 285 then [] else [284]))) else (if r < 289 then (if r < 288 then [] else [589]) else
     (if r < 290 then [290] else (if r < 291 then [291] else [])))) else (if r < 297 then (if r <
     294 then (if r < 293 then [293, 607, 439] else [296]) else (if r < 295 then [295] else (if r
     < 296 then [264] else [297]))) else (if r < 299 then (if r < 298 then [] else [578, 587,
     299]) else (if r < 300 then [] else (if r < 301 then [431, 433, 435, 445, 446, 294, 301]
     else [302]))))) else (if r < 314 then (if r < 307 then (if r < 304 then (if r < 303 then []
     else [308, 343, 304, 306]) else (if r < 305 then [305] else (if r < 306 then [611] else
     [307]))) else (if r < 309 then (if r < 308 then [] else [309, 310, 312, 313, 315, 328, 329,
     330, 331, 332, 333, 334, 569, 335, 336, 337, 338, 339, 340, 341, 342]) else (if r < 310 then
     [] else (if r < 311 then [311] else [])))) else (if r < 321 then (if r < 316 then (if r <
     315 then [150, 149, 148] else [316]) else (if r < 317 then [317, 320, 318, 321] else (if r <
     320 then [] else [319, 323]))) else (if r < 323 then (if r < 322 then [322] else []) else
     (if r < 324 then [325, 327, 324, 326] else (if r < 344 then [] else [345, 346])))))))) else
     (if r < 468 then (if r < 410 then (if r < 378 then (if r < 362 then (if r < 356 then (if r <
     349 then (if r < 348 then [] else [349, 350]) else (if r < 355 then [] else [591])) else (if
     r < 358 then (if r < 357 then [] else [358, 359]) else (if r < 360 then [] else (if r < 361
     then [602, 427, 577, 426, 429, 361] else [])))) else (if r < 373 then (if r < 368 then (if r
     < 363 then [449, 452] else []) else (if r < 369 then [369, 370, 371] else (if r < 372 then
     [] else [374]))) else (if r < 375 then (if r < 374 then [581, 375] else [379]) else (if r <
     376 then [377, 376] else (if r < 377 then [] else [378]))))) else (if r < 389 then (if r <
     384 then (if r < 381 then (if r < 380 then [] else [425, 394, 78, 381, 387, 388, 389, 382])
     else (if r < 382 then [] else (if r < 383 then [383, 385] else [384]))) else (if r < 386
     then (if r < 385 then [] else [386]) else (if r < 387 then [] else (if r < 388 then [393]
     else [])))) else (if r < 404 then (if r < 391 then (if r < 390 then [390, 392] else [391])
     else (if r < 395 then [] else (if r < 396 then [610, 450, 453] else []))) else (if r < 407
     then (if r < 405 then [403] else []) else (if r < 408 then [406] else (if r < 409 then []
     else [408])))))) else (if r < 440 then (if r < 425 then (if r < 419 then (if r < 412 then
     (if r < 411 then [] else [410]) else (if r < 415 then [] else (if r < 416 then [414] else
     []))) else (if r < 421 then (if r < 420 then [418] else []) else (if r < 422 then [608] else
     (if r < 424 then [] else [404, 405, 407, 409, 411, 412, 413, 415, 421, 422, 423, 416, 417,
     419, 420])))) else (if r < 431 then (if r < 428 then (if r < 427 then [] else [428]) else
     (if r < 429 then [] else (if r < 430 then [430] else []))) else (if r < 433 then (if r < 432
     then [432] else [436, 440]) else (if r < 434 then [434, 438] else (if r < 435 then [437]
     else []))))) else (if r < 455 then (if r < 448 then (if r < 442 then (if r < 441 then [442,
     443, 441, 444] else []) else (if r < 443 then [447] else (if r < 447 then [] else [448])))
     else (if r < 451 then (if r < 450 then [] else [451]) else (if r < 453 then [] else (if r <
     454 then [454, 538] else [])))) else (if r < 461 then (if r < 457 then (if r < 456 then
     [603] else [459, 583, 520, 533, 535, 537, 539, 540, 460, 462, 461, 458, 562]) else (if r <
     459 then [] else (if r < 460 then [604] else [543, 544]))) else (if r < 463 then (if r < 462
     then [] else [463]) else (if r < 464 then [] else (if r < 465 then [465] else []))))))) else
     (if r < 518 then (if r < 493 then (if r < 479 then (if r < 472 then (if r < 470 then (if r <
     469 then [469] else [523, 609]) else (if r < 471 then [472, 471] else [])) else (if r < 474
     then (if r < 473 then [489, 473, 474] else [485, 484]) else (if r < 476 then [] else (if r <
     477 then [477, 478] else [])))) else (if r < 487 then (if r < 481 then (if r < 480 then
     [483] else []) else (if r < 482 then [482] else (if r < 486 then [] else [487]))) else (if r
     < 489 then (if r < 488 then [488] else []) else (if r < 490 then [494] else (if r < 492 then
     [] else [490]))))) else (if r < 504 then (if r < 499 then (if r < 495 then (if r < 494 then
     [] else [492, 493]) else (if r < 497 then [497] else (if r < 498 then [498, 508] else [549,
     550, 517, 554, 505, 542, 499, 500]))) else (if r < 501 then (if r < 500 then [503] else
     [501]) else (if r < 502 then [502] else (if r < 503 then [] else [504])))) else (if r < 509
     then (if r < 506 then (if r < 505 then [] else [506, 507]) else (if r < 507 then [] else (if
     r < 508 then [516] else [509, 510, 511, 512, 513]))) else (if r < 513 then (if r < 512 then
     [] else [514]) else (if r < 514 then [515] else (if r < 517 then [] else [518])))))) else
     (if r < 565 then (if r < 549 then (if r < 528 then (if r < 521 then (if r < 520 then [] else
     [558, 559, 560, 526, 592, 522, 521, 541]) else (if r < 526 then [] else (if r < 527 then
     [528, 529, 530, 531, 527, 524, 525] else [532, 534, 536]))) else (if r < 546 then (if r <
     545 then [] else [555]) else (if r < 547 then [547] else (if r < 548 then [] else [552]))))
     else (if r < 559 then (if r < 551 then (if r < 550 then [] else [551]) else (if r < 552 then
     [] else (if r < 553 then [553] else []))) else (if r < 562 then (if r < 560 then [561] else
     []) else (if r < 563 then [479, 563] else (if r < 564 then [564] else [566, 565]))))) else
     (if r < 594 then (if r < 577 then (if r < 570 then (if r < 566 then [567] else []) else (if
     r < 571 then [571, 572] else (if r < 576 then [] else [613, 614]))) else (if r < 582 then
     (if r < 581 then [] else [606, 580]) else (if r < 585 then [] else (if r < 586 then [586]
     else [])))) else (if r < 604 then (if r < 599 then (if r < 595 then [596] else []) else (if
     r < 600 then [600] else (if r < 603 then [] else [457]))) else (if r < 607 then (if r < 606
     then [] else [605]) else (if r < 612 then [] else (if r < 613 then [3, 2, 373] else
     [])))))))))"

text \<open>The checks: every callee is mentioned, and every rule is a callee of its caller.\<close>

fun mentions_all :: "(label_id option \<times> ebnf) list \<Rightarrow> rule_id list \<Rightarrow> bool" where
  "mentions_all as [] = True"
| "mentions_all as (q # qs) = (if list_ex (\<lambda>a. \<not> all_syms (\<lambda>s. case s of Tm t \<Rightarrow> True | Nt r \<Rightarrow> r \<noteq> q) (snd a)) as
     then mentions_all as qs else False)"

fun callees_ok :: "grammar \<Rightarrow> bool" where
  "callees_ok [] = True"
| "callees_ok (g # gs) = (if mentions_all (rule_alts g) (callees (rule_index g)) then callees_ok gs else False)"

definition caller_ok :: "rule_id \<Rightarrow> bool" where
  "caller_ok r = (if r = RuleTsql_file then True else if r = RuleEmpty_statement then True
     else if r = RuleBatch then True else if r = RuleNon_ansi_join then True
     else if list_ex (\<lambda>q. q = r) (callees (caller r))
     then (if defined_sym (Nt (caller r)) then (if caller r = RuleEmpty_statement then False
       else distance (caller r) < distance r) else False) else False)"

definition unused_ok :: "rule_id \<Rightarrow> ebnf \<Rightarrow> bool" where
  "unused_ok r = all_syms (\<lambda>s. case s of Tm t \<Rightarrow> True | Nt q \<Rightarrow> q \<noteq> RuleEmpty_statement)"

fun up_to :: "(rule_id \<Rightarrow> bool) \<Rightarrow> rule_id list \<Rightarrow> bool" where
  "up_to P [] = True"
| "up_to P (r # rs) = (if P r then up_to P rs else False)"

lemma up_to_iff: "up_to P rs \<longleftrightarrow> (\<forall>r \<in> set rs. P r)"
  by (induction rs) auto

lemma not_all_syms:
  "\<not> all_syms (\<lambda>s. case s of Tm t \<Rightarrow> True | Nt r \<Rightarrow> r \<noteq> q) e \<longleftrightarrow> mentions e (Nt q)"
proof
  assume "\<not> all_syms (\<lambda>s. case s of Tm t \<Rightarrow> True | Nt r \<Rightarrow> r \<noteq> q) e"
  then obtain s where "mentions e s" "\<not> (case s of Tm t \<Rightarrow> True | Nt r \<Rightarrow> r \<noteq> q)"
    unfolding all_syms_iff by blast
  then show "mentions e (Nt q)" by (cases s) auto
qed (force simp: all_syms_iff)

lemma mentions_all_iff: "mentions_all as qs \<longleftrightarrow> (\<forall>q \<in> set qs. \<exists>a \<in> set as. mentions (snd a) (Nt q))"
  by (induction qs) (auto simp: list_ex_iff not_all_syms)

lemma callees_ok_iff:
  "callees_ok gs \<longleftrightarrow> (\<forall>g \<in> set gs. mentions_all (rule_alts g) (callees (rule_index g)))"
  by (induction gs) auto

lemmas reach_eval = analysis_eval mentions_all.simps callees_ok.simps caller_ok_def up_to.simps
  defined_sym_def callees_def caller_def distance_def upt_rec_numeral Suc_numeral add_num_simps

lemma callees_1: "callees_ok rules_1"
  by (simp only: reach_eval rules_1_def grammar_rules cong: analysis_opaque)

lemma callees_2: "callees_ok rules_2"
  by (simp only: reach_eval rules_2_def grammar_rules cong: analysis_opaque)

lemma callees_3: "callees_ok rules_3"
  by (simp only: reach_eval rules_3_def grammar_rules cong: analysis_opaque)

lemma callees_4: "callees_ok rules_4"
  by (simp only: reach_eval rules_4_def grammar_rules cong: analysis_opaque)

lemma callees_5: "callees_ok rules_5"
  by (simp only: reach_eval rules_5_def grammar_rules cong: analysis_opaque)

lemma callees_6: "callees_ok rules_6"
  by (simp only: reach_eval rules_6_def grammar_rules cong: analysis_opaque)

lemma unused_1: "all_rules unused_ok rules_1"
  by (simp only: reach_eval unused_ok_def rules_1_def grammar_rules cong: analysis_opaque)

lemma unused_2: "all_rules unused_ok rules_2"
  by (simp only: reach_eval unused_ok_def rules_2_def grammar_rules cong: analysis_opaque)

lemma unused_3: "all_rules unused_ok rules_3"
  by (simp only: reach_eval unused_ok_def rules_3_def grammar_rules cong: analysis_opaque)

lemma unused_4: "all_rules unused_ok rules_4"
  by (simp only: reach_eval unused_ok_def rules_4_def grammar_rules cong: analysis_opaque)

lemma unused_5: "all_rules unused_ok rules_5"
  by (simp only: reach_eval unused_ok_def rules_5_def grammar_rules cong: analysis_opaque)

lemma unused_6: "all_rules unused_ok rules_6"
  by (simp only: reach_eval unused_ok_def rules_6_def grammar_rules cong: analysis_opaque)

lemma callers_2: "up_to caller_ok [2..<150]"
  by (simp only: reach_eval cong: opaque(1) case_opaque)

lemma callers_150: "up_to caller_ok [150..<300]"
  by (simp only: reach_eval cong: opaque(1) case_opaque)

lemma callers_300: "up_to caller_ok [300..<450]"
  by (simp only: reach_eval cong: opaque(1) case_opaque)

lemma callers_450: "up_to caller_ok [450..<615]"
  by (simp only: reach_eval cong: opaque(1) case_opaque)

lemma caller_checked: "2 \<le> r \<Longrightarrow> r < 615 \<Longrightarrow> caller_ok r"
  using callers_2 callers_150 callers_300 callers_450 unfolding up_to_iff set_upt atLeastLessThan_iff
  by (cases "r < 150"; cases "r < 300"; cases "r < 450") auto

lemma callees_used:
  assumes "q \<in> set (callees r)" and "r \<in> rule_ids tsql_grammar"
  shows "uses tsql_grammar r q"
proof -
  obtain g where g: "g \<in> set tsql_grammar" "rule_index g = r"
    using assms(2) by (auto simp: rule_ids_def)
  moreover have "callees_ok tsql_grammar"
    using callees_1 callees_2 callees_3 callees_4 callees_5 callees_6
    by (auto simp: callees_ok_iff tsql_grammar_def)
  ultimately obtain a where "a \<in> set (rule_alts g)" "mentions (snd a) (Nt q)"
    using assms(1) by (fastforce simp: callees_ok_iff mentions_all_iff)
  with g show ?thesis unfolding uses_def
    by (intro exI [of _ "fst a"]) (auto simp: body_of_rule [OF g(1), unfolded g(2)] mentions_labelled
        intro: exI [of _ "snd a"])
qed

interpretation tsql_rooted: rooted_grammar tsql_grammar height RuleTsql_file caller distance
  "\<lambda>r. r = RuleEmpty_statement"
proof
  show "all_rules (\<lambda>_. inhabited) tsql_grammar"
    using tsql_all_rules [OF some_1 some_2 some_3 some_4 some_5 some_6] unfolding some_ok_def .
next
  fix r
  assume r: "r \<in> rule_ids tsql_grammar" "\<not> r = RuleEmpty_statement" "r \<noteq> RuleTsql_file"
  then have "2 \<le> r" "r < 615" "r \<noteq> RuleBatch" "r \<noteq> RuleNon_ansi_join" by (auto simp: rule_ids_tsql)
  with r caller_checked [of r] have c: "r \<in> set (callees (caller r))" "defined_sym (Nt (caller r))"
    "caller r \<noteq> RuleEmpty_statement" "distance (caller r) < distance r"
    by (auto simp: caller_ok_def list_ex_iff split: if_splits)
  from c(2) have "caller r \<in> rule_ids tsql_grammar"
    by (auto simp: defined_sym_def rule_ids_tsql split: if_splits)
  with c callees_used show "uses tsql_grammar (caller r) r \<and> \<not> caller r = RuleEmpty_statement
      \<and> distance (caller r) < distance r" by blast
qed

lemma rules_in_defined: "valid tsql_grammar t \<Longrightarrow> rules_in t \<subseteq> rule_ids tsql_grammar"
  by (induction t) (auto simp: body_of_def lang_labelled alts_of_in rule_ids_def)

lemma no_empty_statement:
  "valid tsql_grammar t \<Longrightarrow> root t \<noteq> Nt RuleEmpty_statement \<Longrightarrow> RuleEmpty_statement \<notin> rules_in t"
proof (induction t)
  case (Node r l ts)
  have "s \<noteq> Nt RuleEmpty_statement" if "s \<in> set (map root ts)" for s
  proof -
    from Node.prems(1) obtain e where "lang e (map root ts)" "unused_ok r e"
      using all_rules_body [OF tsql_all_rules [OF unused_1 unused_2 unused_3 unused_4 unused_5 unused_6]]
      by (metis valid.simps(2))
    with that lang_mentions have "mentions e s" by blast
    with \<open>unused_ok r e\<close> show ?thesis
      by (auto simp: unused_ok_def all_syms_iff split: sym.splits)
  qed
  with Node show ?case by auto
qed simp

text \<open>
  C23: The grammar has one rule that cannot be used: the rules that occur in a derivation of a file are all
  its rules but \<open>empty_statement\<close>; the two rules only the header knows do not occur.  Derivations
  are those of the grammar as it is written; of some of these rules the parser never builds a
  node, because an earlier alternative reads the same texts (see C37).
\<close>

theorem rules_of_files:
  "occurs_below tsql_grammar RuleTsql_file r
     \<longleftrightarrow> r \<in> {0..614} - {RuleBatch, RuleNon_ansi_join, RuleEmpty_statement}"
proof
  assume "occurs_below tsql_grammar RuleTsql_file r"
  then obtain t where "valid tsql_grammar t" "root t = Nt RuleTsql_file" "r \<in> rules_in t"
    unfolding occurs_below_def by blast
  moreover from this have "r \<in> rule_ids tsql_grammar" "RuleEmpty_statement \<notin> rules_in t"
    using rules_in_defined no_empty_statement [of t] by auto
  ultimately show "r \<in> {0..614} - {RuleBatch, RuleNon_ansi_join, RuleEmpty_statement}"
    unfolding rule_ids_tsql by blast
next
  assume "r \<in> {0..614} - {RuleBatch, RuleNon_ansi_join, RuleEmpty_statement}"
  then have "r \<in> rule_ids tsql_grammar" "r \<noteq> RuleEmpty_statement" by (auto simp: rule_ids_tsql)
  then show "occurs_below tsql_grammar RuleTsql_file r" by (rule tsql_rooted.occurs)
qed

end
