(* ===== verification/Lexer_Tables.thy ===== *)
theory Lexer_Tables
  imports Prelude
begin

text \<open>
  The tables of \<open>port/cpp/TSqlLexer.cpp\<close> (the vectors handed to \<open>TSqlLexerStaticData\<close>) and the
  token types of \<open>port/cpp/TSqlLexer.h\<close>.
\<close>

text \<open>A literal name carries the quotes of the grammar.\<close>

definition quoted :: "string \<Rightarrow> string" where
  "quoted s = CHR 0x27 # s @ [CHR 0x27]"

text \<open>The rule names: the tokens, then the fragments.\<close>

definition rule_names_1 :: "string list" where
  "rule_names_1 = [
     ''ABORT'', ''ABORT_AFTER_WAIT'', ''ABSENT'', ''ABSOLUTE'',
     ''ACCELERATED_DATABASE_RECOVERY'', ''ACCENT_SENSITIVITY'', ''ACCESS'', ''ACTION'',
     ''ACTIVATION'', ''ACTIVE'', ''ADD'', ''ADDRESS'', ''ADMINISTER'', ''AES'', ''AES_128'',
     ''AES_192'', ''AES_256'', ''AFFINITY'', ''AFTER'', ''AGGREGATE'', ''ALGORITHM'', ''ALL'',
     ''ALLOWED'', ''ALLOW_CONNECTIONS'', ''ALLOW_ENCRYPTED_VALUE_MODIFICATIONS'',
     ''ALLOW_MULTIPLE_EVENT_LOSS'', ''ALLOW_PAGE_LOCKS'', ''ALLOW_ROW_LOCKS'',
     ''ALLOW_SINGLE_EVENT_LOSS'', ''ALLOW_SNAPSHOT_ISOLATION'', ''ALL_CONSTRAINTS'',
     ''ALL_ERRORMSGS'', ''ALL_INDEXES'', ''ALL_LEVELS'', ''ALTER'', ''ALWAYS'', ''AND'',
     ''ANONYMOUS'', ''ANSI_DEFAULTS'', ''ANSI_NULLS'', ''ANSI_NULL_DEFAULT'',
     ''ANSI_NULL_DFLT_OFF'', ''ANSI_NULL_DFLT_ON'', ''ANSI_PADDING'', ''ANSI_WARNINGS'',
     ''ANY'', ''APPEND'', ''APPLICATION'', ''APPLICATION_LOG'', ''APPLOCK_MODE'',
     ''APPLOCK_TEST'', ''APPLY'', ''APP_NAME'', ''ARITHABORT'', ''ARITHIGNORE'', ''AS'',
     ''ASC'', ''ASCII'', ''ASSEMBLY'', ''ASSEMBLYPROPERTY'']"

definition rule_names_2 :: "string list" where
  "rule_names_2 = [
     ''ASYMMETRIC'', ''ASYNCHRONOUS_COMMIT'', ''AT_KEYWORD'', ''AUDIT'', ''AUDIT_GUID'',
     ''AUTHENTICATE'', ''AUTHENTICATION'', ''AUTHORIZATION'', ''AUTO'', ''AUTOGROW_ALL_FILES'',
     ''AUTOGROW_SINGLE_FILE'', ''AUTOMATED_BACKUP_PREFERENCE'', ''AUTOMATIC'',
     ''AUTO_CLEANUP'', ''AUTO_CLOSE'', ''AUTO_CREATE_STATISTICS'', ''AUTO_DROP'',
     ''AUTO_SHRINK'', ''AUTO_UPDATE_STATISTICS'', ''AUTO_UPDATE_STATISTICS_ASYNC'',
     ''AVAILABILITY'', ''AVAILABILITY_MODE'', ''AVG'', ''BACKSLASH'', ''BACKUP'',
     ''BACKUP_CLONEDB'', ''BACKUP_PRIORITY'', ''BASE64'', ''BEFORE'', ''BEGIN'',
     ''BEGIN_DIALOG'', ''BETWEEN'', ''BIGINT'', ''BINARY_CHECKSUM'', ''BINARY_KEYWORD'',
     ''BINDING'', ''BLOB_STORAGE'', ''BLOCK'', ''BLOCKERS'', ''BLOCKING_HIERARCHY'',
     ''BLOCKSIZE'', ''BREAK'', ''BROKER'', ''BROKER_INSTANCE'', ''BROWSE'', ''BUFFER'',
     ''BUFFERCOUNT'', ''BULK'', ''BULK_LOGGED'', ''BY'', ''CACHE'', ''CALLED'', ''CALLER'',
     ''CAP_CPU_PERCENT'', ''CASCADE'', ''CASE'', ''CAST'', ''CATALOG'', ''CATCH'']"

definition rule_names_3 :: "string list" where
  "rule_names_3 = [
     ''CERTENCODED'', ''CERTIFICATE'', ''CERTPRIVATEKEY'', ''CERT_ID'', ''CHANGE'',
     ''CHANGES'', ''CHANGETABLE'', ''CHANGE_RETENTION'', ''CHANGE_TRACKING'', ''CHAR'',
     ''CHARINDEX'', ''CHECK'', ''CHECKALLOC'', ''CHECKCATALOG'', ''CHECKCONSTRAINTS'',
     ''CHECKDB'', ''CHECKFILEGROUP'', ''CHECKPOINT'', ''CHECKSUM'', ''CHECKSUM_AGG'',
     ''CHECKTABLE'', ''CHECK_EXPIRATION'', ''CHECK_POLICY'', ''CLASSIFIER_FUNCTION'',
     ''CLEANTABLE'', ''CLEANUP'', ''CLONEDATABASE'', ''CLOSE'', ''CLUSTER'', ''CLUSTERED'',
     ''COALESCE'', ''COLLATE'', ''COLLECTION'', ''COLUMN'', ''COLUMNPROPERTY'', ''COLUMNS'',
     ''COLUMNSTORE'', ''COLUMNSTORE_ARCHIVE'', ''COLUMN_ENCRYPTION_KEY'',
     ''COLUMN_MASTER_KEY'', ''COL_LENGTH'', ''COL_NAME'', ''COMMIT'', ''COMMITTED'',
     ''COMPATIBILITY_LEVEL'', ''COMPRESS'', ''COMPRESSION'', ''COMPRESSION_DELAY'',
     ''COMPRESS_ALL_ROW_GROUPS'', ''COMPUTE'', ''CONCAT'', ''CONCAT_NULL_YIELDS_NULL'',
     ''CONCAT_WS'', ''CONFIGURATION'', ''CONNECT'', ''CONNECTION'', ''CONNECTIONPROPERTY'',
     ''CONSTRAINT'', ''CONTAINMENT'']"

definition rule_names_4 :: "string list" where
  "rule_names_4 = [
     ''CONTAINS'', ''CONTAINSTABLE'', ''CONTENT'', ''CONTEXT'', ''CONTEXT_INFO'', ''CONTINUE'',
     ''CONTINUE_AFTER_ERROR'', ''CONTRACT'', ''CONTRACT_NAME'', ''CONTROL'', ''CONVERSATION'',
     ''CONVERT'', ''COOKIE'', ''COPY_ONLY'', ''COUNT'', ''COUNTER'', ''COUNT_BIG'', ''CPU'',
     ''CREATE'', ''CREATE_NEW'', ''CREATION_DISPOSITION'', ''CREDENTIAL'', ''CROSS'',
     ''CRYPTOGRAPHIC'', ''CUME_DIST'', ''CURRENT'', ''CURRENT_DATE'', ''CURRENT_REQUEST_ID'',
     ''CURRENT_TIME'', ''CURRENT_TIMESTAMP'', ''CURRENT_TRANSACTION_ID'', ''CURRENT_USER'',
     ''CURSOR'', ''CURSOR_CLOSE_ON_COMMIT'', ''CURSOR_DEFAULT'', ''CURSOR_STATUS'', ''CYCLE'',
     ''DATA'', ''DATABASE'', ''DATABASEPROPERTYEX'', ''DATABASE_MIRRORING'',
     ''DATABASE_PRINCIPAL_ID'', ''DATALENGTH'', ''DATASPACE'', ''DATA_COMPRESSION'',
     ''DATA_PURITY'', ''DATA_SOURCE'', ''DATEADD'', ''DATEDIFF'', ''DATENAME'', ''DATEPART'',
     ''DATE_CORRELATION_OPTIMIZATION'', ''DAYS'', ''DBCC'', ''DBREINDEX'', ''DB_CHAINING'',
     ''DB_FAILOVER'', ''DB_ID'', ''DB_NAME'', ''DDL'']"

definition rule_names_5 :: "string list" where
  "rule_names_5 = [
     ''DEALLOCATE'', ''DECLARE'', ''DECOMPRESS'', ''DECRYPTION'', ''DEFAULT'',
     ''DEFAULT_DATABASE'', ''DEFAULT_DOUBLE_QUOTE'', ''DEFAULT_FULLTEXT_LANGUAGE'',
     ''DEFAULT_LANGUAGE'', ''DEFAULT_SCHEMA'', ''DEFINITION'', ''DELAY'',
     ''DELAYED_DURABILITY'', ''DELETE'', ''DELETED'', ''DENSE_RANK'', ''DENY'', ''DEPENDENTS'',
     ''DES'', ''DESC'', ''DESCRIPTION'', ''DESX'', ''DETERMINISTIC'', ''DHCP'',
     ''DIAGNOSTICS'', ''DIALOG'', ''DIFFERENCE'', ''DIFFERENTIAL'', ''DIRECTORY_NAME'',
     ''DISABLE'', ''DISABLED'', ''DISABLE_BROKER'', ''DISK'', ''DISTINCT'', ''DISTRIBUTED'',
     ''DISTRIBUTION'', ''DOCUMENT'', ''DOLLAR_PARTITION'', ''DOUBLE'', ''DOUBLE_BACK_SLASH'',
     ''DOUBLE_FORWARD_SLASH'', ''DROP'', ''DROPCLEANBUFFERS'', ''DROP_EXISTING'',
     ''DTC_SUPPORT'', ''DUMP'', ''DYNAMIC'', ''ELEMENTS'', ''ELSE'', ''EMERGENCY'', ''EMPTY'',
     ''ENABLE'', ''ENABLED'', ''ENABLE_BROKER'', ''ENCRYPTED'', ''ENCRYPTED_VALUE'',
     ''ENCRYPTION'', ''ENCRYPTION_TYPE'', ''END'', ''ENDPOINT'', ''ENDPOINT_URL'', ''ERRLVL'',
     ''ERROR'', ''ERROR_BROKER_CONVERSATIONS'', ''ERROR_LINE'']"

definition rule_names_6 :: "string list" where
  "rule_names_6 = [
     ''ERROR_MESSAGE'', ''ERROR_NUMBER'', ''ERROR_PROCEDURE'', ''ERROR_SEVERITY'',
     ''ERROR_STATE'', ''ESCAPE'', ''ESTIMATEONLY'', ''EVENT'', ''EVENTDATA'',
     ''EVENT_RETENTION_MODE'', ''EXCEPT'', ''EXCLUSIVE'', ''EXECUTABLE'', ''EXECUTABLE_FILE'',
     ''EXECUTE'', ''EXIST'', ''EXISTS'', ''EXIST_SQUARE_BRACKET'', ''EXIT'', ''EXPAND'',
     ''EXPIREDATE'', ''EXPIRY_DATE'', ''EXPLICIT'', ''EXTENDED_LOGICAL_CHECKS'', ''EXTENSION'',
     ''EXTERNAL'', ''EXTERNAL_ACCESS'', ''FAILOVER'', ''FAILOVER_MODE'', ''FAILURE'',
     ''FAILURECONDITIONLEVEL'', ''FAILURE_CONDITION_LEVEL'', ''FAIL_OPERATION'', ''FAN_IN'',
     ''FAST'', ''FAST_FORWARD'', ''FETCH'', ''FILE'', ''FILEGROUP'', ''FILEGROUPPROPERTY'',
     ''FILEGROUP_ID'', ''FILEGROUP_NAME'', ''FILEGROWTH'', ''FILENAME'', ''FILEPATH'',
     ''FILEPROPERTY'', ''FILEPROPERTYEX'', ''FILESTREAM'', ''FILESTREAM_ON'', ''FILE_ID'',
     ''FILE_IDEX'', ''FILE_NAME'', ''FILE_SNAPSHOT'', ''FILLFACTOR'', ''FILTER'', ''FIRST'',
     ''FIRST_VALUE'', ''FMTONLY'', ''FOLLOWING'', ''FOR'', ''FORCE'', ''FORCED'']"

definition rule_names_7 :: "string list" where
  "rule_names_7 = [
     ''FORCEPLAN'', ''FORCESCAN'', ''FORCESEEK'', ''FORCE_FAILOVER_ALLOW_DATA_LOSS'',
     ''FORCE_SERVICE_ALLOW_DATA_LOSS'', ''FOREIGN'', ''FORMAT'', ''FORMATMESSAGE'',
     ''FORWARD_ONLY'', ''FREE'', ''FREETEXT'', ''FREETEXTTABLE'', ''FROM'', ''FULL'',
     ''FULLSCAN'', ''FULLTEXT'', ''FULLTEXTCATALOGPROPERTY'', ''FULLTEXTSERVICEPROPERTY'',
     ''FUNCTION'', ''GB'', ''GENERATED'', ''GET'', ''GETANCESTOR'', ''GETANSINULL'',
     ''GETDATE'', ''GETDESCENDANT'', ''GETLEVEL'', ''GETREPARENTEDVALUE'', ''GETROOT'',
     ''GETUTCDATE'', ''GET_FILESTREAM_TRANSACTION_CONTEXT'', ''GLOBAL'', ''GO'', ''GOTO'',
     ''GOVERNOR'', ''GRANT'', ''GREATEST'', ''GROUP'', ''GROUPING'', ''GROUPING_ID'',
     ''GROUP_MAX_REQUESTS'', ''HADR'', ''HASH'', ''HASHED'', ''HAS_DBACCESS'',
     ''HAS_PERMS_BY_NAME'', ''HAVING'', ''HEALTHCHECKTIMEOUT'', ''HEALTH_CHECK_TIMEOUT'',
     ''HEAP'', ''HIDDEN_KEYWORD'', ''HIERARCHYID'', ''HIGH'', ''HOLDLOCK'',
     ''HONOR_BROKER_PRIORITY'', ''HOST_ID'', ''HOST_NAME'', ''HOURS'', ''IDENTITY'',
     ''IDENTITYCOL'', ''IDENTITY_INSERT'']"

definition rule_names_8 :: "string list" where
  "rule_names_8 = [
     ''IDENTITY_VALUE'', ''IDENT_CURRENT'', ''IDENT_INCR'', ''IDENT_SEED'', ''IF'',
     ''IGNORE_CONSTRAINTS'', ''IGNORE_DUP_KEY'', ''IGNORE_NONCLUSTERED_COLUMNSTORE_INDEX'',
     ''IGNORE_REPLICATED_TABLE_CACHE'', ''IGNORE_TRIGGERS'', ''IIF'', ''IMMEDIATE'',
     ''IMPERSONATE'', ''IMPLICIT_TRANSACTIONS'', ''IMPORTANCE'', ''IN'', ''INCLUDE'',
     ''INCLUDE_NULL_VALUES'', ''INCREMENT'', ''INCREMENTAL'', ''INDEX'', ''INDEXKEY_PROPERTY'',
     ''INDEXPROPERTY'', ''INDEX_COL'', ''INFINITE'', ''INIT'', ''INITIATOR'', ''INNER'',
     ''INPUT'', ''INSENSITIVE'', ''INSERT'', ''INSERTED'', ''INSTEAD'', ''INT'', ''INTERSECT'',
     ''INTO'', ''IO'', ''IP'', ''IS'', ''ISDESCENDANTOF'', ''ISJSON'', ''ISNULL'',
     ''ISNUMERIC'', ''ISOLATION'', ''IS_MEMBER'', ''IS_ROLEMEMBER'', ''IS_SRVROLEMEMBER'',
     ''JOB'', ''JOIN'', ''JSON'', ''JSON_ARRAY'', ''JSON_MODIFY'', ''JSON_OBJECT'',
     ''JSON_PATH_EXISTS'', ''JSON_QUERY'', ''JSON_VALUE'', ''KB'', ''KEEP'', ''KEEPDEFAULTS'',
     ''KEEPFIXED'', ''KEEPIDENTITY'', ''KERBEROS'', ''KEY'', ''KEYS'', ''KEYSET'',
     ''KEY_PATH'', ''KEY_SOURCE'']"

definition rule_names_9 :: "string list" where
  "rule_names_9 = [
     ''KEY_STORE_PROVIDER_NAME'', ''KILL'', ''LAG'', ''LANGUAGE'', ''LAST'', ''LAST_VALUE'',
     ''LEAD'', ''LEAST'', ''LEFT'', ''LEN'', ''LEVEL'', ''LIBRARY'', ''LIFETIME'', ''LIKE'',
     ''LINENO'', ''LINKED'', ''LINUX'', ''LIST'', ''LISTENER'', ''LISTENER_IP'',
     ''LISTENER_PORT'', ''LISTENER_URL'', ''LOAD'', ''LOB_COMPACTION'', ''LOCAL'',
     ''LOCAL_SERVICE_NAME'', ''LOCATION'', ''LOCK'', ''LOCK_ESCALATION'', ''LOG'', ''LOGIN'',
     ''LOGINPROPERTY'', ''LOOP'', ''LOW'', ''LOWER'', ''LTRIM'', ''MANUAL'', ''MARK'',
     ''MASK'', ''MASKED'', ''MASTER'', ''MATCHED'', ''MATERIALIZED'', ''MAX'', ''MAXDOP'',
     ''MAXRECURSION'', ''MAXSIZE'', ''MAXTRANSFER'', ''MAXVALUE'', ''MAX_CPU_PERCENT'',
     ''MAX_DISPATCH_LATENCY'', ''MAX_DOP'', ''MAX_DURATION'', ''MAX_EVENT_SIZE'',
     ''MAX_FILES'', ''MAX_IOPS_PER_VOLUME'', ''MAX_MEMORY'', ''MAX_MEMORY_PERCENT'',
     ''MAX_OUTSTANDING_IO_PER_VOLUME'', ''MAX_PROCESSES'', ''MAX_QUEUE_READERS'',
     ''MAX_ROLLOVER_FILES'', ''MAX_SIZE'', ''MB'', ''MEDIADESCRIPTION'', ''MEDIANAME'',
     ''MEDIUM'', ''MEMBER'', ''MEMORY_OPTIMIZED_DATA'']"

definition rule_names_10 :: "string list" where
  "rule_names_10 = [
     ''MEMORY_PARTITION_MODE'', ''MERGE'', ''MESSAGE'', ''MESSAGE_FORWARDING'',
     ''MESSAGE_FORWARD_SIZE'', ''MIN'', ''MINUTES'', ''MINVALUE'', ''MIN_ACTIVE_ROWVERSION'',
     ''MIN_CPU_PERCENT'', ''MIN_IOPS_PER_VOLUME'', ''MIN_MEMORY_PERCENT'', ''MIRROR'',
     ''MIRROR_ADDRESS'', ''MIXED_PAGE_ALLOCATION'', ''MODE'', ''MODIFY'',
     ''MODIFY_SQUARE_BRACKET'', ''MOVE'', ''MULTI_USER'', ''MUST_CHANGE'', ''NAME'',
     ''NATIONAL'', ''NCHAR'', ''NEGOTIATE'', ''NESTED_TRIGGERS'', ''NEWID'', ''NEWNAME'',
     ''NEWSEQUENTIALID'', ''NEW_ACCOUNT'', ''NEW_BROKER'', ''NEW_PASSWORD'', ''NEXT'', ''NO'',
     ''NOCHECK'', ''NOCOUNT'', ''NODES'', ''NOEXEC'', ''NOEXPAND'', ''NOFORMAT'',
     ''NOHOLDLOCK'', ''NOINDEX'', ''NOINIT'', ''NOLOCK'', ''NONCLUSTERED'', ''NONE'',
     ''NON_TRANSACTED_ACCESS'', ''NORECOMPUTE'', ''NORECOVERY'', ''NOREWIND'', ''NOSKIP'',
     ''NOT'', ''NOTIFICATION'', ''NOTIFICATIONS'', ''NOUNLOAD'', ''NOWAIT'', ''NO_CHECKSUM'',
     ''NO_COMPRESSION'', ''NO_EVENT_LOSS'', ''NO_INFOMSGS'', ''NO_QUERYSTORE'',
     ''NO_STATISTICS'']"

definition rule_names_11 :: "string list" where
  "rule_names_11 = [
     ''NO_TRUNCATE'', ''NO_WAIT'', ''NTILE'', ''NTLM'', ''NULLIF'', ''NULL_'',
     ''NULL_DOUBLE_QUOTE'', ''NUMANODE'', ''NUMBER'', ''NUMERIC_ROUNDABORT'', ''OBJECT'',
     ''OBJECTPROPERTY'', ''OBJECTPROPERTYEX'', ''OBJECT_DEFINITION'', ''OBJECT_ID'',
     ''OBJECT_NAME'', ''OBJECT_SCHEMA_NAME'', ''OF'', ''OFF'', ''OFFLINE'', ''OFFSET'',
     ''OFFSETS'', ''OLD_ACCOUNT'', ''OLD_PASSWORD'', ''ON'', ''ONLINE'', ''ONLY'',
     ''ON_FAILURE'', ''OPEN'', ''OPENDATASOURCE'', ''OPENJSON'', ''OPENQUERY'', ''OPENROWSET'',
     ''OPENXML'', ''OPEN_EXISTING'', ''OPERATIONS'', ''OPTIMISTIC'', ''OPTIMIZE'',
     ''OPTIMIZE_FOR_SEQUENTIAL_KEY'', ''OPTION'', ''OR'', ''ORDER'', ''ORIGINAL_DB_NAME'',
     ''ORIGINAL_LOGIN'', ''OUT'', ''OUTER'', ''OUTPUT'', ''OVER'', ''OVERRIDE'', ''OWNER'',
     ''OWNERSHIP'', ''PAD_INDEX'', ''PAGE'', ''PAGECOUNT'', ''PAGE_VERIFY'', ''PAGLOCK'',
     ''PARAMETERIZATION'', ''PARAM_NODE'', ''PARSE'', ''PARSENAME'', ''PARSEONLY'',
     ''PARTIAL'', ''PARTITION'', ''PARTITIONS'', ''PARTNER'', ''PASSWORD'', ''PATH'',
     ''PATINDEX'', ''PAUSE'']"

definition rule_names_12 :: "string list" where
  "rule_names_12 = [
     ''PDW_SHOWSPACEUSED'', ''PERCENT'', ''PERCENTILE_CONT'', ''PERCENTILE_DISC'',
     ''PERCENT_RANK'', ''PERMISSIONS'', ''PERMISSION_SET'', ''PERSISTED'',
     ''PERSIST_SAMPLE_PERCENT'', ''PER_CPU'', ''PER_DB'', ''PER_NODE'', ''PHYSICAL_ONLY'',
     ''PIVOT'', ''PLAN'', ''PLATFORM'', ''POISON_MESSAGE_HANDLING'', ''POLICY'', ''POOL'',
     ''PORT'', ''PRECEDING'', ''PRECISION'', ''PREDICATE'', ''PRIMARY'', ''PRIMARY_ROLE'',
     ''PRINT'', ''PRIOR'', ''PRIORITY'', ''PRIORITY_LEVEL'', ''PRIVATE'', ''PRIVATE_KEY'',
     ''PRIVILEGES'', ''PROC'', ''PROCCACHE'', ''PROCEDURE'', ''PROCEDURE_NAME'', ''PROCESS'',
     ''PROFILE'', ''PROPERTY'', ''PROVIDER'', ''PROVIDER_KEY_NAME'', ''PUBLIC'',
     ''PWDCOMPARE'', ''PWDENCRYPT'', ''PYTHON'', ''QUERY'', ''QUERY_SQUARE_BRACKET'',
     ''QUEUE'', ''QUEUE_DELAY'', ''QUOTED_IDENTIFIER'', ''QUOTENAME'', ''R'', ''RAISERROR'',
     ''RANDOMIZED'', ''RANGE'', ''RANK'', ''RAW'', ''RC2'', ''RC4'', ''RC4_128'', ''READ'',
     ''READCOMMITTED'', ''READCOMMITTEDLOCK'', ''READONLY'', ''READPAST'', ''READTEXT'']"

definition rule_names_13 :: "string list" where
  "rule_names_13 = [
     ''READUNCOMMITTED'', ''READWRITE'', ''READ_COMMITTED_SNAPSHOT'', ''READ_ONLY'',
     ''READ_ONLY_ROUTING_LIST'', ''READ_WRITE'', ''READ_WRITE_FILEGROUPS'', ''REBUILD'',
     ''RECEIVE'', ''RECOMPILE'', ''RECONFIGURE'', ''RECOVERY'', ''RECURSIVE_TRIGGERS'',
     ''REFERENCES'', ''REGENERATE'', ''RELATED_CONVERSATION'', ''RELATED_CONVERSATION_GROUP'',
     ''RELATIVE'', ''REMOTE'', ''REMOTE_PROC_TRANSACTIONS'', ''REMOTE_SERVICE_NAME'',
     ''REMOVE'', ''REORGANIZE'', ''REPAIR_ALLOW_DATA_LOSS'', ''REPAIR_FAST'',
     ''REPAIR_REBUILD'', ''REPEATABLE'', ''REPEATABLEREAD'', ''REPLACE'', ''REPLICA'',
     ''REPLICATE'', ''REPLICATION'', ''REQUEST_MAX_CPU_TIME_SEC'',
     ''REQUEST_MAX_MEMORY_GRANT_PERCENT'', ''REQUEST_MEMORY_GRANT_TIMEOUT_SEC'', ''REQUIRED'',
     ''REQUIRED_SYNCHRONIZED_SECONDARIES_TO_COMMIT'', ''RESAMPLE'', ''RESERVE_DISK_SPACE'',
     ''RESET'', ''RESOURCE'', ''RESOURCES'', ''RESOURCE_MANAGER_LOCATION'', ''RESTART'',
     ''RESTORE'', ''RESTRICT'', ''RESTRICTED_USER'', ''RESUMABLE'', ''RESUME'', ''RETAINDAYS'',
     ''RETENTION'', ''RETURN'', ''RETURNS'']"

definition rule_names_14 :: "string list" where
  "rule_names_14 = [
     ''REVERSE'', ''REVERT'', ''REVOKE'', ''REWIND'', ''RIGHT'', ''ROBUST'', ''ROLE'',
     ''ROLLBACK'', ''ROOT'', ''ROUND_ROBIN'', ''ROUTE'', ''ROW'', ''ROWCOUNT'',
     ''ROWCOUNT_BIG'', ''ROWGUID'', ''ROWGUIDCOL'', ''ROWLOCK'', ''ROWS'', ''ROW_NUMBER'',
     ''RSA_1024'', ''RSA_2048'', ''RSA_3072'', ''RSA_4096'', ''RSA_512'', ''RTRIM'', ''RULE'',
     ''SAFE'', ''SAFETY'', ''SAMPLE'', ''SAVE'', ''SCHEDULER'', ''SCHEMA'', ''SCHEMABINDING'',
     ''SCHEMA_ID'', ''SCHEMA_NAME'', ''SCHEME'', ''SCOPED'', ''SCOPE_IDENTITY'', ''SCRIPT'',
     ''SCROLL'', ''SCROLL_LOCKS'', ''SEARCH'', ''SECONDARY'', ''SECONDARY_ONLY'',
     ''SECONDARY_ROLE'', ''SECONDS'', ''SECRET'', ''SECURABLES'', ''SECURITY'',
     ''SECURITYAUDIT'', ''SECURITY_LOG'', ''SEEDING_MODE'', ''SELECT'', ''SELF'',
     ''SEMANTICKEYPHRASETABLE'', ''SEMANTICSIMILARITYDETAILSTABLE'',
     ''SEMANTICSIMILARITYTABLE'', ''SEMI_SENSITIVE'', ''SEND'', ''SENT'', ''SEQUENCE'',
     ''SEQUENCE_NUMBER'', ''SERIALIZABLE'', ''SERVER'', ''SERVERPROPERTY'', ''SERVICE'',
     ''SERVICEBROKER'', ''SERVICE_BROKER'', ''SERVICE_NAME'']"

definition rule_names_15 :: "string list" where
  "rule_names_15 = [
     ''SESSION'', ''SESSIONPROPERTY'', ''SESSION_CONTEXT'', ''SESSION_TIMEOUT'',
     ''SESSION_USER'', ''SET'', ''SETERROR'', ''SETS'', ''SETTINGS'', ''SETUSER'', ''SHARE'',
     ''SHARED'', ''SHOWCONTIG'', ''SHOWPLAN'', ''SHOWPLAN_ALL'', ''SHOWPLAN_TEXT'',
     ''SHOWPLAN_XML'', ''SHRINKLOG'', ''SHUTDOWN'', ''SID'', ''SIGNATURE'', ''SIMPLE'',
     ''SINGLE_USER'', ''SIZE'', ''SKIP_KEYWORD'', ''SMALLINT'', ''SNAPSHOT'', ''SOFTNUMA'',
     ''SOME'', ''SORT_IN_TEMPDB'', ''SOUNDEX'', ''SOURCE'', ''SPACE_KEYWORD'', ''SPARSE'',
     ''SPATIAL_WINDOW_MAX_CELLS'', ''SPECIFICATION'', ''SPLIT'', ''SQL'', ''SQLDUMPERFLAGS'',
     ''SQLDUMPERPATH'', ''SQLDUMPERTIMEOUT'', ''SQL_VARIANT_PROPERTY'', ''STANDBY'', ''START'',
     ''STARTED'', ''STARTUP_STATE'', ''START_DATE'', ''STATE'', ''STATIC'', ''STATISTICS'',
     ''STATISTICS_INCREMENTAL'', ''STATISTICS_NORECOMPUTE'', ''STATS'', ''STATS_DATE'',
     ''STATS_STREAM'', ''STATUS'', ''STATUSONLY'', ''STDEV'', ''STDEVP'', ''STOP'',
     ''STOPLIST'', ''STOPPED'', ''STOP_ON_ERROR'', ''STR'', ''STRING_AGG'']"

definition rule_names_16 :: "string list" where
  "rule_names_16 = [
     ''STRING_ESCAPE'', ''STUFF'', ''SUBJECT'', ''SUBSCRIBE'', ''SUBSCRIPTION'', ''SUBSTRING'',
     ''SUM'', ''SUPPORTED'', ''SUSER_ID'', ''SUSER_NAME'', ''SUSER_SID'', ''SUSER_SNAME'',
     ''SUSPEND'', ''SWITCH'', ''SYMMETRIC'', ''SYNCHRONOUS_COMMIT'', ''SYNONYM'', ''SYSTEM'',
     ''SYSTEM_USER'', ''TABLE'', ''TABLERESULTS'', ''TABLESAMPLE'', ''TABLOCK'', ''TABLOCKX'',
     ''TAKE'', ''TAPE'', ''TARGET'', ''TARGET_RECOVERY_TIME'', ''TB'', ''TCP'',
     ''TEXTIMAGE_ON'', ''TEXTSIZE'', ''THEN'', ''THROW'', ''TIES'', ''TIME'', ''TIMEOUT'',
     ''TIMER'', ''TINYINT'', ''TO'', ''TOP'', ''TORN_PAGE_DETECTION'', ''TOSTRING'', ''TRACE'',
     ''TRACKING'', ''TRACK_CAUSALITY'', ''TRAN'', ''TRANSACTION'', ''TRANSACTION_ID'',
     ''TRANSFER'', ''TRANSFORM_NOISE_WORDS'', ''TRANSLATE'', ''TRIGGER'', ''TRIM'',
     ''TRIPLE_DES'', ''TRIPLE_DES_3KEY'', ''TRUNCATE'', ''TRUSTWORTHY'', ''TRY'', ''TRY_CAST'',
     ''TSEQUAL'', ''TSQL'', ''TWO_DIGIT_YEAR_CUTOFF'', ''TYPE'', ''TYPEPROPERTY'', ''TYPE_ID'',
     ''TYPE_NAME'', ''TYPE_WARNING'', ''UNBOUNDED'']"

definition rule_names_17 :: "string list" where
  "rule_names_17 = [
     ''UNCHECKED'', ''UNCOMMITTED'', ''UNICODE'', ''UNION'', ''UNIQUE'', ''UNKNOWN'',
     ''UNLIMITED'', ''UNLOCK'', ''UNMASK'', ''UNPIVOT'', ''UNSAFE'', ''UOW'', ''UPDATE'',
     ''UPDATETEXT'', ''UPDLOCK'', ''UPPER'', ''URL'', ''USE'', ''USED'', ''USER'', ''USER_ID'',
     ''USER_NAME'', ''USING'', ''VALIDATION'', ''VALID_XML'', ''VALUE'', ''VALUES'',
     ''VALUE_SQUARE_BRACKET'', ''VAR'', ''VARBINARY_KEYWORD'', ''VARP'', ''VARYING'',
     ''VERBOSELOGGING'', ''VERIFY_CLONEDB'', ''VERSION'', ''VIEW'', ''VIEWS'',
     ''VIEW_METADATA'', ''VISIBILITY'', ''WAIT'', ''WAITFOR'', ''WAIT_AT_LOW_PRIORITY'',
     ''WELL_FORMED_XML'', ''WHEN'', ''WHERE'', ''WHILE'', ''WINDOWS'', ''WITH'', ''WITHIN'',
     ''WITHOUT'', ''WITHOUT_ARRAY_WRAPPER'', ''WITNESS'', ''WORK'', ''WORKLOAD'',
     ''WRITETEXT'', ''XACT_ABORT'', ''XACT_STATE'', ''XLOCK'', ''XML'', ''XMLDATA'',
     ''XMLNAMESPACES'', ''XMLSCHEMA'', ''XML_COMPRESSION'', ''XSINIL'', ''ZONE'', ''ABS'',
     ''ACOS'', ''ASIN'', ''ATAN'', ''ATN2'', ''CEILING'', ''COS'', ''COT'', ''DEGREES'',
     ''EXP'', ''FLOOR'']"

definition rule_names_18 :: "string list" where
  "rule_names_18 = [
     ''LOG10'', ''PI'', ''POWER'', ''RADIANS'', ''RAND'', ''ROUND'', ''SIGN'', ''SIN'',
     ''SQRT'', ''SQUARE'', ''TAN'', ''CURRENT_TIMEZONE'', ''CURRENT_TIMEZONE_ID'',
     ''DATE_BUCKET'', ''DATEDIFF_BIG'', ''DATEFROMPARTS'', ''DATETIME2FROMPARTS'',
     ''DATETIMEFROMPARTS'', ''DATETIMEOFFSETFROMPARTS'', ''DATETRUNC'', ''DAY'', ''EOMONTH'',
     ''ISDATE'', ''MONTH'', ''SMALLDATETIMEFROMPARTS'', ''SWITCHOFFSET'', ''SYSDATETIME'',
     ''SYSDATETIMEOFFSET'', ''SYSUTCDATETIME'', ''TIMEFROMPARTS'', ''TODATETIMEOFFSET'',
     ''YEAR'', ''QUARTER'', ''DAYOFYEAR'', ''WEEK'', ''HOUR'', ''MINUTE'', ''SECOND'',
     ''MILLISECOND'', ''MICROSECOND'', ''NANOSECOND'', ''TZOFFSET'', ''ISO_WEEK'', ''WEEKDAY'',
     ''YEAR_ABBR'', ''QUARTER_ABBR'', ''MONTH_ABBR'', ''DAYOFYEAR_ABBR'', ''DAY_ABBR'',
     ''WEEK_ABBR'', ''HOUR_ABBR'', ''MINUTE_ABBR'', ''SECOND_ABBR'', ''MILLISECOND_ABBR'',
     ''MICROSECOND_ABBR'', ''NANOSECOND_ABBR'', ''TZOFFSET_ABBR'', ''ISO_WEEK_ABBR'',
     ''WEEKDAY_ABBR'', ''SP_EXECUTESQL'']"

definition rule_names_19 :: "string list" where
  "rule_names_19 = [
     ''VARCHAR'', ''NVARCHAR'', ''DISK_DRIVE'', ''DOLLAR_ACTION'', ''CURSOR_ROWS'',
     ''FETCH_STATUS'', ''IPV4_ADDR'', ''SPACE'', ''COMMENT'', ''LINE_COMMENT'',
     ''DOUBLE_QUOTE_ID'', ''DOUBLE_QUOTE_BLANK'', ''SINGLE_QUOTE'', ''SQUARE_BRACKET_ID'',
     ''LOCAL_ID'', ''TEMP_ID'', ''DECIMAL'', ''ID'', ''STRING'', ''BINARY'', ''FLOAT'',
     ''REAL'', ''EQUAL'', ''GREATER'', ''LESS'', ''EXCLAMATION'', ''PLUS_ASSIGN'',
     ''MINUS_ASSIGN'', ''MULT_ASSIGN'', ''DIV_ASSIGN'', ''MOD_ASSIGN'', ''AND_ASSIGN'',
     ''XOR_ASSIGN'', ''OR_ASSIGN'', ''DOUBLE_BAR'', ''DOT'', ''UNDERLINE'', ''AT'', ''SHARP'',
     ''DOLLAR'', ''LR_BRACKET'', ''RR_BRACKET'', ''COMMA'', ''SEMI'', ''COLON'',
     ''DOUBLE_COLON'', ''STAR'', ''DIVIDE'', ''MODULE'', ''PLUS'', ''MINUS'', ''BIT_NOT'',
     ''BIT_OR'', ''BIT_AND'', ''BIT_XOR'', ''PLACEHOLDER'', ''LETTER'', ''DEC_DOT_DEC'',
     ''HEX_DIGIT'', ''DEC_DIGIT'', ''FullWidthLetter'']"

definition rule_names :: "string list" where
  "rule_names =
     rule_names_1 @ rule_names_2 @ rule_names_3 @ rule_names_4 @ rule_names_5 @ rule_names_6
     @ rule_names_7 @ rule_names_8 @ rule_names_9 @ rule_names_10 @ rule_names_11 @
     rule_names_12 @ rule_names_13 @ rule_names_14 @ rule_names_15 @ rule_names_16 @
     rule_names_17 @ rule_names_18 @ rule_names_19"

definition channel_names :: "string list" where
  "channel_names = [''DEFAULT_TOKEN_CHANNEL'', ''HIDDEN'']"

definition mode_names :: "string list" where
  "mode_names = [''DEFAULT_MODE'']"

text \<open>The names by token type; type 0 is none.\<close>

definition literal_names_1 :: "string list" where
  "literal_names_1 = [
     [], quoted ''ABORT'', quoted ''ABORT_AFTER_WAIT'', quoted ''ABSENT'', quoted ''ABSOLUTE'',
     quoted ''ACCELERATED_DATABASE_RECOVERY'', quoted ''ACCENT_SENSITIVITY'',
     quoted ''ACCESS'', quoted ''ACTION'', quoted ''ACTIVATION'', quoted ''ACTIVE'',
     quoted ''ADD'', quoted ''ADDRESS'', quoted ''ADMINISTER'', quoted ''AES'',
     quoted ''AES_128'', quoted ''AES_192'', quoted ''AES_256'', quoted ''AFFINITY'',
     quoted ''AFTER'', quoted ''AGGREGATE'', quoted ''ALGORITHM'', quoted ''ALL'',
     quoted ''ALLOWED'', quoted ''ALLOW_CONNECTIONS'',
     quoted ''ALLOW_ENCRYPTED_VALUE_MODIFICATIONS'', quoted ''ALLOW_MULTIPLE_EVENT_LOSS'',
     quoted ''ALLOW_PAGE_LOCKS'', quoted ''ALLOW_ROW_LOCKS'',
     quoted ''ALLOW_SINGLE_EVENT_LOSS'', quoted ''ALLOW_SNAPSHOT_ISOLATION'',
     quoted ''ALL_CONSTRAINTS'', quoted ''ALL_ERRORMSGS'', quoted ''ALL_INDEXES'',
     quoted ''ALL_LEVELS'', quoted ''ALTER'', quoted ''ALWAYS'', quoted ''AND'',
     quoted ''ANONYMOUS'', quoted ''ANSI_DEFAULTS'', quoted ''ANSI_NULLS'',
     quoted ''ANSI_NULL_DEFAULT'', quoted ''ANSI_NULL_DFLT_OFF'', quoted ''ANSI_NULL_DFLT_ON'',
     quoted ''ANSI_PADDING'', quoted ''ANSI_WARNINGS'', quoted ''ANY'', quoted ''APPEND'',
     quoted ''APPLICATION'', quoted ''APPLICATION_LOG'', quoted ''APPLOCK_MODE'',
     quoted ''APPLOCK_TEST'', quoted ''APPLY'', quoted ''APP_NAME'', quoted ''ARITHABORT'',
     quoted ''ARITHIGNORE'']"

definition literal_names_2 :: "string list" where
  "literal_names_2 = [
     quoted ''AS'', quoted ''ASC'', quoted ''ASCII'', quoted ''ASSEMBLY'',
     quoted ''ASSEMBLYPROPERTY'', quoted ''ASYMMETRIC'', quoted ''ASYNCHRONOUS_COMMIT'',
     quoted ''AT'', quoted ''AUDIT'', quoted ''AUDIT_GUID'', quoted ''AUTHENTICATE'',
     quoted ''AUTHENTICATION'', quoted ''AUTHORIZATION'', quoted ''AUTO'',
     quoted ''AUTOGROW_ALL_FILES'', quoted ''AUTOGROW_SINGLE_FILE'',
     quoted ''AUTOMATED_BACKUP_PREFERENCE'', quoted ''AUTOMATIC'', quoted ''AUTO_CLEANUP'',
     quoted ''AUTO_CLOSE'', quoted ''AUTO_CREATE_STATISTICS'', quoted ''AUTO_DROP'',
     quoted ''AUTO_SHRINK'', quoted ''AUTO_UPDATE_STATISTICS'',
     quoted ''AUTO_UPDATE_STATISTICS_ASYNC'', quoted ''AVAILABILITY'',
     quoted ''AVAILABILITY_MODE'', quoted ''AVG'', quoted [CHR 0x5C], quoted ''BACKUP'',
     quoted ''BACKUP_CLONEDB'', quoted ''BACKUP_PRIORITY'', quoted ''BASE64'',
     quoted ''BEFORE'', quoted ''BEGIN'', quoted ''BEGIN_DIALOG'', quoted ''BETWEEN'',
     quoted ''BIGINT'', quoted ''BINARY_CHECKSUM'', quoted ''BINARY'', quoted ''BINDING'',
     quoted ''BLOB_STORAGE'', quoted ''BLOCK'', quoted ''BLOCKERS'',
     quoted ''BLOCKING_HIERARCHY'', quoted ''BLOCKSIZE'', quoted ''BREAK'', quoted ''BROKER'',
     quoted ''BROKER_INSTANCE'', quoted ''BROWSE'', quoted ''BUFFER'', quoted ''BUFFERCOUNT'',
     quoted ''BULK'', quoted ''BULK_LOGGED'', quoted ''BY'', quoted ''CACHE'']"

definition literal_names_3 :: "string list" where
  "literal_names_3 = [
     quoted ''CALLED'', quoted ''CALLER'', quoted ''CAP_CPU_PERCENT'', quoted ''CASCADE'',
     quoted ''CASE'', quoted ''CAST'', quoted ''CATALOG'', quoted ''CATCH'',
     quoted ''CERTENCODED'', quoted ''CERTIFICATE'', quoted ''CERTPRIVATEKEY'',
     quoted ''CERT_ID'', quoted ''CHANGE'', quoted ''CHANGES'', quoted ''CHANGETABLE'',
     quoted ''CHANGE_RETENTION'', quoted ''CHANGE_TRACKING'', quoted ''CHAR'',
     quoted ''CHARINDEX'', quoted ''CHECK'', quoted ''CHECKALLOC'', quoted ''CHECKCATALOG'',
     quoted ''CHECKCONSTRAINTS'', quoted ''CHECKDB'', quoted ''CHECKFILEGROUP'',
     quoted ''CHECKPOINT'', quoted ''CHECKSUM'', quoted ''CHECKSUM_AGG'',
     quoted ''CHECKTABLE'', quoted ''CHECK_EXPIRATION'', quoted ''CHECK_POLICY'',
     quoted ''CLASSIFIER_FUNCTION'', quoted ''CLEANTABLE'', quoted ''CLEANUP'',
     quoted ''CLONEDATABASE'', quoted ''CLOSE'', quoted ''CLUSTER'', quoted ''CLUSTERED'',
     quoted ''COALESCE'', quoted ''COLLATE'', quoted ''COLLECTION'', quoted ''COLUMN'',
     quoted ''COLUMNPROPERTY'', quoted ''COLUMNS'', quoted ''COLUMNSTORE'',
     quoted ''COLUMNSTORE_ARCHIVE'', quoted ''COLUMN_ENCRYPTION_KEY'',
     quoted ''COLUMN_MASTER_KEY'', quoted ''COL_LENGTH'', quoted ''COL_NAME'',
     quoted ''COMMIT'', quoted ''COMMITTED'', quoted ''COMPATIBILITY_LEVEL'']"

definition literal_names_4 :: "string list" where
  "literal_names_4 = [
     quoted ''COMPRESS'', quoted ''COMPRESSION'', quoted ''COMPRESSION_DELAY'',
     quoted ''COMPRESS_ALL_ROW_GROUPS'', quoted ''COMPUTE'', quoted ''CONCAT'',
     quoted ''CONCAT_NULL_YIELDS_NULL'', quoted ''CONCAT_WS'', quoted ''CONFIGURATION'',
     quoted ''CONNECT'', quoted ''CONNECTION'', quoted ''CONNECTIONPROPERTY'',
     quoted ''CONSTRAINT'', quoted ''CONTAINMENT'', quoted ''CONTAINS'',
     quoted ''CONTAINSTABLE'', quoted ''CONTENT'', quoted ''CONTEXT'', quoted ''CONTEXT_INFO'',
     quoted ''CONTINUE'', quoted ''CONTINUE_AFTER_ERROR'', quoted ''CONTRACT'',
     quoted ''CONTRACT_NAME'', quoted ''CONTROL'', quoted ''CONVERSATION'', [],
     quoted ''COOKIE'', quoted ''COPY_ONLY'', quoted ''COUNT'', quoted ''COUNTER'',
     quoted ''COUNT_BIG'', quoted ''CPU'', quoted ''CREATE'', quoted ''CREATE_NEW'',
     quoted ''CREATION_DISPOSITION'', quoted ''CREDENTIAL'', quoted ''CROSS'',
     quoted ''CRYPTOGRAPHIC'', quoted ''CUME_DIST'', quoted ''CURRENT'',
     quoted ''CURRENT_DATE'', quoted ''CURRENT_REQUEST_ID'', quoted ''CURRENT_TIME'',
     quoted ''CURRENT_TIMESTAMP'', quoted ''CURRENT_TRANSACTION_ID'', quoted ''CURRENT_USER'',
     quoted ''CURSOR'', quoted ''CURSOR_CLOSE_ON_COMMIT'', quoted ''CURSOR_DEFAULT'',
     quoted ''CURSOR_STATUS'', quoted ''CYCLE'', quoted ''DATA'', quoted ''DATABASE'',
     quoted ''DATABASEPROPERTYEX'']"

definition literal_names_5 :: "string list" where
  "literal_names_5 = [
     quoted ''DATABASE_MIRRORING'', quoted ''DATABASE_PRINCIPAL_ID'', quoted ''DATALENGTH'',
     quoted ''DATASPACE'', quoted ''DATA_COMPRESSION'', quoted ''DATA_PURITY'',
     quoted ''DATA_SOURCE'', quoted ''DATEADD'', quoted ''DATEDIFF'', quoted ''DATENAME'',
     quoted ''DATEPART'', quoted ''DATE_CORRELATION_OPTIMIZATION'', quoted ''DAYS'',
     quoted ''DBCC'', quoted ''DBREINDEX'', quoted ''DB_CHAINING'', quoted ''DB_FAILOVER'',
     quoted ''DB_ID'', quoted ''DB_NAME'', quoted ''DDL'', quoted ''DEALLOCATE'',
     quoted ''DECLARE'', quoted ''DECOMPRESS'', quoted ''DECRYPTION'', quoted ''DEFAULT'',
     quoted ''DEFAULT_DATABASE'', [], quoted ''DEFAULT_FULLTEXT_LANGUAGE'',
     quoted ''DEFAULT_LANGUAGE'', quoted ''DEFAULT_SCHEMA'', quoted ''DEFINITION'',
     quoted ''DELAY'', quoted ''DELAYED_DURABILITY'', quoted ''DELETE'', quoted ''DELETED'',
     quoted ''DENSE_RANK'', quoted ''DENY'', quoted ''DEPENDENTS'', quoted ''DES'',
     quoted ''DESC'', quoted ''DESCRIPTION'', quoted ''DESX'', quoted ''DETERMINISTIC'',
     quoted ''DHCP'', quoted ''DIAGNOSTICS'', quoted ''DIALOG'', quoted ''DIFFERENCE'',
     quoted ''DIFFERENTIAL'', quoted ''DIRECTORY_NAME'', quoted ''DISABLE'',
     quoted ''DISABLED'', quoted ''DISABLE_BROKER'', quoted ''DISK'', quoted ''DISTINCT'',
     quoted ''DISTRIBUTED'', quoted ''DISTRIBUTION'', quoted ''DOCUMENT'']"

definition literal_names_6 :: "string list" where
  "literal_names_6 = [
     quoted ''$PARTITION'', quoted ''DOUBLE'', quoted [CHR 0x5C, CHR 0x5C], quoted ''//'',
     quoted ''DROP'', quoted ''DROPCLEANBUFFERS'', quoted ''DROP_EXISTING'',
     quoted ''DTC_SUPPORT'', quoted ''DUMP'', quoted ''DYNAMIC'', quoted ''ELEMENTS'',
     quoted ''ELSE'', quoted ''EMERGENCY'', quoted ''EMPTY'', quoted ''ENABLE'',
     quoted ''ENABLED'', quoted ''ENABLE_BROKER'', quoted ''ENCRYPTED'',
     quoted ''ENCRYPTED_VALUE'', quoted ''ENCRYPTION'', quoted ''ENCRYPTION_TYPE'',
     quoted ''END'', quoted ''ENDPOINT'', quoted ''ENDPOINT_URL'', quoted ''ERRLVL'',
     quoted ''ERROR'', quoted ''ERROR_BROKER_CONVERSATIONS'', quoted ''ERROR_LINE'',
     quoted ''ERROR_MESSAGE'', quoted ''ERROR_NUMBER'', quoted ''ERROR_PROCEDURE'',
     quoted ''ERROR_SEVERITY'', quoted ''ERROR_STATE'', quoted ''ESCAPE'',
     quoted ''ESTIMATEONLY'', quoted ''EVENT'', quoted ''EVENTDATA'',
     quoted ''EVENT_RETENTION_MODE'', quoted ''EXCEPT'', quoted ''EXCLUSIVE'',
     quoted ''EXECUTABLE'', quoted ''EXECUTABLE_FILE'', [], quoted ''EXIST'',
     quoted ''EXISTS'', quoted ''[EXIST]'', quoted ''EXIT'', quoted ''EXPAND'',
     quoted ''EXPIREDATE'', quoted ''EXPIRY_DATE'', quoted ''EXPLICIT'',
     quoted ''EXTENDED_LOGICAL_CHECKS'', quoted ''EXTENSION'', quoted ''EXTERNAL'',
     quoted ''EXTERNAL_ACCESS'', quoted ''FAILOVER'', quoted ''FAILOVER_MODE'',
     quoted ''FAILURE'', quoted ''FAILURECONDITIONLEVEL'']"

definition literal_names_7 :: "string list" where
  "literal_names_7 = [
     quoted ''FAILURE_CONDITION_LEVEL'', quoted ''FAIL_OPERATION'', quoted ''FAN_IN'',
     quoted ''FAST'', quoted ''FAST_FORWARD'', quoted ''FETCH'', quoted ''FILE'',
     quoted ''FILEGROUP'', quoted ''FILEGROUPPROPERTY'', quoted ''FILEGROUP_ID'',
     quoted ''FILEGROUP_NAME'', quoted ''FILEGROWTH'', quoted ''FILENAME'',
     quoted ''FILEPATH'', quoted ''FILEPROPERTY'', quoted ''FILEPROPERTYEX'',
     quoted ''FILESTREAM'', quoted ''FILESTREAM_ON'', quoted ''FILE_ID'', quoted ''FILE_IDEX'',
     quoted ''FILE_NAME'', quoted ''FILE_SNAPSHOT'', quoted ''FILLFACTOR'', quoted ''FILTER'',
     quoted ''FIRST'', quoted ''FIRST_VALUE'', quoted ''FMTONLY'', quoted ''FOLLOWING'',
     quoted ''FOR'', quoted ''FORCE'', quoted ''FORCED'', quoted ''FORCEPLAN'',
     quoted ''FORCESCAN'', quoted ''FORCESEEK'', quoted ''FORCE_FAILOVER_ALLOW_DATA_LOSS'',
     quoted ''FORCE_SERVICE_ALLOW_DATA_LOSS'', quoted ''FOREIGN'', quoted ''FORMAT'',
     quoted ''FORMATMESSAGE'', quoted ''FORWARD_ONLY'', quoted ''FREE'', quoted ''FREETEXT'',
     quoted ''FREETEXTTABLE'', quoted ''FROM'', quoted ''FULL'', quoted ''FULLSCAN'',
     quoted ''FULLTEXT'', quoted ''FULLTEXTCATALOGPROPERTY'',
     quoted ''FULLTEXTSERVICEPROPERTY'', quoted ''FUNCTION'', quoted ''GB'',
     quoted ''GENERATED'', quoted ''GET'', quoted ''GETANCESTOR'', quoted ''GETANSINULL'']"

definition literal_names_8 :: "string list" where
  "literal_names_8 = [
     quoted ''GETDATE'', quoted ''GETDESCENDANT'', quoted ''GETLEVEL'',
     quoted ''GETREPARENTEDVALUE'', quoted ''GETROOT'', quoted ''GETUTCDATE'',
     quoted ''GET_FILESTREAM_TRANSACTION_CONTEXT'', quoted ''GLOBAL'', quoted ''GO'',
     quoted ''GOTO'', quoted ''GOVERNOR'', quoted ''GRANT'', quoted ''GREATEST'',
     quoted ''GROUP'', quoted ''GROUPING'', quoted ''GROUPING_ID'',
     quoted ''GROUP_MAX_REQUESTS'', quoted ''HADR'', quoted ''HASH'', quoted ''HASHED'',
     quoted ''HAS_DBACCESS'', quoted ''HAS_PERMS_BY_NAME'', quoted ''HAVING'',
     quoted ''HEALTHCHECKTIMEOUT'', quoted ''HEALTH_CHECK_TIMEOUT'', quoted ''HEAP'',
     quoted ''HIDDEN'', quoted ''HIERARCHYID'', quoted ''HIGH'', quoted ''HOLDLOCK'',
     quoted ''HONOR_BROKER_PRIORITY'', quoted ''HOST_ID'', quoted ''HOST_NAME'',
     quoted ''HOURS'', quoted ''IDENTITY'', quoted ''IDENTITYCOL'', quoted ''IDENTITY_INSERT'',
     quoted ''IDENTITY_VALUE'', quoted ''IDENT_CURRENT'', quoted ''IDENT_INCR'',
     quoted ''IDENT_SEED'', quoted ''IF'', quoted ''IGNORE_CONSTRAINTS'',
     quoted ''IGNORE_DUP_KEY'', quoted ''IGNORE_NONCLUSTERED_COLUMNSTORE_INDEX'',
     quoted ''IGNORE_REPLICATED_TABLE_CACHE'', quoted ''IGNORE_TRIGGERS'', quoted ''IIF'',
     quoted ''IMMEDIATE'', quoted ''IMPERSONATE'', quoted ''IMPLICIT_TRANSACTIONS'']"

definition literal_names_9 :: "string list" where
  "literal_names_9 = [
     quoted ''IMPORTANCE'', quoted ''IN'', quoted ''INCLUDE'', quoted ''INCLUDE_NULL_VALUES'',
     quoted ''INCREMENT'', quoted ''INCREMENTAL'', quoted ''INDEX'',
     quoted ''INDEXKEY_PROPERTY'', quoted ''INDEXPROPERTY'', quoted ''INDEX_COL'',
     quoted ''INFINITE'', quoted ''INIT'', quoted ''INITIATOR'', quoted ''INNER'',
     quoted ''INPUT'', quoted ''INSENSITIVE'', quoted ''INSERT'', quoted ''INSERTED'',
     quoted ''INSTEAD'', quoted ''INT'', quoted ''INTERSECT'', quoted ''INTO'', quoted ''IO'',
     quoted ''IP'', quoted ''IS'', quoted ''ISDESCENDANTOF'', quoted ''ISJSON'',
     quoted ''ISNULL'', quoted ''ISNUMERIC'', quoted ''ISOLATION'', quoted ''IS_MEMBER'',
     quoted ''IS_ROLEMEMBER'', quoted ''IS_SRVROLEMEMBER'', quoted ''JOB'', quoted ''JOIN'',
     quoted ''JSON'', quoted ''JSON_ARRAY'', quoted ''JSON_MODIFY'', quoted ''JSON_OBJECT'',
     quoted ''JSON_PATH_EXISTS'', quoted ''JSON_QUERY'', quoted ''JSON_VALUE'', quoted ''KB'',
     quoted ''KEEP'', quoted ''KEEPDEFAULTS'', quoted ''KEEPFIXED'', quoted ''KEEPIDENTITY'',
     quoted ''KERBEROS'', quoted ''KEY'', quoted ''KEYS'', quoted ''KEYSET'',
     quoted ''KEY_PATH'', quoted ''KEY_SOURCE'', quoted ''KEY_STORE_PROVIDER_NAME'',
     quoted ''KILL'', quoted ''LAG'', quoted ''LANGUAGE'', quoted ''LAST'',
     quoted ''LAST_VALUE'', quoted ''LEAD'', quoted ''LEAST'', quoted ''LEFT'', quoted ''LEN'']"

definition literal_names_10 :: "string list" where
  "literal_names_10 = [
     quoted ''LEVEL'', quoted ''LIBRARY'', quoted ''LIFETIME'', quoted ''LIKE'',
     quoted ''LINENO'', quoted ''LINKED'', quoted ''LINUX'', quoted ''LIST'',
     quoted ''LISTENER'', quoted ''LISTENER_IP'', quoted ''LISTENER_PORT'',
     quoted ''LISTENER_URL'', quoted ''LOAD'', quoted ''LOB_COMPACTION'', quoted ''LOCAL'',
     quoted ''LOCAL_SERVICE_NAME'', quoted ''LOCATION'', quoted ''LOCK'',
     quoted ''LOCK_ESCALATION'', quoted ''LOG'', quoted ''LOGIN'', quoted ''LOGINPROPERTY'',
     quoted ''LOOP'', quoted ''LOW'', quoted ''LOWER'', quoted ''LTRIM'', quoted ''MANUAL'',
     quoted ''MARK'', quoted ''MASK'', quoted ''MASKED'', quoted ''MASTER'',
     quoted ''MATCHED'', quoted ''MATERIALIZED'', quoted ''MAX'', quoted ''MAXDOP'',
     quoted ''MAXRECURSION'', quoted ''MAXSIZE'', quoted ''MAXTRANSFER'', quoted ''MAXVALUE'',
     quoted ''MAX_CPU_PERCENT'', quoted ''MAX_DISPATCH_LATENCY'', quoted ''MAX_DOP'',
     quoted ''MAX_DURATION'', quoted ''MAX_EVENT_SIZE'', quoted ''MAX_FILES'',
     quoted ''MAX_IOPS_PER_VOLUME'', quoted ''MAX_MEMORY'', quoted ''MAX_MEMORY_PERCENT'',
     quoted ''MAX_OUTSTANDING_IO_PER_VOLUME'', quoted ''MAX_PROCESSES'',
     quoted ''MAX_QUEUE_READERS'', quoted ''MAX_ROLLOVER_FILES'', quoted ''MAX_SIZE'',
     quoted ''MB'', quoted ''MEDIADESCRIPTION'', quoted ''MEDIANAME'', quoted ''MEDIUM'',
     quoted ''MEMBER'', quoted ''MEMORY_OPTIMIZED_DATA'']"

definition literal_names_11 :: "string list" where
  "literal_names_11 = [
     quoted ''MEMORY_PARTITION_MODE'', quoted ''MERGE'', quoted ''MESSAGE'',
     quoted ''MESSAGE_FORWARDING'', quoted ''MESSAGE_FORWARD_SIZE'', quoted ''MIN'',
     quoted ''MINUTES'', quoted ''MINVALUE'', quoted ''MIN_ACTIVE_ROWVERSION'',
     quoted ''MIN_CPU_PERCENT'', quoted ''MIN_IOPS_PER_VOLUME'', quoted ''MIN_MEMORY_PERCENT'',
     quoted ''MIRROR'', quoted ''MIRROR_ADDRESS'', quoted ''MIXED_PAGE_ALLOCATION'',
     quoted ''MODE'', quoted ''MODIFY'', quoted ''[MODIFY]'', quoted ''MOVE'',
     quoted ''MULTI_USER'', quoted ''MUST_CHANGE'', quoted ''NAME'', quoted ''NATIONAL'',
     quoted ''NCHAR'', quoted ''NEGOTIATE'', quoted ''NESTED_TRIGGERS'', quoted ''NEWID'',
     quoted ''NEWNAME'', quoted ''NEWSEQUENTIALID'', quoted ''NEW_ACCOUNT'',
     quoted ''NEW_BROKER'', quoted ''NEW_PASSWORD'', quoted ''NEXT'', quoted ''NO'',
     quoted ''NOCHECK'', quoted ''NOCOUNT'', quoted ''NODES'', quoted ''NOEXEC'',
     quoted ''NOEXPAND'', quoted ''NOFORMAT'', quoted ''NOHOLDLOCK'', quoted ''NOINDEX'',
     quoted ''NOINIT'', quoted ''NOLOCK'', quoted ''NONCLUSTERED'', quoted ''NONE'',
     quoted ''NON_TRANSACTED_ACCESS'', quoted ''NORECOMPUTE'', quoted ''NORECOVERY'',
     quoted ''NOREWIND'', quoted ''NOSKIP'', quoted ''NOT'', quoted ''NOTIFICATION'',
     quoted ''NOTIFICATIONS'', quoted ''NOUNLOAD'', quoted ''NOWAIT'', quoted ''NO_CHECKSUM'']"

definition literal_names_12 :: "string list" where
  "literal_names_12 = [
     quoted ''NO_COMPRESSION'', quoted ''NO_EVENT_LOSS'', quoted ''NO_INFOMSGS'',
     quoted ''NO_QUERYSTORE'', quoted ''NO_STATISTICS'', quoted ''NO_TRUNCATE'',
     quoted ''NO_WAIT'', quoted ''NTILE'', quoted ''NTLM'', quoted ''NULLIF'', quoted ''NULL'',
     [], quoted ''NUMANODE'', quoted ''NUMBER'', quoted ''NUMERIC_ROUNDABORT'',
     quoted ''OBJECT'', quoted ''OBJECTPROPERTY'', quoted ''OBJECTPROPERTYEX'',
     quoted ''OBJECT_DEFINITION'', quoted ''OBJECT_ID'', quoted ''OBJECT_NAME'',
     quoted ''OBJECT_SCHEMA_NAME'', quoted ''OF'', quoted ''OFF'', quoted ''OFFLINE'',
     quoted ''OFFSET'', quoted ''OFFSETS'', quoted ''OLD_ACCOUNT'', quoted ''OLD_PASSWORD'',
     quoted ''ON'', quoted ''ONLINE'', quoted ''ONLY'', quoted ''ON_FAILURE'', quoted ''OPEN'',
     quoted ''OPENDATASOURCE'', quoted ''OPENJSON'', quoted ''OPENQUERY'',
     quoted ''OPENROWSET'', quoted ''OPENXML'', quoted ''OPEN_EXISTING'',
     quoted ''OPERATIONS'', quoted ''OPTIMISTIC'', quoted ''OPTIMIZE'',
     quoted ''OPTIMIZE_FOR_SEQUENTIAL_KEY'', quoted ''OPTION'', quoted ''OR'',
     quoted ''ORDER'', quoted ''ORIGINAL_DB_NAME'', quoted ''ORIGINAL_LOGIN'', quoted ''OUT'',
     quoted ''OUTER'', quoted ''OUTPUT'', quoted ''OVER'', quoted ''OVERRIDE'',
     quoted ''OWNER'', quoted ''OWNERSHIP'', quoted ''PAD_INDEX'', quoted ''PAGE'',
     quoted ''PAGECOUNT'', quoted ''PAGE_VERIFY'']"

definition literal_names_13 :: "string list" where
  "literal_names_13 = [
     quoted ''PAGLOCK'', quoted ''PARAMETERIZATION'', quoted ''PARAM_NODE'', [],
     quoted ''PARSENAME'', quoted ''PARSEONLY'', quoted ''PARTIAL'', quoted ''PARTITION'',
     quoted ''PARTITIONS'', quoted ''PARTNER'', quoted ''PASSWORD'', quoted ''PATH'',
     quoted ''PATINDEX'', quoted ''PAUSE'', quoted ''PDW_SHOWSPACEUSED'', quoted ''PERCENT'',
     quoted ''PERCENTILE_CONT'', quoted ''PERCENTILE_DISC'', quoted ''PERCENT_RANK'',
     quoted ''PERMISSIONS'', quoted ''PERMISSION_SET'', quoted ''PERSISTED'',
     quoted ''PERSIST_SAMPLE_PERCENT'', quoted ''PER_CPU'', quoted ''PER_DB'',
     quoted ''PER_NODE'', quoted ''PHYSICAL_ONLY'', quoted ''PIVOT'', quoted ''PLAN'',
     quoted ''PLATFORM'', quoted ''POISON_MESSAGE_HANDLING'', quoted ''POLICY'',
     quoted ''POOL'', quoted ''PORT'', quoted ''PRECEDING'', quoted ''PRECISION'',
     quoted ''PREDICATE'', quoted ''PRIMARY'', quoted ''PRIMARY_ROLE'', quoted ''PRINT'',
     quoted ''PRIOR'', quoted ''PRIORITY'', quoted ''PRIORITY_LEVEL'', quoted ''PRIVATE'',
     quoted ''PRIVATE_KEY'', quoted ''PRIVILEGES'', quoted ''PROC'', quoted ''PROCCACHE'',
     quoted ''PROCEDURE'', quoted ''PROCEDURE_NAME'', quoted ''PROCESS'', quoted ''PROFILE'',
     quoted ''PROPERTY'', quoted ''PROVIDER'', quoted ''PROVIDER_KEY_NAME'', quoted ''PUBLIC'',
     quoted ''PWDCOMPARE'', quoted ''PWDENCRYPT'']"

definition literal_names_14 :: "string list" where
  "literal_names_14 = [
     quoted ''PYTHON'', quoted ''QUERY'', quoted ''[QUERY]'', quoted ''QUEUE'',
     quoted ''QUEUE_DELAY'', quoted ''QUOTED_IDENTIFIER'', quoted ''QUOTENAME'', quoted ''R'',
     quoted ''RAISERROR'', quoted ''RANDOMIZED'', quoted ''RANGE'', quoted ''RANK'',
     quoted ''RAW'', quoted ''RC2'', quoted ''RC4'', quoted ''RC4_128'', quoted ''READ'',
     quoted ''READCOMMITTED'', quoted ''READCOMMITTEDLOCK'', quoted ''READONLY'',
     quoted ''READPAST'', quoted ''READTEXT'', quoted ''READUNCOMMITTED'',
     quoted ''READWRITE'', quoted ''READ_COMMITTED_SNAPSHOT'', quoted ''READ_ONLY'',
     quoted ''READ_ONLY_ROUTING_LIST'', quoted ''READ_WRITE'',
     quoted ''READ_WRITE_FILEGROUPS'', quoted ''REBUILD'', quoted ''RECEIVE'',
     quoted ''RECOMPILE'', quoted ''RECONFIGURE'', quoted ''RECOVERY'',
     quoted ''RECURSIVE_TRIGGERS'', quoted ''REFERENCES'', quoted ''REGENERATE'',
     quoted ''RELATED_CONVERSATION'', quoted ''RELATED_CONVERSATION_GROUP'',
     quoted ''RELATIVE'', quoted ''REMOTE'', quoted ''REMOTE_PROC_TRANSACTIONS'',
     quoted ''REMOTE_SERVICE_NAME'', quoted ''REMOVE'', quoted ''REORGANIZE'',
     quoted ''REPAIR_ALLOW_DATA_LOSS'', quoted ''REPAIR_FAST'', quoted ''REPAIR_REBUILD'',
     quoted ''REPEATABLE'', quoted ''REPEATABLEREAD'', quoted ''REPLACE'', quoted ''REPLICA'',
     quoted ''REPLICATE'', quoted ''REPLICATION'', quoted ''REQUEST_MAX_CPU_TIME_SEC'']"

definition literal_names_15 :: "string list" where
  "literal_names_15 = [
     quoted ''REQUEST_MAX_MEMORY_GRANT_PERCENT'', quoted ''REQUEST_MEMORY_GRANT_TIMEOUT_SEC'',
     quoted ''REQUIRED'', quoted ''REQUIRED_SYNCHRONIZED_SECONDARIES_TO_COMMIT'',
     quoted ''RESAMPLE'', quoted ''RESERVE_DISK_SPACE'', quoted ''RESET'', quoted ''RESOURCE'',
     quoted ''RESOURCES'', quoted ''RESOURCE_MANAGER_LOCATION'', quoted ''RESTART'',
     quoted ''RESTORE'', quoted ''RESTRICT'', quoted ''RESTRICTED_USER'', quoted ''RESUMABLE'',
     quoted ''RESUME'', quoted ''RETAINDAYS'', quoted ''RETENTION'', quoted ''RETURN'',
     quoted ''RETURNS'', quoted ''REVERSE'', quoted ''REVERT'', quoted ''REVOKE'',
     quoted ''REWIND'', quoted ''RIGHT'', quoted ''ROBUST'', quoted ''ROLE'',
     quoted ''ROLLBACK'', quoted ''ROOT'', quoted ''ROUND_ROBIN'', quoted ''ROUTE'',
     quoted ''ROW'', quoted ''ROWCOUNT'', quoted ''ROWCOUNT_BIG'', quoted ''ROWGUID'',
     quoted ''ROWGUIDCOL'', quoted ''ROWLOCK'', quoted ''ROWS'', quoted ''ROW_NUMBER'',
     quoted ''RSA_1024'', quoted ''RSA_2048'', quoted ''RSA_3072'', quoted ''RSA_4096'',
     quoted ''RSA_512'', quoted ''RTRIM'', quoted ''RULE'', quoted ''SAFE'', quoted ''SAFETY'',
     quoted ''SAMPLE'', quoted ''SAVE'', quoted ''SCHEDULER'', quoted ''SCHEMA'',
     quoted ''SCHEMABINDING'', quoted ''SCHEMA_ID'', quoted ''SCHEMA_NAME'', quoted ''SCHEME'',
     quoted ''SCOPED'', quoted ''SCOPE_IDENTITY'']"

definition literal_names_16 :: "string list" where
  "literal_names_16 = [
     quoted ''SCRIPT'', quoted ''SCROLL'', quoted ''SCROLL_LOCKS'', quoted ''SEARCH'',
     quoted ''SECONDARY'', quoted ''SECONDARY_ONLY'', quoted ''SECONDARY_ROLE'',
     quoted ''SECONDS'', quoted ''SECRET'', quoted ''SECURABLES'', quoted ''SECURITY'',
     quoted ''SECURITYAUDIT'', quoted ''SECURITY_LOG'', quoted ''SEEDING_MODE'',
     quoted ''SELECT'', quoted ''SELF'', quoted ''SEMANTICKEYPHRASETABLE'',
     quoted ''SEMANTICSIMILARITYDETAILSTABLE'', quoted ''SEMANTICSIMILARITYTABLE'',
     quoted ''SEMI_SENSITIVE'', quoted ''SEND'', quoted ''SENT'', quoted ''SEQUENCE'',
     quoted ''SEQUENCE_NUMBER'', quoted ''SERIALIZABLE'', quoted ''SERVER'',
     quoted ''SERVERPROPERTY'', quoted ''SERVICE'', quoted ''SERVICEBROKER'',
     quoted ''SERVICE_BROKER'', quoted ''SERVICE_NAME'', quoted ''SESSION'',
     quoted ''SESSIONPROPERTY'', quoted ''SESSION_CONTEXT'', quoted ''SESSION_TIMEOUT'',
     quoted ''SESSION_USER'', quoted ''SET'', quoted ''SETERROR'', quoted ''SETS'',
     quoted ''SETTINGS'', quoted ''SETUSER'', quoted ''SHARE'', quoted ''SHARED'',
     quoted ''SHOWCONTIG'', quoted ''SHOWPLAN'', quoted ''SHOWPLAN_ALL'',
     quoted ''SHOWPLAN_TEXT'', quoted ''SHOWPLAN_XML'', quoted ''SHRINKLOG'',
     quoted ''SHUTDOWN'', quoted ''SID'', quoted ''SIGNATURE'', quoted ''SIMPLE'',
     quoted ''SINGLE_USER'', quoted ''SIZE'', quoted ''SKIP'']"

definition literal_names_17 :: "string list" where
  "literal_names_17 = [
     quoted ''SMALLINT'', quoted ''SNAPSHOT'', quoted ''SOFTNUMA'', quoted ''SOME'',
     quoted ''SORT_IN_TEMPDB'', quoted ''SOUNDEX'', quoted ''SOURCE'', quoted ''SPACE'',
     quoted ''SPARSE'', quoted ''SPATIAL_WINDOW_MAX_CELLS'', quoted ''SPECIFICATION'',
     quoted ''SPLIT'', quoted ''SQL'', quoted ''SQLDUMPERFLAGS'', quoted ''SQLDUMPERPATH'',
     quoted ''SQLDUMPERTIMEOUT'', quoted ''SQL_VARIANT_PROPERTY'', quoted ''STANDBY'',
     quoted ''START'', quoted ''STARTED'', quoted ''STARTUP_STATE'', quoted ''START_DATE'',
     quoted ''STATE'', quoted ''STATIC'', quoted ''STATISTICS'',
     quoted ''STATISTICS_INCREMENTAL'', quoted ''STATISTICS_NORECOMPUTE'', quoted ''STATS'',
     quoted ''STATS_DATE'', quoted ''STATS_STREAM'', quoted ''STATUS'', quoted ''STATUSONLY'',
     quoted ''STDEV'', quoted ''STDEVP'', quoted ''STOP'', quoted ''STOPLIST'',
     quoted ''STOPPED'', quoted ''STOP_ON_ERROR'', quoted ''STR'', quoted ''STRING_AGG'',
     quoted ''STRING_ESCAPE'', quoted ''STUFF'', quoted ''SUBJECT'', quoted ''SUBSCRIBE'',
     quoted ''SUBSCRIPTION'', quoted ''SUBSTRING'', quoted ''SUM'', quoted ''SUPPORTED'',
     quoted ''SUSER_ID'', quoted ''SUSER_NAME'', quoted ''SUSER_SID'', quoted ''SUSER_SNAME'',
     quoted ''SUSPEND'', quoted ''SWITCH'', quoted ''SYMMETRIC'',
     quoted ''SYNCHRONOUS_COMMIT'', quoted ''SYNONYM'', quoted ''SYSTEM'']"

definition literal_names_18 :: "string list" where
  "literal_names_18 = [
     quoted ''SYSTEM_USER'', quoted ''TABLE'', quoted ''TABLERESULTS'', quoted ''TABLESAMPLE'',
     quoted ''TABLOCK'', quoted ''TABLOCKX'', quoted ''TAKE'', quoted ''TAPE'',
     quoted ''TARGET'', quoted ''TARGET_RECOVERY_TIME'', quoted ''TB'', quoted ''TCP'',
     quoted ''TEXTIMAGE_ON'', quoted ''TEXTSIZE'', quoted ''THEN'', quoted ''THROW'',
     quoted ''TIES'', quoted ''TIME'', quoted ''TIMEOUT'', quoted ''TIMER'',
     quoted ''TINYINT'', quoted ''TO'', quoted ''TOP'', quoted ''TORN_PAGE_DETECTION'',
     quoted ''TOSTRING'', quoted ''TRACE'', quoted ''TRACKING'', quoted ''TRACK_CAUSALITY'',
     quoted ''TRAN'', quoted ''TRANSACTION'', quoted ''TRANSACTION_ID'', quoted ''TRANSFER'',
     quoted ''TRANSFORM_NOISE_WORDS'', quoted ''TRANSLATE'', quoted ''TRIGGER'',
     quoted ''TRIM'', quoted ''TRIPLE_DES'', quoted ''TRIPLE_DES_3KEY'', quoted ''TRUNCATE'',
     quoted ''TRUSTWORTHY'', quoted ''TRY'', quoted ''TRY_CAST'', quoted ''TSEQUAL'',
     quoted ''TSQL'', quoted ''TWO_DIGIT_YEAR_CUTOFF'', quoted ''TYPE'',
     quoted ''TYPEPROPERTY'', quoted ''TYPE_ID'', quoted ''TYPE_NAME'',
     quoted ''TYPE_WARNING'', quoted ''UNBOUNDED'', quoted ''UNCHECKED'',
     quoted ''UNCOMMITTED'', quoted ''UNICODE'', quoted ''UNION'', quoted ''UNIQUE'',
     quoted ''UNKNOWN'', quoted ''UNLIMITED'', quoted ''UNLOCK'', quoted ''UNMASK'',
     quoted ''UNPIVOT'', quoted ''UNSAFE'', quoted ''UOW'', quoted ''UPDATE'',
     quoted ''UPDATETEXT'']"

definition literal_names_19 :: "string list" where
  "literal_names_19 = [
     quoted ''UPDLOCK'', quoted ''UPPER'', quoted ''URL'', quoted ''USE'', quoted ''USED'',
     quoted ''USER'', quoted ''USER_ID'', quoted ''USER_NAME'', quoted ''USING'',
     quoted ''VALIDATION'', quoted ''VALID_XML'', quoted ''VALUE'', quoted ''VALUES'',
     quoted ''[VALUE]'', quoted ''VAR'', quoted ''VARBINARY'', quoted ''VARP'',
     quoted ''VARYING'', quoted ''VERBOSELOGGING'', quoted ''VERIFY_CLONEDB'',
     quoted ''VERSION'', quoted ''VIEW'', quoted ''VIEWS'', quoted ''VIEW_METADATA'',
     quoted ''VISIBILITY'', quoted ''WAIT'', quoted ''WAITFOR'',
     quoted ''WAIT_AT_LOW_PRIORITY'', quoted ''WELL_FORMED_XML'', quoted ''WHEN'',
     quoted ''WHERE'', quoted ''WHILE'', quoted ''WINDOWS'', quoted ''WITH'',
     quoted ''WITHIN'', quoted ''WITHOUT'', quoted ''WITHOUT_ARRAY_WRAPPER'',
     quoted ''WITNESS'', quoted ''WORK'', quoted ''WORKLOAD'', quoted ''WRITETEXT'',
     quoted ''XACT_ABORT'', quoted ''XACT_STATE'', quoted ''XLOCK'', quoted ''XML'',
     quoted ''XMLDATA'', quoted ''XMLNAMESPACES'', quoted ''XMLSCHEMA'',
     quoted ''XML_COMPRESSION'', quoted ''XSINIL'', quoted ''ZONE'', quoted ''ABS'',
     quoted ''ACOS'', quoted ''ASIN'', quoted ''ATAN'', quoted ''ATN2'', quoted ''CEILING'',
     quoted ''COS'', quoted ''COT'', quoted ''DEGREES'', quoted ''EXP'', quoted ''FLOOR'',
     quoted ''LOG10'', quoted ''PI'', quoted ''POWER'', quoted ''RADIANS'', quoted ''RAND'',
     quoted ''ROUND'']"

definition literal_names_20 :: "string list" where
  "literal_names_20 = [
     quoted ''SIGN'', quoted ''SIN'', quoted ''SQRT'', quoted ''SQUARE'', quoted ''TAN'',
     quoted ''CURRENT_TIMEZONE'', quoted ''CURRENT_TIMEZONE_ID'', quoted ''DATE_BUCKET'',
     quoted ''DATEDIFF_BIG'', quoted ''DATEFROMPARTS'', quoted ''DATETIME2FROMPARTS'',
     quoted ''DATETIMEFROMPARTS'', quoted ''DATETIMEOFFSETFROMPARTS'', quoted ''DATETRUNC'',
     quoted ''DAY'', quoted ''EOMONTH'', quoted ''ISDATE'', quoted ''MONTH'',
     quoted ''SMALLDATETIMEFROMPARTS'', quoted ''SWITCHOFFSET'', quoted ''SYSDATETIME'',
     quoted ''SYSDATETIMEOFFSET'', quoted ''SYSUTCDATETIME'', quoted ''TIMEFROMPARTS'',
     quoted ''TODATETIMEOFFSET'', quoted ''YEAR'', quoted ''QUARTER'', quoted ''DAYOFYEAR'',
     quoted ''WEEK'', quoted ''HOUR'', quoted ''MINUTE'', quoted ''SECOND'',
     quoted ''MILLISECOND'', quoted ''MICROSECOND'', quoted ''NANOSECOND'',
     quoted ''TZOFFSET'', quoted ''ISO_WEEK'', quoted ''WEEKDAY'', [], [], [], [], [], [],
     quoted ''hh'', [], [], quoted ''ms'', quoted ''mcs'', quoted ''ns'', quoted ''tz'', [],
     quoted ''dw'', quoted ''SP_EXECUTESQL'', quoted ''VARCHAR'', quoted ''NVARCHAR'', [],
     quoted ''$ACTION'', quoted ''@@CURSOR_ROWS'', quoted ''@@FETCH_STATUS'', [], [], [], [],
     [], quoted [CHR 0x22, CHR 0x22], quoted [CHR 0x27], [], [], [], [], [], [], [], [], [],
     quoted ''='', quoted ''>'', quoted ''<'', quoted ''!'', quoted ''+='', quoted ''-='']"

definition literal_names_21 :: "string list" where
  "literal_names_21 = [
     quoted ''*='', quoted ''/='', quoted ''%='', quoted ''&='', quoted ''^='', quoted ''|='',
     quoted ''||'', quoted ''.'', quoted ''_'', quoted ''@'', quoted ''#'', quoted ''$'',
     quoted ''('', quoted '')'', quoted '','', quoted '';'', quoted '':'', quoted ''::'',
     quoted ''*'', quoted ''/'', quoted ''%'', quoted ''+'', quoted ''-'', quoted ''~'',
     quoted ''|'', quoted ''&'', quoted ''^'',
     quoted [CHR 0x5C, CHR 0x75, CHR 0x30, CHR 0x30, CHR 0x33, CHR 0x46]]"

definition literal_names :: "string list" where
  "literal_names =
     literal_names_1 @ literal_names_2 @ literal_names_3 @ literal_names_4 @ literal_names_5
     @ literal_names_6 @ literal_names_7 @ literal_names_8 @ literal_names_9 @
     literal_names_10 @ literal_names_11 @ literal_names_12 @ literal_names_13 @
     literal_names_14 @ literal_names_15 @ literal_names_16 @ literal_names_17 @
     literal_names_18 @ literal_names_19 @ literal_names_20 @ literal_names_21"

definition symbolic_names_1 :: "string list" where
  "symbolic_names_1 = [
     '''', ''ABORT'', ''ABORT_AFTER_WAIT'', ''ABSENT'', ''ABSOLUTE'',
     ''ACCELERATED_DATABASE_RECOVERY'', ''ACCENT_SENSITIVITY'', ''ACCESS'', ''ACTION'',
     ''ACTIVATION'', ''ACTIVE'', ''ADD'', ''ADDRESS'', ''ADMINISTER'', ''AES'', ''AES_128'',
     ''AES_192'', ''AES_256'', ''AFFINITY'', ''AFTER'', ''AGGREGATE'', ''ALGORITHM'', ''ALL'',
     ''ALLOWED'', ''ALLOW_CONNECTIONS'', ''ALLOW_ENCRYPTED_VALUE_MODIFICATIONS'',
     ''ALLOW_MULTIPLE_EVENT_LOSS'', ''ALLOW_PAGE_LOCKS'', ''ALLOW_ROW_LOCKS'',
     ''ALLOW_SINGLE_EVENT_LOSS'', ''ALLOW_SNAPSHOT_ISOLATION'', ''ALL_CONSTRAINTS'',
     ''ALL_ERRORMSGS'', ''ALL_INDEXES'', ''ALL_LEVELS'', ''ALTER'', ''ALWAYS'', ''AND'',
     ''ANONYMOUS'', ''ANSI_DEFAULTS'', ''ANSI_NULLS'', ''ANSI_NULL_DEFAULT'',
     ''ANSI_NULL_DFLT_OFF'', ''ANSI_NULL_DFLT_ON'', ''ANSI_PADDING'', ''ANSI_WARNINGS'',
     ''ANY'', ''APPEND'', ''APPLICATION'', ''APPLICATION_LOG'', ''APPLOCK_MODE'',
     ''APPLOCK_TEST'', ''APPLY'', ''APP_NAME'', ''ARITHABORT'', ''ARITHIGNORE'', ''AS'',
     ''ASC'', ''ASCII'', ''ASSEMBLY'', ''ASSEMBLYPROPERTY'']"

definition symbolic_names_2 :: "string list" where
  "symbolic_names_2 = [
     ''ASYMMETRIC'', ''ASYNCHRONOUS_COMMIT'', ''AT_KEYWORD'', ''AUDIT'', ''AUDIT_GUID'',
     ''AUTHENTICATE'', ''AUTHENTICATION'', ''AUTHORIZATION'', ''AUTO'', ''AUTOGROW_ALL_FILES'',
     ''AUTOGROW_SINGLE_FILE'', ''AUTOMATED_BACKUP_PREFERENCE'', ''AUTOMATIC'',
     ''AUTO_CLEANUP'', ''AUTO_CLOSE'', ''AUTO_CREATE_STATISTICS'', ''AUTO_DROP'',
     ''AUTO_SHRINK'', ''AUTO_UPDATE_STATISTICS'', ''AUTO_UPDATE_STATISTICS_ASYNC'',
     ''AVAILABILITY'', ''AVAILABILITY_MODE'', ''AVG'', ''BACKSLASH'', ''BACKUP'',
     ''BACKUP_CLONEDB'', ''BACKUP_PRIORITY'', ''BASE64'', ''BEFORE'', ''BEGIN'',
     ''BEGIN_DIALOG'', ''BETWEEN'', ''BIGINT'', ''BINARY_CHECKSUM'', ''BINARY_KEYWORD'',
     ''BINDING'', ''BLOB_STORAGE'', ''BLOCK'', ''BLOCKERS'', ''BLOCKING_HIERARCHY'',
     ''BLOCKSIZE'', ''BREAK'', ''BROKER'', ''BROKER_INSTANCE'', ''BROWSE'', ''BUFFER'',
     ''BUFFERCOUNT'', ''BULK'', ''BULK_LOGGED'', ''BY'', ''CACHE'', ''CALLED'', ''CALLER'',
     ''CAP_CPU_PERCENT'', ''CASCADE'', ''CASE'', ''CAST'', ''CATALOG'', ''CATCH'']"

definition symbolic_names_3 :: "string list" where
  "symbolic_names_3 = [
     ''CERTENCODED'', ''CERTIFICATE'', ''CERTPRIVATEKEY'', ''CERT_ID'', ''CHANGE'',
     ''CHANGES'', ''CHANGETABLE'', ''CHANGE_RETENTION'', ''CHANGE_TRACKING'', ''CHAR'',
     ''CHARINDEX'', ''CHECK'', ''CHECKALLOC'', ''CHECKCATALOG'', ''CHECKCONSTRAINTS'',
     ''CHECKDB'', ''CHECKFILEGROUP'', ''CHECKPOINT'', ''CHECKSUM'', ''CHECKSUM_AGG'',
     ''CHECKTABLE'', ''CHECK_EXPIRATION'', ''CHECK_POLICY'', ''CLASSIFIER_FUNCTION'',
     ''CLEANTABLE'', ''CLEANUP'', ''CLONEDATABASE'', ''CLOSE'', ''CLUSTER'', ''CLUSTERED'',
     ''COALESCE'', ''COLLATE'', ''COLLECTION'', ''COLUMN'', ''COLUMNPROPERTY'', ''COLUMNS'',
     ''COLUMNSTORE'', ''COLUMNSTORE_ARCHIVE'', ''COLUMN_ENCRYPTION_KEY'',
     ''COLUMN_MASTER_KEY'', ''COL_LENGTH'', ''COL_NAME'', ''COMMIT'', ''COMMITTED'',
     ''COMPATIBILITY_LEVEL'', ''COMPRESS'', ''COMPRESSION'', ''COMPRESSION_DELAY'',
     ''COMPRESS_ALL_ROW_GROUPS'', ''COMPUTE'', ''CONCAT'', ''CONCAT_NULL_YIELDS_NULL'',
     ''CONCAT_WS'', ''CONFIGURATION'', ''CONNECT'', ''CONNECTION'', ''CONNECTIONPROPERTY'',
     ''CONSTRAINT'', ''CONTAINMENT'']"

definition symbolic_names_4 :: "string list" where
  "symbolic_names_4 = [
     ''CONTAINS'', ''CONTAINSTABLE'', ''CONTENT'', ''CONTEXT'', ''CONTEXT_INFO'', ''CONTINUE'',
     ''CONTINUE_AFTER_ERROR'', ''CONTRACT'', ''CONTRACT_NAME'', ''CONTROL'', ''CONVERSATION'',
     ''CONVERT'', ''COOKIE'', ''COPY_ONLY'', ''COUNT'', ''COUNTER'', ''COUNT_BIG'', ''CPU'',
     ''CREATE'', ''CREATE_NEW'', ''CREATION_DISPOSITION'', ''CREDENTIAL'', ''CROSS'',
     ''CRYPTOGRAPHIC'', ''CUME_DIST'', ''CURRENT'', ''CURRENT_DATE'', ''CURRENT_REQUEST_ID'',
     ''CURRENT_TIME'', ''CURRENT_TIMESTAMP'', ''CURRENT_TRANSACTION_ID'', ''CURRENT_USER'',
     ''CURSOR'', ''CURSOR_CLOSE_ON_COMMIT'', ''CURSOR_DEFAULT'', ''CURSOR_STATUS'', ''CYCLE'',
     ''DATA'', ''DATABASE'', ''DATABASEPROPERTYEX'', ''DATABASE_MIRRORING'',
     ''DATABASE_PRINCIPAL_ID'', ''DATALENGTH'', ''DATASPACE'', ''DATA_COMPRESSION'',
     ''DATA_PURITY'', ''DATA_SOURCE'', ''DATEADD'', ''DATEDIFF'', ''DATENAME'', ''DATEPART'',
     ''DATE_CORRELATION_OPTIMIZATION'', ''DAYS'', ''DBCC'', ''DBREINDEX'', ''DB_CHAINING'',
     ''DB_FAILOVER'', ''DB_ID'', ''DB_NAME'', ''DDL'']"

definition symbolic_names_5 :: "string list" where
  "symbolic_names_5 = [
     ''DEALLOCATE'', ''DECLARE'', ''DECOMPRESS'', ''DECRYPTION'', ''DEFAULT'',
     ''DEFAULT_DATABASE'', ''DEFAULT_DOUBLE_QUOTE'', ''DEFAULT_FULLTEXT_LANGUAGE'',
     ''DEFAULT_LANGUAGE'', ''DEFAULT_SCHEMA'', ''DEFINITION'', ''DELAY'',
     ''DELAYED_DURABILITY'', ''DELETE'', ''DELETED'', ''DENSE_RANK'', ''DENY'', ''DEPENDENTS'',
     ''DES'', ''DESC'', ''DESCRIPTION'', ''DESX'', ''DETERMINISTIC'', ''DHCP'',
     ''DIAGNOSTICS'', ''DIALOG'', ''DIFFERENCE'', ''DIFFERENTIAL'', ''DIRECTORY_NAME'',
     ''DISABLE'', ''DISABLED'', ''DISABLE_BROKER'', ''DISK'', ''DISTINCT'', ''DISTRIBUTED'',
     ''DISTRIBUTION'', ''DOCUMENT'', ''DOLLAR_PARTITION'', ''DOUBLE'', ''DOUBLE_BACK_SLASH'',
     ''DOUBLE_FORWARD_SLASH'', ''DROP'', ''DROPCLEANBUFFERS'', ''DROP_EXISTING'',
     ''DTC_SUPPORT'', ''DUMP'', ''DYNAMIC'', ''ELEMENTS'', ''ELSE'', ''EMERGENCY'', ''EMPTY'',
     ''ENABLE'', ''ENABLED'', ''ENABLE_BROKER'', ''ENCRYPTED'', ''ENCRYPTED_VALUE'',
     ''ENCRYPTION'', ''ENCRYPTION_TYPE'', ''END'', ''ENDPOINT'', ''ENDPOINT_URL'', ''ERRLVL'',
     ''ERROR'', ''ERROR_BROKER_CONVERSATIONS'', ''ERROR_LINE'']"

definition symbolic_names_6 :: "string list" where
  "symbolic_names_6 = [
     ''ERROR_MESSAGE'', ''ERROR_NUMBER'', ''ERROR_PROCEDURE'', ''ERROR_SEVERITY'',
     ''ERROR_STATE'', ''ESCAPE'', ''ESTIMATEONLY'', ''EVENT'', ''EVENTDATA'',
     ''EVENT_RETENTION_MODE'', ''EXCEPT'', ''EXCLUSIVE'', ''EXECUTABLE'', ''EXECUTABLE_FILE'',
     ''EXECUTE'', ''EXIST'', ''EXISTS'', ''EXIST_SQUARE_BRACKET'', ''EXIT'', ''EXPAND'',
     ''EXPIREDATE'', ''EXPIRY_DATE'', ''EXPLICIT'', ''EXTENDED_LOGICAL_CHECKS'', ''EXTENSION'',
     ''EXTERNAL'', ''EXTERNAL_ACCESS'', ''FAILOVER'', ''FAILOVER_MODE'', ''FAILURE'',
     ''FAILURECONDITIONLEVEL'', ''FAILURE_CONDITION_LEVEL'', ''FAIL_OPERATION'', ''FAN_IN'',
     ''FAST'', ''FAST_FORWARD'', ''FETCH'', ''FILE'', ''FILEGROUP'', ''FILEGROUPPROPERTY'',
     ''FILEGROUP_ID'', ''FILEGROUP_NAME'', ''FILEGROWTH'', ''FILENAME'', ''FILEPATH'',
     ''FILEPROPERTY'', ''FILEPROPERTYEX'', ''FILESTREAM'', ''FILESTREAM_ON'', ''FILE_ID'',
     ''FILE_IDEX'', ''FILE_NAME'', ''FILE_SNAPSHOT'', ''FILLFACTOR'', ''FILTER'', ''FIRST'',
     ''FIRST_VALUE'', ''FMTONLY'', ''FOLLOWING'', ''FOR'', ''FORCE'', ''FORCED'']"

definition symbolic_names_7 :: "string list" where
  "symbolic_names_7 = [
     ''FORCEPLAN'', ''FORCESCAN'', ''FORCESEEK'', ''FORCE_FAILOVER_ALLOW_DATA_LOSS'',
     ''FORCE_SERVICE_ALLOW_DATA_LOSS'', ''FOREIGN'', ''FORMAT'', ''FORMATMESSAGE'',
     ''FORWARD_ONLY'', ''FREE'', ''FREETEXT'', ''FREETEXTTABLE'', ''FROM'', ''FULL'',
     ''FULLSCAN'', ''FULLTEXT'', ''FULLTEXTCATALOGPROPERTY'', ''FULLTEXTSERVICEPROPERTY'',
     ''FUNCTION'', ''GB'', ''GENERATED'', ''GET'', ''GETANCESTOR'', ''GETANSINULL'',
     ''GETDATE'', ''GETDESCENDANT'', ''GETLEVEL'', ''GETREPARENTEDVALUE'', ''GETROOT'',
     ''GETUTCDATE'', ''GET_FILESTREAM_TRANSACTION_CONTEXT'', ''GLOBAL'', ''GO'', ''GOTO'',
     ''GOVERNOR'', ''GRANT'', ''GREATEST'', ''GROUP'', ''GROUPING'', ''GROUPING_ID'',
     ''GROUP_MAX_REQUESTS'', ''HADR'', ''HASH'', ''HASHED'', ''HAS_DBACCESS'',
     ''HAS_PERMS_BY_NAME'', ''HAVING'', ''HEALTHCHECKTIMEOUT'', ''HEALTH_CHECK_TIMEOUT'',
     ''HEAP'', ''HIDDEN_KEYWORD'', ''HIERARCHYID'', ''HIGH'', ''HOLDLOCK'',
     ''HONOR_BROKER_PRIORITY'', ''HOST_ID'', ''HOST_NAME'', ''HOURS'', ''IDENTITY'',
     ''IDENTITYCOL'', ''IDENTITY_INSERT'']"

definition symbolic_names_8 :: "string list" where
  "symbolic_names_8 = [
     ''IDENTITY_VALUE'', ''IDENT_CURRENT'', ''IDENT_INCR'', ''IDENT_SEED'', ''IF'',
     ''IGNORE_CONSTRAINTS'', ''IGNORE_DUP_KEY'', ''IGNORE_NONCLUSTERED_COLUMNSTORE_INDEX'',
     ''IGNORE_REPLICATED_TABLE_CACHE'', ''IGNORE_TRIGGERS'', ''IIF'', ''IMMEDIATE'',
     ''IMPERSONATE'', ''IMPLICIT_TRANSACTIONS'', ''IMPORTANCE'', ''IN'', ''INCLUDE'',
     ''INCLUDE_NULL_VALUES'', ''INCREMENT'', ''INCREMENTAL'', ''INDEX'', ''INDEXKEY_PROPERTY'',
     ''INDEXPROPERTY'', ''INDEX_COL'', ''INFINITE'', ''INIT'', ''INITIATOR'', ''INNER'',
     ''INPUT'', ''INSENSITIVE'', ''INSERT'', ''INSERTED'', ''INSTEAD'', ''INT'', ''INTERSECT'',
     ''INTO'', ''IO'', ''IP'', ''IS'', ''ISDESCENDANTOF'', ''ISJSON'', ''ISNULL'',
     ''ISNUMERIC'', ''ISOLATION'', ''IS_MEMBER'', ''IS_ROLEMEMBER'', ''IS_SRVROLEMEMBER'',
     ''JOB'', ''JOIN'', ''JSON'', ''JSON_ARRAY'', ''JSON_MODIFY'', ''JSON_OBJECT'',
     ''JSON_PATH_EXISTS'', ''JSON_QUERY'', ''JSON_VALUE'', ''KB'', ''KEEP'', ''KEEPDEFAULTS'',
     ''KEEPFIXED'', ''KEEPIDENTITY'', ''KERBEROS'', ''KEY'', ''KEYS'', ''KEYSET'',
     ''KEY_PATH'', ''KEY_SOURCE'']"

definition symbolic_names_9 :: "string list" where
  "symbolic_names_9 = [
     ''KEY_STORE_PROVIDER_NAME'', ''KILL'', ''LAG'', ''LANGUAGE'', ''LAST'', ''LAST_VALUE'',
     ''LEAD'', ''LEAST'', ''LEFT'', ''LEN'', ''LEVEL'', ''LIBRARY'', ''LIFETIME'', ''LIKE'',
     ''LINENO'', ''LINKED'', ''LINUX'', ''LIST'', ''LISTENER'', ''LISTENER_IP'',
     ''LISTENER_PORT'', ''LISTENER_URL'', ''LOAD'', ''LOB_COMPACTION'', ''LOCAL'',
     ''LOCAL_SERVICE_NAME'', ''LOCATION'', ''LOCK'', ''LOCK_ESCALATION'', ''LOG'', ''LOGIN'',
     ''LOGINPROPERTY'', ''LOOP'', ''LOW'', ''LOWER'', ''LTRIM'', ''MANUAL'', ''MARK'',
     ''MASK'', ''MASKED'', ''MASTER'', ''MATCHED'', ''MATERIALIZED'', ''MAX'', ''MAXDOP'',
     ''MAXRECURSION'', ''MAXSIZE'', ''MAXTRANSFER'', ''MAXVALUE'', ''MAX_CPU_PERCENT'',
     ''MAX_DISPATCH_LATENCY'', ''MAX_DOP'', ''MAX_DURATION'', ''MAX_EVENT_SIZE'',
     ''MAX_FILES'', ''MAX_IOPS_PER_VOLUME'', ''MAX_MEMORY'', ''MAX_MEMORY_PERCENT'',
     ''MAX_OUTSTANDING_IO_PER_VOLUME'', ''MAX_PROCESSES'', ''MAX_QUEUE_READERS'',
     ''MAX_ROLLOVER_FILES'', ''MAX_SIZE'', ''MB'', ''MEDIADESCRIPTION'', ''MEDIANAME'',
     ''MEDIUM'', ''MEMBER'', ''MEMORY_OPTIMIZED_DATA'']"

definition symbolic_names_10 :: "string list" where
  "symbolic_names_10 = [
     ''MEMORY_PARTITION_MODE'', ''MERGE'', ''MESSAGE'', ''MESSAGE_FORWARDING'',
     ''MESSAGE_FORWARD_SIZE'', ''MIN'', ''MINUTES'', ''MINVALUE'', ''MIN_ACTIVE_ROWVERSION'',
     ''MIN_CPU_PERCENT'', ''MIN_IOPS_PER_VOLUME'', ''MIN_MEMORY_PERCENT'', ''MIRROR'',
     ''MIRROR_ADDRESS'', ''MIXED_PAGE_ALLOCATION'', ''MODE'', ''MODIFY'',
     ''MODIFY_SQUARE_BRACKET'', ''MOVE'', ''MULTI_USER'', ''MUST_CHANGE'', ''NAME'',
     ''NATIONAL'', ''NCHAR'', ''NEGOTIATE'', ''NESTED_TRIGGERS'', ''NEWID'', ''NEWNAME'',
     ''NEWSEQUENTIALID'', ''NEW_ACCOUNT'', ''NEW_BROKER'', ''NEW_PASSWORD'', ''NEXT'', ''NO'',
     ''NOCHECK'', ''NOCOUNT'', ''NODES'', ''NOEXEC'', ''NOEXPAND'', ''NOFORMAT'',
     ''NOHOLDLOCK'', ''NOINDEX'', ''NOINIT'', ''NOLOCK'', ''NONCLUSTERED'', ''NONE'',
     ''NON_TRANSACTED_ACCESS'', ''NORECOMPUTE'', ''NORECOVERY'', ''NOREWIND'', ''NOSKIP'',
     ''NOT'', ''NOTIFICATION'', ''NOTIFICATIONS'', ''NOUNLOAD'', ''NOWAIT'', ''NO_CHECKSUM'',
     ''NO_COMPRESSION'', ''NO_EVENT_LOSS'', ''NO_INFOMSGS'', ''NO_QUERYSTORE'',
     ''NO_STATISTICS'']"

definition symbolic_names_11 :: "string list" where
  "symbolic_names_11 = [
     ''NO_TRUNCATE'', ''NO_WAIT'', ''NTILE'', ''NTLM'', ''NULLIF'', ''NULL_'',
     ''NULL_DOUBLE_QUOTE'', ''NUMANODE'', ''NUMBER'', ''NUMERIC_ROUNDABORT'', ''OBJECT'',
     ''OBJECTPROPERTY'', ''OBJECTPROPERTYEX'', ''OBJECT_DEFINITION'', ''OBJECT_ID'',
     ''OBJECT_NAME'', ''OBJECT_SCHEMA_NAME'', ''OF'', ''OFF'', ''OFFLINE'', ''OFFSET'',
     ''OFFSETS'', ''OLD_ACCOUNT'', ''OLD_PASSWORD'', ''ON'', ''ONLINE'', ''ONLY'',
     ''ON_FAILURE'', ''OPEN'', ''OPENDATASOURCE'', ''OPENJSON'', ''OPENQUERY'', ''OPENROWSET'',
     ''OPENXML'', ''OPEN_EXISTING'', ''OPERATIONS'', ''OPTIMISTIC'', ''OPTIMIZE'',
     ''OPTIMIZE_FOR_SEQUENTIAL_KEY'', ''OPTION'', ''OR'', ''ORDER'', ''ORIGINAL_DB_NAME'',
     ''ORIGINAL_LOGIN'', ''OUT'', ''OUTER'', ''OUTPUT'', ''OVER'', ''OVERRIDE'', ''OWNER'',
     ''OWNERSHIP'', ''PAD_INDEX'', ''PAGE'', ''PAGECOUNT'', ''PAGE_VERIFY'', ''PAGLOCK'',
     ''PARAMETERIZATION'', ''PARAM_NODE'', ''PARSE'', ''PARSENAME'', ''PARSEONLY'',
     ''PARTIAL'', ''PARTITION'', ''PARTITIONS'', ''PARTNER'', ''PASSWORD'', ''PATH'',
     ''PATINDEX'', ''PAUSE'']"

definition symbolic_names_12 :: "string list" where
  "symbolic_names_12 = [
     ''PDW_SHOWSPACEUSED'', ''PERCENT'', ''PERCENTILE_CONT'', ''PERCENTILE_DISC'',
     ''PERCENT_RANK'', ''PERMISSIONS'', ''PERMISSION_SET'', ''PERSISTED'',
     ''PERSIST_SAMPLE_PERCENT'', ''PER_CPU'', ''PER_DB'', ''PER_NODE'', ''PHYSICAL_ONLY'',
     ''PIVOT'', ''PLAN'', ''PLATFORM'', ''POISON_MESSAGE_HANDLING'', ''POLICY'', ''POOL'',
     ''PORT'', ''PRECEDING'', ''PRECISION'', ''PREDICATE'', ''PRIMARY'', ''PRIMARY_ROLE'',
     ''PRINT'', ''PRIOR'', ''PRIORITY'', ''PRIORITY_LEVEL'', ''PRIVATE'', ''PRIVATE_KEY'',
     ''PRIVILEGES'', ''PROC'', ''PROCCACHE'', ''PROCEDURE'', ''PROCEDURE_NAME'', ''PROCESS'',
     ''PROFILE'', ''PROPERTY'', ''PROVIDER'', ''PROVIDER_KEY_NAME'', ''PUBLIC'',
     ''PWDCOMPARE'', ''PWDENCRYPT'', ''PYTHON'', ''QUERY'', ''QUERY_SQUARE_BRACKET'',
     ''QUEUE'', ''QUEUE_DELAY'', ''QUOTED_IDENTIFIER'', ''QUOTENAME'', ''R'', ''RAISERROR'',
     ''RANDOMIZED'', ''RANGE'', ''RANK'', ''RAW'', ''RC2'', ''RC4'', ''RC4_128'', ''READ'',
     ''READCOMMITTED'', ''READCOMMITTEDLOCK'', ''READONLY'', ''READPAST'', ''READTEXT'']"

definition symbolic_names_13 :: "string list" where
  "symbolic_names_13 = [
     ''READUNCOMMITTED'', ''READWRITE'', ''READ_COMMITTED_SNAPSHOT'', ''READ_ONLY'',
     ''READ_ONLY_ROUTING_LIST'', ''READ_WRITE'', ''READ_WRITE_FILEGROUPS'', ''REBUILD'',
     ''RECEIVE'', ''RECOMPILE'', ''RECONFIGURE'', ''RECOVERY'', ''RECURSIVE_TRIGGERS'',
     ''REFERENCES'', ''REGENERATE'', ''RELATED_CONVERSATION'', ''RELATED_CONVERSATION_GROUP'',
     ''RELATIVE'', ''REMOTE'', ''REMOTE_PROC_TRANSACTIONS'', ''REMOTE_SERVICE_NAME'',
     ''REMOVE'', ''REORGANIZE'', ''REPAIR_ALLOW_DATA_LOSS'', ''REPAIR_FAST'',
     ''REPAIR_REBUILD'', ''REPEATABLE'', ''REPEATABLEREAD'', ''REPLACE'', ''REPLICA'',
     ''REPLICATE'', ''REPLICATION'', ''REQUEST_MAX_CPU_TIME_SEC'',
     ''REQUEST_MAX_MEMORY_GRANT_PERCENT'', ''REQUEST_MEMORY_GRANT_TIMEOUT_SEC'', ''REQUIRED'',
     ''REQUIRED_SYNCHRONIZED_SECONDARIES_TO_COMMIT'', ''RESAMPLE'', ''RESERVE_DISK_SPACE'',
     ''RESET'', ''RESOURCE'', ''RESOURCES'', ''RESOURCE_MANAGER_LOCATION'', ''RESTART'',
     ''RESTORE'', ''RESTRICT'', ''RESTRICTED_USER'', ''RESUMABLE'', ''RESUME'', ''RETAINDAYS'',
     ''RETENTION'', ''RETURN'', ''RETURNS'']"

definition symbolic_names_14 :: "string list" where
  "symbolic_names_14 = [
     ''REVERSE'', ''REVERT'', ''REVOKE'', ''REWIND'', ''RIGHT'', ''ROBUST'', ''ROLE'',
     ''ROLLBACK'', ''ROOT'', ''ROUND_ROBIN'', ''ROUTE'', ''ROW'', ''ROWCOUNT'',
     ''ROWCOUNT_BIG'', ''ROWGUID'', ''ROWGUIDCOL'', ''ROWLOCK'', ''ROWS'', ''ROW_NUMBER'',
     ''RSA_1024'', ''RSA_2048'', ''RSA_3072'', ''RSA_4096'', ''RSA_512'', ''RTRIM'', ''RULE'',
     ''SAFE'', ''SAFETY'', ''SAMPLE'', ''SAVE'', ''SCHEDULER'', ''SCHEMA'', ''SCHEMABINDING'',
     ''SCHEMA_ID'', ''SCHEMA_NAME'', ''SCHEME'', ''SCOPED'', ''SCOPE_IDENTITY'', ''SCRIPT'',
     ''SCROLL'', ''SCROLL_LOCKS'', ''SEARCH'', ''SECONDARY'', ''SECONDARY_ONLY'',
     ''SECONDARY_ROLE'', ''SECONDS'', ''SECRET'', ''SECURABLES'', ''SECURITY'',
     ''SECURITYAUDIT'', ''SECURITY_LOG'', ''SEEDING_MODE'', ''SELECT'', ''SELF'',
     ''SEMANTICKEYPHRASETABLE'', ''SEMANTICSIMILARITYDETAILSTABLE'',
     ''SEMANTICSIMILARITYTABLE'', ''SEMI_SENSITIVE'', ''SEND'', ''SENT'', ''SEQUENCE'',
     ''SEQUENCE_NUMBER'', ''SERIALIZABLE'', ''SERVER'', ''SERVERPROPERTY'', ''SERVICE'',
     ''SERVICEBROKER'', ''SERVICE_BROKER'', ''SERVICE_NAME'']"

definition symbolic_names_15 :: "string list" where
  "symbolic_names_15 = [
     ''SESSION'', ''SESSIONPROPERTY'', ''SESSION_CONTEXT'', ''SESSION_TIMEOUT'',
     ''SESSION_USER'', ''SET'', ''SETERROR'', ''SETS'', ''SETTINGS'', ''SETUSER'', ''SHARE'',
     ''SHARED'', ''SHOWCONTIG'', ''SHOWPLAN'', ''SHOWPLAN_ALL'', ''SHOWPLAN_TEXT'',
     ''SHOWPLAN_XML'', ''SHRINKLOG'', ''SHUTDOWN'', ''SID'', ''SIGNATURE'', ''SIMPLE'',
     ''SINGLE_USER'', ''SIZE'', ''SKIP_KEYWORD'', ''SMALLINT'', ''SNAPSHOT'', ''SOFTNUMA'',
     ''SOME'', ''SORT_IN_TEMPDB'', ''SOUNDEX'', ''SOURCE'', ''SPACE_KEYWORD'', ''SPARSE'',
     ''SPATIAL_WINDOW_MAX_CELLS'', ''SPECIFICATION'', ''SPLIT'', ''SQL'', ''SQLDUMPERFLAGS'',
     ''SQLDUMPERPATH'', ''SQLDUMPERTIMEOUT'', ''SQL_VARIANT_PROPERTY'', ''STANDBY'', ''START'',
     ''STARTED'', ''STARTUP_STATE'', ''START_DATE'', ''STATE'', ''STATIC'', ''STATISTICS'',
     ''STATISTICS_INCREMENTAL'', ''STATISTICS_NORECOMPUTE'', ''STATS'', ''STATS_DATE'',
     ''STATS_STREAM'', ''STATUS'', ''STATUSONLY'', ''STDEV'', ''STDEVP'', ''STOP'',
     ''STOPLIST'', ''STOPPED'', ''STOP_ON_ERROR'', ''STR'', ''STRING_AGG'']"

definition symbolic_names_16 :: "string list" where
  "symbolic_names_16 = [
     ''STRING_ESCAPE'', ''STUFF'', ''SUBJECT'', ''SUBSCRIBE'', ''SUBSCRIPTION'', ''SUBSTRING'',
     ''SUM'', ''SUPPORTED'', ''SUSER_ID'', ''SUSER_NAME'', ''SUSER_SID'', ''SUSER_SNAME'',
     ''SUSPEND'', ''SWITCH'', ''SYMMETRIC'', ''SYNCHRONOUS_COMMIT'', ''SYNONYM'', ''SYSTEM'',
     ''SYSTEM_USER'', ''TABLE'', ''TABLERESULTS'', ''TABLESAMPLE'', ''TABLOCK'', ''TABLOCKX'',
     ''TAKE'', ''TAPE'', ''TARGET'', ''TARGET_RECOVERY_TIME'', ''TB'', ''TCP'',
     ''TEXTIMAGE_ON'', ''TEXTSIZE'', ''THEN'', ''THROW'', ''TIES'', ''TIME'', ''TIMEOUT'',
     ''TIMER'', ''TINYINT'', ''TO'', ''TOP'', ''TORN_PAGE_DETECTION'', ''TOSTRING'', ''TRACE'',
     ''TRACKING'', ''TRACK_CAUSALITY'', ''TRAN'', ''TRANSACTION'', ''TRANSACTION_ID'',
     ''TRANSFER'', ''TRANSFORM_NOISE_WORDS'', ''TRANSLATE'', ''TRIGGER'', ''TRIM'',
     ''TRIPLE_DES'', ''TRIPLE_DES_3KEY'', ''TRUNCATE'', ''TRUSTWORTHY'', ''TRY'', ''TRY_CAST'',
     ''TSEQUAL'', ''TSQL'', ''TWO_DIGIT_YEAR_CUTOFF'', ''TYPE'', ''TYPEPROPERTY'', ''TYPE_ID'',
     ''TYPE_NAME'', ''TYPE_WARNING'', ''UNBOUNDED'']"

definition symbolic_names_17 :: "string list" where
  "symbolic_names_17 = [
     ''UNCHECKED'', ''UNCOMMITTED'', ''UNICODE'', ''UNION'', ''UNIQUE'', ''UNKNOWN'',
     ''UNLIMITED'', ''UNLOCK'', ''UNMASK'', ''UNPIVOT'', ''UNSAFE'', ''UOW'', ''UPDATE'',
     ''UPDATETEXT'', ''UPDLOCK'', ''UPPER'', ''URL'', ''USE'', ''USED'', ''USER'', ''USER_ID'',
     ''USER_NAME'', ''USING'', ''VALIDATION'', ''VALID_XML'', ''VALUE'', ''VALUES'',
     ''VALUE_SQUARE_BRACKET'', ''VAR'', ''VARBINARY_KEYWORD'', ''VARP'', ''VARYING'',
     ''VERBOSELOGGING'', ''VERIFY_CLONEDB'', ''VERSION'', ''VIEW'', ''VIEWS'',
     ''VIEW_METADATA'', ''VISIBILITY'', ''WAIT'', ''WAITFOR'', ''WAIT_AT_LOW_PRIORITY'',
     ''WELL_FORMED_XML'', ''WHEN'', ''WHERE'', ''WHILE'', ''WINDOWS'', ''WITH'', ''WITHIN'',
     ''WITHOUT'', ''WITHOUT_ARRAY_WRAPPER'', ''WITNESS'', ''WORK'', ''WORKLOAD'',
     ''WRITETEXT'', ''XACT_ABORT'', ''XACT_STATE'', ''XLOCK'', ''XML'', ''XMLDATA'',
     ''XMLNAMESPACES'', ''XMLSCHEMA'', ''XML_COMPRESSION'', ''XSINIL'', ''ZONE'', ''ABS'',
     ''ACOS'', ''ASIN'', ''ATAN'', ''ATN2'', ''CEILING'', ''COS'', ''COT'', ''DEGREES'',
     ''EXP'', ''FLOOR'']"

definition symbolic_names_18 :: "string list" where
  "symbolic_names_18 = [
     ''LOG10'', ''PI'', ''POWER'', ''RADIANS'', ''RAND'', ''ROUND'', ''SIGN'', ''SIN'',
     ''SQRT'', ''SQUARE'', ''TAN'', ''CURRENT_TIMEZONE'', ''CURRENT_TIMEZONE_ID'',
     ''DATE_BUCKET'', ''DATEDIFF_BIG'', ''DATEFROMPARTS'', ''DATETIME2FROMPARTS'',
     ''DATETIMEFROMPARTS'', ''DATETIMEOFFSETFROMPARTS'', ''DATETRUNC'', ''DAY'', ''EOMONTH'',
     ''ISDATE'', ''MONTH'', ''SMALLDATETIMEFROMPARTS'', ''SWITCHOFFSET'', ''SYSDATETIME'',
     ''SYSDATETIMEOFFSET'', ''SYSUTCDATETIME'', ''TIMEFROMPARTS'', ''TODATETIMEOFFSET'',
     ''YEAR'', ''QUARTER'', ''DAYOFYEAR'', ''WEEK'', ''HOUR'', ''MINUTE'', ''SECOND'',
     ''MILLISECOND'', ''MICROSECOND'', ''NANOSECOND'', ''TZOFFSET'', ''ISO_WEEK'', ''WEEKDAY'',
     ''YEAR_ABBR'', ''QUARTER_ABBR'', ''MONTH_ABBR'', ''DAYOFYEAR_ABBR'', ''DAY_ABBR'',
     ''WEEK_ABBR'', ''HOUR_ABBR'', ''MINUTE_ABBR'', ''SECOND_ABBR'', ''MILLISECOND_ABBR'',
     ''MICROSECOND_ABBR'', ''NANOSECOND_ABBR'', ''TZOFFSET_ABBR'', ''ISO_WEEK_ABBR'',
     ''WEEKDAY_ABBR'', ''SP_EXECUTESQL'']"

definition symbolic_names_19 :: "string list" where
  "symbolic_names_19 = [
     ''VARCHAR'', ''NVARCHAR'', ''DISK_DRIVE'', ''DOLLAR_ACTION'', ''CURSOR_ROWS'',
     ''FETCH_STATUS'', ''IPV4_ADDR'', ''SPACE'', ''COMMENT'', ''LINE_COMMENT'',
     ''DOUBLE_QUOTE_ID'', ''DOUBLE_QUOTE_BLANK'', ''SINGLE_QUOTE'', ''SQUARE_BRACKET_ID'',
     ''LOCAL_ID'', ''TEMP_ID'', ''DECIMAL'', ''ID'', ''STRING'', ''BINARY'', ''FLOAT'',
     ''REAL'', ''EQUAL'', ''GREATER'', ''LESS'', ''EXCLAMATION'', ''PLUS_ASSIGN'',
     ''MINUS_ASSIGN'', ''MULT_ASSIGN'', ''DIV_ASSIGN'', ''MOD_ASSIGN'', ''AND_ASSIGN'',
     ''XOR_ASSIGN'', ''OR_ASSIGN'', ''DOUBLE_BAR'', ''DOT'', ''UNDERLINE'', ''AT'', ''SHARP'',
     ''DOLLAR'', ''LR_BRACKET'', ''RR_BRACKET'', ''COMMA'', ''SEMI'', ''COLON'',
     ''DOUBLE_COLON'', ''STAR'', ''DIVIDE'', ''MODULE'', ''PLUS'', ''MINUS'', ''BIT_NOT'',
     ''BIT_OR'', ''BIT_AND'', ''BIT_XOR'', ''PLACEHOLDER'']"

definition symbolic_names :: "string list" where
  "symbolic_names =
     symbolic_names_1 @ symbolic_names_2 @ symbolic_names_3 @ symbolic_names_4 @
     symbolic_names_5 @ symbolic_names_6 @ symbolic_names_7 @ symbolic_names_8 @
     symbolic_names_9 @ symbolic_names_10 @ symbolic_names_11 @ symbolic_names_12 @
     symbolic_names_13 @ symbolic_names_14 @ symbolic_names_15 @ symbolic_names_16 @
     symbolic_names_17 @ symbolic_names_18 @ symbolic_names_19"

text \<open>The first \<open>enum\<close> of \<open>TSqlLexer.h\<close>.\<close>

definition lexer_enum_1 :: "(string \<times> token) list" where
  "lexer_enum_1 = [
     (''ABORT'', 1), (''ABORT_AFTER_WAIT'', 2), (''ABSENT'', 3), (''ABSOLUTE'', 4),
     (''ACCELERATED_DATABASE_RECOVERY'', 5), (''ACCENT_SENSITIVITY'', 6), (''ACCESS'', 7),
     (''ACTION'', 8), (''ACTIVATION'', 9), (''ACTIVE'', 10), (''ADD'', 11), (''ADDRESS'', 12),
     (''ADMINISTER'', 13), (''AES'', 14), (''AES_128'', 15), (''AES_192'', 16),
     (''AES_256'', 17), (''AFFINITY'', 18), (''AFTER'', 19), (''AGGREGATE'', 20),
     (''ALGORITHM'', 21), (''ALL'', 22), (''ALLOWED'', 23), (''ALLOW_CONNECTIONS'', 24),
     (''ALLOW_ENCRYPTED_VALUE_MODIFICATIONS'', 25), (''ALLOW_MULTIPLE_EVENT_LOSS'', 26),
     (''ALLOW_PAGE_LOCKS'', 27), (''ALLOW_ROW_LOCKS'', 28), (''ALLOW_SINGLE_EVENT_LOSS'', 29),
     (''ALLOW_SNAPSHOT_ISOLATION'', 30), (''ALL_CONSTRAINTS'', 31), (''ALL_ERRORMSGS'', 32),
     (''ALL_INDEXES'', 33), (''ALL_LEVELS'', 34), (''ALTER'', 35), (''ALWAYS'', 36),
     (''AND'', 37), (''ANONYMOUS'', 38), (''ANSI_DEFAULTS'', 39), (''ANSI_NULLS'', 40),
     (''ANSI_NULL_DEFAULT'', 41), (''ANSI_NULL_DFLT_OFF'', 42), (''ANSI_NULL_DFLT_ON'', 43),
     (''ANSI_PADDING'', 44), (''ANSI_WARNINGS'', 45), (''ANY'', 46), (''APPEND'', 47),
     (''APPLICATION'', 48), (''APPLICATION_LOG'', 49), (''APPLOCK_MODE'', 50),
     (''APPLOCK_TEST'', 51), (''APPLY'', 52), (''APP_NAME'', 53), (''ARITHABORT'', 54)]"

definition lexer_enum_2 :: "(string \<times> token) list" where
  "lexer_enum_2 = [
     (''ARITHIGNORE'', 55), (''AS'', 56), (''ASC'', 57), (''ASCII'', 58), (''ASSEMBLY'', 59),
     (''ASSEMBLYPROPERTY'', 60), (''ASYMMETRIC'', 61), (''ASYNCHRONOUS_COMMIT'', 62),
     (''AT_KEYWORD'', 63), (''AUDIT'', 64), (''AUDIT_GUID'', 65), (''AUTHENTICATE'', 66),
     (''AUTHENTICATION'', 67), (''AUTHORIZATION'', 68), (''AUTO'', 69),
     (''AUTOGROW_ALL_FILES'', 70), (''AUTOGROW_SINGLE_FILE'', 71),
     (''AUTOMATED_BACKUP_PREFERENCE'', 72), (''AUTOMATIC'', 73), (''AUTO_CLEANUP'', 74),
     (''AUTO_CLOSE'', 75), (''AUTO_CREATE_STATISTICS'', 76), (''AUTO_DROP'', 77),
     (''AUTO_SHRINK'', 78), (''AUTO_UPDATE_STATISTICS'', 79),
     (''AUTO_UPDATE_STATISTICS_ASYNC'', 80), (''AVAILABILITY'', 81),
     (''AVAILABILITY_MODE'', 82), (''AVG'', 83), (''BACKSLASH'', 84), (''BACKUP'', 85),
     (''BACKUP_CLONEDB'', 86), (''BACKUP_PRIORITY'', 87), (''BASE64'', 88), (''BEFORE'', 89),
     (''BEGIN'', 90), (''BEGIN_DIALOG'', 91), (''BETWEEN'', 92), (''BIGINT'', 93),
     (''BINARY_CHECKSUM'', 94), (''BINARY_KEYWORD'', 95), (''BINDING'', 96),
     (''BLOB_STORAGE'', 97), (''BLOCK'', 98), (''BLOCKERS'', 99),
     (''BLOCKING_HIERARCHY'', 100), (''BLOCKSIZE'', 101), (''BREAK'', 102), (''BROKER'', 103),
     (''BROKER_INSTANCE'', 104), (''BROWSE'', 105), (''BUFFER'', 106)]"

definition lexer_enum_3 :: "(string \<times> token) list" where
  "lexer_enum_3 = [
     (''BUFFERCOUNT'', 107), (''BULK'', 108), (''BULK_LOGGED'', 109), (''BY'', 110),
     (''CACHE'', 111), (''CALLED'', 112), (''CALLER'', 113), (''CAP_CPU_PERCENT'', 114),
     (''CASCADE'', 115), (''CASE'', 116), (''CAST'', 117), (''CATALOG'', 118),
     (''CATCH'', 119), (''CERTENCODED'', 120), (''CERTIFICATE'', 121),
     (''CERTPRIVATEKEY'', 122), (''CERT_ID'', 123), (''CHANGE'', 124), (''CHANGES'', 125),
     (''CHANGETABLE'', 126), (''CHANGE_RETENTION'', 127), (''CHANGE_TRACKING'', 128),
     (''CHAR'', 129), (''CHARINDEX'', 130), (''CHECK'', 131), (''CHECKALLOC'', 132),
     (''CHECKCATALOG'', 133), (''CHECKCONSTRAINTS'', 134), (''CHECKDB'', 135),
     (''CHECKFILEGROUP'', 136), (''CHECKPOINT'', 137), (''CHECKSUM'', 138),
     (''CHECKSUM_AGG'', 139), (''CHECKTABLE'', 140), (''CHECK_EXPIRATION'', 141),
     (''CHECK_POLICY'', 142), (''CLASSIFIER_FUNCTION'', 143), (''CLEANTABLE'', 144),
     (''CLEANUP'', 145), (''CLONEDATABASE'', 146), (''CLOSE'', 147), (''CLUSTER'', 148),
     (''CLUSTERED'', 149), (''COALESCE'', 150), (''COLLATE'', 151), (''COLLECTION'', 152),
     (''COLUMN'', 153), (''COLUMNPROPERTY'', 154), (''COLUMNS'', 155), (''COLUMNSTORE'', 156),
     (''COLUMNSTORE_ARCHIVE'', 157), (''COLUMN_ENCRYPTION_KEY'', 158)]"

definition lexer_enum_4 :: "(string \<times> token) list" where
  "lexer_enum_4 = [
     (''COLUMN_MASTER_KEY'', 159), (''COL_LENGTH'', 160), (''COL_NAME'', 161),
     (''COMMIT'', 162), (''COMMITTED'', 163), (''COMPATIBILITY_LEVEL'', 164),
     (''COMPRESS'', 165), (''COMPRESSION'', 166), (''COMPRESSION_DELAY'', 167),
     (''COMPRESS_ALL_ROW_GROUPS'', 168), (''COMPUTE'', 169), (''CONCAT'', 170),
     (''CONCAT_NULL_YIELDS_NULL'', 171), (''CONCAT_WS'', 172), (''CONFIGURATION'', 173),
     (''CONNECT'', 174), (''CONNECTION'', 175), (''CONNECTIONPROPERTY'', 176),
     (''CONSTRAINT'', 177), (''CONTAINMENT'', 178), (''CONTAINS'', 179),
     (''CONTAINSTABLE'', 180), (''CONTENT'', 181), (''CONTEXT'', 182), (''CONTEXT_INFO'', 183),
     (''CONTINUE'', 184), (''CONTINUE_AFTER_ERROR'', 185), (''CONTRACT'', 186),
     (''CONTRACT_NAME'', 187), (''CONTROL'', 188), (''CONVERSATION'', 189), (''CONVERT'', 190),
     (''COOKIE'', 191), (''COPY_ONLY'', 192), (''COUNT'', 193), (''COUNTER'', 194),
     (''COUNT_BIG'', 195), (''CPU'', 196), (''CREATE'', 197), (''CREATE_NEW'', 198),
     (''CREATION_DISPOSITION'', 199), (''CREDENTIAL'', 200), (''CROSS'', 201),
     (''CRYPTOGRAPHIC'', 202), (''CUME_DIST'', 203), (''CURRENT'', 204),
     (''CURRENT_DATE'', 205), (''CURRENT_REQUEST_ID'', 206), (''CURRENT_TIME'', 207)]"

definition lexer_enum_5 :: "(string \<times> token) list" where
  "lexer_enum_5 = [
     (''CURRENT_TIMESTAMP'', 208), (''CURRENT_TRANSACTION_ID'', 209), (''CURRENT_USER'', 210),
     (''CURSOR'', 211), (''CURSOR_CLOSE_ON_COMMIT'', 212), (''CURSOR_DEFAULT'', 213),
     (''CURSOR_STATUS'', 214), (''CYCLE'', 215), (''DATA'', 216), (''DATABASE'', 217),
     (''DATABASEPROPERTYEX'', 218), (''DATABASE_MIRRORING'', 219),
     (''DATABASE_PRINCIPAL_ID'', 220), (''DATALENGTH'', 221), (''DATASPACE'', 222),
     (''DATA_COMPRESSION'', 223), (''DATA_PURITY'', 224), (''DATA_SOURCE'', 225),
     (''DATEADD'', 226), (''DATEDIFF'', 227), (''DATENAME'', 228), (''DATEPART'', 229),
     (''DATE_CORRELATION_OPTIMIZATION'', 230), (''DAYS'', 231), (''DBCC'', 232),
     (''DBREINDEX'', 233), (''DB_CHAINING'', 234), (''DB_FAILOVER'', 235), (''DB_ID'', 236),
     (''DB_NAME'', 237), (''DDL'', 238), (''DEALLOCATE'', 239), (''DECLARE'', 240),
     (''DECOMPRESS'', 241), (''DECRYPTION'', 242), (''DEFAULT'', 243),
     (''DEFAULT_DATABASE'', 244), (''DEFAULT_DOUBLE_QUOTE'', 245),
     (''DEFAULT_FULLTEXT_LANGUAGE'', 246), (''DEFAULT_LANGUAGE'', 247),
     (''DEFAULT_SCHEMA'', 248), (''DEFINITION'', 249), (''DELAY'', 250),
     (''DELAYED_DURABILITY'', 251), (''DELETE'', 252), (''DELETED'', 253),
     (''DENSE_RANK'', 254), (''DENY'', 255), (''DEPENDENTS'', 256)]"

definition lexer_enum_6 :: "(string \<times> token) list" where
  "lexer_enum_6 = [
     (''DES'', 257), (''DESC'', 258), (''DESCRIPTION'', 259), (''DESX'', 260),
     (''DETERMINISTIC'', 261), (''DHCP'', 262), (''DIAGNOSTICS'', 263), (''DIALOG'', 264),
     (''DIFFERENCE'', 265), (''DIFFERENTIAL'', 266), (''DIRECTORY_NAME'', 267),
     (''DISABLE'', 268), (''DISABLED'', 269), (''DISABLE_BROKER'', 270), (''DISK'', 271),
     (''DISTINCT'', 272), (''DISTRIBUTED'', 273), (''DISTRIBUTION'', 274), (''DOCUMENT'', 275),
     (''DOLLAR_PARTITION'', 276), (''DOUBLE'', 277), (''DOUBLE_BACK_SLASH'', 278),
     (''DOUBLE_FORWARD_SLASH'', 279), (''DROP'', 280), (''DROPCLEANBUFFERS'', 281),
     (''DROP_EXISTING'', 282), (''DTC_SUPPORT'', 283), (''DUMP'', 284), (''DYNAMIC'', 285),
     (''ELEMENTS'', 286), (''ELSE'', 287), (''EMERGENCY'', 288), (''EMPTY'', 289),
     (''ENABLE'', 290), (''ENABLED'', 291), (''ENABLE_BROKER'', 292), (''ENCRYPTED'', 293),
     (''ENCRYPTED_VALUE'', 294), (''ENCRYPTION'', 295), (''ENCRYPTION_TYPE'', 296),
     (''END'', 297), (''ENDPOINT'', 298), (''ENDPOINT_URL'', 299), (''ERRLVL'', 300),
     (''ERROR'', 301), (''ERROR_BROKER_CONVERSATIONS'', 302), (''ERROR_LINE'', 303),
     (''ERROR_MESSAGE'', 304), (''ERROR_NUMBER'', 305), (''ERROR_PROCEDURE'', 306),
     (''ERROR_SEVERITY'', 307), (''ERROR_STATE'', 308), (''ESCAPE'', 309),
     (''ESTIMATEONLY'', 310)]"

definition lexer_enum_7 :: "(string \<times> token) list" where
  "lexer_enum_7 = [
     (''EVENT'', 311), (''EVENTDATA'', 312), (''EVENT_RETENTION_MODE'', 313),
     (''EXCEPT'', 314), (''EXCLUSIVE'', 315), (''EXECUTABLE'', 316),
     (''EXECUTABLE_FILE'', 317), (''EXECUTE'', 318), (''EXIST'', 319), (''EXISTS'', 320),
     (''EXIST_SQUARE_BRACKET'', 321), (''EXIT'', 322), (''EXPAND'', 323),
     (''EXPIREDATE'', 324), (''EXPIRY_DATE'', 325), (''EXPLICIT'', 326),
     (''EXTENDED_LOGICAL_CHECKS'', 327), (''EXTENSION'', 328), (''EXTERNAL'', 329),
     (''EXTERNAL_ACCESS'', 330), (''FAILOVER'', 331), (''FAILOVER_MODE'', 332),
     (''FAILURE'', 333), (''FAILURECONDITIONLEVEL'', 334), (''FAILURE_CONDITION_LEVEL'', 335),
     (''FAIL_OPERATION'', 336), (''FAN_IN'', 337), (''FAST'', 338), (''FAST_FORWARD'', 339),
     (''FETCH'', 340), (''FILE'', 341), (''FILEGROUP'', 342), (''FILEGROUPPROPERTY'', 343),
     (''FILEGROUP_ID'', 344), (''FILEGROUP_NAME'', 345), (''FILEGROWTH'', 346),
     (''FILENAME'', 347), (''FILEPATH'', 348), (''FILEPROPERTY'', 349),
     (''FILEPROPERTYEX'', 350), (''FILESTREAM'', 351), (''FILESTREAM_ON'', 352),
     (''FILE_ID'', 353), (''FILE_IDEX'', 354), (''FILE_NAME'', 355), (''FILE_SNAPSHOT'', 356),
     (''FILLFACTOR'', 357), (''FILTER'', 358), (''FIRST'', 359), (''FIRST_VALUE'', 360),
     (''FMTONLY'', 361)]"

definition lexer_enum_8 :: "(string \<times> token) list" where
  "lexer_enum_8 = [
     (''FOLLOWING'', 362), (''FOR'', 363), (''FORCE'', 364), (''FORCED'', 365),
     (''FORCEPLAN'', 366), (''FORCESCAN'', 367), (''FORCESEEK'', 368),
     (''FORCE_FAILOVER_ALLOW_DATA_LOSS'', 369), (''FORCE_SERVICE_ALLOW_DATA_LOSS'', 370),
     (''FOREIGN'', 371), (''FORMAT'', 372), (''FORMATMESSAGE'', 373), (''FORWARD_ONLY'', 374),
     (''FREE'', 375), (''FREETEXT'', 376), (''FREETEXTTABLE'', 377), (''FROM'', 378),
     (''FULL'', 379), (''FULLSCAN'', 380), (''FULLTEXT'', 381),
     (''FULLTEXTCATALOGPROPERTY'', 382), (''FULLTEXTSERVICEPROPERTY'', 383),
     (''FUNCTION'', 384), (''GB'', 385), (''GENERATED'', 386), (''GET'', 387),
     (''GETANCESTOR'', 388), (''GETANSINULL'', 389), (''GETDATE'', 390),
     (''GETDESCENDANT'', 391), (''GETLEVEL'', 392), (''GETREPARENTEDVALUE'', 393),
     (''GETROOT'', 394), (''GETUTCDATE'', 395), (''GET_FILESTREAM_TRANSACTION_CONTEXT'', 396),
     (''GLOBAL'', 397), (''GO'', 398), (''GOTO'', 399), (''GOVERNOR'', 400), (''GRANT'', 401),
     (''GREATEST'', 402), (''GROUP'', 403), (''GROUPING'', 404), (''GROUPING_ID'', 405),
     (''GROUP_MAX_REQUESTS'', 406), (''HADR'', 407), (''HASH'', 408), (''HASHED'', 409),
     (''HAS_DBACCESS'', 410), (''HAS_PERMS_BY_NAME'', 411), (''HAVING'', 412)]"

definition lexer_enum_9 :: "(string \<times> token) list" where
  "lexer_enum_9 = [
     (''HEALTHCHECKTIMEOUT'', 413), (''HEALTH_CHECK_TIMEOUT'', 414), (''HEAP'', 415),
     (''HIDDEN_KEYWORD'', 416), (''HIERARCHYID'', 417), (''HIGH'', 418), (''HOLDLOCK'', 419),
     (''HONOR_BROKER_PRIORITY'', 420), (''HOST_ID'', 421), (''HOST_NAME'', 422),
     (''HOURS'', 423), (''IDENTITY'', 424), (''IDENTITYCOL'', 425), (''IDENTITY_INSERT'', 426),
     (''IDENTITY_VALUE'', 427), (''IDENT_CURRENT'', 428), (''IDENT_INCR'', 429),
     (''IDENT_SEED'', 430), (''IF'', 431), (''IGNORE_CONSTRAINTS'', 432),
     (''IGNORE_DUP_KEY'', 433), (''IGNORE_NONCLUSTERED_COLUMNSTORE_INDEX'', 434),
     (''IGNORE_REPLICATED_TABLE_CACHE'', 435), (''IGNORE_TRIGGERS'', 436), (''IIF'', 437),
     (''IMMEDIATE'', 438), (''IMPERSONATE'', 439), (''IMPLICIT_TRANSACTIONS'', 440),
     (''IMPORTANCE'', 441), (''IN'', 442), (''INCLUDE'', 443), (''INCLUDE_NULL_VALUES'', 444),
     (''INCREMENT'', 445), (''INCREMENTAL'', 446), (''INDEX'', 447),
     (''INDEXKEY_PROPERTY'', 448), (''INDEXPROPERTY'', 449), (''INDEX_COL'', 450),
     (''INFINITE'', 451), (''INIT'', 452), (''INITIATOR'', 453), (''INNER'', 454),
     (''INPUT'', 455), (''INSENSITIVE'', 456), (''INSERT'', 457), (''INSERTED'', 458),
     (''INSTEAD'', 459), (''INT'', 460), (''INTERSECT'', 461)]"

definition lexer_enum_10 :: "(string \<times> token) list" where
  "lexer_enum_10 = [
     (''INTO'', 462), (''IO'', 463), (''IP'', 464), (''IS'', 465), (''ISDESCENDANTOF'', 466),
     (''ISJSON'', 467), (''ISNULL'', 468), (''ISNUMERIC'', 469), (''ISOLATION'', 470),
     (''IS_MEMBER'', 471), (''IS_ROLEMEMBER'', 472), (''IS_SRVROLEMEMBER'', 473),
     (''JOB'', 474), (''JOIN'', 475), (''JSON'', 476), (''JSON_ARRAY'', 477),
     (''JSON_MODIFY'', 478), (''JSON_OBJECT'', 479), (''JSON_PATH_EXISTS'', 480),
     (''JSON_QUERY'', 481), (''JSON_VALUE'', 482), (''KB'', 483), (''KEEP'', 484),
     (''KEEPDEFAULTS'', 485), (''KEEPFIXED'', 486), (''KEEPIDENTITY'', 487),
     (''KERBEROS'', 488), (''KEY'', 489), (''KEYS'', 490), (''KEYSET'', 491),
     (''KEY_PATH'', 492), (''KEY_SOURCE'', 493), (''KEY_STORE_PROVIDER_NAME'', 494),
     (''KILL'', 495), (''LAG'', 496), (''LANGUAGE'', 497), (''LAST'', 498),
     (''LAST_VALUE'', 499), (''LEAD'', 500), (''LEAST'', 501), (''LEFT'', 502), (''LEN'', 503),
     (''LEVEL'', 504), (''LIBRARY'', 505), (''LIFETIME'', 506), (''LIKE'', 507),
     (''LINENO'', 508), (''LINKED'', 509), (''LINUX'', 510), (''LIST'', 511),
     (''LISTENER'', 512), (''LISTENER_IP'', 513), (''LISTENER_PORT'', 514),
     (''LISTENER_URL'', 515), (''LOAD'', 516), (''LOB_COMPACTION'', 517), (''LOCAL'', 518),
     (''LOCAL_SERVICE_NAME'', 519), (''LOCATION'', 520)]"

definition lexer_enum_11 :: "(string \<times> token) list" where
  "lexer_enum_11 = [
     (''LOCK'', 521), (''LOCK_ESCALATION'', 522), (''LOG'', 523), (''LOGIN'', 524),
     (''LOGINPROPERTY'', 525), (''LOOP'', 526), (''LOW'', 527), (''LOWER'', 528),
     (''LTRIM'', 529), (''MANUAL'', 530), (''MARK'', 531), (''MASK'', 532), (''MASKED'', 533),
     (''MASTER'', 534), (''MATCHED'', 535), (''MATERIALIZED'', 536), (''MAX'', 537),
     (''MAXDOP'', 538), (''MAXRECURSION'', 539), (''MAXSIZE'', 540), (''MAXTRANSFER'', 541),
     (''MAXVALUE'', 542), (''MAX_CPU_PERCENT'', 543), (''MAX_DISPATCH_LATENCY'', 544),
     (''MAX_DOP'', 545), (''MAX_DURATION'', 546), (''MAX_EVENT_SIZE'', 547),
     (''MAX_FILES'', 548), (''MAX_IOPS_PER_VOLUME'', 549), (''MAX_MEMORY'', 550),
     (''MAX_MEMORY_PERCENT'', 551), (''MAX_OUTSTANDING_IO_PER_VOLUME'', 552),
     (''MAX_PROCESSES'', 553), (''MAX_QUEUE_READERS'', 554), (''MAX_ROLLOVER_FILES'', 555),
     (''MAX_SIZE'', 556), (''MB'', 557), (''MEDIADESCRIPTION'', 558), (''MEDIANAME'', 559),
     (''MEDIUM'', 560), (''MEMBER'', 561), (''MEMORY_OPTIMIZED_DATA'', 562),
     (''MEMORY_PARTITION_MODE'', 563), (''MERGE'', 564), (''MESSAGE'', 565),
     (''MESSAGE_FORWARDING'', 566), (''MESSAGE_FORWARD_SIZE'', 567), (''MIN'', 568),
     (''MINUTES'', 569), (''MINVALUE'', 570), (''MIN_ACTIVE_ROWVERSION'', 571)]"

definition lexer_enum_12 :: "(string \<times> token) list" where
  "lexer_enum_12 = [
     (''MIN_CPU_PERCENT'', 572), (''MIN_IOPS_PER_VOLUME'', 573), (''MIN_MEMORY_PERCENT'', 574),
     (''MIRROR'', 575), (''MIRROR_ADDRESS'', 576), (''MIXED_PAGE_ALLOCATION'', 577),
     (''MODE'', 578), (''MODIFY'', 579), (''MODIFY_SQUARE_BRACKET'', 580), (''MOVE'', 581),
     (''MULTI_USER'', 582), (''MUST_CHANGE'', 583), (''NAME'', 584), (''NATIONAL'', 585),
     (''NCHAR'', 586), (''NEGOTIATE'', 587), (''NESTED_TRIGGERS'', 588), (''NEWID'', 589),
     (''NEWNAME'', 590), (''NEWSEQUENTIALID'', 591), (''NEW_ACCOUNT'', 592),
     (''NEW_BROKER'', 593), (''NEW_PASSWORD'', 594), (''NEXT'', 595), (''NO'', 596),
     (''NOCHECK'', 597), (''NOCOUNT'', 598), (''NODES'', 599), (''NOEXEC'', 600),
     (''NOEXPAND'', 601), (''NOFORMAT'', 602), (''NOHOLDLOCK'', 603), (''NOINDEX'', 604),
     (''NOINIT'', 605), (''NOLOCK'', 606), (''NONCLUSTERED'', 607), (''NONE'', 608),
     (''NON_TRANSACTED_ACCESS'', 609), (''NORECOMPUTE'', 610), (''NORECOVERY'', 611),
     (''NOREWIND'', 612), (''NOSKIP'', 613), (''NOT'', 614), (''NOTIFICATION'', 615),
     (''NOTIFICATIONS'', 616), (''NOUNLOAD'', 617), (''NOWAIT'', 618), (''NO_CHECKSUM'', 619),
     (''NO_COMPRESSION'', 620), (''NO_EVENT_LOSS'', 621), (''NO_INFOMSGS'', 622),
     (''NO_QUERYSTORE'', 623)]"

definition lexer_enum_13 :: "(string \<times> token) list" where
  "lexer_enum_13 = [
     (''NO_STATISTICS'', 624), (''NO_TRUNCATE'', 625), (''NO_WAIT'', 626), (''NTILE'', 627),
     (''NTLM'', 628), (''NULLIF'', 629), (''NULL_'', 630), (''NULL_DOUBLE_QUOTE'', 631),
     (''NUMANODE'', 632), (''NUMBER'', 633), (''NUMERIC_ROUNDABORT'', 634), (''OBJECT'', 635),
     (''OBJECTPROPERTY'', 636), (''OBJECTPROPERTYEX'', 637), (''OBJECT_DEFINITION'', 638),
     (''OBJECT_ID'', 639), (''OBJECT_NAME'', 640), (''OBJECT_SCHEMA_NAME'', 641),
     (''OF'', 642), (''OFF'', 643), (''OFFLINE'', 644), (''OFFSET'', 645), (''OFFSETS'', 646),
     (''OLD_ACCOUNT'', 647), (''OLD_PASSWORD'', 648), (''ON'', 649), (''ONLINE'', 650),
     (''ONLY'', 651), (''ON_FAILURE'', 652), (''OPEN'', 653), (''OPENDATASOURCE'', 654),
     (''OPENJSON'', 655), (''OPENQUERY'', 656), (''OPENROWSET'', 657), (''OPENXML'', 658),
     (''OPEN_EXISTING'', 659), (''OPERATIONS'', 660), (''OPTIMISTIC'', 661),
     (''OPTIMIZE'', 662), (''OPTIMIZE_FOR_SEQUENTIAL_KEY'', 663), (''OPTION'', 664),
     (''OR'', 665), (''ORDER'', 666), (''ORIGINAL_DB_NAME'', 667), (''ORIGINAL_LOGIN'', 668),
     (''OUT'', 669), (''OUTER'', 670), (''OUTPUT'', 671), (''OVER'', 672), (''OVERRIDE'', 673),
     (''OWNER'', 674), (''OWNERSHIP'', 675), (''PAD_INDEX'', 676), (''PAGE'', 677),
     (''PAGECOUNT'', 678), (''PAGE_VERIFY'', 679)]"

definition lexer_enum_14 :: "(string \<times> token) list" where
  "lexer_enum_14 = [
     (''PAGLOCK'', 680), (''PARAMETERIZATION'', 681), (''PARAM_NODE'', 682), (''PARSE'', 683),
     (''PARSENAME'', 684), (''PARSEONLY'', 685), (''PARTIAL'', 686), (''PARTITION'', 687),
     (''PARTITIONS'', 688), (''PARTNER'', 689), (''PASSWORD'', 690), (''PATH'', 691),
     (''PATINDEX'', 692), (''PAUSE'', 693), (''PDW_SHOWSPACEUSED'', 694), (''PERCENT'', 695),
     (''PERCENTILE_CONT'', 696), (''PERCENTILE_DISC'', 697), (''PERCENT_RANK'', 698),
     (''PERMISSIONS'', 699), (''PERMISSION_SET'', 700), (''PERSISTED'', 701),
     (''PERSIST_SAMPLE_PERCENT'', 702), (''PER_CPU'', 703), (''PER_DB'', 704),
     (''PER_NODE'', 705), (''PHYSICAL_ONLY'', 706), (''PIVOT'', 707), (''PLAN'', 708),
     (''PLATFORM'', 709), (''POISON_MESSAGE_HANDLING'', 710), (''POLICY'', 711),
     (''POOL'', 712), (''PORT'', 713), (''PRECEDING'', 714), (''PRECISION'', 715),
     (''PREDICATE'', 716), (''PRIMARY'', 717), (''PRIMARY_ROLE'', 718), (''PRINT'', 719),
     (''PRIOR'', 720), (''PRIORITY'', 721), (''PRIORITY_LEVEL'', 722), (''PRIVATE'', 723),
     (''PRIVATE_KEY'', 724), (''PRIVILEGES'', 725), (''PROC'', 726), (''PROCCACHE'', 727),
     (''PROCEDURE'', 728), (''PROCEDURE_NAME'', 729), (''PROCESS'', 730), (''PROFILE'', 731),
     (''PROPERTY'', 732), (''PROVIDER'', 733), (''PROVIDER_KEY_NAME'', 734)]"

definition lexer_enum_15 :: "(string \<times> token) list" where
  "lexer_enum_15 = [
     (''PUBLIC'', 735), (''PWDCOMPARE'', 736), (''PWDENCRYPT'', 737), (''PYTHON'', 738),
     (''QUERY'', 739), (''QUERY_SQUARE_BRACKET'', 740), (''QUEUE'', 741),
     (''QUEUE_DELAY'', 742), (''QUOTED_IDENTIFIER'', 743), (''QUOTENAME'', 744), (''R'', 745),
     (''RAISERROR'', 746), (''RANDOMIZED'', 747), (''RANGE'', 748), (''RANK'', 749),
     (''RAW'', 750), (''RC2'', 751), (''RC4'', 752), (''RC4_128'', 753), (''READ'', 754),
     (''READCOMMITTED'', 755), (''READCOMMITTEDLOCK'', 756), (''READONLY'', 757),
     (''READPAST'', 758), (''READTEXT'', 759), (''READUNCOMMITTED'', 760),
     (''READWRITE'', 761), (''READ_COMMITTED_SNAPSHOT'', 762), (''READ_ONLY'', 763),
     (''READ_ONLY_ROUTING_LIST'', 764), (''READ_WRITE'', 765),
     (''READ_WRITE_FILEGROUPS'', 766), (''REBUILD'', 767), (''RECEIVE'', 768),
     (''RECOMPILE'', 769), (''RECONFIGURE'', 770), (''RECOVERY'', 771),
     (''RECURSIVE_TRIGGERS'', 772), (''REFERENCES'', 773), (''REGENERATE'', 774),
     (''RELATED_CONVERSATION'', 775), (''RELATED_CONVERSATION_GROUP'', 776),
     (''RELATIVE'', 777), (''REMOTE'', 778), (''REMOTE_PROC_TRANSACTIONS'', 779),
     (''REMOTE_SERVICE_NAME'', 780), (''REMOVE'', 781), (''REORGANIZE'', 782),
     (''REPAIR_ALLOW_DATA_LOSS'', 783), (''REPAIR_FAST'', 784), (''REPAIR_REBUILD'', 785),
     (''REPEATABLE'', 786), (''REPEATABLEREAD'', 787)]"

definition lexer_enum_16 :: "(string \<times> token) list" where
  "lexer_enum_16 = [
     (''REPLACE'', 788), (''REPLICA'', 789), (''REPLICATE'', 790), (''REPLICATION'', 791),
     (''REQUEST_MAX_CPU_TIME_SEC'', 792), (''REQUEST_MAX_MEMORY_GRANT_PERCENT'', 793),
     (''REQUEST_MEMORY_GRANT_TIMEOUT_SEC'', 794), (''REQUIRED'', 795),
     (''REQUIRED_SYNCHRONIZED_SECONDARIES_TO_COMMIT'', 796), (''RESAMPLE'', 797),
     (''RESERVE_DISK_SPACE'', 798), (''RESET'', 799), (''RESOURCE'', 800),
     (''RESOURCES'', 801), (''RESOURCE_MANAGER_LOCATION'', 802), (''RESTART'', 803),
     (''RESTORE'', 804), (''RESTRICT'', 805), (''RESTRICTED_USER'', 806), (''RESUMABLE'', 807),
     (''RESUME'', 808), (''RETAINDAYS'', 809), (''RETENTION'', 810), (''RETURN'', 811),
     (''RETURNS'', 812), (''REVERSE'', 813), (''REVERT'', 814), (''REVOKE'', 815),
     (''REWIND'', 816), (''RIGHT'', 817), (''ROBUST'', 818), (''ROLE'', 819),
     (''ROLLBACK'', 820), (''ROOT'', 821), (''ROUND_ROBIN'', 822), (''ROUTE'', 823),
     (''ROW'', 824), (''ROWCOUNT'', 825), (''ROWCOUNT_BIG'', 826), (''ROWGUID'', 827),
     (''ROWGUIDCOL'', 828), (''ROWLOCK'', 829), (''ROWS'', 830), (''ROW_NUMBER'', 831),
     (''RSA_1024'', 832), (''RSA_2048'', 833), (''RSA_3072'', 834), (''RSA_4096'', 835),
     (''RSA_512'', 836), (''RTRIM'', 837), (''RULE'', 838), (''SAFE'', 839)]"

definition lexer_enum_17 :: "(string \<times> token) list" where
  "lexer_enum_17 = [
     (''SAFETY'', 840), (''SAMPLE'', 841), (''SAVE'', 842), (''SCHEDULER'', 843),
     (''SCHEMA'', 844), (''SCHEMABINDING'', 845), (''SCHEMA_ID'', 846), (''SCHEMA_NAME'', 847),
     (''SCHEME'', 848), (''SCOPED'', 849), (''SCOPE_IDENTITY'', 850), (''SCRIPT'', 851),
     (''SCROLL'', 852), (''SCROLL_LOCKS'', 853), (''SEARCH'', 854), (''SECONDARY'', 855),
     (''SECONDARY_ONLY'', 856), (''SECONDARY_ROLE'', 857), (''SECONDS'', 858),
     (''SECRET'', 859), (''SECURABLES'', 860), (''SECURITY'', 861), (''SECURITYAUDIT'', 862),
     (''SECURITY_LOG'', 863), (''SEEDING_MODE'', 864), (''SELECT'', 865), (''SELF'', 866),
     (''SEMANTICKEYPHRASETABLE'', 867), (''SEMANTICSIMILARITYDETAILSTABLE'', 868),
     (''SEMANTICSIMILARITYTABLE'', 869), (''SEMI_SENSITIVE'', 870), (''SEND'', 871),
     (''SENT'', 872), (''SEQUENCE'', 873), (''SEQUENCE_NUMBER'', 874), (''SERIALIZABLE'', 875),
     (''SERVER'', 876), (''SERVERPROPERTY'', 877), (''SERVICE'', 878),
     (''SERVICEBROKER'', 879), (''SERVICE_BROKER'', 880), (''SERVICE_NAME'', 881),
     (''SESSION'', 882), (''SESSIONPROPERTY'', 883), (''SESSION_CONTEXT'', 884),
     (''SESSION_TIMEOUT'', 885), (''SESSION_USER'', 886), (''SET'', 887), (''SETERROR'', 888),
     (''SETS'', 889), (''SETTINGS'', 890)]"

definition lexer_enum_18 :: "(string \<times> token) list" where
  "lexer_enum_18 = [
     (''SETUSER'', 891), (''SHARE'', 892), (''SHARED'', 893), (''SHOWCONTIG'', 894),
     (''SHOWPLAN'', 895), (''SHOWPLAN_ALL'', 896), (''SHOWPLAN_TEXT'', 897),
     (''SHOWPLAN_XML'', 898), (''SHRINKLOG'', 899), (''SHUTDOWN'', 900), (''SID'', 901),
     (''SIGNATURE'', 902), (''SIMPLE'', 903), (''SINGLE_USER'', 904), (''SIZE'', 905),
     (''SKIP_KEYWORD'', 906), (''SMALLINT'', 907), (''SNAPSHOT'', 908), (''SOFTNUMA'', 909),
     (''SOME'', 910), (''SORT_IN_TEMPDB'', 911), (''SOUNDEX'', 912), (''SOURCE'', 913),
     (''SPACE_KEYWORD'', 914), (''SPARSE'', 915), (''SPATIAL_WINDOW_MAX_CELLS'', 916),
     (''SPECIFICATION'', 917), (''SPLIT'', 918), (''SQL'', 919), (''SQLDUMPERFLAGS'', 920),
     (''SQLDUMPERPATH'', 921), (''SQLDUMPERTIMEOUT'', 922), (''SQL_VARIANT_PROPERTY'', 923),
     (''STANDBY'', 924), (''START'', 925), (''STARTED'', 926), (''STARTUP_STATE'', 927),
     (''START_DATE'', 928), (''STATE'', 929), (''STATIC'', 930), (''STATISTICS'', 931),
     (''STATISTICS_INCREMENTAL'', 932), (''STATISTICS_NORECOMPUTE'', 933), (''STATS'', 934),
     (''STATS_DATE'', 935), (''STATS_STREAM'', 936), (''STATUS'', 937), (''STATUSONLY'', 938),
     (''STDEV'', 939), (''STDEVP'', 940), (''STOP'', 941), (''STOPLIST'', 942),
     (''STOPPED'', 943)]"

definition lexer_enum_19 :: "(string \<times> token) list" where
  "lexer_enum_19 = [
     (''STOP_ON_ERROR'', 944), (''STR'', 945), (''STRING_AGG'', 946), (''STRING_ESCAPE'', 947),
     (''STUFF'', 948), (''SUBJECT'', 949), (''SUBSCRIBE'', 950), (''SUBSCRIPTION'', 951),
     (''SUBSTRING'', 952), (''SUM'', 953), (''SUPPORTED'', 954), (''SUSER_ID'', 955),
     (''SUSER_NAME'', 956), (''SUSER_SID'', 957), (''SUSER_SNAME'', 958), (''SUSPEND'', 959),
     (''SWITCH'', 960), (''SYMMETRIC'', 961), (''SYNCHRONOUS_COMMIT'', 962),
     (''SYNONYM'', 963), (''SYSTEM'', 964), (''SYSTEM_USER'', 965), (''TABLE'', 966),
     (''TABLERESULTS'', 967), (''TABLESAMPLE'', 968), (''TABLOCK'', 969), (''TABLOCKX'', 970),
     (''TAKE'', 971), (''TAPE'', 972), (''TARGET'', 973), (''TARGET_RECOVERY_TIME'', 974),
     (''TB'', 975), (''TCP'', 976), (''TEXTIMAGE_ON'', 977), (''TEXTSIZE'', 978),
     (''THEN'', 979), (''THROW'', 980), (''TIES'', 981), (''TIME'', 982), (''TIMEOUT'', 983),
     (''TIMER'', 984), (''TINYINT'', 985), (''TO'', 986), (''TOP'', 987),
     (''TORN_PAGE_DETECTION'', 988), (''TOSTRING'', 989), (''TRACE'', 990),
     (''TRACKING'', 991), (''TRACK_CAUSALITY'', 992), (''TRAN'', 993), (''TRANSACTION'', 994),
     (''TRANSACTION_ID'', 995), (''TRANSFER'', 996), (''TRANSFORM_NOISE_WORDS'', 997),
     (''TRANSLATE'', 998), (''TRIGGER'', 999), (''TRIM'', 1000)]"

definition lexer_enum_20 :: "(string \<times> token) list" where
  "lexer_enum_20 = [
     (''TRIPLE_DES'', 1001), (''TRIPLE_DES_3KEY'', 1002), (''TRUNCATE'', 1003),
     (''TRUSTWORTHY'', 1004), (''TRY'', 1005), (''TRY_CAST'', 1006), (''TSEQUAL'', 1007),
     (''TSQL'', 1008), (''TWO_DIGIT_YEAR_CUTOFF'', 1009), (''TYPE'', 1010),
     (''TYPEPROPERTY'', 1011), (''TYPE_ID'', 1012), (''TYPE_NAME'', 1013),
     (''TYPE_WARNING'', 1014), (''UNBOUNDED'', 1015), (''UNCHECKED'', 1016),
     (''UNCOMMITTED'', 1017), (''UNICODE'', 1018), (''UNION'', 1019), (''UNIQUE'', 1020),
     (''UNKNOWN'', 1021), (''UNLIMITED'', 1022), (''UNLOCK'', 1023), (''UNMASK'', 1024),
     (''UNPIVOT'', 1025), (''UNSAFE'', 1026), (''UOW'', 1027), (''UPDATE'', 1028),
     (''UPDATETEXT'', 1029), (''UPDLOCK'', 1030), (''UPPER'', 1031), (''URL'', 1032),
     (''USE'', 1033), (''USED'', 1034), (''USER'', 1035), (''USER_ID'', 1036),
     (''USER_NAME'', 1037), (''USING'', 1038), (''VALIDATION'', 1039), (''VALID_XML'', 1040),
     (''VALUE'', 1041), (''VALUES'', 1042), (''VALUE_SQUARE_BRACKET'', 1043), (''VAR'', 1044),
     (''VARBINARY_KEYWORD'', 1045), (''VARP'', 1046), (''VARYING'', 1047),
     (''VERBOSELOGGING'', 1048), (''VERIFY_CLONEDB'', 1049), (''VERSION'', 1050),
     (''VIEW'', 1051), (''VIEWS'', 1052), (''VIEW_METADATA'', 1053), (''VISIBILITY'', 1054)]"

definition lexer_enum_21 :: "(string \<times> token) list" where
  "lexer_enum_21 = [
     (''WAIT'', 1055), (''WAITFOR'', 1056), (''WAIT_AT_LOW_PRIORITY'', 1057),
     (''WELL_FORMED_XML'', 1058), (''WHEN'', 1059), (''WHERE'', 1060), (''WHILE'', 1061),
     (''WINDOWS'', 1062), (''WITH'', 1063), (''WITHIN'', 1064), (''WITHOUT'', 1065),
     (''WITHOUT_ARRAY_WRAPPER'', 1066), (''WITNESS'', 1067), (''WORK'', 1068),
     (''WORKLOAD'', 1069), (''WRITETEXT'', 1070), (''XACT_ABORT'', 1071),
     (''XACT_STATE'', 1072), (''XLOCK'', 1073), (''XML'', 1074), (''XMLDATA'', 1075),
     (''XMLNAMESPACES'', 1076), (''XMLSCHEMA'', 1077), (''XML_COMPRESSION'', 1078),
     (''XSINIL'', 1079), (''ZONE'', 1080), (''ABS'', 1081), (''ACOS'', 1082), (''ASIN'', 1083),
     (''ATAN'', 1084), (''ATN2'', 1085), (''CEILING'', 1086), (''COS'', 1087), (''COT'', 1088),
     (''DEGREES'', 1089), (''EXP'', 1090), (''FLOOR'', 1091), (''LOG10'', 1092),
     (''PI'', 1093), (''POWER'', 1094), (''RADIANS'', 1095), (''RAND'', 1096),
     (''ROUND'', 1097), (''SIGN'', 1098), (''SIN'', 1099), (''SQRT'', 1100),
     (''SQUARE'', 1101), (''TAN'', 1102), (''CURRENT_TIMEZONE'', 1103),
     (''CURRENT_TIMEZONE_ID'', 1104), (''DATE_BUCKET'', 1105), (''DATEDIFF_BIG'', 1106),
     (''DATEFROMPARTS'', 1107), (''DATETIME2FROMPARTS'', 1108), (''DATETIMEFROMPARTS'', 1109),
     (''DATETIMEOFFSETFROMPARTS'', 1110), (''DATETRUNC'', 1111)]"

definition lexer_enum_22 :: "(string \<times> token) list" where
  "lexer_enum_22 = [
     (''DAY'', 1112), (''EOMONTH'', 1113), (''ISDATE'', 1114), (''MONTH'', 1115),
     (''SMALLDATETIMEFROMPARTS'', 1116), (''SWITCHOFFSET'', 1117), (''SYSDATETIME'', 1118),
     (''SYSDATETIMEOFFSET'', 1119), (''SYSUTCDATETIME'', 1120), (''TIMEFROMPARTS'', 1121),
     (''TODATETIMEOFFSET'', 1122), (''YEAR'', 1123), (''QUARTER'', 1124),
     (''DAYOFYEAR'', 1125), (''WEEK'', 1126), (''HOUR'', 1127), (''MINUTE'', 1128),
     (''SECOND'', 1129), (''MILLISECOND'', 1130), (''MICROSECOND'', 1131),
     (''NANOSECOND'', 1132), (''TZOFFSET'', 1133), (''ISO_WEEK'', 1134), (''WEEKDAY'', 1135),
     (''YEAR_ABBR'', 1136), (''QUARTER_ABBR'', 1137), (''MONTH_ABBR'', 1138),
     (''DAYOFYEAR_ABBR'', 1139), (''DAY_ABBR'', 1140), (''WEEK_ABBR'', 1141),
     (''HOUR_ABBR'', 1142), (''MINUTE_ABBR'', 1143), (''SECOND_ABBR'', 1144),
     (''MILLISECOND_ABBR'', 1145), (''MICROSECOND_ABBR'', 1146), (''NANOSECOND_ABBR'', 1147),
     (''TZOFFSET_ABBR'', 1148), (''ISO_WEEK_ABBR'', 1149), (''WEEKDAY_ABBR'', 1150),
     (''SP_EXECUTESQL'', 1151), (''VARCHAR'', 1152), (''NVARCHAR'', 1153),
     (''DISK_DRIVE'', 1154), (''DOLLAR_ACTION'', 1155), (''CURSOR_ROWS'', 1156),
     (''FETCH_STATUS'', 1157), (''IPV4_ADDR'', 1158), (''SPACE'', 1159), (''COMMENT'', 1160)]"

definition lexer_enum_23 :: "(string \<times> token) list" where
  "lexer_enum_23 = [
     (''LINE_COMMENT'', 1161), (''DOUBLE_QUOTE_ID'', 1162), (''DOUBLE_QUOTE_BLANK'', 1163),
     (''SINGLE_QUOTE'', 1164), (''SQUARE_BRACKET_ID'', 1165), (''LOCAL_ID'', 1166),
     (''TEMP_ID'', 1167), (''DECIMAL'', 1168), (''ID'', 1169), (''STRING'', 1170),
     (''BINARY'', 1171), (''FLOAT'', 1172), (''REAL'', 1173), (''EQUAL'', 1174),
     (''GREATER'', 1175), (''LESS'', 1176), (''EXCLAMATION'', 1177), (''PLUS_ASSIGN'', 1178),
     (''MINUS_ASSIGN'', 1179), (''MULT_ASSIGN'', 1180), (''DIV_ASSIGN'', 1181),
     (''MOD_ASSIGN'', 1182), (''AND_ASSIGN'', 1183), (''XOR_ASSIGN'', 1184),
     (''OR_ASSIGN'', 1185), (''DOUBLE_BAR'', 1186), (''DOT'', 1187), (''UNDERLINE'', 1188),
     (''AT'', 1189), (''SHARP'', 1190), (''DOLLAR'', 1191), (''LR_BRACKET'', 1192),
     (''RR_BRACKET'', 1193), (''COMMA'', 1194), (''SEMI'', 1195), (''COLON'', 1196),
     (''DOUBLE_COLON'', 1197), (''STAR'', 1198), (''DIVIDE'', 1199), (''MODULE'', 1200),
     (''PLUS'', 1201), (''MINUS'', 1202), (''BIT_NOT'', 1203), (''BIT_OR'', 1204),
     (''BIT_AND'', 1205), (''BIT_XOR'', 1206), (''PLACEHOLDER'', 1207)]"

definition lexer_enum :: "(string \<times> token) list" where
  "lexer_enum =
     lexer_enum_1 @ lexer_enum_2 @ lexer_enum_3 @ lexer_enum_4 @ lexer_enum_5 @ lexer_enum_6
     @ lexer_enum_7 @ lexer_enum_8 @ lexer_enum_9 @ lexer_enum_10 @ lexer_enum_11 @
     lexer_enum_12 @ lexer_enum_13 @ lexer_enum_14 @ lexer_enum_15 @ lexer_enum_16 @
     lexer_enum_17 @ lexer_enum_18 @ lexer_enum_19 @ lexer_enum_20 @ lexer_enum_21 @
     lexer_enum_22 @ lexer_enum_23"

end
