(* ===== verification/Parser_Tables.thy ===== *)
theory Parser_Tables
  imports Prelude
begin

text \<open>
  The two \<open>enum\<close>s of \<open>port/cpp/TSqlParser.h\<close>, token types and rule indices, and its forward
  declarations of the context classes of the rules.
\<close>

definition parser_enum_1 :: "(string \<times> token) list" where
  "parser_enum_1 = [
     (''ABORT'', 1), (''ABORT_AFTER_WAIT'', 2), (''ABSENT'', 3), (''ABSOLUTE'', 4),
     (''ACCELERATED_DATABASE_RECOVERY'', 5), (''ACCENT_SENSITIVITY'', 6), (''ACCESS'', 7),
     (''ACTION'', 8), (''ACTIVATION'', 9), (''ACTIVE'', 10), (''ADD'', 11), (''ADDRESS'', 12),
     (''ADMINISTER'', 13), (''AES'', 14), (''AES_128'', 15), (''AES_192'', 16),
     (''AES_256'', 17), (''AFFINITY'', 18), (''AFTER'', 19), (''AGGREGATE'', 20),
     (''ALGORITHM'', 21), (''ALL'', 22), (''ALLOWED'', 23), (''ALLOW_CONNECTIONS'', 24),
     (''ALLOW_ENCRYPTED_VALUE_MODIFICATIONS'', 25), (''ALLOW_MULTIPLE_EVENT_LOSS'', 26),
     (''ALLOW_PAGE_LOCKS'', 27), (''ALLOW_ROW_LOCKS'', 28), (''ALLOW_SINGLE_EVENT_LOSS'', 29),
     (''ALLOW_SNAPSHOT_ISOLATION'', 30), (''ALL_CONSTRAINTS'', 31), (''ALL_ERRORMSGS'', 32),
     (''ALL_INDEXES'', 33), (''ALL_LEVELS'', 34), (''ALTER'', 35), (''ALWAYS'', 36),
     (''AND'', 37), (''ANONYMOUS'', 38), (''ANSI_DEFAULTS'', 39), (''ANSI_NULLS'', 40),
     (''ANSI_NULL_DEFAULT'', 41), (''ANSI_NULL_DFLT_OFF'', 42), (''ANSI_NULL_DFLT_ON'', 43),
     (''ANSI_PADDING'', 44), (''ANSI_WARNINGS'', 45), (''ANY'', 46), (''APPEND'', 47),
     (''APPLICATION'', 48), (''APPLICATION_LOG'', 49), (''APPLOCK_MODE'', 50),
     (''APPLOCK_TEST'', 51), (''APPLY'', 52), (''APP_NAME'', 53), (''ARITHABORT'', 54)]"

definition parser_enum_2 :: "(string \<times> token) list" where
  "parser_enum_2 = [
     (''ARITHIGNORE'', 55), (''AS'', 56), (''ASC'', 57), (''ASCII'', 58), (''ASSEMBLY'', 59),
     (''ASSEMBLYPROPERTY'', 60), (''ASYMMETRIC'', 61), (''ASYNCHRONOUS_COMMIT'', 62),
     (''AT_KEYWORD'', 63), (''AUDIT'', 64), (''AUDIT_GUID'', 65), (''AUTHENTICATE'', 66),
     (''AUTHENTICATION'', 67), (''AUTHORIZATION'', 68), (''AUTO'', 69),
     (''AUTOGROW_ALL_FILES'', 70), (''AUTOGROW_SINGLE_FILE'', 71),
     (''AUTOMATED_BACKUP_PREFERENCE'', 72), (''AUTOMATIC'', 73), (''AUTO_CLEANUP'', 74),
     (''AUTO_CLOSE'', 75), (''AUTO_CREATE_STATISTICS'', 76), (''AUTO_DROP'', 77),
     (''AUTO_SHRINK'', 78), (''AUTO_UPDATE_STATISTICS'', 79),
     (''AUTO_UPDATE_STATISTICS_ASYNC'', 80), (''AVAILABILITY'', 81),
     (''AVAILABILITY_MODE'', 82), (''AVG'', 83), (''BACKSLASH'', 84), (''BACKUP'', 85),
     (''BACKUP_CLONEDB'', 86), (''BACKUP_PRIORITY'', 87), (''BASE64'', 88), (''BEFORE'', 89),
     (''BEGIN'', 90), (''BEGIN_DIALOG'', 91), (''BETWEEN'', 92), (''BIGINT'', 93),
     (''BINARY_CHECKSUM'', 94), (''BINARY_KEYWORD'', 95), (''BINDING'', 96),
     (''BLOB_STORAGE'', 97), (''BLOCK'', 98), (''BLOCKERS'', 99),
     (''BLOCKING_HIERARCHY'', 100), (''BLOCKSIZE'', 101), (''BREAK'', 102), (''BROKER'', 103),
     (''BROKER_INSTANCE'', 104), (''BROWSE'', 105), (''BUFFER'', 106)]"

definition parser_enum_3 :: "(string \<times> token) list" where
  "parser_enum_3 = [
     (''BUFFERCOUNT'', 107), (''BULK'', 108), (''BULK_LOGGED'', 109), (''BY'', 110),
     (''CACHE'', 111), (''CALLED'', 112), (''CALLER'', 113), (''CAP_CPU_PERCENT'', 114),
     (''CASCADE'', 115), (''CASE'', 116), (''CAST'', 117), (''CATALOG'', 118),
     (''CATCH'', 119), (''CERTENCODED'', 120), (''CERTIFICATE'', 121),
     (''CERTPRIVATEKEY'', 122), (''CERT_ID'', 123), (''CHANGE'', 124), (''CHANGES'', 125),
     (''CHANGETABLE'', 126), (''CHANGE_RETENTION'', 127), (''CHANGE_TRACKING'', 128),
     (''CHAR'', 129), (''CHARINDEX'', 130), (''CHECK'', 131), (''CHECKALLOC'', 132),
     (''CHECKCATALOG'', 133), (''CHECKCONSTRAINTS'', 134), (''CHECKDB'', 135),
     (''CHECKFILEGROUP'', 136), (''CHECKPOINT'', 137), (''CHECKSUM'', 138),
     (''CHECKSUM_AGG'', 139), (''CHECKTABLE'', 140), (''CHECK_EXPIRATION'', 141),
     (''CHECK_POLICY'', 142), (''CLASSIFIER_FUNCTION'', 143), (''CLEANTABLE'', 144),
     (''CLEANUP'', 145), (''CLONEDATABASE'', 146), (''CLOSE'', 147), (''CLUSTER'', 148),
     (''CLUSTERED'', 149), (''COALESCE'', 150), (''COLLATE'', 151), (''COLLECTION'', 152),
     (''COLUMN'', 153), (''COLUMNPROPERTY'', 154), (''COLUMNS'', 155), (''COLUMNSTORE'', 156),
     (''COLUMNSTORE_ARCHIVE'', 157), (''COLUMN_ENCRYPTION_KEY'', 158)]"

definition parser_enum_4 :: "(string \<times> token) list" where
  "parser_enum_4 = [
     (''COLUMN_MASTER_KEY'', 159), (''COL_LENGTH'', 160), (''COL_NAME'', 161),
     (''COMMIT'', 162), (''COMMITTED'', 163), (''COMPATIBILITY_LEVEL'', 164),
     (''COMPRESS'', 165), (''COMPRESSION'', 166), (''COMPRESSION_DELAY'', 167),
     (''COMPRESS_ALL_ROW_GROUPS'', 168), (''COMPUTE'', 169), (''CONCAT'', 170),
     (''CONCAT_NULL_YIELDS_NULL'', 171), (''CONCAT_WS'', 172), (''CONFIGURATION'', 173),
     (''CONNECT'', 174), (''CONNECTION'', 175), (''CONNECTIONPROPERTY'', 176),
     (''CONSTRAINT'', 177), (''CONTAINMENT'', 178), (''CONTAINS'', 179),
     (''CONTAINSTABLE'', 180), (''CONTENT'', 181), (''CONTEXT'', 182), (''CONTEXT_INFO'', 183),
     (''CONTINUE'', 184), (''CONTINUE_AFTER_ERROR'', 185), (''CONTRACT'', 186),
     (''CONTRACT_NAME'', 187), (''CONTROL'', 188), (''CONVERSATION'', 189), (''CONVERT'', 190),
     (''COOKIE'', 191), (''COPY_ONLY'', 192), (''COUNT'', 193), (''COUNTER'', 194),
     (''COUNT_BIG'', 195), (''CPU'', 196), (''CREATE'', 197), (''CREATE_NEW'', 198),
     (''CREATION_DISPOSITION'', 199), (''CREDENTIAL'', 200), (''CROSS'', 201),
     (''CRYPTOGRAPHIC'', 202), (''CUME_DIST'', 203), (''CURRENT'', 204),
     (''CURRENT_DATE'', 205), (''CURRENT_REQUEST_ID'', 206), (''CURRENT_TIME'', 207)]"

definition parser_enum_5 :: "(string \<times> token) list" where
  "parser_enum_5 = [
     (''CURRENT_TIMESTAMP'', 208), (''CURRENT_TRANSACTION_ID'', 209), (''CURRENT_USER'', 210),
     (''CURSOR'', 211), (''CURSOR_CLOSE_ON_COMMIT'', 212), (''CURSOR_DEFAULT'', 213),
     (''CURSOR_STATUS'', 214), (''CYCLE'', 215), (''DATA'', 216), (''DATABASE'', 217),
     (''DATABASEPROPERTYEX'', 218), (''DATABASE_MIRRORING'', 219),
     (''DATABASE_PRINCIPAL_ID'', 220), (''DATALENGTH'', 221), (''DATASPACE'', 222),
     (''DATA_COMPRESSION'', 223), (''DATA_PURITY'', 224), (''DATA_SOURCE'', 225),
     (''DATEADD'', 226), (''DATEDIFF'', 227), (''DATENAME'', 228), (''DATEPART'', 229),
     (''DATE_CORRELATION_OPTIMIZATION'', 230), (''DAYS'', 231), (''DBCC'', 232),
     (''DBREINDEX'', 233), (''DB_CHAINING'', 234), (''DB_FAILOVER'', 235), (''DB_ID'', 236),
     (''DB_NAME'', 237), (''DDL'', 238), (''DEALLOCATE'', 239), (''DECLARE'', 240),
     (''DECOMPRESS'', 241), (''DECRYPTION'', 242), (''DEFAULT'', 243),
     (''DEFAULT_DATABASE'', 244), (''DEFAULT_DOUBLE_QUOTE'', 245),
     (''DEFAULT_FULLTEXT_LANGUAGE'', 246), (''DEFAULT_LANGUAGE'', 247),
     (''DEFAULT_SCHEMA'', 248), (''DEFINITION'', 249), (''DELAY'', 250),
     (''DELAYED_DURABILITY'', 251), (''DELETE'', 252), (''DELETED'', 253),
     (''DENSE_RANK'', 254), (''DENY'', 255), (''DEPENDENTS'', 256)]"

definition parser_enum_6 :: "(string \<times> token) list" where
  "parser_enum_6 = [
     (''DES'', 257), (''DESC'', 258), (''DESCRIPTION'', 259), (''DESX'', 260),
     (''DETERMINISTIC'', 261), (''DHCP'', 262), (''DIAGNOSTICS'', 263), (''DIALOG'', 264),
     (''DIFFERENCE'', 265), (''DIFFERENTIAL'', 266), (''DIRECTORY_NAME'', 267),
     (''DISABLE'', 268), (''DISABLED'', 269), (''DISABLE_BROKER'', 270), (''DISK'', 271),
     (''DISTINCT'', 272), (''DISTRIBUTED'', 273), (''DISTRIBUTION'', 274), (''DOCUMENT'', 275),
     (''DOLLAR_PARTITION'', 276), (''DOUBLE'', 277), (''DOUBLE_BACK_SLASH'', 278),
     (''DOUBLE_FORWARD_SLASH'', 279), (''DROP'', 280), (''DROPCLEANBUFFERS'', 281),
     (''DROP_EXISTING'', 282), (''DTC_SUPPORT'', 283), (''DUMP'', 284), (''DYNAMIC'', 285),
     (''ELEMENTS'', 286), (''ELSE'', 287), (''EMERGENCY'', 288), (''EMPTY'', 289),
     (''ENABLE'', 290), (''ENABLED'', 291), (''ENABLE_BROKER'', 292), (''ENCRYPTED'', 293),
     (''ENCRYPTED_VALUE'', 294), (''ENCRYPTION'', 295), (''ENCRYPTION_TYPE'', 296),
     (''END'', 297), (''ENDPOINT'', 298), (''ENDPOINT_URL'', 299), (''ERRLVL'', 300),
     (''ERROR'', 301), (''ERROR_BROKER_CONVERSATIONS'', 302), (''ERROR_LINE'', 303),
     (''ERROR_MESSAGE'', 304), (''ERROR_NUMBER'', 305), (''ERROR_PROCEDURE'', 306),
     (''ERROR_SEVERITY'', 307), (''ERROR_STATE'', 308), (''ESCAPE'', 309),
     (''ESTIMATEONLY'', 310)]"

definition parser_enum_7 :: "(string \<times> token) list" where
  "parser_enum_7 = [
     (''EVENT'', 311), (''EVENTDATA'', 312), (''EVENT_RETENTION_MODE'', 313),
     (''EXCEPT'', 314), (''EXCLUSIVE'', 315), (''EXECUTABLE'', 316),
     (''EXECUTABLE_FILE'', 317), (''EXECUTE'', 318), (''EXIST'', 319), (''EXISTS'', 320),
     (''EXIST_SQUARE_BRACKET'', 321), (''EXIT'', 322), (''EXPAND'', 323),
     (''EXPIREDATE'', 324), (''EXPIRY_DATE'', 325), (''EXPLICIT'', 326),
     (''EXTENDED_LOGICAL_CHECKS'', 327), (''EXTENSION'', 328), (''EXTERNAL'', 329),
     (''EXTERNAL_ACCESS'', 330), (''FAILOVER'', 331), (''FAILOVER_MODE'', 332),
     (''FAILURE'', 333), (''FAILURECONDITIONLEVEL'', 334), (''FAILURE_CONDITION_LEVEL'', 335),
     (''FAIL_OPERATION'', 336), (''FAN_IN'', 337), (''FAST'', 338), (''FAST_FORWARD'', 339),
     (''FETCH'', 340), (''FILE'', 341), (''FILEGROUP'', 342), (''FILEGROUPPROPERTY'', 343),
     (''FILEGROUP_ID'', 344), (''FILEGROUP_NAME'', 345), (''FILEGROWTH'', 346),
     (''FILENAME'', 347), (''FILEPATH'', 348), (''FILEPROPERTY'', 349),
     (''FILEPROPERTYEX'', 350), (''FILESTREAM'', 351), (''FILESTREAM_ON'', 352),
     (''FILE_ID'', 353), (''FILE_IDEX'', 354), (''FILE_NAME'', 355), (''FILE_SNAPSHOT'', 356),
     (''FILLFACTOR'', 357), (''FILTER'', 358), (''FIRST'', 359), (''FIRST_VALUE'', 360),
     (''FMTONLY'', 361)]"

definition parser_enum_8 :: "(string \<times> token) list" where
  "parser_enum_8 = [
     (''FOLLOWING'', 362), (''FOR'', 363), (''FORCE'', 364), (''FORCED'', 365),
     (''FORCEPLAN'', 366), (''FORCESCAN'', 367), (''FORCESEEK'', 368),
     (''FORCE_FAILOVER_ALLOW_DATA_LOSS'', 369), (''FORCE_SERVICE_ALLOW_DATA_LOSS'', 370),
     (''FOREIGN'', 371), (''FORMAT'', 372), (''FORMATMESSAGE'', 373), (''FORWARD_ONLY'', 374),
     (''FREE'', 375), (''FREETEXT'', 376), (''FREETEXTTABLE'', 377), (''FROM'', 378),
     (''FULL'', 379), (''FULLSCAN'', 380), (''FULLTEXT'', 381),
     (''FULLTEXTCATALOGPROPERTY'', 382), (''FULLTEXTSERVICEPROPERTY'', 383),
     (''FUNCTION'', 384), (''GB'', 385), (''GENERATED'', 386), (''GET'', 387),
     (''GETANCESTOR'', 388), (''GETANSINULL'', 389), (''GETDATE'', 390),
     (''GETDESCENDANT'', 391), (''GETLEVEL'', 392), (''GETREPARENTEDVALUE'', 393),
     (''GETROOT'', 394), (''GETUTCDATE'', 395), (''GET_FILESTREAM_TRANSACTION_CONTEXT'', 396),
     (''GLOBAL'', 397), (''GO'', 398), (''GOTO'', 399), (''GOVERNOR'', 400), (''GRANT'', 401),
     (''GREATEST'', 402), (''GROUP'', 403), (''GROUPING'', 404), (''GROUPING_ID'', 405),
     (''GROUP_MAX_REQUESTS'', 406), (''HADR'', 407), (''HASH'', 408), (''HASHED'', 409),
     (''HAS_DBACCESS'', 410), (''HAS_PERMS_BY_NAME'', 411), (''HAVING'', 412)]"

definition parser_enum_9 :: "(string \<times> token) list" where
  "parser_enum_9 = [
     (''HEALTHCHECKTIMEOUT'', 413), (''HEALTH_CHECK_TIMEOUT'', 414), (''HEAP'', 415),
     (''HIDDEN_KEYWORD'', 416), (''HIERARCHYID'', 417), (''HIGH'', 418), (''HOLDLOCK'', 419),
     (''HONOR_BROKER_PRIORITY'', 420), (''HOST_ID'', 421), (''HOST_NAME'', 422),
     (''HOURS'', 423), (''IDENTITY'', 424), (''IDENTITYCOL'', 425), (''IDENTITY_INSERT'', 426),
     (''IDENTITY_VALUE'', 427), (''IDENT_CURRENT'', 428), (''IDENT_INCR'', 429),
     (''IDENT_SEED'', 430), (''IF'', 431), (''IGNORE_CONSTRAINTS'', 432),
     (''IGNORE_DUP_KEY'', 433), (''IGNORE_NONCLUSTERED_COLUMNSTORE_INDEX'', 434),
     (''IGNORE_REPLICATED_TABLE_CACHE'', 435), (''IGNORE_TRIGGERS'', 436), (''IIF'', 437),
     (''IMMEDIATE'', 438), (''IMPERSONATE'', 439), (''IMPLICIT_TRANSACTIONS'', 440),
     (''IMPORTANCE'', 441), (''IN'', 442), (''INCLUDE'', 443), (''INCLUDE_NULL_VALUES'', 444),
     (''INCREMENT'', 445), (''INCREMENTAL'', 446), (''INDEX'', 447),
     (''INDEXKEY_PROPERTY'', 448), (''INDEXPROPERTY'', 449), (''INDEX_COL'', 450),
     (''INFINITE'', 451), (''INIT'', 452), (''INITIATOR'', 453), (''INNER'', 454),
     (''INPUT'', 455), (''INSENSITIVE'', 456), (''INSERT'', 457), (''INSERTED'', 458),
     (''INSTEAD'', 459), (''INT'', 460), (''INTERSECT'', 461)]"

definition parser_enum_10 :: "(string \<times> token) list" where
  "parser_enum_10 = [
     (''INTO'', 462), (''IO'', 463), (''IP'', 464), (''IS'', 465), (''ISDESCENDANTOF'', 466),
     (''ISJSON'', 467), (''ISNULL'', 468), (''ISNUMERIC'', 469), (''ISOLATION'', 470),
     (''IS_MEMBER'', 471), (''IS_ROLEMEMBER'', 472), (''IS_SRVROLEMEMBER'', 473),
     (''JOB'', 474), (''JOIN'', 475), (''JSON'', 476), (''JSON_ARRAY'', 477),
     (''JSON_MODIFY'', 478), (''JSON_OBJECT'', 479), (''JSON_PATH_EXISTS'', 480),
     (''JSON_QUERY'', 481), (''JSON_VALUE'', 482), (''KB'', 483), (''KEEP'', 484),
     (''KEEPDEFAULTS'', 485), (''KEEPFIXED'', 486), (''KEEPIDENTITY'', 487),
     (''KERBEROS'', 488), (''KEY'', 489), (''KEYS'', 490), (''KEYSET'', 491),
     (''KEY_PATH'', 492), (''KEY_SOURCE'', 493), (''KEY_STORE_PROVIDER_NAME'', 494),
     (''KILL'', 495), (''LAG'', 496), (''LANGUAGE'', 497), (''LAST'', 498),
     (''LAST_VALUE'', 499), (''LEAD'', 500), (''LEAST'', 501), (''LEFT'', 502), (''LEN'', 503),
     (''LEVEL'', 504), (''LIBRARY'', 505), (''LIFETIME'', 506), (''LIKE'', 507),
     (''LINENO'', 508), (''LINKED'', 509), (''LINUX'', 510), (''LIST'', 511),
     (''LISTENER'', 512), (''LISTENER_IP'', 513), (''LISTENER_PORT'', 514),
     (''LISTENER_URL'', 515), (''LOAD'', 516), (''LOB_COMPACTION'', 517), (''LOCAL'', 518),
     (''LOCAL_SERVICE_NAME'', 519), (''LOCATION'', 520)]"

definition parser_enum_11 :: "(string \<times> token) list" where
  "parser_enum_11 = [
     (''LOCK'', 521), (''LOCK_ESCALATION'', 522), (''LOG'', 523), (''LOGIN'', 524),
     (''LOGINPROPERTY'', 525), (''LOOP'', 526), (''LOW'', 527), (''LOWER'', 528),
     (''LTRIM'', 529), (''MANUAL'', 530), (''MARK'', 531), (''MASK'', 532), (''MASKED'', 533),
     (''MASTER'', 534), (''MATCHED'', 535), (''MATERIALIZED'', 536), (''MAX'', 537),
     (''MAXDOP'', 538), (''MAXRECURSION'', 539), (''MAXSIZE'', 540), (''MAXTRANSFER'', 541),
     (''MAXVALUE'', 542), (''MAX_CPU_PERCENT'', 543), (''MAX_DISPATCH_LATENCY'', 544),
     (''MAX_DOP'', 545), (''MAX_DURATION'', 546), (''MAX_EVENT_SIZE'', 547),
     (''MAX_FILES'', 548), (''MAX_IOPS_PER_VOLUME'', 549), (''MAX_MEMORY'', 550),
     (''MAX_MEMORY_PERCENT'', 551), (''MAX_OUTSTANDING_IO_PER_VOLUME'', 552),
     (''MAX_PROCESSES'', 553), (''MAX_QUEUE_READERS'', 554), (''MAX_ROLLOVER_FILES'', 555),
     (''MAX_SIZE'', 556), (''MB'', 557), (''MEDIADESCRIPTION'', 558), (''MEDIANAME'', 559),
     (''MEDIUM'', 560), (''MEMBER'', 561), (''MEMORY_OPTIMIZED_DATA'', 562),
     (''MEMORY_PARTITION_MODE'', 563), (''MERGE'', 564), (''MESSAGE'', 565),
     (''MESSAGE_FORWARDING'', 566), (''MESSAGE_FORWARD_SIZE'', 567), (''MIN'', 568),
     (''MINUTES'', 569), (''MINVALUE'', 570), (''MIN_ACTIVE_ROWVERSION'', 571)]"

definition parser_enum_12 :: "(string \<times> token) list" where
  "parser_enum_12 = [
     (''MIN_CPU_PERCENT'', 572), (''MIN_IOPS_PER_VOLUME'', 573), (''MIN_MEMORY_PERCENT'', 574),
     (''MIRROR'', 575), (''MIRROR_ADDRESS'', 576), (''MIXED_PAGE_ALLOCATION'', 577),
     (''MODE'', 578), (''MODIFY'', 579), (''MODIFY_SQUARE_BRACKET'', 580), (''MOVE'', 581),
     (''MULTI_USER'', 582), (''MUST_CHANGE'', 583), (''NAME'', 584), (''NATIONAL'', 585),
     (''NCHAR'', 586), (''NEGOTIATE'', 587), (''NESTED_TRIGGERS'', 588), (''NEWID'', 589),
     (''NEWNAME'', 590), (''NEWSEQUENTIALID'', 591), (''NEW_ACCOUNT'', 592),
     (''NEW_BROKER'', 593), (''NEW_PASSWORD'', 594), (''NEXT'', 595), (''NO'', 596),
     (''NOCHECK'', 597), (''NOCOUNT'', 598), (''NODES'', 599), (''NOEXEC'', 600),
     (''NOEXPAND'', 601), (''NOFORMAT'', 602), (''NOHOLDLOCK'', 603), (''NOINDEX'', 604),
     (''NOINIT'', 605), (''NOLOCK'', 606), (''NONCLUSTERED'', 607), (''NONE'', 608),
     (''NON_TRANSACTED_ACCESS'', 609), (''NORECOMPUTE'', 610), (''NORECOVERY'', 611),
     (''NOREWIND'', 612), (''NOSKIP'', 613), (''NOT'', 614), (''NOTIFICATION'', 615),
     (''NOTIFICATIONS'', 616), (''NOUNLOAD'', 617), (''NOWAIT'', 618), (''NO_CHECKSUM'', 619),
     (''NO_COMPRESSION'', 620), (''NO_EVENT_LOSS'', 621), (''NO_INFOMSGS'', 622),
     (''NO_QUERYSTORE'', 623)]"

definition parser_enum_13 :: "(string \<times> token) list" where
  "parser_enum_13 = [
     (''NO_STATISTICS'', 624), (''NO_TRUNCATE'', 625), (''NO_WAIT'', 626), (''NTILE'', 627),
     (''NTLM'', 628), (''NULLIF'', 629), (''NULL_'', 630), (''NULL_DOUBLE_QUOTE'', 631),
     (''NUMANODE'', 632), (''NUMBER'', 633), (''NUMERIC_ROUNDABORT'', 634), (''OBJECT'', 635),
     (''OBJECTPROPERTY'', 636), (''OBJECTPROPERTYEX'', 637), (''OBJECT_DEFINITION'', 638),
     (''OBJECT_ID'', 639), (''OBJECT_NAME'', 640), (''OBJECT_SCHEMA_NAME'', 641),
     (''OF'', 642), (''OFF'', 643), (''OFFLINE'', 644), (''OFFSET'', 645), (''OFFSETS'', 646),
     (''OLD_ACCOUNT'', 647), (''OLD_PASSWORD'', 648), (''ON'', 649), (''ONLINE'', 650),
     (''ONLY'', 651), (''ON_FAILURE'', 652), (''OPEN'', 653), (''OPENDATASOURCE'', 654),
     (''OPENJSON'', 655), (''OPENQUERY'', 656), (''OPENROWSET'', 657), (''OPENXML'', 658),
     (''OPEN_EXISTING'', 659), (''OPERATIONS'', 660), (''OPTIMISTIC'', 661),
     (''OPTIMIZE'', 662), (''OPTIMIZE_FOR_SEQUENTIAL_KEY'', 663), (''OPTION'', 664),
     (''OR'', 665), (''ORDER'', 666), (''ORIGINAL_DB_NAME'', 667), (''ORIGINAL_LOGIN'', 668),
     (''OUT'', 669), (''OUTER'', 670), (''OUTPUT'', 671), (''OVER'', 672), (''OVERRIDE'', 673),
     (''OWNER'', 674), (''OWNERSHIP'', 675), (''PAD_INDEX'', 676), (''PAGE'', 677),
     (''PAGECOUNT'', 678), (''PAGE_VERIFY'', 679)]"

definition parser_enum_14 :: "(string \<times> token) list" where
  "parser_enum_14 = [
     (''PAGLOCK'', 680), (''PARAMETERIZATION'', 681), (''PARAM_NODE'', 682), (''PARSE'', 683),
     (''PARSENAME'', 684), (''PARSEONLY'', 685), (''PARTIAL'', 686), (''PARTITION'', 687),
     (''PARTITIONS'', 688), (''PARTNER'', 689), (''PASSWORD'', 690), (''PATH'', 691),
     (''PATINDEX'', 692), (''PAUSE'', 693), (''PDW_SHOWSPACEUSED'', 694), (''PERCENT'', 695),
     (''PERCENTILE_CONT'', 696), (''PERCENTILE_DISC'', 697), (''PERCENT_RANK'', 698),
     (''PERMISSIONS'', 699), (''PERMISSION_SET'', 700), (''PERSISTED'', 701),
     (''PERSIST_SAMPLE_PERCENT'', 702), (''PER_CPU'', 703), (''PER_DB'', 704),
     (''PER_NODE'', 705), (''PHYSICAL_ONLY'', 706), (''PIVOT'', 707), (''PLAN'', 708),
     (''PLATFORM'', 709), (''POISON_MESSAGE_HANDLING'', 710), (''POLICY'', 711),
     (''POOL'', 712), (''PORT'', 713), (''PRECEDING'', 714), (''PRECISION'', 715),
     (''PREDICATE'', 716), (''PRIMARY'', 717), (''PRIMARY_ROLE'', 718), (''PRINT'', 719),
     (''PRIOR'', 720), (''PRIORITY'', 721), (''PRIORITY_LEVEL'', 722), (''PRIVATE'', 723),
     (''PRIVATE_KEY'', 724), (''PRIVILEGES'', 725), (''PROC'', 726), (''PROCCACHE'', 727),
     (''PROCEDURE'', 728), (''PROCEDURE_NAME'', 729), (''PROCESS'', 730), (''PROFILE'', 731),
     (''PROPERTY'', 732), (''PROVIDER'', 733), (''PROVIDER_KEY_NAME'', 734)]"

definition parser_enum_15 :: "(string \<times> token) list" where
  "parser_enum_15 = [
     (''PUBLIC'', 735), (''PWDCOMPARE'', 736), (''PWDENCRYPT'', 737), (''PYTHON'', 738),
     (''QUERY'', 739), (''QUERY_SQUARE_BRACKET'', 740), (''QUEUE'', 741),
     (''QUEUE_DELAY'', 742), (''QUOTED_IDENTIFIER'', 743), (''QUOTENAME'', 744), (''R'', 745),
     (''RAISERROR'', 746), (''RANDOMIZED'', 747), (''RANGE'', 748), (''RANK'', 749),
     (''RAW'', 750), (''RC2'', 751), (''RC4'', 752), (''RC4_128'', 753), (''READ'', 754),
     (''READCOMMITTED'', 755), (''READCOMMITTEDLOCK'', 756), (''READONLY'', 757),
     (''READPAST'', 758), (''READTEXT'', 759), (''READUNCOMMITTED'', 760),
     (''READWRITE'', 761), (''READ_COMMITTED_SNAPSHOT'', 762), (''READ_ONLY'', 763),
     (''READ_ONLY_ROUTING_LIST'', 764), (''READ_WRITE'', 765),
     (''READ_WRITE_FILEGROUPS'', 766), (''REBUILD'', 767), (''RECEIVE'', 768),
     (''RECOMPILE'', 769), (''RECONFIGURE'', 770), (''RECOVERY'', 771),
     (''RECURSIVE_TRIGGERS'', 772), (''REFERENCES'', 773), (''REGENERATE'', 774),
     (''RELATED_CONVERSATION'', 775), (''RELATED_CONVERSATION_GROUP'', 776),
     (''RELATIVE'', 777), (''REMOTE'', 778), (''REMOTE_PROC_TRANSACTIONS'', 779),
     (''REMOTE_SERVICE_NAME'', 780), (''REMOVE'', 781), (''REORGANIZE'', 782),
     (''REPAIR_ALLOW_DATA_LOSS'', 783), (''REPAIR_FAST'', 784), (''REPAIR_REBUILD'', 785),
     (''REPEATABLE'', 786), (''REPEATABLEREAD'', 787)]"

definition parser_enum_16 :: "(string \<times> token) list" where
  "parser_enum_16 = [
     (''REPLACE'', 788), (''REPLICA'', 789), (''REPLICATE'', 790), (''REPLICATION'', 791),
     (''REQUEST_MAX_CPU_TIME_SEC'', 792), (''REQUEST_MAX_MEMORY_GRANT_PERCENT'', 793),
     (''REQUEST_MEMORY_GRANT_TIMEOUT_SEC'', 794), (''REQUIRED'', 795),
     (''REQUIRED_SYNCHRONIZED_SECONDARIES_TO_COMMIT'', 796), (''RESAMPLE'', 797),
     (''RESERVE_DISK_SPACE'', 798), (''RESET'', 799), (''RESOURCE'', 800),
     (''RESOURCES'', 801), (''RESOURCE_MANAGER_LOCATION'', 802), (''RESTART'', 803),
     (''RESTORE'', 804), (''RESTRICT'', 805), (''RESTRICTED_USER'', 806), (''RESUMABLE'', 807),
     (''RESUME'', 808), (''RETAINDAYS'', 809), (''RETENTION'', 810), (''RETURN'', 811),
     (''RETURNS'', 812), (''REVERSE'', 813), (''REVERT'', 814), (''REVOKE'', 815),
     (''REWIND'', 816), (''RIGHT'', 817), (''ROBUST'', 818), (''ROLE'', 819),
     (''ROLLBACK'', 820), (''ROOT'', 821), (''ROUND_ROBIN'', 822), (''ROUTE'', 823),
     (''ROW'', 824), (''ROWCOUNT'', 825), (''ROWCOUNT_BIG'', 826), (''ROWGUID'', 827),
     (''ROWGUIDCOL'', 828), (''ROWLOCK'', 829), (''ROWS'', 830), (''ROW_NUMBER'', 831),
     (''RSA_1024'', 832), (''RSA_2048'', 833), (''RSA_3072'', 834), (''RSA_4096'', 835),
     (''RSA_512'', 836), (''RTRIM'', 837), (''RULE'', 838), (''SAFE'', 839)]"

definition parser_enum_17 :: "(string \<times> token) list" where
  "parser_enum_17 = [
     (''SAFETY'', 840), (''SAMPLE'', 841), (''SAVE'', 842), (''SCHEDULER'', 843),
     (''SCHEMA'', 844), (''SCHEMABINDING'', 845), (''SCHEMA_ID'', 846), (''SCHEMA_NAME'', 847),
     (''SCHEME'', 848), (''SCOPED'', 849), (''SCOPE_IDENTITY'', 850), (''SCRIPT'', 851),
     (''SCROLL'', 852), (''SCROLL_LOCKS'', 853), (''SEARCH'', 854), (''SECONDARY'', 855),
     (''SECONDARY_ONLY'', 856), (''SECONDARY_ROLE'', 857), (''SECONDS'', 858),
     (''SECRET'', 859), (''SECURABLES'', 860), (''SECURITY'', 861), (''SECURITYAUDIT'', 862),
     (''SECURITY_LOG'', 863), (''SEEDING_MODE'', 864), (''SELECT'', 865), (''SELF'', 866),
     (''SEMANTICKEYPHRASETABLE'', 867), (''SEMANTICSIMILARITYDETAILSTABLE'', 868),
     (''SEMANTICSIMILARITYTABLE'', 869), (''SEMI_SENSITIVE'', 870), (''SEND'', 871),
     (''SENT'', 872), (''SEQUENCE'', 873), (''SEQUENCE_NUMBER'', 874), (''SERIALIZABLE'', 875),
     (''SERVER'', 876), (''SERVERPROPERTY'', 877), (''SERVICE'', 878),
     (''SERVICEBROKER'', 879), (''SERVICE_BROKER'', 880), (''SERVICE_NAME'', 881),
     (''SESSION'', 882), (''SESSIONPROPERTY'', 883), (''SESSION_CONTEXT'', 884),
     (''SESSION_TIMEOUT'', 885), (''SESSION_USER'', 886), (''SET'', 887), (''SETERROR'', 888),
     (''SETS'', 889), (''SETTINGS'', 890)]"

definition parser_enum_18 :: "(string \<times> token) list" where
  "parser_enum_18 = [
     (''SETUSER'', 891), (''SHARE'', 892), (''SHARED'', 893), (''SHOWCONTIG'', 894),
     (''SHOWPLAN'', 895), (''SHOWPLAN_ALL'', 896), (''SHOWPLAN_TEXT'', 897),
     (''SHOWPLAN_XML'', 898), (''SHRINKLOG'', 899), (''SHUTDOWN'', 900), (''SID'', 901),
     (''SIGNATURE'', 902), (''SIMPLE'', 903), (''SINGLE_USER'', 904), (''SIZE'', 905),
     (''SKIP_KEYWORD'', 906), (''SMALLINT'', 907), (''SNAPSHOT'', 908), (''SOFTNUMA'', 909),
     (''SOME'', 910), (''SORT_IN_TEMPDB'', 911), (''SOUNDEX'', 912), (''SOURCE'', 913),
     (''SPACE_KEYWORD'', 914), (''SPARSE'', 915), (''SPATIAL_WINDOW_MAX_CELLS'', 916),
     (''SPECIFICATION'', 917), (''SPLIT'', 918), (''SQL'', 919), (''SQLDUMPERFLAGS'', 920),
     (''SQLDUMPERPATH'', 921), (''SQLDUMPERTIMEOUT'', 922), (''SQL_VARIANT_PROPERTY'', 923),
     (''STANDBY'', 924), (''START'', 925), (''STARTED'', 926), (''STARTUP_STATE'', 927),
     (''START_DATE'', 928), (''STATE'', 929), (''STATIC'', 930), (''STATISTICS'', 931),
     (''STATISTICS_INCREMENTAL'', 932), (''STATISTICS_NORECOMPUTE'', 933), (''STATS'', 934),
     (''STATS_DATE'', 935), (''STATS_STREAM'', 936), (''STATUS'', 937), (''STATUSONLY'', 938),
     (''STDEV'', 939), (''STDEVP'', 940), (''STOP'', 941), (''STOPLIST'', 942),
     (''STOPPED'', 943)]"

definition parser_enum_19 :: "(string \<times> token) list" where
  "parser_enum_19 = [
     (''STOP_ON_ERROR'', 944), (''STR'', 945), (''STRING_AGG'', 946), (''STRING_ESCAPE'', 947),
     (''STUFF'', 948), (''SUBJECT'', 949), (''SUBSCRIBE'', 950), (''SUBSCRIPTION'', 951),
     (''SUBSTRING'', 952), (''SUM'', 953), (''SUPPORTED'', 954), (''SUSER_ID'', 955),
     (''SUSER_NAME'', 956), (''SUSER_SID'', 957), (''SUSER_SNAME'', 958), (''SUSPEND'', 959),
     (''SWITCH'', 960), (''SYMMETRIC'', 961), (''SYNCHRONOUS_COMMIT'', 962),
     (''SYNONYM'', 963), (''SYSTEM'', 964), (''SYSTEM_USER'', 965), (''TABLE'', 966),
     (''TABLERESULTS'', 967), (''TABLESAMPLE'', 968), (''TABLOCK'', 969), (''TABLOCKX'', 970),
     (''TAKE'', 971), (''TAPE'', 972), (''TARGET'', 973), (''TARGET_RECOVERY_TIME'', 974),
     (''TB'', 975), (''TCP'', 976), (''TEXTIMAGE_ON'', 977), (''TEXTSIZE'', 978),
     (''THEN'', 979), (''THROW'', 980), (''TIES'', 981), (''TIME'', 982), (''TIMEOUT'', 983),
     (''TIMER'', 984), (''TINYINT'', 985), (''TO'', 986), (''TOP'', 987),
     (''TORN_PAGE_DETECTION'', 988), (''TOSTRING'', 989), (''TRACE'', 990),
     (''TRACKING'', 991), (''TRACK_CAUSALITY'', 992), (''TRAN'', 993), (''TRANSACTION'', 994),
     (''TRANSACTION_ID'', 995), (''TRANSFER'', 996), (''TRANSFORM_NOISE_WORDS'', 997),
     (''TRANSLATE'', 998), (''TRIGGER'', 999), (''TRIM'', 1000)]"

definition parser_enum_20 :: "(string \<times> token) list" where
  "parser_enum_20 = [
     (''TRIPLE_DES'', 1001), (''TRIPLE_DES_3KEY'', 1002), (''TRUNCATE'', 1003),
     (''TRUSTWORTHY'', 1004), (''TRY'', 1005), (''TRY_CAST'', 1006), (''TSEQUAL'', 1007),
     (''TSQL'', 1008), (''TWO_DIGIT_YEAR_CUTOFF'', 1009), (''TYPE'', 1010),
     (''TYPEPROPERTY'', 1011), (''TYPE_ID'', 1012), (''TYPE_NAME'', 1013),
     (''TYPE_WARNING'', 1014), (''UNBOUNDED'', 1015), (''UNCHECKED'', 1016),
     (''UNCOMMITTED'', 1017), (''UNICODE'', 1018), (''UNION'', 1019), (''UNIQUE'', 1020),
     (''UNKNOWN'', 1021), (''UNLIMITED'', 1022), (''UNLOCK'', 1023), (''UNMASK'', 1024),
     (''UNPIVOT'', 1025), (''UNSAFE'', 1026), (''UOW'', 1027), (''UPDATE'', 1028),
     (''UPDATETEXT'', 1029), (''UPDLOCK'', 1030), (''UPPER'', 1031), (''URL'', 1032),
     (''USE'', 1033), (''USED'', 1034), (''USER'', 1035), (''USER_ID'', 1036),
     (''USER_NAME'', 1037), (''USING'', 1038), (''VALIDATION'', 1039), (''VALID_XML'', 1040),
     (''VALUE'', 1041), (''VALUES'', 1042), (''VALUE_SQUARE_BRACKET'', 1043), (''VAR'', 1044),
     (''VARBINARY_KEYWORD'', 1045), (''VARP'', 1046), (''VARYING'', 1047),
     (''VERBOSELOGGING'', 1048), (''VERIFY_CLONEDB'', 1049), (''VERSION'', 1050),
     (''VIEW'', 1051), (''VIEWS'', 1052), (''VIEW_METADATA'', 1053), (''VISIBILITY'', 1054)]"

definition parser_enum_21 :: "(string \<times> token) list" where
  "parser_enum_21 = [
     (''WAIT'', 1055), (''WAITFOR'', 1056), (''WAIT_AT_LOW_PRIORITY'', 1057),
     (''WELL_FORMED_XML'', 1058), (''WHEN'', 1059), (''WHERE'', 1060), (''WHILE'', 1061),
     (''WINDOWS'', 1062), (''WITH'', 1063), (''WITHIN'', 1064), (''WITHOUT'', 1065),
     (''WITHOUT_ARRAY_WRAPPER'', 1066), (''WITNESS'', 1067), (''WORK'', 1068),
     (''WORKLOAD'', 1069), (''WRITETEXT'', 1070), (''XACT_ABORT'', 1071),
     (''XACT_STATE'', 1072), (''XLOCK'', 1073), (''XML'', 1074), (''XMLDATA'', 1075),
     (''XMLNAMESPACES'', 1076), (''XMLSCHEMA'', 1077), (''XML_COMPRESSION'', 1078),
     (''XSINIL'', 1079), (''ZONE'', 1080), (''ABS'', 1081), (''ACOS'', 1082), (''ASIN'', 1083),
     (''ATAN'', 1084), (''ATN2'', 1085), (''CEILING'', 1086), (''COS'', 1087), (''COT'', 1088),
     (''DEGREES'', 1089), (''EXP'', 1090), (''FLOOR'', 1091), (''LOG10'', 1092),
     (''PI'', 1093), (''POWER'', 1094), (''RADIANS'', 1095), (''RAND'', 1096),
     (''ROUND'', 1097), (''SIGN'', 1098), (''SIN'', 1099), (''SQRT'', 1100),
     (''SQUARE'', 1101), (''TAN'', 1102), (''CURRENT_TIMEZONE'', 1103),
     (''CURRENT_TIMEZONE_ID'', 1104), (''DATE_BUCKET'', 1105), (''DATEDIFF_BIG'', 1106),
     (''DATEFROMPARTS'', 1107), (''DATETIME2FROMPARTS'', 1108), (''DATETIMEFROMPARTS'', 1109),
     (''DATETIMEOFFSETFROMPARTS'', 1110), (''DATETRUNC'', 1111)]"

definition parser_enum_22 :: "(string \<times> token) list" where
  "parser_enum_22 = [
     (''DAY'', 1112), (''EOMONTH'', 1113), (''ISDATE'', 1114), (''MONTH'', 1115),
     (''SMALLDATETIMEFROMPARTS'', 1116), (''SWITCHOFFSET'', 1117), (''SYSDATETIME'', 1118),
     (''SYSDATETIMEOFFSET'', 1119), (''SYSUTCDATETIME'', 1120), (''TIMEFROMPARTS'', 1121),
     (''TODATETIMEOFFSET'', 1122), (''YEAR'', 1123), (''QUARTER'', 1124),
     (''DAYOFYEAR'', 1125), (''WEEK'', 1126), (''HOUR'', 1127), (''MINUTE'', 1128),
     (''SECOND'', 1129), (''MILLISECOND'', 1130), (''MICROSECOND'', 1131),
     (''NANOSECOND'', 1132), (''TZOFFSET'', 1133), (''ISO_WEEK'', 1134), (''WEEKDAY'', 1135),
     (''YEAR_ABBR'', 1136), (''QUARTER_ABBR'', 1137), (''MONTH_ABBR'', 1138),
     (''DAYOFYEAR_ABBR'', 1139), (''DAY_ABBR'', 1140), (''WEEK_ABBR'', 1141),
     (''HOUR_ABBR'', 1142), (''MINUTE_ABBR'', 1143), (''SECOND_ABBR'', 1144),
     (''MILLISECOND_ABBR'', 1145), (''MICROSECOND_ABBR'', 1146), (''NANOSECOND_ABBR'', 1147),
     (''TZOFFSET_ABBR'', 1148), (''ISO_WEEK_ABBR'', 1149), (''WEEKDAY_ABBR'', 1150),
     (''SP_EXECUTESQL'', 1151), (''VARCHAR'', 1152), (''NVARCHAR'', 1153),
     (''DISK_DRIVE'', 1154), (''DOLLAR_ACTION'', 1155), (''CURSOR_ROWS'', 1156),
     (''FETCH_STATUS'', 1157), (''IPV4_ADDR'', 1158), (''SPACE'', 1159), (''COMMENT'', 1160)]"

definition parser_enum_23 :: "(string \<times> token) list" where
  "parser_enum_23 = [
     (''LINE_COMMENT'', 1161), (''DOUBLE_QUOTE_ID'', 1162), (''DOUBLE_QUOTE_BLANK'', 1163),
     (''SINGLE_QUOTE'', 1164), (''SQUARE_BRACKET_ID'', 1165), (''LOCAL_ID'', 1166),
     (''TEMP_ID'', 1167), (''DECIMAL'', 1168), (''ID'', 1169), (''STRING'', 1170),
     (''BINARY'', 1171), (''FLOAT'', 1172), (''REAL'', 1173), (''EQUAL'', 1174),
     (''GREATER'', 1175), (''LESS'', 1176), (''EXCLAMATION'', 1177), (''PLUS_ASSIGN'', 1178),
     (''MINUS_ASSIGN'', 1179), (''MULT_ASSIGN'', 1180), (''DIV_ASSIGN'', 1181),
     (''MOD_ASSIGN'', 1182), (''AND_ASSIGN'', 1183), (''XOR_ASSIGN'', 1184),
     (''OR_ASSIGN'', 1185), (''DOUBLE_BAR'', 1186), (''DOT'', 1187), (''UNDERLINE'', 1188),
     (''AT'', 1189), (''SHARP'', 1190), (''DOLLAR'', 1191), (''LR_BRACKET'', 1192),
     (''RR_BRACKET'', 1193), (''COMMA'', 1194), (''SEMI'', 1195), (''COLON'', 1196),
     (''DOUBLE_COLON'', 1197), (''STAR'', 1198), (''DIVIDE'', 1199), (''MODULE'', 1200),
     (''PLUS'', 1201), (''MINUS'', 1202), (''BIT_NOT'', 1203), (''BIT_OR'', 1204),
     (''BIT_AND'', 1205), (''BIT_XOR'', 1206), (''PLACEHOLDER'', 1207)]"

definition parser_enum :: "(string \<times> token) list" where
  "parser_enum =
     parser_enum_1 @ parser_enum_2 @ parser_enum_3 @ parser_enum_4 @ parser_enum_5 @
     parser_enum_6 @ parser_enum_7 @ parser_enum_8 @ parser_enum_9 @ parser_enum_10 @
     parser_enum_11 @ parser_enum_12 @ parser_enum_13 @ parser_enum_14 @ parser_enum_15 @
     parser_enum_16 @ parser_enum_17 @ parser_enum_18 @ parser_enum_19 @ parser_enum_20 @
     parser_enum_21 @ parser_enum_22 @ parser_enum_23"

definition rule_enum_1 :: "(string \<times> rule_id) list" where
  "rule_enum_1 = [
     (''RuleTsql_file'', 0), (''RuleBatch'', 1), (''RuleBatch_level_statement'', 2),
     (''RuleSql_clauses'', 3), (''RuleDml_clause'', 4), (''RuleDdl_clause'', 5),
     (''RuleBackup_statement'', 6), (''RuleCfl_statement'', 7), (''RuleBlock_statement'', 8),
     (''RuleBreak_statement'', 9), (''RuleContinue_statement'', 10),
     (''RuleGoto_statement'', 11), (''RuleReturn_statement'', 12), (''RuleIf_statement'', 13),
     (''RuleThrow_statement'', 14), (''RuleThrow_error_number'', 15),
     (''RuleThrow_message'', 16), (''RuleThrow_state'', 17), (''RuleTry_catch_statement'', 18),
     (''RuleWaitfor_statement'', 19), (''RuleWhile_statement'', 20),
     (''RulePrint_statement'', 21), (''RuleRaiseerror_statement'', 22),
     (''RuleEmpty_statement'', 23), (''RuleAnother_statement'', 24),
     (''RuleAlter_application_role'', 25), (''RuleAlter_xml_schema_collection'', 26),
     (''RuleCreate_application_role'', 27), (''RuleDrop_aggregate'', 28),
     (''RuleDrop_application_role'', 29), (''RuleAlter_assembly'', 30),
     (''RuleAlter_assembly_start'', 31), (''RuleAlter_assembly_clause'', 32),
     (''RuleAlter_assembly_from_clause'', 33), (''RuleAlter_assembly_from_clause_start'', 34),
     (''RuleAlter_assembly_drop_clause'', 35)]"

definition rule_enum_2 :: "(string \<times> rule_id) list" where
  "rule_enum_2 = [
     (''RuleAlter_assembly_drop_multiple_files'', 36), (''RuleAlter_assembly_drop'', 37),
     (''RuleAlter_assembly_add_clause'', 38), (''RuleAlter_asssembly_add_clause_start'', 39),
     (''RuleAlter_assembly_client_file_clause'', 40), (''RuleAlter_assembly_file_name'', 41),
     (''RuleAlter_assembly_file_bits'', 42), (''RuleAlter_assembly_as'', 43),
     (''RuleAlter_assembly_with_clause'', 44), (''RuleAlter_assembly_with'', 45),
     (''RuleClient_assembly_specifier'', 46), (''RuleAssembly_option'', 47),
     (''RuleNetwork_file_share'', 48), (''RuleNetwork_computer'', 49),
     (''RuleNetwork_file_start'', 50), (''RuleFile_path'', 51),
     (''RuleFile_directory_path_separator'', 52), (''RuleLocal_file'', 53),
     (''RuleLocal_drive'', 54), (''RuleMultiple_local_files'', 55),
     (''RuleMultiple_local_file_start'', 56), (''RuleCreate_assembly'', 57),
     (''RuleDrop_assembly'', 58), (''RuleAlter_asymmetric_key'', 59),
     (''RuleAlter_asymmetric_key_start'', 60), (''RuleAsymmetric_key_option'', 61),
     (''RuleAsymmetric_key_option_start'', 62),
     (''RuleAsymmetric_key_password_change_option'', 63), (''RuleCreate_asymmetric_key'', 64),
     (''RuleDrop_asymmetric_key'', 65), (''RuleAlter_authorization'', 66)]"

definition rule_enum_3 :: "(string \<times> rule_id) list" where
  "rule_enum_3 = [
     (''RuleAuthorization_grantee'', 67), (''RuleEntity_to'', 68), (''RuleColon_colon'', 69),
     (''RuleAlter_authorization_start'', 70),
     (''RuleAlter_authorization_for_sql_database'', 71),
     (''RuleAlter_authorization_for_azure_dw'', 72),
     (''RuleAlter_authorization_for_parallel_dw'', 73), (''RuleClass_type'', 74),
     (''RuleClass_type_for_sql_database'', 75), (''RuleClass_type_for_azure_dw'', 76),
     (''RuleClass_type_for_parallel_dw'', 77), (''RuleClass_type_for_grant'', 78),
     (''RuleDrop_availability_group'', 79), (''RuleAlter_availability_group'', 80),
     (''RuleAlter_availability_group_start'', 81),
     (''RuleAlter_availability_group_options'', 82), (''RuleIp_v4_failover'', 83),
     (''RuleIp_v6_failover'', 84), (''RuleCreate_or_alter_broker_priority'', 85),
     (''RuleDrop_broker_priority'', 86), (''RuleAlter_certificate'', 87),
     (''RuleAlter_column_encryption_key'', 88), (''RuleCreate_column_encryption_key'', 89),
     (''RuleDrop_certificate'', 90), (''RuleDrop_column_encryption_key'', 91),
     (''RuleDrop_column_master_key'', 92), (''RuleDrop_contract'', 93),
     (''RuleDrop_credential'', 94), (''RuleDrop_cryptograhic_provider'', 95),
     (''RuleDrop_database'', 96), (''RuleDrop_database_audit_specification'', 97)]"

definition rule_enum_4 :: "(string \<times> rule_id) list" where
  "rule_enum_4 = [
     (''RuleDrop_database_encryption_key'', 98), (''RuleDrop_database_scoped_credential'', 99),
     (''RuleDrop_default'', 100), (''RuleDrop_endpoint'', 101),
     (''RuleDrop_external_data_source'', 102), (''RuleDrop_external_file_format'', 103),
     (''RuleDrop_external_library'', 104), (''RuleDrop_external_resource_pool'', 105),
     (''RuleDrop_external_table'', 106), (''RuleDrop_event_notifications'', 107),
     (''RuleDrop_event_session'', 108), (''RuleDrop_fulltext_catalog'', 109),
     (''RuleDrop_fulltext_index'', 110), (''RuleDrop_fulltext_stoplist'', 111),
     (''RuleDrop_login'', 112), (''RuleDrop_master_key'', 113),
     (''RuleDrop_message_type'', 114), (''RuleDrop_partition_function'', 115),
     (''RuleDrop_partition_scheme'', 116), (''RuleDrop_queue'', 117),
     (''RuleDrop_remote_service_binding'', 118), (''RuleDrop_resource_pool'', 119),
     (''RuleDrop_db_role'', 120), (''RuleDrop_route'', 121), (''RuleDrop_rule'', 122),
     (''RuleDrop_schema'', 123), (''RuleDrop_search_property_list'', 124),
     (''RuleDrop_security_policy'', 125), (''RuleDrop_sequence'', 126),
     (''RuleDrop_server_audit'', 127), (''RuleDrop_server_audit_specification'', 128),
     (''RuleDrop_server_role'', 129)]"

definition rule_enum_5 :: "(string \<times> rule_id) list" where
  "rule_enum_5 = [
     (''RuleDrop_service'', 130), (''RuleDrop_signature'', 131),
     (''RuleDrop_statistics_name_azure_dw_and_pdw'', 132), (''RuleDrop_symmetric_key'', 133),
     (''RuleDrop_synonym'', 134), (''RuleDrop_user'', 135), (''RuleDrop_workload_group'', 136),
     (''RuleDrop_xml_schema_collection'', 137), (''RuleDisable_trigger'', 138),
     (''RuleEnable_trigger'', 139), (''RuleLock_table'', 140), (''RuleTruncate_table'', 141),
     (''RuleCreate_column_master_key'', 142), (''RuleAlter_credential'', 143),
     (''RuleCreate_credential'', 144), (''RuleAlter_cryptographic_provider'', 145),
     (''RuleCreate_cryptographic_provider'', 146), (''RuleCreate_endpoint'', 147),
     (''RuleEndpoint_encryption_alogorithm_clause'', 148),
     (''RuleEndpoint_authentication_clause'', 149), (''RuleEndpoint_listener_clause'', 150),
     (''RuleCreate_event_notification'', 151), (''RuleCreate_or_alter_event_session'', 152),
     (''RuleEvent_session_predicate_expression'', 153),
     (''RuleEvent_session_predicate_factor'', 154),
     (''RuleEvent_session_predicate_leaf'', 155), (''RuleAlter_external_data_source'', 156),
     (''RuleAlter_external_library'', 157)]"

definition rule_enum_6 :: "(string \<times> rule_id) list" where
  "rule_enum_6 = [
     (''RuleCreate_external_library'', 158), (''RuleAlter_external_resource_pool'', 159),
     (''RuleCreate_external_resource_pool'', 160), (''RuleAlter_fulltext_catalog'', 161),
     (''RuleCreate_fulltext_catalog'', 162), (''RuleAlter_fulltext_stoplist'', 163),
     (''RuleCreate_fulltext_stoplist'', 164), (''RuleAlter_login_sql_server'', 165),
     (''RuleCreate_login_sql_server'', 166), (''RuleAlter_login_azure_sql'', 167),
     (''RuleCreate_login_azure_sql'', 168), (''RuleAlter_login_azure_sql_dw_and_pdw'', 169),
     (''RuleCreate_login_pdw'', 170), (''RuleAlter_master_key_sql_server'', 171),
     (''RuleCreate_master_key_sql_server'', 172), (''RuleAlter_master_key_azure_sql'', 173),
     (''RuleCreate_master_key_azure_sql'', 174), (''RuleAlter_message_type'', 175),
     (''RuleAlter_partition_function'', 176), (''RuleAlter_partition_scheme'', 177),
     (''RuleAlter_remote_service_binding'', 178), (''RuleCreate_remote_service_binding'', 179),
     (''RuleCreate_resource_pool'', 180), (''RuleAlter_resource_governor'', 181),
     (''RuleAlter_database_audit_specification'', 182), (''RuleAudit_action_spec_group'', 183),
     (''RuleAudit_action_specification'', 184)]"

definition rule_enum_7 :: "(string \<times> rule_id) list" where
  "rule_enum_7 = [
     (''RuleAction_specification'', 185), (''RuleAudit_class_name'', 186),
     (''RuleAudit_securable'', 187), (''RuleAlter_db_role'', 188),
     (''RuleCreate_database_audit_specification'', 189), (''RuleCreate_db_role'', 190),
     (''RuleCreate_route'', 191), (''RuleCreate_rule'', 192), (''RuleAlter_schema_sql'', 193),
     (''RuleCreate_schema'', 194), (''RuleCreate_schema_azure_sql_dw_and_pdw'', 195),
     (''RuleAlter_schema_azure_sql_dw_and_pdw'', 196),
     (''RuleCreate_search_property_list'', 197), (''RuleCreate_security_policy'', 198),
     (''RuleAlter_sequence'', 199), (''RuleCreate_sequence'', 200),
     (''RuleAlter_server_audit'', 201), (''RuleCreate_server_audit'', 202),
     (''RuleAlter_server_audit_specification'', 203),
     (''RuleCreate_server_audit_specification'', 204),
     (''RuleAlter_server_configuration'', 205), (''RuleAlter_server_role'', 206),
     (''RuleCreate_server_role'', 207), (''RuleAlter_server_role_pdw'', 208),
     (''RuleAlter_service'', 209), (''RuleOpt_arg_clause'', 210),
     (''RuleCreate_service'', 211), (''RuleAlter_service_master_key'', 212),
     (''RuleAlter_symmetric_key'', 213), (''RuleCreate_synonym'', 214),
     (''RuleAlter_user'', 215), (''RuleCreate_user'', 216),
     (''RuleCreate_user_azure_sql_dw'', 217)]"

definition rule_enum_8 :: "(string \<times> rule_id) list" where
  "rule_enum_8 = [
     (''RuleAlter_user_azure_sql'', 218), (''RuleAlter_workload_group'', 219),
     (''RuleCreate_workload_group'', 220), (''RuleCreate_xml_schema_collection'', 221),
     (''RuleCreate_partition_function'', 222), (''RuleCreate_partition_scheme'', 223),
     (''RuleCreate_queue'', 224), (''RuleQueue_settings'', 225), (''RuleAlter_queue'', 226),
     (''RuleQueue_action'', 227), (''RuleQueue_rebuild_options'', 228),
     (''RuleCreate_contract'', 229), (''RuleConversation_statement'', 230),
     (''RuleMessage_statement'', 231), (''RuleMerge_statement'', 232),
     (''RuleWhen_matches'', 233), (''RuleMerge_matched'', 234),
     (''RuleMerge_not_matched'', 235), (''RuleDelete_statement'', 236),
     (''RuleDelete_statement_from'', 237), (''RuleInsert_statement'', 238),
     (''RuleInsert_statement_value'', 239), (''RuleReceive_statement'', 240),
     (''RuleSelect_statement_standalone'', 241), (''RuleSelect_statement'', 242),
     (''RuleTime'', 243), (''RuleUpdate_statement'', 244), (''RuleOutput_clause'', 245),
     (''RuleOutput_dml_list_elem'', 246), (''RuleCreate_database'', 247),
     (''RuleCreate_index'', 248), (''RuleCreate_index_options'', 249),
     (''RuleRelational_index_option'', 250), (''RuleAlter_index'', 251),
     (''RuleResumable_index_options'', 252)]"

definition rule_enum_9 :: "(string \<times> rule_id) list" where
  "rule_enum_9 = [
     (''RuleResumable_index_option'', 253), (''RuleReorganize_partition'', 254),
     (''RuleReorganize_options'', 255), (''RuleReorganize_option'', 256),
     (''RuleSet_index_options'', 257), (''RuleSet_index_option'', 258),
     (''RuleRebuild_partition'', 259), (''RuleRebuild_index_options'', 260),
     (''RuleRebuild_index_option'', 261),
     (''RuleSingle_partition_rebuild_index_options'', 262),
     (''RuleSingle_partition_rebuild_index_option'', 263), (''RuleOn_partitions'', 264),
     (''RuleCreate_columnstore_index'', 265), (''RuleCreate_columnstore_index_options'', 266),
     (''RuleColumnstore_index_option'', 267),
     (''RuleCreate_nonclustered_columnstore_index'', 268), (''RuleCreate_xml_index'', 269),
     (''RuleXml_index_options'', 270), (''RuleXml_index_option'', 271),
     (''RuleCreate_or_alter_procedure'', 272), (''RuleAs_external_name'', 273),
     (''RuleCreate_or_alter_trigger'', 274), (''RuleCreate_or_alter_dml_trigger'', 275),
     (''RuleDml_trigger_option'', 276), (''RuleDml_trigger_operation'', 277),
     (''RuleCreate_or_alter_ddl_trigger'', 278), (''RuleDdl_trigger_operation'', 279),
     (''RuleCreate_or_alter_function'', 280), (''RuleFunc_body_returns_select'', 281),
     (''RuleFunc_body_returns_table'', 282)]"

definition rule_enum_10 :: "(string \<times> rule_id) list" where
  "rule_enum_10 = [
     (''RuleFunc_body_returns_scalar'', 283), (''RuleProcedure_param_default_value'', 284),
     (''RuleProcedure_param'', 285), (''RuleProcedure_option'', 286),
     (''RuleFunction_option'', 287), (''RuleCreate_statistics'', 288),
     (''RuleUpdate_statistics'', 289), (''RuleUpdate_statistics_options'', 290),
     (''RuleUpdate_statistics_option'', 291), (''RuleCreate_table'', 292),
     (''RuleTable_indices'', 293), (''RuleTable_options'', 294), (''RuleTable_option'', 295),
     (''RuleCreate_table_index_options'', 296), (''RuleCreate_table_index_option'', 297),
     (''RuleCreate_view'', 298), (''RuleView_attribute'', 299), (''RuleAlter_table'', 300),
     (''RuleSwitch_partition'', 301), (''RuleLow_priority_lock_wait'', 302),
     (''RuleAlter_database'', 303), (''RuleAdd_or_modify_files'', 304),
     (''RuleFilespec'', 305), (''RuleAdd_or_modify_filegroups'', 306),
     (''RuleFilegroup_updatability_option'', 307), (''RuleDatabase_optionspec'', 308),
     (''RuleAuto_option'', 309), (''RuleChange_tracking_option'', 310),
     (''RuleChange_tracking_option_list'', 311), (''RuleContainment_option'', 312),
     (''RuleCursor_option'', 313), (''RuleAlter_endpoint'', 314),
     (''RuleDatabase_mirroring_option'', 315)]"

definition rule_enum_11 :: "(string \<times> rule_id) list" where
  "rule_enum_11 = [
     (''RuleMirroring_set_option'', 316), (''RuleMirroring_partner'', 317),
     (''RuleMirroring_witness'', 318), (''RuleWitness_partner_equal'', 319),
     (''RulePartner_option'', 320), (''RuleWitness_option'', 321),
     (''RuleWitness_server'', 322), (''RulePartner_server'', 323),
     (''RuleMirroring_host_port_seperator'', 324), (''RulePartner_server_tcp_prefix'', 325),
     (''RulePort_number'', 326), (''RuleHost'', 327),
     (''RuleDate_correlation_optimization_option'', 328), (''RuleDb_encryption_option'', 329),
     (''RuleDb_state_option'', 330), (''RuleDb_update_option'', 331),
     (''RuleDb_user_access_option'', 332), (''RuleDelayed_durability_option'', 333),
     (''RuleExternal_access_option'', 334), (''RuleHadr_options'', 335),
     (''RuleMixed_page_allocation_option'', 336), (''RuleParameterization_option'', 337),
     (''RuleRecovery_option'', 338), (''RuleService_broker_option'', 339),
     (''RuleSnapshot_option'', 340), (''RuleSql_option'', 341),
     (''RuleTarget_recovery_time_option'', 342), (''RuleTermination'', 343),
     (''RuleDrop_index'', 344), (''RuleDrop_relational_or_xml_or_spatial_index'', 345),
     (''RuleDrop_backward_compatible_index'', 346), (''RuleDrop_procedure'', 347)]"

definition rule_enum_12 :: "(string \<times> rule_id) list" where
  "rule_enum_12 = [
     (''RuleDrop_trigger'', 348), (''RuleDrop_dml_trigger'', 349),
     (''RuleDrop_ddl_trigger'', 350), (''RuleDrop_function'', 351),
     (''RuleDrop_statistics'', 352), (''RuleDrop_table'', 353), (''RuleDrop_view'', 354),
     (''RuleCreate_type'', 355), (''RuleDrop_type'', 356),
     (''RuleRowset_function_limited'', 357), (''RuleOpenquery'', 358),
     (''RuleOpendatasource'', 359), (''RuleDeclare_statement'', 360),
     (''RuleXml_declaration'', 361), (''RuleCursor_statement'', 362),
     (''RuleBackup_database'', 363), (''RuleBackup_log'', 364),
     (''RuleBackup_certificate'', 365), (''RuleBackup_master_key'', 366),
     (''RuleBackup_service_master_key'', 367), (''RuleKill_statement'', 368),
     (''RuleKill_process'', 369), (''RuleKill_query_notification'', 370),
     (''RuleKill_stats_job'', 371), (''RuleExecute_statement'', 372),
     (''RuleExecute_body_batch'', 373), (''RuleExecute_body'', 374),
     (''RuleExecute_statement_arg'', 375), (''RuleExecute_statement_arg_named'', 376),
     (''RuleExecute_statement_arg_unnamed'', 377), (''RuleExecute_parameter'', 378),
     (''RuleExecute_var_string'', 379), (''RuleSecurity_statement'', 380),
     (''RulePrincipal_id'', 381), (''RuleCreate_certificate'', 382),
     (''RuleExisting_keys'', 383)]"

definition rule_enum_13 :: "(string \<times> rule_id) list" where
  "rule_enum_13 = [
     (''RulePrivate_key_options'', 384), (''RuleGenerate_new_keys'', 385),
     (''RuleDate_options'', 386), (''RuleOpen_key'', 387), (''RuleClose_key'', 388),
     (''RuleCreate_key'', 389), (''RuleKey_options'', 390), (''RuleAlgorithm'', 391),
     (''RuleEncryption_mechanism'', 392), (''RuleDecryption_mechanism'', 393),
     (''RuleGrant_permission'', 394), (''RuleSet_statement'', 395),
     (''RuleTransaction_statement'', 396), (''RuleGo_statement'', 397),
     (''RuleUse_statement'', 398), (''RuleSetuser_statement'', 399),
     (''RuleReconfigure_statement'', 400), (''RuleShutdown_statement'', 401),
     (''RuleCheckpoint_statement'', 402), (''RuleDbcc_checkalloc_option'', 403),
     (''RuleDbcc_checkalloc'', 404), (''RuleDbcc_checkcatalog'', 405),
     (''RuleDbcc_checkconstraints_option'', 406), (''RuleDbcc_checkconstraints'', 407),
     (''RuleDbcc_checkdb_table_option'', 408), (''RuleDbcc_checkdb'', 409),
     (''RuleDbcc_checkfilegroup_option'', 410), (''RuleDbcc_checkfilegroup'', 411),
     (''RuleDbcc_checktable'', 412), (''RuleDbcc_cleantable'', 413),
     (''RuleDbcc_clonedatabase_option'', 414), (''RuleDbcc_clonedatabase'', 415),
     (''RuleDbcc_pdw_showspaceused'', 416), (''RuleDbcc_proccache'', 417),
     (''RuleDbcc_showcontig_option'', 418), (''RuleDbcc_showcontig'', 419)]"

definition rule_enum_14 :: "(string \<times> rule_id) list" where
  "rule_enum_14 = [
     (''RuleDbcc_shrinklog'', 420), (''RuleDbcc_dbreindex'', 421),
     (''RuleDbcc_dll_free'', 422), (''RuleDbcc_dropcleanbuffers'', 423),
     (''RuleDbcc_clause'', 424), (''RuleExecute_clause'', 425), (''RuleDeclare_local'', 426),
     (''RuleTable_type_definition'', 427), (''RuleTable_type_indices'', 428),
     (''RuleXml_type_definition'', 429), (''RuleXml_schema_collection'', 430),
     (''RuleColumn_def_table_constraints'', 431), (''RuleColumn_def_table_constraint'', 432),
     (''RuleColumn_definition'', 433), (''RuleColumn_definition_element'', 434),
     (''RuleColumn_modifier'', 435), (''RuleMaterialized_column_definition'', 436),
     (''RuleColumn_constraint'', 437), (''RuleColumn_index'', 438),
     (''RuleOn_partition_or_filegroup'', 439), (''RuleTable_constraint'', 440),
     (''RuleConnection_node'', 441), (''RulePrimary_key_options'', 442),
     (''RuleForeign_key_options'', 443), (''RuleCheck_constraint'', 444),
     (''RuleOn_delete'', 445), (''RuleOn_update'', 446),
     (''RuleAlter_table_index_options'', 447), (''RuleAlter_table_index_option'', 448),
     (''RuleDeclare_cursor'', 449), (''RuleDeclare_set_cursor_common'', 450),
     (''RuleDeclare_set_cursor_common_partial'', 451), (''RuleFetch_cursor'', 452),
     (''RuleSet_special'', 453), (''RuleSpecial_list'', 454)]"

definition rule_enum_15 :: "(string \<times> rule_id) list" where
  "rule_enum_15 = [
     (''RuleConstant_LOCAL_ID'', 455), (''RuleExpression'', 456), (''RuleParameter'', 457),
     (''RuleTime_zone'', 458), (''RulePrimitive_expression'', 459),
     (''RuleCase_expression'', 460), (''RuleUnary_operator_expression'', 461),
     (''RuleBracket_expression'', 462), (''RuleSubquery'', 463),
     (''RuleWith_expression'', 464), (''RuleCommon_table_expression'', 465),
     (''RuleUpdate_elem'', 466), (''RuleUpdate_elem_merge'', 467),
     (''RuleSearch_condition'', 468), (''RulePredicate'', 469),
     (''RuleQuery_expression'', 470), (''RuleSql_union'', 471),
     (''RuleQuery_specification'', 472), (''RuleGroup_by_clause'', 473),
     (''RuleHaving_clause'', 474), (''RuleFrom_table_sources'', 475),
     (''RuleTop_clause'', 476), (''RuleTop_percent'', 477), (''RuleTop_count'', 478),
     (''RuleOrder_by_clause'', 479), (''RuleSelect_order_by_clause'', 480),
     (''RuleFor_clause'', 481), (''RuleXml_common_directives'', 482),
     (''RuleOrder_by_expression'', 483), (''RuleGrouping_sets_item'', 484),
     (''RuleGroup_by_item'', 485), (''RuleOption_clause'', 486), (''RuleOption'', 487),
     (''RuleOptimize_for_arg'', 488), (''RuleSelect_list'', 489),
     (''RuleUdt_method_arguments'', 490), (''RuleAsterisk'', 491)]"

definition rule_enum_16 :: "(string \<times> rule_id) list" where
  "rule_enum_16 = [
     (''RuleUdt_elem'', 492), (''RuleExpression_elem'', 493), (''RuleSelect_list_elem'', 494),
     (''RuleTable_sources'', 495), (''RuleNon_ansi_join'', 496), (''RuleTable_source'', 497),
     (''RuleTable_source_item'', 498), (''RuleOpen_xml'', 499), (''RuleOpen_json'', 500),
     (''RuleJson_declaration'', 501), (''RuleJson_column_declaration'', 502),
     (''RuleSchema_declaration'', 503), (''RuleColumn_declaration'', 504),
     (''RuleChange_table'', 505), (''RuleChange_table_changes'', 506),
     (''RuleChange_table_version'', 507), (''RuleJoin_part'', 508), (''RuleJoin_on'', 509),
     (''RuleCross_join'', 510), (''RuleApply_'', 511), (''RulePivot'', 512),
     (''RuleUnpivot'', 513), (''RulePivot_clause'', 514), (''RuleUnpivot_clause'', 515),
     (''RuleFull_column_name_list'', 516), (''RuleRowset_function'', 517),
     (''RuleBulk_option'', 518), (''RuleDerived_table'', 519), (''RuleFunction_call'', 520),
     (''RulePartition_function'', 521), (''RuleFreetext_function'', 522),
     (''RuleFreetext_predicate'', 523), (''RuleJson_key_value'', 524),
     (''RuleJson_null_clause'', 525), (''RuleBuilt_in_functions'', 526),
     (''RuleXml_data_type_methods'', 527), (''RuleDateparts_9'', 528)]"

definition rule_enum_17 :: "(string \<times> rule_id) list" where
  "rule_enum_17 = [
     (''RuleDateparts_12'', 529), (''RuleDateparts_15'', 530),
     (''RuleDateparts_datetrunc'', 531), (''RuleValue_method'', 532),
     (''RuleValue_call'', 533), (''RuleQuery_method'', 534), (''RuleQuery_call'', 535),
     (''RuleExist_method'', 536), (''RuleExist_call'', 537), (''RuleModify_method'', 538),
     (''RuleModify_call'', 539), (''RuleHierarchyid_call'', 540),
     (''RuleHierarchyid_static_method'', 541), (''RuleNodes_method'', 542),
     (''RuleSwitch_section'', 543), (''RuleSwitch_search_condition_section'', 544),
     (''RuleAs_column_alias'', 545), (''RuleAs_table_alias'', 546), (''RuleTable_alias'', 547),
     (''RuleWith_table_hints'', 548), (''RuleDeprecated_table_hint'', 549),
     (''RuleSybase_legacy_hints'', 550), (''RuleSybase_legacy_hint'', 551),
     (''RuleTable_hint'', 552), (''RuleIndex_value'', 553), (''RuleColumn_alias_list'', 554),
     (''RuleColumn_alias'', 555), (''RuleTable_value_constructor'', 556),
     (''RuleExpression_list_'', 557), (''RuleRanking_windowed_function'', 558),
     (''RuleAggregate_windowed_function'', 559), (''RuleAnalytic_windowed_function'', 560),
     (''RuleAll_distinct_expression'', 561)]"

definition rule_enum_18 :: "(string \<times> rule_id) list" where
  "rule_enum_18 = [
     (''RuleOver_clause'', 562), (''RuleRow_or_range_clause'', 563),
     (''RuleWindow_frame_extent'', 564), (''RuleWindow_frame_bound'', 565),
     (''RuleWindow_frame_preceding'', 566), (''RuleWindow_frame_following'', 567),
     (''RuleCreate_database_option'', 568), (''RuleDatabase_filestream_option'', 569),
     (''RuleDatabase_file_spec'', 570), (''RuleFile_group'', 571), (''RuleFile_spec'', 572),
     (''RuleEntity_name'', 573), (''RuleEntity_name_for_azure_dw'', 574),
     (''RuleEntity_name_for_parallel_dw'', 575), (''RuleFull_table_name'', 576),
     (''RuleTable_name'', 577), (''RuleSimple_name'', 578),
     (''RuleFunc_proc_name_schema'', 579), (''RuleFunc_proc_name_database_schema'', 580),
     (''RuleFunc_proc_name_server_database_schema'', 581), (''RuleDdl_object'', 582),
     (''RuleFull_column_name'', 583), (''RuleColumn_name_list_with_order'', 584),
     (''RuleInsert_column_name_list'', 585), (''RuleInsert_column_id'', 586),
     (''RuleColumn_name_list'', 587), (''RuleCursor_name'', 588), (''RuleOn_off'', 589),
     (''RuleClustered'', 590), (''RuleNull_notnull'', 591),
     (''RuleScalar_function_name'', 592), (''RuleBegin_conversation_timer'', 593),
     (''RuleBegin_conversation_dialog'', 594)]"

definition rule_enum_19 :: "(string \<times> rule_id) list" where
  "rule_enum_19 = [
     (''RuleContract_name'', 595), (''RuleService_name'', 596),
     (''RuleEnd_conversation'', 597), (''RuleWaitfor_conversation'', 598),
     (''RuleGet_conversation'', 599), (''RuleQueue_id'', 600),
     (''RuleSend_conversation'', 601), (''RuleData_type'', 602), (''RuleConstant'', 603),
     (''RulePrimitive_constant'', 604), (''RuleKeyword'', 605), (''RuleId_'', 606),
     (''RuleSimple_id'', 607), (''RuleId_or_string'', 608), (''RuleComparison_operator'', 609),
     (''RuleAssignment_operator'', 610), (''RuleFile_size'', 611)]"

definition rule_enum :: "(string \<times> rule_id) list" where
  "rule_enum =
     rule_enum_1 @ rule_enum_2 @ rule_enum_3 @ rule_enum_4 @ rule_enum_5 @ rule_enum_6 @
     rule_enum_7 @ rule_enum_8 @ rule_enum_9 @ rule_enum_10 @ rule_enum_11 @ rule_enum_12 @
     rule_enum_13 @ rule_enum_14 @ rule_enum_15 @ rule_enum_16 @ rule_enum_17 @ rule_enum_18
     @ rule_enum_19"

definition forward_classes_1 :: "string list" where
  "forward_classes_1 = [
     ''Tsql_fileContext'', ''BatchContext'', ''Batch_level_statementContext'',
     ''Sql_clausesContext'', ''Dml_clauseContext'', ''Ddl_clauseContext'',
     ''Backup_statementContext'', ''Cfl_statementContext'', ''Block_statementContext'',
     ''Break_statementContext'', ''Continue_statementContext'', ''Goto_statementContext'']"

definition forward_classes_2 :: "string list" where
  "forward_classes_2 = [
     ''Return_statementContext'', ''If_statementContext'', ''Throw_statementContext'',
     ''Throw_error_numberContext'', ''Throw_messageContext'', ''Throw_stateContext'',
     ''Try_catch_statementContext'', ''Waitfor_statementContext'', ''While_statementContext'',
     ''Print_statementContext'', ''Raiseerror_statementContext'', ''Empty_statementContext'']"

definition forward_classes_3 :: "string list" where
  "forward_classes_3 = [
     ''Another_statementContext'', ''Alter_application_roleContext'',
     ''Alter_xml_schema_collectionContext'', ''Create_application_roleContext'',
     ''Drop_aggregateContext'', ''Drop_application_roleContext'', ''Alter_assemblyContext'',
     ''Alter_assembly_startContext'', ''Alter_assembly_clauseContext'',
     ''Alter_assembly_from_clauseContext'', ''Alter_assembly_from_clause_startContext'',
     ''Alter_assembly_drop_clauseContext'']"

definition forward_classes_4 :: "string list" where
  "forward_classes_4 = [
     ''Alter_assembly_drop_multiple_filesContext'', ''Alter_assembly_dropContext'',
     ''Alter_assembly_add_clauseContext'', ''Alter_asssembly_add_clause_startContext'',
     ''Alter_assembly_client_file_clauseContext'', ''Alter_assembly_file_nameContext'',
     ''Alter_assembly_file_bitsContext'', ''Alter_assembly_asContext'',
     ''Alter_assembly_with_clauseContext'', ''Alter_assembly_withContext'',
     ''Client_assembly_specifierContext'', ''Assembly_optionContext'']"

definition forward_classes_5 :: "string list" where
  "forward_classes_5 = [
     ''Network_file_shareContext'', ''Network_computerContext'', ''Network_file_startContext'',
     ''File_pathContext'', ''File_directory_path_separatorContext'', ''Local_fileContext'',
     ''Local_driveContext'', ''Multiple_local_filesContext'',
     ''Multiple_local_file_startContext'', ''Create_assemblyContext'',
     ''Drop_assemblyContext'', ''Alter_asymmetric_keyContext'']"

definition forward_classes_6 :: "string list" where
  "forward_classes_6 = [
     ''Alter_asymmetric_key_startContext'', ''Asymmetric_key_optionContext'',
     ''Asymmetric_key_option_startContext'', ''Asymmetric_key_password_change_optionContext'',
     ''Create_asymmetric_keyContext'', ''Drop_asymmetric_keyContext'',
     ''Alter_authorizationContext'', ''Authorization_granteeContext'', ''Entity_toContext'',
     ''Colon_colonContext'', ''Alter_authorization_startContext'',
     ''Alter_authorization_for_sql_databaseContext'']"

definition forward_classes_7 :: "string list" where
  "forward_classes_7 = [
     ''Alter_authorization_for_azure_dwContext'',
     ''Alter_authorization_for_parallel_dwContext'', ''Class_typeContext'',
     ''Class_type_for_sql_databaseContext'', ''Class_type_for_azure_dwContext'',
     ''Class_type_for_parallel_dwContext'', ''Class_type_for_grantContext'',
     ''Drop_availability_groupContext'', ''Alter_availability_groupContext'',
     ''Alter_availability_group_startContext'', ''Alter_availability_group_optionsContext'',
     ''Ip_v4_failoverContext'']"

definition forward_classes_8 :: "string list" where
  "forward_classes_8 = [
     ''Ip_v6_failoverContext'', ''Create_or_alter_broker_priorityContext'',
     ''Drop_broker_priorityContext'', ''Alter_certificateContext'',
     ''Alter_column_encryption_keyContext'', ''Create_column_encryption_keyContext'',
     ''Drop_certificateContext'', ''Drop_column_encryption_keyContext'',
     ''Drop_column_master_keyContext'', ''Drop_contractContext'', ''Drop_credentialContext'',
     ''Drop_cryptograhic_providerContext'']"

definition forward_classes_9 :: "string list" where
  "forward_classes_9 = [
     ''Drop_databaseContext'', ''Drop_database_audit_specificationContext'',
     ''Drop_database_encryption_keyContext'', ''Drop_database_scoped_credentialContext'',
     ''Drop_defaultContext'', ''Drop_endpointContext'', ''Drop_external_data_sourceContext'',
     ''Drop_external_file_formatContext'', ''Drop_external_libraryContext'',
     ''Drop_external_resource_poolContext'', ''Drop_external_tableContext'',
     ''Drop_event_notificationsContext'']"

definition forward_classes_10 :: "string list" where
  "forward_classes_10 = [
     ''Drop_event_sessionContext'', ''Drop_fulltext_catalogContext'',
     ''Drop_fulltext_indexContext'', ''Drop_fulltext_stoplistContext'', ''Drop_loginContext'',
     ''Drop_master_keyContext'', ''Drop_message_typeContext'',
     ''Drop_partition_functionContext'', ''Drop_partition_schemeContext'',
     ''Drop_queueContext'', ''Drop_remote_service_bindingContext'',
     ''Drop_resource_poolContext'']"

definition forward_classes_11 :: "string list" where
  "forward_classes_11 = [
     ''Drop_db_roleContext'', ''Drop_routeContext'', ''Drop_ruleContext'',
     ''Drop_schemaContext'', ''Drop_search_property_listContext'',
     ''Drop_security_policyContext'', ''Drop_sequenceContext'', ''Drop_server_auditContext'',
     ''Drop_server_audit_specificationContext'', ''Drop_server_roleContext'',
     ''Drop_serviceContext'', ''Drop_signatureContext'']"

definition forward_classes_12 :: "string list" where
  "forward_classes_12 = [
     ''Drop_statistics_name_azure_dw_and_pdwContext'', ''Drop_symmetric_keyContext'',
     ''Drop_synonymContext'', ''Drop_userContext'', ''Drop_workload_groupContext'',
     ''Drop_xml_schema_collectionContext'', ''Disable_triggerContext'',
     ''Enable_triggerContext'', ''Lock_tableContext'', ''Truncate_tableContext'',
     ''Create_column_master_keyContext'', ''Alter_credentialContext'']"

definition forward_classes_13 :: "string list" where
  "forward_classes_13 = [
     ''Create_credentialContext'', ''Alter_cryptographic_providerContext'',
     ''Create_cryptographic_providerContext'', ''Create_endpointContext'',
     ''Endpoint_encryption_alogorithm_clauseContext'',
     ''Endpoint_authentication_clauseContext'', ''Endpoint_listener_clauseContext'',
     ''Create_event_notificationContext'', ''Create_or_alter_event_sessionContext'',
     ''Event_session_predicate_expressionContext'', ''Event_session_predicate_factorContext'',
     ''Event_session_predicate_leafContext'']"

definition forward_classes_14 :: "string list" where
  "forward_classes_14 = [
     ''Alter_external_data_sourceContext'', ''Alter_external_libraryContext'',
     ''Create_external_libraryContext'', ''Alter_external_resource_poolContext'',
     ''Create_external_resource_poolContext'', ''Alter_fulltext_catalogContext'',
     ''Create_fulltext_catalogContext'', ''Alter_fulltext_stoplistContext'',
     ''Create_fulltext_stoplistContext'', ''Alter_login_sql_serverContext'',
     ''Create_login_sql_serverContext'', ''Alter_login_azure_sqlContext'']"

definition forward_classes_15 :: "string list" where
  "forward_classes_15 = [
     ''Create_login_azure_sqlContext'', ''Alter_login_azure_sql_dw_and_pdwContext'',
     ''Create_login_pdwContext'', ''Alter_master_key_sql_serverContext'',
     ''Create_master_key_sql_serverContext'', ''Alter_master_key_azure_sqlContext'',
     ''Create_master_key_azure_sqlContext'', ''Alter_message_typeContext'',
     ''Alter_partition_functionContext'', ''Alter_partition_schemeContext'',
     ''Alter_remote_service_bindingContext'', ''Create_remote_service_bindingContext'']"

definition forward_classes_16 :: "string list" where
  "forward_classes_16 = [
     ''Create_resource_poolContext'', ''Alter_resource_governorContext'',
     ''Alter_database_audit_specificationContext'', ''Audit_action_spec_groupContext'',
     ''Audit_action_specificationContext'', ''Action_specificationContext'',
     ''Audit_class_nameContext'', ''Audit_securableContext'', ''Alter_db_roleContext'',
     ''Create_database_audit_specificationContext'', ''Create_db_roleContext'',
     ''Create_routeContext'']"

definition forward_classes_17 :: "string list" where
  "forward_classes_17 = [
     ''Create_ruleContext'', ''Alter_schema_sqlContext'', ''Create_schemaContext'',
     ''Create_schema_azure_sql_dw_and_pdwContext'',
     ''Alter_schema_azure_sql_dw_and_pdwContext'', ''Create_search_property_listContext'',
     ''Create_security_policyContext'', ''Alter_sequenceContext'', ''Create_sequenceContext'',
     ''Alter_server_auditContext'', ''Create_server_auditContext'',
     ''Alter_server_audit_specificationContext'']"

definition forward_classes_18 :: "string list" where
  "forward_classes_18 = [
     ''Create_server_audit_specificationContext'', ''Alter_server_configurationContext'',
     ''Alter_server_roleContext'', ''Create_server_roleContext'',
     ''Alter_server_role_pdwContext'', ''Alter_serviceContext'', ''Opt_arg_clauseContext'',
     ''Create_serviceContext'', ''Alter_service_master_keyContext'',
     ''Alter_symmetric_keyContext'', ''Create_synonymContext'', ''Alter_userContext'']"

definition forward_classes_19 :: "string list" where
  "forward_classes_19 = [
     ''Create_userContext'', ''Create_user_azure_sql_dwContext'',
     ''Alter_user_azure_sqlContext'', ''Alter_workload_groupContext'',
     ''Create_workload_groupContext'', ''Create_xml_schema_collectionContext'',
     ''Create_partition_functionContext'', ''Create_partition_schemeContext'',
     ''Create_queueContext'', ''Queue_settingsContext'', ''Alter_queueContext'',
     ''Queue_actionContext'']"

definition forward_classes_20 :: "string list" where
  "forward_classes_20 = [
     ''Queue_rebuild_optionsContext'', ''Create_contractContext'',
     ''Conversation_statementContext'', ''Message_statementContext'',
     ''Merge_statementContext'', ''When_matchesContext'', ''Merge_matchedContext'',
     ''Merge_not_matchedContext'', ''Delete_statementContext'',
     ''Delete_statement_fromContext'', ''Insert_statementContext'',
     ''Insert_statement_valueContext'']"

definition forward_classes_21 :: "string list" where
  "forward_classes_21 = [
     ''Receive_statementContext'', ''Select_statement_standaloneContext'',
     ''Select_statementContext'', ''TimeContext'', ''Update_statementContext'',
     ''Output_clauseContext'', ''Output_dml_list_elemContext'', ''Create_databaseContext'',
     ''Create_indexContext'', ''Create_index_optionsContext'',
     ''Relational_index_optionContext'', ''Alter_indexContext'']"

definition forward_classes_22 :: "string list" where
  "forward_classes_22 = [
     ''Resumable_index_optionsContext'', ''Resumable_index_optionContext'',
     ''Reorganize_partitionContext'', ''Reorganize_optionsContext'',
     ''Reorganize_optionContext'', ''Set_index_optionsContext'', ''Set_index_optionContext'',
     ''Rebuild_partitionContext'', ''Rebuild_index_optionsContext'',
     ''Rebuild_index_optionContext'', ''Single_partition_rebuild_index_optionsContext'',
     ''Single_partition_rebuild_index_optionContext'']"

definition forward_classes_23 :: "string list" where
  "forward_classes_23 = [
     ''On_partitionsContext'', ''Create_columnstore_indexContext'',
     ''Create_columnstore_index_optionsContext'', ''Columnstore_index_optionContext'',
     ''Create_nonclustered_columnstore_indexContext'', ''Create_xml_indexContext'',
     ''Xml_index_optionsContext'', ''Xml_index_optionContext'',
     ''Create_or_alter_procedureContext'', ''As_external_nameContext'',
     ''Create_or_alter_triggerContext'', ''Create_or_alter_dml_triggerContext'']"

definition forward_classes_24 :: "string list" where
  "forward_classes_24 = [
     ''Dml_trigger_optionContext'', ''Dml_trigger_operationContext'',
     ''Create_or_alter_ddl_triggerContext'', ''Ddl_trigger_operationContext'',
     ''Create_or_alter_functionContext'', ''Func_body_returns_selectContext'',
     ''Func_body_returns_tableContext'', ''Func_body_returns_scalarContext'',
     ''Procedure_param_default_valueContext'', ''Procedure_paramContext'',
     ''Procedure_optionContext'', ''Function_optionContext'']"

definition forward_classes_25 :: "string list" where
  "forward_classes_25 = [
     ''Create_statisticsContext'', ''Update_statisticsContext'',
     ''Update_statistics_optionsContext'', ''Update_statistics_optionContext'',
     ''Create_tableContext'', ''Table_indicesContext'', ''Table_optionsContext'',
     ''Table_optionContext'', ''Create_table_index_optionsContext'',
     ''Create_table_index_optionContext'', ''Create_viewContext'', ''View_attributeContext'']"

definition forward_classes_26 :: "string list" where
  "forward_classes_26 = [
     ''Alter_tableContext'', ''Switch_partitionContext'', ''Low_priority_lock_waitContext'',
     ''Alter_databaseContext'', ''Add_or_modify_filesContext'', ''FilespecContext'',
     ''Add_or_modify_filegroupsContext'', ''Filegroup_updatability_optionContext'',
     ''Database_optionspecContext'', ''Auto_optionContext'', ''Change_tracking_optionContext'',
     ''Change_tracking_option_listContext'']"

definition forward_classes_27 :: "string list" where
  "forward_classes_27 = [
     ''Containment_optionContext'', ''Cursor_optionContext'', ''Alter_endpointContext'',
     ''Database_mirroring_optionContext'', ''Mirroring_set_optionContext'',
     ''Mirroring_partnerContext'', ''Mirroring_witnessContext'',
     ''Witness_partner_equalContext'', ''Partner_optionContext'', ''Witness_optionContext'',
     ''Witness_serverContext'', ''Partner_serverContext'']"

definition forward_classes_28 :: "string list" where
  "forward_classes_28 = [
     ''Mirroring_host_port_seperatorContext'', ''Partner_server_tcp_prefixContext'',
     ''Port_numberContext'', ''HostContext'', ''Date_correlation_optimization_optionContext'',
     ''Db_encryption_optionContext'', ''Db_state_optionContext'', ''Db_update_optionContext'',
     ''Db_user_access_optionContext'', ''Delayed_durability_optionContext'',
     ''External_access_optionContext'', ''Hadr_optionsContext'']"

definition forward_classes_29 :: "string list" where
  "forward_classes_29 = [
     ''Mixed_page_allocation_optionContext'', ''Parameterization_optionContext'',
     ''Recovery_optionContext'', ''Service_broker_optionContext'', ''Snapshot_optionContext'',
     ''Sql_optionContext'', ''Target_recovery_time_optionContext'', ''TerminationContext'',
     ''Drop_indexContext'', ''Drop_relational_or_xml_or_spatial_indexContext'',
     ''Drop_backward_compatible_indexContext'', ''Drop_procedureContext'']"

definition forward_classes_30 :: "string list" where
  "forward_classes_30 = [
     ''Drop_triggerContext'', ''Drop_dml_triggerContext'', ''Drop_ddl_triggerContext'',
     ''Drop_functionContext'', ''Drop_statisticsContext'', ''Drop_tableContext'',
     ''Drop_viewContext'', ''Create_typeContext'', ''Drop_typeContext'',
     ''Rowset_function_limitedContext'', ''OpenqueryContext'', ''OpendatasourceContext'']"

definition forward_classes_31 :: "string list" where
  "forward_classes_31 = [
     ''Declare_statementContext'', ''Xml_declarationContext'', ''Cursor_statementContext'',
     ''Backup_databaseContext'', ''Backup_logContext'', ''Backup_certificateContext'',
     ''Backup_master_keyContext'', ''Backup_service_master_keyContext'',
     ''Kill_statementContext'', ''Kill_processContext'', ''Kill_query_notificationContext'',
     ''Kill_stats_jobContext'']"

definition forward_classes_32 :: "string list" where
  "forward_classes_32 = [
     ''Execute_statementContext'', ''Execute_body_batchContext'', ''Execute_bodyContext'',
     ''Execute_statement_argContext'', ''Execute_statement_arg_namedContext'',
     ''Execute_statement_arg_unnamedContext'', ''Execute_parameterContext'',
     ''Execute_var_stringContext'', ''Security_statementContext'', ''Principal_idContext'',
     ''Create_certificateContext'', ''Existing_keysContext'']"

definition forward_classes_33 :: "string list" where
  "forward_classes_33 = [
     ''Private_key_optionsContext'', ''Generate_new_keysContext'', ''Date_optionsContext'',
     ''Open_keyContext'', ''Close_keyContext'', ''Create_keyContext'', ''Key_optionsContext'',
     ''AlgorithmContext'', ''Encryption_mechanismContext'', ''Decryption_mechanismContext'',
     ''Grant_permissionContext'', ''Set_statementContext'']"

definition forward_classes_34 :: "string list" where
  "forward_classes_34 = [
     ''Transaction_statementContext'', ''Go_statementContext'', ''Use_statementContext'',
     ''Setuser_statementContext'', ''Reconfigure_statementContext'',
     ''Shutdown_statementContext'', ''Checkpoint_statementContext'',
     ''Dbcc_checkalloc_optionContext'', ''Dbcc_checkallocContext'',
     ''Dbcc_checkcatalogContext'', ''Dbcc_checkconstraints_optionContext'',
     ''Dbcc_checkconstraintsContext'']"

definition forward_classes_35 :: "string list" where
  "forward_classes_35 = [
     ''Dbcc_checkdb_table_optionContext'', ''Dbcc_checkdbContext'',
     ''Dbcc_checkfilegroup_optionContext'', ''Dbcc_checkfilegroupContext'',
     ''Dbcc_checktableContext'', ''Dbcc_cleantableContext'',
     ''Dbcc_clonedatabase_optionContext'', ''Dbcc_clonedatabaseContext'',
     ''Dbcc_pdw_showspaceusedContext'', ''Dbcc_proccacheContext'',
     ''Dbcc_showcontig_optionContext'', ''Dbcc_showcontigContext'']"

definition forward_classes_36 :: "string list" where
  "forward_classes_36 = [
     ''Dbcc_shrinklogContext'', ''Dbcc_dbreindexContext'', ''Dbcc_dll_freeContext'',
     ''Dbcc_dropcleanbuffersContext'', ''Dbcc_clauseContext'', ''Execute_clauseContext'',
     ''Declare_localContext'', ''Table_type_definitionContext'', ''Table_type_indicesContext'',
     ''Xml_type_definitionContext'', ''Xml_schema_collectionContext'',
     ''Column_def_table_constraintsContext'']"

definition forward_classes_37 :: "string list" where
  "forward_classes_37 = [
     ''Column_def_table_constraintContext'', ''Column_definitionContext'',
     ''Column_definition_elementContext'', ''Column_modifierContext'',
     ''Materialized_column_definitionContext'', ''Column_constraintContext'',
     ''Column_indexContext'', ''On_partition_or_filegroupContext'',
     ''Table_constraintContext'', ''Connection_nodeContext'', ''Primary_key_optionsContext'',
     ''Foreign_key_optionsContext'']"

definition forward_classes_38 :: "string list" where
  "forward_classes_38 = [
     ''Check_constraintContext'', ''On_deleteContext'', ''On_updateContext'',
     ''Alter_table_index_optionsContext'', ''Alter_table_index_optionContext'',
     ''Declare_cursorContext'', ''Declare_set_cursor_commonContext'',
     ''Declare_set_cursor_common_partialContext'', ''Fetch_cursorContext'',
     ''Set_specialContext'', ''Special_listContext'', ''Constant_LOCAL_IDContext'']"

definition forward_classes_39 :: "string list" where
  "forward_classes_39 = [
     ''ExpressionContext'', ''ParameterContext'', ''Time_zoneContext'',
     ''Primitive_expressionContext'', ''Case_expressionContext'',
     ''Unary_operator_expressionContext'', ''Bracket_expressionContext'', ''SubqueryContext'',
     ''With_expressionContext'', ''Common_table_expressionContext'', ''Update_elemContext'',
     ''Update_elem_mergeContext'']"

definition forward_classes_40 :: "string list" where
  "forward_classes_40 = [
     ''Search_conditionContext'', ''PredicateContext'', ''Query_expressionContext'',
     ''Sql_unionContext'', ''Query_specificationContext'', ''Group_by_clauseContext'',
     ''Having_clauseContext'', ''From_table_sourcesContext'', ''Top_clauseContext'',
     ''Top_percentContext'', ''Top_countContext'', ''Order_by_clauseContext'']"

definition forward_classes_41 :: "string list" where
  "forward_classes_41 = [
     ''Select_order_by_clauseContext'', ''For_clauseContext'',
     ''Xml_common_directivesContext'', ''Order_by_expressionContext'',
     ''Grouping_sets_itemContext'', ''Group_by_itemContext'', ''Option_clauseContext'',
     ''OptionContext'', ''Optimize_for_argContext'', ''Select_listContext'',
     ''Udt_method_argumentsContext'', ''AsteriskContext'']"

definition forward_classes_42 :: "string list" where
  "forward_classes_42 = [
     ''Udt_elemContext'', ''Expression_elemContext'', ''Select_list_elemContext'',
     ''Table_sourcesContext'', ''Non_ansi_joinContext'', ''Table_sourceContext'',
     ''Table_source_itemContext'', ''Open_xmlContext'', ''Open_jsonContext'',
     ''Json_declarationContext'', ''Json_column_declarationContext'',
     ''Schema_declarationContext'']"

definition forward_classes_43 :: "string list" where
  "forward_classes_43 = [
     ''Column_declarationContext'', ''Change_tableContext'', ''Change_table_changesContext'',
     ''Change_table_versionContext'', ''Join_partContext'', ''Join_onContext'',
     ''Cross_joinContext'', ''Apply_Context'', ''PivotContext'', ''UnpivotContext'',
     ''Pivot_clauseContext'', ''Unpivot_clauseContext'']"

definition forward_classes_44 :: "string list" where
  "forward_classes_44 = [
     ''Full_column_name_listContext'', ''Rowset_functionContext'', ''Bulk_optionContext'',
     ''Derived_tableContext'', ''Function_callContext'', ''Partition_functionContext'',
     ''Freetext_functionContext'', ''Freetext_predicateContext'', ''Json_key_valueContext'',
     ''Json_null_clauseContext'', ''Built_in_functionsContext'',
     ''Xml_data_type_methodsContext'']"

definition forward_classes_45 :: "string list" where
  "forward_classes_45 = [
     ''Dateparts_9Context'', ''Dateparts_12Context'', ''Dateparts_15Context'',
     ''Dateparts_datetruncContext'', ''Value_methodContext'', ''Value_callContext'',
     ''Query_methodContext'', ''Query_callContext'', ''Exist_methodContext'',
     ''Exist_callContext'', ''Modify_methodContext'', ''Modify_callContext'']"

definition forward_classes_46 :: "string list" where
  "forward_classes_46 = [
     ''Hierarchyid_callContext'', ''Hierarchyid_static_methodContext'',
     ''Nodes_methodContext'', ''Switch_sectionContext'',
     ''Switch_search_condition_sectionContext'', ''As_column_aliasContext'',
     ''As_table_aliasContext'', ''Table_aliasContext'', ''With_table_hintsContext'',
     ''Deprecated_table_hintContext'', ''Sybase_legacy_hintsContext'',
     ''Sybase_legacy_hintContext'']"

definition forward_classes_47 :: "string list" where
  "forward_classes_47 = [
     ''Table_hintContext'', ''Index_valueContext'', ''Column_alias_listContext'',
     ''Column_aliasContext'', ''Table_value_constructorContext'', ''Expression_list_Context'',
     ''Ranking_windowed_functionContext'', ''Aggregate_windowed_functionContext'',
     ''Analytic_windowed_functionContext'', ''All_distinct_expressionContext'',
     ''Over_clauseContext'', ''Row_or_range_clauseContext'']"

definition forward_classes_48 :: "string list" where
  "forward_classes_48 = [
     ''Window_frame_extentContext'', ''Window_frame_boundContext'',
     ''Window_frame_precedingContext'', ''Window_frame_followingContext'',
     ''Create_database_optionContext'', ''Database_filestream_optionContext'',
     ''Database_file_specContext'', ''File_groupContext'', ''File_specContext'',
     ''Entity_nameContext'', ''Entity_name_for_azure_dwContext'',
     ''Entity_name_for_parallel_dwContext'']"

definition forward_classes_49 :: "string list" where
  "forward_classes_49 = [
     ''Full_table_nameContext'', ''Table_nameContext'', ''Simple_nameContext'',
     ''Func_proc_name_schemaContext'', ''Func_proc_name_database_schemaContext'',
     ''Func_proc_name_server_database_schemaContext'', ''Ddl_objectContext'',
     ''Full_column_nameContext'', ''Column_name_list_with_orderContext'',
     ''Insert_column_name_listContext'', ''Insert_column_idContext'',
     ''Column_name_listContext'']"

definition forward_classes_50 :: "string list" where
  "forward_classes_50 = [
     ''Cursor_nameContext'', ''On_offContext'', ''ClusteredContext'', ''Null_notnullContext'',
     ''Scalar_function_nameContext'', ''Begin_conversation_timerContext'',
     ''Begin_conversation_dialogContext'', ''Contract_nameContext'', ''Service_nameContext'',
     ''End_conversationContext'', ''Waitfor_conversationContext'', ''Get_conversationContext'']"

definition forward_classes_51 :: "string list" where
  "forward_classes_51 = [
     ''Queue_idContext'', ''Send_conversationContext'', ''Data_typeContext'',
     ''ConstantContext'', ''Primitive_constantContext'', ''KeywordContext'', ''Id_Context'',
     ''Simple_idContext'', ''Id_or_stringContext'', ''Comparison_operatorContext'',
     ''Assignment_operatorContext'', ''File_sizeContext'']"

definition forward_classes :: "string list" where
  "forward_classes =
     forward_classes_1 @ forward_classes_2 @ forward_classes_3 @ forward_classes_4 @
     forward_classes_5 @ forward_classes_6 @ forward_classes_7 @ forward_classes_8 @
     forward_classes_9 @ forward_classes_10 @ forward_classes_11 @ forward_classes_12 @
     forward_classes_13 @ forward_classes_14 @ forward_classes_15 @ forward_classes_16 @
     forward_classes_17 @ forward_classes_18 @ forward_classes_19 @ forward_classes_20 @
     forward_classes_21 @ forward_classes_22 @ forward_classes_23 @ forward_classes_24 @
     forward_classes_25 @ forward_classes_26 @ forward_classes_27 @ forward_classes_28 @
     forward_classes_29 @ forward_classes_30 @ forward_classes_31 @ forward_classes_32 @
     forward_classes_33 @ forward_classes_34 @ forward_classes_35 @ forward_classes_36 @
     forward_classes_37 @ forward_classes_38 @ forward_classes_39 @ forward_classes_40 @
     forward_classes_41 @ forward_classes_42 @ forward_classes_43 @ forward_classes_44 @
     forward_classes_45 @ forward_classes_46 @ forward_classes_47 @ forward_classes_48 @
     forward_classes_49 @ forward_classes_50 @ forward_classes_51"

end
