(* ===== verification/Lexing.thy ===== *)
theory Lexing
  imports Prelude
begin

text \<open>
  Lexer grammars: the right-hand sides of lexer rules, the texts they match, and the division of
  an input into lexemes.  Nothing here mentions T-SQL.

  A rule matches the longest text it can; a rule with a loop that is not greedy matches the
  text that its alternatives reach first, in the order in which they are written.  Among the
  rules the one with the longest match wins, and the first of these.
\<close>

section \<open>Right-hand sides\<close>

type_synonym code_point = nat

text \<open>
  A literal \<open>Lit\<close> and a set \<open>Chars\<close> of a grammar with the option \<open>caseInsensitive\<close> match both
  cases of a letter; \<open>Exact\<close> is a literal of a rule that turns the option off.  The sets are
  lists of ranges, \<open>NotChars\<close> is the complement, with \<open>NotChars []\<close> for the wildcard.
  \<open>Few\<close> is the loop \<open>*?\<close>, and \<open>Self\<close> the use of the rule in its own right-hand side.
\<close>

datatype lexpr =
    Lit string
  | Exact string
  | Chars "(code_point \<times> code_point) list"
  | NotChars "(code_point \<times> code_point) list"
  | Cat "lexpr list"
  | Or "lexpr list"
  | Maybe lexpr
  | Loop lexpr
  | Few lexpr
  | Self

definition Some_More :: "lexpr \<Rightarrow> lexpr" where
  "Some_More e = Cat [e, Loop e]"

section \<open>Characters\<close>

definition upper :: "code_point \<Rightarrow> code_point" where
  "upper x = (if 97 \<le> x \<and> x \<le> 122 then x - 32 else x)"

definition lower :: "code_point \<Rightarrow> code_point" where
  "lower x = (if 65 \<le> x \<and> x \<le> 90 then x + 32 else x)"

fun in_ranges :: "(code_point \<times> code_point) list \<Rightarrow> code_point \<Rightarrow> bool" where
  "in_ranges [] x = False"
| "in_ranges ((a, b) # rs) x = (if a \<le> x then if x \<le> b then True else in_ranges rs x else in_ranges rs x)"

definition in_chars :: "(code_point \<times> code_point) list \<Rightarrow> code_point \<Rightarrow> bool" where
  "in_chars rs x = (in_ranges rs x \<or> in_ranges rs (upper x) \<or> in_ranges rs (lower x))"

definition codes :: "string \<Rightarrow> code_point list" where
  "codes s = map of_char s"

text \<open>What is left of a text after a literal.\<close>

fun strip :: "(code_point \<Rightarrow> code_point) \<Rightarrow> string \<Rightarrow> code_point list \<Rightarrow> code_point list option" where
  "strip f [] xs = Some xs"
| "strip f (c # cs) [] = None"
| "strip f (c # cs) (x # xs) = (if f x = f (of_char c) then strip f cs xs else None)"

section \<open>Matching\<close>

text \<open>
  What a right-hand side can leave of a text, the preferred match first.  The argument \<open>s\<close> is
  the right-hand side that \<open>Self\<close> stands for, and \<open>k\<close> limits the rounds of a loop and the depth
  of the recursion; \<open>leftovers_complete\<close> and \<open>comment_leftovers\<close> show that the length of the text is
  enough.  A round of a loop must consume something.
\<close>

fun leftovers :: "lexpr \<Rightarrow> nat \<Rightarrow> lexpr \<Rightarrow> code_point list \<Rightarrow> code_point list list" where
  "leftovers s k (Lit w) xs = (case strip upper w xs of None \<Rightarrow> [] | Some ys \<Rightarrow> [ys])"
| "leftovers s k (Exact w) xs = (case strip id w xs of None \<Rightarrow> [] | Some ys \<Rightarrow> [ys])"
| "leftovers s k (Chars rs) xs = (case xs of [] \<Rightarrow> [] | x # ys \<Rightarrow> if in_chars rs x then [ys] else [])"
| "leftovers s k (NotChars rs) xs = (case xs of [] \<Rightarrow> [] | x # ys \<Rightarrow> if in_chars rs x then [] else [ys])"
| "leftovers s k (Cat []) xs = [xs]"
| "leftovers s k (Cat (e # es)) xs = concat (map (leftovers s k (Cat es)) (leftovers s k e xs))"
| "leftovers s k (Or []) xs = []"
| "leftovers s k (Or (e # es)) xs = leftovers s k e xs @ leftovers s k (Or es) xs"
| "leftovers s k (Maybe e) xs = leftovers s k e xs @ [xs]"
| "leftovers s 0 (Loop e) xs = [xs]"
| "leftovers s (Suc k) (Loop e) xs =
     concat (map (leftovers s k (Loop e)) (filter (\<lambda>ys. length ys < length xs) (leftovers s (Suc k) e xs))) @ [xs]"
| "leftovers s 0 (Few e) xs = [xs]"
| "leftovers s (Suc k) (Few e) xs =
     xs # concat (map (leftovers s k (Few e)) (filter (\<lambda>ys. length ys < length xs) (leftovers s (Suc k) e xs)))"
| "leftovers s 0 Self xs = []"
| "leftovers s (Suc k) Self xs = leftovers s k s xs"

text \<open>The texts a right-hand side matches, as a relation.\<close>

inductive matches :: "lexpr \<Rightarrow> lexpr \<Rightarrow> code_point list \<Rightarrow> bool" for s where
  Lit: "strip upper w xs = Some [] \<Longrightarrow> matches s (Lit w) xs"
| Exact: "strip id w xs = Some [] \<Longrightarrow> matches s (Exact w) xs"
| Chars: "in_chars rs x \<Longrightarrow> matches s (Chars rs) [x]"
| NotChars: "\<not> in_chars rs x \<Longrightarrow> matches s (NotChars rs) [x]"
| Cat_Nil: "matches s (Cat []) []"
| Cat_Cons: "matches s e v \<Longrightarrow> matches s (Cat es) w \<Longrightarrow> matches s (Cat (e # es)) (v @ w)"
| Or: "e \<in> set es \<Longrightarrow> matches s e w \<Longrightarrow> matches s (Or es) w"
| Maybe_some: "matches s e w \<Longrightarrow> matches s (Maybe e) w"
| Maybe_none: "matches s (Maybe e) []"
| Loop_Nil: "matches s (Loop e) []"
| Loop_Cons: "matches s e v \<Longrightarrow> v \<noteq> [] \<Longrightarrow> matches s (Loop e) w \<Longrightarrow> matches s (Loop e) (v @ w)"
| Few_Nil: "matches s (Few e) []"
| Few_Cons: "matches s e v \<Longrightarrow> v \<noteq> [] \<Longrightarrow> matches s (Few e) w \<Longrightarrow> matches s (Few e) (v @ w)"
| Self: "matches s s w \<Longrightarrow> matches s Self w"

inductive_cases matches_OrE: "matches s (Or es) w"

lemma strip_append: "strip f w xs = Some [] \<Longrightarrow> strip f w (xs @ ys) = Some ys"
  by (induction f w xs rule: strip.induct) (auto split: if_splits)

lemma strip_split: "strip f w xs = Some ys \<Longrightarrow> \<exists>v. xs = v @ ys \<and> strip f w v = Some []"
proof (induction f w xs rule: strip.induct)
  case (3 f c cs x xs)
  then obtain v where "xs = v @ ys" "strip f cs v = Some []" by (auto split: if_splits)
  with 3 show ?case by (intro exI [of _ "x # v"]) (auto split: if_splits)
qed auto

lemma strip_iff: "strip f w xs = Some [] \<longleftrightarrow> map f xs = map f (codes w)"
  by (induction f w xs rule: strip.induct) (auto simp: codes_def)

lemma strip_split_iff: "Some ys = strip f w xs \<longleftrightarrow> (\<exists>v. xs = v @ ys \<and> strip f w v = Some [])"
  by (metis strip_append strip_split)

lemma leftovers_sound: "ys \<in> set (leftovers s k e xs) \<Longrightarrow> \<exists>w. xs = w @ ys \<and> matches s e w"
proof (induction s k e xs arbitrary: ys rule: leftovers.induct)
  case (1 s k w xs)
  then show ?case by (auto split: option.splits simp: strip_split_iff intro: matches.intros)
next
  case (2 s k w xs)
  then show ?case by (auto split: option.splits simp: strip_split_iff intro: matches.intros)
next
  case (6 s k e es xs)
  then obtain zs where zs: "zs \<in> set (leftovers s k e xs)" "ys \<in> set (leftovers s k (Cat es) zs)" by auto
  from 6(1) [OF zs(1)] 6(2) [OF zs] show ?case by (auto intro: Cat_Cons)
next
  case (8 s k e es xs)
  from 8(3) consider "ys \<in> set (leftovers s k e xs)" | "ys \<in> set (leftovers s k (Or es) xs)" by auto
  then show ?case
  proof cases
    case 1
    from 8(1) [OF this] show ?thesis by (fastforce intro: Or)
  next
    case 2
    from 8(2) [OF this] obtain w where "xs = w @ ys" "matches s (Or es) w" by blast
    then show ?thesis by (auto elim!: matches_OrE intro: Or)
  qed
next
  case (11 s k e xs)
  show ?case
  proof (cases "ys = xs")
    case False
    with 11 obtain zs where zs: "zs \<in> set (leftovers s (Suc k) e xs)" "length zs < length xs"
      "ys \<in> set (leftovers s k (Loop e) zs)" by auto
    with 11(1) [OF zs(1)] 11(2) [of zs ys] obtain v w where
      "xs = v @ zs" "matches s e v" "zs = w @ ys" "matches s (Loop e) w" by auto
    with zs(2) show ?thesis by (auto intro!: exI [of _ "v @ w"] Loop_Cons)
  qed (auto intro: Loop_Nil)
next
  case (13 s k e xs)
  show ?case
  proof (cases "ys = xs")
    case False
    with 13 obtain zs where zs: "zs \<in> set (leftovers s (Suc k) e xs)" "length zs < length xs"
      "ys \<in> set (leftovers s k (Few e) zs)" by auto
    with 13(1) [OF zs(1)] 13(2) [of zs ys] obtain v w where
      "xs = v @ zs" "matches s e v" "zs = w @ ys" "matches s (Few e) w" by auto
    with zs(2) show ?thesis by (auto intro!: exI [of _ "v @ w"] Few_Cons)
  qed (auto intro: Few_Nil)
qed (auto split: list.splits if_splits intro: matches.intros)

text \<open>Does an expression do without \<open>Self\<close>?\<close>

fun plain :: "lexpr \<Rightarrow> bool" where
  "plain (Cat es) = list_all plain es"
| "plain (Or es) = list_all plain es"
| "plain (Maybe e) = plain e"
| "plain (Loop e) = plain e"
| "plain (Few e) = plain e"
| "plain Self = False"
| "plain e = True"

lemma leftovers_Or: "e \<in> set es \<Longrightarrow> ys \<in> set (leftovers s k e xs) \<Longrightarrow> ys \<in> set (leftovers s k (Or es) xs)"
  by (induction es) auto

lemma leftovers_complete:
  "matches s e w \<Longrightarrow> plain e \<Longrightarrow> length w \<le> k \<Longrightarrow> ys \<in> set (leftovers s k e (w @ ys))"
proof (induction arbitrary: k ys rule: matches.induct)
  case (Lit w xs)
  then show ?case by (simp add: strip_append)
next
  case (Exact w xs)
  then show ?case by (simp add: strip_append)
next
  case (Cat_Cons e v es w)
  then have "w @ ys \<in> set (leftovers s k e (v @ w @ ys))" "ys \<in> set (leftovers s k (Cat es) (w @ ys))"
    by simp_all
  then show ?case by auto
next
  case (Or e es w)
  then show ?case by (auto simp: list_all_iff intro: leftovers_Or)
next
  case (Loop_Nil e)
  then show ?case by (cases k) simp_all
next
  case (Loop_Cons e v w)
  then obtain j where k: "k = Suc j" by (cases k) auto
  from Loop_Cons k have "w @ ys \<in> set (leftovers s k e (v @ w @ ys))"
    by simp
  moreover from Loop_Cons k have "ys \<in> set (leftovers s j (Loop e) (w @ ys))"
    by (cases v) simp_all
  ultimately show ?case using Loop_Cons.hyps(2) k by (auto intro!: bexI [of _ "w @ ys"])
next
  case (Few_Nil e)
  then show ?case by (cases k) simp_all
next
  case (Few_Cons e v w)
  then obtain j where k: "k = Suc j" by (cases k) auto
  from Few_Cons k have "w @ ys \<in> set (leftovers s k e (v @ w @ ys))"
    by simp
  moreover from Few_Cons k have "ys \<in> set (leftovers s j (Few e) (w @ ys))"
    by (cases v) simp_all
  ultimately show ?case using Few_Cons.hyps(2) k by (auto intro!: bexI [of _ "w @ ys"])
qed simp_all

section \<open>Rules\<close>

record lexer_rule =
  token_type :: token
  pattern :: lexpr
  on_hidden :: bool

text \<open>Does a right-hand side have a loop that is not greedy?\<close>

fun lazy :: "lexpr \<Rightarrow> bool" where
  "lazy (Cat es) = list_ex lazy es"
| "lazy (Or es) = list_ex lazy es"
| "lazy (Maybe e) = lazy e"
| "lazy (Loop e) = lazy e"
| "lazy (Few e) = True"
| "lazy e = False"

fun shortest :: "'a list list \<Rightarrow> 'a list option" where
  "shortest [] = None"
| "shortest (ys # yss) = (case shortest yss of None \<Rightarrow> Some ys
     | Some zs \<Rightarrow> Some (if length zs < length ys then zs else ys))"

fun first :: "'a list \<Rightarrow> 'a option" where
  "first [] = None"
| "first (x # xs) = Some x"

text \<open>What the match of a rule leaves.  The empty text is not a lexeme.\<close>

definition rule_rest :: "lexer_rule \<Rightarrow> code_point list \<Rightarrow> code_point list option" where
  "rule_rest r xs = (let rs = filter (\<lambda>ys. length ys < length xs) (leftovers (pattern r) (Suc (length xs)) (pattern r) xs)
     in if lazy (pattern r) then first rs else shortest rs)"

text \<open>The rule with the longest match, the first if there are several, and what it leaves.\<close>

fun best :: "lexer_rule list \<Rightarrow> code_point list \<Rightarrow> (lexer_rule \<times> code_point list) option" where
  "best [] xs = None"
| "best (r # rs) xs = (case rule_rest r xs of None \<Rightarrow> best rs xs
     | Some ys \<Rightarrow> (case best rs xs of None \<Rightarrow> Some (r, ys)
         | Some (q, zs) \<Rightarrow> Some (if length zs < length ys then (q, zs) else (r, ys))))"

section \<open>Lexemes\<close>

text \<open>
  Text that no rule matches is reported and dropped: at least one character, how many more is
  the recovery of the runtime (\<open>extra\<close>).
\<close>

datatype lexeme = Lexeme token bool "code_point list" | Unrecognized "code_point list"

fun text_of :: "lexeme \<Rightarrow> code_point list" where
  "text_of (Lexeme t h w) = w"
| "text_of (Unrecognized w) = w"

lemma shortest_mem: "shortest yss = Some ys \<Longrightarrow> ys \<in> set yss"
  by (induction yss arbitrary: ys) (auto split: option.splits if_splits)

lemma first_mem: "first xs = Some x \<Longrightarrow> x \<in> set xs"
  by (cases xs) auto

lemma rule_rest_mem:
  assumes "rule_rest r xs = Some ys"
  shows "ys \<in> set (leftovers (pattern r) (Suc (length xs)) (pattern r) xs)" "length ys < length xs"
  using assms by (auto simp: rule_rest_def Let_def split: if_splits dest!: shortest_mem first_mem)

lemma best_Some:
  "best rs xs = Some (r, ys) \<Longrightarrow> r \<in> set rs \<and> rule_rest r xs = Some ys"
  by (induction rs arbitrary: r ys) (auto split: option.splits if_splits)

function lexemes :: "lexer_rule list \<Rightarrow> (code_point list \<Rightarrow> nat) \<Rightarrow> code_point list \<Rightarrow> lexeme list" where
  "lexemes rules extra [] = []"
| "lexemes rules extra (x # xs) = (case best rules (x # xs) of
     Some (r, ys) \<Rightarrow> Lexeme (token_type r) (on_hidden r) (take (length (x # xs) - length ys) (x # xs))
       # lexemes rules extra ys
   | None \<Rightarrow> Unrecognized (x # take (extra (x # xs)) xs) # lexemes rules extra (drop (extra (x # xs)) xs))"
  by pat_completeness auto
termination
  by (relation "measure (\<lambda>(rules, extra, xs). length xs)")
    (auto dest!: best_Some rule_rest_mem(2))

text \<open>The token types a parser sees: the default channel.\<close>

fun visible :: "lexeme list \<Rightarrow> token list" where
  "visible [] = []"
| "visible (Lexeme t h w # ls) = (if h then visible ls else t # visible ls)"
| "visible (Unrecognized w # ls) = visible ls"

end
