(* ===== verification/Scanning.thy ===== *)
theory Scanning
  imports Lexing
begin

text \<open>
  What holds of the lexemes of every lexer grammar, and the executable checks that decide which
  rule wins: which rules can start with a character (\<open>starts\<close>), which cannot match a literal
  (\<open>clear\<close>), which literals are the same (\<open>all_distinct\<close>).  The interface \<open>scanner\<close> is what a
  table of rules has to satisfy.
\<close>

section \<open>The chosen rule\<close>

lemma shortest_None: "shortest yss = None \<longleftrightarrow> yss = []"
  by (cases yss) (auto split: option.splits)

lemma shortest_le: "shortest yss = Some ys \<Longrightarrow> zs \<in> set yss \<Longrightarrow> length ys \<le> length zs"
proof (induction yss arbitrary: ys)
  case (Cons us yss)
  then show ?case by (cases "shortest yss") (force simp: shortest_None split: if_splits)+
qed simp

lemma best_None: "best rs xs = None \<longleftrightarrow> (\<forall>q \<in> set rs. rule_rest q xs = None)"
  by (induction rs) (auto split: option.splits if_splits)

lemma best_le:
  "best rs xs = Some (r, ys) \<Longrightarrow> q \<in> set rs \<Longrightarrow> rule_rest q xs = Some zs \<Longrightarrow> length ys \<le> length zs"
proof (induction rs arbitrary: r ys)
  case (Cons p rs)
  show ?case
  proof (cases "best rs xs")
    case None
    then have "q \<in> set rs \<Longrightarrow> rule_rest q xs = None" by (simp add: best_None)
    moreover from None Cons.prems have "rule_rest p xs = Some ys" by (auto split: option.splits)
    ultimately show ?thesis using Cons.prems by auto
  next
    case (Some b)
    with Cons.IH [of "fst b" "snd b"] Cons.prems show ?thesis
      by (cases b) (auto split: option.splits if_splits)
  qed
qed simp

lemma best_before:
  assumes "best (ps @ rs) xs = Some (r, ys)" and "r \<notin> set ps" and "q \<in> set ps"
    and "rule_rest q xs = Some zs"
  shows "length ys < length zs"
  using assms
proof (induction ps arbitrary: zs)
  case (Cons p ps)
  show ?case
  proof (cases "rule_rest p xs")
    case None
    with Cons show ?thesis by auto
  next
    case (Some us)
    with Cons.prems obtain p' vs where best: "best (ps @ rs) xs = Some (p', vs)" "length vs < length us"
      "p' = r" "vs = ys" by (auto split: option.splits if_splits)
    with Cons Some show ?thesis by auto
  qed
qed simp

text \<open>Only the rules that match something count.\<close>

lemma best_filter:
  assumes "\<And>r. r \<in> set rs \<Longrightarrow> \<not> P r \<Longrightarrow> rule_rest r xs = None"
  shows "best rs xs = best (filter P rs) xs"
  using assms by (induction rs) (auto split: option.split)

section \<open>Greedy rules\<close>

lemma rule_rest_split:
  assumes "rule_rest r xs = Some ys"
  obtains w where "xs = w @ ys" "w \<noteq> []" "matches (pattern r) (pattern r) w"
proof -
  from leftovers_sound [OF rule_rest_mem(1) [OF assms]] obtain w where
    w: "xs = w @ ys" "matches (pattern r) (pattern r) w" by blast
  moreover from w(1) rule_rest_mem(2) [OF assms] have "w \<noteq> []" by auto
  ultimately show ?thesis by (intro that)
qed

definition greedy :: "lexer_rule \<Rightarrow> bool" where
  "greedy r = (plain (pattern r) \<and> \<not> lazy (pattern r))"

lemma rule_rest_greedy:
  assumes "greedy r" and "matches (pattern r) (pattern r) w" and "w \<noteq> []"
  obtains zs where "rule_rest r (w @ ys) = Some zs" "length zs \<le> length ys"
proof -
  have "ys \<in> set (leftovers (pattern r) (Suc (length (w @ ys))) (pattern r) (w @ ys))"
    using assms by (intro leftovers_complete) (simp_all add: greedy_def)
  with assms(3) have mem: "ys \<in> set (filter (\<lambda>zs. length zs < length (w @ ys))
      (leftovers (pattern r) (Suc (length (w @ ys))) (pattern r) (w @ ys)))" by simp
  then have "shortest (filter (\<lambda>zs. length zs < length (w @ ys))
      (leftovers (pattern r) (Suc (length (w @ ys))) (pattern r) (w @ ys))) \<noteq> None"
    by (metis shortest_None empty_iff list.set(1))
  with assms(1) obtain zs where zs: "rule_rest r (w @ ys) = Some zs"
    by (auto simp: rule_rest_def greedy_def Let_def simp del: length_append)
  moreover from assms(1) mem zs have "length zs \<le> length ys"
    by (auto simp: rule_rest_def greedy_def Let_def simp del: length_append intro: shortest_le)
  ultimately show ?thesis by (rule that)
qed

lemma rule_rest_whole:
  assumes "greedy r" and "matches (pattern r) (pattern r) w" and "w \<noteq> []"
  shows "rule_rest r w = Some []"
  by (rule rule_rest_greedy [OF assms, of "[]"]) auto

text \<open>A literal.\<close>

lemma matches_Lit: "matches s (Lit u) w \<longleftrightarrow> map upper w = map upper (codes u)"
  by (auto simp: strip_iff intro: matches.intros elim: matches.cases)

lemma matches_Exact: "matches s (Exact u) w \<longleftrightarrow> w = codes u"
  by (auto simp: strip_iff intro: matches.intros elim: matches.cases)

section \<open>Lexemes\<close>

lemma lexemes_step:
  assumes "best rules xs = Some (r, ys)"
  obtains w where "xs = w @ ys" "w \<noteq> []" "matches (pattern r) (pattern r) w"
    "lexemes rules extra xs = Lexeme (token_type r) (on_hidden r) w # lexemes rules extra ys"
proof -
  from rule_rest_split [OF best_Some [OF assms, THEN conjunct2]] obtain w where
    w: "xs = w @ ys" "w \<noteq> []" "matches (pattern r) (pattern r) w" .
  from w(1,2) obtain x us where xs: "xs = x # us" by (cases w) auto
  have "lexemes rules extra xs
      = Lexeme (token_type r) (on_hidden r) (take (length xs - length ys) xs) # lexemes rules extra ys"
    using assms unfolding xs by simp
  then have "lexemes rules extra xs = Lexeme (token_type r) (on_hidden r) w # lexemes rules extra ys"
    using w(1) by simp
  with w show ?thesis by (rule that)
qed

lemma lexemes_stuck:
  "best rules (x # xs) = None \<Longrightarrow> lexemes rules extra (x # xs)
     = Unrecognized (x # take (extra (x # xs)) xs) # lexemes rules extra (drop (extra (x # xs)) xs)"
  by simp

lemma lexemes_induct [case_names Nil Step Stuck]:
  assumes "P []"
    and step: "\<And>xs r w ys. best rules xs = Some (r, ys) \<Longrightarrow> xs = w @ ys \<Longrightarrow> w \<noteq> [] \<Longrightarrow> P ys \<Longrightarrow>
      lexemes rules extra xs = Lexeme (token_type r) (on_hidden r) w # lexemes rules extra ys \<Longrightarrow> P xs"
    and stuck: "\<And>x xs. best rules (x # xs) = None \<Longrightarrow> P (drop (extra (x # xs)) xs) \<Longrightarrow> P (x # xs)"
  shows "P xs"
proof (induction "length xs" arbitrary: xs rule: less_induct)
  case less
  show ?case
  proof (cases "best rules xs")
    case None
    show ?thesis
    proof (cases xs)
      case (Cons x us)
      with None less show ?thesis by (simp add: stuck)
    qed (simp add: assms(1))
  next
    case (Some p)
    then obtain r ys where p: "best rules xs = Some (r, ys)" by (cases p) auto
    from lexemes_step [OF this, of extra] obtain w where w: "xs = w @ ys" "w \<noteq> []"
      "lexemes rules extra xs = Lexeme (token_type r) (on_hidden r) w # lexemes rules extra ys" .
    with less have "P ys" by simp
    from step [OF p w(1,2) this w(3)] show ?thesis .
  qed
qed

lemma lexemes_text: "concat (map text_of (lexemes rules extra xs)) = xs"
proof (induction xs rule: lexemes_induct [of _ rules extra])
  case (Stuck x xs)
  then show ?case by (simp only: lexemes_stuck list.map concat.simps text_of.simps) simp
qed auto

lemma lexemes_nonempty: "l \<in> set (lexemes rules extra xs) \<Longrightarrow> text_of l \<noteq> []"
proof (induction xs rule: lexemes_induct [of _ rules extra])
  case (Stuck x xs)
  then show ?case by (auto simp: lexemes_stuck)
qed auto

lemma lexemes_from_rule:
  "Lexeme t h w \<in> set (lexemes rules extra xs) \<Longrightarrow>
    \<exists>us r ys. best rules us = Some (r, ys) \<and> token_type r = t \<and> on_hidden r = h"
proof (induction xs rule: lexemes_induct [of _ rules extra])
  case (Stuck x xs)
  then show ?case by (auto simp: lexemes_stuck)
qed auto

section \<open>How a match starts\<close>

text \<open>Can a right-hand side match the empty text, or a text that starts with a character?\<close>

fun empties :: "lexpr \<Rightarrow> bool" where
  "empties (Lit w) = (w = [])"
| "empties (Exact w) = (w = [])"
| "empties (Chars rs) = False"
| "empties (NotChars rs) = False"
| "empties (Cat []) = True"
| "empties (Cat (e # es)) = (if empties e then empties (Cat es) else False)"
| "empties (Or []) = False"
| "empties (Or (e # es)) = (if empties e then True else empties (Or es))"
| "empties e = True"

fun starts :: "lexpr \<Rightarrow> code_point \<Rightarrow> bool" where
  "starts (Lit w) x = (case w of [] \<Rightarrow> False | c # cs \<Rightarrow> upper x = upper (of_char c))"
| "starts (Exact w) x = (case w of [] \<Rightarrow> False | c # cs \<Rightarrow> x = of_char c)"
| "starts (Chars rs) x = in_chars rs x"
| "starts (NotChars rs) x = (\<not> in_chars rs x)"
| "starts (Cat []) x = False"
| "starts (Cat (e # es)) x = (if starts e x then True else if empties e then starts (Cat es) x else False)"
| "starts (Or []) x = False"
| "starts (Or (e # es)) x = (if starts e x then True else starts (Or es) x)"
| "starts (Maybe e) x = starts e x"
| "starts (Loop e) x = starts e x"
| "starts (Few e) x = starts e x"
| "starts Self x = True"

lemma empties_Or: "e \<in> set es \<Longrightarrow> empties e \<Longrightarrow> empties (Or es)"
  by (induction es) auto

lemma starts_Or: "e \<in> set es \<Longrightarrow> starts e x \<Longrightarrow> starts (Or es) x"
  by (induction es) auto

lemma matches_starts:
  "matches s e w \<Longrightarrow> (w = [] \<longrightarrow> empties e) \<and> (\<forall>x v. w = x # v \<longrightarrow> starts e x)"
proof (induction rule: matches.induct)
  case (Lit w xs)
  then show ?case by (cases w) (auto simp: strip_iff codes_def)
next
  case (Exact w xs)
  then show ?case by (cases w) (auto simp: strip_iff codes_def)
next
  case (Or e es w)
  then show ?case by (blast intro: empties_Or starts_Or)
qed (auto simp: append_eq_Cons_conv)

lemma rule_rest_starts:
  assumes "\<not> starts (pattern r) x"
  shows "rule_rest r (x # xs) = None"
proof (cases "rule_rest r (x # xs)")
  case (Some ys)
  from rule_rest_split [OF this] obtain w where "x # xs = w @ ys" "w \<noteq> []"
    "matches (pattern r) (pattern r) w" .
  moreover from this obtain v where "w = x # v" by (auto simp: Cons_eq_append_conv)
  ultimately show ?thesis using matches_starts assms by blast
qed

lemma best_starts: "best rules (x # xs) = best (filter (\<lambda>r. starts (pattern r) x) rules) (x # xs)"
  by (rule best_filter) (rule rule_rest_starts)

section \<open>Letter case\<close>

lemma upper_cases: "upper x = upper y \<Longrightarrow> x = y \<or> x = lower y \<or> x = upper y"
  by (auto simp: upper_def lower_def split: if_splits)

lemma upper_same: "upper x = upper y \<Longrightarrow> lower x = lower y"
  by (auto simp: upper_def lower_def split: if_splits)

lemma in_chars_case: "upper x = upper y \<Longrightarrow> in_chars rs x = in_chars rs y"
  using upper_cases [of x y] upper_cases [of y x] upper_same [of x y]
  by (auto simp: in_chars_def)

text \<open>Right-hand sides that do not tell the cases of a letter apart.\<close>

fun caseless :: "lexpr \<Rightarrow> bool" where
  "caseless (Exact w) = False"
| "caseless (Cat es) = list_all caseless es"
| "caseless (Or es) = list_all caseless es"
| "caseless (Maybe e) = caseless e"
| "caseless (Loop e) = caseless e"
| "caseless (Few e) = caseless e"
| "caseless e = True"

lemma map_eq_append_split:
  "map f v = map f (u @ w) \<Longrightarrow> \<exists>a b. v = a @ b \<and> map f a = map f u \<and> map f b = map f w"
  by (simp add: map_eq_append_conv) metis

lemma matches_case:
  "matches s e w \<Longrightarrow> caseless e \<Longrightarrow> caseless s \<Longrightarrow> map upper v = map upper w \<Longrightarrow> matches s e v"
proof (induction arbitrary: v rule: matches.induct)
  case (Lit w xs)
  then show ?case by (simp add: matches_Lit strip_iff)
next
  case (Chars rs x)
  then obtain y where "v = [y]" "upper y = upper x" by (auto simp: map_eq_Cons_conv)
  with Chars in_chars_case [of y x rs] show ?case by (simp add: matches.Chars)
next
  case (NotChars rs x)
  then obtain y where "v = [y]" "upper y = upper x" by (auto simp: map_eq_Cons_conv)
  with NotChars in_chars_case [of y x rs] show ?case by (simp add: matches.NotChars)
next
  case (Cat_Cons e u es w)
  from map_eq_append_split [OF Cat_Cons.prems(3)] Cat_Cons show ?case
    by (auto intro!: matches.Cat_Cons)
next
  case (Or e es w)
  then show ?case by (auto simp: list_all_iff intro: matches.Or)
next
  case (Loop_Cons e u w)
  from map_eq_append_split [OF Loop_Cons.prems(3)] Loop_Cons show ?case
    by (auto intro!: matches.Loop_Cons)
next
  case (Few_Cons e u w)
  from map_eq_append_split [OF Few_Cons.prems(3)] Few_Cons show ?case
    by (auto intro!: matches.Few_Cons)
qed (auto intro: matches.intros)

section \<open>The first rule that matches a whole text\<close>

definition whole :: "code_point list \<Rightarrow> lexer_rule \<Rightarrow> bool" where
  "whole w r = (case w of [] \<Rightarrow> False
     | x # xs \<Rightarrow> if starts (pattern r) x then rule_rest r w = Some [] else False)"

lemma whole_iff: "whole w r \<longleftrightarrow> rule_rest r w = Some []"
proof (cases w)
  case Nil
  then show ?thesis using rule_rest_mem(2) [of r "[]" "[]"] by (auto simp: whole_def)
next
  case (Cons x xs)
  then show ?thesis using rule_rest_starts [of r x xs] by (auto simp: whole_def)
qed

lemma best_whole: "find (whole w) rules = Some r \<Longrightarrow> best rules w = Some (r, [])"
proof (induction rules)
  case (Cons q rules)
  show ?case
  proof (cases "whole w q")
    case True
    with Cons.prems show ?thesis by (simp add: whole_iff split: option.split)
  next
    case False
    with Cons have best: "best rules w = Some (r, [])" by simp
    show ?thesis
    proof (cases "rule_rest q w")
      case (Some ys)
      with False have "ys \<noteq> []" by (auto simp: whole_iff)
      with Some best show ?thesis by simp
    qed (simp add: best)
  qed
qed simp

section \<open>Empty matches\<close>

text \<open>Can a right-hand side match the empty text?  (A use of the rule in itself counts as empty.)\<close>

fun skippable :: "lexpr \<Rightarrow> bool" where
  "skippable (Lit w) = (w = [])"
| "skippable (Exact w) = (w = [])"
| "skippable (Chars rs) = False"
| "skippable (NotChars rs) = False"
| "skippable (Cat es) = list_all skippable es"
| "skippable (Or es) = list_ex skippable es"
| "skippable (Maybe e) = True"
| "skippable (Loop e) = True"
| "skippable (Few e) = True"
| "skippable Self = True"

lemma matches_skippable: "matches s e w \<Longrightarrow> w = [] \<Longrightarrow> skippable e"
proof (induction rule: matches.induct)
  case (Lit w xs)
  then show ?case by (cases w) auto
next
  case (Exact w xs)
  then show ?case by (cases w) auto
qed (auto simp: list_ex_iff)

end
