(* ===== verification/Literals.thy ===== *)
theory Literals
  imports Scanning
begin

text \<open>
  Rules that are single literals (keywords, operators): when the text of such a literal, in any
  letter case, is a lexeme of its rule.  The interface \<open>scanner\<close> collects what has to be checked
  of a table of rules.
\<close>

section \<open>Distinct texts\<close>

text \<open>The tails of the texts that start with the same element, for each of these elements.\<close>

fun put_tail :: "'a \<Rightarrow> 'a list \<Rightarrow> ('a \<times> 'a list list) list \<Rightarrow> ('a \<times> 'a list list) list" where
  "put_tail x xs [] = [(x, [xs])]"
| "put_tail x xs ((y, ys) # bs) = (if x = y then (y, xs # ys) # bs else (y, ys) # put_tail x xs bs)"

fun tails :: "'a list list \<Rightarrow> ('a \<times> 'a list list) list" where
  "tails [] = []"
| "tails ([] # xss) = tails xss"
| "tails ((x # xs) # xss) = put_tail x xs (tails xss)"

fun at_most_one_empty :: "'a list list \<Rightarrow> bool" where
  "at_most_one_empty [] = True"
| "at_most_one_empty ([] # xss) = list_all (\<lambda>xs. xs \<noteq> []) xss"
| "at_most_one_empty ((x # xs) # xss) = at_most_one_empty xss"

text \<open>A comparison by common prefixes; the first argument bounds the length of the texts.\<close>

fun all_distinct :: "nat \<Rightarrow> 'a list list \<Rightarrow> bool" where
  "all_distinct n [] = True"
| "all_distinct n [xs] = True"
| "all_distinct 0 (xs # ys # xss) = False"
| "all_distinct (Suc n) (xs # ys # xss) =
     (at_most_one_empty (xs # ys # xss) \<and> list_all (\<lambda>b. all_distinct n (snd b)) (tails (xs # ys # xss)))"

definition tails_of :: "'a \<Rightarrow> 'a list list \<Rightarrow> 'a list list" where
  "tails_of x xss = map tl (filter (\<lambda>xs. xs \<noteq> [] \<and> hd xs = x) xss)"

lemma tails_of_simps [simp]:
  "tails_of x [] = []" "tails_of x ([] # xss) = tails_of x xss"
  "tails_of x ((y # ys) # xss) = (if x = y then ys # tails_of x xss else tails_of x xss)"
  by (auto simp: tails_of_def)

lemma map_of_put_tail:
  "map_of (put_tail x xs bs) = (map_of bs)(x \<mapsto> xs # (case map_of bs x of None \<Rightarrow> [] | Some ys \<Rightarrow> ys))"
  by (induction x xs bs rule: put_tail.induct) (auto simp: fun_eq_iff)

lemma map_of_tails: "map_of (tails xss) x = (if tails_of x xss = [] then None else Some (tails_of x xss))"
  by (induction xss rule: tails.induct) (auto simp: map_of_put_tail)

lemma mem_tails_of: "ys \<in> set (tails_of y xss) \<longleftrightarrow> y # ys \<in> set xss"
  by (induction xss rule: tails.induct) auto

lemma distinct_by_tails_nonempty:
  assumes "\<forall>xs \<in> set xss. xs \<noteq> []" and "\<And>x. distinct (tails_of x xss)"
  shows "distinct xss"
  using assms
proof (induction xss rule: tails.induct)
  case (3 x xs xss)
  have "distinct (tails_of y xss)" for y using 3(3) [of y] by (simp split: if_splits)
  moreover have "xs \<notin> set (tails_of x xss)" using 3(3) [of x] by simp
  ultimately show ?case using 3(1,2) by (simp add: mem_tails_of)
qed simp_all

lemma distinct_by_tails:
  assumes "at_most_one_empty xss" and "\<And>x. distinct (tails_of x xss)"
  shows "distinct xss"
  using assms
proof (induction xss rule: at_most_one_empty.induct)
  case (2 xss)
  then have "\<forall>xs \<in> set xss. xs \<noteq> []" "distinct xss"
    by (auto simp: list_all_iff intro: distinct_by_tails_nonempty)
  then show ?case by auto
next
  case (3 x xs xss)
  have "distinct (tails_of y xss)" for y using 3(3) [of y] by (simp split: if_splits)
  moreover have "xs \<notin> set (tails_of x xss)" using 3(3) [of x] by simp
  ultimately show ?case using 3(1,2) by (simp add: mem_tails_of)
qed simp

lemma all_distinct_sound: "all_distinct n xss \<Longrightarrow> distinct xss"
proof (induction n xss rule: all_distinct.induct)
  case (4 n xs ys xss)
  let ?xss = "xs # ys # xss"
  have checks: "at_most_one_empty ?xss" "\<forall>b \<in> set (tails ?xss). all_distinct n (snd b)"
    using 4(2) unfolding all_distinct.simps list_all_iff by blast+
  have "distinct (tails_of x ?xss)" for x
  proof (cases "tails_of x ?xss = []")
    case False
    then have "map_of (tails ?xss) x = Some (tails_of x ?xss)" by (simp only: map_of_tails if_False)
    then have mem: "(x, tails_of x ?xss) \<in> set (tails ?xss)" by (rule map_of_SomeD)
    with checks(2) have "all_distinct n (snd (x, tails_of x ?xss))" by blast
    with 4(1) [OF mem] show ?thesis by simp
  qed simp
  with checks(1) show ?case by (rule distinct_by_tails)
qed simp_all

text \<open>The texts can be compared in groups, by their first element.\<close>

fun head_in :: "nat \<Rightarrow> nat \<Rightarrow> nat list \<Rightarrow> bool" where
  "head_in a b [] = (a = 0)"
| "head_in a b (x # xs) = (if a \<le> x then x < b else False)"

lemma distinct_split: "distinct (filter P xs) \<Longrightarrow> distinct (filter (\<lambda>x. \<not> P x) xs) \<Longrightarrow> distinct xs"
  by (induction xs) (auto split: if_splits)

lemma distinct_join:
  assumes "distinct (filter (head_in a b) xss)" and "distinct (filter (head_in b c) xss)"
    and "a \<le> b" "b \<le> c" "0 < b"
  shows "distinct (filter (head_in a c) xss)"
proof (rule distinct_split [where P = "head_in a b"])
  have "(head_in a c xs \<and> head_in a b xs) = head_in a b xs"
    "(head_in a c xs \<and> \<not> head_in a b xs) = head_in b c xs" for xs
    using assms(3-5) by (cases xs; auto)+
  with assms(1,2) show "distinct (filter (head_in a b) (filter (head_in a c) xss))"
    "distinct (filter (\<lambda>xs. \<not> head_in a b xs) (filter (head_in a c) xss))"
    by (simp_all add: conj_commute)
qed

section \<open>Literal rules\<close>

fun literal_of :: "lexpr \<Rightarrow> string option" where
  "literal_of (Lit s) = Some s"
| "literal_of e = None"

fun literals :: "lexer_rule list \<Rightarrow> string list" where
  "literals [] = []"
| "literals (r # rs) = (case literal_of (pattern r) of None \<Rightarrow> literals rs | Some s \<Rightarrow> s # literals rs)"

definition key :: "string \<Rightarrow> code_point list" where
  "key s = map upper (codes s)"

lemma head_in_key: "head_in 0 256 (key s)"
proof (cases s)
  case (Cons c cs)
  have "of_char c < (256 :: nat)" by (metis of_char_mod_256 mod_less_divisor zero_less_numeral)
  with Cons show ?thesis by (auto simp: key_def codes_def upper_def)
qed (simp add: key_def codes_def)

definition spells :: "lexpr \<Rightarrow> code_point list \<Rightarrow> bool" where
  "spells e xs = list_ex (\<lambda>ys. ys = []) (leftovers e (Suc (length xs)) e xs)"

text \<open>No spelling of a literal is matched by a rule as a whole.\<close>

definition avoids :: "lexer_rule \<Rightarrow> string \<Rightarrow> bool" where
  "avoids q s = (case codes s of [] \<Rightarrow> True | x # xs \<Rightarrow>
     if starts (pattern q) (upper x) \<or> starts (pattern q) (lower x)
     then if list_all (\<lambda>x. upper x = lower x) (x # xs) then rule_rest q (x # xs) \<noteq> Some []
       else greedy q \<and> caseless (pattern q) \<and> \<not> spells (pattern q) (x # xs)
     else True)"

text \<open>The rules that are not literals avoid the later literals, except for those of some types.\<close>

fun clear :: "token list \<Rightarrow> lexer_rule list \<Rightarrow> bool" where
  "clear dead [] = True"
| "clear dead (q # rs) = (if literal_of (pattern q) = None
     then list_all (\<lambda>r. case literal_of (pattern r) of None \<Rightarrow> True
         | Some s \<Rightarrow> token_type r \<in> set dead \<or> avoids q s) rs \<and> clear dead rs
     else clear dead rs)"

lemma literal_of_Some: "literal_of e = Some s \<longleftrightarrow> e = Lit s"
  by (cases e) auto

lemma in_literals: "r \<in> set rs \<Longrightarrow> pattern r = Lit s \<Longrightarrow> s \<in> set (literals rs)"
  by (induction rs) (auto split: option.splits simp: literal_of_Some)

lemma distinct_literals:
  assumes "distinct (map key (literals (ps @ q # qs)))" and "r \<in> set qs"
    and "pattern q = Lit u" and "pattern r = Lit s"
  shows "key u \<noteq> key s"
  using assms
proof (induction ps)
  case Nil
  then have "s \<in> set (literals qs)" by (blast intro: in_literals)
  with Nil show ?case by (auto simp: key_def)
next
  case (Cons p ps)
  then show ?case by (auto split: option.splits)
qed

lemma spells_complete:
  "greedy q \<Longrightarrow> matches (pattern q) (pattern q) w \<Longrightarrow> spells (pattern q) w"
  using leftovers_complete [of "pattern q" "pattern q" w "Suc (length w)" "[]"]
  by (force simp: spells_def greedy_def list_ex_iff)

lemma spells_sound: "spells e w \<Longrightarrow> matches e e w"
  using leftovers_sound [of "[]" e "Suc (length w)" e w] by (auto simp: spells_def list_ex_iff)

lemma upper_lower_fixed: "upper x = lower x \<Longrightarrow> upper y = upper x \<Longrightarrow> y = x"
  by (auto simp: upper_def lower_def split: if_splits)

lemma map_upper_fixed:
  "list_all (\<lambda>x. upper x = lower x) xs \<Longrightarrow> map upper w = map upper xs \<Longrightarrow> w = xs"
  by (induction xs arbitrary: w) (auto simp: map_eq_Cons_conv upper_lower_fixed)

lemma upper_two: "upper x' = upper x \<Longrightarrow> x' = upper x \<or> x' = lower x"
  by (auto simp: upper_def lower_def split: if_splits)

lemma avoids_sound:
  assumes "avoids q s" and "s \<noteq> []" and w: "map upper w = key s"
  shows "rule_rest q w \<noteq> Some []"
proof
  assume rest: "rule_rest q w = Some []"
  obtain x xs where s: "codes s = x # xs" using assms(2) by (cases s) (auto simp: codes_def)
  with w obtain y ys where ys: "w = y # ys" "upper y = upper x" by (auto simp: key_def)
  from rule_rest_split [OF rest] have m: "matches (pattern q) (pattern q) w" by (metis append_Nil2)
  with ys have "starts (pattern q) y" by (auto dest: matches_starts)
  with upper_two [OF ys(2)] have st: "starts (pattern q) (upper x) \<or> starts (pattern q) (lower x)" by blast
  show False
  proof (cases "list_all (\<lambda>x. upper x = lower x) (x # xs)")
    case True
    moreover from w s have "map upper w = map upper (x # xs)" by (simp add: key_def)
    ultimately have "w = x # xs" by (rule map_upper_fixed)
    with assms(1) s st True rest show False by (simp add: avoids_def)
  next
    case False
    with assms(1) s st have q: "greedy q" "caseless (pattern q)" "\<not> spells (pattern q) (codes s)"
      by (simp_all add: avoids_def split: if_splits)
    from matches_case [OF m q(2) q(2), of "codes s"] w have "matches (pattern q) (pattern q) (codes s)"
      by (simp add: key_def)
    with q show False by (blast dest: spells_complete)
  qed
qed

lemma clear_avoids:
  assumes "clear dead (ps @ q # qs)" and "r \<in> set qs" and "pattern r = Lit s"
    and "literal_of (pattern q) = None" and "token_type r \<notin> set dead"
  shows "avoids q s"
  using assms by (induction ps) (auto simp: list_all_iff split: if_splits option.splits)

section \<open>Tables of rules\<close>

locale scanner =
  fixes rules :: "lexer_rule list" and dead :: "token list"
  assumes types: "distinct (map token_type rules)"
    and keys: "distinct (map key (literals rules))"
    and clear: "clear dead rules"
begin

lemma rule_distinct: "distinct rules"
  using types by (simp add: distinct_map)

lemma first_rule:
  assumes "r \<in> set rules" and "rule_rest r w = Some []"
    and "\<And>ps q qs. rules = ps @ q # qs \<Longrightarrow> r \<in> set qs \<Longrightarrow> rule_rest q w \<noteq> Some []"
  shows "best rules w = Some (r, [])"
proof -
  from assms(1,2) obtain q ys where q: "best rules w = Some (q, ys)"
    by (cases "best rules w") (auto simp: best_None)
  with assms(1,2) have ys: "ys = []" by (auto dest: best_le)
  from best_Some [OF q] have mem: "q \<in> set rules" "rule_rest q w = Some []" unfolding ys by simp_all
  then obtain ps qs where rs: "rules = ps @ q # qs" by (metis split_list)
  have "r \<notin> set qs" using assms(3) [OF rs] mem(2) by blast
  moreover have "r \<notin> set ps"
  proof
    assume r: "r \<in> set ps"
    have "best (ps @ q # qs) w = Some (q, ys)" using q rs by simp
    moreover have "q \<notin> set ps" using rule_distinct rs by auto
    ultimately have "length ys < length ([] :: code_point list)" using r assms(2) by (rule best_before)
    then show False by simp
  qed
  ultimately have "q = r" using assms(1) rs by auto
  with q ys show ?thesis by simp
qed

lemma literal_best:
  assumes r: "r \<in> set rules" "pattern r = Lit s" "token_type r \<notin> set dead"
    and s: "s \<noteq> []" "map upper w = key s"
  shows "best rules w = Some (r, [])"
proof (rule first_rule [OF r(1)])
  have w: "w \<noteq> []" using s by (auto simp: key_def codes_def)
  have "matches (pattern r) (pattern r) w" using r(2) s(2) by (simp add: matches_Lit key_def)
  then show "rule_rest r w = Some []"
    using r(2) w by (intro rule_rest_whole) (simp_all add: greedy_def)
  fix ps q qs assume rs: "rules = ps @ q # qs" and later: "r \<in> set qs"
  show "rule_rest q w \<noteq> Some []"
  proof (cases "literal_of (pattern q)")
    case None
    with clear rs later r have "avoids q s" by (blast intro: clear_avoids)
    then show ?thesis using s by (rule avoids_sound)
  next
    case (Some u)
    then have u: "pattern q = Lit u" by (simp add: literal_of_Some)
    have "key u \<noteq> key s" using keys later u r(2) unfolding rs by (rule distinct_literals)
    with s(2) u show ?thesis
      by (metis append_Nil2 key_def matches_Lit rule_rest_split)
  qed
qed

lemma literal_lexeme:
  assumes "r \<in> set rules" "pattern r = Lit s" "token_type r \<notin> set dead"
    and "s \<noteq> []" "map upper w = key s"
  shows "lexemes rules extra w = [Lexeme (token_type r) (on_hidden r) w]"
  using lexemes_step [OF literal_best [OF assms], of extra] by auto

end

end
