(* ===== verification/Lexer_Rules.thy ===== *)
theory Lexer_Rules
  imports Lexing Tokens
begin

text \<open>
  Every rule of \<open>TSqlLexer.g4\<close> in the order of the file.  \<open>f_X\<close> is the right-hand side of the
  fragment \<open>X\<close> (and of \<open>DECIMAL\<close>, which other rules use), \<open>r_X\<close> the rule \<open>X\<close>; the rules with a
  single literal are only in the lists.
\<close>

definition literal_rule :: "token \<Rightarrow> string \<Rightarrow> lexer_rule" where
  "literal_rule t s = \<lparr>token_type = t, pattern = Lit s, on_hidden = False\<rparr>"

definition token_rule :: "token \<Rightarrow> lexpr \<Rightarrow> lexer_rule" where
  "token_rule t e = \<lparr>token_type = t, pattern = e, on_hidden = False\<rparr>"

definition hidden_rule :: "token \<Rightarrow> lexpr \<Rightarrow> lexer_rule" where
  "hidden_rule t e = \<lparr>token_type = t, pattern = e, on_hidden = True\<rparr>"

section \<open>Fragments\<close>

definition f_DEC_DIGIT :: lexpr where
  "f_DEC_DIGIT = Chars [(0x30, 0x39)]"

definition f_HEX_DIGIT :: lexpr where
  "f_HEX_DIGIT = Chars [(0x30, 0x39), (0x41, 0x46)]"

definition f_LETTER :: lexpr where
  "f_LETTER = Chars [(0x41, 0x5A), (0x5F, 0x5F)]"

definition f_DEC_DOT_DEC :: lexpr where
  "f_DEC_DOT_DEC =
     Or [Cat [Some_More f_DEC_DIGIT, Lit ''.'', Some_More f_DEC_DIGIT],
     Cat [Some_More f_DEC_DIGIT, Lit ''.''], Cat [Lit ''.'', Some_More f_DEC_DIGIT]]"

definition f_FullWidthLetter :: lexpr where
  "f_FullWidthLetter =
     Chars [(0x00C0, 0x00D6), (0x00D8, 0x00F6), (0x00F8, 0x00FF), (0x0100, 0x1FFF),
     (0x2C00, 0x2FFF), (0x3040, 0x318F), (0x3300, 0x337F), (0x3400, 0x3FFF),
     (0x4E00, 0x9FFF), (0xA000, 0xD7FF), (0xF900, 0xFAFF), (0xFF00, 0xFFF0)]"

definition f_DECIMAL :: lexpr where
  "f_DECIMAL = Some_More f_DEC_DIGIT"

section \<open>Token rules\<close>

definition r_CONVERT :: lexer_rule where
  "r_CONVERT = token_rule T_CONVERT (Cat [Maybe (Lit ''TRY_''), Lit ''CONVERT''])"

definition r_DEFAULT_DOUBLE_QUOTE :: lexer_rule where
  "r_DEFAULT_DOUBLE_QUOTE =
     token_rule T_DEFAULT_DOUBLE_QUOTE (Cat [Chars [(0x22, 0x22)], Lit ''DEFAULT'',
     Chars [(0x22, 0x22)]])"

definition r_EXECUTE :: lexer_rule where
  "r_EXECUTE = token_rule T_EXECUTE (Cat [Lit ''EXEC'', Maybe (Lit ''UTE'')])"

definition r_NULL_DOUBLE_QUOTE :: lexer_rule where
  "r_NULL_DOUBLE_QUOTE =
     token_rule T_NULL_DOUBLE_QUOTE (Cat [Chars [(0x22, 0x22)], Lit ''NULL'',
     Chars [(0x22, 0x22)]])"

definition r_PARSE :: lexer_rule where
  "r_PARSE = token_rule T_PARSE (Cat [Maybe (Lit ''TRY_''), Lit ''PARSE''])"

definition r_YEAR_ABBR :: lexer_rule where
  "r_YEAR_ABBR = token_rule T_YEAR_ABBR (Or [Lit ''yy'', Lit ''yyyy''])"

definition r_QUARTER_ABBR :: lexer_rule where
  "r_QUARTER_ABBR = token_rule T_QUARTER_ABBR (Or [Lit ''qq'', Lit ''q''])"

definition r_MONTH_ABBR :: lexer_rule where
  "r_MONTH_ABBR = token_rule T_MONTH_ABBR (Or [Lit ''mm'', Lit ''m''])"

definition r_DAYOFYEAR_ABBR :: lexer_rule where
  "r_DAYOFYEAR_ABBR = token_rule T_DAYOFYEAR_ABBR (Or [Lit ''dy'', Lit ''y''])"

definition r_DAY_ABBR :: lexer_rule where
  "r_DAY_ABBR = token_rule T_DAY_ABBR (Or [Lit ''dd'', Lit ''d''])"

definition r_WEEK_ABBR :: lexer_rule where
  "r_WEEK_ABBR = token_rule T_WEEK_ABBR (Or [Lit ''wk'', Lit ''ww''])"

definition r_MINUTE_ABBR :: lexer_rule where
  "r_MINUTE_ABBR = token_rule T_MINUTE_ABBR (Or [Lit ''mi'', Lit ''n''])"

definition r_SECOND_ABBR :: lexer_rule where
  "r_SECOND_ABBR = token_rule T_SECOND_ABBR (Or [Lit ''ss'', Lit ''s''])"

definition r_ISO_WEEK_ABBR :: lexer_rule where
  "r_ISO_WEEK_ABBR = token_rule T_ISO_WEEK_ABBR (Or [Lit ''isowk'', Lit ''isoww''])"

definition r_DISK_DRIVE :: lexer_rule where
  "r_DISK_DRIVE = token_rule T_DISK_DRIVE (Cat [Chars [(0x41, 0x5A)], Chars [(0x3A, 0x3A)]])"

definition r_IPV4_ADDR :: lexer_rule where
  "r_IPV4_ADDR =
     token_rule T_IPV4_ADDR (Cat [Some_More f_DEC_DIGIT, Lit ''.'', Some_More f_DEC_DIGIT,
     Lit ''.'', Some_More f_DEC_DIGIT, Lit ''.'', Some_More f_DEC_DIGIT])"

definition r_SPACE :: lexer_rule where
  "r_SPACE = hidden_rule T_SPACE (Chars [(0x20, 0x20), (0x09, 0x09), (0x0D, 0x0D), (0x0A, 0x0A)])"

definition r_COMMENT :: lexer_rule where
  "r_COMMENT = hidden_rule T_COMMENT (Cat [Lit ''/*'', Few (Or [Self, NotChars []]), Lit ''*/''])"

definition r_LINE_COMMENT :: lexer_rule where
  "r_LINE_COMMENT =
     hidden_rule T_LINE_COMMENT (Cat [Lit ''--'', Loop (NotChars [(0x0D, 0x0D),
     (0x0A, 0x0A)])])"

definition r_DOUBLE_QUOTE_ID :: lexer_rule where
  "r_DOUBLE_QUOTE_ID =
     token_rule T_DOUBLE_QUOTE_ID (Cat [Lit [CHR 0x22], Some_More (NotChars [(0x22, 0x22)]),
     Lit [CHR 0x22]])"

definition r_SQUARE_BRACKET_ID :: lexer_rule where
  "r_SQUARE_BRACKET_ID =
     token_rule T_SQUARE_BRACKET_ID (Cat [Lit ''['', Loop (Or [NotChars [(0x5D, 0x5D)],
     Cat [Lit '']'', Lit '']'']]), Lit '']''])"

definition r_LOCAL_ID :: lexer_rule where
  "r_LOCAL_ID =
     token_rule T_LOCAL_ID (Cat [Lit ''@'', Loop (Or [Chars [(0x41, 0x5A), (0x5F, 0x5F),
     (0x24, 0x24), (0x40, 0x40), (0x23, 0x23), (0x30, 0x39)], f_FullWidthLetter])])"

definition r_TEMP_ID :: lexer_rule where
  "r_TEMP_ID =
     token_rule T_TEMP_ID (Cat [Lit ''#'', Loop (Or [Chars [(0x41, 0x5A), (0x5F, 0x5F),
     (0x24, 0x24), (0x40, 0x40), (0x23, 0x23), (0x30, 0x39)], f_FullWidthLetter])])"

definition r_DECIMAL :: lexer_rule where
  "r_DECIMAL = token_rule T_DECIMAL f_DECIMAL"

definition r_ID :: lexer_rule where
  "r_ID =
     token_rule T_ID (Cat [Or [Chars [(0x41, 0x5A), (0x5F, 0x5F), (0x23, 0x23)],
     f_FullWidthLetter], Loop (Or [Chars [(0x41, 0x5A), (0x5F, 0x5F), (0x23, 0x23),
     (0x24, 0x24), (0x40, 0x40), (0x30, 0x39)], f_FullWidthLetter])])"

definition r_STRING :: lexer_rule where
  "r_STRING =
     token_rule T_STRING (Cat [Maybe (Exact ''N''), Exact [CHR 0x27],
     Loop (Or [NotChars [(0x27, 0x27)], Exact [CHR 0x27, CHR 0x27]]), Exact [CHR 0x27]])"

definition r_BINARY :: lexer_rule where
  "r_BINARY = token_rule T_BINARY (Cat [Lit ''0'', Lit ''X'', Loop f_HEX_DIGIT])"

definition r_FLOAT :: lexer_rule where
  "r_FLOAT = token_rule T_FLOAT f_DEC_DOT_DEC"

definition r_REAL :: lexer_rule where
  "r_REAL =
     token_rule T_REAL (Cat [Or [f_DECIMAL, f_DEC_DOT_DEC], Cat [Lit ''E'',
     Maybe (Chars [(0x2B, 0x2B), (0x2D, 0x2D)]), Some_More f_DEC_DIGIT]])"

definition lexer_rules_1 :: "lexer_rule list" where
  "lexer_rules_1 = [
     literal_rule T_ABORT ''ABORT'',
     literal_rule T_ABORT_AFTER_WAIT ''ABORT_AFTER_WAIT'',
     literal_rule T_ABSENT ''ABSENT'',
     literal_rule T_ABSOLUTE ''ABSOLUTE'',
     literal_rule T_ACCELERATED_DATABASE_RECOVERY ''ACCELERATED_DATABASE_RECOVERY'',
     literal_rule T_ACCENT_SENSITIVITY ''ACCENT_SENSITIVITY'',
     literal_rule T_ACCESS ''ACCESS'',
     literal_rule T_ACTION ''ACTION'',
     literal_rule T_ACTIVATION ''ACTIVATION'',
     literal_rule T_ACTIVE ''ACTIVE'',
     literal_rule T_ADD ''ADD'',
     literal_rule T_ADDRESS ''ADDRESS'',
     literal_rule T_ADMINISTER ''ADMINISTER'',
     literal_rule T_AES ''AES'',
     literal_rule T_AES_128 ''AES_128'',
     literal_rule T_AES_192 ''AES_192'',
     literal_rule T_AES_256 ''AES_256'',
     literal_rule T_AFFINITY ''AFFINITY'',
     literal_rule T_AFTER ''AFTER'',
     literal_rule T_AGGREGATE ''AGGREGATE'',
     literal_rule T_ALGORITHM ''ALGORITHM'',
     literal_rule T_ALL ''ALL'',
     literal_rule T_ALLOWED ''ALLOWED'',
     literal_rule T_ALLOW_CONNECTIONS ''ALLOW_CONNECTIONS'',
     literal_rule T_ALLOW_ENCRYPTED_VALUE_MODIFICATIONS ''ALLOW_ENCRYPTED_VALUE_MODIFICATIONS'',
     literal_rule T_ALLOW_MULTIPLE_EVENT_LOSS ''ALLOW_MULTIPLE_EVENT_LOSS'',
     literal_rule T_ALLOW_PAGE_LOCKS ''ALLOW_PAGE_LOCKS'',
     literal_rule T_ALLOW_ROW_LOCKS ''ALLOW_ROW_LOCKS'',
     literal_rule T_ALLOW_SINGLE_EVENT_LOSS ''ALLOW_SINGLE_EVENT_LOSS'',
     literal_rule T_ALLOW_SNAPSHOT_ISOLATION ''ALLOW_SNAPSHOT_ISOLATION'',
     literal_rule T_ALL_CONSTRAINTS ''ALL_CONSTRAINTS'',
     literal_rule T_ALL_ERRORMSGS ''ALL_ERRORMSGS'',
     literal_rule T_ALL_INDEXES ''ALL_INDEXES'',
     literal_rule T_ALL_LEVELS ''ALL_LEVELS'',
     literal_rule T_ALTER ''ALTER'',
     literal_rule T_ALWAYS ''ALWAYS'',
     literal_rule T_AND ''AND'',
     literal_rule T_ANONYMOUS ''ANONYMOUS'',
     literal_rule T_ANSI_DEFAULTS ''ANSI_DEFAULTS'',
     literal_rule T_ANSI_NULLS ''ANSI_NULLS'']"

definition lexer_rules_2 :: "lexer_rule list" where
  "lexer_rules_2 = [
     literal_rule T_ANSI_NULL_DEFAULT ''ANSI_NULL_DEFAULT'',
     literal_rule T_ANSI_NULL_DFLT_OFF ''ANSI_NULL_DFLT_OFF'',
     literal_rule T_ANSI_NULL_DFLT_ON ''ANSI_NULL_DFLT_ON'',
     literal_rule T_ANSI_PADDING ''ANSI_PADDING'',
     literal_rule T_ANSI_WARNINGS ''ANSI_WARNINGS'',
     literal_rule T_ANY ''ANY'',
     literal_rule T_APPEND ''APPEND'',
     literal_rule T_APPLICATION ''APPLICATION'',
     literal_rule T_APPLICATION_LOG ''APPLICATION_LOG'',
     literal_rule T_APPLOCK_MODE ''APPLOCK_MODE'',
     literal_rule T_APPLOCK_TEST ''APPLOCK_TEST'',
     literal_rule T_APPLY ''APPLY'',
     literal_rule T_APP_NAME ''APP_NAME'',
     literal_rule T_ARITHABORT ''ARITHABORT'',
     literal_rule T_ARITHIGNORE ''ARITHIGNORE'',
     literal_rule T_AS ''AS'',
     literal_rule T_ASC ''ASC'',
     literal_rule T_ASCII ''ASCII'',
     literal_rule T_ASSEMBLY ''ASSEMBLY'',
     literal_rule T_ASSEMBLYPROPERTY ''ASSEMBLYPROPERTY'',
     literal_rule T_ASYMMETRIC ''ASYMMETRIC'',
     literal_rule T_ASYNCHRONOUS_COMMIT ''ASYNCHRONOUS_COMMIT'',
     literal_rule T_AT_KEYWORD ''AT'',
     literal_rule T_AUDIT ''AUDIT'',
     literal_rule T_AUDIT_GUID ''AUDIT_GUID'',
     literal_rule T_AUTHENTICATE ''AUTHENTICATE'',
     literal_rule T_AUTHENTICATION ''AUTHENTICATION'',
     literal_rule T_AUTHORIZATION ''AUTHORIZATION'',
     literal_rule T_AUTO ''AUTO'',
     literal_rule T_AUTOGROW_ALL_FILES ''AUTOGROW_ALL_FILES'',
     literal_rule T_AUTOGROW_SINGLE_FILE ''AUTOGROW_SINGLE_FILE'',
     literal_rule T_AUTOMATED_BACKUP_PREFERENCE ''AUTOMATED_BACKUP_PREFERENCE'',
     literal_rule T_AUTOMATIC ''AUTOMATIC'',
     literal_rule T_AUTO_CLEANUP ''AUTO_CLEANUP'',
     literal_rule T_AUTO_CLOSE ''AUTO_CLOSE'',
     literal_rule T_AUTO_CREATE_STATISTICS ''AUTO_CREATE_STATISTICS'',
     literal_rule T_AUTO_DROP ''AUTO_DROP'',
     literal_rule T_AUTO_SHRINK ''AUTO_SHRINK'',
     literal_rule T_AUTO_UPDATE_STATISTICS ''AUTO_UPDATE_STATISTICS'',
     literal_rule T_AUTO_UPDATE_STATISTICS_ASYNC ''AUTO_UPDATE_STATISTICS_ASYNC'']"

definition lexer_rules_3 :: "lexer_rule list" where
  "lexer_rules_3 = [
     literal_rule T_AVAILABILITY ''AVAILABILITY'',
     literal_rule T_AVAILABILITY_MODE ''AVAILABILITY_MODE'',
     literal_rule T_AVG ''AVG'',
     literal_rule T_BACKSLASH [CHR 0x5C],
     literal_rule T_BACKUP ''BACKUP'',
     literal_rule T_BACKUP_CLONEDB ''BACKUP_CLONEDB'',
     literal_rule T_BACKUP_PRIORITY ''BACKUP_PRIORITY'',
     literal_rule T_BASE64 ''BASE64'',
     literal_rule T_BEFORE ''BEFORE'',
     literal_rule T_BEGIN ''BEGIN'',
     literal_rule T_BEGIN_DIALOG ''BEGIN_DIALOG'',
     literal_rule T_BETWEEN ''BETWEEN'',
     literal_rule T_BIGINT ''BIGINT'',
     literal_rule T_BINARY_CHECKSUM ''BINARY_CHECKSUM'',
     literal_rule T_BINARY_KEYWORD ''BINARY'',
     literal_rule T_BINDING ''BINDING'',
     literal_rule T_BLOB_STORAGE ''BLOB_STORAGE'',
     literal_rule T_BLOCK ''BLOCK'',
     literal_rule T_BLOCKERS ''BLOCKERS'',
     literal_rule T_BLOCKING_HIERARCHY ''BLOCKING_HIERARCHY'',
     literal_rule T_BLOCKSIZE ''BLOCKSIZE'',
     literal_rule T_BREAK ''BREAK'',
     literal_rule T_BROKER ''BROKER'',
     literal_rule T_BROKER_INSTANCE ''BROKER_INSTANCE'',
     literal_rule T_BROWSE ''BROWSE'',
     literal_rule T_BUFFER ''BUFFER'',
     literal_rule T_BUFFERCOUNT ''BUFFERCOUNT'',
     literal_rule T_BULK ''BULK'',
     literal_rule T_BULK_LOGGED ''BULK_LOGGED'',
     literal_rule T_BY ''BY'',
     literal_rule T_CACHE ''CACHE'',
     literal_rule T_CALLED ''CALLED'',
     literal_rule T_CALLER ''CALLER'',
     literal_rule T_CAP_CPU_PERCENT ''CAP_CPU_PERCENT'',
     literal_rule T_CASCADE ''CASCADE'',
     literal_rule T_CASE ''CASE'',
     literal_rule T_CAST ''CAST'',
     literal_rule T_CATALOG ''CATALOG'',
     literal_rule T_CATCH ''CATCH'',
     literal_rule T_CERTENCODED ''CERTENCODED'']"

definition lexer_rules_4 :: "lexer_rule list" where
  "lexer_rules_4 = [
     literal_rule T_CERTIFICATE ''CERTIFICATE'',
     literal_rule T_CERTPRIVATEKEY ''CERTPRIVATEKEY'',
     literal_rule T_CERT_ID ''CERT_ID'',
     literal_rule T_CHANGE ''CHANGE'',
     literal_rule T_CHANGES ''CHANGES'',
     literal_rule T_CHANGETABLE ''CHANGETABLE'',
     literal_rule T_CHANGE_RETENTION ''CHANGE_RETENTION'',
     literal_rule T_CHANGE_TRACKING ''CHANGE_TRACKING'',
     literal_rule T_CHAR ''CHAR'',
     literal_rule T_CHARINDEX ''CHARINDEX'',
     literal_rule T_CHECK ''CHECK'',
     literal_rule T_CHECKALLOC ''CHECKALLOC'',
     literal_rule T_CHECKCATALOG ''CHECKCATALOG'',
     literal_rule T_CHECKCONSTRAINTS ''CHECKCONSTRAINTS'',
     literal_rule T_CHECKDB ''CHECKDB'',
     literal_rule T_CHECKFILEGROUP ''CHECKFILEGROUP'',
     literal_rule T_CHECKPOINT ''CHECKPOINT'',
     literal_rule T_CHECKSUM ''CHECKSUM'',
     literal_rule T_CHECKSUM_AGG ''CHECKSUM_AGG'',
     literal_rule T_CHECKTABLE ''CHECKTABLE'',
     literal_rule T_CHECK_EXPIRATION ''CHECK_EXPIRATION'',
     literal_rule T_CHECK_POLICY ''CHECK_POLICY'',
     literal_rule T_CLASSIFIER_FUNCTION ''CLASSIFIER_FUNCTION'',
     literal_rule T_CLEANTABLE ''CLEANTABLE'',
     literal_rule T_CLEANUP ''CLEANUP'',
     literal_rule T_CLONEDATABASE ''CLONEDATABASE'',
     literal_rule T_CLOSE ''CLOSE'',
     literal_rule T_CLUSTER ''CLUSTER'',
     literal_rule T_CLUSTERED ''CLUSTERED'',
     literal_rule T_COALESCE ''COALESCE'',
     literal_rule T_COLLATE ''COLLATE'',
     literal_rule T_COLLECTION ''COLLECTION'',
     literal_rule T_COLUMN ''COLUMN'',
     literal_rule T_COLUMNPROPERTY ''COLUMNPROPERTY'',
     literal_rule T_COLUMNS ''COLUMNS'',
     literal_rule T_COLUMNSTORE ''COLUMNSTORE'',
     literal_rule T_COLUMNSTORE_ARCHIVE ''COLUMNSTORE_ARCHIVE'',
     literal_rule T_COLUMN_ENCRYPTION_KEY ''COLUMN_ENCRYPTION_KEY'',
     literal_rule T_COLUMN_MASTER_KEY ''COLUMN_MASTER_KEY'',
     literal_rule T_COL_LENGTH ''COL_LENGTH'']"

definition lexer_rules_5 :: "lexer_rule list" where
  "lexer_rules_5 = [
     literal_rule T_COL_NAME ''COL_NAME'',
     literal_rule T_COMMIT ''COMMIT'',
     literal_rule T_COMMITTED ''COMMITTED'',
     literal_rule T_COMPATIBILITY_LEVEL ''COMPATIBILITY_LEVEL'',
     literal_rule T_COMPRESS ''COMPRESS'',
     literal_rule T_COMPRESSION ''COMPRESSION'',
     literal_rule T_COMPRESSION_DELAY ''COMPRESSION_DELAY'',
     literal_rule T_COMPRESS_ALL_ROW_GROUPS ''COMPRESS_ALL_ROW_GROUPS'',
     literal_rule T_COMPUTE ''COMPUTE'',
     literal_rule T_CONCAT ''CONCAT'',
     literal_rule T_CONCAT_NULL_YIELDS_NULL ''CONCAT_NULL_YIELDS_NULL'',
     literal_rule T_CONCAT_WS ''CONCAT_WS'',
     literal_rule T_CONFIGURATION ''CONFIGURATION'',
     literal_rule T_CONNECT ''CONNECT'',
     literal_rule T_CONNECTION ''CONNECTION'',
     literal_rule T_CONNECTIONPROPERTY ''CONNECTIONPROPERTY'',
     literal_rule T_CONSTRAINT ''CONSTRAINT'',
     literal_rule T_CONTAINMENT ''CONTAINMENT'',
     literal_rule T_CONTAINS ''CONTAINS'',
     literal_rule T_CONTAINSTABLE ''CONTAINSTABLE'',
     literal_rule T_CONTENT ''CONTENT'',
     literal_rule T_CONTEXT ''CONTEXT'',
     literal_rule T_CONTEXT_INFO ''CONTEXT_INFO'',
     literal_rule T_CONTINUE ''CONTINUE'',
     literal_rule T_CONTINUE_AFTER_ERROR ''CONTINUE_AFTER_ERROR'',
     literal_rule T_CONTRACT ''CONTRACT'',
     literal_rule T_CONTRACT_NAME ''CONTRACT_NAME'',
     literal_rule T_CONTROL ''CONTROL'',
     literal_rule T_CONVERSATION ''CONVERSATION'',
     r_CONVERT,
     literal_rule T_COOKIE ''COOKIE'',
     literal_rule T_COPY_ONLY ''COPY_ONLY'',
     literal_rule T_COUNT ''COUNT'',
     literal_rule T_COUNTER ''COUNTER'',
     literal_rule T_COUNT_BIG ''COUNT_BIG'',
     literal_rule T_CPU ''CPU'',
     literal_rule T_CREATE ''CREATE'',
     literal_rule T_CREATE_NEW ''CREATE_NEW'',
     literal_rule T_CREATION_DISPOSITION ''CREATION_DISPOSITION'',
     literal_rule T_CREDENTIAL ''CREDENTIAL'']"

definition lexer_rules_6 :: "lexer_rule list" where
  "lexer_rules_6 = [
     literal_rule T_CROSS ''CROSS'',
     literal_rule T_CRYPTOGRAPHIC ''CRYPTOGRAPHIC'',
     literal_rule T_CUME_DIST ''CUME_DIST'',
     literal_rule T_CURRENT ''CURRENT'',
     literal_rule T_CURRENT_DATE ''CURRENT_DATE'',
     literal_rule T_CURRENT_REQUEST_ID ''CURRENT_REQUEST_ID'',
     literal_rule T_CURRENT_TIME ''CURRENT_TIME'',
     literal_rule T_CURRENT_TIMESTAMP ''CURRENT_TIMESTAMP'',
     literal_rule T_CURRENT_TRANSACTION_ID ''CURRENT_TRANSACTION_ID'',
     literal_rule T_CURRENT_USER ''CURRENT_USER'',
     literal_rule T_CURSOR ''CURSOR'',
     literal_rule T_CURSOR_CLOSE_ON_COMMIT ''CURSOR_CLOSE_ON_COMMIT'',
     literal_rule T_CURSOR_DEFAULT ''CURSOR_DEFAULT'',
     literal_rule T_CURSOR_STATUS ''CURSOR_STATUS'',
     literal_rule T_CYCLE ''CYCLE'',
     literal_rule T_DATA ''DATA'',
     literal_rule T_DATABASE ''DATABASE'',
     literal_rule T_DATABASEPROPERTYEX ''DATABASEPROPERTYEX'',
     literal_rule T_DATABASE_MIRRORING ''DATABASE_MIRRORING'',
     literal_rule T_DATABASE_PRINCIPAL_ID ''DATABASE_PRINCIPAL_ID'',
     literal_rule T_DATALENGTH ''DATALENGTH'',
     literal_rule T_DATASPACE ''DATASPACE'',
     literal_rule T_DATA_COMPRESSION ''DATA_COMPRESSION'',
     literal_rule T_DATA_PURITY ''DATA_PURITY'',
     literal_rule T_DATA_SOURCE ''DATA_SOURCE'',
     literal_rule T_DATEADD ''DATEADD'',
     literal_rule T_DATEDIFF ''DATEDIFF'',
     literal_rule T_DATENAME ''DATENAME'',
     literal_rule T_DATEPART ''DATEPART'',
     literal_rule T_DATE_CORRELATION_OPTIMIZATION ''DATE_CORRELATION_OPTIMIZATION'',
     literal_rule T_DAYS ''DAYS'',
     literal_rule T_DBCC ''DBCC'',
     literal_rule T_DBREINDEX ''DBREINDEX'',
     literal_rule T_DB_CHAINING ''DB_CHAINING'',
     literal_rule T_DB_FAILOVER ''DB_FAILOVER'',
     literal_rule T_DB_ID ''DB_ID'',
     literal_rule T_DB_NAME ''DB_NAME'',
     literal_rule T_DDL ''DDL'',
     literal_rule T_DEALLOCATE ''DEALLOCATE'',
     literal_rule T_DECLARE ''DECLARE'']"

definition lexer_rules_7 :: "lexer_rule list" where
  "lexer_rules_7 = [
     literal_rule T_DECOMPRESS ''DECOMPRESS'',
     literal_rule T_DECRYPTION ''DECRYPTION'',
     literal_rule T_DEFAULT ''DEFAULT'',
     literal_rule T_DEFAULT_DATABASE ''DEFAULT_DATABASE'',
     r_DEFAULT_DOUBLE_QUOTE,
     literal_rule T_DEFAULT_FULLTEXT_LANGUAGE ''DEFAULT_FULLTEXT_LANGUAGE'',
     literal_rule T_DEFAULT_LANGUAGE ''DEFAULT_LANGUAGE'',
     literal_rule T_DEFAULT_SCHEMA ''DEFAULT_SCHEMA'',
     literal_rule T_DEFINITION ''DEFINITION'',
     literal_rule T_DELAY ''DELAY'',
     literal_rule T_DELAYED_DURABILITY ''DELAYED_DURABILITY'',
     literal_rule T_DELETE ''DELETE'',
     literal_rule T_DELETED ''DELETED'',
     literal_rule T_DENSE_RANK ''DENSE_RANK'',
     literal_rule T_DENY ''DENY'',
     literal_rule T_DEPENDENTS ''DEPENDENTS'',
     literal_rule T_DES ''DES'',
     literal_rule T_DESC ''DESC'',
     literal_rule T_DESCRIPTION ''DESCRIPTION'',
     literal_rule T_DESX ''DESX'',
     literal_rule T_DETERMINISTIC ''DETERMINISTIC'',
     literal_rule T_DHCP ''DHCP'',
     literal_rule T_DIAGNOSTICS ''DIAGNOSTICS'',
     literal_rule T_DIALOG ''DIALOG'',
     literal_rule T_DIFFERENCE ''DIFFERENCE'',
     literal_rule T_DIFFERENTIAL ''DIFFERENTIAL'',
     literal_rule T_DIRECTORY_NAME ''DIRECTORY_NAME'',
     literal_rule T_DISABLE ''DISABLE'',
     literal_rule T_DISABLED ''DISABLED'',
     literal_rule T_DISABLE_BROKER ''DISABLE_BROKER'',
     literal_rule T_DISK ''DISK'',
     literal_rule T_DISTINCT ''DISTINCT'',
     literal_rule T_DISTRIBUTED ''DISTRIBUTED'',
     literal_rule T_DISTRIBUTION ''DISTRIBUTION'',
     literal_rule T_DOCUMENT ''DOCUMENT'',
     literal_rule T_DOLLAR_PARTITION ''$PARTITION'',
     literal_rule T_DOUBLE ''DOUBLE'',
     literal_rule T_DOUBLE_BACK_SLASH [CHR 0x5C, CHR 0x5C],
     literal_rule T_DOUBLE_FORWARD_SLASH ''//'',
     literal_rule T_DROP ''DROP'']"

definition lexer_rules_8 :: "lexer_rule list" where
  "lexer_rules_8 = [
     literal_rule T_DROPCLEANBUFFERS ''DROPCLEANBUFFERS'',
     literal_rule T_DROP_EXISTING ''DROP_EXISTING'',
     literal_rule T_DTC_SUPPORT ''DTC_SUPPORT'',
     literal_rule T_DUMP ''DUMP'',
     literal_rule T_DYNAMIC ''DYNAMIC'',
     literal_rule T_ELEMENTS ''ELEMENTS'',
     literal_rule T_ELSE ''ELSE'',
     literal_rule T_EMERGENCY ''EMERGENCY'',
     literal_rule T_EMPTY ''EMPTY'',
     literal_rule T_ENABLE ''ENABLE'',
     literal_rule T_ENABLED ''ENABLED'',
     literal_rule T_ENABLE_BROKER ''ENABLE_BROKER'',
     literal_rule T_ENCRYPTED ''ENCRYPTED'',
     literal_rule T_ENCRYPTED_VALUE ''ENCRYPTED_VALUE'',
     literal_rule T_ENCRYPTION ''ENCRYPTION'',
     literal_rule T_ENCRYPTION_TYPE ''ENCRYPTION_TYPE'',
     literal_rule T_END ''END'',
     literal_rule T_ENDPOINT ''ENDPOINT'',
     literal_rule T_ENDPOINT_URL ''ENDPOINT_URL'',
     literal_rule T_ERRLVL ''ERRLVL'',
     literal_rule T_ERROR ''ERROR'',
     literal_rule T_ERROR_BROKER_CONVERSATIONS ''ERROR_BROKER_CONVERSATIONS'',
     literal_rule T_ERROR_LINE ''ERROR_LINE'',
     literal_rule T_ERROR_MESSAGE ''ERROR_MESSAGE'',
     literal_rule T_ERROR_NUMBER ''ERROR_NUMBER'',
     literal_rule T_ERROR_PROCEDURE ''ERROR_PROCEDURE'',
     literal_rule T_ERROR_SEVERITY ''ERROR_SEVERITY'',
     literal_rule T_ERROR_STATE ''ERROR_STATE'',
     literal_rule T_ESCAPE ''ESCAPE'',
     literal_rule T_ESTIMATEONLY ''ESTIMATEONLY'',
     literal_rule T_EVENT ''EVENT'',
     literal_rule T_EVENTDATA ''EVENTDATA'',
     literal_rule T_EVENT_RETENTION_MODE ''EVENT_RETENTION_MODE'',
     literal_rule T_EXCEPT ''EXCEPT'',
     literal_rule T_EXCLUSIVE ''EXCLUSIVE'',
     literal_rule T_EXECUTABLE ''EXECUTABLE'',
     literal_rule T_EXECUTABLE_FILE ''EXECUTABLE_FILE'',
     r_EXECUTE,
     literal_rule T_EXIST ''EXIST'',
     literal_rule T_EXISTS ''EXISTS'']"

definition lexer_rules_9 :: "lexer_rule list" where
  "lexer_rules_9 = [
     literal_rule T_EXIST_SQUARE_BRACKET ''[EXIST]'',
     literal_rule T_EXIT ''EXIT'',
     literal_rule T_EXPAND ''EXPAND'',
     literal_rule T_EXPIREDATE ''EXPIREDATE'',
     literal_rule T_EXPIRY_DATE ''EXPIRY_DATE'',
     literal_rule T_EXPLICIT ''EXPLICIT'',
     literal_rule T_EXTENDED_LOGICAL_CHECKS ''EXTENDED_LOGICAL_CHECKS'',
     literal_rule T_EXTENSION ''EXTENSION'',
     literal_rule T_EXTERNAL ''EXTERNAL'',
     literal_rule T_EXTERNAL_ACCESS ''EXTERNAL_ACCESS'',
     literal_rule T_FAILOVER ''FAILOVER'',
     literal_rule T_FAILOVER_MODE ''FAILOVER_MODE'',
     literal_rule T_FAILURE ''FAILURE'',
     literal_rule T_FAILURECONDITIONLEVEL ''FAILURECONDITIONLEVEL'',
     literal_rule T_FAILURE_CONDITION_LEVEL ''FAILURE_CONDITION_LEVEL'',
     literal_rule T_FAIL_OPERATION ''FAIL_OPERATION'',
     literal_rule T_FAN_IN ''FAN_IN'',
     literal_rule T_FAST ''FAST'',
     literal_rule T_FAST_FORWARD ''FAST_FORWARD'',
     literal_rule T_FETCH ''FETCH'',
     literal_rule T_FILE ''FILE'',
     literal_rule T_FILEGROUP ''FILEGROUP'',
     literal_rule T_FILEGROUPPROPERTY ''FILEGROUPPROPERTY'',
     literal_rule T_FILEGROUP_ID ''FILEGROUP_ID'',
     literal_rule T_FILEGROUP_NAME ''FILEGROUP_NAME'',
     literal_rule T_FILEGROWTH ''FILEGROWTH'',
     literal_rule T_FILENAME ''FILENAME'',
     literal_rule T_FILEPATH ''FILEPATH'',
     literal_rule T_FILEPROPERTY ''FILEPROPERTY'',
     literal_rule T_FILEPROPERTYEX ''FILEPROPERTYEX'',
     literal_rule T_FILESTREAM ''FILESTREAM'',
     literal_rule T_FILESTREAM_ON ''FILESTREAM_ON'',
     literal_rule T_FILE_ID ''FILE_ID'',
     literal_rule T_FILE_IDEX ''FILE_IDEX'',
     literal_rule T_FILE_NAME ''FILE_NAME'',
     literal_rule T_FILE_SNAPSHOT ''FILE_SNAPSHOT'',
     literal_rule T_FILLFACTOR ''FILLFACTOR'',
     literal_rule T_FILTER ''FILTER'',
     literal_rule T_FIRST ''FIRST'',
     literal_rule T_FIRST_VALUE ''FIRST_VALUE'']"

definition lexer_rules_10 :: "lexer_rule list" where
  "lexer_rules_10 = [
     literal_rule T_FMTONLY ''FMTONLY'',
     literal_rule T_FOLLOWING ''FOLLOWING'',
     literal_rule T_FOR ''FOR'',
     literal_rule T_FORCE ''FORCE'',
     literal_rule T_FORCED ''FORCED'',
     literal_rule T_FORCEPLAN ''FORCEPLAN'',
     literal_rule T_FORCESCAN ''FORCESCAN'',
     literal_rule T_FORCESEEK ''FORCESEEK'',
     literal_rule T_FORCE_FAILOVER_ALLOW_DATA_LOSS ''FORCE_FAILOVER_ALLOW_DATA_LOSS'',
     literal_rule T_FORCE_SERVICE_ALLOW_DATA_LOSS ''FORCE_SERVICE_ALLOW_DATA_LOSS'',
     literal_rule T_FOREIGN ''FOREIGN'',
     literal_rule T_FORMAT ''FORMAT'',
     literal_rule T_FORMATMESSAGE ''FORMATMESSAGE'',
     literal_rule T_FORWARD_ONLY ''FORWARD_ONLY'',
     literal_rule T_FREE ''FREE'',
     literal_rule T_FREETEXT ''FREETEXT'',
     literal_rule T_FREETEXTTABLE ''FREETEXTTABLE'',
     literal_rule T_FROM ''FROM'',
     literal_rule T_FULL ''FULL'',
     literal_rule T_FULLSCAN ''FULLSCAN'',
     literal_rule T_FULLTEXT ''FULLTEXT'',
     literal_rule T_FULLTEXTCATALOGPROPERTY ''FULLTEXTCATALOGPROPERTY'',
     literal_rule T_FULLTEXTSERVICEPROPERTY ''FULLTEXTSERVICEPROPERTY'',
     literal_rule T_FUNCTION ''FUNCTION'',
     literal_rule T_GB ''GB'',
     literal_rule T_GENERATED ''GENERATED'',
     literal_rule T_GET ''GET'',
     literal_rule T_GETANCESTOR ''GETANCESTOR'',
     literal_rule T_GETANSINULL ''GETANSINULL'',
     literal_rule T_GETDATE ''GETDATE'',
     literal_rule T_GETDESCENDANT ''GETDESCENDANT'',
     literal_rule T_GETLEVEL ''GETLEVEL'',
     literal_rule T_GETREPARENTEDVALUE ''GETREPARENTEDVALUE'',
     literal_rule T_GETROOT ''GETROOT'',
     literal_rule T_GETUTCDATE ''GETUTCDATE'',
     literal_rule T_GET_FILESTREAM_TRANSACTION_CONTEXT ''GET_FILESTREAM_TRANSACTION_CONTEXT'',
     literal_rule T_GLOBAL ''GLOBAL'',
     literal_rule T_GO ''GO'',
     literal_rule T_GOTO ''GOTO'',
     literal_rule T_GOVERNOR ''GOVERNOR'']"

definition lexer_rules_11 :: "lexer_rule list" where
  "lexer_rules_11 = [
     literal_rule T_GRANT ''GRANT'',
     literal_rule T_GREATEST ''GREATEST'',
     literal_rule T_GROUP ''GROUP'',
     literal_rule T_GROUPING ''GROUPING'',
     literal_rule T_GROUPING_ID ''GROUPING_ID'',
     literal_rule T_GROUP_MAX_REQUESTS ''GROUP_MAX_REQUESTS'',
     literal_rule T_HADR ''HADR'',
     literal_rule T_HASH ''HASH'',
     literal_rule T_HASHED ''HASHED'',
     literal_rule T_HAS_DBACCESS ''HAS_DBACCESS'',
     literal_rule T_HAS_PERMS_BY_NAME ''HAS_PERMS_BY_NAME'',
     literal_rule T_HAVING ''HAVING'',
     literal_rule T_HEALTHCHECKTIMEOUT ''HEALTHCHECKTIMEOUT'',
     literal_rule T_HEALTH_CHECK_TIMEOUT ''HEALTH_CHECK_TIMEOUT'',
     literal_rule T_HEAP ''HEAP'',
     literal_rule T_HIDDEN_KEYWORD ''HIDDEN'',
     literal_rule T_HIERARCHYID ''HIERARCHYID'',
     literal_rule T_HIGH ''HIGH'',
     literal_rule T_HOLDLOCK ''HOLDLOCK'',
     literal_rule T_HONOR_BROKER_PRIORITY ''HONOR_BROKER_PRIORITY'',
     literal_rule T_HOST_ID ''HOST_ID'',
     literal_rule T_HOST_NAME ''HOST_NAME'',
     literal_rule T_HOURS ''HOURS'',
     literal_rule T_IDENTITY ''IDENTITY'',
     literal_rule T_IDENTITYCOL ''IDENTITYCOL'',
     literal_rule T_IDENTITY_INSERT ''IDENTITY_INSERT'',
     literal_rule T_IDENTITY_VALUE ''IDENTITY_VALUE'',
     literal_rule T_IDENT_CURRENT ''IDENT_CURRENT'',
     literal_rule T_IDENT_INCR ''IDENT_INCR'',
     literal_rule T_IDENT_SEED ''IDENT_SEED'',
     literal_rule T_IF ''IF'',
     literal_rule T_IGNORE_CONSTRAINTS ''IGNORE_CONSTRAINTS'',
     literal_rule T_IGNORE_DUP_KEY ''IGNORE_DUP_KEY'',
     literal_rule T_IGNORE_NONCLUSTERED_COLUMNSTORE_INDEX ''IGNORE_NONCLUSTERED_COLUMNSTORE_INDEX'',
     literal_rule T_IGNORE_REPLICATED_TABLE_CACHE ''IGNORE_REPLICATED_TABLE_CACHE'',
     literal_rule T_IGNORE_TRIGGERS ''IGNORE_TRIGGERS'',
     literal_rule T_IIF ''IIF'',
     literal_rule T_IMMEDIATE ''IMMEDIATE'',
     literal_rule T_IMPERSONATE ''IMPERSONATE'',
     literal_rule T_IMPLICIT_TRANSACTIONS ''IMPLICIT_TRANSACTIONS'']"

definition lexer_rules_12 :: "lexer_rule list" where
  "lexer_rules_12 = [
     literal_rule T_IMPORTANCE ''IMPORTANCE'',
     literal_rule T_IN ''IN'',
     literal_rule T_INCLUDE ''INCLUDE'',
     literal_rule T_INCLUDE_NULL_VALUES ''INCLUDE_NULL_VALUES'',
     literal_rule T_INCREMENT ''INCREMENT'',
     literal_rule T_INCREMENTAL ''INCREMENTAL'',
     literal_rule T_INDEX ''INDEX'',
     literal_rule T_INDEXKEY_PROPERTY ''INDEXKEY_PROPERTY'',
     literal_rule T_INDEXPROPERTY ''INDEXPROPERTY'',
     literal_rule T_INDEX_COL ''INDEX_COL'',
     literal_rule T_INFINITE ''INFINITE'',
     literal_rule T_INIT ''INIT'',
     literal_rule T_INITIATOR ''INITIATOR'',
     literal_rule T_INNER ''INNER'',
     literal_rule T_INPUT ''INPUT'',
     literal_rule T_INSENSITIVE ''INSENSITIVE'',
     literal_rule T_INSERT ''INSERT'',
     literal_rule T_INSERTED ''INSERTED'',
     literal_rule T_INSTEAD ''INSTEAD'',
     literal_rule T_INT ''INT'',
     literal_rule T_INTERSECT ''INTERSECT'',
     literal_rule T_INTO ''INTO'',
     literal_rule T_IO ''IO'',
     literal_rule T_IP ''IP'',
     literal_rule T_IS ''IS'',
     literal_rule T_ISDESCENDANTOF ''ISDESCENDANTOF'',
     literal_rule T_ISJSON ''ISJSON'',
     literal_rule T_ISNULL ''ISNULL'',
     literal_rule T_ISNUMERIC ''ISNUMERIC'',
     literal_rule T_ISOLATION ''ISOLATION'',
     literal_rule T_IS_MEMBER ''IS_MEMBER'',
     literal_rule T_IS_ROLEMEMBER ''IS_ROLEMEMBER'',
     literal_rule T_IS_SRVROLEMEMBER ''IS_SRVROLEMEMBER'',
     literal_rule T_JOB ''JOB'',
     literal_rule T_JOIN ''JOIN'',
     literal_rule T_JSON ''JSON'',
     literal_rule T_JSON_ARRAY ''JSON_ARRAY'',
     literal_rule T_JSON_MODIFY ''JSON_MODIFY'',
     literal_rule T_JSON_OBJECT ''JSON_OBJECT'',
     literal_rule T_JSON_PATH_EXISTS ''JSON_PATH_EXISTS'']"

definition lexer_rules_13 :: "lexer_rule list" where
  "lexer_rules_13 = [
     literal_rule T_JSON_QUERY ''JSON_QUERY'',
     literal_rule T_JSON_VALUE ''JSON_VALUE'',
     literal_rule T_KB ''KB'',
     literal_rule T_KEEP ''KEEP'',
     literal_rule T_KEEPDEFAULTS ''KEEPDEFAULTS'',
     literal_rule T_KEEPFIXED ''KEEPFIXED'',
     literal_rule T_KEEPIDENTITY ''KEEPIDENTITY'',
     literal_rule T_KERBEROS ''KERBEROS'',
     literal_rule T_KEY ''KEY'',
     literal_rule T_KEYS ''KEYS'',
     literal_rule T_KEYSET ''KEYSET'',
     literal_rule T_KEY_PATH ''KEY_PATH'',
     literal_rule T_KEY_SOURCE ''KEY_SOURCE'',
     literal_rule T_KEY_STORE_PROVIDER_NAME ''KEY_STORE_PROVIDER_NAME'',
     literal_rule T_KILL ''KILL'',
     literal_rule T_LAG ''LAG'',
     literal_rule T_LANGUAGE ''LANGUAGE'',
     literal_rule T_LAST ''LAST'',
     literal_rule T_LAST_VALUE ''LAST_VALUE'',
     literal_rule T_LEAD ''LEAD'',
     literal_rule T_LEAST ''LEAST'',
     literal_rule T_LEFT ''LEFT'',
     literal_rule T_LEN ''LEN'',
     literal_rule T_LEVEL ''LEVEL'',
     literal_rule T_LIBRARY ''LIBRARY'',
     literal_rule T_LIFETIME ''LIFETIME'',
     literal_rule T_LIKE ''LIKE'',
     literal_rule T_LINENO ''LINENO'',
     literal_rule T_LINKED ''LINKED'',
     literal_rule T_LINUX ''LINUX'',
     literal_rule T_LIST ''LIST'',
     literal_rule T_LISTENER ''LISTENER'',
     literal_rule T_LISTENER_IP ''LISTENER_IP'',
     literal_rule T_LISTENER_PORT ''LISTENER_PORT'',
     literal_rule T_LISTENER_URL ''LISTENER_URL'',
     literal_rule T_LOAD ''LOAD'',
     literal_rule T_LOB_COMPACTION ''LOB_COMPACTION'',
     literal_rule T_LOCAL ''LOCAL'',
     literal_rule T_LOCAL_SERVICE_NAME ''LOCAL_SERVICE_NAME'',
     literal_rule T_LOCATION ''LOCATION'']"

definition lexer_rules_14 :: "lexer_rule list" where
  "lexer_rules_14 = [
     literal_rule T_LOCK ''LOCK'',
     literal_rule T_LOCK_ESCALATION ''LOCK_ESCALATION'',
     literal_rule T_LOG ''LOG'',
     literal_rule T_LOGIN ''LOGIN'',
     literal_rule T_LOGINPROPERTY ''LOGINPROPERTY'',
     literal_rule T_LOOP ''LOOP'',
     literal_rule T_LOW ''LOW'',
     literal_rule T_LOWER ''LOWER'',
     literal_rule T_LTRIM ''LTRIM'',
     literal_rule T_MANUAL ''MANUAL'',
     literal_rule T_MARK ''MARK'',
     literal_rule T_MASK ''MASK'',
     literal_rule T_MASKED ''MASKED'',
     literal_rule T_MASTER ''MASTER'',
     literal_rule T_MATCHED ''MATCHED'',
     literal_rule T_MATERIALIZED ''MATERIALIZED'',
     literal_rule T_MAX ''MAX'',
     literal_rule T_MAXDOP ''MAXDOP'',
     literal_rule T_MAXRECURSION ''MAXRECURSION'',
     literal_rule T_MAXSIZE ''MAXSIZE'',
     literal_rule T_MAXTRANSFER ''MAXTRANSFER'',
     literal_rule T_MAXVALUE ''MAXVALUE'',
     literal_rule T_MAX_CPU_PERCENT ''MAX_CPU_PERCENT'',
     literal_rule T_MAX_DISPATCH_LATENCY ''MAX_DISPATCH_LATENCY'',
     literal_rule T_MAX_DOP ''MAX_DOP'',
     literal_rule T_MAX_DURATION ''MAX_DURATION'',
     literal_rule T_MAX_EVENT_SIZE ''MAX_EVENT_SIZE'',
     literal_rule T_MAX_FILES ''MAX_FILES'',
     literal_rule T_MAX_IOPS_PER_VOLUME ''MAX_IOPS_PER_VOLUME'',
     literal_rule T_MAX_MEMORY ''MAX_MEMORY'',
     literal_rule T_MAX_MEMORY_PERCENT ''MAX_MEMORY_PERCENT'',
     literal_rule T_MAX_OUTSTANDING_IO_PER_VOLUME ''MAX_OUTSTANDING_IO_PER_VOLUME'',
     literal_rule T_MAX_PROCESSES ''MAX_PROCESSES'',
     literal_rule T_MAX_QUEUE_READERS ''MAX_QUEUE_READERS'',
     literal_rule T_MAX_ROLLOVER_FILES ''MAX_ROLLOVER_FILES'',
     literal_rule T_MAX_SIZE ''MAX_SIZE'',
     literal_rule T_MB ''MB'',
     literal_rule T_MEDIADESCRIPTION ''MEDIADESCRIPTION'',
     literal_rule T_MEDIANAME ''MEDIANAME'',
     literal_rule T_MEDIUM ''MEDIUM'']"

definition lexer_rules_15 :: "lexer_rule list" where
  "lexer_rules_15 = [
     literal_rule T_MEMBER ''MEMBER'',
     literal_rule T_MEMORY_OPTIMIZED_DATA ''MEMORY_OPTIMIZED_DATA'',
     literal_rule T_MEMORY_PARTITION_MODE ''MEMORY_PARTITION_MODE'',
     literal_rule T_MERGE ''MERGE'',
     literal_rule T_MESSAGE ''MESSAGE'',
     literal_rule T_MESSAGE_FORWARDING ''MESSAGE_FORWARDING'',
     literal_rule T_MESSAGE_FORWARD_SIZE ''MESSAGE_FORWARD_SIZE'',
     literal_rule T_MIN ''MIN'',
     literal_rule T_MINUTES ''MINUTES'',
     literal_rule T_MINVALUE ''MINVALUE'',
     literal_rule T_MIN_ACTIVE_ROWVERSION ''MIN_ACTIVE_ROWVERSION'',
     literal_rule T_MIN_CPU_PERCENT ''MIN_CPU_PERCENT'',
     literal_rule T_MIN_IOPS_PER_VOLUME ''MIN_IOPS_PER_VOLUME'',
     literal_rule T_MIN_MEMORY_PERCENT ''MIN_MEMORY_PERCENT'',
     literal_rule T_MIRROR ''MIRROR'',
     literal_rule T_MIRROR_ADDRESS ''MIRROR_ADDRESS'',
     literal_rule T_MIXED_PAGE_ALLOCATION ''MIXED_PAGE_ALLOCATION'',
     literal_rule T_MODE ''MODE'',
     literal_rule T_MODIFY ''MODIFY'',
     literal_rule T_MODIFY_SQUARE_BRACKET ''[MODIFY]'',
     literal_rule T_MOVE ''MOVE'',
     literal_rule T_MULTI_USER ''MULTI_USER'',
     literal_rule T_MUST_CHANGE ''MUST_CHANGE'',
     literal_rule T_NAME ''NAME'',
     literal_rule T_NATIONAL ''NATIONAL'',
     literal_rule T_NCHAR ''NCHAR'',
     literal_rule T_NEGOTIATE ''NEGOTIATE'',
     literal_rule T_NESTED_TRIGGERS ''NESTED_TRIGGERS'',
     literal_rule T_NEWID ''NEWID'',
     literal_rule T_NEWNAME ''NEWNAME'',
     literal_rule T_NEWSEQUENTIALID ''NEWSEQUENTIALID'',
     literal_rule T_NEW_ACCOUNT ''NEW_ACCOUNT'',
     literal_rule T_NEW_BROKER ''NEW_BROKER'',
     literal_rule T_NEW_PASSWORD ''NEW_PASSWORD'',
     literal_rule T_NEXT ''NEXT'',
     literal_rule T_NO ''NO'',
     literal_rule T_NOCHECK ''NOCHECK'',
     literal_rule T_NOCOUNT ''NOCOUNT'',
     literal_rule T_NODES ''NODES'',
     literal_rule T_NOEXEC ''NOEXEC'']"

definition lexer_rules_16 :: "lexer_rule list" where
  "lexer_rules_16 = [
     literal_rule T_NOEXPAND ''NOEXPAND'',
     literal_rule T_NOFORMAT ''NOFORMAT'',
     literal_rule T_NOHOLDLOCK ''NOHOLDLOCK'',
     literal_rule T_NOINDEX ''NOINDEX'',
     literal_rule T_NOINIT ''NOINIT'',
     literal_rule T_NOLOCK ''NOLOCK'',
     literal_rule T_NONCLUSTERED ''NONCLUSTERED'',
     literal_rule T_NONE ''NONE'',
     literal_rule T_NON_TRANSACTED_ACCESS ''NON_TRANSACTED_ACCESS'',
     literal_rule T_NORECOMPUTE ''NORECOMPUTE'',
     literal_rule T_NORECOVERY ''NORECOVERY'',
     literal_rule T_NOREWIND ''NOREWIND'',
     literal_rule T_NOSKIP ''NOSKIP'',
     literal_rule T_NOT ''NOT'',
     literal_rule T_NOTIFICATION ''NOTIFICATION'',
     literal_rule T_NOTIFICATIONS ''NOTIFICATIONS'',
     literal_rule T_NOUNLOAD ''NOUNLOAD'',
     literal_rule T_NOWAIT ''NOWAIT'',
     literal_rule T_NO_CHECKSUM ''NO_CHECKSUM'',
     literal_rule T_NO_COMPRESSION ''NO_COMPRESSION'',
     literal_rule T_NO_EVENT_LOSS ''NO_EVENT_LOSS'',
     literal_rule T_NO_INFOMSGS ''NO_INFOMSGS'',
     literal_rule T_NO_QUERYSTORE ''NO_QUERYSTORE'',
     literal_rule T_NO_STATISTICS ''NO_STATISTICS'',
     literal_rule T_NO_TRUNCATE ''NO_TRUNCATE'',
     literal_rule T_NO_WAIT ''NO_WAIT'',
     literal_rule T_NTILE ''NTILE'',
     literal_rule T_NTLM ''NTLM'',
     literal_rule T_NULLIF ''NULLIF'',
     literal_rule T_NULL' ''NULL'',
     r_NULL_DOUBLE_QUOTE,
     literal_rule T_NUMANODE ''NUMANODE'',
     literal_rule T_NUMBER ''NUMBER'',
     literal_rule T_NUMERIC_ROUNDABORT ''NUMERIC_ROUNDABORT'',
     literal_rule T_OBJECT ''OBJECT'',
     literal_rule T_OBJECTPROPERTY ''OBJECTPROPERTY'',
     literal_rule T_OBJECTPROPERTYEX ''OBJECTPROPERTYEX'',
     literal_rule T_OBJECT_DEFINITION ''OBJECT_DEFINITION'',
     literal_rule T_OBJECT_ID ''OBJECT_ID'',
     literal_rule T_OBJECT_NAME ''OBJECT_NAME'']"

definition lexer_rules_17 :: "lexer_rule list" where
  "lexer_rules_17 = [
     literal_rule T_OBJECT_SCHEMA_NAME ''OBJECT_SCHEMA_NAME'',
     literal_rule T_OF ''OF'',
     literal_rule T_OFF ''OFF'',
     literal_rule T_OFFLINE ''OFFLINE'',
     literal_rule T_OFFSET ''OFFSET'',
     literal_rule T_OFFSETS ''OFFSETS'',
     literal_rule T_OLD_ACCOUNT ''OLD_ACCOUNT'',
     literal_rule T_OLD_PASSWORD ''OLD_PASSWORD'',
     literal_rule T_ON ''ON'',
     literal_rule T_ONLINE ''ONLINE'',
     literal_rule T_ONLY ''ONLY'',
     literal_rule T_ON_FAILURE ''ON_FAILURE'',
     literal_rule T_OPEN ''OPEN'',
     literal_rule T_OPENDATASOURCE ''OPENDATASOURCE'',
     literal_rule T_OPENJSON ''OPENJSON'',
     literal_rule T_OPENQUERY ''OPENQUERY'',
     literal_rule T_OPENROWSET ''OPENROWSET'',
     literal_rule T_OPENXML ''OPENXML'',
     literal_rule T_OPEN_EXISTING ''OPEN_EXISTING'',
     literal_rule T_OPERATIONS ''OPERATIONS'',
     literal_rule T_OPTIMISTIC ''OPTIMISTIC'',
     literal_rule T_OPTIMIZE ''OPTIMIZE'',
     literal_rule T_OPTIMIZE_FOR_SEQUENTIAL_KEY ''OPTIMIZE_FOR_SEQUENTIAL_KEY'',
     literal_rule T_OPTION ''OPTION'',
     literal_rule T_OR ''OR'',
     literal_rule T_ORDER ''ORDER'',
     literal_rule T_ORIGINAL_DB_NAME ''ORIGINAL_DB_NAME'',
     literal_rule T_ORIGINAL_LOGIN ''ORIGINAL_LOGIN'',
     literal_rule T_OUT ''OUT'',
     literal_rule T_OUTER ''OUTER'',
     literal_rule T_OUTPUT ''OUTPUT'',
     literal_rule T_OVER ''OVER'',
     literal_rule T_OVERRIDE ''OVERRIDE'',
     literal_rule T_OWNER ''OWNER'',
     literal_rule T_OWNERSHIP ''OWNERSHIP'',
     literal_rule T_PAD_INDEX ''PAD_INDEX'',
     literal_rule T_PAGE ''PAGE'',
     literal_rule T_PAGECOUNT ''PAGECOUNT'',
     literal_rule T_PAGE_VERIFY ''PAGE_VERIFY'',
     literal_rule T_PAGLOCK ''PAGLOCK'']"

definition lexer_rules_18 :: "lexer_rule list" where
  "lexer_rules_18 = [
     literal_rule T_PARAMETERIZATION ''PARAMETERIZATION'',
     literal_rule T_PARAM_NODE ''PARAM_NODE'',
     r_PARSE,
     literal_rule T_PARSENAME ''PARSENAME'',
     literal_rule T_PARSEONLY ''PARSEONLY'',
     literal_rule T_PARTIAL ''PARTIAL'',
     literal_rule T_PARTITION ''PARTITION'',
     literal_rule T_PARTITIONS ''PARTITIONS'',
     literal_rule T_PARTNER ''PARTNER'',
     literal_rule T_PASSWORD ''PASSWORD'',
     literal_rule T_PATH ''PATH'',
     literal_rule T_PATINDEX ''PATINDEX'',
     literal_rule T_PAUSE ''PAUSE'',
     literal_rule T_PDW_SHOWSPACEUSED ''PDW_SHOWSPACEUSED'',
     literal_rule T_PERCENT ''PERCENT'',
     literal_rule T_PERCENTILE_CONT ''PERCENTILE_CONT'',
     literal_rule T_PERCENTILE_DISC ''PERCENTILE_DISC'',
     literal_rule T_PERCENT_RANK ''PERCENT_RANK'',
     literal_rule T_PERMISSIONS ''PERMISSIONS'',
     literal_rule T_PERMISSION_SET ''PERMISSION_SET'',
     literal_rule T_PERSISTED ''PERSISTED'',
     literal_rule T_PERSIST_SAMPLE_PERCENT ''PERSIST_SAMPLE_PERCENT'',
     literal_rule T_PER_CPU ''PER_CPU'',
     literal_rule T_PER_DB ''PER_DB'',
     literal_rule T_PER_NODE ''PER_NODE'',
     literal_rule T_PHYSICAL_ONLY ''PHYSICAL_ONLY'',
     literal_rule T_PIVOT ''PIVOT'',
     literal_rule T_PLAN ''PLAN'',
     literal_rule T_PLATFORM ''PLATFORM'',
     literal_rule T_POISON_MESSAGE_HANDLING ''POISON_MESSAGE_HANDLING'',
     literal_rule T_POLICY ''POLICY'',
     literal_rule T_POOL ''POOL'',
     literal_rule T_PORT ''PORT'',
     literal_rule T_PRECEDING ''PRECEDING'',
     literal_rule T_PRECISION ''PRECISION'',
     literal_rule T_PREDICATE ''PREDICATE'',
     literal_rule T_PRIMARY ''PRIMARY'',
     literal_rule T_PRIMARY_ROLE ''PRIMARY_ROLE'',
     literal_rule T_PRINT ''PRINT'',
     literal_rule T_PRIOR ''PRIOR'']"

definition lexer_rules_19 :: "lexer_rule list" where
  "lexer_rules_19 = [
     literal_rule T_PRIORITY ''PRIORITY'',
     literal_rule T_PRIORITY_LEVEL ''PRIORITY_LEVEL'',
     literal_rule T_PRIVATE ''PRIVATE'',
     literal_rule T_PRIVATE_KEY ''PRIVATE_KEY'',
     literal_rule T_PRIVILEGES ''PRIVILEGES'',
     literal_rule T_PROC ''PROC'',
     literal_rule T_PROCCACHE ''PROCCACHE'',
     literal_rule T_PROCEDURE ''PROCEDURE'',
     literal_rule T_PROCEDURE_NAME ''PROCEDURE_NAME'',
     literal_rule T_PROCESS ''PROCESS'',
     literal_rule T_PROFILE ''PROFILE'',
     literal_rule T_PROPERTY ''PROPERTY'',
     literal_rule T_PROVIDER ''PROVIDER'',
     literal_rule T_PROVIDER_KEY_NAME ''PROVIDER_KEY_NAME'',
     literal_rule T_PUBLIC ''PUBLIC'',
     literal_rule T_PWDCOMPARE ''PWDCOMPARE'',
     literal_rule T_PWDENCRYPT ''PWDENCRYPT'',
     literal_rule T_PYTHON ''PYTHON'',
     literal_rule T_QUERY ''QUERY'',
     literal_rule T_QUERY_SQUARE_BRACKET ''[QUERY]'',
     literal_rule T_QUEUE ''QUEUE'',
     literal_rule T_QUEUE_DELAY ''QUEUE_DELAY'',
     literal_rule T_QUOTED_IDENTIFIER ''QUOTED_IDENTIFIER'',
     literal_rule T_QUOTENAME ''QUOTENAME'',
     literal_rule T_R ''R'',
     literal_rule T_RAISERROR ''RAISERROR'',
     literal_rule T_RANDOMIZED ''RANDOMIZED'',
     literal_rule T_RANGE ''RANGE'',
     literal_rule T_RANK ''RANK'',
     literal_rule T_RAW ''RAW'',
     literal_rule T_RC2 ''RC2'',
     literal_rule T_RC4 ''RC4'',
     literal_rule T_RC4_128 ''RC4_128'',
     literal_rule T_READ ''READ'',
     literal_rule T_READCOMMITTED ''READCOMMITTED'',
     literal_rule T_READCOMMITTEDLOCK ''READCOMMITTEDLOCK'',
     literal_rule T_READONLY ''READONLY'',
     literal_rule T_READPAST ''READPAST'',
     literal_rule T_READTEXT ''READTEXT'',
     literal_rule T_READUNCOMMITTED ''READUNCOMMITTED'']"

definition lexer_rules_20 :: "lexer_rule list" where
  "lexer_rules_20 = [
     literal_rule T_READWRITE ''READWRITE'',
     literal_rule T_READ_COMMITTED_SNAPSHOT ''READ_COMMITTED_SNAPSHOT'',
     literal_rule T_READ_ONLY ''READ_ONLY'',
     literal_rule T_READ_ONLY_ROUTING_LIST ''READ_ONLY_ROUTING_LIST'',
     literal_rule T_READ_WRITE ''READ_WRITE'',
     literal_rule T_READ_WRITE_FILEGROUPS ''READ_WRITE_FILEGROUPS'',
     literal_rule T_REBUILD ''REBUILD'',
     literal_rule T_RECEIVE ''RECEIVE'',
     literal_rule T_RECOMPILE ''RECOMPILE'',
     literal_rule T_RECONFIGURE ''RECONFIGURE'',
     literal_rule T_RECOVERY ''RECOVERY'',
     literal_rule T_RECURSIVE_TRIGGERS ''RECURSIVE_TRIGGERS'',
     literal_rule T_REFERENCES ''REFERENCES'',
     literal_rule T_REGENERATE ''REGENERATE'',
     literal_rule T_RELATED_CONVERSATION ''RELATED_CONVERSATION'',
     literal_rule T_RELATED_CONVERSATION_GROUP ''RELATED_CONVERSATION_GROUP'',
     literal_rule T_RELATIVE ''RELATIVE'',
     literal_rule T_REMOTE ''REMOTE'',
     literal_rule T_REMOTE_PROC_TRANSACTIONS ''REMOTE_PROC_TRANSACTIONS'',
     literal_rule T_REMOTE_SERVICE_NAME ''REMOTE_SERVICE_NAME'',
     literal_rule T_REMOVE ''REMOVE'',
     literal_rule T_REORGANIZE ''REORGANIZE'',
     literal_rule T_REPAIR_ALLOW_DATA_LOSS ''REPAIR_ALLOW_DATA_LOSS'',
     literal_rule T_REPAIR_FAST ''REPAIR_FAST'',
     literal_rule T_REPAIR_REBUILD ''REPAIR_REBUILD'',
     literal_rule T_REPEATABLE ''REPEATABLE'',
     literal_rule T_REPEATABLEREAD ''REPEATABLEREAD'',
     literal_rule T_REPLACE ''REPLACE'',
     literal_rule T_REPLICA ''REPLICA'',
     literal_rule T_REPLICATE ''REPLICATE'',
     literal_rule T_REPLICATION ''REPLICATION'',
     literal_rule T_REQUEST_MAX_CPU_TIME_SEC ''REQUEST_MAX_CPU_TIME_SEC'',
     literal_rule T_REQUEST_MAX_MEMORY_GRANT_PERCENT ''REQUEST_MAX_MEMORY_GRANT_PERCENT'',
     literal_rule T_REQUEST_MEMORY_GRANT_TIMEOUT_SEC ''REQUEST_MEMORY_GRANT_TIMEOUT_SEC'',
     literal_rule T_REQUIRED ''REQUIRED'',
     literal_rule T_REQUIRED_SYNCHRONIZED_SECONDARIES_TO_COMMIT ''REQUIRED_SYNCHRONIZED_SECONDARIES_TO_COMMIT'',
     literal_rule T_RESAMPLE ''RESAMPLE'',
     literal_rule T_RESERVE_DISK_SPACE ''RESERVE_DISK_SPACE'',
     literal_rule T_RESET ''RESET'',
     literal_rule T_RESOURCE ''RESOURCE'']"

definition lexer_rules_21 :: "lexer_rule list" where
  "lexer_rules_21 = [
     literal_rule T_RESOURCES ''RESOURCES'',
     literal_rule T_RESOURCE_MANAGER_LOCATION ''RESOURCE_MANAGER_LOCATION'',
     literal_rule T_RESTART ''RESTART'',
     literal_rule T_RESTORE ''RESTORE'',
     literal_rule T_RESTRICT ''RESTRICT'',
     literal_rule T_RESTRICTED_USER ''RESTRICTED_USER'',
     literal_rule T_RESUMABLE ''RESUMABLE'',
     literal_rule T_RESUME ''RESUME'',
     literal_rule T_RETAINDAYS ''RETAINDAYS'',
     literal_rule T_RETENTION ''RETENTION'',
     literal_rule T_RETURN ''RETURN'',
     literal_rule T_RETURNS ''RETURNS'',
     literal_rule T_REVERSE ''REVERSE'',
     literal_rule T_REVERT ''REVERT'',
     literal_rule T_REVOKE ''REVOKE'',
     literal_rule T_REWIND ''REWIND'',
     literal_rule T_RIGHT ''RIGHT'',
     literal_rule T_ROBUST ''ROBUST'',
     literal_rule T_ROLE ''ROLE'',
     literal_rule T_ROLLBACK ''ROLLBACK'',
     literal_rule T_ROOT ''ROOT'',
     literal_rule T_ROUND_ROBIN ''ROUND_ROBIN'',
     literal_rule T_ROUTE ''ROUTE'',
     literal_rule T_ROW ''ROW'',
     literal_rule T_ROWCOUNT ''ROWCOUNT'',
     literal_rule T_ROWCOUNT_BIG ''ROWCOUNT_BIG'',
     literal_rule T_ROWGUID ''ROWGUID'',
     literal_rule T_ROWGUIDCOL ''ROWGUIDCOL'',
     literal_rule T_ROWLOCK ''ROWLOCK'',
     literal_rule T_ROWS ''ROWS'',
     literal_rule T_ROW_NUMBER ''ROW_NUMBER'',
     literal_rule T_RSA_1024 ''RSA_1024'',
     literal_rule T_RSA_2048 ''RSA_2048'',
     literal_rule T_RSA_3072 ''RSA_3072'',
     literal_rule T_RSA_4096 ''RSA_4096'',
     literal_rule T_RSA_512 ''RSA_512'',
     literal_rule T_RTRIM ''RTRIM'',
     literal_rule T_RULE ''RULE'',
     literal_rule T_SAFE ''SAFE'',
     literal_rule T_SAFETY ''SAFETY'']"

definition lexer_rules_22 :: "lexer_rule list" where
  "lexer_rules_22 = [
     literal_rule T_SAMPLE ''SAMPLE'',
     literal_rule T_SAVE ''SAVE'',
     literal_rule T_SCHEDULER ''SCHEDULER'',
     literal_rule T_SCHEMA ''SCHEMA'',
     literal_rule T_SCHEMABINDING ''SCHEMABINDING'',
     literal_rule T_SCHEMA_ID ''SCHEMA_ID'',
     literal_rule T_SCHEMA_NAME ''SCHEMA_NAME'',
     literal_rule T_SCHEME ''SCHEME'',
     literal_rule T_SCOPED ''SCOPED'',
     literal_rule T_SCOPE_IDENTITY ''SCOPE_IDENTITY'',
     literal_rule T_SCRIPT ''SCRIPT'',
     literal_rule T_SCROLL ''SCROLL'',
     literal_rule T_SCROLL_LOCKS ''SCROLL_LOCKS'',
     literal_rule T_SEARCH ''SEARCH'',
     literal_rule T_SECONDARY ''SECONDARY'',
     literal_rule T_SECONDARY_ONLY ''SECONDARY_ONLY'',
     literal_rule T_SECONDARY_ROLE ''SECONDARY_ROLE'',
     literal_rule T_SECONDS ''SECONDS'',
     literal_rule T_SECRET ''SECRET'',
     literal_rule T_SECURABLES ''SECURABLES'',
     literal_rule T_SECURITY ''SECURITY'',
     literal_rule T_SECURITYAUDIT ''SECURITYAUDIT'',
     literal_rule T_SECURITY_LOG ''SECURITY_LOG'',
     literal_rule T_SEEDING_MODE ''SEEDING_MODE'',
     literal_rule T_SELECT ''SELECT'',
     literal_rule T_SELF ''SELF'',
     literal_rule T_SEMANTICKEYPHRASETABLE ''SEMANTICKEYPHRASETABLE'',
     literal_rule T_SEMANTICSIMILARITYDETAILSTABLE ''SEMANTICSIMILARITYDETAILSTABLE'',
     literal_rule T_SEMANTICSIMILARITYTABLE ''SEMANTICSIMILARITYTABLE'',
     literal_rule T_SEMI_SENSITIVE ''SEMI_SENSITIVE'',
     literal_rule T_SEND ''SEND'',
     literal_rule T_SENT ''SENT'',
     literal_rule T_SEQUENCE ''SEQUENCE'',
     literal_rule T_SEQUENCE_NUMBER ''SEQUENCE_NUMBER'',
     literal_rule T_SERIALIZABLE ''SERIALIZABLE'',
     literal_rule T_SERVER ''SERVER'',
     literal_rule T_SERVERPROPERTY ''SERVERPROPERTY'',
     literal_rule T_SERVICE ''SERVICE'',
     literal_rule T_SERVICEBROKER ''SERVICEBROKER'',
     literal_rule T_SERVICE_BROKER ''SERVICE_BROKER'']"

definition lexer_rules_23 :: "lexer_rule list" where
  "lexer_rules_23 = [
     literal_rule T_SERVICE_NAME ''SERVICE_NAME'',
     literal_rule T_SESSION ''SESSION'',
     literal_rule T_SESSIONPROPERTY ''SESSIONPROPERTY'',
     literal_rule T_SESSION_CONTEXT ''SESSION_CONTEXT'',
     literal_rule T_SESSION_TIMEOUT ''SESSION_TIMEOUT'',
     literal_rule T_SESSION_USER ''SESSION_USER'',
     literal_rule T_SET ''SET'',
     literal_rule T_SETERROR ''SETERROR'',
     literal_rule T_SETS ''SETS'',
     literal_rule T_SETTINGS ''SETTINGS'',
     literal_rule T_SETUSER ''SETUSER'',
     literal_rule T_SHARE ''SHARE'',
     literal_rule T_SHARED ''SHARED'',
     literal_rule T_SHOWCONTIG ''SHOWCONTIG'',
     literal_rule T_SHOWPLAN ''SHOWPLAN'',
     literal_rule T_SHOWPLAN_ALL ''SHOWPLAN_ALL'',
     literal_rule T_SHOWPLAN_TEXT ''SHOWPLAN_TEXT'',
     literal_rule T_SHOWPLAN_XML ''SHOWPLAN_XML'',
     literal_rule T_SHRINKLOG ''SHRINKLOG'',
     literal_rule T_SHUTDOWN ''SHUTDOWN'',
     literal_rule T_SID ''SID'',
     literal_rule T_SIGNATURE ''SIGNATURE'',
     literal_rule T_SIMPLE ''SIMPLE'',
     literal_rule T_SINGLE_USER ''SINGLE_USER'',
     literal_rule T_SIZE ''SIZE'',
     literal_rule T_SKIP_KEYWORD ''SKIP'',
     literal_rule T_SMALLINT ''SMALLINT'',
     literal_rule T_SNAPSHOT ''SNAPSHOT'',
     literal_rule T_SOFTNUMA ''SOFTNUMA'',
     literal_rule T_SOME ''SOME'',
     literal_rule T_SORT_IN_TEMPDB ''SORT_IN_TEMPDB'',
     literal_rule T_SOUNDEX ''SOUNDEX'',
     literal_rule T_SOURCE ''SOURCE'',
     literal_rule T_SPACE_KEYWORD ''SPACE'',
     literal_rule T_SPARSE ''SPARSE'',
     literal_rule T_SPATIAL_WINDOW_MAX_CELLS ''SPATIAL_WINDOW_MAX_CELLS'',
     literal_rule T_SPECIFICATION ''SPECIFICATION'',
     literal_rule T_SPLIT ''SPLIT'',
     literal_rule T_SQL ''SQL'',
     literal_rule T_SQLDUMPERFLAGS ''SQLDUMPERFLAGS'']"

definition lexer_rules_24 :: "lexer_rule list" where
  "lexer_rules_24 = [
     literal_rule T_SQLDUMPERPATH ''SQLDUMPERPATH'',
     literal_rule T_SQLDUMPERTIMEOUT ''SQLDUMPERTIMEOUT'',
     literal_rule T_SQL_VARIANT_PROPERTY ''SQL_VARIANT_PROPERTY'',
     literal_rule T_STANDBY ''STANDBY'',
     literal_rule T_START ''START'',
     literal_rule T_STARTED ''STARTED'',
     literal_rule T_STARTUP_STATE ''STARTUP_STATE'',
     literal_rule T_START_DATE ''START_DATE'',
     literal_rule T_STATE ''STATE'',
     literal_rule T_STATIC ''STATIC'',
     literal_rule T_STATISTICS ''STATISTICS'',
     literal_rule T_STATISTICS_INCREMENTAL ''STATISTICS_INCREMENTAL'',
     literal_rule T_STATISTICS_NORECOMPUTE ''STATISTICS_NORECOMPUTE'',
     literal_rule T_STATS ''STATS'',
     literal_rule T_STATS_DATE ''STATS_DATE'',
     literal_rule T_STATS_STREAM ''STATS_STREAM'',
     literal_rule T_STATUS ''STATUS'',
     literal_rule T_STATUSONLY ''STATUSONLY'',
     literal_rule T_STDEV ''STDEV'',
     literal_rule T_STDEVP ''STDEVP'',
     literal_rule T_STOP ''STOP'',
     literal_rule T_STOPLIST ''STOPLIST'',
     literal_rule T_STOPPED ''STOPPED'',
     literal_rule T_STOP_ON_ERROR ''STOP_ON_ERROR'',
     literal_rule T_STR ''STR'',
     literal_rule T_STRING_AGG ''STRING_AGG'',
     literal_rule T_STRING_ESCAPE ''STRING_ESCAPE'',
     literal_rule T_STUFF ''STUFF'',
     literal_rule T_SUBJECT ''SUBJECT'',
     literal_rule T_SUBSCRIBE ''SUBSCRIBE'',
     literal_rule T_SUBSCRIPTION ''SUBSCRIPTION'',
     literal_rule T_SUBSTRING ''SUBSTRING'',
     literal_rule T_SUM ''SUM'',
     literal_rule T_SUPPORTED ''SUPPORTED'',
     literal_rule T_SUSER_ID ''SUSER_ID'',
     literal_rule T_SUSER_NAME ''SUSER_NAME'',
     literal_rule T_SUSER_SID ''SUSER_SID'',
     literal_rule T_SUSER_SNAME ''SUSER_SNAME'',
     literal_rule T_SUSPEND ''SUSPEND'',
     literal_rule T_SWITCH ''SWITCH'']"

definition lexer_rules_25 :: "lexer_rule list" where
  "lexer_rules_25 = [
     literal_rule T_SYMMETRIC ''SYMMETRIC'',
     literal_rule T_SYNCHRONOUS_COMMIT ''SYNCHRONOUS_COMMIT'',
     literal_rule T_SYNONYM ''SYNONYM'',
     literal_rule T_SYSTEM ''SYSTEM'',
     literal_rule T_SYSTEM_USER ''SYSTEM_USER'',
     literal_rule T_TABLE ''TABLE'',
     literal_rule T_TABLERESULTS ''TABLERESULTS'',
     literal_rule T_TABLESAMPLE ''TABLESAMPLE'',
     literal_rule T_TABLOCK ''TABLOCK'',
     literal_rule T_TABLOCKX ''TABLOCKX'',
     literal_rule T_TAKE ''TAKE'',
     literal_rule T_TAPE ''TAPE'',
     literal_rule T_TARGET ''TARGET'',
     literal_rule T_TARGET_RECOVERY_TIME ''TARGET_RECOVERY_TIME'',
     literal_rule T_TB ''TB'',
     literal_rule T_TCP ''TCP'',
     literal_rule T_TEXTIMAGE_ON ''TEXTIMAGE_ON'',
     literal_rule T_TEXTSIZE ''TEXTSIZE'',
     literal_rule T_THEN ''THEN'',
     literal_rule T_THROW ''THROW'',
     literal_rule T_TIES ''TIES'',
     literal_rule T_TIME ''TIME'',
     literal_rule T_TIMEOUT ''TIMEOUT'',
     literal_rule T_TIMER ''TIMER'',
     literal_rule T_TINYINT ''TINYINT'',
     literal_rule T_TO ''TO'',
     literal_rule T_TOP ''TOP'',
     literal_rule T_TORN_PAGE_DETECTION ''TORN_PAGE_DETECTION'',
     literal_rule T_TOSTRING ''TOSTRING'',
     literal_rule T_TRACE ''TRACE'',
     literal_rule T_TRACKING ''TRACKING'',
     literal_rule T_TRACK_CAUSALITY ''TRACK_CAUSALITY'',
     literal_rule T_TRAN ''TRAN'',
     literal_rule T_TRANSACTION ''TRANSACTION'',
     literal_rule T_TRANSACTION_ID ''TRANSACTION_ID'',
     literal_rule T_TRANSFER ''TRANSFER'',
     literal_rule T_TRANSFORM_NOISE_WORDS ''TRANSFORM_NOISE_WORDS'',
     literal_rule T_TRANSLATE ''TRANSLATE'',
     literal_rule T_TRIGGER ''TRIGGER'',
     literal_rule T_TRIM ''TRIM'']"

definition lexer_rules_26 :: "lexer_rule list" where
  "lexer_rules_26 = [
     literal_rule T_TRIPLE_DES ''TRIPLE_DES'',
     literal_rule T_TRIPLE_DES_3KEY ''TRIPLE_DES_3KEY'',
     literal_rule T_TRUNCATE ''TRUNCATE'',
     literal_rule T_TRUSTWORTHY ''TRUSTWORTHY'',
     literal_rule T_TRY ''TRY'',
     literal_rule T_TRY_CAST ''TRY_CAST'',
     literal_rule T_TSEQUAL ''TSEQUAL'',
     literal_rule T_TSQL ''TSQL'',
     literal_rule T_TWO_DIGIT_YEAR_CUTOFF ''TWO_DIGIT_YEAR_CUTOFF'',
     literal_rule T_TYPE ''TYPE'',
     literal_rule T_TYPEPROPERTY ''TYPEPROPERTY'',
     literal_rule T_TYPE_ID ''TYPE_ID'',
     literal_rule T_TYPE_NAME ''TYPE_NAME'',
     literal_rule T_TYPE_WARNING ''TYPE_WARNING'',
     literal_rule T_UNBOUNDED ''UNBOUNDED'',
     literal_rule T_UNCHECKED ''UNCHECKED'',
     literal_rule T_UNCOMMITTED ''UNCOMMITTED'',
     literal_rule T_UNICODE ''UNICODE'',
     literal_rule T_UNION ''UNION'',
     literal_rule T_UNIQUE ''UNIQUE'',
     literal_rule T_UNKNOWN ''UNKNOWN'',
     literal_rule T_UNLIMITED ''UNLIMITED'',
     literal_rule T_UNLOCK ''UNLOCK'',
     literal_rule T_UNMASK ''UNMASK'',
     literal_rule T_UNPIVOT ''UNPIVOT'',
     literal_rule T_UNSAFE ''UNSAFE'',
     literal_rule T_UOW ''UOW'',
     literal_rule T_UPDATE ''UPDATE'',
     literal_rule T_UPDATETEXT ''UPDATETEXT'',
     literal_rule T_UPDLOCK ''UPDLOCK'',
     literal_rule T_UPPER ''UPPER'',
     literal_rule T_URL ''URL'',
     literal_rule T_USE ''USE'',
     literal_rule T_USED ''USED'',
     literal_rule T_USER ''USER'',
     literal_rule T_USER_ID ''USER_ID'',
     literal_rule T_USER_NAME ''USER_NAME'',
     literal_rule T_USING ''USING'',
     literal_rule T_VALIDATION ''VALIDATION'',
     literal_rule T_VALID_XML ''VALID_XML'']"

definition lexer_rules_27 :: "lexer_rule list" where
  "lexer_rules_27 = [
     literal_rule T_VALUE ''VALUE'',
     literal_rule T_VALUES ''VALUES'',
     literal_rule T_VALUE_SQUARE_BRACKET ''[VALUE]'',
     literal_rule T_VAR ''VAR'',
     literal_rule T_VARBINARY_KEYWORD ''VARBINARY'',
     literal_rule T_VARP ''VARP'',
     literal_rule T_VARYING ''VARYING'',
     literal_rule T_VERBOSELOGGING ''VERBOSELOGGING'',
     literal_rule T_VERIFY_CLONEDB ''VERIFY_CLONEDB'',
     literal_rule T_VERSION ''VERSION'',
     literal_rule T_VIEW ''VIEW'',
     literal_rule T_VIEWS ''VIEWS'',
     literal_rule T_VIEW_METADATA ''VIEW_METADATA'',
     literal_rule T_VISIBILITY ''VISIBILITY'',
     literal_rule T_WAIT ''WAIT'',
     literal_rule T_WAITFOR ''WAITFOR'',
     literal_rule T_WAIT_AT_LOW_PRIORITY ''WAIT_AT_LOW_PRIORITY'',
     literal_rule T_WELL_FORMED_XML ''WELL_FORMED_XML'',
     literal_rule T_WHEN ''WHEN'',
     literal_rule T_WHERE ''WHERE'',
     literal_rule T_WHILE ''WHILE'',
     literal_rule T_WINDOWS ''WINDOWS'',
     literal_rule T_WITH ''WITH'',
     literal_rule T_WITHIN ''WITHIN'',
     literal_rule T_WITHOUT ''WITHOUT'',
     literal_rule T_WITHOUT_ARRAY_WRAPPER ''WITHOUT_ARRAY_WRAPPER'',
     literal_rule T_WITNESS ''WITNESS'',
     literal_rule T_WORK ''WORK'',
     literal_rule T_WORKLOAD ''WORKLOAD'',
     literal_rule T_WRITETEXT ''WRITETEXT'',
     literal_rule T_XACT_ABORT ''XACT_ABORT'',
     literal_rule T_XACT_STATE ''XACT_STATE'',
     literal_rule T_XLOCK ''XLOCK'',
     literal_rule T_XML ''XML'',
     literal_rule T_XMLDATA ''XMLDATA'',
     literal_rule T_XMLNAMESPACES ''XMLNAMESPACES'',
     literal_rule T_XMLSCHEMA ''XMLSCHEMA'',
     literal_rule T_XML_COMPRESSION ''XML_COMPRESSION'',
     literal_rule T_XSINIL ''XSINIL'',
     literal_rule T_ZONE ''ZONE'']"

definition lexer_rules_28 :: "lexer_rule list" where
  "lexer_rules_28 = [
     literal_rule T_ABS ''ABS'',
     literal_rule T_ACOS ''ACOS'',
     literal_rule T_ASIN ''ASIN'',
     literal_rule T_ATAN ''ATAN'',
     literal_rule T_ATN2 ''ATN2'',
     literal_rule T_CEILING ''CEILING'',
     literal_rule T_COS ''COS'',
     literal_rule T_COT ''COT'',
     literal_rule T_DEGREES ''DEGREES'',
     literal_rule T_EXP ''EXP'',
     literal_rule T_FLOOR ''FLOOR'',
     literal_rule T_LOG10 ''LOG10'',
     literal_rule T_PI ''PI'',
     literal_rule T_POWER ''POWER'',
     literal_rule T_RADIANS ''RADIANS'',
     literal_rule T_RAND ''RAND'',
     literal_rule T_ROUND ''ROUND'',
     literal_rule T_SIGN ''SIGN'',
     literal_rule T_SIN ''SIN'',
     literal_rule T_SQRT ''SQRT'',
     literal_rule T_SQUARE ''SQUARE'',
     literal_rule T_TAN ''TAN'',
     literal_rule T_CURRENT_TIMEZONE ''CURRENT_TIMEZONE'',
     literal_rule T_CURRENT_TIMEZONE_ID ''CURRENT_TIMEZONE_ID'',
     literal_rule T_DATE_BUCKET ''DATE_BUCKET'',
     literal_rule T_DATEDIFF_BIG ''DATEDIFF_BIG'',
     literal_rule T_DATEFROMPARTS ''DATEFROMPARTS'',
     literal_rule T_DATETIME2FROMPARTS ''DATETIME2FROMPARTS'',
     literal_rule T_DATETIMEFROMPARTS ''DATETIMEFROMPARTS'',
     literal_rule T_DATETIMEOFFSETFROMPARTS ''DATETIMEOFFSETFROMPARTS'',
     literal_rule T_DATETRUNC ''DATETRUNC'',
     literal_rule T_DAY ''DAY'',
     literal_rule T_EOMONTH ''EOMONTH'',
     literal_rule T_ISDATE ''ISDATE'',
     literal_rule T_MONTH ''MONTH'',
     literal_rule T_SMALLDATETIMEFROMPARTS ''SMALLDATETIMEFROMPARTS'',
     literal_rule T_SWITCHOFFSET ''SWITCHOFFSET'',
     literal_rule T_SYSDATETIME ''SYSDATETIME'',
     literal_rule T_SYSDATETIMEOFFSET ''SYSDATETIMEOFFSET'',
     literal_rule T_SYSUTCDATETIME ''SYSUTCDATETIME'']"

definition lexer_rules_29 :: "lexer_rule list" where
  "lexer_rules_29 = [
     literal_rule T_TIMEFROMPARTS ''TIMEFROMPARTS'',
     literal_rule T_TODATETIMEOFFSET ''TODATETIMEOFFSET'',
     literal_rule T_YEAR ''YEAR'',
     literal_rule T_QUARTER ''QUARTER'',
     literal_rule T_DAYOFYEAR ''DAYOFYEAR'',
     literal_rule T_WEEK ''WEEK'',
     literal_rule T_HOUR ''HOUR'',
     literal_rule T_MINUTE ''MINUTE'',
     literal_rule T_SECOND ''SECOND'',
     literal_rule T_MILLISECOND ''MILLISECOND'',
     literal_rule T_MICROSECOND ''MICROSECOND'',
     literal_rule T_NANOSECOND ''NANOSECOND'',
     literal_rule T_TZOFFSET ''TZOFFSET'',
     literal_rule T_ISO_WEEK ''ISO_WEEK'',
     literal_rule T_WEEKDAY ''WEEKDAY'',
     r_YEAR_ABBR,
     r_QUARTER_ABBR,
     r_MONTH_ABBR,
     r_DAYOFYEAR_ABBR,
     r_DAY_ABBR,
     r_WEEK_ABBR,
     literal_rule T_HOUR_ABBR ''hh'',
     r_MINUTE_ABBR,
     r_SECOND_ABBR,
     literal_rule T_MILLISECOND_ABBR ''ms'',
     literal_rule T_MICROSECOND_ABBR ''mcs'',
     literal_rule T_NANOSECOND_ABBR ''ns'',
     literal_rule T_TZOFFSET_ABBR ''tz'',
     r_ISO_WEEK_ABBR,
     literal_rule T_WEEKDAY_ABBR ''dw'',
     literal_rule T_SP_EXECUTESQL ''SP_EXECUTESQL'',
     literal_rule T_VARCHAR ''VARCHAR'',
     literal_rule T_NVARCHAR ''NVARCHAR'',
     r_DISK_DRIVE,
     literal_rule T_DOLLAR_ACTION ''$ACTION'',
     literal_rule T_CURSOR_ROWS ''@@CURSOR_ROWS'',
     literal_rule T_FETCH_STATUS ''@@FETCH_STATUS'',
     r_IPV4_ADDR,
     r_SPACE,
     r_COMMENT]"

definition lexer_rules_30 :: "lexer_rule list" where
  "lexer_rules_30 = [
     r_LINE_COMMENT,
     r_DOUBLE_QUOTE_ID,
     literal_rule T_DOUBLE_QUOTE_BLANK [CHR 0x22, CHR 0x22],
     literal_rule T_SINGLE_QUOTE [CHR 0x27],
     r_SQUARE_BRACKET_ID,
     r_LOCAL_ID,
     r_TEMP_ID,
     r_DECIMAL,
     r_ID,
     r_STRING,
     r_BINARY,
     r_FLOAT,
     r_REAL,
     literal_rule T_EQUAL ''='',
     literal_rule T_GREATER ''>'',
     literal_rule T_LESS ''<'',
     literal_rule T_EXCLAMATION ''!'',
     literal_rule T_PLUS_ASSIGN ''+='',
     literal_rule T_MINUS_ASSIGN ''-='',
     literal_rule T_MULT_ASSIGN ''*='',
     literal_rule T_DIV_ASSIGN ''/='',
     literal_rule T_MOD_ASSIGN ''%='',
     literal_rule T_AND_ASSIGN ''&='',
     literal_rule T_XOR_ASSIGN ''^='',
     literal_rule T_OR_ASSIGN ''|='',
     literal_rule T_DOUBLE_BAR ''||'',
     literal_rule T_DOT ''.'',
     literal_rule T_UNDERLINE ''_'',
     literal_rule T_AT ''@'',
     literal_rule T_SHARP ''#'',
     literal_rule T_DOLLAR ''$'',
     literal_rule T_LR_BRACKET ''('',
     literal_rule T_RR_BRACKET '')'',
     literal_rule T_COMMA '','',
     literal_rule T_SEMI '';'',
     literal_rule T_COLON '':'',
     literal_rule T_DOUBLE_COLON ''::'',
     literal_rule T_STAR ''*'',
     literal_rule T_DIVIDE ''/'',
     literal_rule T_MODULE ''%'']"

definition lexer_rules_31 :: "lexer_rule list" where
  "lexer_rules_31 = [
     literal_rule T_PLUS ''+'',
     literal_rule T_MINUS ''-'',
     literal_rule T_BIT_NOT ''~'',
     literal_rule T_BIT_OR ''|'',
     literal_rule T_BIT_AND ''&'',
     literal_rule T_BIT_XOR ''^'',
     literal_rule T_PLACEHOLDER ''?'']"

definition tsql_lexer :: "lexer_rule list" where
  "tsql_lexer =
     lexer_rules_1 @ lexer_rules_2 @ lexer_rules_3 @ lexer_rules_4 @ lexer_rules_5 @
     lexer_rules_6 @ lexer_rules_7 @ lexer_rules_8 @ lexer_rules_9 @ lexer_rules_10 @
     lexer_rules_11 @ lexer_rules_12 @ lexer_rules_13 @ lexer_rules_14 @ lexer_rules_15 @
     lexer_rules_16 @ lexer_rules_17 @ lexer_rules_18 @ lexer_rules_19 @ lexer_rules_20 @
     lexer_rules_21 @ lexer_rules_22 @ lexer_rules_23 @ lexer_rules_24 @ lexer_rules_25 @
     lexer_rules_26 @ lexer_rules_27 @ lexer_rules_28 @ lexer_rules_29 @ lexer_rules_30 @
     lexer_rules_31"

lemmas fragment_defs =
  f_DEC_DIGIT_def f_HEX_DIGIT_def f_LETTER_def f_DEC_DOT_DEC_def f_FullWidthLetter_def
  f_DECIMAL_def

lemmas named_rules =
  r_CONVERT_def r_DEFAULT_DOUBLE_QUOTE_def r_EXECUTE_def r_NULL_DOUBLE_QUOTE_def
  r_PARSE_def r_YEAR_ABBR_def r_QUARTER_ABBR_def r_MONTH_ABBR_def r_DAYOFYEAR_ABBR_def
  r_DAY_ABBR_def r_WEEK_ABBR_def r_MINUTE_ABBR_def r_SECOND_ABBR_def r_ISO_WEEK_ABBR_def
  r_DISK_DRIVE_def r_IPV4_ADDR_def r_SPACE_def r_COMMENT_def r_LINE_COMMENT_def
  r_DOUBLE_QUOTE_ID_def r_SQUARE_BRACKET_ID_def r_LOCAL_ID_def r_TEMP_ID_def
  r_DECIMAL_def r_ID_def r_STRING_def r_BINARY_def r_FLOAT_def r_REAL_def

lemmas tsql_lexer_table =
  tsql_lexer_def
  lexer_rules_1_def lexer_rules_2_def lexer_rules_3_def lexer_rules_4_def
  lexer_rules_5_def lexer_rules_6_def lexer_rules_7_def lexer_rules_8_def
  lexer_rules_9_def lexer_rules_10_def lexer_rules_11_def lexer_rules_12_def
  lexer_rules_13_def lexer_rules_14_def lexer_rules_15_def lexer_rules_16_def
  lexer_rules_17_def lexer_rules_18_def lexer_rules_19_def lexer_rules_20_def
  lexer_rules_21_def lexer_rules_22_def lexer_rules_23_def lexer_rules_24_def
  lexer_rules_25_def lexer_rules_26_def lexer_rules_27_def lexer_rules_28_def
  lexer_rules_29_def lexer_rules_30_def lexer_rules_31_def

end
