(* ===== verification/Char_Codes.thy ===== *)
theory Char_Codes
  imports Lexing
begin

text \<open>
  The codes of the printable ASCII characters and their two cases, as rewrite rules for the
  evaluation of lexer rules on concrete texts.
\<close>

lemma of_char_codes:
  "of_char (CHR '' '') = (0x20 :: nat)" "of_char (CHR ''!'') = (0x21 :: nat)"
  "of_char (CHR 0x22) = (0x22 :: nat)" "of_char (CHR ''#'') = (0x23 :: nat)"
  "of_char (CHR ''$'') = (0x24 :: nat)" "of_char (CHR ''%'') = (0x25 :: nat)"
  "of_char (CHR ''&'') = (0x26 :: nat)" "of_char (CHR 0x27) = (0x27 :: nat)"
  "of_char (CHR ''('') = (0x28 :: nat)" "of_char (CHR '')'') = (0x29 :: nat)"
  "of_char (CHR ''*'') = (0x2A :: nat)" "of_char (CHR ''+'') = (0x2B :: nat)"
  "of_char (CHR '','') = (0x2C :: nat)" "of_char (CHR ''-'') = (0x2D :: nat)"
  "of_char (CHR ''.'') = (0x2E :: nat)" "of_char (CHR ''/'') = (0x2F :: nat)"
  "of_char (CHR ''0'') = (0x30 :: nat)" "of_char (CHR ''1'') = (0x31 :: nat)"
  "of_char (CHR ''2'') = (0x32 :: nat)" "of_char (CHR ''3'') = (0x33 :: nat)"
  "of_char (CHR ''4'') = (0x34 :: nat)" "of_char (CHR ''5'') = (0x35 :: nat)"
  "of_char (CHR ''6'') = (0x36 :: nat)" "of_char (CHR ''7'') = (0x37 :: nat)"
  "of_char (CHR ''8'') = (0x38 :: nat)" "of_char (CHR ''9'') = (0x39 :: nat)"
  "of_char (CHR '':'') = (0x3A :: nat)" "of_char (CHR '';'') = (0x3B :: nat)"
  "of_char (CHR ''<'') = (0x3C :: nat)" "of_char (CHR ''='') = (0x3D :: nat)"
  "of_char (CHR ''>'') = (0x3E :: nat)" "of_char (CHR ''?'') = (0x3F :: nat)"
  "of_char (CHR ''@'') = (0x40 :: nat)" "of_char (CHR ''A'') = (0x41 :: nat)"
  "of_char (CHR ''B'') = (0x42 :: nat)" "of_char (CHR ''C'') = (0x43 :: nat)"
  "of_char (CHR ''D'') = (0x44 :: nat)" "of_char (CHR ''E'') = (0x45 :: nat)"
  "of_char (CHR ''F'') = (0x46 :: nat)" "of_char (CHR ''G'') = (0x47 :: nat)"
  "of_char (CHR ''H'') = (0x48 :: nat)" "of_char (CHR ''I'') = (0x49 :: nat)"
  "of_char (CHR ''J'') = (0x4A :: nat)" "of_char (CHR ''K'') = (0x4B :: nat)"
  "of_char (CHR ''L'') = (0x4C :: nat)" "of_char (CHR ''M'') = (0x4D :: nat)"
  "of_char (CHR ''N'') = (0x4E :: nat)" "of_char (CHR ''O'') = (0x4F :: nat)"
  "of_char (CHR ''P'') = (0x50 :: nat)" "of_char (CHR ''Q'') = (0x51 :: nat)"
  "of_char (CHR ''R'') = (0x52 :: nat)" "of_char (CHR ''S'') = (0x53 :: nat)"
  "of_char (CHR ''T'') = (0x54 :: nat)" "of_char (CHR ''U'') = (0x55 :: nat)"
  "of_char (CHR ''V'') = (0x56 :: nat)" "of_char (CHR ''W'') = (0x57 :: nat)"
  "of_char (CHR ''X'') = (0x58 :: nat)" "of_char (CHR ''Y'') = (0x59 :: nat)"
  "of_char (CHR ''Z'') = (0x5A :: nat)" "of_char (CHR ''['') = (0x5B :: nat)"
  "of_char (CHR 0x5C) = (0x5C :: nat)" "of_char (CHR '']'') = (0x5D :: nat)"
  "of_char (CHR ''^'') = (0x5E :: nat)" "of_char (CHR ''_'') = (0x5F :: nat)"
  "of_char (CHR 0x60) = (0x60 :: nat)" "of_char (CHR ''a'') = (0x61 :: nat)"
  "of_char (CHR ''b'') = (0x62 :: nat)" "of_char (CHR ''c'') = (0x63 :: nat)"
  "of_char (CHR ''d'') = (0x64 :: nat)" "of_char (CHR ''e'') = (0x65 :: nat)"
  "of_char (CHR ''f'') = (0x66 :: nat)" "of_char (CHR ''g'') = (0x67 :: nat)"
  "of_char (CHR ''h'') = (0x68 :: nat)" "of_char (CHR ''i'') = (0x69 :: nat)"
  "of_char (CHR ''j'') = (0x6A :: nat)" "of_char (CHR ''k'') = (0x6B :: nat)"
  "of_char (CHR ''l'') = (0x6C :: nat)" "of_char (CHR ''m'') = (0x6D :: nat)"
  "of_char (CHR ''n'') = (0x6E :: nat)" "of_char (CHR ''o'') = (0x6F :: nat)"
  "of_char (CHR ''p'') = (0x70 :: nat)" "of_char (CHR ''q'') = (0x71 :: nat)"
  "of_char (CHR ''r'') = (0x72 :: nat)" "of_char (CHR ''s'') = (0x73 :: nat)"
  "of_char (CHR ''t'') = (0x74 :: nat)" "of_char (CHR ''u'') = (0x75 :: nat)"
  "of_char (CHR ''v'') = (0x76 :: nat)" "of_char (CHR ''w'') = (0x77 :: nat)"
  "of_char (CHR ''x'') = (0x78 :: nat)" "of_char (CHR ''y'') = (0x79 :: nat)"
  "of_char (CHR ''z'') = (0x7A :: nat)" "of_char (CHR ''{'') = (0x7B :: nat)"
  "of_char (CHR ''|'') = (0x7C :: nat)" "of_char (CHR ''}'') = (0x7D :: nat)"
  "of_char (CHR ''~'') = (0x7E :: nat)"
  by simp_all

lemma upper_codes:
  "upper 0x20 = 0x20" "upper 0x21 = 0x21" "upper 0x22 = 0x22" "upper 0x23 = 0x23"
  "upper 0x24 = 0x24" "upper 0x25 = 0x25" "upper 0x26 = 0x26" "upper 0x27 = 0x27"
  "upper 0x28 = 0x28" "upper 0x29 = 0x29" "upper 0x2A = 0x2A" "upper 0x2B = 0x2B"
  "upper 0x2C = 0x2C" "upper 0x2D = 0x2D" "upper 0x2E = 0x2E" "upper 0x2F = 0x2F"
  "upper 0x30 = 0x30" "upper 0x31 = 0x31" "upper 0x32 = 0x32" "upper 0x33 = 0x33"
  "upper 0x34 = 0x34" "upper 0x35 = 0x35" "upper 0x36 = 0x36" "upper 0x37 = 0x37"
  "upper 0x38 = 0x38" "upper 0x39 = 0x39" "upper 0x3A = 0x3A" "upper 0x3B = 0x3B"
  "upper 0x3C = 0x3C" "upper 0x3D = 0x3D" "upper 0x3E = 0x3E" "upper 0x3F = 0x3F"
  "upper 0x40 = 0x40" "upper 0x41 = 0x41" "upper 0x42 = 0x42" "upper 0x43 = 0x43"
  "upper 0x44 = 0x44" "upper 0x45 = 0x45" "upper 0x46 = 0x46" "upper 0x47 = 0x47"
  "upper 0x48 = 0x48" "upper 0x49 = 0x49" "upper 0x4A = 0x4A" "upper 0x4B = 0x4B"
  "upper 0x4C = 0x4C" "upper 0x4D = 0x4D" "upper 0x4E = 0x4E" "upper 0x4F = 0x4F"
  "upper 0x50 = 0x50" "upper 0x51 = 0x51" "upper 0x52 = 0x52" "upper 0x53 = 0x53"
  "upper 0x54 = 0x54" "upper 0x55 = 0x55" "upper 0x56 = 0x56" "upper 0x57 = 0x57"
  "upper 0x58 = 0x58" "upper 0x59 = 0x59" "upper 0x5A = 0x5A" "upper 0x5B = 0x5B"
  "upper 0x5C = 0x5C" "upper 0x5D = 0x5D" "upper 0x5E = 0x5E" "upper 0x5F = 0x5F"
  "upper 0x60 = 0x60" "upper 0x61 = 0x41" "upper 0x62 = 0x42" "upper 0x63 = 0x43"
  "upper 0x64 = 0x44" "upper 0x65 = 0x45" "upper 0x66 = 0x46" "upper 0x67 = 0x47"
  "upper 0x68 = 0x48" "upper 0x69 = 0x49" "upper 0x6A = 0x4A" "upper 0x6B = 0x4B"
  "upper 0x6C = 0x4C" "upper 0x6D = 0x4D" "upper 0x6E = 0x4E" "upper 0x6F = 0x4F"
  "upper 0x70 = 0x50" "upper 0x71 = 0x51" "upper 0x72 = 0x52" "upper 0x73 = 0x53"
  "upper 0x74 = 0x54" "upper 0x75 = 0x55" "upper 0x76 = 0x56" "upper 0x77 = 0x57"
  "upper 0x78 = 0x58" "upper 0x79 = 0x59" "upper 0x7A = 0x5A" "upper 0x7B = 0x7B"
  "upper 0x7C = 0x7C" "upper 0x7D = 0x7D" "upper 0x7E = 0x7E"
  by (simp_all add: upper_def)

lemma lower_codes:
  "lower 0x20 = 0x20" "lower 0x21 = 0x21" "lower 0x22 = 0x22" "lower 0x23 = 0x23"
  "lower 0x24 = 0x24" "lower 0x25 = 0x25" "lower 0x26 = 0x26" "lower 0x27 = 0x27"
  "lower 0x28 = 0x28" "lower 0x29 = 0x29" "lower 0x2A = 0x2A" "lower 0x2B = 0x2B"
  "lower 0x2C = 0x2C" "lower 0x2D = 0x2D" "lower 0x2E = 0x2E" "lower 0x2F = 0x2F"
  "lower 0x30 = 0x30" "lower 0x31 = 0x31" "lower 0x32 = 0x32" "lower 0x33 = 0x33"
  "lower 0x34 = 0x34" "lower 0x35 = 0x35" "lower 0x36 = 0x36" "lower 0x37 = 0x37"
  "lower 0x38 = 0x38" "lower 0x39 = 0x39" "lower 0x3A = 0x3A" "lower 0x3B = 0x3B"
  "lower 0x3C = 0x3C" "lower 0x3D = 0x3D" "lower 0x3E = 0x3E" "lower 0x3F = 0x3F"
  "lower 0x40 = 0x40" "lower 0x41 = 0x61" "lower 0x42 = 0x62" "lower 0x43 = 0x63"
  "lower 0x44 = 0x64" "lower 0x45 = 0x65" "lower 0x46 = 0x66" "lower 0x47 = 0x67"
  "lower 0x48 = 0x68" "lower 0x49 = 0x69" "lower 0x4A = 0x6A" "lower 0x4B = 0x6B"
  "lower 0x4C = 0x6C" "lower 0x4D = 0x6D" "lower 0x4E = 0x6E" "lower 0x4F = 0x6F"
  "lower 0x50 = 0x70" "lower 0x51 = 0x71" "lower 0x52 = 0x72" "lower 0x53 = 0x73"
  "lower 0x54 = 0x74" "lower 0x55 = 0x75" "lower 0x56 = 0x76" "lower 0x57 = 0x77"
  "lower 0x58 = 0x78" "lower 0x59 = 0x79" "lower 0x5A = 0x7A" "lower 0x5B = 0x5B"
  "lower 0x5C = 0x5C" "lower 0x5D = 0x5D" "lower 0x5E = 0x5E" "lower 0x5F = 0x5F"
  "lower 0x60 = 0x60" "lower 0x61 = 0x61" "lower 0x62 = 0x62" "lower 0x63 = 0x63"
  "lower 0x64 = 0x64" "lower 0x65 = 0x65" "lower 0x66 = 0x66" "lower 0x67 = 0x67"
  "lower 0x68 = 0x68" "lower 0x69 = 0x69" "lower 0x6A = 0x6A" "lower 0x6B = 0x6B"
  "lower 0x6C = 0x6C" "lower 0x6D = 0x6D" "lower 0x6E = 0x6E" "lower 0x6F = 0x6F"
  "lower 0x70 = 0x70" "lower 0x71 = 0x71" "lower 0x72 = 0x72" "lower 0x73 = 0x73"
  "lower 0x74 = 0x74" "lower 0x75 = 0x75" "lower 0x76 = 0x76" "lower 0x77 = 0x77"
  "lower 0x78 = 0x78" "lower 0x79 = 0x79" "lower 0x7A = 0x7A" "lower 0x7B = 0x7B"
  "lower 0x7C = 0x7C" "lower 0x7D = 0x7D" "lower 0x7E = 0x7E"
  by (simp_all add: lower_def)

lemma upper_blanks: "upper 9 = 9" "upper 10 = 10" "upper 13 = 13"
  and lower_blanks: "lower 9 = 9" "lower 10 = 10" "lower 13 = 13"
  by (simp_all add: upper_def lower_def)

lemmas char_eval = of_char_codes upper_codes lower_codes upper_blanks lower_blanks

end
