(* ===== verification/Lexer_Eval.thy ===== *)
theory Lexer_Eval
  imports Literals Lexer_Rules Char_Codes Conforming
begin

text \<open>
  The equations that evaluate the checks of \<open>Scanning\<close> and \<open>Literals\<close> on the rules of the lexer.
  Lists and texts are unfolded one element at a time, when a function inspects them.
\<close>

lemma rule_select [simp]:
  "token_type (literal_rule t s) = t" "pattern (literal_rule t s) = Lit s" "on_hidden (literal_rule t s) = False"
  "token_type (token_rule t e) = t" "pattern (token_rule t e) = e" "on_hidden (token_rule t e) = False"
  "token_type (hidden_rule t e) = t" "pattern (hidden_rule t e) = e" "on_hidden (hidden_rule t e) = True"
  by (simp_all add: literal_rule_def token_rule_def hidden_rule_def)

lemmas rule_eval = rule_select named_rules fragment_defs Some_More_def

text \<open>The tables are concatenations of short lists, which are unfolded one at a time.\<close>

lemma append_opaque: "xs = xs' \<Longrightarrow> xs @ ys = xs' @ ys"
  by simp

lemmas lexer_opaque = opaque(1-2) case_opaque append_opaque

lemmas num_eval = numeral_eq_iff one_eq_numeral_iff numeral_eq_one_iff num.inject num.distinct Num.BitM.simps pred_numeral_simps
  numeral_le_iff numeral_less_iff le_num_simps less_num_simps le0

lemmas list_eval = list.map map_append append_assoc append.simps list.case list.distinct option.case
  prod.sel simp_thms if_True if_False list.pred_inject

section \<open>Distinct literals\<close>

lemma key_eval: "key [] = []" "key (c # cs) = upper (of_char c) # key cs"
  by (simp_all add: key_def codes_def)

lemma literals_append [simp]: "literals (rs @ rs') = literals rs @ literals rs'"
  by (induction rs) (auto split: option.splits)

lemma tails_eval:
  "tails [] = []"
  "tails (z # xss) = (case z of [] \<Rightarrow> tails xss | x # xs \<Rightarrow> put_tail x xs (tails xss))"
  by (simp_all split: list.split)

lemma put_tail_eval:
  "put_tail x xs [] = [(x, [xs])]"
  "put_tail x xs (b # bs) = (if x = fst b then (x, xs # snd b) # bs else b # put_tail x xs bs)"
  by (cases b; simp)+

lemma at_most_one_empty_eval:
  "at_most_one_empty [] = True"
  "at_most_one_empty (z # xss) = (case z of [] \<Rightarrow> list_all (\<lambda>xs. xs \<noteq> []) xss | x # xs \<Rightarrow> at_most_one_empty xss)"
  by (simp_all split: list.split)

lemma all_distinct_eval:
  "all_distinct n [] = True"
  "all_distinct (numeral k) (xs # xss) = (case xss of [] \<Rightarrow> True | ys # yss \<Rightarrow>
     at_most_one_empty (xs # ys # yss)
     \<and> list_all (\<lambda>b. all_distinct (pred_numeral k) (snd b)) (tails (xs # ys # yss)))"
  by (simp_all add: numeral_eq_Suc split: list.split)

lemma filter_head_eval:
  "filter (head_in a b) [] = []"
  "filter (head_in a b) (key s # xss) =
     (if head_in a b (key s) then key s # filter (head_in a b) xss else filter (head_in a b) xss)"
  by simp_all

lemmas distinct_eval = all_distinct_eval tails_eval put_tail_eval at_most_one_empty_eval filter_head_eval
  head_in.simps literals.simps literals_append literal_of.simps key_eval list_eval num_eval

section \<open>Rules that cannot match a literal\<close>

lemma avoids_eval:
  "avoids q [] = True"
  "avoids q (c # cs) =
     (if if starts (pattern q) (upper (of_char c)) then True else starts (pattern q) (lower (of_char c))
      then if list_all (\<lambda>x. upper x = lower x) (codes (c # cs)) then rule_rest q (codes (c # cs)) \<noteq> Some []
        else greedy q \<and> caseless (pattern q) \<and> \<not> spells (pattern q) (codes (c # cs))
      else True)"
  by (simp_all add: avoids_def codes_def)

lemma clear_eval:
  "clear dead [] = True"
  "clear dead (q # rs) = (case literal_of (pattern q) of
       None \<Rightarrow> list_all (\<lambda>r. case literal_of (pattern r) of None \<Rightarrow> True
         | Some s \<Rightarrow> if avoids q s then True else list_ex (\<lambda>t. token_type r = t) dead) rs \<and> clear dead rs
     | Some s \<Rightarrow> clear dead rs)"
  by (auto simp: list_all_iff list_ex_iff split: option.splits)

lemma list_all_append_eval: "list_all P (xs @ ys) = (list_all P xs \<and> list_all P ys)"
  by simp

lemma codes_eval: "codes [] = []" "codes (c # cs) = of_char c # codes cs"
  by (simp_all add: codes_def)

lemma strip_eval: 
  "strip f [] xs = Some xs"
  "strip f (c # cs) xs = (case xs of [] \<Rightarrow> None | x # ys \<Rightarrow> if f x = f (of_char c) then strip f cs ys else None)"
  by (simp_all split: list.split)

lemma in_chars_eval:
  "in_chars rs x = (if in_ranges rs x then True else if in_ranges rs (upper x) then True else in_ranges rs (lower x))"
  by (simp add: in_chars_def)

lemmas match_eval = leftovers.simps strip_eval starts.simps empties.simps in_chars_eval in_ranges.simps
  rule_rest_def Let_def concat.simps filter.simps shortest.simps first.simps lazy.simps list_ex_simps_eval
  length_Cons list.size(3) Suc_less_eq option.inject option.distinct zero_less_Suc not_less0 id_apply codes_eval list_eval num_eval

lemmas clear_all_eval = clear_eval avoids_eval literal_of.simps list_all_append_eval caseless.simps
  greedy_def plain.simps spells_def match_eval

section \<open>The rules of a text\<close>

lemma find_eval:
  "find P [] = None" "find P (x # xs) = (if P x then Some x else find P xs)"
  by simp_all

lemma find_append_eval: "find P ((x # xs) @ ys) = find P (x # (xs @ ys))"
  by simp

lemma whole_eval: "whole (x # xs) r = (if starts (pattern r) x then rule_rest r (x # xs) = Some [] else False)"
  by (simp add: whole_def)

lemma filter_eval:
  "filter P [] = []" "filter P (x # xs) = (if P x then x # filter P xs else filter P xs)"
  by simp_all

end
