(* ===== verification/TSql_Vocabulary.thy ===== *)
theory TSql_Vocabulary
  imports Lexer_Tables Parser_Tables Lexer_Eval TSql_API
begin

text \<open>
  The numbers the generated files agree on: token types between lexer, parser and grammar,
  and rule indices between the enumeration, the forward declarations and the classes.
\<close>

section \<open>Comparing tables\<close>

text \<open>Are two lists equal?  Both are consumed step by step.\<close>

fun same :: "'a list \<Rightarrow> 'a list \<Rightarrow> bool" where
  "same [] ys = (ys = [])"
| "same (x # xs) ys = (case ys of [] \<Rightarrow> False | y # zs \<Rightarrow> if x = y then same xs zs else False)"

lemma same_iff: "same xs ys \<longleftrightarrow> xs = ys"
  by (induction xs arbitrary: ys) (auto split: list.split)

text \<open>Numbers that count up from one number to another.\<close>

fun counts :: "('a::semiring_1) \<Rightarrow> 'a \<Rightarrow> 'a list \<Rightarrow> bool" where
  "counts n m [] = (n = m)"
| "counts n m (x # xs) = (if x = n then counts (n + 1) m xs else False)"

lemma counts_nth: "counts n m xs \<Longrightarrow> i < length xs \<Longrightarrow> xs ! i = n + of_nat i"
proof (induction n m xs arbitrary: i rule: counts.induct)
  case (2 n m x xs)
  then show ?case by (cases i) (auto simp: add.assoc split: if_splits)
qed simp

lemma counts_length: "counts n m xs \<Longrightarrow> m = n + of_nat (length xs)"
  by (induction n m xs rule: counts.induct) (auto simp: algebra_simps split: if_splits)

lemma counts_nat:
  assumes "counts 0 m xs"
  shows "xs = [0..<m]"
  using counts_length [OF assms] counts_nth [OF assms] by (intro nth_equalityI) simp_all

text \<open>\<open>RuleX\<close> and \<open>XContext\<close>.\<close>

fun rule_name :: "string \<Rightarrow> string" where
  "rule_name (a # b # c # d # x) = (if [a, b, c, d] = ''Rule'' then x else [])"
| "rule_name x = []"

text \<open>The forward declarations of the classes of an enumeration of rules.\<close>

fun forwards :: "(string \<times> rule_id) list \<Rightarrow> string list \<Rightarrow> bool" where
  "forwards [] fs = (fs = [])"
| "forwards ((x, r) # es) fs = (case fs of [] \<Rightarrow> False
     | f # gs \<Rightarrow> if same (rule_name x @ ''Context'') f then forwards es gs else False)"

lemma forwards_iff: "forwards es fs \<longleftrightarrow> fs = map (\<lambda>e. rule_name (fst e) @ ''Context'') es"
  by (induction es fs rule: forwards.induct) (auto simp: same_iff split: list.splits)

lemmas rule_names_table =
  rule_names_def
  rule_names_1_def rule_names_2_def rule_names_3_def rule_names_4_def rule_names_5_def
  rule_names_6_def rule_names_7_def rule_names_8_def rule_names_9_def rule_names_10_def
  rule_names_11_def rule_names_12_def rule_names_13_def rule_names_14_def rule_names_15_def
  rule_names_16_def rule_names_17_def rule_names_18_def rule_names_19_def

lemmas symbolic_names_table =
  symbolic_names_def
  symbolic_names_1_def symbolic_names_2_def symbolic_names_3_def symbolic_names_4_def
  symbolic_names_5_def symbolic_names_6_def symbolic_names_7_def symbolic_names_8_def
  symbolic_names_9_def symbolic_names_10_def symbolic_names_11_def symbolic_names_12_def
  symbolic_names_13_def symbolic_names_14_def symbolic_names_15_def symbolic_names_16_def
  symbolic_names_17_def symbolic_names_18_def symbolic_names_19_def

lemmas lexer_enum_table =
  lexer_enum_def
  lexer_enum_1_def lexer_enum_2_def lexer_enum_3_def lexer_enum_4_def lexer_enum_5_def
  lexer_enum_6_def lexer_enum_7_def lexer_enum_8_def lexer_enum_9_def lexer_enum_10_def
  lexer_enum_11_def lexer_enum_12_def lexer_enum_13_def lexer_enum_14_def lexer_enum_15_def
  lexer_enum_16_def lexer_enum_17_def lexer_enum_18_def lexer_enum_19_def lexer_enum_20_def
  lexer_enum_21_def lexer_enum_22_def lexer_enum_23_def

lemmas parser_enum_table =
  parser_enum_def
  parser_enum_1_def parser_enum_2_def parser_enum_3_def parser_enum_4_def parser_enum_5_def
  parser_enum_6_def parser_enum_7_def parser_enum_8_def parser_enum_9_def parser_enum_10_def
  parser_enum_11_def parser_enum_12_def parser_enum_13_def parser_enum_14_def
  parser_enum_15_def parser_enum_16_def parser_enum_17_def parser_enum_18_def
  parser_enum_19_def parser_enum_20_def parser_enum_21_def parser_enum_22_def
  parser_enum_23_def

lemmas rule_enum_table =
  rule_enum_def
  rule_enum_1_def rule_enum_2_def rule_enum_3_def rule_enum_4_def rule_enum_5_def
  rule_enum_6_def rule_enum_7_def rule_enum_8_def rule_enum_9_def rule_enum_10_def
  rule_enum_11_def rule_enum_12_def rule_enum_13_def rule_enum_14_def rule_enum_15_def
  rule_enum_16_def rule_enum_17_def rule_enum_18_def rule_enum_19_def

lemmas forward_classes_table =
  forward_classes_def
  forward_classes_1_def forward_classes_2_def forward_classes_3_def forward_classes_4_def
  forward_classes_5_def forward_classes_6_def forward_classes_7_def forward_classes_8_def
  forward_classes_9_def forward_classes_10_def forward_classes_11_def forward_classes_12_def
  forward_classes_13_def forward_classes_14_def forward_classes_15_def
  forward_classes_16_def forward_classes_17_def forward_classes_18_def
  forward_classes_19_def forward_classes_20_def forward_classes_21_def
  forward_classes_22_def forward_classes_23_def forward_classes_24_def
  forward_classes_25_def forward_classes_26_def forward_classes_27_def
  forward_classes_28_def forward_classes_29_def forward_classes_30_def
  forward_classes_31_def forward_classes_32_def forward_classes_33_def
  forward_classes_34_def forward_classes_35_def forward_classes_36_def
  forward_classes_37_def forward_classes_38_def forward_classes_39_def
  forward_classes_40_def forward_classes_41_def forward_classes_42_def
  forward_classes_43_def forward_classes_44_def forward_classes_45_def
  forward_classes_46_def forward_classes_47_def forward_classes_48_def
  forward_classes_49_def forward_classes_50_def forward_classes_51_def

lemmas vocabulary_eval = same.simps counts.simps list.map map_append append_assoc list.case prod.sel append.simps
  list.distinct if_True if_False simp_thms add_num_simps
  one_add_one numeral_plus_one add_0_left

lemma symbolic_names_eq: "symbolic_names = [] # map fst lexer_enum"
  unfolding same_iff [symmetric]
  by (simp only: vocabulary_eval symbolic_names_table
      lexer_enum_table cong: opaque(3) lexer_opaque)

lemma parser_enum_eq: "parser_enum = lexer_enum"
  unfolding same_iff [symmetric]
  by (simp only: vocabulary_eval parser_enum_table
      lexer_enum_table cong: opaque(3) lexer_opaque)

lemma rule_names_eq:
  "rule_names = map fst lexer_enum @ [''LETTER'', ''DEC_DOT_DEC'', ''HEX_DIGIT'', ''DEC_DIGIT'', ''FullWidthLetter'']"
  unfolding same_iff [symmetric]
  by (simp only: vocabulary_eval rule_names_table
      lexer_enum_table cong: opaque(3) lexer_opaque)

lemma lexer_enum_counts: "counts 1 1208 (map snd lexer_enum)"
  by (simp only: vocabulary_eval lexer_enum_table cong: lexer_opaque)

lemma rule_enum_counts: "counts 0 612 (map snd rule_enum)"
  by (simp only: vocabulary_eval rule_enum_table cong: lexer_opaque)

lemma forward_classes_ok: "forwards rule_enum forward_classes"
  by (simp only: vocabulary_eval list.inject forwards.simps rule_name.simps
      rule_enum_table forward_classes_table cong: opaque(3) lexer_opaque)

lemma lexer_enum_length: "length lexer_enum = 1207"
  using counts_length [OF lexer_enum_counts] by simp

lemma lexer_enum_number:
  assumes "(x, t) \<in> set lexer_enum"
  obtains i where "i < 1207" "lexer_enum ! i = (x, t)" "t = int i + 1"
proof -
  from assms obtain i where "i < length lexer_enum" "lexer_enum ! i = (x, t)"
    by (auto simp: in_set_conv_nth)
  moreover from this have "t = int i + 1"
    using counts_nth [OF lexer_enum_counts, of i] by simp
  ultimately show thesis using that lexer_enum_length by auto
qed

section \<open>Token types\<close>

text \<open>
  C32: The lexer and the parser number the token types alike, and the numbers index the name
  tables of the lexer: the symbolic name of a token type is its enumerator, and so is the name
  of its lexer rule.
\<close>

theorem token_numbers_agree:
  assumes "(x, t) \<in> set lexer_enum"
  shows "(x, t) \<in> set parser_enum \<and> 1 \<le> t \<and> t \<le> 1207
    \<and> symbolic_names ! nat t = x \<and> rule_names ! (nat t - 1) = x"
proof -
  obtain i where i: "i < 1207" "lexer_enum ! i = (x, t)" "t = int i + 1"
    using lexer_enum_number [OF assms] .
  then have "nat t = Suc i" by simp
  with i assms show ?thesis
    by (simp add: parser_enum_eq symbolic_names_eq rule_names_eq nth_append lexer_enum_length)
qed

theorem token_numbers_agree_witness:
  "(''ABORT'', 1) \<in> set parser_enum \<and> (1::int) \<le> 1 \<and> (1::int) \<le> 1207
    \<and> symbolic_names ! nat 1 = ''ABORT'' \<and> rule_names ! (nat 1 - 1) = ''ABORT''"
  by (rule token_numbers_agree) (simp add: lexer_enum_def lexer_enum_1_def)

section \<open>Rule indices\<close>

lemma class_ids_cover:
  "class_ids_are cs rs ls \<Longrightarrow> RuleContext ` set rs \<subseteq> class_id ` set cs"
proof (induction cs rs ls rule: class_ids_are.induct)
  case (2 c cs rs ls)
  then show ?case by (cases "class_id c") (auto split: list.splits if_splits)
qed auto

lemma rule_indices_set:
  "set ((0 # 1 # [2..<141]) @ [141..<237] @ [237..<365] @ [365..<488] @ [488..<527] @ [527..<612]) = {..<612}"
  by (auto simp del: upt_rec_numeral)

lemma rule_class_iff: "(\<exists>c \<in> set tsql_classes. class_id c = RuleContext r) \<longleftrightarrow> r < 612"
proof
  assume "\<exists>c \<in> set tsql_classes. class_id c = RuleContext r"
  then obtain c where c: "c \<in> set tsql_classes" "class_id c = RuleContext r" by blast
  from class_ids_mem [OF tsql_class_ids c(1), unfolded c(2) rule_indices_set]
  show "r < 612" by (elim UnE imageE) simp_all
next
  assume "r < 612"
  then have "RuleContext r \<in> class_id ` set tsql_classes"
    using class_ids_cover [OF tsql_class_ids, unfolded rule_indices_set] by blast
  then show "\<exists>c \<in> set tsql_classes. class_id c = RuleContext r" by auto
qed

end
