(* ===== verification/Function_Table.thy ===== *)
theory Function_Table
  imports Contexts Rule_Ids
begin

text \<open>
  The functions of the parser as \<open>port/cpp/TSqlParser.h\<close> declares them, in order: one for every
  rule, which returns a node of the class of the rule, and an overload that takes a precedence for
  some of them.  Their bodies are in \<open>TSqlParser.cpp\<close>.
\<close>

datatype parser_function = Rule_Function class_id string | Precedence_Function class_id string

fun returns :: "parser_function \<Rightarrow> class_id" where
  "returns (Rule_Function c f) = c"
| "returns (Precedence_Function c f) = c"

fun function_name :: "parser_function \<Rightarrow> string" where
  "function_name (Rule_Function c f) = f"
| "function_name (Precedence_Function c f) = f"

fun takes_precedence :: "parser_function \<Rightarrow> bool" where
  "takes_precedence (Rule_Function c f) = False"
| "takes_precedence (Precedence_Function c f) = True"

named_theorems declared_functions \<open>the defining equations of the functions of TSqlParser.h\<close>

definition tsql_file_function :: parser_function where [declared_functions]:
  "tsql_file_function = Rule_Function (RuleContext RuleTsql_file) ''tsql_file''"

definition batch_function :: parser_function where [declared_functions]:
  "batch_function = Rule_Function (RuleContext RuleBatch) ''batch''"

definition batch_level_statement_function :: parser_function where [declared_functions]:
  "batch_level_statement_function = Rule_Function (RuleContext RuleBatch_level_statement) ''batch_level_statement''"

definition sql_clauses_function :: parser_function where [declared_functions]:
  "sql_clauses_function = Rule_Function (RuleContext RuleSql_clauses) ''sql_clauses''"

definition dml_clause_function :: parser_function where [declared_functions]:
  "dml_clause_function = Rule_Function (RuleContext RuleDml_clause) ''dml_clause''"

definition ddl_clause_function :: parser_function where [declared_functions]:
  "ddl_clause_function = Rule_Function (RuleContext RuleDdl_clause) ''ddl_clause''"

definition backup_statement_function :: parser_function where [declared_functions]:
  "backup_statement_function = Rule_Function (RuleContext RuleBackup_statement) ''backup_statement''"

definition cfl_statement_function :: parser_function where [declared_functions]:
  "cfl_statement_function = Rule_Function (RuleContext RuleCfl_statement) ''cfl_statement''"

definition block_statement_function :: parser_function where [declared_functions]:
  "block_statement_function = Rule_Function (RuleContext RuleBlock_statement) ''block_statement''"

definition break_statement_function :: parser_function where [declared_functions]:
  "break_statement_function = Rule_Function (RuleContext RuleBreak_statement) ''break_statement''"

definition continue_statement_function :: parser_function where [declared_functions]:
  "continue_statement_function = Rule_Function (RuleContext RuleContinue_statement) ''continue_statement''"

definition goto_statement_function :: parser_function where [declared_functions]:
  "goto_statement_function = Rule_Function (RuleContext RuleGoto_statement) ''goto_statement''"

definition return_statement_function :: parser_function where [declared_functions]:
  "return_statement_function = Rule_Function (RuleContext RuleReturn_statement) ''return_statement''"

definition if_statement_function :: parser_function where [declared_functions]:
  "if_statement_function = Rule_Function (RuleContext RuleIf_statement) ''if_statement''"

definition throw_statement_function :: parser_function where [declared_functions]:
  "throw_statement_function = Rule_Function (RuleContext RuleThrow_statement) ''throw_statement''"

definition throw_error_number_function :: parser_function where [declared_functions]:
  "throw_error_number_function = Rule_Function (RuleContext RuleThrow_error_number) ''throw_error_number''"

definition throw_message_function :: parser_function where [declared_functions]:
  "throw_message_function = Rule_Function (RuleContext RuleThrow_message) ''throw_message''"

definition throw_state_function :: parser_function where [declared_functions]:
  "throw_state_function = Rule_Function (RuleContext RuleThrow_state) ''throw_state''"

definition try_catch_statement_function :: parser_function where [declared_functions]:
  "try_catch_statement_function = Rule_Function (RuleContext RuleTry_catch_statement) ''try_catch_statement''"

definition waitfor_statement_function :: parser_function where [declared_functions]:
  "waitfor_statement_function = Rule_Function (RuleContext RuleWaitfor_statement) ''waitfor_statement''"

definition while_statement_function :: parser_function where [declared_functions]:
  "while_statement_function = Rule_Function (RuleContext RuleWhile_statement) ''while_statement''"

definition print_statement_function :: parser_function where [declared_functions]:
  "print_statement_function = Rule_Function (RuleContext RulePrint_statement) ''print_statement''"

definition raiseerror_statement_function :: parser_function where [declared_functions]:
  "raiseerror_statement_function = Rule_Function (RuleContext RuleRaiseerror_statement) ''raiseerror_statement''"

definition empty_statement_function :: parser_function where [declared_functions]:
  "empty_statement_function = Rule_Function (RuleContext RuleEmpty_statement) ''empty_statement''"

definition another_statement_function :: parser_function where [declared_functions]:
  "another_statement_function = Rule_Function (RuleContext RuleAnother_statement) ''another_statement''"

definition alter_application_role_function :: parser_function where [declared_functions]:
  "alter_application_role_function = Rule_Function (RuleContext RuleAlter_application_role) ''alter_application_role''"

definition alter_xml_schema_collection_function :: parser_function where [declared_functions]:
  "alter_xml_schema_collection_function = Rule_Function (RuleContext RuleAlter_xml_schema_collection) ''alter_xml_schema_collection''"

definition create_application_role_function :: parser_function where [declared_functions]:
  "create_application_role_function = Rule_Function (RuleContext RuleCreate_application_role) ''create_application_role''"

definition drop_aggregate_function :: parser_function where [declared_functions]:
  "drop_aggregate_function = Rule_Function (RuleContext RuleDrop_aggregate) ''drop_aggregate''"

definition drop_application_role_function :: parser_function where [declared_functions]:
  "drop_application_role_function = Rule_Function (RuleContext RuleDrop_application_role) ''drop_application_role''"

definition alter_assembly_function :: parser_function where [declared_functions]:
  "alter_assembly_function = Rule_Function (RuleContext RuleAlter_assembly) ''alter_assembly''"

definition alter_assembly_start_function :: parser_function where [declared_functions]:
  "alter_assembly_start_function = Rule_Function (RuleContext RuleAlter_assembly_start) ''alter_assembly_start''"

definition alter_assembly_clause_function :: parser_function where [declared_functions]:
  "alter_assembly_clause_function = Rule_Function (RuleContext RuleAlter_assembly_clause) ''alter_assembly_clause''"

definition alter_assembly_from_clause_function :: parser_function where [declared_functions]:
  "alter_assembly_from_clause_function = Rule_Function (RuleContext RuleAlter_assembly_from_clause) ''alter_assembly_from_clause''"

definition alter_assembly_from_clause_start_function :: parser_function where [declared_functions]:
  "alter_assembly_from_clause_start_function = Rule_Function (RuleContext RuleAlter_assembly_from_clause_start) ''alter_assembly_from_clause_start''"

definition alter_assembly_drop_clause_function :: parser_function where [declared_functions]:
  "alter_assembly_drop_clause_function = Rule_Function (RuleContext RuleAlter_assembly_drop_clause) ''alter_assembly_drop_clause''"

definition alter_assembly_drop_multiple_files_function :: parser_function where [declared_functions]:
  "alter_assembly_drop_multiple_files_function = Rule_Function (RuleContext RuleAlter_assembly_drop_multiple_files) ''alter_assembly_drop_multiple_files''"

definition alter_assembly_drop_function :: parser_function where [declared_functions]:
  "alter_assembly_drop_function = Rule_Function (RuleContext RuleAlter_assembly_drop) ''alter_assembly_drop''"

definition alter_assembly_add_clause_function :: parser_function where [declared_functions]:
  "alter_assembly_add_clause_function = Rule_Function (RuleContext RuleAlter_assembly_add_clause) ''alter_assembly_add_clause''"

definition alter_asssembly_add_clause_start_function :: parser_function where [declared_functions]:
  "alter_asssembly_add_clause_start_function = Rule_Function (RuleContext RuleAlter_asssembly_add_clause_start) ''alter_asssembly_add_clause_start''"

definition alter_assembly_client_file_clause_function :: parser_function where [declared_functions]:
  "alter_assembly_client_file_clause_function = Rule_Function (RuleContext RuleAlter_assembly_client_file_clause) ''alter_assembly_client_file_clause''"

definition alter_assembly_file_name_function :: parser_function where [declared_functions]:
  "alter_assembly_file_name_function = Rule_Function (RuleContext RuleAlter_assembly_file_name) ''alter_assembly_file_name''"

definition alter_assembly_file_bits_function :: parser_function where [declared_functions]:
  "alter_assembly_file_bits_function = Rule_Function (RuleContext RuleAlter_assembly_file_bits) ''alter_assembly_file_bits''"

definition alter_assembly_as_function :: parser_function where [declared_functions]:
  "alter_assembly_as_function = Rule_Function (RuleContext RuleAlter_assembly_as) ''alter_assembly_as''"

definition alter_assembly_with_clause_function :: parser_function where [declared_functions]:
  "alter_assembly_with_clause_function = Rule_Function (RuleContext RuleAlter_assembly_with_clause) ''alter_assembly_with_clause''"

definition alter_assembly_with_function :: parser_function where [declared_functions]:
  "alter_assembly_with_function = Rule_Function (RuleContext RuleAlter_assembly_with) ''alter_assembly_with''"

definition client_assembly_specifier_function :: parser_function where [declared_functions]:
  "client_assembly_specifier_function = Rule_Function (RuleContext RuleClient_assembly_specifier) ''client_assembly_specifier''"

definition assembly_option_function :: parser_function where [declared_functions]:
  "assembly_option_function = Rule_Function (RuleContext RuleAssembly_option) ''assembly_option''"

definition assembly_option_precedence_function :: parser_function where [declared_functions]:
  "assembly_option_precedence_function = Precedence_Function (RuleContext RuleAssembly_option) ''assembly_option''"

definition network_file_share_function :: parser_function where [declared_functions]:
  "network_file_share_function = Rule_Function (RuleContext RuleNetwork_file_share) ''network_file_share''"

definition network_computer_function :: parser_function where [declared_functions]:
  "network_computer_function = Rule_Function (RuleContext RuleNetwork_computer) ''network_computer''"

definition network_file_start_function :: parser_function where [declared_functions]:
  "network_file_start_function = Rule_Function (RuleContext RuleNetwork_file_start) ''network_file_start''"

definition file_path_function :: parser_function where [declared_functions]:
  "file_path_function = Rule_Function (RuleContext RuleFile_path) ''file_path''"

definition file_directory_path_separator_function :: parser_function where [declared_functions]:
  "file_directory_path_separator_function = Rule_Function (RuleContext RuleFile_directory_path_separator) ''file_directory_path_separator''"

definition local_file_function :: parser_function where [declared_functions]:
  "local_file_function = Rule_Function (RuleContext RuleLocal_file) ''local_file''"

definition local_drive_function :: parser_function where [declared_functions]:
  "local_drive_function = Rule_Function (RuleContext RuleLocal_drive) ''local_drive''"

definition multiple_local_files_function :: parser_function where [declared_functions]:
  "multiple_local_files_function = Rule_Function (RuleContext RuleMultiple_local_files) ''multiple_local_files''"

definition multiple_local_file_start_function :: parser_function where [declared_functions]:
  "multiple_local_file_start_function = Rule_Function (RuleContext RuleMultiple_local_file_start) ''multiple_local_file_start''"

definition create_assembly_function :: parser_function where [declared_functions]:
  "create_assembly_function = Rule_Function (RuleContext RuleCreate_assembly) ''create_assembly''"

definition drop_assembly_function :: parser_function where [declared_functions]:
  "drop_assembly_function = Rule_Function (RuleContext RuleDrop_assembly) ''drop_assembly''"

definition alter_asymmetric_key_function :: parser_function where [declared_functions]:
  "alter_asymmetric_key_function = Rule_Function (RuleContext RuleAlter_asymmetric_key) ''alter_asymmetric_key''"

definition alter_asymmetric_key_start_function :: parser_function where [declared_functions]:
  "alter_asymmetric_key_start_function = Rule_Function (RuleContext RuleAlter_asymmetric_key_start) ''alter_asymmetric_key_start''"

definition asymmetric_key_option_function :: parser_function where [declared_functions]:
  "asymmetric_key_option_function = Rule_Function (RuleContext RuleAsymmetric_key_option) ''asymmetric_key_option''"

definition asymmetric_key_option_start_function :: parser_function where [declared_functions]:
  "asymmetric_key_option_start_function = Rule_Function (RuleContext RuleAsymmetric_key_option_start) ''asymmetric_key_option_start''"

definition asymmetric_key_password_change_option_function :: parser_function where [declared_functions]:
  "asymmetric_key_password_change_option_function = Rule_Function (RuleContext RuleAsymmetric_key_password_change_option) ''asymmetric_key_password_change_option''"

definition create_asymmetric_key_function :: parser_function where [declared_functions]:
  "create_asymmetric_key_function = Rule_Function (RuleContext RuleCreate_asymmetric_key) ''create_asymmetric_key''"

definition drop_asymmetric_key_function :: parser_function where [declared_functions]:
  "drop_asymmetric_key_function = Rule_Function (RuleContext RuleDrop_asymmetric_key) ''drop_asymmetric_key''"

definition alter_authorization_function :: parser_function where [declared_functions]:
  "alter_authorization_function = Rule_Function (RuleContext RuleAlter_authorization) ''alter_authorization''"

definition authorization_grantee_function :: parser_function where [declared_functions]:
  "authorization_grantee_function = Rule_Function (RuleContext RuleAuthorization_grantee) ''authorization_grantee''"

definition entity_to_function :: parser_function where [declared_functions]:
  "entity_to_function = Rule_Function (RuleContext RuleEntity_to) ''entity_to''"

definition colon_colon_function :: parser_function where [declared_functions]:
  "colon_colon_function = Rule_Function (RuleContext RuleColon_colon) ''colon_colon''"

definition alter_authorization_start_function :: parser_function where [declared_functions]:
  "alter_authorization_start_function = Rule_Function (RuleContext RuleAlter_authorization_start) ''alter_authorization_start''"

definition alter_authorization_for_sql_database_function :: parser_function where [declared_functions]:
  "alter_authorization_for_sql_database_function = Rule_Function (RuleContext RuleAlter_authorization_for_sql_database) ''alter_authorization_for_sql_database''"

definition alter_authorization_for_azure_dw_function :: parser_function where [declared_functions]:
  "alter_authorization_for_azure_dw_function = Rule_Function (RuleContext RuleAlter_authorization_for_azure_dw) ''alter_authorization_for_azure_dw''"

definition alter_authorization_for_parallel_dw_function :: parser_function where [declared_functions]:
  "alter_authorization_for_parallel_dw_function = Rule_Function (RuleContext RuleAlter_authorization_for_parallel_dw) ''alter_authorization_for_parallel_dw''"

definition class_type_function :: parser_function where [declared_functions]:
  "class_type_function = Rule_Function (RuleContext RuleClass_type) ''class_type''"

definition class_type_for_sql_database_function :: parser_function where [declared_functions]:
  "class_type_for_sql_database_function = Rule_Function (RuleContext RuleClass_type_for_sql_database) ''class_type_for_sql_database''"

definition class_type_for_azure_dw_function :: parser_function where [declared_functions]:
  "class_type_for_azure_dw_function = Rule_Function (RuleContext RuleClass_type_for_azure_dw) ''class_type_for_azure_dw''"

definition class_type_for_parallel_dw_function :: parser_function where [declared_functions]:
  "class_type_for_parallel_dw_function = Rule_Function (RuleContext RuleClass_type_for_parallel_dw) ''class_type_for_parallel_dw''"

definition class_type_for_grant_function :: parser_function where [declared_functions]:
  "class_type_for_grant_function = Rule_Function (RuleContext RuleClass_type_for_grant) ''class_type_for_grant''"

definition drop_availability_group_function :: parser_function where [declared_functions]:
  "drop_availability_group_function = Rule_Function (RuleContext RuleDrop_availability_group) ''drop_availability_group''"

definition alter_availability_group_function :: parser_function where [declared_functions]:
  "alter_availability_group_function = Rule_Function (RuleContext RuleAlter_availability_group) ''alter_availability_group''"

definition alter_availability_group_start_function :: parser_function where [declared_functions]:
  "alter_availability_group_start_function = Rule_Function (RuleContext RuleAlter_availability_group_start) ''alter_availability_group_start''"

definition alter_availability_group_options_function :: parser_function where [declared_functions]:
  "alter_availability_group_options_function = Rule_Function (RuleContext RuleAlter_availability_group_options) ''alter_availability_group_options''"

definition ip_v4_failover_function :: parser_function where [declared_functions]:
  "ip_v4_failover_function = Rule_Function (RuleContext RuleIp_v4_failover) ''ip_v4_failover''"

definition ip_v6_failover_function :: parser_function where [declared_functions]:
  "ip_v6_failover_function = Rule_Function (RuleContext RuleIp_v6_failover) ''ip_v6_failover''"

definition create_or_alter_broker_priority_function :: parser_function where [declared_functions]:
  "create_or_alter_broker_priority_function = Rule_Function (RuleContext RuleCreate_or_alter_broker_priority) ''create_or_alter_broker_priority''"

definition drop_broker_priority_function :: parser_function where [declared_functions]:
  "drop_broker_priority_function = Rule_Function (RuleContext RuleDrop_broker_priority) ''drop_broker_priority''"

definition alter_certificate_function :: parser_function where [declared_functions]:
  "alter_certificate_function = Rule_Function (RuleContext RuleAlter_certificate) ''alter_certificate''"

definition alter_column_encryption_key_function :: parser_function where [declared_functions]:
  "alter_column_encryption_key_function = Rule_Function (RuleContext RuleAlter_column_encryption_key) ''alter_column_encryption_key''"

definition create_column_encryption_key_function :: parser_function where [declared_functions]:
  "create_column_encryption_key_function = Rule_Function (RuleContext RuleCreate_column_encryption_key) ''create_column_encryption_key''"

definition drop_certificate_function :: parser_function where [declared_functions]:
  "drop_certificate_function = Rule_Function (RuleContext RuleDrop_certificate) ''drop_certificate''"

definition drop_column_encryption_key_function :: parser_function where [declared_functions]:
  "drop_column_encryption_key_function = Rule_Function (RuleContext RuleDrop_column_encryption_key) ''drop_column_encryption_key''"

definition drop_column_master_key_function :: parser_function where [declared_functions]:
  "drop_column_master_key_function = Rule_Function (RuleContext RuleDrop_column_master_key) ''drop_column_master_key''"

definition drop_contract_function :: parser_function where [declared_functions]:
  "drop_contract_function = Rule_Function (RuleContext RuleDrop_contract) ''drop_contract''"

definition drop_credential_function :: parser_function where [declared_functions]:
  "drop_credential_function = Rule_Function (RuleContext RuleDrop_credential) ''drop_credential''"

definition drop_cryptograhic_provider_function :: parser_function where [declared_functions]:
  "drop_cryptograhic_provider_function = Rule_Function (RuleContext RuleDrop_cryptograhic_provider) ''drop_cryptograhic_provider''"

definition drop_database_function :: parser_function where [declared_functions]:
  "drop_database_function = Rule_Function (RuleContext RuleDrop_database) ''drop_database''"

definition drop_database_audit_specification_function :: parser_function where [declared_functions]:
  "drop_database_audit_specification_function = Rule_Function (RuleContext RuleDrop_database_audit_specification) ''drop_database_audit_specification''"

definition drop_database_encryption_key_function :: parser_function where [declared_functions]:
  "drop_database_encryption_key_function = Rule_Function (RuleContext RuleDrop_database_encryption_key) ''drop_database_encryption_key''"

definition drop_database_scoped_credential_function :: parser_function where [declared_functions]:
  "drop_database_scoped_credential_function = Rule_Function (RuleContext RuleDrop_database_scoped_credential) ''drop_database_scoped_credential''"

definition drop_default_function :: parser_function where [declared_functions]:
  "drop_default_function = Rule_Function (RuleContext RuleDrop_default) ''drop_default''"

definition drop_endpoint_function :: parser_function where [declared_functions]:
  "drop_endpoint_function = Rule_Function (RuleContext RuleDrop_endpoint) ''drop_endpoint''"

definition drop_external_data_source_function :: parser_function where [declared_functions]:
  "drop_external_data_source_function = Rule_Function (RuleContext RuleDrop_external_data_source) ''drop_external_data_source''"

definition drop_external_file_format_function :: parser_function where [declared_functions]:
  "drop_external_file_format_function = Rule_Function (RuleContext RuleDrop_external_file_format) ''drop_external_file_format''"

definition drop_external_library_function :: parser_function where [declared_functions]:
  "drop_external_library_function = Rule_Function (RuleContext RuleDrop_external_library) ''drop_external_library''"

definition drop_external_resource_pool_function :: parser_function where [declared_functions]:
  "drop_external_resource_pool_function = Rule_Function (RuleContext RuleDrop_external_resource_pool) ''drop_external_resource_pool''"

definition drop_external_table_function :: parser_function where [declared_functions]:
  "drop_external_table_function = Rule_Function (RuleContext RuleDrop_external_table) ''drop_external_table''"

definition drop_event_notifications_function :: parser_function where [declared_functions]:
  "drop_event_notifications_function = Rule_Function (RuleContext RuleDrop_event_notifications) ''drop_event_notifications''"

definition drop_event_session_function :: parser_function where [declared_functions]:
  "drop_event_session_function = Rule_Function (RuleContext RuleDrop_event_session) ''drop_event_session''"

definition drop_fulltext_catalog_function :: parser_function where [declared_functions]:
  "drop_fulltext_catalog_function = Rule_Function (RuleContext RuleDrop_fulltext_catalog) ''drop_fulltext_catalog''"

definition drop_fulltext_index_function :: parser_function where [declared_functions]:
  "drop_fulltext_index_function = Rule_Function (RuleContext RuleDrop_fulltext_index) ''drop_fulltext_index''"

definition drop_fulltext_stoplist_function :: parser_function where [declared_functions]:
  "drop_fulltext_stoplist_function = Rule_Function (RuleContext RuleDrop_fulltext_stoplist) ''drop_fulltext_stoplist''"

definition drop_login_function :: parser_function where [declared_functions]:
  "drop_login_function = Rule_Function (RuleContext RuleDrop_login) ''drop_login''"

definition drop_master_key_function :: parser_function where [declared_functions]:
  "drop_master_key_function = Rule_Function (RuleContext RuleDrop_master_key) ''drop_master_key''"

definition drop_message_type_function :: parser_function where [declared_functions]:
  "drop_message_type_function = Rule_Function (RuleContext RuleDrop_message_type) ''drop_message_type''"

definition drop_partition_function_function :: parser_function where [declared_functions]:
  "drop_partition_function_function = Rule_Function (RuleContext RuleDrop_partition_function) ''drop_partition_function''"

definition drop_partition_scheme_function :: parser_function where [declared_functions]:
  "drop_partition_scheme_function = Rule_Function (RuleContext RuleDrop_partition_scheme) ''drop_partition_scheme''"

definition drop_queue_function :: parser_function where [declared_functions]:
  "drop_queue_function = Rule_Function (RuleContext RuleDrop_queue) ''drop_queue''"

definition drop_remote_service_binding_function :: parser_function where [declared_functions]:
  "drop_remote_service_binding_function = Rule_Function (RuleContext RuleDrop_remote_service_binding) ''drop_remote_service_binding''"

definition drop_resource_pool_function :: parser_function where [declared_functions]:
  "drop_resource_pool_function = Rule_Function (RuleContext RuleDrop_resource_pool) ''drop_resource_pool''"

definition drop_db_role_function :: parser_function where [declared_functions]:
  "drop_db_role_function = Rule_Function (RuleContext RuleDrop_db_role) ''drop_db_role''"

definition drop_route_function :: parser_function where [declared_functions]:
  "drop_route_function = Rule_Function (RuleContext RuleDrop_route) ''drop_route''"

definition drop_rule_function :: parser_function where [declared_functions]:
  "drop_rule_function = Rule_Function (RuleContext RuleDrop_rule) ''drop_rule''"

definition drop_schema_function :: parser_function where [declared_functions]:
  "drop_schema_function = Rule_Function (RuleContext RuleDrop_schema) ''drop_schema''"

definition drop_search_property_list_function :: parser_function where [declared_functions]:
  "drop_search_property_list_function = Rule_Function (RuleContext RuleDrop_search_property_list) ''drop_search_property_list''"

definition drop_security_policy_function :: parser_function where [declared_functions]:
  "drop_security_policy_function = Rule_Function (RuleContext RuleDrop_security_policy) ''drop_security_policy''"

definition drop_sequence_function :: parser_function where [declared_functions]:
  "drop_sequence_function = Rule_Function (RuleContext RuleDrop_sequence) ''drop_sequence''"

definition drop_server_audit_function :: parser_function where [declared_functions]:
  "drop_server_audit_function = Rule_Function (RuleContext RuleDrop_server_audit) ''drop_server_audit''"

definition drop_server_audit_specification_function :: parser_function where [declared_functions]:
  "drop_server_audit_specification_function = Rule_Function (RuleContext RuleDrop_server_audit_specification) ''drop_server_audit_specification''"

definition drop_server_role_function :: parser_function where [declared_functions]:
  "drop_server_role_function = Rule_Function (RuleContext RuleDrop_server_role) ''drop_server_role''"

definition drop_service_function :: parser_function where [declared_functions]:
  "drop_service_function = Rule_Function (RuleContext RuleDrop_service) ''drop_service''"

definition drop_signature_function :: parser_function where [declared_functions]:
  "drop_signature_function = Rule_Function (RuleContext RuleDrop_signature) ''drop_signature''"

definition drop_statistics_name_azure_dw_and_pdw_function :: parser_function where [declared_functions]:
  "drop_statistics_name_azure_dw_and_pdw_function = Rule_Function (RuleContext RuleDrop_statistics_name_azure_dw_and_pdw) ''drop_statistics_name_azure_dw_and_pdw''"

definition drop_symmetric_key_function :: parser_function where [declared_functions]:
  "drop_symmetric_key_function = Rule_Function (RuleContext RuleDrop_symmetric_key) ''drop_symmetric_key''"

definition drop_synonym_function :: parser_function where [declared_functions]:
  "drop_synonym_function = Rule_Function (RuleContext RuleDrop_synonym) ''drop_synonym''"

definition drop_user_function :: parser_function where [declared_functions]:
  "drop_user_function = Rule_Function (RuleContext RuleDrop_user) ''drop_user''"

definition drop_workload_group_function :: parser_function where [declared_functions]:
  "drop_workload_group_function = Rule_Function (RuleContext RuleDrop_workload_group) ''drop_workload_group''"

definition drop_xml_schema_collection_function :: parser_function where [declared_functions]:
  "drop_xml_schema_collection_function = Rule_Function (RuleContext RuleDrop_xml_schema_collection) ''drop_xml_schema_collection''"

definition disable_trigger_function :: parser_function where [declared_functions]:
  "disable_trigger_function = Rule_Function (RuleContext RuleDisable_trigger) ''disable_trigger''"

definition enable_trigger_function :: parser_function where [declared_functions]:
  "enable_trigger_function = Rule_Function (RuleContext RuleEnable_trigger) ''enable_trigger''"

definition lock_table_function :: parser_function where [declared_functions]:
  "lock_table_function = Rule_Function (RuleContext RuleLock_table) ''lock_table''"

definition truncate_table_function :: parser_function where [declared_functions]:
  "truncate_table_function = Rule_Function (RuleContext RuleTruncate_table) ''truncate_table''"

definition create_column_master_key_function :: parser_function where [declared_functions]:
  "create_column_master_key_function = Rule_Function (RuleContext RuleCreate_column_master_key) ''create_column_master_key''"

definition alter_credential_function :: parser_function where [declared_functions]:
  "alter_credential_function = Rule_Function (RuleContext RuleAlter_credential) ''alter_credential''"

definition create_credential_function :: parser_function where [declared_functions]:
  "create_credential_function = Rule_Function (RuleContext RuleCreate_credential) ''create_credential''"

definition alter_cryptographic_provider_function :: parser_function where [declared_functions]:
  "alter_cryptographic_provider_function = Rule_Function (RuleContext RuleAlter_cryptographic_provider) ''alter_cryptographic_provider''"

definition create_cryptographic_provider_function :: parser_function where [declared_functions]:
  "create_cryptographic_provider_function = Rule_Function (RuleContext RuleCreate_cryptographic_provider) ''create_cryptographic_provider''"

definition create_endpoint_function :: parser_function where [declared_functions]:
  "create_endpoint_function = Rule_Function (RuleContext RuleCreate_endpoint) ''create_endpoint''"

definition endpoint_encryption_alogorithm_clause_function :: parser_function where [declared_functions]:
  "endpoint_encryption_alogorithm_clause_function = Rule_Function (RuleContext RuleEndpoint_encryption_alogorithm_clause) ''endpoint_encryption_alogorithm_clause''"

definition endpoint_authentication_clause_function :: parser_function where [declared_functions]:
  "endpoint_authentication_clause_function = Rule_Function (RuleContext RuleEndpoint_authentication_clause) ''endpoint_authentication_clause''"

definition endpoint_listener_clause_function :: parser_function where [declared_functions]:
  "endpoint_listener_clause_function = Rule_Function (RuleContext RuleEndpoint_listener_clause) ''endpoint_listener_clause''"

definition create_event_notification_function :: parser_function where [declared_functions]:
  "create_event_notification_function = Rule_Function (RuleContext RuleCreate_event_notification) ''create_event_notification''"

definition create_or_alter_event_session_function :: parser_function where [declared_functions]:
  "create_or_alter_event_session_function = Rule_Function (RuleContext RuleCreate_or_alter_event_session) ''create_or_alter_event_session''"

definition event_session_predicate_expression_function :: parser_function where [declared_functions]:
  "event_session_predicate_expression_function = Rule_Function (RuleContext RuleEvent_session_predicate_expression) ''event_session_predicate_expression''"

definition event_session_predicate_factor_function :: parser_function where [declared_functions]:
  "event_session_predicate_factor_function = Rule_Function (RuleContext RuleEvent_session_predicate_factor) ''event_session_predicate_factor''"

definition event_session_predicate_leaf_function :: parser_function where [declared_functions]:
  "event_session_predicate_leaf_function = Rule_Function (RuleContext RuleEvent_session_predicate_leaf) ''event_session_predicate_leaf''"

definition alter_external_data_source_function :: parser_function where [declared_functions]:
  "alter_external_data_source_function = Rule_Function (RuleContext RuleAlter_external_data_source) ''alter_external_data_source''"

definition alter_external_library_function :: parser_function where [declared_functions]:
  "alter_external_library_function = Rule_Function (RuleContext RuleAlter_external_library) ''alter_external_library''"

definition create_external_library_function :: parser_function where [declared_functions]:
  "create_external_library_function = Rule_Function (RuleContext RuleCreate_external_library) ''create_external_library''"

definition alter_external_resource_pool_function :: parser_function where [declared_functions]:
  "alter_external_resource_pool_function = Rule_Function (RuleContext RuleAlter_external_resource_pool) ''alter_external_resource_pool''"

definition create_external_resource_pool_function :: parser_function where [declared_functions]:
  "create_external_resource_pool_function = Rule_Function (RuleContext RuleCreate_external_resource_pool) ''create_external_resource_pool''"

definition alter_fulltext_catalog_function :: parser_function where [declared_functions]:
  "alter_fulltext_catalog_function = Rule_Function (RuleContext RuleAlter_fulltext_catalog) ''alter_fulltext_catalog''"

definition create_fulltext_catalog_function :: parser_function where [declared_functions]:
  "create_fulltext_catalog_function = Rule_Function (RuleContext RuleCreate_fulltext_catalog) ''create_fulltext_catalog''"

definition alter_fulltext_stoplist_function :: parser_function where [declared_functions]:
  "alter_fulltext_stoplist_function = Rule_Function (RuleContext RuleAlter_fulltext_stoplist) ''alter_fulltext_stoplist''"

definition create_fulltext_stoplist_function :: parser_function where [declared_functions]:
  "create_fulltext_stoplist_function = Rule_Function (RuleContext RuleCreate_fulltext_stoplist) ''create_fulltext_stoplist''"

definition alter_login_sql_server_function :: parser_function where [declared_functions]:
  "alter_login_sql_server_function = Rule_Function (RuleContext RuleAlter_login_sql_server) ''alter_login_sql_server''"

definition create_login_sql_server_function :: parser_function where [declared_functions]:
  "create_login_sql_server_function = Rule_Function (RuleContext RuleCreate_login_sql_server) ''create_login_sql_server''"

definition alter_login_azure_sql_function :: parser_function where [declared_functions]:
  "alter_login_azure_sql_function = Rule_Function (RuleContext RuleAlter_login_azure_sql) ''alter_login_azure_sql''"

definition create_login_azure_sql_function :: parser_function where [declared_functions]:
  "create_login_azure_sql_function = Rule_Function (RuleContext RuleCreate_login_azure_sql) ''create_login_azure_sql''"

definition alter_login_azure_sql_dw_and_pdw_function :: parser_function where [declared_functions]:
  "alter_login_azure_sql_dw_and_pdw_function = Rule_Function (RuleContext RuleAlter_login_azure_sql_dw_and_pdw) ''alter_login_azure_sql_dw_and_pdw''"

definition create_login_pdw_function :: parser_function where [declared_functions]:
  "create_login_pdw_function = Rule_Function (RuleContext RuleCreate_login_pdw) ''create_login_pdw''"

definition alter_master_key_sql_server_function :: parser_function where [declared_functions]:
  "alter_master_key_sql_server_function = Rule_Function (RuleContext RuleAlter_master_key_sql_server) ''alter_master_key_sql_server''"

definition create_master_key_sql_server_function :: parser_function where [declared_functions]:
  "create_master_key_sql_server_function = Rule_Function (RuleContext RuleCreate_master_key_sql_server) ''create_master_key_sql_server''"

definition alter_master_key_azure_sql_function :: parser_function where [declared_functions]:
  "alter_master_key_azure_sql_function = Rule_Function (RuleContext RuleAlter_master_key_azure_sql) ''alter_master_key_azure_sql''"

definition create_master_key_azure_sql_function :: parser_function where [declared_functions]:
  "create_master_key_azure_sql_function = Rule_Function (RuleContext RuleCreate_master_key_azure_sql) ''create_master_key_azure_sql''"

definition alter_message_type_function :: parser_function where [declared_functions]:
  "alter_message_type_function = Rule_Function (RuleContext RuleAlter_message_type) ''alter_message_type''"

definition alter_partition_function_function :: parser_function where [declared_functions]:
  "alter_partition_function_function = Rule_Function (RuleContext RuleAlter_partition_function) ''alter_partition_function''"

definition alter_partition_scheme_function :: parser_function where [declared_functions]:
  "alter_partition_scheme_function = Rule_Function (RuleContext RuleAlter_partition_scheme) ''alter_partition_scheme''"

definition alter_remote_service_binding_function :: parser_function where [declared_functions]:
  "alter_remote_service_binding_function = Rule_Function (RuleContext RuleAlter_remote_service_binding) ''alter_remote_service_binding''"

definition create_remote_service_binding_function :: parser_function where [declared_functions]:
  "create_remote_service_binding_function = Rule_Function (RuleContext RuleCreate_remote_service_binding) ''create_remote_service_binding''"

definition create_resource_pool_function :: parser_function where [declared_functions]:
  "create_resource_pool_function = Rule_Function (RuleContext RuleCreate_resource_pool) ''create_resource_pool''"

definition alter_resource_governor_function :: parser_function where [declared_functions]:
  "alter_resource_governor_function = Rule_Function (RuleContext RuleAlter_resource_governor) ''alter_resource_governor''"

definition alter_database_audit_specification_function :: parser_function where [declared_functions]:
  "alter_database_audit_specification_function = Rule_Function (RuleContext RuleAlter_database_audit_specification) ''alter_database_audit_specification''"

definition audit_action_spec_group_function :: parser_function where [declared_functions]:
  "audit_action_spec_group_function = Rule_Function (RuleContext RuleAudit_action_spec_group) ''audit_action_spec_group''"

definition audit_action_specification_function :: parser_function where [declared_functions]:
  "audit_action_specification_function = Rule_Function (RuleContext RuleAudit_action_specification) ''audit_action_specification''"

definition action_specification_function :: parser_function where [declared_functions]:
  "action_specification_function = Rule_Function (RuleContext RuleAction_specification) ''action_specification''"

definition audit_class_name_function :: parser_function where [declared_functions]:
  "audit_class_name_function = Rule_Function (RuleContext RuleAudit_class_name) ''audit_class_name''"

definition audit_securable_function :: parser_function where [declared_functions]:
  "audit_securable_function = Rule_Function (RuleContext RuleAudit_securable) ''audit_securable''"

definition alter_db_role_function :: parser_function where [declared_functions]:
  "alter_db_role_function = Rule_Function (RuleContext RuleAlter_db_role) ''alter_db_role''"

definition create_database_audit_specification_function :: parser_function where [declared_functions]:
  "create_database_audit_specification_function = Rule_Function (RuleContext RuleCreate_database_audit_specification) ''create_database_audit_specification''"

definition create_db_role_function :: parser_function where [declared_functions]:
  "create_db_role_function = Rule_Function (RuleContext RuleCreate_db_role) ''create_db_role''"

definition create_route_function :: parser_function where [declared_functions]:
  "create_route_function = Rule_Function (RuleContext RuleCreate_route) ''create_route''"

definition create_rule_function :: parser_function where [declared_functions]:
  "create_rule_function = Rule_Function (RuleContext RuleCreate_rule) ''create_rule''"

definition alter_schema_sql_function :: parser_function where [declared_functions]:
  "alter_schema_sql_function = Rule_Function (RuleContext RuleAlter_schema_sql) ''alter_schema_sql''"

definition create_schema_function :: parser_function where [declared_functions]:
  "create_schema_function = Rule_Function (RuleContext RuleCreate_schema) ''create_schema''"

definition create_schema_azure_sql_dw_and_pdw_function :: parser_function where [declared_functions]:
  "create_schema_azure_sql_dw_and_pdw_function = Rule_Function (RuleContext RuleCreate_schema_azure_sql_dw_and_pdw) ''create_schema_azure_sql_dw_and_pdw''"

definition alter_schema_azure_sql_dw_and_pdw_function :: parser_function where [declared_functions]:
  "alter_schema_azure_sql_dw_and_pdw_function = Rule_Function (RuleContext RuleAlter_schema_azure_sql_dw_and_pdw) ''alter_schema_azure_sql_dw_and_pdw''"

definition create_search_property_list_function :: parser_function where [declared_functions]:
  "create_search_property_list_function = Rule_Function (RuleContext RuleCreate_search_property_list) ''create_search_property_list''"

definition create_security_policy_function :: parser_function where [declared_functions]:
  "create_security_policy_function = Rule_Function (RuleContext RuleCreate_security_policy) ''create_security_policy''"

definition alter_sequence_function :: parser_function where [declared_functions]:
  "alter_sequence_function = Rule_Function (RuleContext RuleAlter_sequence) ''alter_sequence''"

definition create_sequence_function :: parser_function where [declared_functions]:
  "create_sequence_function = Rule_Function (RuleContext RuleCreate_sequence) ''create_sequence''"

definition alter_server_audit_function :: parser_function where [declared_functions]:
  "alter_server_audit_function = Rule_Function (RuleContext RuleAlter_server_audit) ''alter_server_audit''"

definition create_server_audit_function :: parser_function where [declared_functions]:
  "create_server_audit_function = Rule_Function (RuleContext RuleCreate_server_audit) ''create_server_audit''"

definition alter_server_audit_specification_function :: parser_function where [declared_functions]:
  "alter_server_audit_specification_function = Rule_Function (RuleContext RuleAlter_server_audit_specification) ''alter_server_audit_specification''"

definition create_server_audit_specification_function :: parser_function where [declared_functions]:
  "create_server_audit_specification_function = Rule_Function (RuleContext RuleCreate_server_audit_specification) ''create_server_audit_specification''"

definition alter_server_configuration_function :: parser_function where [declared_functions]:
  "alter_server_configuration_function = Rule_Function (RuleContext RuleAlter_server_configuration) ''alter_server_configuration''"

definition alter_server_role_function :: parser_function where [declared_functions]:
  "alter_server_role_function = Rule_Function (RuleContext RuleAlter_server_role) ''alter_server_role''"

definition create_server_role_function :: parser_function where [declared_functions]:
  "create_server_role_function = Rule_Function (RuleContext RuleCreate_server_role) ''create_server_role''"

definition alter_server_role_pdw_function :: parser_function where [declared_functions]:
  "alter_server_role_pdw_function = Rule_Function (RuleContext RuleAlter_server_role_pdw) ''alter_server_role_pdw''"

definition alter_service_function :: parser_function where [declared_functions]:
  "alter_service_function = Rule_Function (RuleContext RuleAlter_service) ''alter_service''"

definition opt_arg_clause_function :: parser_function where [declared_functions]:
  "opt_arg_clause_function = Rule_Function (RuleContext RuleOpt_arg_clause) ''opt_arg_clause''"

definition create_service_function :: parser_function where [declared_functions]:
  "create_service_function = Rule_Function (RuleContext RuleCreate_service) ''create_service''"

definition alter_service_master_key_function :: parser_function where [declared_functions]:
  "alter_service_master_key_function = Rule_Function (RuleContext RuleAlter_service_master_key) ''alter_service_master_key''"

definition alter_symmetric_key_function :: parser_function where [declared_functions]:
  "alter_symmetric_key_function = Rule_Function (RuleContext RuleAlter_symmetric_key) ''alter_symmetric_key''"

definition create_synonym_function :: parser_function where [declared_functions]:
  "create_synonym_function = Rule_Function (RuleContext RuleCreate_synonym) ''create_synonym''"

definition alter_user_function :: parser_function where [declared_functions]:
  "alter_user_function = Rule_Function (RuleContext RuleAlter_user) ''alter_user''"

definition create_user_function :: parser_function where [declared_functions]:
  "create_user_function = Rule_Function (RuleContext RuleCreate_user) ''create_user''"

definition create_user_azure_sql_dw_function :: parser_function where [declared_functions]:
  "create_user_azure_sql_dw_function = Rule_Function (RuleContext RuleCreate_user_azure_sql_dw) ''create_user_azure_sql_dw''"

definition alter_user_azure_sql_function :: parser_function where [declared_functions]:
  "alter_user_azure_sql_function = Rule_Function (RuleContext RuleAlter_user_azure_sql) ''alter_user_azure_sql''"

definition alter_workload_group_function :: parser_function where [declared_functions]:
  "alter_workload_group_function = Rule_Function (RuleContext RuleAlter_workload_group) ''alter_workload_group''"

definition create_workload_group_function :: parser_function where [declared_functions]:
  "create_workload_group_function = Rule_Function (RuleContext RuleCreate_workload_group) ''create_workload_group''"

definition create_xml_schema_collection_function :: parser_function where [declared_functions]:
  "create_xml_schema_collection_function = Rule_Function (RuleContext RuleCreate_xml_schema_collection) ''create_xml_schema_collection''"

definition create_partition_function_function :: parser_function where [declared_functions]:
  "create_partition_function_function = Rule_Function (RuleContext RuleCreate_partition_function) ''create_partition_function''"

definition create_partition_scheme_function :: parser_function where [declared_functions]:
  "create_partition_scheme_function = Rule_Function (RuleContext RuleCreate_partition_scheme) ''create_partition_scheme''"

definition create_queue_function :: parser_function where [declared_functions]:
  "create_queue_function = Rule_Function (RuleContext RuleCreate_queue) ''create_queue''"

definition queue_settings_function :: parser_function where [declared_functions]:
  "queue_settings_function = Rule_Function (RuleContext RuleQueue_settings) ''queue_settings''"

definition alter_queue_function :: parser_function where [declared_functions]:
  "alter_queue_function = Rule_Function (RuleContext RuleAlter_queue) ''alter_queue''"

definition queue_action_function :: parser_function where [declared_functions]:
  "queue_action_function = Rule_Function (RuleContext RuleQueue_action) ''queue_action''"

definition queue_rebuild_options_function :: parser_function where [declared_functions]:
  "queue_rebuild_options_function = Rule_Function (RuleContext RuleQueue_rebuild_options) ''queue_rebuild_options''"

definition create_contract_function :: parser_function where [declared_functions]:
  "create_contract_function = Rule_Function (RuleContext RuleCreate_contract) ''create_contract''"

definition conversation_statement_function :: parser_function where [declared_functions]:
  "conversation_statement_function = Rule_Function (RuleContext RuleConversation_statement) ''conversation_statement''"

definition message_statement_function :: parser_function where [declared_functions]:
  "message_statement_function = Rule_Function (RuleContext RuleMessage_statement) ''message_statement''"

definition merge_statement_function :: parser_function where [declared_functions]:
  "merge_statement_function = Rule_Function (RuleContext RuleMerge_statement) ''merge_statement''"

definition when_matches_function :: parser_function where [declared_functions]:
  "when_matches_function = Rule_Function (RuleContext RuleWhen_matches) ''when_matches''"

definition merge_matched_function :: parser_function where [declared_functions]:
  "merge_matched_function = Rule_Function (RuleContext RuleMerge_matched) ''merge_matched''"

definition merge_not_matched_function :: parser_function where [declared_functions]:
  "merge_not_matched_function = Rule_Function (RuleContext RuleMerge_not_matched) ''merge_not_matched''"

definition delete_statement_function :: parser_function where [declared_functions]:
  "delete_statement_function = Rule_Function (RuleContext RuleDelete_statement) ''delete_statement''"

definition delete_statement_from_function :: parser_function where [declared_functions]:
  "delete_statement_from_function = Rule_Function (RuleContext RuleDelete_statement_from) ''delete_statement_from''"

definition insert_statement_function :: parser_function where [declared_functions]:
  "insert_statement_function = Rule_Function (RuleContext RuleInsert_statement) ''insert_statement''"

definition insert_statement_value_function :: parser_function where [declared_functions]:
  "insert_statement_value_function = Rule_Function (RuleContext RuleInsert_statement_value) ''insert_statement_value''"

definition receive_statement_function :: parser_function where [declared_functions]:
  "receive_statement_function = Rule_Function (RuleContext RuleReceive_statement) ''receive_statement''"

definition select_statement_standalone_function :: parser_function where [declared_functions]:
  "select_statement_standalone_function = Rule_Function (RuleContext RuleSelect_statement_standalone) ''select_statement_standalone''"

definition select_statement_function :: parser_function where [declared_functions]:
  "select_statement_function = Rule_Function (RuleContext RuleSelect_statement) ''select_statement''"

definition time_function :: parser_function where [declared_functions]:
  "time_function = Rule_Function (RuleContext RuleTime) ''time''"

definition update_statement_function :: parser_function where [declared_functions]:
  "update_statement_function = Rule_Function (RuleContext RuleUpdate_statement) ''update_statement''"

definition output_clause_function :: parser_function where [declared_functions]:
  "output_clause_function = Rule_Function (RuleContext RuleOutput_clause) ''output_clause''"

definition output_dml_list_elem_function :: parser_function where [declared_functions]:
  "output_dml_list_elem_function = Rule_Function (RuleContext RuleOutput_dml_list_elem) ''output_dml_list_elem''"

definition create_database_function :: parser_function where [declared_functions]:
  "create_database_function = Rule_Function (RuleContext RuleCreate_database) ''create_database''"

definition create_index_function :: parser_function where [declared_functions]:
  "create_index_function = Rule_Function (RuleContext RuleCreate_index) ''create_index''"

definition create_index_options_function :: parser_function where [declared_functions]:
  "create_index_options_function = Rule_Function (RuleContext RuleCreate_index_options) ''create_index_options''"

definition relational_index_option_function :: parser_function where [declared_functions]:
  "relational_index_option_function = Rule_Function (RuleContext RuleRelational_index_option) ''relational_index_option''"

definition alter_index_function :: parser_function where [declared_functions]:
  "alter_index_function = Rule_Function (RuleContext RuleAlter_index) ''alter_index''"

definition resumable_index_options_function :: parser_function where [declared_functions]:
  "resumable_index_options_function = Rule_Function (RuleContext RuleResumable_index_options) ''resumable_index_options''"

definition resumable_index_option_function :: parser_function where [declared_functions]:
  "resumable_index_option_function = Rule_Function (RuleContext RuleResumable_index_option) ''resumable_index_option''"

definition reorganize_partition_function :: parser_function where [declared_functions]:
  "reorganize_partition_function = Rule_Function (RuleContext RuleReorganize_partition) ''reorganize_partition''"

definition reorganize_options_function :: parser_function where [declared_functions]:
  "reorganize_options_function = Rule_Function (RuleContext RuleReorganize_options) ''reorganize_options''"

definition reorganize_option_function :: parser_function where [declared_functions]:
  "reorganize_option_function = Rule_Function (RuleContext RuleReorganize_option) ''reorganize_option''"

definition set_index_options_function :: parser_function where [declared_functions]:
  "set_index_options_function = Rule_Function (RuleContext RuleSet_index_options) ''set_index_options''"

definition set_index_option_function :: parser_function where [declared_functions]:
  "set_index_option_function = Rule_Function (RuleContext RuleSet_index_option) ''set_index_option''"

definition rebuild_partition_function :: parser_function where [declared_functions]:
  "rebuild_partition_function = Rule_Function (RuleContext RuleRebuild_partition) ''rebuild_partition''"

definition rebuild_index_options_function :: parser_function where [declared_functions]:
  "rebuild_index_options_function = Rule_Function (RuleContext RuleRebuild_index_options) ''rebuild_index_options''"

definition rebuild_index_option_function :: parser_function where [declared_functions]:
  "rebuild_index_option_function = Rule_Function (RuleContext RuleRebuild_index_option) ''rebuild_index_option''"

definition single_partition_rebuild_index_options_function :: parser_function where [declared_functions]:
  "single_partition_rebuild_index_options_function = Rule_Function (RuleContext RuleSingle_partition_rebuild_index_options) ''single_partition_rebuild_index_options''"

definition single_partition_rebuild_index_option_function :: parser_function where [declared_functions]:
  "single_partition_rebuild_index_option_function = Rule_Function (RuleContext RuleSingle_partition_rebuild_index_option) ''single_partition_rebuild_index_option''"

definition on_partitions_function :: parser_function where [declared_functions]:
  "on_partitions_function = Rule_Function (RuleContext RuleOn_partitions) ''on_partitions''"

definition create_columnstore_index_function :: parser_function where [declared_functions]:
  "create_columnstore_index_function = Rule_Function (RuleContext RuleCreate_columnstore_index) ''create_columnstore_index''"

definition create_columnstore_index_options_function :: parser_function where [declared_functions]:
  "create_columnstore_index_options_function = Rule_Function (RuleContext RuleCreate_columnstore_index_options) ''create_columnstore_index_options''"

definition columnstore_index_option_function :: parser_function where [declared_functions]:
  "columnstore_index_option_function = Rule_Function (RuleContext RuleColumnstore_index_option) ''columnstore_index_option''"

definition create_nonclustered_columnstore_index_function :: parser_function where [declared_functions]:
  "create_nonclustered_columnstore_index_function = Rule_Function (RuleContext RuleCreate_nonclustered_columnstore_index) ''create_nonclustered_columnstore_index''"

definition create_xml_index_function :: parser_function where [declared_functions]:
  "create_xml_index_function = Rule_Function (RuleContext RuleCreate_xml_index) ''create_xml_index''"

definition xml_index_options_function :: parser_function where [declared_functions]:
  "xml_index_options_function = Rule_Function (RuleContext RuleXml_index_options) ''xml_index_options''"

definition xml_index_option_function :: parser_function where [declared_functions]:
  "xml_index_option_function = Rule_Function (RuleContext RuleXml_index_option) ''xml_index_option''"

definition create_or_alter_procedure_function :: parser_function where [declared_functions]:
  "create_or_alter_procedure_function = Rule_Function (RuleContext RuleCreate_or_alter_procedure) ''create_or_alter_procedure''"

definition as_external_name_function :: parser_function where [declared_functions]:
  "as_external_name_function = Rule_Function (RuleContext RuleAs_external_name) ''as_external_name''"

definition create_or_alter_trigger_function :: parser_function where [declared_functions]:
  "create_or_alter_trigger_function = Rule_Function (RuleContext RuleCreate_or_alter_trigger) ''create_or_alter_trigger''"

definition create_or_alter_dml_trigger_function :: parser_function where [declared_functions]:
  "create_or_alter_dml_trigger_function = Rule_Function (RuleContext RuleCreate_or_alter_dml_trigger) ''create_or_alter_dml_trigger''"

definition dml_trigger_option_function :: parser_function where [declared_functions]:
  "dml_trigger_option_function = Rule_Function (RuleContext RuleDml_trigger_option) ''dml_trigger_option''"

definition dml_trigger_operation_function :: parser_function where [declared_functions]:
  "dml_trigger_operation_function = Rule_Function (RuleContext RuleDml_trigger_operation) ''dml_trigger_operation''"

definition create_or_alter_ddl_trigger_function :: parser_function where [declared_functions]:
  "create_or_alter_ddl_trigger_function = Rule_Function (RuleContext RuleCreate_or_alter_ddl_trigger) ''create_or_alter_ddl_trigger''"

definition ddl_trigger_operation_function :: parser_function where [declared_functions]:
  "ddl_trigger_operation_function = Rule_Function (RuleContext RuleDdl_trigger_operation) ''ddl_trigger_operation''"

definition create_or_alter_function_function :: parser_function where [declared_functions]:
  "create_or_alter_function_function = Rule_Function (RuleContext RuleCreate_or_alter_function) ''create_or_alter_function''"

definition func_body_returns_select_function :: parser_function where [declared_functions]:
  "func_body_returns_select_function = Rule_Function (RuleContext RuleFunc_body_returns_select) ''func_body_returns_select''"

definition func_body_returns_table_function :: parser_function where [declared_functions]:
  "func_body_returns_table_function = Rule_Function (RuleContext RuleFunc_body_returns_table) ''func_body_returns_table''"

definition func_body_returns_scalar_function :: parser_function where [declared_functions]:
  "func_body_returns_scalar_function = Rule_Function (RuleContext RuleFunc_body_returns_scalar) ''func_body_returns_scalar''"

definition procedure_param_default_value_function :: parser_function where [declared_functions]:
  "procedure_param_default_value_function = Rule_Function (RuleContext RuleProcedure_param_default_value) ''procedure_param_default_value''"

definition procedure_param_function :: parser_function where [declared_functions]:
  "procedure_param_function = Rule_Function (RuleContext RuleProcedure_param) ''procedure_param''"

definition procedure_option_function :: parser_function where [declared_functions]:
  "procedure_option_function = Rule_Function (RuleContext RuleProcedure_option) ''procedure_option''"

definition function_option_function :: parser_function where [declared_functions]:
  "function_option_function = Rule_Function (RuleContext RuleFunction_option) ''function_option''"

definition create_statistics_function :: parser_function where [declared_functions]:
  "create_statistics_function = Rule_Function (RuleContext RuleCreate_statistics) ''create_statistics''"

definition update_statistics_function :: parser_function where [declared_functions]:
  "update_statistics_function = Rule_Function (RuleContext RuleUpdate_statistics) ''update_statistics''"

definition update_statistics_options_function :: parser_function where [declared_functions]:
  "update_statistics_options_function = Rule_Function (RuleContext RuleUpdate_statistics_options) ''update_statistics_options''"

definition update_statistics_option_function :: parser_function where [declared_functions]:
  "update_statistics_option_function = Rule_Function (RuleContext RuleUpdate_statistics_option) ''update_statistics_option''"

definition create_table_function :: parser_function where [declared_functions]:
  "create_table_function = Rule_Function (RuleContext RuleCreate_table) ''create_table''"

definition table_indices_function :: parser_function where [declared_functions]:
  "table_indices_function = Rule_Function (RuleContext RuleTable_indices) ''table_indices''"

definition table_options_function :: parser_function where [declared_functions]:
  "table_options_function = Rule_Function (RuleContext RuleTable_options) ''table_options''"

definition table_option_function :: parser_function where [declared_functions]:
  "table_option_function = Rule_Function (RuleContext RuleTable_option) ''table_option''"

definition create_table_index_options_function :: parser_function where [declared_functions]:
  "create_table_index_options_function = Rule_Function (RuleContext RuleCreate_table_index_options) ''create_table_index_options''"

definition create_table_index_option_function :: parser_function where [declared_functions]:
  "create_table_index_option_function = Rule_Function (RuleContext RuleCreate_table_index_option) ''create_table_index_option''"

definition create_view_function :: parser_function where [declared_functions]:
  "create_view_function = Rule_Function (RuleContext RuleCreate_view) ''create_view''"

definition view_attribute_function :: parser_function where [declared_functions]:
  "view_attribute_function = Rule_Function (RuleContext RuleView_attribute) ''view_attribute''"

definition alter_table_function :: parser_function where [declared_functions]:
  "alter_table_function = Rule_Function (RuleContext RuleAlter_table) ''alter_table''"

definition switch_partition_function :: parser_function where [declared_functions]:
  "switch_partition_function = Rule_Function (RuleContext RuleSwitch_partition) ''switch_partition''"

definition low_priority_lock_wait_function :: parser_function where [declared_functions]:
  "low_priority_lock_wait_function = Rule_Function (RuleContext RuleLow_priority_lock_wait) ''low_priority_lock_wait''"

definition alter_database_function :: parser_function where [declared_functions]:
  "alter_database_function = Rule_Function (RuleContext RuleAlter_database) ''alter_database''"

definition add_or_modify_files_function :: parser_function where [declared_functions]:
  "add_or_modify_files_function = Rule_Function (RuleContext RuleAdd_or_modify_files) ''add_or_modify_files''"

definition filespec_function :: parser_function where [declared_functions]:
  "filespec_function = Rule_Function (RuleContext RuleFilespec) ''filespec''"

definition add_or_modify_filegroups_function :: parser_function where [declared_functions]:
  "add_or_modify_filegroups_function = Rule_Function (RuleContext RuleAdd_or_modify_filegroups) ''add_or_modify_filegroups''"

definition filegroup_updatability_option_function :: parser_function where [declared_functions]:
  "filegroup_updatability_option_function = Rule_Function (RuleContext RuleFilegroup_updatability_option) ''filegroup_updatability_option''"

definition database_optionspec_function :: parser_function where [declared_functions]:
  "database_optionspec_function = Rule_Function (RuleContext RuleDatabase_optionspec) ''database_optionspec''"

definition auto_option_function :: parser_function where [declared_functions]:
  "auto_option_function = Rule_Function (RuleContext RuleAuto_option) ''auto_option''"

definition change_tracking_option_function :: parser_function where [declared_functions]:
  "change_tracking_option_function = Rule_Function (RuleContext RuleChange_tracking_option) ''change_tracking_option''"

definition change_tracking_option_list_function :: parser_function where [declared_functions]:
  "change_tracking_option_list_function = Rule_Function (RuleContext RuleChange_tracking_option_list) ''change_tracking_option_list''"

definition containment_option_function :: parser_function where [declared_functions]:
  "containment_option_function = Rule_Function (RuleContext RuleContainment_option) ''containment_option''"

definition cursor_option_function :: parser_function where [declared_functions]:
  "cursor_option_function = Rule_Function (RuleContext RuleCursor_option) ''cursor_option''"

definition alter_endpoint_function :: parser_function where [declared_functions]:
  "alter_endpoint_function = Rule_Function (RuleContext RuleAlter_endpoint) ''alter_endpoint''"

definition database_mirroring_option_function :: parser_function where [declared_functions]:
  "database_mirroring_option_function = Rule_Function (RuleContext RuleDatabase_mirroring_option) ''database_mirroring_option''"

definition mirroring_set_option_function :: parser_function where [declared_functions]:
  "mirroring_set_option_function = Rule_Function (RuleContext RuleMirroring_set_option) ''mirroring_set_option''"

definition mirroring_partner_function :: parser_function where [declared_functions]:
  "mirroring_partner_function = Rule_Function (RuleContext RuleMirroring_partner) ''mirroring_partner''"

definition mirroring_witness_function :: parser_function where [declared_functions]:
  "mirroring_witness_function = Rule_Function (RuleContext RuleMirroring_witness) ''mirroring_witness''"

definition witness_partner_equal_function :: parser_function where [declared_functions]:
  "witness_partner_equal_function = Rule_Function (RuleContext RuleWitness_partner_equal) ''witness_partner_equal''"

definition partner_option_function :: parser_function where [declared_functions]:
  "partner_option_function = Rule_Function (RuleContext RulePartner_option) ''partner_option''"

definition witness_option_function :: parser_function where [declared_functions]:
  "witness_option_function = Rule_Function (RuleContext RuleWitness_option) ''witness_option''"

definition witness_server_function :: parser_function where [declared_functions]:
  "witness_server_function = Rule_Function (RuleContext RuleWitness_server) ''witness_server''"

definition partner_server_function :: parser_function where [declared_functions]:
  "partner_server_function = Rule_Function (RuleContext RulePartner_server) ''partner_server''"

definition mirroring_host_port_seperator_function :: parser_function where [declared_functions]:
  "mirroring_host_port_seperator_function = Rule_Function (RuleContext RuleMirroring_host_port_seperator) ''mirroring_host_port_seperator''"

definition partner_server_tcp_prefix_function :: parser_function where [declared_functions]:
  "partner_server_tcp_prefix_function = Rule_Function (RuleContext RulePartner_server_tcp_prefix) ''partner_server_tcp_prefix''"

definition port_number_function :: parser_function where [declared_functions]:
  "port_number_function = Rule_Function (RuleContext RulePort_number) ''port_number''"

definition host_function :: parser_function where [declared_functions]:
  "host_function = Rule_Function (RuleContext RuleHost) ''host''"

definition date_correlation_optimization_option_function :: parser_function where [declared_functions]:
  "date_correlation_optimization_option_function = Rule_Function (RuleContext RuleDate_correlation_optimization_option) ''date_correlation_optimization_option''"

definition db_encryption_option_function :: parser_function where [declared_functions]:
  "db_encryption_option_function = Rule_Function (RuleContext RuleDb_encryption_option) ''db_encryption_option''"

definition db_state_option_function :: parser_function where [declared_functions]:
  "db_state_option_function = Rule_Function (RuleContext RuleDb_state_option) ''db_state_option''"

definition db_update_option_function :: parser_function where [declared_functions]:
  "db_update_option_function = Rule_Function (RuleContext RuleDb_update_option) ''db_update_option''"

definition db_user_access_option_function :: parser_function where [declared_functions]:
  "db_user_access_option_function = Rule_Function (RuleContext RuleDb_user_access_option) ''db_user_access_option''"

definition delayed_durability_option_function :: parser_function where [declared_functions]:
  "delayed_durability_option_function = Rule_Function (RuleContext RuleDelayed_durability_option) ''delayed_durability_option''"

definition external_access_option_function :: parser_function where [declared_functions]:
  "external_access_option_function = Rule_Function (RuleContext RuleExternal_access_option) ''external_access_option''"

definition hadr_options_function :: parser_function where [declared_functions]:
  "hadr_options_function = Rule_Function (RuleContext RuleHadr_options) ''hadr_options''"

definition mixed_page_allocation_option_function :: parser_function where [declared_functions]:
  "mixed_page_allocation_option_function = Rule_Function (RuleContext RuleMixed_page_allocation_option) ''mixed_page_allocation_option''"

definition parameterization_option_function :: parser_function where [declared_functions]:
  "parameterization_option_function = Rule_Function (RuleContext RuleParameterization_option) ''parameterization_option''"

definition recovery_option_function :: parser_function where [declared_functions]:
  "recovery_option_function = Rule_Function (RuleContext RuleRecovery_option) ''recovery_option''"

definition service_broker_option_function :: parser_function where [declared_functions]:
  "service_broker_option_function = Rule_Function (RuleContext RuleService_broker_option) ''service_broker_option''"

definition snapshot_option_function :: parser_function where [declared_functions]:
  "snapshot_option_function = Rule_Function (RuleContext RuleSnapshot_option) ''snapshot_option''"

definition sql_option_function :: parser_function where [declared_functions]:
  "sql_option_function = Rule_Function (RuleContext RuleSql_option) ''sql_option''"

definition target_recovery_time_option_function :: parser_function where [declared_functions]:
  "target_recovery_time_option_function = Rule_Function (RuleContext RuleTarget_recovery_time_option) ''target_recovery_time_option''"

definition termination_function :: parser_function where [declared_functions]:
  "termination_function = Rule_Function (RuleContext RuleTermination) ''termination''"

definition drop_index_function :: parser_function where [declared_functions]:
  "drop_index_function = Rule_Function (RuleContext RuleDrop_index) ''drop_index''"

definition drop_relational_or_xml_or_spatial_index_function :: parser_function where [declared_functions]:
  "drop_relational_or_xml_or_spatial_index_function = Rule_Function (RuleContext RuleDrop_relational_or_xml_or_spatial_index) ''drop_relational_or_xml_or_spatial_index''"

definition drop_backward_compatible_index_function :: parser_function where [declared_functions]:
  "drop_backward_compatible_index_function = Rule_Function (RuleContext RuleDrop_backward_compatible_index) ''drop_backward_compatible_index''"

definition drop_procedure_function :: parser_function where [declared_functions]:
  "drop_procedure_function = Rule_Function (RuleContext RuleDrop_procedure) ''drop_procedure''"

definition drop_trigger_function :: parser_function where [declared_functions]:
  "drop_trigger_function = Rule_Function (RuleContext RuleDrop_trigger) ''drop_trigger''"

definition drop_dml_trigger_function :: parser_function where [declared_functions]:
  "drop_dml_trigger_function = Rule_Function (RuleContext RuleDrop_dml_trigger) ''drop_dml_trigger''"

definition drop_ddl_trigger_function :: parser_function where [declared_functions]:
  "drop_ddl_trigger_function = Rule_Function (RuleContext RuleDrop_ddl_trigger) ''drop_ddl_trigger''"

definition drop_function_function :: parser_function where [declared_functions]:
  "drop_function_function = Rule_Function (RuleContext RuleDrop_function) ''drop_function''"

definition drop_statistics_function :: parser_function where [declared_functions]:
  "drop_statistics_function = Rule_Function (RuleContext RuleDrop_statistics) ''drop_statistics''"

definition drop_table_function :: parser_function where [declared_functions]:
  "drop_table_function = Rule_Function (RuleContext RuleDrop_table) ''drop_table''"

definition drop_view_function :: parser_function where [declared_functions]:
  "drop_view_function = Rule_Function (RuleContext RuleDrop_view) ''drop_view''"

definition create_type_function :: parser_function where [declared_functions]:
  "create_type_function = Rule_Function (RuleContext RuleCreate_type) ''create_type''"

definition drop_type_function :: parser_function where [declared_functions]:
  "drop_type_function = Rule_Function (RuleContext RuleDrop_type) ''drop_type''"

definition rowset_function_limited_function :: parser_function where [declared_functions]:
  "rowset_function_limited_function = Rule_Function (RuleContext RuleRowset_function_limited) ''rowset_function_limited''"

definition openquery_function :: parser_function where [declared_functions]:
  "openquery_function = Rule_Function (RuleContext RuleOpenquery) ''openquery''"

definition opendatasource_function :: parser_function where [declared_functions]:
  "opendatasource_function = Rule_Function (RuleContext RuleOpendatasource) ''opendatasource''"

definition declare_statement_function :: parser_function where [declared_functions]:
  "declare_statement_function = Rule_Function (RuleContext RuleDeclare_statement) ''declare_statement''"

definition xml_declaration_function :: parser_function where [declared_functions]:
  "xml_declaration_function = Rule_Function (RuleContext RuleXml_declaration) ''xml_declaration''"

definition cursor_statement_function :: parser_function where [declared_functions]:
  "cursor_statement_function = Rule_Function (RuleContext RuleCursor_statement) ''cursor_statement''"

definition backup_database_function :: parser_function where [declared_functions]:
  "backup_database_function = Rule_Function (RuleContext RuleBackup_database) ''backup_database''"

definition backup_log_function :: parser_function where [declared_functions]:
  "backup_log_function = Rule_Function (RuleContext RuleBackup_log) ''backup_log''"

definition backup_certificate_function :: parser_function where [declared_functions]:
  "backup_certificate_function = Rule_Function (RuleContext RuleBackup_certificate) ''backup_certificate''"

definition backup_master_key_function :: parser_function where [declared_functions]:
  "backup_master_key_function = Rule_Function (RuleContext RuleBackup_master_key) ''backup_master_key''"

definition backup_service_master_key_function :: parser_function where [declared_functions]:
  "backup_service_master_key_function = Rule_Function (RuleContext RuleBackup_service_master_key) ''backup_service_master_key''"

definition kill_statement_function :: parser_function where [declared_functions]:
  "kill_statement_function = Rule_Function (RuleContext RuleKill_statement) ''kill_statement''"

definition kill_process_function :: parser_function where [declared_functions]:
  "kill_process_function = Rule_Function (RuleContext RuleKill_process) ''kill_process''"

definition kill_query_notification_function :: parser_function where [declared_functions]:
  "kill_query_notification_function = Rule_Function (RuleContext RuleKill_query_notification) ''kill_query_notification''"

definition kill_stats_job_function :: parser_function where [declared_functions]:
  "kill_stats_job_function = Rule_Function (RuleContext RuleKill_stats_job) ''kill_stats_job''"

definition execute_statement_function :: parser_function where [declared_functions]:
  "execute_statement_function = Rule_Function (RuleContext RuleExecute_statement) ''execute_statement''"

definition execute_body_batch_function :: parser_function where [declared_functions]:
  "execute_body_batch_function = Rule_Function (RuleContext RuleExecute_body_batch) ''execute_body_batch''"

definition execute_body_function :: parser_function where [declared_functions]:
  "execute_body_function = Rule_Function (RuleContext RuleExecute_body) ''execute_body''"

definition execute_statement_arg_function :: parser_function where [declared_functions]:
  "execute_statement_arg_function = Rule_Function (RuleContext RuleExecute_statement_arg) ''execute_statement_arg''"

definition execute_statement_arg_named_function :: parser_function where [declared_functions]:
  "execute_statement_arg_named_function = Rule_Function (RuleContext RuleExecute_statement_arg_named) ''execute_statement_arg_named''"

definition execute_statement_arg_unnamed_function :: parser_function where [declared_functions]:
  "execute_statement_arg_unnamed_function = Rule_Function (RuleContext RuleExecute_statement_arg_unnamed) ''execute_statement_arg_unnamed''"

definition execute_parameter_function :: parser_function where [declared_functions]:
  "execute_parameter_function = Rule_Function (RuleContext RuleExecute_parameter) ''execute_parameter''"

definition execute_var_string_function :: parser_function where [declared_functions]:
  "execute_var_string_function = Rule_Function (RuleContext RuleExecute_var_string) ''execute_var_string''"

definition security_statement_function :: parser_function where [declared_functions]:
  "security_statement_function = Rule_Function (RuleContext RuleSecurity_statement) ''security_statement''"

definition principal_id_function :: parser_function where [declared_functions]:
  "principal_id_function = Rule_Function (RuleContext RulePrincipal_id) ''principal_id''"

definition create_certificate_function :: parser_function where [declared_functions]:
  "create_certificate_function = Rule_Function (RuleContext RuleCreate_certificate) ''create_certificate''"

definition existing_keys_function :: parser_function where [declared_functions]:
  "existing_keys_function = Rule_Function (RuleContext RuleExisting_keys) ''existing_keys''"

definition private_key_options_function :: parser_function where [declared_functions]:
  "private_key_options_function = Rule_Function (RuleContext RulePrivate_key_options) ''private_key_options''"

definition generate_new_keys_function :: parser_function where [declared_functions]:
  "generate_new_keys_function = Rule_Function (RuleContext RuleGenerate_new_keys) ''generate_new_keys''"

definition date_options_function :: parser_function where [declared_functions]:
  "date_options_function = Rule_Function (RuleContext RuleDate_options) ''date_options''"

definition open_key_function :: parser_function where [declared_functions]:
  "open_key_function = Rule_Function (RuleContext RuleOpen_key) ''open_key''"

definition close_key_function :: parser_function where [declared_functions]:
  "close_key_function = Rule_Function (RuleContext RuleClose_key) ''close_key''"

definition create_key_function :: parser_function where [declared_functions]:
  "create_key_function = Rule_Function (RuleContext RuleCreate_key) ''create_key''"

definition key_options_function :: parser_function where [declared_functions]:
  "key_options_function = Rule_Function (RuleContext RuleKey_options) ''key_options''"

definition algorithm_function :: parser_function where [declared_functions]:
  "algorithm_function = Rule_Function (RuleContext RuleAlgorithm) ''algorithm''"

definition encryption_mechanism_function :: parser_function where [declared_functions]:
  "encryption_mechanism_function = Rule_Function (RuleContext RuleEncryption_mechanism) ''encryption_mechanism''"

definition decryption_mechanism_function :: parser_function where [declared_functions]:
  "decryption_mechanism_function = Rule_Function (RuleContext RuleDecryption_mechanism) ''decryption_mechanism''"

definition grant_permission_function :: parser_function where [declared_functions]:
  "grant_permission_function = Rule_Function (RuleContext RuleGrant_permission) ''grant_permission''"

definition set_statement_function :: parser_function where [declared_functions]:
  "set_statement_function = Rule_Function (RuleContext RuleSet_statement) ''set_statement''"

definition transaction_statement_function :: parser_function where [declared_functions]:
  "transaction_statement_function = Rule_Function (RuleContext RuleTransaction_statement) ''transaction_statement''"

definition go_statement_function :: parser_function where [declared_functions]:
  "go_statement_function = Rule_Function (RuleContext RuleGo_statement) ''go_statement''"

definition use_statement_function :: parser_function where [declared_functions]:
  "use_statement_function = Rule_Function (RuleContext RuleUse_statement) ''use_statement''"

definition setuser_statement_function :: parser_function where [declared_functions]:
  "setuser_statement_function = Rule_Function (RuleContext RuleSetuser_statement) ''setuser_statement''"

definition reconfigure_statement_function :: parser_function where [declared_functions]:
  "reconfigure_statement_function = Rule_Function (RuleContext RuleReconfigure_statement) ''reconfigure_statement''"

definition shutdown_statement_function :: parser_function where [declared_functions]:
  "shutdown_statement_function = Rule_Function (RuleContext RuleShutdown_statement) ''shutdown_statement''"

definition checkpoint_statement_function :: parser_function where [declared_functions]:
  "checkpoint_statement_function = Rule_Function (RuleContext RuleCheckpoint_statement) ''checkpoint_statement''"

definition dbcc_checkalloc_option_function :: parser_function where [declared_functions]:
  "dbcc_checkalloc_option_function = Rule_Function (RuleContext RuleDbcc_checkalloc_option) ''dbcc_checkalloc_option''"

definition dbcc_checkalloc_function :: parser_function where [declared_functions]:
  "dbcc_checkalloc_function = Rule_Function (RuleContext RuleDbcc_checkalloc) ''dbcc_checkalloc''"

definition dbcc_checkcatalog_function :: parser_function where [declared_functions]:
  "dbcc_checkcatalog_function = Rule_Function (RuleContext RuleDbcc_checkcatalog) ''dbcc_checkcatalog''"

definition dbcc_checkconstraints_option_function :: parser_function where [declared_functions]:
  "dbcc_checkconstraints_option_function = Rule_Function (RuleContext RuleDbcc_checkconstraints_option) ''dbcc_checkconstraints_option''"

definition dbcc_checkconstraints_function :: parser_function where [declared_functions]:
  "dbcc_checkconstraints_function = Rule_Function (RuleContext RuleDbcc_checkconstraints) ''dbcc_checkconstraints''"

definition dbcc_checkdb_table_option_function :: parser_function where [declared_functions]:
  "dbcc_checkdb_table_option_function = Rule_Function (RuleContext RuleDbcc_checkdb_table_option) ''dbcc_checkdb_table_option''"

definition dbcc_checkdb_function :: parser_function where [declared_functions]:
  "dbcc_checkdb_function = Rule_Function (RuleContext RuleDbcc_checkdb) ''dbcc_checkdb''"

definition dbcc_checkfilegroup_option_function :: parser_function where [declared_functions]:
  "dbcc_checkfilegroup_option_function = Rule_Function (RuleContext RuleDbcc_checkfilegroup_option) ''dbcc_checkfilegroup_option''"

definition dbcc_checkfilegroup_function :: parser_function where [declared_functions]:
  "dbcc_checkfilegroup_function = Rule_Function (RuleContext RuleDbcc_checkfilegroup) ''dbcc_checkfilegroup''"

definition dbcc_checktable_function :: parser_function where [declared_functions]:
  "dbcc_checktable_function = Rule_Function (RuleContext RuleDbcc_checktable) ''dbcc_checktable''"

definition dbcc_cleantable_function :: parser_function where [declared_functions]:
  "dbcc_cleantable_function = Rule_Function (RuleContext RuleDbcc_cleantable) ''dbcc_cleantable''"

definition dbcc_clonedatabase_option_function :: parser_function where [declared_functions]:
  "dbcc_clonedatabase_option_function = Rule_Function (RuleContext RuleDbcc_clonedatabase_option) ''dbcc_clonedatabase_option''"

definition dbcc_clonedatabase_function :: parser_function where [declared_functions]:
  "dbcc_clonedatabase_function = Rule_Function (RuleContext RuleDbcc_clonedatabase) ''dbcc_clonedatabase''"

definition dbcc_pdw_showspaceused_function :: parser_function where [declared_functions]:
  "dbcc_pdw_showspaceused_function = Rule_Function (RuleContext RuleDbcc_pdw_showspaceused) ''dbcc_pdw_showspaceused''"

definition dbcc_proccache_function :: parser_function where [declared_functions]:
  "dbcc_proccache_function = Rule_Function (RuleContext RuleDbcc_proccache) ''dbcc_proccache''"

definition dbcc_showcontig_option_function :: parser_function where [declared_functions]:
  "dbcc_showcontig_option_function = Rule_Function (RuleContext RuleDbcc_showcontig_option) ''dbcc_showcontig_option''"

definition dbcc_showcontig_function :: parser_function where [declared_functions]:
  "dbcc_showcontig_function = Rule_Function (RuleContext RuleDbcc_showcontig) ''dbcc_showcontig''"

definition dbcc_shrinklog_function :: parser_function where [declared_functions]:
  "dbcc_shrinklog_function = Rule_Function (RuleContext RuleDbcc_shrinklog) ''dbcc_shrinklog''"

definition dbcc_dbreindex_function :: parser_function where [declared_functions]:
  "dbcc_dbreindex_function = Rule_Function (RuleContext RuleDbcc_dbreindex) ''dbcc_dbreindex''"

definition dbcc_dll_free_function :: parser_function where [declared_functions]:
  "dbcc_dll_free_function = Rule_Function (RuleContext RuleDbcc_dll_free) ''dbcc_dll_free''"

definition dbcc_dropcleanbuffers_function :: parser_function where [declared_functions]:
  "dbcc_dropcleanbuffers_function = Rule_Function (RuleContext RuleDbcc_dropcleanbuffers) ''dbcc_dropcleanbuffers''"

definition dbcc_clause_function :: parser_function where [declared_functions]:
  "dbcc_clause_function = Rule_Function (RuleContext RuleDbcc_clause) ''dbcc_clause''"

definition execute_clause_function :: parser_function where [declared_functions]:
  "execute_clause_function = Rule_Function (RuleContext RuleExecute_clause) ''execute_clause''"

definition declare_local_function :: parser_function where [declared_functions]:
  "declare_local_function = Rule_Function (RuleContext RuleDeclare_local) ''declare_local''"

definition table_type_definition_function :: parser_function where [declared_functions]:
  "table_type_definition_function = Rule_Function (RuleContext RuleTable_type_definition) ''table_type_definition''"

definition table_type_indices_function :: parser_function where [declared_functions]:
  "table_type_indices_function = Rule_Function (RuleContext RuleTable_type_indices) ''table_type_indices''"

definition xml_type_definition_function :: parser_function where [declared_functions]:
  "xml_type_definition_function = Rule_Function (RuleContext RuleXml_type_definition) ''xml_type_definition''"

definition xml_schema_collection_function :: parser_function where [declared_functions]:
  "xml_schema_collection_function = Rule_Function (RuleContext RuleXml_schema_collection) ''xml_schema_collection''"

definition column_def_table_constraints_function :: parser_function where [declared_functions]:
  "column_def_table_constraints_function = Rule_Function (RuleContext RuleColumn_def_table_constraints) ''column_def_table_constraints''"

definition column_def_table_constraint_function :: parser_function where [declared_functions]:
  "column_def_table_constraint_function = Rule_Function (RuleContext RuleColumn_def_table_constraint) ''column_def_table_constraint''"

definition column_definition_function :: parser_function where [declared_functions]:
  "column_definition_function = Rule_Function (RuleContext RuleColumn_definition) ''column_definition''"

definition column_definition_element_function :: parser_function where [declared_functions]:
  "column_definition_element_function = Rule_Function (RuleContext RuleColumn_definition_element) ''column_definition_element''"

definition column_modifier_function :: parser_function where [declared_functions]:
  "column_modifier_function = Rule_Function (RuleContext RuleColumn_modifier) ''column_modifier''"

definition materialized_column_definition_function :: parser_function where [declared_functions]:
  "materialized_column_definition_function = Rule_Function (RuleContext RuleMaterialized_column_definition) ''materialized_column_definition''"

definition column_constraint_function :: parser_function where [declared_functions]:
  "column_constraint_function = Rule_Function (RuleContext RuleColumn_constraint) ''column_constraint''"

definition column_index_function :: parser_function where [declared_functions]:
  "column_index_function = Rule_Function (RuleContext RuleColumn_index) ''column_index''"

definition on_partition_or_filegroup_function :: parser_function where [declared_functions]:
  "on_partition_or_filegroup_function = Rule_Function (RuleContext RuleOn_partition_or_filegroup) ''on_partition_or_filegroup''"

definition table_constraint_function :: parser_function where [declared_functions]:
  "table_constraint_function = Rule_Function (RuleContext RuleTable_constraint) ''table_constraint''"

definition connection_node_function :: parser_function where [declared_functions]:
  "connection_node_function = Rule_Function (RuleContext RuleConnection_node) ''connection_node''"

definition primary_key_options_function :: parser_function where [declared_functions]:
  "primary_key_options_function = Rule_Function (RuleContext RulePrimary_key_options) ''primary_key_options''"

definition foreign_key_options_function :: parser_function where [declared_functions]:
  "foreign_key_options_function = Rule_Function (RuleContext RuleForeign_key_options) ''foreign_key_options''"

definition check_constraint_function :: parser_function where [declared_functions]:
  "check_constraint_function = Rule_Function (RuleContext RuleCheck_constraint) ''check_constraint''"

definition on_delete_function :: parser_function where [declared_functions]:
  "on_delete_function = Rule_Function (RuleContext RuleOn_delete) ''on_delete''"

definition on_update_function :: parser_function where [declared_functions]:
  "on_update_function = Rule_Function (RuleContext RuleOn_update) ''on_update''"

definition alter_table_index_options_function :: parser_function where [declared_functions]:
  "alter_table_index_options_function = Rule_Function (RuleContext RuleAlter_table_index_options) ''alter_table_index_options''"

definition alter_table_index_option_function :: parser_function where [declared_functions]:
  "alter_table_index_option_function = Rule_Function (RuleContext RuleAlter_table_index_option) ''alter_table_index_option''"

definition declare_cursor_function :: parser_function where [declared_functions]:
  "declare_cursor_function = Rule_Function (RuleContext RuleDeclare_cursor) ''declare_cursor''"

definition declare_set_cursor_common_function :: parser_function where [declared_functions]:
  "declare_set_cursor_common_function = Rule_Function (RuleContext RuleDeclare_set_cursor_common) ''declare_set_cursor_common''"

definition declare_set_cursor_common_partial_function :: parser_function where [declared_functions]:
  "declare_set_cursor_common_partial_function = Rule_Function (RuleContext RuleDeclare_set_cursor_common_partial) ''declare_set_cursor_common_partial''"

definition fetch_cursor_function :: parser_function where [declared_functions]:
  "fetch_cursor_function = Rule_Function (RuleContext RuleFetch_cursor) ''fetch_cursor''"

definition set_special_function :: parser_function where [declared_functions]:
  "set_special_function = Rule_Function (RuleContext RuleSet_special) ''set_special''"

definition special_list_function :: parser_function where [declared_functions]:
  "special_list_function = Rule_Function (RuleContext RuleSpecial_list) ''special_list''"

definition constant_LOCAL_ID_function :: parser_function where [declared_functions]:
  "constant_LOCAL_ID_function = Rule_Function (RuleContext RuleConstant_LOCAL_ID) ''constant_LOCAL_ID''"

definition expression_function :: parser_function where [declared_functions]:
  "expression_function = Rule_Function (RuleContext RuleExpression) ''expression''"

definition expression_precedence_function :: parser_function where [declared_functions]:
  "expression_precedence_function = Precedence_Function (RuleContext RuleExpression) ''expression''"

definition parameter_function :: parser_function where [declared_functions]:
  "parameter_function = Rule_Function (RuleContext RuleParameter) ''parameter''"

definition time_zone_function :: parser_function where [declared_functions]:
  "time_zone_function = Rule_Function (RuleContext RuleTime_zone) ''time_zone''"

definition primitive_expression_function :: parser_function where [declared_functions]:
  "primitive_expression_function = Rule_Function (RuleContext RulePrimitive_expression) ''primitive_expression''"

definition case_expression_function :: parser_function where [declared_functions]:
  "case_expression_function = Rule_Function (RuleContext RuleCase_expression) ''case_expression''"

definition unary_operator_expression_function :: parser_function where [declared_functions]:
  "unary_operator_expression_function = Rule_Function (RuleContext RuleUnary_operator_expression) ''unary_operator_expression''"

definition bracket_expression_function :: parser_function where [declared_functions]:
  "bracket_expression_function = Rule_Function (RuleContext RuleBracket_expression) ''bracket_expression''"

definition subquery_function :: parser_function where [declared_functions]:
  "subquery_function = Rule_Function (RuleContext RuleSubquery) ''subquery''"

definition with_expression_function :: parser_function where [declared_functions]:
  "with_expression_function = Rule_Function (RuleContext RuleWith_expression) ''with_expression''"

definition common_table_expression_function :: parser_function where [declared_functions]:
  "common_table_expression_function = Rule_Function (RuleContext RuleCommon_table_expression) ''common_table_expression''"

definition update_elem_function :: parser_function where [declared_functions]:
  "update_elem_function = Rule_Function (RuleContext RuleUpdate_elem) ''update_elem''"

definition update_elem_merge_function :: parser_function where [declared_functions]:
  "update_elem_merge_function = Rule_Function (RuleContext RuleUpdate_elem_merge) ''update_elem_merge''"

definition search_condition_function :: parser_function where [declared_functions]:
  "search_condition_function = Rule_Function (RuleContext RuleSearch_condition) ''search_condition''"

definition search_condition_precedence_function :: parser_function where [declared_functions]:
  "search_condition_precedence_function = Precedence_Function (RuleContext RuleSearch_condition) ''search_condition''"

definition predicate_function :: parser_function where [declared_functions]:
  "predicate_function = Rule_Function (RuleContext RulePredicate) ''predicate''"

definition query_expression_function :: parser_function where [declared_functions]:
  "query_expression_function = Rule_Function (RuleContext RuleQuery_expression) ''query_expression''"

definition sql_union_function :: parser_function where [declared_functions]:
  "sql_union_function = Rule_Function (RuleContext RuleSql_union) ''sql_union''"

definition query_specification_function :: parser_function where [declared_functions]:
  "query_specification_function = Rule_Function (RuleContext RuleQuery_specification) ''query_specification''"

definition group_by_clause_function :: parser_function where [declared_functions]:
  "group_by_clause_function = Rule_Function (RuleContext RuleGroup_by_clause) ''group_by_clause''"

definition having_clause_function :: parser_function where [declared_functions]:
  "having_clause_function = Rule_Function (RuleContext RuleHaving_clause) ''having_clause''"

definition from_table_sources_function :: parser_function where [declared_functions]:
  "from_table_sources_function = Rule_Function (RuleContext RuleFrom_table_sources) ''from_table_sources''"

definition top_clause_function :: parser_function where [declared_functions]:
  "top_clause_function = Rule_Function (RuleContext RuleTop_clause) ''top_clause''"

definition top_percent_function :: parser_function where [declared_functions]:
  "top_percent_function = Rule_Function (RuleContext RuleTop_percent) ''top_percent''"

definition top_count_function :: parser_function where [declared_functions]:
  "top_count_function = Rule_Function (RuleContext RuleTop_count) ''top_count''"

definition order_by_clause_function :: parser_function where [declared_functions]:
  "order_by_clause_function = Rule_Function (RuleContext RuleOrder_by_clause) ''order_by_clause''"

definition select_order_by_clause_function :: parser_function where [declared_functions]:
  "select_order_by_clause_function = Rule_Function (RuleContext RuleSelect_order_by_clause) ''select_order_by_clause''"

definition for_clause_function :: parser_function where [declared_functions]:
  "for_clause_function = Rule_Function (RuleContext RuleFor_clause) ''for_clause''"

definition xml_common_directives_function :: parser_function where [declared_functions]:
  "xml_common_directives_function = Rule_Function (RuleContext RuleXml_common_directives) ''xml_common_directives''"

definition order_by_expression_function :: parser_function where [declared_functions]:
  "order_by_expression_function = Rule_Function (RuleContext RuleOrder_by_expression) ''order_by_expression''"

definition grouping_sets_item_function :: parser_function where [declared_functions]:
  "grouping_sets_item_function = Rule_Function (RuleContext RuleGrouping_sets_item) ''grouping_sets_item''"

definition group_by_item_function :: parser_function where [declared_functions]:
  "group_by_item_function = Rule_Function (RuleContext RuleGroup_by_item) ''group_by_item''"

definition option_clause_function :: parser_function where [declared_functions]:
  "option_clause_function = Rule_Function (RuleContext RuleOption_clause) ''option_clause''"

definition option_function :: parser_function where [declared_functions]:
  "option_function = Rule_Function (RuleContext RuleOption) ''option''"

definition optimize_for_arg_function :: parser_function where [declared_functions]:
  "optimize_for_arg_function = Rule_Function (RuleContext RuleOptimize_for_arg) ''optimize_for_arg''"

definition select_list_function :: parser_function where [declared_functions]:
  "select_list_function = Rule_Function (RuleContext RuleSelect_list) ''select_list''"

definition udt_method_arguments_function :: parser_function where [declared_functions]:
  "udt_method_arguments_function = Rule_Function (RuleContext RuleUdt_method_arguments) ''udt_method_arguments''"

definition asterisk_function :: parser_function where [declared_functions]:
  "asterisk_function = Rule_Function (RuleContext RuleAsterisk) ''asterisk''"

definition udt_elem_function :: parser_function where [declared_functions]:
  "udt_elem_function = Rule_Function (RuleContext RuleUdt_elem) ''udt_elem''"

definition expression_elem_function :: parser_function where [declared_functions]:
  "expression_elem_function = Rule_Function (RuleContext RuleExpression_elem) ''expression_elem''"

definition select_list_elem_function :: parser_function where [declared_functions]:
  "select_list_elem_function = Rule_Function (RuleContext RuleSelect_list_elem) ''select_list_elem''"

definition table_sources_function :: parser_function where [declared_functions]:
  "table_sources_function = Rule_Function (RuleContext RuleTable_sources) ''table_sources''"

definition non_ansi_join_function :: parser_function where [declared_functions]:
  "non_ansi_join_function = Rule_Function (RuleContext RuleNon_ansi_join) ''non_ansi_join''"

definition table_source_function :: parser_function where [declared_functions]:
  "table_source_function = Rule_Function (RuleContext RuleTable_source) ''table_source''"

definition table_source_item_function :: parser_function where [declared_functions]:
  "table_source_item_function = Rule_Function (RuleContext RuleTable_source_item) ''table_source_item''"

definition open_xml_function :: parser_function where [declared_functions]:
  "open_xml_function = Rule_Function (RuleContext RuleOpen_xml) ''open_xml''"

definition open_json_function :: parser_function where [declared_functions]:
  "open_json_function = Rule_Function (RuleContext RuleOpen_json) ''open_json''"

definition json_declaration_function :: parser_function where [declared_functions]:
  "json_declaration_function = Rule_Function (RuleContext RuleJson_declaration) ''json_declaration''"

definition json_column_declaration_function :: parser_function where [declared_functions]:
  "json_column_declaration_function = Rule_Function (RuleContext RuleJson_column_declaration) ''json_column_declaration''"

definition schema_declaration_function :: parser_function where [declared_functions]:
  "schema_declaration_function = Rule_Function (RuleContext RuleSchema_declaration) ''schema_declaration''"

definition column_declaration_function :: parser_function where [declared_functions]:
  "column_declaration_function = Rule_Function (RuleContext RuleColumn_declaration) ''column_declaration''"

definition change_table_function :: parser_function where [declared_functions]:
  "change_table_function = Rule_Function (RuleContext RuleChange_table) ''change_table''"

definition change_table_changes_function :: parser_function where [declared_functions]:
  "change_table_changes_function = Rule_Function (RuleContext RuleChange_table_changes) ''change_table_changes''"

definition change_table_version_function :: parser_function where [declared_functions]:
  "change_table_version_function = Rule_Function (RuleContext RuleChange_table_version) ''change_table_version''"

definition join_part_function :: parser_function where [declared_functions]:
  "join_part_function = Rule_Function (RuleContext RuleJoin_part) ''join_part''"

definition join_on_function :: parser_function where [declared_functions]:
  "join_on_function = Rule_Function (RuleContext RuleJoin_on) ''join_on''"

definition cross_join_function :: parser_function where [declared_functions]:
  "cross_join_function = Rule_Function (RuleContext RuleCross_join) ''cross_join''"

definition apply__function :: parser_function where [declared_functions]:
  "apply__function = Rule_Function (RuleContext RuleApply') ''apply_''"

definition pivot_function :: parser_function where [declared_functions]:
  "pivot_function = Rule_Function (RuleContext RulePivot) ''pivot''"

definition unpivot_function :: parser_function where [declared_functions]:
  "unpivot_function = Rule_Function (RuleContext RuleUnpivot) ''unpivot''"

definition pivot_clause_function :: parser_function where [declared_functions]:
  "pivot_clause_function = Rule_Function (RuleContext RulePivot_clause) ''pivot_clause''"

definition unpivot_clause_function :: parser_function where [declared_functions]:
  "unpivot_clause_function = Rule_Function (RuleContext RuleUnpivot_clause) ''unpivot_clause''"

definition full_column_name_list_function :: parser_function where [declared_functions]:
  "full_column_name_list_function = Rule_Function (RuleContext RuleFull_column_name_list) ''full_column_name_list''"

definition rowset_function_function :: parser_function where [declared_functions]:
  "rowset_function_function = Rule_Function (RuleContext RuleRowset_function) ''rowset_function''"

definition bulk_option_function :: parser_function where [declared_functions]:
  "bulk_option_function = Rule_Function (RuleContext RuleBulk_option) ''bulk_option''"

definition derived_table_function :: parser_function where [declared_functions]:
  "derived_table_function = Rule_Function (RuleContext RuleDerived_table) ''derived_table''"

definition function_call_function :: parser_function where [declared_functions]:
  "function_call_function = Rule_Function (RuleContext RuleFunction_call) ''function_call''"

definition partition_function_function :: parser_function where [declared_functions]:
  "partition_function_function = Rule_Function (RuleContext RulePartition_function) ''partition_function''"

definition freetext_function_function :: parser_function where [declared_functions]:
  "freetext_function_function = Rule_Function (RuleContext RuleFreetext_function) ''freetext_function''"

definition freetext_predicate_function :: parser_function where [declared_functions]:
  "freetext_predicate_function = Rule_Function (RuleContext RuleFreetext_predicate) ''freetext_predicate''"

definition json_key_value_function :: parser_function where [declared_functions]:
  "json_key_value_function = Rule_Function (RuleContext RuleJson_key_value) ''json_key_value''"

definition json_null_clause_function :: parser_function where [declared_functions]:
  "json_null_clause_function = Rule_Function (RuleContext RuleJson_null_clause) ''json_null_clause''"

definition built_in_functions_function :: parser_function where [declared_functions]:
  "built_in_functions_function = Rule_Function (RuleContext RuleBuilt_in_functions) ''built_in_functions''"

definition xml_data_type_methods_function :: parser_function where [declared_functions]:
  "xml_data_type_methods_function = Rule_Function (RuleContext RuleXml_data_type_methods) ''xml_data_type_methods''"

definition dateparts_9_function :: parser_function where [declared_functions]:
  "dateparts_9_function = Rule_Function (RuleContext RuleDateparts_9) ''dateparts_9''"

definition dateparts_12_function :: parser_function where [declared_functions]:
  "dateparts_12_function = Rule_Function (RuleContext RuleDateparts_12) ''dateparts_12''"

definition dateparts_15_function :: parser_function where [declared_functions]:
  "dateparts_15_function = Rule_Function (RuleContext RuleDateparts_15) ''dateparts_15''"

definition dateparts_datetrunc_function :: parser_function where [declared_functions]:
  "dateparts_datetrunc_function = Rule_Function (RuleContext RuleDateparts_datetrunc) ''dateparts_datetrunc''"

definition value_method_function :: parser_function where [declared_functions]:
  "value_method_function = Rule_Function (RuleContext RuleValue_method) ''value_method''"

definition value_call_function :: parser_function where [declared_functions]:
  "value_call_function = Rule_Function (RuleContext RuleValue_call) ''value_call''"

definition query_method_function :: parser_function where [declared_functions]:
  "query_method_function = Rule_Function (RuleContext RuleQuery_method) ''query_method''"

definition query_call_function :: parser_function where [declared_functions]:
  "query_call_function = Rule_Function (RuleContext RuleQuery_call) ''query_call''"

definition exist_method_function :: parser_function where [declared_functions]:
  "exist_method_function = Rule_Function (RuleContext RuleExist_method) ''exist_method''"

definition exist_call_function :: parser_function where [declared_functions]:
  "exist_call_function = Rule_Function (RuleContext RuleExist_call) ''exist_call''"

definition modify_method_function :: parser_function where [declared_functions]:
  "modify_method_function = Rule_Function (RuleContext RuleModify_method) ''modify_method''"

definition modify_call_function :: parser_function where [declared_functions]:
  "modify_call_function = Rule_Function (RuleContext RuleModify_call) ''modify_call''"

definition hierarchyid_call_function :: parser_function where [declared_functions]:
  "hierarchyid_call_function = Rule_Function (RuleContext RuleHierarchyid_call) ''hierarchyid_call''"

definition hierarchyid_static_method_function :: parser_function where [declared_functions]:
  "hierarchyid_static_method_function = Rule_Function (RuleContext RuleHierarchyid_static_method) ''hierarchyid_static_method''"

definition nodes_method_function :: parser_function where [declared_functions]:
  "nodes_method_function = Rule_Function (RuleContext RuleNodes_method) ''nodes_method''"

definition switch_section_function :: parser_function where [declared_functions]:
  "switch_section_function = Rule_Function (RuleContext RuleSwitch_section) ''switch_section''"

definition switch_search_condition_section_function :: parser_function where [declared_functions]:
  "switch_search_condition_section_function = Rule_Function (RuleContext RuleSwitch_search_condition_section) ''switch_search_condition_section''"

definition as_column_alias_function :: parser_function where [declared_functions]:
  "as_column_alias_function = Rule_Function (RuleContext RuleAs_column_alias) ''as_column_alias''"

definition as_table_alias_function :: parser_function where [declared_functions]:
  "as_table_alias_function = Rule_Function (RuleContext RuleAs_table_alias) ''as_table_alias''"

definition table_alias_function :: parser_function where [declared_functions]:
  "table_alias_function = Rule_Function (RuleContext RuleTable_alias) ''table_alias''"

definition with_table_hints_function :: parser_function where [declared_functions]:
  "with_table_hints_function = Rule_Function (RuleContext RuleWith_table_hints) ''with_table_hints''"

definition deprecated_table_hint_function :: parser_function where [declared_functions]:
  "deprecated_table_hint_function = Rule_Function (RuleContext RuleDeprecated_table_hint) ''deprecated_table_hint''"

definition sybase_legacy_hints_function :: parser_function where [declared_functions]:
  "sybase_legacy_hints_function = Rule_Function (RuleContext RuleSybase_legacy_hints) ''sybase_legacy_hints''"

definition sybase_legacy_hint_function :: parser_function where [declared_functions]:
  "sybase_legacy_hint_function = Rule_Function (RuleContext RuleSybase_legacy_hint) ''sybase_legacy_hint''"

definition table_hint_function :: parser_function where [declared_functions]:
  "table_hint_function = Rule_Function (RuleContext RuleTable_hint) ''table_hint''"

definition index_value_function :: parser_function where [declared_functions]:
  "index_value_function = Rule_Function (RuleContext RuleIndex_value) ''index_value''"

definition column_alias_list_function :: parser_function where [declared_functions]:
  "column_alias_list_function = Rule_Function (RuleContext RuleColumn_alias_list) ''column_alias_list''"

definition column_alias_function :: parser_function where [declared_functions]:
  "column_alias_function = Rule_Function (RuleContext RuleColumn_alias) ''column_alias''"

definition table_value_constructor_function :: parser_function where [declared_functions]:
  "table_value_constructor_function = Rule_Function (RuleContext RuleTable_value_constructor) ''table_value_constructor''"

definition expression_list__function :: parser_function where [declared_functions]:
  "expression_list__function = Rule_Function (RuleContext RuleExpression_list') ''expression_list_''"

definition ranking_windowed_function_function :: parser_function where [declared_functions]:
  "ranking_windowed_function_function = Rule_Function (RuleContext RuleRanking_windowed_function) ''ranking_windowed_function''"

definition aggregate_windowed_function_function :: parser_function where [declared_functions]:
  "aggregate_windowed_function_function = Rule_Function (RuleContext RuleAggregate_windowed_function) ''aggregate_windowed_function''"

definition analytic_windowed_function_function :: parser_function where [declared_functions]:
  "analytic_windowed_function_function = Rule_Function (RuleContext RuleAnalytic_windowed_function) ''analytic_windowed_function''"

definition all_distinct_expression_function :: parser_function where [declared_functions]:
  "all_distinct_expression_function = Rule_Function (RuleContext RuleAll_distinct_expression) ''all_distinct_expression''"

definition over_clause_function :: parser_function where [declared_functions]:
  "over_clause_function = Rule_Function (RuleContext RuleOver_clause) ''over_clause''"

definition row_or_range_clause_function :: parser_function where [declared_functions]:
  "row_or_range_clause_function = Rule_Function (RuleContext RuleRow_or_range_clause) ''row_or_range_clause''"

definition window_frame_extent_function :: parser_function where [declared_functions]:
  "window_frame_extent_function = Rule_Function (RuleContext RuleWindow_frame_extent) ''window_frame_extent''"

definition window_frame_bound_function :: parser_function where [declared_functions]:
  "window_frame_bound_function = Rule_Function (RuleContext RuleWindow_frame_bound) ''window_frame_bound''"

definition window_frame_preceding_function :: parser_function where [declared_functions]:
  "window_frame_preceding_function = Rule_Function (RuleContext RuleWindow_frame_preceding) ''window_frame_preceding''"

definition window_frame_following_function :: parser_function where [declared_functions]:
  "window_frame_following_function = Rule_Function (RuleContext RuleWindow_frame_following) ''window_frame_following''"

definition create_database_option_function :: parser_function where [declared_functions]:
  "create_database_option_function = Rule_Function (RuleContext RuleCreate_database_option) ''create_database_option''"

definition database_filestream_option_function :: parser_function where [declared_functions]:
  "database_filestream_option_function = Rule_Function (RuleContext RuleDatabase_filestream_option) ''database_filestream_option''"

definition database_file_spec_function :: parser_function where [declared_functions]:
  "database_file_spec_function = Rule_Function (RuleContext RuleDatabase_file_spec) ''database_file_spec''"

definition file_group_function :: parser_function where [declared_functions]:
  "file_group_function = Rule_Function (RuleContext RuleFile_group) ''file_group''"

definition file_spec_function :: parser_function where [declared_functions]:
  "file_spec_function = Rule_Function (RuleContext RuleFile_spec) ''file_spec''"

definition entity_name_function :: parser_function where [declared_functions]:
  "entity_name_function = Rule_Function (RuleContext RuleEntity_name) ''entity_name''"

definition entity_name_for_azure_dw_function :: parser_function where [declared_functions]:
  "entity_name_for_azure_dw_function = Rule_Function (RuleContext RuleEntity_name_for_azure_dw) ''entity_name_for_azure_dw''"

definition entity_name_for_parallel_dw_function :: parser_function where [declared_functions]:
  "entity_name_for_parallel_dw_function = Rule_Function (RuleContext RuleEntity_name_for_parallel_dw) ''entity_name_for_parallel_dw''"

definition full_table_name_function :: parser_function where [declared_functions]:
  "full_table_name_function = Rule_Function (RuleContext RuleFull_table_name) ''full_table_name''"

definition table_name_function :: parser_function where [declared_functions]:
  "table_name_function = Rule_Function (RuleContext RuleTable_name) ''table_name''"

definition simple_name_function :: parser_function where [declared_functions]:
  "simple_name_function = Rule_Function (RuleContext RuleSimple_name) ''simple_name''"

definition func_proc_name_schema_function :: parser_function where [declared_functions]:
  "func_proc_name_schema_function = Rule_Function (RuleContext RuleFunc_proc_name_schema) ''func_proc_name_schema''"

definition func_proc_name_database_schema_function :: parser_function where [declared_functions]:
  "func_proc_name_database_schema_function = Rule_Function (RuleContext RuleFunc_proc_name_database_schema) ''func_proc_name_database_schema''"

definition func_proc_name_server_database_schema_function :: parser_function where [declared_functions]:
  "func_proc_name_server_database_schema_function = Rule_Function (RuleContext RuleFunc_proc_name_server_database_schema) ''func_proc_name_server_database_schema''"

definition ddl_object_function :: parser_function where [declared_functions]:
  "ddl_object_function = Rule_Function (RuleContext RuleDdl_object) ''ddl_object''"

definition full_column_name_function :: parser_function where [declared_functions]:
  "full_column_name_function = Rule_Function (RuleContext RuleFull_column_name) ''full_column_name''"

definition column_name_list_with_order_function :: parser_function where [declared_functions]:
  "column_name_list_with_order_function = Rule_Function (RuleContext RuleColumn_name_list_with_order) ''column_name_list_with_order''"

definition insert_column_name_list_function :: parser_function where [declared_functions]:
  "insert_column_name_list_function = Rule_Function (RuleContext RuleInsert_column_name_list) ''insert_column_name_list''"

definition insert_column_id_function :: parser_function where [declared_functions]:
  "insert_column_id_function = Rule_Function (RuleContext RuleInsert_column_id) ''insert_column_id''"

definition column_name_list_function :: parser_function where [declared_functions]:
  "column_name_list_function = Rule_Function (RuleContext RuleColumn_name_list) ''column_name_list''"

definition cursor_name_function :: parser_function where [declared_functions]:
  "cursor_name_function = Rule_Function (RuleContext RuleCursor_name) ''cursor_name''"

definition on_off_function :: parser_function where [declared_functions]:
  "on_off_function = Rule_Function (RuleContext RuleOn_off) ''on_off''"

definition clustered_function :: parser_function where [declared_functions]:
  "clustered_function = Rule_Function (RuleContext RuleClustered) ''clustered''"

definition null_notnull_function :: parser_function where [declared_functions]:
  "null_notnull_function = Rule_Function (RuleContext RuleNull_notnull) ''null_notnull''"

definition scalar_function_name_function :: parser_function where [declared_functions]:
  "scalar_function_name_function = Rule_Function (RuleContext RuleScalar_function_name) ''scalar_function_name''"

definition begin_conversation_timer_function :: parser_function where [declared_functions]:
  "begin_conversation_timer_function = Rule_Function (RuleContext RuleBegin_conversation_timer) ''begin_conversation_timer''"

definition begin_conversation_dialog_function :: parser_function where [declared_functions]:
  "begin_conversation_dialog_function = Rule_Function (RuleContext RuleBegin_conversation_dialog) ''begin_conversation_dialog''"

definition contract_name_function :: parser_function where [declared_functions]:
  "contract_name_function = Rule_Function (RuleContext RuleContract_name) ''contract_name''"

definition service_name_function :: parser_function where [declared_functions]:
  "service_name_function = Rule_Function (RuleContext RuleService_name) ''service_name''"

definition end_conversation_function :: parser_function where [declared_functions]:
  "end_conversation_function = Rule_Function (RuleContext RuleEnd_conversation) ''end_conversation''"

definition waitfor_conversation_function :: parser_function where [declared_functions]:
  "waitfor_conversation_function = Rule_Function (RuleContext RuleWaitfor_conversation) ''waitfor_conversation''"

definition get_conversation_function :: parser_function where [declared_functions]:
  "get_conversation_function = Rule_Function (RuleContext RuleGet_conversation) ''get_conversation''"

definition queue_id_function :: parser_function where [declared_functions]:
  "queue_id_function = Rule_Function (RuleContext RuleQueue_id) ''queue_id''"

definition send_conversation_function :: parser_function where [declared_functions]:
  "send_conversation_function = Rule_Function (RuleContext RuleSend_conversation) ''send_conversation''"

definition data_type_function :: parser_function where [declared_functions]:
  "data_type_function = Rule_Function (RuleContext RuleData_type) ''data_type''"

definition constant_function :: parser_function where [declared_functions]:
  "constant_function = Rule_Function (RuleContext RuleConstant) ''constant''"

definition primitive_constant_function :: parser_function where [declared_functions]:
  "primitive_constant_function = Rule_Function (RuleContext RulePrimitive_constant) ''primitive_constant''"

definition keyword_function :: parser_function where [declared_functions]:
  "keyword_function = Rule_Function (RuleContext RuleKeyword) ''keyword''"

definition id__function :: parser_function where [declared_functions]:
  "id__function = Rule_Function (RuleContext RuleId') ''id_''"

definition simple_id_function :: parser_function where [declared_functions]:
  "simple_id_function = Rule_Function (RuleContext RuleSimple_id) ''simple_id''"

definition id_or_string_function :: parser_function where [declared_functions]:
  "id_or_string_function = Rule_Function (RuleContext RuleId_or_string) ''id_or_string''"

definition comparison_operator_function :: parser_function where [declared_functions]:
  "comparison_operator_function = Rule_Function (RuleContext RuleComparison_operator) ''comparison_operator''"

definition assignment_operator_function :: parser_function where [declared_functions]:
  "assignment_operator_function = Rule_Function (RuleContext RuleAssignment_operator) ''assignment_operator''"

definition file_size_function :: parser_function where [declared_functions]:
  "file_size_function = Rule_Function (RuleContext RuleFile_size) ''file_size''"

definition parser_functions_1 :: "parser_function list" where
  "parser_functions_1 =
     [tsql_file_function, batch_function, batch_level_statement_function, sql_clauses_function,
     dml_clause_function, ddl_clause_function, backup_statement_function, cfl_statement_function,
     block_statement_function, break_statement_function, continue_statement_function,
     goto_statement_function, return_statement_function, if_statement_function,
     throw_statement_function, throw_error_number_function, throw_message_function,
     throw_state_function, try_catch_statement_function, waitfor_statement_function,
     while_statement_function, print_statement_function, raiseerror_statement_function,
     empty_statement_function, another_statement_function, alter_application_role_function,
     alter_xml_schema_collection_function, create_application_role_function,
     drop_aggregate_function, drop_application_role_function, alter_assembly_function,
     alter_assembly_start_function, alter_assembly_clause_function,
     alter_assembly_from_clause_function, alter_assembly_from_clause_start_function,
     alter_assembly_drop_clause_function, alter_assembly_drop_multiple_files_function,
     alter_assembly_drop_function, alter_assembly_add_clause_function,
     alter_asssembly_add_clause_start_function, alter_assembly_client_file_clause_function,
     alter_assembly_file_name_function, alter_assembly_file_bits_function,
     alter_assembly_as_function, alter_assembly_with_clause_function,
     alter_assembly_with_function, client_assembly_specifier_function, assembly_option_function,
     assembly_option_precedence_function, network_file_share_function]"

definition parser_functions_2 :: "parser_function list" where
  "parser_functions_2 =
     [network_computer_function, network_file_start_function, file_path_function,
     file_directory_path_separator_function, local_file_function, local_drive_function,
     multiple_local_files_function, multiple_local_file_start_function, create_assembly_function,
     drop_assembly_function, alter_asymmetric_key_function, alter_asymmetric_key_start_function,
     asymmetric_key_option_function, asymmetric_key_option_start_function,
     asymmetric_key_password_change_option_function, create_asymmetric_key_function,
     drop_asymmetric_key_function, alter_authorization_function, authorization_grantee_function,
     entity_to_function, colon_colon_function, alter_authorization_start_function,
     alter_authorization_for_sql_database_function, alter_authorization_for_azure_dw_function,
     alter_authorization_for_parallel_dw_function, class_type_function,
     class_type_for_sql_database_function, class_type_for_azure_dw_function,
     class_type_for_parallel_dw_function, class_type_for_grant_function,
     drop_availability_group_function, alter_availability_group_function,
     alter_availability_group_start_function, alter_availability_group_options_function,
     ip_v4_failover_function, ip_v6_failover_function, create_or_alter_broker_priority_function,
     drop_broker_priority_function, alter_certificate_function,
     alter_column_encryption_key_function, create_column_encryption_key_function,
     drop_certificate_function, drop_column_encryption_key_function,
     drop_column_master_key_function, drop_contract_function, drop_credential_function,
     drop_cryptograhic_provider_function, drop_database_function,
     drop_database_audit_specification_function, drop_database_encryption_key_function]"

definition parser_functions_3 :: "parser_function list" where
  "parser_functions_3 =
     [drop_database_scoped_credential_function, drop_default_function, drop_endpoint_function,
     drop_external_data_source_function, drop_external_file_format_function,
     drop_external_library_function, drop_external_resource_pool_function,
     drop_external_table_function, drop_event_notifications_function,
     drop_event_session_function, drop_fulltext_catalog_function, drop_fulltext_index_function,
     drop_fulltext_stoplist_function, drop_login_function, drop_master_key_function,
     drop_message_type_function, drop_partition_function_function,
     drop_partition_scheme_function, drop_queue_function, drop_remote_service_binding_function,
     drop_resource_pool_function, drop_db_role_function, drop_route_function, drop_rule_function,
     drop_schema_function, drop_search_property_list_function, drop_security_policy_function,
     drop_sequence_function, drop_server_audit_function,
     drop_server_audit_specification_function, drop_server_role_function, drop_service_function,
     drop_signature_function, drop_statistics_name_azure_dw_and_pdw_function,
     drop_symmetric_key_function, drop_synonym_function, drop_user_function,
     drop_workload_group_function, drop_xml_schema_collection_function, disable_trigger_function,
     enable_trigger_function, lock_table_function, truncate_table_function,
     create_column_master_key_function, alter_credential_function, create_credential_function,
     alter_cryptographic_provider_function, create_cryptographic_provider_function,
     create_endpoint_function, endpoint_encryption_alogorithm_clause_function]"

definition parser_functions_4 :: "parser_function list" where
  "parser_functions_4 =
     [endpoint_authentication_clause_function, endpoint_listener_clause_function,
     create_event_notification_function, create_or_alter_event_session_function,
     event_session_predicate_expression_function, event_session_predicate_factor_function,
     event_session_predicate_leaf_function, alter_external_data_source_function,
     alter_external_library_function, create_external_library_function,
     alter_external_resource_pool_function, create_external_resource_pool_function,
     alter_fulltext_catalog_function, create_fulltext_catalog_function,
     alter_fulltext_stoplist_function, create_fulltext_stoplist_function,
     alter_login_sql_server_function, create_login_sql_server_function,
     alter_login_azure_sql_function, create_login_azure_sql_function,
     alter_login_azure_sql_dw_and_pdw_function, create_login_pdw_function,
     alter_master_key_sql_server_function, create_master_key_sql_server_function,
     alter_master_key_azure_sql_function, create_master_key_azure_sql_function,
     alter_message_type_function, alter_partition_function_function,
     alter_partition_scheme_function, alter_remote_service_binding_function,
     create_remote_service_binding_function, create_resource_pool_function,
     alter_resource_governor_function, alter_database_audit_specification_function,
     audit_action_spec_group_function, audit_action_specification_function,
     action_specification_function, audit_class_name_function, audit_securable_function,
     alter_db_role_function, create_database_audit_specification_function,
     create_db_role_function, create_route_function, create_rule_function,
     alter_schema_sql_function, create_schema_function,
     create_schema_azure_sql_dw_and_pdw_function, alter_schema_azure_sql_dw_and_pdw_function,
     create_search_property_list_function, create_security_policy_function]"

definition parser_functions_5 :: "parser_function list" where
  "parser_functions_5 =
     [alter_sequence_function, create_sequence_function, alter_server_audit_function,
     create_server_audit_function, alter_server_audit_specification_function,
     create_server_audit_specification_function, alter_server_configuration_function,
     alter_server_role_function, create_server_role_function, alter_server_role_pdw_function,
     alter_service_function, opt_arg_clause_function, create_service_function,
     alter_service_master_key_function, alter_symmetric_key_function, create_synonym_function,
     alter_user_function, create_user_function, create_user_azure_sql_dw_function,
     alter_user_azure_sql_function, alter_workload_group_function,
     create_workload_group_function, create_xml_schema_collection_function,
     create_partition_function_function, create_partition_scheme_function, create_queue_function,
     queue_settings_function, alter_queue_function, queue_action_function,
     queue_rebuild_options_function, create_contract_function, conversation_statement_function,
     message_statement_function, merge_statement_function, when_matches_function,
     merge_matched_function, merge_not_matched_function, delete_statement_function,
     delete_statement_from_function, insert_statement_function, insert_statement_value_function,
     receive_statement_function, select_statement_standalone_function, select_statement_function,
     time_function, update_statement_function, output_clause_function,
     output_dml_list_elem_function, create_database_function, create_index_function]"

definition parser_functions_6 :: "parser_function list" where
  "parser_functions_6 =
     [create_index_options_function, relational_index_option_function, alter_index_function,
     resumable_index_options_function, resumable_index_option_function,
     reorganize_partition_function, reorganize_options_function, reorganize_option_function,
     set_index_options_function, set_index_option_function, rebuild_partition_function,
     rebuild_index_options_function, rebuild_index_option_function,
     single_partition_rebuild_index_options_function,
     single_partition_rebuild_index_option_function, on_partitions_function,
     create_columnstore_index_function, create_columnstore_index_options_function,
     columnstore_index_option_function, create_nonclustered_columnstore_index_function,
     create_xml_index_function, xml_index_options_function, xml_index_option_function,
     create_or_alter_procedure_function, as_external_name_function,
     create_or_alter_trigger_function, create_or_alter_dml_trigger_function,
     dml_trigger_option_function, dml_trigger_operation_function,
     create_or_alter_ddl_trigger_function, ddl_trigger_operation_function,
     create_or_alter_function_function, func_body_returns_select_function,
     func_body_returns_table_function, func_body_returns_scalar_function,
     procedure_param_default_value_function, procedure_param_function, procedure_option_function,
     function_option_function, create_statistics_function, update_statistics_function,
     update_statistics_options_function, update_statistics_option_function,
     create_table_function, table_indices_function, table_options_function,
     table_option_function, create_table_index_options_function,
     create_table_index_option_function, create_view_function]"

definition parser_functions_7 :: "parser_function list" where
  "parser_functions_7 =
     [view_attribute_function, alter_table_function, switch_partition_function,
     low_priority_lock_wait_function, alter_database_function, add_or_modify_files_function,
     filespec_function, add_or_modify_filegroups_function,
     filegroup_updatability_option_function, database_optionspec_function, auto_option_function,
     change_tracking_option_function, change_tracking_option_list_function,
     containment_option_function, cursor_option_function, alter_endpoint_function,
     database_mirroring_option_function, mirroring_set_option_function,
     mirroring_partner_function, mirroring_witness_function, witness_partner_equal_function,
     partner_option_function, witness_option_function, witness_server_function,
     partner_server_function, mirroring_host_port_seperator_function,
     partner_server_tcp_prefix_function, port_number_function, host_function,
     date_correlation_optimization_option_function, db_encryption_option_function,
     db_state_option_function, db_update_option_function, db_user_access_option_function,
     delayed_durability_option_function, external_access_option_function, hadr_options_function,
     mixed_page_allocation_option_function, parameterization_option_function,
     recovery_option_function, service_broker_option_function, snapshot_option_function,
     sql_option_function, target_recovery_time_option_function, termination_function,
     drop_index_function, drop_relational_or_xml_or_spatial_index_function,
     drop_backward_compatible_index_function, drop_procedure_function, drop_trigger_function]"

definition parser_functions_8 :: "parser_function list" where
  "parser_functions_8 =
     [drop_dml_trigger_function, drop_ddl_trigger_function, drop_function_function,
     drop_statistics_function, drop_table_function, drop_view_function, create_type_function,
     drop_type_function, rowset_function_limited_function, openquery_function,
     opendatasource_function, declare_statement_function, xml_declaration_function,
     cursor_statement_function, backup_database_function, backup_log_function,
     backup_certificate_function, backup_master_key_function, backup_service_master_key_function,
     kill_statement_function, kill_process_function, kill_query_notification_function,
     kill_stats_job_function, execute_statement_function, execute_body_batch_function,
     execute_body_function, execute_statement_arg_function, execute_statement_arg_named_function,
     execute_statement_arg_unnamed_function, execute_parameter_function,
     execute_var_string_function, security_statement_function, principal_id_function,
     create_certificate_function, existing_keys_function, private_key_options_function,
     generate_new_keys_function, date_options_function, open_key_function, close_key_function,
     create_key_function, key_options_function, algorithm_function,
     encryption_mechanism_function, decryption_mechanism_function, grant_permission_function,
     set_statement_function, transaction_statement_function, go_statement_function,
     use_statement_function]"

definition parser_functions_9 :: "parser_function list" where
  "parser_functions_9 =
     [setuser_statement_function, reconfigure_statement_function, shutdown_statement_function,
     checkpoint_statement_function, dbcc_checkalloc_option_function, dbcc_checkalloc_function,
     dbcc_checkcatalog_function, dbcc_checkconstraints_option_function,
     dbcc_checkconstraints_function, dbcc_checkdb_table_option_function, dbcc_checkdb_function,
     dbcc_checkfilegroup_option_function, dbcc_checkfilegroup_function, dbcc_checktable_function,
     dbcc_cleantable_function, dbcc_clonedatabase_option_function, dbcc_clonedatabase_function,
     dbcc_pdw_showspaceused_function, dbcc_proccache_function, dbcc_showcontig_option_function,
     dbcc_showcontig_function, dbcc_shrinklog_function, dbcc_dbreindex_function,
     dbcc_dll_free_function, dbcc_dropcleanbuffers_function, dbcc_clause_function,
     execute_clause_function, declare_local_function, table_type_definition_function,
     table_type_indices_function, xml_type_definition_function, xml_schema_collection_function,
     column_def_table_constraints_function, column_def_table_constraint_function,
     column_definition_function, column_definition_element_function, column_modifier_function,
     materialized_column_definition_function, column_constraint_function, column_index_function,
     on_partition_or_filegroup_function, table_constraint_function, connection_node_function,
     primary_key_options_function, foreign_key_options_function, check_constraint_function,
     on_delete_function, on_update_function, alter_table_index_options_function,
     alter_table_index_option_function]"

definition parser_functions_10 :: "parser_function list" where
  "parser_functions_10 =
     [declare_cursor_function, declare_set_cursor_common_function,
     declare_set_cursor_common_partial_function, fetch_cursor_function, set_special_function,
     special_list_function, constant_LOCAL_ID_function, expression_function,
     expression_precedence_function, parameter_function, time_zone_function,
     primitive_expression_function, case_expression_function, unary_operator_expression_function,
     bracket_expression_function, subquery_function, with_expression_function,
     common_table_expression_function, update_elem_function, update_elem_merge_function,
     search_condition_function, search_condition_precedence_function, predicate_function,
     query_expression_function, sql_union_function, query_specification_function,
     group_by_clause_function, having_clause_function, from_table_sources_function,
     top_clause_function, top_percent_function, top_count_function, order_by_clause_function,
     select_order_by_clause_function, for_clause_function, xml_common_directives_function,
     order_by_expression_function, grouping_sets_item_function, group_by_item_function,
     option_clause_function, option_function, optimize_for_arg_function, select_list_function,
     udt_method_arguments_function, asterisk_function, udt_elem_function,
     expression_elem_function, select_list_elem_function, table_sources_function,
     non_ansi_join_function]"

definition parser_functions_11 :: "parser_function list" where
  "parser_functions_11 =
     [table_source_function, table_source_item_function, open_xml_function, open_json_function,
     json_declaration_function, json_column_declaration_function, schema_declaration_function,
     column_declaration_function, change_table_function, change_table_changes_function,
     change_table_version_function, join_part_function, join_on_function, cross_join_function,
     apply__function, pivot_function, unpivot_function, pivot_clause_function,
     unpivot_clause_function, full_column_name_list_function, rowset_function_function,
     bulk_option_function, derived_table_function, function_call_function,
     partition_function_function, freetext_function_function, freetext_predicate_function,
     json_key_value_function, json_null_clause_function, built_in_functions_function,
     xml_data_type_methods_function, dateparts_9_function, dateparts_12_function,
     dateparts_15_function, dateparts_datetrunc_function, value_method_function,
     value_call_function, query_method_function, query_call_function, exist_method_function,
     exist_call_function, modify_method_function, modify_call_function,
     hierarchyid_call_function, hierarchyid_static_method_function, nodes_method_function,
     switch_section_function, switch_search_condition_section_function, as_column_alias_function,
     as_table_alias_function]"

definition parser_functions_12 :: "parser_function list" where
  "parser_functions_12 =
     [table_alias_function, with_table_hints_function, deprecated_table_hint_function,
     sybase_legacy_hints_function, sybase_legacy_hint_function, table_hint_function,
     index_value_function, column_alias_list_function, column_alias_function,
     table_value_constructor_function, expression_list__function,
     ranking_windowed_function_function, aggregate_windowed_function_function,
     analytic_windowed_function_function, all_distinct_expression_function, over_clause_function,
     row_or_range_clause_function, window_frame_extent_function, window_frame_bound_function,
     window_frame_preceding_function, window_frame_following_function,
     create_database_option_function, database_filestream_option_function,
     database_file_spec_function, file_group_function, file_spec_function, entity_name_function,
     entity_name_for_azure_dw_function, entity_name_for_parallel_dw_function,
     full_table_name_function, table_name_function, simple_name_function,
     func_proc_name_schema_function, func_proc_name_database_schema_function,
     func_proc_name_server_database_schema_function, ddl_object_function,
     full_column_name_function, column_name_list_with_order_function,
     insert_column_name_list_function, insert_column_id_function, column_name_list_function,
     cursor_name_function, on_off_function, clustered_function, null_notnull_function,
     scalar_function_name_function, begin_conversation_timer_function,
     begin_conversation_dialog_function, contract_name_function, service_name_function]"

definition parser_functions_13 :: "parser_function list" where
  "parser_functions_13 =
     [end_conversation_function, waitfor_conversation_function, get_conversation_function,
     queue_id_function, send_conversation_function, data_type_function, constant_function,
     primitive_constant_function, keyword_function, id__function, simple_id_function,
     id_or_string_function, comparison_operator_function, assignment_operator_function,
     file_size_function]"

definition parser_functions :: "parser_function list" where
  "parser_functions =
     parser_functions_1 @ parser_functions_2 @ parser_functions_3 @ parser_functions_4 @
     parser_functions_5 @ parser_functions_6 @ parser_functions_7 @ parser_functions_8 @
     parser_functions_9 @ parser_functions_10 @ parser_functions_11 @ parser_functions_12 @
     parser_functions_13"

lemmas parser_functions_table =
  parser_functions_def
  parser_functions_1_def parser_functions_2_def parser_functions_3_def parser_functions_4_def
  parser_functions_5_def parser_functions_6_def parser_functions_7_def parser_functions_8_def
  parser_functions_9_def parser_functions_10_def parser_functions_11_def parser_functions_12_def
  parser_functions_13_def

end
