(* ===== verification/TSql_Functions.thy ===== *)
theory TSql_Functions
  imports Function_Table TSql_Vocabulary TSql_Analysis
begin

text \<open>
  The functions of the parser, its rule indices and its context classes belong together.
\<close>

text \<open>The name of a function with a capital, as code points.\<close>

definition capital :: "string \<Rightarrow> code_point list" where
  "capital s = (case codes s of [] \<Rightarrow> [] | x # xs \<Rightarrow> upper x # xs)"

text \<open>The functions without a precedence, next to the enumeration of the rules.\<close>

fun one_each :: "parser_function list \<Rightarrow> (string \<times> rule_id) list \<Rightarrow> bool" where
  "one_each [] es = (es = [])"
| "one_each (f # fs) es = (if takes_precedence f then one_each fs es
     else (case es of [] \<Rightarrow> False | e # ds \<Rightarrow>
       if returns f = RuleContext (snd e) then
         if same (capital (function_name f)) (codes (rule_name (fst e))) then one_each fs ds else False
       else False))"

lemma one_each_iff: "one_each fs es \<longleftrightarrow>
    map returns (filter (\<lambda>f. \<not> takes_precedence f) fs) = map (\<lambda>e. RuleContext (snd e)) es
    \<and> map (\<lambda>f. capital (function_name f)) (filter (\<lambda>f. \<not> takes_precedence f) fs) = map (\<lambda>e. codes (rule_name (fst e))) es"
  by (induction fs es rule: one_each.induct) (auto simp: same_iff split: list.splits if_splits)

lemma one_each_eval:
  "one_each [] es = (case es of [] \<Rightarrow> True | e # ds \<Rightarrow> False)"
  "one_each (f # fs) es = (if takes_precedence f then one_each fs es
     else (case es of [] \<Rightarrow> False | e # ds \<Rightarrow>
       if returns f = RuleContext (snd e) then if same (capital (function_name f)) (codes (rule_name (fst e))) then one_each fs ds else False
       else False))"
  by (simp_all split: list.split)

lemmas function_eval = one_each_eval declared_functions returns.simps function_name.simps takes_precedence.simps
  class_id.inject class_id.distinct rule_name.simps capital_def same.simps codes_eval list_eval num_eval char.inject

lemma functions_one_each: "one_each parser_functions rule_enum"
  by (simp only: function_eval char_eval parser_functions_table rule_enum_table filter_eval cong: lexer_opaque)

lemma precedence_functions:
  "filter takes_precedence parser_functions =
     [assembly_option_precedence_function, expression_precedence_function, search_condition_precedence_function]"
  unfolding same_iff [symmetric]
  by (simp only: function_eval parser_functions_table filter_eval parser_function.inject cong: lexer_opaque)

text \<open>
  C33: The rule indices count from 0 without a gap; the forward declarations name the class of
  every rule in the order of the indices, and exactly the rules of the enumeration have a class.
  The parser has one function for every rule, in the same order, with the name of the rule, which
  returns a node of its class, and a second one with a precedence for the rules that have a
  predicate function.
\<close>

theorem rule_indices_agree:
  "map snd rule_enum = [0..<612]
   \<and> forward_classes = map (\<lambda>e. rule_name (fst e) @ ''Context'') rule_enum
   \<and> (\<forall>r. r \<in> snd ` set rule_enum \<longleftrightarrow> (\<exists>c \<in> set tsql_classes. class_id c = RuleContext r))
   \<and> map returns (filter (\<lambda>f. \<not> takes_precedence f) parser_functions) = map (\<lambda>e. RuleContext (snd e)) rule_enum
   \<and> map (\<lambda>f. capital (function_name f)) (filter (\<lambda>f. \<not> takes_precedence f) parser_functions)
       = map (\<lambda>e. codes (rule_name (fst e))) rule_enum
   \<and> map returns (filter takes_precedence parser_functions) = map RuleContext sempred_rules"
proof (intro conjI allI)
  show ids: "map snd rule_enum = [0..<612]" using rule_enum_counts by (rule counts_nat)
  show "forward_classes = map (\<lambda>e. rule_name (fst e) @ ''Context'') rule_enum"
    using forward_classes_ok by (simp only: forwards_iff)
  have "r \<in> snd ` set rule_enum \<longleftrightarrow> r < 612" for r
    unfolding set_map [symmetric] ids by (simp del: upt_rec_numeral)
  then show "r \<in> snd ` set rule_enum \<longleftrightarrow> (\<exists>c \<in> set tsql_classes. class_id c = RuleContext r)" for r
    by (simp add: rule_class_iff)
  show "map returns (filter (\<lambda>f. \<not> takes_precedence f) parser_functions) = map (\<lambda>e. RuleContext (snd e)) rule_enum"
    "map (\<lambda>f. capital (function_name f)) (filter (\<lambda>f. \<not> takes_precedence f) parser_functions)
       = map (\<lambda>e. codes (rule_name (fst e))) rule_enum"
    using functions_one_each unfolding one_each_iff by (rule conjunct1, rule conjunct2)
  show "map returns (filter takes_precedence parser_functions) = map RuleContext sempred_rules"
    unfolding precedence_functions sempred_rules_def
    by (simp add: assembly_option_precedence_function_def expression_precedence_function_def
        search_condition_precedence_function_def)
qed

end
