(* ===== verification/TSql_Lexer.thy ===== *)
theory TSql_Lexer
  imports TSql_Vocabulary
begin

text \<open>
  The lexer of T-SQL: what its rules are checked for, and what follows for the lexemes of every
  text.  The literal names of \<open>TSqlLexer.cpp\<close> are compared with the rules.
\<close>

section \<open>Checks\<close>

lemma lexer_type_counts: "counts 1 1208 (map token_type tsql_lexer)"
  by (simp only: vocabulary_eval tsql_lexer_table rule_eval cong: lexer_opaque)

text \<open>The literals are distinct, compared in groups by their first letters.\<close>

lemma lexer_keys_00: "all_distinct 60 (filter (head_in 0 0x43) (map key (literals tsql_lexer)))"
  by (simp only: distinct_eval char_eval rule_eval tsql_lexer_table cong: lexer_opaque)

lemma lexer_keys_43: "all_distinct 60 (filter (head_in 0x43 0x44) (map key (literals tsql_lexer)))"
  by (simp only: distinct_eval char_eval rule_eval tsql_lexer_table cong: lexer_opaque)

lemma lexer_keys_44: "all_distinct 60 (filter (head_in 0x44 0x47) (map key (literals tsql_lexer)))"
  by (simp only: distinct_eval char_eval rule_eval tsql_lexer_table cong: lexer_opaque)

lemma lexer_keys_47: "all_distinct 60 (filter (head_in 0x47 0x4D) (map key (literals tsql_lexer)))"
  by (simp only: distinct_eval char_eval rule_eval tsql_lexer_table cong: lexer_opaque)

lemma lexer_keys_4D: "all_distinct 60 (filter (head_in 0x4D 0x51) (map key (literals tsql_lexer)))"
  by (simp only: distinct_eval char_eval rule_eval tsql_lexer_table cong: lexer_opaque)

lemma lexer_keys_51: "all_distinct 60 (filter (head_in 0x51 0x53) (map key (literals tsql_lexer)))"
  by (simp only: distinct_eval char_eval rule_eval tsql_lexer_table cong: lexer_opaque)

lemma lexer_keys_53: "all_distinct 60 (filter (head_in 0x53 0x54) (map key (literals tsql_lexer)))"
  by (simp only: distinct_eval char_eval rule_eval tsql_lexer_table cong: lexer_opaque)

lemma lexer_keys_54: "all_distinct 60 (filter (head_in 0x54 256) (map key (literals tsql_lexer)))"
  by (simp only: distinct_eval char_eval rule_eval tsql_lexer_table cong: lexer_opaque)

lemma lexer_keys: "distinct (map key (literals tsql_lexer))"
proof -
  have "distinct (filter (head_in 0 0x44) (map key (literals tsql_lexer)))"
    by (rule distinct_join [OF all_distinct_sound all_distinct_sound, OF lexer_keys_00 lexer_keys_43]) simp_all
  then have "distinct (filter (head_in 0 0x47) (map key (literals tsql_lexer)))"
    by (rule distinct_join [OF _ all_distinct_sound, OF _ lexer_keys_44]) simp_all
  then have "distinct (filter (head_in 0 0x4D) (map key (literals tsql_lexer)))"
    by (rule distinct_join [OF _ all_distinct_sound, OF _ lexer_keys_47]) simp_all
  then have "distinct (filter (head_in 0 0x51) (map key (literals tsql_lexer)))"
    by (rule distinct_join [OF _ all_distinct_sound, OF _ lexer_keys_4D]) simp_all
  then have "distinct (filter (head_in 0 0x53) (map key (literals tsql_lexer)))"
    by (rule distinct_join [OF _ all_distinct_sound, OF _ lexer_keys_51]) simp_all
  then have "distinct (filter (head_in 0 0x54) (map key (literals tsql_lexer)))"
    by (rule distinct_join [OF _ all_distinct_sound, OF _ lexer_keys_53]) simp_all
  then have "distinct (filter (head_in 0 256) (map key (literals tsql_lexer)))"
    by (rule distinct_join [OF _ all_distinct_sound, OF _ lexer_keys_54]) simp_all
  then show ?thesis by (simp add: filter_id_conv [THEN iffD2] head_in_key)
qed

text \<open>The types of the rules that lose every text they match to an earlier rule.\<close>

definition dead_types :: "token list" where
  "dead_types = [T_UNDERLINE, T_AT, T_SHARP]"

lemma lexer_clear: "clear dead_types tsql_lexer"
  by (simp only: dead_types_def clear_all_eval char_eval rule_eval tsql_lexer_table cong: lexer_opaque)

interpretation tsql: scanner tsql_lexer dead_types
proof unfold_locales
  have "map token_type tsql_lexer = map (\<lambda>i. 1 + int i) [0..<length tsql_lexer]"
    using counts_nth [OF lexer_type_counts] by (intro nth_equalityI) simp_all
  then show "distinct (map token_type tsql_lexer)" by (simp add: distinct_map inj_on_def)
qed (rule lexer_keys lexer_clear)+

lemma hidden_rules: "filter on_hidden tsql_lexer = [r_SPACE, r_COMMENT, r_LINE_COMMENT]"
  unfolding same_iff [symmetric]
  by (simp only: same.simps filter_eval list_eval num_eval tsql_lexer_table rule_eval cong: lexer_opaque)

lemma lexer_length: "length tsql_lexer = 1207"
  using counts_length [OF lexer_type_counts] by simp

lemma rule_at:
  assumes "r \<in> set tsql_lexer"
  obtains i where "i < 1207" "tsql_lexer ! i = r" "token_type r = int i + 1"
proof -
  from assms obtain i where i: "i < length tsql_lexer" "tsql_lexer ! i = r" by (auto simp: in_set_conv_nth)
  moreover have "token_type r = int i + 1"
    using counts_nth [OF lexer_type_counts, of i] i by simp
  ultimately show thesis using that lexer_length by simp
qed

lemma rule_of_type:
  assumes "1 \<le> t" and "t \<le> 1207"
  obtains r where "r \<in> set tsql_lexer" "token_type r = t"
proof -
  from lexer_length assms counts_nth [OF lexer_type_counts, of "nat (t - 1)"] that [of "tsql_lexer ! nat (t - 1)"]
  show thesis by simp
qed

section \<open>Literal names\<close>

definition literal_name :: "lexer_rule \<Rightarrow> string" where
  "literal_name r = (if token_type r = T_PLACEHOLDER
     then quoted [CHR 0x5C, CHR ''u'', CHR ''0'', CHR ''0'', CHR ''3'', CHR ''F'']
     else (case literal_of (pattern r) of None \<Rightarrow> [] | Some s \<Rightarrow> quoted s))"

lemmas literal_names_table =
  literal_names_def
  literal_names_1_def literal_names_2_def literal_names_3_def literal_names_4_def
  literal_names_5_def literal_names_6_def literal_names_7_def literal_names_8_def
  literal_names_9_def literal_names_10_def literal_names_11_def literal_names_12_def
  literal_names_13_def literal_names_14_def literal_names_15_def literal_names_16_def
  literal_names_17_def literal_names_18_def literal_names_19_def literal_names_20_def
  literal_names_21_def

lemma literal_names_eq: "literal_names = [] # map literal_name tsql_lexer"
  unfolding same_iff [symmetric]
  by (simp only: same.simps literal_name_def literal_of.simps list_eval num_eval literal_names_table
      tsql_lexer_table rule_eval cong: lexer_opaque)

text \<open>
  C31: The literal names of the C++ lexer are those of the grammar: a token whose rule is a
  single literal is displayed as that literal in quotes, the others have no literal name.  The
  only exception is the placeholder: its literal is a question mark, its display name an escape
  sequence.
\<close>

theorem literal_names_agree:
  assumes "r \<in> set tsql_lexer"
  shows "literal_names ! nat (token_type r) =
    (if token_type r = T_PLACEHOLDER then quoted [CHR 0x5C, CHR ''u'', CHR ''0'', CHR ''0'', CHR ''3'', CHR ''F'']
     else (case pattern r of Lit s \<Rightarrow> quoted s | _ \<Rightarrow> []))"
proof -
  obtain i where i: "i < 1207" "tsql_lexer ! i = r" "token_type r = int i + 1"
    using rule_at [OF assms] .
  moreover note lexer_length
  ultimately have "literal_names ! nat (token_type r) = literal_name r"
    by (simp add: literal_names_eq nat_add_distrib)
  then show ?thesis by (cases "pattern r") (simp_all add: literal_name_def)
qed

theorem literal_names_agree_witness:
  "literal_names ! nat 1 = quoted ''ABORT''"
  using literal_names_agree [of "literal_rule T_ABORT ''ABORT''"]
  by (simp add: tsql_lexer_def lexer_rules_1_def)

end
