(* ===== verification/TSql_Tokens.thy ===== *)
theory TSql_Tokens
  imports TSql_Lexer
begin

text \<open>
  The lexemes of every text: they add up to the text, the text of a literal is the lexeme of its
  token type, and which token types there are lexemes of.
\<close>

section \<open>Nothing is lost\<close>

lemma no_skippable: "list_all (\<lambda>r. \<not> skippable (pattern r)) tsql_lexer"
  by (simp only: skippable.simps list_eval Some_More_def f_DEC_DIGIT_def f_DEC_DOT_DEC_def
        f_FullWidthLetter_def num_eval char_eval rule_eval list_all_append_eval tsql_lexer_table
      cong: lexer_opaque) (simp add: f_FullWidthLetter_def)

text \<open>
  C13: Every rule of the lexer consumes something: none of them matches the empty text, for which the
  lexer of the runtime would make empty tokens without end.
\<close>

theorem no_rule_matches_nothing: "\<not> (\<exists>r \<in> set tsql_lexer. matches (pattern r) (pattern r) [])"
  using no_skippable matches_skippable unfolding list_all_iff by blast

text \<open>
  So the lexer terminates on every text and loses nothing: the texts of the lexemes and of the
  reported errors, one after the other, are the input, however much the recovery of the runtime
  skips after an error, and none of them is empty.
\<close>

lemma lexing_loses_nothing:
  "concat (map text_of (lexemes tsql_lexer extra xs)) = xs
   \<and> [] \<notin> set (map text_of (lexemes tsql_lexer extra xs))"
  by (auto simp: lexemes_text dest: lexemes_nonempty)

section \<open>Literals\<close>

lemma literal_visible:
  assumes "r \<in> set tsql_lexer" and "pattern r = Lit s"
  shows "on_hidden r = False"
proof -
  have "r \<in> set (filter on_hidden tsql_lexer) \<Longrightarrow> pattern r \<noteq> Lit s"
    unfolding hidden_rules by (auto simp: r_SPACE_def r_COMMENT_def r_LINE_COMMENT_def)
  with assms show ?thesis by auto
qed

lemma no_empty_literal: "list_all (\<lambda>s. s \<noteq> []) (literals tsql_lexer)"
  by (simp only: literals.simps literals_append literal_of.simps list_all_append_eval list_eval
      tsql_lexer_table rule_eval cong: lexer_opaque)

lemma literal_nonempty: "r \<in> set tsql_lexer \<Longrightarrow> pattern r = Lit s \<Longrightarrow> s \<noteq> []"
  using no_empty_literal by (auto simp: list_all_iff dest: in_literals)

lemma quoted_inject: "quoted s = quoted u \<longleftrightarrow> s = u"
  by (simp add: quoted_def)

lemma literal_named:
  assumes "1 \<le> t" and "t \<le> 1207" and "t \<noteq> T_PLACEHOLDER" and "literal_names ! nat t = quoted s"
  obtains r where "r \<in> set tsql_lexer" "token_type r = t" "pattern r = Lit s"
proof -
  obtain r where r: "r \<in> set tsql_lexer" "token_type r = t" using rule_of_type assms(1,2) .
  with rule_at obtain i where "i < 1207" "tsql_lexer ! i = r" "token_type r = int i + 1" by blast
  with r lexer_length have "literal_names ! nat t = literal_name r"
    by (auto simp: literal_names_eq nat_add_distrib)
  with assms(3,4) r(2) have "literal_of (pattern r) = Some s"
    by (auto simp: literal_name_def quoted_inject quoted_def split: if_splits option.splits)
  with r that show thesis by (simp add: literal_of_Some)
qed

text \<open>
  C7: Display and lexing are inverse: for every token type with a literal name (the
  placeholder and the three of \<open>dead_types\<close> apart), the literal in any spelling of its letters
  is lexed to a single visible token of this type.
\<close>

theorem literal_names_lexed:
  assumes "1 \<le> t" and "t \<le> 1207" and "t \<noteq> T_PLACEHOLDER" and "t \<notin> set dead_types"
    and "literal_names ! nat t = quoted s" and "map upper w = map upper (codes s)"
  shows "lexemes tsql_lexer extra w = [Lexeme t False w]"
proof -
  obtain r where r: "r \<in> set tsql_lexer" "token_type r = t" "pattern r = Lit s"
    using literal_named [OF assms(1,2,3,5)] .
  have "lexemes tsql_lexer extra w = [Lexeme (token_type r) (on_hidden r) w]"
    by (rule tsql.literal_lexeme [OF r(1,3)])
      (use r assms in \<open>simp_all add: key_def literal_nonempty\<close>)
  with r literal_visible show ?thesis by metis
qed

theorem literal_names_lexed_witness:
  "lexemes tsql_lexer (\<lambda>xs. 0) (codes ''aBort'') = [Lexeme T_ABORT False (codes ''aBort'')]"
proof (rule literal_names_lexed)
  show "literal_names ! nat T_ABORT = quoted ''ABORT''"
    by (simp add: literal_names_def literal_names_1_def)
qed (simp_all add: dead_types_def codes_def upper_def)

section \<open>The types of lexemes\<close>

lemmas whole_all_eval = find_eval find_append_eval whole_eval option.map match_eval

text \<open>A text for each rule that is not a literal.\<close>

lemma sample_CONVERT: "map_option token_type (find (whole (codes ''CONVERT'')) tsql_lexer) = Some T_CONVERT"
  by (simp only: whole_all_eval char_eval rule_eval tsql_lexer_table cong: lexer_opaque)

lemma sample_DEFAULT_DOUBLE_QUOTE: "map_option token_type (find (whole (codes (CHR 0x22 # ''DEFAULT'' @ [CHR 0x22]))) tsql_lexer) = Some T_DEFAULT_DOUBLE_QUOTE"
  by (simp only: whole_all_eval char_eval rule_eval tsql_lexer_table cong: lexer_opaque)

lemma sample_EXECUTE: "map_option token_type (find (whole (codes ''EXEC'')) tsql_lexer) = Some T_EXECUTE"
  by (simp only: whole_all_eval char_eval rule_eval tsql_lexer_table cong: lexer_opaque)

lemma sample_NULL_DOUBLE_QUOTE: "map_option token_type (find (whole (codes (CHR 0x22 # ''NULL'' @ [CHR 0x22]))) tsql_lexer) = Some T_NULL_DOUBLE_QUOTE"
  by (simp only: whole_all_eval char_eval rule_eval tsql_lexer_table cong: lexer_opaque)

lemma sample_PARSE: "map_option token_type (find (whole (codes ''PARSE'')) tsql_lexer) = Some T_PARSE"
  by (simp only: whole_all_eval char_eval rule_eval tsql_lexer_table cong: lexer_opaque)

lemma sample_YEAR_ABBR: "map_option token_type (find (whole (codes ''yy'')) tsql_lexer) = Some T_YEAR_ABBR"
  by (simp only: whole_all_eval char_eval rule_eval tsql_lexer_table cong: lexer_opaque)

lemma sample_QUARTER_ABBR: "map_option token_type (find (whole (codes ''q'')) tsql_lexer) = Some T_QUARTER_ABBR"
  by (simp only: whole_all_eval char_eval rule_eval tsql_lexer_table cong: lexer_opaque)

lemma sample_MONTH_ABBR: "map_option token_type (find (whole (codes ''m'')) tsql_lexer) = Some T_MONTH_ABBR"
  by (simp only: whole_all_eval char_eval rule_eval tsql_lexer_table cong: lexer_opaque)

lemma sample_DAYOFYEAR_ABBR: "map_option token_type (find (whole (codes ''dy'')) tsql_lexer) = Some T_DAYOFYEAR_ABBR"
  by (simp only: whole_all_eval char_eval rule_eval tsql_lexer_table cong: lexer_opaque)

lemma sample_DAY_ABBR: "map_option token_type (find (whole (codes ''d'')) tsql_lexer) = Some T_DAY_ABBR"
  by (simp only: whole_all_eval char_eval rule_eval tsql_lexer_table cong: lexer_opaque)

lemma sample_WEEK_ABBR: "map_option token_type (find (whole (codes ''wk'')) tsql_lexer) = Some T_WEEK_ABBR"
  by (simp only: whole_all_eval char_eval rule_eval tsql_lexer_table cong: lexer_opaque)

lemma sample_MINUTE_ABBR: "map_option token_type (find (whole (codes ''n'')) tsql_lexer) = Some T_MINUTE_ABBR"
  by (simp only: whole_all_eval char_eval rule_eval tsql_lexer_table cong: lexer_opaque)

lemma sample_SECOND_ABBR: "map_option token_type (find (whole (codes ''s'')) tsql_lexer) = Some T_SECOND_ABBR"
  by (simp only: whole_all_eval char_eval rule_eval tsql_lexer_table cong: lexer_opaque)

lemma sample_ISO_WEEK_ABBR: "map_option token_type (find (whole (codes ''isowk'')) tsql_lexer) = Some T_ISO_WEEK_ABBR"
  by (simp only: whole_all_eval char_eval rule_eval tsql_lexer_table cong: lexer_opaque)

lemma sample_DISK_DRIVE: "map_option token_type (find (whole (codes ''C:'')) tsql_lexer) = Some T_DISK_DRIVE"
  by (simp only: whole_all_eval char_eval rule_eval tsql_lexer_table cong: lexer_opaque)

lemma sample_IPV4_ADDR: "map_option token_type (find (whole (codes ''1.2.3.4'')) tsql_lexer) = Some T_IPV4_ADDR"
  by (simp only: whole_all_eval char_eval rule_eval tsql_lexer_table cong: lexer_opaque)

lemma sample_SPACE: "map_option token_type (find (whole (codes '' '')) tsql_lexer) = Some T_SPACE"
  by (simp only: whole_all_eval char_eval rule_eval tsql_lexer_table cong: lexer_opaque)

lemma sample_COMMENT: "map_option token_type (find (whole (codes ''/**/'')) tsql_lexer) = Some T_COMMENT"
  by (simp only: whole_all_eval char_eval rule_eval tsql_lexer_table cong: lexer_opaque)

lemma sample_LINE_COMMENT: "map_option token_type (find (whole (codes ''--'')) tsql_lexer) = Some T_LINE_COMMENT"
  by (simp only: whole_all_eval char_eval rule_eval tsql_lexer_table cong: lexer_opaque)

lemma sample_DOUBLE_QUOTE_ID: "map_option token_type (find (whole (codes [CHR 0x22, CHR ''a'', CHR 0x22])) tsql_lexer) = Some T_DOUBLE_QUOTE_ID"
  by (simp only: whole_all_eval char_eval rule_eval tsql_lexer_table cong: lexer_opaque)

lemma sample_SQUARE_BRACKET_ID: "map_option token_type (find (whole (codes ''[a]'')) tsql_lexer) = Some T_SQUARE_BRACKET_ID"
  by (simp only: whole_all_eval char_eval rule_eval tsql_lexer_table cong: lexer_opaque)

lemma sample_LOCAL_ID: "map_option token_type (find (whole (codes ''@a'')) tsql_lexer) = Some T_LOCAL_ID"
  by (simp only: whole_all_eval char_eval rule_eval tsql_lexer_table cong: lexer_opaque)

lemma sample_TEMP_ID: "map_option token_type (find (whole (codes ''#a'')) tsql_lexer) = Some T_TEMP_ID"
  by (simp only: whole_all_eval char_eval rule_eval tsql_lexer_table cong: lexer_opaque)

lemma sample_DECIMAL: "map_option token_type (find (whole (codes ''1'')) tsql_lexer) = Some T_DECIMAL"
  by (simp only: whole_all_eval char_eval rule_eval tsql_lexer_table cong: lexer_opaque)

lemma sample_ID: "map_option token_type (find (whole (codes ''a'')) tsql_lexer) = Some T_ID"
  by (simp only: whole_all_eval char_eval rule_eval tsql_lexer_table cong: lexer_opaque)

lemma sample_STRING: "map_option token_type (find (whole (codes [CHR 0x27, CHR 0x27])) tsql_lexer) = Some T_STRING"
  by (simp only: whole_all_eval char_eval rule_eval tsql_lexer_table cong: lexer_opaque)

lemma sample_BINARY: "map_option token_type (find (whole (codes ''0x1'')) tsql_lexer) = Some T_BINARY"
  by (simp only: whole_all_eval char_eval rule_eval tsql_lexer_table cong: lexer_opaque)

lemma sample_FLOAT: "map_option token_type (find (whole (codes ''1.'')) tsql_lexer) = Some T_FLOAT"
  by (simp only: whole_all_eval char_eval rule_eval tsql_lexer_table cong: lexer_opaque)

lemma sample_REAL: "map_option token_type (find (whole (codes ''1e1'')) tsql_lexer) = Some T_REAL"
  by (simp only: whole_all_eval char_eval rule_eval tsql_lexer_table cong: lexer_opaque)

definition produced :: "token \<Rightarrow> bool" where
  "produced t \<longleftrightarrow> (\<exists>w r. best tsql_lexer w = Some (r, []) \<and> token_type r = t)"

lemma produced_sample: "map_option token_type (find (whole w) tsql_lexer) = Some t \<Longrightarrow> produced t"
  by (auto simp: produced_def dest: best_whole)

lemmas produced_samples =
  sample_CONVERT [THEN produced_sample] sample_DEFAULT_DOUBLE_QUOTE [THEN produced_sample]
  sample_EXECUTE [THEN produced_sample] sample_NULL_DOUBLE_QUOTE [THEN produced_sample]
  sample_PARSE [THEN produced_sample] sample_YEAR_ABBR [THEN produced_sample]
  sample_QUARTER_ABBR [THEN produced_sample] sample_MONTH_ABBR [THEN produced_sample]
  sample_DAYOFYEAR_ABBR [THEN produced_sample] sample_DAY_ABBR [THEN produced_sample]
  sample_WEEK_ABBR [THEN produced_sample] sample_MINUTE_ABBR [THEN produced_sample]
  sample_SECOND_ABBR [THEN produced_sample] sample_ISO_WEEK_ABBR [THEN produced_sample]
  sample_DISK_DRIVE [THEN produced_sample] sample_IPV4_ADDR [THEN produced_sample] sample_SPACE
  [THEN produced_sample] sample_COMMENT [THEN produced_sample] sample_LINE_COMMENT [THEN
  produced_sample] sample_DOUBLE_QUOTE_ID [THEN produced_sample] sample_SQUARE_BRACKET_ID [THEN
  produced_sample] sample_LOCAL_ID [THEN produced_sample] sample_TEMP_ID [THEN produced_sample]
  sample_DECIMAL [THEN produced_sample] sample_ID [THEN produced_sample] sample_STRING [THEN
  produced_sample] sample_BINARY [THEN produced_sample] sample_FLOAT [THEN produced_sample]
  sample_REAL [THEN produced_sample]

lemma not_literal_types:
  "list_all (\<lambda>r. case literal_of (pattern r) of Some s \<Rightarrow> True | None \<Rightarrow> list_ex (\<lambda>t. token_type r = t) [
     T_CONVERT, T_DEFAULT_DOUBLE_QUOTE, T_EXECUTE, T_NULL_DOUBLE_QUOTE, T_PARSE, T_YEAR_ABBR,
     T_QUARTER_ABBR, T_MONTH_ABBR, T_DAYOFYEAR_ABBR, T_DAY_ABBR, T_WEEK_ABBR, T_MINUTE_ABBR,
     T_SECOND_ABBR, T_ISO_WEEK_ABBR, T_DISK_DRIVE, T_IPV4_ADDR, T_SPACE, T_COMMENT,
     T_LINE_COMMENT, T_DOUBLE_QUOTE_ID, T_SQUARE_BRACKET_ID, T_LOCAL_ID, T_TEMP_ID, T_DECIMAL,
     T_ID, T_STRING, T_BINARY, T_FLOAT, T_REAL]) tsql_lexer"
  by (simp only: list_all_append_eval literal_of.simps list_ex_simps_eval list_eval num_eval
      tsql_lexer_table rule_eval cong: lexer_opaque)

lemma literal_produced:
  assumes "r \<in> set tsql_lexer" and "pattern r = Lit s" and "token_type r \<notin> set dead_types"
  shows "produced (token_type r)"
  using tsql.literal_best [OF assms literal_nonempty [OF assms(1,2)], of "codes s"]
  by (auto simp: produced_def key_def)

lemma all_produced:
  assumes "1 \<le> t" and "t \<le> 1207" and "t \<notin> set dead_types"
  shows "produced t"
proof -
  obtain r where r: "r \<in> set tsql_lexer" "token_type r = t" using rule_of_type assms(1,2) .
  show ?thesis
  proof (cases "literal_of (pattern r)")
    case None
    with not_literal_types [unfolded list_all_iff, rule_format, OF r(1)] r(2) produced_samples
    show ?thesis by auto
  next
    case (Some s)
    with r assms(3) literal_produced [of r s] show ?thesis by (simp add: literal_of_Some)
  qed
qed

text \<open>The rules that can start with one of the characters \<open>@\<close>, \<open>#\<close> and \<open>_\<close>.\<close>

lemmas starts_all_eval = same.simps filter_eval starts.simps empties.simps in_chars_eval in_ranges.simps
  codes_eval list_eval num_eval

lemma at_rules: "filter (\<lambda>r. starts (pattern r) 0x40) tsql_lexer = [literal_rule T_CURSOR_ROWS ''@@CURSOR_ROWS'',
    literal_rule T_FETCH_STATUS ''@@FETCH_STATUS'', r_LOCAL_ID] @ [literal_rule T_AT ''@'']"
  unfolding same_iff [symmetric]
  by (simp only: starts_all_eval char_eval rule_eval tsql_lexer_table cong: lexer_opaque)

lemma sharp_rules: "filter (\<lambda>r. starts (pattern r) 0x23) tsql_lexer = [r_TEMP_ID, r_ID] @ [literal_rule T_SHARP ''#'']"
  unfolding same_iff [symmetric]
  by (simp only: starts_all_eval char_eval rule_eval tsql_lexer_table cong: lexer_opaque)

lemma underline_rules: "filter (\<lambda>r. starts (pattern r) 0x5F) tsql_lexer = [r_ID] @ [literal_rule T_UNDERLINE ''_'']"
  unfolding same_iff [symmetric]
  by (simp only: starts_all_eval char_eval rule_eval tsql_lexer_table cong: lexer_opaque)

text \<open>A rule of one character loses to an earlier rule that matches the character.\<close>

lemma single_dead:
  assumes rules: "filter (\<lambda>r. starts (pattern r) x) tsql_lexer = ps @ [literal_rule t s]"
    and q: "q \<in> set ps" "greedy q" "spells (pattern q) [x]"
    and s: "codes s = [x]" "upper x = lower x"
    and best: "best tsql_lexer xs = Some (r, ys)"
  shows "token_type r \<noteq> t"
proof
  assume t: "token_type r = t"
  have mem: "literal_rule t s \<in> set tsql_lexer"
    using arg_cong [OF rules, of set] by auto
  from best_Some [OF best] have r: "r \<in> set tsql_lexer" "rule_rest r xs = Some ys" by simp_all
  have "inj_on token_type (set tsql_lexer)" using tsql.types by (simp only: distinct_map)
  then have eq: "r = literal_rule t s" by (rule inj_onD [OF _ _ r(1) mem]) (simp add: t)
  from rule_rest_split [OF r(2)] obtain w where w: "xs = w @ ys" "matches (pattern r) (pattern r) w" .
  then have "map upper w = map upper [x]" using s(1) by (simp add: eq matches_Lit)
  then have w1: "w = [x]" by (rule map_upper_fixed [rotated]) (use s(2) in simp)
  have "best (ps @ [r]) ([x] @ ys) = Some (r, ys)"
    using best w(1) w1 by (simp add: best_starts [of tsql_lexer] rules eq)
  moreover have "r \<notin> set ps"
    using distinct_filter [OF tsql.rule_distinct, of "\<lambda>r. starts (pattern r) x"] by (simp add: rules eq)
  moreover obtain zs where "rule_rest q ([x] @ ys) = Some zs" "length zs \<le> length ys"
    using rule_rest_greedy [OF q(2) spells_sound [OF q(3)]] by auto
  ultimately show False using best_before [of ps "[r]" "[x] @ ys" r ys q zs] q(1) by simp
qed

lemma dead_never: 
  assumes "best tsql_lexer xs = Some (r, ys)"
  shows "token_type r \<notin> set dead_types"
proof -
  note eval = greedy_def spells_def in_chars_def upper_def lower_def codes_def
    r_LOCAL_ID_def r_TEMP_ID_def r_ID_def fragment_defs
  have "token_type r \<noteq> T_AT"
    by (rule single_dead [OF _ _ _ _ _ _ assms, where q = r_LOCAL_ID])
      (rule at_rules, simp_all add: eval)
  moreover have "token_type r \<noteq> T_SHARP"
    by (rule single_dead [OF _ _ _ _ _ _ assms, where q = r_TEMP_ID])
      (rule sharp_rules, simp_all add: eval)
  moreover have "token_type r \<noteq> T_UNDERLINE"
    by (rule single_dead [OF _ _ _ _ _ _ assms, where q = r_ID])
      (rule underline_rules, simp_all add: eval)
  ultimately show ?thesis by (simp add: dead_types_def)
qed

text \<open>
  C28: The token types of lexemes are exactly those of the enumeration, without \<open>UNDERLINE\<close>,
  \<open>AT\<close> and \<open>SHARP\<close>: no text has a lexeme of these three, because an identifier, a local variable
  or a temporary name matches at least as much and comes first.
\<close>

theorem produced_types_exact:
  "(\<exists>xs h w. Lexeme t h w \<in> set (lexemes tsql_lexer extra xs))
   \<longleftrightarrow> 1 \<le> t \<and> t \<le> 1207 \<and> t \<noteq> T_UNDERLINE \<and> t \<noteq> T_AT \<and> t \<noteq> T_SHARP"
proof
  assume "\<exists>xs h w. Lexeme t h w \<in> set (lexemes tsql_lexer extra xs)"
  then obtain xs r ys where r: "best tsql_lexer xs = Some (r, ys)" "token_type r = t"
    using lexemes_from_rule by blast
  from best_Some [OF r(1)] have "r \<in> set tsql_lexer" by simp
  then obtain i where "i < 1207" "token_type r = int i + 1" using rule_at by blast
  with dead_never [OF r(1)] r(2) show "1 \<le> t \<and> t \<le> 1207 \<and> t \<noteq> T_UNDERLINE \<and> t \<noteq> T_AT \<and> t \<noteq> T_SHARP"
    by (auto simp: dead_types_def)
next
  assume "1 \<le> t \<and> t \<le> 1207 \<and> t \<noteq> T_UNDERLINE \<and> t \<noteq> T_AT \<and> t \<noteq> T_SHARP"
  then have "produced t" by (intro all_produced) (auto simp: dead_types_def)
  then obtain w r where r: "best tsql_lexer w = Some (r, [])" "token_type r = t" by (auto simp: produced_def)
  from lexemes_step [OF r(1), of extra] show "\<exists>xs h w. Lexeme t h w \<in> set (lexemes tsql_lexer extra xs)"
    by (metis list.set_intros(1) r(2))
qed

end
