(* ===== verification/Quoting.thy ===== *)
theory Quoting
  imports Literals
begin

text \<open>
  Texts between delimiters, in which a delimiter is doubled, and nested comments: what the
  right-hand sides for them match.  The comment rule is compared with a scanner that counts the
  open comments.
\<close>

section \<open>Inversion\<close>

inductive_simps matches_simps:
  "matches s (Chars rs) w" "matches s (NotChars rs) w" "matches s (Cat []) w"
  "matches s (Cat (e # es)) w" "matches s (Or es) w" "matches s (Maybe e) w"

inductive_cases matches_LoopE: "matches s (Loop e) w"

lemma matches_Loop: "matches s (Loop e) w \<longleftrightarrow>
    w = [] \<or> (\<exists>u v. w = u @ v \<and> u \<noteq> [] \<and> matches s e u \<and> matches s (Loop e) v)"
  by (auto elim: matches_LoopE intro: matches.Loop_Nil matches.Loop_Cons)

lemma matches_Loop_set:
  "matches s (Loop e) w \<Longrightarrow> (\<And>v y. matches s e v \<Longrightarrow> y \<in> set v \<Longrightarrow> P y) \<Longrightarrow> x \<in> set w \<Longrightarrow> P x"
  by (induction "Loop e" w rule: matches.induct) auto

lemma in_chars_single: "upper q = lower q \<Longrightarrow> in_chars [(q, q)] x \<longleftrightarrow> x = q"
  by (auto simp: in_chars_def upper_def lower_def split: if_splits)

section \<open>Doubled delimiters\<close>

definition escaped :: "code_point \<Rightarrow> code_point list \<Rightarrow> code_point list" where
  "escaped q s = concat (map (\<lambda>x. if x = q then [q, q] else [x]) s)"

lemma escaped_simps [simp]:
  "escaped q [] = []" "escaped q (x # s) = (if x = q then q # q # escaped q s else x # escaped q s)"
  by (simp_all add: escaped_def)

lemma escaped_inject: "escaped q s = escaped q s' \<longleftrightarrow> s = s'"
proof (induction s arbitrary: s')
  case Nil
  then show ?case by (cases s') auto
next
  case (Cons x s)
  then show ?case by (cases s') auto
qed

lemma escaped_fixed: "q \<notin> set s \<Longrightarrow> escaped q s = s"
  by (induction s) auto

lemma matches_item:
  assumes "upper q = lower q" and "\<And>w. matches r e w \<longleftrightarrow> w = [q, q]"
  shows "matches r (Or [NotChars [(q, q)], e]) v \<longleftrightarrow> v = [q, q] \<or> (\<exists>y. y \<noteq> q \<and> v = [y])"
  using assms by (auto simp: matches_simps in_chars_single)

lemma matches_Loop_nonempty:
  assumes "matches s (Loop e) w" and "w \<noteq> []"
  obtains u v where "w = u @ v" "matches s e u" "matches s (Loop e) v"
  using assms matches_Loop [of s e w] by blast

text \<open>The loop over the characters other than the delimiter and the doubled delimiters.\<close>

lemma escaped_matches:
  assumes "upper q = lower q" and "\<And>w. matches r e w \<longleftrightarrow> w = [q, q]"
  shows "matches r (Loop (Or [NotChars [(q, q)], e])) (escaped q s)"
proof (induction s)
  case (Cons x s)
  let ?item = "if x = q then [q, q] else [x]"
  have "matches r (Or [NotChars [(q, q)], e]) ?item"
    by (simp add: matches_item [OF assms])
  then have "matches r (Loop (Or [NotChars [(q, q)], e])) (?item @ escaped q s)"
    using Cons by (intro matches.Loop_Cons) auto
  then show ?case by (simp split: if_splits)
qed (simp add: matches.Loop_Nil)

lemma escaped_longest:
  assumes "upper q = lower q" and "\<And>w. matches r e w \<longleftrightarrow> w = [q, q]"
    and "us = [] \<or> hd us \<noteq> q"
  shows "matches r (Loop (Or [NotChars [(q, q)], e])) b \<Longrightarrow> b @ q # zs = escaped q s @ q # us \<Longrightarrow>
    length b \<le> length (escaped q s)"
proof (induction s arbitrary: b)
  case Nil
  show ?case
  proof (cases "b = []")
    case False
    with Nil.prems(1) obtain v w where "b = v @ w" "matches r (Or [NotChars [(q, q)], e]) v"
      by (rule matches_Loop_nonempty)
    with Nil.prems(2) assms(3) show ?thesis by (auto simp: matches_item [OF assms(1,2)])
  qed simp
next
  case (Cons x s)
  show ?case
  proof (cases "b = []")
    case False
    with Cons.prems(1) obtain v w where b: "b = v @ w" "matches r (Or [NotChars [(q, q)], e]) v"
      "matches r (Loop (Or [NotChars [(q, q)], e])) w"
      by (rule matches_Loop_nonempty)
    from b(2) have "v = [q, q] \<or> (\<exists>y. y \<noteq> q \<and> v = [y])" by (simp only: matches_item [OF assms(1,2)])
    with b(1,3) Cons.prems(2) Cons.IH [of w] show ?thesis by (auto split: if_splits)
  qed simp
qed

text \<open>Nothing else is matched.\<close>

lemma matches_escaped:
  assumes "upper q = lower q" and "\<And>w. matches r e w \<longleftrightarrow> w = [q, q]"
  shows "matches r (Loop (Or [NotChars [(q, q)], e])) b \<Longrightarrow> \<exists>s. b = escaped q s"
proof (induction "length b" arbitrary: b rule: less_induct)
  case less
  show ?case
  proof (cases "b = []")
    case False
    with less.prems obtain v w where b: "b = v @ w" "matches r (Or [NotChars [(q, q)], e]) v"
      "matches r (Loop (Or [NotChars [(q, q)], e])) w"
      by (rule matches_Loop_nonempty)
    from b(2) have v: "v = [q, q] \<or> (\<exists>y. y \<noteq> q \<and> v = [y])" by (simp only: matches_item [OF assms])
    with b(1) have "length w < length b" by auto
    from less.hyps [OF this b(3)] obtain s where "w = escaped q s" by blast
    with b(1) v have "b = escaped q (q # s) \<or> (\<exists>y. b = escaped q (y # s))" by auto
    then show ?thesis by blast
  qed (auto intro: exI [of _ "[]"])
qed

section \<open>The winning rule\<close>

lemma best_winner:
  assumes "rule_rest r xs = Some ys"
    and "\<And>q zs. q \<in> set ps \<Longrightarrow> rule_rest q xs = Some zs \<Longrightarrow> length ys < length zs"
    and "\<And>q zs. q \<in> set qs \<Longrightarrow> rule_rest q xs = Some zs \<Longrightarrow> length ys \<le> length zs"
  shows "best (ps @ r # qs) xs = Some (r, ys)"
  using assms(2)
proof (induction ps)
  case Nil
  show ?case
  proof (cases "best qs xs")
    case (Some b)
    then obtain q zs where b: "best qs xs = Some (q, zs)" by (cases b) auto
    from best_Some [OF this] assms(3) have "length ys \<le> length zs" by blast
    with b assms(1) show ?thesis by simp
  qed (simp add: assms(1))
next
  case (Cons p ps)
  have "best (ps @ r # qs) xs = Some (r, ys)"
    by (rule Cons.IH) (auto intro: Cons.prems)
  moreover have "rule_rest p xs = Some zs \<Longrightarrow> length ys < length zs" for zs
    by (rule Cons.prems [of p]) simp_all
  ultimately show ?case by (auto split: option.split)
qed

text \<open>A greedy rule that matches a prefix but no longer one.\<close>

lemma rule_rest_exact:
  assumes "greedy r" and "matches (pattern r) (pattern r) w" and "w \<noteq> []"
    and "\<And>v zs. w @ ys = v @ zs \<Longrightarrow> matches (pattern r) (pattern r) v \<Longrightarrow> length v \<le> length w"
  shows "rule_rest r (w @ ys) = Some ys"
proof -
  obtain zs where zs: "rule_rest r (w @ ys) = Some zs" "length zs \<le> length ys"
    using rule_rest_greedy [OF assms(1-3)] .
  from rule_rest_split [OF zs(1)] obtain v where v: "w @ ys = v @ zs" "matches (pattern r) (pattern r) v" .
  with assms(4) have "length v \<le> length w" by blast
  with v(1) zs(2) have "zs = ys" by (auto simp: append_eq_append_conv2)
  with zs show ?thesis by simp
qed

text \<open>The same rules, when what follows a text cannot be a part of a match.\<close>

lemma longer_prefix: "w @ us = v @ zs \<Longrightarrow> length v \<le> length w \<Longrightarrow> \<exists>t. w = v @ t"
  by (metis append_eq_append_conv_if append_take_drop_id)

lemma rule_rest_append:
  assumes "greedy q"
    and "\<And>v zs. w @ us = v @ zs \<Longrightarrow> matches (pattern q) (pattern q) v \<Longrightarrow> length v \<le> length w"
  shows "rule_rest q (w @ us) = map_option (\<lambda>zs. zs @ us) (rule_rest q w)"
proof (cases "rule_rest q w")
  case None
  have "rule_rest q (w @ us) = None"
  proof (rule ccontr)
    assume "rule_rest q (w @ us) \<noteq> None"
    then obtain zs where "rule_rest q (w @ us) = Some zs" by blast
    from rule_rest_split [OF this] obtain v where v: "w @ us = v @ zs" "v \<noteq> []" "matches (pattern q) (pattern q) v" .
    with assms(2) have "length v \<le> length w" by blast
    from longer_prefix [OF v(1) this] obtain t where "w = v @ t" by blast
    with rule_rest_greedy [OF assms(1) v(3,2), of t] None show False by auto
  qed
  with None show ?thesis by simp
next
  case (Some zs)
  from rule_rest_split [OF this] obtain v where v: "w = v @ zs" "v \<noteq> []" "matches (pattern q) (pattern q) v" .
  have "rule_rest q (v @ (zs @ us)) = Some (zs @ us)"
  proof (rule rule_rest_exact [OF assms(1) v(3,2)])
    fix u ys assume u: "v @ zs @ us = u @ ys" "matches (pattern q) (pattern q) u"
    with assms(2) v(1) have "length u \<le> length w" by simp
    with longer_prefix [of w us u ys] u(1) v(1) obtain t where t: "w = u @ t" by auto
    show "length u \<le> length v"
    proof (cases "u = []")
      case False
      obtain xs where "rule_rest q (u @ t) = Some xs" "length xs \<le> length t"
        using rule_rest_greedy [OF assms(1) u(2) False] .
      with t Some have "length zs \<le> length t" by simp
      moreover from t v(1) have "length (v @ zs) = length (u @ t)" by simp
      ultimately show ?thesis by simp
    qed simp
  qed
  with Some v(1) show ?thesis by simp
qed

lemma best_append:
  assumes "\<And>q. q \<in> set rules \<Longrightarrow> rule_rest q (w @ us) = map_option (\<lambda>zs. zs @ us) (rule_rest q w)"
  shows "best rules (w @ us) = map_option (\<lambda>(q, zs). (q, zs @ us)) (best rules w)"
  using assms by (induction rules) (auto split: option.split)

section \<open>Nested comments\<close>

text \<open>
  The reference: a comment has been opened, and \<open>n\<close> further ones inside it.  The scanner counts
  until the last of them is closed and returns the rest of the text.
\<close>

fun close_comment :: "nat \<Rightarrow> code_point list \<Rightarrow> code_point list option" where
  "close_comment n [] = None"
| "close_comment n [x] = None"
| "close_comment n (x # y # xs) =
     (if x = 0x2A \<and> y = 0x2F then (case n of 0 \<Rightarrow> Some xs | Suc m \<Rightarrow> close_comment m xs)
      else if x = 0x2F \<and> y = 0x2A then close_comment (Suc n) xs
      else close_comment n (y # xs))"

definition comment_rule :: lexpr where
  "comment_rule = Cat [Lit ''/*'', Few (Or [Self, NotChars []]), Lit ''*/'']"

text \<open>What is left after the loop and the end of the comment.\<close>

definition body_rests :: "nat \<Rightarrow> code_point list \<Rightarrow> code_point list list" where
  "body_rests k xs = concat (map (leftovers comment_rule k (Cat [Lit ''*/'']))
     (leftovers comment_rule k (Few (Or [Self, NotChars []])) xs))"

lemma upper_star: "upper x = upper 0x2A \<longleftrightarrow> x = 0x2A"
  and upper_slash: "upper x = upper 0x2F \<longleftrightarrow> x = 0x2F"
  by (auto simp: upper_def split: if_splits)

lemma strip_open: "strip upper ''/*'' xs = (case xs of x # y # ys \<Rightarrow>
     if x = 0x2F \<and> y = 0x2A then Some ys else None | _ \<Rightarrow> None)"
  by (auto simp: upper_star [simplified] upper_slash [simplified] split: list.split)

lemma strip_close: "strip upper ''*/'' xs = (case xs of x # y # ys \<Rightarrow>
     if x = 0x2A \<and> y = 0x2F then Some ys else None | _ \<Rightarrow> None)"
  by (auto simp: upper_star [simplified] upper_slash [simplified] split: list.split)

lemma comment_leftovers:
  "leftovers comment_rule k comment_rule xs
     = (case strip upper ''/*'' xs of None \<Rightarrow> [] | Some ys \<Rightarrow> body_rests k ys)"
proof -
  have "leftovers s k (Cat [Lit ''/*'', Few (Or [Self, NotChars []]), Lit ''*/'']) xs
      = (case strip upper ''/*'' xs of None \<Rightarrow> [] | Some ys \<Rightarrow> concat (map (leftovers s k (Cat [Lit ''*/'']))
          (leftovers s k (Few (Or [Self, NotChars []])) ys)))" for s
    by (simp split: option.split)
  from this [of comment_rule] show ?thesis
    by (simp only: body_rests_def comment_rule_def [symmetric])
qed

lemma concat_map_concat: "concat (map f (concat xss)) = concat (map (\<lambda>xs. concat (map f xs)) xss)"
  by (induction xss) simp_all

lemma body_rests_eq:
  "body_rests k xs = concat (map (\<lambda>ys. case strip upper ''*/'' ys of None \<Rightarrow> [] | Some zs \<Rightarrow> [zs])
     (leftovers comment_rule k (Few (Or [Self, NotChars []])) xs))"
proof -
  have "leftovers comment_rule k (Cat [Lit ''*/''])
      = (\<lambda>ys. case strip upper ''*/'' ys of None \<Rightarrow> [] | Some zs \<Rightarrow> [zs])"
    by (rule ext) (simp split: option.split)
  then show ?thesis by (simp only: body_rests_def)
qed

lemma body_rests_Suc:
  "body_rests (Suc k) xs = (case strip upper ''*/'' xs of None \<Rightarrow> [] | Some ys \<Rightarrow> [ys])
     @ concat (map (body_rests k) (filter (\<lambda>ys. length ys < length xs)
         ((case strip upper ''/*'' xs of None \<Rightarrow> [] | Some ys \<Rightarrow> body_rests k ys)
           @ (case xs of [] \<Rightarrow> [] | x # ys \<Rightarrow> [ys]))))"
proof -
  have "leftovers comment_rule (Suc k) (Or [Self, NotChars []]) xs
      = (case strip upper ''/*'' xs of None \<Rightarrow> [] | Some ys \<Rightarrow> body_rests k ys)
        @ (case xs of [] \<Rightarrow> [] | x # ys \<Rightarrow> [ys])"
    by (simp add: comment_leftovers in_chars_def split: list.split)
  moreover have "body_rests k = (\<lambda>xs. concat (map (\<lambda>ys. case strip upper ''*/'' ys of None \<Rightarrow> [] | Some zs \<Rightarrow> [zs])
      (leftovers comment_rule k (Few (Or [Self, NotChars []])) xs)))"
    by (rule ext) (rule body_rests_eq)
  ultimately show ?thesis
    by (simp add: body_rests_eq [of "Suc k"] concat_map_concat o_def del: leftovers.simps(1-9) leftovers.simps(14,15) strip.simps)
qed

lemma close_comment_shorter: "close_comment n xs = Some ys \<Longrightarrow> length ys < length xs"
proof (induction n xs rule: close_comment.induct)
  case (3 n x y xs)
  consider "x = 0x2A \<and> y = 0x2F" | "\<not> (x = 0x2A \<and> y = 0x2F)" "x = 0x2F \<and> y = 0x2A"
    | "\<not> (x = 0x2A \<and> y = 0x2F)" "\<not> (x = 0x2F \<and> y = 0x2A)" by blast
  then show ?case
  proof cases
    case 1
    with 3 show ?thesis by (cases n) auto
  next
    case 2
    with 3(2,4) show ?thesis by simp
  next
    case 3
    with "3.IH"(3) "3.prems" show ?thesis by simp
  qed
qed simp_all

text \<open>Closing \<open>n + 1\<close> comments is closing the inner ones first.\<close>

lemma close_comment_add:
  "close_comment (n + Suc m) xs = Some ys \<Longrightarrow>
     \<exists>zs. close_comment n xs = Some zs \<and> close_comment m zs = Some ys"
proof (induction n xs rule: close_comment.induct)
  case (3 n x y xs)
  then show ?case by (cases n) (auto split: if_splits)
qed auto

lemma body_rests_close:
  "close_comment 0 xs = Some ys \<Longrightarrow> length xs \<le> k \<Longrightarrow> \<exists>rs. body_rests k xs = ys # rs"
proof (induction "length xs" arbitrary: xs ys k rule: less_induct)
  case less
  from less.prems(1) obtain x y us where xs: "xs = x # y # us"
    by (cases "(0 :: nat, xs)" rule: close_comment.cases) auto
  with less.prems(2) obtain j where k: "k = Suc j" by (cases k) auto
  consider "x = 0x2A" "y = 0x2F" | "x = 0x2F" "y = 0x2A" | "\<not> (x = 0x2A \<and> y = 0x2F)" "\<not> (x = 0x2F \<and> y = 0x2A)"
    by blast
  then show ?case
  proof cases
    case 1
    with xs k less.prems(1) show ?thesis by (simp add: body_rests_Suc strip_close del: strip.simps)
  next
    case 2
    with xs less.prems(1) have "close_comment (0 + Suc 0) us = Some ys" by simp
    from close_comment_add [OF this] obtain zs where
      zs: "close_comment 0 us = Some zs" "close_comment 0 zs = Some ys" by blast
    have short: "length zs < length us" using zs(1) by (rule close_comment_shorter)
    from less.hyps [OF _ zs(1), of j] less.prems(2) xs k obtain r1 where "body_rests j us = zs # r1" by auto
    moreover from less.hyps [OF _ zs(2), of j] less.prems(2) xs k short obtain r2
      where "body_rests j zs = ys # r2" by auto
    ultimately show ?thesis
      using 2 xs k short by (simp add: body_rests_Suc strip_close strip_open del: strip.simps)
  next
    case 3
    with xs less.prems(1) have "close_comment 0 (y # us) = Some ys" by auto
    with less.hyps [of "y # us" ys j] less.prems(2) xs k obtain rs where "body_rests j (y # us) = ys # rs" by auto
    with 3 xs k show ?thesis by (auto simp add: body_rests_Suc strip_close strip_open simp del: strip.simps)
  qed
qed

section \<open>Comments before a newline\<close>

lemma body_rests_Nil: "body_rests k [] = []"
  by (cases k) (simp_all add: body_rests_Suc body_rests_eq)

text \<open>More fuel than characters makes no difference.\<close>

lemma body_rests_fuel:
  "length xs < k \<Longrightarrow> length xs < k' \<Longrightarrow> body_rests k xs = body_rests k' xs"
proof (induction "length xs" arbitrary: xs k k' rule: less_induct)
  case less
  obtain m m' where k: "k = Suc m" "k' = Suc m'" using less.prems by (cases k; cases k') auto
  have opened: "(case strip upper ''/*'' xs of None \<Rightarrow> [] | Some ys \<Rightarrow> body_rests m ys)
      = (case strip upper ''/*'' xs of None \<Rightarrow> [] | Some ys \<Rightarrow> body_rests m' ys)"
  proof (cases "strip upper ''/*'' xs")
    case (Some ys)
    then have "length ys < length xs" by (auto simp: strip_open split: list.splits if_splits)
    with less.hyps [OF this, of m m'] less.prems k Some show ?thesis by simp
  qed simp
  have "body_rests m ys = body_rests m' ys" if "length ys < length xs" for ys
    using less.hyps [OF that, of m m'] less.prems k that by simp
  then have same: "map (body_rests m) (filter (\<lambda>ys. length ys < length xs) yss)
      = map (body_rests m') (filter (\<lambda>ys. length ys < length xs) yss)" for yss
    by (intro map_cong) auto
  show ?case by (simp only: k body_rests_Suc opened same)
qed

lemma body_rests_newline:
  "body_rests k (xs @ [0x0A]) = map (\<lambda>zs. zs @ [0x0A]) (body_rests k xs)"
proof (induction k arbitrary: xs)
  case 0
  show ?case by (auto simp: body_rests_eq strip_close split: list.split)
next
  case (Suc k)
  have close: "strip upper ''*/'' (xs @ [0x0A]) = map_option (\<lambda>zs. zs @ [0x0A]) (strip upper ''*/'' xs)"
    and opens: "strip upper ''/*'' (xs @ [0x0A]) = map_option (\<lambda>zs. zs @ [0x0A]) (strip upper ''/*'' xs)"
    by (auto simp: strip_close strip_open split: list.split)
  show ?case
  proof (cases xs)
    case Nil
    then show ?thesis using body_rests_Suc [of k "[0x0A]"] by (simp add: body_rests_Nil strip_close strip_open del: strip.simps)
  next
    case (Cons x us)
    have "(case strip upper ''/*'' (xs @ [0x0A]) of None \<Rightarrow> [] | Some ys \<Rightarrow> body_rests k ys) @ [us @ [0x0A]]
        = map (\<lambda>zs. zs @ [0x0A]) ((case strip upper ''/*'' xs of None \<Rightarrow> [] | Some ys \<Rightarrow> body_rests k ys) @ [us])"
      unfolding opens by (simp add: Suc.IH split: option.split)
    then show ?thesis
      unfolding body_rests_Suc [of k "xs @ [0x0A]"] body_rests_Suc [of k xs] close
      by (simp add: Cons Suc.IH filter_map map_concat o_def del: strip.simps split: option.split)
  qed
qed

end
