(* ===== verification/Word_Rules.thy ===== *)
theory Word_Rules
  imports Literals
begin

text \<open>
  Words: texts of letters, digits and the like.  A rule that matches only such characters cannot
  look beyond the end of a word, so a word is lexed in the same way whatever follows it.
\<close>

section \<open>Checks\<close>

text \<open>Does a right-hand side match only characters of a set?\<close>

fun inside :: "(code_point \<times> code_point) list \<Rightarrow> code_point \<times> code_point \<Rightarrow> bool" where
  "inside [] p = False"
| "inside (q # rs) p = (if fst q \<le> fst p \<and> snd p \<le> snd q then True else inside rs p)"

fun within_chars :: "(code_point \<times> code_point) list \<Rightarrow> lexpr \<Rightarrow> bool" where
  "within_chars rs (Lit w) = list_all (\<lambda>c. in_chars rs (of_char c)) w"
| "within_chars rs (Exact w) = list_all (\<lambda>c. in_chars rs (of_char c)) w"
| "within_chars rs (Chars rs') = list_all (inside rs) rs'"
| "within_chars rs (NotChars rs') = False"
| "within_chars rs (Cat es) = list_all (within_chars rs) es"
| "within_chars rs (Or es) = list_all (within_chars rs) es"
| "within_chars rs (Maybe e) = within_chars rs e"
| "within_chars rs (Loop e) = within_chars rs e"
| "within_chars rs (Few e) = within_chars rs e"
| "within_chars rs Self = False"

text \<open>Can a match start with a character of a set?\<close>

fun apart :: "(code_point \<times> code_point) list \<Rightarrow> code_point \<times> code_point \<Rightarrow> bool" where
  "apart rs p = (if snd p < 65 then list_all (\<lambda>q. if snd p < fst q then True else snd q < fst p) rs else False)"

fun opens :: "(code_point \<times> code_point) list \<Rightarrow> lexpr \<Rightarrow> bool" where
  "opens rs (Lit w) = (case w of [] \<Rightarrow> False | c # cs \<Rightarrow> in_chars rs (of_char c))"
| "opens rs (Exact w) = (case w of [] \<Rightarrow> False | c # cs \<Rightarrow> in_chars rs (of_char c))"
| "opens rs (Chars rs') = (\<not> list_all (apart rs) rs')"
| "opens rs (NotChars rs') = True"
| "opens rs (Cat []) = False"
| "opens rs (Cat (e # es)) = (if opens rs e then True else if empties e then opens rs (Cat es) else False)"
| "opens rs (Or []) = False"
| "opens rs (Or (e # es)) = (if opens rs e then True else opens rs (Or es))"
| "opens rs (Maybe e) = opens rs e"
| "opens rs (Loop e) = opens rs e"
| "opens rs (Few e) = opens rs e"
| "opens rs Self = True"

lemma in_ranges_iff: "in_ranges rs x \<longleftrightarrow> (\<exists>(a, b) \<in> set rs. a \<le> x \<and> x \<le> b)"
  by (induction rs x rule: in_ranges.induct) auto

lemma inside_iff: "inside rs p \<longleftrightarrow> (\<exists>q \<in> set rs. fst q \<le> fst p \<and> snd p \<le> snd q)"
  by (induction rs) auto

lemma apart_iff: "apart rs p \<longleftrightarrow> snd p < 65 \<and> (\<forall>q \<in> set rs. snd p < fst q \<or> snd q < fst p)"
  by (auto simp: list_all_iff)

lemma inside_in:
  assumes "list_all (inside rs) rs'" and "in_ranges rs' x"
  shows "in_ranges rs x"
proof -
  from assms(2) obtain a b where p: "(a, b) \<in> set rs'" "a \<le> x" "x \<le> b" by (auto simp: in_ranges_iff)
  with assms(1) have "inside rs (a, b)" by (simp only: list_all_iff)
  then obtain c d where "(c, d) \<in> set rs" "c \<le> a" "b \<le> d" by (auto simp: inside_iff)
  with p show ?thesis by (auto simp: in_ranges_iff intro!: bexI [of _ "(c, d)"])
qed

lemma within_matches: "matches s e w \<Longrightarrow> within_chars rs e \<Longrightarrow> x \<in> set w \<Longrightarrow> in_chars rs x"
proof (induction rule: matches.induct)
  case (Lit w xs)
  then have "upper x \<in> set (map upper (codes w))" by (metis image_eqI list.set_map strip_iff)
  then obtain c where c: "c \<in> set w" "upper x = upper (of_char c)" by (auto simp: codes_def)
  with Lit.prems(1) have "in_chars rs (of_char c)" by (simp add: list_all_iff)
  with in_chars_case [OF c(2)] show ?case by blast
next
  case (Exact w xs)
  then show ?case by (auto simp: strip_iff codes_def list_all_iff)
next
  case (Chars rs' y)
  then show ?case by (auto simp: in_chars_def dest: inside_in)
qed (auto simp: list_all_iff)

lemma low_fixed: "x < 65 \<Longrightarrow> upper x = x" "x < 65 \<Longrightarrow> lower x = x"
  by (auto simp: upper_def lower_def)

lemma low_cases: "upper x < 65 \<Longrightarrow> x < 65" "lower x < 65 \<Longrightarrow> x < 65"
  by (auto simp: upper_def lower_def split: if_splits)

lemma apart_sound:
  assumes "list_all (apart rs) rs'" and "in_chars rs' x"
  shows "\<not> in_chars rs x"
proof -
  from assms(2) obtain y a b where y: "y = x \<or> y = upper x \<or> y = lower x" "(a, b) \<in> set rs'" "a \<le> y" "y \<le> b"
    by (auto simp: in_chars_def in_ranges_iff)
  with assms(1) have "apart rs (a, b)" by (simp only: list_all_iff)
  then have ab: "b < 65" "\<forall>(c, d) \<in> set rs. b < c \<or> d < a" unfolding apart_iff by auto
  with y low_cases [of x] have "x < 65" by auto
  with y low_fixed [of x] have "a \<le> x" "x \<le> b" by auto
  with ab \<open>x < 65\<close> show ?thesis by (auto simp: in_chars_def low_fixed in_ranges_iff)
qed

lemma starts_opens: "starts e x \<Longrightarrow> in_chars rs x \<Longrightarrow> opens rs e"
proof (induction e x rule: starts.induct)
  case (1 w x)
  then obtain c cs where c: "w = c # cs" "upper x = upper (of_char c)" by (auto split: list.splits)
  with 1 in_chars_case [OF c(2)] show ?case by simp
next
  case (3 rs' x)
  then show ?case using apart_sound by auto
qed (auto split: list.splits if_splits)

text \<open>Does every match that is not empty start with a character of a set?\<close>

fun firsts_in :: "(code_point \<times> code_point) list \<Rightarrow> lexpr \<Rightarrow> bool" where
  "firsts_in rs (Lit w) = (case w of [] \<Rightarrow> True | c # cs \<Rightarrow> in_chars rs (of_char c))"
| "firsts_in rs (Exact w) = (case w of [] \<Rightarrow> True | c # cs \<Rightarrow> in_chars rs (of_char c))"
| "firsts_in rs (Chars rs') = list_all (inside rs) rs'"
| "firsts_in rs (NotChars rs') = False"
| "firsts_in rs (Cat []) = True"
| "firsts_in rs (Cat (e # es)) = (if firsts_in rs e then if empties e then firsts_in rs (Cat es) else True else False)"
| "firsts_in rs (Or []) = True"
| "firsts_in rs (Or (e # es)) = (if firsts_in rs e then firsts_in rs (Or es) else False)"
| "firsts_in rs (Maybe e) = firsts_in rs e"
| "firsts_in rs (Loop e) = firsts_in rs e"
| "firsts_in rs (Few e) = firsts_in rs e"
| "firsts_in rs Self = False"

lemma firsts_in_starts: "starts e x \<Longrightarrow> firsts_in rs e \<Longrightarrow> in_chars rs x"
proof (induction e x rule: starts.induct)
  case (1 w x)
  then obtain c cs where c: "w = c # cs" "upper x = upper (of_char c)" by (auto split: list.splits)
  with 1 in_chars_case [OF c(2)] show ?case by simp
next
  case (3 rs' x)
  then show ?case by (auto simp: in_chars_def dest: inside_in)
qed (auto split: list.splits if_splits)

section \<open>The same rule in two texts\<close>

lemma same_best:
  assumes "distinct rules"
    and q: "best rules xs = Some (q, ys)" "rule_rest q xs' = Some zs'" "length zs' \<le> length ys'"
    and r: "best rules xs' = Some (r, ys')" "rule_rest r xs = Some zs" "length zs \<le> length ys"
  shows "q = r"
proof (rule ccontr)
  assume "q \<noteq> r"
  have mem: "q \<in> set rules" "r \<in> set rules" using best_Some q(1) r(1) by blast+
  then obtain ps qs where rs: "rules = ps @ q # qs" by (metis split_list)
  have "q \<notin> set ps" using assms(1) rs by simp
  with q(1) r(2,3) best_before [of ps "q # qs" xs q ys r zs] rs have "r \<notin> set ps" by fastforce
  with mem rs \<open>q \<noteq> r\<close> obtain us vs where "qs = us @ r # vs" by (auto dest: split_list)
  with rs have rs': "rules = (ps @ q # us) @ r # vs" by simp
  with assms(1) have "r \<notin> set (ps @ q # us)" by auto
  from best_before [OF r(1) [unfolded rs'] this _ q(2)] q(3) show False by simp
qed

end
