(* ===== verification/TSql_Texts.thy ===== *)
theory TSql_Texts
  imports TSql_Tokens Quoting Word_Rules TSql_Faults
begin

text \<open>
  The lexemes that carry text of the user: string constants, quoted names, comments and words.
\<close>

section \<open>Rules by their first character\<close>

lemma quote_rules: "filter (\<lambda>r. starts (pattern r) 0x27) tsql_lexer = [literal_rule T_SINGLE_QUOTE [CHR 0x27], r_STRING]"
  unfolding same_iff [symmetric]
  by (simp only: starts_all_eval char_eval rule_eval tsql_lexer_table cong: lexer_opaque)

lemma bracket_rules: "filter (\<lambda>r. starts (pattern r) 0x5B) tsql_lexer =
   [literal_rule T_EXIST_SQUARE_BRACKET ''[EXIST]'', literal_rule T_MODIFY_SQUARE_BRACKET ''[MODIFY]'',
    literal_rule T_QUERY_SQUARE_BRACKET ''[QUERY]'', literal_rule T_VALUE_SQUARE_BRACKET ''[VALUE]'',
    r_SQUARE_BRACKET_ID]"
  unfolding same_iff [symmetric]
  by (simp only: starts_all_eval char_eval rule_eval tsql_lexer_table cong: lexer_opaque)

lemma double_quote_rules: "filter (\<lambda>r. starts (pattern r) 0x22) tsql_lexer =
   [r_DEFAULT_DOUBLE_QUOTE, r_NULL_DOUBLE_QUOTE, r_DOUBLE_QUOTE_ID,
    literal_rule T_DOUBLE_QUOTE_BLANK [CHR 0x22, CHR 0x22]]"
  unfolding same_iff [symmetric]
  by (simp only: starts_all_eval char_eval rule_eval tsql_lexer_table cong: lexer_opaque)

lemma slash_rules: "filter (\<lambda>r. starts (pattern r) 0x2F) tsql_lexer =
   [literal_rule T_DOUBLE_FORWARD_SLASH ''//'', r_COMMENT, literal_rule T_DIV_ASSIGN ''/='',
    literal_rule T_DIVIDE ''/'']"
  unfolding same_iff [symmetric]
  by (simp only: starts_all_eval char_eval rule_eval tsql_lexer_table cong: lexer_opaque)

lemma lexemes_best:
  assumes "best tsql_lexer (w @ ys) = Some (r, ys)"
  shows "lexemes tsql_lexer extra (w @ ys) = Lexeme (token_type r) (on_hidden r) w # lexemes tsql_lexer extra ys"
  by (rule lexemes_step [OF assms, of extra]) simp

section \<open>String constants\<close>

text \<open>A string constant: the quotes in it are doubled.\<close>

definition string_constant :: "code_point list \<Rightarrow> code_point list" where
  "string_constant s = 0x27 # escaped 0x27 s @ [0x27]"

lemma quotes_matches: "matches r (Exact [CHR 0x27, CHR 0x27]) w \<longleftrightarrow> w = [0x27, 0x27]"
  by (simp add: matches_Exact codes_def)

lemma quote_fixed: "upper 0x27 = lower 0x27"
  by (simp add: char_eval)

lemma matches_STRING:
  "matches (pattern r_STRING) (pattern r_STRING) w \<longleftrightarrow>
     (\<exists>n b. w = n @ 0x27 # b @ [0x27] \<and> (n = [] \<or> n = codes ''N'')
       \<and> matches (pattern r_STRING) (Loop (Or [NotChars [(0x27, 0x27)], Exact [CHR 0x27, CHR 0x27]])) b)"
  unfolding r_STRING_def by (auto simp: matches_simps matches_Exact codes_def)

lemma string_constant_matches:
  "matches (pattern r_STRING) (pattern r_STRING) (string_constant s)"
  unfolding matches_STRING string_constant_def
  using escaped_matches [OF quote_fixed quotes_matches, of _ s] by fastforce

text \<open>
  C8: A text put between single quotes, with its quotes doubled, is lexed to one string token
  with exactly this text, whatever follows (if it does not start with another quote): nothing
  in the text can end the constant.
\<close>

theorem string_constant_lexed:
  assumes "us = [] \<or> hd us \<noteq> 0x27"
  shows "lexemes tsql_lexer extra (string_constant s @ us)
    = Lexeme T_STRING False (string_constant s) # lexemes tsql_lexer extra us"
proof -
  have "rule_rest r_STRING (string_constant s @ us) = Some us"
  proof (rule rule_rest_exact [OF _ string_constant_matches])
    fix v zs assume v: "string_constant s @ us = v @ zs" "matches (pattern r_STRING) (pattern r_STRING) v"
    then obtain n b where b: "v = n @ 0x27 # b @ [0x27]" "n = [] \<or> n = codes ''N''"
      "matches (pattern r_STRING) (Loop (Or [NotChars [(0x27, 0x27)], Exact [CHR 0x27, CHR 0x27]])) b"
      unfolding matches_STRING by blast
    with v(1) have "n = []" "b @ 0x27 # zs = escaped 0x27 s @ 0x27 # us"
      by (auto simp: string_constant_def codes_def)
    with escaped_longest [OF quote_fixed quotes_matches assms b(3)] b(1)
    show "length v \<le> length (string_constant s)" by (simp add: string_constant_def)
  qed (simp_all add: greedy_def r_STRING_def string_constant_def)
  moreover have "rule_rest (literal_rule T_SINGLE_QUOTE [CHR 0x27]) (string_constant s @ us) = Some zs
      \<Longrightarrow> length us < length zs" for zs
    by (auto elim!: rule_rest_split simp: matches_Lit string_constant_def codes_def map_eq_Cons_conv
        Cons_eq_append_conv)
  ultimately have "best ([literal_rule T_SINGLE_QUOTE [CHR 0x27]] @ r_STRING # []) (string_constant s @ us)
      = Some (r_STRING, us)"
    by (intro best_winner) auto
  then have "best tsql_lexer (string_constant s @ us) = Some (r_STRING, us)"
    by (simp add: best_starts [of tsql_lexer] quote_rules string_constant_def)
  then show ?thesis by (simp add: lexemes_best) (simp add: r_STRING_def)
qed

theorem string_constant_lexed_witness:
  "lexemes tsql_lexer (\<lambda>xs. 0) ([0x27, 0x27, 0x27, 0x2D, 0x2D, 0x27] @ [0x2B])
    = Lexeme T_STRING False [0x27, 0x27, 0x27, 0x2D, 0x2D, 0x27] # lexemes tsql_lexer (\<lambda>xs. 0) [0x2B]"
  using string_constant_lexed [of "[0x2B]" "\<lambda>xs. 0" "[0x27, 0x2D, 0x2D]"]
  by (simp add: string_constant_def)

section \<open>Quoted names\<close>

text \<open>A rule wins with the text \<open>w\<close> if all the texts \<open>M\<close> that the rules match are at most as long.\<close>

lemma best_reach:
  assumes r: "rule_rest r (w @ us) = Some us" "r \<in> set rules"
    and sub: "\<And>q v. q \<in> set rules \<Longrightarrow> matches (pattern q) (pattern q) v \<Longrightarrow> M v"
    and longest: "\<And>v zs. w @ us = v @ zs \<Longrightarrow> M v \<Longrightarrow> length v \<le> length w"
  shows "\<exists>q \<in> set rules. best rules (w @ us) = Some (q, us)"
proof -
  obtain q zs where q: "best rules (w @ us) = Some (q, zs)"
    using r by (cases "best rules (w @ us)") (auto simp: best_None)
  from best_Some [OF this] have mem: "q \<in> set rules" "rule_rest q (w @ us) = Some zs" by simp_all
  from rule_rest_split [OF mem(2)] obtain v where v: "w @ us = v @ zs" "matches (pattern q) (pattern q) v" .
  with longest sub mem(1) have "length v \<le> length w" by blast
  moreover have "length zs \<le> length us" using q r(2,1) by (rule best_le)
  ultimately have "zs = us" using v(1) by (auto simp: append_eq_append_conv2)
  with q mem(1) show ?thesis by blast
qed

text \<open>A literal whose own text a rule spells.\<close>

lemma literal_sub:
  assumes "caseless (pattern r)" and "spells (pattern r) (codes s)" and "matches p (Lit s) v"
  shows "matches (pattern r) (pattern r) v"
  using assms matches_case [OF spells_sound [OF assms(2)], of v] by (simp add: matches_Lit)

definition bracketed_name :: "code_point list \<Rightarrow> code_point list" where
  "bracketed_name s = 0x5B # escaped 0x5D s @ [0x5D]"

definition bracket_types :: "token list" where
  "bracket_types = [T_EXIST_SQUARE_BRACKET, T_MODIFY_SQUARE_BRACKET, T_QUERY_SQUARE_BRACKET,
     T_VALUE_SQUARE_BRACKET, T_SQUARE_BRACKET_ID]"

lemma brackets_matches: "matches r (Cat [Lit '']'', Lit '']'']) w \<longleftrightarrow> w = [0x5D, 0x5D]"
proof -
  have "upper x = 0x5D \<longleftrightarrow> x = 0x5D" for x by (auto simp: upper_def)
  then show ?thesis
    by (auto simp: matches_simps matches_Lit codes_def char_eval map_eq_Cons_conv)
qed

lemma bracket_fixed: "upper 0x5D = lower 0x5D"
  by (simp add: char_eval)

lemma matches_Lit_single:
  assumes "upper x = lower x" and "of_char c = x"
  shows "matches r (Lit [c]) w \<longleftrightarrow> w = [x]"
  using assms upper_lower_fixed [of x] by (auto simp: matches_Lit codes_def map_eq_Cons_conv)

lemma single_literals:
  "matches r (Lit ''['') w \<longleftrightarrow> w = [0x5B]" "matches r (Lit '']'') w \<longleftrightarrow> w = [0x5D]"
  "matches r (Lit [CHR 0x22]) w \<longleftrightarrow> w = [0x22]"
  by (rule matches_Lit_single; simp add: char_eval)+

lemma matches_SQUARE_BRACKET_ID:
  "matches (pattern r_SQUARE_BRACKET_ID) (pattern r_SQUARE_BRACKET_ID) w \<longleftrightarrow>
     (\<exists>b. w = 0x5B # b @ [0x5D]
       \<and> matches (pattern r_SQUARE_BRACKET_ID) (Loop (Or [NotChars [(0x5D, 0x5D)], Cat [Lit '']'', Lit '']'']])) b)"
  unfolding r_SQUARE_BRACKET_ID_def
  by (auto simp: matches_simps single_literals)

lemma bracketed_name_matches:
  "matches (pattern r_SQUARE_BRACKET_ID) (pattern r_SQUARE_BRACKET_ID) (bracketed_name s)"
  unfolding matches_SQUARE_BRACKET_ID bracketed_name_def
  using escaped_matches [OF bracket_fixed brackets_matches] by blast

lemma bracketed_name_longest:
  assumes "us = [] \<or> hd us \<noteq> 0x5D" and "bracketed_name s @ us = v @ zs"
    and "matches (pattern r_SQUARE_BRACKET_ID) (pattern r_SQUARE_BRACKET_ID) v"
  shows "length v \<le> length (bracketed_name s)"
proof -
  from assms(3) obtain b where b: "v = 0x5B # b @ [0x5D]"
    "matches (pattern r_SQUARE_BRACKET_ID) (Loop (Or [NotChars [(0x5D, 0x5D)], Cat [Lit '']'', Lit '']'']])) b"
    unfolding matches_SQUARE_BRACKET_ID by blast
  with assms(2) have "b @ 0x5D # zs = escaped 0x5D s @ 0x5D # us" by (simp add: bracketed_name_def)
  with escaped_longest [OF bracket_fixed brackets_matches assms(1) b(2)] b(1)
  show ?thesis by (simp add: bracketed_name_def)
qed

lemma bracket_literals:
  "list_all (\<lambda>s. spells (pattern r_SQUARE_BRACKET_ID) (codes s)) [''[EXIST]'', ''[MODIFY]'', ''[QUERY]'', ''[VALUE]'']"
  by (simp only: spells_def match_eval char_eval rule_eval cong: lexer_opaque)

lemma bracket_texts:
  assumes "q \<in> set (filter (\<lambda>r. starts (pattern r) 0x5B) tsql_lexer)"
    and "matches (pattern q) (pattern q) v"
  shows "matches (pattern r_SQUARE_BRACKET_ID) (pattern r_SQUARE_BRACKET_ID) v"
proof -
  have "caseless (pattern r_SQUARE_BRACKET_ID)" by (simp add: r_SQUARE_BRACKET_ID_def)
  with bracket_literals assms show ?thesis by (auto simp: bracket_rules intro: literal_sub)
qed

lemma bracketed_name_best:
  assumes "us = [] \<or> hd us \<noteq> 0x5D"
  shows "\<exists>r. best tsql_lexer (bracketed_name s @ us) = Some (r, us)
    \<and> token_type r \<in> set bracket_types \<and> \<not> on_hidden r"
proof -
  let ?rules = "filter (\<lambda>r. starts (pattern r) 0x5B) tsql_lexer"
  have rest: "rule_rest r_SQUARE_BRACKET_ID (bracketed_name s @ us) = Some us"
    by (rule rule_rest_exact [OF _ bracketed_name_matches _ bracketed_name_longest [OF assms]])
      (simp_all add: greedy_def r_SQUARE_BRACKET_ID_def bracketed_name_def)
  have "r_SQUARE_BRACKET_ID \<in> set ?rules" by (simp add: bracket_rules)
  with rest have "\<exists>q \<in> set ?rules. best ?rules (bracketed_name s @ us) = Some (q, us)"
    by (rule best_reach) (erule (1) bracket_texts, erule (1) bracketed_name_longest [OF assms])
  then obtain q where "q \<in> set ?rules" "best ?rules (bracketed_name s @ us) = Some (q, us)" by blast
  then show ?thesis
    by (auto simp: bracket_rules bracket_types_def bracketed_name_def best_starts [of tsql_lexer]
        r_SQUARE_BRACKET_ID_def)
qed

text \<open>The tokens of the rules \<open>keyword\<close> and \<open>id_\<close> of the parser.\<close>

lemma admits_alternative:
  assumes "g \<in> set tsql_grammar" and "(None, Tok t) \<in> set (rule_alts g)"
  shows "admits (rule_index g) [t]"
proof -
  have "lang (labelled None (rule_alts g)) [Tm t]"
    using assms(2) by (force simp: lang_labelled)
  with assms(1) show ?thesis
    unfolding admits_def
    by (intro exI [of _ "Node (rule_index g) None [Leaf t]"]) (simp add: body_of_rule)
qed

lemma keyword_alternatives: "list_all (\<lambda>t. list_ex (\<lambda>a. a = (None, Tok t)) (rule_alts g_keyword))
   [T_EXIST_SQUARE_BRACKET, T_MODIFY_SQUARE_BRACKET, T_QUERY_SQUARE_BRACKET, T_VALUE_SQUARE_BRACKET,
    T_DEFAULT_DOUBLE_QUOTE, T_NULL_DOUBLE_QUOTE]"
  by (simp add: g_keyword_def)

lemma admits_keyword:
  assumes "t \<in> {T_EXIST_SQUARE_BRACKET, T_MODIFY_SQUARE_BRACKET, T_QUERY_SQUARE_BRACKET, T_VALUE_SQUARE_BRACKET,
    T_DEFAULT_DOUBLE_QUOTE, T_NULL_DOUBLE_QUOTE}"
  shows "admits RuleId' [t]"
proof -
  have "g_keyword \<in> set tsql_grammar" by (rule rule_in_grammar) (simp add: rules_6_def)
  moreover have "(None, Tok t) \<in> set (rule_alts g_keyword)"
    using assms keyword_alternatives unfolding list_all_iff list_ex_iff by auto
  ultimately have "admits (rule_index g_keyword) [t]" by (rule admits_alternative)
  then obtain k where k: "valid tsql_grammar k" "root k = Nt RuleKeyword" "yield k = [t]"
    by (auto simp: admits_def g_keyword_def)
  have "g_id' \<in> set tsql_grammar" by (rule rule_in_grammar) (simp add: rules_6_def)
  from admits_node [OF this, of None "[k]" "[t]"] k show ?thesis
    by (simp add: g_id'_def reads_def labelled_def)
qed

lemma admits_id:
  assumes "t \<in> {T_ID, T_TEMP_ID, T_DOUBLE_QUOTE_ID, T_DOUBLE_QUOTE_BLANK, T_SQUARE_BRACKET_ID}"
  shows "admits RuleId' [t]"
proof -
  have "g_id' \<in> set tsql_grammar" by (rule rule_in_grammar) (simp add: rules_6_def)
  moreover have "(None, Tok t) \<in> set (rule_alts g_id')" using assms by (auto simp: g_id'_def)
  ultimately have "admits (rule_index g_id') [t]" by (rule admits_alternative)
  then show ?thesis by (simp add: g_id'_def)
qed

text \<open>
  C12: Every name put between square brackets, with its closing brackets doubled, is lexed to a
  single token with exactly this text, whatever follows (if it is not another closing bracket),
  and the parser accepts the token as a name: also \<open>[value]\<close> and the three others that have
  token types of their own.
\<close>

theorem bracketed_name_lexed:
  assumes "us = [] \<or> hd us \<noteq> 0x5D"
  shows "\<exists>t. lexemes tsql_lexer extra (bracketed_name s @ us)
      = Lexeme t False (bracketed_name s) # lexemes tsql_lexer extra us
    \<and> admits RuleId' [t]"
proof -
  obtain r where "best tsql_lexer (bracketed_name s @ us) = Some (r, us)"
    "token_type r \<in> set bracket_types" "\<not> on_hidden r"
    using bracketed_name_best [OF assms] by blast
  then show ?thesis using admits_id admits_keyword lexemes_best
    by (intro exI [of _ "token_type r"]) (auto simp: bracket_types_def)
qed

theorem bracketed_name_lexed_witness:
  "\<exists>t. lexemes tsql_lexer (\<lambda>xs. 0) (codes ''[a]]b]'' @ codes ''.'')
      = Lexeme t False (codes ''[a]]b]'') # lexemes tsql_lexer (\<lambda>xs. 0) (codes ''.'')
    \<and> admits RuleId' [t]"
  using bracketed_name_lexed [of "codes ''.''" "\<lambda>xs. 0" "codes ''a]b''"]
  by (simp add: bracketed_name_def codes_def)

definition double_quoted :: "code_point list \<Rightarrow> code_point list" where
  "double_quoted s = 0x22 # s @ [0x22]"

definition double_quote_types :: "token list" where
  "double_quote_types = [T_DEFAULT_DOUBLE_QUOTE, T_NULL_DOUBLE_QUOTE, T_DOUBLE_QUOTE_ID, T_DOUBLE_QUOTE_BLANK]"

lemma in_double_quote: "in_chars [(0x22, 0x22)] x \<longleftrightarrow> x = 0x22"
  by (rule in_chars_single) (simp add: char_eval)

lemma no_quote_loop: "matches r (Loop (NotChars [(0x22, 0x22)])) b \<longleftrightarrow> 0x22 \<notin> set b"
proof
  assume "matches r (Loop (NotChars [(0x22, 0x22)])) b"
  then have "x \<in> set b \<Longrightarrow> x \<noteq> 0x22" for x
    by (rule matches_Loop_set [where P = "\<lambda>x. x \<noteq> 0x22"]) (auto simp: matches_simps in_double_quote)
  then show "0x22 \<notin> set b" by blast
next
  show "matches r (Loop (NotChars [(0x22, 0x22)])) b" if "0x22 \<notin> set b"
    using that
  proof (induction b)
    case (Cons x b)
    then have "matches r (NotChars [(0x22, 0x22)]) [x]" by (simp add: matches_simps in_double_quote)
    from matches.Loop_Cons [OF this] Cons show ?case by simp
  qed (rule matches.Loop_Nil)
qed

lemma first_and_rest:
  "(\<exists>v w. b = v @ w \<and> (\<exists>x. v = [x] \<and> x \<noteq> 0x22) \<and> 0x22 \<notin> set w) \<longleftrightarrow> b \<noteq> [] \<and> 0x22 \<notin> set b" for b :: "nat list"
  by (cases b) (auto intro: exI [of _ "[hd b]"])

lemma matches_DOUBLE_QUOTE_ID:
  "matches (pattern r_DOUBLE_QUOTE_ID) (pattern r_DOUBLE_QUOTE_ID) w
     \<longleftrightarrow> (\<exists>b. w = double_quoted b \<and> b \<noteq> [] \<and> 0x22 \<notin> set b)"
  unfolding r_DOUBLE_QUOTE_ID_def Some_More_def double_quoted_def
  by (simp add: matches_simps single_literals no_quote_loop in_double_quote first_and_rest) metis

lemma double_quote_texts:
  assumes "q \<in> set (filter (\<lambda>r. starts (pattern r) 0x22) tsql_lexer)"
    and "matches (pattern q) (pattern q) v"
  shows "\<exists>b. v = double_quoted b \<and> 0x22 \<notin> set b"
proof -
  have lit: "matches p (Lit s) b \<Longrightarrow> 0x22 \<notin> set (key s) \<Longrightarrow> 0x22 \<notin> set b" for p s b
    by (metis char_eval(98) imageI key_def matches_Lit set_map)
  consider "q = r_DEFAULT_DOUBLE_QUOTE" | "q = r_NULL_DOUBLE_QUOTE" | "q = r_DOUBLE_QUOTE_ID"
    | "q = literal_rule T_DOUBLE_QUOTE_BLANK [CHR 0x22, CHR 0x22]"
    using assms(1) by (auto simp: double_quote_rules)
  then show ?thesis
  proof cases
    case 1
    with assms(2) lit [of _ "''DEFAULT''"] show ?thesis
      by (auto simp: r_DEFAULT_DOUBLE_QUOTE_def matches_simps in_double_quote double_quoted_def key_eval char_eval)
  next
    case 2
    with assms(2) lit [of _ "''NULL''"] show ?thesis
      by (auto simp: r_NULL_DOUBLE_QUOTE_def matches_simps in_double_quote double_quoted_def key_eval char_eval)
  next
    case 3
    with assms(2) show ?thesis by (auto simp: matches_DOUBLE_QUOTE_ID)
  next
    case 4
    with assms(2) have "map upper v = map upper [0x22, 0x22]" by (simp add: matches_Lit codes_def)
    then have "v = [0x22, 0x22]" by (rule map_upper_fixed [rotated]) (simp add: char_eval)
    then show ?thesis by (simp add: double_quoted_def)
  qed
qed

lemma double_quoted_longest:
  assumes "0x22 \<notin> set s" and "double_quoted s @ us = v @ zs" and "\<exists>b. v = double_quoted b \<and> 0x22 \<notin> set b"
  shows "length v \<le> length (double_quoted s)"
proof -
  from assms(3) obtain b where b: "v = double_quoted b" "0x22 \<notin> set b" by blast
  with assms(2) have "s @ 0x22 # us = b @ 0x22 # zs" by (simp add: double_quoted_def)
  then have "takeWhile (\<lambda>x. x \<noteq> 0x22) (s @ 0x22 # us) = takeWhile (\<lambda>x. x \<noteq> 0x22) (b @ 0x22 # zs)" by simp
  moreover have "takeWhile (\<lambda>x. x \<noteq> 0x22) s = s" "takeWhile (\<lambda>x. x \<noteq> 0x22) b = b"
    using assms(1) b(2) by (auto simp: takeWhile_eq_all_conv)
  ultimately have "s = b" using assms(1) b(2) by (simp add: takeWhile_tail)
  with b(1) show ?thesis by simp
qed

lemma double_quoted_rest:
  assumes "0x22 \<notin> set s"
  obtains r where "r \<in> set (filter (\<lambda>r. starts (pattern r) 0x22) tsql_lexer)"
    "rule_rest r (double_quoted s @ us) = Some us"
proof (cases s)
  case Nil
  let ?r = "literal_rule T_DOUBLE_QUOTE_BLANK [CHR 0x22, CHR 0x22]"
  have "rule_rest ?r (double_quoted s @ us) = Some us"
    by (rule rule_rest_exact)
      (auto simp: Nil greedy_def matches_Lit double_quoted_def codes_def char_eval dest: map_eq_imp_length_eq)
  then show thesis by (rule that [rotated]) (simp add: double_quote_rules)
next
  case (Cons x xs)
  have "matches (pattern r_DOUBLE_QUOTE_ID) (pattern r_DOUBLE_QUOTE_ID) (double_quoted s)"
    unfolding matches_DOUBLE_QUOTE_ID using assms Cons by blast
  then have "rule_rest r_DOUBLE_QUOTE_ID (double_quoted s @ us) = Some us"
  proof (rule rule_rest_exact [rotated])
    show "length v \<le> length (double_quoted s)" if "double_quoted s @ us = v @ zs"
      "matches (pattern r_DOUBLE_QUOTE_ID) (pattern r_DOUBLE_QUOTE_ID) v" for v zs
      using double_quoted_longest [OF assms that(1)] that(2) by (auto simp: matches_DOUBLE_QUOTE_ID)
  qed (simp_all add: greedy_def r_DOUBLE_QUOTE_ID_def Some_More_def double_quoted_def)
  then show thesis by (rule that [rotated]) (simp add: double_quote_rules)
qed

text \<open>
  Every name put between double quotes that contains none is lexed to a single token with
  exactly this text, whatever follows, and the parser accepts the token as a name: also the
  empty name, \<open>"default"\<close> and \<open>"null"\<close>, which have token types of their own.
\<close>

theorem double_quoted_lexed:
  assumes "0x22 \<notin> set s"
  shows "\<exists>t. lexemes tsql_lexer extra (double_quoted s @ us)
      = Lexeme t False (double_quoted s) # lexemes tsql_lexer extra us
    \<and> admits RuleId' [t]"
proof -
  let ?rules = "filter (\<lambda>r. starts (pattern r) 0x22) tsql_lexer"
  obtain r where r: "r \<in> set ?rules" "rule_rest r (double_quoted s @ us) = Some us"
    using double_quoted_rest [OF assms] .
  from r(2,1) have "\<exists>q \<in> set ?rules. best ?rules (double_quoted s @ us) = Some (q, us)"
    by (rule best_reach) (erule (1) double_quote_texts, erule (1) double_quoted_longest [OF assms])
  then obtain q where "q \<in> set ?rules" "best ?rules (double_quoted s @ us) = Some (q, us)" by blast
  then have "best tsql_lexer (double_quoted s @ us) = Some (q, us)" "\<not> on_hidden q"
    "token_type q \<in> set double_quote_types"
    by (auto simp: double_quote_rules double_quote_types_def double_quoted_def best_starts [of tsql_lexer]
        r_DEFAULT_DOUBLE_QUOTE_def r_NULL_DOUBLE_QUOTE_def r_DOUBLE_QUOTE_ID_def)
  then show ?thesis using admits_id admits_keyword lexemes_best
    by (intro exI [of _ "token_type q"]) (auto simp: double_quote_types_def)
qed

theorem double_quoted_lexed_witness:
  "\<exists>t. lexemes tsql_lexer (\<lambda>xs. 0) ([0x22, 0x41, 0x20, 0x42, 0x22] @ codes '';'')
      = Lexeme t False [0x22, 0x41, 0x20, 0x42, 0x22] # lexemes tsql_lexer (\<lambda>xs. 0) (codes '';'')
    \<and> admits RuleId' [t]"
  using double_quoted_lexed [of "[0x41, 0x20, 0x42]" "\<lambda>xs. 0" "codes '';''"]
  by (simp add: double_quoted_def)

section \<open>Comments\<close>

lemma comment_pattern: "pattern r_COMMENT = comment_rule"
  by (simp add: r_COMMENT_def comment_rule_def)

lemma comment_lazy: "lazy comment_rule"
  by (simp add: comment_rule_def)

lemma comment_rest:
  assumes "body_rests (Suc (Suc (Suc (length xs)))) xs = ys # rs" and "length ys < length xs"
  shows "rule_rest r_COMMENT (0x2F # 0x2A # xs) = Some ys"
  using assms
  by (simp add: rule_rest_def Let_def comment_pattern comment_lazy comment_leftovers strip_open
      del: strip.simps leftovers.simps)

lemma comment_best:
  assumes "rule_rest r_COMMENT (0x2F # 0x2A # xs) = Some ys" and "length ys < length xs"
  shows "best tsql_lexer (0x2F # 0x2A # xs) = Some (r_COMMENT, ys)"
proof -
  have "best ([literal_rule T_DOUBLE_FORWARD_SLASH ''//''] @ r_COMMENT #
      [literal_rule T_DIV_ASSIGN ''/='', literal_rule T_DIVIDE ''/'']) (0x2F # 0x2A # xs) = Some (r_COMMENT, ys)"
    by (rule best_winner [OF assms(1)])
      (use assms(2) in \<open>auto elim!: rule_rest_split simp: matches_Lit codes_def char_eval map_eq_Cons_conv
        Cons_eq_append_conv upper_star upper_slash\<close>)
  then show ?thesis by (simp add: best_starts [of tsql_lexer] slash_rules)
qed

text \<open>
  C11: Comments nest: after an opening the lexeme is one hidden comment that ends where a scanner
  that counts openings and closings of comments has closed the last one, whatever follows.
\<close>

theorem comments_nest:
  assumes "close_comment 0 xs = Some ys"
  shows "\<exists>w. xs = w @ ys
    \<and> lexemes tsql_lexer extra (codes ''/*'' @ xs) = Lexeme T_COMMENT True (codes ''/*'' @ w) # lexemes tsql_lexer extra ys"
proof -
  have short: "length ys < length xs" using assms by (rule close_comment_shorter)
  obtain rs where "body_rests (Suc (Suc (Suc (length xs)))) xs = ys # rs"
    using body_rests_close [OF assms, of "Suc (Suc (Suc (length xs)))"] by auto
  from comment_best [OF comment_rest [OF this short] short]
  have best: "best tsql_lexer (0x2F # 0x2A # xs) = Some (r_COMMENT, ys)" .
  from lexemes_step [OF this, of extra] obtain w where w: "0x2F # 0x2A # xs = w @ ys"
    "lexemes tsql_lexer extra (0x2F # 0x2A # xs)
      = Lexeme (token_type r_COMMENT) (on_hidden r_COMMENT) w # lexemes tsql_lexer extra ys" .
  from w(1) short obtain v where "w = 0x2F # 0x2A # v" "xs = v @ ys"
    by (cases w rule: list.exhaust [case_names Nil Cons]; cases "tl w") auto
  with w(2) show ?thesis by (auto simp: codes_def char_eval r_COMMENT_def)
qed

theorem comments_nest_witness:
  "\<exists>w. codes '' a /* b */ c */ d'' = w @ codes '' d''
    \<and> lexemes tsql_lexer (\<lambda>xs. 0) (codes ''/*'' @ codes '' a /* b */ c */ d'')
      = Lexeme T_COMMENT True (codes ''/*'' @ w) # lexemes tsql_lexer (\<lambda>xs. 0) (codes '' d'')"
  by (rule comments_nest) (simp add: codes_def char_eval)

lemma matches_comment:
  assumes "matches comment_rule comment_rule w"
  shows "\<exists>b. w = 0x2F # 0x2A # b @ [0x2A, 0x2F]"
proof -
  have two: "matches p (Lit ''/*'') v \<Longrightarrow> v = [0x2F, 0x2A]" "matches p (Lit ''*/'') v \<Longrightarrow> v = [0x2A, 0x2F]" for p v
    using map_upper_fixed [of "[0x2F, 0x2A]" v] map_upper_fixed [of "[0x2A, 0x2F]" v]
    by (simp_all add: matches_Lit codes_def char_eval)
  from assms have "matches comment_rule (Cat [Lit ''/*'', Few (Or [Self, NotChars []]), Lit ''*/'']) w"
    by (subst (asm) (2) comment_rule_def)
  then show ?thesis by (auto simp: matches_simps dest!: two)
qed

lemma body_rests_ends:
  assumes "ys \<in> set (body_rests k xs)"
  shows "\<exists>b. xs = b @ [0x2A, 0x2F] @ ys"
proof -
  from assms have "ys \<in> set (leftovers comment_rule k comment_rule (0x2F # 0x2A # xs))"
    by (simp add: comment_leftovers strip_open del: strip.simps leftovers.simps)
  from leftovers_sound [OF this] matches_comment show ?thesis by fastforce
qed

lemma body_rests_some: "length b \<le> k \<Longrightarrow> body_rests (Suc k) (b @ [0x2A, 0x2F] @ ys) \<noteq> []"
proof (induction b arbitrary: k)
  case Nil
  show ?case by (simp add: body_rests_Suc strip_close del: strip.simps)
next
  case (Cons x b)
  then obtain j where "k = Suc j" "length b \<le> j" by (cases k) auto
  with Cons.IH [of j] show ?case
    by (subst body_rests_Suc) (simp del: strip.simps)
qed

text \<open>
  C29: An opening starts a comment if and only if a closing follows anywhere: also when further
  comments are opened and never closed.  SQL Server reports a missing end comment mark for these
  texts, this lexer accepts a comment.
\<close>

theorem comment_needs_one_end:
  "(\<exists>w ys. lexemes tsql_lexer extra (codes ''/*'' @ xs) = Lexeme T_COMMENT True w # lexemes tsql_lexer extra ys)
   \<longleftrightarrow> (\<exists>b ys. xs = b @ codes ''*/'' @ ys)"
proof
  let ?text = "0x2F # 0x2A # xs"
  have texts: "codes ''/*'' @ xs = ?text" "codes ''*/'' = [0x2A, 0x2F]" by (simp_all add: codes_def char_eval)
  show "\<exists>b ys. xs = b @ codes ''*/'' @ ys" if "\<exists>w ys. lexemes tsql_lexer extra (codes ''/*'' @ xs)
      = Lexeme T_COMMENT True w # lexemes tsql_lexer extra ys"
  proof (cases "best tsql_lexer ?text")
    case None
    with that show ?thesis by (simp add: lexemes_stuck texts)
  next
    case (Some p)
    then obtain r ys where r: "best tsql_lexer ?text = Some (r, ys)" by (cases p) auto
    from lexemes_step [OF r, of extra] obtain w where
      "lexemes tsql_lexer extra ?text = Lexeme (token_type r) (on_hidden r) w # lexemes tsql_lexer extra ys" .
    with that have "token_type r = T_COMMENT" unfolding texts(1) by (metis lexeme.inject(1) list.inject)
    moreover have "r \<in> set (filter (\<lambda>r. starts (pattern r) 0x2F) tsql_lexer)"
      using best_Some [OF r [unfolded best_starts [of tsql_lexer]]] by blast
    ultimately have "r = r_COMMENT" by (auto simp: slash_rules)
    with best_Some [OF r] have "ys \<in> set (body_rests (Suc (length ?text)) xs)"
      using rule_rest_mem(1) [of r_COMMENT ?text ys]
      by (simp add: comment_pattern comment_leftovers strip_open del: strip.simps leftovers.simps)
    from body_rests_ends [OF this] show ?thesis by (auto simp: texts)
  qed
  assume "\<exists>b ys. xs = b @ codes ''*/'' @ ys"
  then obtain b us where xs: "xs = b @ [0x2A, 0x2F] @ us" by (auto simp: texts)
  then obtain ys rs where ys: "body_rests (Suc (Suc (Suc (length xs)))) xs = ys # rs"
    using body_rests_some [of b "Suc (Suc (length xs))" us] by (auto simp: neq_Nil_conv)
  then have "\<exists>c. xs = c @ [0x2A, 0x2F] @ ys"
    by (intro body_rests_ends [of ys "Suc (Suc (Suc (length xs)))"]) simp
  then have short: "length ys < length xs" by auto
  from comment_best [OF comment_rest [OF ys short] short] lexemes_step [of tsql_lexer ?text r_COMMENT ys extra]
  show "\<exists>w ys. lexemes tsql_lexer extra (codes ''/*'' @ xs) = Lexeme T_COMMENT True w # lexemes tsql_lexer extra ys"
    by (auto simp: texts r_COMMENT_def)
qed

end
