(* ===== verification/TSql_Words.thy ===== *)
theory TSql_Words
  imports TSql_Tokens Quoting Word_Rules
begin

text \<open>
  Words: identifiers, keywords and the abbreviations of date parts.  A word is looked up among the
  rules as a whole, in their order, and what follows it plays no part.
\<close>

definition full_width :: "(code_point \<times> code_point) list" where
  "full_width = [(0x00C0, 0x00D6), (0x00D8, 0x00F6), (0x00F8, 0x00FF), (0x0100, 0x1FFF),
     (0x2C00, 0x2FFF), (0x3040, 0x318F), (0x3300, 0x337F), (0x3400, 0x3FFF),
     (0x4E00, 0x9FFF), (0xA000, 0xD7FF), (0xF900, 0xFAFF), (0xFF00, 0xFFF0)]"

definition word_starts :: "(code_point \<times> code_point) list" where
  "word_starts = [(0x41, 0x5A), (0x5F, 0x5F)] @ full_width"

definition word_chars :: "(code_point \<times> code_point) list" where
  "word_chars = [(0x41, 0x5A), (0x5F, 0x5F), (0x23, 0x23), (0x24, 0x24), (0x40, 0x40), (0x30, 0x39)] @ full_width"

text \<open>Words, and what may follow one without becoming a part of a longer lexeme.\<close>

definition word :: "code_point list \<Rightarrow> bool" where
  "word w = (case w of [] \<Rightarrow> False | x # xs \<Rightarrow> in_chars word_starts x \<and> list_all (in_chars word_chars) xs)"

definition ends_word :: "code_point list \<Rightarrow> bool" where
  "ends_word us \<longleftrightarrow> us = [] \<or> \<not> in_chars word_chars (hd us) \<and> hd us \<noteq> 0x3A \<and> hd us \<noteq> 0x27"

lemmas word_check_eval = opens.simps within_chars.simps apart.simps inside.simps empties.simps
  in_chars_eval in_ranges.simps greedy_def plain.simps lazy.simps list_ex_simps_eval
  word_starts_def word_chars_def full_width_def list_all_append_eval append.simps list_eval num_eval

lemma word_checks:
  "list_all (\<lambda>r. if opens word_starts (pattern r)
     then greedy r \<and> on_hidden r = False \<and> (if within_chars word_chars (pattern r) then True
       else if token_type r = T_DISK_DRIVE then True else token_type r = T_STRING)
     else True) tsql_lexer"
  by (simp only: word_check_eval char_eval rule_eval tsql_lexer_table cong: lexer_opaque)

lemma word_check:
  assumes "r \<in> set tsql_lexer" and "opens word_starts (pattern r)"
  shows "greedy r" "\<not> on_hidden r"
    "within_chars word_chars (pattern r) \<or> token_type r = T_DISK_DRIVE \<or> token_type r = T_STRING"
  using word_checks [unfolded list_all_iff, rule_format, OF assms(1)] assms(2) by (auto split: if_splits)

section \<open>The rule for identifiers\<close>

lemma full_width_eq: "f_FullWidthLetter = Chars full_width"
  by (simp add: f_FullWidthLetter_def full_width_def)

lemma in_chars_append: "in_chars (rs @ rs') x \<longleftrightarrow> in_chars rs x \<or> in_chars rs' x"
  by (auto simp: in_chars_def in_ranges_iff)

lemma matches_set_single: "matches s (Or [Chars rs, f_FullWidthLetter]) [x] \<longleftrightarrow> in_chars (rs @ full_width) x"
  by (auto simp: matches_simps full_width_eq in_chars_append)

lemma in_chars_mono: "in_chars rs x \<Longrightarrow> set rs \<subseteq> set rs' \<Longrightarrow> in_chars rs' x"
  by (fastforce simp: in_chars_def in_ranges_iff)

lemma matches_word_loop:
  assumes "list_all (in_chars word_chars) xs"
  shows "matches s (Loop (Or [Chars [(0x41, 0x5A), (0x5F, 0x5F), (0x23, 0x23), (0x24, 0x24), (0x40, 0x40),
    (0x30, 0x39)], f_FullWidthLetter])) xs"
  using assms
proof (induction xs)
  case (Cons x xs)
  then have "matches s (Or [Chars [(0x41, 0x5A), (0x5F, 0x5F), (0x23, 0x23), (0x24, 0x24), (0x40, 0x40),
      (0x30, 0x39)], f_FullWidthLetter]) [x]"
    by (simp add: matches_set_single word_chars_def)
  from matches.Loop_Cons [OF this] Cons show ?case by simp
qed (rule matches.Loop_Nil)

lemma word_Cons: "word w \<Longrightarrow> \<exists>x xs. w = x # xs \<and> in_chars word_starts x \<and> list_all (in_chars word_chars) xs"
  by (auto simp: word_def split: list.splits)

lemma word_start_char: "in_chars word_starts x \<Longrightarrow> in_chars word_chars x"
  by (erule in_chars_mono) (auto simp: word_starts_def word_chars_def)

lemma word_all_chars: "word w \<Longrightarrow> x \<in> set w \<Longrightarrow> in_chars word_chars x"
  by (auto dest!: word_Cons intro: word_start_char simp: list_all_iff)

lemma ID_matches:
  assumes "word w"
  shows "matches (pattern r_ID) (pattern r_ID) w"
proof -
  obtain x xs where w: "w = x # xs" "in_chars word_starts x" "list_all (in_chars word_chars) xs"
    using word_Cons [OF assms] by blast
  let ?e = "Or [Chars [(0x41, 0x5A), (0x5F, 0x5F), (0x23, 0x23)], f_FullWidthLetter]"
  have "matches s ?e [x]" for s
    unfolding matches_set_single by (rule in_chars_mono [OF w(2)]) (auto simp: word_starts_def)
  moreover have "matches s (Cat [Loop (Or [Chars [(0x41, 0x5A), (0x5F, 0x5F), (0x23, 0x23), (0x24, 0x24),
      (0x40, 0x40), (0x30, 0x39)], f_FullWidthLetter])]) xs" for s
    using matches.Cat_Cons [OF matches_word_loop [OF w(3)] matches.Cat_Nil] by simp
  ultimately have "matches s (Cat [?e, Loop (Or [Chars [(0x41, 0x5A), (0x5F, 0x5F), (0x23, 0x23), (0x24, 0x24),
      (0x40, 0x40), (0x30, 0x39)], f_FullWidthLetter])]) ([x] @ xs)" for s
    by (rule matches.Cat_Cons)
  then show ?thesis unfolding r_ID_def w(1) by simp
qed

lemma r_ID_mem: "r_ID \<in> set tsql_lexer"
  using arg_cong [OF underline_rules, of set] by auto

lemma ID_rest:
  assumes "word w"
  obtains zs where "rule_rest r_ID (w @ us) = Some zs" "length zs \<le> length us"
proof (rule rule_rest_greedy [OF _ ID_matches [OF assms]])
  show "greedy r_ID" by (simp add: greedy_def r_ID_def f_FullWidthLetter_def)
  show "w \<noteq> []" using word_Cons [OF assms] by blast
qed (rule that)

section \<open>The end of a word\<close>

lemma string_start:
  assumes "matches p (pattern r_STRING) v" and "in_chars word_starts (hd v)"
  shows "\<exists>v'. v = hd v # 0x27 # v'"
  using assms unfolding r_STRING_def
  by (auto simp: matches_simps matches_Exact codes_def char_eval word_starts_def full_width_def in_chars_def)

lemma drive_shape:
  assumes "matches p (pattern r_DISK_DRIVE) v"
  shows "\<exists>x. v = [x, 0x3A]"
proof -
  have "in_chars [(0x3A, 0x3A)] y \<longleftrightarrow> y = 0x3A" for y by (rule in_chars_single) (simp add: char_eval)
  with assms show ?thesis unfolding r_DISK_DRIVE_def by (auto simp: matches_simps)
qed

lemma sole_rule: "r \<in> set tsql_lexer \<Longrightarrow> q \<in> set tsql_lexer \<Longrightarrow> token_type r = token_type q \<Longrightarrow> r = q"
  using tsql.types by (auto simp: distinct_map dest: inj_onD)

lemma string_drive_mem: "r_STRING \<in> set tsql_lexer" "r_DISK_DRIVE \<in> set tsql_lexer"
proof -
  have "r_STRING \<in> set lexer_rules_30" by (simp add: lexer_rules_30_def)
  moreover have "r_DISK_DRIVE \<in> set lexer_rules_29" by (simp add: lexer_rules_29_def)
  ultimately show "r_STRING \<in> set tsql_lexer" "r_DISK_DRIVE \<in> set tsql_lexer"
    by (simp_all only: tsql_lexer_def set_append Un_iff simp_thms)
qed

text \<open>What a rule matches of a word and what follows it is a part of the word.\<close>

lemma match_in_word:
  assumes w: "word w" "ends_word us" and r: "r \<in> set tsql_lexer" "rule_rest r (w @ us) = Some zs"
  shows "length us \<le> length zs"
proof (rule ccontr)
  assume less: "\<not> length us \<le> length zs"
  obtain x xs where x: "w = x # xs" "in_chars word_starts x" using word_Cons [OF w(1)] by blast
  from rule_rest_split [OF r(2)] obtain v where v: "w @ us = v @ zs" "v \<noteq> []" "matches (pattern r) (pattern r) v" .
  with less obtain t where t: "v = w @ t" "us = t @ zs" "t \<noteq> []" by (auto simp: append_eq_append_conv2)
  then obtain u t' us' where us: "us = u # us'" "v = w @ u # t'" by (cases t) auto
  then have end_char: "\<not> in_chars word_chars u" "u \<noteq> 0x3A" "u \<noteq> 0x27" using w(2) by (auto simp: ends_word_def)
  have "starts (pattern r) x" using v x by (cases v) (auto dest: matches_starts)
  then have "opens word_starts (pattern r)" using x(2) by (rule starts_opens)
  from word_check(3) [OF r(1) this] show False
  proof (elim disjE)
    assume "within_chars word_chars (pattern r)"
    with within_matches [OF v(3) this, of u] us(2) end_char show False by simp
  next
    assume "token_type r = T_DISK_DRIVE"
    then have "r = r_DISK_DRIVE"
      using sole_rule [OF r(1) string_drive_mem(2)] by (simp add: r_DISK_DRIVE_def)
    with v(3) drive_shape obtain y where "v = [y, 0x3A]" by blast
    with us(2) x end_char show False by (cases xs) auto
  next
    assume "token_type r = T_STRING"
    then have "r = r_STRING" using sole_rule [OF r(1) string_drive_mem(1)] by (simp add: r_STRING_def)
    moreover have "hd v = x" using v(1,2) x by (cases v) auto
    ultimately obtain v' where "v = x # 0x27 # v'" using v(3) string_start x(2) by metis
    then have "0x27 \<in> set w \<or> u = 0x27" using us(2) x by (cases xs) auto
    moreover have "\<not> in_chars word_chars 0x27"
      by (simp add: word_chars_def full_width_def in_chars_def char_eval)
    ultimately show False using word_all_chars [OF w(1)] end_char by blast
  qed
qed

section \<open>Lookup\<close>

lemma word_opens:
  assumes "word w" and "rule_rest r (w @ us) = Some zs"
  shows "opens word_starts (pattern r)"
proof -
  obtain x xs where x: "w = x # xs" "in_chars word_starts x" using word_Cons [OF assms(1)] by blast
  with assms(2) have "starts (pattern r) x" using rule_rest_starts [of r x "xs @ us"] by auto
  then show ?thesis using x(2) by (rule starts_opens)
qed

lemma word_best:
  assumes "word w" and "ends_word us"
  shows "\<exists>r. best tsql_lexer (w @ us) = Some (r, us)"
proof -
  obtain ys where ys: "rule_rest r_ID (w @ us) = Some ys" "length ys \<le> length us" using ID_rest [OF assms(1)] .
  then obtain r zs where r: "best tsql_lexer (w @ us) = Some (r, zs)"
    using r_ID_mem by (cases "best tsql_lexer (w @ us)") (auto simp: best_None)
  from best_Some [OF r] have mem: "r \<in> set tsql_lexer" "rule_rest r (w @ us) = Some zs" by simp_all
  have "length zs \<le> length us" using best_le [OF r r_ID_mem ys(1)] ys(2) by simp
  moreover have "length us \<le> length zs" using match_in_word [OF assms mem] .
  moreover obtain v where "w @ us = v @ zs" using rule_rest_split [OF mem(2)] .
  ultimately have "zs = us" by (auto simp: append_eq_append_conv2)
  with r show ?thesis by blast
qed

text \<open>A rule that opens a word matches it whole, alone or before something else.\<close>

lemma whole_word:
  assumes "word w" and "r \<in> set tsql_lexer" and "rule_rest r w = Some []"
  shows "\<exists>zs. rule_rest r (w @ us) = Some zs \<and> length zs \<le> length us"
proof -
  have "opens word_starts (pattern r)" using word_opens [OF assms(1), of r "[]" "[]"] assms(3) by simp
  then have "greedy r" using word_check(1) [OF assms(2)] by blast
  moreover obtain v where "w = v @ []" "v \<noteq> []" "matches (pattern r) (pattern r) v"
    using rule_rest_split [OF assms(3)] .
  ultimately obtain zs where "rule_rest r (w @ us) = Some zs" "length zs \<le> length us"
    using rule_rest_greedy [of r w us] by auto
  then show ?thesis by blast
qed

lemma whole_word_before:
  assumes "word w" and "r \<in> set tsql_lexer" and "rule_rest r (w @ us) = Some us"
  shows "rule_rest r w = Some []"
proof -
  have "greedy r" using word_check(1) [OF assms(2) word_opens [OF assms(1,3)]] .
  moreover obtain v where "w @ us = v @ us" "v \<noteq> []" "matches (pattern r) (pattern r) v"
    using rule_rest_split [OF assms(3)] .
  ultimately show ?thesis by (intro rule_rest_whole) auto
qed

lemma word_context:
  assumes "word w" and "ends_word us" and "best tsql_lexer w = Some (r, [])"
  shows "best tsql_lexer (w @ us) = Some (r, us)"
proof -
  obtain q where q: "best tsql_lexer (w @ us) = Some (q, us)" using word_best [OF assms(1,2)] by blast
  from best_Some [OF assms(3)] best_Some [OF q]
  have r: "r \<in> set tsql_lexer" "rule_rest r w = Some []"
    and q': "q \<in> set tsql_lexer" "rule_rest q (w @ us) = Some us" by simp_all
  obtain zs where "rule_rest r (w @ us) = Some zs" "length zs \<le> length us"
    using whole_word [OF assms(1) r] by blast
  then have "r = q"
    using same_best [OF tsql.rule_distinct assms(3) _ _ q whole_word_before [OF assms(1) q'], of zs] by simp
  with q show ?thesis by simp
qed

lemma spells_word:
  assumes "word w" and "r \<in> set tsql_lexer"
  shows "spells (pattern r) w \<longleftrightarrow> rule_rest r w = Some []"
proof
  have w: "w \<noteq> []" using word_Cons [OF assms(1)] by blast
  assume spells: "spells (pattern r) w"
  obtain x xs where x: "w = x # xs" "in_chars word_starts x" using word_Cons [OF assms(1)] by blast
  with matches_starts [OF spells_sound [OF spells]] have "opens word_starts (pattern r)"
    by (auto intro: starts_opens)
  with word_check(1) [OF assms(2)] spells w show "rule_rest r w = Some []"
    by (blast intro: rule_rest_whole spells_sound)
next
  assume rest: "rule_rest r w = Some []"
  have "greedy r" using word_check(1) [OF assms(2)] word_opens [OF assms(1), of r "[]"] rest by simp
  moreover have "matches (pattern r) (pattern r) w" using rule_rest_split [OF rest] by auto
  ultimately show "spells (pattern r) w" by (rule spells_complete)
qed

lemma best_least:
  assumes "best tsql_lexer w = Some (r, [])" and "q \<in> set tsql_lexer" and "rule_rest q w = Some []"
  shows "token_type r \<le> token_type q"
proof (rule ccontr)
  assume less: "\<not> token_type r \<le> token_type q"
  have r: "r \<in> set tsql_lexer" using best_Some [OF assms(1)] by simp
  obtain i where i: "i < 1207" "tsql_lexer ! i = r" "token_type r = int i + 1" using rule_at [OF r] .
  obtain j where j: "j < 1207" "tsql_lexer ! j = q" "token_type q = int j + 1" using rule_at [OF assms(2)] .
  have rs: "tsql_lexer = take i tsql_lexer @ drop i tsql_lexer" by simp
  have "q \<in> set (take i tsql_lexer)"
    using less i j lexer_length by (auto simp: in_set_conv_nth intro!: exI [of _ j])
  moreover have "r \<notin> set (take i tsql_lexer)"
    using i lexer_length nth_eq_iff_index_eq [OF tsql.rule_distinct] by (auto simp: in_set_conv_nth)
  ultimately show False
    using best_before [of "take i tsql_lexer" "drop i tsql_lexer" w r "[]" q "[]"] assms by simp
qed

text \<open>
  C9: A word is looked up as a whole: it is one visible token, in every context that does not
  go on with a character of a word, a colon or a single quote, and its type is the first of the
  rules that match the word.  So a keyword is recognised exactly when it stands for itself, and an
  identifier is never divided.
\<close>

theorem words_looked_up:
  assumes "word w" and "ends_word us"
  shows "\<exists>r \<in> set tsql_lexer. spells (pattern r) w
    \<and> (\<forall>q \<in> set tsql_lexer. spells (pattern q) w \<longrightarrow> token_type r \<le> token_type q)
    \<and> lexemes tsql_lexer extra (w @ us) = Lexeme (token_type r) False w # lexemes tsql_lexer extra us"
proof -
  obtain r where r: "best tsql_lexer w = Some (r, [])"
    using word_best [OF assms(1), of "[]"] by (auto simp: ends_word_def)
  from best_Some [OF this] have mem: "r \<in> set tsql_lexer" "rule_rest r w = Some []" by simp_all
  have "\<not> on_hidden r"
    using word_check(2) [OF mem(1)] word_opens [OF assms(1), of r "[]" "[]"] mem(2) by simp
  moreover from word_context [OF assms r] obtain v where "w @ us = v @ us"
    "lexemes tsql_lexer extra (w @ us) = Lexeme (token_type r) (on_hidden r) v # lexemes tsql_lexer extra us"
    by (rule lexemes_step)
  ultimately show ?thesis
    using mem best_least [OF r] spells_word [OF assms(1)] by (intro bexI [of _ r]) auto
qed

text \<open>The word \<open>select_1\<close> before a space.\<close>

theorem words_looked_up_witness:
  "\<exists>r \<in> set tsql_lexer. spells (pattern r) (codes ''select_1'')
    \<and> (\<forall>q \<in> set tsql_lexer. spells (pattern q) (codes ''select_1'') \<longrightarrow> token_type r \<le> token_type q)
    \<and> lexemes tsql_lexer (\<lambda>xs. 0) (codes ''select_1'' @ codes '' a'')
      = Lexeme (token_type r) False (codes ''select_1'') # lexemes tsql_lexer (\<lambda>xs. 0) (codes '' a'')"
proof (rule words_looked_up)
  show "word (codes ''select_1'')"
    by (simp add: word_def codes_def word_starts_def word_chars_def full_width_def in_chars_def char_eval)
  show "ends_word (codes '' a'')"
    by (simp add: ends_word_def codes_def word_chars_def full_width_def in_chars_def char_eval)
qed

end
