(* ===== verification/TSql_Keywords.thy ===== *)
theory TSql_Keywords
  imports TSql_Reach TSql_Tokens
begin

text \<open>
  Which tokens the trees of files are made of, and how they relate to what the lexer produces: for
  every token type a rule of \<open>src/TSqlParser.g4\<close> that mentions it, and the check of these rules.
\<close>

definition reserved_only :: "token list" where
  "reserved_only =
     [T_CURRENT_TIME, T_DUMP, T_ERRLVL, T_EXIT, T_IDENTITYCOL, T_LINENO, T_NATIONAL, T_OFFSETS,
     T_READTEXT, T_RESTORE, T_RESTRICT, T_SECURITYAUDIT, T_TABLESAMPLE, T_TSEQUAL, T_UPDATETEXT,
     T_WRITETEXT]"

text \<open>The token types that occur in right-hand sides, as intervals.\<close>

definition in_grammar :: "token \<Rightarrow> bool" where
  "in_grammar t =
     (if t = T_EOF then True else (if t < 759 then (if t < 323 then (if t < 284 then (if t < 207
     then (if t < 1 then False else True) else (if t < 208 then False else True)) else (if t <
     300 then (if t < 285 then False else True) else (if t < 301 then False else (if t < 322 then
     True else False)))) else (if t < 509 then (if t < 426 then (if t < 425 then True else False)
     else (if t < 508 then True else False)) else (if t < 586 then (if t < 585 then True else
     False) else (if t < 646 then True else (if t < 647 then False else True))))) else (if t <
     1008 then (if t < 862 then (if t < 804 then (if t < 760 then False else True) else (if t <
     806 then False else True)) else (if t < 968 then (if t < 863 then False else True) else (if
     t < 969 then False else (if t < 1007 then True else False)))) else (if t < 1159 then (if t <
     1030 then (if t < 1029 then True else False) else (if t < 1070 then True else (if t < 1071
     then False else True))) else (if t < 1188 then (if t < 1162 then False else True) else (if t
     < 1191 then False else (if t < 1208 then True else False)))))))"

definition user :: "token \<Rightarrow> rule_id" where
  "user t =
     (if t < 571 then (if t < 279 then (if t < 140 then (if t < 72 then (if t < 36 then (if t <
     15 then (if t < 7 then (if t < 3 then (if t < 1 then 0 else (if t < 2 then 251 else 302))
     else (if t < 5 then (if t < 4 then 525 else 452) else (if t < 6 then 338 else 161))) else
     (if t < 11 then (if t < 9 then (if t < 8 then 394 else 445) else (if t < 10 then 225 else
     382)) else (if t < 13 then (if t < 12 then 39 else 191) else (if t < 14 then 394 else
     148)))) else (if t < 25 then (if t < 21 then (if t < 19 then (if t < 18 then 391 else 160)
     else (if t < 20 then 343 else 28)) else (if t < 23 then (if t < 22 then 148 else 36) else
     (if t < 24 then 333 else 82))) else (if t < 30 then (if t < 27 then (if t < 26 then 218 else
     152) else (if t < 29 then 258 else 152)) else (if t < 33 then (if t < 31 then 340 else 406)
     else (if t < 35 then 418 else 31))))) else (if t < 55 then (if t < 46 then (if t < 39 then
     (if t < 37 then 434 else (if t < 38 then 564 else 178)) else (if t < 42 then (if t < 40 then
     454 else 341) else (if t < 44 then 454 else 341))) else (if t < 50 then (if t < 48 then (if
     t < 47 then 229 else 275) else (if t < 49 then 29 else 201)) else (if t < 53 then (if t < 52
     then 526 else 511) else (if t < 54 then 526 else 341)))) else (if t < 63 then (if t < 59
     then (if t < 57 then (if t < 56 then 454 else 43) else (if t < 58 then 483 else 526)) else
     (if t < 61 then (if t < 60 then 31 else 526) else (if t < 62 then 60 else 82))) else (if t <
     67 then (if t < 65 then (if t < 64 then 458 else 127) else (if t < 66 then 202 else 394))
     else (if t < 69 then (if t < 68 then 149 else 70) else (if t < 70 then 160 else 306))))))
     else (if t < 107 then (if t < 91 then (if t < 83 then (if t < 77 then (if t < 74 then 82
     else (if t < 75 then 311 else 309)) else (if t < 81 then (if t < 78 then 291 else 309) else
     (if t < 82 then 79 else 82))) else (if t < 87 then (if t < 85 then (if t < 84 then 559 else
     52) else (if t < 86 then 366 else 414)) else (if t < 89 then (if t < 88 then 82 else 482)
     else (if t < 90 then 198 else 8)))) else (if t < 99 then (if t < 95 then (if t < 93 then (if
     t < 92 then 87 else 564) else (if t < 94 then 605 else 592)) else (if t < 97 then (if t < 96
     then 482 else 118) else (if t < 98 then 156 else 198))) else (if t < 103 then (if t < 101
     then (if t < 100 then 302 else 577) else (if t < 102 then 364 else 9)) else (if t < 105 then
     (if t < 104 then 86 else 191) else (if t < 106 then 481 else 205))))) else (if t < 122 then
     (if t < 114 then (if t < 110 then (if t < 108 then 364 else (if t < 109 then 517 else 338))
     else (if t < 112 then (if t < 111 then 479 else 199) else (if t < 113 then 287 else 425)))
     else (if t < 118 then (if t < 116 then (if t < 115 then 180 else 445) else (if t < 117 then
     460 else 526)) else (if t < 120 then (if t < 119 then 109 else 18) else (if t < 121 then 526
     else 90)))) else (if t < 132 then (if t < 127 then (if t < 125 then (if t < 124 then 526
     else 394) else (if t < 126 then 506 else 507)) else (if t < 129 then (if t < 128 then 311
     else 310) else (if t < 131 then 526 else 444))) else (if t < 136 then (if t < 134 then (if t
     < 133 then 404 else 405) else (if t < 135 then 407 else 409)) else (if t < 138 then (if t <
     137 then 411 else 402) else (if t < 139 then 592 else 559))))))) else (if t < 204 then (if t
     < 172 then (if t < 155 then (if t < 147 then (if t < 143 then (if t < 141 then 412 else (if
     t < 142 then 165 else 170)) else (if t < 145 then (if t < 144 then 181 else 413) else (if t
     < 146 then 597 else 415))) else (if t < 151 then (if t < 149 then (if t < 148 then 388 else
     205) else (if t < 150 then 590 else 526)) else (if t < 153 then (if t < 152 then 303 else
     137) else (if t < 154 then 91 else 526)))) else (if t < 164 then (if t < 159 then (if t <
     157 then (if t < 156 then 291 else 265) else (if t < 158 then 267 else 434)) else (if t <
     162 then (if t < 160 then 88 else 526) else (if t < 163 then 396 else 453))) else (if t <
     168 then (if t < 166 then (if t < 165 then 341 else 526) else (if t < 167 then 364 else
     258)) else (if t < 170 then (if t < 169 then 256 else 436) else (if t < 171 then 487 else
     341))))) else (if t < 187 then (if t < 179 then (if t < 175 then (if t < 173 then 526 else
     (if t < 174 then 205 else 394)) else (if t < 177 then (if t < 176 then 440 else 526) else
     (if t < 178 then 437 else 312))) else (if t < 183 then (if t < 181 then (if t < 180 then 571
     else 522) else (if t < 182 then 429 else 205)) else (if t < 185 then (if t < 184 then 526
     else 10) else (if t < 186 then 364 else 93)))) else (if t < 195 then (if t < 191 then (if t
     < 189 then (if t < 188 then 85 else 394) else (if t < 190 then 599 else 526)) else (if t <
     193 then (if t < 192 then 380 else 364) else (if t < 194 then 559 else 131))) else (if t <
     200 then (if t < 197 then (if t < 196 then 559 else 160) else (if t < 198 then 190 else
     390)) else (if t < 202 then (if t < 201 then 94 else 510) else (if t < 203 then 95 else
     560)))))) else (if t < 246 then (if t < 226 then (if t < 217 then (if t < 212 then (if t <
     205 then 566 else (if t < 211 then 526 else 362)) else (if t < 215 then (if t < 214 then 313
     else 526) else (if t < 216 then 199 else 102))) else (if t < 222 then (if t < 219 then (if t
     < 218 then 97 else 526) else (if t < 220 then 147 else 526)) else (if t < 224 then (if t <
     223 then 394 else 267) else (if t < 225 then 408 else 157)))) else (if t < 238 then (if t <
     233 then (if t < 231 then (if t < 230 then 526 else 328) else (if t < 232 then 311 else
     424)) else (if t < 235 then (if t < 234 then 421 else 334) else (if t < 236 then 82 else
     526))) else (if t < 242 then (if t < 240 then (if t < 239 then 394 else 362) else (if t <
     241 then 360 else 526)) else (if t < 244 then (if t < 243 then 63 else 224) else (if t < 245
     then 165 else 439))))) else (if t < 263 then (if t < 255 then (if t < 251 then (if t < 249
     then (if t < 248 then 334 else 27) else (if t < 250 then 394 else 19)) else (if t < 253 then
     (if t < 252 then 333 else 277) else (if t < 254 then 491 else 558))) else (if t < 259 then
     (if t < 257 then (if t < 256 then 194 else 58) else (if t < 258 then 391 else 483)) else (if
     t < 261 then (if t < 260 then 597 else 391) else (if t < 262 then 434 else 82)))) else (if t
     < 271 then (if t < 267 then (if t < 265 then (if t < 264 then 205 else 382) else (if t < 266
     then 526 else 364)) else (if t < 269 then (if t < 268 then 569 else 251) else (if t < 270
     then 333 else 339))) else (if t < 275 then (if t < 273 then (if t < 272 then 364 else 561)
     else (if t < 274 then 396 else 295)) else (if t < 277 then (if t < 276 then 429 else 521)
     else (if t < 278 then 602 else 50)))))))) else (if t < 427 then (if t < 353 then (if t < 317
     then (if t < 295 then (if t < 287 then (if t < 282 then (if t < 280 then 325 else (if t <
     281 then 37 else 423)) else (if t < 285 then (if t < 283 then 250 else 82) else (if t < 286
     then 451 else 481))) else (if t < 291 then (if t < 289 then (if t < 288 then 13 else 330)
     else (if t < 290 then 175 else 145)) else (if t < 293 then (if t < 292 then 147 else 339)
     else (if t < 294 then 434 else 88)))) else (if t < 309 then (if t < 299 then (if t < 297
     then (if t < 296 then 329 else 434) else (if t < 298 then 8 else 101)) else (if t < 302 then
     (if t < 301 then 82 else 597) else (if t < 303 then 339 else 526))) else (if t < 313 then
     (if t < 311 then (if t < 310 then 469 else 403) else (if t < 312 then 108 else 532)) else
     (if t < 315 then (if t < 314 then 152 else 471) else (if t < 316 then 140 else 383))))) else
     (if t < 333 then (if t < 325 then (if t < 320 then (if t < 318 then 64 else (if t < 319 then
     372 else 537)) else (if t < 323 then (if t < 321 then 120 else 537) else (if t < 324 then
     487 else 364))) else (if t < 329 then (if t < 327 then (if t < 326 then 386 else 481) else
     (if t < 328 then 408 else 205)) else (if t < 331 then (if t < 330 then 102 else 47) else (if
     t < 332 then 320 else 82)))) else (if t < 341 then (if t < 337 then (if t < 335 then (if t <
     334 then 605 else 205) else (if t < 336 then 82 else 201)) else (if t < 339 then (if t < 338
     then 151 else 418) else (if t < 340 then 451 else 480))) else (if t < 348 then (if t < 343
     then (if t < 342 then 39 else 571) else (if t < 346 then 526 else 572)) else (if t < 351
     then (if t < 349 then 201 else 526) else (if t < 352 then 571 else 438)))))) else (if t <
     388 then (if t < 371 then (if t < 362 then (if t < 358 then (if t < 356 then 526 else (if t
     < 357 then 364 else 442)) else (if t < 360 then (if t < 359 then 198 else 480) else (if t <
     361 then 560 else 454))) else (if t < 366 then (if t < 364 then (if t < 363 then 567 else
     450) else (if t < 365 then 171 else 337)) else (if t < 369 then (if t < 367 then 454 else
     552) else (if t < 370 then 82 else 320)))) else (if t < 379 then (if t < 375 then (if t <
     373 then (if t < 372 then 437 else 103) else (if t < 374 then 526 else 451)) else (if t <
     377 then (if t < 376 then 422 else 523) else (if t < 378 then 522 else 34))) else (if t <
     384 then (if t < 381 then (if t < 380 then 569 else 288) else (if t < 382 then 109 else
     526)) else (if t < 386 then (if t < 385 then 115 else 611) else (if t < 387 then 434 else
     599))))) else (if t < 408 then (if t < 400 then (if t < 395 then (if t < 391 then (if t <
     389 then 540 else 526) else (if t < 394 then 540 else 541)) else (if t < 398 then (if t <
     397 then 526 else 313) else (if t < 399 then 397 else 11))) else (if t < 404 then (if t <
     402 then (if t < 401 then 181 else 194) else (if t < 403 then 526 else 79)) else (if t < 406
     then (if t < 405 then 473 else 559) else (if t < 407 then 219 else 335)))) else (if t < 417
     then (if t < 413 then (if t < 410 then (if t < 409 then 509 else 165) else (if t < 412 then
     526 else 474)) else (if t < 415 then (if t < 414 then 205 else 82) else (if t < 416 then 295
     else 435))) else (if t < 421 then (if t < 419 then (if t < 418 then 541 else 219) else (if t
     < 420 then 551 else 339)) else (if t < 424 then (if t < 423 then 526 else 311) else (if t <
     426 then 143 else 453))))))) else (if t < 503 then (if t < 462 then (if t < 444 then (if t <
     436 then (if t < 432 then (if t < 428 then 390 else (if t < 431 then 526 else 13)) else (if
     t < 434 then (if t < 433 then 552 else 258) else (if t < 435 then 487 else 416))) else (if t
     < 440 then (if t < 438 then (if t < 437 then 552 else 526) else (if t < 439 then 343 else
     394)) else (if t < 442 then (if t < 441 then 454 else 219) else (if t < 443 then 514 else
     248)))) else (if t < 454 then (if t < 448 then (if t < 446 then (if t < 445 then 481 else
     199) else (if t < 447 then 288 else 438)) else (if t < 452 then (if t < 451 then 526 else
     152) else (if t < 453 then 364 else 229))) else (if t < 458 then (if t < 456 then (if t <
     455 then 509 else 287) else (if t < 457 then 449 else 277)) else (if t < 460 then (if t <
     459 then 491 else 275) else (if t < 461 then 605 else 471))))) else (if t < 486 then (if t <
     471 then (if t < 465 then (if t < 463 then 472 else (if t < 464 then 453 else 82)) else (if
     t < 467 then (if t < 466 then 469 else 540) else (if t < 470 then 526 else 453))) else (if t
     < 477 then (if t < 475 then (if t < 474 then 526 else 371) else (if t < 476 then 510 else
     502)) else (if t < 484 then (if t < 483 then 526 else 611) else (if t < 485 then 487 else
     552)))) else (if t < 494 then (if t < 490 then (if t < 488 then (if t < 487 then 487 else
     552) else (if t < 489 then 149 else 59)) else (if t < 492 then (if t < 491 then 388 else
     451) else (if t < 493 then 142 else 390))) else (if t < 498 then (if t < 496 then (if t <
     495 then 142 else 368) else (if t < 497 then 560 else 163)) else (if t < 501 then (if t <
     499 then 452 else 560) else (if t < 502 then 526 else 592)))))) else (if t < 537 then (if t
     < 520 then (if t < 511 then (if t < 506 then (if t < 504 then 526 else (if t < 505 then 453
     else 104)) else (if t < 509 then (if t < 507 then 191 else 469) else (if t < 510 then 394
     else 157))) else (if t < 516 then (if t < 513 then (if t < 512 then 124 else 82) else (if t
     < 515 then 150 else 82)) else (if t < 518 then (if t < 517 then 364 else 256) else (if t <
     519 then 313 else 85)))) else (if t < 528 then (if t < 524 then (if t < 522 then (if t < 521
     then 156 else 140) else (if t < 523 then 300 else 247)) else (if t < 526 then (if t < 525
     then 112 else 526) else (if t < 527 then 509 else 219))) else (if t < 533 then (if t < 531
     then (if t < 530 then 526 else 82) else (if t < 532 then 396 else 394)) else (if t < 535
     then (if t < 534 then 435 else 113) else (if t < 536 then 233 else 436))))) else (if t < 553
     then (if t < 545 then (if t < 541 then (if t < 539 then (if t < 538 then 559 else 228) else
     (if t < 540 then 487 else 572)) else (if t < 543 then (if t < 542 then 364 else 199) else
     (if t < 544 then 160 else 152))) else (if t < 549 then (if t < 547 then (if t < 546 then 219
     else 253) else (if t < 548 then 152 else 201)) else (if t < 551 then (if t < 550 then 180
     else 152) else (if t < 552 then 160 else 181)))) else (if t < 562 then (if t < 557 then (if
     t < 555 then (if t < 554 then 160 else 225) else (if t < 556 then 201 else 205)) else (if t
     < 560 then (if t < 558 then 611 else 364) else (if t < 561 then 219 else 208))) else (if t <
     566 then (if t < 564 then (if t < 563 then 571 else 152) else (if t < 565 then 232 else
     114)) else (if t < 569 then (if t < 568 then 147 else 559) else (if t < 570 then 342 else
     199))))))))) else (if t < 853 then (if t < 713 then (if t < 647 then (if t < 606 then (if t
     < 590 then (if t < 581 then (if t < 576 then (if t < 572 then 526 else (if t < 575 then 180
     else 364)) else (if t < 578 then (if t < 577 then 191 else 336) else (if t < 579 then 140
     else 539))) else (if t < 586 then (if t < 583 then (if t < 582 then 227 else 332) else (if t
     < 584 then 170 else 273)) else (if t < 588 then (if t < 587 then 526 else 149) else (if t <
     589 then 334 else 526)))) else (if t < 598 then (if t < 594 then (if t < 592 then (if t <
     591 then 305 else 526) else (if t < 593 then 212 else 339)) else (if t < 596 then (if t <
     595 then 212 else 177) else (if t < 597 then 58 else 300))) else (if t < 602 then (if t <
     600 then (if t < 599 then 454 else 542) else (if t < 601 then 454 else 552)) else (if t <
     604 then (if t < 603 then 364 else 551) else (if t < 605 then 412 else 364))))) else (if t <
     625 then (if t < 615 then (if t < 609 then (if t < 607 then 552 else (if t < 608 then 590
     else 312)) else (if t < 611 then (if t < 610 then 569 else 288) else (if t < 614 then 364
     else 591))) else (if t < 619 then (if t < 617 then (if t < 616 then 370 else 394) else (if t
     < 618 then 364 else 401)) else (if t < 622 then (if t < 621 then 364 else 152) else (if t <
     623 then 417 else 414)))) else (if t < 633 then (if t < 629 then (if t < 627 then (if t <
     626 then 364 else 343) else (if t < 628 then 558 else 149)) else (if t < 631 then (if t <
     630 then 526 else 591) else (if t < 632 then 438 else 160))) else (if t < 642 then (if t <
     635 then (if t < 634 then 605 else 341) else (if t < 636 then 76 else 526)) else (if t < 644
     then (if t < 643 then 236 else 321) else (if t < 645 then 330 else 480)))))) else (if t <
     679 then (if t < 662 then (if t < 654 then (if t < 650 then (if t < 648 then 212 else (if t
     < 649 then 167 else 345)) else (if t < 652 then (if t < 651 then 330 else 480) else (if t <
     653 then 201 else 362))) else (if t < 658 then (if t < 656 then (if t < 655 then 359 else
     500) else (if t < 657 then 358 else 517)) else (if t < 660 then (if t < 659 then 499 else
     390) else (if t < 661 then 394 else 451)))) else (if t < 671 then (if t < 666 then (if t <
     664 then (if t < 663 then 487 else 250) else (if t < 665 then 486 else 153)) else (if t <
     669 then (if t < 667 then 479 else 526) else (if t < 670 then 378 else 511))) else (if t <
     675 then (if t < 673 then (if t < 672 then 378 else 562) else (if t < 674 then 400 else 67))
     else (if t < 677 then (if t < 676 then 394 else 271) else (if t < 678 then 263 else 291)))))
     else (if t < 695 then (if t < 687 then (if t < 683 then (if t < 681 then (if t < 680 then
     338 else 552) else (if t < 682 then 337 else 605)) else (if t < 685 then (if t < 684 then
     541 else 526) else (if t < 686 then 454 else 312))) else (if t < 691 then (if t < 689 then
     (if t < 688 then 115 else 264) else (if t < 690 then 317 else 172)) else (if t < 693 then
     (if t < 692 then 269 else 526) else (if t < 694 then 251 else 416)))) else (if t < 705 then
     (if t < 701 then (if t < 699 then (if t < 696 then 477 else 560) else (if t < 700 then 526
     else 47)) else (if t < 703 then (if t < 702 then 433 else 291) else (if t < 704 then 152
     else 82))) else (if t < 709 then (if t < 707 then (if t < 706 then 152 else 410) else (if t
     < 708 then 512 else 487)) else (if t < 711 then (if t < 710 then 157 else 225) else (if t <
     712 then 125 else 119))))))) else (if t < 779 then (if t < 745 then (if t < 728 then (if t <
     720 then (if t < 716 then (if t < 714 then 82 else (if t < 715 then 566 else 602)) else (if
     t < 718 then (if t < 717 then 198 else 437) else (if t < 719 then 82 else 21))) else (if t <
     724 then (if t < 722 then (if t < 721 then 452 else 86) else (if t < 723 then 85 else 59))
     else (if t < 726 then (if t < 725 then 87 else 380) else (if t < 727 then 347 else 417))))
     else (if t < 736 then (if t < 732 then (if t < 730 then (if t < 729 then 347 else 225) else
     (if t < 731 then 205 else 453)) else (if t < 734 then (if t < 733 then 124 else 95) else (if
     t < 735 then 390 else 381))) else (if t < 741 then (if t < 739 then (if t < 738 then 526
     else 157) else (if t < 740 then 370 else 535)) else (if t < 743 then (if t < 742 then 226
     else 201) else (if t < 744 then 341 else 526))))) else (if t < 762 then (if t < 752 then (if
     t < 748 then (if t < 746 then 157 else (if t < 747 then 22 else 434)) else (if t < 750 then
     (if t < 749 then 563 else 558) else (if t < 751 then 606 else 391))) else (if t < 757 then
     (if t < 754 then (if t < 753 then 148 else 391) else (if t < 755 then 449 else 552)) else
     (if t < 760 then (if t < 758 then 307 else 551) else (if t < 761 then 552 else 307)))) else
     (if t < 770 then (if t < 766 then (if t < 764 then (if t < 763 then 340 else 331) else (if t
     < 765 then 82 else 331)) else (if t < 768 then (if t < 767 then 363 else 259) else (if t <
     769 then 240 else 286))) else (if t < 774 then (if t < 772 then (if t < 771 then 400 else
     338) else (if t < 773 then 341 else 443)) else (if t < 777 then (if t < 775 then 171 else
     594) else (if t < 778 then 452 else 118)))))) else (if t < 816 then (if t < 798 then (if t <
     788 then (if t < 782 then (if t < 780 then 454 else (if t < 781 then 85 else 59)) else (if t
     < 786 then (if t < 783 then 254 else 412) else (if t < 787 then 453 else 552))) else (if t <
     792 then (if t < 790 then (if t < 789 then 298 else 82) else (if t < 791 then 526 else 443))
     else (if t < 796 then (if t < 795 then 219 else 148) else (if t < 797 then 82 else 291))))
     else (if t < 808 then (if t < 802 then (if t < 800 then (if t < 799 then 201 else 181) else
     (if t < 801 then 119 else 394)) else (if t < 806 then (if t < 803 then 156 else 199) else
     (if t < 807 then 332 else 263))) else (if t < 812 then (if t < 810 then (if t < 809 then 335
     else 364) else (if t < 811 then 225 else 12)) else (if t < 814 then (if t < 813 then 281
     else 526) else (if t < 815 then 380 else 194))))) else (if t < 832 then (if t < 824 then (if
     t < 820 then (if t < 818 then (if t < 817 then 364 else 592) else (if t < 819 then 487 else
     29)) else (if t < 822 then (if t < 821 then 343 else 482) else (if t < 823 then 605 else
     121))) else (if t < 828 then (if t < 826 then (if t < 825 then 566 else 291) else (if t <
     827 then 526 else 583)) else (if t < 830 then (if t < 829 then 435 else 552) else (if t <
     831 then 563 else 558)))) else (if t < 844 then (if t < 840 then (if t < 838 then (if t <
     837 then 64 else 526) else (if t < 839 then 192 else 47)) else (if t < 842 then (if t < 841
     then 320 else 288) else (if t < 843 then 396 else 180))) else (if t < 849 then (if t < 846
     then (if t < 845 then 67 else 299) else (if t < 848 then 526 else 116)) else (if t < 851
     then (if t < 850 then 99 else 526) else (if t < 852 then 394 else 449)))))))) else (if t <
     998 then (if t < 925 then (if t < 890 then (if t < 873 then (if t < 863 then (if t < 858
     then (if t < 854 then 451 else (if t < 855 then 124 else 82)) else (if t < 860 then (if t <
     859 then 342 else 143) else (if t < 861 then 394 else 125))) else (if t < 867 then (if t <
     865 then (if t < 864 then 201 else 82) else (if t < 866 then 472 else 425)) else (if t < 871
     then (if t < 870 then 522 else 449) else (if t < 872 then 601 else 229)))) else (if t < 881
     then (if t < 877 then (if t < 875 then (if t < 874 then 126 else 434) else (if t < 876 then
     453 else 127)) else (if t < 879 then (if t < 878 then 526 else 130) else (if t < 880 then
     414 else 147))) else (if t < 886 then (if t < 883 then (if t < 882 then 191 else 108) else
     (if t < 885 then 526 else 82)) else (if t < 888 then (if t < 887 then 526 else 257) else (if
     t < 889 then 22 else 473))))) else (if t < 907 then (if t < 899 then (if t < 893 then (if t
     < 891 then 394 else (if t < 892 then 399 else 140)) else (if t < 895 then (if t < 894 then
     551 else 419) else (if t < 896 then 394 else 454))) else (if t < 903 then (if t < 901 then
     (if t < 900 then 420 else 401) else (if t < 902 then 168 else 131)) else (if t < 905 then
     (if t < 904 then 337 else 332) else (if t < 906 then 420 else 364)))) else (if t < 915 then
     (if t < 911 then (if t < 909 then (if t < 908 then 605 else 453) else (if t < 910 then 205
     else 469)) else (if t < 913 then (if t < 912 then 263 else 526) else (if t < 914 then 102
     else 526))) else (if t < 919 then (if t < 917 then (if t < 916 then 435 else 552) else (if t
     < 918 then 97 else 176)) else (if t < 923 then (if t < 920 then 78 else 205) else (if t <
     924 then 526 else 364)))))) else (if t < 963 then (if t < 941 then (if t < 932 then (if t <
     928 then (if t < 926 then 200 else (if t < 927 then 147 else 152)) else (if t < 930 then (if
     t < 929 then 386 else 182) else (if t < 931 then 451 else 132))) else (if t < 936 then (if t
     < 934 then (if t < 933 then 297 else 258) else (if t < 935 then 371 else 526)) else (if t <
     938 then (if t < 937 then 288 else 225) else (if t < 939 then 369 else 559)))) else (if t <
     952 then (if t < 945 then (if t < 943 then (if t < 942 then 152 else 111) else (if t < 944
     then 147 else 364)) else (if t < 950 then (if t < 949 then 526 else 385) else (if t < 951
     then 394 else 370))) else (if t < 959 then (if t < 954 then (if t < 953 then 526 else 559)
     else (if t < 955 then 148 else 526)) else (if t < 961 then (if t < 960 then 335 else 300)
     else (if t < 962 then 133 else 82))))) else (if t < 980 then (if t < 972 then (if t < 967
     then (if t < 965 then (if t < 964 then 134 else 164) else (if t < 966 then 526 else 427))
     else (if t < 970 then (if t < 969 then 418 else 403) else (if t < 971 then 552 else 394)))
     else (if t < 976 then (if t < 974 then (if t < 973 then 364 else 229) else (if t < 975 then
     342 else 611)) else (if t < 978 then (if t < 977 then 325 else 292) else (if t < 979 then
     453 else 543)))) else (if t < 988 then (if t < 984 then (if t < 982 then (if t < 981 then 14
     else 476) else (if t < 983 then 458 else 19)) else (if t < 986 then (if t < 985 then 593
     else 605) else (if t < 987 then 68 else 476))) else (if t < 993 then (if t < 990 then (if t
     < 989 then 338 else 540) else (if t < 992 then 394 else 152)) else (if t < 996 then (if t <
     995 then 396 else 434) else (if t < 997 then 196 else 334))))))) else (if t < 1067 then (if
     t < 1034 then (if t < 1017 then (if t < 1006 then (if t < 1001 then (if t < 999 then 526
     else (if t < 1000 then 349 else 526)) else (if t < 1004 then (if t < 1003 then 391 else 141)
     else (if t < 1005 then 334 else 18))) else (if t < 1011 then (if t < 1009 then (if t < 1008
     then 526 else 147) else (if t < 1010 then 334 else 114)) else (if t < 1015 then (if t < 1014
     then 526 else 451) else (if t < 1016 then 567 else 47)))) else (if t < 1025 then (if t <
     1021 then (if t < 1019 then (if t < 1018 then 453 else 526) else (if t < 1020 then 470 else
     437)) else (if t < 1023 then (if t < 1022 then 488 else 572) else (if t < 1024 then 169 else
     394))) else (if t < 1030 then (if t < 1027 then (if t < 1026 then 513 else 47) else (if t <
     1028 then 369 else 277)) else (if t < 1032 then (if t < 1031 then 552 else 526) else (if t <
     1033 then 364 else 398))))) else (if t < 1051 then (if t < 1043 then (if t < 1038 then (if t
     < 1035 then 177 else (if t < 1036 then 135 else 526)) else (if t < 1041 then (if t < 1039
     then 232 else 175) else (if t < 1042 then 533 else 239))) else (if t < 1047 then (if t <
     1045 then (if t < 1044 then 533 else 559) else (if t < 1046 then 602 else 559)) else (if t <
     1049 then (if t < 1048 then 285 else 205) else (if t < 1050 then 414 else 507)))) else (if t
     < 1059 then (if t < 1055 then (if t < 1053 then (if t < 1052 then 354 else 487) else (if t <
     1054 then 299 else 47)) else (if t < 1057 then (if t < 1056 then 140 else 19) else (if t <
     1058 then 302 else 175))) else (if t < 1063 then (if t < 1061 then (if t < 1060 then 543
     else 472) else (if t < 1062 then 20 else 149)) else (if t < 1065 then (if t < 1064 then 45
     else 560) else (if t < 1066 then 217 else 481)))))) else (if t < 1155 then (if t < 1113 then
     (if t < 1075 then (if t < 1071 then (if t < 1068 then 318 else (if t < 1069 then 396 else
     136)) else (if t < 1073 then (if t < 1072 then 454 else 526) else (if t < 1074 then 552 else
     137))) else (if t < 1079 then (if t < 1077 then (if t < 1076 then 481 else 360) else (if t <
     1078 then 481 else 263)) else (if t < 1081 then (if t < 1080 then 481 else 458) else (if t <
     1112 then 526 else 528)))) else (if t < 1136 then (if t < 1125 then (if t < 1116 then (if t
     < 1115 then 526 else 528) else (if t < 1123 then 526 else 528)) else (if t < 1131 then (if t
     < 1126 then 529 else 528) else (if t < 1133 then 529 else 530))) else (if t < 1148 then (if
     t < 1140 then (if t < 1139 then 528 else 529) else (if t < 1146 then 528 else 529)) else (if
     t < 1152 then (if t < 1151 then 530 else 605) else (if t < 1154 then 602 else 54))))) else
     (if t < 1178 then (if t < 1167 then (if t < 1163 then (if t < 1158 then (if t < 1156 then
     456 else 526) else (if t < 1162 then 150 else 21)) else (if t < 1165 then (if t < 1164 then
     606 else 56) else (if t < 1166 then 606 else 243))) else (if t < 1171 then (if t < 1169 then
     (if t < 1168 then 606 else 326) else (if t < 1170 then 607 else 41)) else (if t < 1174 then
     (if t < 1172 then 168 else 477) else (if t < 1175 then 319 else 609)))) else (if t < 1196
     then (if t < 1192 then (if t < 1187 then (if t < 1186 then 610 else 456) else (if t < 1191
     then 613 else 583)) else (if t < 1194 then (if t < 1193 then 549 else 61) else (if t < 1195
     then 431 else 242))) else (if t < 1200 then (if t < 1198 then (if t < 1197 then 324 else 69)
     else (if t < 1199 then 491 else 456)) else (if t < 1204 then (if t < 1201 then 611 else 461)
     else (if t < 1207 then 456 else 457))))))))))"

definition words_of :: "rule_id \<Rightarrow> token list" where
  "words_of r =
     (if r < 308 then (if r < 150 then (if r < 80 then (if r < 43 then (if r < 23 then (if r < 13
     then (if r < 9 then (if r < 1 then [- 1] else (if r < 8 then [] else [90, 297])) else (if r
     < 11 then (if r < 10 then [102] else [184]) else (if r < 12 then [399] else [811]))) else
     (if r < 19 then (if r < 15 then (if r < 14 then [287, 431] else [980]) else (if r < 18 then
     [] else [119, 1005])) else (if r < 21 then (if r < 20 then [250, 983, 1056] else [1061])
     else (if r < 22 then [719, 1162] else [746, 888])))) else (if r < 35 then (if r < 30 then
     (if r < 28 then (if r < 27 then [] else [248]) else (if r < 29 then [20] else [48, 819]))
     else (if r < 32 then (if r < 31 then [] else [35, 59]) else (if r < 34 then [] else [378])))
     else (if r < 39 then (if r < 37 then (if r < 36 then [] else [22]) else (if r < 38 then
     [280] else [])) else (if r < 41 then (if r < 40 then [11, 341] else []) else (if r < 42 then
     [1170] else []))))) else (if r < 59 then (if r < 51 then (if r < 46 then (if r < 44 then
     [56] else (if r < 45 then [] else [1063])) else (if r < 48 then (if r < 47 then [] else
     [330, 700, 839, 1026, 1054, 1016]) else (if r < 50 then [] else [278]))) else (if r < 55
     then (if r < 53 then (if r < 52 then [] else [84]) else (if r < 54 then [] else [1154]))
     else (if r < 57 then (if r < 56 then [] else [1164]) else (if r < 58 then [] else [256,
     596])))) else (if r < 68 then (if r < 63 then (if r < 61 then (if r < 60 then [489, 723,
     781] else [61]) else (if r < 62 then [1193] else [])) else (if r < 65 then (if r < 64 then
     [242] else [317, 832, 833, 834, 835, 836]) else (if r < 67 then [] else [674, 844]))) else
     (if r < 76 then (if r < 70 then (if r < 69 then [986] else [1197]) else (if r < 71 then [68]
     else [])) else (if r < 78 then (if r < 77 then [635] else []) else (if r < 79 then [919]
     else [81, 403])))))) else (if r < 115 then (if r < 97 then (if r < 89 then (if r < 85 then
     (if r < 82 then [] else (if r < 83 then [72, 235, 335, 414, 796, 855, 856, 24, 62, 73, 82,
     87, 299, 332, 530, 718, 789, 857, 864, 962, 764, 885, 515, 369, 262, 464, 512, 713, 283,
     704] else [])) else (if r < 87 then (if r < 86 then [187, 519, 722, 780] else [103, 721])
     else (if r < 88 then [91, 724] else [159, 294]))) else (if r < 93 then (if r < 91 then (if r
     < 90 then [] else [121]) else (if r < 92 then [153] else [])) else (if r < 95 then (if r <
     94 then [186] else [200]) else (if r < 96 then [202, 733] else [])))) else (if r < 105 then
     (if r < 101 then (if r < 99 then (if r < 98 then [217, 917] else []) else (if r < 100 then
     [849] else [])) else (if r < 103 then (if r < 102 then [298] else [216, 329, 913]) else (if
     r < 104 then [372] else [505]))) else (if r < 111 then (if r < 109 then (if r < 108 then []
     else [311, 882]) else (if r < 110 then [118, 381] else [])) else (if r < 113 then (if r <
     112 then [942] else [524]) else (if r < 114 then [534] else [565, 1010]))))) else (if r <
     133 then (if r < 124 then (if r < 119 then (if r < 117 then (if r < 116 then [384, 687] else
     [848]) else (if r < 118 then [] else [96, 778])) else (if r < 121 then (if r < 120 then
     [712, 800] else [320]) else (if r < 122 then [823] else []))) else (if r < 128 then (if r <
     126 then (if r < 125 then [511, 732, 854] else [711, 861]) else (if r < 127 then [873] else
     [64, 876])) else (if r < 131 then (if r < 130 then [] else [878]) else (if r < 132 then
     [194, 902] else [931])))) else (if r < 142 then (if r < 137 then (if r < 135 then (if r <
     134 then [961] else [963]) else (if r < 136 then [1035] else [1069])) else (if r < 140 then
     (if r < 138 then [152, 1074] else []) else (if r < 141 then [315, 521, 578, 892, 1055] else
     [1003]))) else (if r < 146 then (if r < 144 then (if r < 143 then [492, 494] else [424,
     859]) else (if r < 145 then [] else [290])) else (if r < 148 then (if r < 147 then [] else
     [219, 291, 566, 567, 880, 926, 943, 1008]) else (if r < 149 then [14, 21, 752, 795, 954]
     else [67, 488, 587, 628, 1062]))))))) else (if r < 233 then (if r < 190 then (if r < 167
     then (if r < 158 then (if r < 153 then (if r < 151 then [513, 514, 1158] else (if r < 152
     then [337] else [26, 29, 313, 451, 544, 547, 550, 563, 621, 703, 705, 927, 941, 992])) else
     (if r < 156 then (if r < 154 then [665] else []) else (if r < 157 then [520, 802, 97] else
     [225, 510, 709, 738, 745]))) else (if r < 163 then (if r < 161 then (if r < 160 then [] else
     [18, 69, 196, 543, 551, 553, 632]) else (if r < 162 then [6] else [])) else (if r < 165 then
     (if r < 164 then [497] else [964]) else (if r < 166 then [141, 244, 409] else [])))) else
     (if r < 176 then (if r < 171 then (if r < 169 then (if r < 168 then [648] else [901, 1171])
     else (if r < 170 then [1023] else [142, 583])) else (if r < 173 then (if r < 172 then [364,
     774] else [690]) else (if r < 175 then [] else [289, 1039, 1040, 1058]))) else (if r < 180
     then (if r < 178 then (if r < 177 then [918] else [595, 1034]) else (if r < 179 then [38]
     else [])) else (if r < 182 then (if r < 181 then [114, 549, 572, 573, 574, 843] else [143,
     400, 552, 799]) else (if r < 183 then [929] else []))))) else (if r < 208 then (if r < 198
     then (if r < 194 then (if r < 192 then (if r < 191 then [197] else [12, 104, 506, 576, 881])
     else (if r < 193 then [838] else [])) else (if r < 196 then (if r < 195 then [255, 401, 815]
     else []) else (if r < 197 then [996] else []))) else (if r < 202 then (if r < 200 then (if r
     < 199 then [89, 98, 358, 716] else [111, 215, 445, 542, 570, 803]) else (if r < 201 then
     [925] else [49, 336, 348, 548, 555, 652, 742, 798, 863])) else (if r < 205 then (if r < 203
     then [65] else []) else (if r < 206 then [106, 148, 173, 182, 263, 328, 334, 413, 556, 730,
     909, 920, 921, 922, 1048] else [])))) else (if r < 224 then (if r < 217 then (if r < 212
     then (if r < 209 then [561] else []) else (if r < 213 then [592, 594, 647] else [])) else
     (if r < 219 then (if r < 218 then [1065] else [25]) else (if r < 220 then [406, 418, 441,
     527, 545, 560, 792, 793, 794] else []))) else (if r < 228 then (if r < 226 then (if r < 225
     then [243] else [9, 554, 710, 729, 810, 937]) else (if r < 227 then [741] else [581])) else
     (if r < 230 then (if r < 229 then [538] else [46, 453, 872, 973]) else (if r < 232 then []
     else [564, 1038])))))) else (if r < 270 then (if r < 252 then (if r < 242 then (if r < 237
     then (if r < 234 then [535] else (if r < 236 then [] else [642])) else (if r < 240 then (if
     r < 239 then [] else [1042]) else (if r < 241 then [768] else []))) else (if r < 248 then
     (if r < 244 then (if r < 243 then [1195] else [1166]) else (if r < 247 then [] else [523]))
     else (if r < 250 then (if r < 249 then [443] else []) else (if r < 251 then [282, 663] else
     [1, 268, 693])))) else (if r < 260 then (if r < 256 then (if r < 254 then (if r < 253 then
     [] else [546]) else (if r < 255 then [782] else [])) else (if r < 258 then (if r < 257 then
     [517, 168] else [887]) else (if r < 259 then [28, 27, 433, 933, 167] else [767]))) else (if
     r < 266 then (if r < 264 then (if r < 263 then [] else [911, 807, 677, 1078]) else (if r <
     265 then [688] else [156])) else (if r < 268 then (if r < 267 then [] else [157, 223]) else
     (if r < 269 then [] else [691]))))) else (if r < 291 then (if r < 278 then (if r < 274 then
     (if r < 272 then (if r < 271 then [] else [676]) else (if r < 273 then [] else [584])) else
     (if r < 276 then (if r < 275 then [] else [47, 459]) else (if r < 277 then [] else [252,
     457, 1028]))) else (if r < 286 then (if r < 282 then (if r < 281 then [] else [812]) else
     (if r < 285 then [] else [1047])) else (if r < 288 then (if r < 287 then [769] else [455,
     112]) else (if r < 289 then [380, 446, 610, 841, 936] else [])))) else (if r < 300 then (if
     r < 296 then (if r < 293 then (if r < 292 then [702, 797, 825, 678, 155, 77] else [977])
     else (if r < 295 then [] else [415, 274])) else (if r < 298 then (if r < 297 then [] else
     [932]) else (if r < 299 then [788] else [845, 1053]))) else (if r < 304 then (if r < 302
     then (if r < 301 then [522, 597, 960] else []) else (if r < 303 then [2, 99, 1057] else
     [151])) else (if r < 306 then (if r < 305 then [] else [590]) else (if r < 307 then [70, 71]
     else [757, 761])))))))) else (if r < 446 then (if r < 382 then (if r < 342 then (if r < 326
     then (if r < 317 then (if r < 311 then (if r < 309 then [] else (if r < 310 then [75, 76,
     78, 79, 80] else [128])) else (if r < 313 then (if r < 312 then [74, 127, 231, 423] else
     [178, 608, 686]) else (if r < 314 then [212, 213, 397, 518] else []))) else (if r < 321 then
     (if r < 319 then (if r < 318 then [689] else [1067]) else (if r < 320 then [1174] else [331,
     370, 840])) else (if r < 324 then (if r < 322 then [643] else []) else (if r < 325 then
     [1196] else [279, 976])))) else (if r < 334 then (if r < 330 then (if r < 328 then (if r <
     327 then [1168] else []) else (if r < 329 then [230] else [295])) else (if r < 332 then (if
     r < 331 then [288, 644, 650] else [763, 765]) else (if r < 333 then [904, 806, 582] else
     [23, 251, 269]))) else (if r < 338 then (if r < 336 then (if r < 335 then [234, 1004, 247,
     246, 588, 997, 1009] else [407, 808, 959]) else (if r < 337 then [577] else [365, 681,
     903])) else (if r < 340 then (if r < 339 then [109, 771, 988, 5, 679] else [292, 270, 593,
     302, 420]) else (if r < 341 then [30, 762] else [41, 40, 44, 45, 54, 164, 171, 634, 743,
     772]))))) else (if r < 362 then (if r < 349 then (if r < 345 then (if r < 343 then [569,
     858, 974] else (if r < 344 then [19, 820, 438, 626] else [])) else (if r < 347 then (if r <
     346 then [649] else []) else (if r < 348 then [726, 728] else []))) else (if r < 358 then
     (if r < 354 then (if r < 350 then [999] else []) else (if r < 355 then [1051] else [])) else
     (if r < 360 then (if r < 359 then [656] else [654]) else (if r < 361 then [240, 1076] else
     [])))) else (if r < 370 then (if r < 366 then (if r < 364 then (if r < 363 then [211, 239,
     653] else [766]) else (if r < 365 then [101, 107, 166, 185, 192, 266, 271, 324, 356, 452,
     516, 541, 558, 559, 575, 602, 605, 611, 612, 613, 617, 619, 620, 625, 809, 816, 906, 924,
     944, 972, 1032] else [])) else (if r < 368 then (if r < 367 then [85] else []) else (if r <
     369 then [495] else [938, 1027]))) else (if r < 378 then (if r < 372 then (if r < 371 then
     [615, 739, 951] else [474, 934]) else (if r < 373 then [318] else [])) else (if r < 380 then
     (if r < 379 then [669, 671] else []) else (if r < 381 then [725, 191, 814] else [735]))))))
     else (if r < 414 then (if r < 398 then (if r < 389 then (if r < 385 then (if r < 383 then
     [10, 264] else (if r < 384 then [316] else [])) else (if r < 387 then (if r < 386 then [949]
     else [325, 928]) else (if r < 388 then [] else [147, 490]))) else (if r < 394 then (if r <
     391 then (if r < 390 then [] else [493, 427, 734, 198, 199, 659]) else (if r < 392 then
     [257, 1001, 1002, 751, 753, 260, 15, 16, 17] else [])) else (if r < 396 then (if r < 395
     then [13, 660, 222, 238, 509, 532, 801, 890, 990, 66, 174, 188, 851, 7, 439, 860, 895, 616,
     950, 675, 971, 1024, 124, 249, 991] else []) else (if r < 397 then [273, 993, 994, 531, 162,
     1068, 842] else [398])))) else (if r < 406 then (if r < 402 then (if r < 400 then (if r <
     399 then [1033] else [891]) else (if r < 401 then [673, 770] else [618, 900])) else (if r <
     404 then (if r < 403 then [137] else [969, 310]) else (if r < 405 then [132] else [133])))
     else (if r < 410 then (if r < 408 then (if r < 407 then [31, 32] else [134]) else (if r <
     409 then [327, 224] else [135])) else (if r < 412 then (if r < 411 then [706] else [136])
     else (if r < 413 then [140, 604, 783, 784, 785] else [144]))))) else (if r < 430 then (if r
     < 422 then (if r < 418 then (if r < 416 then (if r < 415 then [624, 623, 879, 1049, 86] else
     [146]) else (if r < 417 then [435, 694] else [622, 727])) else (if r < 420 then (if r < 419
     then [33, 967, 338, 34] else [894]) else (if r < 421 then [899, 905] else [233]))) else (if
     r < 426 then (if r < 424 then (if r < 423 then [375] else [281]) else (if r < 425 then [232]
     else [113, 866])) else (if r < 428 then (if r < 427 then [] else [966]) else (if r < 429
     then [] else [181, 275])))) else (if r < 438 then (if r < 434 then (if r < 432 then (if r <
     431 then [] else [1194]) else (if r < 433 then [] else [701])) else (if r < 436 then (if r <
     435 then [36, 386, 874, 995, 158, 261, 293, 296, 747] else [416, 533, 828, 915]) else (if r
     < 437 then [169, 536] else [177, 371, 717, 1020]))) else (if r < 442 then (if r < 440 then
     (if r < 439 then [352, 447, 631] else [245]) else (if r < 441 then [175] else [])) else (if
     r < 444 then (if r < 443 then [357] else [773, 791]) else (if r < 445 then [131] else [8,
     115]))))))) else (if r < 530 then (if r < 486 then (if r < 469 then (if r < 455 then (if r <
     451 then (if r < 449 then [] else (if r < 450 then [456, 754, 852, 870] else [363])) else
     (if r < 453 then (if r < 452 then [374, 285, 339, 491, 930, 661, 853, 1014] else [4, 498,
     720, 777]) else (if r < 454 then [463, 731, 978, 163, 470, 504, 786, 875, 908, 1017, 426]
     else [39, 42, 43, 55, 361, 366, 440, 598, 600, 685, 779, 896, 897, 898, 1071]))) else (if r
     < 459 then (if r < 457 then (if r < 456 then [] else [1199, 1186, 1204, 1205, 1206, 1155])
     else (if r < 458 then [1207] else [63, 982, 1080])) else (if r < 461 then (if r < 460 then
     [] else [116]) else (if r < 462 then [1203, 1201, 1202] else [])))) else (if r < 477 then
     (if r < 473 then (if r < 471 then (if r < 470 then [910, 309, 507, 465] else [1019]) else
     (if r < 472 then [314, 461] else [462, 865, 1060])) else (if r < 475 then (if r < 474 then
     [404, 889] else [412]) else (if r < 476 then [] else [981, 987]))) else (if r < 481 then (if
     r < 479 then (if r < 478 then [695, 1172, 1173] else []) else (if r < 480 then [110, 666]
     else [340, 359, 645, 651])) else (if r < 483 then (if r < 482 then [105, 286, 1075, 1077,
     1079, 326, 444, 1066] else [88, 95, 821]) else (if r < 484 then [57, 258] else []))))) else
     (if r < 511 then (if r < 501 then (if r < 491 then (if r < 488 then (if r < 487 then [664]
     else [170, 323, 1052, 434, 484, 708, 486, 539, 662, 818]) else (if r < 489 then [1021] else
     [])) else (if r < 499 then (if r < 492 then [1198, 253, 458] else []) else (if r < 500 then
     [658] else [655]))) else (if r < 507 then (if r < 503 then (if r < 502 then [] else [476])
     else (if r < 506 then [] else [125])) else (if r < 509 then (if r < 508 then [126, 1050]
     else []) else (if r < 510 then [408, 454, 526] else [201, 475])))) else (if r < 522 then (if
     r < 515 then (if r < 513 then (if r < 512 then [52, 670] else [707]) else (if r < 514 then
     [1025] else [442])) else (if r < 518 then (if r < 517 then [] else [657, 108]) else (if r <
     521 then [] else [276]))) else (if r < 526 then (if r < 524 then (if r < 523 then [180, 377,
     867, 869, 868] else [376]) else (if r < 525 then [] else [3])) else (if r < 528 then (if r <
     527 then [53, 50, 51, 60, 160, 161, 154, 218, 236, 237, 353, 354, 355, 344, 345, 343, 349,
     350, 382, 383, 450, 448, 449, 638, 639, 640, 641, 636, 637, 667, 684, 846, 847, 850, 877,
     935, 1012, 1013, 1011, 58, 129, 130, 172, 265, 503, 528, 529, 586, 692, 744, 790, 813, 837,
     912, 914, 945, 946, 947, 948, 952, 998, 1000, 1018, 1031, 165, 176, 183, 206, 209, 241, 303,
     304, 305, 306, 307, 308, 373, 396, 389, 421, 422, 468, 469, 571, 589, 591, 826, 884, 1072,
     117, 1006, 190, 150, 1156, 1157, 214, 123, 221, 428, 429, 430, 923, 205, 208, 1103, 1104,
     1105, 226, 227, 1106, 1107, 228, 229, 1108, 1109, 1110, 1111, 1113, 390, 395, 1114, 1116,
     1117, 1118, 1119, 1120, 1121, 1122, 629, 437, 467, 479, 477, 482, 481, 478, 480, 1081, 1082,
     1083, 1084, 1085, 1086, 1087, 1088, 1089, 1090, 1091, 1092, 1093, 1094, 1095, 1096, 1097,
     1098, 1099, 1100, 1101, 1102, 402, 501, 120, 122, 210, 220, 410, 411, 471, 472, 473, 525,
     668, 699, 737, 736, 886, 883, 955, 956, 957, 958, 965, 1036, 1037] else []) else (if r < 529
     then [1123, 1136, 1124, 1137, 1115, 1138, 1112, 1140, 1126, 1141, 1127, 1142, 1128, 1143,
     1129, 1144, 1130, 1145] else [1125, 1139, 1131, 1146, 1132, 1147])))))) else (if r < 569
     then (if r < 549 then (if r < 537 then (if r < 533 then (if r < 531 then [1135, 1150, 1133,
     1148, 1134, 1149] else (if r < 532 then [] else [312])) else (if r < 535 then (if r < 534
     then [1041, 1043] else []) else (if r < 536 then [740] else []))) else (if r < 541 then (if
     r < 539 then (if r < 538 then [319, 321] else []) else (if r < 540 then [579, 580] else
     [388, 391, 392, 466, 393, 989])) else (if r < 543 then (if r < 542 then [394, 417, 683] else
     [599]) else (if r < 544 then [979, 1059] else [])))) else (if r < 561 then (if r < 553 then
     (if r < 551 then (if r < 550 then [1192] else []) else (if r < 552 then [419, 603, 758, 893]
     else [601, 368, 367, 606, 680, 755, 756, 760, 787, 829, 916, 970, 1030, 1073, 487, 485, 432,
     436])) else (if r < 559 then (if r < 558 then [] else [254, 749, 831, 627]) else (if r < 560
     then [83, 537, 568, 939, 940, 953, 1044, 1046, 193, 195, 139, 405] else [360, 499, 496, 500,
     203, 698, 696, 697, 1064]))) else (if r < 565 then (if r < 563 then (if r < 562 then [272]
     else [672]) else (if r < 564 then [748, 830] else [37, 92])) else (if r < 567 then (if r <
     566 then [] else [714, 204, 824]) else (if r < 568 then [362, 1015] else []))))) else (if r
     < 598 then (if r < 584 then (if r < 573 then (if r < 571 then (if r < 570 then [267, 379,
     609] else []) else (if r < 572 then [179, 342, 351, 562] else [346, 347, 540, 1022])) else
     (if r < 578 then (if r < 577 then [] else [100]) else (if r < 583 then [] else [827,
     1191]))) else (if r < 593 then (if r < 591 then (if r < 590 then [] else [149, 607]) else
     (if r < 592 then [614, 630] else [817, 502, 94, 138])) else (if r < 595 then (if r < 594
     then [984] else [775, 776]) else (if r < 597 then [] else [145, 259, 301])))) else (if r <
     607 then (if r < 602 then (if r < 600 then (if r < 599 then [] else [189, 387]) else (if r <
     601 then [] else [871])) else (if r < 605 then (if r < 603 then [1045, 1152, 1153, 277, 715]
     else []) else (if r < 606 then [93, 333, 460, 633, 907, 985, 682, 822, 1151] else [1167,
     1163, 1165, 750]))) else (if r < 611 then (if r < 609 then (if r < 608 then [1169] else [])
     else (if r < 610 then [1175, 1176, 1177] else [1178, 1179, 1180, 1181, 1182, 1183, 1184,
     1185])) else (if r < 613 then (if r < 612 then [385, 483, 557, 975, 1200] else []) else (if
     r < 614 then [1187] else [])))))))))"

text \<open>
  The checks: the alternatives of a rule mention its words, in the order of the alternatives, and
  no alternative mentions another token type than those of \<open>in_grammar\<close>.
\<close>

definition has_token :: "ebnf \<Rightarrow> token \<Rightarrow> bool" where
  "has_token e t = (\<not> all_syms (\<lambda>s. case s of Tm k \<Rightarrow> k \<noteq> t | Nt r \<Rightarrow> True) e)"

fun supplies :: "(label_id option \<times> ebnf) list \<Rightarrow> token list \<Rightarrow> bool" where
  "supplies as [] = True"
| "supplies [] (t # ts) = False"
| "supplies (a # as) (t # ts) =
     (if has_token (snd a) t then supplies (a # as) ts else supplies as (t # ts))"

fun words_ok :: "grammar \<Rightarrow> bool" where
  "words_ok [] = True"
| "words_ok (g # gs) = (if supplies (rule_alts g) (words_of (rule_index g)) then words_ok gs else False)"

definition tokens_ok :: "rule_id \<Rightarrow> ebnf \<Rightarrow> bool" where
  "tokens_ok r = all_syms (\<lambda>s. case s of Tm t \<Rightarrow> in_grammar t | Nt q \<Rightarrow> True)"

definition user_ok :: "nat \<Rightarrow> bool" where
  "user_ok i = (if in_grammar (int i) then
     (if list_ex (\<lambda>k. k = int i) (words_of (user (int i))) then
       (if user (int i) = RuleEmpty_statement then False else defined_sym (Nt (user (int i)))) else False) else True)"

fun each_token :: "(token \<Rightarrow> bool) \<Rightarrow> token list \<Rightarrow> bool" where
  "each_token P [] = True"
| "each_token P (t # ts) = (if P t then each_token P ts else False)"

lemma has_token_iff: "has_token e t \<longleftrightarrow> mentions e (Tm t)"
proof
  assume "has_token e t"
  then obtain s where "mentions e s" "\<not> (case s of Tm k \<Rightarrow> k \<noteq> t | Nt r \<Rightarrow> True)"
    unfolding has_token_def all_syms_iff by blast
  then show "mentions e (Tm t)" by (cases s) auto
qed (force simp: has_token_def all_syms_iff)

lemma supplies_mention: "supplies as ts \<Longrightarrow> t \<in> set ts \<Longrightarrow> \<exists>a \<in> set as. mentions (snd a) (Tm t)"
  by (induction as ts rule: supplies.induct) (auto simp: has_token_iff split: if_splits)

lemma words_ok_iff: "words_ok gs \<longleftrightarrow> (\<forall>g \<in> set gs. supplies (rule_alts g) (words_of (rule_index g)))"
  by (induction gs) auto

lemma each_token_iff: "each_token P ts \<longleftrightarrow> (\<forall>t \<in> set ts. P t)"
  by (induction ts) auto

lemma supplies_eval:
  "supplies as [] = True"
  "supplies as (t # ts) = (case as of [] \<Rightarrow> False
     | a # bs \<Rightarrow> if has_token (snd a) t then supplies (a # bs) ts else supplies bs (t # ts))"
  by (simp_all split: list.split)

lemmas keywords_eval = yields_eval supplies_eval words_ok.simps tokens_ok_def has_token_def
  in_grammar_def words_of_def

lemma words_1: "words_ok rules_1"
  by (simp only: keywords_eval rules_1_def grammar_rules cong: analysis_opaque)

lemma tokens_1: "all_rules tokens_ok rules_1"
  by (simp only: keywords_eval rules_1_def grammar_rules cong: analysis_opaque)

lemma words_2: "words_ok rules_2"
  by (simp only: keywords_eval rules_2_def grammar_rules cong: analysis_opaque)

lemma tokens_2: "all_rules tokens_ok rules_2"
  by (simp only: keywords_eval rules_2_def grammar_rules cong: analysis_opaque)

lemma words_3: "words_ok rules_3"
  by (simp only: keywords_eval rules_3_def grammar_rules cong: analysis_opaque)

lemma tokens_3: "all_rules tokens_ok rules_3"
  by (simp only: keywords_eval rules_3_def grammar_rules cong: analysis_opaque)

lemma words_4: "words_ok rules_4"
  by (simp only: keywords_eval rules_4_def grammar_rules cong: analysis_opaque)

lemma tokens_4: "all_rules tokens_ok rules_4"
  by (simp only: keywords_eval rules_4_def grammar_rules cong: analysis_opaque)

lemma words_5: "words_ok rules_5"
  by (simp only: keywords_eval rules_5_def grammar_rules cong: analysis_opaque)

lemma tokens_5: "all_rules tokens_ok rules_5"
  by (simp only: keywords_eval rules_5_def grammar_rules cong: analysis_opaque)

lemma words_6: "words_ok rules_6"
  by (simp only: keywords_eval rules_6_def grammar_rules cong: analysis_opaque)

lemma tokens_6: "all_rules tokens_ok rules_6"
  by (simp only: keywords_eval rules_6_def grammar_rules cong: analysis_opaque)


lemmas user_eval = keywords_eval user_ok_def user_def defined_sym_def up_to.simps upt_rec_numeral Suc_numeral add_num_simps
  of_nat_numeral of_nat_1

lemma user_1: "user_ok 1"
  by (simp only: user_eval cong: opaque(1) case_opaque)

lemma users_2: "up_to user_ok [2..<300]"
  by (simp only: user_eval cong: opaque(1) case_opaque)

lemma users_300: "up_to user_ok [300..<600]"
  by (simp only: user_eval cong: opaque(1) case_opaque)

lemma users_600: "up_to user_ok [600..<900]"
  by (simp only: user_eval cong: opaque(1) case_opaque)

lemma users_900: "up_to user_ok [900..<1208]"
  by (simp only: user_eval cong: opaque(1) case_opaque)

lemma user_checked: "1 \<le> i \<Longrightarrow> i < 1208 \<Longrightarrow> user_ok i"
  using user_1 users_2 users_300 users_600 users_900 unfolding up_to_iff set_upt atLeastLessThan_iff
  by (cases "i = 1"; cases "i < 300"; cases "i < 600"; cases "i < 900") auto

section \<open>The tokens of files\<close>

lemma words_mentioned:
  assumes "t \<in> set (words_of r)" and "r \<in> rule_ids tsql_grammar"
  shows "\<exists>l. mentions (body_of tsql_grammar r l) (Tm t)"
proof -
  obtain g where g: "g \<in> set tsql_grammar" "rule_index g = r"
    using assms(2) by (auto simp: rule_ids_def)
  moreover have "words_ok tsql_grammar"
    using words_1 words_2 words_3 words_4 words_5 words_6 by (auto simp: words_ok_iff tsql_grammar_def)
  ultimately obtain a where "a \<in> set (rule_alts g)" "mentions (snd a) (Tm t)"
    using assms(1) supplies_mention by (fastforce simp: words_ok_iff)
  with g show ?thesis
    by (intro exI [of _ "fst a"]) (auto simp: body_of_rule [OF g(1), unfolded g(2)] mentions_labelled
        intro: exI [of _ "snd a"])
qed

interpretation tsql_tokens: yield_invariant tsql_grammar
  "\<lambda>s ts. case s of Tm t \<Rightarrow> ts = [t] | Nt r \<Rightarrow> \<forall>t \<in> set ts. in_grammar t"
proof
  fix r l w us
  assume w: "lang (body_of tsql_grammar r l) w"
    and us: "list_all2 (\<lambda>s ts. case s of Tm t \<Rightarrow> ts = [t] | Nt r \<Rightarrow> \<forall>t \<in> set ts. in_grammar t) w us"
  obtain e where e: "lang e w" "tokens_ok r e"
    using all_rules_body [OF tsql_all_rules [OF tokens_1 tokens_2 tokens_3 tokens_4 tokens_5 tokens_6] w] by blast
  have "\<forall>t \<in> set ts. in_grammar t" if "ts \<in> set us" for ts
  proof -
    from us that obtain s where s: "s \<in> set w" "case s of Tm t \<Rightarrow> ts = [t] | Nt r \<Rightarrow> \<forall>t \<in> set ts. in_grammar t"
      by (auto simp: list_all2_conv_all_nth in_set_conv_nth) metis
    from lang_mentions [OF e(1) s(1)] e(2) s(2) show ?thesis
      by (auto simp: tokens_ok_def all_syms_iff split: sym.splits)
  qed
  then show "case Nt r of Tm t \<Rightarrow> concat us = [t] | Nt r \<Rightarrow> \<forall>t \<in> set (concat us). in_grammar t" by auto
qed simp

lemma in_grammar_iff:
  "in_grammar t \<longleftrightarrow> t = T_EOF \<or> 1 \<le> t \<and> t \<le> 1207 \<and> t \<notin> set reserved_only
    \<and> t \<notin> {T_SPACE, T_COMMENT, T_LINE_COMMENT} \<and> t \<notin> set dead_types"
  unfolding in_grammar_def reserved_only_def dead_types_def by (simp, arith)

lemma token_user:
  assumes "in_grammar t"
  shows "\<exists>r l. mentions (body_of tsql_grammar r l) (Tm t) \<and> r \<noteq> RuleEmpty_statement"
proof (cases "t = T_EOF")
  case True
  then have "t \<in> set (words_of RuleTsql_file)" by (simp add: words_of_def)
  from words_mentioned [OF this] show ?thesis by (auto simp: rule_ids_tsql)
next
  case False
  with assms have "1 \<le> t" "t \<le> 1207" by (auto simp: in_grammar_iff)
  then have "1 \<le> nat t" "nat t < 1208" "int (nat t) = t" by auto
  with assms user_checked [of "nat t"] have t: "t \<in> set (words_of (user t))" "user t \<noteq> RuleEmpty_statement"
    "defined_sym (Nt (user t))"
    by (simp_all add: user_ok_def list_ex_iff split: if_splits)
  from t(3) have "user t \<in> rule_ids tsql_grammar"
    by (auto simp: defined_sym_def rule_ids_tsql split: if_splits)
  with t words_mentioned show ?thesis by blast
qed

lemma hidden_types:
  assumes "r \<in> set tsql_lexer"
  shows "on_hidden r \<longleftrightarrow> token_type r \<in> {T_SPACE, T_COMMENT, T_LINE_COMMENT}"
proof
  assume "on_hidden r"
  with assms have "r \<in> set (filter on_hidden tsql_lexer)" by simp
  then show "token_type r \<in> {T_SPACE, T_COMMENT, T_LINE_COMMENT}"
    unfolding hidden_rules by (auto simp: r_SPACE_def r_COMMENT_def r_LINE_COMMENT_def)
next
  have "set [r_SPACE, r_COMMENT, r_LINE_COMMENT] \<subseteq> set tsql_lexer"
    unfolding hidden_rules [symmetric] by auto
  moreover assume "token_type r \<in> {T_SPACE, T_COMMENT, T_LINE_COMMENT}"
  moreover have "q = r" if "q \<in> set tsql_lexer" "token_type q = token_type r" for q
    using rule_at [OF that(1)] rule_at [OF assms] that(2) by (metis add_right_cancel of_nat_eq_iff)
  ultimately have "r \<in> set [r_SPACE, r_COMMENT, r_LINE_COMMENT]"
    by (auto simp: r_SPACE_def r_COMMENT_def r_LINE_COMMENT_def)
  then show "on_hidden r" unfolding hidden_rules [symmetric] by simp
qed

lemma visible_types:
  "(\<exists>xs w. Lexeme t False w \<in> set (lexemes tsql_lexer extra xs))
   \<longleftrightarrow> 1 \<le> t \<and> t \<le> 1207 \<and> t \<notin> {T_SPACE, T_COMMENT, T_LINE_COMMENT} \<and> t \<notin> set dead_types"
proof
  assume "\<exists>xs w. Lexeme t False w \<in> set (lexemes tsql_lexer extra xs)"
  then obtain us r ys where r: "best tsql_lexer us = Some (r, ys)" "token_type r = t" "\<not> on_hidden r"
    using lexemes_from_rule by blast
  from best_Some [OF r(1)] have mem: "r \<in> set tsql_lexer" by simp
  then obtain i where "i < 1207" "token_type r = int i + 1" using rule_at by blast
  with dead_never [OF r(1)] r hidden_types [OF mem]
  show "1 \<le> t \<and> t \<le> 1207 \<and> t \<notin> {T_SPACE, T_COMMENT, T_LINE_COMMENT} \<and> t \<notin> set dead_types"
    by auto
next
  assume t: "1 \<le> t \<and> t \<le> 1207 \<and> t \<notin> {T_SPACE, T_COMMENT, T_LINE_COMMENT} \<and> t \<notin> set dead_types"
  then have "produced t" by (intro all_produced) auto
  then obtain w r where r: "best tsql_lexer w = Some (r, [])" "token_type r = t" by (auto simp: produced_def)
  with best_Some [OF r(1)] t have "\<not> on_hidden r" using hidden_types by blast
  with lexemes_step [OF r(1), of extra] r(2) show "\<exists>xs w. Lexeme t False w \<in> set (lexemes tsql_lexer extra xs)"
    by (metis list.set_intros(1))
qed

text \<open>
  C24: The parser's vocabulary is the lexer's: the token types that occur in the trees of files are
  the end of the input and those that the lexer produces on the visible channel, except for the
  sixteen words of \<open>reserved_only\<close>, which no statement of the grammar uses.
\<close>

theorem tokens_of_files:
  "token_below tsql_grammar RuleTsql_file t \<longleftrightarrow>
     t = T_EOF \<or> t \<notin> set reserved_only \<and> (\<exists>xs w. Lexeme t False w \<in> set (lexemes tsql_lexer extra xs))"
proof -
  have "token_below tsql_grammar RuleTsql_file t \<longleftrightarrow> in_grammar t"
  proof
    assume "token_below tsql_grammar RuleTsql_file t"
    then show "in_grammar t" unfolding token_below_def using tsql_tokens.holds by fastforce
  next
    assume t: "in_grammar t"
    then obtain r l where "mentions (body_of tsql_grammar r l) (Tm t)" "r \<noteq> RuleEmpty_statement"
      using token_user by blast
    then show "token_below tsql_grammar RuleTsql_file t" by (rule tsql_rooted.token_occurs)
  qed
  then show ?thesis unfolding in_grammar_iff visible_types by auto
qed

end
