(* ===== verification/TSql_Layout.thy ===== *)
theory TSql_Layout
  imports TSql_Texts TSql_Words TSql_Keywords
begin

text \<open>
  Layout plays no part: a text that is one token by itself is the same token when a blank follows,
  so the tokens of a text do not depend on the blanks between them.
\<close>

definition blank :: "code_point \<Rightarrow> bool" where
  "blank x \<longleftrightarrow> x \<in> {0x20, 0x09, 0x0D, 0x0A}"

text \<open>All other characters.\<close>

definition solid :: "(code_point \<times> code_point) list" where
  "solid = [(0, 8), (0x0B, 0x0C), (0x0E, 0x1F), (0x21, 0x10FFFF)]"

lemma blank_not_solid: "blank x \<Longrightarrow> \<not> in_chars solid x"
  by (auto simp: blank_def solid_def in_chars_def char_eval)

section \<open>Rules that look beyond a blank\<close>

lemma solid_checks:
  "list_all (\<lambda>r. if within_chars solid (pattern r) then greedy r
     else if greedy r then (if token_type r = T_SPACE then True else if token_type r = T_LINE_COMMENT then True
       else if token_type r = T_DOUBLE_QUOTE_ID then True else if token_type r = T_SQUARE_BRACKET_ID then True
       else token_type r = T_STRING) else token_type r = T_COMMENT) tsql_lexer"
  by (simp only: solid_def word_check_eval char_eval rule_eval tsql_lexer_table cong: lexer_opaque)

lemma blank_rules:
  "filter (\<lambda>r. starts (pattern r) 0x20) tsql_lexer = [r_SPACE]"
  "filter (\<lambda>r. starts (pattern r) 0x09) tsql_lexer = [r_SPACE]"
  "filter (\<lambda>r. starts (pattern r) 0x0D) tsql_lexer = [r_SPACE]"
  "filter (\<lambda>r. starts (pattern r) 0x0A) tsql_lexer = [r_SPACE]"
  unfolding same_iff [symmetric]
  by (simp_all only: starts_all_eval char_eval rule_eval tsql_lexer_table cong: lexer_opaque)

lemma dash_rules:
  "filter (\<lambda>r. starts (pattern r) 0x2D) tsql_lexer =
     [r_LINE_COMMENT, literal_rule T_MINUS_ASSIGN ''-='', literal_rule T_MINUS ''-'']"
  unfolding same_iff [symmetric]
  by (simp only: starts_all_eval char_eval rule_eval tsql_lexer_table cong: lexer_opaque)


lemma special_mem:
  "r_SPACE \<in> set tsql_lexer" "r_LINE_COMMENT \<in> set tsql_lexer" "r_DOUBLE_QUOTE_ID \<in> set tsql_lexer"
  "r_SQUARE_BRACKET_ID \<in> set tsql_lexer" "r_COMMENT \<in> set tsql_lexer"
  using arg_cong [OF blank_rules(1), of set] arg_cong [OF dash_rules, of set]
    arg_cong [OF double_quote_rules, of set] arg_cong [OF bracket_rules, of set] arg_cong [OF slash_rules, of set]
  by auto

lemma special_types:
  "token_type r_SPACE = T_SPACE" "token_type r_LINE_COMMENT = T_LINE_COMMENT"
  "token_type r_DOUBLE_QUOTE_ID = T_DOUBLE_QUOTE_ID" "token_type r_SQUARE_BRACKET_ID = T_SQUARE_BRACKET_ID"
  "token_type r_COMMENT = T_COMMENT" "token_type r_STRING = T_STRING"
  by (simp_all add: r_SPACE_def r_LINE_COMMENT_def r_DOUBLE_QUOTE_ID_def r_SQUARE_BRACKET_ID_def r_COMMENT_def r_STRING_def)

lemma solid_or_special:
  assumes "q \<in> set tsql_lexer"
  shows "greedy q \<and> (within_chars solid (pattern q)
      \<or> q \<in> {r_SPACE, r_LINE_COMMENT, r_DOUBLE_QUOTE_ID, r_SQUARE_BRACKET_ID, r_STRING}) \<or> q = r_COMMENT"
proof -
  have "token_type q = token_type r \<Longrightarrow> q = r"
    if "r \<in> {r_SPACE, r_LINE_COMMENT, r_DOUBLE_QUOTE_ID, r_SQUARE_BRACKET_ID, r_COMMENT, r_STRING}" for r
    using sole_rule [OF assms, of r] special_mem string_drive_mem(1) that by blast
  then show ?thesis using solid_checks [unfolded list_all_iff, rule_format, OF assms]
    by (simp add: special_types split: if_splits)
qed

section \<open>Tokens before a blank\<close>

text \<open>The only rule that matches the whole text, and the text on its own.\<close>

lemma alone_matches:
  assumes "best tsql_lexer w = Some (r, [])"
  shows "r \<in> set tsql_lexer" "w \<noteq> []" "matches (pattern r) (pattern r) w"
    "w = x # w' \<Longrightarrow> r \<in> set (filter (\<lambda>r. starts (pattern r) x) tsql_lexer)"
proof -
  from best_Some [OF assms] have r: "r \<in> set tsql_lexer" "rule_rest r w = Some []" by simp_all
  from rule_rest_split [OF r(2)] have m: "w \<noteq> []" "matches (pattern r) (pattern r) w" by auto
  with r show "r \<in> set tsql_lexer" "w \<noteq> []" "matches (pattern r) (pattern r) w" by simp_all
  show "w = x # w' \<Longrightarrow> r \<in> set (filter (\<lambda>r. starts (pattern r) x) tsql_lexer)"
    using r(1) m(2) matches_starts by auto
qed

lemma matches_dashes: "matches p (Lit ''--'') v \<Longrightarrow> v = [0x2D, 0x2D]"
  using map_upper_fixed [of "[0x2D, 0x2D]" v] by (simp add: matches_Lit codes_def char_eval)

lemma matches_LINE_COMMENT: "matches p (pattern r_LINE_COMMENT) v \<Longrightarrow> \<exists>v'. v = 0x2D # 0x2D # v'"
  unfolding r_LINE_COMMENT_def by (auto simp: matches_simps dest!: matches_dashes)

lemma not_line_comment:
  assumes "best tsql_lexer w = Some (r, [])" and "\<not> on_hidden r"
  shows "w \<noteq> 0x2D # 0x2D # w'"
proof
  assume w: "w = 0x2D # 0x2D # w'"
  from alone_matches(3,4) [OF assms(1)] w assms(2) show False
    by (auto simp: dash_rules r_LINE_COMMENT_def matches_Lit codes_def char_eval)
qed

lemma not_comment:
  assumes "best tsql_lexer w = Some (r, [])" and "\<not> on_hidden r"
  shows "w \<noteq> 0x2F # 0x2A # w'"
proof
  assume w: "w = 0x2F # 0x2A # w'"
  from alone_matches(3,4) [OF assms(1)] w assms(2) show False
    by (auto simp: slash_rules r_COMMENT_def matches_Lit codes_def char_eval)
qed

text \<open>The two characters with which a longer match would start are in the text already.\<close>

lemma first_two:
  assumes "w \<noteq> []" and "blank b"
  shows "w @ b # t = x # v \<Longrightarrow> \<exists>w'. w = x # w'"
    and "w @ b # t = x # y # v \<Longrightarrow> \<not> blank y \<Longrightarrow> \<exists>w'. w = x # y # w'"
  using assms by (auto simp: Cons_eq_append_conv append_eq_Cons_conv)

lemma not_blank [simp]:
  "\<not> blank 0x27" "\<not> blank 0x2D" "\<not> blank 0x2A" "\<not> blank 0x22" "\<not> blank 0x5D"
  by (simp_all add: blank_def)

text \<open>A text between quotes of one of the three kinds cannot be continued.\<close>

lemma double_quoted_stop:
  assumes w: "best tsql_lexer w = Some (r, [])"
    and v: "w @ us = v @ zs" "matches (pattern r_DOUBLE_QUOTE_ID) (pattern r_DOUBLE_QUOTE_ID) v" "w = 0x22 # w'"
  shows "length v \<le> length w"
proof -
  from double_quote_texts [OF alone_matches(4) [OF w v(3)] alone_matches(3) [OF w]]
  obtain s where s: "w = double_quoted s" "0x22 \<notin> set s" by blast
  from v(2) have "\<exists>b. v = double_quoted b \<and> 0x22 \<notin> set b" by (auto simp: matches_DOUBLE_QUOTE_ID)
  with double_quoted_longest [OF s(2)] v(1) s(1) show ?thesis by blast
qed

lemma bracketed_stop:
  assumes w: "best tsql_lexer w = Some (r, [])"
    and v: "w @ b # us = v @ zs" "matches (pattern r_SQUARE_BRACKET_ID) (pattern r_SQUARE_BRACKET_ID) v" "w = 0x5B # w'"
    and b: "blank b"
  shows "length v \<le> length w"
proof -
  from bracket_texts [OF alone_matches(4) [OF w v(3)] alone_matches(3) [OF w]] obtain s where "w = bracketed_name s"
    unfolding matches_SQUARE_BRACKET_ID bracketed_name_def
    using matches_escaped [OF bracket_fixed brackets_matches] by blast
  moreover have "b \<noteq> 0x5D" using b by (auto simp: blank_def)
  ultimately show ?thesis using bracketed_name_longest [of "b # us" s v zs] v(1,2) by simp
qed

lemma string_stop:
  assumes w: "matches (pattern r_STRING) (pattern r_STRING) w"
    and v: "w @ b # us = v @ zs" "matches (pattern r_STRING) (pattern r_STRING) v"
    and b: "blank b"
  shows "length v \<le> length w"
proof -
  obtain n c where n: "w = n @ 0x27 # c @ [0x27]" "n = [] \<or> n = codes ''N''"
    "matches (pattern r_STRING) (Loop (Or [NotChars [(0x27, 0x27)], Exact [CHR 0x27, CHR 0x27]])) c"
    using w unfolding matches_STRING by blast
  from matches_escaped [OF quote_fixed quotes_matches n(3)] obtain s where s: "c = escaped 0x27 s" ..
  obtain m d where m: "v = m @ 0x27 # d @ [0x27]" "m = [] \<or> m = codes ''N''"
    "matches (pattern r_STRING) (Loop (Or [NotChars [(0x27, 0x27)], Exact [CHR 0x27, CHR 0x27]])) d"
    using v(2) unfolding matches_STRING by blast
  have "m = n" using v(1) n(1,2) m(1,2) by (auto simp: codes_def char_eval)
  with v(1) n(1) m(1) s have d: "d @ 0x27 # zs = escaped 0x27 s @ 0x27 # b # us" by simp
  have "b \<noteq> 0x27" using b by (auto simp: blank_def)
  then have "length d \<le> length (escaped 0x27 s)"
    by (intro escaped_longest [OF quote_fixed quotes_matches _ m(3) d]) simp
  with \<open>m = n\<close> n(1) m(1) s show ?thesis by simp
qed

text \<open>A rule that can match a single quote and more, and a text that starts a string constant.\<close>

lemma string_alone:
  assumes w: "best tsql_lexer w = Some (r, [])" "token_type r \<noteq> T_SINGLE_QUOTE"
    and n: "w = n @ 0x27 # w'" "n = [] \<or> n = codes ''N''"
  shows "r = r_STRING"
  using n(2)
proof
  assume "n = []"
  with alone_matches(4) [OF w(1)] n(1) w(2) show ?thesis by (auto simp: quote_rules)
next
  assume "n = codes ''N''"
  then have w': "w = 0x4E # 0x27 # w'" using n(1) by (simp add: codes_def char_eval)
  have start: "in_chars word_starts 0x4E" by (simp add: word_starts_def in_chars_def)
  from alone_matches(4) [OF w(1) w'] have "starts (pattern r) 0x4E" by simp
  from word_check(3) [OF alone_matches(1) [OF w(1)] starts_opens [OF this start]] show ?thesis
  proof (elim disjE)
    assume "within_chars word_chars (pattern r)"
    with alone_matches(3) [OF w(1)] have "in_chars word_chars 0x27"
      by (rule within_matches) (simp add: w')
    then show ?thesis by (simp add: word_chars_def full_width_def in_chars_def char_eval)
  next
    assume "token_type r = T_DISK_DRIVE"
    then have "r = r_DISK_DRIVE"
      using sole_rule [OF alone_matches(1) [OF w(1)] string_drive_mem(2)] by (simp add: r_DISK_DRIVE_def)
    with alone_matches(3) [OF w(1)] have "matches (pattern r_DISK_DRIVE) (pattern r_DISK_DRIVE) w" by simp
    from drive_shape [OF this] w' show ?thesis by simp
  next
    assume "token_type r = T_STRING"
    then show ?thesis
      using sole_rule [OF alone_matches(1) [OF w(1)] string_drive_mem(1)] by (simp add: special_types)
  qed
qed

text \<open>So no rule matches beyond a blank.\<close>

lemma no_match_beyond:
  assumes w: "best tsql_lexer w = Some (r, [])" "\<not> on_hidden r" "token_type r \<noteq> T_SINGLE_QUOTE"
    and b: "blank b" and q: "q \<in> set tsql_lexer"
    and v: "w @ b # us = v @ zs" "matches (pattern q) (pattern q) v"
  shows "length v \<le> length w"
proof (rule ccontr)
  assume longer: "\<not> length v \<le> length w"
  with v(1) obtain t where t: "v = w @ b # t"
    by (auto simp: append_eq_append_conv2 Cons_eq_append_conv)
  note two = first_two [OF alone_matches(2) [OF w(1)] b, of t]
  have no_comment: "v \<noteq> 0x2D # 0x2D # v'" "v \<noteq> 0x2F # 0x2A # v'" for v'
    using two(2) not_line_comment [OF w(1,2)] not_comment [OF w(1,2)] unfolding t by fastforce+
  from solid_or_special [OF q] consider "within_chars solid (pattern q)" | "q = r_SPACE" | "q = r_LINE_COMMENT"
    | "q = r_DOUBLE_QUOTE_ID" | "q = r_SQUARE_BRACKET_ID" | "q = r_STRING" | "q = r_COMMENT" by blast
  then show False
  proof cases
    case 1
    from within_matches [OF v(2) 1, of b] t blank_not_solid [OF b] show False by simp
  next
    case 2
    with v(2) have "length v = 1" by (auto simp: r_SPACE_def matches_simps)
    with t alone_matches(2) [OF w(1)] show False by simp
  next
    case 3
    with v(2) matches_LINE_COMMENT no_comment(1) show False by blast
  next
    case 4
    with v(2) obtain w' where "w = 0x22 # w'"
      using two(1) unfolding t by (auto simp: matches_DOUBLE_QUOTE_ID double_quoted_def)
    with double_quoted_stop [OF w(1) v(1)] v(2) 4 longer show False by blast
  next
    case 5
    with v(2) obtain w' where "w = 0x5B # w'"
      using two(1) unfolding t by (auto simp: matches_SQUARE_BRACKET_ID)
    with bracketed_stop [OF w(1) v(1) _ _ b] v(2) 5 longer show False by blast
  next
    case 6
    with v(2) have m: "matches (pattern r_STRING) (pattern r_STRING) v" by simp
    then obtain n c where n: "v = n @ 0x27 # c" "n = [] \<or> n = codes ''N''"
      unfolding matches_STRING by blast
    have "\<exists>w'. w = n @ 0x27 # w'"
      using n two unfolding t by (auto simp: codes_def char_eval)
    then have "r = r_STRING" using string_alone [OF w(1,3) _ n(2)] by blast
    with string_stop [OF _ v(1) m b] alone_matches(3) [OF w(1)] longer show False by blast
  next
    case 7
    with v(2) have "matches comment_rule comment_rule v" by (simp add: comment_pattern)
    with matches_comment no_comment(2) show False by blast
  qed
qed

lemma rest_before_blank:
  assumes w: "best tsql_lexer w = Some (r, [])" "\<not> on_hidden r" "token_type r \<noteq> T_SINGLE_QUOTE"
    and b: "blank b" and q: "q \<in> set tsql_lexer"
  shows "rule_rest q (w @ b # us) = map_option (\<lambda>zs. zs @ b # us) (rule_rest q w)"
proof (cases "q = r_COMMENT")
  case True
  have opens: "\<exists>v'. xs = 0x2F # 0x2A # v'" if rest: "rule_rest r_COMMENT xs = Some ys" for xs ys
  proof -
    obtain v where v: "xs = v @ ys" "matches (pattern r_COMMENT) (pattern r_COMMENT) v"
      by (rule rule_rest_split [OF rest])
    from v(2) have "matches comment_rule comment_rule v" by (simp add: comment_pattern)
    from matches_comment [OF this] v(1) show ?thesis by auto
  qed
  have "rule_rest r_COMMENT w = None" using opens [of w] not_comment [OF w(1,2)] by (metis not_None_eq)
  moreover have "rule_rest r_COMMENT (w @ b # us) = None"
    using opens [of "w @ b # us"] first_two(2) [OF alone_matches(2) [OF w(1)] b] not_comment [OF w(1,2)] not_blank(3)
    by (metis not_None_eq)
  ultimately show ?thesis using True by simp
next
  case False
  with solid_or_special [OF q] have "greedy q" by blast
  then show ?thesis using no_match_beyond [OF w b q] by (intro rule_rest_append) auto
qed

lemma best_before_blank:
  assumes "best tsql_lexer w = Some (r, [])" and "\<not> on_hidden r" and "token_type r \<noteq> T_SINGLE_QUOTE"
    and "blank b"
  shows "best tsql_lexer (w @ b # us) = Some (r, b # us)"
  using best_append [of tsql_lexer w "b # us"] rest_before_blank [OF assms] assms(1) by simp

section \<open>Blanks\<close>

lemma blank_case: "blank (upper x) \<Longrightarrow> blank x" "blank (lower x) \<Longrightarrow> blank x"
proof -
  have low: "blank y \<Longrightarrow> y < 65" for y by (auto simp: blank_def)
  show "blank (upper x) \<Longrightarrow> blank x" using low low_cases(1) low_fixed(1) by metis
  show "blank (lower x) \<Longrightarrow> blank x" using low low_cases(2) low_fixed(2) by metis
qed

lemma blank_chars: "in_chars [(0x20, 0x20), (0x09, 0x09), (0x0D, 0x0D), (0x0A, 0x0A)] x \<longleftrightarrow> blank x"
proof -
  have "in_ranges ((a, a) # rs) y \<longleftrightarrow> y = a \<or> in_ranges rs y" "\<not> in_ranges [] y" for a rs and y :: code_point
    by auto
  then have "in_ranges [(0x20, 0x20), (0x09, 0x09), (0x0D, 0x0D), (0x0A, 0x0A)] y \<longleftrightarrow> blank y" for y
    by (simp only: blank_def insert_iff empty_iff)
  then have "in_chars [(0x20, 0x20), (0x09, 0x09), (0x0D, 0x0D), (0x0A, 0x0A)] x
      \<longleftrightarrow> blank x \<or> blank (upper x) \<or> blank (lower x)" by (simp only: in_chars_def)
  then show ?thesis using blank_case by blast
qed

lemma blank_best:
  assumes "blank b"
  shows "best tsql_lexer (b # us) = Some (r_SPACE, us)"
proof -
  have m: "matches p (pattern r_SPACE) v \<longleftrightarrow> (\<exists>x. v = [x] \<and> blank x)" for p v
    by (auto simp: r_SPACE_def matches_simps blank_chars)
  have "greedy r_SPACE" by (simp add: greedy_def r_SPACE_def)
  then have "rule_rest r_SPACE ([b] @ us) = Some us" by (rule rule_rest_exact) (use assms in \<open>auto simp: m\<close>)
  moreover have "filter (\<lambda>r. starts (pattern r) b) tsql_lexer = [r_SPACE]"
    using assms blank_rules by (auto simp: blank_def)
  ultimately show ?thesis by (simp add: best_starts [of tsql_lexer])
qed

lemma blanks_invisible:
  "list_all blank g \<Longrightarrow> visible (lexemes tsql_lexer extra (g @ us)) = visible (lexemes tsql_lexer extra us)"
proof (induction g)
  case (Cons b g)
  then have "lexemes tsql_lexer extra ([b] @ g @ us) = Lexeme (token_type r_SPACE) (on_hidden r_SPACE) [b]
      # lexemes tsql_lexer extra (g @ us)"
    using blank_best [of b "g @ us"] by (intro lexemes_best) simp
  with Cons show ?case by (simp add: r_SPACE_def del: lexemes.simps)
qed simp

text \<open>A single lexeme comes from a rule that matches the whole text.\<close>

lemma single_best:
  assumes "lexemes tsql_lexer extra w = [Lexeme t h w]"
  obtains r where "best tsql_lexer w = Some (r, [])" "token_type r = t" "on_hidden r = h"
proof (cases "best tsql_lexer w")
  case None
  with assms show thesis by (cases w) auto
next
  case (Some p)
  then obtain r ys where r: "best tsql_lexer w = Some (r, ys)" by (cases p) auto
  from lexemes_step [OF this, of extra] obtain v where v: "w = v @ ys"
    "lexemes tsql_lexer extra w = Lexeme (token_type r) (on_hidden r) v # lexemes tsql_lexer extra ys" .
  with assms have "w = v" by simp
  with v(1) have "ys = []" by simp
  with r v(2) assms that show thesis by simp
qed

lemma token_before_blank:
  assumes w: "lexemes tsql_lexer extra w = [Lexeme t False w]" "t \<noteq> T_SINGLE_QUOTE" and g: "g \<noteq> []" "list_all blank g"
  shows "visible (lexemes tsql_lexer extra (w @ g @ us)) = t # visible (lexemes tsql_lexer extra us)"
proof -
  obtain r where r: "best tsql_lexer w = Some (r, [])" "token_type r = t" "on_hidden r = False"
    using single_best [OF w(1)] .
  obtain b g' where b: "g = b # g'" "blank b" using g by (cases g) auto
  have "best tsql_lexer (w @ (g @ us)) = Some (r, g @ us)"
    using best_before_blank [OF r(1) _ _ b(2), of "g' @ us"] r(2,3) w(2) b(1) by simp
  from lexemes_best [OF this, of extra] show ?thesis using r blanks_invisible [OF g(2)] by simp
qed

text \<open>
  C6: Layout plays no part: texts that are a single visible token each, with blanks, tabs and
  ends of lines after each of them, are lexed to these tokens, whatever follows.  The only
  exception is the token of a lone single quote, which starts a string constant instead if there
  is another quote later.
\<close>

theorem layout_irrelevant:
  assumes "\<forall>(t, w, g) \<in> set ps. lexemes tsql_lexer extra w = [Lexeme t False w] \<and> t \<noteq> T_SINGLE_QUOTE
    \<and> g \<noteq> [] \<and> list_all blank g"
  shows "visible (lexemes tsql_lexer extra (concat (map (\<lambda>(t, w, g). w @ g) ps) @ us))
    = map fst ps @ visible (lexemes tsql_lexer extra us)"
  using assms
proof (induction ps)
  case (Cons p ps)
  then show ?case by (cases p) (simp add: token_before_blank)
qed simp


lemma sample_visible:
  assumes "map_option token_type (find (whole w) tsql_lexer) = Some t"
    and "t \<notin> {T_SPACE, T_COMMENT, T_LINE_COMMENT}"
  shows "lexemes tsql_lexer extra w = [Lexeme t False w]"
proof -
  obtain r where r: "best tsql_lexer w = Some (r, [])" "token_type r = t"
    using assms(1) best_whole by blast
  with alone_matches(1) [OF r(1)] assms(2) have "\<not> on_hidden r" using hidden_types by blast
  with lexemes_best [of w "[]" r extra] r show ?thesis by simp
qed

lemma sample_LR_BRACKET: "map_option token_type (find (whole (codes ''('')) tsql_lexer) = Some T_LR_BRACKET"
  by (simp only: whole_all_eval char_eval rule_eval tsql_lexer_table cong: lexer_opaque)

text \<open>An empty string constant, a space, a parenthesis, the end of the line and a tab.\<close>

theorem layout_irrelevant_witness:
  "visible (lexemes tsql_lexer (\<lambda>xs. 0) ((codes [CHR 0x27, CHR 0x27] @ [0x20] @ codes ''('' @ [0x0A, 0x09]) @ codes ''1''))
    = [T_STRING, T_LR_BRACKET] @ visible (lexemes tsql_lexer (\<lambda>xs. 0) (codes ''1''))"
  using layout_irrelevant [of "[(T_STRING, codes [CHR 0x27, CHR 0x27], [0x20]), (T_LR_BRACKET, codes ''('', [0x0A, 0x09])]"
      "\<lambda>xs. 0" "codes ''1''"] sample_visible [OF sample_STRING, of "\<lambda>xs. 0"] sample_visible [OF sample_LR_BRACKET, of "\<lambda>xs. 0"]
  by (simp add: blank_def del: lexemes.simps)

end
