(* ===== verification/TSql_Files.thy ===== *)
theory TSql_Files
  imports TSql_Layout
begin

text \<open>
  Which parse trees of the grammar of \<open>src/TSqlParser.g4\<close> have a text: the tokens of the tree
  must come out of the lexer of \<open>src/TSqlLexer.g4\<close>, one after the other.
\<close>

section \<open>Single quotes in texts\<close>

lemma single_quote_mem: "literal_rule T_SINGLE_QUOTE [CHR 0x27] \<in> set tsql_lexer"
  using arg_cong [OF quote_rules, of set] by auto

text \<open>After the token of a single quote there is no other quote: it would end a string constant.\<close>

lemma single_quote_last:
  assumes best: "best tsql_lexer xs = Some (r, ys)" and t: "token_type r = T_SINGLE_QUOTE"
  shows "xs = 0x27 # ys" and "0x27 \<notin> set ys"
proof -
  from best_Some [OF best] have r: "r \<in> set tsql_lexer" "rule_rest r xs = Some ys" by simp_all
  have "r = literal_rule T_SINGLE_QUOTE [CHR 0x27]" using sole_rule [OF r(1) single_quote_mem] t by simp
  moreover from rule_rest_split [OF r(2)] obtain v where v: "xs = v @ ys" "matches (pattern r) (pattern r) v" .
  ultimately have "map upper v = map upper [0x27]" by (simp add: matches_Lit codes_def)
  then have "v = [0x27]" by (rule map_upper_fixed [rotated]) (simp add: char_eval)
  with v(1) show xs: "xs = 0x27 # ys" by simp
  show "0x27 \<notin> set ys"
  proof
    assume "0x27 \<in> set ys"
    then obtain b zs where b: "ys = b @ 0x27 # zs" "0x27 \<notin> set b" by (metis split_list_first)
    then have "xs = string_constant b @ zs" by (simp add: xs string_constant_def escaped_fixed)
    moreover have "greedy r_STRING" by (simp add: greedy_def r_STRING_def)
    moreover have "string_constant b \<noteq> []" by (simp add: string_constant_def)
    ultimately obtain us where us: "rule_rest r_STRING xs = Some us" "length us \<le> length zs"
      using rule_rest_greedy [OF _ string_constant_matches] by blast
    from best_le [OF best string_drive_mem(1) us(1)] us(2) b(1) show False by simp
  qed
qed

lemma single_quote_char:
  "T_SINGLE_QUOTE \<in> set (visible (lexemes tsql_lexer extra xs)) \<Longrightarrow> 0x27 \<in> set xs"
proof (induction xs rule: lexemes_induct [of _ tsql_lexer extra])
  case (Step xs r w ys)
  show ?case
  proof (cases "token_type r = T_SINGLE_QUOTE")
    case True
    with single_quote_last(1) [OF Step(1)] show ?thesis by simp
  next
    case False
    with Step have "0x27 \<in> set ys" by (simp split: if_splits)
    with Step(2) show ?thesis by simp
  qed
next
  case (Stuck x xs)
  then have "0x27 \<in> set (drop (extra (x # xs)) xs)" by (simp add: lexemes_stuck del: lexemes.simps)
  then show ?case by (auto dest: in_set_dropD)
qed simp

lemma one_single_quote:
  "count_list (visible (lexemes tsql_lexer extra xs)) T_SINGLE_QUOTE \<le> 1"
proof (induction xs rule: lexemes_induct [of _ tsql_lexer extra])
  case (Step xs r w ys)
  show ?case
  proof (cases "token_type r = T_SINGLE_QUOTE")
    case True
    then have "T_SINGLE_QUOTE \<notin> set (visible (lexemes tsql_lexer extra ys))"
      using single_quote_last(2) [OF Step(1)] single_quote_char by blast
    with Step show ?thesis by (simp add: count_list_0_iff)
  next
    case False
    with Step show ?thesis by simp
  qed
next
  case (Stuck x xs)
  then show ?case by (simp add: lexemes_stuck del: lexemes.simps)
qed simp

section \<open>Single quotes in trees\<close>

text \<open>
  Only the rules for the files that \<open>ALTER ASSEMBLY\<close> drops mention the single quote, and they
  ask for two of them.
\<close>

definition unquoted :: "sym \<Rightarrow> bool" where
  "unquoted s = (case s of Tm t \<Rightarrow> t \<noteq> T_SINGLE_QUOTE | Nt r \<Rightarrow> r \<noteq> RuleMultiple_local_file_start)"

definition quotes_ok :: "rule_id \<Rightarrow> ebnf \<Rightarrow> bool" where
  "quotes_ok r e = (if r = RuleMultiple_local_files then True
     else if r = RuleMultiple_local_file_start then True else all_syms unquoted e)"

lemmas quotes_eval = yields_eval quotes_ok_def unquoted_def

lemma quotes_1: "all_rules quotes_ok rules_1"
  by (simp only: quotes_eval rules_1_def grammar_rules cong: analysis_opaque)

lemma quotes_2: "all_rules quotes_ok rules_2"
  by (simp only: quotes_eval rules_2_def grammar_rules cong: analysis_opaque)

lemma quotes_3: "all_rules quotes_ok rules_3"
  by (simp only: quotes_eval rules_3_def grammar_rules cong: analysis_opaque)

lemma quotes_4: "all_rules quotes_ok rules_4"
  by (simp only: quotes_eval rules_4_def grammar_rules cong: analysis_opaque)

lemma quotes_5: "all_rules quotes_ok rules_5"
  by (simp only: quotes_eval rules_5_def grammar_rules cong: analysis_opaque)

lemma quotes_6: "all_rules quotes_ok rules_6"
  by (simp only: quotes_eval rules_6_def grammar_rules cong: analysis_opaque)

definition quoted_pairs :: "sym \<Rightarrow> token list \<Rightarrow> bool" where
  "quoted_pairs s ts = (case s of Tm t \<Rightarrow> ts = [t]
     | Nt r \<Rightarrow> (r = RuleMultiple_local_file_start) = (count_list ts T_SINGLE_QUOTE = 1))"

lemma unquoted_pairs:
  "list_all2 quoted_pairs w us \<Longrightarrow> \<forall>s \<in> set w. unquoted s \<Longrightarrow> count_list (concat us) T_SINGLE_QUOTE \<noteq> 1"
  by (induction rule: list_all2_induct) (auto simp: quoted_pairs_def unquoted_def split: sym.splits)

lemma quote_rule_bodies:
  "body_of tsql_grammar RuleMultiple_local_files l = labelled l (rule_alts g_multiple_local_files)"
  "body_of tsql_grammar RuleMultiple_local_file_start l = labelled l (rule_alts g_multiple_local_file_start)"
  using body_of_rule [OF rule_in_grammar, of g_multiple_local_files l]
    body_of_rule [OF rule_in_grammar, of g_multiple_local_file_start l]
  by (simp_all add: rules_1_def g_multiple_local_files_def g_multiple_local_file_start_def)

interpretation tsql_quotes: yield_invariant tsql_grammar quoted_pairs
proof
  fix r l w us
  assume body: "lang (body_of tsql_grammar r l) w" and inv: "list_all2 quoted_pairs w us"
  consider "r = RuleMultiple_local_files" | "r = RuleMultiple_local_file_start"
    | "r \<noteq> RuleMultiple_local_files" "r \<noteq> RuleMultiple_local_file_start" by blast
  then show "quoted_pairs (Nt r) (concat us)"
  proof cases
    case 1
    with body have "w = [Nt RuleMultiple_local_file_start, Nt RuleLocal_file, Tm T_SINGLE_QUOTE, Tm T_COMMA]
        \<or> w = [Nt RuleLocal_file]"
      unfolding 1 quote_rule_bodies by (auto simp: g_multiple_local_files_def lang_labelled)
    with inv 1 show ?thesis by (auto simp: quoted_pairs_def list_all2_Cons1)
  next
    case 2
    with body have "w = [Tm T_SINGLE_QUOTE]"
      unfolding 2 quote_rule_bodies by (auto simp: g_multiple_local_file_start_def lang_labelled)
    with inv 2 show ?thesis by (auto simp: quoted_pairs_def list_all2_Cons1)
  next
    case 3
    obtain e where e: "lang e w" "quotes_ok r e"
      using all_rules_body [OF tsql_all_rules [OF quotes_1 quotes_2 quotes_3 quotes_4 quotes_5 quotes_6] body] by blast
    with 3 have "\<forall>s \<in> set w. unquoted s" by (auto simp: quotes_ok_def all_syms_iff dest: lang_mentions)
    with unquoted_pairs [OF inv] 3(2) show ?thesis by (simp add: quoted_pairs_def)
  qed
qed (simp add: quoted_pairs_def)

section \<open>Texts for trees\<close>

lemma token_has_text:
  assumes "in_grammar t" and "t \<noteq> T_EOF"
  shows "\<exists>w. lexemes tsql_lexer extra w = [Lexeme t False w]"
proof -
  from assms have t: "1 \<le> t" "t \<le> 1207" "t \<notin> {T_SPACE, T_COMMENT, T_LINE_COMMENT}" "t \<notin> set dead_types"
    unfolding in_grammar_iff by auto
  then have "produced t" by (intro all_produced)
  then obtain w r where r: "best tsql_lexer w = Some (r, [])" "token_type r = t" by (auto simp: produced_def)
  with t(3) alone_matches(1) [OF r(1)] have "\<not> on_hidden r" using hidden_types by blast
  with lexemes_best [of w "[]" r extra] r show ?thesis by auto
qed

lemma tokens_have_text:
  "\<forall>t \<in> set ts. in_grammar t \<and> t \<noteq> T_EOF \<and> t \<noteq> T_SINGLE_QUOTE \<Longrightarrow>
     \<exists>xs. visible (lexemes tsql_lexer extra xs) = ts"
proof (induction ts)
  case (Cons t ts)
  then obtain xs where xs: "visible (lexemes tsql_lexer extra xs) = ts" by auto
  from Cons.prems token_has_text [of t extra] obtain w where "lexemes tsql_lexer extra w = [Lexeme t False w]" by auto
  from token_before_blank [OF this, of "[0x20]" xs] Cons.prems xs
  have "visible (lexemes tsql_lexer extra (w @ [0x20] @ xs)) = t # ts" by (simp add: blank_def)
  then show ?case by blast
qed (auto intro: exI [of _ "[]"])

text \<open>
  C5: Lexer and parser fit together: the tokens of a parse tree of a file are the tokens of some
  text if and only if there is no single quote among them.  The lexer never makes two tokens of
  single quotes of a text, since what stands between them is a string constant, but the grammar
  asks for two of them around the files that \<open>ALTER ASSEMBLY\<close> drops.
\<close>

theorem trees_have_texts:
  assumes "valid tsql_grammar t" and "root t = Nt RuleTsql_file"
  shows "(\<exists>xs. visible (lexemes tsql_lexer extra xs) @ [T_EOF] = yield t) \<longleftrightarrow> T_SINGLE_QUOTE \<notin> set (yield t)"
proof
  assume "\<exists>xs. visible (lexemes tsql_lexer extra xs) @ [T_EOF] = yield t"
  then obtain xs where xs: "yield t = visible (lexemes tsql_lexer extra xs) @ [T_EOF]" by metis
  have "count_list (yield t) T_SINGLE_QUOTE \<noteq> 1"
    using tsql_quotes.holds [OF assms(1)] by (simp add: assms(2) quoted_pairs_def)
  with one_single_quote [of extra xs] have "count_list (yield t) T_SINGLE_QUOTE = 0" by (simp add: xs)
  then show "T_SINGLE_QUOTE \<notin> set (yield t)" by (simp add: count_list_0_iff)
next
  assume quote: "T_SINGLE_QUOTE \<notin> set (yield t)"
  obtain us where us: "yield t = us @ [T_EOF]" "T_EOF \<notin> set us"
    using tsql_end.ended.holds [OF assms(1)] assms(2) by (auto simp: ended_by_def)
  moreover have "\<forall>k \<in> set (yield t). in_grammar k" using tsql_tokens.holds [OF assms(1)] assms(2) by simp
  ultimately obtain xs where "visible (lexemes tsql_lexer extra xs) = us"
    using tokens_have_text [of us extra] quote by auto
  with us(1) show "\<exists>xs. visible (lexemes tsql_lexer extra xs) @ [T_EOF] = yield t" by auto
qed

text \<open>The tree of the file \<open>GO 5\<close>.\<close>

theorem trees_have_texts_witness:
  "\<exists>xs. visible (lexemes tsql_lexer (\<lambda>xs. 0) xs) @ [T_EOF]
    = yield (Node RuleTsql_file None [Node RuleGo_statement None [Leaf T_GO, Leaf T_DECIMAL], Leaf T_EOF])"
proof -
  let ?go = "Node RuleGo_statement None [Leaf T_GO, Leaf T_DECIMAL]"
  have "valid tsql_grammar ?go"
    using rule_node [OF rule_in_grammar, of g_go_statement None "[Leaf T_GO, Leaf T_DECIMAL]"]
    by (simp add: rules_4_def g_go_statement_def reads_def labelled_def)
  then have "valid tsql_grammar (Node RuleTsql_file None [?go, Leaf T_EOF])"
    using rule_node [OF rule_in_grammar, of g_tsql_file None "[?go, Leaf T_EOF]"]
    by (simp add: rules_1_def g_tsql_file_def reads_def labelled_def)
  from trees_have_texts [OF this, of "\<lambda>xs. 0"] show ?thesis by simp
qed

end
