(* ===== verification/TSql_Errors.thy ===== *)
theory TSql_Errors
  imports TSql_Layout
begin

text \<open>
  The errors of the lexer: at which characters of which texts no rule matches.
\<close>

section \<open>First characters\<close>

text \<open>The other characters at which a token can start.\<close>

definition sign_starts :: "(code_point \<times> code_point) list" where
  "sign_starts = [(0x09, 0x0A), (0x0D, 0x0D), (0x20, 0x21), (0x23, 0x40), (0x5C, 0x5C), (0x5E, 0x5E), (0x7C, 0x7C), (0x7E, 0x7E)]"

definition sign_list :: "code_point list" where
  "sign_list = [0x09, 0x0A, 0x0D, 0x20, 0x21] @ [0x23..<0x41] @ [0x5C, 0x5E, 0x7C, 0x7E]"

lemma first_checks:
  "list_all (\<lambda>r. firsts_in (word_starts @ sign_starts @ [(0x22, 0x22), (0x5B, 0x5B)]) (pattern r)) tsql_lexer"
  by (simp only: sign_starts_def word_check_eval firsts_in.simps char_eval rule_eval tsql_lexer_table cong: lexer_opaque)

lemma sign_checks: "list_all (\<lambda>x. find (whole [x]) tsql_lexer \<noteq> None) sign_list"
  by (simp only: sign_list_def upt_rec_numeral Suc_numeral add_num_simps whole_all_eval char_eval rule_eval tsql_lexer_table
      cong: lexer_opaque)

lemma in_sign_list: "in_ranges sign_starts x \<longleftrightarrow> x \<in> set sign_list"
  unfolding sign_starts_def sign_list_def by (simp, arith)

text \<open>The signs are not letters, so the case of a character does not matter.\<close>

lemma in_signs: "in_chars sign_starts x \<longleftrightarrow> x \<in> set sign_list"
proof -
  have other: "\<not> (0x41 \<le> y \<and> y \<le> 0x5A) \<and> \<not> (0x61 \<le> y \<and> y \<le> 0x7A)" if "y \<in> set sign_list" for y
    using that by (auto simp: sign_list_def)
  have "x \<in> set sign_list" if "upper x \<in> set sign_list \<or> lower x \<in> set sign_list"
    using that other [of "upper x"] other [of "lower x"] by (auto simp: upper_def lower_def split: if_splits)
  then show ?thesis by (auto simp: in_chars_def in_sign_list)
qed

section \<open>Characters that start a token\<close>

lemma best_from_match:
  assumes "q \<in> set tsql_lexer" and "greedy q" and "matches (pattern q) (pattern q) w" and "w \<noteq> []"
  shows "best tsql_lexer (w @ ys) \<noteq> None"
proof -
  obtain zs where "rule_rest q (w @ ys) = Some zs" by (rule rule_rest_greedy [OF assms(2-4), of ys])
  with assms(1) show ?thesis by (auto simp: best_None)
qed

lemma word_start_best: "in_chars word_starts x \<Longrightarrow> best tsql_lexer (x # xs) \<noteq> None"
proof -
  assume "in_chars word_starts x"
  then have "word [x]" by (simp add: word_def)
  then obtain zs where "rule_rest r_ID ([x] @ xs) = Some zs" by (rule ID_rest [of "[x]" xs])
  with r_ID_mem show ?thesis by (auto simp: best_None)
qed

lemma sign_best:
  assumes "x \<in> set sign_list"
  shows "best tsql_lexer (x # xs) \<noteq> None"
proof -
  from sign_checks assms obtain r where "find (whole [x]) tsql_lexer = Some r" by (auto simp: list_all_iff)
  then have r: "best tsql_lexer [x] = Some (r, [])" by (rule best_whole)
  note m = alone_matches [OF this]
  have "r \<noteq> r_COMMENT" using m(3) matches_comment [of "[x]"] by (auto simp: comment_pattern)
  with solid_or_special [OF m(1)] have "greedy r" by blast
  from best_from_match [OF m(1) this m(3,2), of xs] show ?thesis by simp
qed

lemma double_quote_best: "best tsql_lexer (0x22 # xs) \<noteq> None \<longleftrightarrow> 0x22 \<in> set xs"
proof
  assume "best tsql_lexer (0x22 # xs) \<noteq> None"
  then obtain r ys where "best tsql_lexer (0x22 # xs) = Some (r, ys)" by auto
  from best_Some [OF this] have r: "r \<in> set tsql_lexer" "rule_rest r (0x22 # xs) = Some ys" by simp_all
  from rule_rest_split [OF r(2)] obtain v where v: "0x22 # xs = v @ ys" "v \<noteq> []" "matches (pattern r) (pattern r) v" .
  then obtain v' where v': "v = 0x22 # v'" "xs = v' @ ys" by (cases v) auto
  have "r \<in> set (filter (\<lambda>r. starts (pattern r) 0x22) tsql_lexer)"
    using r(1) v(3) v'(1) matches_starts by auto
  from double_quote_texts [OF this v(3)] v' show "0x22 \<in> set xs" by (auto simp: double_quoted_def)
next
  assume "0x22 \<in> set xs"
  then obtain b zs where b: "xs = b @ 0x22 # zs" "0x22 \<notin> set b" by (metis split_list_first)
  from double_quoted_rest [OF b(2), of zs] obtain r where
    "r \<in> set tsql_lexer" "rule_rest r (double_quoted b @ zs) = Some zs" by auto
  then show "best tsql_lexer (0x22 # xs) \<noteq> None" by (auto simp: best_None b(1) double_quoted_def)
qed

lemma bracket_best: "best tsql_lexer (0x5B # xs) \<noteq> None \<longleftrightarrow> 0x5D \<in> set xs"
proof
  assume "best tsql_lexer (0x5B # xs) \<noteq> None"
  then obtain r ys where "best tsql_lexer (0x5B # xs) = Some (r, ys)" by auto
  from best_Some [OF this] have r: "r \<in> set tsql_lexer" "rule_rest r (0x5B # xs) = Some ys" by simp_all
  from rule_rest_split [OF r(2)] obtain v where v: "0x5B # xs = v @ ys" "v \<noteq> []" "matches (pattern r) (pattern r) v" .
  then obtain v' where v': "v = 0x5B # v'" "xs = v' @ ys" by (cases v) auto
  have "r \<in> set (filter (\<lambda>r. starts (pattern r) 0x5B) tsql_lexer)"
    using r(1) v(3) v'(1) matches_starts by auto
  from bracket_texts [OF this v(3)] v' show "0x5D \<in> set xs" by (auto simp: matches_SQUARE_BRACKET_ID)
next
  assume "0x5D \<in> set xs"
  then obtain b zs where b: "xs = b @ 0x5D # zs" "0x5D \<notin> set b" by (metis split_list_first)
  then have "0x5B # xs = bracketed_name b @ zs" by (simp add: bracketed_name_def escaped_fixed)
  moreover have "bracketed_name b \<noteq> []" "greedy r_SQUARE_BRACKET_ID"
    by (simp_all add: bracketed_name_def greedy_def r_SQUARE_BRACKET_ID_def)
  ultimately show "best tsql_lexer (0x5B # xs) \<noteq> None"
    using best_from_match [OF special_mem(4) _ bracketed_name_matches] by metis
qed

lemma other_best:
  assumes "\<not> in_chars word_starts x" and "x \<notin> set sign_list" and "x \<noteq> 0x22" and "x \<noteq> 0x5B"
  shows "best tsql_lexer (x # xs) = None"
proof (rule ccontr)
  assume "best tsql_lexer (x # xs) \<noteq> None"
  then obtain r ys where "best tsql_lexer (x # xs) = Some (r, ys)" by auto
  from best_Some [OF this] have r: "r \<in> set tsql_lexer" "rule_rest r (x # xs) = Some ys" by simp_all
  then have "starts (pattern r) x" using rule_rest_starts [of r x xs] by auto
  with first_checks r(1) have "in_chars (word_starts @ sign_starts @ [(0x22, 0x22), (0x5B, 0x5B)]) x"
    by (auto simp: list_all_iff intro: firsts_in_starts)
  moreover have "in_chars [(0x22, 0x22), (0x5B, 0x5B)] x \<longleftrightarrow> x = 0x22 \<or> x = 0x5B"
    using in_chars_append [of "[(0x22, 0x22)]" "[(0x5B, 0x5B)]"] in_chars_single by (simp add: char_eval)
  ultimately show False using assms by (simp add: in_chars_append in_signs)
qed

text \<open>
  C30: The errors of the lexer are exactly these: a double quote or an opening bracket that is
  never closed, and a character that is neither a letter (or an underline) nor one of the digits,
  blanks and signs with which a token can start.
\<close>

theorem lexer_errors_exact:
  "(\<exists>w ls. lexemes tsql_lexer extra (x # xs) = Unrecognized w # ls) \<longleftrightarrow>
     (if x = 0x22 then 0x22 \<notin> set xs else if x = 0x5B then 0x5D \<notin> set xs
      else \<not> in_chars word_starts x \<and> x \<notin> set sign_list)"
proof -
  have "(\<exists>w ls. lexemes tsql_lexer extra (x # xs) = Unrecognized w # ls) \<longleftrightarrow> best tsql_lexer (x # xs) = None"
    by (cases "best tsql_lexer (x # xs)") auto
  then show ?thesis using double_quote_best [of xs] bracket_best [of xs] other_best [of x xs]
      word_start_best [of x xs] sign_best [of x xs] by auto
qed

end
