(* ===== verification/Casing.thy ===== *)
theory Casing
  imports Word_Rules
begin

text \<open>
  The case of letters: right-hand sides that do not depend on it leave the same amounts of two
  texts that differ in the case of letters only.
\<close>

text \<open>Does a right-hand side match the same texts in any case?\<close>

fun any_case :: "lexpr \<Rightarrow> bool" where
  "any_case (Exact w) = list_all (\<lambda>c. upper (of_char c) = lower (of_char c)) w"
| "any_case (Cat es) = list_all any_case es"
| "any_case (Or es) = list_all any_case es"
| "any_case (Maybe e) = any_case e"
| "any_case (Loop e) = any_case e"
| "any_case (Few e) = any_case e"
| "any_case e = True"

lemma upper_upper [simp]: "upper (upper x) = upper x"
  by (auto simp: upper_def)

lemma in_chars_upper [simp]: "in_chars rs (upper x) \<longleftrightarrow> in_chars rs x"
  by (rule in_chars_case) simp

lemma strip_upper: "strip upper w (map upper xs) = map_option (map upper) (strip upper w xs)"
  by (induction upper w xs rule: strip.induct) auto

lemma strip_exact:
  "list_all (\<lambda>c. upper (of_char c) = lower (of_char c)) w \<Longrightarrow>
     strip id w (map upper xs) = map_option (map upper) (strip id w xs)"
proof (induction w arbitrary: xs)
  case (Cons c w)
  then have fixed: "upper x = of_char c \<longleftrightarrow> x = of_char c" for x
    by (auto simp: upper_def lower_def split: if_splits)
  show ?case using Cons by (cases xs) (auto simp: fixed)
qed simp

lemma filter_shorter_upper:
  "filter (\<lambda>ys. length ys < n) (map (map upper) yss) = map (map upper) (filter (\<lambda>ys. length ys < n) yss)"
  by (simp add: filter_map o_def)

lemma leftovers_upper:
  "any_case e \<Longrightarrow> plain e \<or> any_case s \<Longrightarrow> leftovers s k e (map upper xs) = map (map upper) (leftovers s k e xs)"
proof (induction s k e xs rule: leftovers.induct)
  case (1 s k w xs)
  then show ?case by (simp add: strip_upper split: option.split)
next
  case (2 s k w xs)
  then show ?case by (simp add: strip_exact split: option.split)
next
  case (6 s k e es xs)
  then have "plain e \<or> any_case s" "list_all plain es \<or> any_case s" by auto
  with 6 show ?case by (simp add: map_concat o_def cong: map_cong)
next
  case (11 s k e xs)
  let ?L = "filter (\<lambda>ys. length ys < length xs) (leftovers s (Suc k) e xs)"
  from 11 have "concat (map (\<lambda>ys. leftovers s k (Loop e) (map upper ys)) ?L)
      = concat (map (\<lambda>ys. map (map upper) (leftovers s k (Loop e) ys)) ?L)"
    by (intro arg_cong [where f = concat] map_cong) auto
  with 11 show ?case by (simp add: filter_shorter_upper map_concat o_def)
next
  case (13 s k e xs)
  let ?L = "filter (\<lambda>ys. length ys < length xs) (leftovers s (Suc k) e xs)"
  from 13 have "concat (map (\<lambda>ys. leftovers s k (Few e) (map upper ys)) ?L)
      = concat (map (\<lambda>ys. map (map upper) (leftovers s k (Few e) ys)) ?L)"
    by (intro arg_cong [where f = concat] map_cong) auto
  with 13 show ?case by (simp add: filter_shorter_upper map_concat o_def)
qed (auto split: list.split)

section \<open>Rules in two texts\<close>

text \<open>
  A change of case keeps every letter, and its case where a single quote follows: an \<open>N\<close> before
  a quote is a part of the string constant, an \<open>n\<close> is not.
\<close>

fun recased :: "code_point \<Rightarrow> code_point list \<Rightarrow> code_point list \<Rightarrow> bool" where
  "recased q [] [] = True"
| "recased q (x # xs) (y # ys) = (upper x = upper y \<and> (take 1 xs = [q] \<longrightarrow> x = y) \<and> recased q xs ys)"
| "recased q xs ys = False"

lemma recased_upper: "recased q xs ys \<Longrightarrow> map upper xs = map upper ys"
  by (induction q xs ys rule: recased.induct) auto

lemma recased_length: "recased q xs ys \<Longrightarrow> length xs = length ys"
  by (induction q xs ys rule: recased.induct) auto

lemma recased_drop: "recased q xs ys \<Longrightarrow> recased q (drop n xs) (drop n ys)"
  by (induction q xs ys arbitrary: n rule: recased.induct) (auto simp: drop_Cons split: nat.split)

lemma recased_refl: "recased q xs xs"
  by (induction xs) auto

definition same_lengths :: "'a list list \<Rightarrow> 'a list list \<Rightarrow> bool" where
  "same_lengths xss yss \<longleftrightarrow> map length xss = map length yss"

lemma same_lengths_Nil [simp]: "same_lengths [] yss \<longleftrightarrow> yss = []" "same_lengths xss [] \<longleftrightarrow> xss = []"
  by (auto simp: same_lengths_def)

lemma same_lengths_Cons [simp]:
  "same_lengths (xs # xss) (ys # yss) \<longleftrightarrow> length xs = length ys \<and> same_lengths xss yss"
  by (simp add: same_lengths_def)

lemma same_lengths_induct [consumes 1, case_names Nil Cons]:
  assumes "same_lengths xss yss" and "P [] []"
    and "\<And>xs xss ys yss. length xs = length ys \<Longrightarrow> same_lengths xss yss \<Longrightarrow> P xss yss \<Longrightarrow> P (xs # xss) (ys # yss)"
  shows "P xss yss"
proof -
  from assms(1) have "list_all2 (\<lambda>xs ys. length xs = length ys) xss yss"
    by (simp add: same_lengths_def list_all2_conv_all_nth list_eq_iff_nth_eq)
  then show ?thesis
    by (induction rule: list_all2_induct)
      (auto simp: assms(2) same_lengths_def list_all2_conv_all_nth list_eq_iff_nth_eq intro!: assms(3))
qed

lemma same_lengths_filter:
  "same_lengths xss yss \<Longrightarrow> same_lengths (filter (\<lambda>xs. length xs < n) xss) (filter (\<lambda>ys. length ys < n) yss)"
  by (induction rule: same_lengths_induct) auto

lemma same_lengths_shortest:
  "same_lengths xss yss \<Longrightarrow> map_option length (shortest xss) = map_option length (shortest yss)"
proof (induction rule: same_lengths_induct)
  case (Cons xs xss ys yss)
  then show ?case by (cases "shortest xss"; cases "shortest yss") auto
qed simp

lemma same_lengths_first:
  "same_lengths xss yss \<Longrightarrow> map_option length (first xss) = map_option length (first yss)"
  by (induction rule: same_lengths_induct) auto

lemma any_case_lengths:
  assumes "map upper xs = map upper ys" and "any_case e" and "plain e \<or> any_case s"
  shows "same_lengths (leftovers s k e xs) (leftovers s k e ys)"
proof -
  have "map (map upper) (leftovers s k e xs) = map (map upper) (leftovers s k e ys)"
    using assms by (metis leftovers_upper)
  then have "map length (map (map upper) (leftovers s k e xs)) = map length (map (map upper) (leftovers s k e ys))"
    by simp
  then show ?thesis by (simp add: same_lengths_def o_def)
qed

lemma rule_rest_lengths:
  assumes "length xs = length ys"
    and "same_lengths (leftovers (pattern r) (Suc (length xs)) (pattern r) xs)
      (leftovers (pattern r) (Suc (length xs)) (pattern r) ys)"
  shows "map_option length (rule_rest r xs) = map_option length (rule_rest r ys)"
  using assms same_lengths_filter [OF assms(2)]
  by (auto simp: rule_rest_def Let_def intro!: same_lengths_shortest same_lengths_first)

lemma best_lengths:
  assumes "\<And>r. r \<in> set rules \<Longrightarrow> map_option length (rule_rest r xs) = map_option length (rule_rest r ys)"
  shows "map_option (\<lambda>(r, zs). (r, length zs)) (best rules xs) = map_option (\<lambda>(r, zs). (r, length zs)) (best rules ys)"
  using assms
proof (induction rules)
  case (Cons r rules)
  then have "map_option length (rule_rest r xs) = map_option length (rule_rest r ys)"
    and "map_option (\<lambda>(r, zs). (r, length zs)) (best rules xs) = map_option (\<lambda>(r, zs). (r, length zs)) (best rules ys)"
    by auto
  then show ?case
    by (cases "rule_rest r xs"; cases "rule_rest r ys"; cases "best rules xs"; cases "best rules ys") auto
qed simp

end
