(* ===== verification/TSql_Case.thy ===== *)
theory TSql_Case
  imports TSql_Layout Casing
begin

text \<open>
  The case of letters: keywords, identifiers and everything else are lexed alike in any case.
\<close>

lemma case_checks: "list_all (\<lambda>r. if token_type r = T_STRING then True else any_case (pattern r)) tsql_lexer"
  by (simp only: any_case.simps list_eval num_eval char_eval rule_eval list_all_append_eval tsql_lexer_table cong: lexer_opaque)

lemma case_or_string: "r \<in> set tsql_lexer \<Longrightarrow> any_case (pattern r) \<or> r = r_STRING"
  using case_checks [unfolded list_all_iff, rule_format, of r] sole_rule [OF _ string_drive_mem(1), of r]
  by (auto simp: special_types split: if_splits)

text \<open>The string constant after its prefix does not depend on the case.\<close>

definition quoted_text :: lexpr where
  "quoted_text = Cat [Exact [CHR 0x27], Loop (Or [NotChars [(0x27, 0x27)], Exact [CHR 0x27, CHR 0x27]]), Exact [CHR 0x27]]"

lemma quoted_text_any_case: "any_case quoted_text"
  by (simp add: quoted_text_def char_eval)

lemma quoted_text_plain: "plain quoted_text"
  by (simp add: quoted_text_def)

lemma string_leftovers:
  "leftovers s k (pattern r_STRING) xs =
     (case xs of [] \<Rightarrow> [] | x # us \<Rightarrow> if x = 0x4E then leftovers s k quoted_text us else [])
     @ leftovers s k quoted_text xs"
  by (cases xs) (simp_all add: r_STRING_def quoted_text_def char_eval)

lemma quoted_text_start: "xs = [] \<or> hd xs \<noteq> 0x27 \<Longrightarrow> leftovers s k quoted_text xs = []"
  by (cases xs) (auto simp: quoted_text_def char_eval)

lemma string_lengths:
  assumes "recased 0x27 xs ys"
  shows "same_lengths (leftovers s k (pattern r_STRING) xs) (leftovers s k (pattern r_STRING) ys)"
proof -
  have quoted: "same_lengths (leftovers s k quoted_text us) (leftovers s k quoted_text vs)"
    if "recased 0x27 us vs" for us vs
    by (rule any_case_lengths) (use recased_upper [OF that] in \<open>simp_all add: quoted_text_any_case quoted_text_plain\<close>)
  have "same_lengths (case xs of [] \<Rightarrow> [] | x # us \<Rightarrow> if x = 0x4E then leftovers s k quoted_text us else [])
      (case ys of [] \<Rightarrow> [] | y # vs \<Rightarrow> if y = 0x4E then leftovers s k quoted_text vs else [])"
  proof (cases xs)
    case Nil
    with assms show ?thesis by (cases ys) auto
  next
    case (Cons x us)
    with assms obtain y vs where ys: "ys = y # vs" "recased 0x27 us vs" "take 1 us = [0x27] \<longrightarrow> x = y"
      by (cases ys) auto
    show ?thesis
    proof (cases "take 1 us = [0x27]")
      case True
      with ys Cons quoted [OF ys(2)] show ?thesis by simp
    next
      case False
      then have "us = [] \<or> hd us \<noteq> 0x27" by (cases us) auto
      moreover from this have "vs = [] \<or> hd vs \<noteq> 0x27"
        using ys(2) by (cases us; cases vs) (auto simp: upper_def split: if_splits)
      ultimately show ?thesis using Cons ys(1) by (simp add: quoted_text_start)
    qed
  qed
  with quoted [OF assms] show ?thesis unfolding string_leftovers by (simp add: same_lengths_def)
qed

lemma rest_recased:
  assumes "r \<in> set tsql_lexer" and "recased 0x27 xs ys"
  shows "map_option length (rule_rest r xs) = map_option length (rule_rest r ys)"
proof (rule rule_rest_lengths [OF recased_length [OF assms(2)]])
  show "same_lengths (leftovers (pattern r) (Suc (length xs)) (pattern r) xs)
      (leftovers (pattern r) (Suc (length xs)) (pattern r) ys)"
    using case_or_string [OF assms(1)] any_case_lengths [OF recased_upper [OF assms(2)]] string_lengths [OF assms(2)]
    by blast
qed

lemma best_recased:
  "recased 0x27 xs ys \<Longrightarrow> map_option (\<lambda>(r, zs). (r, length zs)) (best tsql_lexer xs)
     = map_option (\<lambda>(r, zs). (r, length zs)) (best tsql_lexer ys)"
  using rest_recased by (intro best_lengths) blast

section \<open>Lexemes\<close>

text \<open>A lexeme without its characters.\<close>

fun shape :: "lexeme \<Rightarrow> (token \<times> bool) option \<times> nat" where
  "shape (Lexeme t h w) = (Some (t, h), length w)"
| "shape (Unrecognized w) = (None, length w)"

text \<open>
  C10: Keywords and names are lexed alike in capital and small letters: if letters from \<open>A\<close> to \<open>Z\<close> are
  changed between capital and small anywhere, except directly before a single quote, where an \<open>N\<close>
  marks a string constant and an \<open>n\<close> does not, then the tokens are the same, at the same places.
  Other letters, such as those with accents, are left as they are.  The recovery of the runtime must not depend on the
  case of these letters.
\<close>

theorem case_irrelevant:
  assumes "recased 0x27 xs ys" and "\<And>us vs. recased 0x27 us vs \<Longrightarrow> extra us = extra vs"
  shows "map shape (lexemes tsql_lexer extra xs) = map shape (lexemes tsql_lexer extra ys)"
  using assms(1)
proof (induction "length xs" arbitrary: xs ys rule: less_induct)
  case less
  note len = recased_length [OF less.prems]
  show ?case
  proof (cases "best tsql_lexer xs")
    case None
    with best_recased [OF less.prems] have none: "best tsql_lexer ys = None" by simp
    show ?thesis
    proof (cases xs)
      case Nil
      with less.prems show ?thesis by (cases ys) auto
    next
      case (Cons x us)
      then obtain y vs where ys: "ys = y # vs" "recased 0x27 us vs" using less.prems by (cases ys) auto
      have ex: "extra (x # us) = extra (y # vs)" using assms(2) less.prems Cons ys(1) by simp
      have "map shape (lexemes tsql_lexer extra (drop (extra xs) us)) = map shape (lexemes tsql_lexer extra (drop (extra xs) vs))"
        using less.hyps [of "drop (extra xs) us" "drop (extra xs) vs"] recased_drop [OF ys(2)] Cons by simp
      with None none len show ?thesis
        by (simp add: Cons ys(1) lexemes_stuck ex del: lexemes.simps)
    qed
  next
    case (Some p)
    then obtain r us where r: "best tsql_lexer xs = Some (r, us)" by (cases p) auto
    with best_recased [OF less.prems] obtain vs where vs: "best tsql_lexer ys = Some (r, vs)" "length us = length vs"
      by (cases "best tsql_lexer ys") auto
    from lexemes_step [OF r, of extra] obtain v where v: "xs = v @ us" "v \<noteq> []"
      "lexemes tsql_lexer extra xs = Lexeme (token_type r) (on_hidden r) v # lexemes tsql_lexer extra us" .
    from lexemes_step [OF vs(1), of extra] obtain w where w: "ys = w @ vs" "w \<noteq> []"
      "lexemes tsql_lexer extra ys = Lexeme (token_type r) (on_hidden r) w # lexemes tsql_lexer extra vs" .
    have l: "length v = length w" using v(1) w(1) vs(2) len by simp
    have "recased 0x27 us vs" using recased_drop [OF less.prems, of "length v"] v(1) w(1) l by simp
    with less.hyps [of us vs] v(1,2) have "map shape (lexemes tsql_lexer extra us) = map shape (lexemes tsql_lexer extra vs)"
      by simp
    with v(3) w(3) l show ?thesis by simp
  qed
qed

theorem case_irrelevant_witness:
  "map shape (lexemes tsql_lexer (\<lambda>xs. 0) (codes ''SELECT N'' @ [0x27, 0x41, 0x27]))
    = map shape (lexemes tsql_lexer (\<lambda>xs. 0) (codes ''Select N'' @ [0x27, 0x41, 0x27]))"
  by (rule case_irrelevant) (simp_all add: codes_def char_eval)

end
