(* ===== verification/Test_Driver.thy ===== *)
theory Test_Driver
  imports "HOL-Library.Monad_Syntax"
begin

text \<open>
  The test driver \<open>port/cpp/parser_test.cpp\<close>: how it reads a file into the string it hands to
  the parser, and its outcomes.  The stream follows the standard library: \<open>std::getline\<close> takes
  the characters up to the next newline and the newline itself, sets \<open>eofbit\<close> when the
  characters run out, \<open>failbit\<close> when it has taken nothing, and does nothing but set \<open>failbit\<close> on
  a stream that is not good.  Reading may also fail (\<open>badbit\<close>), for instance on a directory.
\<close>

section \<open>Streams\<close>

text \<open>
  The contents of a path: the characters that can be read, and whether reading fails after
  them instead of reporting the end of the file.
\<close>

record text_file =
  contents :: string
  breaks :: bool

record ifstream =
  unread :: string
  defect :: bool
  eofbit :: bool
  failbit :: bool
  badbit :: bool

definition good :: "ifstream \<Rightarrow> bool" where
  "good s \<longleftrightarrow> \<not> eofbit s \<and> \<not> failbit s \<and> \<not> badbit s"

definition open_file :: "text_file \<Rightarrow> ifstream" where
  "open_file f = \<lparr>unread = contents f, defect = breaks f, eofbit = False, failbit = False, badbit = False\<rparr>"

definition newline :: char where
  "newline = CHR 0x0A"

fun take_line :: "string \<Rightarrow> string \<times> string option" where
  "take_line [] = ([], None)"
| "take_line (c # cs) = (if c = newline then ([], Some cs)
     else (case take_line cs of (l, r) \<Rightarrow> (c # l, r)))"
  \<comment> \<open>the line, and what follows its newline if there is one\<close>

definition getline :: "ifstream \<Rightarrow> string \<times> ifstream" where
  "getline s = (if \<not> good s then ([], s\<lparr>failbit := True\<rparr>)
     else (case take_line (unread s) of
       (l, Some r) \<Rightarrow> (l, s\<lparr>unread := r\<rparr>)
     | (l, None) \<Rightarrow> (l, if defect s then s\<lparr>unread := [], badbit := True\<rparr>
         else s\<lparr>unread := [], eofbit := True, failbit := (l = [])\<rparr>)))"

section \<open>The driver\<close>

text \<open>The loop \<open>while (!test_file.eof())\<close>; it need not end, so a run without end is \<open>None\<close>.\<close>

partial_function (option) read_loop :: "ifstream \<Rightarrow> string \<Rightarrow> string option" where
  "read_loop s file_content = (if eofbit s then Some file_content
     else (case getline s of (line, s') \<Rightarrow> read_loop s' (file_content @ line @ [newline])))"

text \<open>
  What the driver writes: a message to \<open>std::cerr\<close>, or to \<open>std::cout\<close> the text of the file, the
  text of the parse tree and the time.  The parser and the clock are parameters.
\<close>

datatype event = Cerr string | Cout string

definition code_path :: string where
  "code_path = ''../../examples/slow.sql''"

fun run_tests :: "(string \<Rightarrow> text_file option) \<Rightarrow> (string \<Rightarrow> string) \<Rightarrow> (string \<Rightarrow> string) \<Rightarrow> string list
    \<Rightarrow> (nat \<times> event list) option" where
  "run_tests fs tree_text millis [] = Some (0, [])"
| "run_tests fs tree_text millis (p # ps) = (case fs p of
     None \<Rightarrow> Some (1, [Cerr (''Error: Could not open file: '' @ p @ [newline])])
   | Some f \<Rightarrow> do {
       file_content \<leftarrow> read_loop (open_file f) [];
       (code, evs) \<leftarrow> run_tests fs tree_text millis ps;
       Some (code, [Cout (file_content @ [newline]), Cout (tree_text file_content @ [newline]),
         Cout (''Milliseconds: '' @ millis file_content @ [newline])] @ evs) })"

definition main_driver :: "(string \<Rightarrow> text_file option) \<Rightarrow> (string \<Rightarrow> string) \<Rightarrow> (string \<Rightarrow> string)
    \<Rightarrow> (nat \<times> event list) option" where
  "main_driver fs tree_text millis = run_tests fs tree_text millis [code_path]"

section \<open>Reading\<close>

lemma take_line_None: "take_line cs = (l, None) \<longleftrightarrow> newline \<notin> set cs \<and> l = cs"
proof (induction cs arbitrary: l)
  case (Cons c cs)
  then show ?case by (cases "take_line cs") auto
qed auto

lemma take_line_Some: "take_line cs = (l, Some r) \<longleftrightarrow> newline \<notin> set l \<and> cs = l @ newline # r"
proof (induction cs arbitrary: l)
  case (Cons c cs)
  then show ?case by (cases "take_line cs"; cases l) auto
qed auto

lemma read_loop_eof: "eofbit s \<Longrightarrow> read_loop s c = Some c"
  by (subst read_loop.simps) simp

lemma read_loop_line:
  assumes "good s" and "take_line (unread s) = (l, Some r)"
  shows "read_loop s c = read_loop (s\<lparr>unread := r\<rparr>) (c @ l @ [newline])"
  using assms by (subst read_loop.simps) (simp add: getline_def good_def)

lemma read_loop_last:
  assumes "good s" and "take_line (unread s) = (l, None)" and "\<not> defect s"
  shows "read_loop s c = Some (c @ l @ [newline])"
  using assms by (subst read_loop.simps) (simp add: getline_def good_def read_loop_eof)

lemma read_loop_text: "good s \<Longrightarrow> \<not> defect s \<Longrightarrow> read_loop s c = Some (c @ unread s @ [newline])"
proof (induction "length (unread s)" arbitrary: s c rule: less_induct)
  case less
  obtain l q where split: "take_line (unread s) = (l, q)" by fastforce
  show ?case
  proof (cases q)
    case None
    with split less.prems show ?thesis using read_loop_last take_line_None by metis
  next
    case (Some r)
    with split have unr: "unread s = l @ newline # r" using take_line_Some by auto
    have "read_loop s c = read_loop (s\<lparr>unread := r\<rparr>) (c @ l @ [newline])"
      using split Some less.prems by (intro read_loop_line) auto
    also have "\<dots> = Some ((c @ l @ [newline]) @ r @ [newline])"
      using less.hyps [of "s\<lparr>unread := r\<rparr>"] less.prems unr by (simp add: good_def)
    finally show ?thesis using unr by simp
  qed
qed

text \<open>A loop that returns has seen the end of the file.\<close>

lemma getline_defect: "defect s \<Longrightarrow> \<not> eofbit s \<Longrightarrow> defect (snd (getline s)) \<and> \<not> eofbit (snd (getline s))"
  by (auto simp: getline_def split: prod.split option.split)

lemma read_loop_defect:
  assumes "defect s" and "\<not> eofbit s"
  shows "read_loop s c = None"
proof -
  have "defect s \<longrightarrow> eofbit s" if "read_loop s c = Some y" for s c y
    using _ that
  proof (rule read_loop.raw_induct)
    fix f :: "ifstream \<Rightarrow> string \<Rightarrow> string option" and s c y
    assume IH: "\<And>s c y. f s c = Some y \<Longrightarrow> defect s \<longrightarrow> eofbit s"
      and run: "(if eofbit s then Some c
         else case getline s of (line, s') \<Rightarrow> f s' (c @ line @ [newline])) = Some y"
    show "defect s \<longrightarrow> eofbit s"
    proof (cases "eofbit s")
      case False
      with run have "f (snd (getline s)) (c @ fst (getline s) @ [newline]) = Some y"
        by (simp add: case_prod_beta)
      from IH [OF this] getline_defect [of s] False show ?thesis by blast
    qed simp
  qed
  with assms show ?thesis by (cases "read_loop s c") auto
qed

text \<open>
  The string the driver parses is the text of the file with one more newline, whether or not the
  text ends with one already; for an empty file it is a single newline.
\<close>

lemma driver_reads: "\<not> breaks f \<Longrightarrow> read_loop (open_file f) [] = Some (contents f @ [newline])"
  by (simp add: read_loop_text open_file_def good_def)

text \<open>
  C39: The read loop ends exactly if reading reaches the end of the file: the loop tests
  \<open>eof()\<close> only, so after a failed read it goes on appending empty lines for ever.
\<close>

theorem driver_reads_forever:
  "(\<exists>text. read_loop (open_file f) [] = Some text) \<longleftrightarrow> \<not> breaks f"
  using read_loop_defect [of "open_file f" "[]"] driver_reads [of f]
  by (auto simp: open_file_def)

text \<open>
  C40: The driver has three outcomes.  If the example cannot be opened, it returns 1 after a message.  If
  it can be opened and reading reaches its end, the driver returns 0 after it has written the text,
  the text of the tree the parser has built from it, and the time, in this order.  If reading fails
  before the end, it does not return.
\<close>

theorem driver_outcome:
  "main_driver fs tree_text millis = (case fs code_path of
     None \<Rightarrow> Some (1, [Cerr (''Error: Could not open file: '' @ code_path @ [newline])])
   | Some f \<Rightarrow> if breaks f then None else (let input = contents f @ [newline] in
       Some (0, [Cout (input @ [newline]), Cout (tree_text input @ [newline]),
         Cout (''Milliseconds: '' @ millis input @ [newline])])))"
proof (cases "fs code_path")
  case None
  then show ?thesis by (simp add: main_driver_def)
next
  case (Some f)
  have "breaks f \<Longrightarrow> read_loop (open_file f) [] = None"
    by (simp add: read_loop_defect open_file_def)
  with Some driver_reads [of f] show ?thesis
    by (cases "breaks f") (simp_all add: main_driver_def Let_def)
qed

text \<open>A file of one line, and the same file when reading it fails.\<close>

theorem driver_outcome_witness:
  "main_driver (\<lambda>p. Some \<lparr>contents = ''GO'', breaks = False\<rparr>) rev (\<lambda>s. ''0'') =
     Some (0, [Cout (''GO'' @ [newline, newline]), Cout ([newline] @ ''OG'' @ [newline]),
       Cout (''Milliseconds: 0'' @ [newline])])
   \<and> main_driver (\<lambda>p. Some \<lparr>contents = ''GO'', breaks = True\<rparr>) rev (\<lambda>s. ''0'') = None"
  using driver_outcome [of "\<lambda>p. Some \<lparr>contents = ''GO'', breaks = False\<rparr>" rev "\<lambda>s. ''0''"]
    driver_outcome [of "\<lambda>p. Some \<lparr>contents = ''GO'', breaks = True\<rparr>" rev "\<lambda>s. ''0''"]
  by (simp add: Let_def)

end
