(* ===== verification/TSql_Driver.thy ===== *)
theory TSql_Driver
  imports TSql_Layout Test_Driver
begin

text \<open>
  The test driver and the lexer: the newline that the driver puts after the text of a file adds no
  token and takes none away.
\<close>

section \<open>The lexer before a newline\<close>

lemma comment_rest_eq:
  "rule_rest r_COMMENT xs = (case strip upper ''/*'' xs of None \<Rightarrow> None
     | Some ys \<Rightarrow> first (filter (\<lambda>zs. length zs < length xs) (body_rests (Suc (length xs)) ys)))"
  by (simp add: rule_rest_def Let_def comment_pattern comment_lazy comment_leftovers
      del: strip.simps leftovers.simps split: option.split)

lemma first_map: "first (map f xs) = map_option f (first xs)"
  by (cases xs) simp_all

lemma comment_newline:
  "rule_rest r_COMMENT (xs @ [0x0A]) = map_option (\<lambda>zs. zs @ [0x0A]) (rule_rest r_COMMENT xs)"
proof (cases "strip upper ''/*'' xs")
  case None
  then have "strip upper ''/*'' (xs @ [0x0A]) = None" by (auto simp: strip_open split: list.splits if_splits)
  with None show ?thesis by (simp add: comment_rest_eq del: strip.simps)
next
  case (Some ys)
  then have ys: "length ys < length xs" "strip upper ''/*'' (xs @ [0x0A]) = Some (ys @ [0x0A])"
    by (auto simp: strip_open split: list.splits if_splits)
  have "body_rests (Suc (length (xs @ [0x0A]))) (ys @ [0x0A]) = map (\<lambda>zs. zs @ [0x0A]) (body_rests (Suc (length xs)) ys)"
    unfolding body_rests_newline
    by (rule arg_cong [where f = "map _"], rule body_rests_fuel) (use ys(1) in simp_all)
  with Some ys(2) show ?thesis by (simp add: comment_rest_eq filter_map o_def first_map del: strip.simps)
qed

text \<open>No match of another rule ends with a newline, but that of a single blank.\<close>

lemma no_final_newline:
  assumes q: "q \<in> set tsql_lexer" "q \<noteq> r_COMMENT" and v: "matches (pattern q) (pattern q) (xs @ [0x0A])" and xs: "xs \<noteq> []"
  shows False
proof -
  from solid_or_special [OF q(1)] q(2) consider "within_chars solid (pattern q)" | "q = r_SPACE" | "q = r_LINE_COMMENT"
    | "q = r_DOUBLE_QUOTE_ID" | "q = r_SQUARE_BRACKET_ID" | "q = r_STRING" by blast
  then show False
  proof cases
    case 1
    from within_matches [OF v 1, of "0x0A"] show False using blank_not_solid [of "0x0A"] by (simp add: blank_def)
  next
    case 2
    with v xs show False by (auto simp: r_SPACE_def matches_simps)
  next
    case 3
    have "matches p (NotChars [(0x0D, 0x0D), (0x0A, 0x0A)]) w \<Longrightarrow> y \<in> set w \<Longrightarrow> y \<noteq> 0x0A" for p w y
      by (auto simp: matches_simps in_chars_def)
    then have loop: "matches p (Loop (NotChars [(0x0D, 0x0D), (0x0A, 0x0A)])) w \<Longrightarrow> 0x0A \<notin> set w" for p w
      using matches_Loop_set [where P = "\<lambda>y. y \<noteq> 0x0A"] by blast
    from v obtain w where w: "xs @ [0x0A] = [0x2D, 0x2D] @ w"
      "matches (pattern q) (Loop (NotChars [(0x0D, 0x0D), (0x0A, 0x0A)])) w"
      unfolding 3 r_LINE_COMMENT_def by (auto simp: matches_simps dest!: matches_dashes)
    from w(1) have "last ([0x2D, 0x2D] @ w) = 0x0A" by (metis last_snoc)
    then have "0x0A \<in> set w" by (cases w rule: rev_cases) auto
    with loop [OF w(2)] show False by simp
  next
    case 4
    with v obtain b where "xs @ [0x0A] = 0x22 # b @ [0x22]" by (auto simp: matches_DOUBLE_QUOTE_ID double_quoted_def)
    then have "last (xs @ [0x0A]) = last (0x22 # b @ [0x22])" by simp
    then show False by simp
  next
    case 5
    with v obtain b where "xs @ [0x0A] = 0x5B # b @ [0x5D]" by (auto simp: matches_SQUARE_BRACKET_ID)
    then have "last (xs @ [0x0A]) = last (0x5B # b @ [0x5D])" by simp
    then show False by simp
  next
    case 6
    with v have "matches (pattern r_STRING) (pattern r_STRING) (xs @ [0x0A])" by simp
    then obtain n b where "xs @ [0x0A] = n @ 0x27 # b @ [0x27]" unfolding matches_STRING by blast
    then have "last (xs @ [0x0A]) = last (n @ 0x27 # b @ [0x27])" by simp
    then show False by simp
  qed
qed

lemma rest_newline:
  assumes "q \<in> set tsql_lexer" and "xs \<noteq> []"
  shows "rule_rest q (xs @ [0x0A]) = map_option (\<lambda>zs. zs @ [0x0A]) (rule_rest q xs)"
proof (cases "q = r_COMMENT")
  case False
  with solid_or_special [OF assms(1)] have "greedy q" by blast
  then show ?thesis
  proof (rule rule_rest_append)
    fix v zs assume v: "xs @ [0x0A] = v @ zs" "matches (pattern q) (pattern q) v"
    with no_final_newline [OF assms(1) False _ assms(2)] have "zs \<noteq> []" by auto
    moreover have "length (xs @ [0x0A]) = length (v @ zs)" by (simp only: v(1))
    ultimately show "length v \<le> length xs" by (cases zs) simp_all
  qed
qed (simp add: comment_newline)

lemma best_newline:
  assumes "xs \<noteq> []"
  shows "best tsql_lexer (xs @ [0x0A]) = map_option (\<lambda>(q, zs). (q, zs @ [0x0A])) (best tsql_lexer xs)"
  using rest_newline assms by (intro best_append) blast

section \<open>The tokens of a file\<close>

text \<open>
  The recovery of the runtime is the same in both texts if it skips the same characters of the
  file.
\<close>

lemma final_newline:
  assumes recovery: "\<And>x xs. take (extra (x # xs @ [0x0A])) xs = take (extra (x # xs)) xs"
  shows "visible (lexemes tsql_lexer extra (xs @ [0x0A])) = visible (lexemes tsql_lexer extra xs)"
proof (induction xs rule: lexemes_induct [of _ tsql_lexer extra])
  case Nil
  show ?case using blanks_invisible [of "[0x0A]" extra "[]"] by (simp add: blank_def)
next
  case (Step xs r w ys)
  then have "best tsql_lexer (w @ ys @ [0x0A]) = Some (r, ys @ [0x0A])"
    using best_newline [of xs] by simp
  from lexemes_best [OF this, of extra] Step show ?case by simp
next
  case (Stuck x xs)
  let ?n = "extra (x # xs)" and ?m = "extra (x # xs @ [0x0A])"
  have "best tsql_lexer (x # xs @ [0x0A]) = None" using best_newline [of "x # xs"] Stuck(1) by simp
  then have "visible (lexemes tsql_lexer extra (x # xs @ [0x0A]))
      = visible (lexemes tsql_lexer extra (drop ?m (xs @ [0x0A])))" by (simp add: lexemes_stuck del: lexemes.simps)
  also have "\<dots> = visible (lexemes tsql_lexer extra (drop ?n xs))"
  proof (cases "?n < length xs")
    case True
    have "length (take ?m xs) = length (take ?n xs)" by (simp only: recovery)
    with True have "?m = ?n" by simp
    with True Stuck(2) show ?thesis by simp
  next
    case False
    have "length (take ?m xs) = length (take ?n xs)" by (simp only: recovery)
    with False have "length xs \<le> ?m" by simp
    then have "drop ?m (xs @ [0x0A]) \<in> {[], [0x0A]}" by (cases "?m = length xs") auto
    with False show ?thesis using blanks_invisible [of "[0x0A]" extra "[]"] by (auto simp: blank_def)
  qed
  finally show ?case using Stuck(1) by (simp add: lexemes_stuck del: lexemes.simps)
qed

text \<open>
  C20: The driver hands the parser the tokens of the file: it reads the text of the file with a
  newline after it, and the lexer makes the same visible tokens of both.  The runtime's decoder of
  UTF-8 is a parameter, which decodes a newline at the end to a newline, and so is its recovery
  from errors, which does not depend on the newline.
\<close>

theorem driver_parses_file:
  assumes "\<not> breaks f"
    and "\<And>s. decode (s @ [newline]) = decode s @ [0x0A]"
    and "\<And>x xs. take (extra (x # xs @ [0x0A])) xs = take (extra (x # xs)) xs"
  shows "\<exists>text. read_loop (open_file f) [] = Some text \<and> text = contents f @ [newline]
    \<and> visible (lexemes tsql_lexer extra (decode text)) = visible (lexemes tsql_lexer extra (decode (contents f)))"
  using driver_reads [OF assms(1)] final_newline [of extra, OF assms(3)] by (simp add: assms(2))

text \<open>A file in ASCII that ends inside a comment.\<close>

theorem driver_parses_file_witness:
  "\<exists>text. read_loop (open_file \<lparr>contents = ''GO --'', breaks = False\<rparr>) [] = Some text
    \<and> text = ''GO --'' @ [newline]
    \<and> visible (lexemes tsql_lexer (\<lambda>xs. 0) (codes text)) = visible (lexemes tsql_lexer (\<lambda>xs. 0) (codes ''GO --''))"
  using driver_parses_file [of "\<lparr>contents = ''GO --'', breaks = False\<rparr>" codes "\<lambda>xs. 0"]
  by (simp add: codes_def newline_def char_eval)

end
