(* ===== verification/Static_Init.thy ===== *)
theory Static_Init
  imports Lexer_Tables
begin

text \<open>
  The static data of the lexer in \<open>port/cpp/TSqlLexer.cpp\<close>: the object
  \<open>TSqlLexerStaticData\<close>, its initialisation on the first use, and the members of \<open>TSqlLexer\<close> that
  read it, called in any order by any number of threads.

  The serialized automaton is an argument (\<open>segment\<close>), and so is what the runtime makes of it:
  \<open>deserialize\<close> is \<open>ATNDeserializer::deserialize\<close>, \<open>decisions\<close> is \<open>getNumberOfDecisions\<close> and
  \<open>decision_state\<close> is \<open>getDecisionState\<close>.  \<open>new_flag\<close> is a new \<open>antlr4::internal::OnceFlag\<close> and
  \<open>call_once\<close> is \<open>antlr4::internal::call_once\<close>, applied to functions that change the pointer to the
  static data; what the lexer relies on is the hypothesis \<open>runs_once\<close>.
\<close>

section \<open>The static data\<close>

record ('atn, 'state) static_data =
  ruleNames :: "string list"
  channelNames :: "string list"
  modeNames :: "string list"
  literalNames :: "string list"
  symbolicNames :: "string list"
  vocabulary :: "string list \<times> string list"
  serializedATN :: "int list"
  atn :: 'atn
  decisionToDFA :: "('state \<times> nat) list"

datatype failure = AssertionFailed | NullDereference

type_synonym ('atn, 'state) pointer = "('atn, 'state) static_data option"

record ('atn, 'state, 'flag) runtime =
  deserialize :: "int list \<Rightarrow> 'atn"
  decisions :: "'atn \<Rightarrow> nat"
  decision_state :: "'atn \<Rightarrow> nat \<Rightarrow> 'state"
  new_flag :: 'flag
  call_once :: "'flag \<Rightarrow> (('atn, 'state) pointer \<Rightarrow> failure + ('atn, 'state) pointer)
    \<Rightarrow> ('atn, 'state) pointer \<Rightarrow> failure + 'flag \<times> ('atn, 'state) pointer"

text \<open>
  What \<open>std::call_once\<close> documents: the flag knows whether a call with it has returned.  If none has,
  the call runs its function, and when the function returns the flag knows; otherwise the call
  does nothing.
\<close>

definition once_with :: "('flag \<Rightarrow> bool) \<Rightarrow> ('atn, 'state, 'flag) runtime \<Rightarrow> bool" where
  "once_with returned rt \<longleftrightarrow> \<not> returned (new_flag rt)
     \<and> (\<forall>flag f p. if returned flag then call_once rt flag f p = Inr (flag, p)
         else (case f p of
             Inl e \<Rightarrow> call_once rt flag f p = Inl e
           | Inr q \<Rightarrow> \<exists>flag'. returned flag' \<and> call_once rt flag f p = Inr (flag', q)))"

definition runs_once :: "('atn, 'state, 'flag) runtime \<Rightarrow> bool" where
  "runs_once rt \<longleftrightarrow> (\<exists>returned. once_with returned rt)"

text \<open>The loop that fills \<open>decisionToDFA\<close>, from the decision \<open>i\<close> on.\<close>

fun emplace_decisions :: "('atn, 'state, 'flag) runtime \<Rightarrow> 'atn \<Rightarrow> nat \<Rightarrow> nat \<Rightarrow> ('state \<times> nat) list" where
  "emplace_decisions rt a i 0 = []"
| "emplace_decisions rt a i (Suc n) = (decision_state rt a i, i) # emplace_decisions rt a (Suc i) n"

definition build_data :: "('atn, 'state, 'flag) runtime \<Rightarrow> int list \<Rightarrow> ('atn, 'state) static_data" where
  "build_data rt segment = (let a = deserialize rt segment in
     \<lparr>ruleNames = rule_names, channelNames = channel_names, modeNames = mode_names,
      literalNames = literal_names, symbolicNames = symbolic_names,
      vocabulary = (literal_names, symbolic_names),
      serializedATN = segment, atn = a, decisionToDFA = emplace_decisions rt a 0 (decisions rt a)\<rparr>)"

section \<open>Initialisation\<close>

text \<open>
  \<open>tsqllexerLexerStaticData\<close> is one pointer for the process, guarded by
  \<open>tsqllexerLexerOnceFlag\<close>, or one pointer per thread when
  \<open>ANTLR4_USE_THREAD_LOCAL_CACHE\<close> is set (\<open>tlc\<close>).
\<close>

type_synonym thread = nat

record ('atn, 'state, 'flag) statics =
  once_flag :: 'flag
  shared_data :: "('atn, 'state) pointer"
  local_data :: "thread \<Rightarrow> ('atn, 'state) pointer"

definition program_start :: "('atn, 'state, 'flag) runtime \<Rightarrow> ('atn, 'state, 'flag) statics" where
  "program_start rt = \<lparr>once_flag = new_flag rt, shared_data = None, local_data = (\<lambda>_. None)\<rparr>"

text \<open>The function that fills the pointer of the process or, with \<open>tlc\<close>, of the thread.\<close>

fun tsqllexerLexerInitialize :: "bool \<Rightarrow> ('atn, 'state, 'flag) runtime \<Rightarrow> int list
    \<Rightarrow> ('atn, 'state) pointer \<Rightarrow> failure + ('atn, 'state) pointer" where
  "tsqllexerLexerInitialize True rt segment (Some d) = Inr (Some d)"
| "tsqllexerLexerInitialize False rt segment (Some d) = Inl AssertionFailed"
| "tsqllexerLexerInitialize tlc rt segment None = Inr (Some (build_data rt segment))"

definition initialize :: "bool \<Rightarrow> ('atn, 'state, 'flag) runtime \<Rightarrow> int list \<Rightarrow> thread
    \<Rightarrow> ('atn, 'state, 'flag) statics \<Rightarrow> failure + ('atn, 'state, 'flag) statics" where
  "initialize tlc rt segment t s =
     (if tlc then (case tsqllexerLexerInitialize True rt segment (local_data s t) of
          Inl e \<Rightarrow> Inl e
        | Inr p \<Rightarrow> Inr (s\<lparr>local_data := (local_data s)(t := p)\<rparr>))
      else (case call_once rt (once_flag s) (tsqllexerLexerInitialize False rt segment) (shared_data s) of
          Inl e \<Rightarrow> Inl e
        | Inr (flag, p) \<Rightarrow> Inr (s\<lparr>once_flag := flag, shared_data := p\<rparr>)))"

section \<open>The members of the lexer\<close>

datatype call = Initialize | NewLexer | GetGrammarFileName | GetRuleNames | GetChannelNames | GetModeNames
  | GetVocabulary | GetSerializedATN | GetATN

datatype ('atn, 'state) answer = NoAnswer | Name string | Names "string list"
  | Vocabulary "string list \<times> string list" | Serialized "int list" | Automaton 'atn
  | Interpreter 'atn "('state \<times> nat) list"

definition cell :: "bool \<Rightarrow> thread \<Rightarrow> ('atn, 'state, 'flag) statics \<Rightarrow> ('atn, 'state) pointer" where
  "cell tlc t s = (if tlc then local_data s t else shared_data s)"

fun read_static :: "(('atn, 'state) static_data \<Rightarrow> ('atn, 'state) answer) \<Rightarrow> ('atn, 'state) pointer
    \<Rightarrow> failure + ('atn, 'state) answer" where
  "read_static f None = Inl NullDereference"
| "read_static f (Some d) = Inr (f d)"

definition with_state :: "'s \<Rightarrow> failure + 'a \<Rightarrow> failure + 'a \<times> 's" where
  "with_state s r = (case r of Inl e \<Rightarrow> Inl e | Inr a \<Rightarrow> Inr (a, s))"

text \<open>
  One call of a member by a thread.  The constructor initialises the data and then makes an
  interpreter from the automaton and the decisions, which is its answer here.
\<close>

fun do_call :: "bool \<Rightarrow> ('atn, 'state, 'flag) runtime \<Rightarrow> int list \<Rightarrow> thread \<Rightarrow> call
    \<Rightarrow> ('atn, 'state, 'flag) statics \<Rightarrow> failure + ('atn, 'state) answer \<times> ('atn, 'state, 'flag) statics" where
  "do_call tlc rt segment t Initialize s = (case initialize tlc rt segment t s of
     Inl e \<Rightarrow> Inl e | Inr s' \<Rightarrow> Inr (NoAnswer, s'))"
| "do_call tlc rt segment t NewLexer s = (case initialize tlc rt segment t s of
     Inl e \<Rightarrow> Inl e | Inr s' \<Rightarrow> with_state s'
       (read_static (\<lambda>d. Interpreter (atn d) (decisionToDFA d)) (cell tlc t s')))"
| "do_call tlc rt segment t GetGrammarFileName s = Inr (Name ''TSqlLexer.g4'', s)"
| "do_call tlc rt segment t GetRuleNames s =
     with_state s (read_static (\<lambda>d. Names (ruleNames d)) (cell tlc t s))"
| "do_call tlc rt segment t GetChannelNames s =
     with_state s (read_static (\<lambda>d. Names (channelNames d)) (cell tlc t s))"
| "do_call tlc rt segment t GetModeNames s =
     with_state s (read_static (\<lambda>d. Names (modeNames d)) (cell tlc t s))"
| "do_call tlc rt segment t GetVocabulary s =
     with_state s (read_static (\<lambda>d. Vocabulary (vocabulary d)) (cell tlc t s))"
| "do_call tlc rt segment t GetSerializedATN s =
     with_state s (read_static (\<lambda>d. Serialized (serializedATN d)) (cell tlc t s))"
| "do_call tlc rt segment t GetATN s =
     with_state s (read_static (\<lambda>d. Automaton (atn d)) (cell tlc t s))"

text \<open>The calls of all threads in the order in which they take effect.\<close>

fun do_calls :: "bool \<Rightarrow> ('atn, 'state, 'flag) runtime \<Rightarrow> int list \<Rightarrow> (thread \<times> call) list
    \<Rightarrow> ('atn, 'state, 'flag) statics \<Rightarrow> failure + ('atn, 'state) answer list \<times> ('atn, 'state, 'flag) statics" where
  "do_calls tlc rt segment [] s = Inr ([], s)"
| "do_calls tlc rt segment ((t, c) # cs) s = (case do_call tlc rt segment t c s of
     Inl e \<Rightarrow> Inl e
   | Inr (a, s') \<Rightarrow> (case do_calls tlc rt segment cs s' of
       Inl e \<Rightarrow> Inl e | Inr (as, s'') \<Rightarrow> Inr (a # as, s'')))"

section \<open>What the calls mean\<close>

text \<open>
  The specification: every member answers from the tables, as if they were constants.
\<close>

fun meaning :: "('atn, 'state, 'flag) runtime \<Rightarrow> int list \<Rightarrow> call \<Rightarrow> ('atn, 'state) answer" where
  "meaning rt segment Initialize = NoAnswer"
| "meaning rt segment NewLexer = (let a = deserialize rt segment in
     Interpreter a (map (\<lambda>i. (decision_state rt a i, i)) [0..<decisions rt a]))"
| "meaning rt segment GetGrammarFileName = Name ''TSqlLexer.g4''"
| "meaning rt segment GetRuleNames = Names rule_names"
| "meaning rt segment GetChannelNames = Names channel_names"
| "meaning rt segment GetModeNames = Names mode_names"
| "meaning rt segment GetVocabulary = Vocabulary (literal_names, symbolic_names)"
| "meaning rt segment GetSerializedATN = Serialized segment"
| "meaning rt segment GetATN = Automaton (deserialize rt segment)"

definition initializes :: "call \<Rightarrow> bool" where
  "initializes c \<longleftrightarrow> c = Initialize \<or> c = NewLexer"

definition reads_static :: "call \<Rightarrow> bool" where
  "reads_static c \<longleftrightarrow> c \<noteq> Initialize \<and> c \<noteq> NewLexer \<and> c \<noteq> GetGrammarFileName"

text \<open>
  The protocol: who reads the static data has been preceded by who initialises it, in the
  process or, with thread-local data, in the same thread.
\<close>

fun in_order :: "bool \<Rightarrow> thread set \<Rightarrow> (thread \<times> call) list \<Rightarrow> bool" where
  "in_order tlc ready [] = True"
| "in_order tlc ready ((t, c) # cs) =
     ((reads_static c \<longrightarrow> (if tlc then t \<in> ready else ready \<noteq> {}))
       \<and> in_order tlc (if initializes c then insert t ready else ready) cs)"

lemma once_with_new: "once_with returned rt \<Longrightarrow> \<not> returned (new_flag rt)"
  by (simp add: once_with_def)

lemma once_with_again:
  "once_with returned rt \<Longrightarrow> returned flag \<Longrightarrow> call_once rt flag f p = Inr (flag, p)"
  unfolding once_with_def by meson

lemma once_with_first:
  assumes "once_with returned rt" and "\<not> returned flag" and "f p = Inr q"
  obtains flag' where "returned flag'" "call_once rt flag f p = Inr (flag', q)"
proof -
  from assms(1,2) have "case f p of
      Inl e \<Rightarrow> call_once rt flag f p = Inl e
    | Inr q \<Rightarrow> \<exists>flag'. returned flag' \<and> call_once rt flag f p = Inr (flag', q)"
    unfolding once_with_def by meson
  with assms(3) that show thesis by auto
qed

text \<open>
  The invariant: the data is either missing or the table, and the flag says which; the threads
  that are ready have it.
\<close>

definition consistent :: "('flag \<Rightarrow> bool) \<Rightarrow> bool \<Rightarrow> ('atn, 'state, 'flag) runtime \<Rightarrow> int list
    \<Rightarrow> thread set \<Rightarrow> ('atn, 'state, 'flag) statics \<Rightarrow> bool" where
  "consistent returned tlc rt segment ready s \<longleftrightarrow>
     (if tlc then \<forall>t. local_data s t = (if t \<in> ready then Some (build_data rt segment) else None)
      else returned (once_flag s) = (ready \<noteq> {})
        \<and> shared_data s = (if ready = {} then None else Some (build_data rt segment)))"

lemma consistent_start:
  "once_with returned rt \<Longrightarrow> consistent returned tlc rt segment {} (program_start rt)"
  by (simp add: consistent_def program_start_def once_with_new)

lemma initialize_consistent:
  assumes "once_with returned rt" and "consistent returned tlc rt segment ready s"
  obtains s' where "initialize tlc rt segment t s = Inr s'"
    "consistent returned tlc rt segment (insert t ready) s'"
    "cell tlc t s' = Some (build_data rt segment)"
proof (cases tlc)
  case True
  let ?s = "s\<lparr>local_data := (local_data s)(t := Some (build_data rt segment))\<rparr>"
  from True assms(2) have "initialize tlc rt segment t s = Inr ?s"
    by (auto simp: initialize_def consistent_def)
  with True assms(2) that [of ?s] show ?thesis by (auto simp: consistent_def cell_def)
next
  case False
  let ?f = "tsqllexerLexerInitialize False rt segment"
  show ?thesis
  proof (cases "ready = {}")
    case True
    with False assms(2) have s: "\<not> returned (once_flag s)" "shared_data s = None"
      by (simp_all add: consistent_def)
    then have "?f (shared_data s) = Inr (Some (build_data rt segment))" by simp
    with assms(1) s(1) obtain flag where "returned flag"
      "call_once rt (once_flag s) ?f (shared_data s) = Inr (flag, Some (build_data rt segment))"
      by (rule once_with_first)
    with False True that [of "s\<lparr>once_flag := flag, shared_data := Some (build_data rt segment)\<rparr>"]
    show ?thesis by (simp add: initialize_def consistent_def cell_def)
  next
    case ready: False
    with False assms(2) have s: "returned (once_flag s)" "shared_data s = Some (build_data rt segment)"
      by (simp_all add: consistent_def)
    with False assms ready that [of s] show ?thesis
      by (simp add: initialize_def once_with_again consistent_def cell_def)
  qed
qed

lemma cell_consistent:
  assumes "consistent returned tlc rt segment ready s" and "if tlc then t \<in> ready else ready \<noteq> {}"
  shows "cell tlc t s = Some (build_data rt segment)"
  using assms by (auto simp: consistent_def cell_def split: if_splits)

lemma emplace_decisions_eq:
  "emplace_decisions rt a i n = map (\<lambda>j. (decision_state rt a j, j)) [i..<i + n]"
  by (induction rt a i n rule: emplace_decisions.induct) (simp_all add: upt_rec del: upt_Suc)

lemma do_call_consistent:
  assumes "once_with returned rt" and "consistent returned tlc rt segment ready s"
    and "reads_static c \<longrightarrow> (if tlc then t \<in> ready else ready \<noteq> {})"
  shows "\<exists>s'. do_call tlc rt segment t c s = Inr (meaning rt segment c, s')
    \<and> consistent returned tlc rt segment (if initializes c then insert t ready else ready) s'"
proof (cases "reads_static c")
  case True
  with assms have "cell tlc t s = Some (build_data rt segment)" by (blast intro: cell_consistent)
  with True assms(2) show ?thesis
    by (cases c) (simp_all add: reads_static_def initializes_def with_state_def build_data_def Let_def)
next
  case False
  obtain s' where "initialize tlc rt segment t s = Inr s'"
    "consistent returned tlc rt segment (insert t ready) s'"
    "cell tlc t s' = Some (build_data rt segment)"
    using initialize_consistent [OF assms(1,2)] .
  with False assms(2) show ?thesis
    by (cases c)
      (simp_all add: reads_static_def initializes_def with_state_def build_data_def Let_def emplace_decisions_eq)
qed

lemma do_calls_consistent:
  assumes "once_with returned rt" and "consistent returned tlc rt segment ready s" and "in_order tlc ready cs"
  shows "\<exists>s'. do_calls tlc rt segment cs s = Inr (map (meaning rt segment \<circ> snd) cs, s')"
  using assms(2,3)
proof (induction cs arbitrary: ready s)
  case (Cons tc cs)
  obtain t c where tc: "tc = (t, c)" by (cases tc)
  with Cons.prems have order: "reads_static c \<longrightarrow> (if tlc then t \<in> ready else ready \<noteq> {})"
    and rest: "in_order tlc (if initializes c then insert t ready else ready) cs" by auto
  from do_call_consistent [OF assms(1) Cons.prems(1) order] obtain s' where
    s': "do_call tlc rt segment t c s = Inr (meaning rt segment c, s')"
    "consistent returned tlc rt segment (if initializes c then insert t ready else ready) s'" by blast
  from Cons.IH [OF s'(2) rest] tc s'(1) show ?case by auto
qed simp

text \<open>
  C19: The lazily built data is as good as a constant: when every read is preceded by an
  initialisation or the construction of a lexer (in the same thread, if the data is
  thread-local), then in every interleaving of the threads no call fails, each member answers from
  the tables, and each lexer gets an interpreter with the automaton and one DFA per decision, which
  knows its state and its number.  In particular the assertion that guards against a second
  initialisation holds.  The \<open>call_once\<close> of the runtime is a parameter, which keeps the contract
  of \<open>std::call_once\<close>.
\<close>

theorem static_data_like_constant:
  assumes "runs_once rt" and "in_order tlc {} cs"
  shows "\<exists>s. do_calls tlc rt segment cs (program_start rt) = Inr (map (meaning rt segment \<circ> snd) cs, s)"
proof -
  obtain returned where "once_with returned rt" using assms(1) unfolding runs_once_def by blast
  then show ?thesis using do_calls_consistent consistent_start assms(2) by blast
qed

text \<open>
  A runtime for the witnesses: its flags are truth values, its automata numbers of decisions.
\<close>

definition flag_runtime :: "(nat, nat, bool) runtime" where
  "flag_runtime = \<lparr>deserialize = length, decisions = (\<lambda>n. n), decision_state = (\<lambda>n i. n + i), new_flag = False,
     call_once = (\<lambda>flag f p. if flag then Inr (True, p)
       else (case f p of Inl e \<Rightarrow> Inl e | Inr q \<Rightarrow> Inr (True, q)))\<rparr>"

lemma flag_runtime_once: "runs_once flag_runtime"
  unfolding runs_once_def by (rule exI [of _ id]) (auto simp: once_with_def flag_runtime_def split: sum.split)

text \<open>Thread 1 reads what the construction in thread 0 has initialised.\<close>

theorem static_data_like_constant_witness:
  "\<exists>s. do_calls False flag_runtime [4, 0]
      [(0, NewLexer), (1, GetModeNames), (1, NewLexer), (0, GetATN)] (program_start flag_runtime)
    = Inr ([Interpreter 2 [(2, 0), (3, 1)], Names [''DEFAULT_MODE''], Interpreter 2 [(2, 0), (3, 1)],
        Automaton 2], s)"
proof -
  let ?cs = "[(0, NewLexer), (1, GetModeNames), (1, NewLexer), (0, GetATN)]"
  have "map (meaning flag_runtime [4, 0] \<circ> snd) ?cs = [Interpreter 2 [(2, 0), (3, 1)],
      Names [''DEFAULT_MODE''], Interpreter 2 [(2, 0), (3, 1)], Automaton 2]"
    by (simp add: flag_runtime_def mode_names_def numeral_2_eq_2)
  moreover have "in_order False {} ?cs" by (simp add: reads_static_def initializes_def)
  ultimately show ?thesis using static_data_like_constant [OF flag_runtime_once, of False ?cs "[4, 0]"]
    by metis
qed

lemma initialize_other: "initialize True rt segment t s = Inr s' \<Longrightarrow> u \<noteq> t \<Longrightarrow> local_data s' u = local_data s u"
  by (auto simp: initialize_def split: sum.splits)

lemma do_call_other:
  assumes "do_call True rt segment t c s = Inr (a, s')" and "u \<noteq> t \<or> \<not> initializes c"
  shows "local_data s' u = local_data s u"
  using assms initialize_other [of rt segment t s s' u]
  by (cases c) (auto simp: with_state_def initializes_def split: sum.splits)

lemma do_calls_other:
  "do_calls True rt segment cs s = Inr (as, s') \<Longrightarrow> \<forall>c. initializes c \<longrightarrow> (u, c) \<notin> set cs \<Longrightarrow>
     local_data s' u = local_data s u"
proof (induction cs arbitrary: s as)
  case (Cons tc cs)
  then obtain t c a s1 bs where "tc = (t, c)" "do_call True rt segment t c s = Inr (a, s1)"
    "do_calls True rt segment cs s1 = Inr (bs, s')"
    by (cases tc) (auto split: sum.splits)
  with Cons do_call_other [of rt segment t c s a s1 u] show ?case by force
qed simp

text \<open>
  C38: With thread-local data a lexer must not change threads: a thread that has not
  initialised its own data dereferences a null pointer when it asks a lexer of another thread
  for its names, its vocabulary or its automaton, whatever the other threads have done.
\<close>

theorem thread_local_data_missing:
  assumes "do_calls True rt segment cs (program_start rt) = Inr (as, s)"
    and "\<forall>c. initializes c \<longrightarrow> (u, c) \<notin> set cs" and "reads_static c"
  shows "do_call True rt segment u c s = Inl NullDereference"
proof -
  have "cell True u s = None"
    using do_calls_other [OF assms(1,2)] by (simp add: cell_def program_start_def)
  with assms(3) show ?thesis by (cases c) (simp_all add: reads_static_def with_state_def)
qed

theorem thread_local_data_missing_witness:
  "\<exists>as s. do_calls True flag_runtime [4, 0] [(0, NewLexer)] (program_start flag_runtime) = Inr (as, s)
     \<and> do_call True flag_runtime [4, 0] 1 GetRuleNames s = Inl NullDereference"
proof -
  obtain returned where "once_with returned flag_runtime"
    using flag_runtime_once unfolding runs_once_def by blast
  then obtain s as where s: "do_calls True flag_runtime [4, 0] [(0, NewLexer)] (program_start flag_runtime)
      = Inr (as, s)"
    using do_calls_consistent [OF _ consistent_start, of returned flag_runtime True "[(0, NewLexer)]" "[4, 0]"]
    by (auto simp del: do_calls.simps simp: reads_static_def)
  moreover have "do_call True flag_runtime [4, 0] 1 GetRuleNames s = Inl NullDereference"
    by (rule thread_local_data_missing [OF s]) (auto simp: reads_static_def)
  ultimately show ?thesis by blast
qed

end
