(* ===== verification/Spec2Isabelle.thy ===== *)
theory Spec2Isabelle
  imports TSql_API TSql_Syntax TSql_Faults TSql_Dispatch TSql_Stale TSql_Reach TSql_Vocabulary
    TSql_Functions TSql_Files TSql_Errors TSql_Case TSql_Driver Static_Init
begin

text \<open>
  A verification library for the C++ port of the T-SQL parser in this repository
  (\<open>port/cpp/\<close>) and the grammars it is generated from (\<open>TSqlLexer.g4\<close>, \<open>TSqlParser.g4\<close>).

  \<^bold>\<open>The program.\<close>  ANTLR turns \<open>TSqlLexer.g4\<close> and \<open>TSqlParser.g4\<close> into a lexer
  (\<open>TSqlLexer.h\<close>, \<open>TSqlLexer.cpp\<close>), a parser (\<open>TSqlParser.h\<close>, \<open>TSqlParser.cpp\<close>) and the listener
  and visitor classes.  The parser has one function per rule; each returns a node of the parse
  tree, an object of the context class of the rule or of the label of the alternative.  A
  client walks the tree with a listener or a visitor and gets at the children of a node through
  the getters and the label fields of its class.  \<open>parser_test.cpp\<close> reads a file and parses it.

  \<^bold>\<open>Grammars and trees\<close> (no theory of this group mentions T-SQL).
  \<^item> \<open>Prelude\<close>: the types of token types, rule indices and labels; list lemmas; the collections
    of definitions that evaluation unfolds.
  \<^item> \<open>Grammar\<close>: right-hand sides as EBNF expressions, the children they generate with the labels
    of these (\<open>gen\<close>, \<open>lang\<close>), derivatives as a decision procedure, parse trees (\<open>valid\<close>).
  \<^item> \<open>Matching\<close>: a matcher from left to right, sound for \<open>lang\<close>; it finds the trees of witnesses.
    Its loops are entered at most three times, which is enough for these trees, and a failure
    would only make a proof fail.
  \<^item> \<open>Profile\<close>: how often a symbol can occur among the children: never, once, more than once.
  \<^item> \<open>Contexts\<close>, \<open>Accessors\<close>, \<open>Header_API\<close>: context classes as records of their members; what
    getters and label fields promise; when a class fits an expression.
  \<^item> \<open>Derivation\<close>: the interfaces \<open>yield_invariant\<close> (an invariant between a symbol and the tokens
    below it), \<open>closed_grammar\<close>, \<open>productive_grammar\<close> (a number per rule that proves that every
    rule matches something).
  \<^item> \<open>Typed_Trees\<close>: the interface \<open>context_api\<close> between a grammar and the classes generated for
    it, with everything a client of the classes may rely on.
  \<^item> \<open>Yields\<close>: the interfaces \<open>nullable_bound\<close>, \<open>progressing\<close>, \<open>left_bounded\<close>, \<open>ended_grammar\<close>,
    \<open>bracketed_grammar\<close>; each reduces a statement about all trees to a check of the right-hand
    sides.  \<open>Reach\<close>: the interface \<open>rooted_grammar\<close>.
  \<^item> \<open>Choices\<close>: the trees a parser builds that takes the first alternative of several that read the
    same tokens (\<open>ordered\<close>), and when an alternative is never taken.  \<open>valid\<close> alone does not
    choose: it holds of every derivation.
  \<^item> \<open>Listeners\<close>: listener and visitor methods, and when they fit rules and classes.
  \<^item> \<open>Conforming\<close>: the comparison of a rule with its classes, and the evaluation setup.  The
    tables are long, so evaluation is lazy: the congruence rules \<open>opaque\<close> and \<open>case_opaque\<close> keep
    the simplifier out of the arguments of constructors until a function inspects them.

  \<^bold>\<open>Lexers\<close> (no T-SQL either).  A text is a list of code points (natural numbers).
  \<^item> \<open>Lexing\<close>: right-hand sides of lexer rules (\<open>lexpr\<close>), what they match (\<open>matches\<close>), a matcher that
    lists what is left after a match in the order of preference of ANTLR (\<open>leftovers\<close>: alternatives
    from left to right, loops as often as possible, non-greedy loops as rarely as possible), and
    the lexer (\<open>lexemes\<close>): the rule with the longest match, the first of several; a rule with a
    non-greedy loop takes its first match instead of its longest.  The fuel of the matcher bounds
    the depth of nested calls; one more than the length of the text is enough (\<open>leftovers_complete\<close>
    for rules that do not call themselves, \<open>body_rests_close\<close> for comments), since every call is
    made on a shorter text.  Characters that no rule matches are reported; how many more than one
    the runtime then skips is the parameter \<open>extra\<close>.
  \<^item> \<open>Scanning\<close>: the choice of the rule, induction over lexemes.  \<open>Literals\<close>: rules of one literal
    and the interface \<open>scanner\<close> of lexers whose literals are distinct.  \<open>Quoting\<close>: delimiters that
    are doubled, a reference scanner for nested comments, rules that cannot look beyond the end of
    a text.  \<open>Word_Rules\<close>: rules that match only characters of a set.
    \<open>Casing\<close>: rules that do not depend on the case of letters.
  \<^item> \<open>Char_Codes\<close>, \<open>Lexer_Eval\<close>: the code points of characters, and the evaluation setup.

  \<^bold>\<open>The tables of the program.\<close>
  \<^item> \<open>Tokens\<close>, \<open>Rule_Ids\<close>, \<open>Label_Ids\<close>: names for the numbers of \<open>TSqlParser.h\<close>.
  \<^item> \<open>Rules_1\<close> to \<open>Rules_6\<close>: every rule of \<open>TSqlParser.g4\<close> (\<open>g_x\<close> is the rule \<open>x\<close>, \<open>alt_X\<close> the
    alternative with the label \<open>X\<close>).
  \<^item> \<open>Contexts_1\<close> to \<open>Contexts_6\<close>: every context class of \<open>TSqlParser.h\<close>, under its own name, its
    members in the order of their declarations.
  \<^item> \<open>Listener_Table\<close>, \<open>Base_Listener_Table\<close>, \<open>Visitor_Table\<close>, \<open>Base_Visitor_Table\<close>: the methods
    of \<open>TSqlParserListener.h\<close> and the three other headers.
  \<^item> \<open>Lexer_Rules\<close>: every rule of \<open>TSqlLexer.g4\<close> in its order (\<open>f_X\<close> a fragment, \<open>r_X\<close> a rule that is
    not a single literal, \<open>tsql_lexer\<close> all rules), with the option \<open>caseInsensitive\<close> (\<open>Exact\<close> where it
    is switched off) and the hidden channel.
  \<^item> \<open>Lexer_Tables\<close>: the name tables of \<open>TSqlLexer.cpp\<close>, the token types of \<open>TSqlLexer.h\<close>.
    \<open>Parser_Tables\<close>: the enumerations and forward declarations of \<open>TSqlParser.h\<close>.
    \<open>Function_Table\<close>: the functions of the parser that \<open>TSqlParser.h\<close> declares.

  \<^bold>\<open>What is proved.\<close>
  \<^item> \<open>Conformance_1\<close> to \<open>Conformance_6\<close>, \<open>TSql_Grammar\<close>, \<open>TSql_Productive\<close>, \<open>TSql_Header\<close>: every class
    fits its rule, except for the \<open>stale_rules\<close> (below).  \<open>TSql_Drift\<close>: what still holds for these.
    \<open>TSql_API\<close>: what follows for the getters: each child can be reached, a getter of one child hides
    no second one, and the getters are those the derivations of the grammar call for.
  \<^item> \<open>TSql_Analysis\<close>, \<open>TSql_Syntax\<close>: recursive descent without endless calls or loops, except for
    the left-recursive rules, which are those with a predicate function in \<open>TSqlParser.h\<close>; the
    rules that match nothing; the end of the input; balanced parentheses.  \<open>TSql_Reach\<close>: the
    rules that take part in the trees of files.
  \<^item> \<open>TSql_Listeners\<close>, \<open>TSql_Dispatch\<close>: each node is announced by one method of each kind, the
    base listener overrides all methods, the base visitor descends everywhere; one class per
    node; label fields.
  \<^item> \<open>TSql_Vocabulary\<close>, \<open>TSql_Functions\<close>: lexer, parser, name tables, classes and functions agree on
    their numbers and names.
  \<^item> \<open>TSql_Lexer\<close>, \<open>TSql_Tokens\<close>: the literal names of the C++ lexer are those of the grammar and are
    lexed back; no rule matches the empty text and no character is lost; which token types the lexer
    produces.  \<open>TSql_Texts\<close>: string
    constants, quoted names, comments.  \<open>TSql_Words\<close>: keywords and identifiers.  \<open>TSql_Layout\<close>: blanks
    between tokens play no part.  \<open>TSql_Case\<close>: neither does the case of the letters from \<open>A\<close> to
    \<open>Z\<close>, except that of an \<open>N\<close> before a string constant.
  \<^item> \<open>TSql_Errors\<close>: at which characters the lexer reports an error.
  \<^item> \<open>TSql_Keywords\<close>, \<open>TSql_Files\<close>: lexer and parser together: the token types of the trees of
    files, and which trees have a text.
  \<^item> \<open>TSql_Faults\<close>: statements with unbalanced parentheses that the grammar accepts.
    \<open>TSql_Choices\<close>: rules whose texts an earlier alternative reads, too.
    \<open>TSql_Stale\<close>: the header was generated from an older grammar than the one in the repository;
    what the classes of the changed rules miss, and the classes no tree of the parser has a node of.
  \<^item> \<open>Static_Init\<close>: the lazily initialised static data of the lexer in every interleaving of
    calls, as a refinement of constant tables; \<open>call_once\<close> of the runtime is a parameter with the
    contract of \<open>std::call_once\<close>.  \<open>Test_Driver\<close>: what the test driver reads and
    when it ends; its loop may run for ever, so it is a partial function and \<open>None\<close> means that it
    does not return.  \<open>TSql_Driver\<close>: driver and lexer together, the tokens of the file it reads.

  \<^bold>\<open>Bounds.\<close>  Token types are integers (\<open>EOF\<close> is -1), rule indices and labels natural numbers; the
  code does no arithmetic on them.  The certificates \<open>height\<close>, \<open>left_rank\<close>, \<open>caller\<close>, \<open>callees\<close>,
  \<open>distance\<close>, \<open>user\<close> and \<open>words_of\<close> are data found by search; the interpretations check them.

  \<^bold>\<open>Not modelled.\<close>  The bodies of the recursive-descent functions, the predicates of the
  left-recursive rules and the parser automaton are in \<open>TSqlParser.cpp\<close>, which is too large for the
  repository snapshot; the theorems about trees hold for every derivation of the grammar.  Which of
  several derivations of an ambiguous text the parser builds is left open, except where \<open>ordered\<close>
  says so; in particular that a derivation with some node exists does not mean that the parser builds
  one.  The runtime of ANTLR (streams, prediction, error recovery, tree walkers, \<open>visitChildren\<close>,
  \<open>call_once\<close>, the deserializer of the automaton) is not part of the repository either and appears as
  parameters.  The serialized automaton of the lexer (lines 769 to 6114 of \<open>TSqlLexer.cpp\<close>) is an
  argument of the static data, because its meaning is defined by that deserializer; the lexer is
  modelled by the grammar the automaton is generated from.  The Go port, the build scripts, the
  interpreter data and the examples are left aside.
\<close>

end
